(* ===== verification/Prelude.thy ===== *)
theory Prelude
  imports Main "HOL-Library.AList" "HOL-Library.Multiset" "HOL-Library.Char_ord" "HOL-Library.List_Lexorder"
    "HOL-Library.Word"
begin

text \<open>
  What every component of the development shares: the state-and-exception
  monad in which the transitions of the protocol kernel are written, the
  association lists that stand for JavaScript \<open>Map\<close>s and objects, and
  generic lemmas on lists, options and strings.  The collections declared here
  carry the component proofs.
\<close>

named_theorems tr_simps "rewriting of transitions (state and exception monad)"
named_theorems tr_elims "elimination rules for successful or failing transitions"
named_theorems alist_simps "association lists used as JavaScript maps"

section \<open>Transitions: state, exceptions\<close>

text \<open>
  An asynchronous TypeScript function that reads the clock, creates identifiers
  and writes the store is a function on the world.  A thrown exception leaves
  the world as it was when it was thrown: nothing is rolled back.
\<close>

type_synonym ('w, 'e, 'a) tr = "'w \<Rightarrow> ('e + 'a) \<times> 'w"

definition treturn :: "'a \<Rightarrow> ('w, 'e, 'a) tr" where
  "treturn x = (\<lambda>w. (Inr x, w))"

definition tfail :: "'e \<Rightarrow> ('w, 'e, 'a) tr" where
  "tfail e = (\<lambda>w. (Inl e, w))"

definition tbind :: "('w, 'e, 'a) tr \<Rightarrow> ('a \<Rightarrow> ('w, 'e, 'b) tr) \<Rightarrow> ('w, 'e, 'b) tr" where
  "tbind m f = (\<lambda>w. case m w of (Inl e, w') \<Rightarrow> (Inl e, w') | (Inr x, w') \<Rightarrow> f x w')"

definition tread :: "('w \<Rightarrow> 'a) \<Rightarrow> ('w, 'e, 'a) tr" where
  "tread f = (\<lambda>w. (Inr (f w), w))"

definition tupdate :: "('w \<Rightarrow> 'w) \<Rightarrow> ('w, 'e, unit) tr" where
  "tupdate f = (\<lambda>w. (Inr (), f w))"

text \<open>A value that may be an exception: the sum type without state.\<close>

definition tlift :: "'e + 'a \<Rightarrow> ('w, 'e, 'a) tr" where
  "tlift r = (\<lambda>w. (r, w))"

primrec tmap :: "('a \<Rightarrow> ('w, 'e, 'b) tr) \<Rightarrow> 'a list \<Rightarrow> ('w, 'e, 'b list) tr" where
  "tmap f [] = treturn []"
| "tmap f (x # xs) = tbind (f x) (\<lambda>y. tbind (tmap f xs) (\<lambda>ys. treturn (y # ys)))"

lemma treturn_apply [simp, tr_simps]: "treturn x w = (Inr x, w)"
  by (simp add: treturn_def)

lemma tfail_apply [simp, tr_simps]: "tfail e w = (Inl e, w)"
  by (simp add: tfail_def)

lemma tread_apply [simp, tr_simps]: "tread f w = (Inr (f w), w)"
  by (simp add: tread_def)

lemma tupdate_apply [simp, tr_simps]: "tupdate f w = (Inr (), f w)"
  by (simp add: tupdate_def)

lemma tlift_apply [simp, tr_simps]: "tlift r w = (r, w)"
  by (simp add: tlift_def)

lemma tbind_Inr_apply [simp, tr_simps]: "m w = (Inr x, w') \<Longrightarrow> tbind m f w = f x w'"
  by (simp add: tbind_def)

lemma tbind_Inl_apply [simp, tr_simps]: "m w = (Inl e, w') \<Longrightarrow> tbind m f w = (Inl e, w')"
  by (simp add: tbind_def)

lemma tbind_Inr_iff:
  "tbind m f w = (Inr y, w'') \<longleftrightarrow> (\<exists>x w'. m w = (Inr x, w') \<and> f x w' = (Inr y, w''))"
  by (auto simp: tbind_def split: prod.splits sum.splits)

lemma tbind_Inl_iff:
  "tbind m f w = (Inl e, w'') \<longleftrightarrow>
     m w = (Inl e, w'') \<or> (\<exists>x w'. m w = (Inr x, w') \<and> f x w' = (Inl e, w''))"
  by (auto simp: tbind_def split: prod.splits sum.splits)

lemma tbind_InrE [tr_elims]:
  assumes "tbind m f w = (Inr y, w'')"
  obtains x w' where "m w = (Inr x, w')" "f x w' = (Inr y, w'')"
  using assms by (auto simp: tbind_Inr_iff)

lemma tbind_assoc: "tbind (tbind m f) g = tbind m (\<lambda>x. tbind (f x) g)"
  by (rule ext) (auto simp: tbind_def split: prod.splits sum.splits)

lemma tbind_return [simp]: "tbind (treturn x) f = f x"
  by (rule ext) (simp add: tbind_def)

text \<open>What holds of the world after every transition built from such transitions.\<close>

definition tkeeps :: "('w \<Rightarrow> 'w \<Rightarrow> bool) \<Rightarrow> ('w, 'e, 'a) tr \<Rightarrow> bool" where
  "tkeeps R m \<longleftrightarrow> (\<forall>w. R w (snd (m w)))"

text \<open>What holds of every value that a transition returns.\<close>

definition returns :: "('w, 'e, 'a) tr \<Rightarrow> ('a \<Rightarrow> bool) \<Rightarrow> bool" where
  "returns m P \<longleftrightarrow> (\<forall>w x w'. m w = (Inr x, w') \<longrightarrow> P x)"

lemma returnsI: "(\<And>w x w'. m w = (Inr x, w') \<Longrightarrow> P x) \<Longrightarrow> returns m P"
  by (simp add: returns_def)

lemma returns_option_case:
  "returns (if c then treturn None else tbind m (\<lambda>x. treturn (Some x))) (\<lambda>y. \<forall>x. y = Some x \<longrightarrow> P x)"
  if "returns m P"
  using that by (auto simp: returns_def tbind_Inr_iff)

text \<open>
  A relation on worlds that every step may rely on.  A client names its relation
  once and has it of every transition that is put together from such steps.
\<close>

locale kept =
  fixes R :: "'w \<Rightarrow> 'w \<Rightarrow> bool"
  assumes kept_refl: "R w w" and kept_trans: "R u v \<Longrightarrow> R v w \<Longrightarrow> R u w"
begin

lemma keepsI: "(\<And>w r w'. m w = (r, w') \<Longrightarrow> R w w') \<Longrightarrow> tkeeps R m"
  by (metis prod.collapse tkeeps_def)

lemma keepsD: "tkeeps R m \<Longrightarrow> m w = (r, w') \<Longrightarrow> R w w'"
  by (metis snd_conv tkeeps_def)

lemma keeps_bind:
  assumes "tkeeps R m" "\<And>x. tkeeps R (f x)"
  shows "tkeeps R (tbind m f)"
proof (rule keepsI)
  fix w r w'
  assume run: "tbind m f w = (r, w')"
  obtain q v where m: "m w = (q, v)" by (cases "m w") auto
  have "R w v" using assms(1) m by (rule keepsD)
  then show "R w w'"
    using run m keepsD[OF assms(2)] kept_trans by (cases q) (auto simp: tbind_def)
qed

lemma keeps_bind_post:
  assumes "returns m P" "tkeeps R m" "\<And>x. P x \<Longrightarrow> tkeeps R (f x)"
  shows "tkeeps R (tbind m f)"
proof (rule keepsI)
  fix w r w'
  assume run: "tbind m f w = (r, w')"
  obtain q v where m: "m w = (q, v)" by (cases "m w") auto
  have "R w v" using assms(2) m by (rule keepsD)
  show "R w w'"
  proof (cases q)
    case (Inl e)
    then show ?thesis using run m \<open>R w v\<close> by simp
  next
    case (Inr x)
    have "P x" using assms(1) m Inr by (auto simp: returns_def)
    moreover have "f x v = (r, w')" using run m Inr by simp
    ultimately have "R v w'" using keepsD[OF assms(3)] by simp
    then show ?thesis using \<open>R w v\<close> kept_trans by blast
  qed
qed

lemma keeps_basic: "tkeeps R (treturn x)" "tkeeps R (tfail e)" "tkeeps R (tread f)" "tkeeps R (tlift y)"
  using kept_refl by (simp_all add: tkeeps_def)

lemma keeps_cases:
  "(\<And>x. tkeeps R (f x)) \<Longrightarrow> tkeeps R n \<Longrightarrow> tkeeps R (case y of None \<Rightarrow> n | Some x \<Rightarrow> f x)"
  "(\<And>x. tkeeps R (g x)) \<Longrightarrow> (\<And>z. tkeeps R (h z)) \<Longrightarrow> tkeeps R (case t of Inl x \<Rightarrow> g x | Inr z \<Rightarrow> h z)"
  "(\<And>x z. tkeeps R (p x z)) \<Longrightarrow> tkeeps R (case q of (x, z) \<Rightarrow> p x z)"
  "tkeeps R a \<Longrightarrow> tkeeps R b \<Longrightarrow> tkeeps R (if c then a else b)"
  by (auto split: option.split sum.split prod.split)

lemmas keeps_intros = keeps_bind keeps_basic keeps_cases

end

section \<open>Association lists as JavaScript maps\<close>

text \<open>
  \<open>Map.set\<close> on a present key overwrites the value and keeps the
  position, on an absent key it appends: this is \<open>AList.update\<close>.  Iteration is
  in insertion order.
\<close>

lemma map_of_update [alist_simps]: "map_of (AList.update k v m) = (map_of m)(k \<mapsto> v)"
  by (simp add: AList.update_conv')

lemma map_of_delete [alist_simps]: "map_of (AList.delete k m) = (map_of m)(k := None)"
  by (simp add: AList.delete_conv')

lemma map_of_update_same [alist_simps]: "map_of (AList.update k v m) k = Some v"
  by (simp add: map_of_update)

lemma map_of_update_other [alist_simps]:
  "k' \<noteq> k \<Longrightarrow> map_of (AList.update k v m) k' = map_of m k'"
  by (simp add: map_of_update)

lemma map_snd_update_fresh: "k \<notin> fst ` set m \<Longrightarrow> AList.update k v m = m @ [(k, v)]"
  by (induct m) auto

lemma set_snd_update_subset:
  "set (map snd (AList.update k v m)) \<subseteq> insert v (set (map snd m))"
  by (induct m) auto

section \<open>Strings\<close>

definition str_prefix :: "string \<Rightarrow> string \<Rightarrow> bool" where
  "str_prefix p s \<longleftrightarrow> take (length p) s = p"

lemma str_prefix_append [simp]: "str_prefix p (p @ s)"
  by (simp add: str_prefix_def)

fun join :: "string \<Rightarrow> string list \<Rightarrow> string" where
  "join sep [] = []"
| "join sep [x] = x"
| "join sep (x # y # xs) = x @ sep @ join sep (y # xs)"

lemma join_Cons: "xs \<noteq> [] \<Longrightarrow> join sep (x # xs) = x @ sep @ join sep xs"
  by (cases xs) auto

definition is_digit :: "char \<Rightarrow> bool" where
  "is_digit c \<longleftrightarrow> CHR ''0'' \<le> c \<and> c \<le> CHR ''9''"

definition digit_val :: "char \<Rightarrow> nat" where
  "digit_val c = of_char c - 48"

definition digit_char :: "nat \<Rightarrow> char" where
  "digit_char n = char_of (48 + n)"

definition digits_val :: "string \<Rightarrow> nat" where
  "digits_val s = foldl (\<lambda>n c. 10 * n + digit_val c) 0 s"

fun nat_text :: "nat \<Rightarrow> string" where
  "nat_text n = (if n < 10 then [digit_char n] else nat_text (n div 10) @ [digit_char (n mod 10)])"

declare nat_text.simps [simp del]

definition int_text :: "int \<Rightarrow> string" where
  "int_text n = (if n < 0 then CHR ''-'' # nat_text (nat (- n)) else nat_text (nat n))"

definition str_contains :: "string \<Rightarrow> string \<Rightarrow> bool" where
  "str_contains s p \<longleftrightarrow> list_ex (\<lambda>i. str_prefix p (drop i s)) [0..<Suc (length s)]"

text \<open>The labels whose condition holds, as code collects them with one test after another.\<close>

definition coded :: "(bool \<times> string) list \<Rightarrow> string list" where
  "coded cs = map snd (filter fst cs)"

lemma coded_Nil [simp]: "coded [] = []"
  by (simp add: coded_def)

lemma coded_Cons [simp]: "coded ((b, c) # cs) = (if b then c # coded cs else coded cs)"
  by (simp add: coded_def)

end
