(* ===== verification/Canonical.thy ===== *)
theory Canonical
  imports Json
begin

text \<open>
  The canonical text determines the value: \<open>canonicalize\<close> is injective up to
  the order of object fields, also when more text follows, so two records with
  the same canonical text are the same record.
\<close>

section \<open>Quoted strings\<close>

lemma of_char_hex_digit:
  "n < 16 \<Longrightarrow> (of_char (hex_digit n) :: nat) = (if n < 10 then 48 + n else 87 + n)"
  by (simp add: hex_digit_def)

lemma hex_digit_inj:
  assumes "m < 16" "n < 16" "hex_digit m = hex_digit n"
  shows "m = n"
proof -
  have "(of_char (hex_digit m) :: nat) = of_char (hex_digit n)"
    using assms(3) by simp
  then show ?thesis
    using assms(1,2) by (auto simp: of_char_hex_digit split: if_splits)
qed

lemma two_hex_digits_inj:
  assumes "m < 32" "n < 32"
    "hex_digit (m div 16) = hex_digit (n div 16)" "hex_digit (m mod 16) = hex_digit (n mod 16)"
  shows "m = n"
proof -
  have "m div 16 = n div 16" "m mod 16 = n mod 16"
    using assms by (auto intro!: hex_digit_inj)
  then show ?thesis by (metis div_mult_mod_eq)
qed

lemma json_escape_prefix_code:
  "json_escape c @ x = json_escape d @ y \<Longrightarrow> c = d \<and> x = y"
  by (auto simp: json_escape_def dest: two_hex_digits_inj split: if_splits)

lemma json_escape_not_quote: "json_escape c @ x \<noteq> CHR 0x22 # y"
  by (simp add: json_escape_def)

lemma json_chars_unique:
  "concat (map json_escape s) @ CHR 0x22 # x = concat (map json_escape t) @ CHR 0x22 # y \<Longrightarrow> s = t \<and> x = y"
proof (induction s arbitrary: t)
  case Nil
  show ?case
  proof (cases t)
    case Nil
    then show ?thesis using \<open>concat (map json_escape []) @ _ = _\<close> by simp
  next
    case (Cons d t')
    then have "json_escape d @ (concat (map json_escape t') @ CHR 0x22 # y) = CHR 0x22 # x"
      using Nil by simp
    then show ?thesis using json_escape_not_quote[of d] by blast
  qed
next
  case (Cons c s)
  show ?case
  proof (cases t)
    case Nil
    then show ?thesis using Cons.prems json_escape_not_quote[of c] by simp
  next
    case (Cons d t')
    then have "json_escape c @ (concat (map json_escape s) @ CHR 0x22 # x)
      = json_escape d @ (concat (map json_escape t') @ CHR 0x22 # y)"
      using Cons.prems by simp
    then have "c = d"
      "concat (map json_escape s) @ CHR 0x22 # x = concat (map json_escape t') @ CHR 0x22 # y"
      using json_escape_prefix_code by blast+
    then show ?thesis using Cons.IH[of t'] Cons by blast
  qed
qed

lemma json_quote_unique: "json_quote s @ x = json_quote t @ y \<Longrightarrow> s = t \<and> x = y"
  using json_chars_unique[of s x t y] by (simp add: json_quote_def)

section \<open>Numbers\<close>

lemma nat_text_digits: "list_all is_digit (nat_text n) \<and> nat_text n \<noteq> []"
proof (induction n rule: nat_text.induct)
  case (1 n)
  have "is_digit (digit_char k)" if "k < 10" for k
    using that by (simp add: is_digit_def digit_char_def less_eq_char_def)
  then show ?case
    using 1 by (cases "n < 10") (simp_all add: nat_text.simps[of n])
qed

lemma digits_val_snoc: "digits_val (s @ [c]) = 10 * digits_val s + digit_val c"
  by (simp add: digits_val_def)

lemma digits_val_nat_text: "digits_val (nat_text n) = n"
proof (induction n rule: nat_text.induct)
  case (1 n)
  have d: "digit_val (digit_char k) = k" if "k < 10" for k
    using that by (simp add: digit_val_def digit_char_def)
  show ?case
  proof (cases "n < 10")
    case True
    then show ?thesis by (simp add: nat_text.simps[of n] digits_val_def d)
  next
    case False
    then show ?thesis
      using 1 by (simp add: nat_text.simps[of n] digits_val_snoc d)
  qed
qed

lemma nat_text_inj: "nat_text m = nat_text n \<longleftrightarrow> m = n"
  by (metis digits_val_nat_text)

lemma digit_not_minus: "is_digit c \<Longrightarrow> c \<noteq> CHR ''-''"
  by (auto simp: is_digit_def less_eq_char_def)

lemma nat_text_hd: "is_digit (hd (nat_text n))"
  using nat_text_digits[of n] by (cases "nat_text n") auto

lemma int_text_inj: "int_text m = int_text n \<longleftrightarrow> m = n"
proof -
  have "CHR ''-'' # xs \<noteq> nat_text k" for xs k
    using nat_text_hd[of k] digit_not_minus by (metis list.sel(1))
  moreover from this have "nat_text k \<noteq> CHR ''-'' # xs" for xs k by metis
  ultimately show ?thesis by (auto simp: int_text_def nat_text_inj)
qed

lemma int_text_chars:
  "list_all num_char (int_text n)" "int_text n \<noteq> []"
  "is_digit (hd (int_text n)) \<or> hd (int_text n) = CHR ''-''"
proof -
  have "list_all num_char (nat_text k)" for k
    using nat_text_digits[of k] by (auto simp: num_char_def list_all_iff)
  then show "list_all num_char (int_text n)" by (simp add: int_text_def num_char_def)
  show "int_text n \<noteq> []" using nat_text_digits by (simp add: int_text_def)
  show "is_digit (hd (int_text n)) \<or> hd (int_text n) = CHR ''-''"
    using nat_text_hd by (simp add: int_text_def)
qed

lemma int_text_hd [simp]:
  "hd (int_text n) \<noteq> CHR ''{''" "hd (int_text n) \<noteq> CHR ''[''" "hd (int_text n) \<noteq> CHR ''n''"
  "hd (int_text n) \<noteq> CHR ''t''" "hd (int_text n) \<noteq> CHR ''f''" "hd (int_text n) \<noteq> CHR 0x22"
  using int_text_chars(3)[of n] by (auto simp: is_digit_def less_eq_char_def)

lemma int_text_not_frac: "\<not> frac_text_ok (int_text n)"
  using nat_text_digits nat_text_hd[of "nat n"] digit_not_minus[of "hd (nat_text (nat n))"]
  by (auto simp: frac_text_ok_def int_text_def)

text \<open>The text after a value: nothing, or one of the characters that end it.\<close>

definition ends_value :: "string \<Rightarrow> bool" where
  "ends_value r \<longleftrightarrow> r = [] \<or> hd r \<in> {CHR '','', CHR '']'', CHR ''}''}"

lemma ends_value_simps [simp]:
  "ends_value []" "ends_value (CHR '','' # r)" "ends_value (CHR '']'' # r)" "ends_value (CHR ''}'' # r)"
  by (simp_all add: ends_value_def)

lemma ends_value_no_num: "ends_value r \<Longrightarrow> r \<noteq> [] \<Longrightarrow> \<not> num_char (hd r)"
  by (auto simp: ends_value_def num_char_def is_digit_def less_eq_char_def)

lemma takeWhile_num:
  "list_all num_char s \<Longrightarrow> ends_value r \<Longrightarrow> takeWhile num_char (s @ r) = s"
  by (cases r) (auto simp: list_all_iff dest: ends_value_no_num)

lemma number_unique:
  assumes "list_all num_char s" "list_all num_char t" "ends_value x" "ends_value y" "s @ x = t @ y"
  shows "s = t \<and> x = y"
  using takeWhile_num[OF assms(1,3)] takeWhile_num[OF assms(2,4)] assms(5) by simp

section \<open>Objects in key order\<close>

lemma sort_key_map_fst:
  "sort_key fst (map (\<lambda>f. (fst f, g (snd f))) fs) = map (\<lambda>f. (fst f, g (snd f))) (sort_key fst fs)"
proof (induction fs)
  case (Cons a fs)
  have "insort_key fst (fst a, g (snd a)) (map (\<lambda>f. (fst f, g (snd f))) xs)
    = map (\<lambda>f. (fst f, g (snd f))) (insort_key fst a xs)" for xs
    by (induction xs) auto
  then show ?case using Cons by simp
qed simp

definition field_text :: "string \<times> jval \<Rightarrow> string" where
  "field_text f = json_quote (fst f) @ '':'' @ canonicalize (snd f)"

lemma canonicalize_obj:
  "canonicalize (JObj fs) = CHR ''{'' # join '','' (map field_text (sort_key fst fs)) @ ''}''"
  using sort_key_map_fst[of canonicalize fs]
  by (simp add: field_text_def[abs_def] comp_def)

lemma jnorm_obj:
  "jnorm (JObj fs) = JObj (map (\<lambda>f. (fst f, jnorm (snd f))) (sort_key fst fs))"
  using sort_key_map_fst[of jnorm fs] by simp

lemma canonicalize_jnorm: "canonicalize (jnorm v) = canonicalize v"
proof (induction v rule: jnorm.induct)
  case (1 xs)
  then show ?case by (simp add: comp_def cong: map_cong)
next
  case (2 fs)
  have eq: "field_text (fst f, jnorm (snd f)) = field_text f" if "f \<in> set fs" for f
    using 2[of f] that by (simp add: field_text_def)
  have srt: "sort_key fst (map (\<lambda>f. (fst f, jnorm (snd f))) (sort_key fst fs))
      = map (\<lambda>f. (fst f, jnorm (snd f))) (sort_key fst fs)"
    by (simp add: sort_key_map_fst sort_key_id_if_sorted)
  have m: "map (\<lambda>f. field_text (fst f, jnorm (snd f))) (sort_key fst fs) = map field_text (sort_key fst fs)"
    by (rule map_cong) (simp_all add: eq)
  show ?case
    unfolding jnorm_obj canonicalize_obj by (simp add: comp_def srt m)
qed simp_all

section \<open>Values\<close>

lemma canonicalize_nonempty: "jval_ok v \<Longrightarrow> canonicalize v \<noteq> []"
  by (cases v) (auto simp: json_quote_def int_text_chars frac_text_ok_def)

lemma canonicalize_hd_close:
  "jval_ok v \<Longrightarrow> hd (canonicalize v) \<noteq> CHR '']'' \<and> hd (canonicalize v) \<noteq> CHR ''}'' \<and> hd (canonicalize v) \<noteq> CHR '',''"
proof -
  assume ok: "jval_ok v"
  have num: "is_digit c \<or> c = CHR ''-'' \<Longrightarrow> c \<noteq> CHR '']'' \<and> c \<noteq> CHR ''}'' \<and> c \<noteq> CHR '',''" for c
    by (auto simp: is_digit_def less_eq_char_def)
  show ?thesis
    using ok num[OF int_text_chars(3)] num by (cases v) (auto simp: json_quote_def frac_text_ok_def)
qed

text \<open>What the induction needs of one value: its text is read back in one way.\<close>

definition uniquely_read :: "jval \<Rightarrow> bool" where
  "uniquely_read a \<longleftrightarrow> (\<forall>b x y. jval_ok b \<longrightarrow> ends_value x \<longrightarrow> ends_value y
     \<longrightarrow> canonicalize a @ x = canonicalize b @ y \<longrightarrow> jnorm a = jnorm b \<and> x = y)"

lemma uniquely_readD:
  "uniquely_read a \<Longrightarrow> jval_ok b \<Longrightarrow> ends_value x \<Longrightarrow> ends_value y
     \<Longrightarrow> canonicalize a @ x = canonicalize b @ y \<Longrightarrow> jnorm a = jnorm b \<and> x = y"
  by (simp add: uniquely_read_def)

text \<open>A comma-separated list of items closed by a bracket, for any item text that is uniquely read.\<close>

lemma join_append_close:
  "join '','' (t # ts) @ c # x = t @ (if ts = [] then c # x else CHR '','' # join '','' ts @ c # x)"
  by (cases ts) auto

lemma items_unique:
  assumes read: "\<And>a b x y. a \<in> set as \<Longrightarrow> P b \<Longrightarrow> ends_value x \<Longrightarrow> ends_value y
      \<Longrightarrow> tx a @ x = tx b @ y \<Longrightarrow> nrm a = nrm b \<and> x = y"
    and nonempty: "\<And>a. a \<in> set as \<union> set bs \<Longrightarrow> tx a \<noteq> [] \<and> hd (tx a) \<noteq> c"
    and P: "\<And>b. b \<in> set bs \<Longrightarrow> P b"
    and close: "ends_value [c]" "c \<noteq> CHR '',''"
    and eq: "join '','' (map tx as) @ c # x = join '','' (map tx bs) @ c # y"
  shows "map nrm as = map nrm bs \<and> x = y"
  using read nonempty P eq
proof (induction as arbitrary: bs)
  case Nil
  show ?case
  proof (cases bs)
    case Nil
    then show ?thesis using \<open>join _ (map tx []) @ _ = _\<close> by simp
  next
    case (Cons b bs')
    then have "tx b @ (if bs' = [] then c # y else CHR '','' # join '','' (map tx bs') @ c # y) = c # x"
      using Nil.prems(4) join_append_close[of "tx b" "map tx bs'" c y] by simp
    moreover have "tx b \<noteq> [] \<and> hd (tx b) \<noteq> c" using Nil.prems(2)[of b] Cons by simp
    ultimately show ?thesis by (metis hd_append2 list.sel(1))
  qed
next
  case (Cons a as)
  show ?case
  proof (cases bs)
    case Nil
    then have "tx a @ (if as = [] then c # x else CHR '','' # join '','' (map tx as) @ c # x) = c # y"
      using Cons.prems(4) join_append_close[of "tx a" "map tx as" c x] by simp
    moreover have "tx a \<noteq> [] \<and> hd (tx a) \<noteq> c" using Cons.prems(2)[of a] by simp
    ultimately show ?thesis by (metis hd_append2 list.sel(1))
  next
    case b: (Cons b bs')
    let ?x = "if as = [] then c # x else CHR '','' # join '','' (map tx as) @ c # x"
    let ?y = "if bs' = [] then c # y else CHR '','' # join '','' (map tx bs') @ c # y"
    have ends: "ends_value ?x" "ends_value ?y" using close by (auto simp: ends_value_def)
    have "tx a @ ?x = tx b @ ?y"
      using Cons.prems(4) b join_append_close[of "tx a" "map tx as" c x]
        join_append_close[of "tx b" "map tx bs'" c y] by simp
    then have ab: "nrm a = nrm b" "?x = ?y"
      using Cons.prems(1)[of a b ?x ?y] Cons.prems(3)[of b] b ends by auto
    have "as = [] \<longleftrightarrow> bs' = []" using ab(2) close(2) by (auto split: if_splits)
    then have "join '','' (map tx as) @ c # x = join '','' (map tx bs') @ c # y"
      using ab(2) by (auto split: if_splits)
    then have "map nrm as = map nrm bs' \<and> x = y"
      using Cons.prems b by (intro Cons.IH) auto
    then show ?thesis using ab(1) b by simp
  qed
qed

lemma uniquely_read_obj:
  assumes "jval_ok (JObj fs)" "\<And>f. f \<in> set fs \<Longrightarrow> uniquely_read (snd f)"
  shows "uniquely_read (JObj fs)"
  unfolding uniquely_read_def
proof (intro allI impI)
  fix b x y
  assume b: "jval_ok b" "ends_value x" "ends_value y" "canonicalize (JObj fs) @ x = canonicalize b @ y"
  then have "hd (canonicalize b) = CHR ''{''" using canonicalize_nonempty[OF b(1)]
    by (metis append_Cons canonicalize_obj hd_append2 list.sel(1))
  then obtain gs where gs: "b = JObj gs"
    using b(1) by (cases b) (auto simp: json_quote_def frac_text_ok_def is_digit_def less_eq_char_def split: if_splits)
  have "map (\<lambda>f. (fst f, jnorm (snd f))) (sort_key fst fs)
      = map (\<lambda>f. (fst f, jnorm (snd f))) (sort_key fst gs) \<and> x = y"
  proof (rule items_unique[where tx = field_text and P = "\<lambda>f. jval_ok (snd f)" and c = "CHR ''}''"])
    show "join '','' (map field_text (sort_key fst fs)) @ CHR ''}'' # x =
          join '','' (map field_text (sort_key fst gs)) @ CHR ''}'' # y"
      using b(4) unfolding gs canonicalize_obj by simp
  next
    fix f g x y
    assume fg: "f \<in> set (sort_key fst fs)" "jval_ok (snd g)" "ends_value x" "ends_value y"
      "field_text f @ x = field_text g @ y"
    then have "fst f = fst g" "canonicalize (snd f) @ x = canonicalize (snd g) @ y"
      by (auto simp: field_text_def dest: json_quote_unique)
    then show "(fst f, jnorm (snd f)) = (fst g, jnorm (snd g)) \<and> x = y"
      using fg assms(2)[of f] by (auto dest: uniquely_readD)
  next
    fix g
    assume "g \<in> set (sort_key fst gs)"
    then show "jval_ok (snd g)" using b(1) gs by (auto simp: list_all_iff)
  qed (auto simp: field_text_def json_quote_def)
  then show "jnorm (JObj fs) = jnorm b \<and> x = y" unfolding gs jnorm_obj by simp
qed

lemma uniquely_read_arr:
  assumes "jval_ok (JArr vs)" "\<And>v. v \<in> set vs \<Longrightarrow> uniquely_read v"
  shows "uniquely_read (JArr vs)"
  unfolding uniquely_read_def
proof (intro allI impI)
  fix b x y
  assume b: "jval_ok b" "ends_value x" "ends_value y" "canonicalize (JArr vs) @ x = canonicalize b @ y"
  then have "hd (canonicalize b) = CHR ''[''" using canonicalize_nonempty[OF b(1)]
    by (metis append_Cons canonicalize.simps(6) hd_append2 list.sel(1))
  then obtain us where us: "b = JArr us"
    using b(1) by (cases b) (auto simp: json_quote_def frac_text_ok_def is_digit_def less_eq_char_def split: if_splits)
  have ok: "jval_ok v" if "v \<in> set vs \<union> set us" for v
    using that assms(1) b(1) us by (auto simp: list_all_iff)
  have "map jnorm vs = map jnorm us \<and> x = y"
  proof (rule items_unique[where tx = canonicalize and P = jval_ok and c = "CHR '']''"])
    show "join '','' (map canonicalize vs) @ CHR '']'' # x = join '','' (map canonicalize us) @ CHR '']'' # y"
      using b(4) unfolding us by simp
  next
    fix v assume "v \<in> set vs \<union> set us"
    then show "canonicalize v \<noteq> [] \<and> hd (canonicalize v) \<noteq> CHR '']''"
      using ok canonicalize_nonempty canonicalize_hd_close by blast
  qed (use assms(2) ok uniquely_readD in \<open>auto dest: uniquely_readD\<close>)
  then show "jnorm (JArr vs) = jnorm b \<and> x = y" unfolding us by simp
qed

lemma number_text:
  assumes "jval_ok v" "num_char (hd (canonicalize v))"
  shows "(\<exists>n. v = JInt n) \<or> (\<exists>s. v = JFrac s)"
  using assms by (cases v) (auto simp: json_quote_def num_char_def is_digit_def less_eq_char_def split: if_splits)

lemma uniquely_read_number:
  assumes "v = JInt n \<or> v = JFrac s" "jval_ok v"
  shows "uniquely_read v"
  unfolding uniquely_read_def
proof (intro allI impI)
  fix b x y
  assume b: "jval_ok b" "ends_value x" "ends_value y" "canonicalize v @ x = canonicalize b @ y"
  have chars: "list_all num_char (canonicalize w)" if "w = JInt k \<or> w = JFrac t" "jval_ok w" for w k t
    using that int_text_chars(1) by (auto simp: frac_text_ok_def)
  have "num_char (hd (canonicalize v))"
    using chars[OF assms] canonicalize_nonempty[OF assms(2)] by (cases "canonicalize v") auto
  then have "num_char (hd (canonicalize b))"
    using b(4) canonicalize_nonempty[OF assms(2)] canonicalize_nonempty[OF b(1)] by (metis hd_append2)
  then obtain k t where kt: "b = JInt k \<or> b = JFrac t"
    using number_text[OF b(1)] by blast
  have "canonicalize v = canonicalize b \<and> x = y"
    using number_unique[OF chars[OF assms] chars[OF kt b(1)] b(2,3,4)] .
  then show "jnorm v = jnorm b \<and> x = y"
    using assms kt b(1) int_text_not_frac by (auto simp: int_text_inj)
qed

lemma uniquely_read_word:
  assumes "canonicalize v = w" "w \<in> {''null'', ''true'', ''false''}" "jnorm v = v" "jval_ok v"
    "v = JNull \<or> v = JBool True \<or> v = JBool False"
  shows "uniquely_read v"
  unfolding uniquely_read_def
proof (intro allI impI)
  fix b x y
  assume b: "jval_ok b" "ends_value x" "ends_value y" "canonicalize v @ x = canonicalize b @ y"
  have "hd (canonicalize b) = hd w"
    using b(4) assms(1,2) canonicalize_nonempty[OF b(1)] by (metis canonicalize_nonempty assms(4) hd_append2)
  then have "b = JNull \<or> b = JBool True \<or> b = JBool False"
    using b(1) assms(2)
    by (cases b) (auto simp: json_quote_def frac_text_ok_def is_digit_def less_eq_char_def)
  then show "jnorm v = jnorm b \<and> x = y"
    using assms(5) b(4) by auto
qed

lemma uniquely_read_str: "uniquely_read (JStr v)"
  unfolding uniquely_read_def
proof (intro allI impI)
  fix b x y
  assume b: "jval_ok b" "ends_value x" "ends_value y" "canonicalize (JStr v) @ x = canonicalize b @ y"
  have "hd (canonicalize b) = CHR 0x22"
    using b canonicalize_nonempty[OF b(1)]
    by (metis append_Cons canonicalize.simps(3) hd_append2 json_quote_def list.sel(1))
  then obtain t where t: "b = JStr t"
    using b(1) by (cases b) (auto simp: frac_text_ok_def is_digit_def less_eq_char_def split: if_splits)
  then have "json_quote v @ x = json_quote t @ y" using b(4) by simp
  then show "jnorm (JStr v) = jnorm b \<and> x = y" using json_quote_unique[of v x t y] t by simp
qed

lemma uniquely_read_null: "uniquely_read JNull"
  by (intro uniquely_read_word[where w = "''null''"]) auto

lemma uniquely_read_bool: "uniquely_read (JBool c)"
  by (cases c; intro uniquely_read_word[where w = "canonicalize (JBool c)"]) auto

lemma uniquely_read_int: "uniquely_read (JInt n)"
  by (rule uniquely_read_number[of _ n]) simp_all

lemma canonicalize_uniquely_read: "jval_ok v \<Longrightarrow> uniquely_read v"
proof (induction v rule: jval_ok.induct)
  case (1 s)
  then show ?case using uniquely_read_number by blast
next
  case (2 xs)
  then show ?case by (intro uniquely_read_arr) (auto simp: list_all_iff)
next
  case (3 fs)
  then show ?case by (intro uniquely_read_obj) (auto simp: list_all_iff)
qed (simp_all add: uniquely_read_null uniquely_read_bool uniquely_read_str uniquely_read_int)

theorem canonicalize_eq_iff:
  assumes "jval_ok a" "jval_ok b"
  shows "canonicalize a = canonicalize b \<longleftrightarrow> jnorm a = jnorm b"
proof
  assume "canonicalize a = canonicalize b"
  then show "jnorm a = jnorm b"
    using uniquely_readD[OF canonicalize_uniquely_read[OF assms(1)] assms(2), of "[]" "[]"] by simp
next
  assume "jnorm a = jnorm b"
  then show "canonicalize a = canonicalize b" by (metis canonicalize_jnorm)
qed

lemma jnorm_field_order:
  assumes "mset fs = mset gs" "distinct (map fst fs)"
  shows "jnorm (JObj fs) = jnorm (JObj gs)"
proof -
  have d: "distinct (map fst gs)" using assms by (metis mset_map mset_eq_imp_distinct_iff)
  have sd: "distinct (map fst (sort_key fst xs))" if "distinct (map fst xs)" for xs :: "(string \<times> jval) list"
    using that by (metis mset_map mset_sort mset_eq_imp_distinct_iff)
  have set: "set fs = set gs" using assms(1) by (metis set_mset_mset)
  have "sort_key fst fs = sort_key fst gs"
  proof (rule map_sorted_distinct_set_unique[where f = fst])
    show "inj_on fst (set (sort_key fst fs) \<union> set (sort_key fst gs))"
      using assms(2) set by (simp add: distinct_map)
  qed (simp_all add: sd d assms(2) set)
  then show ?thesis by (simp only: jnorm_obj)
qed

theorem canonicalize_field_order:
  assumes "mset fs = mset gs" "distinct (map fst fs)"
  shows "canonicalize (JObj fs) = canonicalize (JObj gs)"
  using jnorm_field_order[OF assms] by (metis canonicalize_jnorm)

end
