(* ===== verification/Foundation.thy ===== *)
theory Foundation
  imports Canonical "HOL-Library.Monad_Syntax"
begin

text \<open>
  The protocol's foundation, after \<open>foundation/errors.ts\<close>, \<open>ids.ts\<close>,
  \<open>canonical.ts\<close>, \<open>schema-core.ts\<close> and \<open>transition-guards.ts\<close>: the exceptions
  that transitions throw, the source of identifiers and of the current time,
  digests, the primitive schema checks, and the instant that \<open>Date.parse\<close>
  reads in an ISO date.  What the code takes from its platform is a parameter
  of the model, gathered in the record \<open>env\<close>: SHA-256 and HMAC on bytes, the
  schema library's check of an ISO date-time, the random UUIDs and the clock.
\<close>

section \<open>Errors\<close>

datatype error_retryability =
    ER_retryable | ER_terminal | ER_recoverable | ER_review_required | ER_ambiguous

datatype commit_state =
    CS_not_started | CS_not_committed | CS_committed | CS_unknown | CS_not_applicable

record error_metadata =
  em_retryability :: "error_retryability option"
  em_commitState :: "commit_state option"
  em_proofRef :: "string option"
  em_refusalRef :: "string option"

definition no_metadata :: error_metadata where
  "no_metadata = \<lparr>em_retryability = None, em_commitState = None, em_proofRef = None, em_refusalRef = None\<rparr>"

text \<open>
  \<open>HandshakeProtocolError\<close> with its code, HTTP status and metadata (the message
  is prose and left out), the error a schema's \<open>parse\<close> throws, and an exception of the
  platform on a key or a base64 text that it cannot read.
\<close>

datatype hs_error =
    ProtocolError (error_code: string) (error_status: nat) (error_meta: error_metadata)
  | ZodError
  | PlatformError

definition protocol_error :: "string \<Rightarrow> nat \<Rightarrow> hs_error" where
  "protocol_error code status = ProtocolError code status no_metadata"

definition ambiguous_commit_error :: hs_error where
  "ambiguous_commit_error = ProtocolError ''ambiguous_commit'' 503
     \<lparr>em_retryability = Some ER_ambiguous, em_commitState = Some CS_unknown, em_proofRef = None, em_refusalRef = None\<rparr>"

type_synonym ('w, 'a) ptr = "('w, hs_error, 'a) tr"

text \<open>\<open>TransitionGuardResult\<close>: \<open>Inr ()\<close> is \<open>ok\<close>, \<open>Inl\<close> carries the failing code; the status is always 409.\<close>

type_synonym guard_result = "string + unit"

definition guard_ok :: guard_result where
  "guard_ok = Inr ()"

definition guard_fail :: "string \<Rightarrow> guard_result" where
  "guard_fail code = Inl code"

text \<open>What a transition does with a failed guard: it throws with status 409.\<close>

definition require_guard :: "guard_result \<Rightarrow> ('w, unit) ptr" where
  "require_guard g = (case g of Inl code \<Rightarrow> tfail (protocol_error code 409) | Inr _ \<Rightarrow> treturn ())"

section \<open>The platform\<close>

record env =
  env_sha256 :: "8 word list \<Rightarrow> 8 word list"
  env_hmac :: "8 word list \<Rightarrow> 8 word list \<Rightarrow> 8 word list"
  env_iso_ok :: "string \<Rightarrow> bool"
  env_id_source :: "(nat \<Rightarrow> string \<Rightarrow> string) option"
  env_uuid :: "nat \<Rightarrow> string"
  env_now_source :: "(nat \<Rightarrow> string) option"
  env_clock :: "nat \<Rightarrow> string"

text \<open>The world counts the readings of the clock and of the identifier source.\<close>

record clockw =
  tick :: nat

definition createId :: "'e env_scheme \<Rightarrow> string \<Rightarrow> ('w clockw_scheme, string) ptr" where
  "createId E prefix = (\<lambda>w.
     let fresh = prefix @ ''_'' @ env_uuid E (tick w);
         fresh_id = (case env_id_source E of
                 Some f \<Rightarrow> (if f (tick w) prefix = [] then fresh else f (tick w) prefix)
               | None \<Rightarrow> fresh)
     in (Inr fresh_id, w\<lparr>tick := Suc (tick w)\<rparr>))"

definition nowIso :: "'e env_scheme \<Rightarrow> ('w clockw_scheme, string) ptr" where
  "nowIso E = (\<lambda>w.
     let now = (case env_now_source E of
                  Some f \<Rightarrow> (if f (tick w) = [] then env_clock E (tick w) else f (tick w))
                | None \<Rightarrow> env_clock E (tick w))
     in (Inr now, w\<lparr>tick := Suc (tick w)\<rparr>))"

section \<open>Digests\<close>

definition CANONICALIZER_VERSION :: string where
  "CANONICALIZER_VERSION = ''handshake-jcs-lite-0.2''"

definition digestCanonical :: "'e env_scheme \<Rightarrow> jval \<Rightarrow> string" where
  "digestCanonical E v = ''sha256:'' @ toHex (env_sha256 E (text_encode (canonicalize v)))"

text \<open>
  The digest of the protected parameters: credential and authority
  references are digested only when there are any.
\<close>

definition protectedActionParamsDigest ::
  "'e env_scheme \<Rightarrow> (string \<times> jval) list \<Rightarrow> (string \<times> string) list \<Rightarrow> jval list \<Rightarrow> jval list \<Rightarrow> string" where
  "protectedActionParamsDigest E parameters secretRefs credentialRefs authorityRefs =
     digestCanonical E (JObj
       ([(''parameters'', JObj parameters),
         (''secretRefs'', JObj (map (\<lambda>f. (fst f, JStr (snd f))) secretRefs))] @
        (if credentialRefs = [] then [] else [(''gatewayCredentialRefs'', JArr credentialRefs)]) @
        (if authorityRefs = [] then [] else [(''delegatedAuthorityRefs'', JArr authorityRefs)])))"

definition signCanonicalHmac :: "'e env_scheme \<Rightarrow> jval \<Rightarrow> string \<Rightarrow> string" where
  "signCanonicalHmac E v secret =
     ''hmac-sha256:'' @ toHex (env_hmac E (text_encode secret) (text_encode (canonicalize v)))"

definition verifyCanonicalHmac :: "'e env_scheme \<Rightarrow> jval \<Rightarrow> string \<Rightarrow> string \<Rightarrow> bool" where
  "verifyCanonicalHmac E v secret expected \<longleftrightarrow> signCanonicalHmac E v secret = expected"

section \<open>Primitive schemas\<close>

definition PROTOCOL_VERSION :: string where
  "PROTOCOL_VERSION = ''0.2.4''"

definition is_hex_lower :: "char \<Rightarrow> bool" where
  "is_hex_lower c \<longleftrightarrow> is_digit c \<or> (CHR ''a'' \<le> c \<and> c \<le> CHR ''f'')"

definition is_alpha :: "char \<Rightarrow> bool" where
  "is_alpha c \<longleftrightarrow> (CHR ''A'' \<le> c \<and> c \<le> CHR ''Z'') \<or> (CHR ''a'' \<le> c \<and> c \<le> CHR ''z'')"

definition digest_ok :: "string \<Rightarrow> bool" where
  "digest_ok s \<longleftrightarrow> str_prefix ''sha256:'' s \<and> length s = 71 \<and> list_all is_hex_lower (drop 7 s)"

definition signature_ok :: "string \<Rightarrow> bool" where
  "signature_ok s \<longleftrightarrow>
     (str_prefix ''ed25519:'' s \<and> 8 < length s \<and>
        list_all (\<lambda>c. is_alpha c \<or> is_digit c \<or> c = CHR ''_'' \<or> c = CHR ''-'') (drop 8 s)) \<or>
     (str_prefix ''hmac-sha256:'' s \<and> length s = 76 \<and> list_all is_hex_lower (drop 12 s))"

definition id_ok :: "string \<Rightarrow> bool" where
  "id_ok s \<longleftrightarrow> 3 \<le> length s \<and> length s \<le> 160"

definition iso_ok :: "'e env_scheme \<Rightarrow> string \<Rightarrow> bool" where
  "iso_ok E s \<longleftrightarrow> env_iso_ok E s"

definition reason_code_ok :: "string \<Rightarrow> bool" where
  "reason_code_ok s \<longleftrightarrow> 2 \<le> length s \<and> length s \<le> 120"

definition resource_ref_ok :: "string \<Rightarrow> bool" where
  "resource_ref_ok s \<longleftrightarrow> 1 \<le> length s \<and> length s \<le> 500"

text \<open>A delegated authority's atomic amount: \<open>0\<close> or digits without a leading zero.\<close>

definition atomic_amount_ok :: "string \<Rightarrow> bool" where
  "atomic_amount_ok s \<longleftrightarrow> s = ''0'' \<or> (s \<noteq> [] \<and> hd s \<noteq> CHR ''0'' \<and> list_all is_digit s)"

definition opt_ok :: "('a \<Rightarrow> bool) \<Rightarrow> 'a option \<Rightarrow> bool" where
  "opt_ok P x \<longleftrightarrow> (case x of None \<Rightarrow> True | Some v \<Rightarrow> P v)"

lemma opt_ok_simps [simp]: "opt_ok P None" "opt_ok P (Some v) \<longleftrightarrow> P v"
  by (simp_all add: opt_ok_def)

record protocol_base =
  schemaVersion :: string
  tenantId :: string
  organizationId :: string
  createdAt :: string

definition base_fields :: "'a protocol_base_scheme \<Rightarrow> (string \<times> jval) list" where
  "base_fields r =
     [(''schemaVersion'', JStr (schemaVersion r)), (''tenantId'', JStr (tenantId r)),
      (''organizationId'', JStr (organizationId r)), (''createdAt'', JStr (createdAt r))]"

definition base_valid :: "'e env_scheme \<Rightarrow> 'a protocol_base_scheme \<Rightarrow> bool" where
  "base_valid E r \<longleftrightarrow> schemaVersion r = PROTOCOL_VERSION \<and> id_ok (tenantId r) \<and>
     id_ok (organizationId r) \<and> iso_ok E (createdAt r)"

text \<open>JSON of optional values: \<open>null\<close> for a nullable field, no field at all for an optional one.\<close>

definition j_opt :: "('a \<Rightarrow> jval) \<Rightarrow> 'a option \<Rightarrow> jval" where
  "j_opt f x = (case x of None \<Rightarrow> JNull | Some v \<Rightarrow> f v)"

definition j_field_opt :: "string \<Rightarrow> ('a \<Rightarrow> jval) \<Rightarrow> 'a option \<Rightarrow> (string \<times> jval) list" where
  "j_field_opt k f x = (case x of None \<Rightarrow> [] | Some v \<Rightarrow> [(k, f v)])"

definition j_str_map :: "(string \<times> string) list \<Rightarrow> jval" where
  "j_str_map m = JObj (map (\<lambda>f. (fst f, JStr (snd f))) m)"

text \<open>A JavaScript number that need not be an integer, and the range check from zero to one.\<close>

datatype jnum = NumInt int | NumFrac string

definition jnum_json :: "jnum \<Rightarrow> jval" where
  "jnum_json x = (case x of NumInt n \<Rightarrow> JInt n | NumFrac s \<Rightarrow> JFrac s)"

definition jnum_unit :: "jnum \<Rightarrow> bool" where
  "jnum_unit x = (case x of NumInt n \<Rightarrow> 0 \<le> n \<and> n \<le> 1
     | NumFrac s \<Rightarrow> frac_text_ok s \<and> hd s \<noteq> CHR ''-'' \<and> (str_prefix ''0.'' s \<or> str_contains s ''e-''))"

text \<open>
  The clearing evidence references: three optional fields.
\<close>

record clearing_evidence_refs =
  ce_correlationRef :: "string option"
  ce_obligationRef :: "string option"
  ce_counterpartyRef :: "string option"

definition clearing_evidence_refs_json :: "clearing_evidence_refs \<Rightarrow> jval" where
  "clearing_evidence_refs_json r = JObj
     (j_field_opt ''correlationRef'' JStr (ce_correlationRef r) @
      j_field_opt ''obligationRef'' JStr (ce_obligationRef r) @
      j_field_opt ''counterpartyRef'' JStr (ce_counterpartyRef r))"

definition clearing_evidence_refs_valid :: "'e env_scheme \<Rightarrow> clearing_evidence_refs \<Rightarrow> bool" where
  "clearing_evidence_refs_valid E r \<longleftrightarrow> opt_ok resource_ref_ok (ce_correlationRef r) \<and>
     opt_ok resource_ref_ok (ce_obligationRef r) \<and> opt_ok resource_ref_ok (ce_counterpartyRef r)"

text \<open>\<open>signaturePosture\<close> of signed artifacts.\<close>

datatype signature_posture =
    SP_unsigned | SP_local_hmac | SP_external_signature | SP_unverified

fun signature_posture_str :: "signature_posture \<Rightarrow> string" where
    "signature_posture_str SP_unsigned = ''unsigned''"
  | "signature_posture_str SP_local_hmac = ''local_hmac''"
  | "signature_posture_str SP_external_signature = ''external_signature''"
  | "signature_posture_str SP_unverified = ''unverified''"

text \<open>\<open>Schema.parse\<close> of a record that was built with every field: the record itself, or the schema error.\<close>

definition parse_as :: "('a \<Rightarrow> bool) \<Rightarrow> 'a \<Rightarrow> hs_error + 'a" where
  "parse_as ok r = (if ok r then Inr r else Inl ZodError)"

definition tparse :: "('a \<Rightarrow> bool) \<Rightarrow> 'a \<Rightarrow> ('w, 'a) ptr" where
  "tparse ok r = tlift (parse_as ok r)"

lemma tparse_apply: "tparse ok r w = (if ok r then (Inr r, w) else (Inl ZodError, w))"
  by (simp add: tparse_def parse_as_def)

lemma tparse_Inr [simp]: "tparse ok r w = (Inr r', w') \<longleftrightarrow> ok r \<and> r' = r \<and> w' = w"
  by (auto simp: tparse_apply)

section \<open>Instants\<close>

text \<open>
  \<open>Date.parse\<close> on ISO date-times with a zone, which is all that the schemas let
  through: milliseconds since the epoch, \<open>None\<close> where JavaScript gives NaN.
  Every comparison with NaN is false.
\<close>

fun read_digits :: "nat \<Rightarrow> string \<Rightarrow> (nat \<times> string) option" where
  "read_digits 0 s = Some (0, s)"
| "read_digits (Suc n) [] = None"
| "read_digits (Suc n) (c # s) =
     (if is_digit c then (case read_digits n s of None \<Rightarrow> None
        | Some (v, r) \<Rightarrow> Some (digit_val c * 10 ^ n + v, r)) else None)"

fun read_char :: "char \<Rightarrow> string \<Rightarrow> string option" where
  "read_char c (x # s) = (if x = c then Some s else None)"
| "read_char c [] = None"

text \<open>The fraction of a second: three digits count, the others are dropped.\<close>

definition read_fraction :: "string \<Rightarrow> (nat \<times> string) option" where
  "read_fraction s = (case s of
       CHR ''.'' # r \<Rightarrow> (let ds = takeWhile is_digit r in
          if ds = [] then None
          else Some (digits_val (take 3 (ds @ ''00'')), drop (length ds) r))
     | _ \<Rightarrow> Some (0, s))"

text \<open>The offset of the zone in minutes.\<close>

definition read_zone :: "string \<Rightarrow> int option" where
  "read_zone s = (case s of
       [] \<Rightarrow> None
     | c # r \<Rightarrow>
        if c = CHR ''Z'' then (if r = [] then Some 0 else None)
        else if c = CHR ''+'' \<or> c = CHR ''-'' then
          (case read_digits 2 r of None \<Rightarrow> None | Some (h, r1) \<Rightarrow>
            (case read_digits 2 (if r1 \<noteq> [] \<and> hd r1 = CHR '':'' then tl r1 else r1) of None \<Rightarrow> None
             | Some (m, r2) \<Rightarrow>
                if r2 = [] \<and> h < 24 \<and> m < 60
                then Some ((if c = CHR ''-'' then -1 else 1) * int (60 * h + m)) else None))
        else None)"

definition days_from_civil :: "int \<Rightarrow> int \<Rightarrow> int \<Rightarrow> int" where
  "days_from_civil y m d =
    (let y' = (if m \<le> 2 then y - 1 else y);
         era = y' div 400;
         yoe = y' - era * 400;
         doy = (153 * (m + (if m > 2 then -3 else 9)) + 2) div 5 + d - 1;
         doe = yoe * 365 + yoe div 4 - yoe div 100 + doy
     in era * 146097 + doe - 719468)"

definition read_seconds :: "string \<Rightarrow> (nat \<times> nat \<times> string) option" where
  "read_seconds s = (case s of
       CHR '':'' # r \<Rightarrow> (case read_digits 2 r of None \<Rightarrow> None
         | Some (sec, r1) \<Rightarrow> (case read_fraction r1 of None \<Rightarrow> None | Some (ms, r2) \<Rightarrow> Some (sec, ms, r2)))
     | _ \<Rightarrow> Some (0, 0, s))"

definition date_parse :: "string \<Rightarrow> int option" where
  "date_parse s = do {
     (y, s) \<leftarrow> read_digits 4 s;
     s \<leftarrow> read_char CHR ''-'' s;
     (mo, s) \<leftarrow> read_digits 2 s;
     s \<leftarrow> read_char CHR ''-'' s;
     (d, s) \<leftarrow> read_digits 2 s;
     s \<leftarrow> read_char CHR ''T'' s;
     (h, s) \<leftarrow> read_digits 2 s;
     s \<leftarrow> read_char CHR '':'' s;
     (mi, s) \<leftarrow> read_digits 2 s;
     (sec, ms, s) \<leftarrow> read_seconds s;
     zone \<leftarrow> read_zone s;
     if 1 \<le> mo \<and> mo \<le> 12 \<and> 1 \<le> d \<and> d \<le> 31 \<and> mi < 60 \<and> sec < 60 \<and>
        (h < 24 \<or> (h = 24 \<and> mi = 0 \<and> sec = 0 \<and> ms = 0))
     then Some ((((days_from_civil (int y) (int mo) (int d) * 24 + int h) * 60 + int mi - zone) * 60
                 + int sec) * 1000 + int ms)
     else None }"

text \<open>\<open>a <= b\<close> and \<open>a < b\<close> on parsed dates, false when either is NaN.\<close>

definition date_le :: "string \<Rightarrow> string \<Rightarrow> bool" where
  "date_le a b = (case (date_parse a, date_parse b) of (Some x, Some y) \<Rightarrow> x \<le> y | _ \<Rightarrow> False)"

definition date_less :: "string \<Rightarrow> string \<Rightarrow> bool" where
  "date_less a b = (case (date_parse a, date_parse b) of (Some x, Some y) \<Rightarrow> x < y | _ \<Rightarrow> False)"

lemma date_less_le: "date_less a b \<Longrightarrow> \<not> date_le b a"
  by (auto simp: date_less_def date_le_def split: option.splits)

end
