(* ===== verification/Schemas_Catalog.thy ===== *)
theory Schemas_Catalog
  imports Foundation
begin

text \<open>
  The catalog and evidence objects that requests register: tool capabilities,
  action types, gateway registry entries, operating envelopes, transition
  request contexts, protected path postures and bypass probes (\<open>catalog-envelope\<close>, \<open>context\<close>,
  \<open>protected-path-posture\<close> and
  \<open>bypass-probe\<close> schemas).  For each schema: the record of its fields (a nullable or
  optional field is an option), the JSON it serialises to, and the predicate
  that its \<open>parse\<close> checks.
\<close>

datatype (plugins only: code) required_protected_path_state =
    RPP_not_required
  | RPP_gateway_checked

primrec required_protected_path_state_str :: "required_protected_path_state \<Rightarrow> string" where
    "required_protected_path_state_str RPP_not_required = ''not_required''"
  | "required_protected_path_state_str RPP_gateway_checked = ''gateway_checked''"

datatype (plugins only: code) credential_custody_status =
    CCS_gateway_held
  | CCS_fixture_gateway_held
  | CCS_gateway_resolved_from_vault
  | CCS_provider_gateway_held
  | CCS_unknown
  | CCS_unsafe_agent_visible
  | CCS_unsafe_runtime_visible
  | CCS_agent_has_raw_credential
  | CCS_shared_or_unknown
  | CCS_no_mutation_credential

primrec credential_custody_status_str :: "credential_custody_status \<Rightarrow> string" where
    "credential_custody_status_str CCS_gateway_held = ''gateway_held''"
  | "credential_custody_status_str CCS_fixture_gateway_held = ''fixture_gateway_held''"
  | "credential_custody_status_str CCS_gateway_resolved_from_vault = ''gateway_resolved_from_vault''"
  | "credential_custody_status_str CCS_provider_gateway_held = ''provider_gateway_held''"
  | "credential_custody_status_str CCS_unknown = ''unknown''"
  | "credential_custody_status_str CCS_unsafe_agent_visible = ''unsafe_agent_visible''"
  | "credential_custody_status_str CCS_unsafe_runtime_visible = ''unsafe_runtime_visible''"
  | "credential_custody_status_str CCS_agent_has_raw_credential = ''agent_has_raw_credential''"
  | "credential_custody_status_str CCS_shared_or_unknown = ''shared_or_unknown''"
  | "credential_custody_status_str CCS_no_mutation_credential = ''no_mutation_credential''"

datatype (plugins only: code) gateway_enforcement_mode =
    GEM_reference_fixture
  | GEM_customer_gateway_adapter
  | GEM_provider_gateway
  | GEM_hosted_control_plane_only
  | GEM_unknown

primrec gateway_enforcement_mode_str :: "gateway_enforcement_mode \<Rightarrow> string" where
    "gateway_enforcement_mode_str GEM_reference_fixture = ''reference_fixture''"
  | "gateway_enforcement_mode_str GEM_customer_gateway_adapter = ''customer_gateway_adapter''"
  | "gateway_enforcement_mode_str GEM_provider_gateway = ''provider_gateway''"
  | "gateway_enforcement_mode_str GEM_hosted_control_plane_only = ''hosted_control_plane_only''"
  | "gateway_enforcement_mode_str GEM_unknown = ''unknown''"

datatype (plugins only: code) participant_identity_role =
    PIR_principal
  | PIR_agent

primrec participant_identity_role_str :: "participant_identity_role \<Rightarrow> string" where
    "participant_identity_role_str PIR_principal = ''principal''"
  | "participant_identity_role_str PIR_agent = ''agent''"

record participant_identity_binding =
  pib_participantRole :: "participant_identity_role"
  pib_participantRef :: "string"
  pib_identityProviderRef :: "string"
  pib_subjectRef :: "string option"
  pib_subjectDigest :: "string option"
  pib_claimsDigest :: "string option"
  pib_verificationEvidenceRef :: "string"
  pib_bindingEvidenceRef :: "string option"
  pib_issuedAt :: "string option"
  pib_expiresAt :: "string option"
  pib_authorityPosture :: "string"

definition participant_identity_binding_json :: "'a participant_identity_binding_scheme \<Rightarrow> jval" where
  "participant_identity_binding_json r = JObj (
     [(''participantRole'', JStr (participant_identity_role_str (pib_participantRole r))),
      (''participantRef'', JStr (pib_participantRef r)),
      (''identityProviderRef'', JStr (pib_identityProviderRef r)),
      (''subjectRef'', j_opt JStr (pib_subjectRef r)),
      (''subjectDigest'', j_opt JStr (pib_subjectDigest r)),
      (''claimsDigest'', j_opt JStr (pib_claimsDigest r)),
      (''verificationEvidenceRef'', JStr (pib_verificationEvidenceRef r)),
      (''bindingEvidenceRef'', j_opt JStr (pib_bindingEvidenceRef r)),
      (''issuedAt'', j_opt JStr (pib_issuedAt r)),
      (''expiresAt'', j_opt JStr (pib_expiresAt r)),
      (''authorityPosture'', JStr (pib_authorityPosture r))])"

definition participant_identity_binding_valid :: "'e env_scheme \<Rightarrow> 'a participant_identity_binding_scheme \<Rightarrow> bool" where
  "participant_identity_binding_valid E r \<longleftrightarrow>
     id_ok (pib_participantRef r) \<and>
     resource_ref_ok (pib_identityProviderRef r) \<and>
     opt_ok resource_ref_ok (pib_subjectRef r) \<and>
     opt_ok digest_ok (pib_subjectDigest r) \<and>
     opt_ok digest_ok (pib_claimsDigest r) \<and>
     resource_ref_ok (pib_verificationEvidenceRef r) \<and>
     opt_ok resource_ref_ok (pib_bindingEvidenceRef r) \<and>
     opt_ok (iso_ok E) (pib_issuedAt r) \<and>
     opt_ok (iso_ok E) (pib_expiresAt r) \<and>
     (pib_authorityPosture r) = ''evidence_only'' \<and>
     \<not> (pib_subjectRef r \<in> {None, Some []} \<and> pib_subjectDigest r = None)"

datatype (plugins only: code) capability_class =
    CC_read
  | CC_write
  | CC_network
  | CC_filesystem
  | CC_deploy
  | CC_package
  | CC_database
  | CC_unknown

primrec capability_class_str :: "capability_class \<Rightarrow> string" where
    "capability_class_str CC_read = ''read''"
  | "capability_class_str CC_write = ''write''"
  | "capability_class_str CC_network = ''network''"
  | "capability_class_str CC_filesystem = ''filesystem''"
  | "capability_class_str CC_deploy = ''deploy''"
  | "capability_class_str CC_package = ''package''"
  | "capability_class_str CC_database = ''database''"
  | "capability_class_str CC_unknown = ''unknown''"

datatype (plugins only: code) read_write_classification =
    RWC_read_only
  | RWC_consequential
  | RWC_ambiguous

primrec read_write_classification_str :: "read_write_classification \<Rightarrow> string" where
    "read_write_classification_str RWC_read_only = ''read_only''"
  | "read_write_classification_str RWC_consequential = ''consequential''"
  | "read_write_classification_str RWC_ambiguous = ''ambiguous''"

datatype (plugins only: code) consequentiality_default =
    CD_non_consequential
  | CD_consequential
  | CD_requires_classification

primrec consequentiality_default_str :: "consequentiality_default \<Rightarrow> string" where
    "consequentiality_default_str CD_non_consequential = ''non_consequential''"
  | "consequentiality_default_str CD_consequential = ''consequential''"
  | "consequentiality_default_str CD_requires_classification = ''requires_classification''"

datatype (plugins only: code) wrapper_status =
    WS_wrapped
  | WS_unwrapped
  | WS_unknown

primrec wrapper_status_str :: "wrapper_status \<Rightarrow> string" where
    "wrapper_status_str WS_wrapped = ''wrapped''"
  | "wrapper_status_str WS_unwrapped = ''unwrapped''"
  | "wrapper_status_str WS_unknown = ''unknown''"

record tool_capability = protocol_base +
  tc_toolCapabilityId :: "string"
  tc_toolCatalogId :: "string"
  tc_toolCatalogVersion :: "string"
  tc_runtimeAdapterId :: "string"
  tc_toolName :: "string"
  tc_toolNamespace :: "string"
  tc_capabilityClass :: "capability_class"
  tc_readWriteClassification :: "read_write_classification"
  tc_consequentialityDefault :: "consequentiality_default"
  tc_wrapperStatus :: "wrapper_status"
  tc_rawBypassPossible :: "bool"
  tc_inputSchemaRef :: "string"
  tc_outputSchemaRef :: "string"
  tc_secretBearingFields :: "string list"
  tc_supersededAt :: "string option"

definition tool_capability_json :: "'a tool_capability_scheme \<Rightarrow> jval" where
  "tool_capability_json r = JObj (base_fields r @
     [(''toolCapabilityId'', JStr (tc_toolCapabilityId r)),
      (''toolCatalogId'', JStr (tc_toolCatalogId r)),
      (''toolCatalogVersion'', JStr (tc_toolCatalogVersion r)),
      (''runtimeAdapterId'', JStr (tc_runtimeAdapterId r)),
      (''toolName'', JStr (tc_toolName r)),
      (''toolNamespace'', JStr (tc_toolNamespace r)),
      (''capabilityClass'', JStr (capability_class_str (tc_capabilityClass r))),
      (''readWriteClassification'', JStr (read_write_classification_str (tc_readWriteClassification r))),
      (''consequentialityDefault'', JStr (consequentiality_default_str (tc_consequentialityDefault r))),
      (''wrapperStatus'', JStr (wrapper_status_str (tc_wrapperStatus r))),
      (''rawBypassPossible'', JBool (tc_rawBypassPossible r)),
      (''inputSchemaRef'', JStr (tc_inputSchemaRef r)),
      (''outputSchemaRef'', JStr (tc_outputSchemaRef r)),
      (''secretBearingFields'', JArr (map JStr (tc_secretBearingFields r))),
      (''supersededAt'', j_opt JStr (tc_supersededAt r))])"

definition tool_capability_valid :: "'e env_scheme \<Rightarrow> 'a tool_capability_scheme \<Rightarrow> bool" where
  "tool_capability_valid E r \<longleftrightarrow>
     base_valid E r \<and>
     id_ok (tc_toolCapabilityId r) \<and>
     id_ok (tc_toolCatalogId r) \<and>
     1 \<le> length (tc_toolCatalogVersion r) \<and>
     id_ok (tc_runtimeAdapterId r) \<and>
     1 \<le> length (tc_toolName r) \<and>
     1 \<le> length (tc_toolNamespace r) \<and>
     1 \<le> length (tc_inputSchemaRef r) \<and>
     1 \<le> length (tc_outputSchemaRef r) \<and>
     opt_ok (iso_ok E) (tc_supersededAt r)"

datatype (plugins only: code) receipt_requirement =
    RQ_none
  | RQ_gate
  | RQ_mutation
  | RQ_downstream_finality

primrec receipt_requirement_str :: "receipt_requirement \<Rightarrow> string" where
    "receipt_requirement_str RQ_none = ''none''"
  | "receipt_requirement_str RQ_gate = ''gate''"
  | "receipt_requirement_str RQ_mutation = ''mutation''"
  | "receipt_requirement_str RQ_downstream_finality = ''downstream_finality''"

datatype (plugins only: code) idempotency_requirement =
    IR_required
  | IR_optional
  | IR_forbidden

primrec idempotency_requirement_str :: "idempotency_requirement \<Rightarrow> string" where
    "idempotency_requirement_str IR_required = ''required''"
  | "idempotency_requirement_str IR_optional = ''optional''"
  | "idempotency_requirement_str IR_forbidden = ''forbidden''"

record action_type = protocol_base +
  at_actionTypeId :: "string"
  at_actionCatalogId :: "string"
  at_actionCatalogVersion :: "string"
  at_actionClass :: "string"
  at_protectedSurfaceKind :: "string"
  at_requiredContractFields :: "string list"
  at_canonicalParameterSchemaRef :: "string"
  at_resourceRefSchemaRef :: "string"
  at_requiredEvidenceTypes :: "string list"
  at_allowedBoundsSchemaRef :: "string"
  at_defaultReceiptRequirement :: "receipt_requirement"
  at_defaultIdempotencyRequirement :: "idempotency_requirement"
  at_supersededAt :: "string option"

definition action_type_json :: "'a action_type_scheme \<Rightarrow> jval" where
  "action_type_json r = JObj (base_fields r @
     [(''actionTypeId'', JStr (at_actionTypeId r)),
      (''actionCatalogId'', JStr (at_actionCatalogId r)),
      (''actionCatalogVersion'', JStr (at_actionCatalogVersion r)),
      (''actionClass'', JStr (at_actionClass r)),
      (''protectedSurfaceKind'', JStr (at_protectedSurfaceKind r)),
      (''requiredContractFields'', JArr (map JStr (at_requiredContractFields r))),
      (''canonicalParameterSchemaRef'', JStr (at_canonicalParameterSchemaRef r)),
      (''resourceRefSchemaRef'', JStr (at_resourceRefSchemaRef r)),
      (''requiredEvidenceTypes'', JArr (map JStr (at_requiredEvidenceTypes r))),
      (''allowedBoundsSchemaRef'', JStr (at_allowedBoundsSchemaRef r)),
      (''defaultReceiptRequirement'', JStr (receipt_requirement_str (at_defaultReceiptRequirement r))),
      (''defaultIdempotencyRequirement'', JStr (idempotency_requirement_str (at_defaultIdempotencyRequirement r))),
      (''supersededAt'', j_opt JStr (at_supersededAt r))])"

definition action_type_valid :: "'e env_scheme \<Rightarrow> 'a action_type_scheme \<Rightarrow> bool" where
  "action_type_valid E r \<longleftrightarrow>
     base_valid E r \<and>
     id_ok (at_actionTypeId r) \<and>
     id_ok (at_actionCatalogId r) \<and>
     1 \<le> length (at_actionCatalogVersion r) \<and>
     1 \<le> length (at_actionClass r) \<and>
     1 \<le> length (at_protectedSurfaceKind r) \<and>
     list_all (\<lambda>x. 1 \<le> length x) (at_requiredContractFields r) \<and>
     1 \<le> length (at_canonicalParameterSchemaRef r) \<and>
     1 \<le> length (at_resourceRefSchemaRef r) \<and>
     1 \<le> length (at_allowedBoundsSchemaRef r) \<and>
     opt_ok (iso_ok E) (at_supersededAt r)"

datatype (plugins only: code) drift_mode =
    DM_refuse_on_drift
  | DM_allow_compatible_stricter

primrec drift_mode_str :: "drift_mode \<Rightarrow> string" where
    "drift_mode_str DM_refuse_on_drift = ''refuse_on_drift''"
  | "drift_mode_str DM_allow_compatible_stricter = ''allow_compatible_stricter''"

datatype (plugins only: code) capability_status =
    CAPS_available
  | CAPS_unavailable
  | CAPS_unknown

primrec capability_status_str :: "capability_status \<Rightarrow> string" where
    "capability_status_str CAPS_available = ''available''"
  | "capability_status_str CAPS_unavailable = ''unavailable''"
  | "capability_status_str CAPS_unknown = ''unknown''"

record gateway_registry_entry = protocol_base +
  gr_gatewayRegistryEntryId :: "string"
  gr_gatewayRegistryVersion :: "string"
  gr_gatewayId :: "string"
  gr_protectedSurfaceKind :: "string"
  gr_gatewayAdapterId :: "string"
  gr_gatewayAdapterVersion :: "string"
  gr_gateEndpointRef :: "string"
  gr_gatewayPolicyContractId :: "string"
  gr_gatewayPolicyVersion :: "string"
  gr_gatewayPolicyDriftMode :: "drift_mode"
  gr_compatiblePreviousGatewayPolicyVersions :: "string list"
  gr_acceptedActionCatalogVersions :: "string list"
  gr_resourceNamespaceRef :: "string"
  gr_canonicalizerVersion :: "string"
  gr_receiptCapabilityStatus :: "capability_status"
  gr_isolationCheckCapabilityStatus :: "capability_status"
  gr_credentialCustodyStatus :: "credential_custody_status"
  gr_enforcementMode :: "gateway_enforcement_mode"
  gr_mutationCredentialHolderRef :: "string"
  gr_gatewayAuthorityHolderRef :: "string"
  gr_supersededAt :: "string option"

definition gateway_registry_entry_json :: "'a gateway_registry_entry_scheme \<Rightarrow> jval" where
  "gateway_registry_entry_json r = JObj (base_fields r @
     [(''gatewayRegistryEntryId'', JStr (gr_gatewayRegistryEntryId r)),
      (''gatewayRegistryVersion'', JStr (gr_gatewayRegistryVersion r)),
      (''gatewayId'', JStr (gr_gatewayId r)),
      (''protectedSurfaceKind'', JStr (gr_protectedSurfaceKind r)),
      (''gatewayAdapterId'', JStr (gr_gatewayAdapterId r)),
      (''gatewayAdapterVersion'', JStr (gr_gatewayAdapterVersion r)),
      (''gateEndpointRef'', JStr (gr_gateEndpointRef r)),
      (''gatewayPolicyContractId'', JStr (gr_gatewayPolicyContractId r)),
      (''gatewayPolicyVersion'', JStr (gr_gatewayPolicyVersion r)),
      (''gatewayPolicyDriftMode'', JStr (drift_mode_str (gr_gatewayPolicyDriftMode r))),
      (''compatiblePreviousGatewayPolicyVersions'', JArr (map JStr (gr_compatiblePreviousGatewayPolicyVersions r))),
      (''acceptedActionCatalogVersions'', JArr (map JStr (gr_acceptedActionCatalogVersions r))),
      (''resourceNamespaceRef'', JStr (gr_resourceNamespaceRef r)),
      (''canonicalizerVersion'', JStr (gr_canonicalizerVersion r)),
      (''receiptCapabilityStatus'', JStr (capability_status_str (gr_receiptCapabilityStatus r))),
      (''isolationCheckCapabilityStatus'', JStr (capability_status_str (gr_isolationCheckCapabilityStatus r))),
      (''credentialCustodyStatus'', JStr (credential_custody_status_str (gr_credentialCustodyStatus r))),
      (''enforcementMode'', JStr (gateway_enforcement_mode_str (gr_enforcementMode r))),
      (''mutationCredentialHolderRef'', JStr (gr_mutationCredentialHolderRef r)),
      (''gatewayAuthorityHolderRef'', JStr (gr_gatewayAuthorityHolderRef r)),
      (''supersededAt'', j_opt JStr (gr_supersededAt r))])"

definition gateway_registry_entry_valid :: "'e env_scheme \<Rightarrow> 'a gateway_registry_entry_scheme \<Rightarrow> bool" where
  "gateway_registry_entry_valid E r \<longleftrightarrow>
     base_valid E r \<and>
     id_ok (gr_gatewayRegistryEntryId r) \<and>
     1 \<le> length (gr_gatewayRegistryVersion r) \<and>
     id_ok (gr_gatewayId r) \<and>
     1 \<le> length (gr_protectedSurfaceKind r) \<and>
     id_ok (gr_gatewayAdapterId r) \<and>
     1 \<le> length (gr_gatewayAdapterVersion r) \<and>
     1 \<le> length (gr_gateEndpointRef r) \<and>
     id_ok (gr_gatewayPolicyContractId r) \<and>
     1 \<le> length (gr_gatewayPolicyVersion r) \<and>
     list_all (\<lambda>x. 1 \<le> length x) (gr_compatiblePreviousGatewayPolicyVersions r) \<and>
     list_all (\<lambda>x. 1 \<le> length x) (gr_acceptedActionCatalogVersions r) \<and>
     1 \<le> length (gr_resourceNamespaceRef r) \<and>
     1 \<le> length (gr_canonicalizerVersion r) \<and>
     1 \<le> length (gr_mutationCredentialHolderRef r) \<and>
     1 \<le> length (gr_gatewayAuthorityHolderRef r) \<and>
     opt_ok (iso_ok E) (gr_supersededAt r)"

record operating_envelope = protocol_base +
  oe_envelopeId :: "string"
  oe_principalId :: "string"
  oe_agentId :: "string"
  oe_participantIdentityBindings :: "participant_identity_binding list"
  oe_objectiveRef :: "string"
  oe_allowedActionClasses :: "string list"
  oe_allowedGateways :: "string list"
  oe_allowedResources :: "string list"
  oe_requiredProtectedPathState :: "required_protected_path_state"
  oe_evidenceRequirements :: "string list"
  oe_policyPackRef :: "string"
  oe_policyPackVersion :: "string"
  oe_issuedAt :: "string"
  oe_expiresAt :: "string"
  oe_revokedAt :: "string option"

definition operating_envelope_json :: "'a operating_envelope_scheme \<Rightarrow> jval" where
  "operating_envelope_json r = JObj (base_fields r @
     [(''envelopeId'', JStr (oe_envelopeId r)),
      (''principalId'', JStr (oe_principalId r)),
      (''agentId'', JStr (oe_agentId r)),
      (''participantIdentityBindings'', JArr (map participant_identity_binding_json (oe_participantIdentityBindings r))),
      (''objectiveRef'', JStr (oe_objectiveRef r)),
      (''allowedActionClasses'', JArr (map JStr (oe_allowedActionClasses r))),
      (''allowedGateways'', JArr (map JStr (oe_allowedGateways r))),
      (''allowedResources'', JArr (map JStr (oe_allowedResources r))),
      (''requiredProtectedPathState'', JStr (required_protected_path_state_str (oe_requiredProtectedPathState r))),
      (''evidenceRequirements'', JArr (map JStr (oe_evidenceRequirements r))),
      (''policyPackRef'', JStr (oe_policyPackRef r)),
      (''policyPackVersion'', JStr (oe_policyPackVersion r)),
      (''issuedAt'', JStr (oe_issuedAt r)),
      (''expiresAt'', JStr (oe_expiresAt r)),
      (''revokedAt'', j_opt JStr (oe_revokedAt r))])"

definition operating_envelope_valid :: "'e env_scheme \<Rightarrow> 'a operating_envelope_scheme \<Rightarrow> bool" where
  "operating_envelope_valid E r \<longleftrightarrow>
     base_valid E r \<and>
     id_ok (oe_envelopeId r) \<and>
     id_ok (oe_principalId r) \<and>
     id_ok (oe_agentId r) \<and>
     list_all (participant_identity_binding_valid E) (oe_participantIdentityBindings r) \<and>
     1 \<le> length (oe_objectiveRef r) \<and>
     list_all (\<lambda>x. 1 \<le> length x) (oe_allowedActionClasses r) \<and>
     list_all id_ok (oe_allowedGateways r) \<and>
     list_all resource_ref_ok (oe_allowedResources r) \<and>
     1 \<le> length (oe_policyPackRef r) \<and>
     1 \<le> length (oe_policyPackVersion r) \<and>
     iso_ok E (oe_issuedAt r) \<and>
     iso_ok E (oe_expiresAt r) \<and>
     opt_ok (iso_ok E) (oe_revokedAt r) \<and>
     list_all (\<lambda>b. pib_participantRef b = (case pib_participantRole b of PIR_principal \<Rightarrow> oe_principalId r | PIR_agent \<Rightarrow> oe_agentId r)) (oe_participantIdentityBindings r)"

datatype (plugins only: code) caller_custody_role =
    CCR_control_plane
  | CCR_runtime_evidence
  | CCR_gateway_custody
  | CCR_review_custody

primrec caller_custody_role_str :: "caller_custody_role \<Rightarrow> string" where
    "caller_custody_role_str CCR_control_plane = ''control_plane''"
  | "caller_custody_role_str CCR_runtime_evidence = ''runtime_evidence''"
  | "caller_custody_role_str CCR_gateway_custody = ''gateway_custody''"
  | "caller_custody_role_str CCR_review_custody = ''review_custody''"

record transition_request_context = protocol_base +
  trc_transitionRequestContextId :: "string"
  trc_protocolVersionSeen :: "string"
  trc_requestIdentity :: "string"
  trc_originatingIdentityDigest :: "string option"
  trc_originatingIdentityRef :: "string option"
  trc_callerCustodyRole :: "caller_custody_role"
  trc_callerIdentityRef :: "string option"
  trc_callerSubjectDigest :: "string option"
  trc_callerTenantId :: "string option"
  trc_callerOrganizationId :: "string option"
  trc_callerIdentityClaimsDigest :: "string option"
  trc_authProviderRef :: "string option"
  trc_authSessionDigest :: "string option"
  trc_serviceCredentialDigest :: "string option"
  trc_revocationEpochRef :: "string option"
  trc_callerIdentityIssuedAt :: "string option"
  trc_callerIdentityExpiresAt :: "string option"
  trc_transitionName :: "string"
  trc_routePattern :: "string"
  trc_requestDigest :: "string"
  trc_acceptedAt :: "string"
  trc_requestContextDigest :: "string"

definition transition_request_context_json :: "'a transition_request_context_scheme \<Rightarrow> jval" where
  "transition_request_context_json r = JObj (base_fields r @
     [(''transitionRequestContextId'', JStr (trc_transitionRequestContextId r)),
      (''protocolVersionSeen'', JStr (trc_protocolVersionSeen r)),
      (''requestIdentity'', JStr (trc_requestIdentity r)),
      (''originatingIdentityDigest'', j_opt JStr (trc_originatingIdentityDigest r)),
      (''originatingIdentityRef'', j_opt JStr (trc_originatingIdentityRef r)),
      (''callerCustodyRole'', JStr (caller_custody_role_str (trc_callerCustodyRole r))),
      (''callerIdentityRef'', j_opt JStr (trc_callerIdentityRef r)),
      (''callerSubjectDigest'', j_opt JStr (trc_callerSubjectDigest r)),
      (''callerTenantId'', j_opt JStr (trc_callerTenantId r)),
      (''callerOrganizationId'', j_opt JStr (trc_callerOrganizationId r)),
      (''callerIdentityClaimsDigest'', j_opt JStr (trc_callerIdentityClaimsDigest r)),
      (''authProviderRef'', j_opt JStr (trc_authProviderRef r)),
      (''authSessionDigest'', j_opt JStr (trc_authSessionDigest r)),
      (''serviceCredentialDigest'', j_opt JStr (trc_serviceCredentialDigest r)),
      (''revocationEpochRef'', j_opt JStr (trc_revocationEpochRef r)),
      (''callerIdentityIssuedAt'', j_opt JStr (trc_callerIdentityIssuedAt r)),
      (''callerIdentityExpiresAt'', j_opt JStr (trc_callerIdentityExpiresAt r)),
      (''transitionName'', JStr (trc_transitionName r)),
      (''routePattern'', JStr (trc_routePattern r)),
      (''requestDigest'', JStr (trc_requestDigest r)),
      (''acceptedAt'', JStr (trc_acceptedAt r)),
      (''requestContextDigest'', JStr (trc_requestContextDigest r))])"

definition transition_request_context_valid :: "'e env_scheme \<Rightarrow> 'a transition_request_context_scheme \<Rightarrow> bool" where
  "transition_request_context_valid E r \<longleftrightarrow>
     base_valid E r \<and>
     id_ok (trc_transitionRequestContextId r) \<and>
     1 \<le> length (trc_protocolVersionSeen r) \<and> length (trc_protocolVersionSeen r) \<le> 40 \<and>
     1 \<le> length (trc_requestIdentity r) \<and> length (trc_requestIdentity r) \<le> 200 \<and>
     opt_ok digest_ok (trc_originatingIdentityDigest r) \<and>
     opt_ok (\<lambda>x. 1 \<le> length x \<and> length x \<le> 500) (trc_originatingIdentityRef r) \<and>
     opt_ok (\<lambda>x. 1 \<le> length x \<and> length x \<le> 500) (trc_callerIdentityRef r) \<and>
     opt_ok digest_ok (trc_callerSubjectDigest r) \<and>
     opt_ok id_ok (trc_callerTenantId r) \<and>
     opt_ok id_ok (trc_callerOrganizationId r) \<and>
     opt_ok digest_ok (trc_callerIdentityClaimsDigest r) \<and>
     opt_ok (\<lambda>x. 1 \<le> length x \<and> length x \<le> 500) (trc_authProviderRef r) \<and>
     opt_ok digest_ok (trc_authSessionDigest r) \<and>
     opt_ok digest_ok (trc_serviceCredentialDigest r) \<and>
     opt_ok (\<lambda>x. 1 \<le> length x \<and> length x \<le> 500) (trc_revocationEpochRef r) \<and>
     opt_ok (iso_ok E) (trc_callerIdentityIssuedAt r) \<and>
     opt_ok (iso_ok E) (trc_callerIdentityExpiresAt r) \<and>
     1 \<le> length (trc_transitionName r) \<and> length (trc_transitionName r) \<le> 160 \<and>
     1 \<le> length (trc_routePattern r) \<and> length (trc_routePattern r) \<le> 200 \<and>
     digest_ok (trc_requestDigest r) \<and>
     iso_ok E (trc_acceptedAt r) \<and>
     digest_ok (trc_requestContextDigest r)"

datatype (plugins only: code) protected_path_state =
    PPS_gateway_checked
  | PPS_advisory
  | PPS_bypass_risk
  | PPS_blind
  | PPS_fixture_only

primrec protected_path_state_str :: "protected_path_state \<Rightarrow> string" where
    "protected_path_state_str PPS_gateway_checked = ''gateway_checked''"
  | "protected_path_state_str PPS_advisory = ''advisory''"
  | "protected_path_state_str PPS_bypass_risk = ''bypass_risk''"
  | "protected_path_state_str PPS_blind = ''blind''"
  | "protected_path_state_str PPS_fixture_only = ''fixture_only''"

datatype (plugins only: code) raw_sibling_tool_status =
    RSTS_absent
  | RSTS_blocked
  | RSTS_present
  | RSTS_unknown

primrec raw_sibling_tool_status_str :: "raw_sibling_tool_status \<Rightarrow> string" where
    "raw_sibling_tool_status_str RSTS_absent = ''absent''"
  | "raw_sibling_tool_status_str RSTS_blocked = ''blocked''"
  | "raw_sibling_tool_status_str RSTS_present = ''present''"
  | "raw_sibling_tool_status_str RSTS_unknown = ''unknown''"

datatype (plugins only: code) posture_source_authority =
    PSA_runtime_probe
  | PSA_gateway_probe
  | PSA_operator_attestation
  | PSA_conformance_fixture
  | PSA_hosted_monitor
  | PSA_unknown

primrec posture_source_authority_str :: "posture_source_authority \<Rightarrow> string" where
    "posture_source_authority_str PSA_runtime_probe = ''runtime_probe''"
  | "posture_source_authority_str PSA_gateway_probe = ''gateway_probe''"
  | "posture_source_authority_str PSA_operator_attestation = ''operator_attestation''"
  | "posture_source_authority_str PSA_conformance_fixture = ''conformance_fixture''"
  | "posture_source_authority_str PSA_hosted_monitor = ''hosted_monitor''"
  | "posture_source_authority_str PSA_unknown = ''unknown''"

datatype (plugins only: code) bypass_probe_kind =
    BPK_credential_custody
  | BPK_raw_sibling_blocking
  | BPK_mcp_direct_call_blocking
  | BPK_token_passthrough_blocking
  | BPK_wrapper_drift
  | BPK_failure_closed

primrec bypass_probe_kind_str :: "bypass_probe_kind \<Rightarrow> string" where
    "bypass_probe_kind_str BPK_credential_custody = ''credential_custody''"
  | "bypass_probe_kind_str BPK_raw_sibling_blocking = ''raw_sibling_blocking''"
  | "bypass_probe_kind_str BPK_mcp_direct_call_blocking = ''mcp_direct_call_blocking''"
  | "bypass_probe_kind_str BPK_token_passthrough_blocking = ''token_passthrough_blocking''"
  | "bypass_probe_kind_str BPK_wrapper_drift = ''wrapper_drift''"
  | "bypass_probe_kind_str BPK_failure_closed = ''failure_closed''"

datatype (plugins only: code) bypass_probe_outcome =
    BPO_passed
  | BPO_failed
  | BPO_inconclusive

primrec bypass_probe_outcome_str :: "bypass_probe_outcome \<Rightarrow> string" where
    "bypass_probe_outcome_str BPO_passed = ''passed''"
  | "bypass_probe_outcome_str BPO_failed = ''failed''"
  | "bypass_probe_outcome_str BPO_inconclusive = ''inconclusive''"

record protected_path_bypass_probe_coverage =
  ppc_bypassProbeId :: "string"
  ppc_probeKind :: "bypass_probe_kind"
  ppc_probeOutcome :: "bypass_probe_outcome"
  ppc_sourceAuthority :: "posture_source_authority"
  ppc_probeDigest :: "string"

definition protected_path_bypass_probe_coverage_json :: "'a protected_path_bypass_probe_coverage_scheme \<Rightarrow> jval" where
  "protected_path_bypass_probe_coverage_json r = JObj (
     [(''bypassProbeId'', JStr (ppc_bypassProbeId r)),
      (''probeKind'', JStr (bypass_probe_kind_str (ppc_probeKind r))),
      (''probeOutcome'', JStr (bypass_probe_outcome_str (ppc_probeOutcome r))),
      (''sourceAuthority'', JStr (posture_source_authority_str (ppc_sourceAuthority r))),
      (''probeDigest'', JStr (ppc_probeDigest r))])"

definition protected_path_bypass_probe_coverage_valid :: "'e env_scheme \<Rightarrow> 'a protected_path_bypass_probe_coverage_scheme \<Rightarrow> bool" where
  "protected_path_bypass_probe_coverage_valid E r \<longleftrightarrow>
     id_ok (ppc_bypassProbeId r) \<and>
     digest_ok (ppc_probeDigest r)"

record protected_path_posture = protocol_base +
  pp_protectedPathPostureId :: "string"
  pp_postureScopeKey :: "string"
  pp_runtimeAdapterId :: "string"
  pp_gatewayId :: "string"
  pp_actionClass :: "string"
  pp_resourceRef :: "string"
  pp_protectedSurfaceKind :: "string"
  pp_postureState :: "protected_path_state"
  pp_credentialCustodyStatus :: "credential_custody_status"
  pp_rawSiblingToolStatus :: "raw_sibling_tool_status"
  pp_sourceAuthority :: "posture_source_authority"
  pp_reasonCodes :: "string list"
  pp_evidenceRefs :: "string list"
  pp_bypassProbeIds :: "string list"
  pp_bypassProbeDigests :: "string list"
  pp_bypassProbeCoverage :: "protected_path_bypass_probe_coverage list"
  pp_observedAt :: "string"
  pp_expiresAt :: "string"
  pp_postureDigest :: "string"

definition protected_path_posture_json :: "'a protected_path_posture_scheme \<Rightarrow> jval" where
  "protected_path_posture_json r = JObj (base_fields r @
     [(''protectedPathPostureId'', JStr (pp_protectedPathPostureId r)),
      (''postureScopeKey'', JStr (pp_postureScopeKey r)),
      (''runtimeAdapterId'', JStr (pp_runtimeAdapterId r)),
      (''gatewayId'', JStr (pp_gatewayId r)),
      (''actionClass'', JStr (pp_actionClass r)),
      (''resourceRef'', JStr (pp_resourceRef r)),
      (''protectedSurfaceKind'', JStr (pp_protectedSurfaceKind r)),
      (''postureState'', JStr (protected_path_state_str (pp_postureState r))),
      (''credentialCustodyStatus'', JStr (credential_custody_status_str (pp_credentialCustodyStatus r))),
      (''rawSiblingToolStatus'', JStr (raw_sibling_tool_status_str (pp_rawSiblingToolStatus r))),
      (''sourceAuthority'', JStr (posture_source_authority_str (pp_sourceAuthority r))),
      (''reasonCodes'', JArr (map JStr (pp_reasonCodes r))),
      (''evidenceRefs'', JArr (map JStr (pp_evidenceRefs r))),
      (''bypassProbeIds'', JArr (map JStr (pp_bypassProbeIds r))),
      (''bypassProbeDigests'', JArr (map JStr (pp_bypassProbeDigests r))),
      (''bypassProbeCoverage'', JArr (map protected_path_bypass_probe_coverage_json (pp_bypassProbeCoverage r))),
      (''observedAt'', JStr (pp_observedAt r)),
      (''expiresAt'', JStr (pp_expiresAt r)),
      (''postureDigest'', JStr (pp_postureDigest r))])"

definition protected_path_posture_valid :: "'e env_scheme \<Rightarrow> 'a protected_path_posture_scheme \<Rightarrow> bool" where
  "protected_path_posture_valid E r \<longleftrightarrow>
     base_valid E r \<and>
     id_ok (pp_protectedPathPostureId r) \<and>
     1 \<le> length (pp_postureScopeKey r) \<and>
     id_ok (pp_runtimeAdapterId r) \<and>
     id_ok (pp_gatewayId r) \<and>
     1 \<le> length (pp_actionClass r) \<and>
     resource_ref_ok (pp_resourceRef r) \<and>
     1 \<le> length (pp_protectedSurfaceKind r) \<and>
     list_all reason_code_ok (pp_reasonCodes r) \<and>
     list_all (\<lambda>x. 1 \<le> length x) (pp_evidenceRefs r) \<and>
     list_all id_ok (pp_bypassProbeIds r) \<and>
     list_all digest_ok (pp_bypassProbeDigests r) \<and>
     list_all (protected_path_bypass_probe_coverage_valid E) (pp_bypassProbeCoverage r) \<and>
     iso_ok E (pp_observedAt r) \<and>
     iso_ok E (pp_expiresAt r) \<and>
     digest_ok (pp_postureDigest r)"

record bypass_probe = protocol_base +
  bp_bypassProbeId :: "string"
  bp_postureScopeKey :: "string"
  bp_runtimeAdapterId :: "string"
  bp_gatewayId :: "string"
  bp_actionClass :: "string"
  bp_resourceRef :: "string"
  bp_protectedSurfaceKind :: "string"
  bp_probeKind :: "bypass_probe_kind"
  bp_probeOutcome :: "bypass_probe_outcome"
  bp_sourceAuthority :: "posture_source_authority"
  bp_reasonCodes :: "string list"
  bp_evidenceRefs :: "string list"
  bp_observedAt :: "string"
  bp_expiresAt :: "string"
  bp_probeDigest :: "string"

definition bypass_probe_json :: "'a bypass_probe_scheme \<Rightarrow> jval" where
  "bypass_probe_json r = JObj (base_fields r @
     [(''bypassProbeId'', JStr (bp_bypassProbeId r)),
      (''postureScopeKey'', JStr (bp_postureScopeKey r)),
      (''runtimeAdapterId'', JStr (bp_runtimeAdapterId r)),
      (''gatewayId'', JStr (bp_gatewayId r)),
      (''actionClass'', JStr (bp_actionClass r)),
      (''resourceRef'', JStr (bp_resourceRef r)),
      (''protectedSurfaceKind'', JStr (bp_protectedSurfaceKind r)),
      (''probeKind'', JStr (bypass_probe_kind_str (bp_probeKind r))),
      (''probeOutcome'', JStr (bypass_probe_outcome_str (bp_probeOutcome r))),
      (''sourceAuthority'', JStr (posture_source_authority_str (bp_sourceAuthority r))),
      (''reasonCodes'', JArr (map JStr (bp_reasonCodes r))),
      (''evidenceRefs'', JArr (map JStr (bp_evidenceRefs r))),
      (''observedAt'', JStr (bp_observedAt r)),
      (''expiresAt'', JStr (bp_expiresAt r)),
      (''probeDigest'', JStr (bp_probeDigest r))])"

definition bypass_probe_valid :: "'e env_scheme \<Rightarrow> 'a bypass_probe_scheme \<Rightarrow> bool" where
  "bypass_probe_valid E r \<longleftrightarrow>
     base_valid E r \<and>
     id_ok (bp_bypassProbeId r) \<and>
     1 \<le> length (bp_postureScopeKey r) \<and>
     id_ok (bp_runtimeAdapterId r) \<and>
     id_ok (bp_gatewayId r) \<and>
     1 \<le> length (bp_actionClass r) \<and>
     resource_ref_ok (bp_resourceRef r) \<and>
     1 \<le> length (bp_protectedSurfaceKind r) \<and>
     list_all reason_code_ok (bp_reasonCodes r) \<and>
     list_all (\<lambda>x. 1 \<le> length x) (bp_evidenceRefs r) \<and>
     iso_ok E (bp_observedAt r) \<and>
     iso_ok E (bp_expiresAt r) \<and>
     digest_ok (bp_probeDigest r)"

end
