(* ===== verification/Schemas_Evidence.thy ===== *)
theory Schemas_Evidence
  imports Foundation
begin

text \<open>
  Runtime executions and generated execution graphs (\<open>runtime-evidence\<close> and
  \<open>generated-execution-graph\<close> schemas): records, JSON and schema predicates.
\<close>

datatype (plugins only: code) runtime_execution_shape =
    RES_single_tool_call
  | RES_tool_dispatch_chain
  | RES_generated_mcp_tool_chain
  | RES_codemode_block
  | RES_shell_exec_block
  | RES_browser_action
  | RES_scheduled_job
  | RES_gateway_only
  | RES_unknown

primrec runtime_execution_shape_str :: "runtime_execution_shape \<Rightarrow> string" where
    "runtime_execution_shape_str RES_single_tool_call = ''single_tool_call''"
  | "runtime_execution_shape_str RES_tool_dispatch_chain = ''tool_dispatch_chain''"
  | "runtime_execution_shape_str RES_generated_mcp_tool_chain = ''generated_mcp_tool_chain''"
  | "runtime_execution_shape_str RES_codemode_block = ''codemode_block''"
  | "runtime_execution_shape_str RES_shell_exec_block = ''shell_exec_block''"
  | "runtime_execution_shape_str RES_browser_action = ''browser_action''"
  | "runtime_execution_shape_str RES_scheduled_job = ''scheduled_job''"
  | "runtime_execution_shape_str RES_gateway_only = ''gateway_only''"
  | "runtime_execution_shape_str RES_unknown = ''unknown''"

datatype (plugins only: code) runtime_posture =
    RP_prompt_guidance
  | RP_hook_assisted
  | RP_protected_capability
  | RP_bounded_generation
  | RP_gateway_enforced_only
  | RP_hosted_control_plane
  | RP_unknown

primrec runtime_posture_str :: "runtime_posture \<Rightarrow> string" where
    "runtime_posture_str RP_prompt_guidance = ''prompt_guidance''"
  | "runtime_posture_str RP_hook_assisted = ''hook_assisted''"
  | "runtime_posture_str RP_protected_capability = ''protected_capability''"
  | "runtime_posture_str RP_bounded_generation = ''bounded_generation''"
  | "runtime_posture_str RP_gateway_enforced_only = ''gateway_enforced_only''"
  | "runtime_posture_str RP_hosted_control_plane = ''hosted_control_plane''"
  | "runtime_posture_str RP_unknown = ''unknown''"

datatype (plugins only: code) runtime_access_posture =
    RAP_isolated
  | RAP_controlled_outbound
  | RAP_filesystem_available
  | RAP_network_available
  | RAP_secrets_available
  | RAP_unknown

primrec runtime_access_posture_str :: "runtime_access_posture \<Rightarrow> string" where
    "runtime_access_posture_str RAP_isolated = ''isolated''"
  | "runtime_access_posture_str RAP_controlled_outbound = ''controlled_outbound''"
  | "runtime_access_posture_str RAP_filesystem_available = ''filesystem_available''"
  | "runtime_access_posture_str RAP_network_available = ''network_available''"
  | "runtime_access_posture_str RAP_secrets_available = ''secrets_available''"
  | "runtime_access_posture_str RAP_unknown = ''unknown''"

record runtime_execution = protocol_base +
  rx_runtimeExecutionId :: "string"
  rx_principalIntentRef :: "string"
  rx_principalId :: "string"
  rx_agentId :: "string"
  rx_runId :: "string"
  rx_runtimeAdapterId :: "string"
  rx_executionShape :: "runtime_execution_shape"
  rx_runtimePosture :: "runtime_posture"
  rx_executionBlockRef :: "string"
  rx_executionBlockDigest :: "string"
  rx_generatedCodeOrSpecRefs :: "string list"
  rx_allowedToolCapabilityIds :: "string list"
  rx_observedToolCallRefs :: "string list"
  rx_observedConsequentialCallCount :: "int"
  rx_loopDetected :: "bool"
  rx_retryDetected :: "bool"
  rx_branchDetected :: "bool"
  rx_dynamicToolConstructionDetected :: "bool"
  rx_unobservedRegionRefs :: "string list"
  rx_accessPosture :: "runtime_access_posture"
  rx_uncertaintyMarkers :: "string list"
  rx_refusalReasonCodes :: "string list"
  rx_evidenceRefs :: "string list"
  rx_runtimeExecutionDigest :: "string"

definition runtime_execution_json :: "'a runtime_execution_scheme \<Rightarrow> jval" where
  "runtime_execution_json r = JObj (base_fields r @
     [(''runtimeExecutionId'', JStr (rx_runtimeExecutionId r)),
      (''principalIntentRef'', JStr (rx_principalIntentRef r)),
      (''principalId'', JStr (rx_principalId r)),
      (''agentId'', JStr (rx_agentId r)),
      (''runId'', JStr (rx_runId r)),
      (''runtimeAdapterId'', JStr (rx_runtimeAdapterId r)),
      (''executionShape'', JStr (runtime_execution_shape_str (rx_executionShape r))),
      (''runtimePosture'', JStr (runtime_posture_str (rx_runtimePosture r))),
      (''executionBlockRef'', JStr (rx_executionBlockRef r)),
      (''executionBlockDigest'', JStr (rx_executionBlockDigest r)),
      (''generatedCodeOrSpecRefs'', JArr (map JStr (rx_generatedCodeOrSpecRefs r))),
      (''allowedToolCapabilityIds'', JArr (map JStr (rx_allowedToolCapabilityIds r))),
      (''observedToolCallRefs'', JArr (map JStr (rx_observedToolCallRefs r))),
      (''observedConsequentialCallCount'', JInt (rx_observedConsequentialCallCount r)),
      (''loopDetected'', JBool (rx_loopDetected r)),
      (''retryDetected'', JBool (rx_retryDetected r)),
      (''branchDetected'', JBool (rx_branchDetected r)),
      (''dynamicToolConstructionDetected'', JBool (rx_dynamicToolConstructionDetected r)),
      (''unobservedRegionRefs'', JArr (map JStr (rx_unobservedRegionRefs r))),
      (''accessPosture'', JStr (runtime_access_posture_str (rx_accessPosture r))),
      (''uncertaintyMarkers'', JArr (map JStr (rx_uncertaintyMarkers r))),
      (''refusalReasonCodes'', JArr (map JStr (rx_refusalReasonCodes r))),
      (''evidenceRefs'', JArr (map JStr (rx_evidenceRefs r))),
      (''runtimeExecutionDigest'', JStr (rx_runtimeExecutionDigest r))])"

definition runtime_execution_valid :: "'e env_scheme \<Rightarrow> 'a runtime_execution_scheme \<Rightarrow> bool" where
  "runtime_execution_valid E r \<longleftrightarrow>
     base_valid E r \<and>
     id_ok (rx_runtimeExecutionId r) \<and>
     1 \<le> length (rx_principalIntentRef r) \<and>
     id_ok (rx_principalId r) \<and>
     id_ok (rx_agentId r) \<and>
     id_ok (rx_runId r) \<and>
     id_ok (rx_runtimeAdapterId r) \<and>
     1 \<le> length (rx_executionBlockRef r) \<and>
     digest_ok (rx_executionBlockDigest r) \<and>
     list_all id_ok (rx_allowedToolCapabilityIds r) \<and>
     list_all (\<lambda>x. 1 \<le> length x) (rx_observedToolCallRefs r) \<and>
     0 \<le> (rx_observedConsequentialCallCount r) \<and>
     list_all (\<lambda>x. 1 \<le> length x) (rx_unobservedRegionRefs r) \<and>
     list_all (\<lambda>x. 1 \<le> length x) (rx_uncertaintyMarkers r) \<and>
     list_all reason_code_ok (rx_refusalReasonCodes r) \<and>
     list_all (\<lambda>x. 1 \<le> length x) (rx_evidenceRefs r) \<and>
     digest_ok (rx_runtimeExecutionDigest r)"

datatype (plugins only: code) generated_execution_coverage_status =
    GECS_fully_covered_no_unsupported_nodes
  | GECS_nonconsequential_only
  | GECS_contains_refusal
  | GECS_contains_coverage_gap
  | GECS_contains_bypass_risk
  | GECS_unsupported_or_ambiguous
  | GECS_unknown

primrec generated_execution_coverage_status_str :: "generated_execution_coverage_status \<Rightarrow> string" where
    "generated_execution_coverage_status_str GECS_fully_covered_no_unsupported_nodes = ''fully_covered_no_unsupported_nodes''"
  | "generated_execution_coverage_status_str GECS_nonconsequential_only = ''nonconsequential_only''"
  | "generated_execution_coverage_status_str GECS_contains_refusal = ''contains_refusal''"
  | "generated_execution_coverage_status_str GECS_contains_coverage_gap = ''contains_coverage_gap''"
  | "generated_execution_coverage_status_str GECS_contains_bypass_risk = ''contains_bypass_risk''"
  | "generated_execution_coverage_status_str GECS_unsupported_or_ambiguous = ''unsupported_or_ambiguous''"
  | "generated_execution_coverage_status_str GECS_unknown = ''unknown''"

datatype (plugins only: code) generated_execution_node_kind =
    GENK_shell_command
  | GENK_codemode_action
  | GENK_observer_event
  | GENK_hidden_trigger
  | GENK_unknown

primrec generated_execution_node_kind_str :: "generated_execution_node_kind \<Rightarrow> string" where
    "generated_execution_node_kind_str GENK_shell_command = ''shell_command''"
  | "generated_execution_node_kind_str GENK_codemode_action = ''codemode_action''"
  | "generated_execution_node_kind_str GENK_observer_event = ''observer_event''"
  | "generated_execution_node_kind_str GENK_hidden_trigger = ''hidden_trigger''"
  | "generated_execution_node_kind_str GENK_unknown = ''unknown''"

datatype (plugins only: code) generated_execution_node_classification =
    GENC_candidate_action_eligible
  | GENC_read_only
  | GENC_nonconsequential
  | GENC_unsupported
  | GENC_ambiguous
  | GENC_bypass_risk
  | GENC_hidden_trigger
  | GENC_observer_only

primrec generated_execution_node_classification_str :: "generated_execution_node_classification \<Rightarrow> string" where
    "generated_execution_node_classification_str GENC_candidate_action_eligible = ''candidate_action_eligible''"
  | "generated_execution_node_classification_str GENC_read_only = ''read_only''"
  | "generated_execution_node_classification_str GENC_nonconsequential = ''nonconsequential''"
  | "generated_execution_node_classification_str GENC_unsupported = ''unsupported''"
  | "generated_execution_node_classification_str GENC_ambiguous = ''ambiguous''"
  | "generated_execution_node_classification_str GENC_bypass_risk = ''bypass_risk''"
  | "generated_execution_node_classification_str GENC_hidden_trigger = ''hidden_trigger''"
  | "generated_execution_node_classification_str GENC_observer_only = ''observer_only''"

datatype (plugins only: code) graph_issuer_authority =
    GIA_host_runtime_adapter
  | GIA_kernel_fixture
  | GIA_conformance_fixture

primrec graph_issuer_authority_str :: "graph_issuer_authority \<Rightarrow> string" where
    "graph_issuer_authority_str GIA_host_runtime_adapter = ''host_runtime_adapter''"
  | "graph_issuer_authority_str GIA_kernel_fixture = ''kernel_fixture''"
  | "graph_issuer_authority_str GIA_conformance_fixture = ''conformance_fixture''"

datatype (plugins only: code) graph_truncation_status =
    GTS_complete
  | GTS_truncated
  | GTS_over_limit
  | GTS_unknown

primrec graph_truncation_status_str :: "graph_truncation_status \<Rightarrow> string" where
    "graph_truncation_status_str GTS_complete = ''complete''"
  | "graph_truncation_status_str GTS_truncated = ''truncated''"
  | "graph_truncation_status_str GTS_over_limit = ''over_limit''"
  | "graph_truncation_status_str GTS_unknown = ''unknown''"

datatype (plugins only: code) graph_redaction_status =
    GRS_redacted
  | GRS_digest_only
  | GRS_secret_refs_only
  | GRS_raw_material_present
  | GRS_unknown

primrec graph_redaction_status_str :: "graph_redaction_status \<Rightarrow> string" where
    "graph_redaction_status_str GRS_redacted = ''redacted''"
  | "graph_redaction_status_str GRS_digest_only = ''digest_only''"
  | "graph_redaction_status_str GRS_secret_refs_only = ''secret_refs_only''"
  | "graph_redaction_status_str GRS_raw_material_present = ''raw_material_present''"
  | "graph_redaction_status_str GRS_unknown = ''unknown''"

datatype (plugins only: code) command_risk_classifier_posture =
    CRCP_absent
  | CRCP_advisory_allow
  | CRCP_advisory_no_match
  | CRCP_deny
  | CRCP_warn
  | CRCP_fail_open
  | CRCP_allowlist
  | CRCP_allow_once
  | CRCP_bypass_detected
  | CRCP_skipped
  | CRCP_unknown

primrec command_risk_classifier_posture_str :: "command_risk_classifier_posture \<Rightarrow> string" where
    "command_risk_classifier_posture_str CRCP_absent = ''absent''"
  | "command_risk_classifier_posture_str CRCP_advisory_allow = ''advisory_allow''"
  | "command_risk_classifier_posture_str CRCP_advisory_no_match = ''advisory_no_match''"
  | "command_risk_classifier_posture_str CRCP_deny = ''deny''"
  | "command_risk_classifier_posture_str CRCP_warn = ''warn''"
  | "command_risk_classifier_posture_str CRCP_fail_open = ''fail_open''"
  | "command_risk_classifier_posture_str CRCP_allowlist = ''allowlist''"
  | "command_risk_classifier_posture_str CRCP_allow_once = ''allow_once''"
  | "command_risk_classifier_posture_str CRCP_bypass_detected = ''bypass_detected''"
  | "command_risk_classifier_posture_str CRCP_skipped = ''skipped''"
  | "command_risk_classifier_posture_str CRCP_unknown = ''unknown''"

datatype (plugins only: code) graph_edge_kind =
    GEK_sequence
  | GEK_branch
  | GEK_retry
  | GEK_callback
  | GEK_watcher
  | GEK_unknown

primrec graph_edge_kind_str :: "graph_edge_kind \<Rightarrow> string" where
    "graph_edge_kind_str GEK_sequence = ''sequence''"
  | "graph_edge_kind_str GEK_branch = ''branch''"
  | "graph_edge_kind_str GEK_retry = ''retry''"
  | "graph_edge_kind_str GEK_callback = ''callback''"
  | "graph_edge_kind_str GEK_watcher = ''watcher''"
  | "graph_edge_kind_str GEK_unknown = ''unknown''"

record generated_execution_graph_edge =
  gxe_fromNodeId :: "string"
  gxe_toNodeId :: "string"
  gxe_edgeKind :: "graph_edge_kind"

definition generated_execution_graph_edge_json :: "'a generated_execution_graph_edge_scheme \<Rightarrow> jval" where
  "generated_execution_graph_edge_json r = JObj (
     [(''fromNodeId'', JStr (gxe_fromNodeId r)),
      (''toNodeId'', JStr (gxe_toNodeId r)),
      (''edgeKind'', JStr (graph_edge_kind_str (gxe_edgeKind r)))])"

definition generated_execution_graph_edge_valid :: "'e env_scheme \<Rightarrow> 'a generated_execution_graph_edge_scheme \<Rightarrow> bool" where
  "generated_execution_graph_edge_valid E r \<longleftrightarrow>
     id_ok (gxe_fromNodeId r) \<and>
     id_ok (gxe_toNodeId r)"

record generated_execution_node =
  gxn_nodeId :: "string"
  gxn_nodeKind :: "generated_execution_node_kind"
  gxn_classification :: "generated_execution_node_classification"
  gxn_actionClass :: "string option"
  gxn_toolCapabilityId :: "string option"
  gxn_actionTypeId :: "string option"
  gxn_gatewayRegistryEntryId :: "string option"
  gxn_resourceRef :: "string option"
  gxn_paramsDigest :: "string option"
  gxn_nodeDigest :: "string"
  gxn_nodeGatewayBindingDigest :: "string option"
  gxn_sourceSpanDigest :: "string option"
  gxn_redactedArgvSummary :: "string list"
  gxn_argvDigest :: "string option"
  gxn_argvRedactionStatus :: "graph_redaction_status"
  gxn_stdinDigest :: "string option"
  gxn_stdinRedactionStatus :: "graph_redaction_status"
  gxn_envAllowlistDigest :: "string option"
  gxn_rawSecretMaterialDetected :: "bool"
  gxn_commandRiskClassifierRefs :: "string list"
  gxn_commandRiskClassifierPosture :: "command_risk_classifier_posture"
  gxn_commandRiskRuleRefs :: "string list"
  gxn_commandRiskBypassRefs :: "string list"
  gxn_unsupportedReasonCodes :: "string list"

definition generated_execution_node_json :: "'a generated_execution_node_scheme \<Rightarrow> jval" where
  "generated_execution_node_json r = JObj (
     [(''nodeId'', JStr (gxn_nodeId r)),
      (''nodeKind'', JStr (generated_execution_node_kind_str (gxn_nodeKind r))),
      (''classification'', JStr (generated_execution_node_classification_str (gxn_classification r))),
      (''actionClass'', j_opt JStr (gxn_actionClass r)),
      (''toolCapabilityId'', j_opt JStr (gxn_toolCapabilityId r)),
      (''actionTypeId'', j_opt JStr (gxn_actionTypeId r)),
      (''gatewayRegistryEntryId'', j_opt JStr (gxn_gatewayRegistryEntryId r)),
      (''resourceRef'', j_opt JStr (gxn_resourceRef r)),
      (''paramsDigest'', j_opt JStr (gxn_paramsDigest r)),
      (''nodeDigest'', JStr (gxn_nodeDigest r)),
      (''nodeGatewayBindingDigest'', j_opt JStr (gxn_nodeGatewayBindingDigest r)),
      (''sourceSpanDigest'', j_opt JStr (gxn_sourceSpanDigest r)),
      (''redactedArgvSummary'', JArr (map JStr (gxn_redactedArgvSummary r))),
      (''argvDigest'', j_opt JStr (gxn_argvDigest r)),
      (''argvRedactionStatus'', JStr (graph_redaction_status_str (gxn_argvRedactionStatus r))),
      (''stdinDigest'', j_opt JStr (gxn_stdinDigest r)),
      (''stdinRedactionStatus'', JStr (graph_redaction_status_str (gxn_stdinRedactionStatus r))),
      (''envAllowlistDigest'', j_opt JStr (gxn_envAllowlistDigest r)),
      (''rawSecretMaterialDetected'', JBool (gxn_rawSecretMaterialDetected r)),
      (''commandRiskClassifierRefs'', JArr (map JStr (gxn_commandRiskClassifierRefs r))),
      (''commandRiskClassifierPosture'', JStr (command_risk_classifier_posture_str (gxn_commandRiskClassifierPosture r))),
      (''commandRiskRuleRefs'', JArr (map JStr (gxn_commandRiskRuleRefs r))),
      (''commandRiskBypassRefs'', JArr (map JStr (gxn_commandRiskBypassRefs r))),
      (''unsupportedReasonCodes'', JArr (map JStr (gxn_unsupportedReasonCodes r)))])"

definition generated_execution_node_valid :: "'e env_scheme \<Rightarrow> 'a generated_execution_node_scheme \<Rightarrow> bool" where
  "generated_execution_node_valid E r \<longleftrightarrow>
     id_ok (gxn_nodeId r) \<and>
     opt_ok (\<lambda>x. 1 \<le> length x) (gxn_actionClass r) \<and>
     opt_ok id_ok (gxn_toolCapabilityId r) \<and>
     opt_ok id_ok (gxn_actionTypeId r) \<and>
     opt_ok id_ok (gxn_gatewayRegistryEntryId r) \<and>
     opt_ok resource_ref_ok (gxn_resourceRef r) \<and>
     opt_ok digest_ok (gxn_paramsDigest r) \<and>
     digest_ok (gxn_nodeDigest r) \<and>
     opt_ok digest_ok (gxn_nodeGatewayBindingDigest r) \<and>
     opt_ok digest_ok (gxn_sourceSpanDigest r) \<and>
     opt_ok digest_ok (gxn_argvDigest r) \<and>
     opt_ok digest_ok (gxn_stdinDigest r) \<and>
     opt_ok digest_ok (gxn_envAllowlistDigest r) \<and>
     list_all (\<lambda>x. 1 \<le> length x) (gxn_commandRiskClassifierRefs r) \<and>
     list_all (\<lambda>x. 1 \<le> length x) (gxn_commandRiskRuleRefs r) \<and>
     list_all (\<lambda>x. 1 \<le> length x) (gxn_commandRiskBypassRefs r) \<and>
     list_all reason_code_ok (gxn_unsupportedReasonCodes r)"

record generated_execution_graph = protocol_base +
  gx_generatedExecutionGraphId :: "string"
  gx_runtimeExecutionId :: "string"
  gx_runtimeExecutionDigest :: "string"
  gx_executionBlockDigest :: "string"
  gx_graphIssuerRef :: "string"
  gx_graphIssuerAuthority :: "graph_issuer_authority"
  gx_graphIssuedAt :: "string"
  gx_graphNonce :: "string"
  gx_graphInputDigest :: "string"
  gx_graphSchemaVersion :: "string"
  gx_parserVersion :: "string"
  gx_supportedGrammarVersion :: "string"
  gx_coverageValidatorVersion :: "string"
  gx_graphDigest :: "string"
  gx_coverageStatus :: "generated_execution_coverage_status"
  gx_terminalReasonCodes :: "string list"
  gx_entryNodeIds :: "string list"
  gx_edges :: "generated_execution_graph_edge list"
  gx_nodeCount :: "int"
  gx_edgeCount :: "int"
  gx_maxNodeCount :: "int"
  gx_maxEdgeCount :: "int"
  gx_maxDepth :: "int"
  gx_graphByteSize :: "int"
  gx_maxGraphByteSize :: "int"
  gx_truncationStatus :: "graph_truncation_status"
  gx_catalogSnapshotDigest :: "string"
  gx_gatewayRegistrySnapshotDigest :: "string"
  gx_registryBindingSetDigest :: "string"
  gx_nodes :: "generated_execution_node list"

definition generated_execution_graph_json :: "'a generated_execution_graph_scheme \<Rightarrow> jval" where
  "generated_execution_graph_json r = JObj (base_fields r @
     [(''generatedExecutionGraphId'', JStr (gx_generatedExecutionGraphId r)),
      (''runtimeExecutionId'', JStr (gx_runtimeExecutionId r)),
      (''runtimeExecutionDigest'', JStr (gx_runtimeExecutionDigest r)),
      (''executionBlockDigest'', JStr (gx_executionBlockDigest r)),
      (''graphIssuerRef'', JStr (gx_graphIssuerRef r)),
      (''graphIssuerAuthority'', JStr (graph_issuer_authority_str (gx_graphIssuerAuthority r))),
      (''graphIssuedAt'', JStr (gx_graphIssuedAt r)),
      (''graphNonce'', JStr (gx_graphNonce r)),
      (''graphInputDigest'', JStr (gx_graphInputDigest r)),
      (''graphSchemaVersion'', JStr (gx_graphSchemaVersion r)),
      (''parserVersion'', JStr (gx_parserVersion r)),
      (''supportedGrammarVersion'', JStr (gx_supportedGrammarVersion r)),
      (''coverageValidatorVersion'', JStr (gx_coverageValidatorVersion r)),
      (''graphDigest'', JStr (gx_graphDigest r)),
      (''coverageStatus'', JStr (generated_execution_coverage_status_str (gx_coverageStatus r))),
      (''terminalReasonCodes'', JArr (map JStr (gx_terminalReasonCodes r))),
      (''entryNodeIds'', JArr (map JStr (gx_entryNodeIds r))),
      (''edges'', JArr (map generated_execution_graph_edge_json (gx_edges r))),
      (''nodeCount'', JInt (gx_nodeCount r)),
      (''edgeCount'', JInt (gx_edgeCount r)),
      (''maxNodeCount'', JInt (gx_maxNodeCount r)),
      (''maxEdgeCount'', JInt (gx_maxEdgeCount r)),
      (''maxDepth'', JInt (gx_maxDepth r)),
      (''graphByteSize'', JInt (gx_graphByteSize r)),
      (''maxGraphByteSize'', JInt (gx_maxGraphByteSize r)),
      (''truncationStatus'', JStr (graph_truncation_status_str (gx_truncationStatus r))),
      (''catalogSnapshotDigest'', JStr (gx_catalogSnapshotDigest r)),
      (''gatewayRegistrySnapshotDigest'', JStr (gx_gatewayRegistrySnapshotDigest r)),
      (''registryBindingSetDigest'', JStr (gx_registryBindingSetDigest r)),
      (''nodes'', JArr (map generated_execution_node_json (gx_nodes r)))])"

definition generated_execution_graph_valid :: "'e env_scheme \<Rightarrow> 'a generated_execution_graph_scheme \<Rightarrow> bool" where
  "generated_execution_graph_valid E r \<longleftrightarrow>
     base_valid E r \<and>
     id_ok (gx_generatedExecutionGraphId r) \<and>
     id_ok (gx_runtimeExecutionId r) \<and>
     digest_ok (gx_runtimeExecutionDigest r) \<and>
     digest_ok (gx_executionBlockDigest r) \<and>
     1 \<le> length (gx_graphIssuerRef r) \<and>
     iso_ok E (gx_graphIssuedAt r) \<and>
     8 \<le> length (gx_graphNonce r) \<and>
     digest_ok (gx_graphInputDigest r) \<and>
     1 \<le> length (gx_graphSchemaVersion r) \<and>
     1 \<le> length (gx_parserVersion r) \<and>
     1 \<le> length (gx_supportedGrammarVersion r) \<and>
     1 \<le> length (gx_coverageValidatorVersion r) \<and>
     digest_ok (gx_graphDigest r) \<and>
     list_all reason_code_ok (gx_terminalReasonCodes r) \<and>
     list_all id_ok (gx_entryNodeIds r) \<and>
     list_all (generated_execution_graph_edge_valid E) (gx_edges r) \<and>
     0 \<le> (gx_nodeCount r) \<and>
     0 \<le> (gx_edgeCount r) \<and>
     0 < (gx_maxNodeCount r) \<and>
     0 \<le> (gx_maxEdgeCount r) \<and>
     0 < (gx_maxDepth r) \<and>
     0 \<le> (gx_graphByteSize r) \<and>
     0 < (gx_maxGraphByteSize r) \<and>
     digest_ok (gx_catalogSnapshotDigest r) \<and>
     digest_ok (gx_gatewayRegistrySnapshotDigest r) \<and>
     digest_ok (gx_registryBindingSetDigest r) \<and>
     list_all (generated_execution_node_valid E) (gx_nodes r)"

end
