(* ===== verification/Schemas_Contract.thy ===== *)
theory Schemas_Contract
  imports Schemas_Catalog Schemas_Evidence
begin

text \<open>
  Delegated authority, gateway credentials, action contracts, tool call drafts
  and intent compilations (\<open>delegated-authority\<close>, \<open>credential-custody\<close>,
  \<open>action-contract\<close>, \<open>tool-call-draft\<close> and \<open>intent-compilation\<close> schemas), with
  records, JSON and, where no free-text secret scan is part of the schema, the
  predicate that \<open>parse\<close> checks.
\<close>

datatype (plugins only: code) delegated_authority_kind =
    DAK_spend
  | DAK_mutation
  | DAK_api_call

primrec delegated_authority_kind_str :: "delegated_authority_kind \<Rightarrow> string" where
    "delegated_authority_kind_str DAK_spend = ''spend''"
  | "delegated_authority_kind_str DAK_mutation = ''mutation''"
  | "delegated_authority_kind_str DAK_api_call = ''api_call''"

datatype (plugins only: code) delegated_authority_grant_status =
    DAGS_active
  | DAGS_revoked
  | DAGS_expired

primrec delegated_authority_grant_status_str :: "delegated_authority_grant_status \<Rightarrow> string" where
    "delegated_authority_grant_status_str DAGS_active = ''active''"
  | "delegated_authority_grant_status_str DAGS_revoked = ''revoked''"
  | "delegated_authority_grant_status_str DAGS_expired = ''expired''"

datatype (plugins only: code) delegated_authority_terminal_grant_status =
    DATS_revoked
  | DATS_expired

primrec delegated_authority_terminal_grant_status_str :: "delegated_authority_terminal_grant_status \<Rightarrow> string" where
    "delegated_authority_terminal_grant_status_str DATS_revoked = ''revoked''"
  | "delegated_authority_terminal_grant_status_str DATS_expired = ''expired''"

record delegated_authority_binding =
  dab_authorityUseName :: "string"
  dab_delegatedAuthorityRefId :: "string"
  dab_delegatedAuthorityRefDigest :: "string"
  dab_requiredGrantStatus :: "string"
  dab_authorityKind :: "delegated_authority_kind"
  dab_policyPackRef :: "string"
  dab_policyPackVersion :: "string"
  dab_evidenceExpectationRefs :: "string list"

definition delegated_authority_binding_json :: "'a delegated_authority_binding_scheme \<Rightarrow> jval" where
  "delegated_authority_binding_json r = JObj (
     [(''authorityUseName'', JStr (dab_authorityUseName r)),
      (''delegatedAuthorityRefId'', JStr (dab_delegatedAuthorityRefId r)),
      (''delegatedAuthorityRefDigest'', JStr (dab_delegatedAuthorityRefDigest r)),
      (''requiredGrantStatus'', JStr (dab_requiredGrantStatus r)),
      (''authorityKind'', JStr (delegated_authority_kind_str (dab_authorityKind r))),
      (''policyPackRef'', JStr (dab_policyPackRef r)),
      (''policyPackVersion'', JStr (dab_policyPackVersion r)),
      (''evidenceExpectationRefs'', JArr (map JStr (dab_evidenceExpectationRefs r)))])"

record delegated_authority_ref = protocol_base +
  da_delegatedAuthorityRefId :: "string"
  da_delegatedAuthorityRefDigest :: "string"
  da_principalId :: "string"
  da_agentId :: "string"
  da_runtimeAdapterId :: "string"
  da_operatingEnvelopeId :: "string"
  da_gatewayId :: "string"
  da_gatewayRegistryEntryId :: "string"
  da_protectedSurfaceKind :: "string"
  da_actionClasses :: "string list"
  da_resourceRefs :: "string list"
  da_authorityKind :: "delegated_authority_kind"
  da_grantStatus :: "delegated_authority_grant_status"
  da_policyPackRef :: "string"
  da_policyPackVersion :: "string"
  da_amountParameterName :: "string option"
  da_maxAtomicAmountPerAction :: "string option"
  da_evidenceExpectationRefs :: "string list"
  da_redactionProfileRef :: "string"
  da_secretMaterialIncluded :: "bool"
  da_mutationAuthorityCreated :: "bool"
  da_greenlightCreated :: "bool"
  da_issuedAt :: "string"
  da_expiresAt :: "string"

definition delegated_authority_ref_json :: "'a delegated_authority_ref_scheme \<Rightarrow> jval" where
  "delegated_authority_ref_json r = JObj (base_fields r @
     [(''delegatedAuthorityRefId'', JStr (da_delegatedAuthorityRefId r)),
      (''delegatedAuthorityRefDigest'', JStr (da_delegatedAuthorityRefDigest r)),
      (''principalId'', JStr (da_principalId r)),
      (''agentId'', JStr (da_agentId r)),
      (''runtimeAdapterId'', JStr (da_runtimeAdapterId r)),
      (''operatingEnvelopeId'', JStr (da_operatingEnvelopeId r)),
      (''gatewayId'', JStr (da_gatewayId r)),
      (''gatewayRegistryEntryId'', JStr (da_gatewayRegistryEntryId r)),
      (''protectedSurfaceKind'', JStr (da_protectedSurfaceKind r)),
      (''actionClasses'', JArr (map JStr (da_actionClasses r))),
      (''resourceRefs'', JArr (map JStr (da_resourceRefs r))),
      (''authorityKind'', JStr (delegated_authority_kind_str (da_authorityKind r))),
      (''grantStatus'', JStr (delegated_authority_grant_status_str (da_grantStatus r))),
      (''policyPackRef'', JStr (da_policyPackRef r)),
      (''policyPackVersion'', JStr (da_policyPackVersion r)),
      (''amountParameterName'', j_opt JStr (da_amountParameterName r)),
      (''maxAtomicAmountPerAction'', j_opt JStr (da_maxAtomicAmountPerAction r)),
      (''evidenceExpectationRefs'', JArr (map JStr (da_evidenceExpectationRefs r))),
      (''redactionProfileRef'', JStr (da_redactionProfileRef r)),
      (''secretMaterialIncluded'', JBool (da_secretMaterialIncluded r)),
      (''mutationAuthorityCreated'', JBool (da_mutationAuthorityCreated r)),
      (''greenlightCreated'', JBool (da_greenlightCreated r)),
      (''issuedAt'', JStr (da_issuedAt r)),
      (''expiresAt'', JStr (da_expiresAt r))])"

record delegated_authority_status_transition = protocol_base +
  dst_delegatedAuthorityStatusTransitionId :: "string"
  dst_delegatedAuthorityRefId :: "string"
  dst_delegatedAuthorityRefDigest :: "string"
  dst_previousGrantStatus :: "delegated_authority_grant_status"
  dst_nextGrantStatus :: "delegated_authority_terminal_grant_status"
  dst_reasonCode :: "string"
  dst_reasonSummary :: "string"
  dst_changedByRef :: "string"
  dst_changedAt :: "string"
  dst_isolationStateId :: "string"
  dst_transitionDigest :: "string"

definition delegated_authority_status_transition_json :: "'a delegated_authority_status_transition_scheme \<Rightarrow> jval" where
  "delegated_authority_status_transition_json r = JObj (base_fields r @
     [(''delegatedAuthorityStatusTransitionId'', JStr (dst_delegatedAuthorityStatusTransitionId r)),
      (''delegatedAuthorityRefId'', JStr (dst_delegatedAuthorityRefId r)),
      (''delegatedAuthorityRefDigest'', JStr (dst_delegatedAuthorityRefDigest r)),
      (''previousGrantStatus'', JStr (delegated_authority_grant_status_str (dst_previousGrantStatus r))),
      (''nextGrantStatus'', JStr (delegated_authority_terminal_grant_status_str (dst_nextGrantStatus r))),
      (''reasonCode'', JStr (dst_reasonCode r)),
      (''reasonSummary'', JStr (dst_reasonSummary r)),
      (''changedByRef'', JStr (dst_changedByRef r)),
      (''changedAt'', JStr (dst_changedAt r)),
      (''isolationStateId'', JStr (dst_isolationStateId r)),
      (''transitionDigest'', JStr (dst_transitionDigest r))])"

record gateway_credential_binding =
  gcb_credentialUseName :: "string"
  gcb_gatewayCredentialRefId :: "string"
  gcb_gatewayCredentialRefDigest :: "string"
  gcb_providerRegistryRef :: "string"
  gcb_providerRegistryDigest :: "string option"
  gcb_requiredCredentialCustodyStatus :: "credential_custody_status"
  gcb_evidenceExpectationRefs :: "string list"

definition gateway_credential_binding_json :: "'a gateway_credential_binding_scheme \<Rightarrow> jval" where
  "gateway_credential_binding_json r = JObj (
     [(''credentialUseName'', JStr (gcb_credentialUseName r)),
      (''gatewayCredentialRefId'', JStr (gcb_gatewayCredentialRefId r)),
      (''gatewayCredentialRefDigest'', JStr (gcb_gatewayCredentialRefDigest r)),
      (''providerRegistryRef'', JStr (gcb_providerRegistryRef r)),
      (''providerRegistryDigest'', j_opt JStr (gcb_providerRegistryDigest r)),
      (''requiredCredentialCustodyStatus'', JStr (credential_custody_status_str (gcb_requiredCredentialCustodyStatus r))),
      (''evidenceExpectationRefs'', JArr (map JStr (gcb_evidenceExpectationRefs r)))])"

record gateway_credential_ref = protocol_base +
  gcr_gatewayCredentialRefId :: "string"
  gcr_gatewayCredentialRefDigest :: "string"
  gcr_principalId :: "string option"
  gcr_gatewayId :: "string"
  gcr_gatewayRegistryEntryId :: "string"
  gcr_protectedSurfaceKind :: "string"
  gcr_actionClasses :: "string list"
  gcr_resourceRefs :: "string list"
  gcr_resourceNamespaceRef :: "string"
  gcr_credentialKind :: "string"
  gcr_custodyStatus :: "credential_custody_status"
  gcr_providerClass :: "string"
  gcr_providerRegistryRef :: "string"
  gcr_providerRegistryDigest :: "string option"
  gcr_resolverRef :: "string"
  gcr_resolverVersion :: "string"
  gcr_evidenceExpectationRefs :: "string list"
  gcr_redactionProfileRef :: "string"
  gcr_secretMaterialIncluded :: "bool"
  gcr_issuedAt :: "string"
  gcr_expiresAt :: "string option"

definition gateway_credential_ref_json :: "'a gateway_credential_ref_scheme \<Rightarrow> jval" where
  "gateway_credential_ref_json r = JObj (base_fields r @
     [(''gatewayCredentialRefId'', JStr (gcr_gatewayCredentialRefId r)),
      (''gatewayCredentialRefDigest'', JStr (gcr_gatewayCredentialRefDigest r)),
      (''principalId'', j_opt JStr (gcr_principalId r)),
      (''gatewayId'', JStr (gcr_gatewayId r)),
      (''gatewayRegistryEntryId'', JStr (gcr_gatewayRegistryEntryId r)),
      (''protectedSurfaceKind'', JStr (gcr_protectedSurfaceKind r)),
      (''actionClasses'', JArr (map JStr (gcr_actionClasses r))),
      (''resourceRefs'', JArr (map JStr (gcr_resourceRefs r))),
      (''resourceNamespaceRef'', JStr (gcr_resourceNamespaceRef r)),
      (''credentialKind'', JStr (gcr_credentialKind r)),
      (''custodyStatus'', JStr (credential_custody_status_str (gcr_custodyStatus r))),
      (''providerClass'', JStr (gcr_providerClass r)),
      (''providerRegistryRef'', JStr (gcr_providerRegistryRef r)),
      (''providerRegistryDigest'', j_opt JStr (gcr_providerRegistryDigest r)),
      (''resolverRef'', JStr (gcr_resolverRef r)),
      (''resolverVersion'', JStr (gcr_resolverVersion r)),
      (''evidenceExpectationRefs'', JArr (map JStr (gcr_evidenceExpectationRefs r))),
      (''redactionProfileRef'', JStr (gcr_redactionProfileRef r)),
      (''secretMaterialIncluded'', JBool (gcr_secretMaterialIncluded r)),
      (''issuedAt'', JStr (gcr_issuedAt r)),
      (''expiresAt'', j_opt JStr (gcr_expiresAt r))])"

datatype (plugins only: code) credential_resolution_result_class =
    CRRC_resolved_for_gateway_use
  | CRRC_used_by_gateway
  | CRRC_refused_missing_ref
  | CRRC_refused_stale_ref
  | CRRC_refused_provider_unavailable
  | CRRC_refused_vault_auth_denied
  | CRRC_refused_provider_drift
  | CRRC_refused_unsafe_custody
  | CRRC_refused_redaction_failure
  | CRRC_proof_gap
  | CRRC_replay_refused
  | CRRC_isolation_blocked

primrec credential_resolution_result_class_str :: "credential_resolution_result_class \<Rightarrow> string" where
    "credential_resolution_result_class_str CRRC_resolved_for_gateway_use = ''resolved_for_gateway_use''"
  | "credential_resolution_result_class_str CRRC_used_by_gateway = ''used_by_gateway''"
  | "credential_resolution_result_class_str CRRC_refused_missing_ref = ''refused_missing_ref''"
  | "credential_resolution_result_class_str CRRC_refused_stale_ref = ''refused_stale_ref''"
  | "credential_resolution_result_class_str CRRC_refused_provider_unavailable = ''refused_provider_unavailable''"
  | "credential_resolution_result_class_str CRRC_refused_vault_auth_denied = ''refused_vault_auth_denied''"
  | "credential_resolution_result_class_str CRRC_refused_provider_drift = ''refused_provider_drift''"
  | "credential_resolution_result_class_str CRRC_refused_unsafe_custody = ''refused_unsafe_custody''"
  | "credential_resolution_result_class_str CRRC_refused_redaction_failure = ''refused_redaction_failure''"
  | "credential_resolution_result_class_str CRRC_proof_gap = ''proof_gap''"
  | "credential_resolution_result_class_str CRRC_replay_refused = ''replay_refused''"
  | "credential_resolution_result_class_str CRRC_isolation_blocked = ''isolation_blocked''"

datatype (plugins only: code) credential_resolution_redaction_status =
    CRRS_redacted
  | CRRS_digest_only
  | CRRS_proof_gap
  | CRRS_redaction_failed

primrec credential_resolution_redaction_status_str :: "credential_resolution_redaction_status \<Rightarrow> string" where
    "credential_resolution_redaction_status_str CRRS_redacted = ''redacted''"
  | "credential_resolution_redaction_status_str CRRS_digest_only = ''digest_only''"
  | "credential_resolution_redaction_status_str CRRS_proof_gap = ''proof_gap''"
  | "credential_resolution_redaction_status_str CRRS_redaction_failed = ''redaction_failed''"

record credential_resolution_evidence = protocol_base +
  cre_credentialResolutionEvidenceId :: "string"
  cre_gatewayCredentialRefId :: "string"
  cre_gatewayCredentialRefDigest :: "string"
  cre_actionContractId :: "string"
  cre_greenlightId :: "string"
  cre_gateAttemptId :: "string"
  cre_mutationAttemptId :: "string option"
  cre_gatewayId :: "string"
  cre_providerClass :: "string"
  cre_providerRegistryRef :: "string"
  cre_providerRegistryDigest :: "string option"
  cre_resolverRef :: "string"
  cre_resolverVersion :: "string"
  cre_requestDigest :: "string"
  cre_resultClass :: "credential_resolution_result_class"
  cre_resultReasonCode :: "string"
  cre_redactionStatus :: "credential_resolution_redaction_status"
  cre_providerRequestRef :: "string option"
  cre_providerOperationRef :: "string option"
  cre_proofGapId :: "string option"
  cre_refusalId :: "string option"
  cre_evidenceRefs :: "string list"
  cre_redactionProfileRef :: "string"
  cre_credentialMaterialIncluded :: "bool"
  cre_recordedAt :: "string"
  cre_evidenceDigest :: "string"

definition credential_resolution_evidence_json :: "'a credential_resolution_evidence_scheme \<Rightarrow> jval" where
  "credential_resolution_evidence_json r = JObj (base_fields r @
     [(''credentialResolutionEvidenceId'', JStr (cre_credentialResolutionEvidenceId r)),
      (''gatewayCredentialRefId'', JStr (cre_gatewayCredentialRefId r)),
      (''gatewayCredentialRefDigest'', JStr (cre_gatewayCredentialRefDigest r)),
      (''actionContractId'', JStr (cre_actionContractId r)),
      (''greenlightId'', JStr (cre_greenlightId r)),
      (''gateAttemptId'', JStr (cre_gateAttemptId r)),
      (''mutationAttemptId'', j_opt JStr (cre_mutationAttemptId r)),
      (''gatewayId'', JStr (cre_gatewayId r)),
      (''providerClass'', JStr (cre_providerClass r)),
      (''providerRegistryRef'', JStr (cre_providerRegistryRef r)),
      (''providerRegistryDigest'', j_opt JStr (cre_providerRegistryDigest r)),
      (''resolverRef'', JStr (cre_resolverRef r)),
      (''resolverVersion'', JStr (cre_resolverVersion r)),
      (''requestDigest'', JStr (cre_requestDigest r)),
      (''resultClass'', JStr (credential_resolution_result_class_str (cre_resultClass r))),
      (''resultReasonCode'', JStr (cre_resultReasonCode r)),
      (''redactionStatus'', JStr (credential_resolution_redaction_status_str (cre_redactionStatus r))),
      (''providerRequestRef'', j_opt JStr (cre_providerRequestRef r)),
      (''providerOperationRef'', j_opt JStr (cre_providerOperationRef r)),
      (''proofGapId'', j_opt JStr (cre_proofGapId r)),
      (''refusalId'', j_opt JStr (cre_refusalId r)),
      (''evidenceRefs'', JArr (map JStr (cre_evidenceRefs r))),
      (''redactionProfileRef'', JStr (cre_redactionProfileRef r)),
      (''credentialMaterialIncluded'', JBool (cre_credentialMaterialIncluded r)),
      (''recordedAt'', JStr (cre_recordedAt r)),
      (''evidenceDigest'', JStr (cre_evidenceDigest r))])"

datatype (plugins only: code) gateway_custody_claim_level =
    GCCL_local_fixture
  | GCCL_customer_gateway_evidence
  | GCCL_provider_gateway_evidence
  | GCCL_proof_gap

primrec gateway_custody_claim_level_str :: "gateway_custody_claim_level \<Rightarrow> string" where
    "gateway_custody_claim_level_str GCCL_local_fixture = ''local_fixture''"
  | "gateway_custody_claim_level_str GCCL_customer_gateway_evidence = ''customer_gateway_evidence''"
  | "gateway_custody_claim_level_str GCCL_provider_gateway_evidence = ''provider_gateway_evidence''"
  | "gateway_custody_claim_level_str GCCL_proof_gap = ''proof_gap''"

datatype (plugins only: code) gateway_custody_drift_status =
    GCDS_current
  | GCDS_stale
  | GCDS_provider_drift
  | GCDS_resolver_drift
  | GCDS_unsafe_custody
  | GCDS_proof_gap

primrec gateway_custody_drift_status_str :: "gateway_custody_drift_status \<Rightarrow> string" where
    "gateway_custody_drift_status_str GCDS_current = ''current''"
  | "gateway_custody_drift_status_str GCDS_stale = ''stale''"
  | "gateway_custody_drift_status_str GCDS_provider_drift = ''provider_drift''"
  | "gateway_custody_drift_status_str GCDS_resolver_drift = ''resolver_drift''"
  | "gateway_custody_drift_status_str GCDS_unsafe_custody = ''unsafe_custody''"
  | "gateway_custody_drift_status_str GCDS_proof_gap = ''proof_gap''"

datatype (plugins only: code) gateway_custody_external_verification_status =
    GCEVS_not_required
  | GCEVS_required_before_live_claim
  | GCEVS_verified_by_official_source

primrec gateway_custody_external_verification_status_str :: "gateway_custody_external_verification_status \<Rightarrow> string" where
    "gateway_custody_external_verification_status_str GCEVS_not_required = ''not_required''"
  | "gateway_custody_external_verification_status_str GCEVS_required_before_live_claim = ''required_before_live_claim''"
  | "gateway_custody_external_verification_status_str GCEVS_verified_by_official_source = ''verified_by_official_source''"

record gateway_custody_proof_packet = protocol_base +
  gcp_gatewayCustodyProofPacketId :: "string"
  gcp_gatewayCustodyProofPacketDigest :: "string"
  gcp_gatewayCredentialRefId :: "string"
  gcp_gatewayCredentialRefDigest :: "string"
  gcp_protectedPathPostureId :: "string"
  gcp_protectedPathPostureDigest :: "string"
  gcp_gatewayInstallEvidenceRefs :: "string list"
  gcp_gatewayInstallEvidenceDigests :: "string list"
  gcp_bypassProbeIds :: "string list"
  gcp_bypassProbeDigests :: "string list"
  gcp_gatewayId :: "string"
  gcp_gatewayRegistryEntryId :: "string"
  gcp_protectedSurfaceKind :: "string"
  gcp_actionClasses :: "string list"
  gcp_resourceRefs :: "string list"
  gcp_custodyProviderClass :: "string"
  gcp_custodyProviderRegistryRef :: "string"
  gcp_custodyProviderRegistryDigest :: "string option"
  gcp_opaqueKeyHandleRef :: "string"
  gcp_opaqueKeyHandleDigest :: "string"
  gcp_credentialKind :: "string"
  gcp_credentialCustodyStatus :: "credential_custody_status"
  gcp_custodyClaimLevel :: "gateway_custody_claim_level"
  gcp_resolverRef :: "string"
  gcp_resolverVersion :: "string"
  gcp_leaseRef :: "string option"
  gcp_leaseVersion :: "string option"
  gcp_leaseIssuedAt :: "string option"
  gcp_leaseExpiresAt :: "string option"
  gcp_attestationRefs :: "string list"
  gcp_attestationDigests :: "string list"
  gcp_redactedAuditRefs :: "string list"
  gcp_redactedAuditDigest :: "string option"
  gcp_custodyDriftStatus :: "gateway_custody_drift_status"
  gcp_resolverDriftStatus :: "gateway_custody_drift_status"
  gcp_redactionStatus :: "credential_resolution_redaction_status"
  gcp_externalVerificationStatus :: "gateway_custody_external_verification_status"
  gcp_redactionProfileRef :: "string"
  gcp_secretMaterialIncluded :: "bool"
  gcp_authorityCreated :: "bool"
  gcp_recordedAt :: "string"
  gcp_expiresAt :: "string"

definition gateway_custody_proof_packet_json :: "'a gateway_custody_proof_packet_scheme \<Rightarrow> jval" where
  "gateway_custody_proof_packet_json r = JObj (base_fields r @
     [(''gatewayCustodyProofPacketId'', JStr (gcp_gatewayCustodyProofPacketId r)),
      (''gatewayCustodyProofPacketDigest'', JStr (gcp_gatewayCustodyProofPacketDigest r)),
      (''gatewayCredentialRefId'', JStr (gcp_gatewayCredentialRefId r)),
      (''gatewayCredentialRefDigest'', JStr (gcp_gatewayCredentialRefDigest r)),
      (''protectedPathPostureId'', JStr (gcp_protectedPathPostureId r)),
      (''protectedPathPostureDigest'', JStr (gcp_protectedPathPostureDigest r)),
      (''gatewayInstallEvidenceRefs'', JArr (map JStr (gcp_gatewayInstallEvidenceRefs r))),
      (''gatewayInstallEvidenceDigests'', JArr (map JStr (gcp_gatewayInstallEvidenceDigests r))),
      (''bypassProbeIds'', JArr (map JStr (gcp_bypassProbeIds r))),
      (''bypassProbeDigests'', JArr (map JStr (gcp_bypassProbeDigests r))),
      (''gatewayId'', JStr (gcp_gatewayId r)),
      (''gatewayRegistryEntryId'', JStr (gcp_gatewayRegistryEntryId r)),
      (''protectedSurfaceKind'', JStr (gcp_protectedSurfaceKind r)),
      (''actionClasses'', JArr (map JStr (gcp_actionClasses r))),
      (''resourceRefs'', JArr (map JStr (gcp_resourceRefs r))),
      (''custodyProviderClass'', JStr (gcp_custodyProviderClass r)),
      (''custodyProviderRegistryRef'', JStr (gcp_custodyProviderRegistryRef r)),
      (''custodyProviderRegistryDigest'', j_opt JStr (gcp_custodyProviderRegistryDigest r)),
      (''opaqueKeyHandleRef'', JStr (gcp_opaqueKeyHandleRef r)),
      (''opaqueKeyHandleDigest'', JStr (gcp_opaqueKeyHandleDigest r)),
      (''credentialKind'', JStr (gcp_credentialKind r)),
      (''credentialCustodyStatus'', JStr (credential_custody_status_str (gcp_credentialCustodyStatus r))),
      (''custodyClaimLevel'', JStr (gateway_custody_claim_level_str (gcp_custodyClaimLevel r))),
      (''resolverRef'', JStr (gcp_resolverRef r)),
      (''resolverVersion'', JStr (gcp_resolverVersion r)),
      (''leaseRef'', j_opt JStr (gcp_leaseRef r)),
      (''leaseVersion'', j_opt JStr (gcp_leaseVersion r)),
      (''leaseIssuedAt'', j_opt JStr (gcp_leaseIssuedAt r)),
      (''leaseExpiresAt'', j_opt JStr (gcp_leaseExpiresAt r)),
      (''attestationRefs'', JArr (map JStr (gcp_attestationRefs r))),
      (''attestationDigests'', JArr (map JStr (gcp_attestationDigests r))),
      (''redactedAuditRefs'', JArr (map JStr (gcp_redactedAuditRefs r))),
      (''redactedAuditDigest'', j_opt JStr (gcp_redactedAuditDigest r)),
      (''custodyDriftStatus'', JStr (gateway_custody_drift_status_str (gcp_custodyDriftStatus r))),
      (''resolverDriftStatus'', JStr (gateway_custody_drift_status_str (gcp_resolverDriftStatus r))),
      (''redactionStatus'', JStr (credential_resolution_redaction_status_str (gcp_redactionStatus r))),
      (''externalVerificationStatus'', JStr (gateway_custody_external_verification_status_str (gcp_externalVerificationStatus r))),
      (''redactionProfileRef'', JStr (gcp_redactionProfileRef r)),
      (''secretMaterialIncluded'', JBool (gcp_secretMaterialIncluded r)),
      (''authorityCreated'', JBool (gcp_authorityCreated r)),
      (''recordedAt'', JStr (gcp_recordedAt r)),
      (''expiresAt'', JStr (gcp_expiresAt r))])"

record action_contract = protocol_base +
  ac_actionContractId :: "string"
  ac_intentCompilationId :: "string"
  ac_candidateActionId :: "string"
  ac_candidateDigest :: "string"
  ac_envelopeId :: "string"
  ac_operatingEnvelopeDigest :: "string"
  ac_agentId :: "string"
  ac_principalId :: "string"
  ac_participantIdentityBindings :: "participant_identity_binding list"
  ac_runId :: "string"
  ac_runtimeAdapterId :: "string"
  ac_sequenceNumber :: "int"
  ac_requiredPriorActionContractIds :: "string list"
  ac_recoveryRecommendationId :: "string option"
  ac_recoverySourceReceiptId :: "string option"
  ac_recoveryRecommendationDigest :: "string option"
  ac_issuedAt :: "string"
  ac_expiresAt :: "string"
  ac_gatewayRegistryEntryId :: "string"
  ac_gatewayRegistryDigest :: "string"
  ac_gatewayRegistryVersion :: "string"
  ac_gatewayId :: "string"
  ac_gatewayPolicyContractId :: "string"
  ac_gatewayPolicyVersion :: "string"
  ac_credentialCustodyStatus :: "credential_custody_status"
  ac_enforcementMode :: "gateway_enforcement_mode"
  ac_mutationCredentialHolderRef :: "string"
  ac_gatewayAuthorityHolderRef :: "string"
  ac_toolCapabilityId :: "string"
  ac_toolCapabilityDigest :: "string"
  ac_actionTypeId :: "string"
  ac_actionTypeDigest :: "string"
  ac_actionClass :: "string"
  ac_protectedSurfaceKind :: "string"
  ac_resourceRef :: "string"
  ac_requiredProtectedPathState :: "required_protected_path_state"
  ac_runtimeExecutionId :: "string option"
  ac_runtimeExecutionDigest :: "string option"
  ac_generatedExecutionGraphId :: "string option"
  ac_generatedExecutionGraphDigest :: "string option"
  ac_generatedExecutionCoverageStatus :: "generated_execution_coverage_status option"
  ac_generatedExecutionNodeId :: "string option"
  ac_generatedExecutionNodeDigest :: "string option"
  ac_generatedExecutionCatalogSnapshotDigest :: "string option"
  ac_generatedExecutionGatewayRegistrySnapshotDigest :: "string option"
  ac_generatedExecutionRegistryBindingSetDigest :: "string option"
  ac_generatedExecutionNodeGatewayBindingDigest :: "string option"
  ac_parameters :: "(string \<times> jval) list"
  ac_paramsDigest :: "string"
  ac_nonSecretParamsSummary :: "(string \<times> jval) list"
  ac_secretRefs :: "(string \<times> string) list"
  ac_gatewayCredentialRefs :: "gateway_credential_binding list"
  ac_delegatedAuthorityRefs :: "delegated_authority_binding list"
  ac_purposeCode :: "string"
  ac_expectedSideEffectCodes :: "string list"
  ac_evidenceRefs :: "string list"
  ac_clearingEvidenceRefs :: "clearing_evidence_refs"
  ac_bounds :: "(string \<times> jval) list"
  ac_idempotencyKey :: "string"
  ac_rollbackHint :: "string option"
  ac_canonicalizerVersion :: "string"
  ac_actionContractDigest :: "string"
  ac_contractSignature :: "string option"
  ac_signaturePosture :: "signature_posture"
  ac_keyIdentityRef :: "string option"
  ac_verificationPolicyRef :: "string option"

definition action_contract_json :: "'a action_contract_scheme \<Rightarrow> jval" where
  "action_contract_json r = JObj (base_fields r @
     [(''actionContractId'', JStr (ac_actionContractId r)),
      (''intentCompilationId'', JStr (ac_intentCompilationId r)),
      (''candidateActionId'', JStr (ac_candidateActionId r)),
      (''candidateDigest'', JStr (ac_candidateDigest r)),
      (''envelopeId'', JStr (ac_envelopeId r)),
      (''operatingEnvelopeDigest'', JStr (ac_operatingEnvelopeDigest r)),
      (''agentId'', JStr (ac_agentId r)),
      (''principalId'', JStr (ac_principalId r)),
      (''participantIdentityBindings'', JArr (map participant_identity_binding_json (ac_participantIdentityBindings r))),
      (''runId'', JStr (ac_runId r)),
      (''runtimeAdapterId'', JStr (ac_runtimeAdapterId r)),
      (''sequenceNumber'', JInt (ac_sequenceNumber r)),
      (''requiredPriorActionContractIds'', JArr (map JStr (ac_requiredPriorActionContractIds r))),
      (''recoveryRecommendationId'', j_opt JStr (ac_recoveryRecommendationId r)),
      (''recoverySourceReceiptId'', j_opt JStr (ac_recoverySourceReceiptId r)),
      (''recoveryRecommendationDigest'', j_opt JStr (ac_recoveryRecommendationDigest r)),
      (''issuedAt'', JStr (ac_issuedAt r)),
      (''expiresAt'', JStr (ac_expiresAt r)),
      (''gatewayRegistryEntryId'', JStr (ac_gatewayRegistryEntryId r)),
      (''gatewayRegistryDigest'', JStr (ac_gatewayRegistryDigest r)),
      (''gatewayRegistryVersion'', JStr (ac_gatewayRegistryVersion r)),
      (''gatewayId'', JStr (ac_gatewayId r)),
      (''gatewayPolicyContractId'', JStr (ac_gatewayPolicyContractId r)),
      (''gatewayPolicyVersion'', JStr (ac_gatewayPolicyVersion r)),
      (''credentialCustodyStatus'', JStr (credential_custody_status_str (ac_credentialCustodyStatus r))),
      (''enforcementMode'', JStr (gateway_enforcement_mode_str (ac_enforcementMode r))),
      (''mutationCredentialHolderRef'', JStr (ac_mutationCredentialHolderRef r)),
      (''gatewayAuthorityHolderRef'', JStr (ac_gatewayAuthorityHolderRef r)),
      (''toolCapabilityId'', JStr (ac_toolCapabilityId r)),
      (''toolCapabilityDigest'', JStr (ac_toolCapabilityDigest r)),
      (''actionTypeId'', JStr (ac_actionTypeId r)),
      (''actionTypeDigest'', JStr (ac_actionTypeDigest r)),
      (''actionClass'', JStr (ac_actionClass r)),
      (''protectedSurfaceKind'', JStr (ac_protectedSurfaceKind r)),
      (''resourceRef'', JStr (ac_resourceRef r)),
      (''requiredProtectedPathState'', JStr (required_protected_path_state_str (ac_requiredProtectedPathState r))),
      (''runtimeExecutionId'', j_opt JStr (ac_runtimeExecutionId r)),
      (''runtimeExecutionDigest'', j_opt JStr (ac_runtimeExecutionDigest r)),
      (''generatedExecutionGraphId'', j_opt JStr (ac_generatedExecutionGraphId r)),
      (''generatedExecutionGraphDigest'', j_opt JStr (ac_generatedExecutionGraphDigest r)),
      (''generatedExecutionCoverageStatus'', j_opt (\<lambda>x. JStr (generated_execution_coverage_status_str x)) (ac_generatedExecutionCoverageStatus r)),
      (''generatedExecutionNodeId'', j_opt JStr (ac_generatedExecutionNodeId r)),
      (''generatedExecutionNodeDigest'', j_opt JStr (ac_generatedExecutionNodeDigest r)),
      (''generatedExecutionCatalogSnapshotDigest'', j_opt JStr (ac_generatedExecutionCatalogSnapshotDigest r)),
      (''generatedExecutionGatewayRegistrySnapshotDigest'', j_opt JStr (ac_generatedExecutionGatewayRegistrySnapshotDigest r)),
      (''generatedExecutionRegistryBindingSetDigest'', j_opt JStr (ac_generatedExecutionRegistryBindingSetDigest r)),
      (''generatedExecutionNodeGatewayBindingDigest'', j_opt JStr (ac_generatedExecutionNodeGatewayBindingDigest r)),
      (''parameters'', JObj (ac_parameters r)),
      (''paramsDigest'', JStr (ac_paramsDigest r)),
      (''nonSecretParamsSummary'', JObj (ac_nonSecretParamsSummary r)),
      (''secretRefs'', j_str_map (ac_secretRefs r)),
      (''gatewayCredentialRefs'', JArr (map gateway_credential_binding_json (ac_gatewayCredentialRefs r))),
      (''delegatedAuthorityRefs'', JArr (map delegated_authority_binding_json (ac_delegatedAuthorityRefs r))),
      (''purposeCode'', JStr (ac_purposeCode r)),
      (''expectedSideEffectCodes'', JArr (map JStr (ac_expectedSideEffectCodes r))),
      (''evidenceRefs'', JArr (map JStr (ac_evidenceRefs r))),
      (''clearingEvidenceRefs'', clearing_evidence_refs_json (ac_clearingEvidenceRefs r)),
      (''bounds'', JObj (ac_bounds r)),
      (''idempotencyKey'', JStr (ac_idempotencyKey r)),
      (''rollbackHint'', j_opt JStr (ac_rollbackHint r)),
      (''canonicalizerVersion'', JStr (ac_canonicalizerVersion r)),
      (''actionContractDigest'', JStr (ac_actionContractDigest r)),
      (''contractSignature'', j_opt JStr (ac_contractSignature r)),
      (''signaturePosture'', JStr (signature_posture_str (ac_signaturePosture r))),
      (''keyIdentityRef'', j_opt JStr (ac_keyIdentityRef r)),
      (''verificationPolicyRef'', j_opt JStr (ac_verificationPolicyRef r))])"

datatype (plugins only: code) tool_call_draft_state =
    TCDS_opened
  | TCDS_streaming
  | TCDS_finalized
  | TCDS_invalid
  | TCDS_abandoned

primrec tool_call_draft_state_str :: "tool_call_draft_state \<Rightarrow> string" where
    "tool_call_draft_state_str TCDS_opened = ''opened''"
  | "tool_call_draft_state_str TCDS_streaming = ''streaming''"
  | "tool_call_draft_state_str TCDS_finalized = ''finalized''"
  | "tool_call_draft_state_str TCDS_invalid = ''invalid''"
  | "tool_call_draft_state_str TCDS_abandoned = ''abandoned''"

record tool_call_draft = protocol_base +
  td_toolCallDraftId :: "string"
  td_runtimeExecutionId :: "string option"
  td_generatedExecutionGraphId :: "string option"
  td_generatedExecutionNodeId :: "string option"
  td_toolCapabilityId :: "string"
  td_actionTypeId :: "string"
  td_gatewayRegistryEntryId :: "string"
  td_actionClass :: "string"
  td_gatewayId :: "string"
  td_resourceRef :: "string"
  td_draftState :: "tool_call_draft_state"
  td_parameters :: "(string \<times> jval) list"
  td_nonSecretParamsSummary :: "(string \<times> jval) list"
  td_secretRefs :: "(string \<times> string) list"
  td_gatewayCredentialRefs :: "gateway_credential_binding list"
  td_delegatedAuthorityRefs :: "delegated_authority_binding list"
  td_paramsDigest :: "string"
  td_finalizedAt :: "string option"
  td_expiresAt :: "string"
  td_invalidReasonCodes :: "string list"
  td_evidenceRefs :: "string list"
  td_draftDigest :: "string"

definition tool_call_draft_json :: "'a tool_call_draft_scheme \<Rightarrow> jval" where
  "tool_call_draft_json r = JObj (base_fields r @
     [(''toolCallDraftId'', JStr (td_toolCallDraftId r)),
      (''runtimeExecutionId'', j_opt JStr (td_runtimeExecutionId r)),
      (''generatedExecutionGraphId'', j_opt JStr (td_generatedExecutionGraphId r)),
      (''generatedExecutionNodeId'', j_opt JStr (td_generatedExecutionNodeId r)),
      (''toolCapabilityId'', JStr (td_toolCapabilityId r)),
      (''actionTypeId'', JStr (td_actionTypeId r)),
      (''gatewayRegistryEntryId'', JStr (td_gatewayRegistryEntryId r)),
      (''actionClass'', JStr (td_actionClass r)),
      (''gatewayId'', JStr (td_gatewayId r)),
      (''resourceRef'', JStr (td_resourceRef r)),
      (''draftState'', JStr (tool_call_draft_state_str (td_draftState r))),
      (''parameters'', JObj (td_parameters r)),
      (''nonSecretParamsSummary'', JObj (td_nonSecretParamsSummary r)),
      (''secretRefs'', j_str_map (td_secretRefs r)),
      (''gatewayCredentialRefs'', JArr (map gateway_credential_binding_json (td_gatewayCredentialRefs r))),
      (''delegatedAuthorityRefs'', JArr (map delegated_authority_binding_json (td_delegatedAuthorityRefs r))),
      (''paramsDigest'', JStr (td_paramsDigest r)),
      (''finalizedAt'', j_opt JStr (td_finalizedAt r)),
      (''expiresAt'', JStr (td_expiresAt r)),
      (''invalidReasonCodes'', JArr (map JStr (td_invalidReasonCodes r))),
      (''evidenceRefs'', JArr (map JStr (td_evidenceRefs r))),
      (''draftDigest'', JStr (td_draftDigest r))])"

datatype (plugins only: code) candidate_action_status =
    CAS_contractable
  | CAS_rejected

primrec candidate_action_status_str :: "candidate_action_status \<Rightarrow> string" where
    "candidate_action_status_str CAS_contractable = ''contractable''"
  | "candidate_action_status_str CAS_rejected = ''rejected''"

record candidate_action =
  ca_candidateActionId :: "string"
  ca_candidateStatus :: "candidate_action_status"
  ca_candidateDigest :: "string option"
  ca_refusalReasonCodes :: "string list"
  ca_toolCapabilityId :: "string"
  ca_toolCapabilityDigest :: "string option"
  ca_toolCatalogVersion :: "string option"
  ca_actionTypeId :: "string"
  ca_actionTypeDigest :: "string option"
  ca_actionCatalogVersion :: "string option"
  ca_gatewayRegistryEntryId :: "string"
  ca_gatewayRegistryDigest :: "string option"
  ca_gatewayRegistryVersion :: "string option"
  ca_operatingEnvelopeId :: "string"
  ca_operatingEnvelopeDigest :: "string option"
  ca_actionClass :: "string"
  ca_gatewayId :: "string"
  ca_resourceRef :: "string"
  ca_sequenceNumber :: "int"
  ca_requiredPriorActionContractIds :: "string list"
  ca_recoveryRecommendationId :: "string option"
  ca_parameters :: "(string \<times> jval) list"
  ca_paramsDigest :: "string"
  ca_nonSecretParamsSummary :: "(string \<times> jval) list"
  ca_secretRefs :: "(string \<times> string) list"
  ca_gatewayCredentialRefs :: "gateway_credential_binding list"
  ca_delegatedAuthorityRefs :: "delegated_authority_binding list"
  ca_purposeCode :: "string"
  ca_expectedSideEffectCodes :: "string list"
  ca_evidenceRefs :: "string list"
  ca_clearingEvidenceRefs :: "clearing_evidence_refs"
  ca_bounds :: "(string \<times> jval) list"
  ca_idempotencyKey :: "string"
  ca_rollbackHint :: "string option"
  ca_expiresAt :: "string"
  ca_generatedCodeOrSpecRefs :: "string list"
  ca_runtimeExecutionId :: "string option"
  ca_runtimeExecutionDigest :: "string option"
  ca_generatedExecutionGraphId :: "string option"
  ca_generatedExecutionGraphDigest :: "string option"
  ca_generatedExecutionCoverageStatus :: "generated_execution_coverage_status option"
  ca_generatedExecutionNodeId :: "string option"
  ca_generatedExecutionNodeDigest :: "string option"
  ca_generatedExecutionCatalogSnapshotDigest :: "string option"
  ca_generatedExecutionGatewayRegistrySnapshotDigest :: "string option"
  ca_generatedExecutionRegistryBindingSetDigest :: "string option"
  ca_generatedExecutionNodeGatewayBindingDigest :: "string option"
  ca_toolCallDraftId :: "string option"
  ca_toolCallDraftDigest :: "string option"
  ca_toolCallDraftState :: "tool_call_draft_state option"

definition candidate_action_json :: "'a candidate_action_scheme \<Rightarrow> jval" where
  "candidate_action_json r = JObj (
     [(''candidateActionId'', JStr (ca_candidateActionId r)),
      (''candidateStatus'', JStr (candidate_action_status_str (ca_candidateStatus r))),
      (''candidateDigest'', j_opt JStr (ca_candidateDigest r)),
      (''refusalReasonCodes'', JArr (map JStr (ca_refusalReasonCodes r))),
      (''toolCapabilityId'', JStr (ca_toolCapabilityId r)),
      (''toolCapabilityDigest'', j_opt JStr (ca_toolCapabilityDigest r)),
      (''toolCatalogVersion'', j_opt JStr (ca_toolCatalogVersion r)),
      (''actionTypeId'', JStr (ca_actionTypeId r)),
      (''actionTypeDigest'', j_opt JStr (ca_actionTypeDigest r)),
      (''actionCatalogVersion'', j_opt JStr (ca_actionCatalogVersion r)),
      (''gatewayRegistryEntryId'', JStr (ca_gatewayRegistryEntryId r)),
      (''gatewayRegistryDigest'', j_opt JStr (ca_gatewayRegistryDigest r)),
      (''gatewayRegistryVersion'', j_opt JStr (ca_gatewayRegistryVersion r)),
      (''operatingEnvelopeId'', JStr (ca_operatingEnvelopeId r)),
      (''operatingEnvelopeDigest'', j_opt JStr (ca_operatingEnvelopeDigest r)),
      (''actionClass'', JStr (ca_actionClass r)),
      (''gatewayId'', JStr (ca_gatewayId r)),
      (''resourceRef'', JStr (ca_resourceRef r)),
      (''sequenceNumber'', JInt (ca_sequenceNumber r)),
      (''requiredPriorActionContractIds'', JArr (map JStr (ca_requiredPriorActionContractIds r))),
      (''recoveryRecommendationId'', j_opt JStr (ca_recoveryRecommendationId r)),
      (''parameters'', JObj (ca_parameters r)),
      (''paramsDigest'', JStr (ca_paramsDigest r)),
      (''nonSecretParamsSummary'', JObj (ca_nonSecretParamsSummary r)),
      (''secretRefs'', j_str_map (ca_secretRefs r)),
      (''gatewayCredentialRefs'', JArr (map gateway_credential_binding_json (ca_gatewayCredentialRefs r))),
      (''delegatedAuthorityRefs'', JArr (map delegated_authority_binding_json (ca_delegatedAuthorityRefs r))),
      (''purposeCode'', JStr (ca_purposeCode r)),
      (''expectedSideEffectCodes'', JArr (map JStr (ca_expectedSideEffectCodes r))),
      (''evidenceRefs'', JArr (map JStr (ca_evidenceRefs r))),
      (''clearingEvidenceRefs'', clearing_evidence_refs_json (ca_clearingEvidenceRefs r)),
      (''bounds'', JObj (ca_bounds r)),
      (''idempotencyKey'', JStr (ca_idempotencyKey r)),
      (''rollbackHint'', j_opt JStr (ca_rollbackHint r)),
      (''expiresAt'', JStr (ca_expiresAt r)),
      (''generatedCodeOrSpecRefs'', JArr (map JStr (ca_generatedCodeOrSpecRefs r))),
      (''runtimeExecutionId'', j_opt JStr (ca_runtimeExecutionId r)),
      (''runtimeExecutionDigest'', j_opt JStr (ca_runtimeExecutionDigest r)),
      (''generatedExecutionGraphId'', j_opt JStr (ca_generatedExecutionGraphId r)),
      (''generatedExecutionGraphDigest'', j_opt JStr (ca_generatedExecutionGraphDigest r)),
      (''generatedExecutionCoverageStatus'', j_opt (\<lambda>x. JStr (generated_execution_coverage_status_str x)) (ca_generatedExecutionCoverageStatus r)),
      (''generatedExecutionNodeId'', j_opt JStr (ca_generatedExecutionNodeId r)),
      (''generatedExecutionNodeDigest'', j_opt JStr (ca_generatedExecutionNodeDigest r)),
      (''generatedExecutionCatalogSnapshotDigest'', j_opt JStr (ca_generatedExecutionCatalogSnapshotDigest r)),
      (''generatedExecutionGatewayRegistrySnapshotDigest'', j_opt JStr (ca_generatedExecutionGatewayRegistrySnapshotDigest r)),
      (''generatedExecutionRegistryBindingSetDigest'', j_opt JStr (ca_generatedExecutionRegistryBindingSetDigest r)),
      (''generatedExecutionNodeGatewayBindingDigest'', j_opt JStr (ca_generatedExecutionNodeGatewayBindingDigest r)),
      (''toolCallDraftId'', j_opt JStr (ca_toolCallDraftId r)),
      (''toolCallDraftDigest'', j_opt JStr (ca_toolCallDraftDigest r)),
      (''toolCallDraftState'', j_opt (\<lambda>x. JStr (tool_call_draft_state_str x)) (ca_toolCallDraftState r))])"

record intent_compilation = protocol_base +
  ic_intentCompilationId :: "string"
  ic_principalIntentRef :: "string"
  ic_principalId :: "string"
  ic_agentId :: "string"
  ic_runId :: "string"
  ic_runtimeAdapterId :: "string"
  ic_operatingEnvelopeId :: "string"
  ic_toolCatalogRef :: "string"
  ic_actionCatalogRef :: "string"
  ic_gatewayRegistryRef :: "string"
  ic_runtimeExecutionId :: "string option"
  ic_runtimeExecutionDigest :: "string option"
  ic_generatedCodeOrSpecRefs :: "string list"
  ic_declaredAssumptions :: "string list"
  ic_uncertaintyMarkers :: "string list"
  ic_candidateAction :: "candidate_action"
  ic_candidateActionContractRefs :: "string list"
  ic_rejectedCandidateRefs :: "string list"
  ic_overreachReasonCodes :: "string list"
  ic_requiredEvidenceRefs :: "string list"
  ic_compilerVersion :: "string"

definition intent_compilation_json :: "'a intent_compilation_scheme \<Rightarrow> jval" where
  "intent_compilation_json r = JObj (base_fields r @
     [(''intentCompilationId'', JStr (ic_intentCompilationId r)),
      (''principalIntentRef'', JStr (ic_principalIntentRef r)),
      (''principalId'', JStr (ic_principalId r)),
      (''agentId'', JStr (ic_agentId r)),
      (''runId'', JStr (ic_runId r)),
      (''runtimeAdapterId'', JStr (ic_runtimeAdapterId r)),
      (''operatingEnvelopeId'', JStr (ic_operatingEnvelopeId r)),
      (''toolCatalogRef'', JStr (ic_toolCatalogRef r)),
      (''actionCatalogRef'', JStr (ic_actionCatalogRef r)),
      (''gatewayRegistryRef'', JStr (ic_gatewayRegistryRef r)),
      (''runtimeExecutionId'', j_opt JStr (ic_runtimeExecutionId r)),
      (''runtimeExecutionDigest'', j_opt JStr (ic_runtimeExecutionDigest r)),
      (''generatedCodeOrSpecRefs'', JArr (map JStr (ic_generatedCodeOrSpecRefs r))),
      (''declaredAssumptions'', JArr (map JStr (ic_declaredAssumptions r))),
      (''uncertaintyMarkers'', JArr (map JStr (ic_uncertaintyMarkers r))),
      (''candidateAction'', candidate_action_json (ic_candidateAction r)),
      (''candidateActionContractRefs'', JArr (map JStr (ic_candidateActionContractRefs r))),
      (''rejectedCandidateRefs'', JArr (map JStr (ic_rejectedCandidateRefs r))),
      (''overreachReasonCodes'', JArr (map JStr (ic_overreachReasonCodes r))),
      (''requiredEvidenceRefs'', JArr (map JStr (ic_requiredEvidenceRefs r))),
      (''compilerVersion'', JStr (ic_compilerVersion r))])"

end
