(* ===== verification/Schemas_Gate.thy ===== *)
theory Schemas_Gate
  imports Schemas_Catalog
begin

text \<open>
  The records of the authority lifecycle: policy decisions and greenlights,
  gateway check and mutation attempts, idempotency ledger entries, surface
  operation claims and reconciliations, proof gaps, refusals, isolation and stream
  events (\<open>gateway-gate\<close>, \<open>policy-greenlight\<close>,
  \<open>idempotency-ledger\<close>, \<open>operation-lifecycle\<close>, \<open>proof-gap\<close>, \<open>refusal\<close>,
  \<open>isolation-breaker\<close> and \<open>events\<close> schemas).
\<close>

datatype (plugins only: code) gate_decision =
    GD_passed
  | GD_refused
  | GD_proof_gap

primrec gate_decision_str :: "gate_decision \<Rightarrow> string" where
    "gate_decision_str GD_passed = ''passed''"
  | "gate_decision_str GD_refused = ''refused''"
  | "gate_decision_str GD_proof_gap = ''proof_gap''"

datatype (plugins only: code) policy_drift_status =
    DRIFT_same_version
  | DRIFT_compatible_stricter
  | DRIFT_incompatible
  | DRIFT_unknown

primrec policy_drift_status_str :: "policy_drift_status \<Rightarrow> string" where
    "policy_drift_status_str DRIFT_same_version = ''same_version''"
  | "policy_drift_status_str DRIFT_compatible_stricter = ''compatible_stricter''"
  | "policy_drift_status_str DRIFT_incompatible = ''incompatible''"
  | "policy_drift_status_str DRIFT_unknown = ''unknown''"

record gateway_check_attempt = protocol_base +
  gca_gateAttemptId :: "string"
  gca_gatewayId :: "string"
  gca_gatewayPolicyContractId :: "string"
  gca_gatewayPolicyVersion :: "string"
  gca_pinnedGatewayPolicyVersion :: "string"
  gca_currentGatewayPolicyVersion :: "string option"
  gca_gatewayPolicyDriftStatus :: "policy_drift_status"
  gca_actionContractId :: "string"
  gca_greenlightId :: "string"
  gca_contractDigestSeen :: "string"
  gca_greenlightDigestSeen :: "string"
  gca_paramsDigestSeen :: "string"
  gca_idempotencyKeySeen :: "string"
  gca_isolationSnapshotRef :: "string"
  gca_protectedPathPostureIdSeen :: "string option"
  gca_protectedPathPostureDigestSeen :: "string option"
  gca_protectedPathPostureStateSeen :: "protected_path_state option"
  gca_gateDecision :: "gate_decision"
  gca_gateDecisionReasonCode :: "string"
  gca_consumedGreenlight :: "bool"
  gca_mutationAttemptId :: "string option"

definition gateway_check_attempt_json :: "'a gateway_check_attempt_scheme \<Rightarrow> jval" where
  "gateway_check_attempt_json r = JObj (base_fields r @
     [(''gateAttemptId'', JStr (gca_gateAttemptId r)),
      (''gatewayId'', JStr (gca_gatewayId r)),
      (''gatewayPolicyContractId'', JStr (gca_gatewayPolicyContractId r)),
      (''gatewayPolicyVersion'', JStr (gca_gatewayPolicyVersion r)),
      (''pinnedGatewayPolicyVersion'', JStr (gca_pinnedGatewayPolicyVersion r)),
      (''currentGatewayPolicyVersion'', j_opt JStr (gca_currentGatewayPolicyVersion r)),
      (''gatewayPolicyDriftStatus'', JStr (policy_drift_status_str (gca_gatewayPolicyDriftStatus r))),
      (''actionContractId'', JStr (gca_actionContractId r)),
      (''greenlightId'', JStr (gca_greenlightId r)),
      (''contractDigestSeen'', JStr (gca_contractDigestSeen r)),
      (''greenlightDigestSeen'', JStr (gca_greenlightDigestSeen r)),
      (''paramsDigestSeen'', JStr (gca_paramsDigestSeen r)),
      (''idempotencyKeySeen'', JStr (gca_idempotencyKeySeen r)),
      (''isolationSnapshotRef'', JStr (gca_isolationSnapshotRef r)),
      (''protectedPathPostureIdSeen'', j_opt JStr (gca_protectedPathPostureIdSeen r)),
      (''protectedPathPostureDigestSeen'', j_opt JStr (gca_protectedPathPostureDigestSeen r)),
      (''protectedPathPostureStateSeen'', j_opt (\<lambda>x. JStr (protected_path_state_str x)) (gca_protectedPathPostureStateSeen r)),
      (''gateDecision'', JStr (gate_decision_str (gca_gateDecision r))),
      (''gateDecisionReasonCode'', JStr (gca_gateDecisionReasonCode r)),
      (''consumedGreenlight'', JBool (gca_consumedGreenlight r)),
      (''mutationAttemptId'', j_opt JStr (gca_mutationAttemptId r))])"

definition gateway_check_attempt_valid :: "'e env_scheme \<Rightarrow> 'a gateway_check_attempt_scheme \<Rightarrow> bool" where
  "gateway_check_attempt_valid E r \<longleftrightarrow>
     base_valid E r \<and>
     id_ok (gca_gateAttemptId r) \<and>
     id_ok (gca_gatewayId r) \<and>
     id_ok (gca_gatewayPolicyContractId r) \<and>
     1 \<le> length (gca_gatewayPolicyVersion r) \<and>
     1 \<le> length (gca_pinnedGatewayPolicyVersion r) \<and>
     opt_ok (\<lambda>x. 1 \<le> length x) (gca_currentGatewayPolicyVersion r) \<and>
     id_ok (gca_actionContractId r) \<and>
     id_ok (gca_greenlightId r) \<and>
     digest_ok (gca_contractDigestSeen r) \<and>
     digest_ok (gca_greenlightDigestSeen r) \<and>
     digest_ok (gca_paramsDigestSeen r) \<and>
     id_ok (gca_idempotencyKeySeen r) \<and>
     1 \<le> length (gca_isolationSnapshotRef r) \<and>
     opt_ok id_ok (gca_protectedPathPostureIdSeen r) \<and>
     opt_ok digest_ok (gca_protectedPathPostureDigestSeen r) \<and>
     reason_code_ok (gca_gateDecisionReasonCode r) \<and>
     opt_ok id_ok (gca_mutationAttemptId r)"

datatype (plugins only: code) mutation_outcome =
    MO_not_attempted
  | MO_submitted
  | MO_succeeded
  | MO_downstream_refused
  | MO_failed
  | MO_unknown

primrec mutation_outcome_str :: "mutation_outcome \<Rightarrow> string" where
    "mutation_outcome_str MO_not_attempted = ''not_attempted''"
  | "mutation_outcome_str MO_submitted = ''submitted''"
  | "mutation_outcome_str MO_succeeded = ''succeeded''"
  | "mutation_outcome_str MO_downstream_refused = ''downstream_refused''"
  | "mutation_outcome_str MO_failed = ''failed''"
  | "mutation_outcome_str MO_unknown = ''unknown''"

record mutation_attempt = protocol_base +
  ma_mutationAttemptId :: "string"
  ma_gateAttemptId :: "string"
  ma_actionContractId :: "string"
  ma_greenlightId :: "string"
  ma_gatewayId :: "string"
  ma_actionClass :: "string"
  ma_resourceRef :: "string"
  ma_idempotencyKey :: "string"
  ma_outcome :: "mutation_outcome"
  ma_outcomeReasonCode :: "string"
  ma_surfaceOperationRef :: "string option"
  ma_startedAt :: "string"
  ma_finishedAt :: "string option"

definition mutation_attempt_json :: "'a mutation_attempt_scheme \<Rightarrow> jval" where
  "mutation_attempt_json r = JObj (base_fields r @
     [(''mutationAttemptId'', JStr (ma_mutationAttemptId r)),
      (''gateAttemptId'', JStr (ma_gateAttemptId r)),
      (''actionContractId'', JStr (ma_actionContractId r)),
      (''greenlightId'', JStr (ma_greenlightId r)),
      (''gatewayId'', JStr (ma_gatewayId r)),
      (''actionClass'', JStr (ma_actionClass r)),
      (''resourceRef'', JStr (ma_resourceRef r)),
      (''idempotencyKey'', JStr (ma_idempotencyKey r)),
      (''outcome'', JStr (mutation_outcome_str (ma_outcome r))),
      (''outcomeReasonCode'', JStr (ma_outcomeReasonCode r)),
      (''surfaceOperationRef'', j_opt JStr (ma_surfaceOperationRef r)),
      (''startedAt'', JStr (ma_startedAt r)),
      (''finishedAt'', j_opt JStr (ma_finishedAt r))])"

definition mutation_attempt_valid :: "'e env_scheme \<Rightarrow> 'a mutation_attempt_scheme \<Rightarrow> bool" where
  "mutation_attempt_valid E r \<longleftrightarrow>
     base_valid E r \<and>
     id_ok (ma_mutationAttemptId r) \<and>
     id_ok (ma_gateAttemptId r) \<and>
     id_ok (ma_actionContractId r) \<and>
     id_ok (ma_greenlightId r) \<and>
     id_ok (ma_gatewayId r) \<and>
     1 \<le> length (ma_actionClass r) \<and>
     resource_ref_ok (ma_resourceRef r) \<and>
     id_ok (ma_idempotencyKey r) \<and>
     reason_code_ok (ma_outcomeReasonCode r) \<and>
     opt_ok (\<lambda>x. 1 \<le> length x) (ma_surfaceOperationRef r) \<and>
     iso_ok E (ma_startedAt r) \<and>
     opt_ok (iso_ok E) (ma_finishedAt r)"

datatype (plugins only: code) policy_decision_value =
    PD_greenlight
  | PD_refuse
  | PD_review_required
  | PD_halt
  | PD_quarantine
  | PD_proof_gap

primrec policy_decision_value_str :: "policy_decision_value \<Rightarrow> string" where
    "policy_decision_value_str PD_greenlight = ''greenlight''"
  | "policy_decision_value_str PD_refuse = ''refuse''"
  | "policy_decision_value_str PD_review_required = ''review_required''"
  | "policy_decision_value_str PD_halt = ''halt''"
  | "policy_decision_value_str PD_quarantine = ''quarantine''"
  | "policy_decision_value_str PD_proof_gap = ''proof_gap''"

record policy_decision = protocol_base +
  pd_policyDecisionId :: "string"
  pd_actionContractId :: "string"
  pd_envelopeId :: "string"
  pd_policyPackRef :: "string"
  pd_policyPackVersion :: "string"
  pd_policyEvaluatorVersion :: "string"
  pd_policyInputDigest :: "string"
  pd_decision :: "policy_decision_value"
  pd_decisionReasonCode :: "string"
  pd_decisionReason :: "string"
  pd_matchedRuleIds :: "string list"
  pd_requiredReceipt :: "receipt_requirement"
  pd_isolationSnapshotRef :: "string"
  pd_expiresAt :: "string"
  pd_decisionSignature :: "string option"
  pd_signaturePosture :: "signature_posture"
  pd_keyIdentityRef :: "string option"
  pd_verificationPolicyRef :: "string option"

definition policy_decision_json :: "'a policy_decision_scheme \<Rightarrow> jval" where
  "policy_decision_json r = JObj (base_fields r @
     [(''policyDecisionId'', JStr (pd_policyDecisionId r)),
      (''actionContractId'', JStr (pd_actionContractId r)),
      (''envelopeId'', JStr (pd_envelopeId r)),
      (''policyPackRef'', JStr (pd_policyPackRef r)),
      (''policyPackVersion'', JStr (pd_policyPackVersion r)),
      (''policyEvaluatorVersion'', JStr (pd_policyEvaluatorVersion r)),
      (''policyInputDigest'', JStr (pd_policyInputDigest r)),
      (''decision'', JStr (policy_decision_value_str (pd_decision r))),
      (''decisionReasonCode'', JStr (pd_decisionReasonCode r)),
      (''decisionReason'', JStr (pd_decisionReason r)),
      (''matchedRuleIds'', JArr (map JStr (pd_matchedRuleIds r))),
      (''requiredReceipt'', JStr (receipt_requirement_str (pd_requiredReceipt r))),
      (''isolationSnapshotRef'', JStr (pd_isolationSnapshotRef r)),
      (''expiresAt'', JStr (pd_expiresAt r)),
      (''decisionSignature'', j_opt JStr (pd_decisionSignature r)),
      (''signaturePosture'', JStr (signature_posture_str (pd_signaturePosture r))),
      (''keyIdentityRef'', j_opt JStr (pd_keyIdentityRef r)),
      (''verificationPolicyRef'', j_opt JStr (pd_verificationPolicyRef r))])"

definition policy_decision_valid :: "'e env_scheme \<Rightarrow> 'a policy_decision_scheme \<Rightarrow> bool" where
  "policy_decision_valid E r \<longleftrightarrow>
     base_valid E r \<and>
     id_ok (pd_policyDecisionId r) \<and>
     id_ok (pd_actionContractId r) \<and>
     id_ok (pd_envelopeId r) \<and>
     1 \<le> length (pd_policyPackRef r) \<and>
     1 \<le> length (pd_policyPackVersion r) \<and>
     1 \<le> length (pd_policyEvaluatorVersion r) \<and>
     digest_ok (pd_policyInputDigest r) \<and>
     reason_code_ok (pd_decisionReasonCode r) \<and>
     1 \<le> length (pd_decisionReason r) \<and> length (pd_decisionReason r) \<le> 1000 \<and>
     1 \<le> length (pd_isolationSnapshotRef r) \<and>
     iso_ok E (pd_expiresAt r) \<and>
     opt_ok signature_ok (pd_decisionSignature r) \<and>
     opt_ok (\<lambda>x. 1 \<le> length x) (pd_keyIdentityRef r) \<and>
     opt_ok (\<lambda>x. 1 \<le> length x) (pd_verificationPolicyRef r)"

record greenlight = protocol_base +
  gl_greenlightId :: "string"
  gl_actionContractId :: "string"
  gl_policyDecisionId :: "string"
  gl_gatewayRegistryEntryId :: "string"
  gl_gatewayRegistryDigest :: "string option"
  gl_gatewayRegistryVersion :: "string"
  gl_gatewayId :: "string"
  gl_gatewayPolicyVersion :: "string"
  gl_policyVersionRef :: "string option"
  gl_policyVersionDigest :: "string option"
  gl_gatewayReadinessRef :: "string option"
  gl_gatewayReadinessDigest :: "string option"
  gl_actionClass :: "string"
  gl_resourceRef :: "string"
  gl_requiredProtectedPathState :: "required_protected_path_state"
  gl_protectedPathPostureId :: "string option"
  gl_protectedPathPostureDigest :: "string option"
  gl_gatewayCredentialRefIds :: "string list"
  gl_gatewayCredentialRefDigests :: "string list"
  gl_delegatedAuthorityRefIds :: "string list"
  gl_delegatedAuthorityRefDigests :: "string list"
  gl_paramsDigest :: "string"
  gl_contractDigest :: "string"
  gl_idempotencyKey :: "string option"
  gl_idempotencyLedgerKeyDigest :: "string option"
  gl_maxUses :: "int"
  gl_issuedAt :: "string"
  gl_notBefore :: "string"
  gl_expiresAt :: "string"
  gl_isolationSnapshotRef :: "string"
  gl_requiredReceipt :: "receipt_requirement"
  gl_decisionSignature :: "string option"
  gl_signaturePosture :: "signature_posture"
  gl_keyIdentityRef :: "string option"
  gl_verificationPolicyRef :: "string option"
  gl_consumedAt :: "string option"
  gl_consumedByGateAttemptId :: "string option"

definition greenlight_json :: "'a greenlight_scheme \<Rightarrow> jval" where
  "greenlight_json r = JObj (base_fields r @
     [(''greenlightId'', JStr (gl_greenlightId r)),
      (''actionContractId'', JStr (gl_actionContractId r)),
      (''policyDecisionId'', JStr (gl_policyDecisionId r)),
      (''gatewayRegistryEntryId'', JStr (gl_gatewayRegistryEntryId r)),
      (''gatewayRegistryDigest'', j_opt JStr (gl_gatewayRegistryDigest r)),
      (''gatewayRegistryVersion'', JStr (gl_gatewayRegistryVersion r)),
      (''gatewayId'', JStr (gl_gatewayId r)),
      (''gatewayPolicyVersion'', JStr (gl_gatewayPolicyVersion r)),
      (''policyVersionRef'', j_opt JStr (gl_policyVersionRef r)),
      (''policyVersionDigest'', j_opt JStr (gl_policyVersionDigest r)),
      (''gatewayReadinessRef'', j_opt JStr (gl_gatewayReadinessRef r)),
      (''gatewayReadinessDigest'', j_opt JStr (gl_gatewayReadinessDigest r)),
      (''actionClass'', JStr (gl_actionClass r)),
      (''resourceRef'', JStr (gl_resourceRef r)),
      (''requiredProtectedPathState'', JStr (required_protected_path_state_str (gl_requiredProtectedPathState r))),
      (''protectedPathPostureId'', j_opt JStr (gl_protectedPathPostureId r)),
      (''protectedPathPostureDigest'', j_opt JStr (gl_protectedPathPostureDigest r)),
      (''gatewayCredentialRefIds'', JArr (map JStr (gl_gatewayCredentialRefIds r))),
      (''gatewayCredentialRefDigests'', JArr (map JStr (gl_gatewayCredentialRefDigests r))),
      (''delegatedAuthorityRefIds'', JArr (map JStr (gl_delegatedAuthorityRefIds r))),
      (''delegatedAuthorityRefDigests'', JArr (map JStr (gl_delegatedAuthorityRefDigests r))),
      (''paramsDigest'', JStr (gl_paramsDigest r)),
      (''contractDigest'', JStr (gl_contractDigest r)),
      (''idempotencyKey'', j_opt JStr (gl_idempotencyKey r)),
      (''idempotencyLedgerKeyDigest'', j_opt JStr (gl_idempotencyLedgerKeyDigest r)),
      (''maxUses'', JInt (gl_maxUses r)),
      (''issuedAt'', JStr (gl_issuedAt r)),
      (''notBefore'', JStr (gl_notBefore r)),
      (''expiresAt'', JStr (gl_expiresAt r)),
      (''isolationSnapshotRef'', JStr (gl_isolationSnapshotRef r)),
      (''requiredReceipt'', JStr (receipt_requirement_str (gl_requiredReceipt r))),
      (''decisionSignature'', j_opt JStr (gl_decisionSignature r)),
      (''signaturePosture'', JStr (signature_posture_str (gl_signaturePosture r))),
      (''keyIdentityRef'', j_opt JStr (gl_keyIdentityRef r)),
      (''verificationPolicyRef'', j_opt JStr (gl_verificationPolicyRef r)),
      (''consumedAt'', j_opt JStr (gl_consumedAt r)),
      (''consumedByGateAttemptId'', j_opt JStr (gl_consumedByGateAttemptId r))])"

definition greenlight_valid :: "'e env_scheme \<Rightarrow> 'a greenlight_scheme \<Rightarrow> bool" where
  "greenlight_valid E r \<longleftrightarrow>
     base_valid E r \<and>
     id_ok (gl_greenlightId r) \<and>
     id_ok (gl_actionContractId r) \<and>
     id_ok (gl_policyDecisionId r) \<and>
     id_ok (gl_gatewayRegistryEntryId r) \<and>
     opt_ok digest_ok (gl_gatewayRegistryDigest r) \<and>
     1 \<le> length (gl_gatewayRegistryVersion r) \<and>
     id_ok (gl_gatewayId r) \<and>
     1 \<le> length (gl_gatewayPolicyVersion r) \<and>
     opt_ok (\<lambda>x. 1 \<le> length x) (gl_policyVersionRef r) \<and>
     opt_ok digest_ok (gl_policyVersionDigest r) \<and>
     opt_ok (\<lambda>x. 1 \<le> length x) (gl_gatewayReadinessRef r) \<and>
     opt_ok digest_ok (gl_gatewayReadinessDigest r) \<and>
     1 \<le> length (gl_actionClass r) \<and>
     resource_ref_ok (gl_resourceRef r) \<and>
     opt_ok id_ok (gl_protectedPathPostureId r) \<and>
     opt_ok digest_ok (gl_protectedPathPostureDigest r) \<and>
     list_all id_ok (gl_gatewayCredentialRefIds r) \<and>
     list_all digest_ok (gl_gatewayCredentialRefDigests r) \<and>
     list_all id_ok (gl_delegatedAuthorityRefIds r) \<and>
     list_all digest_ok (gl_delegatedAuthorityRefDigests r) \<and>
     digest_ok (gl_paramsDigest r) \<and>
     digest_ok (gl_contractDigest r) \<and>
     opt_ok id_ok (gl_idempotencyKey r) \<and>
     opt_ok digest_ok (gl_idempotencyLedgerKeyDigest r) \<and>
     (gl_maxUses r) = 1 \<and>
     iso_ok E (gl_issuedAt r) \<and>
     iso_ok E (gl_notBefore r) \<and>
     iso_ok E (gl_expiresAt r) \<and>
     1 \<le> length (gl_isolationSnapshotRef r) \<and>
     opt_ok signature_ok (gl_decisionSignature r) \<and>
     opt_ok (\<lambda>x. 1 \<le> length x) (gl_keyIdentityRef r) \<and>
     opt_ok (\<lambda>x. 1 \<le> length x) (gl_verificationPolicyRef r) \<and>
     opt_ok (iso_ok E) (gl_consumedAt r) \<and>
     opt_ok id_ok (gl_consumedByGateAttemptId r)"

datatype (plugins only: code) idempotency_ledger_state =
    ILS_authority_reserved
  | ILS_mutation_started
  | ILS_terminal_succeeded
  | ILS_terminal_failed
  | ILS_terminal_refused
  | ILS_terminal_unknown

primrec idempotency_ledger_state_str :: "idempotency_ledger_state \<Rightarrow> string" where
    "idempotency_ledger_state_str ILS_authority_reserved = ''authority_reserved''"
  | "idempotency_ledger_state_str ILS_mutation_started = ''mutation_started''"
  | "idempotency_ledger_state_str ILS_terminal_succeeded = ''terminal_succeeded''"
  | "idempotency_ledger_state_str ILS_terminal_failed = ''terminal_failed''"
  | "idempotency_ledger_state_str ILS_terminal_refused = ''terminal_refused''"
  | "idempotency_ledger_state_str ILS_terminal_unknown = ''terminal_unknown''"

record idempotency_ledger_entry = protocol_base +
  il_idempotencyLedgerEntryId :: "string"
  il_ledgerKeyDigest :: "string"
  il_gatewayId :: "string"
  il_protectedSurfaceKind :: "string"
  il_actionClass :: "string"
  il_resourceRef :: "string"
  il_idempotencyKey :: "string"
  il_paramsDigest :: "string"
  il_actionContractId :: "string"
  il_policyDecisionId :: "string"
  il_greenlightId :: "string option"
  il_gateAttemptId :: "string option"
  il_mutationAttemptId :: "string option"
  il_receiptId :: "string option"
  il_ledgerState :: "idempotency_ledger_state"
  il_reasonCode :: "string"
  il_evidenceRefs :: "string list"
  il_firstReservedAt :: "string"
  il_updatedAt :: "string"
  il_ledgerDigest :: "string"

definition idempotency_ledger_entry_json :: "'a idempotency_ledger_entry_scheme \<Rightarrow> jval" where
  "idempotency_ledger_entry_json r = JObj (base_fields r @
     [(''idempotencyLedgerEntryId'', JStr (il_idempotencyLedgerEntryId r)),
      (''ledgerKeyDigest'', JStr (il_ledgerKeyDigest r)),
      (''gatewayId'', JStr (il_gatewayId r)),
      (''protectedSurfaceKind'', JStr (il_protectedSurfaceKind r)),
      (''actionClass'', JStr (il_actionClass r)),
      (''resourceRef'', JStr (il_resourceRef r)),
      (''idempotencyKey'', JStr (il_idempotencyKey r)),
      (''paramsDigest'', JStr (il_paramsDigest r)),
      (''actionContractId'', JStr (il_actionContractId r)),
      (''policyDecisionId'', JStr (il_policyDecisionId r)),
      (''greenlightId'', j_opt JStr (il_greenlightId r)),
      (''gateAttemptId'', j_opt JStr (il_gateAttemptId r)),
      (''mutationAttemptId'', j_opt JStr (il_mutationAttemptId r)),
      (''receiptId'', j_opt JStr (il_receiptId r)),
      (''ledgerState'', JStr (idempotency_ledger_state_str (il_ledgerState r))),
      (''reasonCode'', JStr (il_reasonCode r)),
      (''evidenceRefs'', JArr (map JStr (il_evidenceRefs r))),
      (''firstReservedAt'', JStr (il_firstReservedAt r)),
      (''updatedAt'', JStr (il_updatedAt r)),
      (''ledgerDigest'', JStr (il_ledgerDigest r))])"

definition idempotency_ledger_entry_valid :: "'e env_scheme \<Rightarrow> 'a idempotency_ledger_entry_scheme \<Rightarrow> bool" where
  "idempotency_ledger_entry_valid E r \<longleftrightarrow>
     base_valid E r \<and>
     id_ok (il_idempotencyLedgerEntryId r) \<and>
     digest_ok (il_ledgerKeyDigest r) \<and>
     id_ok (il_gatewayId r) \<and>
     1 \<le> length (il_protectedSurfaceKind r) \<and>
     1 \<le> length (il_actionClass r) \<and>
     resource_ref_ok (il_resourceRef r) \<and>
     id_ok (il_idempotencyKey r) \<and>
     digest_ok (il_paramsDigest r) \<and>
     id_ok (il_actionContractId r) \<and>
     id_ok (il_policyDecisionId r) \<and>
     opt_ok id_ok (il_greenlightId r) \<and>
     opt_ok id_ok (il_gateAttemptId r) \<and>
     opt_ok id_ok (il_mutationAttemptId r) \<and>
     opt_ok id_ok (il_receiptId r) \<and>
     reason_code_ok (il_reasonCode r) \<and>
     list_all (\<lambda>x. 1 \<le> length x) (il_evidenceRefs r) \<and>
     iso_ok E (il_firstReservedAt r) \<and>
     iso_ok E (il_updatedAt r) \<and>
     digest_ok (il_ledgerDigest r)"

datatype (plugins only: code) operation_claim_state =
    OCS_active
  | OCS_terminal_succeeded
  | OCS_terminal_refused
  | OCS_terminal_failed
  | OCS_terminal_unknown
  | OCS_isolated

primrec operation_claim_state_str :: "operation_claim_state \<Rightarrow> string" where
    "operation_claim_state_str OCS_active = ''active''"
  | "operation_claim_state_str OCS_terminal_succeeded = ''terminal_succeeded''"
  | "operation_claim_state_str OCS_terminal_refused = ''terminal_refused''"
  | "operation_claim_state_str OCS_terminal_failed = ''terminal_failed''"
  | "operation_claim_state_str OCS_terminal_unknown = ''terminal_unknown''"
  | "operation_claim_state_str OCS_isolated = ''isolated''"

datatype (plugins only: code) downstream_retryability =
    DR_retryable
  | DR_non_retryable
  | DR_unknown

primrec downstream_retryability_str :: "downstream_retryability \<Rightarrow> string" where
    "downstream_retryability_str DR_retryable = ''retryable''"
  | "downstream_retryability_str DR_non_retryable = ''non_retryable''"
  | "downstream_retryability_str DR_unknown = ''unknown''"

datatype (plugins only: code) downstream_diagnostics_redaction_posture =
    DDRP_redacted
  | DDRP_digest_only
  | DDRP_none
  | DDRP_unknown

primrec downstream_diagnostics_redaction_posture_str :: "downstream_diagnostics_redaction_posture \<Rightarrow> string" where
    "downstream_diagnostics_redaction_posture_str DDRP_redacted = ''redacted''"
  | "downstream_diagnostics_redaction_posture_str DDRP_digest_only = ''digest_only''"
  | "downstream_diagnostics_redaction_posture_str DDRP_none = ''none''"
  | "downstream_diagnostics_redaction_posture_str DDRP_unknown = ''unknown''"

record surface_operation_claim = protocol_base +
  oc_protectedSurfaceOperationClaimId :: "string"
  oc_claimKeyDigest :: "string"
  oc_gatewayId :: "string"
  oc_protectedSurfaceKind :: "string"
  oc_actionClass :: "string"
  oc_resourceRef :: "string"
  oc_actionContractId :: "string"
  oc_greenlightId :: "string"
  oc_gateAttemptId :: "string"
  oc_mutationAttemptId :: "string option"
  oc_claimState :: "operation_claim_state"
  oc_claimedAt :: "string"
  oc_terminalAt :: "string option"
  oc_terminalReasonCode :: "string option"
  oc_releasedByRef :: "string option"
  oc_claimDigest :: "string"

definition surface_operation_claim_json :: "'a surface_operation_claim_scheme \<Rightarrow> jval" where
  "surface_operation_claim_json r = JObj (base_fields r @
     [(''protectedSurfaceOperationClaimId'', JStr (oc_protectedSurfaceOperationClaimId r)),
      (''claimKeyDigest'', JStr (oc_claimKeyDigest r)),
      (''gatewayId'', JStr (oc_gatewayId r)),
      (''protectedSurfaceKind'', JStr (oc_protectedSurfaceKind r)),
      (''actionClass'', JStr (oc_actionClass r)),
      (''resourceRef'', JStr (oc_resourceRef r)),
      (''actionContractId'', JStr (oc_actionContractId r)),
      (''greenlightId'', JStr (oc_greenlightId r)),
      (''gateAttemptId'', JStr (oc_gateAttemptId r)),
      (''mutationAttemptId'', j_opt JStr (oc_mutationAttemptId r)),
      (''claimState'', JStr (operation_claim_state_str (oc_claimState r))),
      (''claimedAt'', JStr (oc_claimedAt r)),
      (''terminalAt'', j_opt JStr (oc_terminalAt r)),
      (''terminalReasonCode'', j_opt JStr (oc_terminalReasonCode r)),
      (''releasedByRef'', j_opt JStr (oc_releasedByRef r)),
      (''claimDigest'', JStr (oc_claimDigest r))])"

definition surface_operation_claim_valid :: "'e env_scheme \<Rightarrow> 'a surface_operation_claim_scheme \<Rightarrow> bool" where
  "surface_operation_claim_valid E r \<longleftrightarrow>
     base_valid E r \<and>
     id_ok (oc_protectedSurfaceOperationClaimId r) \<and>
     digest_ok (oc_claimKeyDigest r) \<and>
     id_ok (oc_gatewayId r) \<and>
     1 \<le> length (oc_protectedSurfaceKind r) \<and>
     1 \<le> length (oc_actionClass r) \<and>
     resource_ref_ok (oc_resourceRef r) \<and>
     id_ok (oc_actionContractId r) \<and>
     id_ok (oc_greenlightId r) \<and>
     id_ok (oc_gateAttemptId r) \<and>
     opt_ok id_ok (oc_mutationAttemptId r) \<and>
     iso_ok E (oc_claimedAt r) \<and>
     opt_ok (iso_ok E) (oc_terminalAt r) \<and>
     opt_ok reason_code_ok (oc_terminalReasonCode r) \<and>
     opt_ok (\<lambda>x. 1 \<le> length x) (oc_releasedByRef r) \<and>
     digest_ok (oc_claimDigest r)"

datatype (plugins only: code) downstream_status =
    DS_pending
  | DS_succeeded
  | DS_refused
  | DS_failed
  | DS_unknown

primrec downstream_status_str :: "downstream_status \<Rightarrow> string" where
    "downstream_status_str DS_pending = ''pending''"
  | "downstream_status_str DS_succeeded = ''succeeded''"
  | "downstream_status_str DS_refused = ''refused''"
  | "downstream_status_str DS_failed = ''failed''"
  | "downstream_status_str DS_unknown = ''unknown''"

datatype (plugins only: code) reconciliation_status =
    RS_pending
  | RS_resolved
  | RS_still_unknown
  | RS_failed

primrec reconciliation_status_str :: "reconciliation_status \<Rightarrow> string" where
    "reconciliation_status_str RS_pending = ''pending''"
  | "reconciliation_status_str RS_resolved = ''resolved''"
  | "reconciliation_status_str RS_still_unknown = ''still_unknown''"
  | "reconciliation_status_str RS_failed = ''failed''"

datatype (plugins only: code) finality_status =
    FS_final
  | FS_pending
  | FS_suspect
  | FS_unknown

primrec finality_status_str :: "finality_status \<Rightarrow> string" where
    "finality_status_str FS_final = ''final''"
  | "finality_status_str FS_pending = ''pending''"
  | "finality_status_str FS_suspect = ''suspect''"
  | "finality_status_str FS_unknown = ''unknown''"

record surface_operation_reconciliation = protocol_base +
  sr_reconciliationId :: "string"
  sr_mutationAttemptId :: "string"
  sr_gateAttemptId :: "string"
  sr_actionContractId :: "string"
  sr_greenlightId :: "string"
  sr_gatewayId :: "string"
  sr_idempotencyKey :: "string"
  sr_surfaceOperationRef :: "string option"
  sr_previousMutationOutcome :: "mutation_outcome"
  sr_observedDownstreamStatus :: "downstream_status"
  sr_downstreamRetryability :: "downstream_retryability"
  sr_providerRequestRef :: "string option"
  sr_providerOperationRef :: "string option"
  sr_redactedDiagnosticsDigest :: "string option"
  sr_traceRef :: "string option"
  sr_spanRef :: "string option"
  sr_diagnosticsRedactionPosture :: "downstream_diagnostics_redaction_posture"
  sr_observedAt :: "string"
  sr_evidenceRefs :: "string list"
  sr_resolvedProofGapIds :: "string list"
  sr_reconciliationStatus :: "reconciliation_status"
  sr_finalityStatus :: "finality_status"

definition surface_operation_reconciliation_json :: "'a surface_operation_reconciliation_scheme \<Rightarrow> jval" where
  "surface_operation_reconciliation_json r = JObj (base_fields r @
     [(''reconciliationId'', JStr (sr_reconciliationId r)),
      (''mutationAttemptId'', JStr (sr_mutationAttemptId r)),
      (''gateAttemptId'', JStr (sr_gateAttemptId r)),
      (''actionContractId'', JStr (sr_actionContractId r)),
      (''greenlightId'', JStr (sr_greenlightId r)),
      (''gatewayId'', JStr (sr_gatewayId r)),
      (''idempotencyKey'', JStr (sr_idempotencyKey r)),
      (''surfaceOperationRef'', j_opt JStr (sr_surfaceOperationRef r)),
      (''previousMutationOutcome'', JStr (mutation_outcome_str (sr_previousMutationOutcome r))),
      (''observedDownstreamStatus'', JStr (downstream_status_str (sr_observedDownstreamStatus r))),
      (''downstreamRetryability'', JStr (downstream_retryability_str (sr_downstreamRetryability r))),
      (''providerRequestRef'', j_opt JStr (sr_providerRequestRef r)),
      (''providerOperationRef'', j_opt JStr (sr_providerOperationRef r)),
      (''redactedDiagnosticsDigest'', j_opt JStr (sr_redactedDiagnosticsDigest r)),
      (''traceRef'', j_opt JStr (sr_traceRef r)),
      (''spanRef'', j_opt JStr (sr_spanRef r)),
      (''diagnosticsRedactionPosture'', JStr (downstream_diagnostics_redaction_posture_str (sr_diagnosticsRedactionPosture r))),
      (''observedAt'', JStr (sr_observedAt r)),
      (''evidenceRefs'', JArr (map JStr (sr_evidenceRefs r))),
      (''resolvedProofGapIds'', JArr (map JStr (sr_resolvedProofGapIds r))),
      (''reconciliationStatus'', JStr (reconciliation_status_str (sr_reconciliationStatus r))),
      (''finalityStatus'', JStr (finality_status_str (sr_finalityStatus r)))])"

definition surface_operation_reconciliation_valid :: "'e env_scheme \<Rightarrow> 'a surface_operation_reconciliation_scheme \<Rightarrow> bool" where
  "surface_operation_reconciliation_valid E r \<longleftrightarrow>
     base_valid E r \<and>
     id_ok (sr_reconciliationId r) \<and>
     id_ok (sr_mutationAttemptId r) \<and>
     id_ok (sr_gateAttemptId r) \<and>
     id_ok (sr_actionContractId r) \<and>
     id_ok (sr_greenlightId r) \<and>
     id_ok (sr_gatewayId r) \<and>
     id_ok (sr_idempotencyKey r) \<and>
     opt_ok (\<lambda>x. 1 \<le> length x) (sr_surfaceOperationRef r) \<and>
     opt_ok (\<lambda>x. 1 \<le> length x) (sr_providerRequestRef r) \<and>
     opt_ok (\<lambda>x. 1 \<le> length x) (sr_providerOperationRef r) \<and>
     opt_ok digest_ok (sr_redactedDiagnosticsDigest r) \<and>
     opt_ok (\<lambda>x. 1 \<le> length x) (sr_traceRef r) \<and>
     opt_ok (\<lambda>x. 1 \<le> length x) (sr_spanRef r) \<and>
     iso_ok E (sr_observedAt r) \<and>
     list_all id_ok (sr_resolvedProofGapIds r)"

datatype (plugins only: code) gap_phase =
    GP_compilation
  | GP_policy
  | GP_gate
  | GP_mutation
  | GP_receipt
  | GP_stream
  | GP_recovery

primrec gap_phase_str :: "gap_phase \<Rightarrow> string" where
    "gap_phase_str GP_compilation = ''compilation''"
  | "gap_phase_str GP_policy = ''policy''"
  | "gap_phase_str GP_gate = ''gate''"
  | "gap_phase_str GP_mutation = ''mutation''"
  | "gap_phase_str GP_receipt = ''receipt''"
  | "gap_phase_str GP_stream = ''stream''"
  | "gap_phase_str GP_recovery = ''recovery''"

datatype (plugins only: code) finality_impact =
    FI_none
  | FI_suspect
  | FI_unknown
  | FI_invalid

primrec finality_impact_str :: "finality_impact \<Rightarrow> string" where
    "finality_impact_str FI_none = ''none''"
  | "finality_impact_str FI_suspect = ''suspect''"
  | "finality_impact_str FI_unknown = ''unknown''"
  | "finality_impact_str FI_invalid = ''invalid''"

record proof_gap = protocol_base +
  pg_proofGapId :: "string"
  pg_gapPhase :: "gap_phase"
  pg_expectedEvidenceType :: "string"
  pg_missingOrInvalidEvidenceRef :: "string"
  pg_affectedObjectRefs :: "string list"
  pg_gateAttemptId :: "string option"
  pg_mutationAttemptId :: "string option"
  pg_receiptId :: "string option"
  pg_reasonCode :: "string"
  pg_finalityImpact :: "finality_impact"
  pg_recoveryRequirement :: "string"
  pg_resolvedAt :: "string option"
  pg_resolvedByRef :: "string option"

definition proof_gap_json :: "'a proof_gap_scheme \<Rightarrow> jval" where
  "proof_gap_json r = JObj (base_fields r @
     [(''proofGapId'', JStr (pg_proofGapId r)),
      (''gapPhase'', JStr (gap_phase_str (pg_gapPhase r))),
      (''expectedEvidenceType'', JStr (pg_expectedEvidenceType r)),
      (''missingOrInvalidEvidenceRef'', JStr (pg_missingOrInvalidEvidenceRef r)),
      (''affectedObjectRefs'', JArr (map JStr (pg_affectedObjectRefs r))),
      (''gateAttemptId'', j_opt JStr (pg_gateAttemptId r)),
      (''mutationAttemptId'', j_opt JStr (pg_mutationAttemptId r)),
      (''receiptId'', j_opt JStr (pg_receiptId r)),
      (''reasonCode'', JStr (pg_reasonCode r)),
      (''finalityImpact'', JStr (finality_impact_str (pg_finalityImpact r))),
      (''recoveryRequirement'', JStr (pg_recoveryRequirement r)),
      (''resolvedAt'', j_opt JStr (pg_resolvedAt r)),
      (''resolvedByRef'', j_opt JStr (pg_resolvedByRef r))])"

definition proof_gap_valid :: "'e env_scheme \<Rightarrow> 'a proof_gap_scheme \<Rightarrow> bool" where
  "proof_gap_valid E r \<longleftrightarrow>
     base_valid E r \<and>
     id_ok (pg_proofGapId r) \<and>
     1 \<le> length (pg_expectedEvidenceType r) \<and>
     1 \<le> length (pg_missingOrInvalidEvidenceRef r) \<and>
     list_all (\<lambda>x. 1 \<le> length x) (pg_affectedObjectRefs r) \<and>
     opt_ok id_ok (pg_gateAttemptId r) \<and>
     opt_ok id_ok (pg_mutationAttemptId r) \<and>
     opt_ok id_ok (pg_receiptId r) \<and>
     reason_code_ok (pg_reasonCode r) \<and>
     1 \<le> length (pg_recoveryRequirement r) \<and>
     opt_ok (iso_ok E) (pg_resolvedAt r) \<and>
     opt_ok (\<lambda>x. 1 \<le> length x) (pg_resolvedByRef r)"

datatype (plugins only: code) refusal_phase =
    RFP_compilation
  | RFP_policy
  | RFP_gateway
  | RFP_receipt_export
  | RFP_recovery
  | RFP_review
  | RFP_transition

primrec refusal_phase_str :: "refusal_phase \<Rightarrow> string" where
    "refusal_phase_str RFP_compilation = ''compilation''"
  | "refusal_phase_str RFP_policy = ''policy''"
  | "refusal_phase_str RFP_gateway = ''gateway''"
  | "refusal_phase_str RFP_receipt_export = ''receipt_export''"
  | "refusal_phase_str RFP_recovery = ''recovery''"
  | "refusal_phase_str RFP_review = ''review''"
  | "refusal_phase_str RFP_transition = ''transition''"

record refusal = protocol_base +
  rf_refusalId :: "string"
  rf_phase :: "refusal_phase"
  rf_actionContractId :: "string option"
  rf_policyDecisionId :: "string option"
  rf_greenlightId :: "string option"
  rf_gateAttemptId :: "string option"
  rf_refusedObjectRef :: "string option"
  rf_reasonCode :: "string"
  rf_reason :: "string"
  rf_mutationAttempted :: "bool"
  rf_authorityCreated :: "bool"
  rf_evidenceRefs :: "string list"
  rf_refusedAt :: "string"

definition refusal_json :: "'a refusal_scheme \<Rightarrow> jval" where
  "refusal_json r = JObj (base_fields r @
     [(''refusalId'', JStr (rf_refusalId r)),
      (''phase'', JStr (refusal_phase_str (rf_phase r))),
      (''actionContractId'', j_opt JStr (rf_actionContractId r)),
      (''policyDecisionId'', j_opt JStr (rf_policyDecisionId r)),
      (''greenlightId'', j_opt JStr (rf_greenlightId r)),
      (''gateAttemptId'', j_opt JStr (rf_gateAttemptId r)),
      (''refusedObjectRef'', j_opt JStr (rf_refusedObjectRef r)),
      (''reasonCode'', JStr (rf_reasonCode r)),
      (''reason'', JStr (rf_reason r)),
      (''mutationAttempted'', JBool (rf_mutationAttempted r)),
      (''authorityCreated'', JBool (rf_authorityCreated r)),
      (''evidenceRefs'', JArr (map JStr (rf_evidenceRefs r))),
      (''refusedAt'', JStr (rf_refusedAt r))])"

definition refusal_valid :: "'e env_scheme \<Rightarrow> 'a refusal_scheme \<Rightarrow> bool" where
  "refusal_valid E r \<longleftrightarrow>
     base_valid E r \<and>
     id_ok (rf_refusalId r) \<and>
     opt_ok id_ok (rf_actionContractId r) \<and>
     opt_ok id_ok (rf_policyDecisionId r) \<and>
     opt_ok id_ok (rf_greenlightId r) \<and>
     opt_ok id_ok (rf_gateAttemptId r) \<and>
     opt_ok (\<lambda>x. 1 \<le> length x) (rf_refusedObjectRef r) \<and>
     reason_code_ok (rf_reasonCode r) \<and>
     1 \<le> length (rf_reason r) \<and> length (rf_reason r) \<le> 1000 \<and>
     \<not> (rf_mutationAttempted r) \<and>
     \<not> (rf_authorityCreated r) \<and>
     list_all (\<lambda>x. 1 \<le> length x) (rf_evidenceRefs r) \<and>
     iso_ok E (rf_refusedAt r)"

record stream_watermark =
  sw_streamId :: "string"
  sw_partitionKey :: "string"
  sw_observedOffsetStart :: "int"
  sw_observedOffsetEnd :: "int"
  sw_observedEventDigest :: "string option"

definition stream_watermark_json :: "'a stream_watermark_scheme \<Rightarrow> jval" where
  "stream_watermark_json r = JObj (
     [(''streamId'', JStr (sw_streamId r)),
      (''partitionKey'', JStr (sw_partitionKey r)),
      (''observedOffsetStart'', JInt (sw_observedOffsetStart r)),
      (''observedOffsetEnd'', JInt (sw_observedOffsetEnd r)),
      (''observedEventDigest'', j_opt JStr (sw_observedEventDigest r))])"

definition stream_watermark_valid :: "'e env_scheme \<Rightarrow> 'a stream_watermark_scheme \<Rightarrow> bool" where
  "stream_watermark_valid E r \<longleftrightarrow>
     id_ok (sw_streamId r) \<and>
     1 \<le> length (sw_partitionKey r) \<and>
     0 \<le> (sw_observedOffsetStart r) \<and>
     0 \<le> (sw_observedOffsetEnd r) \<and>
     opt_ok digest_ok (sw_observedEventDigest r) \<and>
     sw_observedOffsetStart r \<le> sw_observedOffsetEnd r"

datatype (plugins only: code) breaker_isolation_decision =
    BID_review_only
  | BID_rate_limited
  | BID_quarantined
  | BID_halted
  | BID_revoked
  | BID_state_suspect

primrec breaker_isolation_decision_str :: "breaker_isolation_decision \<Rightarrow> string" where
    "breaker_isolation_decision_str BID_review_only = ''review_only''"
  | "breaker_isolation_decision_str BID_rate_limited = ''rate_limited''"
  | "breaker_isolation_decision_str BID_quarantined = ''quarantined''"
  | "breaker_isolation_decision_str BID_halted = ''halted''"
  | "breaker_isolation_decision_str BID_revoked = ''revoked''"
  | "breaker_isolation_decision_str BID_state_suspect = ''state_suspect''"

datatype (plugins only: code) isolation_scope_type =
    IST_tenant
  | IST_organization
  | IST_agent
  | IST_run
  | IST_envelope
  | IST_action_class
  | IST_gateway
  | IST_credential_ref
  | IST_authority_ref
  | IST_resource

primrec isolation_scope_type_str :: "isolation_scope_type \<Rightarrow> string" where
    "isolation_scope_type_str IST_tenant = ''tenant''"
  | "isolation_scope_type_str IST_organization = ''organization''"
  | "isolation_scope_type_str IST_agent = ''agent''"
  | "isolation_scope_type_str IST_run = ''run''"
  | "isolation_scope_type_str IST_envelope = ''envelope''"
  | "isolation_scope_type_str IST_action_class = ''action_class''"
  | "isolation_scope_type_str IST_gateway = ''gateway''"
  | "isolation_scope_type_str IST_credential_ref = ''credential_ref''"
  | "isolation_scope_type_str IST_authority_ref = ''authority_ref''"
  | "isolation_scope_type_str IST_resource = ''resource''"

record breaker_decision = protocol_base +
  bd_breakerDecisionId :: "string"
  bd_listenerId :: "string"
  bd_listenerVersion :: "string"
  bd_rulePackRef :: "string"
  bd_rulePackVersion :: "string"
  bd_observedStreamOffsets :: "stream_watermark list"
  bd_observedWindowDigest :: "string"
  bd_decision :: "breaker_isolation_decision"
  bd_decisionReasonCode :: "string"
  bd_decisionReason :: "string"
  bd_targetScopeType :: "isolation_scope_type"
  bd_targetScopeId :: "string"
  bd_createdIsolationStateId :: "string"
  bd_agentId :: "string option"
  bd_runId :: "string option"
  bd_gatewayId :: "string option"
  bd_resourceRef :: "string option"
  bd_actionClass :: "string option"
  bd_sequenceRiskScore :: "jnum"
  bd_matchedBreakerRuleIds :: "string list"
  bd_supportingEventRefs :: "string list"
  bd_missingEventRefs :: "string list"
  bd_proofGapRefs :: "string list"
  bd_decisionEffectiveAt :: "string"
  bd_decisionExpiresAt :: "string option"
  bd_watermarkAtDecision :: "string"

definition breaker_decision_json :: "'a breaker_decision_scheme \<Rightarrow> jval" where
  "breaker_decision_json r = JObj (base_fields r @
     [(''breakerDecisionId'', JStr (bd_breakerDecisionId r)),
      (''listenerId'', JStr (bd_listenerId r)),
      (''listenerVersion'', JStr (bd_listenerVersion r)),
      (''rulePackRef'', JStr (bd_rulePackRef r)),
      (''rulePackVersion'', JStr (bd_rulePackVersion r)),
      (''observedStreamOffsets'', JArr (map stream_watermark_json (bd_observedStreamOffsets r))),
      (''observedWindowDigest'', JStr (bd_observedWindowDigest r)),
      (''decision'', JStr (breaker_isolation_decision_str (bd_decision r))),
      (''decisionReasonCode'', JStr (bd_decisionReasonCode r)),
      (''decisionReason'', JStr (bd_decisionReason r)),
      (''targetScopeType'', JStr (isolation_scope_type_str (bd_targetScopeType r))),
      (''targetScopeId'', JStr (bd_targetScopeId r)),
      (''createdIsolationStateId'', JStr (bd_createdIsolationStateId r)),
      (''agentId'', j_opt JStr (bd_agentId r)),
      (''runId'', j_opt JStr (bd_runId r)),
      (''gatewayId'', j_opt JStr (bd_gatewayId r)),
      (''resourceRef'', j_opt JStr (bd_resourceRef r)),
      (''actionClass'', j_opt JStr (bd_actionClass r)),
      (''sequenceRiskScore'', jnum_json (bd_sequenceRiskScore r)),
      (''matchedBreakerRuleIds'', JArr (map JStr (bd_matchedBreakerRuleIds r))),
      (''supportingEventRefs'', JArr (map JStr (bd_supportingEventRefs r))),
      (''missingEventRefs'', JArr (map JStr (bd_missingEventRefs r))),
      (''proofGapRefs'', JArr (map JStr (bd_proofGapRefs r))),
      (''decisionEffectiveAt'', JStr (bd_decisionEffectiveAt r)),
      (''decisionExpiresAt'', j_opt JStr (bd_decisionExpiresAt r)),
      (''watermarkAtDecision'', JStr (bd_watermarkAtDecision r))])"

definition breaker_decision_valid :: "'e env_scheme \<Rightarrow> 'a breaker_decision_scheme \<Rightarrow> bool" where
  "breaker_decision_valid E r \<longleftrightarrow>
     base_valid E r \<and>
     id_ok (bd_breakerDecisionId r) \<and>
     id_ok (bd_listenerId r) \<and>
     1 \<le> length (bd_listenerVersion r) \<and>
     1 \<le> length (bd_rulePackRef r) \<and>
     1 \<le> length (bd_rulePackVersion r) \<and>
     list_all (stream_watermark_valid E) (bd_observedStreamOffsets r) \<and> 1 \<le> length (bd_observedStreamOffsets r) \<and>
     digest_ok (bd_observedWindowDigest r) \<and>
     reason_code_ok (bd_decisionReasonCode r) \<and>
     1 \<le> length (bd_decisionReason r) \<and> length (bd_decisionReason r) \<le> 1000 \<and>
     id_ok (bd_targetScopeId r) \<and>
     id_ok (bd_createdIsolationStateId r) \<and>
     opt_ok id_ok (bd_agentId r) \<and>
     opt_ok id_ok (bd_runId r) \<and>
     opt_ok id_ok (bd_gatewayId r) \<and>
     opt_ok resource_ref_ok (bd_resourceRef r) \<and>
     opt_ok (\<lambda>x. 1 \<le> length x) (bd_actionClass r) \<and>
     jnum_unit (bd_sequenceRiskScore r) \<and>
     list_all (\<lambda>x. 1 \<le> length x) (bd_matchedBreakerRuleIds r) \<and>
     list_all id_ok (bd_supportingEventRefs r) \<and>
     list_all (\<lambda>x. 1 \<le> length x) (bd_missingEventRefs r) \<and>
     list_all id_ok (bd_proofGapRefs r) \<and>
     iso_ok E (bd_decisionEffectiveAt r) \<and>
     opt_ok (iso_ok E) (bd_decisionExpiresAt r) \<and>
     iso_ok E (bd_watermarkAtDecision r)"

datatype (plugins only: code) isolation_value =
    IV_active
  | IV_review_only
  | IV_rate_limited
  | IV_quarantined
  | IV_halted
  | IV_revoked
  | IV_state_suspect

primrec isolation_value_str :: "isolation_value \<Rightarrow> string" where
    "isolation_value_str IV_active = ''active''"
  | "isolation_value_str IV_review_only = ''review_only''"
  | "isolation_value_str IV_rate_limited = ''rate_limited''"
  | "isolation_value_str IV_quarantined = ''quarantined''"
  | "isolation_value_str IV_halted = ''halted''"
  | "isolation_value_str IV_revoked = ''revoked''"
  | "isolation_value_str IV_state_suspect = ''state_suspect''"

record isolation_state = protocol_base +
  is_isolationStateId :: "string"
  is_scopeType :: "isolation_scope_type"
  is_scopeId :: "string"
  is_state :: "isolation_value"
  is_reasonCode :: "string"
  is_reasonSummary :: "string"
  is_sourceDecisionRef :: "string"
  is_effectiveAt :: "string"
  is_expiresAt :: "string option"
  is_clearedAt :: "string option"
  is_observedStreamOffsets :: "stream_watermark list"
  is_version :: "int"

definition isolation_state_json :: "'a isolation_state_scheme \<Rightarrow> jval" where
  "isolation_state_json r = JObj (base_fields r @
     [(''isolationStateId'', JStr (is_isolationStateId r)),
      (''scopeType'', JStr (isolation_scope_type_str (is_scopeType r))),
      (''scopeId'', JStr (is_scopeId r)),
      (''state'', JStr (isolation_value_str (is_state r))),
      (''reasonCode'', JStr (is_reasonCode r)),
      (''reasonSummary'', JStr (is_reasonSummary r)),
      (''sourceDecisionRef'', JStr (is_sourceDecisionRef r)),
      (''effectiveAt'', JStr (is_effectiveAt r)),
      (''expiresAt'', j_opt JStr (is_expiresAt r)),
      (''clearedAt'', j_opt JStr (is_clearedAt r)),
      (''observedStreamOffsets'', JArr (map stream_watermark_json (is_observedStreamOffsets r))),
      (''version'', JInt (is_version r))])"

definition isolation_state_valid :: "'e env_scheme \<Rightarrow> 'a isolation_state_scheme \<Rightarrow> bool" where
  "isolation_state_valid E r \<longleftrightarrow>
     base_valid E r \<and>
     id_ok (is_isolationStateId r) \<and>
     id_ok (is_scopeId r) \<and>
     reason_code_ok (is_reasonCode r) \<and>
     1 \<le> length (is_reasonSummary r) \<and> length (is_reasonSummary r) \<le> 1000 \<and>
     1 \<le> length (is_sourceDecisionRef r) \<and>
     iso_ok E (is_effectiveAt r) \<and>
     opt_ok (iso_ok E) (is_expiresAt r) \<and>
     opt_ok (iso_ok E) (is_clearedAt r) \<and>
     list_all (stream_watermark_valid E) (is_observedStreamOffsets r) \<and>
     0 \<le> (is_version r)"

datatype (plugins only: code) stream_scope =
    SS_tenant
  | SS_organization
  | SS_run
  | SS_protected_surface_resource

primrec stream_scope_str :: "stream_scope \<Rightarrow> string" where
    "stream_scope_str SS_tenant = ''tenant''"
  | "stream_scope_str SS_organization = ''organization''"
  | "stream_scope_str SS_run = ''run''"
  | "stream_scope_str SS_protected_surface_resource = ''protected_surface_resource''"

datatype (plugins only: code) event_type =
    ET_intent_compiled
  | ET_runtime_execution_recorded
  | ET_generated_execution_graph_recorded
  | ET_install_setup_recorded
  | ET_install_setup_refused
  | ET_gateway_credential_ref_registered
  | ET_delegated_authority_ref_registered
  | ET_delegated_authority_status_changed
  | ET_gateway_custody_proof_packet_recorded
  | ET_credential_resolution_recorded
  | ET_idempotency_ledger_recorded
  | ET_bypass_probe_recorded
  | ET_tool_call_draft_recorded
  | ET_protected_path_posture_recorded
  | ET_negotiation_session_recorded
  | ET_negotiation_offer_recorded
  | ET_negotiation_decision_recorded
  | ET_linked_agreement_recorded
  | ET_agreement_obligation_binding_recorded
  | ET_agreement_status_transition_recorded
  | ET_action_proposed
  | ET_policy_decision_recorded
  | ET_action_greenlit
  | ET_action_refused
  | ET_review_required
  | ET_review_artifact_recorded
  | ET_gateway_checked
  | ET_mutation_attempted
  | ET_protected_surface_operation_claimed
  | ET_protected_surface_operation_released
  | ET_surface_operation_reconciled
  | ET_gateway_refused
  | ET_review_decision_recorded
  | ET_breaker_decision_recorded
  | ET_receipt_emitted
  | ET_authority_certificate_emitted
  | ET_receipt_exported
  | ET_recovery_recommended
  | ET_recovery_status_changed
  | ET_proof_gap_recorded
  | ET_proof_gap_resolved
  | ET_isolation_changed

primrec event_type_str :: "event_type \<Rightarrow> string" where
    "event_type_str ET_intent_compiled = ''intent_compiled''"
  | "event_type_str ET_runtime_execution_recorded = ''runtime_execution_recorded''"
  | "event_type_str ET_generated_execution_graph_recorded = ''generated_execution_graph_recorded''"
  | "event_type_str ET_install_setup_recorded = ''install_setup_recorded''"
  | "event_type_str ET_install_setup_refused = ''install_setup_refused''"
  | "event_type_str ET_gateway_credential_ref_registered = ''gateway_credential_ref_registered''"
  | "event_type_str ET_delegated_authority_ref_registered = ''delegated_authority_ref_registered''"
  | "event_type_str ET_delegated_authority_status_changed = ''delegated_authority_status_changed''"
  | "event_type_str ET_gateway_custody_proof_packet_recorded = ''gateway_custody_proof_packet_recorded''"
  | "event_type_str ET_credential_resolution_recorded = ''credential_resolution_recorded''"
  | "event_type_str ET_idempotency_ledger_recorded = ''idempotency_ledger_recorded''"
  | "event_type_str ET_bypass_probe_recorded = ''bypass_probe_recorded''"
  | "event_type_str ET_tool_call_draft_recorded = ''tool_call_draft_recorded''"
  | "event_type_str ET_protected_path_posture_recorded = ''protected_path_posture_recorded''"
  | "event_type_str ET_negotiation_session_recorded = ''negotiation_session_recorded''"
  | "event_type_str ET_negotiation_offer_recorded = ''negotiation_offer_recorded''"
  | "event_type_str ET_negotiation_decision_recorded = ''negotiation_decision_recorded''"
  | "event_type_str ET_linked_agreement_recorded = ''linked_agreement_recorded''"
  | "event_type_str ET_agreement_obligation_binding_recorded = ''agreement_obligation_binding_recorded''"
  | "event_type_str ET_agreement_status_transition_recorded = ''agreement_status_transition_recorded''"
  | "event_type_str ET_action_proposed = ''action_proposed''"
  | "event_type_str ET_policy_decision_recorded = ''policy_decision_recorded''"
  | "event_type_str ET_action_greenlit = ''action_greenlit''"
  | "event_type_str ET_action_refused = ''action_refused''"
  | "event_type_str ET_review_required = ''review_required''"
  | "event_type_str ET_review_artifact_recorded = ''review_artifact_recorded''"
  | "event_type_str ET_gateway_checked = ''gateway_checked''"
  | "event_type_str ET_mutation_attempted = ''mutation_attempted''"
  | "event_type_str ET_protected_surface_operation_claimed = ''protected_surface_operation_claimed''"
  | "event_type_str ET_protected_surface_operation_released = ''protected_surface_operation_released''"
  | "event_type_str ET_surface_operation_reconciled = ''surface_operation_reconciled''"
  | "event_type_str ET_gateway_refused = ''gateway_refused''"
  | "event_type_str ET_review_decision_recorded = ''review_decision_recorded''"
  | "event_type_str ET_breaker_decision_recorded = ''breaker_decision_recorded''"
  | "event_type_str ET_receipt_emitted = ''receipt_emitted''"
  | "event_type_str ET_authority_certificate_emitted = ''authority_certificate_emitted''"
  | "event_type_str ET_receipt_exported = ''receipt_exported''"
  | "event_type_str ET_recovery_recommended = ''recovery_recommended''"
  | "event_type_str ET_recovery_status_changed = ''recovery_status_changed''"
  | "event_type_str ET_proof_gap_recorded = ''proof_gap_recorded''"
  | "event_type_str ET_proof_gap_resolved = ''proof_gap_resolved''"
  | "event_type_str ET_isolation_changed = ''isolation_changed''"

record stream_event = protocol_base +
  ev_streamEventId :: "string"
  ev_streamId :: "string"
  ev_streamScope :: "stream_scope"
  ev_offset :: "int"
  ev_partitionKey :: "string"
  ev_eventType :: "event_type"
  ev_eventTime :: "string"
  ev_producerRef :: "string"
  ev_objectRefs :: "string list"
  ev_previousEventDigest :: "string option"
  ev_eventDigest :: "string"
  ev_payload :: "(string \<times> jval) list"

definition stream_event_json :: "'a stream_event_scheme \<Rightarrow> jval" where
  "stream_event_json r = JObj (base_fields r @
     [(''streamEventId'', JStr (ev_streamEventId r)),
      (''streamId'', JStr (ev_streamId r)),
      (''streamScope'', JStr (stream_scope_str (ev_streamScope r))),
      (''offset'', JInt (ev_offset r)),
      (''partitionKey'', JStr (ev_partitionKey r)),
      (''eventType'', JStr (event_type_str (ev_eventType r))),
      (''eventTime'', JStr (ev_eventTime r)),
      (''producerRef'', JStr (ev_producerRef r)),
      (''objectRefs'', JArr (map JStr (ev_objectRefs r))),
      (''previousEventDigest'', j_opt JStr (ev_previousEventDigest r)),
      (''eventDigest'', JStr (ev_eventDigest r)),
      (''payload'', JObj (ev_payload r))])"

definition stream_event_valid :: "'e env_scheme \<Rightarrow> 'a stream_event_scheme \<Rightarrow> bool" where
  "stream_event_valid E r \<longleftrightarrow>
     base_valid E r \<and>
     id_ok (ev_streamEventId r) \<and>
     id_ok (ev_streamId r) \<and>
     0 \<le> (ev_offset r) \<and>
     1 \<le> length (ev_partitionKey r) \<and>
     iso_ok E (ev_eventTime r) \<and>
     1 \<le> length (ev_producerRef r) \<and>
     list_all (\<lambda>x. 1 \<le> length x) (ev_objectRefs r) \<and>
     opt_ok digest_ok (ev_previousEventDigest r) \<and>
     digest_ok (ev_eventDigest r)"

end
