(* ===== verification/Schemas_Receipt.thy ===== *)
theory Schemas_Receipt
  imports Schemas_Gate
begin

text \<open>
  Receipts and their exports, recovery recommendations and review records
  (\<open>receipt-export\<close>, \<open>recovery\<close> and \<open>review-binding\<close> schemas): records, JSON and
  schema predicates.
\<close>

datatype (plugins only: code) gateway_admission_status =
    GAS_not_requested
  | GAS_admitted
  | GAS_refused
  | GAS_proof_gap
  | GAS_replayed

primrec gateway_admission_status_str :: "gateway_admission_status \<Rightarrow> string" where
    "gateway_admission_status_str GAS_not_requested = ''not_requested''"
  | "gateway_admission_status_str GAS_admitted = ''admitted''"
  | "gateway_admission_status_str GAS_refused = ''refused''"
  | "gateway_admission_status_str GAS_proof_gap = ''proof_gap''"
  | "gateway_admission_status_str GAS_replayed = ''replayed''"

datatype (plugins only: code) downstream_outcome_status =
    DOS_not_started
  | DOS_pending
  | DOS_succeeded
  | DOS_refused
  | DOS_failed
  | DOS_unknown

primrec downstream_outcome_status_str :: "downstream_outcome_status \<Rightarrow> string" where
    "downstream_outcome_status_str DOS_not_started = ''not_started''"
  | "downstream_outcome_status_str DOS_pending = ''pending''"
  | "downstream_outcome_status_str DOS_succeeded = ''succeeded''"
  | "downstream_outcome_status_str DOS_refused = ''refused''"
  | "downstream_outcome_status_str DOS_failed = ''failed''"
  | "downstream_outcome_status_str DOS_unknown = ''unknown''"

record receipt_stream_reference =
  rsr_streamId :: "string"
  rsr_streamScope :: "stream_scope"
  rsr_partitionKey :: "string"
  rsr_offsetStart :: "int"
  rsr_offsetEnd :: "int"
  rsr_terminalEventDigest :: "string"

definition receipt_stream_reference_json :: "'a receipt_stream_reference_scheme \<Rightarrow> jval" where
  "receipt_stream_reference_json r = JObj (
     [(''streamId'', JStr (rsr_streamId r)),
      (''streamScope'', JStr (stream_scope_str (rsr_streamScope r))),
      (''partitionKey'', JStr (rsr_partitionKey r)),
      (''offsetStart'', JInt (rsr_offsetStart r)),
      (''offsetEnd'', JInt (rsr_offsetEnd r)),
      (''terminalEventDigest'', JStr (rsr_terminalEventDigest r))])"

definition receipt_stream_reference_valid :: "'e env_scheme \<Rightarrow> 'a receipt_stream_reference_scheme \<Rightarrow> bool" where
  "receipt_stream_reference_valid E r \<longleftrightarrow>
     id_ok (rsr_streamId r) \<and>
     1 \<le> length (rsr_partitionKey r) \<and>
     0 \<le> (rsr_offsetStart r) \<and>
     0 \<le> (rsr_offsetEnd r) \<and>
     digest_ok (rsr_terminalEventDigest r) \<and>
     rsr_offsetStart r \<le> rsr_offsetEnd r"

datatype (plugins only: code) consumption_status =
    CONS_not_applicable
  | CONS_not_consumed
  | CONS_consumed
  | CONS_replayed

primrec consumption_status_str :: "consumption_status \<Rightarrow> string" where
    "consumption_status_str CONS_not_applicable = ''not_applicable''"
  | "consumption_status_str CONS_not_consumed = ''not_consumed''"
  | "consumption_status_str CONS_consumed = ''consumed''"
  | "consumption_status_str CONS_replayed = ''replayed''"

record receipt = protocol_base +
  rc_receiptId :: "string"
  rc_actionContractId :: "string"
  rc_policyDecisionId :: "string"
  rc_greenlightId :: "string option"
  rc_gateAttemptId :: "string option"
  rc_mutationAttemptId :: "string option"
  rc_gatewayId :: "string"
  rc_policyDecisionStatus :: "policy_decision_value"
  rc_gatewayCheckStatus :: "gate_decision option"
  rc_gatewayAdmissionStatus :: "gateway_admission_status"
  rc_greenlightConsumptionStatus :: "consumption_status"
  rc_mutationAttemptStatus :: "mutation_outcome"
  rc_downstreamExecutionStatus :: "downstream_outcome_status"
  rc_downstreamOutcomeStatus :: "downstream_outcome_status"
  rc_proofGapIds :: "string list"
  rc_evidenceRefs :: "string list"
  rc_streamEventIds :: "string list"
  rc_streamOffsets :: "receipt_stream_reference list"
  rc_receiptDigest :: "string option"
  rc_auditChainDigest :: "string option"
  rc_finalityStatus :: "finality_status"
  rc_emittedAt :: "string"

definition receipt_json :: "'a receipt_scheme \<Rightarrow> jval" where
  "receipt_json r = JObj (base_fields r @
     [(''receiptId'', JStr (rc_receiptId r)),
      (''actionContractId'', JStr (rc_actionContractId r)),
      (''policyDecisionId'', JStr (rc_policyDecisionId r)),
      (''greenlightId'', j_opt JStr (rc_greenlightId r)),
      (''gateAttemptId'', j_opt JStr (rc_gateAttemptId r)),
      (''mutationAttemptId'', j_opt JStr (rc_mutationAttemptId r)),
      (''gatewayId'', JStr (rc_gatewayId r)),
      (''policyDecisionStatus'', JStr (policy_decision_value_str (rc_policyDecisionStatus r))),
      (''gatewayCheckStatus'', j_opt (\<lambda>x. JStr (gate_decision_str x)) (rc_gatewayCheckStatus r)),
      (''gatewayAdmissionStatus'', JStr (gateway_admission_status_str (rc_gatewayAdmissionStatus r))),
      (''greenlightConsumptionStatus'', JStr (consumption_status_str (rc_greenlightConsumptionStatus r))),
      (''mutationAttemptStatus'', JStr (mutation_outcome_str (rc_mutationAttemptStatus r))),
      (''downstreamExecutionStatus'', JStr (downstream_outcome_status_str (rc_downstreamExecutionStatus r))),
      (''downstreamOutcomeStatus'', JStr (downstream_outcome_status_str (rc_downstreamOutcomeStatus r))),
      (''proofGapIds'', JArr (map JStr (rc_proofGapIds r))),
      (''evidenceRefs'', JArr (map JStr (rc_evidenceRefs r))),
      (''streamEventIds'', JArr (map JStr (rc_streamEventIds r))),
      (''streamOffsets'', JArr (map receipt_stream_reference_json (rc_streamOffsets r))),
      (''receiptDigest'', j_opt JStr (rc_receiptDigest r)),
      (''auditChainDigest'', j_opt JStr (rc_auditChainDigest r)),
      (''finalityStatus'', JStr (finality_status_str (rc_finalityStatus r))),
      (''emittedAt'', JStr (rc_emittedAt r))])"

definition receipt_valid :: "'e env_scheme \<Rightarrow> 'a receipt_scheme \<Rightarrow> bool" where
  "receipt_valid E r \<longleftrightarrow>
     base_valid E r \<and>
     id_ok (rc_receiptId r) \<and>
     id_ok (rc_actionContractId r) \<and>
     id_ok (rc_policyDecisionId r) \<and>
     opt_ok id_ok (rc_greenlightId r) \<and>
     opt_ok id_ok (rc_gateAttemptId r) \<and>
     opt_ok id_ok (rc_mutationAttemptId r) \<and>
     id_ok (rc_gatewayId r) \<and>
     list_all id_ok (rc_proofGapIds r) \<and>
     list_all id_ok (rc_streamEventIds r) \<and>
     list_all (receipt_stream_reference_valid E) (rc_streamOffsets r) \<and>
     opt_ok digest_ok (rc_receiptDigest r) \<and>
     opt_ok digest_ok (rc_auditChainDigest r) \<and>
     iso_ok E (rc_emittedAt r)"

datatype (plugins only: code) proof_gap_status =
    PGS_none
  | PGS_present

primrec proof_gap_status_str :: "proof_gap_status \<Rightarrow> string" where
    "proof_gap_status_str PGS_none = ''none''"
  | "proof_gap_status_str PGS_present = ''present''"

datatype (plugins only: code) export_format =
    EF_json
  | EF_redacted_json

primrec export_format_str :: "export_format \<Rightarrow> string" where
    "export_format_str EF_json = ''json''"
  | "export_format_str EF_redacted_json = ''redacted_json''"

record receipt_export = protocol_base +
  re_receiptExportId :: "string"
  re_receiptId :: "string"
  re_actionContractId :: "string"
  re_policyDecisionId :: "string"
  re_greenlightId :: "string option"
  re_gateAttemptId :: "string option"
  re_mutationAttemptId :: "string option"
  re_gatewayId :: "string"
  re_principalId :: "string"
  re_agentId :: "string"
  re_runId :: "string"
  re_gatewayPolicyVersion :: "string"
  re_policyDecisionStatus :: "policy_decision_value"
  re_gatewayCheckStatus :: "gate_decision option"
  re_gatewayAdmissionStatus :: "gateway_admission_status"
  re_gatewayCheckedAt :: "string option"
  re_greenlightConsumptionStatus :: "consumption_status"
  re_mutationAttemptStatus :: "mutation_outcome"
  re_downstreamExecutionStatus :: "downstream_outcome_status"
  re_downstreamOutcomeStatus :: "downstream_outcome_status"
  re_proofGapStatus :: "proof_gap_status"
  re_proofGapIds :: "string list"
  re_proofGapReasonCodes :: "string list"
  re_finalityStatus :: "finality_status"
  re_evidenceRefs :: "string list"
  re_streamOffsets :: "receipt_stream_reference list"
  re_receiptDigest :: "string"
  re_auditChainDigest :: "string"
  re_signaturePosture :: "signature_posture"
  re_keyIdentityRef :: "string option"
  re_verificationPolicyRef :: "string option"
  re_exportFormat :: "export_format"
  re_redactionProfileRef :: "string"
  re_exportPurposeCode :: "string"
  re_requestedByRef :: "string"
  re_evidenceRetentionUntil :: "string option"
  re_exportedAt :: "string"
  re_exportDigest :: "string"

definition receipt_export_json :: "'a receipt_export_scheme \<Rightarrow> jval" where
  "receipt_export_json r = JObj (base_fields r @
     [(''receiptExportId'', JStr (re_receiptExportId r)),
      (''receiptId'', JStr (re_receiptId r)),
      (''actionContractId'', JStr (re_actionContractId r)),
      (''policyDecisionId'', JStr (re_policyDecisionId r)),
      (''greenlightId'', j_opt JStr (re_greenlightId r)),
      (''gateAttemptId'', j_opt JStr (re_gateAttemptId r)),
      (''mutationAttemptId'', j_opt JStr (re_mutationAttemptId r)),
      (''gatewayId'', JStr (re_gatewayId r)),
      (''principalId'', JStr (re_principalId r)),
      (''agentId'', JStr (re_agentId r)),
      (''runId'', JStr (re_runId r)),
      (''gatewayPolicyVersion'', JStr (re_gatewayPolicyVersion r)),
      (''policyDecisionStatus'', JStr (policy_decision_value_str (re_policyDecisionStatus r))),
      (''gatewayCheckStatus'', j_opt (\<lambda>x. JStr (gate_decision_str x)) (re_gatewayCheckStatus r)),
      (''gatewayAdmissionStatus'', JStr (gateway_admission_status_str (re_gatewayAdmissionStatus r))),
      (''gatewayCheckedAt'', j_opt JStr (re_gatewayCheckedAt r)),
      (''greenlightConsumptionStatus'', JStr (consumption_status_str (re_greenlightConsumptionStatus r))),
      (''mutationAttemptStatus'', JStr (mutation_outcome_str (re_mutationAttemptStatus r))),
      (''downstreamExecutionStatus'', JStr (downstream_outcome_status_str (re_downstreamExecutionStatus r))),
      (''downstreamOutcomeStatus'', JStr (downstream_outcome_status_str (re_downstreamOutcomeStatus r))),
      (''proofGapStatus'', JStr (proof_gap_status_str (re_proofGapStatus r))),
      (''proofGapIds'', JArr (map JStr (re_proofGapIds r))),
      (''proofGapReasonCodes'', JArr (map JStr (re_proofGapReasonCodes r))),
      (''finalityStatus'', JStr (finality_status_str (re_finalityStatus r))),
      (''evidenceRefs'', JArr (map JStr (re_evidenceRefs r))),
      (''streamOffsets'', JArr (map receipt_stream_reference_json (re_streamOffsets r))),
      (''receiptDigest'', JStr (re_receiptDigest r)),
      (''auditChainDigest'', JStr (re_auditChainDigest r)),
      (''signaturePosture'', JStr (signature_posture_str (re_signaturePosture r))),
      (''keyIdentityRef'', j_opt JStr (re_keyIdentityRef r)),
      (''verificationPolicyRef'', j_opt JStr (re_verificationPolicyRef r)),
      (''exportFormat'', JStr (export_format_str (re_exportFormat r))),
      (''redactionProfileRef'', JStr (re_redactionProfileRef r)),
      (''exportPurposeCode'', JStr (re_exportPurposeCode r)),
      (''requestedByRef'', JStr (re_requestedByRef r)),
      (''evidenceRetentionUntil'', j_opt JStr (re_evidenceRetentionUntil r)),
      (''exportedAt'', JStr (re_exportedAt r)),
      (''exportDigest'', JStr (re_exportDigest r))])"

definition receipt_export_valid :: "'e env_scheme \<Rightarrow> 'a receipt_export_scheme \<Rightarrow> bool" where
  "receipt_export_valid E r \<longleftrightarrow>
     base_valid E r \<and>
     id_ok (re_receiptExportId r) \<and>
     id_ok (re_receiptId r) \<and>
     id_ok (re_actionContractId r) \<and>
     id_ok (re_policyDecisionId r) \<and>
     opt_ok id_ok (re_greenlightId r) \<and>
     opt_ok id_ok (re_gateAttemptId r) \<and>
     opt_ok id_ok (re_mutationAttemptId r) \<and>
     id_ok (re_gatewayId r) \<and>
     id_ok (re_principalId r) \<and>
     id_ok (re_agentId r) \<and>
     id_ok (re_runId r) \<and>
     1 \<le> length (re_gatewayPolicyVersion r) \<and>
     opt_ok (iso_ok E) (re_gatewayCheckedAt r) \<and>
     list_all id_ok (re_proofGapIds r) \<and>
     list_all reason_code_ok (re_proofGapReasonCodes r) \<and>
     list_all (receipt_stream_reference_valid E) (re_streamOffsets r) \<and>
     digest_ok (re_receiptDigest r) \<and>
     digest_ok (re_auditChainDigest r) \<and>
     opt_ok (\<lambda>x. 1 \<le> length x) (re_keyIdentityRef r) \<and>
     opt_ok (\<lambda>x. 1 \<le> length x) (re_verificationPolicyRef r) \<and>
     1 \<le> length (re_redactionProfileRef r) \<and>
     1 \<le> length (re_exportPurposeCode r) \<and>
     1 \<le> length (re_requestedByRef r) \<and>
     opt_ok (iso_ok E) (re_evidenceRetentionUntil r) \<and>
     iso_ok E (re_exportedAt r) \<and>
     digest_ok (re_exportDigest r)"

datatype (plugins only: code) recovery_recommended_path =
    RRP_narrower_action_contract_required
  | RRP_gateway_reconciliation_required
  | RRP_human_review_required
  | RRP_compensating_action_contract_required
  | RRP_halt_without_retry

primrec recovery_recommended_path_str :: "recovery_recommended_path \<Rightarrow> string" where
    "recovery_recommended_path_str RRP_narrower_action_contract_required = ''narrower_action_contract_required''"
  | "recovery_recommended_path_str RRP_gateway_reconciliation_required = ''gateway_reconciliation_required''"
  | "recovery_recommended_path_str RRP_human_review_required = ''human_review_required''"
  | "recovery_recommended_path_str RRP_compensating_action_contract_required = ''compensating_action_contract_required''"
  | "recovery_recommended_path_str RRP_halt_without_retry = ''halt_without_retry''"

datatype (plugins only: code) recovery_recommendation_status =
    RRS_open
  | RRS_expired
  | RRS_superseded

primrec recovery_recommendation_status_str :: "recovery_recommendation_status \<Rightarrow> string" where
    "recovery_recommendation_status_str RRS_open = ''open''"
  | "recovery_recommendation_status_str RRS_expired = ''expired''"
  | "recovery_recommendation_status_str RRS_superseded = ''superseded''"

datatype (plugins only: code) recovery_recommendation_terminal_status =
    RRTS_expired
  | RRTS_superseded

primrec recovery_recommendation_terminal_status_str :: "recovery_recommendation_terminal_status \<Rightarrow> string" where
    "recovery_recommendation_terminal_status_str RRTS_expired = ''expired''"
  | "recovery_recommendation_terminal_status_str RRTS_superseded = ''superseded''"

record recovery_recommendation = protocol_base +
  rr_recoveryRecommendationId :: "string"
  rr_sourceReceiptId :: "string"
  rr_sourceActionContractId :: "string"
  rr_sourcePolicyDecisionId :: "string"
  rr_sourceGreenlightId :: "string option"
  rr_sourceGateAttemptId :: "string option"
  rr_sourceMutationAttemptId :: "string option"
  rr_sourceRefusalOrGapRef :: "string"
  rr_sourceFinalityStatus :: "finality_status"
  rr_sourceGatewayCheckStatus :: "gate_decision option"
  rr_sourceMutationAttemptStatus :: "mutation_outcome"
  rr_sourceDownstreamExecutionStatus :: "downstream_outcome_status"
  rr_recommendedPath :: "recovery_recommended_path"
  rr_allowedNextActionClasses :: "string list"
  rr_requiredNewEvidence :: "string list"
  rr_requiresHumanReview :: "bool"
  rr_safeRetryAvailable :: "bool"
  rr_scopeNarrowingRequired :: "bool"
  rr_policyUpdateCandidate :: "bool"
  rr_agentInstructionUpdateCandidate :: "bool"
  rr_principalId :: "string"
  rr_agentId :: "string"
  rr_runId :: "string"
  rr_gatewayId :: "string"
  rr_resourceRef :: "string"
  rr_actionClass :: "string"
  rr_failureReceiptRef :: "string"
  rr_proofGapIds :: "string list"
  rr_missingEvidenceRefs :: "string list"
  rr_reviewDecisionRef :: "string option"
  rr_policyChangeRef :: "string option"
  rr_sourceReceiptDigest :: "string"
  rr_sourceAuditChainDigest :: "string"
  rr_sourceStreamOffsets :: "receipt_stream_reference list"
  rr_reasonCode :: "string"
  rr_reasonSummary :: "string"
  rr_recommendedAt :: "string"
  rr_recoveryExpiresAt :: "string option"
  rr_reviewDueAt :: "string option"
  rr_retryNotBefore :: "string option"
  rr_mustCreateNewActionContract :: "bool"
  rr_mayReuseGreenlight :: "bool"
  rr_mayMutateProtectedSurface :: "bool"
  rr_recommendationStatus :: "recovery_recommendation_status"
  rr_statusChangedAt :: "string option"
  rr_statusChangedByRef :: "string option"
  rr_statusReasonCode :: "string option"
  rr_statusReasonSummary :: "string option"
  rr_supersededByActionContractId :: "string option"
  rr_recommendationDigest :: "string"

definition recovery_recommendation_json :: "'a recovery_recommendation_scheme \<Rightarrow> jval" where
  "recovery_recommendation_json r = JObj (base_fields r @
     [(''recoveryRecommendationId'', JStr (rr_recoveryRecommendationId r)),
      (''sourceReceiptId'', JStr (rr_sourceReceiptId r)),
      (''sourceActionContractId'', JStr (rr_sourceActionContractId r)),
      (''sourcePolicyDecisionId'', JStr (rr_sourcePolicyDecisionId r)),
      (''sourceGreenlightId'', j_opt JStr (rr_sourceGreenlightId r)),
      (''sourceGateAttemptId'', j_opt JStr (rr_sourceGateAttemptId r)),
      (''sourceMutationAttemptId'', j_opt JStr (rr_sourceMutationAttemptId r)),
      (''sourceRefusalOrGapRef'', JStr (rr_sourceRefusalOrGapRef r)),
      (''sourceFinalityStatus'', JStr (finality_status_str (rr_sourceFinalityStatus r))),
      (''sourceGatewayCheckStatus'', j_opt (\<lambda>x. JStr (gate_decision_str x)) (rr_sourceGatewayCheckStatus r)),
      (''sourceMutationAttemptStatus'', JStr (mutation_outcome_str (rr_sourceMutationAttemptStatus r))),
      (''sourceDownstreamExecutionStatus'', JStr (downstream_outcome_status_str (rr_sourceDownstreamExecutionStatus r))),
      (''recommendedPath'', JStr (recovery_recommended_path_str (rr_recommendedPath r))),
      (''allowedNextActionClasses'', JArr (map JStr (rr_allowedNextActionClasses r))),
      (''requiredNewEvidence'', JArr (map JStr (rr_requiredNewEvidence r))),
      (''requiresHumanReview'', JBool (rr_requiresHumanReview r)),
      (''safeRetryAvailable'', JBool (rr_safeRetryAvailable r)),
      (''scopeNarrowingRequired'', JBool (rr_scopeNarrowingRequired r)),
      (''policyUpdateCandidate'', JBool (rr_policyUpdateCandidate r)),
      (''agentInstructionUpdateCandidate'', JBool (rr_agentInstructionUpdateCandidate r)),
      (''principalId'', JStr (rr_principalId r)),
      (''agentId'', JStr (rr_agentId r)),
      (''runId'', JStr (rr_runId r)),
      (''gatewayId'', JStr (rr_gatewayId r)),
      (''resourceRef'', JStr (rr_resourceRef r)),
      (''actionClass'', JStr (rr_actionClass r)),
      (''failureReceiptRef'', JStr (rr_failureReceiptRef r)),
      (''proofGapIds'', JArr (map JStr (rr_proofGapIds r))),
      (''missingEvidenceRefs'', JArr (map JStr (rr_missingEvidenceRefs r))),
      (''reviewDecisionRef'', j_opt JStr (rr_reviewDecisionRef r)),
      (''policyChangeRef'', j_opt JStr (rr_policyChangeRef r)),
      (''sourceReceiptDigest'', JStr (rr_sourceReceiptDigest r)),
      (''sourceAuditChainDigest'', JStr (rr_sourceAuditChainDigest r)),
      (''sourceStreamOffsets'', JArr (map receipt_stream_reference_json (rr_sourceStreamOffsets r))),
      (''reasonCode'', JStr (rr_reasonCode r)),
      (''reasonSummary'', JStr (rr_reasonSummary r)),
      (''recommendedAt'', JStr (rr_recommendedAt r)),
      (''recoveryExpiresAt'', j_opt JStr (rr_recoveryExpiresAt r)),
      (''reviewDueAt'', j_opt JStr (rr_reviewDueAt r)),
      (''retryNotBefore'', j_opt JStr (rr_retryNotBefore r)),
      (''mustCreateNewActionContract'', JBool (rr_mustCreateNewActionContract r)),
      (''mayReuseGreenlight'', JBool (rr_mayReuseGreenlight r)),
      (''mayMutateProtectedSurface'', JBool (rr_mayMutateProtectedSurface r)),
      (''recommendationStatus'', JStr (recovery_recommendation_status_str (rr_recommendationStatus r))),
      (''statusChangedAt'', j_opt JStr (rr_statusChangedAt r)),
      (''statusChangedByRef'', j_opt JStr (rr_statusChangedByRef r)),
      (''statusReasonCode'', j_opt JStr (rr_statusReasonCode r)),
      (''statusReasonSummary'', j_opt JStr (rr_statusReasonSummary r)),
      (''supersededByActionContractId'', j_opt JStr (rr_supersededByActionContractId r)),
      (''recommendationDigest'', JStr (rr_recommendationDigest r))])"

definition recovery_recommendation_valid :: "'e env_scheme \<Rightarrow> 'a recovery_recommendation_scheme \<Rightarrow> bool" where
  "recovery_recommendation_valid E r \<longleftrightarrow>
     base_valid E r \<and>
     id_ok (rr_recoveryRecommendationId r) \<and>
     id_ok (rr_sourceReceiptId r) \<and>
     id_ok (rr_sourceActionContractId r) \<and>
     id_ok (rr_sourcePolicyDecisionId r) \<and>
     opt_ok id_ok (rr_sourceGreenlightId r) \<and>
     opt_ok id_ok (rr_sourceGateAttemptId r) \<and>
     opt_ok id_ok (rr_sourceMutationAttemptId r) \<and>
     1 \<le> length (rr_sourceRefusalOrGapRef r) \<and>
     list_all (\<lambda>x. 1 \<le> length x) (rr_allowedNextActionClasses r) \<and>
     list_all (\<lambda>x. 1 \<le> length x) (rr_requiredNewEvidence r) \<and>
     id_ok (rr_principalId r) \<and>
     id_ok (rr_agentId r) \<and>
     id_ok (rr_runId r) \<and>
     id_ok (rr_gatewayId r) \<and>
     resource_ref_ok (rr_resourceRef r) \<and>
     1 \<le> length (rr_actionClass r) \<and>
     id_ok (rr_failureReceiptRef r) \<and>
     list_all id_ok (rr_proofGapIds r) \<and>
     list_all (\<lambda>x. 1 \<le> length x) (rr_missingEvidenceRefs r) \<and>
     opt_ok (\<lambda>x. 1 \<le> length x) (rr_reviewDecisionRef r) \<and>
     opt_ok (\<lambda>x. 1 \<le> length x) (rr_policyChangeRef r) \<and>
     digest_ok (rr_sourceReceiptDigest r) \<and>
     digest_ok (rr_sourceAuditChainDigest r) \<and>
     list_all (receipt_stream_reference_valid E) (rr_sourceStreamOffsets r) \<and>
     reason_code_ok (rr_reasonCode r) \<and>
     1 \<le> length (rr_reasonSummary r) \<and> length (rr_reasonSummary r) \<le> 1000 \<and>
     iso_ok E (rr_recommendedAt r) \<and>
     opt_ok (iso_ok E) (rr_recoveryExpiresAt r) \<and>
     opt_ok (iso_ok E) (rr_reviewDueAt r) \<and>
     opt_ok (iso_ok E) (rr_retryNotBefore r) \<and>
     (rr_mustCreateNewActionContract r) \<and>
     \<not> (rr_mayReuseGreenlight r) \<and>
     \<not> (rr_mayMutateProtectedSurface r) \<and>
     opt_ok (iso_ok E) (rr_statusChangedAt r) \<and>
     opt_ok (\<lambda>x. 1 \<le> length x) (rr_statusChangedByRef r) \<and>
     opt_ok reason_code_ok (rr_statusReasonCode r) \<and>
     opt_ok (\<lambda>x. 1 \<le> length x \<and> length x \<le> 1000) (rr_statusReasonSummary r) \<and>
     opt_ok id_ok (rr_supersededByActionContractId r) \<and>
     digest_ok (rr_recommendationDigest r)"

record recovery_status_transition = protocol_base +
  rst_recoveryRecommendationStatusTransitionId :: "string"
  rst_recoveryRecommendationId :: "string"
  rst_sourceReceiptId :: "string"
  rst_sourceActionContractId :: "string"
  rst_previousStatus :: "recovery_recommendation_status"
  rst_nextStatus :: "recovery_recommendation_terminal_status"
  rst_recommendationDigest :: "string"
  rst_reasonCode :: "string"
  rst_reasonSummary :: "string"
  rst_changedByRef :: "string"
  rst_changedAt :: "string"
  rst_supersededByActionContractId :: "string option"
  rst_transitionDigest :: "string"

definition recovery_status_transition_json :: "'a recovery_status_transition_scheme \<Rightarrow> jval" where
  "recovery_status_transition_json r = JObj (base_fields r @
     [(''recoveryRecommendationStatusTransitionId'', JStr (rst_recoveryRecommendationStatusTransitionId r)),
      (''recoveryRecommendationId'', JStr (rst_recoveryRecommendationId r)),
      (''sourceReceiptId'', JStr (rst_sourceReceiptId r)),
      (''sourceActionContractId'', JStr (rst_sourceActionContractId r)),
      (''previousStatus'', JStr (recovery_recommendation_status_str (rst_previousStatus r))),
      (''nextStatus'', JStr (recovery_recommendation_terminal_status_str (rst_nextStatus r))),
      (''recommendationDigest'', JStr (rst_recommendationDigest r)),
      (''reasonCode'', JStr (rst_reasonCode r)),
      (''reasonSummary'', JStr (rst_reasonSummary r)),
      (''changedByRef'', JStr (rst_changedByRef r)),
      (''changedAt'', JStr (rst_changedAt r)),
      (''supersededByActionContractId'', j_opt JStr (rst_supersededByActionContractId r)),
      (''transitionDigest'', JStr (rst_transitionDigest r))])"

definition recovery_status_transition_valid :: "'e env_scheme \<Rightarrow> 'a recovery_status_transition_scheme \<Rightarrow> bool" where
  "recovery_status_transition_valid E r \<longleftrightarrow>
     base_valid E r \<and>
     id_ok (rst_recoveryRecommendationStatusTransitionId r) \<and>
     id_ok (rst_recoveryRecommendationId r) \<and>
     id_ok (rst_sourceReceiptId r) \<and>
     id_ok (rst_sourceActionContractId r) \<and>
     digest_ok (rst_recommendationDigest r) \<and>
     reason_code_ok (rst_reasonCode r) \<and>
     1 \<le> length (rst_reasonSummary r) \<and> length (rst_reasonSummary r) \<le> 1000 \<and>
     1 \<le> length (rst_changedByRef r) \<and>
     iso_ok E (rst_changedAt r) \<and>
     opt_ok id_ok (rst_supersededByActionContractId r) \<and>
     digest_ok (rst_transitionDigest r)"

datatype (plugins only: code) review_hidden_action_posture =
    RHAP_no_hidden_actions_detected
  | RHAP_hidden_action_risk
  | RHAP_unknown

primrec review_hidden_action_posture_str :: "review_hidden_action_posture \<Rightarrow> string" where
    "review_hidden_action_posture_str RHAP_no_hidden_actions_detected = ''no_hidden_actions_detected''"
  | "review_hidden_action_posture_str RHAP_hidden_action_risk = ''hidden_action_risk''"
  | "review_hidden_action_posture_str RHAP_unknown = ''unknown''"

datatype (plugins only: code) review_secondary_action_posture =
    RSAP_no_secondary_actions_detected
  | RSAP_secondary_action_risk
  | RSAP_unknown

primrec review_secondary_action_posture_str :: "review_secondary_action_posture \<Rightarrow> string" where
    "review_secondary_action_posture_str RSAP_no_secondary_actions_detected = ''no_secondary_actions_detected''"
  | "review_secondary_action_posture_str RSAP_secondary_action_risk = ''secondary_action_risk''"
  | "review_secondary_action_posture_str RSAP_unknown = ''unknown''"

record review_artifact = protocol_base +
  ra_reviewArtifactId :: "string"
  ra_reviewArtifactRef :: "string"
  ra_reviewRenderSchemaVersion :: "string"
  ra_rendererRef :: "string"
  ra_actionContractId :: "string"
  ra_actionContractDigest :: "string"
  ra_policyDecisionId :: "string"
  ra_policyInputDigest :: "string"
  ra_gatewayPolicyVersion :: "string"
  ra_renderedContractDigest :: "string"
  ra_renderedPolicyInputDigest :: "string"
  ra_renderedUncertaintyDigest :: "string"
  ra_renderedArtifactDigest :: "string"
  ra_catalogDigest :: "string option"
  ra_rendererDigest :: "string option"
  ra_actionBindingDigest :: "string option"
  ra_hiddenActionPosture :: "review_hidden_action_posture"
  ra_secondaryActionPosture :: "review_secondary_action_posture"
  ra_uncertaintyMarkers :: "string list"
  ra_evidenceRefs :: "string list"
  ra_reviewArtifactDigest :: "string"

definition review_artifact_json :: "'a review_artifact_scheme \<Rightarrow> jval" where
  "review_artifact_json r = JObj (base_fields r @
     [(''reviewArtifactId'', JStr (ra_reviewArtifactId r)),
      (''reviewArtifactRef'', JStr (ra_reviewArtifactRef r)),
      (''reviewRenderSchemaVersion'', JStr (ra_reviewRenderSchemaVersion r)),
      (''rendererRef'', JStr (ra_rendererRef r)),
      (''actionContractId'', JStr (ra_actionContractId r)),
      (''actionContractDigest'', JStr (ra_actionContractDigest r)),
      (''policyDecisionId'', JStr (ra_policyDecisionId r)),
      (''policyInputDigest'', JStr (ra_policyInputDigest r)),
      (''gatewayPolicyVersion'', JStr (ra_gatewayPolicyVersion r)),
      (''renderedContractDigest'', JStr (ra_renderedContractDigest r)),
      (''renderedPolicyInputDigest'', JStr (ra_renderedPolicyInputDigest r)),
      (''renderedUncertaintyDigest'', JStr (ra_renderedUncertaintyDigest r)),
      (''renderedArtifactDigest'', JStr (ra_renderedArtifactDigest r)),
      (''catalogDigest'', j_opt JStr (ra_catalogDigest r)),
      (''rendererDigest'', j_opt JStr (ra_rendererDigest r)),
      (''actionBindingDigest'', j_opt JStr (ra_actionBindingDigest r)),
      (''hiddenActionPosture'', JStr (review_hidden_action_posture_str (ra_hiddenActionPosture r))),
      (''secondaryActionPosture'', JStr (review_secondary_action_posture_str (ra_secondaryActionPosture r))),
      (''uncertaintyMarkers'', JArr (map JStr (ra_uncertaintyMarkers r))),
      (''evidenceRefs'', JArr (map JStr (ra_evidenceRefs r))),
      (''reviewArtifactDigest'', JStr (ra_reviewArtifactDigest r))])"

definition review_artifact_valid :: "'e env_scheme \<Rightarrow> 'a review_artifact_scheme \<Rightarrow> bool" where
  "review_artifact_valid E r \<longleftrightarrow>
     base_valid E r \<and>
     id_ok (ra_reviewArtifactId r) \<and>
     1 \<le> length (ra_reviewArtifactRef r) \<and>
     1 \<le> length (ra_reviewRenderSchemaVersion r) \<and>
     1 \<le> length (ra_rendererRef r) \<and>
     id_ok (ra_actionContractId r) \<and>
     digest_ok (ra_actionContractDigest r) \<and>
     id_ok (ra_policyDecisionId r) \<and>
     digest_ok (ra_policyInputDigest r) \<and>
     1 \<le> length (ra_gatewayPolicyVersion r) \<and>
     digest_ok (ra_renderedContractDigest r) \<and>
     digest_ok (ra_renderedPolicyInputDigest r) \<and>
     digest_ok (ra_renderedUncertaintyDigest r) \<and>
     digest_ok (ra_renderedArtifactDigest r) \<and>
     opt_ok digest_ok (ra_catalogDigest r) \<and>
     opt_ok digest_ok (ra_rendererDigest r) \<and>
     opt_ok digest_ok (ra_actionBindingDigest r) \<and>
     list_all (\<lambda>x. 1 \<le> length x) (ra_uncertaintyMarkers r) \<and>
     list_all (\<lambda>x. 1 \<le> length x) (ra_evidenceRefs r) \<and>
     digest_ok (ra_reviewArtifactDigest r)"

datatype (plugins only: code) review_verdict =
    RV_approve
  | RV_reject
  | RV_needs_changes

primrec review_verdict_str :: "review_verdict \<Rightarrow> string" where
    "review_verdict_str RV_approve = ''approve''"
  | "review_verdict_str RV_reject = ''reject''"
  | "review_verdict_str RV_needs_changes = ''needs_changes''"

record review_decision = protocol_base +
  rd_reviewDecisionId :: "string"
  rd_reviewArtifactId :: "string"
  rd_reviewArtifactRef :: "string"
  rd_reviewArtifactDigest :: "string"
  rd_reviewRenderSchemaVersion :: "string"
  rd_reviewerPrincipalId :: "string"
  rd_actionContractId :: "string"
  rd_actionContractDigest :: "string"
  rd_policyInputDigest :: "string"
  rd_gatewayPolicyVersion :: "string"
  rd_decision :: "review_verdict"
  rd_decisionReasonCode :: "string"
  rd_decisionExpiresAt :: "string"
  rd_signatureOrAttestationRef :: "string"

definition review_decision_json :: "'a review_decision_scheme \<Rightarrow> jval" where
  "review_decision_json r = JObj (base_fields r @
     [(''reviewDecisionId'', JStr (rd_reviewDecisionId r)),
      (''reviewArtifactId'', JStr (rd_reviewArtifactId r)),
      (''reviewArtifactRef'', JStr (rd_reviewArtifactRef r)),
      (''reviewArtifactDigest'', JStr (rd_reviewArtifactDigest r)),
      (''reviewRenderSchemaVersion'', JStr (rd_reviewRenderSchemaVersion r)),
      (''reviewerPrincipalId'', JStr (rd_reviewerPrincipalId r)),
      (''actionContractId'', JStr (rd_actionContractId r)),
      (''actionContractDigest'', JStr (rd_actionContractDigest r)),
      (''policyInputDigest'', JStr (rd_policyInputDigest r)),
      (''gatewayPolicyVersion'', JStr (rd_gatewayPolicyVersion r)),
      (''decision'', JStr (review_verdict_str (rd_decision r))),
      (''decisionReasonCode'', JStr (rd_decisionReasonCode r)),
      (''decisionExpiresAt'', JStr (rd_decisionExpiresAt r)),
      (''signatureOrAttestationRef'', JStr (rd_signatureOrAttestationRef r))])"

definition review_decision_valid :: "'e env_scheme \<Rightarrow> 'a review_decision_scheme \<Rightarrow> bool" where
  "review_decision_valid E r \<longleftrightarrow>
     base_valid E r \<and>
     id_ok (rd_reviewDecisionId r) \<and>
     id_ok (rd_reviewArtifactId r) \<and>
     1 \<le> length (rd_reviewArtifactRef r) \<and>
     digest_ok (rd_reviewArtifactDigest r) \<and>
     1 \<le> length (rd_reviewRenderSchemaVersion r) \<and>
     id_ok (rd_reviewerPrincipalId r) \<and>
     id_ok (rd_actionContractId r) \<and>
     digest_ok (rd_actionContractDigest r) \<and>
     digest_ok (rd_policyInputDigest r) \<and>
     1 \<le> length (rd_gatewayPolicyVersion r) \<and>
     reason_code_ok (rd_decisionReasonCode r) \<and>
     iso_ok E (rd_decisionExpiresAt r) \<and>
     1 \<le> length (rd_signatureOrAttestationRef r)"

end
