(* ===== verification/Schemas_Certificate.thy ===== *)
theory Schemas_Certificate
  imports Schemas_Contract Schemas_Receipt
begin

text \<open>
  The envelope of an agent transaction (\<open>evidence-projections/schemas.ts\<close>) and
  the authority certificate that carries it, with the trust material a verifier pins
  and the answer of a verification (\<open>authority-certificate/schemas.ts\<close>): records,
  JSON and schema predicates.
\<close>

datatype (plugins only: code) idempotency_recovery_disposition =
    IRD_missing
  | IRD_same_params_result_available
  | IRD_same_params_duplicate_refused
  | IRD_different_params_refused
  | IRD_terminal_unknown_requires_recovery

primrec idempotency_recovery_disposition_str :: "idempotency_recovery_disposition \<Rightarrow> string" where
    "idempotency_recovery_disposition_str IRD_missing = ''missing''"
  | "idempotency_recovery_disposition_str IRD_same_params_result_available = ''same_params_result_available''"
  | "idempotency_recovery_disposition_str IRD_same_params_duplicate_refused = ''same_params_duplicate_refused''"
  | "idempotency_recovery_disposition_str IRD_different_params_refused = ''different_params_refused''"
  | "idempotency_recovery_disposition_str IRD_terminal_unknown_requires_recovery = ''terminal_unknown_requires_recovery''"

record auth_md_evidence_refs =
  ame_discoveryRefs :: "string list"
  ame_authorizationServerRefs :: "string list"
  ame_identityAssertionRefs :: "string list"
  ame_registrationRefs :: "string list"
  ame_claimRefs :: "string list"
  ame_revocationRefs :: "string list"
  ame_credentialCustodyRefs :: "string list"
  ame_credentialResolutionRefs :: "string list"
  ame_protectedApiCallRefs :: "string list"
  ame_downstreamEvidenceRefs :: "string list"

definition auth_md_evidence_refs_json :: "'a auth_md_evidence_refs_scheme \<Rightarrow> jval" where
  "auth_md_evidence_refs_json r = JObj (
     [(''discoveryRefs'', JArr (map JStr (ame_discoveryRefs r))),
      (''authorizationServerRefs'', JArr (map JStr (ame_authorizationServerRefs r))),
      (''identityAssertionRefs'', JArr (map JStr (ame_identityAssertionRefs r))),
      (''registrationRefs'', JArr (map JStr (ame_registrationRefs r))),
      (''claimRefs'', JArr (map JStr (ame_claimRefs r))),
      (''revocationRefs'', JArr (map JStr (ame_revocationRefs r))),
      (''credentialCustodyRefs'', JArr (map JStr (ame_credentialCustodyRefs r))),
      (''credentialResolutionRefs'', JArr (map JStr (ame_credentialResolutionRefs r))),
      (''protectedApiCallRefs'', JArr (map JStr (ame_protectedApiCallRefs r))),
      (''downstreamEvidenceRefs'', JArr (map JStr (ame_downstreamEvidenceRefs r)))])"

definition auth_md_evidence_refs_valid :: "'e env_scheme \<Rightarrow> 'a auth_md_evidence_refs_scheme \<Rightarrow> bool" where
  "auth_md_evidence_refs_valid E r \<longleftrightarrow>
     list_all (\<lambda>x. 1 \<le> length x) (ame_discoveryRefs r) \<and>
     list_all (\<lambda>x. 1 \<le> length x) (ame_authorizationServerRefs r) \<and>
     list_all (\<lambda>x. 1 \<le> length x) (ame_identityAssertionRefs r) \<and>
     list_all (\<lambda>x. 1 \<le> length x) (ame_registrationRefs r) \<and>
     list_all (\<lambda>x. 1 \<le> length x) (ame_claimRefs r) \<and>
     list_all (\<lambda>x. 1 \<le> length x) (ame_revocationRefs r) \<and>
     list_all (\<lambda>x. 1 \<le> length x) (ame_credentialCustodyRefs r) \<and>
     list_all (\<lambda>x. 1 \<le> length x) (ame_credentialResolutionRefs r) \<and>
     list_all (\<lambda>x. 1 \<le> length x) (ame_protectedApiCallRefs r) \<and>
     list_all (\<lambda>x. 1 \<le> length x) (ame_downstreamEvidenceRefs r)"

record transaction_envelope =
  ate_actionContractRef :: "string"
  ate_contractDigest :: "string"
  ate_policyDecisionRef :: "string"
  ate_policyDecisionStatus :: "policy_decision_value"
  ate_greenlightRef :: "string option"
  ate_gateAttemptRef :: "string option"
  ate_mutationAttemptRef :: "string option"
  ate_receiptRef :: "string option"
  ate_principalRef :: "string"
  ate_agentRef :: "string"
  ate_participantIdentityBindings :: "participant_identity_binding list"
  ate_runId :: "string"
  ate_runtimeAdapterRef :: "string"
  ate_actionClass :: "string"
  ate_protectedSurfaceKind :: "string"
  ate_resourceRef :: "string"
  ate_gatewayId :: "string"
  ate_gatewayPolicyVersion :: "string"
  ate_idempotencyKey :: "string"
  ate_paramsDigest :: "string"
  ate_nonSecretParamsSummary :: "(string \<times> jval) list"
  ate_clearingEvidenceRefs :: "clearing_evidence_refs"
  ate_surfaceOperationRef :: "string option"
  ate_surfaceOperationReconciliationRef :: "string option"
  ate_surfaceOperationEvidenceLabels :: "string list"
  ate_surfaceOperationEvidenceRefs :: "string list"
  ate_gatewayCredentialEvidenceRefs :: "string list"
  ate_delegatedAuthorityEvidenceRefs :: "string list"
  ate_credentialResolutionEvidenceRefs :: "string list"
  ate_signerInvocationEvidenceRefs :: "string list"
  ate_downstreamEvidenceRefs :: "string list"
  ate_authMdEvidenceRefs :: "auth_md_evidence_refs"
  ate_authMdEvidenceLabels :: "string list"
  ate_providerRequestRef :: "string option"
  ate_providerOperationRef :: "string option"
  ate_downstreamRetryability :: "downstream_retryability option"
  ate_reconciliationFinalityStatus :: "finality_status option"
  ate_gatewayAdmissionStatus :: "gateway_admission_status"
  ate_greenlightConsumptionStatus :: "consumption_status option"
  ate_downstreamOutcomeStatus :: "downstream_outcome_status"
  ate_proofGapRefs :: "string list"
  ate_proofGapReasonCodes :: "string list"
  ate_refusalRefs :: "string list"
  ate_refusalReasonCodes :: "string list"
  ate_idempotencyLedgerRef :: "string option"
  ate_idempotencyLedgerState :: "idempotency_ledger_state option"
  ate_idempotencyRecoveryDisposition :: "idempotency_recovery_disposition option"
  ate_idempotencyReasonCodes :: "string list"
  ate_recoveryRefs :: "string list"
  ate_isolationRefs :: "string list"
  ate_authorityCertificateRefs :: "string list"
  ate_evidenceRefs :: "string list"
  ate_streamOffsets :: "receipt_stream_reference list"
  ate_receiptDigest :: "string option"
  ate_auditChainDigest :: "string option"
  ate_receiptExportRef :: "string option"
  ate_redactionProfileRef :: "string"
  ate_omittedFields :: "string list"
  ate_envelopeDigest :: "string"

definition transaction_envelope_json :: "'a transaction_envelope_scheme \<Rightarrow> jval" where
  "transaction_envelope_json r = JObj (
     [(''actionContractRef'', JStr (ate_actionContractRef r)),
      (''contractDigest'', JStr (ate_contractDigest r)),
      (''policyDecisionRef'', JStr (ate_policyDecisionRef r)),
      (''policyDecisionStatus'', JStr (policy_decision_value_str (ate_policyDecisionStatus r))),
      (''greenlightRef'', j_opt JStr (ate_greenlightRef r)),
      (''gateAttemptRef'', j_opt JStr (ate_gateAttemptRef r)),
      (''mutationAttemptRef'', j_opt JStr (ate_mutationAttemptRef r)),
      (''receiptRef'', j_opt JStr (ate_receiptRef r)),
      (''principalRef'', JStr (ate_principalRef r)),
      (''agentRef'', JStr (ate_agentRef r)),
      (''participantIdentityBindings'', JArr (map participant_identity_binding_json (ate_participantIdentityBindings r))),
      (''runId'', JStr (ate_runId r)),
      (''runtimeAdapterRef'', JStr (ate_runtimeAdapterRef r)),
      (''actionClass'', JStr (ate_actionClass r)),
      (''protectedSurfaceKind'', JStr (ate_protectedSurfaceKind r)),
      (''resourceRef'', JStr (ate_resourceRef r)),
      (''gatewayId'', JStr (ate_gatewayId r)),
      (''gatewayPolicyVersion'', JStr (ate_gatewayPolicyVersion r)),
      (''idempotencyKey'', JStr (ate_idempotencyKey r)),
      (''paramsDigest'', JStr (ate_paramsDigest r)),
      (''nonSecretParamsSummary'', JObj (ate_nonSecretParamsSummary r)),
      (''clearingEvidenceRefs'', clearing_evidence_refs_json (ate_clearingEvidenceRefs r)),
      (''surfaceOperationRef'', j_opt JStr (ate_surfaceOperationRef r)),
      (''surfaceOperationReconciliationRef'', j_opt JStr (ate_surfaceOperationReconciliationRef r)),
      (''surfaceOperationEvidenceLabels'', JArr (map JStr (ate_surfaceOperationEvidenceLabels r))),
      (''surfaceOperationEvidenceRefs'', JArr (map JStr (ate_surfaceOperationEvidenceRefs r))),
      (''gatewayCredentialEvidenceRefs'', JArr (map JStr (ate_gatewayCredentialEvidenceRefs r))),
      (''delegatedAuthorityEvidenceRefs'', JArr (map JStr (ate_delegatedAuthorityEvidenceRefs r))),
      (''credentialResolutionEvidenceRefs'', JArr (map JStr (ate_credentialResolutionEvidenceRefs r))),
      (''signerInvocationEvidenceRefs'', JArr (map JStr (ate_signerInvocationEvidenceRefs r))),
      (''downstreamEvidenceRefs'', JArr (map JStr (ate_downstreamEvidenceRefs r))),
      (''authMdEvidenceRefs'', auth_md_evidence_refs_json (ate_authMdEvidenceRefs r)),
      (''authMdEvidenceLabels'', JArr (map JStr (ate_authMdEvidenceLabels r))),
      (''providerRequestRef'', j_opt JStr (ate_providerRequestRef r)),
      (''providerOperationRef'', j_opt JStr (ate_providerOperationRef r)),
      (''downstreamRetryability'', j_opt (\<lambda>x. JStr (downstream_retryability_str x)) (ate_downstreamRetryability r)),
      (''reconciliationFinalityStatus'', j_opt (\<lambda>x. JStr (finality_status_str x)) (ate_reconciliationFinalityStatus r)),
      (''gatewayAdmissionStatus'', JStr (gateway_admission_status_str (ate_gatewayAdmissionStatus r))),
      (''greenlightConsumptionStatus'', j_opt (\<lambda>x. JStr (consumption_status_str x)) (ate_greenlightConsumptionStatus r)),
      (''downstreamOutcomeStatus'', JStr (downstream_outcome_status_str (ate_downstreamOutcomeStatus r))),
      (''proofGapRefs'', JArr (map JStr (ate_proofGapRefs r))),
      (''proofGapReasonCodes'', JArr (map JStr (ate_proofGapReasonCodes r))),
      (''refusalRefs'', JArr (map JStr (ate_refusalRefs r))),
      (''refusalReasonCodes'', JArr (map JStr (ate_refusalReasonCodes r))),
      (''idempotencyLedgerRef'', j_opt JStr (ate_idempotencyLedgerRef r)),
      (''idempotencyLedgerState'', j_opt (\<lambda>x. JStr (idempotency_ledger_state_str x)) (ate_idempotencyLedgerState r)),
      (''idempotencyRecoveryDisposition'', j_opt (\<lambda>x. JStr (idempotency_recovery_disposition_str x)) (ate_idempotencyRecoveryDisposition r)),
      (''idempotencyReasonCodes'', JArr (map JStr (ate_idempotencyReasonCodes r))),
      (''recoveryRefs'', JArr (map JStr (ate_recoveryRefs r))),
      (''isolationRefs'', JArr (map JStr (ate_isolationRefs r))),
      (''authorityCertificateRefs'', JArr (map JStr (ate_authorityCertificateRefs r))),
      (''evidenceRefs'', JArr (map JStr (ate_evidenceRefs r))),
      (''streamOffsets'', JArr (map receipt_stream_reference_json (ate_streamOffsets r))),
      (''receiptDigest'', j_opt JStr (ate_receiptDigest r)),
      (''auditChainDigest'', j_opt JStr (ate_auditChainDigest r)),
      (''receiptExportRef'', j_opt JStr (ate_receiptExportRef r)),
      (''redactionProfileRef'', JStr (ate_redactionProfileRef r)),
      (''omittedFields'', JArr (map JStr (ate_omittedFields r))),
      (''envelopeDigest'', JStr (ate_envelopeDigest r))])"

definition transaction_envelope_valid :: "'e env_scheme \<Rightarrow> 'a transaction_envelope_scheme \<Rightarrow> bool" where
  "transaction_envelope_valid E r \<longleftrightarrow>
     id_ok (ate_actionContractRef r) \<and>
     digest_ok (ate_contractDigest r) \<and>
     id_ok (ate_policyDecisionRef r) \<and>
     opt_ok id_ok (ate_greenlightRef r) \<and>
     opt_ok id_ok (ate_gateAttemptRef r) \<and>
     opt_ok id_ok (ate_mutationAttemptRef r) \<and>
     opt_ok id_ok (ate_receiptRef r) \<and>
     id_ok (ate_principalRef r) \<and>
     id_ok (ate_agentRef r) \<and>
     list_all (participant_identity_binding_valid E) (ate_participantIdentityBindings r) \<and>
     id_ok (ate_runId r) \<and>
     id_ok (ate_runtimeAdapterRef r) \<and>
     1 \<le> length (ate_actionClass r) \<and>
     1 \<le> length (ate_protectedSurfaceKind r) \<and>
     resource_ref_ok (ate_resourceRef r) \<and>
     id_ok (ate_gatewayId r) \<and>
     1 \<le> length (ate_gatewayPolicyVersion r) \<and>
     id_ok (ate_idempotencyKey r) \<and>
     digest_ok (ate_paramsDigest r) \<and>
     clearing_evidence_refs_valid E (ate_clearingEvidenceRefs r) \<and>
     opt_ok (\<lambda>x. 1 \<le> length x) (ate_surfaceOperationRef r) \<and>
     opt_ok id_ok (ate_surfaceOperationReconciliationRef r) \<and>
     list_all (\<lambda>x. 1 \<le> length x) (ate_surfaceOperationEvidenceLabels r) \<and>
     list_all (\<lambda>x. 1 \<le> length x) (ate_surfaceOperationEvidenceRefs r) \<and>
     list_all (\<lambda>x. 1 \<le> length x) (ate_gatewayCredentialEvidenceRefs r) \<and>
     list_all (\<lambda>x. 1 \<le> length x) (ate_delegatedAuthorityEvidenceRefs r) \<and>
     list_all (\<lambda>x. 1 \<le> length x) (ate_credentialResolutionEvidenceRefs r) \<and>
     list_all (\<lambda>x. 1 \<le> length x) (ate_signerInvocationEvidenceRefs r) \<and>
     list_all (\<lambda>x. 1 \<le> length x) (ate_downstreamEvidenceRefs r) \<and>
     auth_md_evidence_refs_valid E (ate_authMdEvidenceRefs r) \<and>
     list_all (\<lambda>x. 1 \<le> length x) (ate_authMdEvidenceLabels r) \<and>
     opt_ok (\<lambda>x. 1 \<le> length x) (ate_providerRequestRef r) \<and>
     opt_ok (\<lambda>x. 1 \<le> length x) (ate_providerOperationRef r) \<and>
     list_all id_ok (ate_proofGapRefs r) \<and>
     list_all reason_code_ok (ate_proofGapReasonCodes r) \<and>
     list_all id_ok (ate_refusalRefs r) \<and>
     list_all reason_code_ok (ate_refusalReasonCodes r) \<and>
     opt_ok id_ok (ate_idempotencyLedgerRef r) \<and>
     list_all reason_code_ok (ate_idempotencyReasonCodes r) \<and>
     list_all (\<lambda>x. 1 \<le> length x) (ate_recoveryRefs r) \<and>
     list_all (\<lambda>x. 1 \<le> length x) (ate_isolationRefs r) \<and>
     list_all id_ok (ate_authorityCertificateRefs r) \<and>
     list_all (\<lambda>x. 1 \<le> length x) (ate_evidenceRefs r) \<and>
     list_all (receipt_stream_reference_valid E) (ate_streamOffsets r) \<and>
     opt_ok digest_ok (ate_receiptDigest r) \<and>
     opt_ok digest_ok (ate_auditChainDigest r) \<and>
     opt_ok id_ok (ate_receiptExportRef r) \<and>
     (ate_redactionProfileRef r) = ''agent-transaction-envelope:v0.2-redacted'' \<and>
     list_all (\<lambda>x. 1 \<le> length x) (ate_omittedFields r) \<and>
     digest_ok (ate_envelopeDigest r)"

datatype (plugins only: code) certificate_terminal_kind =
    CTK_receipt
  | CTK_durable_refusal
  | CTK_proof_gap
  | CTK_replay_refusal

primrec certificate_terminal_kind_str :: "certificate_terminal_kind \<Rightarrow> string" where
    "certificate_terminal_kind_str CTK_receipt = ''receipt''"
  | "certificate_terminal_kind_str CTK_durable_refusal = ''durable_refusal''"
  | "certificate_terminal_kind_str CTK_proof_gap = ''proof_gap''"
  | "certificate_terminal_kind_str CTK_replay_refusal = ''replay_refusal''"

datatype (plugins only: code) certificate_artifact_kind =
    CAK_action_contract
  | CAK_policy_decision
  | CAK_greenlight
  | CAK_gateway_check_attempt
  | CAK_mutation_attempt
  | CAK_refusal
  | CAK_proof_gap
  | CAK_receipt
  | CAK_receipt_export
  | CAK_surface_operation_reconciliation
  | CAK_credential_resolution_evidence
  | CAK_idempotency_ledger_entry
  | CAK_recovery_recommendation
  | CAK_recovery_recommendation_status_transition
  | CAK_isolation_state

primrec certificate_artifact_kind_str :: "certificate_artifact_kind \<Rightarrow> string" where
    "certificate_artifact_kind_str CAK_action_contract = ''action_contract''"
  | "certificate_artifact_kind_str CAK_policy_decision = ''policy_decision''"
  | "certificate_artifact_kind_str CAK_greenlight = ''greenlight''"
  | "certificate_artifact_kind_str CAK_gateway_check_attempt = ''gateway_check_attempt''"
  | "certificate_artifact_kind_str CAK_mutation_attempt = ''mutation_attempt''"
  | "certificate_artifact_kind_str CAK_refusal = ''refusal''"
  | "certificate_artifact_kind_str CAK_proof_gap = ''proof_gap''"
  | "certificate_artifact_kind_str CAK_receipt = ''receipt''"
  | "certificate_artifact_kind_str CAK_receipt_export = ''receipt_export''"
  | "certificate_artifact_kind_str CAK_surface_operation_reconciliation = ''surface_operation_reconciliation''"
  | "certificate_artifact_kind_str CAK_credential_resolution_evidence = ''credential_resolution_evidence''"
  | "certificate_artifact_kind_str CAK_idempotency_ledger_entry = ''idempotency_ledger_entry''"
  | "certificate_artifact_kind_str CAK_recovery_recommendation = ''recovery_recommendation''"
  | "certificate_artifact_kind_str CAK_recovery_recommendation_status_transition = ''recovery_recommendation_status_transition''"
  | "certificate_artifact_kind_str CAK_isolation_state = ''isolation_state''"

record certificate_artifact =
  cta_kind :: "certificate_artifact_kind"
  cta_objectRef :: "string"
  cta_digest :: "string"

definition certificate_artifact_json :: "'a certificate_artifact_scheme \<Rightarrow> jval" where
  "certificate_artifact_json r = JObj (
     [(''kind'', JStr (certificate_artifact_kind_str (cta_kind r))),
      (''objectRef'', JStr (cta_objectRef r)),
      (''digest'', JStr (cta_digest r))])"

definition certificate_artifact_valid :: "'e env_scheme \<Rightarrow> 'a certificate_artifact_scheme \<Rightarrow> bool" where
  "certificate_artifact_valid E r \<longleftrightarrow>
     1 \<le> length (cta_objectRef r) \<and>
     digest_ok (cta_digest r)"

datatype (plugins only: code) certificate_signer_role =
    CSR_operator_policy
  | CSR_gateway

primrec certificate_signer_role_str :: "certificate_signer_role \<Rightarrow> string" where
    "certificate_signer_role_str CSR_operator_policy = ''operator_policy''"
  | "certificate_signer_role_str CSR_gateway = ''gateway''"

datatype (plugins only: code) certificate_signature_algorithm =
    CSA_ed25519
  | CSA_hmac_sha256

primrec certificate_signature_algorithm_str :: "certificate_signature_algorithm \<Rightarrow> string" where
    "certificate_signature_algorithm_str CSA_ed25519 = ''ed25519''"
  | "certificate_signature_algorithm_str CSA_hmac_sha256 = ''hmac-sha256''"

record certificate_signature =
  cse_signerRole :: "certificate_signer_role"
  cse_keyIdentityRef :: "string"
  cse_algorithm :: "certificate_signature_algorithm"
  cse_signedOver :: "string"
  cse_signature :: "string"

definition certificate_signature_json :: "'a certificate_signature_scheme \<Rightarrow> jval" where
  "certificate_signature_json r = JObj (
     [(''signerRole'', JStr (certificate_signer_role_str (cse_signerRole r))),
      (''keyIdentityRef'', JStr (cse_keyIdentityRef r)),
      (''algorithm'', JStr (certificate_signature_algorithm_str (cse_algorithm r))),
      (''signedOver'', JStr (cse_signedOver r)),
      (''signature'', JStr (cse_signature r))])"

definition certificate_signature_valid :: "'e env_scheme \<Rightarrow> 'a certificate_signature_scheme \<Rightarrow> bool" where
  "certificate_signature_valid E r \<longleftrightarrow>
     1 \<le> length (cse_keyIdentityRef r) \<and>
     digest_ok (cse_signedOver r) \<and>
     signature_ok (cse_signature r)"

record certificate_policy =
  cvp_verificationPolicyId :: "string"
  cvp_terminalKind :: "certificate_terminal_kind"
  cvp_actionClass :: "string"
  cvp_gatewayAdmissionRequired :: "bool"
  cvp_requiredSignerRoles :: "certificate_signer_role list"
  cvp_requiredArtifactKinds :: "certificate_artifact_kind list"

definition certificate_policy_json :: "'a certificate_policy_scheme \<Rightarrow> jval" where
  "certificate_policy_json r = JObj (
     [(''verificationPolicyId'', JStr (cvp_verificationPolicyId r)),
      (''terminalKind'', JStr (certificate_terminal_kind_str (cvp_terminalKind r))),
      (''actionClass'', JStr (cvp_actionClass r)),
      (''gatewayAdmissionRequired'', JBool (cvp_gatewayAdmissionRequired r)),
      (''requiredSignerRoles'', JArr (map (\<lambda>x. JStr (certificate_signer_role_str x)) (cvp_requiredSignerRoles r))),
      (''requiredArtifactKinds'', JArr (map (\<lambda>x. JStr (certificate_artifact_kind_str x)) (cvp_requiredArtifactKinds r)))])"

definition certificate_policy_valid :: "'e env_scheme \<Rightarrow> 'a certificate_policy_scheme \<Rightarrow> bool" where
  "certificate_policy_valid E r \<longleftrightarrow>
     1 \<le> length (cvp_verificationPolicyId r) \<and>
     1 \<le> length (cvp_actionClass r) \<and>
     1 \<le> length (cvp_requiredSignerRoles r)"

record certificate_terminal =
  ctm_terminalKind :: "certificate_terminal_kind"
  ctm_terminalObjectRef :: "string"
  ctm_actionContractId :: "string"
  ctm_policyDecisionId :: "string option"
  ctm_greenlightId :: "string option"
  ctm_gatewayId :: "string option"

definition certificate_terminal_json :: "'a certificate_terminal_scheme \<Rightarrow> jval" where
  "certificate_terminal_json r = JObj (
     [(''terminalKind'', JStr (certificate_terminal_kind_str (ctm_terminalKind r))),
      (''terminalObjectRef'', JStr (ctm_terminalObjectRef r)),
      (''actionContractId'', JStr (ctm_actionContractId r)),
      (''policyDecisionId'', j_opt JStr (ctm_policyDecisionId r)),
      (''greenlightId'', j_opt JStr (ctm_greenlightId r)),
      (''gatewayId'', j_opt JStr (ctm_gatewayId r))])"

definition certificate_terminal_valid :: "'e env_scheme \<Rightarrow> 'a certificate_terminal_scheme \<Rightarrow> bool" where
  "certificate_terminal_valid E r \<longleftrightarrow>
     1 \<le> length (ctm_terminalObjectRef r) \<and>
     id_ok (ctm_actionContractId r) \<and>
     opt_ok id_ok (ctm_policyDecisionId r) \<and>
     opt_ok id_ok (ctm_greenlightId r) \<and>
     opt_ok id_ok (ctm_gatewayId r)"

record certificate_consumer_binding =
  ccb_bindingKind :: "string"
  ccb_bindingRef :: "string"
  ccb_digest :: "string option"

definition certificate_consumer_binding_json :: "'a certificate_consumer_binding_scheme \<Rightarrow> jval" where
  "certificate_consumer_binding_json r = JObj (
     [(''bindingKind'', JStr (ccb_bindingKind r)),
      (''bindingRef'', JStr (ccb_bindingRef r)),
      (''digest'', j_opt JStr (ccb_digest r))])"

definition certificate_consumer_binding_valid :: "'e env_scheme \<Rightarrow> 'a certificate_consumer_binding_scheme \<Rightarrow> bool" where
  "certificate_consumer_binding_valid E r \<longleftrightarrow>
     1 \<le> length (ccb_bindingKind r) \<and>
     resource_ref_ok (ccb_bindingRef r) \<and>
     opt_ok digest_ok (ccb_digest r)"

record authority_certificate = protocol_base +
  cert_authorityCertificateId :: "string"
  cert_authorityCertificateVersion :: "string"
  cert_canonicalizerVersion :: "string"
  cert_terminalizedAt :: "string"
  cert_terminal :: "certificate_terminal"
  cert_envelope :: "transaction_envelope"
  cert_envelopeDigest :: "string"
  cert_artifacts :: "certificate_artifact list"
  cert_verificationPolicy :: "certificate_policy"
  cert_signatures :: "certificate_signature list"
  cert_consumerBindings :: "certificate_consumer_binding list"
  cert_extensions :: "(string \<times> jval) list"
  cert_emittedAt :: "string"
  cert_signingInputDigest :: "string"

definition authority_certificate_json :: "'a authority_certificate_scheme \<Rightarrow> jval" where
  "authority_certificate_json r = JObj (base_fields r @
     [(''authorityCertificateId'', JStr (cert_authorityCertificateId r)),
      (''authorityCertificateVersion'', JStr (cert_authorityCertificateVersion r)),
      (''canonicalizerVersion'', JStr (cert_canonicalizerVersion r)),
      (''terminalizedAt'', JStr (cert_terminalizedAt r)),
      (''terminal'', certificate_terminal_json (cert_terminal r)),
      (''envelope'', transaction_envelope_json (cert_envelope r)),
      (''envelopeDigest'', JStr (cert_envelopeDigest r)),
      (''artifacts'', JArr (map certificate_artifact_json (cert_artifacts r))),
      (''verificationPolicy'', certificate_policy_json (cert_verificationPolicy r)),
      (''signatures'', JArr (map certificate_signature_json (cert_signatures r))),
      (''consumerBindings'', JArr (map certificate_consumer_binding_json (cert_consumerBindings r))),
      (''extensions'', JObj (cert_extensions r)),
      (''emittedAt'', JStr (cert_emittedAt r)),
      (''signingInputDigest'', JStr (cert_signingInputDigest r))])"

definition authority_certificate_valid :: "'e env_scheme \<Rightarrow> 'a authority_certificate_scheme \<Rightarrow> bool" where
  "authority_certificate_valid E r \<longleftrightarrow>
     base_valid E r \<and>
     id_ok (cert_authorityCertificateId r) \<and>
     (cert_authorityCertificateVersion r) = ''1.0.0'' \<and>
     1 \<le> length (cert_canonicalizerVersion r) \<and>
     iso_ok E (cert_terminalizedAt r) \<and>
     certificate_terminal_valid E (cert_terminal r) \<and>
     transaction_envelope_valid E (cert_envelope r) \<and>
     digest_ok (cert_envelopeDigest r) \<and>
     list_all (certificate_artifact_valid E) (cert_artifacts r) \<and> 1 \<le> length (cert_artifacts r) \<and>
     certificate_policy_valid E (cert_verificationPolicy r) \<and>
     list_all (certificate_signature_valid E) (cert_signatures r) \<and> 1 \<le> length (cert_signatures r) \<and>
     list_all (certificate_consumer_binding_valid E) (cert_consumerBindings r) \<and>
     iso_ok E (cert_emittedAt r) \<and>
     digest_ok (cert_signingInputDigest r)"

end
