(* ===== verification/Schemas_Negotiation.thy ===== *)
theory Schemas_Negotiation
  imports Foundation
begin

text \<open>
  Negotiation sessions, offers, decisions, linked agreements, obligation
  bindings and agreement status transitions (\<open>negotiation\<close> schemas): records
  and JSON.
\<close>

datatype (plugins only: code) negotiation_party_identity_proof_posture =
    NPIPP_self_attested
  | NPIPP_host_verified_ref
  | NPIPP_proof_gap_recorded

primrec negotiation_party_identity_proof_posture_str :: "negotiation_party_identity_proof_posture \<Rightarrow> string" where
    "negotiation_party_identity_proof_posture_str NPIPP_self_attested = ''self_attested''"
  | "negotiation_party_identity_proof_posture_str NPIPP_host_verified_ref = ''host_verified_ref''"
  | "negotiation_party_identity_proof_posture_str NPIPP_proof_gap_recorded = ''proof_gap_recorded''"

datatype (plugins only: code) party_role =
    PR_initiator
  | PR_counterparty
  | PR_observer

primrec party_role_str :: "party_role \<Rightarrow> string" where
    "party_role_str PR_initiator = ''initiator''"
  | "party_role_str PR_counterparty = ''counterparty''"
  | "party_role_str PR_observer = ''observer''"

record negotiation_party_binding =
  npb_partyId :: "string"
  npb_partyRole :: "party_role"
  npb_agentRef :: "string"
  npb_organizationRef :: "string option"
  npb_runtimeRef :: "string option"
  npb_endpointRef :: "string option"
  npb_identityProofPosture :: "negotiation_party_identity_proof_posture"
  npb_identityEvidenceRefs :: "string list"
  npb_identityProofDigest :: "string option"
  npb_proofGapRefs :: "string list"

definition negotiation_party_binding_json :: "'a negotiation_party_binding_scheme \<Rightarrow> jval" where
  "negotiation_party_binding_json r = JObj (
     [(''partyId'', JStr (npb_partyId r)),
      (''partyRole'', JStr (party_role_str (npb_partyRole r))),
      (''agentRef'', JStr (npb_agentRef r)),
      (''organizationRef'', j_opt JStr (npb_organizationRef r)),
      (''runtimeRef'', j_opt JStr (npb_runtimeRef r)),
      (''endpointRef'', j_opt JStr (npb_endpointRef r)),
      (''identityProofPosture'', JStr (negotiation_party_identity_proof_posture_str (npb_identityProofPosture r))),
      (''identityEvidenceRefs'', JArr (map JStr (npb_identityEvidenceRefs r))),
      (''identityProofDigest'', j_opt JStr (npb_identityProofDigest r)),
      (''proofGapRefs'', JArr (map JStr (npb_proofGapRefs r)))])"

datatype (plugins only: code) external_protocol =
    EP_a2a
  | EP_acp
  | EP_anp
  | EP_ap2
  | EP_mcp
  | EP_runtime_handoff
  | EP_other

primrec external_protocol_str :: "external_protocol \<Rightarrow> string" where
    "external_protocol_str EP_a2a = ''a2a''"
  | "external_protocol_str EP_acp = ''acp''"
  | "external_protocol_str EP_anp = ''anp''"
  | "external_protocol_str EP_ap2 = ''ap2''"
  | "external_protocol_str EP_mcp = ''mcp''"
  | "external_protocol_str EP_runtime_handoff = ''runtime_handoff''"
  | "external_protocol_str EP_other = ''other''"

datatype (plugins only: code) evidence_use =
    EU_conversation_context
  | EU_descriptor_context
  | EU_runtime_context
  | EU_mandate_context_evidence
  | EU_tool_context
  | EU_handoff_context
  | EU_other_context

primrec evidence_use_str :: "evidence_use \<Rightarrow> string" where
    "evidence_use_str EU_conversation_context = ''conversation_context''"
  | "evidence_use_str EU_descriptor_context = ''descriptor_context''"
  | "evidence_use_str EU_runtime_context = ''runtime_context''"
  | "evidence_use_str EU_mandate_context_evidence = ''mandate_context_evidence''"
  | "evidence_use_str EU_tool_context = ''tool_context''"
  | "evidence_use_str EU_handoff_context = ''handoff_context''"
  | "evidence_use_str EU_other_context = ''other_context''"

record external_protocol_evidence_ref =
  xe_protocol :: "external_protocol"
  xe_protocolVersion :: "string"
  xe_objectKind :: "string"
  xe_objectRef :: "string"
  xe_objectDigest :: "string"
  xe_evidencePosture :: "string"
  xe_evidenceUse :: "evidence_use"
  xe_proofGapRefs :: "string list"

definition external_protocol_evidence_ref_json :: "'a external_protocol_evidence_ref_scheme \<Rightarrow> jval" where
  "external_protocol_evidence_ref_json r = JObj (
     [(''protocol'', JStr (external_protocol_str (xe_protocol r))),
      (''protocolVersion'', JStr (xe_protocolVersion r)),
      (''objectKind'', JStr (xe_objectKind r)),
      (''objectRef'', JStr (xe_objectRef r)),
      (''objectDigest'', JStr (xe_objectDigest r)),
      (''evidencePosture'', JStr (xe_evidencePosture r)),
      (''evidenceUse'', JStr (evidence_use_str (xe_evidenceUse r))),
      (''proofGapRefs'', JArr (map JStr (xe_proofGapRefs r)))])"

definition external_protocol_evidence_ref_valid :: "'e env_scheme \<Rightarrow> 'a external_protocol_evidence_ref_scheme \<Rightarrow> bool" where
  "external_protocol_evidence_ref_valid E r \<longleftrightarrow>
     1 \<le> length (xe_protocolVersion r) \<and> length (xe_protocolVersion r) \<le> 80 \<and>
     1 \<le> length (xe_objectKind r) \<and> length (xe_objectKind r) \<le> 120 \<and>
     resource_ref_ok (xe_objectRef r) \<and>
     digest_ok (xe_objectDigest r) \<and>
     (xe_evidencePosture r) = ''imported_evidence_only'' \<and>
     list_all resource_ref_ok (xe_proofGapRefs r)"

datatype (plugins only: code) obligation_ref_kind =
    ORK_candidate_action
  | ORK_action_contract
  | ORK_intent_compilation
  | ORK_generated_execution_graph

primrec obligation_ref_kind_str :: "obligation_ref_kind \<Rightarrow> string" where
    "obligation_ref_kind_str ORK_candidate_action = ''candidate_action''"
  | "obligation_ref_kind_str ORK_action_contract = ''action_contract''"
  | "obligation_ref_kind_str ORK_intent_compilation = ''intent_compilation''"
  | "obligation_ref_kind_str ORK_generated_execution_graph = ''generated_execution_graph''"

record evidence_ref =
  er_refKind :: "obligation_ref_kind"
  er_ref :: "string"
  er_digest :: "string option"

definition evidence_ref_json :: "'a evidence_ref_scheme \<Rightarrow> jval" where
  "evidence_ref_json r = JObj (
     [(''refKind'', JStr (obligation_ref_kind_str (er_refKind r))),
      (''ref'', JStr (er_ref r)),
      (''digest'', j_opt JStr (er_digest r))])"

datatype (plugins only: code) session_posture =
    SEP_declared_runtime_context
  | SEP_observed_runtime_evidence
  | SEP_proof_gap_recorded

primrec session_posture_str :: "session_posture \<Rightarrow> string" where
    "session_posture_str SEP_declared_runtime_context = ''declared_runtime_context''"
  | "session_posture_str SEP_observed_runtime_evidence = ''observed_runtime_evidence''"
  | "session_posture_str SEP_proof_gap_recorded = ''proof_gap_recorded''"

record negotiation_session = protocol_base +
  ns_negotiationSessionId :: "string"
  ns_negotiationSessionDigest :: "string"
  ns_subjectResourceRef :: "string"
  ns_subjectProtectedActionContextRefs :: "string list"
  ns_runtimePosture :: "session_posture"
  ns_parties :: "negotiation_party_binding list"
  ns_generatedCodeOrSpecRefs :: "string list"
  ns_declaredAssumptions :: "string list"
  ns_uncertaintyMarkers :: "string list"
  ns_externalProtocolEvidenceRefs :: "external_protocol_evidence_ref list"
  ns_clearingEvidenceRefs :: "clearing_evidence_refs"
  ns_expiresAt :: "string option"

definition negotiation_session_json :: "'a negotiation_session_scheme \<Rightarrow> jval" where
  "negotiation_session_json r = JObj (base_fields r @
     [(''negotiationSessionId'', JStr (ns_negotiationSessionId r)),
      (''negotiationSessionDigest'', JStr (ns_negotiationSessionDigest r)),
      (''subjectResourceRef'', JStr (ns_subjectResourceRef r)),
      (''subjectProtectedActionContextRefs'', JArr (map JStr (ns_subjectProtectedActionContextRefs r))),
      (''runtimePosture'', JStr (session_posture_str (ns_runtimePosture r))),
      (''parties'', JArr (map negotiation_party_binding_json (ns_parties r))),
      (''generatedCodeOrSpecRefs'', JArr (map JStr (ns_generatedCodeOrSpecRefs r))),
      (''declaredAssumptions'', JArr (map JStr (ns_declaredAssumptions r))),
      (''uncertaintyMarkers'', JArr (map JStr (ns_uncertaintyMarkers r))),
      (''externalProtocolEvidenceRefs'', JArr (map external_protocol_evidence_ref_json (ns_externalProtocolEvidenceRefs r))),
      (''clearingEvidenceRefs'', clearing_evidence_refs_json (ns_clearingEvidenceRefs r)),
      (''expiresAt'', j_opt JStr (ns_expiresAt r))])"

record negotiation_offer = protocol_base +
  no_negotiationOfferId :: "string"
  no_negotiationSessionId :: "string"
  no_offerVersionId :: "string"
  no_offerSequence :: "int"
  no_offeredByPartyId :: "string"
  no_previousOfferVersionId :: "string option"
  no_supersedesOfferVersionId :: "string option"
  no_offerContentDigest :: "string"
  no_offerObjectRefs :: "string list"
  no_offerContentRefs :: "string list"
  no_proofGapRefs :: "string list"
  no_externalProtocolEvidenceRefs :: "external_protocol_evidence_ref list"
  no_generatedCodeOrSpecRefs :: "string list"
  no_declaredAssumptions :: "string list"
  no_uncertaintyMarkers :: "string list"
  no_clearingEvidenceRefs :: "clearing_evidence_refs"
  no_expiresAt :: "string option"

definition negotiation_offer_json :: "'a negotiation_offer_scheme \<Rightarrow> jval" where
  "negotiation_offer_json r = JObj (base_fields r @
     [(''negotiationOfferId'', JStr (no_negotiationOfferId r)),
      (''negotiationSessionId'', JStr (no_negotiationSessionId r)),
      (''offerVersionId'', JStr (no_offerVersionId r)),
      (''offerSequence'', JInt (no_offerSequence r)),
      (''offeredByPartyId'', JStr (no_offeredByPartyId r)),
      (''previousOfferVersionId'', j_opt JStr (no_previousOfferVersionId r)),
      (''supersedesOfferVersionId'', j_opt JStr (no_supersedesOfferVersionId r)),
      (''offerContentDigest'', JStr (no_offerContentDigest r)),
      (''offerObjectRefs'', JArr (map JStr (no_offerObjectRefs r))),
      (''offerContentRefs'', JArr (map JStr (no_offerContentRefs r))),
      (''proofGapRefs'', JArr (map JStr (no_proofGapRefs r))),
      (''externalProtocolEvidenceRefs'', JArr (map external_protocol_evidence_ref_json (no_externalProtocolEvidenceRefs r))),
      (''generatedCodeOrSpecRefs'', JArr (map JStr (no_generatedCodeOrSpecRefs r))),
      (''declaredAssumptions'', JArr (map JStr (no_declaredAssumptions r))),
      (''uncertaintyMarkers'', JArr (map JStr (no_uncertaintyMarkers r))),
      (''clearingEvidenceRefs'', clearing_evidence_refs_json (no_clearingEvidenceRefs r)),
      (''expiresAt'', j_opt JStr (no_expiresAt r))])"

datatype (plugins only: code) negotiation_verdict =
    NV_accept
  | NV_reject
  | NV_counter
  | NV_withdraw
  | NV_expire

primrec negotiation_verdict_str :: "negotiation_verdict \<Rightarrow> string" where
    "negotiation_verdict_str NV_accept = ''accept''"
  | "negotiation_verdict_str NV_reject = ''reject''"
  | "negotiation_verdict_str NV_counter = ''counter''"
  | "negotiation_verdict_str NV_withdraw = ''withdraw''"
  | "negotiation_verdict_str NV_expire = ''expire''"

record negotiation_decision = protocol_base +
  nd_negotiationDecisionId :: "string"
  nd_negotiationSessionId :: "string"
  nd_decidedOfferVersionId :: "string"
  nd_decidedOfferSequence :: "int"
  nd_decidedByPartyId :: "string"
  nd_decision :: "negotiation_verdict"
  nd_reasonCodes :: "string list"
  nd_evidenceRefs :: "string list"
  nd_proofGapRefs :: "string list"
  nd_counterOfferVersionId :: "string option"
  nd_decisionDigest :: "string"

definition negotiation_decision_json :: "'a negotiation_decision_scheme \<Rightarrow> jval" where
  "negotiation_decision_json r = JObj (base_fields r @
     [(''negotiationDecisionId'', JStr (nd_negotiationDecisionId r)),
      (''negotiationSessionId'', JStr (nd_negotiationSessionId r)),
      (''decidedOfferVersionId'', JStr (nd_decidedOfferVersionId r)),
      (''decidedOfferSequence'', JInt (nd_decidedOfferSequence r)),
      (''decidedByPartyId'', JStr (nd_decidedByPartyId r)),
      (''decision'', JStr (negotiation_verdict_str (nd_decision r))),
      (''reasonCodes'', JArr (map JStr (nd_reasonCodes r))),
      (''evidenceRefs'', JArr (map JStr (nd_evidenceRefs r))),
      (''proofGapRefs'', JArr (map JStr (nd_proofGapRefs r))),
      (''counterOfferVersionId'', j_opt JStr (nd_counterOfferVersionId r)),
      (''decisionDigest'', JStr (nd_decisionDigest r))])"

record linked_agreement = protocol_base +
  la_linkedAgreementId :: "string"
  la_negotiationSessionId :: "string"
  la_acceptedNegotiationDecisionId :: "string"
  la_acceptedOfferVersionId :: "string"
  la_acceptedOfferSequence :: "int"
  la_acceptedOfferContentDigest :: "string"
  la_acceptedByPartyId :: "string"
  la_counterpartyRef :: "string"
  la_agreementDigest :: "string"
  la_agreementObjectRefs :: "string list"
  la_agreementContentRefs :: "string list"
  la_proofGapRefs :: "string list"
  la_agreementEvidencePosture :: "string"
  la_clearingEvidenceRefs :: "clearing_evidence_refs"
  la_externalProtocolEvidenceRefs :: "external_protocol_evidence_ref list"
  la_expiresAt :: "string option"

definition linked_agreement_json :: "'a linked_agreement_scheme \<Rightarrow> jval" where
  "linked_agreement_json r = JObj (base_fields r @
     [(''linkedAgreementId'', JStr (la_linkedAgreementId r)),
      (''negotiationSessionId'', JStr (la_negotiationSessionId r)),
      (''acceptedNegotiationDecisionId'', JStr (la_acceptedNegotiationDecisionId r)),
      (''acceptedOfferVersionId'', JStr (la_acceptedOfferVersionId r)),
      (''acceptedOfferSequence'', JInt (la_acceptedOfferSequence r)),
      (''acceptedOfferContentDigest'', JStr (la_acceptedOfferContentDigest r)),
      (''acceptedByPartyId'', JStr (la_acceptedByPartyId r)),
      (''counterpartyRef'', JStr (la_counterpartyRef r)),
      (''agreementDigest'', JStr (la_agreementDigest r)),
      (''agreementObjectRefs'', JArr (map JStr (la_agreementObjectRefs r))),
      (''agreementContentRefs'', JArr (map JStr (la_agreementContentRefs r))),
      (''proofGapRefs'', JArr (map JStr (la_proofGapRefs r))),
      (''agreementEvidencePosture'', JStr (la_agreementEvidencePosture r)),
      (''clearingEvidenceRefs'', clearing_evidence_refs_json (la_clearingEvidenceRefs r)),
      (''externalProtocolEvidenceRefs'', JArr (map external_protocol_evidence_ref_json (la_externalProtocolEvidenceRefs r))),
      (''expiresAt'', j_opt JStr (la_expiresAt r))])"

record agreement_obligation_binding = protocol_base +
  ab_agreementObligationBindingId :: "string"
  ab_linkedAgreementId :: "string"
  ab_negotiationSessionId :: "string"
  ab_obligationRef :: "string"
  ab_obligationDigest :: "string option"
  ab_actionContractId :: "string"
  ab_actionContractDigest :: "string"
  ab_paramsDigest :: "string"
  ab_actionTypeId :: "string"
  ab_actionClass :: "string"
  ab_resourceRef :: "string"
  ab_counterpartyRef :: "string"
  ab_maxUses :: "int"
  ab_bindingPosture :: "string"
  ab_localProtectedActionEvidenceRefs :: "evidence_ref list"
  ab_evidenceRefs :: "string list"
  ab_proofGapRefs :: "string list"

definition agreement_obligation_binding_json :: "'a agreement_obligation_binding_scheme \<Rightarrow> jval" where
  "agreement_obligation_binding_json r = JObj (base_fields r @
     [(''agreementObligationBindingId'', JStr (ab_agreementObligationBindingId r)),
      (''linkedAgreementId'', JStr (ab_linkedAgreementId r)),
      (''negotiationSessionId'', JStr (ab_negotiationSessionId r)),
      (''obligationRef'', JStr (ab_obligationRef r)),
      (''obligationDigest'', j_opt JStr (ab_obligationDigest r)),
      (''actionContractId'', JStr (ab_actionContractId r)),
      (''actionContractDigest'', JStr (ab_actionContractDigest r)),
      (''paramsDigest'', JStr (ab_paramsDigest r)),
      (''actionTypeId'', JStr (ab_actionTypeId r)),
      (''actionClass'', JStr (ab_actionClass r)),
      (''resourceRef'', JStr (ab_resourceRef r)),
      (''counterpartyRef'', JStr (ab_counterpartyRef r)),
      (''maxUses'', JInt (ab_maxUses r)),
      (''bindingPosture'', JStr (ab_bindingPosture r)),
      (''localProtectedActionEvidenceRefs'', JArr (map evidence_ref_json (ab_localProtectedActionEvidenceRefs r))),
      (''evidenceRefs'', JArr (map JStr (ab_evidenceRefs r))),
      (''proofGapRefs'', JArr (map JStr (ab_proofGapRefs r)))])"

datatype (plugins only: code) agreement_status =
    AS_proposed
  | AS_active
  | AS_superseded
  | AS_expired
  | AS_disputed
  | AS_resolved
  | AS_withdrawn

primrec agreement_status_str :: "agreement_status \<Rightarrow> string" where
    "agreement_status_str AS_proposed = ''proposed''"
  | "agreement_status_str AS_active = ''active''"
  | "agreement_status_str AS_superseded = ''superseded''"
  | "agreement_status_str AS_expired = ''expired''"
  | "agreement_status_str AS_disputed = ''disputed''"
  | "agreement_status_str AS_resolved = ''resolved''"
  | "agreement_status_str AS_withdrawn = ''withdrawn''"

datatype (plugins only: code) agreement_next_status =
    ANS_active
  | ANS_superseded
  | ANS_expired
  | ANS_disputed
  | ANS_resolved
  | ANS_withdrawn

primrec agreement_next_status_str :: "agreement_next_status \<Rightarrow> string" where
    "agreement_next_status_str ANS_active = ''active''"
  | "agreement_next_status_str ANS_superseded = ''superseded''"
  | "agreement_next_status_str ANS_expired = ''expired''"
  | "agreement_next_status_str ANS_disputed = ''disputed''"
  | "agreement_next_status_str ANS_resolved = ''resolved''"
  | "agreement_next_status_str ANS_withdrawn = ''withdrawn''"

record agreement_status_transition = protocol_base +
  ast_agreementStatusTransitionId :: "string"
  ast_linkedAgreementId :: "string"
  ast_negotiationSessionId :: "string"
  ast_fromStatus :: "agreement_status"
  ast_toStatus :: "agreement_next_status"
  ast_reasonCodes :: "string list"
  ast_evidenceRefs :: "string list"
  ast_proofGapRefs :: "string list"
  ast_transitionDigest :: "string"

definition agreement_status_transition_json :: "'a agreement_status_transition_scheme \<Rightarrow> jval" where
  "agreement_status_transition_json r = JObj (base_fields r @
     [(''agreementStatusTransitionId'', JStr (ast_agreementStatusTransitionId r)),
      (''linkedAgreementId'', JStr (ast_linkedAgreementId r)),
      (''negotiationSessionId'', JStr (ast_negotiationSessionId r)),
      (''fromStatus'', JStr (agreement_status_str (ast_fromStatus r))),
      (''toStatus'', JStr (agreement_next_status_str (ast_toStatus r))),
      (''reasonCodes'', JArr (map JStr (ast_reasonCodes r))),
      (''evidenceRefs'', JArr (map JStr (ast_evidenceRefs r))),
      (''proofGapRefs'', JArr (map JStr (ast_proofGapRefs r))),
      (''transitionDigest'', JStr (ast_transitionDigest r))])"

end
