(* ===== verification/Object_Registry.thy ===== *)
theory Object_Registry
  imports Schemas_Certificate Schemas_Negotiation
begin

text \<open>
  The registry of protocol objects, after \<open>areas/object-registry/\<close>: the closed
  set of object types, the tagged union of the records that the store holds,
  the identifier, digest material and export posture of each, and the isolation
  scopes of a contract and of a greenlight.
\<close>

section \<open>Object types and records\<close>

datatype (plugins only: code) protocol_object_type =
    OT_tool_capability
  | OT_action_type
  | OT_gateway_registry_entry
  | OT_operating_envelope
  | OT_gateway_credential_ref
  | OT_delegated_authority_ref
  | OT_delegated_authority_status_transition
  | OT_gateway_custody_proof_packet
  | OT_credential_resolution_evidence
  | OT_transition_request_context
  | OT_runtime_execution
  | OT_generated_execution_graph
  | OT_idempotency_ledger_entry
  | OT_bypass_probe
  | OT_tool_call_draft
  | OT_protected_path_posture
  | OT_intent_compilation
  | OT_negotiation_session
  | OT_negotiation_offer
  | OT_negotiation_decision
  | OT_linked_agreement
  | OT_agreement_obligation_binding
  | OT_agreement_status_transition
  | OT_action_contract
  | OT_authority_certificate
  | OT_policy_decision
  | OT_greenlight
  | OT_review_artifact
  | OT_review_decision
  | OT_breaker_decision
  | OT_isolation_state
  | OT_gateway_check_attempt
  | OT_mutation_attempt
  | OT_protected_surface_operation_claim
  | OT_surface_operation_reconciliation
  | OT_proof_gap
  | OT_refusal
  | OT_receipt
  | OT_receipt_export
  | OT_recovery_recommendation
  | OT_recovery_recommendation_status_transition
  | OT_contract_stream_event

primrec protocol_object_type_str :: "protocol_object_type \<Rightarrow> string" where
    "protocol_object_type_str OT_tool_capability = ''tool_capability''"
  | "protocol_object_type_str OT_action_type = ''action_type''"
  | "protocol_object_type_str OT_gateway_registry_entry = ''gateway_registry_entry''"
  | "protocol_object_type_str OT_operating_envelope = ''operating_envelope''"
  | "protocol_object_type_str OT_gateway_credential_ref = ''gateway_credential_ref''"
  | "protocol_object_type_str OT_delegated_authority_ref = ''delegated_authority_ref''"
  | "protocol_object_type_str OT_delegated_authority_status_transition = ''delegated_authority_status_transition''"
  | "protocol_object_type_str OT_gateway_custody_proof_packet = ''gateway_custody_proof_packet''"
  | "protocol_object_type_str OT_credential_resolution_evidence = ''credential_resolution_evidence''"
  | "protocol_object_type_str OT_transition_request_context = ''transition_request_context''"
  | "protocol_object_type_str OT_runtime_execution = ''runtime_execution''"
  | "protocol_object_type_str OT_generated_execution_graph = ''generated_execution_graph''"
  | "protocol_object_type_str OT_idempotency_ledger_entry = ''idempotency_ledger_entry''"
  | "protocol_object_type_str OT_bypass_probe = ''bypass_probe''"
  | "protocol_object_type_str OT_tool_call_draft = ''tool_call_draft''"
  | "protocol_object_type_str OT_protected_path_posture = ''protected_path_posture''"
  | "protocol_object_type_str OT_intent_compilation = ''intent_compilation''"
  | "protocol_object_type_str OT_negotiation_session = ''negotiation_session''"
  | "protocol_object_type_str OT_negotiation_offer = ''negotiation_offer''"
  | "protocol_object_type_str OT_negotiation_decision = ''negotiation_decision''"
  | "protocol_object_type_str OT_linked_agreement = ''linked_agreement''"
  | "protocol_object_type_str OT_agreement_obligation_binding = ''agreement_obligation_binding''"
  | "protocol_object_type_str OT_agreement_status_transition = ''agreement_status_transition''"
  | "protocol_object_type_str OT_action_contract = ''action_contract''"
  | "protocol_object_type_str OT_authority_certificate = ''authority_certificate''"
  | "protocol_object_type_str OT_policy_decision = ''policy_decision''"
  | "protocol_object_type_str OT_greenlight = ''greenlight''"
  | "protocol_object_type_str OT_review_artifact = ''review_artifact''"
  | "protocol_object_type_str OT_review_decision = ''review_decision''"
  | "protocol_object_type_str OT_breaker_decision = ''breaker_decision''"
  | "protocol_object_type_str OT_isolation_state = ''isolation_state''"
  | "protocol_object_type_str OT_gateway_check_attempt = ''gateway_check_attempt''"
  | "protocol_object_type_str OT_mutation_attempt = ''mutation_attempt''"
  | "protocol_object_type_str OT_protected_surface_operation_claim = ''protected_surface_operation_claim''"
  | "protocol_object_type_str OT_surface_operation_reconciliation = ''surface_operation_reconciliation''"
  | "protocol_object_type_str OT_proof_gap = ''proof_gap''"
  | "protocol_object_type_str OT_refusal = ''refusal''"
  | "protocol_object_type_str OT_receipt = ''receipt''"
  | "protocol_object_type_str OT_receipt_export = ''receipt_export''"
  | "protocol_object_type_str OT_recovery_recommendation = ''recovery_recommendation''"
  | "protocol_object_type_str OT_recovery_recommendation_status_transition = ''recovery_recommendation_status_transition''"
  | "protocol_object_type_str OT_contract_stream_event = ''contract_stream_event''"

datatype (plugins only: code) protocol_record =
    PR_tool_capability tool_capability
  | PR_action_type action_type
  | PR_gateway_registry_entry gateway_registry_entry
  | PR_operating_envelope operating_envelope
  | PR_gateway_credential_ref gateway_credential_ref
  | PR_delegated_authority_ref delegated_authority_ref
  | PR_delegated_authority_status_transition delegated_authority_status_transition
  | PR_gateway_custody_proof_packet gateway_custody_proof_packet
  | PR_credential_resolution_evidence credential_resolution_evidence
  | PR_transition_request_context transition_request_context
  | PR_runtime_execution runtime_execution
  | PR_generated_execution_graph generated_execution_graph
  | PR_idempotency_ledger_entry idempotency_ledger_entry
  | PR_bypass_probe bypass_probe
  | PR_tool_call_draft tool_call_draft
  | PR_protected_path_posture protected_path_posture
  | PR_intent_compilation intent_compilation
  | PR_negotiation_session negotiation_session
  | PR_negotiation_offer negotiation_offer
  | PR_negotiation_decision negotiation_decision
  | PR_linked_agreement linked_agreement
  | PR_agreement_obligation_binding agreement_obligation_binding
  | PR_agreement_status_transition agreement_status_transition
  | PR_action_contract action_contract
  | PR_authority_certificate authority_certificate
  | PR_policy_decision policy_decision
  | PR_greenlight greenlight
  | PR_review_artifact review_artifact
  | PR_review_decision review_decision
  | PR_breaker_decision breaker_decision
  | PR_isolation_state isolation_state
  | PR_gateway_check_attempt gateway_check_attempt
  | PR_mutation_attempt mutation_attempt
  | PR_protected_surface_operation_claim surface_operation_claim
  | PR_surface_operation_reconciliation surface_operation_reconciliation
  | PR_proof_gap proof_gap
  | PR_refusal refusal
  | PR_receipt receipt
  | PR_receipt_export receipt_export
  | PR_recovery_recommendation recovery_recommendation
  | PR_recovery_recommendation_status_transition recovery_status_transition
  | PR_contract_stream_event stream_event

primrec record_type :: "protocol_record \<Rightarrow> protocol_object_type" where
    "record_type (PR_tool_capability r) = OT_tool_capability"
  | "record_type (PR_action_type r) = OT_action_type"
  | "record_type (PR_gateway_registry_entry r) = OT_gateway_registry_entry"
  | "record_type (PR_operating_envelope r) = OT_operating_envelope"
  | "record_type (PR_gateway_credential_ref r) = OT_gateway_credential_ref"
  | "record_type (PR_delegated_authority_ref r) = OT_delegated_authority_ref"
  | "record_type (PR_delegated_authority_status_transition r) = OT_delegated_authority_status_transition"
  | "record_type (PR_gateway_custody_proof_packet r) = OT_gateway_custody_proof_packet"
  | "record_type (PR_credential_resolution_evidence r) = OT_credential_resolution_evidence"
  | "record_type (PR_transition_request_context r) = OT_transition_request_context"
  | "record_type (PR_runtime_execution r) = OT_runtime_execution"
  | "record_type (PR_generated_execution_graph r) = OT_generated_execution_graph"
  | "record_type (PR_idempotency_ledger_entry r) = OT_idempotency_ledger_entry"
  | "record_type (PR_bypass_probe r) = OT_bypass_probe"
  | "record_type (PR_tool_call_draft r) = OT_tool_call_draft"
  | "record_type (PR_protected_path_posture r) = OT_protected_path_posture"
  | "record_type (PR_intent_compilation r) = OT_intent_compilation"
  | "record_type (PR_negotiation_session r) = OT_negotiation_session"
  | "record_type (PR_negotiation_offer r) = OT_negotiation_offer"
  | "record_type (PR_negotiation_decision r) = OT_negotiation_decision"
  | "record_type (PR_linked_agreement r) = OT_linked_agreement"
  | "record_type (PR_agreement_obligation_binding r) = OT_agreement_obligation_binding"
  | "record_type (PR_agreement_status_transition r) = OT_agreement_status_transition"
  | "record_type (PR_action_contract r) = OT_action_contract"
  | "record_type (PR_authority_certificate r) = OT_authority_certificate"
  | "record_type (PR_policy_decision r) = OT_policy_decision"
  | "record_type (PR_greenlight r) = OT_greenlight"
  | "record_type (PR_review_artifact r) = OT_review_artifact"
  | "record_type (PR_review_decision r) = OT_review_decision"
  | "record_type (PR_breaker_decision r) = OT_breaker_decision"
  | "record_type (PR_isolation_state r) = OT_isolation_state"
  | "record_type (PR_gateway_check_attempt r) = OT_gateway_check_attempt"
  | "record_type (PR_mutation_attempt r) = OT_mutation_attempt"
  | "record_type (PR_protected_surface_operation_claim r) = OT_protected_surface_operation_claim"
  | "record_type (PR_surface_operation_reconciliation r) = OT_surface_operation_reconciliation"
  | "record_type (PR_proof_gap r) = OT_proof_gap"
  | "record_type (PR_refusal r) = OT_refusal"
  | "record_type (PR_receipt r) = OT_receipt"
  | "record_type (PR_receipt_export r) = OT_receipt_export"
  | "record_type (PR_recovery_recommendation r) = OT_recovery_recommendation"
  | "record_type (PR_recovery_recommendation_status_transition r) = OT_recovery_recommendation_status_transition"
  | "record_type (PR_contract_stream_event r) = OT_contract_stream_event"

primrec getObjectId :: "protocol_record \<Rightarrow> string" where
    "getObjectId (PR_tool_capability r) = tc_toolCapabilityId r"
  | "getObjectId (PR_action_type r) = at_actionTypeId r"
  | "getObjectId (PR_gateway_registry_entry r) = gr_gatewayRegistryEntryId r"
  | "getObjectId (PR_operating_envelope r) = oe_envelopeId r"
  | "getObjectId (PR_gateway_credential_ref r) = gcr_gatewayCredentialRefId r"
  | "getObjectId (PR_delegated_authority_ref r) = da_delegatedAuthorityRefId r"
  | "getObjectId (PR_delegated_authority_status_transition r) = dst_delegatedAuthorityStatusTransitionId r"
  | "getObjectId (PR_gateway_custody_proof_packet r) = gcp_gatewayCustodyProofPacketId r"
  | "getObjectId (PR_credential_resolution_evidence r) = cre_credentialResolutionEvidenceId r"
  | "getObjectId (PR_transition_request_context r) = trc_transitionRequestContextId r"
  | "getObjectId (PR_runtime_execution r) = rx_runtimeExecutionId r"
  | "getObjectId (PR_generated_execution_graph r) = gx_generatedExecutionGraphId r"
  | "getObjectId (PR_idempotency_ledger_entry r) = il_idempotencyLedgerEntryId r"
  | "getObjectId (PR_bypass_probe r) = bp_bypassProbeId r"
  | "getObjectId (PR_tool_call_draft r) = td_toolCallDraftId r"
  | "getObjectId (PR_protected_path_posture r) = pp_protectedPathPostureId r"
  | "getObjectId (PR_intent_compilation r) = ic_intentCompilationId r"
  | "getObjectId (PR_negotiation_session r) = ns_negotiationSessionId r"
  | "getObjectId (PR_negotiation_offer r) = no_negotiationOfferId r"
  | "getObjectId (PR_negotiation_decision r) = nd_negotiationDecisionId r"
  | "getObjectId (PR_linked_agreement r) = la_linkedAgreementId r"
  | "getObjectId (PR_agreement_obligation_binding r) = ab_agreementObligationBindingId r"
  | "getObjectId (PR_agreement_status_transition r) = ast_agreementStatusTransitionId r"
  | "getObjectId (PR_action_contract r) = ac_actionContractId r"
  | "getObjectId (PR_authority_certificate r) = cert_authorityCertificateId r"
  | "getObjectId (PR_policy_decision r) = pd_policyDecisionId r"
  | "getObjectId (PR_greenlight r) = gl_greenlightId r"
  | "getObjectId (PR_review_artifact r) = ra_reviewArtifactId r"
  | "getObjectId (PR_review_decision r) = rd_reviewDecisionId r"
  | "getObjectId (PR_breaker_decision r) = bd_breakerDecisionId r"
  | "getObjectId (PR_isolation_state r) = is_isolationStateId r"
  | "getObjectId (PR_gateway_check_attempt r) = gca_gateAttemptId r"
  | "getObjectId (PR_mutation_attempt r) = ma_mutationAttemptId r"
  | "getObjectId (PR_protected_surface_operation_claim r) = oc_protectedSurfaceOperationClaimId r"
  | "getObjectId (PR_surface_operation_reconciliation r) = sr_reconciliationId r"
  | "getObjectId (PR_proof_gap r) = pg_proofGapId r"
  | "getObjectId (PR_refusal r) = rf_refusalId r"
  | "getObjectId (PR_receipt r) = rc_receiptId r"
  | "getObjectId (PR_receipt_export r) = re_receiptExportId r"
  | "getObjectId (PR_recovery_recommendation r) = rr_recoveryRecommendationId r"
  | "getObjectId (PR_recovery_recommendation_status_transition r) = rst_recoveryRecommendationStatusTransitionId r"
  | "getObjectId (PR_contract_stream_event r) = ev_streamEventId r"

primrec record_base :: "protocol_record \<Rightarrow> protocol_base" where
    "record_base (PR_tool_capability r) = protocol_base.truncate r"
  | "record_base (PR_action_type r) = protocol_base.truncate r"
  | "record_base (PR_gateway_registry_entry r) = protocol_base.truncate r"
  | "record_base (PR_operating_envelope r) = protocol_base.truncate r"
  | "record_base (PR_gateway_credential_ref r) = protocol_base.truncate r"
  | "record_base (PR_delegated_authority_ref r) = protocol_base.truncate r"
  | "record_base (PR_delegated_authority_status_transition r) = protocol_base.truncate r"
  | "record_base (PR_gateway_custody_proof_packet r) = protocol_base.truncate r"
  | "record_base (PR_credential_resolution_evidence r) = protocol_base.truncate r"
  | "record_base (PR_transition_request_context r) = protocol_base.truncate r"
  | "record_base (PR_runtime_execution r) = protocol_base.truncate r"
  | "record_base (PR_generated_execution_graph r) = protocol_base.truncate r"
  | "record_base (PR_idempotency_ledger_entry r) = protocol_base.truncate r"
  | "record_base (PR_bypass_probe r) = protocol_base.truncate r"
  | "record_base (PR_tool_call_draft r) = protocol_base.truncate r"
  | "record_base (PR_protected_path_posture r) = protocol_base.truncate r"
  | "record_base (PR_intent_compilation r) = protocol_base.truncate r"
  | "record_base (PR_negotiation_session r) = protocol_base.truncate r"
  | "record_base (PR_negotiation_offer r) = protocol_base.truncate r"
  | "record_base (PR_negotiation_decision r) = protocol_base.truncate r"
  | "record_base (PR_linked_agreement r) = protocol_base.truncate r"
  | "record_base (PR_agreement_obligation_binding r) = protocol_base.truncate r"
  | "record_base (PR_agreement_status_transition r) = protocol_base.truncate r"
  | "record_base (PR_action_contract r) = protocol_base.truncate r"
  | "record_base (PR_authority_certificate r) = protocol_base.truncate r"
  | "record_base (PR_policy_decision r) = protocol_base.truncate r"
  | "record_base (PR_greenlight r) = protocol_base.truncate r"
  | "record_base (PR_review_artifact r) = protocol_base.truncate r"
  | "record_base (PR_review_decision r) = protocol_base.truncate r"
  | "record_base (PR_breaker_decision r) = protocol_base.truncate r"
  | "record_base (PR_isolation_state r) = protocol_base.truncate r"
  | "record_base (PR_gateway_check_attempt r) = protocol_base.truncate r"
  | "record_base (PR_mutation_attempt r) = protocol_base.truncate r"
  | "record_base (PR_protected_surface_operation_claim r) = protocol_base.truncate r"
  | "record_base (PR_surface_operation_reconciliation r) = protocol_base.truncate r"
  | "record_base (PR_proof_gap r) = protocol_base.truncate r"
  | "record_base (PR_refusal r) = protocol_base.truncate r"
  | "record_base (PR_receipt r) = protocol_base.truncate r"
  | "record_base (PR_receipt_export r) = protocol_base.truncate r"
  | "record_base (PR_recovery_recommendation r) = protocol_base.truncate r"
  | "record_base (PR_recovery_recommendation_status_transition r) = protocol_base.truncate r"
  | "record_base (PR_contract_stream_event r) = protocol_base.truncate r"

primrec record_json :: "protocol_record \<Rightarrow> jval" where
    "record_json (PR_tool_capability r) = tool_capability_json r"
  | "record_json (PR_action_type r) = action_type_json r"
  | "record_json (PR_gateway_registry_entry r) = gateway_registry_entry_json r"
  | "record_json (PR_operating_envelope r) = operating_envelope_json r"
  | "record_json (PR_gateway_credential_ref r) = gateway_credential_ref_json r"
  | "record_json (PR_delegated_authority_ref r) = delegated_authority_ref_json r"
  | "record_json (PR_delegated_authority_status_transition r) = delegated_authority_status_transition_json r"
  | "record_json (PR_gateway_custody_proof_packet r) = gateway_custody_proof_packet_json r"
  | "record_json (PR_credential_resolution_evidence r) = credential_resolution_evidence_json r"
  | "record_json (PR_transition_request_context r) = transition_request_context_json r"
  | "record_json (PR_runtime_execution r) = runtime_execution_json r"
  | "record_json (PR_generated_execution_graph r) = generated_execution_graph_json r"
  | "record_json (PR_idempotency_ledger_entry r) = idempotency_ledger_entry_json r"
  | "record_json (PR_bypass_probe r) = bypass_probe_json r"
  | "record_json (PR_tool_call_draft r) = tool_call_draft_json r"
  | "record_json (PR_protected_path_posture r) = protected_path_posture_json r"
  | "record_json (PR_intent_compilation r) = intent_compilation_json r"
  | "record_json (PR_negotiation_session r) = negotiation_session_json r"
  | "record_json (PR_negotiation_offer r) = negotiation_offer_json r"
  | "record_json (PR_negotiation_decision r) = negotiation_decision_json r"
  | "record_json (PR_linked_agreement r) = linked_agreement_json r"
  | "record_json (PR_agreement_obligation_binding r) = agreement_obligation_binding_json r"
  | "record_json (PR_agreement_status_transition r) = agreement_status_transition_json r"
  | "record_json (PR_action_contract r) = action_contract_json r"
  | "record_json (PR_authority_certificate r) = authority_certificate_json r"
  | "record_json (PR_policy_decision r) = policy_decision_json r"
  | "record_json (PR_greenlight r) = greenlight_json r"
  | "record_json (PR_review_artifact r) = review_artifact_json r"
  | "record_json (PR_review_decision r) = review_decision_json r"
  | "record_json (PR_breaker_decision r) = breaker_decision_json r"
  | "record_json (PR_isolation_state r) = isolation_state_json r"
  | "record_json (PR_gateway_check_attempt r) = gateway_check_attempt_json r"
  | "record_json (PR_mutation_attempt r) = mutation_attempt_json r"
  | "record_json (PR_protected_surface_operation_claim r) = surface_operation_claim_json r"
  | "record_json (PR_surface_operation_reconciliation r) = surface_operation_reconciliation_json r"
  | "record_json (PR_proof_gap r) = proof_gap_json r"
  | "record_json (PR_refusal r) = refusal_json r"
  | "record_json (PR_receipt r) = receipt_json r"
  | "record_json (PR_receipt_export r) = receipt_export_json r"
  | "record_json (PR_recovery_recommendation r) = recovery_recommendation_json r"
  | "record_json (PR_recovery_recommendation_status_transition r) = recovery_status_transition_json r"
  | "record_json (PR_contract_stream_event r) = stream_event_json r"

section \<open>Postures\<close>

datatype (plugins only: code) export_posture =
    EP_catalog_public
  | EP_transition_evidence
  | EP_receipt_evidence
  | EP_internal_evidence

datatype (plugins only: code) raw_read_posture =
    RRP_control_plane_read
  | RRP_audit_read
  | RRP_internal_only

primrec exportPosture :: "protocol_object_type \<Rightarrow> export_posture" where
    "exportPosture OT_tool_capability = EP_catalog_public"
  | "exportPosture OT_action_type = EP_catalog_public"
  | "exportPosture OT_gateway_registry_entry = EP_catalog_public"
  | "exportPosture OT_operating_envelope = EP_catalog_public"
  | "exportPosture OT_gateway_credential_ref = EP_transition_evidence"
  | "exportPosture OT_delegated_authority_ref = EP_transition_evidence"
  | "exportPosture OT_delegated_authority_status_transition = EP_transition_evidence"
  | "exportPosture OT_gateway_custody_proof_packet = EP_transition_evidence"
  | "exportPosture OT_credential_resolution_evidence = EP_transition_evidence"
  | "exportPosture OT_transition_request_context = EP_internal_evidence"
  | "exportPosture OT_runtime_execution = EP_transition_evidence"
  | "exportPosture OT_generated_execution_graph = EP_transition_evidence"
  | "exportPosture OT_idempotency_ledger_entry = EP_internal_evidence"
  | "exportPosture OT_bypass_probe = EP_internal_evidence"
  | "exportPosture OT_tool_call_draft = EP_internal_evidence"
  | "exportPosture OT_protected_path_posture = EP_transition_evidence"
  | "exportPosture OT_intent_compilation = EP_transition_evidence"
  | "exportPosture OT_negotiation_session = EP_transition_evidence"
  | "exportPosture OT_negotiation_offer = EP_transition_evidence"
  | "exportPosture OT_negotiation_decision = EP_transition_evidence"
  | "exportPosture OT_linked_agreement = EP_transition_evidence"
  | "exportPosture OT_agreement_obligation_binding = EP_transition_evidence"
  | "exportPosture OT_agreement_status_transition = EP_transition_evidence"
  | "exportPosture OT_action_contract = EP_transition_evidence"
  | "exportPosture OT_authority_certificate = EP_receipt_evidence"
  | "exportPosture OT_policy_decision = EP_transition_evidence"
  | "exportPosture OT_greenlight = EP_transition_evidence"
  | "exportPosture OT_review_artifact = EP_transition_evidence"
  | "exportPosture OT_review_decision = EP_transition_evidence"
  | "exportPosture OT_breaker_decision = EP_transition_evidence"
  | "exportPosture OT_isolation_state = EP_transition_evidence"
  | "exportPosture OT_gateway_check_attempt = EP_transition_evidence"
  | "exportPosture OT_mutation_attempt = EP_transition_evidence"
  | "exportPosture OT_protected_surface_operation_claim = EP_internal_evidence"
  | "exportPosture OT_surface_operation_reconciliation = EP_transition_evidence"
  | "exportPosture OT_proof_gap = EP_transition_evidence"
  | "exportPosture OT_refusal = EP_transition_evidence"
  | "exportPosture OT_receipt = EP_receipt_evidence"
  | "exportPosture OT_receipt_export = EP_receipt_evidence"
  | "exportPosture OT_recovery_recommendation = EP_transition_evidence"
  | "exportPosture OT_recovery_recommendation_status_transition = EP_transition_evidence"
  | "exportPosture OT_contract_stream_event = EP_internal_evidence"

primrec rawReadPosture :: "protocol_object_type \<Rightarrow> raw_read_posture" where
    "rawReadPosture OT_tool_capability = RRP_control_plane_read"
  | "rawReadPosture OT_action_type = RRP_control_plane_read"
  | "rawReadPosture OT_gateway_registry_entry = RRP_control_plane_read"
  | "rawReadPosture OT_operating_envelope = RRP_control_plane_read"
  | "rawReadPosture OT_gateway_credential_ref = RRP_audit_read"
  | "rawReadPosture OT_delegated_authority_ref = RRP_audit_read"
  | "rawReadPosture OT_delegated_authority_status_transition = RRP_audit_read"
  | "rawReadPosture OT_gateway_custody_proof_packet = RRP_audit_read"
  | "rawReadPosture OT_credential_resolution_evidence = RRP_audit_read"
  | "rawReadPosture OT_transition_request_context = RRP_internal_only"
  | "rawReadPosture OT_runtime_execution = RRP_audit_read"
  | "rawReadPosture OT_generated_execution_graph = RRP_audit_read"
  | "rawReadPosture OT_idempotency_ledger_entry = RRP_internal_only"
  | "rawReadPosture OT_bypass_probe = RRP_internal_only"
  | "rawReadPosture OT_tool_call_draft = RRP_internal_only"
  | "rawReadPosture OT_protected_path_posture = RRP_audit_read"
  | "rawReadPosture OT_intent_compilation = RRP_audit_read"
  | "rawReadPosture OT_negotiation_session = RRP_audit_read"
  | "rawReadPosture OT_negotiation_offer = RRP_audit_read"
  | "rawReadPosture OT_negotiation_decision = RRP_audit_read"
  | "rawReadPosture OT_linked_agreement = RRP_audit_read"
  | "rawReadPosture OT_agreement_obligation_binding = RRP_audit_read"
  | "rawReadPosture OT_agreement_status_transition = RRP_audit_read"
  | "rawReadPosture OT_action_contract = RRP_audit_read"
  | "rawReadPosture OT_authority_certificate = RRP_audit_read"
  | "rawReadPosture OT_policy_decision = RRP_audit_read"
  | "rawReadPosture OT_greenlight = RRP_audit_read"
  | "rawReadPosture OT_review_artifact = RRP_audit_read"
  | "rawReadPosture OT_review_decision = RRP_audit_read"
  | "rawReadPosture OT_breaker_decision = RRP_audit_read"
  | "rawReadPosture OT_isolation_state = RRP_audit_read"
  | "rawReadPosture OT_gateway_check_attempt = RRP_audit_read"
  | "rawReadPosture OT_mutation_attempt = RRP_audit_read"
  | "rawReadPosture OT_protected_surface_operation_claim = RRP_internal_only"
  | "rawReadPosture OT_surface_operation_reconciliation = RRP_audit_read"
  | "rawReadPosture OT_proof_gap = RRP_audit_read"
  | "rawReadPosture OT_refusal = RRP_audit_read"
  | "rawReadPosture OT_receipt = RRP_audit_read"
  | "rawReadPosture OT_receipt_export = RRP_audit_read"
  | "rawReadPosture OT_recovery_recommendation = RRP_audit_read"
  | "rawReadPosture OT_recovery_recommendation_status_transition = RRP_audit_read"
  | "rawReadPosture OT_contract_stream_event = RRP_internal_only"

section \<open>Isolation scopes\<close>

record isolation_scope_ref =
  isr_tenantId :: string
  isr_organizationId :: string
  isr_scopeType :: isolation_scope_type
  isr_scopeId :: string

definition isolationScopeRef ::
  "'a protocol_base_scheme \<Rightarrow> isolation_scope_type \<Rightarrow> string \<Rightarrow> isolation_scope_ref" where
  "isolationScopeRef source scopeType scopeId =
     \<lparr>isr_tenantId = tenantId source, isr_organizationId = organizationId source,
      isr_scopeType = scopeType, isr_scopeId = scopeId\<rparr>"

text \<open>The key under which the store indexes the current isolation state of a scope.\<close>

definition isolationScopeKey :: "isolation_scope_ref \<Rightarrow> string" where
  "isolationScopeKey s = isr_tenantId s @ '':'' @ isr_organizationId s @ '':'' @
     isolation_scope_type_str (isr_scopeType s) @ '':'' @ isr_scopeId s"

fun unique_scope_refs :: "string list \<Rightarrow> isolation_scope_ref list \<Rightarrow> isolation_scope_ref list" where
  "unique_scope_refs seen [] = []"
| "unique_scope_refs seen (s # ss) =
     (if isolationScopeKey s \<in> set seen then unique_scope_refs seen ss
      else s # unique_scope_refs (isolationScopeKey s # seen) ss)"

definition uniqueIsolationScopeRefs :: "isolation_scope_ref list \<Rightarrow> isolation_scope_ref list" where
  "uniqueIsolationScopeRefs ss = unique_scope_refs [] ss"

definition isolationScopeRefsForContract :: "'a action_contract_scheme \<Rightarrow> isolation_scope_ref list" where
  "isolationScopeRefsForContract c = uniqueIsolationScopeRefs
     ([isolationScopeRef c IST_tenant (tenantId c),
       isolationScopeRef c IST_organization (organizationId c),
       isolationScopeRef c IST_agent (ac_agentId c),
       isolationScopeRef c IST_run (ac_runId c),
       isolationScopeRef c IST_envelope (ac_envelopeId c),
       isolationScopeRef c IST_action_class (ac_actionClass c),
       isolationScopeRef c IST_gateway (ac_gatewayId c)] @
      map (\<lambda>b. isolationScopeRef c IST_credential_ref (gcb_gatewayCredentialRefId b)) (ac_gatewayCredentialRefs c) @
      map (\<lambda>b. isolationScopeRef c IST_authority_ref (dab_delegatedAuthorityRefId b)) (ac_delegatedAuthorityRefs c) @
      [isolationScopeRef c IST_resource (ac_resourceRef c)])"

definition isolationScopeRefsForGreenlight :: "'a greenlight_scheme \<Rightarrow> isolation_scope_ref list" where
  "isolationScopeRefsForGreenlight g = uniqueIsolationScopeRefs
     [isolationScopeRef g IST_tenant (tenantId g),
      isolationScopeRef g IST_organization (organizationId g),
      isolationScopeRef g IST_gateway (gl_gatewayId g),
      isolationScopeRef g IST_action_class (gl_actionClass g),
      isolationScopeRef g IST_resource (gl_resourceRef g)]"

lemma unique_scope_refs_keys:
  "isolationScopeKey ` set (unique_scope_refs seen ss) = isolationScopeKey ` set ss - set seen"
  by (induction seen ss rule: unique_scope_refs.induct) auto

lemma uniqueIsolationScopeRefs_keys [simp]:
  "isolationScopeKey ` set (uniqueIsolationScopeRefs ss) = isolationScopeKey ` set ss"
  by (simp add: uniqueIsolationScopeRefs_def unique_scope_refs_keys)

lemma unique_scope_refs_distinct:
  "distinct (map isolationScopeKey (unique_scope_refs seen ss))"
  by (induction seen ss rule: unique_scope_refs.induct) (simp_all add: unique_scope_refs_keys)

section \<open>Records as the store sees them\<close>

text \<open>The type tag separates records of different types with the same identifier.\<close>

lemma protocol_object_type_str_inj:
  "protocol_object_type_str s = protocol_object_type_str t \<longleftrightarrow> s = t"
  by (cases s; cases t) simp_all

end
