(* ===== verification/Store.thy ===== *)
theory Store
  imports Object_Registry
begin

text \<open>
  The protocol store: the port of \<open>store/port.ts\<close> as the in-memory store
  \<open>storage/memory/index.ts\<close> implements it, with the action-contract index of
  \<open>store/action-contract-index.ts\<close>.  A JavaScript \<open>Map\<close> is an association list
  in insertion order.  Each operation runs without an \<open>await\<close> between its checks
  and its writes, so it is one function on the store.  The records of the two
  commit operations carry empty lists where the code leaves a field undefined.
\<close>

section \<open>Index entries and commits\<close>

record stored_record =
  st_objectId :: string
  st_objectType :: protocol_object_type
  st_tenantId :: string
  st_organizationId :: string
  st_schemaVersion :: string
  st_canonicalDigest :: string
  st_payload :: protocol_record
  st_createdAt :: string
  st_sourceEventId :: "string option"

record greenlight_consumption =
  gc_greenlightId :: string
  gc_gateAttemptId :: string
  gc_actionContractId :: string
  gc_idempotencyKey :: string
  gc_consumedAt :: string

record greenlight_issuance_claim =
  gi_actionContractId :: string
  gi_greenlightId :: string
  gi_policyDecisionId :: string
  gi_tenantId :: string
  gi_organizationId :: string
  gi_claimedAt :: string

record recovery_terminal_claim =
  rt_recoveryRecommendationId :: string
  rt_statusTransitionId :: string
  rt_nextStatus :: recovery_recommendation_terminal_status
  rt_claimedAt :: string

record posture_index_entry =
  pi_postureScopeKey :: string
  pi_protectedPathPostureId :: string
  pi_tenantId :: string
  pi_organizationId :: string
  pi_updatedAt :: string

record operation_claim_index_entry =
  oi_claimKeyDigest :: string
  oi_protectedSurfaceOperationClaimId :: string
  oi_tenantId :: string
  oi_organizationId :: string
  oi_claimState :: operation_claim_state
  oi_updatedAt :: string

record receipt_index_entry =
  ri_mutationAttemptId :: string
  ri_receiptId :: string
  ri_tenantId :: string
  ri_organizationId :: string
  ri_createdAt :: string

record ledger_index_entry =
  li_ledgerKeyDigest :: string
  li_idempotencyLedgerEntryId :: string
  li_tenantId :: string
  li_organizationId :: string
  li_paramsDigest :: string
  li_actionContractId :: string
  li_policyDecisionId :: string
  li_greenlightId :: "string option"
  li_ledgerState :: idempotency_ledger_state
  li_updatedAt :: string

record isolation_index_entry =
  ii_isolationScopeKey :: string
  ii_isolationStateId :: string
  ii_tenantId :: string
  ii_organizationId :: string
  ii_scopeType :: isolation_scope_type
  ii_scopeId :: string
  ii_state :: isolation_value
  ii_updatedAt :: string

record gateway_check_commit =
  gk_consumption :: "greenlight_consumption option"
  gk_operationClaims :: "operation_claim_index_entry list"
  gk_ledgerEntries :: "ledger_index_entry list"
  gk_receiptEntries :: "receipt_index_entry list"
  gk_records :: "stored_record list"
  gk_events :: "stream_event list"

text \<open>The options of a commit, and the commit with its records and events.\<close>

record commit_options =
  co_absentOrSame :: bool
  co_issuanceClaims :: "greenlight_issuance_claim list"
  co_ledgerReservations :: "ledger_index_entry list"
  co_ledgerEntries :: "ledger_index_entry list"
  co_recoveryClaims :: "recovery_terminal_claim list"
  co_postureEntries :: "posture_index_entry list"
  co_isolationEntries :: "isolation_index_entry list"
  co_operationClaims :: "operation_claim_index_entry list"
  co_operationClaimReleases :: "string list"
  co_receiptEntries :: "receipt_index_entry list"

record protocol_commit = commit_options +
  cm_records :: "stored_record list"
  cm_events :: "stream_event list"

definition no_options :: commit_options where
  "no_options = \<lparr>co_absentOrSame = False, co_issuanceClaims = [], co_ledgerReservations = [],
     co_ledgerEntries = [], co_recoveryClaims = [], co_postureEntries = [], co_isolationEntries = [],
     co_operationClaims = [], co_operationClaimReleases = [], co_receiptEntries = []\<rparr>"

definition commit_of :: "stored_record list \<Rightarrow> stream_event list \<Rightarrow> commit_options \<Rightarrow> protocol_commit" where
  "commit_of rs es opts = commit_options.extend opts \<lparr>cm_records = rs, cm_events = es\<rparr>"

datatype (plugins only: code) commit_result =
    CR_committed
  | CR_stream_conflict
  | CR_record_digest_conflict
  | CR_recovery_terminal_conflict
  | CR_greenlight_issuance_conflict
  | CR_idempotency_ledger_conflict

datatype (plugins only: code) gateway_commit_result =
    GR_committed
  | GR_already_consumed
  | GR_operation_claim_conflict
  | GR_receipt_index_conflict
  | GR_stream_conflict

datatype (plugins only: code) put_result = Put_inserted | Put_unchanged | Put_conflict

section \<open>The store\<close>

record pstore =
  s_records :: "(string \<times> stored_record) list"
  s_events :: "stream_event list"
  s_consumptions :: "(string \<times> greenlight_consumption) list"
  s_issuance :: "(string \<times> greenlight_issuance_claim) list"
  s_ledger :: "(string \<times> ledger_index_entry) list"
  s_recovery :: "(string \<times> recovery_terminal_claim) list"
  s_isolation :: "(string \<times> isolation_index_entry) list"
  s_postures :: "(string \<times> posture_index_entry) list"
  s_claims :: "(string \<times> operation_claim_index_entry) list"
  s_receipts :: "(string \<times> receipt_index_entry) list"

definition empty_store :: pstore where
  "empty_store = \<lparr>s_records = [], s_events = [], s_consumptions = [], s_issuance = [], s_ledger = [],
     s_recovery = [], s_isolation = [], s_postures = [], s_claims = [], s_receipts = []\<rparr>"

definition recordKey :: "protocol_object_type \<Rightarrow> string \<Rightarrow> string" where
  "recordKey t oid = protocol_object_type_str t @ '':'' @ oid"

text \<open>\<open>for (const x of xs) map.set(key(x), x)\<close>.\<close>

fun set_all :: "('v \<Rightarrow> string) \<Rightarrow> 'v list \<Rightarrow> (string \<times> 'v) list \<Rightarrow> (string \<times> 'v) list" where
  "set_all key [] m = m"
| "set_all key (x # xs) m = set_all key xs (AList.update (key x) x m)"

fun delete_all :: "string list \<Rightarrow> (string \<times> 'v) list \<Rightarrow> (string \<times> 'v) list" where
  "delete_all [] m = m"
| "delete_all (k # ks) m = delete_all ks (AList.delete k m)"

definition has_key :: "(string \<times> 'v) list \<Rightarrow> string \<Rightarrow> bool" where
  "has_key m k \<longleftrightarrow> map_of m k \<noteq> None"

definition stored_key :: "stored_record \<Rightarrow> string" where
  "stored_key r = recordKey (st_objectType r) (st_objectId r)"

subsection \<open>Records\<close>

definition putRecord :: "stored_record \<Rightarrow> pstore \<Rightarrow> pstore" where
  "putRecord r s = s\<lparr>s_records := AList.update (stored_key r) r (s_records s)\<rparr>"

definition putRecordIfAbsentOrSame :: "stored_record \<Rightarrow> pstore \<Rightarrow> put_result \<times> pstore" where
  "putRecordIfAbsentOrSame r s = (case map_of (s_records s) (stored_key r) of
       None \<Rightarrow> (Put_inserted, putRecord r s)
     | Some existing \<Rightarrow>
         (if st_canonicalDigest existing = st_canonicalDigest r then Put_unchanged else Put_conflict, s))"

definition getRecord :: "protocol_object_type \<Rightarrow> string \<Rightarrow> pstore \<Rightarrow> stored_record option" where
  "getRecord t oid s = map_of (s_records s) (recordKey t oid)"

record record_scope =
  sc_tenantId :: "string option"
  sc_organizationId :: "string option"

definition no_scope :: record_scope where
  "no_scope = \<lparr>sc_tenantId = None, sc_organizationId = None\<rparr>"

definition in_scope :: "record_scope \<Rightarrow> stored_record \<Rightarrow> bool" where
  "in_scope sc r \<longleftrightarrow>
     \<not> (sc_tenantId sc \<notin> {None, Some []} \<and> sc_tenantId sc \<noteq> Some (st_tenantId r)) \<and>
     \<not> (sc_organizationId sc \<notin> {None, Some []} \<and> sc_organizationId sc \<noteq> Some (st_organizationId r))"

definition listRecordsByType :: "protocol_object_type \<Rightarrow> record_scope \<Rightarrow> pstore \<Rightarrow> stored_record list" where
  "listRecordsByType t sc s = filter (\<lambda>r. st_objectType r = t \<and> in_scope sc r) (map snd (s_records s))"

text \<open>The action contracts a record is about, read from its payload.\<close>

definition json_field :: "string \<Rightarrow> jval \<Rightarrow> jval option" where
  "json_field k v = (case v of JObj fs \<Rightarrow> map_of fs k | _ \<Rightarrow> None)"

definition string_ids :: "jval option \<Rightarrow> string list" where
  "string_ids v = (case v of Some (JStr s) \<Rightarrow> (if s = [] then [] else [s]) | _ \<Rightarrow> [])"

definition array_strings :: "jval option \<Rightarrow> string list" where
  "array_strings v = (case v of Some (JArr xs) \<Rightarrow>
       concat (map (\<lambda>x. case x of JStr s \<Rightarrow> [s] | _ \<Rightarrow> []) xs) | _ \<Rightarrow> [])"

definition action_contract_ref_id :: "string \<Rightarrow> string list" where
  "action_contract_ref_id ref =
     (if ref = [] then []
      else if str_prefix ''action_contract:'' ref then [drop (length ''action_contract:'') ref] else [ref])"

definition actionContractIdsForRecord :: "protocol_record \<Rightarrow> string list" where
  "actionContractIdsForRecord r = (let p = record_json r in
     remdups (string_ids (json_field ''actionContractId'' p) @
        string_ids (json_field ''sourceActionContractId'' p) @
        (case json_field ''terminal'' p of Some t \<Rightarrow> string_ids (json_field ''actionContractId'' t) | None \<Rightarrow> []) @
        concat (map action_contract_ref_id (array_strings (json_field ''affectedObjectRefs'' p)))))"

definition recordMatchesActionContract :: "stored_record \<Rightarrow> string \<Rightarrow> bool" where
  "recordMatchesActionContract r oid \<longleftrightarrow> oid \<in> set (actionContractIdsForRecord (st_payload r))"

definition listRecordsByActionContract ::
  "protocol_object_type \<Rightarrow> string \<Rightarrow> record_scope \<Rightarrow> pstore \<Rightarrow> stored_record list" where
  "listRecordsByActionContract t oid sc s =
     filter (\<lambda>r. recordMatchesActionContract r oid) (listRecordsByType t sc s)"

definition countRecordsOfType :: "protocol_object_type \<Rightarrow> pstore \<Rightarrow> nat" where
  "countRecordsOfType t s = length (filter (\<lambda>r. st_objectType r = t) (map snd (s_records s)))"

subsection \<open>Streams\<close>

record stream_tail =
  tl_offset :: int
  tl_eventDigest :: string

definition on_stream :: "string \<Rightarrow> string \<Rightarrow> stream_event \<Rightarrow> bool" where
  "on_stream sid part e \<longleftrightarrow> ev_streamId e = sid \<and> ev_partitionKey e = part"

definition listEventsForPartition :: "string \<Rightarrow> string \<Rightarrow> pstore \<Rightarrow> stream_event list" where
  "listEventsForPartition sid part s = sort_key ev_offset (filter (on_stream sid part) (s_events s))"

definition getStreamTail :: "string \<Rightarrow> string \<Rightarrow> pstore \<Rightarrow> stream_tail option" where
  "getStreamTail sid part s =
     (case sort_key (\<lambda>e. - ev_offset e) (filter (on_stream sid part) (s_events s)) of
        [] \<Rightarrow> None
      | e # _ \<Rightarrow> Some \<lparr>tl_offset = ev_offset e, tl_eventDigest = ev_eventDigest e\<rparr>)"

definition getStreamEvent :: "string \<Rightarrow> string \<Rightarrow> int \<Rightarrow> pstore \<Rightarrow> stream_event option" where
  "getStreamEvent sid part off s = find (\<lambda>e. on_stream sid part e \<and> ev_offset e = off) (s_events s)"

record stream_range =
  sg_startOffset :: "int option"
  sg_endOffset :: "int option"
  sg_limit :: "nat option"

definition MAX_SAFE_INTEGER :: int where
  "MAX_SAFE_INTEGER = 9007199254740991"

definition listStreamEvents :: "string \<Rightarrow> string \<Rightarrow> stream_range \<Rightarrow> pstore \<Rightarrow> stream_event list" where
  "listStreamEvents sid part rg s =
    (let a = (case sg_startOffset rg of None \<Rightarrow> 0 | Some x \<Rightarrow> x);
         b = (case sg_endOffset rg of None \<Rightarrow> MAX_SAFE_INTEGER | Some x \<Rightarrow> x);
         es = sort_key ev_offset (filter (\<lambda>e. on_stream sid part e \<and> a \<le> ev_offset e \<and> ev_offset e \<le> b) (s_events s))
     in (case sg_limit rg of None \<Rightarrow> es | Some n \<Rightarrow> take n es))"

definition event_record :: "stream_event \<Rightarrow> stored_record" where
  "event_record e = \<lparr>st_objectId = ev_streamEventId e, st_objectType = OT_contract_stream_event,
     st_tenantId = tenantId e, st_organizationId = organizationId e, st_schemaVersion = schemaVersion e,
     st_canonicalDigest = ev_eventDigest e, st_payload = PR_contract_stream_event e,
     st_createdAt = createdAt e, st_sourceEventId = None\<rparr>"

definition appendEvent :: "stream_event \<Rightarrow> pstore \<Rightarrow> pstore" where
  "appendEvent e s = putRecord (event_record e) (s\<lparr>s_events := s_events s @ [e]\<rparr>)"

subsection \<open>Current records\<close>

definition getCurrentProtectedPathPosture :: "string \<Rightarrow> pstore \<Rightarrow> stored_record option" where
  "getCurrentProtectedPathPosture key s = (case map_of (s_postures s) key of None \<Rightarrow> None
     | Some entry \<Rightarrow> getRecord OT_protected_path_posture (pi_protectedPathPostureId entry) s)"

definition getCurrentIdempotencyLedgerEntry :: "string \<Rightarrow> pstore \<Rightarrow> stored_record option" where
  "getCurrentIdempotencyLedgerEntry key s = (case map_of (s_ledger s) key of None \<Rightarrow> None
     | Some entry \<Rightarrow> getRecord OT_idempotency_ledger_entry (li_idempotencyLedgerEntryId entry) s)"

definition getCurrentProtectedSurfaceOperationClaim :: "string \<Rightarrow> pstore \<Rightarrow> stored_record option" where
  "getCurrentProtectedSurfaceOperationClaim key s = (case map_of (s_claims s) key of None \<Rightarrow> None
     | Some entry \<Rightarrow> getRecord OT_protected_surface_operation_claim (oi_protectedSurfaceOperationClaimId entry) s)"

definition getReceiptByMutationAttemptId :: "string \<Rightarrow> pstore \<Rightarrow> stored_record option" where
  "getReceiptByMutationAttemptId key s = (case map_of (s_receipts s) key of None \<Rightarrow> None
     | Some entry \<Rightarrow> getRecord OT_receipt (ri_receiptId entry) s)"

definition isolation_payload :: "stored_record option \<Rightarrow> isolation_state option" where
  "isolation_payload r = (case r of Some x \<Rightarrow> (case st_payload x of PR_isolation_state i \<Rightarrow> Some i | _ \<Rightarrow> None) | None \<Rightarrow> None)"

definition listIsolationStates :: "isolation_scope_ref list \<Rightarrow> pstore \<Rightarrow> isolation_state list" where
  "listIsolationStates refs s = concat (map (\<lambda>(k, entry).
     if ii_isolationScopeKey entry \<in> isolationScopeKey ` set refs
     then (case isolation_payload (getRecord OT_isolation_state (ii_isolationStateId entry) s) of
             Some i \<Rightarrow> (if is_clearedAt i = None then [i] else [])
           | None \<Rightarrow> [])
     else []) (s_isolation s))"

subsection \<open>Consumption and commits\<close>

definition consumeGreenlight :: "greenlight_consumption \<Rightarrow> pstore \<Rightarrow> bool \<times> pstore" where
  "consumeGreenlight c s =
     (if has_key (s_consumptions s) (gc_greenlightId c) then (False, s)
      else (True, s\<lparr>s_consumptions := AList.update (gc_greenlightId c) c (s_consumptions s)\<rparr>))"

definition hasStreamOffset :: "stream_event \<Rightarrow> pstore \<Rightarrow> bool" where
  "hasStreamOffset e s \<longleftrightarrow> list_ex (\<lambda>x. ev_streamId x = ev_streamId e \<and>
     ev_partitionKey x = ev_partitionKey e \<and> ev_offset x = ev_offset e) (s_events s)"

definition stageRecordsAndEvents :: "stored_record list \<Rightarrow> stream_event list \<Rightarrow> pstore \<Rightarrow> pstore" where
  "stageRecordsAndEvents rs es s = s\<lparr>
     s_records := set_all stored_key (map event_record es) (set_all stored_key rs (s_records s)),
     s_events := s_events s @ es\<rparr>"

definition digest_conflict :: "stored_record list \<Rightarrow> pstore \<Rightarrow> bool" where
  "digest_conflict rs s \<longleftrightarrow> list_ex (\<lambda>r. case map_of (s_records s) (stored_key r) of
     None \<Rightarrow> False | Some existing \<Rightarrow> st_canonicalDigest existing \<noteq> st_canonicalDigest r) rs"

definition commitProtocolRecords :: "protocol_commit \<Rightarrow> pstore \<Rightarrow> commit_result \<times> pstore" where
  "commitProtocolRecords c s =
    (if list_ex (\<lambda>x. has_key (s_issuance s) (gi_actionContractId x)) (co_issuanceClaims c)
       then (CR_greenlight_issuance_conflict, s)
     else if list_ex (\<lambda>x. has_key (s_ledger s) (li_ledgerKeyDigest x)) (co_ledgerReservations c)
       then (CR_idempotency_ledger_conflict, s)
     else if list_ex (\<lambda>x. has_key (s_recovery s) (rt_recoveryRecommendationId x)) (co_recoveryClaims c)
       then (CR_recovery_terminal_conflict, s)
     else if list_ex (\<lambda>e. hasStreamOffset e s) (cm_events c)
       then (CR_stream_conflict, s)
     else if co_absentOrSame c \<and> digest_conflict (cm_records c) s
       then (CR_record_digest_conflict, s)
     else (CR_committed, stageRecordsAndEvents (cm_records c) (cm_events c) (s\<lparr>
       s_issuance := set_all gi_actionContractId (co_issuanceClaims c) (s_issuance s),
       s_ledger := set_all li_ledgerKeyDigest (co_ledgerEntries c)
          (set_all li_ledgerKeyDigest (co_ledgerReservations c) (s_ledger s)),
       s_recovery := set_all rt_recoveryRecommendationId (co_recoveryClaims c) (s_recovery s),
       s_isolation := set_all ii_isolationScopeKey (co_isolationEntries c) (s_isolation s),
       s_postures := set_all pi_postureScopeKey (co_postureEntries c) (s_postures s),
       s_claims := set_all oi_claimKeyDigest (co_operationClaims c)
          (delete_all (co_operationClaimReleases c) (s_claims s)),
       s_receipts := set_all ri_mutationAttemptId (co_receiptEntries c) (s_receipts s)\<rparr>)))"

definition commitGatewayCheck :: "gateway_check_commit \<Rightarrow> pstore \<Rightarrow> gateway_commit_result \<times> pstore" where
  "commitGatewayCheck c s =
    (if (case gk_consumption c of Some x \<Rightarrow> has_key (s_consumptions s) (gc_greenlightId x) | None \<Rightarrow> False)
       then (GR_already_consumed, s)
     else if list_ex (\<lambda>x. has_key (s_claims s) (oi_claimKeyDigest x)) (gk_operationClaims c)
       then (GR_operation_claim_conflict, s)
     else if list_ex (\<lambda>x. has_key (s_receipts s) (ri_mutationAttemptId x)) (gk_receiptEntries c)
       then (GR_receipt_index_conflict, s)
     else if list_ex (\<lambda>e. hasStreamOffset e s) (gk_events c)
       then (GR_stream_conflict, s)
     else (GR_committed, stageRecordsAndEvents (gk_records c) (gk_events c) (s\<lparr>
       s_consumptions := (case gk_consumption c of None \<Rightarrow> s_consumptions s
          | Some x \<Rightarrow> AList.update (gc_greenlightId x) x (s_consumptions s)),
       s_claims := set_all oi_claimKeyDigest (gk_operationClaims c) (s_claims s),
       s_ledger := set_all li_ledgerKeyDigest (gk_ledgerEntries c) (s_ledger s),
       s_receipts := set_all ri_mutationAttemptId (gk_receiptEntries c) (s_receipts s)\<rparr>)))"

end
