(* ===== verification/Store_Laws.thy ===== *)
theory Store_Laws
  imports Store
begin

text \<open>
  Laws of the store: what each operation keeps, the step relation of all its
  operations, and two interfaces that its clients rely on as locales.  A
  \<open>claims\<close> table is written at most once per key whatever the operations do
  (greenlight consumption, greenlight issuance, recovery terminal claims); a log
  is only ever appended to.  Both are interpreted on the store's own tables.
\<close>

section \<open>Interfaces\<close>

text \<open>A system whose runs are the finite sequences of its steps.\<close>

locale stepping =
  fixes step :: "'s \<Rightarrow> 's \<Rightarrow> bool"
begin

abbreviation runs :: "'s \<Rightarrow> 's \<Rightarrow> bool" where
  "runs \<equiv> step\<^sup>*\<^sup>*"

lemma runs_induct_keep:
  assumes "runs s t" "P s" "\<And>a b. step a b \<Longrightarrow> P a \<Longrightarrow> P b"
  shows "P t"
  using assms by (induction rule: rtranclp_induct) auto

end

text \<open>Claims are first come, first served: no step overwrites or drops one.\<close>

locale once_claims = stepping step for step :: "'s \<Rightarrow> 's \<Rightarrow> bool" +
  fixes claim :: "'s \<Rightarrow> string \<Rightarrow> 'v option"
  assumes step_keeps_claim: "step s t \<Longrightarrow> claim s k = Some v \<Longrightarrow> claim t k = Some v"
begin

lemma runs_keep_claim: "runs s t \<Longrightarrow> claim s k = Some v \<Longrightarrow> claim t k = Some v"
  by (erule runs_induct_keep) (auto intro: step_keeps_claim)

lemma one_winner:
  assumes "runs s t" "claim s k = Some v" "claim t k = Some v'"
  shows "v' = v"
  using runs_keep_claim[OF assms(1,2)] assms(3) by simp

lemma claimed_forever: "runs s t \<Longrightarrow> claim s k \<noteq> None \<Longrightarrow> claim t k \<noteq> None"
  using runs_keep_claim by fastforce

end

text \<open>A log that steps only extend.\<close>

locale append_log = stepping step for step :: "'s \<Rightarrow> 's \<Rightarrow> bool" +
  fixes log :: "'s \<Rightarrow> 'e list"
  assumes step_appends: "step s t \<Longrightarrow> \<exists>es. log t = log s @ es"
begin

lemma runs_append: "runs s t \<Longrightarrow> \<exists>es. log t = log s @ es"
proof (induction rule: rtranclp_induct)
  case (step b c)
  then show ?case using step_appends[of b c] by auto
qed simp

lemma entry_fixed: "runs s t \<Longrightarrow> i < length (log s) \<Longrightarrow> log t ! i = log s ! i"
  using runs_append[of s t] by (auto simp: nth_append)

lemma filter_append: "runs s t \<Longrightarrow> \<exists>es. filter P (log t) = filter P (log s) @ es"
  using runs_append[of s t] by auto

end

section \<open>Tables\<close>

lemma set_all_other [alist_simps]:
  "k \<notin> key ` set xs \<Longrightarrow> map_of (set_all key xs m) k = map_of m k"
  by (induction xs arbitrary: m) (auto simp: map_of_update)

lemma set_all_mem:
  "k \<in> key ` set xs \<Longrightarrow> \<exists>x \<in> set xs. key x = k \<and> map_of (set_all key xs m) k = Some x"
proof (induction xs arbitrary: m)
  case (Cons a xs)
  show ?case
  proof (cases "k \<in> key ` set xs")
    case True
    then show ?thesis using Cons.IH by auto
  next
    case False
    then show ?thesis using Cons.prems by (auto simp: set_all_other map_of_update)
  qed
qed simp

lemma set_all_lookup_cases:
  assumes "map_of (set_all key xs m) k = Some v"
  shows "map_of m k = Some v \<or> (v \<in> set xs \<and> key v = k)"
  using assms set_all_mem[of k key xs m] set_all_other[of k key xs m] by fastforce

lemma set_all_distinct:
  "distinct (map key xs) \<Longrightarrow> x \<in> set xs \<Longrightarrow> map_of (set_all key xs m) (key x) = Some x"
proof -
  assume d: "distinct (map key xs)" and x: "x \<in> set xs"
  then obtain y where "y \<in> set xs" "key y = key x" "map_of (set_all key xs m) (key x) = Some y"
    using set_all_mem[of "key x" key xs m] by auto
  then show ?thesis using d x by (metis distinct_map inj_onD)
qed

lemma set_all_append: "set_all key (xs @ ys) m = set_all key ys (set_all key xs m)"
  by (induction xs arbitrary: m) auto

lemma delete_all_lookup [alist_simps]:
  "map_of (delete_all ks m) k = (if k \<in> set ks then None else map_of m k)"
  by (induction ks arbitrary: m) (auto simp: map_of_delete)

lemma set_all_keep_claim:
  assumes "\<not> list_ex (\<lambda>x. has_key m (key x)) xs" "map_of m k = Some v"
  shows "map_of (set_all key xs m) k = Some v"
proof -
  have "k \<notin> key ` set xs" using assms by (auto simp: list_ex_iff has_key_def)
  then show ?thesis using assms(2) by (simp add: set_all_other)
qed

lemma recordKey_inj: "recordKey t i = recordKey u j \<longleftrightarrow> t = u \<and> i = j"
proof
  assume eq: "recordKey t i = recordKey u j"
  have take: "takeWhile (\<lambda>c. c \<noteq> CHR '':'') (recordKey t i) = protocol_object_type_str t" for t i
    by (cases t) (simp_all add: recordKey_def)
  then have "protocol_object_type_str t = protocol_object_type_str u" using eq by metis
  then show "t = u \<and> i = j" using eq by (simp add: recordKey_def protocol_object_type_str_inj)
qed simp

lemma getRecord_putRecord:
  "getRecord t i (putRecord r s) =
     (if st_objectType r = t \<and> st_objectId r = i then Some r else getRecord t i s)"
  by (auto simp: getRecord_def putRecord_def stored_key_def map_of_update recordKey_inj)

section \<open>The operations as steps\<close>

inductive store_step :: "pstore \<Rightarrow> pstore \<Rightarrow> bool" where
  step_put: "store_step s (putRecord r s)"
| step_put_absent: "store_step s (snd (putRecordIfAbsentOrSame r s))"
| step_append: "store_step s (appendEvent e s)"
| step_consume: "store_step s (snd (consumeGreenlight c s))"
| step_commit: "store_step s (snd (commitProtocolRecords p s))"
| step_gateway: "store_step s (snd (commitGatewayCheck g s))"

inductive_cases store_stepE [elim]: "store_step s t"

abbreviation store_run :: "pstore \<Rightarrow> pstore \<Rightarrow> bool" where
  "store_run \<equiv> store_step\<^sup>*\<^sup>*"

lemma staged_fields [simp]:
  "s_events (stageRecordsAndEvents rs es s) = s_events s @ es"
  "s_consumptions (stageRecordsAndEvents rs es s) = s_consumptions s"
  "s_issuance (stageRecordsAndEvents rs es s) = s_issuance s"
  "s_ledger (stageRecordsAndEvents rs es s) = s_ledger s"
  "s_recovery (stageRecordsAndEvents rs es s) = s_recovery s"
  "s_isolation (stageRecordsAndEvents rs es s) = s_isolation s"
  "s_postures (stageRecordsAndEvents rs es s) = s_postures s"
  "s_claims (stageRecordsAndEvents rs es s) = s_claims s"
  "s_receipts (stageRecordsAndEvents rs es s) = s_receipts s"
  by (simp_all add: stageRecordsAndEvents_def)

lemma put_fields [simp]:
  "s_events (putRecord r s) = s_events s"
  "s_consumptions (putRecord r s) = s_consumptions s"
  "s_issuance (putRecord r s) = s_issuance s"
  "s_recovery (putRecord r s) = s_recovery s"
  by (simp_all add: putRecord_def)

text \<open>A commit that is not accepted leaves the store as it was.\<close>

lemma commitProtocolRecords_rejected:
  "commitProtocolRecords c s = (r, t) \<Longrightarrow> r \<noteq> CR_committed \<Longrightarrow> t = s"
  by (auto simp: commitProtocolRecords_def split: if_splits)

lemma commitGatewayCheck_rejected:
  "commitGatewayCheck c s = (r, t) \<Longrightarrow> r \<noteq> GR_committed \<Longrightarrow> t = s"
  by (auto simp: commitGatewayCheck_def split: if_splits option.splits)

lemma commitProtocolRecords_committedD:
  assumes "commitProtocolRecords c s = (CR_committed, t)"
  shows "\<not> list_ex (\<lambda>x. has_key (s_issuance s) (gi_actionContractId x)) (co_issuanceClaims c)"
    "\<not> list_ex (\<lambda>x. has_key (s_ledger s) (li_ledgerKeyDigest x)) (co_ledgerReservations c)"
    "\<not> list_ex (\<lambda>x. has_key (s_recovery s) (rt_recoveryRecommendationId x)) (co_recoveryClaims c)"
    "\<not> list_ex (\<lambda>e. hasStreamOffset e s) (cm_events c)"
    "s_events t = s_events s @ cm_events c"
    "s_records t = set_all stored_key (map event_record (cm_events c)) (set_all stored_key (cm_records c) (s_records s))"
    "s_issuance t = set_all gi_actionContractId (co_issuanceClaims c) (s_issuance s)"
    "s_recovery t = set_all rt_recoveryRecommendationId (co_recoveryClaims c) (s_recovery s)"
    "s_consumptions t = s_consumptions s"
    "s_claims t = set_all oi_claimKeyDigest (co_operationClaims c) (delete_all (co_operationClaimReleases c) (s_claims s))"
    "s_ledger t = set_all li_ledgerKeyDigest (co_ledgerEntries c)
          (set_all li_ledgerKeyDigest (co_ledgerReservations c) (s_ledger s))"
    "s_isolation t = set_all ii_isolationScopeKey (co_isolationEntries c) (s_isolation s)"
    "s_postures t = set_all pi_postureScopeKey (co_postureEntries c) (s_postures s)"
    "s_receipts t = set_all ri_mutationAttemptId (co_receiptEntries c) (s_receipts s)"
  using assms by (auto simp: commitProtocolRecords_def stageRecordsAndEvents_def split: if_splits)

lemma commitGatewayCheck_committedD:
  assumes "commitGatewayCheck c s = (GR_committed, t)"
  shows "\<And>x. gk_consumption c = Some x \<Longrightarrow> \<not> has_key (s_consumptions s) (gc_greenlightId x)"
    "\<not> list_ex (\<lambda>x. has_key (s_claims s) (oi_claimKeyDigest x)) (gk_operationClaims c)"
    "\<not> list_ex (\<lambda>e. hasStreamOffset e s) (gk_events c)"
    "s_events t = s_events s @ gk_events c"
    "s_records t = set_all stored_key (map event_record (gk_events c)) (set_all stored_key (gk_records c) (s_records s))"
    "s_consumptions t = (case gk_consumption c of None \<Rightarrow> s_consumptions s
       | Some x \<Rightarrow> AList.update (gc_greenlightId x) x (s_consumptions s))"
    "s_claims t = set_all oi_claimKeyDigest (gk_operationClaims c) (s_claims s)"
    "s_ledger t = set_all li_ledgerKeyDigest (gk_ledgerEntries c) (s_ledger s)"
    "s_issuance t = s_issuance s" "s_recovery t = s_recovery s" "s_isolation t = s_isolation s"
    "s_receipts t = set_all ri_mutationAttemptId (gk_receiptEntries c) (s_receipts s)"
  using assms by (auto simp: commitGatewayCheck_def stageRecordsAndEvents_def split: if_splits option.splits)

lemma commit_stepE:
  assumes "t = snd (commitProtocolRecords c s)"
  obtains (rejected) "t = s" | (committed) "commitProtocolRecords c s = (CR_committed, t)"
  using assms commitProtocolRecords_rejected[of c s] by (cases "commitProtocolRecords c s") auto

lemma gateway_stepE:
  assumes "t = snd (commitGatewayCheck c s)"
  obtains (rejected) "t = s" | (committed) "commitGatewayCheck c s = (GR_committed, t)"
  using assms commitGatewayCheck_rejected[of c s] by (cases "commitGatewayCheck c s") auto

section \<open>The interfaces hold of the store\<close>

lemma step_keeps_consumption:
  assumes "store_step s t" "map_of (s_consumptions s) k = Some v"
  shows "map_of (s_consumptions t) k = Some v"
  using assms(1)
proof (cases rule: store_step.cases)
  case (step_put_absent r)
  then show ?thesis using assms(2) by (auto simp: putRecordIfAbsentOrSame_def split: option.splits)
next
  case (step_consume c)
  then show ?thesis using assms(2)
    by (auto simp: consumeGreenlight_def has_key_def map_of_update split: if_splits)
next
  case (step_commit p)
  then show ?thesis
    by (cases rule: commit_stepE) (simp_all add: assms(2) commitProtocolRecords_committedD(9))
next
  case (step_gateway g)
  then show ?thesis
  proof (cases rule: gateway_stepE)
    case committed
    from commitGatewayCheck_committedD(1,6)[OF this] show ?thesis
      using assms(2) by (auto simp: has_key_def map_of_update split: option.splits)
  qed (simp add: assms(2))
qed (use assms(2) in \<open>simp_all add: appendEvent_def\<close>)

lemma step_keeps_issuance:
  assumes "store_step s t" "map_of (s_issuance s) k = Some v"
  shows "map_of (s_issuance t) k = Some v"
  using assms(1)
proof (cases rule: store_step.cases)
  case (step_put_absent r)
  then show ?thesis using assms(2) by (auto simp: putRecordIfAbsentOrSame_def split: option.splits)
next
  case (step_consume c)
  then show ?thesis using assms(2) by (simp add: consumeGreenlight_def)
next
  case (step_commit p)
  then show ?thesis
  proof (cases rule: commit_stepE)
    case committed
    from commitProtocolRecords_committedD(1,7)[OF this] show ?thesis
      using assms(2) by (simp add: set_all_keep_claim)
  qed (simp add: assms(2))
next
  case (step_gateway g)
  then show ?thesis
    by (cases rule: gateway_stepE) (simp_all add: assms(2) commitGatewayCheck_committedD(9))
qed (use assms(2) in \<open>simp_all add: appendEvent_def\<close>)

lemma step_keeps_recovery:
  assumes "store_step s t" "map_of (s_recovery s) k = Some v"
  shows "map_of (s_recovery t) k = Some v"
  using assms(1)
proof (cases rule: store_step.cases)
  case (step_put_absent r)
  then show ?thesis using assms(2) by (auto simp: putRecordIfAbsentOrSame_def split: option.splits)
next
  case (step_consume c)
  then show ?thesis using assms(2) by (simp add: consumeGreenlight_def)
next
  case (step_commit p)
  then show ?thesis
  proof (cases rule: commit_stepE)
    case committed
    from commitProtocolRecords_committedD(3,8)[OF this] show ?thesis
      using assms(2) by (simp add: set_all_keep_claim)
  qed (simp add: assms(2))
next
  case (step_gateway g)
  then show ?thesis
    by (cases rule: gateway_stepE) (simp_all add: assms(2) commitGatewayCheck_committedD(10))
qed (use assms(2) in \<open>simp_all add: appendEvent_def\<close>)

lemma step_appends_events:
  assumes "store_step s t"
  shows "\<exists>es. s_events t = s_events s @ es"
  using assms
proof (cases rule: store_step.cases)
  case (step_put_absent r)
  then show ?thesis by (auto simp: putRecordIfAbsentOrSame_def split: option.splits)
next
  case (step_commit p)
  then show ?thesis by (cases rule: commit_stepE) (simp_all add: commitProtocolRecords_committedD(5))
next
  case (step_gateway g)
  then show ?thesis by (cases rule: gateway_stepE) (simp_all add: commitGatewayCheck_committedD(4))
qed (simp_all add: appendEvent_def consumeGreenlight_def)

interpretation consumption: once_claims store_step "\<lambda>s. map_of (s_consumptions s)"
  by unfold_locales (rule step_keeps_consumption)

interpretation issuance: once_claims store_step "\<lambda>s. map_of (s_issuance s)"
  by unfold_locales (rule step_keeps_issuance)

interpretation recovery_claim: once_claims store_step "\<lambda>s. map_of (s_recovery s)"
  by unfold_locales (rule step_keeps_recovery)

interpretation event_log: append_log store_step s_events
  by unfold_locales (rule step_appends_events)

end
