(* ===== verification/Events.thy ===== *)
theory Events
  imports Store_Laws
begin

text \<open>
  Contract stream events, after \<open>events/chains.ts\<close>: the streams an event
  descriptor goes to, the chain of events built on the current stream tails,
  and the stream references of a receipt.  \<open>buildEventChain\<close> reads its tails from
  one snapshot of the store; what other requests commit between that reading
  and the commit is modelled in \<open>Recorder\<close>.
\<close>

section \<open>Descriptors and their streams\<close>

record stream_refs =
  lr_actionContractId :: string
  lr_runId :: string
  lr_gatewayId :: string
  lr_resourceRef :: string

record event_descriptor =
  ed_source :: protocol_base
  ed_eventType :: event_type
  ed_objectRefs :: "string list"
  ed_payload :: "(string \<times> jval) list"
  ed_streamRefs :: "stream_refs option"

record stream_binding =
  sb_streamId :: string
  sb_streamScope :: stream_scope
  sb_partitionKey :: string

definition actionLifecycleStreamRefs :: "'a action_contract_scheme \<Rightarrow> stream_refs" where
  "actionLifecycleStreamRefs c = \<lparr>lr_actionContractId = ac_actionContractId c, lr_runId = ac_runId c,
     lr_gatewayId = ac_gatewayId c, lr_resourceRef = ac_resourceRef c\<rparr>"

definition organizationStreamId :: "protocol_base \<Rightarrow> string" where
  "organizationStreamId src = ''stream_'' @ tenantId src @ ''_'' @ organizationId src"

definition nth_ref :: "string list \<Rightarrow> nat \<Rightarrow> string option" where
  "nth_ref refs i = (if i < length refs then Some (refs ! i) else None)"

definition ref_or :: "string option \<Rightarrow> string \<Rightarrow> string" where
  "ref_or r d = (case r of Some x \<Rightarrow> x | None \<Rightarrow> d)"

definition truthy_ref :: "string option \<Rightarrow> bool" where
  "truthy_ref r \<longleftrightarrow> r \<noteq> None \<and> r \<noteq> Some []"

definition streamPartitionKey :: "event_type \<Rightarrow> string list \<Rightarrow> stream_refs option \<Rightarrow> string" where
  "streamPartitionKey ty refs srefs = (case srefs of
       Some r \<Rightarrow> ''action:'' @ lr_actionContractId r
     | None \<Rightarrow> (case find (str_prefix ''act_'') refs of
         Some a \<Rightarrow> ''action:'' @ a
       | None \<Rightarrow>
         if ty = ET_isolation_changed \<and> truthy_ref (nth_ref refs 1) \<and> truthy_ref (nth_ref refs 2)
           then ''isolation:'' @ ref_or (nth_ref refs 1) [] @ '':'' @ ref_or (nth_ref refs 2) []
         else if ty = ET_isolation_changed
           then ''isolation:'' @ ref_or (nth_ref refs 1) (ref_or (nth_ref refs 0) ''unknown'')
         else if ty = ET_intent_compiled then ''intent:'' @ ref_or (nth_ref refs 0) ''unknown''
         else ''object:'' @ ref_or (nth_ref refs 0) ''unknown''))"

definition tailKey :: "stream_binding \<Rightarrow> string" where
  "tailKey b = sb_streamId b @ '':'' @ sb_partitionKey b"

fun dedupe_bindings :: "string list \<Rightarrow> stream_binding list \<Rightarrow> stream_binding list" where
  "dedupe_bindings seen [] = []"
| "dedupe_bindings seen (b # bs) =
     (if tailKey b \<in> set seen then dedupe_bindings seen bs
      else b # dedupe_bindings (tailKey b # seen) bs)"

definition streamBindings :: "event_descriptor \<Rightarrow> stream_binding list" where
  "streamBindings d =
    (let sid = organizationStreamId (ed_source d) in
     dedupe_bindings []
       (\<lparr>sb_streamId = sid, sb_streamScope = SS_organization,
         sb_partitionKey = streamPartitionKey (ed_eventType d) (ed_objectRefs d) (ed_streamRefs d)\<rparr> #
        (case ed_streamRefs d of None \<Rightarrow> []
         | Some r \<Rightarrow>
            [\<lparr>sb_streamId = sid, sb_streamScope = SS_run, sb_partitionKey = ''run:'' @ lr_runId r\<rparr>,
             \<lparr>sb_streamId = sid, sb_streamScope = SS_protected_surface_resource,
              sb_partitionKey = ''protected_surface_resource:'' @ lr_gatewayId r @ '':'' @ lr_resourceRef r\<rparr>])))"

section \<open>Building a chain\<close>

text \<open>The part of an event that its digest covers.\<close>

definition event_seed :: "stream_event \<Rightarrow> jval" where
  "event_seed e = JObj
     [(''streamId'', JStr (ev_streamId e)),
      (''streamScope'', JStr (stream_scope_str (ev_streamScope e))),
      (''partitionKey'', JStr (ev_partitionKey e)),
      (''offset'', JInt (ev_offset e)),
      (''eventType'', JStr (event_type_str (ev_eventType e))),
      (''eventTime'', JStr (ev_eventTime e)),
      (''objectRefs'', JArr (map JStr (ev_objectRefs e))),
      (''previousEventDigest'', j_opt JStr (ev_previousEventDigest e)),
      (''payload'', JObj (ev_payload e))]"

definition event_at ::
  "'e env_scheme \<Rightarrow> event_descriptor \<Rightarrow> stream_binding \<Rightarrow> int \<Rightarrow> string option \<Rightarrow> string \<Rightarrow> string \<Rightarrow> stream_event" where
  "event_at E d b off prev time eid =
    (let e = \<lparr>schemaVersion = PROTOCOL_VERSION, tenantId = tenantId (ed_source d),
           organizationId = organizationId (ed_source d), createdAt = time,
           ev_streamEventId = eid, ev_streamId = sb_streamId b, ev_streamScope = sb_streamScope b,
           ev_offset = off, ev_partitionKey = sb_partitionKey b, ev_eventType = ed_eventType d,
           ev_eventTime = time, ev_producerRef = ''handshake-kernel'', ev_objectRefs = ed_objectRefs d,
           ev_previousEventDigest = prev, ev_eventDigest = [], ev_payload = ed_payload d\<rparr>
     in e\<lparr>ev_eventDigest := digestCanonical E (event_seed e)\<rparr>)"

definition buildEventAt ::
  "'e env_scheme \<Rightarrow> event_descriptor \<Rightarrow> stream_binding \<Rightarrow> int \<Rightarrow> string option \<Rightarrow> ('w clockw_scheme, stream_event) ptr" where
  "buildEventAt E d b off prev =
     tbind (nowIso E) (\<lambda>time.
     tbind (createId E ''evt'') (\<lambda>eid.
     tparse (stream_event_valid E) (event_at E d b off prev time eid)))"

text \<open>The descriptors with their streams, in the order of the two nested loops.\<close>

definition chain_items :: "event_descriptor list \<Rightarrow> (event_descriptor \<times> stream_binding) list" where
  "chain_items ds = concat (map (\<lambda>d. map (\<lambda>b. (d, b)) (streamBindings d)) ds)"

type_synonym chain_tails = "(string \<times> (int \<times> string option)) list"

definition tail_for :: "pstore \<Rightarrow> chain_tails \<Rightarrow> stream_binding \<Rightarrow> int \<times> string option" where
  "tail_for s tails b = (case map_of tails (tailKey b) of
       Some t \<Rightarrow> t
     | None \<Rightarrow> (case getStreamTail (sb_streamId b) (sb_partitionKey b) s of
         Some t \<Rightarrow> (tl_offset t, Some (tl_eventDigest t))
       | None \<Rightarrow> (-1, None)))"

fun build_chain ::
  "'e env_scheme \<Rightarrow> pstore \<Rightarrow> chain_tails \<Rightarrow> (event_descriptor \<times> stream_binding) list
    \<Rightarrow> ('w clockw_scheme, stream_event list) ptr" where
  "build_chain E s tails [] = treturn []"
| "build_chain E s tails ((d, b) # items) =
     (let t = tail_for s tails b in
      tbind (buildEventAt E d b (fst t + 1) (snd t)) (\<lambda>e.
      tbind (build_chain E s (AList.update (tailKey b) (ev_offset e, Some (ev_eventDigest e)) tails) items) (\<lambda>es.
      treturn (e # es))))"

definition buildEventChain ::
  "'e env_scheme \<Rightarrow> pstore \<Rightarrow> event_descriptor list \<Rightarrow> ('w clockw_scheme, stream_event list) ptr" where
  "buildEventChain E s ds = build_chain E s [] (chain_items ds)"

section \<open>Stream references of a receipt\<close>

fun receipt_refs :: "stream_event list \<Rightarrow> (string \<times> receipt_stream_reference) list \<Rightarrow> (string \<times> receipt_stream_reference) list" where
  "receipt_refs [] refs = refs"
| "receipt_refs (e # es) refs =
    (let key = ev_streamId e @ '':'' @ ev_partitionKey e;
         existing = map_of refs key in
     receipt_refs es
       (if existing = None \<or> rsr_offsetEnd (the existing) < ev_offset e
        then AList.update key \<lparr>rsr_streamId = ev_streamId e, rsr_streamScope = ev_streamScope e,
               rsr_partitionKey = ev_partitionKey e,
               rsr_offsetStart = (case existing of Some x \<Rightarrow> rsr_offsetStart x | None \<Rightarrow> 0),
               rsr_offsetEnd = ev_offset e, rsr_terminalEventDigest = ev_eventDigest e\<rparr> refs
        else refs))"

definition receiptStreamReferencesForEvents :: "stream_event list \<Rightarrow> receipt_stream_reference list" where
  "receiptStreamReferencesForEvents es = map snd (receipt_refs es [])"

end
