(* ===== verification/Digests.thy ===== *)
theory Digests
  imports Foundation
begin

text \<open>
  A digest fixes what it was computed from, as far as the hash does: the
  encoding of a text as bytes and of bytes as hexadecimal lose nothing, so two
  values with one digest have the same canonical text as soon as SHA-256 does
  not collide on them.  Collision freedom is a hypothesis on the platform, not
  a fact about SHA-256.
\<close>

definition collision_free :: "'e env_scheme \<Rightarrow> bool" where
  "collision_free E \<longleftrightarrow> inj (env_sha256 E)"

lemma byte_hex_inj:
  assumes "hex_digit (unat (a :: 8 word) div 16) = hex_digit (unat b div 16)"
    "hex_digit (unat a mod 16) = hex_digit (unat b mod 16)"
  shows "a = b"
proof -
  have lt: "unat a < 256" "unat b < 256" using unsigned_less[of a] unsigned_less[of b] by simp_all
  have "unat a div 16 = unat b div 16" "unat a mod 16 = unat b mod 16"
    using assms lt by (auto intro!: hex_digit_inj)
  then have "unat a = unat b" by (metis div_mult_mod_eq)
  then show ?thesis by (simp add: word_unat_eq_iff)
qed

lemma toHex_inj: "toHex as = toHex bs \<Longrightarrow> as = bs"
proof (induction as arbitrary: bs)
  case Nil
  then show ?case by (cases bs) (simp_all add: toHex_def)
next
  case (Cons a as)
  then obtain b bs' where bs: "bs = b # bs'" by (cases bs) (simp_all add: toHex_def)
  then have "a = b" "toHex as = toHex bs'"
    using Cons.prems byte_hex_inj[of a b] by (simp_all add: toHex_def)
  then show ?case using Cons.IH bs by simp
qed

lemma utf8_prefix_code: "utf8_char c @ x = utf8_char d @ y \<Longrightarrow> c = d \<and> x = y"
proof -
  assume eq: "utf8_char c @ x = utf8_char d @ y"
  have lt: "(of_char c :: nat) < 256" "(of_char d :: nat) < 256" by simp_all
  have div: "of_char c div 64 < (4::nat)" "of_char d div 64 < (4::nat)"
    using lt by (simp_all add: less_mult_imp_div_less)
  have small: "unat (of_nat n :: 8 word) = n" if "n < 256" for n
    using that by (simp add: unat_of_nat)
  have byte: "m = n" if "(of_nat m :: 8 word) = of_nat n" "m < 256" "n < 256" for m n
    using that small by metis
  have "(of_char c :: nat) = of_char d \<and> x = y"
  proof (cases "(of_char c :: nat) < 128"; cases "(of_char d :: nat) < 128")
    assume "(of_char c :: nat) < 128" "(of_char d :: nat) < 128"
    then show ?thesis using eq byte[of "of_char c" "of_char d"] by (simp add: utf8_char_def)
  next
    assume "(of_char c :: nat) < 128" "\<not> (of_char d :: nat) < 128"
    then show ?thesis
      using eq lt div byte[of "of_char c" "192 + of_char d div 64"] by (simp add: utf8_char_def Let_def del: of_nat_add)
  next
    assume "\<not> (of_char c :: nat) < 128" "(of_char d :: nat) < 128"
    then show ?thesis
      using eq lt div byte[of "192 + of_char c div 64" "of_char d"] by (simp add: utf8_char_def Let_def del: of_nat_add)
  next
    assume hi: "\<not> (of_char c :: nat) < 128" "\<not> (of_char d :: nat) < 128"
    then have "(of_nat (192 + of_char c div 64) :: 8 word) = of_nat (192 + of_char d div 64)"
      "(of_nat (128 + of_char c mod 64) :: 8 word) = of_nat (128 + of_char d mod 64)" "x = y"
      using eq by (simp_all add: utf8_char_def Let_def del: of_nat_add)
    moreover have "128 + of_char c mod 64 < (256 :: nat)" "128 + of_char d mod 64 < (256 :: nat)" by simp_all
    ultimately have "192 + of_char c div 64 = 192 + (of_char d div 64 :: nat)"
      "128 + of_char c mod 64 = 128 + (of_char d mod 64 :: nat)" "x = y"
      using byte[of "192 + of_char c div 64" "192 + of_char d div 64"]
        byte[of "128 + of_char c mod 64" "128 + of_char d mod 64"] div by simp_all
    then show ?thesis by (metis add_left_cancel div_mult_mod_eq)
  qed
  then show ?thesis by simp
qed

lemma text_encode_inj: "text_encode s = text_encode t \<Longrightarrow> s = t"
proof (induction s arbitrary: t)
  case Nil
  then show ?case by (cases t) (simp_all add: text_encode_def utf8_char_def Let_def split: if_splits)
next
  case (Cons c s)
  show ?case
  proof (cases t)
    case Nil
    then show ?thesis using Cons.prems by (simp add: text_encode_def utf8_char_def Let_def split: if_splits)
  next
    case t: (Cons d t')
    then have "utf8_char c @ text_encode s = utf8_char d @ text_encode t'"
      using Cons.prems by (simp add: text_encode_def)
    then show ?thesis using utf8_prefix_code Cons.IH t by blast
  qed
qed

lemma digestCanonical_inj:
  assumes "collision_free E" "jval_ok a" "jval_ok b" "digestCanonical E a = digestCanonical E b"
  shows "jnorm a = jnorm b"
proof -
  have "env_sha256 E (text_encode (canonicalize a)) = env_sha256 E (text_encode (canonicalize b))"
    using assms(4) toHex_inj by (simp add: digestCanonical_def)
  then have "text_encode (canonicalize a) = text_encode (canonicalize b)"
    using assms(1) by (simp add: collision_free_def inj_eq)
  then have "canonicalize a = canonicalize b" by (rule text_encode_inj)
  then show ?thesis using canonicalize_eq_iff[OF assms(2,3)] by simp
qed

text \<open>Two objects written with the same keys agree field by field when they agree up to field order.\<close>

lemma jnorm_same_keys:
  assumes "map fst fs = map fst gs" "distinct (map fst fs)" "jnorm (JObj fs) = jnorm (JObj gs)"
  shows "map (\<lambda>f. jnorm (snd f)) fs = map (\<lambda>f. jnorm (snd f)) gs"
proof -
  let ?n = "map (\<lambda>f. (fst f, jnorm (snd f)))"
  have "sort_key fst (?n fs) = sort_key fst (?n gs)" using assms(3) by simp
  then have "set (?n fs) = set (?n gs)"
    using set_sort[of fst "?n fs"] set_sort[of fst "?n gs"] by simp
  moreover have "distinct (map fst (?n fs))" "distinct (map fst (?n gs))"
    using assms(1,2) by (simp_all add: comp_def)
  ultimately have same: "map_of (?n fs) = map_of (?n gs)"
    by (simp only: map_of_inject_set)
  have "?n fs = ?n gs"
  proof (rule nth_equalityI)
    show "length (?n fs) = length (?n gs)" using assms(1) by (metis length_map)
  next
    fix i assume i: "i < length (?n fs)"
    have len: "length fs = length gs" using assms(1) by (metis length_map)
    have look: "map_of (?n xs) (fst (xs ! i)) = Some (jnorm (snd (xs ! i)))"
      if "distinct (map fst xs)" "i < length xs" for xs :: "(string \<times> jval) list"
    proof (rule map_of_is_SomeI)
      show "distinct (map fst (?n xs))" using that(1) by (simp add: comp_def)
      show "(fst (xs ! i), jnorm (snd (xs ! i))) \<in> set (?n xs)" using that(2) by force
    qed
    have "map fst fs ! i = map fst gs ! i" by (simp only: assms(1))
    then have key: "fst (fs ! i) = fst (gs ! i)" using i len by simp
    have dg: "distinct (map fst gs)" using assms(1,2) by simp
    have "Some (jnorm (snd (fs ! i))) = map_of (?n fs) (fst (fs ! i))"
      by (rule look[OF assms(2), symmetric]) (use i in simp)
    also have "\<dots> = map_of (?n gs) (fst (gs ! i))" by (simp only: same key)
    also have "\<dots> = Some (jnorm (snd (gs ! i)))"
      by (rule look[OF dg]) (use i len in simp)
    finally have "jnorm (snd (fs ! i)) = jnorm (snd (gs ! i))" by simp
    then show "?n fs ! i = ?n gs ! i" using i len key by simp
  qed
  then have "map snd (?n fs) = map snd (?n gs)" by simp
  then show ?thesis by (simp add: comp_def)
qed

end
