(* ===== verification/Event_Chains.thy ===== *)
theory Event_Chains
  imports Events Digests
begin

text \<open>
  What a contract stream promises: on every partition the events carry the
  offsets 0, 1, 2, \<dots> without a gap, each names the digest of the one before
  it, and each digest covers its event.  A chain built on the tails of one
  snapshot and accepted by a later store keeps that promise, whatever other
  requests appended in between; and a stream's last digest fixes the whole
  stream when the hash has no collisions.
\<close>

section \<open>Chained streams\<close>

definition chain_ok :: "'e env_scheme \<Rightarrow> stream_event list \<Rightarrow> bool" where
  "chain_ok E es \<longleftrightarrow> (\<forall>i < length es.
     ev_offset (es ! i) = int i \<and>
     ev_previousEventDigest (es ! i) = (if i = 0 then None else Some (ev_eventDigest (es ! (i - 1)))) \<and>
     ev_eventDigest (es ! i) = digestCanonical E (event_seed (es ! i)))"

definition streams_ok :: "'e env_scheme \<Rightarrow> stream_event list \<Rightarrow> bool" where
  "streams_ok E es \<longleftrightarrow> (\<forall>sid part. chain_ok E (filter (on_stream sid part) es))"

lemma chain_ok_Nil [simp]: "chain_ok E []"
  by (simp add: chain_ok_def)

lemma chain_ok_snoc:
  "chain_ok E (es @ [e]) \<longleftrightarrow> chain_ok E es \<and> ev_offset e = int (length es) \<and>
     ev_previousEventDigest e = (if es = [] then None else Some (ev_eventDigest (last es))) \<and>
     ev_eventDigest e = digestCanonical E (event_seed e)"
  (is "?l \<longleftrightarrow> ?r")
proof
  assume l: ?l
  have "chain_ok E es"
    unfolding chain_ok_def
  proof (intro allI impI)
    fix i assume "i < length es"
    then show "ev_offset (es ! i) = int i \<and>
        ev_previousEventDigest (es ! i) = (if i = 0 then None else Some (ev_eventDigest (es ! (i - 1)))) \<and>
        ev_eventDigest (es ! i) = digestCanonical E (event_seed (es ! i))"
      using l[unfolded chain_ok_def, rule_format, of i] by (cases i) (simp_all add: nth_append)
  qed
  then show ?r
    using l[unfolded chain_ok_def, rule_format, of "length es"]
    by (auto simp: nth_append last_conv_nth)
next
  assume r: ?r
  show ?l
    unfolding chain_ok_def
  proof (intro allI impI)
    fix i assume "i < length (es @ [e])"
    then consider "i < length es" | "i = length es" by fastforce
    then show "ev_offset ((es @ [e]) ! i) = int i \<and>
        ev_previousEventDigest ((es @ [e]) ! i) =
          (if i = 0 then None else Some (ev_eventDigest ((es @ [e]) ! (i - 1)))) \<and>
        ev_eventDigest ((es @ [e]) ! i) = digestCanonical E (event_seed ((es @ [e]) ! i))"
    proof cases
      case 1
      then show ?thesis using r unfolding chain_ok_def by (cases i) (auto simp: nth_append)
    next
      case 2
      then show ?thesis using r by (auto simp: nth_append last_conv_nth)
    qed
  qed
qed

lemma chain_ok_prefix: "chain_ok E (xs @ ys) \<Longrightarrow> chain_ok E xs"
  by (induction ys rule: rev_induct) (auto simp: chain_ok_snoc simp flip: append_assoc)

lemma chain_ok_offsets: "chain_ok E es \<Longrightarrow> map ev_offset es = map int [0..<length es]"
  by (rule nth_equalityI) (auto simp: chain_ok_def)

lemma chain_ok_last_offset: "chain_ok E es \<Longrightarrow> es \<noteq> [] \<Longrightarrow> ev_offset (last es) = int (length es) - 1"
  by (simp add: chain_ok_def last_conv_nth of_nat_diff Suc_le_eq)

text \<open>The stream tail of a chained stream is its last event.\<close>

lemma getStreamTail_chain:
  assumes "chain_ok E (filter (on_stream sid part) (s_events s))"
  shows "getStreamTail sid part s =
    (let es = filter (on_stream sid part) (s_events s) in
     if es = [] then None
     else Some \<lparr>tl_offset = ev_offset (last es), tl_eventDigest = ev_eventDigest (last es)\<rparr>)"
proof -
  let ?es = "filter (on_stream sid part) (s_events s)"
  let ?f = "\<lambda>e. - ev_offset e"
  have offs: "map ev_offset ?es = map int [0..<length ?es]" by (rule chain_ok_offsets[OF assms])
  then have neg: "map ?f ?es = map (\<lambda>i. - int i) [0..<length ?es]"
    by (metis (no_types, lifting) map_map comp_def map_eq_conv)
  have dist: "distinct (map ?f ?es)"
    by (subst neg) (simp add: distinct_map inj_on_def)
  have "sort_key ?f ?es = rev ?es"
  proof (rule map_sorted_distinct_set_unique[where f = ?f])
    show "inj_on ?f (set (sort_key ?f ?es) \<union> set (rev ?es))" using dist by (simp add: distinct_map)
    show "distinct (map ?f (sort_key ?f ?es))" using dist by (simp add: distinct_map)
    show "distinct (map ?f (rev ?es))" using dist by (simp add: distinct_map)
    have "map ?f (rev ?es) = rev (map (\<lambda>i. - int i) [0..<length ?es])"
      by (metis neg rev_map)
    then show "sorted (map ?f (rev ?es))"
      by (auto simp: sorted_iff_nth_mono rev_nth)
  qed simp_all
  then have sk: "sort_key ?f ?es = rev ?es" .
  show ?thesis
  proof (cases ?es rule: rev_cases)
    case Nil
    then show ?thesis by (simp add: getStreamTail_def)
  next
    case (snoc xs x)
    then have "sort_key ?f ?es = x # rev xs" using sk by simp
    then show ?thesis using snoc by (simp add: getStreamTail_def)
  qed
qed

section \<open>Chains built by the code are chained\<close>

definition last_tail :: "stream_event list \<Rightarrow> int \<times> string option" where
  "last_tail es = (if es = [] then (-1, None) else (ev_offset (last es), Some (ev_eventDigest (last es))))"

lemma buildEventAt_Inr:
  assumes "buildEventAt E d b off prev w = (Inr e, w')"
  shows "ev_streamId e = sb_streamId b" "ev_partitionKey e = sb_partitionKey b" "ev_offset e = off"
    "ev_previousEventDigest e = prev" "ev_eventDigest e = digestCanonical E (event_seed e)"
    "stream_event_valid E e"
  using assms
  by (auto simp: buildEventAt_def tbind_Inr_iff event_at_def Let_def event_seed_def)

lemma tailKey_inj:
  "sb_streamId a = sb_streamId b \<Longrightarrow> tailKey a = tailKey b \<longleftrightarrow> sb_partitionKey a = sb_partitionKey b"
  by (simp add: tailKey_def)

lemma build_chain_extends:
  assumes "build_chain E s tails items w = (Inr es, w')"
    and "\<And>d b. (d, b) \<in> set items \<Longrightarrow> sb_streamId b = sid"
    and "\<And>b. sb_streamId b = sid \<Longrightarrow>
       tail_for s tails b = last_tail (filter (on_stream sid (sb_partitionKey b)) (s_events s @ acc))"
    and "\<And>part. chain_ok E (filter (on_stream sid part) (s_events s @ acc))"
  shows "(\<forall>part. chain_ok E (filter (on_stream sid part) (s_events s @ acc @ es)))
    \<and> (\<forall>e \<in> set es. ev_streamId e = sid)"
  using assms
proof (induction E s tails items arbitrary: w es acc rule: build_chain.induct)
  case (1 E s tails)
  then show ?case by simp
next
  case (2 E s tails d b items)
  let ?t = "tail_for s tails b"
  let ?tails = "\<lambda>e. AList.update (tailKey b) (ev_offset e, Some (ev_eventDigest e)) tails"
  obtain e w1 es' where e: "buildEventAt E d b (fst ?t + 1) (snd ?t) w = (Inr e, w1)"
    and es': "build_chain E s (?tails e) items w1 = (Inr es', w')" "es = e # es'"
    using "2.prems"(1) by (auto simp: tbind_Inr_iff Let_def)
  note ev = buildEventAt_Inr[OF e]
  have sb: "sb_streamId b = sid" by (rule "2.prems"(2)[of d]) simp
  let ?old = "\<lambda>part. filter (on_stream sid part) (s_events s @ acc)"
  have tail: "?t = last_tail (?old (sb_partitionKey b))" using "2.prems"(3)[OF sb] .
  have on: "on_stream sid part e \<longleftrightarrow> part = sb_partitionKey b" for part
    using ev(1,2) sb by (auto simp: on_stream_def)
  have chain: "chain_ok E (filter (on_stream sid part) (s_events s @ acc @ [e]))" for part
  proof (cases "part = sb_partitionKey b")
    case True
    have old: "chain_ok E (?old part)" by (rule "2.prems"(4))
    have "ev_offset e = int (length (?old part))"
      using ev(3) tail True chain_ok_last_offset[OF old]
      by (cases "?old part = []") (simp_all add: last_tail_def del: filter_append)
    moreover have "ev_previousEventDigest e = (if ?old part = [] then None else Some (ev_eventDigest (last (?old part))))"
      using ev(4) tail True by (simp add: last_tail_def del: filter_append)
    ultimately have "chain_ok E (?old part @ [e])"
      using old ev(5) by (simp add: chain_ok_snoc del: filter_append)
    then show ?thesis using on True by simp
  next
    case False
    then show ?thesis using "2.prems"(4)[of part] on by simp
  qed
  have tails: "tail_for s (?tails e) b' = last_tail (filter (on_stream sid (sb_partitionKey b')) (s_events s @ acc @ [e]))"
    if b': "sb_streamId b' = sid" for b'
  proof (cases "sb_partitionKey b' = sb_partitionKey b")
    case True
    then have "tailKey b' = tailKey b" using sb b' by (simp add: tailKey_def)
    then show ?thesis using True on by (simp add: tail_for_def map_of_update last_tail_def)
  next
    case False
    then have "tailKey b' \<noteq> tailKey b" using sb b' by (simp add: tailKey_def)
    then have "tail_for s (?tails e) b' = tail_for s tails b'"
      by (simp add: tail_for_def map_of_update)
    then show ?thesis using "2.prems"(3)[OF b'] False on by simp
  qed
  have "(\<forall>part. chain_ok E (filter (on_stream sid part) (s_events s @ (acc @ [e]) @ es')))
      \<and> (\<forall>e \<in> set es'. ev_streamId e = sid)"
    by (rule "2.IH"[OF refl es'(1)]) (use "2.prems"(2) tails chain in auto)
  then show ?case using es'(2) ev(1) sb by simp
qed

text \<open>The streams of descriptors that share a source are the partitions of one stream.\<close>

lemma dedupe_bindings_subset: "set (dedupe_bindings seen bs) \<subseteq> set bs"
  by (induction seen bs rule: dedupe_bindings.induct) auto

lemma streamBindings_id: "b \<in> set (streamBindings d) \<Longrightarrow> sb_streamId b = organizationStreamId (ed_source d)"
  unfolding streamBindings_def Let_def
  by (drule dedupe_bindings_subset[THEN subsetD]) (auto split: option.splits)

definition same_stream :: "string \<Rightarrow> event_descriptor list \<Rightarrow> bool" where
  "same_stream sid ds \<longleftrightarrow> (\<forall>d \<in> set ds. organizationStreamId (ed_source d) = sid)"

lemma chain_items_id: "same_stream sid ds \<Longrightarrow> (d, b) \<in> set (chain_items ds) \<Longrightarrow> sb_streamId b = sid"
  by (auto simp: chain_items_def same_stream_def dest: streamBindings_id)

lemma tail_for_initial:
  assumes "streams_ok E (s_events s)"
  shows "tail_for s [] b = last_tail (filter (on_stream (sb_streamId b) (sb_partitionKey b)) (s_events s))"
  using getStreamTail_chain[of E "sb_streamId b" "sb_partitionKey b" s] assms
  by (auto simp: tail_for_def last_tail_def streams_ok_def Let_def)

lemma buildEventChain_extends:
  assumes "buildEventChain E s ds w = (Inr es, w')" "same_stream sid ds" "streams_ok E (s_events s)"
  shows "streams_ok E (s_events s @ es)" "\<And>e. e \<in> set es \<Longrightarrow> ev_streamId e = sid"
proof -
  have "(\<forall>part. chain_ok E (filter (on_stream sid part) (s_events s @ [] @ es)))
      \<and> (\<forall>e \<in> set es. ev_streamId e = sid)"
  proof (rule build_chain_extends)
    show "build_chain E s [] (chain_items ds) w = (Inr es, w')"
      using assms(1) by (simp add: buildEventChain_def)
  qed (use assms(2,3) tail_for_initial chain_items_id in \<open>auto simp: streams_ok_def\<close>)
  then have part: "chain_ok E (filter (on_stream sid part) (s_events s @ es))"
    and ids: "\<forall>e \<in> set es. ev_streamId e = sid" for part by auto
  show "e \<in> set es \<Longrightarrow> ev_streamId e = sid" for e using ids by simp
  show "streams_ok E (s_events s @ es)"
    unfolding streams_ok_def
  proof (intro allI)
    fix sid' part
    show "chain_ok E (filter (on_stream sid' part) (s_events s @ es))"
    proof (cases "sid' = sid")
      case False
      then have "filter (on_stream sid' part) es = []"
        using ids by (auto simp: filter_empty_conv on_stream_def)
      then show ?thesis using assms(3) by (simp add: streams_ok_def)
    qed (use part in simp)
  qed
qed

text \<open>
  The chain was built on the events of an earlier store; the store that
  accepts it has more events, but none at the chain's offsets.
\<close>

lemma stale_chain_accepted:
  assumes built: "streams_ok E (old @ es)" and now: "streams_ok E (old @ later)"
    and free: "\<And>e x. e \<in> set es \<Longrightarrow> x \<in> set (old @ later) \<Longrightarrow>
      \<not> (ev_streamId x = ev_streamId e \<and> ev_partitionKey x = ev_partitionKey e \<and> ev_offset x = ev_offset e)"
  shows "streams_ok E ((old @ later) @ es)"
  unfolding streams_ok_def
proof (intro allI)
  fix sid part
  let ?on = "filter (on_stream sid part)"
  have built': "chain_ok E (?on old @ ?on es)" and now': "chain_ok E (?on old @ ?on later)"
    using built now by (auto simp: streams_ok_def)
  show "chain_ok E (?on ((old @ later) @ es))"
  proof (cases "?on es")
    case Nil
    then show ?thesis using now' by simp
  next
    case (Cons e rest)
    have off: "ev_offset e = int (length (?on old))"
      using built'[unfolded chain_ok_def, rule_format, of "length (?on old)"] Cons by (simp add: nth_append)
    have "?on later = []"
    proof (rule ccontr)
      assume "?on later \<noteq> []"
      then obtain x xs where x: "?on later = x # xs" by (cases "?on later") auto
      have "ev_offset x = int (length (?on old))"
        using now'[unfolded chain_ok_def, rule_format, of "length (?on old)"] x by (simp add: nth_append)
      moreover have "x \<in> set later" "on_stream sid part x"
        using x by (auto simp: filter_eq_Cons_iff)
      moreover have "e \<in> set es" "on_stream sid part e"
        using Cons by (auto simp: filter_eq_Cons_iff)
      ultimately show False using free[of e x] off by (auto simp: on_stream_def)
    qed
    then show ?thesis using built' by simp
  qed
qed

section \<open>The last digest fixes the stream\<close>

definition payload_ok :: "stream_event \<Rightarrow> bool" where
  "payload_ok e \<longleftrightarrow> jval_ok (JObj (ev_payload e))"

lemma event_seed_ok: "payload_ok e \<Longrightarrow> jval_ok (event_seed e)"
  by (cases "ev_previousEventDigest e")
    (simp_all add: event_seed_def payload_ok_def j_opt_def list_all_iff)

lemma event_seed_fields:
  assumes "jnorm (event_seed a) = jnorm (event_seed b)"
  shows "ev_streamId a = ev_streamId b" "ev_partitionKey a = ev_partitionKey b"
    "ev_offset a = ev_offset b" "ev_eventTime a = ev_eventTime b" "ev_objectRefs a = ev_objectRefs b"
    "event_type_str (ev_eventType a) = event_type_str (ev_eventType b)"
    "ev_previousEventDigest a = ev_previousEventDigest b"
    "jnorm (JObj (ev_payload a)) = jnorm (JObj (ev_payload b))"
proof -
  obtain fa fb where f: "event_seed a = JObj fa" "event_seed b = JObj fb" by (simp add: event_seed_def)
  have "map fst fa = map fst fb" "distinct (map fst fa)"
    using f by (auto simp: event_seed_def)
  then have eq: "map (\<lambda>x. jnorm (snd x)) fa = map (\<lambda>x. jnorm (snd x)) fb"
    using assms f by (intro jnorm_same_keys) simp_all
  have str: "map (jnorm \<circ> JStr) xs = map (jnorm \<circ> JStr) ys \<longleftrightarrow> xs = ys" for xs ys
    by (simp add: comp_def inj_map_eq_map inj_def)
  have opt: "jnorm (j_opt JStr x) = jnorm (j_opt JStr y) \<longleftrightarrow> x = y" for x y
    by (cases x; cases y) (simp_all add: j_opt_def)
  show "ev_streamId a = ev_streamId b" "ev_partitionKey a = ev_partitionKey b"
    "ev_offset a = ev_offset b" "ev_eventTime a = ev_eventTime b" "ev_objectRefs a = ev_objectRefs b"
    "event_type_str (ev_eventType a) = event_type_str (ev_eventType b)"
    "ev_previousEventDigest a = ev_previousEventDigest b"
    "jnorm (JObj (ev_payload a)) = jnorm (JObj (ev_payload b))"
    using eq f by (auto simp: event_seed_def opt str simp del: jnorm.simps(2))
qed

lemma same_digest_same_stream:
  assumes "chain_ok E as" "chain_ok E bs" "as \<noteq> []" "bs \<noteq> []" "collision_free E"
    "list_all payload_ok as" "list_all payload_ok bs"
    "ev_eventDigest (last as) = ev_eventDigest (last bs)"
  shows "map (jnorm \<circ> event_seed) as = map (jnorm \<circ> event_seed) bs"
  using assms
proof (induction as arbitrary: bs rule: rev_induct)
  case (snoc a as)
  obtain b bs' where bs: "bs = bs' @ [b]" using snoc.prems(4) by (cases bs rule: rev_cases) auto
  have a: "chain_ok E as" "ev_offset a = int (length as)"
      "ev_previousEventDigest a = (if as = [] then None else Some (ev_eventDigest (last as)))"
      "ev_eventDigest a = digestCanonical E (event_seed a)"
    and b: "chain_ok E bs'" "ev_offset b = int (length bs')"
      "ev_previousEventDigest b = (if bs' = [] then None else Some (ev_eventDigest (last bs')))"
      "ev_eventDigest b = digestCanonical E (event_seed b)"
    using snoc.prems(1,2) bs by (simp_all add: chain_ok_snoc)
  have ok: "jval_ok (event_seed a)" "jval_ok (event_seed b)"
    using snoc.prems(6,7) bs by (simp_all add: event_seed_ok)
  have seed: "jnorm (event_seed a) = jnorm (event_seed b)"
    using digestCanonical_inj[OF snoc.prems(5) ok] a(4) b(4) snoc.prems(8) bs by simp
  have len: "length as = length bs'" and prev: "ev_previousEventDigest a = ev_previousEventDigest b"
    using event_seed_fields(3,7)[OF seed] a(2) b(2) by simp_all
  show ?case
  proof (cases "as = []")
    case True
    then show ?thesis using bs len seed by simp
  next
    case False
    then have "bs' \<noteq> []" using len by auto
    then have "ev_eventDigest (last as) = ev_eventDigest (last bs')"
      using prev a(3) b(3) False by simp
    then have "map (jnorm \<circ> event_seed) as = map (jnorm \<circ> event_seed) bs'"
      using snoc.IH[OF a(1) b(1) False \<open>bs' \<noteq> []\<close> snoc.prems(5)] snoc.prems(6,7) bs by (simp add: comp_def)
    then show ?thesis using bs seed by (simp add: comp_def)
  qed
qed simp

end
