(* ===== verification/Recorder.thy ===== *)
theory Recorder
  imports Event_Chains
begin

text \<open>
  The transition recorder, after \<open>events/records.ts\<close> and
  \<open>context/request-contexts.ts\<close>: the world of a transition is the store and
  the readings of the clock, records are wrapped with their digest, and a
  commit builds its event chain on the current tails and retries when another
  request took the offsets.  Between building a chain and committing it, the
  operations of other requests happen: \<open>ke_interfere\<close> gives the store they leave.
\<close>

section \<open>The world of a transition\<close>

record world = clockw +
  w_store :: pstore

record request_context_draft =
  rq_protocolVersionSeen :: string
  rq_requestIdentity :: string
  rq_originatingIdentityDigest :: "string option"
  rq_originatingIdentityRef :: "string option"
  rq_callerCustodyRole :: caller_custody_role
  rq_callerIdentityRef :: "string option"
  rq_callerSubjectDigest :: "string option"
  rq_callerTenantId :: "string option"
  rq_callerOrganizationId :: "string option"
  rq_callerIdentityClaimsDigest :: "string option"
  rq_authProviderRef :: "string option"
  rq_authSessionDigest :: "string option"
  rq_serviceCredentialDigest :: "string option"
  rq_revocationEpochRef :: "string option"
  rq_callerIdentityIssuedAt :: "string option"
  rq_callerIdentityExpiresAt :: "string option"
  rq_transitionName :: string
  rq_routePattern :: string
  rq_requestDigest :: string
  rq_acceptedAt :: string

record kernel_env = env +
  ke_interfere :: "nat \<Rightarrow> pstore \<Rightarrow> pstore"
  ke_context :: "request_context_draft option"

type_synonym 'a wtr = "(world, 'a) ptr"

text \<open>Other requests run: the store moves on, and so does the schedule.\<close>

definition interfere :: "kernel_env \<Rightarrow> unit wtr" where
  "interfere E = tupdate (\<lambda>w. w\<lparr>w_store := ke_interfere E (tick w) (w_store w), tick := Suc (tick w)\<rparr>)"

definition store_op :: "(pstore \<Rightarrow> 'a \<times> pstore) \<Rightarrow> 'a wtr" where
  "store_op f = (\<lambda>w. let (r, s) = f (w_store w) in (Inr r, w\<lparr>w_store := s\<rparr>))"

definition store_get :: "(pstore \<Rightarrow> 'a) \<Rightarrow> 'a wtr" where
  "store_get f = tread (\<lambda>w. f (w_store w))"

lemma store_op_apply [simp]: "store_op f w = (Inr (fst (f (w_store w))), w\<lparr>w_store := snd (f (w_store w))\<rparr>)"
  by (simp add: store_op_def split: prod.split)

lemma store_get_apply [simp]: "store_get f w = (Inr (f (w_store w)), w)"
  by (simp add: store_get_def)

text \<open>Reading the clock and making identifiers leave the store alone.\<close>

lemma createId_store: "createId E p w = (r, w') \<Longrightarrow> w_store w' = w_store w"
  by (auto simp: createId_def Let_def)

lemma nowIso_store: "nowIso E w = (r, w') \<Longrightarrow> w_store w' = w_store w"
  by (auto simp: nowIso_def Let_def)

section \<open>Request contexts\<close>

text \<open>The JSON of a record whose own digest is still \<open>null\<close>.\<close>

definition null_field :: "string \<Rightarrow> jval \<Rightarrow> jval" where
  "null_field k v = (case v of JObj fs \<Rightarrow> JObj (map (\<lambda>f. if fst f = k then (k, JNull) else f) fs) | _ \<Rightarrow> v)"

definition request_context_of ::
  "kernel_env \<Rightarrow> request_context_draft \<Rightarrow> string \<Rightarrow> string \<Rightarrow> string \<Rightarrow> transition_request_context" where
  "request_context_of E d tenant org trc_id =
    (let c = \<lparr>schemaVersion = PROTOCOL_VERSION, tenantId = tenant, organizationId = org,
           createdAt = rq_acceptedAt d, trc_transitionRequestContextId = trc_id,
           trc_protocolVersionSeen = rq_protocolVersionSeen d, trc_requestIdentity = rq_requestIdentity d,
           trc_originatingIdentityDigest = rq_originatingIdentityDigest d,
           trc_originatingIdentityRef = rq_originatingIdentityRef d,
           trc_callerCustodyRole = rq_callerCustodyRole d, trc_callerIdentityRef = rq_callerIdentityRef d,
           trc_callerSubjectDigest = rq_callerSubjectDigest d, trc_callerTenantId = rq_callerTenantId d,
           trc_callerOrganizationId = rq_callerOrganizationId d,
           trc_callerIdentityClaimsDigest = rq_callerIdentityClaimsDigest d,
           trc_authProviderRef = rq_authProviderRef d, trc_authSessionDigest = rq_authSessionDigest d,
           trc_serviceCredentialDigest = rq_serviceCredentialDigest d,
           trc_revocationEpochRef = rq_revocationEpochRef d,
           trc_callerIdentityIssuedAt = rq_callerIdentityIssuedAt d,
           trc_callerIdentityExpiresAt = rq_callerIdentityExpiresAt d,
           trc_transitionName = rq_transitionName d, trc_routePattern = rq_routePattern d,
           trc_requestDigest = rq_requestDigest d, trc_acceptedAt = rq_acceptedAt d,
           trc_requestContextDigest = []\<rparr>
     in c\<lparr>trc_requestContextDigest :=
            digestCanonical E (null_field ''requestContextDigest'' (transition_request_context_json c))\<rparr>)"

definition buildTransitionRequestContext ::
  "kernel_env \<Rightarrow> request_context_draft \<Rightarrow> string \<Rightarrow> string \<Rightarrow> transition_request_context wtr" where
  "buildTransitionRequestContext E d tenant org =
     tbind (createId E ''trc'') (\<lambda>trc_id.
     tparse (transition_request_context_valid E) (request_context_of E d tenant org trc_id))"

section \<open>Stored records\<close>

definition buildRecord :: "kernel_env \<Rightarrow> protocol_record \<Rightarrow> stored_record" where
  "buildRecord E r = (let b = record_base r in
     \<lparr>st_objectId = getObjectId r, st_objectType = record_type r, st_tenantId = tenantId b,
      st_organizationId = organizationId b, st_schemaVersion = schemaVersion b,
      st_canonicalDigest = digestCanonical E (record_json r), st_payload = r,
      st_createdAt = createdAt b, st_sourceEventId = None\<rparr>)"

definition requiredRecord :: "protocol_object_type \<Rightarrow> string \<Rightarrow> string \<Rightarrow> stored_record wtr" where
  "requiredRecord t oid code =
     tbind (store_get (getRecord t oid)) (\<lambda>r. case r of
       None \<Rightarrow> tfail (protocol_error code 404)
     | Some x \<Rightarrow> treturn x)"

definition persistTransitionRequestContextIfNeeded :: "kernel_env \<Rightarrow> protocol_record \<Rightarrow> unit wtr" where
  "persistTransitionRequestContextIfNeeded E r = (case ke_context E of
       None \<Rightarrow> treturn ()
     | Some d \<Rightarrow>
        if record_type r = OT_transition_request_context then treturn ()
        else tbind (buildTransitionRequestContext E d (tenantId (record_base r)) (organizationId (record_base r))) (\<lambda>c.
          store_op (\<lambda>s. ((), putRecord (buildRecord E (PR_transition_request_context c)) s))))"

definition persistRecord :: "kernel_env \<Rightarrow> protocol_record \<Rightarrow> unit wtr" where
  "persistRecord E r =
     tbind (store_op (\<lambda>s. ((), putRecord (buildRecord E r) s))) (\<lambda>_.
     persistTransitionRequestContextIfNeeded E r)"

definition persistRecordIfAbsentOrSame :: "kernel_env \<Rightarrow> protocol_record \<Rightarrow> put_result wtr" where
  "persistRecordIfAbsentOrSame E r =
     tbind (store_op (putRecordIfAbsentOrSame (buildRecord E r))) (\<lambda>res.
     if res = Put_conflict then treturn res
     else tbind (persistTransitionRequestContextIfNeeded E r) (\<lambda>_. treturn res))"

section \<open>Committing records with their events\<close>

definition transitionRequestContextRecordFor ::
  "kernel_env \<Rightarrow> string \<Rightarrow> string \<Rightarrow> protocol_record option wtr" where
  "transitionRequestContextRecordFor E tenant org = (case ke_context E of
       None \<Rightarrow> treturn None
     | Some d \<Rightarrow> tbind (buildTransitionRequestContext E d tenant org) (\<lambda>c.
         treturn (Some (PR_transition_request_context c))))"

definition withTransitionRequestContextEventDescriptors ::
  "event_descriptor list \<Rightarrow> protocol_record option \<Rightarrow> event_descriptor list" where
  "withTransitionRequestContextEventDescriptors ds r = (case r of
       Some (PR_transition_request_context c) \<Rightarrow>
         map (\<lambda>d. d\<lparr>ed_objectRefs := trc_transitionRequestContextId c # ed_objectRefs d,
           ed_payload := AList.update ''requestContextDigest'' (JStr (trc_requestContextDigest c))
             (AList.update ''transitionRequestContextId'' (JStr (trc_transitionRequestContextId c)) (ed_payload d))\<rparr>) ds
     | _ \<Rightarrow> ds)"

definition withTransitionRequestContext ::
  "kernel_env \<Rightarrow> protocol_record list \<Rightarrow> event_descriptor list \<Rightarrow> (protocol_record list \<times> event_descriptor list) wtr" where
  "withTransitionRequestContext E rs ds = (case rs of
       [] \<Rightarrow> treturn (rs, ds)
     | r # _ \<Rightarrow>
        tbind (transitionRequestContextRecordFor E (tenantId (record_base r)) (organizationId (record_base r))) (\<lambda>c.
        case c of
          None \<Rightarrow> treturn (rs, ds)
        | Some cr \<Rightarrow> treturn (cr # rs, withTransitionRequestContextEventDescriptors ds c)))"

datatype try_result =
    TC_committed "stream_event list"
  | TC_idempotency_ledger_conflict
  | TC_record_digest_conflict

definition MAX_STREAM_COMMIT_RETRIES :: nat where
  "MAX_STREAM_COMMIT_RETRIES = 3"

fun commit_attempts ::
  "kernel_env \<Rightarrow> stored_record list \<Rightarrow> event_descriptor list \<Rightarrow> commit_options \<Rightarrow> nat \<Rightarrow> try_result wtr" where
  "commit_attempts E rs ds opts 0 = tfail (protocol_error ''stream_append_conflict'' 409)"
| "commit_attempts E rs ds opts (Suc n) =
     tbind (store_get (\<lambda>s. s)) (\<lambda>s.
     tbind (buildEventChain E s ds) (\<lambda>es.
     tbind (interfere E) (\<lambda>_.
     tbind (store_op (commitProtocolRecords (commit_of rs es opts))) (\<lambda>res.
     case res of
       CR_committed \<Rightarrow> treturn (TC_committed es)
     | CR_idempotency_ledger_conflict \<Rightarrow> treturn TC_idempotency_ledger_conflict
     | CR_record_digest_conflict \<Rightarrow> treturn TC_record_digest_conflict
     | CR_greenlight_issuance_conflict \<Rightarrow>
         tfail (protocol_error ''invalid_transition_greenlight_already_issued'' 409)
     | CR_recovery_terminal_conflict \<Rightarrow> tfail (protocol_error ''recovery_terminal_conflict'' 409)
     | CR_stream_conflict \<Rightarrow> commit_attempts E rs ds opts n))))"

definition tryCommitRecordsWithEvents ::
  "kernel_env \<Rightarrow> protocol_record list \<Rightarrow> event_descriptor list \<Rightarrow> commit_options \<Rightarrow> try_result wtr" where
  "tryCommitRecordsWithEvents E rs ds opts =
     tbind (withTransitionRequestContext E rs ds) (\<lambda>(rs', ds').
     commit_attempts E (map (buildRecord E) rs') ds' opts (Suc MAX_STREAM_COMMIT_RETRIES))"

definition commitRecordsWithEvents ::
  "kernel_env \<Rightarrow> protocol_record list \<Rightarrow> event_descriptor list \<Rightarrow> commit_options \<Rightarrow> stream_event list wtr" where
  "commitRecordsWithEvents E rs ds opts =
     tbind (tryCommitRecordsWithEvents E rs ds opts) (\<lambda>res. case res of
       TC_committed es \<Rightarrow> treturn es
     | TC_idempotency_ledger_conflict \<Rightarrow> tfail (protocol_error ''idempotency_ledger_conflict'' 409)
     | TC_record_digest_conflict \<Rightarrow> tfail (protocol_error ''bootstrap_record_digest_conflict'' 409))"

end
