(* ===== verification/Recorder_Laws.thy ===== *)
theory Recorder_Laws
  imports Recorder
begin

text \<open>
  What every transition that commits through the recorder keeps.  The other
  requests are assumed to use the store through its operations and to keep the
  streams chained, as this kernel does (\<open>disciplined\<close>); then a transition
  moves the store along a run of its operations, whether it returns or throws,
  and the streams stay chained.
\<close>

definition disciplined :: "kernel_env \<Rightarrow> bool" where
  "disciplined E \<longleftrightarrow> (\<forall>t s. store_run s (ke_interfere E t s)) \<and>
     (\<forall>t s. streams_ok E (s_events s) \<longrightarrow> streams_ok E (s_events (ke_interfere E t s)))"

definition moves_by_run :: "world \<Rightarrow> world \<Rightarrow> bool" where
  "moves_by_run w w' \<longleftrightarrow> store_run (w_store w) (w_store w')"

abbreviation store_moves :: "'a wtr \<Rightarrow> bool" where
  "store_moves m \<equiv> tkeeps moves_by_run m"

interpretation moves: kept moves_by_run
  by unfold_locales (auto simp: moves_by_run_def)

named_theorems store_moves_intros "transitions move the store by its operations"

lemmas moves_basic [store_moves_intros] = moves.keeps_intros

lemma store_movesI: "(\<And>w r w'. m w = (r, w') \<Longrightarrow> store_run (w_store w) (w_store w')) \<Longrightarrow> store_moves m"
  by (rule moves.keepsI) (simp add: moves_by_run_def)

lemma store_movesD: "store_moves m \<Longrightarrow> m w = (r, w') \<Longrightarrow> store_run (w_store w) (w_store w')"
  by (auto dest: moves.keepsD simp: moves_by_run_def)

lemma moves_store_get [store_moves_intros]: "store_moves (store_get f)"
  unfolding store_get_def by (rule moves.keeps_basic)

lemma moves_parse [store_moves_intros]: "store_moves (tparse ok r)"
  unfolding tparse_def by (rule moves.keeps_basic)

lemma moves_createId [store_moves_intros]: "store_moves (createId E p)"
  by (rule store_movesI) (auto dest: createId_store)

lemma moves_nowIso [store_moves_intros]: "store_moves (nowIso E)"
  by (rule store_movesI) (auto dest: nowIso_store)

lemma moves_guard [store_moves_intros]: "store_moves (require_guard g)"
  by (auto simp: require_guard_def split: sum.split intro: store_moves_intros)

lemma moves_store_op: "(\<And>s. store_step s (snd (f s))) \<Longrightarrow> store_moves (store_op f)"
  by (rule store_movesI) auto

lemma moves_commit [store_moves_intros]: "store_moves (store_op (commitProtocolRecords c))"
  by (rule moves_store_op) (rule step_commit)

lemma moves_gateway [store_moves_intros]: "store_moves (store_op (commitGatewayCheck c))"
  by (rule moves_store_op) (rule step_gateway)

lemma moves_put [store_moves_intros]: "store_moves (store_op (\<lambda>s. ((), putRecord r s)))"
  by (rule moves_store_op) (simp add: step_put)

lemma moves_put_absent [store_moves_intros]: "store_moves (store_op (putRecordIfAbsentOrSame r))"
  by (rule moves_store_op) (rule step_put_absent)

lemma moves_interfere: "disciplined E \<Longrightarrow> store_moves (interfere E)"
  by (rule store_movesI) (auto simp: interfere_def disciplined_def)

lemma buildEventAt_store: "buildEventAt E d b off prev w = (r, w') \<Longrightarrow> w_store w' = w_store w"
  by (auto simp: buildEventAt_def tbind_def tparse_apply split: sum.splits prod.splits if_splits
      dest!: createId_store nowIso_store)

lemma build_chain_store: "build_chain E s tails items w = (r, w') \<Longrightarrow> w_store w' = w_store (w :: world)"
proof (induction E s tails items arbitrary: w r rule: build_chain.induct)
  case (2 E s tails d b items)
  let ?t = "tail_for s tails b"
  obtain r1 w1 where e: "buildEventAt E d b (fst ?t + 1) (snd ?t) w = (r1, w1)"
    by (cases "buildEventAt E d b (fst ?t + 1) (snd ?t) w") auto
  show ?case
  proof (cases r1)
    case (Inl x)
    then show ?thesis using "2.prems" e buildEventAt_store[OF e] by (simp add: Let_def)
  next
    case (Inr x)
    then show ?thesis
      using "2.prems" e buildEventAt_store[OF e] "2.IH"[OF refl]
      by (auto simp: tbind_def Let_def split: prod.splits sum.splits)
  qed
qed simp

lemma buildEventChain_store: "buildEventChain E s ds w = (r, w') \<Longrightarrow> w_store w' = w_store (w :: world)"
  by (auto simp: buildEventChain_def dest: build_chain_store)

lemma moves_chain [store_moves_intros]: "store_moves (buildEventChain E s ds)"
  by (rule store_movesI) (auto dest: buildEventChain_store)

lemma moves_commit_attempts:
  assumes "disciplined E"
  shows "store_moves (commit_attempts E rs ds opts n)"
proof (induction n)
  case (Suc n)
  have cases: "store_moves (case res of
       CR_committed \<Rightarrow> treturn (TC_committed es)
     | CR_idempotency_ledger_conflict \<Rightarrow> treturn TC_idempotency_ledger_conflict
     | CR_record_digest_conflict \<Rightarrow> treturn TC_record_digest_conflict
     | CR_greenlight_issuance_conflict \<Rightarrow>
         tfail (protocol_error ''invalid_transition_greenlight_already_issued'' 409)
     | CR_recovery_terminal_conflict \<Rightarrow> tfail (protocol_error ''recovery_terminal_conflict'' 409)
     | CR_stream_conflict \<Rightarrow> commit_attempts E rs ds opts n)" for res es
    by (cases res) (simp_all add: moves.keeps_basic Suc.IH)
  show ?case
    unfolding commit_attempts.simps by (intro store_moves_intros moves_interfere[OF assms] cases)
qed (unfold commit_attempts.simps, rule moves.keeps_basic)

lemma moves_context [store_moves_intros]:
  "store_moves (buildTransitionRequestContext E d t o')"
  "store_moves (transitionRequestContextRecordFor E t o')"
  "store_moves (withTransitionRequestContext E rs ds)"
proof -
  show a: "store_moves (buildTransitionRequestContext E d t o')" for d t o'
    unfolding buildTransitionRequestContext_def by (intro store_moves_intros)
  show b: "store_moves (transitionRequestContextRecordFor E t o')" for t o'
    unfolding transitionRequestContextRecordFor_def
    by (auto intro!: store_moves_intros a split: option.split)
  show "store_moves (withTransitionRequestContext E rs ds)"
    unfolding withTransitionRequestContext_def
    by (auto intro!: store_moves_intros b split: list.split option.split)
qed

lemma moves_tryCommit:
  "disciplined E \<Longrightarrow> store_moves (tryCommitRecordsWithEvents E rs ds opts)"
  unfolding tryCommitRecordsWithEvents_def
  by (intro store_moves_intros moves_commit_attempts)

lemma moves_commitRecords:
  "disciplined E \<Longrightarrow> store_moves (commitRecordsWithEvents E rs ds opts)"
  unfolding commitRecordsWithEvents_def
  by (auto intro!: store_moves_intros moves_tryCommit split: try_result.split)

lemma moves_persist [store_moves_intros]:
  "store_moves (persistRecord E r)" "store_moves (persistRecordIfAbsentOrSame E r)"
  unfolding persistRecord_def persistRecordIfAbsentOrSame_def persistTransitionRequestContextIfNeeded_def
  by (auto intro!: store_moves_intros split: option.split)

section \<open>Chained streams survive every transition\<close>

lemma hasStreamOffset_iff:
  "hasStreamOffset e s \<longleftrightarrow> (\<exists>x \<in> set (s_events s). ev_streamId x = ev_streamId e \<and>
     ev_partitionKey x = ev_partitionKey e \<and> ev_offset x = ev_offset e)"
  by (auto simp: hasStreamOffset_def list_ex_iff)

lemma commit_of_simps [simp]:
  "cm_records (commit_of rs es opts) = rs" "cm_events (commit_of rs es opts) = es"
  "co_issuanceClaims (commit_of rs es opts) = co_issuanceClaims opts"
  "co_ledgerReservations (commit_of rs es opts) = co_ledgerReservations opts"
  "co_ledgerEntries (commit_of rs es opts) = co_ledgerEntries opts"
  "co_recoveryClaims (commit_of rs es opts) = co_recoveryClaims opts"
  "co_postureEntries (commit_of rs es opts) = co_postureEntries opts"
  "co_isolationEntries (commit_of rs es opts) = co_isolationEntries opts"
  "co_operationClaims (commit_of rs es opts) = co_operationClaims opts"
  "co_operationClaimReleases (commit_of rs es opts) = co_operationClaimReleases opts"
  "co_receiptEntries (commit_of rs es opts) = co_receiptEntries opts"
  "co_absentOrSame (commit_of rs es opts) = co_absentOrSame opts"
  by (simp_all add: commit_of_def commit_options.defs)

lemma stale_commit_streams_ok:
  assumes E: "disciplined E" and ok: "streams_ok E (s_events s)"
    and built: "buildEventChain E s ds w = (Inr es, w')" "same_stream sid ds"
    and now: "t = ke_interfere E n s" and free: "\<not> list_ex (\<lambda>e. hasStreamOffset e t) es"
  shows "streams_ok E (s_events t @ es)"
proof -
  have "store_run s t" "streams_ok E (s_events t)"
    using E ok now by (auto simp: disciplined_def)
  then obtain later where later: "s_events t = s_events s @ later"
    using event_log.runs_append by blast
  have "streams_ok E ((s_events s @ later) @ es)"
    using buildEventChain_extends(1)[OF built(1,2) ok] \<open>streams_ok E (s_events t)\<close> free later
    by (intro stale_chain_accepted) (auto simp: list_ex_iff hasStreamOffset_iff)
  then show ?thesis using later by simp
qed

lemma commit_attempts_streams_ok:
  assumes "disciplined E" "same_stream sid ds" "streams_ok E (s_events (w_store w))"
    "commit_attempts E rs ds opts n w = (r, w')"
  shows "streams_ok E (s_events (w_store w'))"
  using assms(3,4)
proof (induction n arbitrary: w)
  case (Suc n)
  obtain x w1 where chain: "buildEventChain E (w_store w) ds w = (x, w1)"
    by (cases "buildEventChain E (w_store w) ds w") auto
  have st1: "w_store w1 = w_store w" using chain by (rule buildEventChain_store)
  show ?case
  proof (cases x)
    case (Inl e)
    then show ?thesis using Suc.prems chain st1 by simp
  next
    case (Inr es)
    let ?t = "ke_interfere E (tick w1) (w_store w)"
    let ?c = "commit_of rs es opts"
    let ?w2 = "w1\<lparr>tick := Suc (tick w1), w_store := snd (commitProtocolRecords ?c ?t)\<rparr>"
    obtain res u where cm: "commitProtocolRecords ?c ?t = (res, u)" by (cases "commitProtocolRecords ?c ?t") auto
    have okt: "streams_ok E (s_events ?t)"
      using assms(1) Suc.prems(1) by (simp add: disciplined_def)
    have oku: "streams_ok E (s_events u)"
    proof (cases "res = CR_committed")
      case True
      then have "s_events u = s_events ?t @ es" "\<not> list_ex (\<lambda>e. hasStreamOffset e ?t) es"
        using cm commitProtocolRecords_committedD(4,5)[of ?c ?t u] by auto
      then show ?thesis
        using stale_commit_streams_ok[OF assms(1) Suc.prems(1) _ assms(2) refl] chain Inr by simp
    next
      case False
      then show ?thesis using commitProtocolRecords_rejected[OF cm] okt by simp
    qed
    have run: "commit_attempts E rs ds opts (Suc n) w = (case res of
         CR_committed \<Rightarrow> treturn (TC_committed es)
       | CR_idempotency_ledger_conflict \<Rightarrow> treturn TC_idempotency_ledger_conflict
       | CR_record_digest_conflict \<Rightarrow> treturn TC_record_digest_conflict
       | CR_greenlight_issuance_conflict \<Rightarrow>
           tfail (protocol_error ''invalid_transition_greenlight_already_issued'' 409)
       | CR_recovery_terminal_conflict \<Rightarrow> tfail (protocol_error ''recovery_terminal_conflict'' 409)
       | CR_stream_conflict \<Rightarrow> commit_attempts E rs ds opts n) ?w2"
      using chain Inr st1 cm by (simp add: interfere_def)
    have st2: "w_store ?w2 = u" using cm by simp
    show ?thesis
      using Suc.prems(2) run st2 oku Suc.IH[of ?w2]
      by (cases res) auto
  qed
qed simp

lemma same_stream_context:
  "same_stream sid (withTransitionRequestContextEventDescriptors ds r) \<longleftrightarrow> same_stream sid ds"
  by (auto simp: withTransitionRequestContextEventDescriptors_def same_stream_def
      split: option.split protocol_record.split)

lemma withContext_store:
  "withTransitionRequestContext E rs ds w = (r, w') \<Longrightarrow> w_store w' = w_store w"
  by (auto simp: withTransitionRequestContext_def transitionRequestContextRecordFor_def
      buildTransitionRequestContext_def tbind_def tparse_apply
      split: list.splits option.splits sum.splits prod.splits if_splits dest!: createId_store)

lemma withContext_descriptors:
  "withTransitionRequestContext E rs ds w = (Inr (rs', ds'), w') \<Longrightarrow>
     \<exists>c. ds' = withTransitionRequestContextEventDescriptors ds c \<and> (rs' = rs \<or> (\<exists>x. rs' = PR_transition_request_context x # rs))"
  by (auto simp: withTransitionRequestContext_def tbind_Inr_iff transitionRequestContextRecordFor_def
      withTransitionRequestContextEventDescriptors_def
      split: list.splits option.splits intro: exI[of _ None])

lemma tryCommit_streams_ok:
  assumes "disciplined E" "same_stream sid ds" "streams_ok E (s_events (w_store w))"
    "tryCommitRecordsWithEvents E rs ds opts w = (r, w')"
  shows "streams_ok E (s_events (w_store w'))"
proof -
  obtain x w1 where ctx: "withTransitionRequestContext E rs ds w = (x, w1)"
    by (cases "withTransitionRequestContext E rs ds w") auto
  have st: "w_store w1 = w_store w" using ctx by (rule withContext_store)
  show ?thesis
  proof (cases x)
    case (Inl e)
    then show ?thesis using assms(3,4) ctx st by (simp add: tryCommitRecordsWithEvents_def)
  next
    case (Inr y)
    obtain rs' ds' where y: "y = (rs', ds')" by (cases y)
    have "same_stream sid ds'"
      using withContext_descriptors[of E rs ds w rs' ds' w1] ctx Inr y assms(2) same_stream_context by blast
    moreover have "commit_attempts E (map (buildRecord E) rs') ds' opts (Suc MAX_STREAM_COMMIT_RETRIES) w1 = (r, w')"
      using assms(4) ctx Inr y by (simp add: tryCommitRecordsWithEvents_def del: commit_attempts.simps)
    ultimately show ?thesis
      using commit_attempts_streams_ok[OF assms(1)] assms(3) st by metis
  qed
qed

section \<open>A reported commit happened\<close>

lemma commit_attempts_committed:
  assumes "disciplined E" "commit_attempts E rs ds opts n w = (Inr (TC_committed es), w')"
  shows "\<exists>s. store_run (w_store w) s \<and> commitProtocolRecords (commit_of rs es opts) s = (CR_committed, w_store w')"
  using assms(2)
proof (induction n arbitrary: w)
  case (Suc n)
  obtain es0 w1 where chain: "buildEventChain E (w_store w) ds w = (Inr es0, w1)"
    using Suc.prems by (auto simp: tbind_Inr_iff)
  have st1: "w_store w1 = w_store w" using chain by (rule buildEventChain_store)
  let ?t = "ke_interfere E (tick w1) (w_store w)"
  obtain res u where cm: "commitProtocolRecords (commit_of rs es0 opts) ?t = (res, u)"
    by (cases "commitProtocolRecords (commit_of rs es0 opts) ?t") auto
  have run: "store_run (w_store w) ?t" using assms(1) by (simp add: disciplined_def)
  show ?case
  proof (cases res)
    case CR_committed
    then have "es = es0" "w_store w' = u"
      using Suc.prems chain st1 cm by (auto simp: interfere_def)
    then show ?thesis using cm CR_committed run by auto
  next
    case CR_stream_conflict
    have u: "u = ?t" using commitProtocolRecords_rejected[OF cm] CR_stream_conflict by simp
    have "commit_attempts E rs ds opts n (w1\<lparr>tick := Suc (tick w1), w_store := u\<rparr>) = (Inr (TC_committed es), w')"
      using Suc.prems chain st1 cm CR_stream_conflict by (simp add: interfere_def)
    from Suc.IH[OF this] show ?thesis using u run by (auto intro: rtranclp_trans)
  qed (use Suc.prems chain st1 cm in \<open>simp_all add: interfere_def\<close>)
qed simp

lemma tryCommit_committed:
  assumes "disciplined E" "tryCommitRecordsWithEvents E rs ds opts w = (Inr (TC_committed es), w')"
  shows "\<exists>rs' s. (rs' = rs \<or> (\<exists>c. rs' = PR_transition_request_context c # rs)) \<and> store_run (w_store w) s \<and>
    commitProtocolRecords (commit_of (map (buildRecord E) rs') es opts) s = (CR_committed, w_store w')"
proof -
  obtain rs' ds' w1 where ctx: "withTransitionRequestContext E rs ds w = (Inr (rs', ds'), w1)"
    and com: "commit_attempts E (map (buildRecord E) rs') ds' opts (Suc MAX_STREAM_COMMIT_RETRIES) w1
      = (Inr (TC_committed es), w')"
    using assms(2) unfolding tryCommitRecordsWithEvents_def
    by (auto simp: tbind_Inr_iff simp del: commit_attempts.simps)
  have "w_store w1 = w_store w" using ctx by (rule withContext_store)
  then show ?thesis
    using commit_attempts_committed[OF assms(1) com] withContext_descriptors[OF ctx] by auto
qed

lemma commitRecords_committed:
  assumes "disciplined E" "commitRecordsWithEvents E rs ds opts w = (Inr es, w')"
  shows "\<exists>rs' s. (rs' = rs \<or> (\<exists>c. rs' = PR_transition_request_context c # rs)) \<and> store_run (w_store w) s \<and>
    commitProtocolRecords (commit_of (map (buildRecord E) rs') es opts) s = (CR_committed, w_store w')"
proof -
  obtain r w1 where "tryCommitRecordsWithEvents E rs ds opts w = (Inr r, w1)"
    "(case r of TC_committed es \<Rightarrow> treturn es
       | TC_idempotency_ledger_conflict \<Rightarrow> tfail (protocol_error ''idempotency_ledger_conflict'' 409)
       | TC_record_digest_conflict \<Rightarrow> tfail (protocol_error ''bootstrap_record_digest_conflict'' 409)) w1 = (Inr es, w')"
    using assms(2) unfolding commitRecordsWithEvents_def by (auto simp: tbind_Inr_iff)
  then have "tryCommitRecordsWithEvents E rs ds opts w = (Inr (TC_committed es), w')"
    by (cases r) auto
  then show ?thesis by (rule tryCommit_committed[OF assms(1)])
qed

end
