(* ===== verification/Records.thy ===== *)
theory Records
  imports Recorder_Laws
begin

text \<open>
  Reading records at their type.  The code casts what the store returns
  (\<open>getRecord<T>\<close>); the model reads the payload only when it has the type of the
  key it is stored under, which \<open>typed_store\<close> says of every stored record and
  every operation of the recorder keeps.
\<close>

section \<open>Payloads\<close>

named_theorems payload_simps "reading a payload at its type"

definition as_action_contract :: "protocol_record \<Rightarrow> action_contract option" where
  "as_action_contract r = (case r of PR_action_contract x \<Rightarrow> Some x | _ \<Rightarrow> None)"

lemma as_action_contract_iff [payload_simps]: "as_action_contract r = Some x \<longleftrightarrow> r = PR_action_contract x"
  by (cases r) (auto simp: as_action_contract_def)

lemma as_action_contract_same [simp]: "as_action_contract (PR_action_contract x) = Some x"
  by (simp add: payload_simps)

definition as_greenlight :: "protocol_record \<Rightarrow> greenlight option" where
  "as_greenlight r = (case r of PR_greenlight x \<Rightarrow> Some x | _ \<Rightarrow> None)"

lemma as_greenlight_iff [payload_simps]: "as_greenlight r = Some x \<longleftrightarrow> r = PR_greenlight x"
  by (cases r) (auto simp: as_greenlight_def)

lemma as_greenlight_same [simp]: "as_greenlight (PR_greenlight x) = Some x"
  by (simp add: payload_simps)

definition as_policy_decision :: "protocol_record \<Rightarrow> policy_decision option" where
  "as_policy_decision r = (case r of PR_policy_decision x \<Rightarrow> Some x | _ \<Rightarrow> None)"

lemma as_policy_decision_iff [payload_simps]: "as_policy_decision r = Some x \<longleftrightarrow> r = PR_policy_decision x"
  by (cases r) (auto simp: as_policy_decision_def)

lemma as_policy_decision_same [simp]: "as_policy_decision (PR_policy_decision x) = Some x"
  by (simp add: payload_simps)

definition as_receipt :: "protocol_record \<Rightarrow> receipt option" where
  "as_receipt r = (case r of PR_receipt x \<Rightarrow> Some x | _ \<Rightarrow> None)"

lemma as_receipt_iff [payload_simps]: "as_receipt r = Some x \<longleftrightarrow> r = PR_receipt x"
  by (cases r) (auto simp: as_receipt_def)

lemma as_receipt_same [simp]: "as_receipt (PR_receipt x) = Some x"
  by (simp add: payload_simps)

definition as_surface_operation_reconciliation :: "protocol_record \<Rightarrow> surface_operation_reconciliation option" where
  "as_surface_operation_reconciliation r = (case r of PR_surface_operation_reconciliation x \<Rightarrow> Some x | _ \<Rightarrow> None)"

lemma as_surface_operation_reconciliation_iff [payload_simps]: "as_surface_operation_reconciliation r = Some x \<longleftrightarrow> r = PR_surface_operation_reconciliation x"
  by (cases r) (auto simp: as_surface_operation_reconciliation_def)

lemma as_surface_operation_reconciliation_same [simp]: "as_surface_operation_reconciliation (PR_surface_operation_reconciliation x) = Some x"
  by (simp add: payload_simps)

definition as_gateway_registry_entry :: "protocol_record \<Rightarrow> gateway_registry_entry option" where
  "as_gateway_registry_entry r = (case r of PR_gateway_registry_entry x \<Rightarrow> Some x | _ \<Rightarrow> None)"

lemma as_gateway_registry_entry_iff [payload_simps]: "as_gateway_registry_entry r = Some x \<longleftrightarrow> r = PR_gateway_registry_entry x"
  by (cases r) (auto simp: as_gateway_registry_entry_def)

lemma as_gateway_registry_entry_same [simp]: "as_gateway_registry_entry (PR_gateway_registry_entry x) = Some x"
  by (simp add: payload_simps)

definition as_operating_envelope :: "protocol_record \<Rightarrow> operating_envelope option" where
  "as_operating_envelope r = (case r of PR_operating_envelope x \<Rightarrow> Some x | _ \<Rightarrow> None)"

lemma as_operating_envelope_iff [payload_simps]: "as_operating_envelope r = Some x \<longleftrightarrow> r = PR_operating_envelope x"
  by (cases r) (auto simp: as_operating_envelope_def)

lemma as_operating_envelope_same [simp]: "as_operating_envelope (PR_operating_envelope x) = Some x"
  by (simp add: payload_simps)

definition as_protected_path_posture :: "protocol_record \<Rightarrow> protected_path_posture option" where
  "as_protected_path_posture r = (case r of PR_protected_path_posture x \<Rightarrow> Some x | _ \<Rightarrow> None)"

lemma as_protected_path_posture_iff [payload_simps]: "as_protected_path_posture r = Some x \<longleftrightarrow> r = PR_protected_path_posture x"
  by (cases r) (auto simp: as_protected_path_posture_def)

lemma as_protected_path_posture_same [simp]: "as_protected_path_posture (PR_protected_path_posture x) = Some x"
  by (simp add: payload_simps)

definition as_gateway_credential_ref :: "protocol_record \<Rightarrow> gateway_credential_ref option" where
  "as_gateway_credential_ref r = (case r of PR_gateway_credential_ref x \<Rightarrow> Some x | _ \<Rightarrow> None)"

lemma as_gateway_credential_ref_iff [payload_simps]: "as_gateway_credential_ref r = Some x \<longleftrightarrow> r = PR_gateway_credential_ref x"
  by (cases r) (auto simp: as_gateway_credential_ref_def)

lemma as_gateway_credential_ref_same [simp]: "as_gateway_credential_ref (PR_gateway_credential_ref x) = Some x"
  by (simp add: payload_simps)

definition as_delegated_authority_ref :: "protocol_record \<Rightarrow> delegated_authority_ref option" where
  "as_delegated_authority_ref r = (case r of PR_delegated_authority_ref x \<Rightarrow> Some x | _ \<Rightarrow> None)"

lemma as_delegated_authority_ref_iff [payload_simps]: "as_delegated_authority_ref r = Some x \<longleftrightarrow> r = PR_delegated_authority_ref x"
  by (cases r) (auto simp: as_delegated_authority_ref_def)

lemma as_delegated_authority_ref_same [simp]: "as_delegated_authority_ref (PR_delegated_authority_ref x) = Some x"
  by (simp add: payload_simps)

definition as_agreement_obligation_binding :: "protocol_record \<Rightarrow> agreement_obligation_binding option" where
  "as_agreement_obligation_binding r = (case r of PR_agreement_obligation_binding x \<Rightarrow> Some x | _ \<Rightarrow> None)"

lemma as_agreement_obligation_binding_iff [payload_simps]: "as_agreement_obligation_binding r = Some x \<longleftrightarrow> r = PR_agreement_obligation_binding x"
  by (cases r) (auto simp: as_agreement_obligation_binding_def)

lemma as_agreement_obligation_binding_same [simp]: "as_agreement_obligation_binding (PR_agreement_obligation_binding x) = Some x"
  by (simp add: payload_simps)

definition as_linked_agreement :: "protocol_record \<Rightarrow> linked_agreement option" where
  "as_linked_agreement r = (case r of PR_linked_agreement x \<Rightarrow> Some x | _ \<Rightarrow> None)"

lemma as_linked_agreement_iff [payload_simps]: "as_linked_agreement r = Some x \<longleftrightarrow> r = PR_linked_agreement x"
  by (cases r) (auto simp: as_linked_agreement_def)

lemma as_linked_agreement_same [simp]: "as_linked_agreement (PR_linked_agreement x) = Some x"
  by (simp add: payload_simps)

definition as_negotiation_session :: "protocol_record \<Rightarrow> negotiation_session option" where
  "as_negotiation_session r = (case r of PR_negotiation_session x \<Rightarrow> Some x | _ \<Rightarrow> None)"

lemma as_negotiation_session_iff [payload_simps]: "as_negotiation_session r = Some x \<longleftrightarrow> r = PR_negotiation_session x"
  by (cases r) (auto simp: as_negotiation_session_def)

lemma as_negotiation_session_same [simp]: "as_negotiation_session (PR_negotiation_session x) = Some x"
  by (simp add: payload_simps)

definition as_negotiation_offer :: "protocol_record \<Rightarrow> negotiation_offer option" where
  "as_negotiation_offer r = (case r of PR_negotiation_offer x \<Rightarrow> Some x | _ \<Rightarrow> None)"

lemma as_negotiation_offer_iff [payload_simps]: "as_negotiation_offer r = Some x \<longleftrightarrow> r = PR_negotiation_offer x"
  by (cases r) (auto simp: as_negotiation_offer_def)

lemma as_negotiation_offer_same [simp]: "as_negotiation_offer (PR_negotiation_offer x) = Some x"
  by (simp add: payload_simps)

definition as_agreement_status_transition :: "protocol_record \<Rightarrow> agreement_status_transition option" where
  "as_agreement_status_transition r = (case r of PR_agreement_status_transition x \<Rightarrow> Some x | _ \<Rightarrow> None)"

lemma as_agreement_status_transition_iff [payload_simps]: "as_agreement_status_transition r = Some x \<longleftrightarrow> r = PR_agreement_status_transition x"
  by (cases r) (auto simp: as_agreement_status_transition_def)

lemma as_agreement_status_transition_same [simp]: "as_agreement_status_transition (PR_agreement_status_transition x) = Some x"
  by (simp add: payload_simps)

definition as_review_decision :: "protocol_record \<Rightarrow> review_decision option" where
  "as_review_decision r = (case r of PR_review_decision x \<Rightarrow> Some x | _ \<Rightarrow> None)"

lemma as_review_decision_iff [payload_simps]: "as_review_decision r = Some x \<longleftrightarrow> r = PR_review_decision x"
  by (cases r) (auto simp: as_review_decision_def)

lemma as_review_decision_same [simp]: "as_review_decision (PR_review_decision x) = Some x"
  by (simp add: payload_simps)

definition as_idempotency_ledger_entry :: "protocol_record \<Rightarrow> idempotency_ledger_entry option" where
  "as_idempotency_ledger_entry r = (case r of PR_idempotency_ledger_entry x \<Rightarrow> Some x | _ \<Rightarrow> None)"

lemma as_idempotency_ledger_entry_iff [payload_simps]: "as_idempotency_ledger_entry r = Some x \<longleftrightarrow> r = PR_idempotency_ledger_entry x"
  by (cases r) (auto simp: as_idempotency_ledger_entry_def)

lemma as_idempotency_ledger_entry_same [simp]: "as_idempotency_ledger_entry (PR_idempotency_ledger_entry x) = Some x"
  by (simp add: payload_simps)

definition as_protected_surface_operation_claim :: "protocol_record \<Rightarrow> surface_operation_claim option" where
  "as_protected_surface_operation_claim r = (case r of PR_protected_surface_operation_claim x \<Rightarrow> Some x | _ \<Rightarrow> None)"

lemma as_protected_surface_operation_claim_iff [payload_simps]: "as_protected_surface_operation_claim r = Some x \<longleftrightarrow> r = PR_protected_surface_operation_claim x"
  by (cases r) (auto simp: as_protected_surface_operation_claim_def)

lemma as_protected_surface_operation_claim_same [simp]: "as_protected_surface_operation_claim (PR_protected_surface_operation_claim x) = Some x"
  by (simp add: payload_simps)

definition as_mutation_attempt :: "protocol_record \<Rightarrow> mutation_attempt option" where
  "as_mutation_attempt r = (case r of PR_mutation_attempt x \<Rightarrow> Some x | _ \<Rightarrow> None)"

lemma as_mutation_attempt_iff [payload_simps]: "as_mutation_attempt r = Some x \<longleftrightarrow> r = PR_mutation_attempt x"
  by (cases r) (auto simp: as_mutation_attempt_def)

lemma as_mutation_attempt_same [simp]: "as_mutation_attempt (PR_mutation_attempt x) = Some x"
  by (simp add: payload_simps)

definition as_gateway_check_attempt :: "protocol_record \<Rightarrow> gateway_check_attempt option" where
  "as_gateway_check_attempt r = (case r of PR_gateway_check_attempt x \<Rightarrow> Some x | _ \<Rightarrow> None)"

lemma as_gateway_check_attempt_iff [payload_simps]: "as_gateway_check_attempt r = Some x \<longleftrightarrow> r = PR_gateway_check_attempt x"
  by (cases r) (auto simp: as_gateway_check_attempt_def)

lemma as_gateway_check_attempt_same [simp]: "as_gateway_check_attempt (PR_gateway_check_attempt x) = Some x"
  by (simp add: payload_simps)

definition as_proof_gap :: "protocol_record \<Rightarrow> proof_gap option" where
  "as_proof_gap r = (case r of PR_proof_gap x \<Rightarrow> Some x | _ \<Rightarrow> None)"

lemma as_proof_gap_iff [payload_simps]: "as_proof_gap r = Some x \<longleftrightarrow> r = PR_proof_gap x"
  by (cases r) (auto simp: as_proof_gap_def)

lemma as_proof_gap_same [simp]: "as_proof_gap (PR_proof_gap x) = Some x"
  by (simp add: payload_simps)

definition as_isolation_state :: "protocol_record \<Rightarrow> isolation_state option" where
  "as_isolation_state r = (case r of PR_isolation_state x \<Rightarrow> Some x | _ \<Rightarrow> None)"

lemma as_isolation_state_iff [payload_simps]: "as_isolation_state r = Some x \<longleftrightarrow> r = PR_isolation_state x"
  by (cases r) (auto simp: as_isolation_state_def)

lemma as_isolation_state_same [simp]: "as_isolation_state (PR_isolation_state x) = Some x"
  by (simp add: payload_simps)

definition as_bypass_probe :: "protocol_record \<Rightarrow> bypass_probe option" where
  "as_bypass_probe r = (case r of PR_bypass_probe x \<Rightarrow> Some x | _ \<Rightarrow> None)"

lemma as_bypass_probe_iff [payload_simps]: "as_bypass_probe r = Some x \<longleftrightarrow> r = PR_bypass_probe x"
  by (cases r) (auto simp: as_bypass_probe_def)

lemma as_bypass_probe_same [simp]: "as_bypass_probe (PR_bypass_probe x) = Some x"
  by (simp add: payload_simps)

text \<open>A failed check: its reason code and the reason that records keep.\<close>

type_synonym failure = "string \<times> string"

section \<open>Typed reads\<close>

definition find_payload ::
  "(protocol_record \<Rightarrow> 'a option) \<Rightarrow> protocol_object_type \<Rightarrow> string \<Rightarrow> pstore \<Rightarrow> 'a option" where
  "find_payload as t oid s = (case getRecord t oid s of None \<Rightarrow> None | Some r \<Rightarrow> as (st_payload r))"

definition payload_of :: "(protocol_record \<Rightarrow> 'a option) \<Rightarrow> stored_record option \<Rightarrow> 'a option" where
  "payload_of as r = (case r of None \<Rightarrow> None | Some x \<Rightarrow> as (st_payload x))"

definition payloads :: "(protocol_record \<Rightarrow> 'a option) \<Rightarrow> stored_record list \<Rightarrow> 'a list" where
  "payloads as rs = List.map_filter (\<lambda>r. as (st_payload r)) rs"

definition requiredPayload ::
  "(protocol_record \<Rightarrow> 'a option) \<Rightarrow> protocol_object_type \<Rightarrow> string \<Rightarrow> string \<Rightarrow> 'a wtr" where
  "requiredPayload as t oid code =
     tbind (requiredRecord t oid code) (\<lambda>r. case as (st_payload r) of
       None \<Rightarrow> tfail (protocol_error code 404)
     | Some x \<Rightarrow> treturn x)"

definition scope_of :: "'a protocol_base_scheme \<Rightarrow> record_scope" where
  "scope_of r = \<lparr>sc_tenantId = Some (tenantId r), sc_organizationId = Some (organizationId r)\<rparr>"

definition sameScope :: "'a protocol_base_scheme \<Rightarrow> 'b protocol_base_scheme \<Rightarrow> bool" where
  "sameScope l r \<longleftrightarrow> tenantId l = tenantId r \<and> organizationId l = organizationId r"

lemma requiredPayload_Inr:
  "requiredPayload as t oid code w = (Inr x, w') \<longleftrightarrow> w' = w \<and> find_payload as t oid (w_store w) = Some x"
  by (auto simp: requiredPayload_def requiredRecord_def find_payload_def tbind_Inr_iff split: option.splits)

lemma moves_required [store_moves_intros]:
  "store_moves (requiredRecord t oid code)" "store_moves (requiredPayload as t oid code)"
  unfolding requiredPayload_def requiredRecord_def by (intro store_moves_intros)+

section \<open>Transitions that leave the store alone\<close>

definition same_store :: "world \<Rightarrow> world \<Rightarrow> bool" where
  "same_store w w' \<longleftrightarrow> w_store w' = w_store w"

abbreviation reads_only :: "'a wtr \<Rightarrow> bool" where
  "reads_only m \<equiv> tkeeps same_store m"

interpretation reads: kept same_store
  by unfold_locales (auto simp: same_store_def)

named_theorems reads_only_intros "transitions that leave the store alone"

lemmas reads_combine [reads_only_intros] = reads.keeps_intros

lemma reads_onlyI: "(\<And>w r w'. m w = (r, w') \<Longrightarrow> w_store w' = w_store w) \<Longrightarrow> reads_only m"
  by (rule reads.keepsI) (simp add: same_store_def)

lemma reads_onlyD: "reads_only m \<Longrightarrow> m w = (r, w') \<Longrightarrow> w_store w' = w_store w"
  by (auto dest: reads.keepsD simp: same_store_def)

lemma reads_only_moves: "reads_only m \<Longrightarrow> store_moves m"
  by (rule store_movesI) (auto dest: reads_onlyD)

lemma reads_basic [reads_only_intros]:
  "reads_only (store_get h)" "reads_only (tparse ok y)" "reads_only (createId E p)" "reads_only (nowIso E)"
  by (rule reads_onlyI; auto simp: tparse_apply split: if_splits dest: createId_store nowIso_store)+

lemma reads_guard [reads_only_intros]: "reads_only (require_guard g)"
  by (auto simp: require_guard_def split: sum.split intro: reads_only_intros)

lemma reads_required [reads_only_intros]:
  "reads_only (requiredRecord t oid code)" "reads_only (requiredPayload as t oid code)"
  by (rule reads_onlyI; auto simp: requiredPayload_def requiredRecord_def tbind_def split: option.splits)+

section \<open>Transitions that keep the streams chained\<close>

definition streams_order :: "kernel_env \<Rightarrow> world \<Rightarrow> world \<Rightarrow> bool" where
  "streams_order E w w' \<longleftrightarrow> (streams_ok E (s_events (w_store w)) \<longrightarrow> streams_ok E (s_events (w_store w')))"

abbreviation keeps_streams :: "kernel_env \<Rightarrow> 'a wtr \<Rightarrow> bool" where
  "keeps_streams E m \<equiv> tkeeps (streams_order E) m"

interpretation streams: kept "streams_order E" for E
  by unfold_locales (auto simp: streams_order_def)

named_theorems streams_intros "transitions that keep the streams chained"

lemmas streams_combine [streams_intros] = streams.keeps_intros

lemma reads_only_streams: "reads_only m \<Longrightarrow> keeps_streams E m"
  by (rule streams.keepsI) (auto simp: streams_order_def dest: reads_onlyD)

lemma streams_tryCommit:
  "disciplined E \<Longrightarrow> same_stream sid ds \<Longrightarrow> keeps_streams E (tryCommitRecordsWithEvents E rs ds opts)"
  by (rule streams.keepsI) (auto simp: streams_order_def dest: tryCommit_streams_ok)

lemma streams_commitRecords:
  assumes "disciplined E" "same_stream sid ds"
  shows "keeps_streams E (commitRecordsWithEvents E rs ds opts)"
  unfolding commitRecordsWithEvents_def
proof (intro streams_intros streams_tryCommit[OF assms])
  show "keeps_streams E (case res of
       TC_committed es \<Rightarrow> treturn es
     | TC_idempotency_ledger_conflict \<Rightarrow> tfail (protocol_error ''idempotency_ledger_conflict'' 409)
     | TC_record_digest_conflict \<Rightarrow> tfail (protocol_error ''bootstrap_record_digest_conflict'' 409))" for res
    by (cases res) (simp_all add: streams.keeps_basic)
qed

section \<open>Typed stores\<close>

definition typed_record :: "stored_record \<Rightarrow> bool" where
  "typed_record r \<longleftrightarrow> record_type (st_payload r) = st_objectType r"

definition typed_store :: "pstore \<Rightarrow> bool" where
  "typed_store s \<longleftrightarrow> (\<forall>k r. map_of (s_records s) k = Some r \<longrightarrow> typed_record r)"

lemma typed_buildRecord [simp]: "typed_record (buildRecord E r)"
  by (simp add: typed_record_def buildRecord_def Let_def)

lemma typed_event_record [simp]: "typed_record (event_record e)"
  by (simp add: typed_record_def event_record_def)

lemma typed_set_all:
  assumes "\<forall>k r. map_of m k = Some r \<longrightarrow> typed_record r" "\<forall>x \<in> set xs. typed_record x"
  shows "\<forall>k r. map_of (set_all key xs m) k = Some r \<longrightarrow> typed_record r"
  using assms set_all_lookup_cases by metis

lemma typed_putRecord: "typed_store s \<Longrightarrow> typed_record r \<Longrightarrow> typed_store (putRecord r s)"
  by (auto simp: typed_store_def putRecord_def map_of_update)

lemma typed_stage:
  assumes "typed_store s" "\<forall>r \<in> set rs. typed_record r"
  shows "typed_store (stageRecordsAndEvents rs es s)"
proof -
  have 1: "\<forall>k r. map_of (s_records s) k = Some r \<longrightarrow> typed_record r"
    using assms(1) by (simp add: typed_store_def)
  have 2: "\<forall>k r. map_of (set_all stored_key rs (s_records s)) k = Some r \<longrightarrow> typed_record r"
    by (rule typed_set_all[OF 1 assms(2)])
  have 3: "\<forall>x \<in> set (map event_record es). typed_record x" by simp
  have "\<forall>k r. map_of (set_all stored_key (map event_record es) (set_all stored_key rs (s_records s))) k = Some r
      \<longrightarrow> typed_record r"
    by (rule typed_set_all[OF 2 3])
  then show ?thesis by (simp add: typed_store_def stageRecordsAndEvents_def)
qed

lemma typed_commit:
  assumes "typed_store s" "\<forall>r \<in> set (cm_records c). typed_record r"
  shows "typed_store (snd (commitProtocolRecords c s))"
proof -
  have "typed_store (s\<lparr>s_issuance := a, s_ledger := b, s_recovery := d, s_isolation := e,
      s_postures := f, s_claims := g, s_receipts := h\<rparr>)" for a b d e f g h
    using assms(1) by (simp add: typed_store_def)
  then show ?thesis using assms typed_stage by (simp add: commitProtocolRecords_def)
qed

lemma typed_gateway_commit:
  assumes "typed_store s" "\<forall>r \<in> set (gk_records c). typed_record r"
  shows "typed_store (snd (commitGatewayCheck c s))"
proof -
  have "typed_store (s\<lparr>s_consumptions := a, s_claims := b, s_ledger := d, s_receipts := h\<rparr>)" for a b d h
    using assms(1) by (simp add: typed_store_def)
  then show ?thesis using assms typed_stage by (simp add: commitGatewayCheck_def)
qed

text \<open>In a typed store a contract is missed only when it is not there.\<close>

lemma record_type_contract: "record_type r = OT_action_contract \<longleftrightarrow> (\<exists>c. r = PR_action_contract c)"
  by (cases r) simp_all

lemma typed_find_contract:
  assumes "typed_store s" "getRecord OT_action_contract oid s = Some r" "st_objectType r = OT_action_contract"
  shows "\<exists>c. find_payload as_action_contract OT_action_contract oid s = Some c"
proof -
  have "typed_record r" using assms(1,2) by (auto simp: typed_store_def getRecord_def)
  then obtain c where "st_payload r = PR_action_contract c"
    using assms(3) by (auto simp: typed_record_def record_type_contract)
  then show ?thesis using assms(2) by (simp add: find_payload_def)
qed

section \<open>What a commit stores\<close>

lemma stored_key_buildRecord [simp]:
  "stored_key (buildRecord E r) = recordKey (record_type r) (getObjectId r)"
  by (simp add: stored_key_def buildRecord_def Let_def)

lemma payload_buildRecord [simp]: "st_payload (buildRecord E r) = r"
  by (simp add: buildRecord_def Let_def)

text \<open>Records of distinct types never overwrite one another, nor do event records overwrite them.\<close>

lemma staged_lookup:
  assumes "distinct (map record_type rs)" "r \<in> set rs" "record_type r \<noteq> OT_contract_stream_event"
  shows "map_of (set_all stored_key (map event_record es) (set_all stored_key (map (buildRecord E) rs) m))
     (recordKey (record_type r) (getObjectId r)) = Some (buildRecord E r)"
proof -
  have ev: "recordKey (record_type r) (getObjectId r) \<notin> stored_key ` set (map event_record es)"
    using assms(3) by (auto simp: stored_key_def event_record_def recordKey_inj)
  have "distinct (map stored_key (map (buildRecord E) rs))"
    using assms(1) by (induction rs) (auto simp: recordKey_inj image_iff)
  then have "map_of (set_all stored_key (map (buildRecord E) rs) m) (stored_key (buildRecord E r)) = Some (buildRecord E r)"
    using assms(2) by (intro set_all_distinct) auto
  then show ?thesis using ev by (simp add: set_all_other)
qed

lemma commit_stores:
  assumes "commitProtocolRecords (commit_of (map (buildRecord E) rs) es opts) s = (CR_committed, t)"
    "distinct (map record_type rs)" "r \<in> set rs" "record_type r \<noteq> OT_contract_stream_event"
  shows "getRecord (record_type r) (getObjectId r) t = Some (buildRecord E r)"
  using commitProtocolRecords_committedD(6)[OF assms(1)] staged_lookup[OF assms(2-4)]
  by (simp add: getRecord_def)

lemma gateway_stores:
  assumes "commitGatewayCheck c s = (GR_committed, t)" "gk_records c = map (buildRecord E) rs"
    "distinct (map record_type rs)" "r \<in> set rs" "record_type r \<noteq> OT_contract_stream_event"
  shows "getRecord (record_type r) (getObjectId r) t = Some (buildRecord E r)"
  using commitGatewayCheck_committedD(5)[OF assms(1)] staged_lookup[OF assms(3-5)] assms(2)
  by (simp add: getRecord_def)

lemma find_payload_built:
  "getRecord t i s = Some (buildRecord E r) \<Longrightarrow> find_payload as t i s = as r"
  by (simp add: find_payload_def)

end
