(* ===== verification/Posture.thy ===== *)
theory Posture
  imports Records
begin

text \<open>
  Protected path postures, after \<open>areas/protected-path-posture/\<close> and
  \<open>credential-custody/custody-posture.ts\<close>: recording a posture with its bypass
  probes, and the check that a contract's required posture is met.
\<close>

section \<open>Scope\<close>

definition postureScopeKey ::
  "string \<Rightarrow> string \<Rightarrow> string \<Rightarrow> string \<Rightarrow> string \<Rightarrow> string \<Rightarrow> string" where
  "postureScopeKey tenant org runtime gateway action resource =
     join ''|'' [''tenant:'' @ tenant, ''org:'' @ org, ''runtime:'' @ runtime, ''gateway:'' @ gateway,
                 ''action:'' @ action, ''resource:'' @ resource]"

definition postureScopeKeyForContract :: "'a action_contract_scheme \<Rightarrow> string" where
  "postureScopeKeyForContract c = postureScopeKey (tenantId c) (organizationId c) (ac_runtimeAdapterId c)
     (ac_gatewayId c) (ac_actionClass c) (ac_resourceRef c)"

section \<open>What satisfies a gateway-checked path\<close>

definition credentialCustodyCanSatisfyGatewayChecked :: "credential_custody_status \<Rightarrow> bool" where
  "credentialCustodyCanSatisfyGatewayChecked c \<longleftrightarrow>
     c \<in> {CCS_gateway_held, CCS_fixture_gateway_held, CCS_gateway_resolved_from_vault, CCS_provider_gateway_held}"

definition sourceAuthorityCanSatisfyGatewayChecked :: "posture_source_authority \<Rightarrow> bool" where
  "sourceAuthorityCanSatisfyGatewayChecked a \<longleftrightarrow> a \<in> {PSA_gateway_probe, PSA_hosted_monitor}"

definition gatewayCanSatisfyGatewayChecked :: "credential_custody_status \<Rightarrow> gateway_enforcement_mode \<Rightarrow> bool" where
  "gatewayCanSatisfyGatewayChecked custody mode \<longleftrightarrow> credentialCustodyCanSatisfyGatewayChecked custody \<and>
     mode \<in> {GEM_reference_fixture, GEM_customer_gateway_adapter, GEM_provider_gateway}"

definition requiredGatewayCheckedBypassProbeKinds :: "bypass_probe_kind list" where
  "requiredGatewayCheckedBypassProbeKinds = [BPK_credential_custody, BPK_raw_sibling_blocking,
     BPK_mcp_direct_call_blocking, BPK_token_passthrough_blocking, BPK_wrapper_drift, BPK_failure_closed]"

text \<open>\<open>new Map(coverage.map(...))\<close>: the last coverage entry of a kind counts.\<close>

definition coverageByKind ::
  "protected_path_posture \<Rightarrow> bypass_probe_kind \<Rightarrow> protected_path_bypass_probe_coverage option" where
  "coverageByKind p k = map_of (rev (map (\<lambda>c. (ppc_probeKind c, c)) (pp_bypassProbeCoverage p))) k"

fun probe_coverage_failure :: "protected_path_posture \<Rightarrow> bypass_probe_kind list \<Rightarrow> failure option" where
  "probe_coverage_failure p [] = None"
| "probe_coverage_failure p (k # ks) = (case coverageByKind p k of
       None \<Rightarrow> Some (''protected_path_probe_missing'',
              ''Current gateway_checked posture is missing required '' @ bypass_probe_kind_str k @ '' bypass probe evidence.'')
     | Some c \<Rightarrow>
        if ppc_probeOutcome c \<noteq> BPO_passed then Some (''protected_path_probe_failed'',
              ''Current gateway_checked posture has non-passing '' @ bypass_probe_kind_str k @ '' bypass probe evidence.'')
        else if \<not> sourceAuthorityCanSatisfyGatewayChecked (ppc_sourceAuthority c)
          then Some (''protected_path_probe_source_authority_weak'',
              ''Current gateway_checked posture has '' @ bypass_probe_kind_str k @ '' bypass probe evidence from a weak source authority.'')
        else probe_coverage_failure p ks)"

definition evaluateGatewayCheckedProbeCoverage :: "protected_path_posture \<Rightarrow> failure option" where
  "evaluateGatewayCheckedProbeCoverage p =
     probe_coverage_failure p requiredGatewayCheckedBypassProbeKinds"

text \<open>\<open>None\<close> is \<open>ok: true\<close>, otherwise the reason code and reason of the failure.\<close>

definition evaluateRequiredProtectedPathPosture ::
  "'a action_contract_scheme \<Rightarrow> credential_custody_status \<Rightarrow> gateway_enforcement_mode
    \<Rightarrow> protected_path_posture option \<Rightarrow> string \<Rightarrow> failure option" where
  "evaluateRequiredProtectedPathPosture c custody mode posture now =
    (if ac_requiredProtectedPathState c = RPP_not_required then None
     else if \<not> gatewayCanSatisfyGatewayChecked custody mode then Some (''gateway_registry_not_enforcing'',
                 ''Gateway registry metadata cannot satisfy required gateway_checked posture.'')
     else (case posture of
         None \<Rightarrow> Some (''protected_path_posture_missing'',
                 ''Required protected path posture is missing for this runtime, gateway, action, and resource.'')
       | Some p \<Rightarrow>
          if tenantId p \<noteq> tenantId c \<or> organizationId p \<noteq> organizationId c
            then Some (''protected_path_posture_scope_mismatch'',
                 ''Current protected path posture scope does not match the action contract.'')
          else if pp_gatewayId p \<noteq> ac_gatewayId c \<or> pp_actionClass p \<noteq> ac_actionClass c \<or>
              pp_protectedSurfaceKind p \<noteq> ac_protectedSurfaceKind c \<or> pp_resourceRef p \<noteq> ac_resourceRef c
            then Some (''protected_path_posture_binding_mismatch'',
                 ''Current protected path posture does not bind to the same gateway, protected surface, action class, and resource.'')
          else if date_le (pp_expiresAt p) now then Some (''protected_path_posture_stale'',
                 ''Current protected path posture is stale.'')
          else if pp_postureState p \<noteq> PPS_gateway_checked
            then Some (''protected_path_posture_not_gateway_checked'',
                 ''Current protected path posture is not gateway_checked.'')
          else if \<not> sourceAuthorityCanSatisfyGatewayChecked (pp_sourceAuthority p)
            then Some (''protected_path_source_authority_weak'',
                 ''Current protected path posture source authority cannot satisfy required gateway_checked posture.'')
          else if \<not> credentialCustodyCanSatisfyGatewayChecked (pp_credentialCustodyStatus p)
            then Some (''protected_path_credential_custody_unsafe'',
                 ''Current protected path posture says mutation credentials are not held by the gateway boundary.'')
          else if pp_rawSiblingToolStatus p \<notin> {RSTS_absent, RSTS_blocked}
            then Some (''protected_path_raw_sibling_tool_present'',
                 ''Current protected path posture leaves a raw sibling mutation tool present or unknown.'')
          else evaluateGatewayCheckedProbeCoverage p))"

definition loadCurrentPostureForContract :: "'a action_contract_scheme \<Rightarrow> pstore \<Rightarrow> protected_path_posture option" where
  "loadCurrentPostureForContract c s =
     payload_of as_protected_path_posture (getCurrentProtectedPathPosture (postureScopeKeyForContract c) s)"

definition protectedPathPolicyInput :: "protected_path_posture option \<Rightarrow> string \<Rightarrow> jval" where
  "protectedPathPolicyInput posture now = (case posture of
       None \<Rightarrow> JObj [(''protectedPathPostureId'', JNull), (''protectedPathPostureDigest'', JNull),
                 (''postureState'', JNull), (''freshness'', JStr ''missing'')]
     | Some p \<Rightarrow> JObj
         [(''protectedPathPostureId'', JStr (pp_protectedPathPostureId p)),
          (''protectedPathPostureDigest'', JStr (pp_postureDigest p)),
          (''postureState'', JStr (protected_path_state_str (pp_postureState p))),
          (''bypassProbeIds'', JArr (map JStr (pp_bypassProbeIds p))),
          (''bypassProbeDigests'', JArr (map JStr (pp_bypassProbeDigests p))),
          (''freshness'', JStr (if date_less now (pp_expiresAt p) then ''fresh'' else ''stale''))])"

section \<open>Recording a posture\<close>

record posture_input =
  ppi_tenantId :: string
  ppi_organizationId :: string
  ppi_runtimeAdapterId :: string
  ppi_gatewayId :: string
  ppi_actionClass :: string
  ppi_resourceRef :: string
  ppi_protectedSurfaceKind :: string
  ppi_postureState :: protected_path_state
  ppi_credentialCustodyStatus :: credential_custody_status
  ppi_rawSiblingToolStatus :: raw_sibling_tool_status
  ppi_sourceAuthority :: posture_source_authority
  ppi_reasonCodes :: "string list"
  ppi_evidenceRefs :: "string list"
  ppi_bypassProbeIds :: "string list"
  ppi_observedAt :: "string option"
  ppi_expiresAt :: string

definition posture_input_valid :: "'e env_scheme \<Rightarrow> posture_input \<Rightarrow> bool" where
  "posture_input_valid E i \<longleftrightarrow>
     1 \<le> length (ppi_tenantId i) \<and> 1 \<le> length (ppi_organizationId i) \<and>
     1 \<le> length (ppi_runtimeAdapterId i) \<and> 1 \<le> length (ppi_gatewayId i) \<and>
     1 \<le> length (ppi_actionClass i) \<and> 1 \<le> length (ppi_resourceRef i) \<and>
     1 \<le> length (ppi_protectedSurfaceKind i) \<and> list_all (\<lambda>x. 2 \<le> length x) (ppi_reasonCodes i) \<and>
     list_all (\<lambda>x. 1 \<le> length x) (ppi_evidenceRefs i) \<and> list_all (\<lambda>x. 1 \<le> length x) (ppi_bypassProbeIds i) \<and>
     opt_ok (iso_ok E) (ppi_observedAt i) \<and> iso_ok E (ppi_expiresAt i)"

definition input_scope_key :: "posture_input \<Rightarrow> string" where
  "input_scope_key i = postureScopeKey (ppi_tenantId i) (ppi_organizationId i) (ppi_runtimeAdapterId i)
     (ppi_gatewayId i) (ppi_actionClass i) (ppi_resourceRef i)"

fun loadBypassProbes :: "string \<Rightarrow> string \<Rightarrow> string list \<Rightarrow> bypass_probe list wtr" where
  "loadBypassProbes key now [] = treturn []"
| "loadBypassProbes key now (i # ids) =
     tbind (requiredPayload as_bypass_probe OT_bypass_probe i ''protected_path_probe_missing'') (\<lambda>p.
     if bp_postureScopeKey p \<noteq> key then tfail (protocol_error ''protected_path_probe_scope_mismatch'' 409)
     else if date_le (bp_expiresAt p) now then tfail (protocol_error ''protected_path_probe_stale'' 409)
     else tbind (loadBypassProbes key now ids) (\<lambda>ps. treturn (p # ps)))"

definition postureDigestMaterial ::
  "posture_input \<Rightarrow> string \<Rightarrow> string \<Rightarrow> string list \<Rightarrow> string list \<Rightarrow> jval" where
  "postureDigestMaterial i observedAt key ids digests = JObj
     [(''postureScopeKey'', JStr key),
      (''runtimeAdapterId'', JStr (ppi_runtimeAdapterId i)),
      (''gatewayId'', JStr (ppi_gatewayId i)),
      (''actionClass'', JStr (ppi_actionClass i)),
      (''resourceRef'', JStr (ppi_resourceRef i)),
      (''protectedSurfaceKind'', JStr (ppi_protectedSurfaceKind i)),
      (''postureState'', JStr (protected_path_state_str (ppi_postureState i))),
      (''credentialCustodyStatus'', JStr (credential_custody_status_str (ppi_credentialCustodyStatus i))),
      (''rawSiblingToolStatus'', JStr (raw_sibling_tool_status_str (ppi_rawSiblingToolStatus i))),
      (''sourceAuthority'', JStr (posture_source_authority_str (ppi_sourceAuthority i))),
      (''reasonCodes'', JArr (map JStr (ppi_reasonCodes i))),
      (''evidenceRefs'', JArr (map JStr (ppi_evidenceRefs i))),
      (''bypassProbeIds'', JArr (map JStr ids)),
      (''bypassProbeDigests'', JArr (map JStr digests)),
      (''observedAt'', JStr observedAt),
      (''expiresAt'', JStr (ppi_expiresAt i))]"

definition probe_coverage :: "bypass_probe \<Rightarrow> protected_path_bypass_probe_coverage" where
  "probe_coverage p = \<lparr>ppc_bypassProbeId = bp_bypassProbeId p, ppc_probeKind = bp_probeKind p,
     ppc_probeOutcome = bp_probeOutcome p, ppc_sourceAuthority = bp_sourceAuthority p,
     ppc_probeDigest = bp_probeDigest p\<rparr>"

definition posture_of ::
  "'e env_scheme \<Rightarrow> posture_input \<Rightarrow> string \<Rightarrow> string \<Rightarrow> string \<Rightarrow> bypass_probe list \<Rightarrow> protected_path_posture" where
  "posture_of E i now observedAt pid probes =
    (let ids = map bp_bypassProbeId probes; digests = map bp_probeDigest probes; key = input_scope_key i in
     \<lparr>schemaVersion = PROTOCOL_VERSION, tenantId = ppi_tenantId i, organizationId = ppi_organizationId i,
      createdAt = now, pp_protectedPathPostureId = pid, pp_postureScopeKey = key,
      pp_runtimeAdapterId = ppi_runtimeAdapterId i, pp_gatewayId = ppi_gatewayId i,
      pp_actionClass = ppi_actionClass i, pp_resourceRef = ppi_resourceRef i,
      pp_protectedSurfaceKind = ppi_protectedSurfaceKind i, pp_postureState = ppi_postureState i,
      pp_credentialCustodyStatus = ppi_credentialCustodyStatus i,
      pp_rawSiblingToolStatus = ppi_rawSiblingToolStatus i, pp_sourceAuthority = ppi_sourceAuthority i,
      pp_reasonCodes = ppi_reasonCodes i, pp_evidenceRefs = ppi_evidenceRefs i,
      pp_bypassProbeIds = ids, pp_bypassProbeDigests = digests,
      pp_bypassProbeCoverage = map probe_coverage probes, pp_observedAt = observedAt,
      pp_expiresAt = ppi_expiresAt i,
      pp_postureDigest = digestCanonical E (postureDigestMaterial i observedAt key ids digests)\<rparr>)"

definition posture_events :: "protected_path_posture \<Rightarrow> event_descriptor list" where
  "posture_events r =
     [\<lparr>ed_source = protocol_base.truncate r, ed_eventType = ET_protected_path_posture_recorded,
       ed_objectRefs = [pp_protectedPathPostureId r, pp_postureScopeKey r, pp_postureDigest r],
       ed_payload = [(''postureScopeKey'', JStr (pp_postureScopeKey r)),
         (''postureState'', JStr (protected_path_state_str (pp_postureState r))),
         (''credentialCustodyStatus'', JStr (credential_custody_status_str (pp_credentialCustodyStatus r))),
         (''rawSiblingToolStatus'', JStr (raw_sibling_tool_status_str (pp_rawSiblingToolStatus r)))],
       ed_streamRefs = None\<rparr>]"

definition createProtectedPathPosture :: "kernel_env \<Rightarrow> posture_input \<Rightarrow> protected_path_posture wtr" where
  "createProtectedPathPosture E input =
     tbind (tparse (posture_input_valid E) input) (\<lambda>i.
     tbind (nowIso E) (\<lambda>now.
     tbind (createId E ''ppp'') (\<lambda>pid.
     tbind (loadBypassProbes (input_scope_key i) now (ppi_bypassProbeIds i)) (\<lambda>probes.
     tbind (tparse (protected_path_posture_valid E)
        (posture_of E i now (case ppi_observedAt i of Some t \<Rightarrow> t | None \<Rightarrow> now) pid probes)) (\<lambda>r.
     tbind (commitRecordsWithEvents E [PR_protected_path_posture r] (posture_events r)
        (no_options\<lparr>co_postureEntries :=
          [\<lparr>pi_postureScopeKey = pp_postureScopeKey r, pi_protectedPathPostureId = pp_protectedPathPostureId r,
            pi_tenantId = tenantId r, pi_organizationId = organizationId r, pi_updatedAt = now\<rparr>]\<rparr>)) (\<lambda>_.
     treturn r))))))"

section \<open>The contract of the check\<close>

text \<open>
  What a satisfied gateway-checked path is, stated without the order of the
  code's tests: an enforcing gateway, a fresh posture of exactly this path in
  the gateway-checked state from a trusted source, and a passed probe of every
  required kind from a trusted source.
\<close>

definition probes_cover :: "protected_path_posture \<Rightarrow> bool" where
  "probes_cover p \<longleftrightarrow> (\<forall>k \<in> set requiredGatewayCheckedBypassProbeKinds. \<exists>c. coverageByKind p k = Some c \<and>
     ppc_probeOutcome c = BPO_passed \<and> sourceAuthorityCanSatisfyGatewayChecked (ppc_sourceAuthority c))"

definition posture_binds :: "protected_path_posture \<Rightarrow> 'a action_contract_scheme \<Rightarrow> bool" where
  "posture_binds p c \<longleftrightarrow> tenantId p = tenantId c \<and> organizationId p = organizationId c \<and>
     pp_gatewayId p = ac_gatewayId c \<and> pp_actionClass p = ac_actionClass c \<and>
     pp_protectedSurfaceKind p = ac_protectedSurfaceKind c \<and> pp_resourceRef p = ac_resourceRef c"

definition path_satisfied ::
  "'a action_contract_scheme \<Rightarrow> credential_custody_status \<Rightarrow> gateway_enforcement_mode
    \<Rightarrow> protected_path_posture option \<Rightarrow> string \<Rightarrow> bool" where
  "path_satisfied c custody mode posture now \<longleftrightarrow>
     ac_requiredProtectedPathState c = RPP_not_required \<or>
     (gatewayCanSatisfyGatewayChecked custody mode \<and>
      (\<exists>p. posture = Some p \<and> posture_binds p c \<and> \<not> date_le (pp_expiresAt p) now \<and>
         pp_postureState p = PPS_gateway_checked \<and>
         sourceAuthorityCanSatisfyGatewayChecked (pp_sourceAuthority p) \<and>
         credentialCustodyCanSatisfyGatewayChecked (pp_credentialCustodyStatus p) \<and>
         pp_rawSiblingToolStatus p \<in> {RSTS_absent, RSTS_blocked} \<and> probes_cover p))"

lemma probe_coverage_failure_None:
  "probe_coverage_failure p ks = None \<longleftrightarrow> (\<forall>k \<in> set ks. \<exists>c. coverageByKind p k = Some c \<and>
     ppc_probeOutcome c = BPO_passed \<and> sourceAuthorityCanSatisfyGatewayChecked (ppc_sourceAuthority c))"
  by (induction ks) (auto split: option.splits if_splits)

lemma evaluateRequired_None:
  "evaluateRequiredProtectedPathPosture c custody mode posture now = None \<longleftrightarrow>
     path_satisfied c custody mode posture now"
  by (cases posture)
    (auto simp: evaluateRequiredProtectedPathPosture_def path_satisfied_def posture_binds_def probes_cover_def
      evaluateGatewayCheckedProbeCoverage_def probe_coverage_failure_None)

lemma moves_loadProbes [store_moves_intros]: "store_moves (loadBypassProbes key now ids)"
proof (induction ids)
  case Nil
  then show ?case by (simp only: loadBypassProbes.simps) (rule moves.keeps_basic)
next
  case (Cons i ids)
  then show ?case unfolding loadBypassProbes.simps by (intro store_moves_intros)
qed

lemma moves_createPosture: "disciplined E \<Longrightarrow> store_moves (createProtectedPathPosture E i)"
  unfolding createProtectedPathPosture_def by (intro store_moves_intros moves_commitRecords)

end
