(* ===== verification/Bindings.thy ===== *)
theory Bindings
  imports Posture
begin

text \<open>
  The credential and authority references a contract binds, after
  \<open>credential-custody/transitions.ts\<close> and \<open>delegated-authority/transitions.ts\<close>:
  each stored reference must be the one that was bound, in the same scope, with
  the same provider or policy material, fresh, in safe custody and within its
  per-action amount.  An evaluation stops at the first failing binding and
  keeps, for the policy input digest, what it looked at.
\<close>

record binding_evaluation =
  be_failure :: "failure option"
  be_policyInput :: "jval list"

fun evaluate_bindings ::
  "('b \<Rightarrow> 'r option) \<Rightarrow> ('b \<Rightarrow> 'r option \<Rightarrow> jval) \<Rightarrow> ('b \<Rightarrow> 'r option \<Rightarrow> failure option) \<Rightarrow> 'b list
    \<Rightarrow> binding_evaluation" where
  "evaluate_bindings load inp check [] = \<lparr>be_failure = None, be_policyInput = []\<rparr>"
| "evaluate_bindings load inp check (b # bs) =
     (let ref = load b in
      case check b ref of
        Some f \<Rightarrow> \<lparr>be_failure = Some f, be_policyInput = [inp b ref]\<rparr>
      | None \<Rightarrow> (let rest = evaluate_bindings load inp check bs in
          rest\<lparr>be_policyInput := inp b ref # be_policyInput rest\<rparr>))"

lemma evaluate_bindings_ok:
  "be_failure (evaluate_bindings load inp check bs) = None \<longleftrightarrow> (\<forall>b \<in> set bs. check b (load b) = None)"
  by (induction bs) (auto simp: Let_def split: option.splits)

text \<open>The first failing binding decides.\<close>

lemma evaluate_bindings_failure:
  "be_failure (evaluate_bindings load inp check bs) =
     (case dropWhile (\<lambda>b. check b (load b) = None) bs of [] \<Rightarrow> None | b # _ \<Rightarrow> check b (load b))"
  by (induction bs) (auto simp: Let_def split: option.splits list.splits)

section \<open>Gateway credentials\<close>

definition credential_in_scope :: "gateway_credential_ref \<Rightarrow> 'a action_contract_scheme \<Rightarrow> bool" where
  "credential_in_scope ref c \<longleftrightarrow>
     \<not> (gcr_gatewayId ref \<noteq> ac_gatewayId c \<or>
        gcr_gatewayRegistryEntryId ref \<noteq> ac_gatewayRegistryEntryId c \<or>
        gcr_protectedSurfaceKind ref \<noteq> ac_protectedSurfaceKind c \<or>
        ac_actionClass c \<notin> set (gcr_actionClasses ref) \<or>
        (''*'' \<notin> set (gcr_resourceRefs ref) \<and> ac_resourceRef c \<notin> set (gcr_resourceRefs ref)) \<or>
        (gcr_principalId ref \<noteq> None \<and> gcr_principalId ref \<noteq> Some (ac_principalId c)))"

definition evaluateGatewayCredentialBinding ::
  "'a action_contract_scheme \<Rightarrow> string \<Rightarrow> gateway_credential_binding \<Rightarrow> gateway_credential_ref option \<Rightarrow> failure option" where
  "evaluateGatewayCredentialBinding c now b r = (case r of
       None \<Rightarrow> Some (''gateway_credential_ref_missing'',
         ''Action contract references a gateway credential ref that is not stored.'')
     | Some ref \<Rightarrow>
        if gcr_gatewayCredentialRefDigest ref \<noteq> gcb_gatewayCredentialRefDigest b
          then Some (''gateway_credential_ref_digest_mismatch'',
            ''Stored gateway credential ref digest does not match the contract binding.'')
        else if tenantId ref \<noteq> tenantId c \<or> organizationId ref \<noteq> organizationId c
          then Some (''gateway_credential_ref_scope_mismatch'',
            ''Gateway credential ref tenant or organization does not match the action contract.'')
        else if \<not> credential_in_scope ref c
          then Some (''gateway_credential_ref_scope_mismatch'',
            ''Gateway credential ref does not bind to the same gateway, action class, principal, or resource.'')
        else if gcr_providerRegistryRef ref \<noteq> gcb_providerRegistryRef b
          then Some (''gateway_credential_ref_provider_drift'',
            ''Gateway credential ref provider registry ref drifted from the contract binding.'')
        else if gcb_providerRegistryDigest b \<noteq> None \<and> gcr_providerRegistryDigest ref \<noteq> None \<and>
            gcb_providerRegistryDigest b \<noteq> gcr_providerRegistryDigest ref
          then Some (''gateway_credential_ref_provider_drift'',
            ''Gateway credential ref provider registry digest drifted from the contract binding.'')
        else if (case gcr_expiresAt ref of None \<Rightarrow> False | Some t \<Rightarrow> date_le t now)
          then Some (''gateway_credential_ref_stale'', ''Gateway credential ref is stale.'')
        else if gcr_custodyStatus ref \<noteq> gcb_requiredCredentialCustodyStatus b \<or>
            \<not> credentialCustodyCanSatisfyGatewayChecked (gcr_custodyStatus ref)
          then Some (''gateway_credential_ref_unsafe_custody'',
            ''Gateway credential ref custody posture cannot satisfy gateway-side mutation custody.'')
        else None)"

definition credentialRefFreshness :: "gateway_credential_ref option \<Rightarrow> string \<Rightarrow> string" where
  "credentialRefFreshness r now = (case r of None \<Rightarrow> ''missing''
     | Some ref \<Rightarrow> (case gcr_expiresAt ref of None \<Rightarrow> ''not_expiring''
         | Some t \<Rightarrow> if date_less now t then ''fresh'' else ''stale''))"

definition credentialBindingPolicyInput ::
  "string \<Rightarrow> gateway_credential_binding \<Rightarrow> gateway_credential_ref option \<Rightarrow> jval" where
  "credentialBindingPolicyInput now b r = JObj
     [(''credentialUseName'', JStr (gcb_credentialUseName b)),
      (''gatewayCredentialRefId'', JStr (gcb_gatewayCredentialRefId b)),
      (''gatewayCredentialRefDigest'', JStr (gcb_gatewayCredentialRefDigest b)),
      (''providerRegistryRef'', JStr (gcb_providerRegistryRef b)),
      (''providerRegistryDigest'', j_opt JStr (gcb_providerRegistryDigest b)),
      (''custodyStatus'', j_opt (\<lambda>x. JStr (credential_custody_status_str (gcr_custodyStatus x))) r),
      (''requiredCredentialCustodyStatus'',
         JStr (credential_custody_status_str (gcb_requiredCredentialCustodyStatus b))),
      (''freshness'', JStr (credentialRefFreshness r now))]"

definition evaluateGatewayCredentialBindings :: "'a action_contract_scheme \<Rightarrow> string \<Rightarrow> pstore \<Rightarrow> binding_evaluation" where
  "evaluateGatewayCredentialBindings c now s = evaluate_bindings
     (\<lambda>b. find_payload as_gateway_credential_ref OT_gateway_credential_ref (gcb_gatewayCredentialRefId b) s)
     (credentialBindingPolicyInput now) (evaluateGatewayCredentialBinding c now) (ac_gatewayCredentialRefs c)"

section \<open>Delegated authority\<close>

text \<open>Atomic amounts are decimal numerals, compared as integers of any size.\<close>

definition amount_exceeds :: "string \<Rightarrow> string \<Rightarrow> bool" where
  "amount_exceeds left right \<longleftrightarrow> digits_val right < digits_val left"

definition authority_in_scope :: "delegated_authority_ref \<Rightarrow> 'a action_contract_scheme \<Rightarrow> bool" where
  "authority_in_scope ref c \<longleftrightarrow>
     \<not> (da_principalId ref \<noteq> ac_principalId c \<or> da_agentId ref \<noteq> ac_agentId c \<or>
        da_runtimeAdapterId ref \<noteq> ac_runtimeAdapterId c \<or> da_operatingEnvelopeId ref \<noteq> ac_envelopeId c \<or>
        da_gatewayId ref \<noteq> ac_gatewayId c \<or> da_gatewayRegistryEntryId ref \<noteq> ac_gatewayRegistryEntryId c \<or>
        da_protectedSurfaceKind ref \<noteq> ac_protectedSurfaceKind c \<or>
        ac_actionClass c \<notin> set (da_actionClasses ref) \<or>
        (''*'' \<notin> set (da_resourceRefs ref) \<and> ac_resourceRef c \<notin> set (da_resourceRefs ref)))"

definition evaluateDelegatedAmountBound ::
  "'a action_contract_scheme \<Rightarrow> delegated_authority_ref \<Rightarrow> failure option" where
  "evaluateDelegatedAmountBound c ref =
     (if da_authorityKind ref \<noteq> DAK_spend then None
      else (case (da_amountParameterName ref, da_maxAtomicAmountPerAction ref) of
          (Some name, Some bound) \<Rightarrow>
            (case map_of (ac_parameters c) name of
               Some (JStr v) \<Rightarrow>
                 if \<not> atomic_amount_ok v
                   then Some (''delegated_authority_amount_missing'',
                     ''Spend authority requires an atomic amount parameter bound into the action contract.'')
                 else if amount_exceeds v bound
                   then Some (''delegated_authority_amount_exceeds_action_bound'',
                     ''Action contract amount exceeds the delegated per-action authority bound.'')
                 else None
             | _ \<Rightarrow> Some (''delegated_authority_amount_missing'',
                     ''Spend authority requires an atomic amount parameter bound into the action contract.''))
        | _ \<Rightarrow> None))"

definition evaluateDelegatedAuthorityBinding ::
  "'a action_contract_scheme \<Rightarrow> string \<Rightarrow> delegated_authority_binding \<Rightarrow> delegated_authority_ref option \<Rightarrow> failure option" where
  "evaluateDelegatedAuthorityBinding c now b r = (case r of
       None \<Rightarrow> Some (''delegated_authority_ref_missing'',
         ''Action contract references a delegated authority ref that is not stored.'')
     | Some ref \<Rightarrow>
        if da_delegatedAuthorityRefDigest ref \<noteq> dab_delegatedAuthorityRefDigest b
          then Some (''delegated_authority_ref_digest_mismatch'',
            ''Stored delegated authority ref digest does not match the contract binding.'')
        else if tenantId ref \<noteq> tenantId c \<or> organizationId ref \<noteq> organizationId c
          then Some (''delegated_authority_ref_scope_mismatch'',
            ''Delegated authority ref tenant or organization does not match the action contract.'')
        else if \<not> authority_in_scope ref c
          then Some (''delegated_authority_ref_scope_mismatch'',
            ''Delegated authority ref does not bind to the same principal, runtime, envelope, gateway, action, or resource.'')
        else if da_authorityKind ref \<noteq> dab_authorityKind b \<or> da_policyPackRef ref \<noteq> dab_policyPackRef b \<or>
            da_policyPackVersion ref \<noteq> dab_policyPackVersion b
          then Some (''delegated_authority_ref_policy_drift'',
            ''Delegated authority ref policy material drifted from the contract binding.'')
        else if delegated_authority_grant_status_str (da_grantStatus ref) \<noteq> dab_requiredGrantStatus b
          then Some (''delegated_authority_ref_not_active'',
            ''Delegated authority ref is not in the required active grant state.'')
        else if date_le (da_expiresAt ref) now
          then Some (''delegated_authority_ref_stale'', ''Delegated authority ref is stale.'')
        else evaluateDelegatedAmountBound c ref)"

definition authorityFreshness :: "delegated_authority_ref option \<Rightarrow> string \<Rightarrow> string" where
  "authorityFreshness r now = (case r of None \<Rightarrow> ''missing''
     | Some ref \<Rightarrow> if date_less now (da_expiresAt ref) then ''fresh'' else ''stale'')"

definition requested_amount :: "'a action_contract_scheme \<Rightarrow> string option \<Rightarrow> string option" where
  "requested_amount c name = (case name of None \<Rightarrow> None
     | Some n \<Rightarrow> if n = [] then None
         else (case map_of (ac_parameters c) n of Some (JStr v) \<Rightarrow> Some v | _ \<Rightarrow> None))"

definition delegatedAuthorityBindingPolicyInput ::
  "'a action_contract_scheme \<Rightarrow> string \<Rightarrow> delegated_authority_binding \<Rightarrow> delegated_authority_ref option \<Rightarrow> jval" where
  "delegatedAuthorityBindingPolicyInput c now b r =
    (let name = (case r of None \<Rightarrow> None | Some ref \<Rightarrow> da_amountParameterName ref) in JObj
     [(''authorityUseName'', JStr (dab_authorityUseName b)),
      (''delegatedAuthorityRefId'', JStr (dab_delegatedAuthorityRefId b)),
      (''delegatedAuthorityRefDigest'', JStr (dab_delegatedAuthorityRefDigest b)),
      (''authorityKind'', JStr (delegated_authority_kind_str (dab_authorityKind b))),
      (''grantStatus'', j_opt (\<lambda>x. JStr (delegated_authority_grant_status_str (da_grantStatus x))) r),
      (''requiredGrantStatus'', JStr (dab_requiredGrantStatus b)),
      (''freshness'', JStr (authorityFreshness r now)),
      (''amountParameterName'', j_opt JStr name),
      (''maxAtomicAmountPerAction'', j_opt JStr (case r of None \<Rightarrow> None | Some ref \<Rightarrow> da_maxAtomicAmountPerAction ref)),
      (''requestedAtomicAmount'', j_opt JStr (requested_amount c name))])"

definition evaluateDelegatedAuthorityBindings :: "'a action_contract_scheme \<Rightarrow> string \<Rightarrow> pstore \<Rightarrow> binding_evaluation" where
  "evaluateDelegatedAuthorityBindings c now s = evaluate_bindings
     (\<lambda>b. find_payload as_delegated_authority_ref OT_delegated_authority_ref (dab_delegatedAuthorityRefId b) s)
     (delegatedAuthorityBindingPolicyInput c now) (evaluateDelegatedAuthorityBinding c now)
     (ac_delegatedAuthorityRefs c)"

section \<open>Contracts of the checks\<close>

definition credential_bound ::
  "'a action_contract_scheme \<Rightarrow> string \<Rightarrow> pstore \<Rightarrow> gateway_credential_binding \<Rightarrow> bool" where
  "credential_bound c now s b \<longleftrightarrow> (\<exists>ref.
     find_payload as_gateway_credential_ref OT_gateway_credential_ref (gcb_gatewayCredentialRefId b) s = Some ref \<and>
     gcr_gatewayCredentialRefDigest ref = gcb_gatewayCredentialRefDigest b \<and>
     sameScope ref c \<and> credential_in_scope ref c \<and>
     gcr_providerRegistryRef ref = gcb_providerRegistryRef b \<and>
     (gcb_providerRegistryDigest b = None \<or> gcr_providerRegistryDigest ref = None \<or>
        gcb_providerRegistryDigest b = gcr_providerRegistryDigest ref) \<and>
     (\<forall>t. gcr_expiresAt ref = Some t \<longrightarrow> \<not> date_le t now) \<and>
     gcr_custodyStatus ref = gcb_requiredCredentialCustodyStatus b \<and>
     credentialCustodyCanSatisfyGatewayChecked (gcr_custodyStatus ref))"

lemma evaluateGatewayCredentialBindings_ok:
  "be_failure (evaluateGatewayCredentialBindings c now s) = None \<longleftrightarrow>
     (\<forall>b \<in> set (ac_gatewayCredentialRefs c). credential_bound c now s b)"
  unfolding evaluateGatewayCredentialBindings_def evaluate_bindings_ok
  by (intro ball_cong refl)
    (auto simp: evaluateGatewayCredentialBinding_def credential_bound_def sameScope_def
      split: option.splits if_splits)

definition amount_within :: "'a action_contract_scheme \<Rightarrow> delegated_authority_ref \<Rightarrow> bool" where
  "amount_within c ref \<longleftrightarrow> (da_authorityKind ref = DAK_spend \<longrightarrow>
     (\<forall>name bound. da_amountParameterName ref = Some name \<longrightarrow> da_maxAtomicAmountPerAction ref = Some bound \<longrightarrow>
       (\<exists>v. map_of (ac_parameters c) name = Some (JStr v) \<and> atomic_amount_ok v \<and> digits_val v \<le> digits_val bound)))"

lemma evaluateDelegatedAmountBound_ok: "evaluateDelegatedAmountBound c ref = None \<longleftrightarrow> amount_within c ref"
  by (auto simp: evaluateDelegatedAmountBound_def amount_within_def amount_exceeds_def
      split: option.splits jval.splits if_splits)

definition authority_bound ::
  "'a action_contract_scheme \<Rightarrow> string \<Rightarrow> pstore \<Rightarrow> delegated_authority_binding \<Rightarrow> bool" where
  "authority_bound c now s b \<longleftrightarrow> (\<exists>ref.
     find_payload as_delegated_authority_ref OT_delegated_authority_ref (dab_delegatedAuthorityRefId b) s = Some ref \<and>
     da_delegatedAuthorityRefDigest ref = dab_delegatedAuthorityRefDigest b \<and>
     sameScope ref c \<and> authority_in_scope ref c \<and>
     da_authorityKind ref = dab_authorityKind b \<and> da_policyPackRef ref = dab_policyPackRef b \<and>
     da_policyPackVersion ref = dab_policyPackVersion b \<and>
     delegated_authority_grant_status_str (da_grantStatus ref) = dab_requiredGrantStatus b \<and>
     \<not> date_le (da_expiresAt ref) now \<and> amount_within c ref)"

lemma evaluateDelegatedAuthorityBindings_ok:
  "be_failure (evaluateDelegatedAuthorityBindings c now s) = None \<longleftrightarrow>
     (\<forall>b \<in> set (ac_delegatedAuthorityRefs c). authority_bound c now s b)"
  unfolding evaluateDelegatedAuthorityBindings_def evaluate_bindings_ok
  by (intro ball_cong refl)
    (auto simp: evaluateDelegatedAuthorityBinding_def authority_bound_def sameScope_def
      evaluateDelegatedAmountBound_ok split: option.splits if_splits)

end
