(* ===== verification/Ledger.thy ===== *)
theory Ledger
  imports Records
begin

text \<open>
  Artifacts that several transitions build: refusals (\<open>refusal/records.ts\<close>), proof
  gaps (\<open>proof-gap/transitions.ts\<close>), idempotency ledger entries
  (\<open>idempotency-ledger/entries.ts\<close>), and protected surface operation claims with
  their lifecycle (\<open>operation-lifecycle/claims.ts\<close>, \<open>lifecycle.ts\<close>,
  \<open>guards.ts\<close>).
\<close>

definition protocolObjectRef :: "string \<Rightarrow> string \<Rightarrow> string" where
  "protocolObjectRef objectType objectId = objectType @ '':'' @ objectId"

text \<open>\<open>[...new Set(xs)]\<close>: the first occurrence of each element.\<close>

definition unique_list :: "'a list \<Rightarrow> 'a list" where
  "unique_list xs = rev (remdups (rev xs))"

lemma set_unique_list [simp]: "set (unique_list xs) = set xs" "distinct (unique_list xs)" "unique_list xs = [] \<longleftrightarrow> xs = []"
  by (simp_all add: unique_list_def)

section \<open>Refusals\<close>

definition refusal_seed :: "refusal \<Rightarrow> jval" where
  "refusal_seed r = JObj (base_fields r @
     [(''phase'', JStr (refusal_phase_str (rf_phase r))),
      (''actionContractId'', j_opt JStr (rf_actionContractId r)),
      (''policyDecisionId'', j_opt JStr (rf_policyDecisionId r)),
      (''greenlightId'', j_opt JStr (rf_greenlightId r)),
      (''gateAttemptId'', j_opt JStr (rf_gateAttemptId r)),
      (''refusedObjectRef'', j_opt JStr (rf_refusedObjectRef r)),
      (''reasonCode'', JStr (rf_reasonCode r)),
      (''reason'', JStr (rf_reason r)),
      (''evidenceRefs'', JArr (map JStr (rf_evidenceRefs r))),
      (''refusedAt'', JStr (rf_refusedAt r))])"

text \<open>The draft is the refusal without its identifier.\<close>

definition buildRefusal :: "'e env_scheme \<Rightarrow> refusal \<Rightarrow> ('w, refusal) ptr" where
  "buildRefusal E draft =
     tparse (refusal_valid E) (draft\<lparr>
       rf_refusalId := ''ref_'' @ take 48 (drop 7 (digestCanonical E (refusal_seed draft))),
       rf_mutationAttempted := False, rf_authorityCreated := False\<rparr>)"

lemma buildRefusal_Inr:
  "buildRefusal E draft w = (Inr r, w') \<Longrightarrow>
     w' = w \<and> \<not> rf_mutationAttempted r \<and> \<not> rf_authorityCreated r \<and> rf_reasonCode r = rf_reasonCode draft \<and>
     rf_actionContractId r = rf_actionContractId draft"
  by (auto simp: buildRefusal_def)

section \<open>Proof gaps\<close>

record gap_refs =
  gpr_gateAttemptId :: "string option"
  gpr_mutationAttemptId :: "string option"
  gpr_receiptId :: "string option"

definition opt_list :: "'a option \<Rightarrow> 'a list" where
  "opt_list x = (case x of None \<Rightarrow> [] | Some v \<Rightarrow> [v])"

lemma opt_list_simps [simp]: "opt_list None = []" "opt_list (Some v) = [v]"
  by (simp_all add: opt_list_def)

definition buildProofGap ::
  "'e env_scheme \<Rightarrow> action_contract \<Rightarrow> gap_phase \<Rightarrow> string \<Rightarrow> string \<Rightarrow> gap_refs \<Rightarrow> ('w clockw_scheme, proof_gap) ptr" where
  "buildProofGap E c phase expected code refs =
     tbind (nowIso E) (\<lambda>now.
     tbind (createId E ''gap'') (\<lambda>gid.
     tparse (proof_gap_valid E)
       \<lparr>schemaVersion = PROTOCOL_VERSION, tenantId = tenantId c, organizationId = organizationId c,
        createdAt = now, pg_proofGapId = gid, pg_gapPhase = phase, pg_expectedEvidenceType = expected,
        pg_missingOrInvalidEvidenceRef = expected,
        pg_affectedObjectRefs = ac_actionContractId c # opt_list (gpr_gateAttemptId refs) @
          opt_list (gpr_mutationAttemptId refs) @ opt_list (gpr_receiptId refs),
        pg_gateAttemptId = gpr_gateAttemptId refs, pg_mutationAttemptId = gpr_mutationAttemptId refs,
        pg_receiptId = gpr_receiptId refs, pg_reasonCode = code, pg_finalityImpact = FI_unknown,
        pg_recoveryRequirement =
          ''Reconcile downstream surface operation before treating receipt as final.'',
        pg_resolvedAt = None, pg_resolvedByRef = None\<rparr>))"

fun resolveProofGaps ::
  "'e env_scheme \<Rightarrow> string list \<Rightarrow> surface_operation_reconciliation \<Rightarrow> string \<Rightarrow> proof_gap list wtr" where
  "resolveProofGaps E [] r now = treturn []"
| "resolveProofGaps E (i # ids) r now =
     tbind (requiredPayload as_proof_gap OT_proof_gap i ''proof_gap_missing'') (\<lambda>g.
     if pg_mutationAttemptId g \<noteq> Some (sr_mutationAttemptId r)
       then tfail (protocol_error ''invalid_transition_proof_gap_mismatch'' 409)
     else tbind (tparse (proof_gap_valid E)
            (g\<lparr>pg_resolvedAt := Some now, pg_resolvedByRef := Some (sr_reconciliationId r)\<rparr>)) (\<lambda>g'.
          tbind (resolveProofGaps E ids r now) (\<lambda>gs. treturn (g' # gs))))"

lemma resolveProofGaps_Inr:
  assumes "resolveProofGaps E ids r now w = (Inr gs, w')"
  shows "w' = w \<and> (\<forall>g \<in> set gs. pg_mutationAttemptId g = Some (sr_mutationAttemptId r) \<and>
     pg_resolvedByRef g = Some (sr_reconciliationId r)) \<and> length gs = length ids"
  using assms
  by (induction ids arbitrary: gs w) (auto simp: tbind_Inr_iff requiredPayload_Inr split: if_splits)

section \<open>Idempotency ledger entries\<close>

record ledger_key =
  lk_tenantId :: string
  lk_organizationId :: string
  lk_gatewayId :: string
  lk_protectedSurfaceKind :: string
  lk_actionClass :: string
  lk_resourceRef :: string
  lk_idempotencyKey :: string

definition idempotencyLedgerKey :: "'a action_contract_scheme \<Rightarrow> ledger_key" where
  "idempotencyLedgerKey c = \<lparr>lk_tenantId = tenantId c, lk_organizationId = organizationId c,
     lk_gatewayId = ac_gatewayId c, lk_protectedSurfaceKind = ac_protectedSurfaceKind c,
     lk_actionClass = ac_actionClass c, lk_resourceRef = ac_resourceRef c,
     lk_idempotencyKey = ac_idempotencyKey c\<rparr>"

definition idempotencyLedgerKeyForEntry :: "idempotency_ledger_entry \<Rightarrow> ledger_key" where
  "idempotencyLedgerKeyForEntry e = \<lparr>lk_tenantId = tenantId e, lk_organizationId = organizationId e,
     lk_gatewayId = il_gatewayId e, lk_protectedSurfaceKind = il_protectedSurfaceKind e,
     lk_actionClass = il_actionClass e, lk_resourceRef = il_resourceRef e,
     lk_idempotencyKey = il_idempotencyKey e\<rparr>"

definition ledger_key_json :: "ledger_key \<Rightarrow> jval" where
  "ledger_key_json k = JObj
     [(''tenantId'', JStr (lk_tenantId k)), (''organizationId'', JStr (lk_organizationId k)),
      (''gatewayId'', JStr (lk_gatewayId k)), (''protectedSurfaceKind'', JStr (lk_protectedSurfaceKind k)),
      (''actionClass'', JStr (lk_actionClass k)), (''resourceRef'', JStr (lk_resourceRef k)),
      (''idempotencyKey'', JStr (lk_idempotencyKey k))]"

definition idempotencyLedgerKeyDigest :: "'e env_scheme \<Rightarrow> ledger_key \<Rightarrow> string" where
  "idempotencyLedgerKeyDigest E k = digestCanonical E (ledger_key_json k)"

text \<open>An entry is built with its own digest.\<close>

definition buildIdempotencyLedgerEntry ::
  "'e env_scheme \<Rightarrow> idempotency_ledger_entry \<Rightarrow> ('w, idempotency_ledger_entry) ptr" where
  "buildIdempotencyLedgerEntry E draft =
    (let e = draft\<lparr>schemaVersion := PROTOCOL_VERSION\<rparr> in
     tparse (idempotency_ledger_entry_valid E)
       (e\<lparr>il_ledgerDigest := digestCanonical E (null_field ''ledgerDigest'' (idempotency_ledger_entry_json e))\<rparr>))"

definition buildIdempotencyLedgerReservation ::
  "'e env_scheme \<Rightarrow> action_contract \<Rightarrow> policy_decision \<Rightarrow> greenlight \<Rightarrow> string \<Rightarrow> string \<Rightarrow> string
    \<Rightarrow> string list \<Rightarrow> ('w clockw_scheme, idempotency_ledger_entry) ptr" where
  "buildIdempotencyLedgerReservation E c d g now keyDigest key refs =
     tbind (createId E ''idl'') (\<lambda>eid.
     buildIdempotencyLedgerEntry E
       \<lparr>schemaVersion = PROTOCOL_VERSION, tenantId = tenantId c, organizationId = organizationId c,
        createdAt = now, il_idempotencyLedgerEntryId = eid, il_ledgerKeyDigest = keyDigest,
        il_gatewayId = ac_gatewayId c, il_protectedSurfaceKind = ac_protectedSurfaceKind c,
        il_actionClass = ac_actionClass c, il_resourceRef = ac_resourceRef c, il_idempotencyKey = key,
        il_paramsDigest = ac_paramsDigest c, il_actionContractId = ac_actionContractId c,
        il_policyDecisionId = pd_policyDecisionId d, il_greenlightId = Some (gl_greenlightId g),
        il_gateAttemptId = None, il_mutationAttemptId = None, il_receiptId = None,
        il_ledgerState = ILS_authority_reserved, il_reasonCode = ''policy_passed'',
        il_evidenceRefs =
          [protocolObjectRef ''action_contract'' (ac_actionContractId c),
           protocolObjectRef ''policy_decision'' (pd_policyDecisionId d),
           protocolObjectRef ''greenlight'' (gl_greenlightId g)] @ refs,
        il_firstReservedAt = now, il_updatedAt = now, il_ledgerDigest = []\<rparr>)"

definition or_else :: "'a option \<Rightarrow> 'a option \<Rightarrow> 'a option" where
  "or_else x y = (case x of None \<Rightarrow> y | Some _ \<Rightarrow> x)"

definition updateIdempotencyLedgerEntry ::
  "'e env_scheme \<Rightarrow> idempotency_ledger_entry \<Rightarrow> gap_refs \<Rightarrow> idempotency_ledger_state \<Rightarrow> string \<Rightarrow> string list
    \<Rightarrow> string \<Rightarrow> ('w clockw_scheme, idempotency_ledger_entry) ptr" where
  "updateIdempotencyLedgerEntry E current refs state code evidence updatedAt =
     tbind (createId E ''idl'') (\<lambda>eid.
     buildIdempotencyLedgerEntry E (current\<lparr>
       il_idempotencyLedgerEntryId := eid, createdAt := updatedAt,
       il_gateAttemptId := or_else (gpr_gateAttemptId refs) (il_gateAttemptId current),
       il_mutationAttemptId := or_else (gpr_mutationAttemptId refs) (il_mutationAttemptId current),
       il_receiptId := or_else (gpr_receiptId refs) (il_receiptId current),
       il_ledgerState := state, il_reasonCode := code, il_evidenceRefs := unique_list evidence,
       il_updatedAt := updatedAt\<rparr>))"

definition buildIdempotencyLedgerMutationStarted ::
  "'e env_scheme \<Rightarrow> idempotency_ledger_entry \<Rightarrow> gateway_check_attempt \<Rightarrow> mutation_attempt \<Rightarrow> string \<Rightarrow> string
    \<Rightarrow> ('w clockw_scheme, idempotency_ledger_entry) ptr" where
  "buildIdempotencyLedgerMutationStarted E current gate mut receiptId now =
     updateIdempotencyLedgerEntry E current
       \<lparr>gpr_gateAttemptId = Some (gca_gateAttemptId gate),
        gpr_mutationAttemptId = Some (ma_mutationAttemptId mut), gpr_receiptId = Some receiptId\<rparr>
       ILS_mutation_started ''gate_passed''
       (il_evidenceRefs current @
        [protocolObjectRef ''gateway_check_attempt'' (gca_gateAttemptId gate),
         protocolObjectRef ''mutation_attempt'' (ma_mutationAttemptId mut),
         protocolObjectRef ''receipt'' receiptId]) now"

definition ledgerStateForReconciliation :: "surface_operation_reconciliation \<Rightarrow> idempotency_ledger_state" where
  "ledgerStateForReconciliation r = (case sr_observedDownstreamStatus r of
       DS_succeeded \<Rightarrow> ILS_terminal_succeeded | DS_failed \<Rightarrow> ILS_terminal_failed
     | DS_refused \<Rightarrow> ILS_terminal_refused | DS_unknown \<Rightarrow> ILS_terminal_unknown
     | DS_pending \<Rightarrow> ILS_mutation_started)"

definition buildIdempotencyLedgerTerminal ::
  "'e env_scheme \<Rightarrow> idempotency_ledger_entry \<Rightarrow> surface_operation_reconciliation \<Rightarrow> string
    \<Rightarrow> ('w clockw_scheme, idempotency_ledger_entry) ptr" where
  "buildIdempotencyLedgerTerminal E current r now =
     updateIdempotencyLedgerEntry E current
       \<lparr>gpr_gateAttemptId = None, gpr_mutationAttemptId = None, gpr_receiptId = None\<rparr>
       (ledgerStateForReconciliation r) (downstream_status_str (sr_observedDownstreamStatus r))
       (il_evidenceRefs current @
        [protocolObjectRef ''surface_operation_reconciliation'' (sr_reconciliationId r)]) now"

definition idempotencyLedgerIndexEntry :: "idempotency_ledger_entry \<Rightarrow> ledger_index_entry" where
  "idempotencyLedgerIndexEntry e = \<lparr>li_ledgerKeyDigest = il_ledgerKeyDigest e,
     li_idempotencyLedgerEntryId = il_idempotencyLedgerEntryId e, li_tenantId = tenantId e,
     li_organizationId = organizationId e, li_paramsDigest = il_paramsDigest e,
     li_actionContractId = il_actionContractId e, li_policyDecisionId = il_policyDecisionId e,
     li_greenlightId = il_greenlightId e, li_ledgerState = il_ledgerState e, li_updatedAt = il_updatedAt e\<rparr>"

lemma buildLedgerEntry_Inr:
  "buildIdempotencyLedgerEntry E d w = (Inr e, w') \<Longrightarrow>
     w' = w \<and> il_ledgerKeyDigest e = il_ledgerKeyDigest d \<and> il_paramsDigest e = il_paramsDigest d \<and>
     il_ledgerState e = il_ledgerState d \<and> il_idempotencyLedgerEntryId e = il_idempotencyLedgerEntryId d \<and>
     il_actionContractId e = il_actionContractId d \<and> il_greenlightId e = il_greenlightId d \<and>
     idempotencyLedgerKeyForEntry e = idempotencyLedgerKeyForEntry d"
  by (auto simp: buildIdempotencyLedgerEntry_def Let_def idempotencyLedgerKeyForEntry_def)

lemma reservation_Inr:
  "buildIdempotencyLedgerReservation E c d g now kd key refs w = (Inr e, w') \<Longrightarrow>
     il_ledgerKeyDigest e = kd \<and> il_ledgerState e = ILS_authority_reserved \<and>
     il_paramsDigest e = ac_paramsDigest c \<and> il_greenlightId e = Some (gl_greenlightId g) \<and>
     il_actionContractId e = ac_actionContractId c \<and>
     idempotencyLedgerKeyForEntry e = (idempotencyLedgerKey c)\<lparr>lk_idempotencyKey := key\<rparr>"
  by (auto simp: buildIdempotencyLedgerReservation_def tbind_Inr_iff idempotencyLedgerKey_def
      idempotencyLedgerKeyForEntry_def dest!: buildLedgerEntry_Inr)

lemma update_ledger_Inr:
  "updateIdempotencyLedgerEntry E cur refs st code ev now w = (Inr e, w') \<Longrightarrow>
     il_ledgerKeyDigest e = il_ledgerKeyDigest cur \<and> il_ledgerState e = st \<and>
     il_paramsDigest e = il_paramsDigest cur \<and> il_actionContractId e = il_actionContractId cur \<and>
     idempotencyLedgerKeyForEntry e = idempotencyLedgerKeyForEntry cur"
  by (auto simp: updateIdempotencyLedgerEntry_def tbind_Inr_iff idempotencyLedgerKeyForEntry_def
      dest!: buildLedgerEntry_Inr)

section \<open>Protected surface operation claims\<close>

record claim_key =
  ck_tenantId :: string
  ck_organizationId :: string
  ck_gatewayId :: string
  ck_protectedSurfaceKind :: string
  ck_actionClass :: string
  ck_resourceRef :: string

definition protectedSurfaceOperationClaimKey :: "'a action_contract_scheme \<Rightarrow> claim_key" where
  "protectedSurfaceOperationClaimKey c = \<lparr>ck_tenantId = tenantId c, ck_organizationId = organizationId c,
     ck_gatewayId = ac_gatewayId c, ck_protectedSurfaceKind = ac_protectedSurfaceKind c,
     ck_actionClass = ac_actionClass c, ck_resourceRef = ac_resourceRef c\<rparr>"

definition protectedSurfaceOperationClaimKeyDigest :: "'e env_scheme \<Rightarrow> claim_key \<Rightarrow> string" where
  "protectedSurfaceOperationClaimKeyDigest E k = digestCanonical E (JObj
     [(''tenantId'', JStr (ck_tenantId k)), (''organizationId'', JStr (ck_organizationId k)),
      (''gatewayId'', JStr (ck_gatewayId k)), (''protectedSurfaceKind'', JStr (ck_protectedSurfaceKind k)),
      (''actionClass'', JStr (ck_actionClass k)), (''resourceRef'', JStr (ck_resourceRef k))])"

text \<open>The digest of a claim, taken while its own digest is \<open>null\<close>.\<close>

definition with_claim_digest :: "'e env_scheme \<Rightarrow> surface_operation_claim \<Rightarrow> surface_operation_claim" where
  "with_claim_digest E c =
     c\<lparr>oc_claimDigest := digestCanonical E (null_field ''claimDigest'' (surface_operation_claim_json c))\<rparr>"

definition buildActiveProtectedSurfaceOperationClaim ::
  "'e env_scheme \<Rightarrow> action_contract \<Rightarrow> greenlight \<Rightarrow> string \<Rightarrow> mutation_attempt \<Rightarrow> string
    \<Rightarrow> ('w clockw_scheme, surface_operation_claim) ptr" where
  "buildActiveProtectedSurfaceOperationClaim E c g gateAttemptId mut now =
     tbind (createId E ''opc'') (\<lambda>cid.
     tparse (surface_operation_claim_valid E) (with_claim_digest E
       \<lparr>schemaVersion = PROTOCOL_VERSION, tenantId = tenantId c, organizationId = organizationId c,
        createdAt = now, oc_protectedSurfaceOperationClaimId = cid,
        oc_claimKeyDigest = protectedSurfaceOperationClaimKeyDigest E (protectedSurfaceOperationClaimKey c),
        oc_gatewayId = ac_gatewayId c, oc_protectedSurfaceKind = ac_protectedSurfaceKind c,
        oc_actionClass = ac_actionClass c, oc_resourceRef = ac_resourceRef c,
        oc_actionContractId = ac_actionContractId c, oc_greenlightId = gl_greenlightId g,
        oc_gateAttemptId = gateAttemptId, oc_mutationAttemptId = Some (ma_mutationAttemptId mut),
        oc_claimState = OCS_active, oc_claimedAt = now, oc_terminalAt = None,
        oc_terminalReasonCode = None, oc_releasedByRef = None, oc_claimDigest = []\<rparr>))"

definition buildTerminalProtectedSurfaceOperationClaim ::
  "'e env_scheme \<Rightarrow> surface_operation_claim \<Rightarrow> operation_claim_state \<Rightarrow> string \<Rightarrow> string \<Rightarrow> string
    \<Rightarrow> ('w, surface_operation_claim) ptr" where
  "buildTerminalProtectedSurfaceOperationClaim E active state terminalAt code releasedBy =
     tparse (surface_operation_claim_valid E) (with_claim_digest E (active\<lparr>
       oc_claimState := state, oc_terminalAt := Some terminalAt, oc_terminalReasonCode := Some code,
       oc_releasedByRef := Some releasedBy\<rparr>))"

lemma active_claim_Inr:
  "buildActiveProtectedSurfaceOperationClaim E c g gid mut now w = (Inr k, w') \<Longrightarrow>
     oc_claimKeyDigest k = protectedSurfaceOperationClaimKeyDigest E (protectedSurfaceOperationClaimKey c) \<and>
     oc_claimState k = OCS_active \<and> oc_mutationAttemptId k = Some (ma_mutationAttemptId mut) \<and>
     oc_greenlightId k = gl_greenlightId g \<and> oc_gateAttemptId k = gid"
  by (auto simp: buildActiveProtectedSurfaceOperationClaim_def tbind_Inr_iff with_claim_digest_def)

lemma terminal_claim_Inr:
  "buildTerminalProtectedSurfaceOperationClaim E a st t code rel w = (Inr k, w') \<Longrightarrow>
     w' = w \<and> oc_claimState k = st \<and> oc_claimKeyDigest k = oc_claimKeyDigest a \<and>
     oc_protectedSurfaceOperationClaimId k = oc_protectedSurfaceOperationClaimId a \<and>
     oc_mutationAttemptId k = oc_mutationAttemptId a \<and> oc_releasedByRef k = Some rel"
  by (auto simp: buildTerminalProtectedSurfaceOperationClaim_def with_claim_digest_def)

section \<open>The lifecycle of a downstream operation\<close>

record lifecycle_mapping =
  om_observedDownstreamStatus :: downstream_status
  om_reconciliationStatus :: reconciliation_status
  om_finalityStatus :: finality_status
  om_claimState :: operation_claim_state
  om_receiptDownstreamExecutionStatus :: downstream_outcome_status
  om_receiptMutationAttemptStatus :: mutation_outcome
  om_proofGapReasonCode :: "string option"
  om_keepClaimBlocking :: bool
  om_createIsolation :: bool

fun operationLifecycleFor :: "downstream_status \<Rightarrow> lifecycle_mapping" where
  "operationLifecycleFor DS_pending = \<lparr>om_observedDownstreamStatus = DS_pending,
     om_reconciliationStatus = RS_pending, om_finalityStatus = FS_pending, om_claimState = OCS_active,
     om_receiptDownstreamExecutionStatus = DOS_pending, om_receiptMutationAttemptStatus = MO_submitted,
     om_proofGapReasonCode = None, om_keepClaimBlocking = True, om_createIsolation = False\<rparr>"
| "operationLifecycleFor DS_succeeded = \<lparr>om_observedDownstreamStatus = DS_succeeded,
     om_reconciliationStatus = RS_resolved, om_finalityStatus = FS_final, om_claimState = OCS_terminal_succeeded,
     om_receiptDownstreamExecutionStatus = DOS_succeeded, om_receiptMutationAttemptStatus = MO_succeeded,
     om_proofGapReasonCode = None, om_keepClaimBlocking = False, om_createIsolation = False\<rparr>"
| "operationLifecycleFor DS_refused = \<lparr>om_observedDownstreamStatus = DS_refused,
     om_reconciliationStatus = RS_resolved, om_finalityStatus = FS_suspect, om_claimState = OCS_terminal_refused,
     om_receiptDownstreamExecutionStatus = DOS_refused, om_receiptMutationAttemptStatus = MO_downstream_refused,
     om_proofGapReasonCode = None, om_keepClaimBlocking = False, om_createIsolation = False\<rparr>"
| "operationLifecycleFor DS_failed = \<lparr>om_observedDownstreamStatus = DS_failed,
     om_reconciliationStatus = RS_failed, om_finalityStatus = FS_suspect, om_claimState = OCS_terminal_failed,
     om_receiptDownstreamExecutionStatus = DOS_failed, om_receiptMutationAttemptStatus = MO_failed,
     om_proofGapReasonCode = None, om_keepClaimBlocking = False, om_createIsolation = False\<rparr>"
| "operationLifecycleFor DS_unknown = \<lparr>om_observedDownstreamStatus = DS_unknown,
     om_reconciliationStatus = RS_still_unknown, om_finalityStatus = FS_unknown, om_claimState = OCS_terminal_unknown,
     om_receiptDownstreamExecutionStatus = DOS_unknown, om_receiptMutationAttemptStatus = MO_unknown,
     om_proofGapReasonCode = Some ''orphan_mitigation_required'', om_keepClaimBlocking = True,
     om_createIsolation = True\<rparr>"

definition reconciliationStatusFor :: "downstream_status \<Rightarrow> reconciliation_status" where
  "reconciliationStatusFor s = om_reconciliationStatus (operationLifecycleFor s)"

definition reconciliationFinalityFor :: "downstream_status \<Rightarrow> finality_status" where
  "reconciliationFinalityFor s = om_finalityStatus (operationLifecycleFor s)"

definition guardSurfaceOperationReconciliation ::
  "mutation_attempt \<Rightarrow> string \<Rightarrow> string \<Rightarrow> string option \<Rightarrow> guard_result" where
  "guardSurfaceOperationReconciliation m attemptId key observed =
    (if ma_mutationAttemptId m \<noteq> attemptId then guard_fail ''invalid_transition_mutation_mismatch''
     else if ma_idempotencyKey m \<noteq> key then guard_fail ''invalid_transition_idempotency_mismatch''
     else if ma_outcome m \<notin> {MO_submitted, MO_unknown}
       then guard_fail ''invalid_transition_reconciliation_not_allowed''
     else if ma_surfaceOperationRef m \<noteq> None \<and> observed \<noteq> None \<and> ma_surfaceOperationRef m \<noteq> observed
       then guard_fail ''invalid_transition_surface_operation_mismatch''
     else guard_ok)"

lemma lifecycle_release_iff:
  "om_keepClaimBlocking (operationLifecycleFor s) \<longleftrightarrow> s = DS_pending \<or> s = DS_unknown"
  by (cases s) simp_all

lemma lifecycle_terminal_iff:
  "om_claimState (operationLifecycleFor s) = OCS_active \<longleftrightarrow> s = DS_pending"
  by (cases s) simp_all

section \<open>What these builders leave alone\<close>

lemma builders_read [reads_only_intros]:
  "reads_only (buildRefusal E r)"
  "reads_only (buildProofGap E c ph ex code refs)"
  "reads_only (buildIdempotencyLedgerReservation E c d g now kd key evs)"
  "reads_only (buildIdempotencyLedgerMutationStarted E cur gate mut rid now)"
  "reads_only (buildIdempotencyLedgerTerminal E cur sr now)"
  "reads_only (buildActiveProtectedSurfaceOperationClaim E c g gid mut now)"
  "reads_only (buildTerminalProtectedSurfaceOperationClaim E a st t code rel)"
  unfolding buildRefusal_def buildProofGap_def buildIdempotencyLedgerReservation_def
    buildIdempotencyLedgerEntry_def Let_def buildIdempotencyLedgerMutationStarted_def
    buildIdempotencyLedgerTerminal_def updateIdempotencyLedgerEntry_def
    buildActiveProtectedSurfaceOperationClaim_def buildTerminalProtectedSurfaceOperationClaim_def
  by (intro reads_only_intros)+

lemma reads_resolveProofGaps [reads_only_intros]: "reads_only (resolveProofGaps E ids r now)"
proof (induction ids)
  case (Cons i ids)
  show ?case unfolding resolveProofGaps.simps by (intro reads_only_intros Cons.IH)
qed (unfold resolveProofGaps.simps, intro reads_only_intros)

lemmas builders_move [store_moves_intros] =
  builders_read[THEN reads_only_moves] reads_resolveProofGaps[THEN reads_only_moves]

end
