(* ===== verification/Agreement.thy ===== *)
theory Agreement
  imports Ledger
begin

text \<open>
  The agreement that backs an action, after \<open>negotiation/policy.ts\<close> and the
  status lookup of \<open>negotiation/transitions.ts\<close>: a contract with clearing
  evidence needs exactly one obligation binding, whose linked agreement is in
  scope, active, fresh and bound to the same action and parameters.
\<close>

section \<open>The current status of an agreement\<close>

fun next_agreement_status :: "agreement_next_status \<Rightarrow> agreement_status" where
  "next_agreement_status ANS_active = AS_active"
| "next_agreement_status ANS_superseded = AS_superseded"
| "next_agreement_status ANS_expired = AS_expired"
| "next_agreement_status ANS_disputed = AS_disputed"
| "next_agreement_status ANS_resolved = AS_resolved"
| "next_agreement_status ANS_withdrawn = AS_withdrawn"

text \<open>
  The time a record was created, in milliseconds.  The schemas let no other
  text than a date through, so the value for other texts does not matter.
\<close>

definition created_ms :: "'a protocol_base_scheme \<Rightarrow> int" where
  "created_ms r = (case date_parse (createdAt r) of Some t \<Rightarrow> t | None \<Rightarrow> 0)"

definition agreement_transitions :: "linked_agreement \<Rightarrow> pstore \<Rightarrow> agreement_status_transition list" where
  "agreement_transitions a s = filter (\<lambda>t. ast_linkedAgreementId t = la_linkedAgreementId a)
     (payloads as_agreement_status_transition
        (listRecordsByType OT_agreement_status_transition (scope_of a) s))"

definition currentAgreementStatus :: "linked_agreement \<Rightarrow> pstore \<Rightarrow> agreement_status" where
  "currentAgreementStatus a s =
    (let ordered = sort_key created_ms (agreement_transitions a s) in
     if ordered = [] then AS_active else next_agreement_status (ast_toStatus (last ordered)))"

section \<open>The evaluation\<close>

datatype agreement_posture = AP_not_applicable | AP_bound | AP_proof_gap | AP_refused

fun agreement_posture_str :: "agreement_posture \<Rightarrow> string" where
  "agreement_posture_str AP_not_applicable = ''not_applicable''"
| "agreement_posture_str AP_bound = ''bound''"
| "agreement_posture_str AP_proof_gap = ''proof_gap''"
| "agreement_posture_str AP_refused = ''refused''"

record agreement_input =
  ai_posture :: agreement_posture
  ai_obligationRef :: "string option"
  ai_counterpartyRef :: "string option"
  ai_agreementObligationBindingId :: "string option"
  ai_linkedAgreementId :: "string option"
  ai_agreementStatus :: "agreement_status option"
  ai_agreementExpiresAt :: "string option"
  ai_sessionExpiresAt :: "string option"
  ai_offerExpiresAt :: "string option"
  ai_actionContractDigest :: "string option"
  ai_paramsDigest :: "string option"

definition agreement_input_json :: "agreement_input \<Rightarrow> jval" where
  "agreement_input_json i = JObj
     [(''posture'', JStr (agreement_posture_str (ai_posture i))),
      (''obligationRef'', j_opt JStr (ai_obligationRef i)),
      (''counterpartyRef'', j_opt JStr (ai_counterpartyRef i)),
      (''agreementObligationBindingId'', j_opt JStr (ai_agreementObligationBindingId i)),
      (''linkedAgreementId'', j_opt JStr (ai_linkedAgreementId i)),
      (''agreementStatus'', j_opt (\<lambda>x. JStr (agreement_status_str x)) (ai_agreementStatus i)),
      (''agreementExpiresAt'', j_opt JStr (ai_agreementExpiresAt i)),
      (''sessionExpiresAt'', j_opt JStr (ai_sessionExpiresAt i)),
      (''offerExpiresAt'', j_opt JStr (ai_offerExpiresAt i)),
      (''actionContractDigest'', j_opt JStr (ai_actionContractDigest i)),
      (''paramsDigest'', j_opt JStr (ai_paramsDigest i))]"

record agreement_evaluation =
  ae_ok :: bool
  ae_decision :: policy_decision_value
  ae_reasonCode :: "string option"
  ae_reason :: "string option"
  ae_policyInput :: agreement_input

definition agreement_ok :: "agreement_input \<Rightarrow> agreement_evaluation" where
  "agreement_ok i = \<lparr>ae_ok = True, ae_decision = PD_greenlight, ae_reasonCode = None, ae_reason = None,
     ae_policyInput = i\<rparr>"

definition agreement_refusal :: "agreement_input \<Rightarrow> failure \<Rightarrow> agreement_evaluation" where
  "agreement_refusal i f = \<lparr>ae_ok = False, ae_decision = PD_refuse, ae_reasonCode = Some (fst f),
     ae_reason = Some (snd f), ae_policyInput = i\<lparr>ai_posture := AP_refused\<rparr>\<rparr>"

definition agreement_proof_gap :: "agreement_input \<Rightarrow> string \<Rightarrow> agreement_evaluation" where
  "agreement_proof_gap i code = \<lparr>ae_ok = False, ae_decision = PD_proof_gap, ae_reasonCode = Some code,
     ae_reason = Some ''ActionContract declares agreement-backed clearing evidence, but exact local obligation binding evidence is missing or incomplete.'',
     ae_policyInput = i\<lparr>ai_posture := AP_proof_gap\<rparr>\<rparr>"

definition base_agreement_input :: "string option \<Rightarrow> string option \<Rightarrow> agreement_input" where
  "base_agreement_input ob cp = \<lparr>ai_posture = AP_proof_gap, ai_obligationRef = ob, ai_counterpartyRef = cp,
     ai_agreementObligationBindingId = None, ai_linkedAgreementId = None, ai_agreementStatus = None,
     ai_agreementExpiresAt = None, ai_sessionExpiresAt = None, ai_offerExpiresAt = None,
     ai_actionContractDigest = None, ai_paramsDigest = None\<rparr>"

definition loadAgreementSession :: "linked_agreement \<Rightarrow> pstore \<Rightarrow> negotiation_session option" where
  "loadAgreementSession a s =
     (case find_payload as_negotiation_session OT_negotiation_session (la_negotiationSessionId a) s of
        None \<Rightarrow> None | Some x \<Rightarrow> if sameScope x a then Some x else None)"

definition loadAgreementOffer :: "linked_agreement \<Rightarrow> pstore \<Rightarrow> negotiation_offer option" where
  "loadAgreementOffer a s =
     find (\<lambda>f. no_negotiationSessionId f = la_negotiationSessionId a \<and>
              no_offerVersionId f = la_acceptedOfferVersionId a \<and>
              no_offerSequence f = la_acceptedOfferSequence a)
       (payloads as_negotiation_offer (listRecordsByType OT_negotiation_offer (scope_of a) s))"

definition bindingFailureForContract ::
  "agreement_obligation_binding \<Rightarrow> linked_agreement \<Rightarrow> action_contract \<Rightarrow> failure option" where
  "bindingFailureForContract b a c =
    (if ab_counterpartyRef b \<noteq> la_counterpartyRef a
       then Some (''agreement_obligation_counterparty_mismatch'',
         ''Agreement obligation binding counterparty does not match the linked agreement.'')
     else if Some (ab_obligationRef b) \<noteq> ce_obligationRef (la_clearingEvidenceRefs a)
       then Some (''agreement_obligation_binding_mismatch'',
         ''Agreement obligation binding does not match the linked agreement obligation ref.'')
     else if Some (ab_obligationRef b) \<noteq> ce_obligationRef (ac_clearingEvidenceRefs c)
       then Some (''agreement_obligation_binding_mismatch'',
         ''Agreement obligation binding does not match ActionContract clearingEvidenceRefs.obligationRef.'')
     else if Some (ab_counterpartyRef b) \<noteq> ce_counterpartyRef (ac_clearingEvidenceRefs c)
       then Some (''agreement_obligation_counterparty_mismatch'',
         ''Agreement obligation binding does not match ActionContract clearingEvidenceRefs.counterpartyRef.'')
     else if ab_actionContractDigest b \<noteq> ac_actionContractDigest c
       then Some (''agreement_obligation_binding_mismatch'',
         ''Agreement obligation binding action contract digest drifted.'')
     else if ab_paramsDigest b \<noteq> ac_paramsDigest c
       then Some (''agreement_obligation_params_mismatch'',
         ''Agreement obligation binding params digest drifted.'')
     else if ab_actionTypeId b \<noteq> ac_actionTypeId c \<or> ab_actionClass b \<noteq> ac_actionClass c \<or>
         ab_resourceRef b \<noteq> ac_resourceRef c
       then Some (''agreement_obligation_binding_mismatch'',
         ''Agreement obligation binding action fields drifted from the action contract.'')
     else None)"

definition expired_by :: "string option \<Rightarrow> string \<Rightarrow> bool" where
  "expired_by t now \<longleftrightarrow> (case t of None \<Rightarrow> False | Some x \<Rightarrow> x \<noteq> [] \<and> date_le x now)"

definition lifecycleFailureForAgreement ::
  "linked_agreement \<Rightarrow> agreement_status option \<Rightarrow> string \<Rightarrow> failure option" where
  "lifecycleFailureForAgreement a st now =
    (if expired_by (la_expiresAt a) now
       then Some (''agreement_expired'', ''Linked agreement expired before policy evaluation.'')
     else if st = Some AS_withdrawn
       then Some (''agreement_withdrawn'', ''Linked agreement was withdrawn before policy evaluation.'')
     else if st = Some AS_disputed
       then Some (''agreement_disputed'', ''Linked agreement was disputed before policy evaluation.'')
     else if st = Some AS_superseded
       then Some (''agreement_superseded'', ''Linked agreement was superseded before policy evaluation.'')
     else if st = Some AS_expired
       then Some (''agreement_expired'', ''Linked agreement status is expired.'')
     else if st \<noteq> Some AS_active then Some (''agreement_not_active'', ''Linked agreement is not active.'')
     else None)"

definition evidenceFreshnessFailureForAgreement ::
  "linked_agreement \<Rightarrow> negotiation_session \<Rightarrow> negotiation_offer \<Rightarrow> string \<Rightarrow> failure option" where
  "evidenceFreshnessFailureForAgreement a ses off now =
    (if expired_by (ns_expiresAt ses) now
       then Some (''negotiation_session_expired'', ''Negotiation session expired before policy evaluation.'')
     else if expired_by (no_expiresAt off) now
       then Some (''negotiation_offer_expired'', ''Negotiation offer expired before policy evaluation.'')
     else if no_offerContentDigest off \<noteq> la_acceptedOfferContentDigest a
       then Some (''linked_agreement_digest_mismatch'', ''Accepted offer digest drifted before policy evaluation.'')
     else None)"

text \<open>The rest of the evaluation once there is exactly one binding.\<close>

definition evaluate_bound_agreement ::
  "action_contract \<Rightarrow> string \<Rightarrow> pstore \<Rightarrow> agreement_obligation_binding \<Rightarrow> agreement_evaluation" where
  "evaluate_bound_agreement c now s b =
    (let ob = ce_obligationRef (ac_clearingEvidenceRefs c); cp = ce_counterpartyRef (ac_clearingEvidenceRefs c);
         i = (base_agreement_input ob cp)\<lparr>
           ai_agreementObligationBindingId := Some (ab_agreementObligationBindingId b),
           ai_linkedAgreementId := Some (ab_linkedAgreementId b),
           ai_actionContractDigest := Some (ab_actionContractDigest b),
           ai_paramsDigest := Some (ab_paramsDigest b)\<rparr> in
     if \<not> sameScope b c then agreement_refusal i (''agreement_obligation_scope_mismatch'',
         ''Agreement obligation binding scope does not match the action contract scope.'')
     else (case find_payload as_linked_agreement OT_linked_agreement (ab_linkedAgreementId b) s of
         None \<Rightarrow> agreement_proof_gap i ''agreement_missing''
       | Some a \<Rightarrow>
          if \<not> sameScope a c then agreement_refusal (i\<lparr>ai_agreementExpiresAt := la_expiresAt a\<rparr>)
              (''agreement_obligation_scope_mismatch'',
               ''Linked agreement scope does not match the action contract scope.'')
          else
           (let st = currentAgreementStatus a s; ses = loadAgreementSession a s; off = loadAgreementOffer a s;
                j = i\<lparr>ai_agreementStatus := Some st, ai_agreementExpiresAt := la_expiresAt a,
                  ai_sessionExpiresAt := (case ses of None \<Rightarrow> None | Some x \<Rightarrow> ns_expiresAt x),
                  ai_offerExpiresAt := (case off of None \<Rightarrow> None | Some x \<Rightarrow> no_expiresAt x)\<rparr> in
            case ses of None \<Rightarrow> agreement_proof_gap j ''negotiation_session_missing''
            | Some x \<Rightarrow> (case off of None \<Rightarrow> agreement_proof_gap j ''negotiation_offer_missing''
              | Some y \<Rightarrow> (case bindingFailureForContract b a c of Some f \<Rightarrow> agreement_refusal j f
                | None \<Rightarrow> (case evidenceFreshnessFailureForAgreement a x y now of Some f \<Rightarrow> agreement_refusal j f
                  | None \<Rightarrow> (case lifecycleFailureForAgreement a (Some st) now of Some f \<Rightarrow> agreement_refusal j f
                    | None \<Rightarrow> agreement_ok (j\<lparr>ai_posture := AP_bound\<rparr>))))))))"

definition obligation_bindings :: "action_contract \<Rightarrow> pstore \<Rightarrow> agreement_obligation_binding list" where
  "obligation_bindings c s = filter (\<lambda>b. ab_actionContractId b = ac_actionContractId c \<and>
       Some (ab_obligationRef b) = ce_obligationRef (ac_clearingEvidenceRefs c))
     (payloads as_agreement_obligation_binding
        (listRecordsByActionContract OT_agreement_obligation_binding (ac_actionContractId c) (scope_of c) s))"

definition evaluateAgreementObligationPolicy :: "action_contract \<Rightarrow> string \<Rightarrow> pstore \<Rightarrow> agreement_evaluation" where
  "evaluateAgreementObligationPolicy c now s =
    (let ob = ce_obligationRef (ac_clearingEvidenceRefs c); cp = ce_counterpartyRef (ac_clearingEvidenceRefs c);
         i = base_agreement_input ob cp in
     if \<not> truthy_ref ob \<and> \<not> truthy_ref cp
       then agreement_ok ((base_agreement_input None None)\<lparr>ai_posture := AP_not_applicable\<rparr>)
     else if \<not> truthy_ref ob \<or> \<not> truthy_ref cp
       then agreement_proof_gap i ''agreement_obligation_binding_missing''
     else (case obligation_bindings c s of
         [] \<Rightarrow> agreement_proof_gap i ''agreement_obligation_binding_missing''
       | [b] \<Rightarrow> evaluate_bound_agreement c now s b
       | _ \<Rightarrow> agreement_proof_gap i ''agreement_obligation_binding_ambiguous''))"

section \<open>The contract of the check\<close>

text \<open>An agreement that backs a contract, stated without the order of the tests.\<close>

definition agreement_backs ::
  "action_contract \<Rightarrow> string \<Rightarrow> pstore \<Rightarrow> agreement_obligation_binding \<Rightarrow> linked_agreement \<Rightarrow> bool" where
  "agreement_backs c now s b a \<longleftrightarrow>
     sameScope b c \<and> sameScope a c \<and>
     ab_counterpartyRef b = la_counterpartyRef a \<and>
     Some (ab_obligationRef b) = ce_obligationRef (la_clearingEvidenceRefs a) \<and>
     Some (ab_obligationRef b) = ce_obligationRef (ac_clearingEvidenceRefs c) \<and>
     Some (ab_counterpartyRef b) = ce_counterpartyRef (ac_clearingEvidenceRefs c) \<and>
     ab_actionContractDigest b = ac_actionContractDigest c \<and> ab_paramsDigest b = ac_paramsDigest c \<and>
     ab_actionTypeId b = ac_actionTypeId c \<and> ab_actionClass b = ac_actionClass c \<and>
     ab_resourceRef b = ac_resourceRef c \<and>
     currentAgreementStatus a s = AS_active \<and> \<not> expired_by (la_expiresAt a) now \<and>
     (\<exists>ses off. loadAgreementSession a s = Some ses \<and> loadAgreementOffer a s = Some off \<and>
        \<not> expired_by (ns_expiresAt ses) now \<and> \<not> expired_by (no_expiresAt off) now \<and>
        no_offerContentDigest off = la_acceptedOfferContentDigest a)"

definition no_obligation :: "action_contract \<Rightarrow> bool" where
  "no_obligation c \<longleftrightarrow> \<not> truthy_ref (ce_obligationRef (ac_clearingEvidenceRefs c)) \<and>
     \<not> truthy_ref (ce_counterpartyRef (ac_clearingEvidenceRefs c))"

definition obligation_backed :: "action_contract \<Rightarrow> string \<Rightarrow> pstore \<Rightarrow> bool" where
  "obligation_backed c now s \<longleftrightarrow>
     truthy_ref (ce_obligationRef (ac_clearingEvidenceRefs c)) \<and>
     truthy_ref (ce_counterpartyRef (ac_clearingEvidenceRefs c)) \<and>
     (\<exists>b a. obligation_bindings c s = [b] \<and>
        find_payload as_linked_agreement OT_linked_agreement (ab_linkedAgreementId b) s = Some a \<and>
        agreement_backs c now s b a)"

lemma agreement_result_simps [simp]:
  "ae_ok (agreement_ok i)" "\<not> ae_ok (agreement_refusal i f)" "\<not> ae_ok (agreement_proof_gap i code)"
  by (simp_all add: agreement_ok_def agreement_refusal_def agreement_proof_gap_def)

lemma bindingFailure_None:
  "bindingFailureForContract b a c = None \<longleftrightarrow>
     ab_counterpartyRef b = la_counterpartyRef a \<and>
     Some (ab_obligationRef b) = ce_obligationRef (la_clearingEvidenceRefs a) \<and>
     Some (ab_obligationRef b) = ce_obligationRef (ac_clearingEvidenceRefs c) \<and>
     Some (ab_counterpartyRef b) = ce_counterpartyRef (ac_clearingEvidenceRefs c) \<and>
     ab_actionContractDigest b = ac_actionContractDigest c \<and> ab_paramsDigest b = ac_paramsDigest c \<and>
     ab_actionTypeId b = ac_actionTypeId c \<and> ab_actionClass b = ac_actionClass c \<and>
     ab_resourceRef b = ac_resourceRef c"
  by (auto simp: bindingFailureForContract_def)

lemma lifecycleFailure_None:
  "lifecycleFailureForAgreement a st now = None \<longleftrightarrow> st = Some AS_active \<and> \<not> expired_by (la_expiresAt a) now"
  by (auto simp: lifecycleFailureForAgreement_def)

lemma lifecycleFailure_active:
  "\<not> expired_by (la_expiresAt a) now \<Longrightarrow> lifecycleFailureForAgreement a (Some AS_active) now = None"
  by (simp add: lifecycleFailure_None)

lemma freshnessFailure_None:
  "evidenceFreshnessFailureForAgreement a ses off now = None \<longleftrightarrow>
     \<not> expired_by (ns_expiresAt ses) now \<and> \<not> expired_by (no_expiresAt off) now \<and>
     no_offerContentDigest off = la_acceptedOfferContentDigest a"
  by (auto simp: evidenceFreshnessFailureForAgreement_def)

lemma refusal_case_ok:
  "ae_ok (case f of None \<Rightarrow> e | Some x \<Rightarrow> agreement_refusal j x) \<longleftrightarrow> f = None \<and> ae_ok e"
  by (simp split: option.split)

lemma evaluate_bound_agreement_ok:
  "ae_ok (evaluate_bound_agreement c now s b) \<longleftrightarrow>
     (\<exists>a. find_payload as_linked_agreement OT_linked_agreement (ab_linkedAgreementId b) s = Some a \<and>
        agreement_backs c now s b a)"
  by (cases "find_payload as_linked_agreement OT_linked_agreement (ab_linkedAgreementId b) s")
    (auto simp: evaluate_bound_agreement_def agreement_backs_def Let_def refusal_case_ok bindingFailure_None
      lifecycleFailure_None lifecycleFailure_active
      freshnessFailure_None split: option.split)

lemma evaluateAgreement_ok:
  "ae_ok (evaluateAgreementObligationPolicy c now s) \<longleftrightarrow> no_obligation c \<or> obligation_backed c now s"
  by (auto simp: evaluateAgreementObligationPolicy_def Let_def no_obligation_def obligation_backed_def
      evaluate_bound_agreement_ok split: list.split)

lemma evaluateAgreement_decision:
  "\<not> ae_ok (evaluateAgreementObligationPolicy c now s) \<Longrightarrow>
     ae_decision (evaluateAgreementObligationPolicy c now s) \<in> {PD_refuse, PD_proof_gap} \<and>
     ae_reasonCode (evaluateAgreementObligationPolicy c now s) \<noteq> None \<and>
     ae_reason (evaluateAgreementObligationPolicy c now s) \<noteq> None"
proof -
  have bound: "\<not> ae_ok (evaluate_bound_agreement c now s b) \<Longrightarrow>
     ae_decision (evaluate_bound_agreement c now s b) \<in> {PD_refuse, PD_proof_gap} \<and>
     ae_reasonCode (evaluate_bound_agreement c now s b) \<noteq> None \<and>
     ae_reason (evaluate_bound_agreement c now s b) \<noteq> None" for b
    by (auto simp: evaluate_bound_agreement_def Let_def agreement_ok_def agreement_refusal_def
        agreement_proof_gap_def split: option.splits)
  show "\<not> ae_ok (evaluateAgreementObligationPolicy c now s) \<Longrightarrow> ?thesis"
    using bound by (auto simp: evaluateAgreementObligationPolicy_def Let_def agreement_ok_def
        agreement_refusal_def agreement_proof_gap_def split: list.splits if_splits)
qed

text \<open>What an accepted evaluation says of the agreement it used.\<close>

lemma evaluateAgreement_ok_input:
  assumes "ae_ok (evaluateAgreementObligationPolicy c now s)"
    "ai_linkedAgreementId (ae_policyInput (evaluateAgreementObligationPolicy c now s)) = Some l"
  shows "ai_obligationRef (ae_policyInput (evaluateAgreementObligationPolicy c now s)) =
       ce_obligationRef (ac_clearingEvidenceRefs c)"
    "ai_counterpartyRef (ae_policyInput (evaluateAgreementObligationPolicy c now s)) =
       ce_counterpartyRef (ac_clearingEvidenceRefs c)"
  using assms
  by (auto simp: evaluateAgreementObligationPolicy_def Let_def evaluate_bound_agreement_def agreement_ok_def
      agreement_refusal_def agreement_proof_gap_def base_agreement_input_def
      split: list.splits if_splits option.splits)

end
