(* ===== verification/Sequence.thy ===== *)
theory Sequence
  imports Agreement
begin

text \<open>
  Sequence dependencies, after \<open>policy-greenlight/sequence-dependencies.ts\<close>: a
  contract may require earlier contracts.  Policy asks that each was greenlit;
  the gateway asks that each passed the gateway and is final, in its receipt or
  by a later reconciliation.
\<close>

section \<open>Indexes\<close>

text \<open>\<open>indexByActionContractId\<close>: the last record of a key counts.\<close>

definition index_by :: "('r \<Rightarrow> string) \<Rightarrow> 'r list \<Rightarrow> string \<Rightarrow> 'r option" where
  "index_by key rs k = map_of (rev (map (\<lambda>r. (key r, r)) rs)) k"

definition group_by :: "('r \<Rightarrow> string) \<Rightarrow> 'r list \<Rightarrow> string \<Rightarrow> 'r list" where
  "group_by key rs k = filter (\<lambda>r. key r = k) rs"

lemma map_of_None_keys: "map_of ps k = None \<longleftrightarrow> k \<notin> set (map fst ps)"
  by (induction ps) auto

lemma index_by_None: "index_by key rs k = None \<longleftrightarrow> (\<forall>r \<in> set rs. key r \<noteq> k)"
  by (auto simp: index_by_def map_of_None_keys image_image)

lemma index_by_Some: "index_by key rs k = Some r \<Longrightarrow> r \<in> set rs \<and> key r = k"
  unfolding index_by_def by (drule map_of_SomeD) auto

definition scoped_payloads ::
  "(protocol_record \<Rightarrow> 'r option) \<Rightarrow> protocol_object_type \<Rightarrow> action_contract \<Rightarrow> pstore \<Rightarrow> 'r list" where
  "scoped_payloads as t c s = payloads as (listRecordsByType t (scope_of c) s)"

text \<open>The required contract, when it is stored and of the same tenant and organization.\<close>

definition prior_contract :: "action_contract \<Rightarrow> string \<Rightarrow> pstore \<Rightarrow> action_contract option" where
  "prior_contract c oid s = (case find_payload as_action_contract OT_action_contract oid s of
       None \<Rightarrow> None | Some p \<Rightarrow> if sameScope c p then Some p else None)"

section \<open>At policy time\<close>

datatype (plugins only: code) sequence_status = SEQ_greenlit | SEQ_missing | SEQ_refused | SEQ_not_greenlit

fun sequence_status_str :: "sequence_status \<Rightarrow> string" where
  "sequence_status_str SEQ_greenlit = ''greenlit''"
| "sequence_status_str SEQ_missing = ''missing''"
| "sequence_status_str SEQ_refused = ''refused''"
| "sequence_status_str SEQ_not_greenlit = ''not_greenlit''"

record sequence_state =
  sq_requiredPriorActionContractId :: string
  sq_status :: sequence_status
  sq_policyDecisionId :: "string option"
  sq_policyDecisionValue :: "policy_decision_value option"
  sq_greenlightId :: "string option"

definition sequence_state_json :: "sequence_state \<Rightarrow> jval" where
  "sequence_state_json q = JObj
     [(''requiredPriorActionContractId'', JStr (sq_requiredPriorActionContractId q)),
      (''status'', JStr (sequence_status_str (sq_status q))),
      (''policyDecisionId'', j_opt JStr (sq_policyDecisionId q)),
      (''policyDecisionValue'', j_opt (\<lambda>v. JStr (policy_decision_value_str v)) (sq_policyDecisionValue q)),
      (''greenlightId'', j_opt JStr (sq_greenlightId q))]"

definition sequence_state_of :: "action_contract \<Rightarrow> pstore \<Rightarrow> string \<Rightarrow> sequence_state" where
  "sequence_state_of c s oid = (case prior_contract c oid s of
       None \<Rightarrow> \<lparr>sq_requiredPriorActionContractId = oid, sq_status = SEQ_missing,
                 sq_policyDecisionId = None, sq_policyDecisionValue = None, sq_greenlightId = None\<rparr>
     | Some _ \<Rightarrow>
        (let g = index_by gl_actionContractId (scoped_payloads as_greenlight OT_greenlight c s) oid;
             d = index_by pd_actionContractId (scoped_payloads as_policy_decision OT_policy_decision c s) oid in
         \<lparr>sq_requiredPriorActionContractId = oid,
          sq_status = (if g \<noteq> None then SEQ_greenlit
            else if map_option pd_decision d = Some PD_refuse then SEQ_refused else SEQ_not_greenlit),
          sq_policyDecisionId = map_option pd_policyDecisionId d,
          sq_policyDecisionValue = map_option pd_decision d,
          sq_greenlightId = map_option gl_greenlightId g\<rparr>))"

definition loadSequenceDependencyStates :: "action_contract \<Rightarrow> pstore \<Rightarrow> sequence_state list" where
  "loadSequenceDependencyStates c s = map (sequence_state_of c s) (ac_requiredPriorActionContractIds c)"

text \<open>\<open>PolicyEvaluationResult\<close>.\<close>

record policy_result =
  pr_decision :: policy_decision_value
  pr_reasonCode :: string
  pr_reason :: string
  pr_matchedRuleIds :: "string list"

definition evaluateSequenceDependencies :: "sequence_state list \<Rightarrow> policy_result option" where
  "evaluateSequenceDependencies qs = (case find (\<lambda>q. sq_status q \<noteq> SEQ_greenlit) qs of
       None \<Rightarrow> None
     | Some q \<Rightarrow> Some \<lparr>pr_decision = PD_refuse,
         pr_reasonCode = ''prior_action_'' @ sequence_status_str (sq_status q),
         pr_reason = ''Required prior action contract '' @ sq_requiredPriorActionContractId q @ '' is '' @
           sequence_status_str (sq_status q) @ ''.'',
         pr_matchedRuleIds = [''sequence_dependency_greenlit'']\<rparr>)"

text \<open>What policy asks of an earlier contract.\<close>

definition prior_greenlit :: "action_contract \<Rightarrow> pstore \<Rightarrow> string \<Rightarrow> bool" where
  "prior_greenlit c s oid \<longleftrightarrow> prior_contract c oid s \<noteq> None \<and>
     (\<exists>g \<in> set (scoped_payloads as_greenlight OT_greenlight c s). gl_actionContractId g = oid)"

lemma sequence_state_greenlit: "sq_status (sequence_state_of c s oid) = SEQ_greenlit \<longleftrightarrow> prior_greenlit c s oid"
  by (auto simp: sequence_state_of_def prior_greenlit_def Let_def index_by_None dest: index_by_Some
      split: option.splits)

lemma find_None_all: "find P xs = None \<longleftrightarrow> (\<forall>x \<in> set xs. \<not> P x)"
  by (auto simp: find_None_iff)

text \<open>A search that must find nothing.\<close>

lemma find_case_None:
  "(case find P xs of None \<Rightarrow> None | Some x \<Rightarrow> Some (f x)) = None \<longleftrightarrow> (\<forall>x \<in> set xs. \<not> P x)"
  unfolding find_None_all[symmetric] by (simp split: option.split)

lemma evaluateSequenceDependencies_None:
  "evaluateSequenceDependencies (loadSequenceDependencyStates c s) = None \<longleftrightarrow>
     (\<forall>oid \<in> set (ac_requiredPriorActionContractIds c). prior_greenlit c s oid)"
  by (simp add: evaluateSequenceDependencies_def loadSequenceDependencyStates_def find_case_None
      sequence_state_greenlit)

section \<open>At the gateway\<close>

datatype (plugins only: code) gateway_sequence_status =
    GSQ_ready | GSQ_missing | GSQ_refused | GSQ_not_greenlit | GSQ_not_receipted | GSQ_gate_refused | GSQ_not_final

fun gateway_sequence_status_str :: "gateway_sequence_status \<Rightarrow> string" where
  "gateway_sequence_status_str GSQ_ready = ''ready''"
| "gateway_sequence_status_str GSQ_missing = ''missing''"
| "gateway_sequence_status_str GSQ_refused = ''refused''"
| "gateway_sequence_status_str GSQ_not_greenlit = ''not_greenlit''"
| "gateway_sequence_status_str GSQ_not_receipted = ''not_receipted''"
| "gateway_sequence_status_str GSQ_gate_refused = ''gate_refused''"
| "gateway_sequence_status_str GSQ_not_final = ''not_final''"

record gateway_sequence_state =
  gq_requiredPriorActionContractId :: string
  gq_status :: gateway_sequence_status
  gq_policyDecisionId :: "string option"
  gq_policyDecisionValue :: "policy_decision_value option"
  gq_greenlightId :: "string option"
  gq_receiptId :: "string option"
  gq_gatewayCheckStatus :: "gate_decision option"
  gq_finalityStatus :: "finality_status option"

definition gatewayCheckSequenceState ::
  "string \<Rightarrow> gateway_sequence_status \<Rightarrow> policy_decision option \<Rightarrow> greenlight option \<Rightarrow> receipt option
    \<Rightarrow> surface_operation_reconciliation option \<Rightarrow> gateway_sequence_state" where
  "gatewayCheckSequenceState oid st d g r sr = \<lparr>gq_requiredPriorActionContractId = oid, gq_status = st,
     gq_policyDecisionId = map_option pd_policyDecisionId d,
     gq_policyDecisionValue = map_option pd_decision d, gq_greenlightId = map_option gl_greenlightId g,
     gq_receiptId = map_option rc_receiptId r,
     gq_gatewayCheckStatus = (case r of None \<Rightarrow> None | Some x \<Rightarrow> rc_gatewayCheckStatus x),
     gq_finalityStatus = or_else (map_option sr_finalityStatus sr) (map_option rc_finalityStatus r)\<rparr>"

definition hasFinalReconciliation :: "receipt \<Rightarrow> surface_operation_reconciliation list \<Rightarrow> bool" where
  "hasFinalReconciliation r srs \<longleftrightarrow> (case rc_mutationAttemptId r of None \<Rightarrow> False
     | Some m \<Rightarrow> list_ex (\<lambda>sr. sr_finalityStatus sr = FS_final) (group_by sr_mutationAttemptId srs m))"

definition final_passed :: "surface_operation_reconciliation list \<Rightarrow> receipt \<Rightarrow> bool" where
  "final_passed srs r \<longleftrightarrow> rc_gatewayCheckStatus r = Some GD_passed \<and>
     (rc_finalityStatus r = FS_final \<or> hasFinalReconciliation r srs)"

definition last_opt :: "'a list \<Rightarrow> 'a option" where
  "last_opt xs = (if xs = [] then None else Some (last xs))"

definition gateway_sequence_state_of :: "action_contract \<Rightarrow> pstore \<Rightarrow> string \<Rightarrow> gateway_sequence_state" where
  "gateway_sequence_state_of c s oid = (case prior_contract c oid s of
       None \<Rightarrow> gatewayCheckSequenceState oid GSQ_missing None None None None
     | Some _ \<Rightarrow>
        (let g = index_by gl_actionContractId (scoped_payloads as_greenlight OT_greenlight c s) oid;
             d = index_by pd_actionContractId (scoped_payloads as_policy_decision OT_policy_decision c s) oid;
             rs = group_by rc_actionContractId (scoped_payloads as_receipt OT_receipt c s) oid;
             srs = scoped_payloads as_surface_operation_reconciliation OT_surface_operation_reconciliation c s in
         if g = None then gatewayCheckSequenceState oid
            (if map_option pd_decision d = Some PD_refuse then GSQ_refused else GSQ_not_greenlit) d None None None
         else (case find (final_passed srs) rs of
             Some r \<Rightarrow> gatewayCheckSequenceState oid GSQ_ready d g (Some r) None
           | None \<Rightarrow>
              (let lr = last_opt rs;
                   lsr = (case lr of None \<Rightarrow> None | Some r \<Rightarrow>
                     (if truthy_ref (rc_mutationAttemptId r)
                      then last_opt (group_by sr_mutationAttemptId srs (the (rc_mutationAttemptId r))) else None)) in
               gatewayCheckSequenceState oid
                 (case lr of None \<Rightarrow> GSQ_not_receipted
                  | Some r \<Rightarrow> if rc_gatewayCheckStatus r = Some GD_refused then GSQ_gate_refused else GSQ_not_final)
                 d g lr lsr))))"

definition loadGatewayCheckSequenceDependencyStates :: "action_contract \<Rightarrow> pstore \<Rightarrow> gateway_sequence_state list" where
  "loadGatewayCheckSequenceDependencyStates c s =
     map (gateway_sequence_state_of c s) (ac_requiredPriorActionContractIds c)"

definition gatewayCheckSequenceDependencyRefusalReason :: "gateway_sequence_state list \<Rightarrow> string option" where
  "gatewayCheckSequenceDependencyRefusalReason qs = (case find (\<lambda>q. gq_status q \<noteq> GSQ_ready) qs of
       None \<Rightarrow> None
     | Some q \<Rightarrow> Some (''prior_action_'' @ gateway_sequence_status_str (gq_status q)))"

text \<open>What the gateway asks of an earlier contract.\<close>

definition prior_final :: "action_contract \<Rightarrow> pstore \<Rightarrow> string \<Rightarrow> bool" where
  "prior_final c s oid \<longleftrightarrow> prior_greenlit c s oid \<and>
     (\<exists>r \<in> set (scoped_payloads as_receipt OT_receipt c s).
        rc_actionContractId r = oid \<and> rc_gatewayCheckStatus r = Some GD_passed \<and>
        (rc_finalityStatus r = FS_final \<or>
         (\<exists>sr \<in> set (scoped_payloads as_surface_operation_reconciliation OT_surface_operation_reconciliation c s).
            rc_mutationAttemptId r = Some (sr_mutationAttemptId sr) \<and> sr_finalityStatus sr = FS_final)))"

lemma sequence_status_of_state [simp]: "gq_status (gatewayCheckSequenceState oid st d g r sr) = st"
  by (simp add: gatewayCheckSequenceState_def)

lemma hasFinalReconciliation_iff:
  "hasFinalReconciliation r srs \<longleftrightarrow>
     (\<exists>sr \<in> set srs. rc_mutationAttemptId r = Some (sr_mutationAttemptId sr) \<and> sr_finalityStatus sr = FS_final)"
  by (auto simp: hasFinalReconciliation_def group_by_def list_ex_iff split: option.split)

lemma gateway_state_ready:
  "gq_status (gateway_sequence_state_of c s oid) = GSQ_ready \<longleftrightarrow> prior_final c s oid"
proof (cases "prior_contract c oid s = None \<or>
    index_by gl_actionContractId (scoped_payloads as_greenlight OT_greenlight c s) oid = None")
  case True
  then have "gq_status (gateway_sequence_state_of c s oid) \<noteq> GSQ_ready"
    by (auto simp: gateway_sequence_state_of_def Let_def split: option.split)
  moreover have "\<not> prior_final c s oid"
    using True by (auto simp: prior_final_def prior_greenlit_def index_by_None)
  ultimately show ?thesis by simp
next
  case False
  let ?srs = "scoped_payloads as_surface_operation_reconciliation OT_surface_operation_reconciliation c s"
  let ?rs = "group_by rc_actionContractId (scoped_payloads as_receipt OT_receipt c s) oid"
  have g: "prior_greenlit c s oid"
    using False by (auto simp: prior_greenlit_def index_by_None)
  have "gq_status (gateway_sequence_state_of c s oid) = GSQ_ready \<longleftrightarrow> find (final_passed ?srs) ?rs \<noteq> None"
    using False by (auto simp: gateway_sequence_state_of_def Let_def split: option.split)
  also have "\<dots> \<longleftrightarrow> (\<exists>r \<in> set ?rs. final_passed ?srs r)"
    by (simp only: find_None_all) blast
  also have "\<dots> \<longleftrightarrow> prior_final c s oid"
    using g by (auto simp: prior_final_def group_by_def final_passed_def hasFinalReconciliation_iff)
  finally show ?thesis .
qed

lemma gatewaySequence_None:
  "gatewayCheckSequenceDependencyRefusalReason (loadGatewayCheckSequenceDependencyStates c s) = None \<longleftrightarrow>
     (\<forall>oid \<in> set (ac_requiredPriorActionContractIds c). prior_final c s oid)"
  by (simp add: gatewayCheckSequenceDependencyRefusalReason_def loadGatewayCheckSequenceDependencyStates_def
      find_case_None gateway_state_ready)

end
