(* ===== verification/Policy.thy ===== *)
theory Policy
  imports Bindings Sequence
begin

text \<open>
  Policy evaluation as a function of what it read, after
  \<open>policy-greenlight/policy.ts\<close>, \<open>guards.ts\<close> and the pure part of
  \<open>transitions.ts\<close>: the deterministic policy, the overlays that may turn a
  greenlight into a refusal or a proof gap, and the exact protected action
  rules.  An overlay never creates a greenlight: this is the interface
  \<open>restrictive\<close>, which every overlay provides and which chains of overlays
  inherit.
\<close>

section \<open>The deterministic policy\<close>

definition policy_result_of :: "policy_decision_value \<Rightarrow> string \<Rightarrow> string \<Rightarrow> string list \<Rightarrow> policy_result" where
  "policy_result_of d code reason rules =
     \<lparr>pr_decision = d, pr_reasonCode = code, pr_reason = reason, pr_matchedRuleIds = rules\<rparr>"

definition blocks_policy :: "isolation_state \<Rightarrow> bool" where
  "blocks_policy i \<longleftrightarrow> is_state i \<in> {IV_quarantined, IV_halted, IV_revoked, IV_state_suspect}"

definition evaluateDeterministicPolicy ::
  "action_contract \<Rightarrow> operating_envelope \<Rightarrow> isolation_state list \<Rightarrow> string \<Rightarrow> policy_result" where
  "evaluateDeterministicPolicy c v isolation now = (case find blocks_policy isolation of
       Some i \<Rightarrow> policy_result_of (if is_state i = IV_halted then PD_halt else PD_quarantine)
         (''isolation_'' @ isolation_value_str (is_state i))
         (''Current isolation state blocks this action at '' @ isolation_scope_type_str (is_scopeType i) @ '':'' @
            is_scopeId i @ ''.'')
         [''isolation_state_blocks_action'']
     | None \<Rightarrow>
        if list_ex (\<lambda>i. is_state i = IV_review_only) isolation
          then policy_result_of PD_review_required ''isolation_review_only''
            ''Current isolation state requires review before greenlight.'' [''isolation_state_requires_review'']
        else if date_le (ac_expiresAt c) now
          then policy_result_of PD_refuse ''contract_expired'' ''Action contract is expired.'' [''freshness'']
        else if oe_revokedAt v \<noteq> None \<or> date_le (oe_expiresAt v) now
          then policy_result_of PD_refuse ''envelope_not_active''
            ''Operating envelope is expired or revoked.'' [''envelope_active'']
        else if ac_actionClass c \<notin> set (oe_allowedActionClasses v)
          then policy_result_of PD_refuse ''action_class_outside_envelope''
            ''Action class is outside the operating envelope.'' [''action_class_allowed'']
        else if ac_gatewayId c \<notin> set (oe_allowedGateways v)
          then policy_result_of PD_refuse ''gateway_outside_envelope''
            ''Gateway is outside the operating envelope.'' [''gateway_allowed'']
        else if ''*'' \<notin> set (oe_allowedResources v) \<and> ac_resourceRef c \<notin> set (oe_allowedResources v)
          then policy_result_of PD_refuse ''resource_outside_envelope''
            ''Resource is outside the operating envelope.'' [''resource_allowed'']
        else policy_result_of PD_greenlight ''policy_passed''
            ''Exact contract is inside envelope and no isolation blocks it.'' [''envelope_bounds'', ''isolation_clear''])"

definition reviewDecisionAllowsGreenlight :: "review_decision \<Rightarrow> action_contract \<Rightarrow> string \<Rightarrow> string \<Rightarrow> bool" where
  "reviewDecisionAllowsGreenlight r c inputDigest now \<longleftrightarrow>
     rd_decision r = RV_approve \<and> date_less now (rd_decisionExpiresAt r) \<and>
     rd_actionContractId r = ac_actionContractId c \<and>
     rd_actionContractDigest r = ac_actionContractDigest c \<and>
     rd_policyInputDigest r = inputDigest \<and> rd_gatewayPolicyVersion r = ac_gatewayPolicyVersion c"

definition isolationSnapshotRef :: "isolation_state list \<Rightarrow> string" where
  "isolationSnapshotRef states =
    (if states = [] then ''isolation:none''
     else ''isolation:'' @ join ''|'' (sort (map (\<lambda>i. join '':''
       [tenantId i, organizationId i, isolation_scope_type_str (is_scopeType i), is_scopeId i,
        is_isolationStateId i, int_text (is_version i)]) states)))"

definition guardPolicyEvaluation :: "action_contract \<Rightarrow> operating_envelope \<Rightarrow> guard_result" where
  "guardPolicyEvaluation c v =
    (if ac_envelopeId c \<noteq> oe_envelopeId v then guard_fail ''invalid_transition_envelope_mismatch''
     else if tenantId c \<noteq> tenantId v \<or> organizationId c \<noteq> organizationId v \<or>
         ac_principalId c \<noteq> oe_principalId v \<or> ac_agentId c \<noteq> oe_agentId v
       then guard_fail ''invalid_transition_scope_mismatch''
     else guard_ok)"

definition guardGreenlightIssuance :: "action_contract \<Rightarrow> greenlight list \<Rightarrow> guard_result" where
  "guardGreenlightIssuance c existing =
    (if find (\<lambda>g. gl_actionContractId g = ac_actionContractId c) existing \<noteq> None
       then guard_fail ''invalid_transition_greenlight_already_issued'' else guard_ok)"

text \<open>What the envelope allows, and isolation that leaves the deterministic policy alone.\<close>

definition inside_envelope :: "action_contract \<Rightarrow> operating_envelope \<Rightarrow> string \<Rightarrow> bool" where
  "inside_envelope c v now \<longleftrightarrow>
     \<not> date_le (ac_expiresAt c) now \<and> oe_revokedAt v = None \<and> \<not> date_le (oe_expiresAt v) now \<and>
     ac_actionClass c \<in> set (oe_allowedActionClasses v) \<and> ac_gatewayId c \<in> set (oe_allowedGateways v) \<and>
     (''*'' \<in> set (oe_allowedResources v) \<or> ac_resourceRef c \<in> set (oe_allowedResources v))"

definition not_isolated :: "isolation_state list \<Rightarrow> bool" where
  "not_isolated isolation \<longleftrightarrow> (\<forall>i \<in> set isolation. is_state i \<in> {IV_active, IV_rate_limited})"

lemma policy_result_of_decision [simp]: "pr_decision (policy_result_of d code reason rules) = d"
  by (simp add: policy_result_of_def)

lemma evaluateDeterministicPolicy_greenlight:
  "pr_decision (evaluateDeterministicPolicy c v isolation now) = PD_greenlight \<longleftrightarrow>
     not_isolated isolation \<and> inside_envelope c v now"
proof -
  have st: "is_state i \<in> {IV_active, IV_rate_limited} \<longleftrightarrow> \<not> blocks_policy i \<and> is_state i \<noteq> IV_review_only" for i
    by (cases "is_state i") (simp_all add: blocks_policy_def)
  have iso: "not_isolated isolation \<longleftrightarrow>
      find blocks_policy isolation = None \<and> \<not> list_ex (\<lambda>i. is_state i = IV_review_only) isolation"
    unfolding not_isolated_def st find_None_all list_ex_iff by blast
  show ?thesis
    unfolding iso by (auto simp: evaluateDeterministicPolicy_def inside_envelope_def split: option.split)
qed

lemma evaluateDeterministicPolicy_review:
  "pr_decision (evaluateDeterministicPolicy c v isolation now) = PD_review_required \<longleftrightarrow>
     (\<forall>i \<in> set isolation. \<not> blocks_policy i) \<and> (\<exists>i \<in> set isolation. is_state i = IV_review_only)"
  unfolding find_None_all[symmetric]
  by (auto simp: evaluateDeterministicPolicy_def list_ex_iff split: option.splits if_splits)

section \<open>Exact protected actions\<close>

definition stringParameter :: "(string \<times> jval) list \<Rightarrow> string \<Rightarrow> string option" where
  "stringParameter ps key = (case map_of ps key of Some (JStr v) \<Rightarrow> (if v = [] then None else Some v) | _ \<Rightarrow> None)"

definition digestParameter :: "(string \<times> jval) list \<Rightarrow> string \<Rightarrow> string option" where
  "digestParameter ps key = (case stringParameter ps key of
       Some v \<Rightarrow> (if digest_ok v then Some v else None) | None \<Rightarrow> None)"

definition numberParameter :: "(string \<times> jval) list \<Rightarrow> string \<Rightarrow> jval option" where
  "numberParameter ps key = (case map_of ps key of Some (JInt n) \<Rightarrow> Some (JInt n)
     | Some (JFrac s) \<Rightarrow> Some (JFrac s) | _ \<Rightarrow> None)"

text \<open>A number printed with a positive exponent is an integer, any other fraction text is not.\<close>

definition nonnegativeIntegerParameter :: "(string \<times> jval) list \<Rightarrow> string \<Rightarrow> jval option" where
  "nonnegativeIntegerParameter ps key = (case numberParameter ps key of
       Some (JInt n) \<Rightarrow> (if 0 \<le> n then Some (JInt n) else None)
     | Some (JFrac s) \<Rightarrow> (if str_contains s ''e+'' \<and> \<not> str_prefix ''-'' s then Some (JFrac s) else None)
     | _ \<Rightarrow> None)"

definition atomicStringParameter :: "(string \<times> jval) list \<Rightarrow> string \<Rightarrow> string option" where
  "atomicStringParameter ps key = (case stringParameter ps key of
       Some v \<Rightarrow> (if atomic_amount_ok v then Some v else None) | None \<Rightarrow> None)"

definition compareAtomic :: "string \<Rightarrow> string \<Rightarrow> int" where
  "compareAtomic left right =
    (if digits_val left = digits_val right then 0 else if digits_val left > digits_val right then 1 else -1)"

definition hasParameter :: "(string \<times> jval) list \<Rightarrow> string \<Rightarrow> bool" where
  "hasParameter ps key \<longleftrightarrow> map_of ps key \<noteq> None"

definition exactProtectedActionPolicyApplies :: "action_contract \<Rightarrow> bool" where
  "exactProtectedActionPolicyApplies c \<longleftrightarrow>
     ac_actionClass c = ''x402_payment.exact'' \<or>
     hasParameter (ac_parameters c) ''gatewayReadinessRef'' \<or>
     hasParameter (ac_parameters c) ''gatewayReadinessDigest'' \<or>
     hasParameter (ac_parameters c) ''policyVersionRef'' \<or>
     hasParameter (ac_parameters c) ''policyVersionDigest'' \<or>
     hasParameter (ac_parameters c) ''paymentRequirementsDigest'' \<or>
     hasParameter (ac_parameters c) ''selectedPaymentRequirementIndex'' \<or>
     hasParameter (ac_parameters c) ''selectedPaymentRequirementDigest''"

text \<open>A failure here is a refusal or a proof gap.\<close>

type_synonym exact_failure = "policy_decision_value \<times> string \<times> string"

definition drifted :: "string option \<Rightarrow> string option \<Rightarrow> bool" where
  "drifted bound value \<longleftrightarrow> bound \<noteq> None \<and> bound \<noteq> value"

definition evaluateExactProtectedActionPolicyContract :: "action_contract \<Rightarrow> exact_failure option" where
  "evaluateExactProtectedActionPolicyContract c =
    (let ps = ac_parameters c; bs = ac_bounds c;
         amount = atomicStringParameter ps ''atomicAmount'';
         limit = atomicStringParameter bs ''maxAtomicAmountPerCall'' in
     if length (ac_gatewayCredentialRefs c) \<noteq> 1
       then Some (PD_proof_gap, ''protected_action_policy_credential_binding_missing'',
         ''Exact protected-action policy requires exactly one bound gateway credential ref.'')
     else if length (ac_delegatedAuthorityRefs c) \<noteq> 1
       then Some (PD_proof_gap, ''protected_action_policy_delegated_authority_missing'',
         ''Exact protected-action policy requires exactly one delegated authority ref.'')
     else if stringParameter ps ''gatewayReadinessRef'' = None \<or> digestParameter ps ''gatewayReadinessDigest'' = None
       then Some (PD_proof_gap, ''protected_action_policy_readiness_binding_missing'',
         ''Exact protected-action policy requires trusted runtime-side gateway readiness ref and digest.'')
     else if drifted (digestParameter bs ''gatewayReadinessDigest'') (digestParameter ps ''gatewayReadinessDigest'')
       then Some (PD_refuse, ''protected_action_policy_readiness_binding_mismatch'',
         ''Exact protected-action readiness digest drifted between parameters and bounds.'')
     else if stringParameter ps ''policyVersionRef'' = None \<or> digestParameter ps ''policyVersionDigest'' = None
       then Some (PD_proof_gap, ''protected_action_policy_version_binding_missing'',
         ''Exact protected-action policy requires trusted runtime-side policy version ref and digest.'')
     else if drifted (digestParameter bs ''policyVersionDigest'') (digestParameter ps ''policyVersionDigest'')
       then Some (PD_refuse, ''protected_action_policy_version_binding_mismatch'',
         ''Exact protected-action policy-version digest drifted between parameters and bounds.'')
     else if digestParameter ps ''paymentRequirementsDigest'' = None
       then Some (PD_proof_gap, ''protected_action_policy_payment_requirement_binding_missing'',
         ''Exact protected-action policy requires payment requirement evidence to be digest-bound.'')
     else if nonnegativeIntegerParameter ps ''selectedPaymentRequirementIndex'' = None
       then Some (PD_proof_gap, ''protected_action_policy_selected_payment_requirement_index_missing'',
         ''Exact protected-action policy requires the selected payment requirement index to be bound.'')
     else if digestParameter ps ''selectedPaymentRequirementDigest'' = None
       then Some (PD_proof_gap, ''protected_action_policy_selected_payment_requirement_binding_missing'',
         ''Exact protected-action policy requires selected payment requirement evidence to be digest-bound.'')
     else if amount = None \<or> limit = None
       then Some (PD_proof_gap, ''protected_action_policy_amount_binding_missing'',
         ''Exact protected-action policy requires atomicAmount and maxAtomicAmountPerCall before greenlight.'')
     else if compareAtomic (the amount) (the limit) > 0
       then Some (PD_refuse, ''protected_action_policy_amount_exceeds_action_bound'',
         ''Exact protected-action atomic amount exceeds the per-call policy bound.'')
     else None)"

definition exactProtectedActionPolicyInput :: "action_contract \<Rightarrow> jval" where
  "exactProtectedActionPolicyInput c =
    (if \<not> exactProtectedActionPolicyApplies c then JNull
     else (let ps = ac_parameters c; str = (\<lambda>k. (k, j_opt JStr (stringParameter ps k))) in JObj
       [(''actionTypeId'', JStr (ac_actionTypeId c)), (''actionTypeDigest'', JStr (ac_actionTypeDigest c)),
        (''actionClass'', JStr (ac_actionClass c)), (''protectedSurfaceKind'', JStr (ac_protectedSurfaceKind c)),
        (''gatewayRegistryDigest'', JStr (ac_gatewayRegistryDigest c)),
        (''gatewayPolicyVersion'', JStr (ac_gatewayPolicyVersion c)),
        str ''policyVersionRef'', str ''policyVersionDigest'', str ''gatewayReadinessRef'',
        str ''gatewayReadinessDigest'', str ''paymentRequirementsDigest'',
        (''selectedPaymentRequirementIndex'',
          case numberParameter ps ''selectedPaymentRequirementIndex'' of None \<Rightarrow> JNull | Some n \<Rightarrow> n),
        str ''selectedPaymentRequirementDigest'', str ''atomicAmount'',
        (''maxAtomicAmountPerCall'', j_opt JStr (stringParameter (ac_bounds c) ''maxAtomicAmountPerCall'')),
        (''gatewayCredentialRefDigests'',
          JArr (map JStr (sort (map gcb_gatewayCredentialRefDigest (ac_gatewayCredentialRefs c))))),
        (''delegatedAuthorityRefDigests'',
          JArr (map JStr (sort (map dab_delegatedAuthorityRefDigest (ac_delegatedAuthorityRefs c)))))]))"

text \<open>The exact binding of a payment, stated without the order of the tests.\<close>

definition exact_bound :: "action_contract \<Rightarrow> bool" where
  "exact_bound c \<longleftrightarrow>
    (let ps = ac_parameters c; bs = ac_bounds c in
     length (ac_gatewayCredentialRefs c) = 1 \<and> length (ac_delegatedAuthorityRefs c) = 1 \<and>
     stringParameter ps ''gatewayReadinessRef'' \<noteq> None \<and>
     stringParameter ps ''policyVersionRef'' \<noteq> None \<and>
     (\<forall>k \<in> {''gatewayReadinessDigest'', ''policyVersionDigest''}.
        digestParameter ps k \<noteq> None \<and> \<not> drifted (digestParameter bs k) (digestParameter ps k)) \<and>
     digestParameter ps ''paymentRequirementsDigest'' \<noteq> None \<and>
     digestParameter ps ''selectedPaymentRequirementDigest'' \<noteq> None \<and>
     nonnegativeIntegerParameter ps ''selectedPaymentRequirementIndex'' \<noteq> None \<and>
     (\<exists>a l. atomicStringParameter ps ''atomicAmount'' = Some a \<and>
        atomicStringParameter bs ''maxAtomicAmountPerCall'' = Some l \<and> digits_val a \<le> digits_val l))"

lemma evaluateExact_None: "evaluateExactProtectedActionPolicyContract c = None \<longleftrightarrow> exact_bound c"
proof (cases "atomicStringParameter (ac_parameters c) ''atomicAmount'' = None \<or>
    atomicStringParameter (ac_bounds c) ''maxAtomicAmountPerCall'' = None")
  case True
  then show ?thesis by (auto simp: evaluateExactProtectedActionPolicyContract_def exact_bound_def Let_def)
next
  case False
  then obtain a l where al: "atomicStringParameter (ac_parameters c) ''atomicAmount'' = Some a"
    "atomicStringParameter (ac_bounds c) ''maxAtomicAmountPerCall'' = Some l" by auto
  have "compareAtomic a l > 0 \<longleftrightarrow> digits_val l < digits_val a"
    by (auto simp: compareAtomic_def)
  then show ?thesis using al
    by (simp add: evaluateExactProtectedActionPolicyContract_def exact_bound_def Let_def linorder_not_less)
qed

lemma evaluateExact_decision:
  "evaluateExactProtectedActionPolicyContract c = Some f \<Longrightarrow> fst f \<in> {PD_refuse, PD_proof_gap}"
  by (auto simp: evaluateExactProtectedActionPolicyContract_def Let_def split: if_splits)

section \<open>What a policy evaluation read\<close>

record evaluate_policy_input =
  ep_actionContractId :: string
  ep_envelopeId :: string
  ep_policyEvaluatorVersion :: string
  ep_signingSecret :: "string option"
  ep_reviewDecisionId :: "string option"

definition evaluate_policy_input_valid :: "evaluate_policy_input \<Rightarrow> bool" where
  "evaluate_policy_input_valid i \<longleftrightarrow> ep_actionContractId i \<noteq> [] \<and> ep_envelopeId i \<noteq> [] \<and>
     ep_policyEvaluatorVersion i \<noteq> [] \<and> opt_ok (\<lambda>x. x \<noteq> []) (ep_signingSecret i) \<and>
     opt_ok (\<lambda>x. x \<noteq> []) (ep_reviewDecisionId i)"

record policy_constraints =
  px_input :: evaluate_policy_input
  px_contract :: action_contract
  px_envelope :: operating_envelope
  px_now :: string
  px_isolationStates :: "isolation_state list"
  px_sequence :: "sequence_state list"
  px_posture :: "protected_path_posture option"
  px_ledgerEntry :: "idempotency_ledger_entry option"
  px_ledgerKey :: ledger_key
  px_ledgerKeyDigest :: string
  px_ledgerEvidenceRefs :: "string list"
  px_protectedPath :: "failure option"
  px_credentials :: binding_evaluation
  px_authority :: binding_evaluation
  px_agreement :: agreement_evaluation
  px_policyInputDigest :: string
  px_isolationSnapshot :: string

section \<open>Overlays\<close>

definition idempotencyConflictDecisionValue :: "action_contract \<Rightarrow> idempotency_ledger_entry \<Rightarrow> policy_result" where
  "idempotencyConflictDecisionValue c e =
    (if il_paramsDigest e \<noteq> ac_paramsDigest c
     then policy_result_of PD_refuse ''idempotency_key_params_mismatch''
       ''Idempotency key is already bound to a different parameter digest for this protected surface; fresh authority is refused.''
       [''idempotency_ledger_params_digest'']
     else policy_result_of PD_refuse ''idempotency_duplicate_authority''
       ''Idempotency key is already bound to this protected surface and parameter digest; fresh authority is refused.''
       [''idempotency_ledger_duplicate_authority''])"

definition applyProtectedPathPolicy :: "policy_constraints \<Rightarrow> policy_result \<Rightarrow> policy_result" where
  "applyProtectedPathPolicy k v = (case px_protectedPath k of
       Some f \<Rightarrow> if pr_decision v \<noteq> PD_greenlight then v
         else policy_result_of PD_refuse (fst f) (snd f) [''protected_path_posture_required'']
     | None \<Rightarrow> v)"

definition applyGatewayCredentialRefPolicy :: "policy_constraints \<Rightarrow> policy_result \<Rightarrow> policy_result" where
  "applyGatewayCredentialRefPolicy k v = (case be_failure (px_credentials k) of
       Some f \<Rightarrow> if pr_decision v \<noteq> PD_greenlight then v
         else policy_result_of PD_refuse (fst f) (snd f) [''gateway_credential_ref_required'']
     | None \<Rightarrow> v)"

definition applyDelegatedAuthorityPolicy :: "policy_constraints \<Rightarrow> policy_result \<Rightarrow> policy_result" where
  "applyDelegatedAuthorityPolicy k v = (case be_failure (px_authority k) of
       Some f \<Rightarrow> if pr_decision v \<noteq> PD_greenlight then v
         else policy_result_of PD_refuse (fst f) (snd f) [''delegated_authority_ref_required'']
     | None \<Rightarrow> v)"

text \<open>
  An evaluation that is not \<open>ok\<close> has a reason code and a reason
  (\<open>evaluateAgreement_decision\<close>), so \<open>requirePolicyFailureValue\<close> never throws.
\<close>

definition applyAgreementObligationPolicy :: "policy_constraints \<Rightarrow> policy_result \<Rightarrow> policy_result" where
  "applyAgreementObligationPolicy k v =
    (if pr_decision v \<noteq> PD_greenlight \<or> ae_ok (px_agreement k) then v
     else policy_result_of (ae_decision (px_agreement k)) (the (ae_reasonCode (px_agreement k)))
       (the (ae_reason (px_agreement k))) [''agreement_obligation_binding_required''])"

definition applyExactProtectedActionPolicy :: "policy_constraints \<Rightarrow> policy_result \<Rightarrow> policy_result" where
  "applyExactProtectedActionPolicy k v =
    (if pr_decision v \<noteq> PD_greenlight \<or> \<not> exactProtectedActionPolicyApplies (px_contract k) then v
     else (case evaluateExactProtectedActionPolicyContract (px_contract k) of None \<Rightarrow> v
       | Some (d, code, reason) \<Rightarrow> policy_result_of d code reason [''exact_protected_action_policy_binding'']))"

definition applyIdempotencyLedgerPolicy :: "policy_constraints \<Rightarrow> policy_result \<Rightarrow> policy_result" where
  "applyIdempotencyLedgerPolicy k v = (case px_ledgerEntry k of
       Some e \<Rightarrow> if pr_decision v \<noteq> PD_greenlight then v else idempotencyConflictDecisionValue (px_contract k) e
     | None \<Rightarrow> v)"

text \<open>The six overlays in the order of the code.\<close>

definition apply_overlays :: "policy_constraints \<Rightarrow> policy_result \<Rightarrow> policy_result" where
  "apply_overlays k v =
     applyIdempotencyLedgerPolicy k (applyExactProtectedActionPolicy k (applyAgreementObligationPolicy k
       (applyGatewayCredentialRefPolicy k (applyDelegatedAuthorityPolicy k (applyProtectedPathPolicy k v)))))"

section \<open>Overlays only restrict\<close>

text \<open>
  An overlay on evaluations that are \<open>sound\<close>: it changes nothing but greenlights,
  passes a greenlight on when its condition is \<open>fine\<close> and stops it otherwise.
\<close>

locale restrictive =
  fixes overlay :: "'k \<Rightarrow> policy_result \<Rightarrow> policy_result" and sound :: "'k \<Rightarrow> bool" and fine :: "'k \<Rightarrow> bool"
  assumes keeps_other: "pr_decision v \<noteq> PD_greenlight \<Longrightarrow> overlay k v = v"
    and keeps_fine: "fine k \<Longrightarrow> overlay k v = v"
    and stops: "sound k \<Longrightarrow> \<not> fine k \<Longrightarrow> pr_decision (overlay k v) \<noteq> PD_greenlight"
begin

lemma greenlight_iff:
  "sound k \<Longrightarrow> pr_decision (overlay k v) = PD_greenlight \<longleftrightarrow> pr_decision v = PD_greenlight \<and> fine k"
  using keeps_other keeps_fine stops by metis

lemma greenlight_kept: "sound k \<Longrightarrow> pr_decision (overlay k v) = PD_greenlight \<Longrightarrow> overlay k v = v"
  using greenlight_iff keeps_fine by blast

lemma idempotent: "sound k \<Longrightarrow> overlay k (overlay k v) = overlay k v"
  using keeps_other keeps_fine stops by metis

end

text \<open>One overlay after another is an overlay.\<close>

locale restrictive_pair = first: restrictive overlay1 sound fine1 + second: restrictive overlay2 sound fine2
  for overlay1 :: "'k \<Rightarrow> policy_result \<Rightarrow> policy_result" and overlay2 :: "'k \<Rightarrow> policy_result \<Rightarrow> policy_result"
  and sound and fine1 and fine2

sublocale restrictive_pair \<subseteq> both: restrictive "\<lambda>k v. overlay2 k (overlay1 k v)" sound "\<lambda>k. fine1 k \<and> fine2 k"
  by unfold_locales
    (auto simp: first.keeps_other second.keeps_other first.keeps_fine second.keeps_fine
      second.greenlight_iff first.greenlight_iff)

text \<open>The evaluations that the code builds: an agreement that is not \<open>ok\<close> never says greenlight.\<close>

definition sound_constraints :: "policy_constraints \<Rightarrow> bool" where
  "sound_constraints k \<longleftrightarrow> (\<not> ae_ok (px_agreement k) \<longrightarrow> ae_decision (px_agreement k) \<noteq> PD_greenlight)"

definition exact_fine :: "policy_constraints \<Rightarrow> bool" where
  "exact_fine k \<longleftrightarrow> (exactProtectedActionPolicyApplies (px_contract k) \<longrightarrow> exact_bound (px_contract k))"

interpretation path_overlay: restrictive applyProtectedPathPolicy sound_constraints "\<lambda>k. px_protectedPath k = None"
  by unfold_locales (auto simp: applyProtectedPathPolicy_def split: option.split)

interpretation authority_overlay: restrictive applyDelegatedAuthorityPolicy sound_constraints
    "\<lambda>k. be_failure (px_authority k) = None"
  by unfold_locales (auto simp: applyDelegatedAuthorityPolicy_def split: option.split)

interpretation credential_overlay: restrictive applyGatewayCredentialRefPolicy sound_constraints
    "\<lambda>k. be_failure (px_credentials k) = None"
  by unfold_locales (auto simp: applyGatewayCredentialRefPolicy_def split: option.split)

interpretation agreement_overlay: restrictive applyAgreementObligationPolicy sound_constraints
    "\<lambda>k. ae_ok (px_agreement k)"
  by unfold_locales (auto simp: applyAgreementObligationPolicy_def sound_constraints_def)

lemma exact_overlay_fine: "exact_fine k \<Longrightarrow> applyExactProtectedActionPolicy k v = v"
  using evaluateExact_None[of "px_contract k"]
  by (auto simp: applyExactProtectedActionPolicy_def exact_fine_def)

lemma exact_overlay_stops:
  assumes "\<not> exact_fine k"
  shows "pr_decision (applyExactProtectedActionPolicy k v) \<noteq> PD_greenlight"
proof -
  have applies: "exactProtectedActionPolicyApplies (px_contract k)" "\<not> exact_bound (px_contract k)"
    using assms by (auto simp: exact_fine_def)
  then obtain d code reason where
    f: "evaluateExactProtectedActionPolicyContract (px_contract k) = Some (d, code, reason)"
    using evaluateExact_None[of "px_contract k"] by (cases "evaluateExactProtectedActionPolicyContract (px_contract k)") auto
  then have "d \<noteq> PD_greenlight" using evaluateExact_decision[OF f] by auto
  then show ?thesis using f applies by (simp add: applyExactProtectedActionPolicy_def)
qed

interpretation exact_overlay: restrictive applyExactProtectedActionPolicy sound_constraints exact_fine
  by unfold_locales
    (simp_all add: exact_overlay_fine exact_overlay_stops, simp add: applyExactProtectedActionPolicy_def)

interpretation ledger_overlay: restrictive applyIdempotencyLedgerPolicy sound_constraints
    "\<lambda>k. px_ledgerEntry k = None"
  by unfold_locales
    (auto simp: applyIdempotencyLedgerPolicy_def idempotencyConflictDecisionValue_def split: option.split)

text \<open>The chain of overlays, by pairing them in the order of the code.\<close>

interpretation path_authority: restrictive_pair applyProtectedPathPolicy applyDelegatedAuthorityPolicy
    sound_constraints "\<lambda>k. px_protectedPath k = None" "\<lambda>k. be_failure (px_authority k) = None" ..

interpretation to_credential: restrictive_pair
    "\<lambda>k v. applyDelegatedAuthorityPolicy k (applyProtectedPathPolicy k v)" applyGatewayCredentialRefPolicy
    sound_constraints "\<lambda>k. px_protectedPath k = None \<and> be_failure (px_authority k) = None"
    "\<lambda>k. be_failure (px_credentials k) = None" ..

interpretation agreement_exact: restrictive_pair applyAgreementObligationPolicy applyExactProtectedActionPolicy
    sound_constraints "\<lambda>k. ae_ok (px_agreement k)" exact_fine ..

interpretation to_ledger: restrictive_pair
    "\<lambda>k v. applyExactProtectedActionPolicy k (applyAgreementObligationPolicy k v)" applyIdempotencyLedgerPolicy
    sound_constraints "\<lambda>k. ae_ok (px_agreement k) \<and> exact_fine k" "\<lambda>k. px_ledgerEntry k = None" ..

text \<open>Every constraint of the overlays.\<close>

definition constraints_fine :: "policy_constraints \<Rightarrow> bool" where
  "constraints_fine k \<longleftrightarrow> px_protectedPath k = None \<and> be_failure (px_authority k) = None \<and>
     be_failure (px_credentials k) = None \<and> ae_ok (px_agreement k) \<and> exact_fine k \<and> px_ledgerEntry k = None"

interpretation overlays: restrictive apply_overlays sound_constraints constraints_fine
  unfolding apply_overlays_def constraints_fine_def
  by unfold_locales
    (auto simp: to_ledger.both.keeps_other to_credential.both.keeps_other to_ledger.both.keeps_fine
      to_credential.both.keeps_fine to_ledger.both.greenlight_iff to_credential.both.greenlight_iff)

end
