(* ===== verification/Gateway_Policy.thy ===== *)
theory Gateway_Policy
  imports Policy
begin

text \<open>
  The gateway's decision, after \<open>gateway-gate/gateway-policy.ts\<close>, \<open>guards.ts\<close>
  and \<open>receipt-export/status.ts\<close>: whether the current gateway still has the
  policy the contract pinned, the ordered list of reasons to refuse a
  greenlight, and the states that a decision gives to the receipt.
\<close>

section \<open>Gateway policy drift\<close>

record gateway_drift =
  gdr_status :: policy_drift_status
  gdr_currentGatewayPolicyVersion :: "string option"
  gdr_reasonCode :: "string option"

definition gateway_changed :: "action_contract \<Rightarrow> gateway_registry_entry \<Rightarrow> bool" where
  "gateway_changed c e \<longleftrightarrow>
     gr_gatewayId e \<noteq> ac_gatewayId c \<or> gr_protectedSurfaceKind e \<noteq> ac_protectedSurfaceKind c \<or>
     gr_gatewayPolicyContractId e \<noteq> ac_gatewayPolicyContractId c \<or>
     gr_canonicalizerVersion e \<noteq> ac_canonicalizerVersion c \<or>
     gr_receiptCapabilityStatus e \<noteq> CAPS_available \<or> gr_isolationCheckCapabilityStatus e \<noteq> CAPS_available \<or>
     gr_credentialCustodyStatus e \<noteq> ac_credentialCustodyStatus c \<or>
     gr_enforcementMode e \<noteq> ac_enforcementMode c \<or>
     gr_mutationCredentialHolderRef e \<noteq> ac_mutationCredentialHolderRef c \<or>
     gr_gatewayAuthorityHolderRef e \<noteq> ac_gatewayAuthorityHolderRef c"

definition checkGatewayPolicyDrift :: "action_contract \<Rightarrow> greenlight \<Rightarrow> gateway_registry_entry option \<Rightarrow> gateway_drift" where
  "checkGatewayPolicyDrift c g current = (case current of
       None \<Rightarrow> \<lparr>gdr_status = DRIFT_unknown, gdr_currentGatewayPolicyVersion = None,
                 gdr_reasonCode = Some ''gateway_policy_unknown''\<rparr>
     | Some e \<Rightarrow>
        (let result = (\<lambda>st code. \<lparr>gdr_status = st,
               gdr_currentGatewayPolicyVersion = Some (gr_gatewayPolicyVersion e), gdr_reasonCode = code\<rparr>) in
         if gateway_changed c e then result DRIFT_incompatible (Some ''gateway_policy_drift'')
         else if gl_gatewayPolicyVersion g \<noteq> ac_gatewayPolicyVersion c
           then result DRIFT_incompatible (Some ''greenlight_policy_mismatch'')
         else if gr_gatewayPolicyVersion e = ac_gatewayPolicyVersion c then result DRIFT_same_version None
         else if gr_gatewayPolicyDriftMode e = DM_allow_compatible_stricter \<and>
             ac_gatewayPolicyVersion c \<in> set (gr_compatiblePreviousGatewayPolicyVersions e)
           then result DRIFT_compatible_stricter None
         else result DRIFT_incompatible (Some ''gateway_policy_drift'')))"

text \<open>The gateway that may still act on a contract.\<close>

definition gateway_current :: "action_contract \<Rightarrow> greenlight \<Rightarrow> gateway_registry_entry option \<Rightarrow> bool" where
  "gateway_current c g current \<longleftrightarrow> (\<exists>e. current = Some e \<and> \<not> gateway_changed c e \<and>
     gl_gatewayPolicyVersion g = ac_gatewayPolicyVersion c \<and>
     (gr_gatewayPolicyVersion e = ac_gatewayPolicyVersion c \<or>
      (gr_gatewayPolicyDriftMode e = DM_allow_compatible_stricter \<and>
       ac_gatewayPolicyVersion c \<in> set (gr_compatiblePreviousGatewayPolicyVersions e))))"

lemma checkGatewayPolicyDrift_None:
  "gdr_reasonCode (checkGatewayPolicyDrift c g current) = None \<longleftrightarrow> gateway_current c g current"
  by (auto simp: checkGatewayPolicyDrift_def gateway_current_def Let_def split: option.split)

section \<open>Reasons to refuse\<close>

definition sameSet :: "string list \<Rightarrow> string list \<Rightarrow> bool" where
  "sameSet left right \<longleftrightarrow> length left = length right \<and> list_all2 (=) (sort left) (sort right)"

lemma sameSet_mset: "sameSet xs ys \<longleftrightarrow> mset xs = mset ys"
proof
  assume "sameSet xs ys"
  then have "sort xs = sort ys" by (simp add: sameSet_def list.rel_eq)
  then have "mset (sort xs) = mset (sort ys)" by (rule arg_cong)
  then show "mset xs = mset ys" by (simp only: mset_sort)
next
  assume eq: "mset xs = mset ys"
  then have "sort xs = sort ys" by (intro properties_for_sort) simp_all
  then show "sameSet xs ys" using mset_eq_length[OF eq] by (simp add: sameSet_def list.rel_eq)
qed

definition blocks_gateway :: "isolation_state \<Rightarrow> bool" where
  "blocks_gateway i \<longleftrightarrow> is_state i \<in> {IV_review_only, IV_quarantined, IV_halted, IV_revoked, IV_state_suspect}"

definition pinned_differs :: "string option \<Rightarrow> string option \<Rightarrow> bool" where
  "pinned_differs pinned current \<longleftrightarrow> pinned \<noteq> None \<and> pinned \<noteq> current"

text \<open>The bindings between a greenlight and its contract, in the order they are tested.\<close>

definition binding_refusal :: "action_contract \<Rightarrow> greenlight \<Rightarrow> string \<Rightarrow> string \<Rightarrow> string option" where
  "binding_refusal c g observedParamsDigest ledgerKeyDigest =
    (let ps = ac_parameters c in
     if gl_actionContractId g \<noteq> ac_actionContractId c then Some ''contract_mismatch''
     else if gl_gatewayRegistryEntryId g \<noteq> ac_gatewayRegistryEntryId c then Some ''gateway_registry_mismatch''
     else if pinned_differs (gl_gatewayRegistryDigest g) (Some (ac_gatewayRegistryDigest c))
       then Some ''gateway_registry_digest_mismatch''
     else if gl_gatewayRegistryVersion g \<noteq> ac_gatewayRegistryVersion c then Some ''gateway_registry_version_mismatch''
     else if gl_gatewayId g \<noteq> ac_gatewayId c then Some ''gateway_mismatch''
     else if gl_gatewayPolicyVersion g \<noteq> ac_gatewayPolicyVersion c then Some ''greenlight_policy_mismatch''
     else if pinned_differs (gl_policyVersionRef g) (stringParameter ps ''policyVersionRef'')
       then Some ''greenlight_policy_version_ref_mismatch''
     else if pinned_differs (gl_policyVersionDigest g) (stringParameter ps ''policyVersionDigest'')
       then Some ''greenlight_policy_version_digest_mismatch''
     else if pinned_differs (gl_gatewayReadinessRef g) (stringParameter ps ''gatewayReadinessRef'')
       then Some ''greenlight_readiness_ref_mismatch''
     else if pinned_differs (gl_gatewayReadinessDigest g) (stringParameter ps ''gatewayReadinessDigest'')
       then Some ''greenlight_readiness_digest_mismatch''
     else if gl_actionClass g \<noteq> ac_actionClass c then Some ''action_class_mismatch''
     else if gl_resourceRef g \<noteq> ac_resourceRef c then Some ''resource_mismatch''
     else if gl_paramsDigest g \<noteq> observedParamsDigest then Some ''params_mismatch''
     else if gl_contractDigest g \<noteq> ac_actionContractDigest c then Some ''contract_digest_mismatch''
     else if pinned_differs (gl_idempotencyKey g) (Some (ac_idempotencyKey c))
       then Some ''greenlight_idempotency_key_mismatch''
     else if pinned_differs (gl_idempotencyLedgerKeyDigest g) (Some ledgerKeyDigest)
       then Some ''greenlight_idempotency_scope_mismatch''
     else if \<not> sameSet (gl_gatewayCredentialRefIds g) (map gcb_gatewayCredentialRefId (ac_gatewayCredentialRefs c))
       then Some ''greenlight_credential_ref_mismatch''
     else if \<not> sameSet (gl_gatewayCredentialRefDigests g) (map gcb_gatewayCredentialRefDigest (ac_gatewayCredentialRefs c))
       then Some ''greenlight_credential_ref_digest_mismatch''
     else if \<not> sameSet (gl_delegatedAuthorityRefIds g) (map dab_delegatedAuthorityRefId (ac_delegatedAuthorityRefs c))
       then Some ''greenlight_delegated_authority_ref_mismatch''
     else if \<not> sameSet (gl_delegatedAuthorityRefDigests g)
         (map dab_delegatedAuthorityRefDigest (ac_delegatedAuthorityRefs c))
       then Some ''greenlight_delegated_authority_ref_digest_mismatch''
     else if gl_requiredProtectedPathState g \<noteq> ac_requiredProtectedPathState c
       then Some ''protected_path_requirement_mismatch''
     else None)"

definition gateRefusalReason ::
  "action_contract \<Rightarrow> greenlight \<Rightarrow> string \<Rightarrow> string \<Rightarrow> isolation_state list \<Rightarrow> string \<Rightarrow> string option
    \<Rightarrow> string option \<Rightarrow> string option \<Rightarrow> string option \<Rightarrow> string option \<Rightarrow> string option" where
  "gateRefusalReason c g observedParamsDigest ledgerKeyDigest isolation now drift authority credential path sequence =
    (case binding_refusal c g observedParamsDigest ledgerKeyDigest of Some r \<Rightarrow> Some r
     | None \<Rightarrow>
        if date_less now (gl_notBefore g) then Some ''greenlight_not_active''
        else if date_le (gl_expiresAt g) now then Some ''greenlight_expired''
        else if gl_consumedAt g \<noteq> None then Some ''already_consumed''
        else if drift \<noteq> None then drift
        else if authority \<noteq> None then authority
        else if credential \<noteq> None then credential
        else if path \<noteq> None then path
        else (case find blocks_gateway isolation of
            Some i \<Rightarrow> Some (''current_isolation_'' @ isolation_value_str (is_state i))
          | None \<Rightarrow> sequence))"

text \<open>What a greenlight that matches its contract is.\<close>

definition greenlight_matches :: "action_contract \<Rightarrow> greenlight \<Rightarrow> string \<Rightarrow> string \<Rightarrow> bool" where
  "greenlight_matches c g observedParamsDigest ledgerKeyDigest \<longleftrightarrow>
     gl_actionContractId g = ac_actionContractId c \<and> gl_gatewayRegistryEntryId g = ac_gatewayRegistryEntryId c \<and>
     gl_gatewayRegistryDigest g \<in> {None, Some (ac_gatewayRegistryDigest c)} \<and>
     gl_gatewayRegistryVersion g = ac_gatewayRegistryVersion c \<and> gl_gatewayId g = ac_gatewayId c \<and>
     gl_gatewayPolicyVersion g = ac_gatewayPolicyVersion c \<and>
     gl_policyVersionRef g \<in> {None, stringParameter (ac_parameters c) ''policyVersionRef''} \<and>
     gl_policyVersionDigest g \<in> {None, stringParameter (ac_parameters c) ''policyVersionDigest''} \<and>
     gl_gatewayReadinessRef g \<in> {None, stringParameter (ac_parameters c) ''gatewayReadinessRef''} \<and>
     gl_gatewayReadinessDigest g \<in> {None, stringParameter (ac_parameters c) ''gatewayReadinessDigest''} \<and>
     gl_actionClass g = ac_actionClass c \<and> gl_resourceRef g = ac_resourceRef c \<and>
     gl_paramsDigest g = observedParamsDigest \<and> gl_contractDigest g = ac_actionContractDigest c \<and>
     gl_idempotencyKey g \<in> {None, Some (ac_idempotencyKey c)} \<and>
     gl_idempotencyLedgerKeyDigest g \<in> {None, Some ledgerKeyDigest} \<and>
     mset (gl_gatewayCredentialRefIds g) = mset (map gcb_gatewayCredentialRefId (ac_gatewayCredentialRefs c)) \<and>
     mset (gl_gatewayCredentialRefDigests g) = mset (map gcb_gatewayCredentialRefDigest (ac_gatewayCredentialRefs c)) \<and>
     mset (gl_delegatedAuthorityRefIds g) = mset (map dab_delegatedAuthorityRefId (ac_delegatedAuthorityRefs c)) \<and>
     mset (gl_delegatedAuthorityRefDigests g) =
       mset (map dab_delegatedAuthorityRefDigest (ac_delegatedAuthorityRefs c)) \<and>
     gl_requiredProtectedPathState g = ac_requiredProtectedPathState c"

definition greenlight_live :: "greenlight \<Rightarrow> string \<Rightarrow> bool" where
  "greenlight_live g now \<longleftrightarrow> \<not> date_less now (gl_notBefore g) \<and> \<not> date_le (gl_expiresAt g) now \<and> gl_consumedAt g = None"

lemma binding_refusal_None:
  "binding_refusal c g pd kd = None \<longleftrightarrow> greenlight_matches c g pd kd"
  by (simp add: binding_refusal_def Let_def greenlight_matches_def pinned_differs_def sameSet_mset)

lemma gateRefusalReason_None:
  "gateRefusalReason c g pd kd isolation now drift authority credential path sequence = None \<longleftrightarrow>
     greenlight_matches c g pd kd \<and> greenlight_live g now \<and> drift = None \<and> authority = None \<and>
     credential = None \<and> path = None \<and> (\<forall>i \<in> set isolation. \<not> blocks_gateway i) \<and> sequence = None"
  unfolding binding_refusal_None[symmetric] find_None_all[symmetric]
  by (auto simp: gateRefusalReason_def greenlight_live_def split: option.split)

section \<open>Statuses\<close>

definition guardGatewayCheckAuthority :: "greenlight \<Rightarrow> policy_decision \<Rightarrow> guard_result" where
  "guardGatewayCheckAuthority g d =
    (if pd_policyDecisionId d \<noteq> gl_policyDecisionId g then guard_fail ''invalid_transition_policy_greenlight_mismatch''
     else if pd_actionContractId d \<noteq> gl_actionContractId g
       then guard_fail ''invalid_transition_policy_contract_mismatch''
     else if pd_decision d \<noteq> PD_greenlight then guard_fail ''invalid_transition_policy_not_greenlight''
     else guard_ok)"

definition mutationOutcomeFor :: mutation_outcome where
  "mutationOutcomeFor = MO_submitted"

definition surfaceOperationRefFor :: "'e env_scheme \<Rightarrow> string option \<Rightarrow> ('w clockw_scheme, string) ptr" where
  "surfaceOperationRefFor E provided = (if truthy_ref provided then treturn (the provided) else createId E ''sop'')"

definition downstreamStatusFor :: "gate_decision \<Rightarrow> downstream_outcome_status" where
  "downstreamStatusFor d = (if d = GD_refused then DOS_not_started else DOS_pending)"

definition receiptFinalityFor :: "gate_decision \<Rightarrow> bool \<Rightarrow> finality_status" where
  "receiptFinalityFor d hasProofGap =
    (if hasProofGap \<or> d = GD_proof_gap then FS_unknown
     else if d = GD_refused then FS_suspect else FS_pending)"

definition deriveGatewayAdmissionStatus :: "gate_decision option \<Rightarrow> consumption_status \<Rightarrow> gateway_admission_status" where
  "deriveGatewayAdmissionStatus check consumption =
    (if consumption = CONS_replayed then GAS_replayed
     else if check = Some GD_passed then GAS_admitted
     else if check = Some GD_refused then GAS_refused
     else if check = Some GD_proof_gap then GAS_proof_gap
     else GAS_not_requested)"

definition deriveDownstreamOutcomeStatus :: "downstream_outcome_status \<Rightarrow> downstream_outcome_status" where
  "deriveDownstreamOutcomeStatus s = s"

lemma admitted_iff:
  "deriveGatewayAdmissionStatus check consumption = GAS_admitted \<longleftrightarrow>
     check = Some GD_passed \<and> consumption \<noteq> CONS_replayed"
  by (auto simp: deriveGatewayAdmissionStatus_def)

end
