(* ===== verification/Policy_Transition.thy ===== *)
theory Policy_Transition
  imports Policy
begin

text \<open>
  The policy transition, after \<open>policy-greenlight/policy-record/index.ts\<close> and
  \<open>policy-greenlight/transitions.ts\<close>: it reads the contract, its envelope and
  every constraint from the store, decides, and commits the decision with
  either a single-use greenlight and its ledger reservation, or a refusal or a
  proof gap.
\<close>

section \<open>Decision and greenlight records\<close>

definition decision_unsigned_json :: "string \<Rightarrow> action_contract \<Rightarrow> policy_result \<Rightarrow> string \<Rightarrow> jval" where
  "decision_unsigned_json did c v inputDigest = JObj
     [(''policyDecisionId'', JStr did), (''actionContractId'', JStr (ac_actionContractId c)),
      (''decision'', JStr (policy_decision_value_str (pr_decision v))),
      (''decisionReasonCode'', JStr (pr_reasonCode v)), (''policyInputDigest'', JStr inputDigest)]"

definition policy_decision_of ::
  "'e env_scheme \<Rightarrow> policy_constraints \<Rightarrow> policy_result \<Rightarrow> string \<Rightarrow> policy_decision" where
  "policy_decision_of E k v did =
    (let c = px_contract k; e = px_envelope k; secret = ep_signingSecret (px_input k) in
     \<lparr>schemaVersion = PROTOCOL_VERSION, tenantId = tenantId c, organizationId = organizationId c,
      createdAt = px_now k, pd_policyDecisionId = did, pd_actionContractId = ac_actionContractId c,
      pd_envelopeId = oe_envelopeId e, pd_policyPackRef = oe_policyPackRef e,
      pd_policyPackVersion = oe_policyPackVersion e,
      pd_policyEvaluatorVersion = ep_policyEvaluatorVersion (px_input k),
      pd_policyInputDigest = px_policyInputDigest k, pd_decision = pr_decision v,
      pd_decisionReasonCode = pr_reasonCode v, pd_decisionReason = pr_reason v,
      pd_matchedRuleIds = pr_matchedRuleIds v, pd_requiredReceipt = RQ_mutation,
      pd_isolationSnapshotRef = px_isolationSnapshot k, pd_expiresAt = ac_expiresAt c,
      pd_decisionSignature = map_option (signCanonicalHmac E
        (decision_unsigned_json did c v (px_policyInputDigest k))) secret,
      pd_signaturePosture = (if secret = None then SP_unsigned else SP_local_hmac),
      pd_keyIdentityRef = (if secret = None then None else Some ''local:hmac''),
      pd_verificationPolicyRef = (if secret = None then None else Some ''local-hmac-only'')\<rparr>)"

definition buildPolicyDecision :: "kernel_env \<Rightarrow> policy_constraints \<Rightarrow> policy_result \<Rightarrow> policy_decision wtr" where
  "buildPolicyDecision E k v =
     tbind (createId E ''pol'') (\<lambda>did. tparse (policy_decision_valid E) (policy_decision_of E k v did))"

definition buildGreenlight :: "kernel_env \<Rightarrow> policy_constraints \<Rightarrow> policy_decision \<Rightarrow> greenlight wtr" where
  "buildGreenlight E k d =
    (let c = px_contract k; now = px_now k; posture = px_posture k; ps = ac_parameters c in
     tbind (createId E ''grn'') (\<lambda>gid. tparse (greenlight_valid E)
     \<lparr>schemaVersion = PROTOCOL_VERSION, tenantId = tenantId c, organizationId = organizationId c,
      createdAt = now, gl_greenlightId = gid, gl_actionContractId = ac_actionContractId c,
      gl_policyDecisionId = pd_policyDecisionId d, gl_gatewayRegistryEntryId = ac_gatewayRegistryEntryId c,
      gl_gatewayRegistryDigest = Some (ac_gatewayRegistryDigest c),
      gl_gatewayRegistryVersion = ac_gatewayRegistryVersion c, gl_gatewayId = ac_gatewayId c,
      gl_gatewayPolicyVersion = ac_gatewayPolicyVersion c,
      gl_policyVersionRef = stringParameter ps ''policyVersionRef'',
      gl_policyVersionDigest = digestParameter ps ''policyVersionDigest'',
      gl_gatewayReadinessRef = stringParameter ps ''gatewayReadinessRef'',
      gl_gatewayReadinessDigest = digestParameter ps ''gatewayReadinessDigest'',
      gl_actionClass = ac_actionClass c, gl_resourceRef = ac_resourceRef c,
      gl_requiredProtectedPathState = ac_requiredProtectedPathState c,
      gl_protectedPathPostureId = map_option pp_protectedPathPostureId posture,
      gl_protectedPathPostureDigest = map_option pp_postureDigest posture,
      gl_gatewayCredentialRefIds = map gcb_gatewayCredentialRefId (ac_gatewayCredentialRefs c),
      gl_gatewayCredentialRefDigests = map gcb_gatewayCredentialRefDigest (ac_gatewayCredentialRefs c),
      gl_delegatedAuthorityRefIds = map dab_delegatedAuthorityRefId (ac_delegatedAuthorityRefs c),
      gl_delegatedAuthorityRefDigests = map dab_delegatedAuthorityRefDigest (ac_delegatedAuthorityRefs c),
      gl_paramsDigest = ac_paramsDigest c, gl_contractDigest = ac_actionContractDigest c,
      gl_idempotencyKey = Some (ac_idempotencyKey c),
      gl_idempotencyLedgerKeyDigest = Some (px_ledgerKeyDigest k), gl_maxUses = 1,
      gl_issuedAt = now, gl_notBefore = now, gl_expiresAt = ac_expiresAt c,
      gl_isolationSnapshotRef = pd_isolationSnapshotRef d, gl_requiredReceipt = pd_requiredReceipt d,
      gl_decisionSignature = pd_decisionSignature d, gl_signaturePosture = pd_signaturePosture d,
      gl_keyIdentityRef = pd_keyIdentityRef d, gl_verificationPolicyRef = pd_verificationPolicyRef d,
      gl_consumedAt = None, gl_consumedByGateAttemptId = None\<rparr>))"

definition buildPolicyProofGap :: "kernel_env \<Rightarrow> action_contract \<Rightarrow> policy_decision \<Rightarrow> string \<Rightarrow> proof_gap wtr" where
  "buildPolicyProofGap E c d now =
     tbind (createId E ''gap'') (\<lambda>gid. tparse (proof_gap_valid E)
     \<lparr>schemaVersion = PROTOCOL_VERSION, tenantId = tenantId c, organizationId = organizationId c,
      createdAt = now, pg_proofGapId = gid, pg_gapPhase = GP_policy,
      pg_expectedEvidenceType = ''exact_protected_action_policy_binding'',
      pg_missingOrInvalidEvidenceRef = pd_decisionReasonCode d,
      pg_affectedObjectRefs = [ac_actionContractId c, pd_policyDecisionId d],
      pg_gateAttemptId = None, pg_mutationAttemptId = None, pg_receiptId = None,
      pg_reasonCode = pd_decisionReasonCode d, pg_finalityImpact = FI_invalid,
      pg_recoveryRequirement = ''Create a new exact action contract with trusted readiness, policy-version, credential, and idempotency bindings before policy can greenlight.'',
      pg_resolvedAt = None, pg_resolvedByRef = None\<rparr>)"

section \<open>Committing a decision\<close>

definition decision_event :: "action_contract \<Rightarrow> policy_decision \<Rightarrow> event_descriptor" where
  "decision_event c d = \<lparr>ed_source = protocol_base.truncate d, ed_eventType = ET_policy_decision_recorded,
     ed_objectRefs = [pd_policyDecisionId d, ac_actionContractId c],
     ed_payload = [(''decision'', JStr (policy_decision_value_str (pd_decision d))),
       (''reasonCode'', JStr (pd_decisionReasonCode d))],
     ed_streamRefs = Some (actionLifecycleStreamRefs c)\<rparr>"

definition policy_refusal_draft :: "action_contract \<Rightarrow> policy_decision \<Rightarrow> string \<Rightarrow> refusal" where
  "policy_refusal_draft c d now = \<lparr>schemaVersion = PROTOCOL_VERSION, tenantId = tenantId c,
     organizationId = organizationId c, createdAt = now, rf_refusalId = [], rf_phase = RFP_policy,
     rf_actionContractId = Some (ac_actionContractId c), rf_policyDecisionId = Some (pd_policyDecisionId d),
     rf_greenlightId = None, rf_gateAttemptId = None,
     rf_refusedObjectRef = Some (protocolObjectRef ''policy_decision'' (pd_policyDecisionId d)),
     rf_reasonCode = pd_decisionReasonCode d, rf_reason = pd_decisionReason d,
     rf_mutationAttempted = False, rf_authorityCreated = False,
     rf_evidenceRefs = [protocolObjectRef ''action_contract'' (ac_actionContractId c),
       protocolObjectRef ''policy_decision'' (pd_policyDecisionId d), pd_policyInputDigest d],
     rf_refusedAt = now\<rparr>"

definition decision_outcome_event ::
  "action_contract \<Rightarrow> policy_decision \<Rightarrow> refusal option \<Rightarrow> proof_gap option \<Rightarrow> event_descriptor" where
  "decision_outcome_event c d rf pg = \<lparr>
     ed_source = (case pg of Some g \<Rightarrow> protocol_base.truncate g | None \<Rightarrow>
       (case rf of Some r \<Rightarrow> protocol_base.truncate r | None \<Rightarrow> protocol_base.truncate d)),
     ed_eventType = (if pd_decision d = PD_review_required then ET_review_required
       else if pd_decision d = PD_proof_gap then ET_proof_gap_recorded else ET_action_refused),
     ed_objectRefs = opt_list (map_option rf_refusalId rf) @ opt_list (map_option pg_proofGapId pg) @
       [pd_policyDecisionId d, ac_actionContractId c],
     ed_payload = (''reasonCode'', JStr (pd_decisionReasonCode d)) #
       opt_list (map_option (\<lambda>g. (''finalityImpact'', JStr (finality_impact_str (pg_finalityImpact g)))) pg),
     ed_streamRefs = Some (actionLifecycleStreamRefs c)\<rparr>"

definition commitPolicyDecisionOnly ::
  "kernel_env \<Rightarrow> action_contract \<Rightarrow> policy_decision \<Rightarrow> string \<Rightarrow> (refusal option \<times> proof_gap option) wtr" where
  "commitPolicyDecisionOnly E c d now =
     tbind (if pd_decision d = PD_review_required \<or> pd_decision d = PD_proof_gap then treturn None
       else tbind (buildRefusal E (policy_refusal_draft c d now)) (\<lambda>r. treturn (Some r))) (\<lambda>rf.
     tbind (if pd_decision d = PD_proof_gap
       then tbind (buildPolicyProofGap E c d now) (\<lambda>g. treturn (Some g)) else treturn None) (\<lambda>pg.
     tbind (commitRecordsWithEvents E
       (PR_policy_decision d # opt_list (map_option PR_refusal rf) @ opt_list (map_option PR_proof_gap pg))
       [decision_event c d, decision_outcome_event c d rf pg] no_options) (\<lambda>_.
     treturn (rf, pg))))"

definition greenlight_events ::
  "action_contract \<Rightarrow> policy_decision \<Rightarrow> greenlight \<Rightarrow> idempotency_ledger_entry option \<Rightarrow> event_descriptor list" where
  "greenlight_events c d g l =
     [decision_event c d,
      \<lparr>ed_source = protocol_base.truncate g, ed_eventType = ET_action_greenlit,
       ed_objectRefs = [gl_greenlightId g, gl_actionContractId g],
       ed_payload = [(''gatewayId'', JStr (gl_gatewayId g)), (''actionClass'', JStr (gl_actionClass g))],
       ed_streamRefs = Some (actionLifecycleStreamRefs c)\<rparr>] @
     opt_list (map_option (\<lambda>e.
      \<lparr>ed_source = protocol_base.truncate e, ed_eventType = ET_idempotency_ledger_recorded,
       ed_objectRefs = [il_idempotencyLedgerEntryId e, il_ledgerKeyDigest e, ac_actionContractId c],
       ed_payload = [(''ledgerState'', JStr (idempotency_ledger_state_str (il_ledgerState e))),
         (''reasonCode'', JStr (il_reasonCode e))],
       ed_streamRefs = Some (actionLifecycleStreamRefs c)\<rparr>) l)"

definition greenlight_records ::
  "policy_decision \<Rightarrow> greenlight \<Rightarrow> idempotency_ledger_entry option \<Rightarrow> protocol_record list" where
  "greenlight_records d g l = [PR_policy_decision d, PR_greenlight g] @
     opt_list (map_option PR_idempotency_ledger_entry l)"

definition greenlight_options ::
  "action_contract \<Rightarrow> policy_decision \<Rightarrow> greenlight \<Rightarrow> idempotency_ledger_entry option \<Rightarrow> string \<Rightarrow> commit_options" where
  "greenlight_options c d g l now = no_options\<lparr>
     co_issuanceClaims := [\<lparr>gi_actionContractId = ac_actionContractId c, gi_greenlightId = gl_greenlightId g,
       gi_policyDecisionId = pd_policyDecisionId d, gi_tenantId = tenantId c,
       gi_organizationId = organizationId c, gi_claimedAt = now\<rparr>],
     co_ledgerReservations := opt_list (map_option idempotencyLedgerIndexEntry l)\<rparr>"

datatype policy_commit_result =
    PC_committed "refusal option" "proof_gap option"
  | PC_greenlight_issuance_conflict
  | PC_idempotency_ledger_conflict

definition commitGreenlightPolicyDecision ::
  "kernel_env \<Rightarrow> action_contract \<Rightarrow> policy_decision \<Rightarrow> greenlight \<Rightarrow> idempotency_ledger_entry option \<Rightarrow> string
    \<Rightarrow> policy_commit_result wtr" where
  "commitGreenlightPolicyDecision E c d g l now =
     tbind (tryCommitRecordsWithEvents E (greenlight_records d g l) (greenlight_events c d g l)
        (greenlight_options c d g l now)) (\<lambda>res. case res of
       TC_record_digest_conflict \<Rightarrow> tfail (protocol_error ''bootstrap_record_digest_conflict'' 409)
     | TC_committed _ \<Rightarrow> treturn (PC_committed None None)
     | TC_idempotency_ledger_conflict \<Rightarrow> treturn PC_idempotency_ledger_conflict)"

definition commitPolicyEvaluation ::
  "kernel_env \<Rightarrow> action_contract \<Rightarrow> policy_decision \<Rightarrow> greenlight option \<Rightarrow> idempotency_ledger_entry option \<Rightarrow> string
    \<Rightarrow> policy_commit_result wtr" where
  "commitPolicyEvaluation E c d g l now = (case g of
       None \<Rightarrow> tbind (commitPolicyDecisionOnly E c d now) (\<lambda>r. treturn (PC_committed (fst r) (snd r)))
     | Some x \<Rightarrow> commitGreenlightPolicyDecision E c d x l now)"

section \<open>Reading the constraints\<close>

text \<open>
  The ledger key that authority is reserved under: an action backed by an
  agreement is scoped to the single use of its obligation.
\<close>

definition obligation_use_json :: "action_contract \<Rightarrow> string \<Rightarrow> string \<Rightarrow> string \<Rightarrow> jval" where
  "obligation_use_json c linked ob cp = JObj
     [(''scope'', JStr ''agreement_obligation_single_use_v1''), (''tenantId'', JStr (tenantId c)),
      (''organizationId'', JStr (organizationId c)), (''gatewayId'', JStr (ac_gatewayId c)),
      (''actionClass'', JStr (ac_actionClass c)), (''linkedAgreementId'', JStr linked),
      (''obligationRef'', JStr ob), (''counterpartyRef'', JStr cp)]"

definition effectiveAuthorityLedger ::
  "'e env_scheme \<Rightarrow> action_contract \<Rightarrow> agreement_evaluation \<Rightarrow> ledger_key \<times> string \<times> string list" where
  "effectiveAuthorityLedger E c a =
    (let key = idempotencyLedgerKey c; i = ae_policyInput a in
     if ae_ok a \<and> truthy_ref (ai_linkedAgreementId i) \<and> truthy_ref (ai_agreementObligationBindingId i) \<and>
        truthy_ref (ai_obligationRef i) \<and> truthy_ref (ai_counterpartyRef i)
     then (let use = digestCanonical E (obligation_use_json c (the (ai_linkedAgreementId i))
                 (the (ai_obligationRef i)) (the (ai_counterpartyRef i)));
               scoped = key\<lparr>lk_idempotencyKey := ''agreement-obligation:'' @ take 40 (drop 7 use)\<rparr> in
           (scoped, idempotencyLedgerKeyDigest E scoped,
            [protocolObjectRef ''linked_agreement'' (the (ai_linkedAgreementId i)),
             protocolObjectRef ''agreement_obligation_binding'' (the (ai_agreementObligationBindingId i))]))
     else (key, idempotencyLedgerKeyDigest E key, []))"

definition ledger_input_json :: "action_contract \<Rightarrow> string \<Rightarrow> idempotency_ledger_entry option \<Rightarrow> jval" where
  "ledger_input_json c keyDigest entry = JObj
     [(''ledgerKeyDigest'', JStr keyDigest),
      (''existingLedgerEntryId'', j_opt (\<lambda>e. JStr (il_idempotencyLedgerEntryId e)) entry),
      (''existingLedgerState'', j_opt (\<lambda>e. JStr (idempotency_ledger_state_str (il_ledgerState e))) entry),
      (''paramsDigestMatch'', j_opt (\<lambda>e. JBool (il_paramsDigest e = ac_paramsDigest c)) entry)]"

definition buildPolicyInput ::
  "action_contract \<Rightarrow> operating_envelope \<Rightarrow> string \<Rightarrow> isolation_state list \<Rightarrow> sequence_state list
    \<Rightarrow> protected_path_posture option \<Rightarrow> string \<Rightarrow> idempotency_ledger_entry option \<Rightarrow> binding_evaluation
    \<Rightarrow> binding_evaluation \<Rightarrow> agreement_evaluation \<Rightarrow> jval" where
  "buildPolicyInput c v now isolation sequence posture keyDigest entry credentials authority agreement = JObj
     [(''contractDigest'', JStr (ac_actionContractDigest c)), (''envelopeId'', JStr (oe_envelopeId v)),
      (''envelopePolicyPackVersion'', JStr (oe_policyPackVersion v)),
      (''isolationStateIds'', JArr (map JStr (sort (map is_isolationStateId isolation)))),
      (''sequenceDependencyStates'', JArr (map sequence_state_json sequence)),
      (''requiredProtectedPathState'', JStr (required_protected_path_state_str (ac_requiredProtectedPathState c))),
      (''gatewayEnforcementMode'', JStr (gateway_enforcement_mode_str (ac_enforcementMode c))),
      (''credentialCustodyStatus'', JStr (credential_custody_status_str (ac_credentialCustodyStatus c))),
      (''gatewayCredentialRefs'', JArr (be_policyInput credentials)),
      (''delegatedAuthorityRefs'', JArr (be_policyInput authority)),
      (''agreementObligation'', agreement_input_json (ae_policyInput agreement)),
      (''protectedPathPosture'', protectedPathPolicyInput posture now),
      (''idempotencyLedger'', ledger_input_json c keyDigest entry),
      (''exactProtectedAction'', exactProtectedActionPolicyInput c)]"

definition derivePolicyConstraintEvaluation ::
  "kernel_env \<Rightarrow> evaluate_policy_input \<Rightarrow> action_contract \<Rightarrow> operating_envelope \<Rightarrow> string \<Rightarrow> pstore \<Rightarrow> policy_constraints" where
  "derivePolicyConstraintEvaluation E i c v now s =
    (let isolation = listIsolationStates (isolationScopeRefsForContract c) s;
         sequence = loadSequenceDependencyStates c s;
         posture = loadCurrentPostureForContract c s;
         path = evaluateRequiredProtectedPathPosture c (ac_credentialCustodyStatus c) (ac_enforcementMode c) posture now;
         credentials = evaluateGatewayCredentialBindings c now s;
         authority = evaluateDelegatedAuthorityBindings c now s;
         agreement = evaluateAgreementObligationPolicy c now s;
         (key, keyDigest, refs) = effectiveAuthorityLedger E c agreement;
         entry = payload_of as_idempotency_ledger_entry (getCurrentIdempotencyLedgerEntry keyDigest s);
         policyInput = buildPolicyInput c v now isolation sequence posture keyDigest entry credentials authority agreement in
     \<lparr>px_input = i, px_contract = c, px_envelope = v, px_now = now, px_isolationStates = isolation,
      px_sequence = sequence, px_posture = posture, px_ledgerEntry = entry, px_ledgerKey = key,
      px_ledgerKeyDigest = keyDigest, px_ledgerEvidenceRefs = refs, px_protectedPath = path,
      px_credentials = credentials, px_authority = authority, px_agreement = agreement,
      px_policyInputDigest = digestCanonical E policyInput,
      px_isolationSnapshot = isolationSnapshotRef isolation\<rparr>)"

section \<open>Deciding\<close>

definition base_decision :: "policy_constraints \<Rightarrow> policy_result" where
  "base_decision k =
    (let v = evaluateDeterministicPolicy (px_contract k) (px_envelope k) (px_isolationStates k) (px_now k) in
     if pr_decision v = PD_greenlight
     then (case evaluateSequenceDependencies (px_sequence k) of Some r \<Rightarrow> r | None \<Rightarrow> v) else v)"

definition review_result :: "policy_constraints \<Rightarrow> review_decision \<Rightarrow> policy_result" where
  "review_result k r =
    (if reviewDecisionAllowsGreenlight r (px_contract k) (px_policyInputDigest k) (px_now k)
     then policy_result_of PD_greenlight ''review_approved''
       ''Exact contract and policy input were approved by a bound review decision.'' [''review_decision_approved'']
     else policy_result_of PD_refuse ''review_decision_invalid''
       ''Review decision did not bind to the current exact contract and policy input.'' [''review_decision_binding''])"

definition resolvePolicyDecisionValue :: "policy_constraints \<Rightarrow> policy_result wtr" where
  "resolvePolicyDecisionValue k =
    (let v = apply_overlays k (base_decision k) in
     if pr_decision v = PD_review_required \<and> truthy_ref (ep_reviewDecisionId (px_input k))
     then tbind (requiredPayload as_review_decision OT_review_decision (the (ep_reviewDecisionId (px_input k)))
            ''review_decision_missing'') (\<lambda>r. treturn (apply_overlays k (review_result k r)))
     else treturn v)"

section \<open>The transition\<close>

record policy_response =
  pe_decision :: policy_decision
  pe_greenlight :: "greenlight option"
  pe_authorityCreated :: bool
  pe_gatewayCheckPerformed :: bool
  pe_mutationAttempted :: bool
  pe_policyDecisionRef :: string
  pe_greenlightRef :: "string option"
  pe_refusalRef :: "string option"
  pe_refusalReasonCode :: "string option"
  pe_proofGapRef :: "string option"
  pe_proofGapReasonCode :: "string option"
  pe_reviewRequired :: bool
  pe_nextAction :: string
  pe_retryability :: string
  pe_evidenceRefs :: "string list"

definition policyEvaluationResponse ::
  "policy_decision \<Rightarrow> greenlight option \<Rightarrow> refusal option \<Rightarrow> proof_gap option \<Rightarrow> policy_response" where
  "policyEvaluationResponse d g rf pg =
    (let dref = protocolObjectRef ''policy_decision'' (pd_policyDecisionId d) in
     \<lparr>pe_decision = d, pe_greenlight = g, pe_authorityCreated = (g \<noteq> None),
      pe_gatewayCheckPerformed = False, pe_mutationAttempted = False, pe_policyDecisionRef = dref,
      pe_greenlightRef = map_option gl_greenlightId g, pe_refusalRef = map_option rf_refusalId rf,
      pe_refusalReasonCode = map_option rf_reasonCode rf, pe_proofGapRef = map_option pg_proofGapId pg,
      pe_proofGapReasonCode = map_option pg_reasonCode pg,
      pe_reviewRequired = (pd_decision d = PD_review_required),
      pe_nextAction = (if g \<noteq> None then ''use_greenlight_at_gateway''
        else if pd_decision d = PD_review_required then ''request_review'' else ''read_evidence''),
      pe_retryability = ''not_retryable'',
      pe_evidenceRefs = [protocolObjectRef ''action_contract'' (pd_actionContractId d), dref] @
        opt_list (map_option (\<lambda>x. protocolObjectRef ''greenlight'' (gl_greenlightId x)) g) @
        opt_list (map_option (\<lambda>x. protocolObjectRef ''refusal'' (rf_refusalId x)) rf) @
        opt_list (map_option (\<lambda>x. protocolObjectRef ''proof_gap'' (pg_proofGapId x)) pg) @
        [pd_policyInputDigest d]\<rparr>)"

definition not_committed_error :: "string \<Rightarrow> hs_error" where
  "not_committed_error code = ProtocolError code 409
     \<lparr>em_retryability = Some ER_retryable, em_commitState = Some CS_not_committed, em_proofRef = None, em_refusalRef = None\<rparr>"

text \<open>The refusal that both conflict handlers commit.\<close>

definition commit_conflict_refusal ::
  "kernel_env \<Rightarrow> policy_constraints \<Rightarrow> policy_result \<Rightarrow> string \<Rightarrow> policy_response wtr" where
  "commit_conflict_refusal E k v code =
     tbind (buildPolicyDecision E k v) (\<lambda>d.
     tbind (commitPolicyEvaluation E (px_contract k) d None None (px_now k)) (\<lambda>res. case res of
       PC_committed rf pg \<Rightarrow> treturn (policyEvaluationResponse d None rf pg)
     | _ \<Rightarrow> tfail (not_committed_error code)))"

definition commitIdempotencyConflictRefusal :: "kernel_env \<Rightarrow> policy_constraints \<Rightarrow> policy_response wtr" where
  "commitIdempotencyConflictRefusal E k =
     tbind (store_get (getCurrentIdempotencyLedgerEntry (px_ledgerKeyDigest k))) (\<lambda>cur.
     commit_conflict_refusal E k (case payload_of as_idempotency_ledger_entry cur of
         Some e \<Rightarrow> idempotencyConflictDecisionValue (px_contract k) e
       | None \<Rightarrow> policy_result_of PD_refuse ''idempotency_duplicate_authority''
           ''Idempotency ledger reservation raced with this policy evaluation; fresh authority is refused.''
           [''idempotency_ledger_duplicate_authority'']) ''idempotency_refusal_commit_conflict'')"

definition commitGreenlightIssuanceConflictRefusal :: "kernel_env \<Rightarrow> policy_constraints \<Rightarrow> policy_response wtr" where
  "commitGreenlightIssuanceConflictRefusal E k =
     commit_conflict_refusal E k (policy_result_of PD_refuse ''idempotency_duplicate_authority''
       ''A greenlight issuance claim already exists for this action contract; fresh authority is refused.''
       [''greenlight_issuance_duplicate_authority'']) ''greenlight_issuance_refusal_commit_conflict''"

text \<open>The greenlight with its ledger reservation, when the decision is one.\<close>

definition build_authority ::
  "kernel_env \<Rightarrow> policy_constraints \<Rightarrow> policy_decision \<Rightarrow> (greenlight option \<times> idempotency_ledger_entry option) wtr" where
  "build_authority E k d =
    (if pd_decision d = PD_greenlight
     then tbind (buildGreenlight E k d) (\<lambda>g.
          tbind (buildIdempotencyLedgerReservation E (px_contract k) d g (px_now k) (px_ledgerKeyDigest k)
            (lk_idempotencyKey (px_ledgerKey k)) (px_ledgerEvidenceRefs k)) (\<lambda>l.
          treturn (Some g, Some l)))
     else treturn (None, None))"

definition commit_or_refuse ::
  "kernel_env \<Rightarrow> policy_constraints \<Rightarrow> policy_decision \<Rightarrow> greenlight option \<Rightarrow> idempotency_ledger_entry option
    \<Rightarrow> policy_response wtr" where
  "commit_or_refuse E k d g l =
     tbind (commitPolicyEvaluation E (px_contract k) d g l (px_now k)) (\<lambda>res. case res of
       PC_idempotency_ledger_conflict \<Rightarrow> commitIdempotencyConflictRefusal E k
     | PC_greenlight_issuance_conflict \<Rightarrow> commitGreenlightIssuanceConflictRefusal E k
     | PC_committed rf pg \<Rightarrow> treturn (policyEvaluationResponse d g rf pg))"

text \<open>What follows once the constraints are read: decide, build, commit.\<close>

definition decide_and_commit :: "kernel_env \<Rightarrow> policy_constraints \<Rightarrow> policy_response wtr" where
  "decide_and_commit E k =
     tbind (resolvePolicyDecisionValue k) (\<lambda>v.
     tbind (buildPolicyDecision E k v) (\<lambda>d.
     tbind (build_authority E k d) (\<lambda>gl.
     commit_or_refuse E k d (fst gl) (snd gl))))"

definition evaluatePolicy :: "kernel_env \<Rightarrow> evaluate_policy_input \<Rightarrow> policy_response wtr" where
  "evaluatePolicy E input =
     tbind (tparse evaluate_policy_input_valid input) (\<lambda>i.
     tbind (requiredPayload as_action_contract OT_action_contract (ep_actionContractId i) ''contract_missing'') (\<lambda>c.
     tbind (requiredPayload as_operating_envelope OT_operating_envelope (ep_envelopeId i) ''envelope_missing'') (\<lambda>v.
     tbind (nowIso E) (\<lambda>now.
     tbind (require_guard (guardPolicyEvaluation c v)) (\<lambda>_.
     tbind (store_get (derivePolicyConstraintEvaluation E i c v now)) (\<lambda>k.
     decide_and_commit E k))))))"

end
