(* ===== verification/Policy_Laws.thy ===== *)
theory Policy_Laws
  imports Policy_Transition
begin

text \<open>
  What a policy evaluation guarantees: a greenlight only when every constraint
  held in the store that was read, issued at most once per contract and bound
  to it; a refusal or a proof gap otherwise; and the store moved only by its own
  operations.
\<close>

section \<open>The constraints on the store\<close>

text \<open>The ledger key of the contract's authority has no current entry.\<close>

definition ledger_free :: "kernel_env \<Rightarrow> action_contract \<Rightarrow> string \<Rightarrow> pstore \<Rightarrow> bool" where
  "ledger_free E c now s \<longleftrightarrow> payload_of as_idempotency_ledger_entry (getCurrentIdempotencyLedgerEntry
     (fst (snd (effectiveAuthorityLedger E c (evaluateAgreementObligationPolicy c now s)))) s) = None"

text \<open>What every greenlight needs, whether policy passed or a review approved.\<close>

definition authority_constraints :: "kernel_env \<Rightarrow> action_contract \<Rightarrow> string \<Rightarrow> pstore \<Rightarrow> bool" where
  "authority_constraints E c now s \<longleftrightarrow>
     path_satisfied c (ac_credentialCustodyStatus c) (ac_enforcementMode c) (loadCurrentPostureForContract c s) now \<and>
     (\<forall>b \<in> set (ac_delegatedAuthorityRefs c). authority_bound c now s b) \<and>
     (\<forall>b \<in> set (ac_gatewayCredentialRefs c). credential_bound c now s b) \<and>
     (no_obligation c \<or> obligation_backed c now s) \<and>
     (exactProtectedActionPolicyApplies c \<longrightarrow> exact_bound c) \<and> ledger_free E c now s"

text \<open>What policy alone needs besides.\<close>

definition policy_constraints_met :: "action_contract \<Rightarrow> operating_envelope \<Rightarrow> string \<Rightarrow> pstore \<Rightarrow> bool" where
  "policy_constraints_met c v now s \<longleftrightarrow>
     not_isolated (listIsolationStates (isolationScopeRefsForContract c) s) \<and> inside_envelope c v now \<and>
     (\<forall>oid \<in> set (ac_requiredPriorActionContractIds c). prior_greenlit c s oid)"

definition review_only_isolation :: "action_contract \<Rightarrow> pstore \<Rightarrow> bool" where
  "review_only_isolation c s \<longleftrightarrow>
     (\<forall>i \<in> set (listIsolationStates (isolationScopeRefsForContract c) s). \<not> blocks_policy i) \<and>
     (\<exists>i \<in> set (listIsolationStates (isolationScopeRefsForContract c) s). is_state i = IV_review_only)"

lemma derive_fields [simp]:
  "px_contract (derivePolicyConstraintEvaluation E i c v now s) = c"
  "px_envelope (derivePolicyConstraintEvaluation E i c v now s) = v"
  "px_now (derivePolicyConstraintEvaluation E i c v now s) = now"
  "px_input (derivePolicyConstraintEvaluation E i c v now s) = i"
  "px_isolationStates (derivePolicyConstraintEvaluation E i c v now s) =
     listIsolationStates (isolationScopeRefsForContract c) s"
  "px_sequence (derivePolicyConstraintEvaluation E i c v now s) = loadSequenceDependencyStates c s"
  "px_agreement (derivePolicyConstraintEvaluation E i c v now s) = evaluateAgreementObligationPolicy c now s"
  "px_protectedPath (derivePolicyConstraintEvaluation E i c v now s) =
     evaluateRequiredProtectedPathPosture c (ac_credentialCustodyStatus c) (ac_enforcementMode c)
       (loadCurrentPostureForContract c s) now"
  "px_credentials (derivePolicyConstraintEvaluation E i c v now s) = evaluateGatewayCredentialBindings c now s"
  "px_authority (derivePolicyConstraintEvaluation E i c v now s) = evaluateDelegatedAuthorityBindings c now s"
  "px_ledgerKeyDigest (derivePolicyConstraintEvaluation E i c v now s) =
     fst (snd (effectiveAuthorityLedger E c (evaluateAgreementObligationPolicy c now s)))"
  "px_ledgerEntry (derivePolicyConstraintEvaluation E i c v now s) =
     payload_of as_idempotency_ledger_entry (getCurrentIdempotencyLedgerEntry
       (fst (snd (effectiveAuthorityLedger E c (evaluateAgreementObligationPolicy c now s)))) s)"
  by (simp_all add: derivePolicyConstraintEvaluation_def Let_def split: prod.split)

lemma derive_sound: "sound_constraints (derivePolicyConstraintEvaluation E i c v now s)"
  using evaluateAgreement_decision[of c now s] by (auto simp: sound_constraints_def)

lemma derive_fine:
  "constraints_fine (derivePolicyConstraintEvaluation E i c v now s) \<longleftrightarrow> authority_constraints E c now s"
  by (simp add: constraints_fine_def authority_constraints_def exact_fine_def evaluateRequired_None
      evaluateGatewayCredentialBindings_ok evaluateDelegatedAuthorityBindings_ok evaluateAgreement_ok
      ledger_free_def)

section \<open>The decision\<close>

lemma base_decision_greenlight:
  "pr_decision (base_decision k) = PD_greenlight \<longleftrightarrow>
     not_isolated (px_isolationStates k) \<and> inside_envelope (px_contract k) (px_envelope k) (px_now k) \<and>
     evaluateSequenceDependencies (px_sequence k) = None"
  unfolding base_decision_def Let_def evaluateDeterministicPolicy_greenlight
  using evaluateDeterministicPolicy_greenlight[of "px_contract k" "px_envelope k" "px_isolationStates k" "px_now k"]
  by (auto simp: evaluateSequenceDependencies_def split: option.split)

lemma base_decision_review:
  "pr_decision (base_decision k) = PD_review_required \<longleftrightarrow>
     (\<forall>i \<in> set (px_isolationStates k). \<not> blocks_policy i) \<and> (\<exists>i \<in> set (px_isolationStates k). is_state i = IV_review_only)"
  unfolding evaluateDeterministicPolicy_review[symmetric, of _ "px_contract k" "px_envelope k" "px_now k"]
  by (auto simp: base_decision_def Let_def evaluateSequenceDependencies_def split: option.split)

lemma derive_base_greenlight:
  "pr_decision (base_decision (derivePolicyConstraintEvaluation E i c v now s)) = PD_greenlight \<longleftrightarrow>
     policy_constraints_met c v now s"
  by (simp add: base_decision_greenlight policy_constraints_met_def evaluateSequenceDependencies_None)

text \<open>The review that a request names and that is stored and bound to this evaluation.\<close>

definition approved_by_review :: "policy_constraints \<Rightarrow> pstore \<Rightarrow> bool" where
  "approved_by_review k s \<longleftrightarrow> (\<exists>rid r. ep_reviewDecisionId (px_input k) = Some rid \<and> rid \<noteq> [] \<and>
     find_payload as_review_decision OT_review_decision rid s = Some r \<and>
     reviewDecisionAllowsGreenlight r (px_contract k) (px_policyInputDigest k) (px_now k))"

lemma overlays_review_only:
  "sound_constraints k \<Longrightarrow> pr_decision v \<noteq> PD_greenlight \<Longrightarrow> apply_overlays k v = v"
  by (rule overlays.keeps_other)

lemma resolve_greenlight:
  assumes "sound_constraints k" "resolvePolicyDecisionValue k w = (Inr v, w')" "pr_decision v = PD_greenlight"
  shows "w' = w \<and> constraints_fine k \<and> (pr_decision (base_decision k) = PD_greenlight \<or>
     (pr_decision (base_decision k) \<noteq> PD_greenlight \<and> pr_decision (apply_overlays k (base_decision k)) = PD_review_required \<and>
      approved_by_review k (w_store w)))"
proof (cases "pr_decision (apply_overlays k (base_decision k)) = PD_review_required \<and>
    truthy_ref (ep_reviewDecisionId (px_input k))")
  case True
  then obtain rid where rid: "ep_reviewDecisionId (px_input k) = Some rid" "rid \<noteq> []"
    by (auto simp: truthy_ref_def)
  have "tbind (requiredPayload as_review_decision OT_review_decision rid
      ''review_decision_missing'') (\<lambda>r. treturn (apply_overlays k (review_result k r))) w = (Inr v, w')"
    using True rid assms(2) by (simp add: resolvePolicyDecisionValue_def Let_def)
  then obtain r where r: "find_payload as_review_decision OT_review_decision rid (w_store w) = Some r"
    "v = apply_overlays k (review_result k r)" "w' = w"
    by (auto simp: tbind_Inr_iff requiredPayload_Inr)
  have "pr_decision (review_result k r) = PD_greenlight" "constraints_fine k"
    using assms(1,3) r(2) overlays.greenlight_iff by simp_all
  then have "approved_by_review k (w_store w)"
    using rid r(1) by (auto simp: approved_by_review_def review_result_def split: if_splits)
  moreover have "pr_decision (base_decision k) \<noteq> PD_greenlight"
    using True \<open>constraints_fine k\<close> overlays.keeps_fine[of k "base_decision k"] by auto
  ultimately show ?thesis using True r \<open>constraints_fine k\<close> by simp
next
  case False
  then have "v = apply_overlays k (base_decision k)" "w' = w"
    using assms(2) by (auto simp: resolvePolicyDecisionValue_def Let_def)
  then show ?thesis using assms(1,3) overlays.greenlight_iff by simp
qed

text \<open>Without a review the decision is a greenlight exactly when every constraint is met.\<close>

lemma resolve_policy_iff:
  assumes "sound_constraints k" "resolvePolicyDecisionValue k w = (Inr v, w')"
    "pr_decision (base_decision k) \<noteq> PD_review_required"
  shows "pr_decision v = PD_greenlight \<longleftrightarrow> pr_decision (base_decision k) = PD_greenlight \<and> constraints_fine k"
proof (cases "pr_decision v = PD_greenlight")
  case True
  then show ?thesis
    using resolve_greenlight[OF assms(1,2)] assms(3) overlays_review_only[OF assms(1)] by metis
next
  case False
  show ?thesis
  proof (rule ccontr)
    assume "\<not> ?thesis"
    then have "pr_decision (base_decision k) = PD_greenlight" "constraints_fine k" using False by auto
    then have "pr_decision (apply_overlays k (base_decision k)) = PD_greenlight"
      using overlays.greenlight_iff[OF assms(1)] by simp
    then have "v = apply_overlays k (base_decision k)"
      using assms(2) by (simp add: resolvePolicyDecisionValue_def Let_def)
    then show False using \<open>pr_decision (apply_overlays k (base_decision k)) = PD_greenlight\<close> False by simp
  qed
qed

section \<open>The records\<close>

lemma policy_builders_read [reads_only_intros]:
  "reads_only (resolvePolicyDecisionValue k)" "reads_only (buildPolicyDecision E k v)"
  "reads_only (buildGreenlight E k d)" "reads_only (buildPolicyProofGap E c d now)"
  unfolding resolvePolicyDecisionValue_def buildPolicyDecision_def buildGreenlight_def Let_def
    buildPolicyProofGap_def
  by (intro reads_only_intros)+

lemma buildPolicyDecision_Inr:
  "buildPolicyDecision E k v w = (Inr d, w') \<Longrightarrow>
     pd_decision d = pr_decision v \<and> pd_actionContractId d = ac_actionContractId (px_contract k) \<and>
     pd_decisionReasonCode d = pr_reasonCode v \<and> pd_policyInputDigest d = px_policyInputDigest k \<and>
     policy_decision_valid E d"
  by (auto simp: buildPolicyDecision_def tbind_Inr_iff policy_decision_of_def Let_def)

text \<open>A greenlight bound to its contract, for one use.\<close>

definition greenlight_binds :: "greenlight \<Rightarrow> action_contract \<Rightarrow> bool" where
  "greenlight_binds g c \<longleftrightarrow> gl_actionContractId g = ac_actionContractId c \<and>
     sameScope g c \<and> gl_gatewayRegistryEntryId g = ac_gatewayRegistryEntryId c \<and>
     gl_gatewayId g = ac_gatewayId c \<and> gl_gatewayPolicyVersion g = ac_gatewayPolicyVersion c \<and>
     gl_actionClass g = ac_actionClass c \<and> gl_resourceRef g = ac_resourceRef c \<and>
     gl_paramsDigest g = ac_paramsDigest c \<and> gl_contractDigest g = ac_actionContractDigest c \<and>
     gl_idempotencyKey g = Some (ac_idempotencyKey c) \<and> gl_expiresAt g = ac_expiresAt c \<and>
     gl_gatewayCredentialRefDigests g = map gcb_gatewayCredentialRefDigest (ac_gatewayCredentialRefs c) \<and>
     gl_delegatedAuthorityRefDigests g = map dab_delegatedAuthorityRefDigest (ac_delegatedAuthorityRefs c) \<and>
     gl_maxUses g = 1 \<and> gl_consumedAt g = None"

lemma buildGreenlight_Inr:
  "buildGreenlight E k d w = (Inr g, w') \<Longrightarrow>
     greenlight_binds g (px_contract k) \<and> gl_policyDecisionId g = pd_policyDecisionId d \<and>
     gl_idempotencyLedgerKeyDigest g = Some (px_ledgerKeyDigest k) \<and> gl_notBefore g = px_now k"
  by (auto simp: buildGreenlight_def tbind_Inr_iff Let_def greenlight_binds_def sameScope_def)

section \<open>Issuance\<close>

text \<open>
  A commit that issues a greenlight: the store moves from \<open>s\<close> to \<open>t\<close>, the
  contract had no greenlight and its ledger key no reservation before, and has
  this greenlight and this reservation after.
\<close>

definition issues :: "kernel_env \<Rightarrow> action_contract \<Rightarrow> policy_decision \<Rightarrow> greenlight \<Rightarrow> pstore \<Rightarrow> pstore \<Rightarrow> bool" where
  "issues E c d g s t \<longleftrightarrow>
     map_of (s_issuance s) (ac_actionContractId c) = None \<and>
     (\<exists>cl. map_of (s_issuance t) (ac_actionContractId c) = Some cl \<and> gi_greenlightId cl = gl_greenlightId g) \<and>
     (\<exists>key li. gl_idempotencyLedgerKeyDigest g = Some key \<and> map_of (s_ledger s) key = None \<and>
        map_of (s_ledger t) key = Some li \<and> li_greenlightId li = Some (gl_greenlightId g) \<and>
        li_ledgerState li = ILS_authority_reserved) \<and>
     find_payload as_greenlight OT_greenlight (gl_greenlightId g) t = Some g \<and>
     find_payload as_policy_decision OT_policy_decision (pd_policyDecisionId d) t = Some d"

lemma greenlight_records_distinct:
  "rs = greenlight_records d g (Some l) \<or> (\<exists>c. rs = PR_transition_request_context c # greenlight_records d g (Some l)) \<Longrightarrow>
     distinct (map record_type rs) \<and> PR_policy_decision d \<in> set rs \<and> PR_greenlight g \<in> set rs"
  by (auto simp: greenlight_records_def)

lemma commitGreenlight_issues:
  assumes "disciplined E" "commitGreenlightPolicyDecision E c d g (Some l) now w = (Inr (PC_committed rf pg), w')"
    and l: "gl_idempotencyLedgerKeyDigest g = Some (il_ledgerKeyDigest l)"
      "il_greenlightId l = Some (gl_greenlightId g)" "il_ledgerState l = ILS_authority_reserved"
  shows "\<exists>s. store_run (w_store w) s \<and> issues E c d g s (w_store w')"
proof -
  obtain res w1 where "tryCommitRecordsWithEvents E (greenlight_records d g (Some l)) (greenlight_events c d g (Some l))
      (greenlight_options c d g (Some l) now) w = (Inr res, w1)"
    "(case res of TC_record_digest_conflict \<Rightarrow> tfail (protocol_error ''bootstrap_record_digest_conflict'' 409)
      | TC_committed _ \<Rightarrow> treturn (PC_committed None None)
      | TC_idempotency_ledger_conflict \<Rightarrow> treturn PC_idempotency_ledger_conflict) w1 = (Inr (PC_committed rf pg), w')"
    using assms(2) by (auto simp: commitGreenlightPolicyDecision_def tbind_Inr_iff)
  then obtain es where committed: "tryCommitRecordsWithEvents E (greenlight_records d g (Some l))
      (greenlight_events c d g (Some l)) (greenlight_options c d g (Some l) now) w = (Inr (TC_committed es), w')"
    by (cases res) auto
  from tryCommit_committed[OF assms(1) this] obtain rs s where
    rs: "rs = greenlight_records d g (Some l) \<or> (\<exists>c. rs = PR_transition_request_context c # greenlight_records d g (Some l))"
    and run: "store_run (w_store w) s"
    and com: "commitProtocolRecords (commit_of (map (buildRecord E) rs) es (greenlight_options c d g (Some l) now)) s
      = (CR_committed, w_store w')" by blast
  note com' = commitProtocolRecords_committedD[OF com]
  have iss: "map_of (s_issuance s) (ac_actionContractId c) = None"
    using com'(1) by (simp add: greenlight_options_def no_options_def has_key_def)
  have led: "map_of (s_ledger s) (il_ledgerKeyDigest l) = None"
    using com'(2) by (simp add: greenlight_options_def no_options_def has_key_def idempotencyLedgerIndexEntry_def)
  have iss': "map_of (s_issuance (w_store w')) (ac_actionContractId c) = Some
      \<lparr>gi_actionContractId = ac_actionContractId c, gi_greenlightId = gl_greenlightId g,
       gi_policyDecisionId = pd_policyDecisionId d, gi_tenantId = tenantId c,
       gi_organizationId = organizationId c, gi_claimedAt = now\<rparr>"
    using com'(7) by (simp add: greenlight_options_def no_options_def map_of_update)
  have led': "map_of (s_ledger (w_store w')) (il_ledgerKeyDigest l) = Some (idempotencyLedgerIndexEntry l)"
    using com'(11) by (simp add: greenlight_options_def no_options_def map_of_update idempotencyLedgerIndexEntry_def)
  have dist: "distinct (map record_type rs)" "PR_policy_decision d \<in> set rs" "PR_greenlight g \<in> set rs"
    using greenlight_records_distinct[OF rs] by auto
  have "find_payload as_greenlight OT_greenlight (gl_greenlightId g) (w_store w') = Some g"
    using commit_stores[OF com dist(1,3)] by (simp add: find_payload_def)
  moreover have "find_payload as_policy_decision OT_policy_decision (pd_policyDecisionId d) (w_store w') = Some d"
    using commit_stores[OF com dist(1,2)] by (simp add: find_payload_def)
  ultimately show ?thesis
    using run iss iss' led led' l by (auto simp: issues_def idempotencyLedgerIndexEntry_def)
qed

lemma response_fields [simp]:
  "pe_greenlight (policyEvaluationResponse d g rf pg) = g" "pe_decision (policyEvaluationResponse d g rf pg) = d"
  "pe_authorityCreated (policyEvaluationResponse d g rf pg) \<longleftrightarrow> g \<noteq> None"
  "pe_refusalRef (policyEvaluationResponse d g rf pg) = map_option rf_refusalId rf"
  "pe_proofGapRef (policyEvaluationResponse d g rf pg) = map_option pg_proofGapId pg"
  by (simp_all add: policyEvaluationResponse_def Let_def)

text \<open>The refusals that answer a conflict never carry a greenlight.\<close>

lemma conflict_refusal_no_greenlight:
  assumes "commit_conflict_refusal E k v code w = (Inr resp, w')"
  shows "pe_greenlight resp = None"
proof -
  obtain d w1 w2 res where "(case res of
       PC_committed rf pg \<Rightarrow> treturn (policyEvaluationResponse d None rf pg)
     | _ \<Rightarrow> tfail (not_committed_error code)) w2 = (Inr resp, w')" "buildPolicyDecision E k v w = (Inr d, w1)"
    using assms unfolding commit_conflict_refusal_def by (auto elim!: tbind_InrE)
  then show ?thesis by (cases res) auto
qed

lemma conflict_handlers_no_greenlight:
  "commitIdempotencyConflictRefusal E k w = (Inr resp, w') \<Longrightarrow> pe_greenlight resp = None"
  "commitGreenlightIssuanceConflictRefusal E k w = (Inr resp, w') \<Longrightarrow> pe_greenlight resp = None"
  unfolding commitIdempotencyConflictRefusal_def commitGreenlightIssuanceConflictRefusal_def
  by (auto elim!: tbind_InrE dest: conflict_refusal_no_greenlight)

text \<open>The commit never reports an issuance conflict: the recorder has thrown by then.\<close>

lemma commitGreenlight_results:
  assumes "commitGreenlightPolicyDecision E c d g l now w = (Inr res, w')"
  shows "res = PC_idempotency_ledger_conflict \<or> res = PC_committed None None"
proof -
  obtain r w1 where "(case r of TC_record_digest_conflict \<Rightarrow> tfail (protocol_error ''bootstrap_record_digest_conflict'' 409)
      | TC_committed _ \<Rightarrow> treturn (PC_committed None None)
      | TC_idempotency_ledger_conflict \<Rightarrow> treturn PC_idempotency_ledger_conflict) w1 = (Inr res, w')"
    using assms unfolding commitGreenlightPolicyDecision_def by (elim tbind_InrE)
  then show ?thesis by (cases r) auto
qed

lemma commitPolicyEvaluation_no_issuance_conflict:
  "commitPolicyEvaluation E c d g l now w = (Inr res, w') \<Longrightarrow> res \<noteq> PC_greenlight_issuance_conflict"
  by (auto simp: commitPolicyEvaluation_def split: option.splits elim!: tbind_InrE dest: commitGreenlight_results)

lemma commit_or_refuse_greenlight:
  assumes "commit_or_refuse E k d g0 l w = (Inr resp, w')" "pe_greenlight resp = Some g"
  shows "g0 = Some g \<and> pe_decision resp = d \<and>
     commitGreenlightPolicyDecision E (px_contract k) d g l (px_now k) w = (Inr (PC_committed None None), w')"
proof -
  obtain res w1 where res: "commitPolicyEvaluation E (px_contract k) d g0 l (px_now k) w = (Inr res, w1)"
    and rest: "(case res of
       PC_idempotency_ledger_conflict \<Rightarrow> commitIdempotencyConflictRefusal E k
     | PC_greenlight_issuance_conflict \<Rightarrow> commitGreenlightIssuanceConflictRefusal E k
     | PC_committed rf pg \<Rightarrow> treturn (policyEvaluationResponse d g0 rf pg)) w1 = (Inr resp, w')"
    using assms(1) unfolding commit_or_refuse_def by (rule tbind_InrE)
  obtain rf pg where committed: "res = PC_committed rf pg"
    using rest assms(2) conflict_handlers_no_greenlight by (cases res) auto
  then have "resp = policyEvaluationResponse d g0 rf pg" "w1 = w'" using rest by auto
  then show ?thesis
    using assms(2) res committed by (auto simp: commitPolicyEvaluation_def dest: commitGreenlight_results)
qed

lemma build_authority_greenlight:
  assumes "build_authority E k d w = (Inr (Some g, l0), w')"
  obtains l w1 where "l0 = Some l" "pd_decision d = PD_greenlight" "buildGreenlight E k d w = (Inr g, w1)"
    "buildIdempotencyLedgerReservation E (px_contract k) d g (px_now k) (px_ledgerKeyDigest k)
       (lk_idempotencyKey (px_ledgerKey k)) (px_ledgerEvidenceRefs k) w1 = (Inr l, w')"
  using assms by (auto simp: build_authority_def split: if_splits elim!: tbind_InrE)

lemma decide_and_commit_greenlight:
  assumes "disciplined E" "sound_constraints k" "decide_and_commit E k w = (Inr resp, w')"
    "pe_greenlight resp = Some g"
  shows "\<exists>d s. store_run (w_store w) s \<and> issues E (px_contract k) d g s (w_store w') \<and>
     greenlight_binds g (px_contract k) \<and> gl_policyDecisionId g = pd_policyDecisionId d \<and>
     pd_decision d = PD_greenlight \<and> pd_actionContractId d = gl_actionContractId g \<and> pe_decision resp = d \<and>
     constraints_fine k \<and> (pr_decision (base_decision k) = PD_greenlight \<or>
     (pr_decision (base_decision k) = PD_review_required \<and> approved_by_review k (w_store w)))"
proof -
  obtain v w1 d w2 g0 l0 w3 where v: "resolvePolicyDecisionValue k w = (Inr v, w1)"
    and d: "buildPolicyDecision E k v w1 = (Inr d, w2)" and gl: "build_authority E k d w2 = (Inr (g0, l0), w3)"
    and com: "commit_or_refuse E k d g0 l0 w3 = (Inr resp, w')"
    using assms(3) unfolding decide_and_commit_def by (auto elim!: tbind_InrE)
  note com' = commit_or_refuse_greenlight[OF com assms(4)]
  obtain l w5 where l0: "l0 = Some l" and green: "pd_decision d = PD_greenlight"
    and g: "buildGreenlight E k d w2 = (Inr g, w5)"
    and l: "buildIdempotencyLedgerReservation E (px_contract k) d g (px_now k) (px_ledgerKeyDigest k)
       (lk_idempotencyKey (px_ledgerKey k)) (px_ledgerEvidenceRefs k) w5 = (Inr l, w3)"
    using gl com' by (auto elim: build_authority_greenlight)
  note dD = buildPolicyDecision_Inr[OF d] and gD = buildGreenlight_Inr[OF g] and lD = reservation_Inr[OF l]
  have rD: "w1 = w \<and> constraints_fine k \<and> (pr_decision (base_decision k) = PD_greenlight \<or>
     (pr_decision (base_decision k) \<noteq> PD_greenlight \<and> pr_decision (apply_overlays k (base_decision k)) = PD_review_required \<and>
      approved_by_review k (w_store w)))"
    using resolve_greenlight[OF assms(2) v] dD green by simp
  have "w_store w3 = w_store w"
    using reads_onlyD[OF policy_builders_read(1) v] reads_onlyD[OF policy_builders_read(2) d]
      reads_onlyD[OF policy_builders_read(3) g] reads_onlyD[OF builders_read(3) l] by simp
  moreover have "\<exists>s. store_run (w_store w3) s \<and> issues E (px_contract k) d g s (w_store w')"
    using com' l0 gD lD by (intro commitGreenlight_issues[OF assms(1)]) auto
  moreover have "pr_decision (base_decision k) = PD_greenlight \<or>
     (pr_decision (base_decision k) = PD_review_required \<and> approved_by_review k (w_store w))"
    using rD overlays_review_only[OF assms(2)] by fastforce
  ultimately show ?thesis
    using rD com' dD gD green by (auto simp: greenlight_binds_def)
qed

section \<open>The transition\<close>

text \<open>A successful evaluation read its contract and envelope and went on from the same store.\<close>

lemma evaluatePolicy_context:
  assumes "evaluatePolicy E input w = (Inr resp, w')"
  obtains c v now w1 where
    "find_payload as_action_contract OT_action_contract (ep_actionContractId input) (w_store w) = Some c"
    "find_payload as_operating_envelope OT_operating_envelope (ep_envelopeId input) (w_store w) = Some v"
    "guardPolicyEvaluation c v = guard_ok" "w_store w1 = w_store w"
    "decide_and_commit E (derivePolicyConstraintEvaluation E input c v now (w_store w)) w1 = (Inr resp, w')"
  using assms unfolding evaluatePolicy_def require_guard_def guard_ok_def
  by (auto simp: requiredPayload_Inr split: sum.splits elim!: tbind_InrE dest!: nowIso_store)

lemma guardPolicyEvaluation_ok:
  "guardPolicyEvaluation c v = guard_ok \<longleftrightarrow> ac_envelopeId c = oe_envelopeId v \<and> sameScope c v \<and>
     ac_principalId c = oe_principalId v \<and> ac_agentId c = oe_agentId v"
  by (auto simp: guardPolicyEvaluation_def guard_ok_def guard_fail_def sameScope_def)

section \<open>Streams\<close>

definition in_organization :: "'a protocol_base_scheme \<Rightarrow> 'b protocol_base_scheme \<Rightarrow> bool" where
  "in_organization r c \<longleftrightarrow> tenantId r = tenantId c \<and> organizationId r = organizationId c"

lemma same_organization_stream:
  "in_organization r c \<Longrightarrow> organizationStreamId (protocol_base.truncate r) = organizationStreamId (protocol_base.truncate c)"
  by (simp add: organizationStreamId_def in_organization_def protocol_base.defs)

lemma policy_builders_return:
  "returns (buildPolicyDecision E k v) (\<lambda>d. in_organization d (px_contract k))"
  "returns (buildGreenlight E k d) (\<lambda>g. in_organization g (px_contract k))"
  "returns (buildPolicyProofGap E c d now) (\<lambda>g. in_organization g c)"
  "returns (buildRefusal E (policy_refusal_draft c d now)) (\<lambda>r. in_organization r c)"
  "returns (buildIdempotencyLedgerReservation E c d g now kd key refs) (\<lambda>l. in_organization l c)"
  by (auto simp: returns_def tbind_Inr_iff Let_def in_organization_def buildPolicyDecision_def policy_decision_of_def
      buildGreenlight_def buildPolicyProofGap_def buildRefusal_def policy_refusal_draft_def
      buildIdempotencyLedgerReservation_def buildIdempotencyLedgerEntry_def)

lemma decision_only_stream:
  assumes "in_organization d c" "\<forall>r. rf = Some r \<longrightarrow> in_organization r c" "\<forall>g. pg = Some g \<longrightarrow> in_organization g c"
  shows "same_stream (organizationStreamId (protocol_base.truncate c)) [decision_event c d, decision_outcome_event c d rf pg]"
  using assms by (auto simp: same_stream_def decision_event_def decision_outcome_event_def same_organization_stream
      split: option.split)

lemma greenlight_stream:
  assumes "in_organization d c" "in_organization g c" "\<forall>x. l = Some x \<longrightarrow> in_organization x c"
  shows "same_stream (organizationStreamId (protocol_base.truncate c)) (greenlight_events c d g l)"
  using assms by (cases l)
    (auto simp: same_stream_def decision_event_def greenlight_events_def same_organization_stream)

lemma streams_decision_only:
  assumes "disciplined E" "in_organization d c"
  shows "keeps_streams E (commitPolicyDecisionOnly E c d now)"
  unfolding commitPolicyDecisionOnly_def
proof (rule streams.keeps_bind_post[where P = "\<lambda>rf. \<forall>r. rf = Some r \<longrightarrow> in_organization r c"])
  show "returns (if pd_decision d = PD_review_required \<or> pd_decision d = PD_proof_gap then treturn None
       else tbind (buildRefusal E (policy_refusal_draft c d now)) (\<lambda>r. treturn (Some r)))
     (\<lambda>rf. \<forall>r. rf = Some r \<longrightarrow> in_organization r c)"
    by (rule returns_option_case) (rule policy_builders_return)
next
  fix rf :: "refusal option"
  assume rf: "\<forall>r. rf = Some r \<longrightarrow> in_organization r c"
  show "keeps_streams E (tbind (if pd_decision d = PD_proof_gap
       then tbind (buildPolicyProofGap E c d now) (\<lambda>g. treturn (Some g)) else treturn None) (\<lambda>pg.
     tbind (commitRecordsWithEvents E
       (PR_policy_decision d # opt_list (map_option PR_refusal rf) @ opt_list (map_option PR_proof_gap pg))
       [decision_event c d, decision_outcome_event c d rf pg] no_options) (\<lambda>_. treturn (rf, pg))))"
  proof (rule streams.keeps_bind_post[where P = "\<lambda>pg. \<forall>g. pg = Some g \<longrightarrow> in_organization g c"])
    show "returns (if pd_decision d = PD_proof_gap
       then tbind (buildPolicyProofGap E c d now) (\<lambda>g. treturn (Some g)) else treturn None)
       (\<lambda>pg. \<forall>g. pg = Some g \<longrightarrow> in_organization g c)"
      using policy_builders_return(3)[of E c d now] by (auto simp: returns_def tbind_Inr_iff)
  next
    fix pg :: "proof_gap option"
    assume "\<forall>g. pg = Some g \<longrightarrow> in_organization g c"
    then show "keeps_streams E (tbind (commitRecordsWithEvents E
       (PR_policy_decision d # opt_list (map_option PR_refusal rf) @ opt_list (map_option PR_proof_gap pg))
       [decision_event c d, decision_outcome_event c d rf pg] no_options) (\<lambda>_. treturn (rf, pg)))"
      by (intro streams_intros streams_commitRecords[OF assms(1) decision_only_stream[OF assms(2) rf]])
  qed (intro reads_only_streams reads_only_intros)
qed (intro reads_only_streams reads_only_intros)

lemma streams_commit_greenlight:
  assumes "disciplined E" "in_organization d c" "in_organization g c" "\<forall>x. l = Some x \<longrightarrow> in_organization x c"
  shows "keeps_streams E (commitGreenlightPolicyDecision E c d g l now)"
  unfolding commitGreenlightPolicyDecision_def
proof (intro streams.keeps_bind streams_tryCommit[OF assms(1) greenlight_stream[OF assms(2-4)]])
  show "keeps_streams E (case res of
       TC_record_digest_conflict \<Rightarrow> tfail (protocol_error ''bootstrap_record_digest_conflict'' 409)
     | TC_committed _ \<Rightarrow> treturn (PC_committed None None)
     | TC_idempotency_ledger_conflict \<Rightarrow> treturn PC_idempotency_ledger_conflict)" for res
    by (cases res) (simp_all add: streams.keeps_basic)
qed

lemma streams_conflict_refusal:
  assumes "disciplined E"
  shows "keeps_streams E (commit_conflict_refusal E k v code)"
  unfolding commit_conflict_refusal_def
proof (rule streams.keeps_bind_post[OF policy_builders_return(1) reads_only_streams[OF policy_builders_read(2)]])
  fix d :: policy_decision
  assume "in_organization d (px_contract k)"
  then show "keeps_streams E (tbind (commitPolicyEvaluation E (px_contract k) d None None (px_now k)) (\<lambda>res. case res of
       PC_committed rf pg \<Rightarrow> treturn (policyEvaluationResponse d None rf pg)
     | _ \<Rightarrow> tfail (not_committed_error code)))"
    unfolding commitPolicyEvaluation_def
    by (auto intro!: streams_intros streams_decision_only[OF assms] split: policy_commit_result.split)
qed

lemma streams_commit_or_refuse:
  assumes "disciplined E" "in_organization d (px_contract k)"
    "\<forall>x. g = Some x \<longrightarrow> in_organization x (px_contract k)" "\<forall>x. l = Some x \<longrightarrow> in_organization x (px_contract k)"
  shows "keeps_streams E (commit_or_refuse E k d g l)"
  unfolding commit_or_refuse_def
proof (rule streams.keeps_bind)
  show "keeps_streams E (commitPolicyEvaluation E (px_contract k) d g l (px_now k))"
    using assms unfolding commitPolicyEvaluation_def
    by (auto intro!: streams_intros streams_decision_only streams_commit_greenlight split: option.split)
  show "keeps_streams E (case res of
       PC_idempotency_ledger_conflict \<Rightarrow> commitIdempotencyConflictRefusal E k
     | PC_greenlight_issuance_conflict \<Rightarrow> commitGreenlightIssuanceConflictRefusal E k
     | PC_committed rf pg \<Rightarrow> treturn (policyEvaluationResponse d g rf pg))" for res
    unfolding commitIdempotencyConflictRefusal_def commitGreenlightIssuanceConflictRefusal_def
    by (cases res) (auto intro!: streams_intros streams_conflict_refusal[OF assms(1)]
        reads_only_streams[OF reads_basic(1)])
qed

lemma authority_returns:
  "returns (build_authority E k d) (\<lambda>gl. (\<forall>x. fst gl = Some x \<longrightarrow> in_organization x (px_contract k)) \<and>
     (\<forall>x. snd gl = Some x \<longrightarrow> in_organization x (px_contract k)))"
  using policy_builders_return(2)[of E k d] policy_builders_return(5)[of E "px_contract k" d]
  by (fastforce simp: returns_def build_authority_def tbind_Inr_iff split: if_splits)

lemma authority_reads: "reads_only (build_authority E k d)"
  unfolding build_authority_def by (intro reads_only_intros)

lemma streams_evaluatePolicy:
  assumes "disciplined E"
  shows "keeps_streams E (evaluatePolicy E input)"
proof -
  have "keeps_streams E (decide_and_commit E k)" for k
    unfolding decide_and_commit_def
  proof (rule streams.keeps_bind[OF reads_only_streams[OF policy_builders_read(1)]])
    fix v
    show "keeps_streams E (tbind (buildPolicyDecision E k v) (\<lambda>d.
       tbind (build_authority E k d) (\<lambda>gl. commit_or_refuse E k d (fst gl) (snd gl))))"
      by (rule streams.keeps_bind_post[OF policy_builders_return(1) reads_only_streams[OF policy_builders_read(2)]],
          rule streams.keeps_bind_post[OF authority_returns reads_only_streams[OF authority_reads]])
        (auto intro: streams_commit_or_refuse[OF assms])
  qed
  then show ?thesis
    unfolding evaluatePolicy_def
    by (intro streams_intros reads_only_streams[OF reads_guard] reads_only_streams[OF reads_required(2)]
        reads_only_streams[OF reads_basic(1)] reads_only_streams[OF reads_basic(2)]
        reads_only_streams[OF reads_basic(4)])
qed

section \<open>Evidence of a refusal\<close>

lemma decision_only_evidence:
  assumes "disciplined E" "commitPolicyDecisionOnly E c d now w = (Inr (rf, pg), w')"
  shows "find_payload as_policy_decision OT_policy_decision (pd_policyDecisionId d) (w_store w') = Some d"
    "(rf = None) = (pd_decision d = PD_review_required \<or> pd_decision d = PD_proof_gap)"
    "(pg = None) = (pd_decision d \<noteq> PD_proof_gap)"
    "rf = Some r \<Longrightarrow> getRecord OT_refusal (rf_refusalId r) (w_store w') = Some (buildRecord E (PR_refusal r)) \<and>
       rf_reasonCode r = pd_decisionReasonCode d \<and> \<not> rf_mutationAttempted r \<and> \<not> rf_authorityCreated r"
    "pg = Some g \<Longrightarrow> find_payload as_proof_gap OT_proof_gap (pg_proofGapId g) (w_store w') = Some g"
proof -
  obtain w1 w2 es where rf: "(if pd_decision d = PD_review_required \<or> pd_decision d = PD_proof_gap then treturn None
       else tbind (buildRefusal E (policy_refusal_draft c d now)) (\<lambda>r. treturn (Some r))) w = (Inr rf, w1)"
    and pg: "(if pd_decision d = PD_proof_gap
       then tbind (buildPolicyProofGap E c d now) (\<lambda>g. treturn (Some g)) else treturn None) w1 = (Inr pg, w2)"
    and com: "commitRecordsWithEvents E
       (PR_policy_decision d # opt_list (map_option PR_refusal rf) @ opt_list (map_option PR_proof_gap pg))
       [decision_event c d, decision_outcome_event c d rf pg] no_options w2 = (Inr es, w')"
    using assms(2) unfolding commitPolicyDecisionOnly_def by (auto elim!: tbind_InrE)
  show r: "(rf = None) = (pd_decision d = PD_review_required \<or> pd_decision d = PD_proof_gap)"
    using rf by (auto simp: tbind_Inr_iff split: if_splits)
  show p: "(pg = None) = (pd_decision d \<noteq> PD_proof_gap)"
    using pg by (auto simp: tbind_Inr_iff split: if_splits)
  obtain rs s where rs: "rs = PR_policy_decision d # opt_list (map_option PR_refusal rf) @ opt_list (map_option PR_proof_gap pg) \<or>
      (\<exists>x. rs = PR_transition_request_context x # PR_policy_decision d # opt_list (map_option PR_refusal rf) @ opt_list (map_option PR_proof_gap pg))"
    and st: "commitProtocolRecords (commit_of (map (buildRecord E) rs) es no_options) s = (CR_committed, w_store w')"
    using commitRecords_committed[OF assms(1) com] by blast
  have dist: "distinct (map record_type rs)"
    using rs by (cases rf; cases pg) auto
  have mem: "PR_policy_decision d \<in> set rs" "rf = Some r \<Longrightarrow> PR_refusal r \<in> set rs"
    "pg = Some g \<Longrightarrow> PR_proof_gap g \<in> set rs" for r g
    using rs by auto
  show "find_payload as_policy_decision OT_policy_decision (pd_policyDecisionId d) (w_store w') = Some d"
    using commit_stores[OF st dist mem(1)] by (simp add: find_payload_def)
  show "pg = Some g \<Longrightarrow> find_payload as_proof_gap OT_proof_gap (pg_proofGapId g) (w_store w') = Some g"
    using commit_stores[OF st dist mem(3)] by (simp add: find_payload_def)
  show "rf = Some r \<Longrightarrow> getRecord OT_refusal (rf_refusalId r) (w_store w') = Some (buildRecord E (PR_refusal r)) \<and>
       rf_reasonCode r = pd_decisionReasonCode d \<and> \<not> rf_mutationAttempted r \<and> \<not> rf_authorityCreated r"
    using commit_stores[OF st dist mem(2)] rf
    by (auto simp: tbind_Inr_iff policy_refusal_draft_def split: if_splits dest!: buildRefusal_Inr)
qed

end
