(* ===== verification/Gateway.thy ===== *)
theory Gateway
  imports Gateway_Policy Policy_Laws
begin

text \<open>
  The gateway check, after \<open>gateway-gate/artifacts.ts\<close>,
  \<open>gateway-gate/replay-refusal/index.ts\<close> and \<open>gateway-gate/transitions.ts\<close>: read
  the contract, greenlight and policy decision, evaluate every constraint again,
  build the gate attempt, mutation attempt, receipt and claim, and commit them
  with the consumption of the greenlight in one step.  A conflict becomes a
  recorded replay refusal, a taken stream offset a retry.
\<close>

section \<open>Inputs and results\<close>

record gateway_check_input =
  gwi_actionContractId :: string
  gwi_greenlightId :: string
  gwi_observedParameters :: "(string \<times> jval) list"
  gwi_surfaceOperationRef :: "string option"

definition gateway_check_input_valid :: "gateway_check_input \<Rightarrow> bool" where
  "gateway_check_input_valid i \<longleftrightarrow> gwi_actionContractId i \<noteq> [] \<and> gwi_greenlightId i \<noteq> [] \<and>
     jval_ok (JObj (gwi_observedParameters i)) \<and> opt_ok (\<lambda>x. x \<noteq> []) (gwi_surfaceOperationRef i)"

record gateway_check_result =
  gwr_gateAttempt :: gateway_check_attempt
  gwr_mutationAttempt :: "mutation_attempt option"
  gwr_receipt :: receipt
  gwr_proofGap :: "proof_gap option"

record gateway_evaluation =
  ge_input :: gateway_check_input
  ge_contract :: action_contract
  ge_greenlight :: greenlight
  ge_now :: string
  ge_gateAttemptId :: string
  ge_observedParamsDigest :: string
  ge_greenlightDigestSeen :: string
  ge_isolationStates :: "isolation_state list"
  ge_drift :: gateway_drift
  ge_posture :: "protected_path_posture option"
  ge_ledgerEntry :: "idempotency_ledger_entry option"
  ge_refusal :: "string option"

section \<open>Artifacts\<close>

definition buildMutationAttempt :: "kernel_env \<Rightarrow> gateway_evaluation \<Rightarrow> mutation_attempt wtr" where
  "buildMutationAttempt E v =
    (let c = ge_contract v in
     tbind (createId E ''mut'') (\<lambda>mid.
     tbind (surfaceOperationRefFor E (gwi_surfaceOperationRef (ge_input v))) (\<lambda>sop.
     tparse (mutation_attempt_valid E)
      \<lparr>schemaVersion = PROTOCOL_VERSION, tenantId = tenantId c, organizationId = organizationId c,
       createdAt = ge_now v, ma_mutationAttemptId = mid, ma_gateAttemptId = ge_gateAttemptId v,
       ma_actionContractId = ac_actionContractId c, ma_greenlightId = gl_greenlightId (ge_greenlight v),
       ma_gatewayId = ac_gatewayId c, ma_actionClass = ac_actionClass c, ma_resourceRef = ac_resourceRef c,
       ma_idempotencyKey = ac_idempotencyKey c, ma_outcome = mutationOutcomeFor,
       ma_outcomeReasonCode = ''pending'', ma_surfaceOperationRef = Some sop, ma_startedAt = ge_now v,
       ma_finishedAt = None\<rparr>)))"

definition buildMutationProofGap ::
  "kernel_env \<Rightarrow> gateway_evaluation \<Rightarrow> mutation_attempt option \<Rightarrow> string \<Rightarrow> proof_gap option wtr" where
  "buildMutationProofGap E v mut receiptId = (case mut of
       Some m \<Rightarrow> if ma_outcome m \<noteq> MO_unknown then treturn None
         else tbind (buildProofGap E (ge_contract v) GP_mutation ''downstream_finality'' ''downstream_status_unknown''
            \<lparr>gpr_gateAttemptId = Some (ge_gateAttemptId v), gpr_mutationAttemptId = Some (ma_mutationAttemptId m),
             gpr_receiptId = Some receiptId\<rparr>) (\<lambda>g. treturn (Some g))
     | None \<Rightarrow> treturn None)"

definition gate_attempt_of ::
  "gateway_evaluation \<Rightarrow> gate_decision \<Rightarrow> string \<Rightarrow> string option \<Rightarrow> gateway_check_attempt" where
  "gate_attempt_of v decision code mutationAttemptId =
    (let c = ge_contract v in
     \<lparr>schemaVersion = PROTOCOL_VERSION, tenantId = tenantId c, organizationId = organizationId c,
      createdAt = ge_now v, gca_gateAttemptId = ge_gateAttemptId v, gca_gatewayId = ac_gatewayId c,
      gca_gatewayPolicyContractId = ac_gatewayPolicyContractId c,
      gca_gatewayPolicyVersion = ac_gatewayPolicyVersion c,
      gca_pinnedGatewayPolicyVersion = ac_gatewayPolicyVersion c,
      gca_currentGatewayPolicyVersion = gdr_currentGatewayPolicyVersion (ge_drift v),
      gca_gatewayPolicyDriftStatus = gdr_status (ge_drift v),
      gca_actionContractId = ac_actionContractId c, gca_greenlightId = gl_greenlightId (ge_greenlight v),
      gca_contractDigestSeen = ac_actionContractDigest c, gca_greenlightDigestSeen = ge_greenlightDigestSeen v,
      gca_paramsDigestSeen = ge_observedParamsDigest v, gca_idempotencyKeySeen = ac_idempotencyKey c,
      gca_isolationSnapshotRef = isolationSnapshotRef (ge_isolationStates v),
      gca_protectedPathPostureIdSeen = map_option pp_protectedPathPostureId (ge_posture v),
      gca_protectedPathPostureDigestSeen = map_option pp_postureDigest (ge_posture v),
      gca_protectedPathPostureStateSeen = map_option pp_postureState (ge_posture v),
      gca_gateDecision = decision, gca_gateDecisionReasonCode = code,
      gca_consumedGreenlight = (ge_refusal v = None), gca_mutationAttemptId = mutationAttemptId\<rparr>)"

definition consumption_of :: "string option \<Rightarrow> consumption_status" where
  "consumption_of refusal = (if refusal = None then CONS_consumed
     else if refusal = Some ''already_consumed'' then CONS_replayed else CONS_not_consumed)"

definition receipt_of ::
  "action_contract \<Rightarrow> greenlight \<Rightarrow> string \<Rightarrow> string \<Rightarrow> gateway_check_attempt \<Rightarrow> mutation_attempt option
    \<Rightarrow> consumption_status \<Rightarrow> string list \<Rightarrow> receipt" where
  "receipt_of c g now receiptId gate mut consumption proofGapIds =
    (let decision = gca_gateDecision gate in
     \<lparr>schemaVersion = PROTOCOL_VERSION, tenantId = tenantId c, organizationId = organizationId c,
      createdAt = now, rc_receiptId = receiptId, rc_actionContractId = ac_actionContractId c,
      rc_policyDecisionId = gl_policyDecisionId g, rc_greenlightId = Some (gl_greenlightId g),
      rc_gateAttemptId = Some (gca_gateAttemptId gate),
      rc_mutationAttemptId = map_option ma_mutationAttemptId mut, rc_gatewayId = ac_gatewayId c,
      rc_policyDecisionStatus = PD_greenlight, rc_gatewayCheckStatus = Some decision,
      rc_gatewayAdmissionStatus = deriveGatewayAdmissionStatus (Some decision) consumption,
      rc_greenlightConsumptionStatus = consumption,
      rc_mutationAttemptStatus = (case mut of Some m \<Rightarrow> ma_outcome m | None \<Rightarrow> MO_not_attempted),
      rc_downstreamExecutionStatus = downstreamStatusFor decision,
      rc_downstreamOutcomeStatus = deriveDownstreamOutcomeStatus (downstreamStatusFor decision),
      rc_proofGapIds = proofGapIds, rc_evidenceRefs = ac_evidenceRefs c, rc_streamEventIds = [],
      rc_streamOffsets = [], rc_receiptDigest = None, rc_auditChainDigest = None,
      rc_finalityStatus = receiptFinalityFor decision (proofGapIds \<noteq> []), rc_emittedAt = now\<rparr>)"

definition gateway_refusal_draft :: "action_contract \<Rightarrow> greenlight \<Rightarrow> gateway_check_attempt \<Rightarrow> string \<Rightarrow> refusal" where
  "gateway_refusal_draft c g gate now =
    (let gateRef = protocolObjectRef ''gateway_check_attempt'' (gca_gateAttemptId gate) in
     \<lparr>schemaVersion = PROTOCOL_VERSION, tenantId = tenantId c, organizationId = organizationId c,
      createdAt = now, rf_refusalId = [], rf_phase = RFP_gateway,
      rf_actionContractId = Some (ac_actionContractId c), rf_policyDecisionId = Some (gl_policyDecisionId g),
      rf_greenlightId = Some (gl_greenlightId g), rf_gateAttemptId = Some (gca_gateAttemptId gate),
      rf_refusedObjectRef = Some gateRef, rf_reasonCode = gca_gateDecisionReasonCode gate,
      rf_reason = ''Gateway refused before mutation with reason code '' @ gca_gateDecisionReasonCode gate @ ''.'',
      rf_mutationAttempted = False, rf_authorityCreated = False,
      rf_evidenceRefs = [protocolObjectRef ''action_contract'' (ac_actionContractId c),
        protocolObjectRef ''greenlight'' (gl_greenlightId g), gateRef],
      rf_refusedAt = now\<rparr>)"

definition buildGateArtifacts :: "kernel_env \<Rightarrow> gateway_evaluation \<Rightarrow> (gateway_check_result \<times> refusal option) wtr" where
  "buildGateArtifacts E v =
    (let c = ge_contract v; g = ge_greenlight v in
     tbind (createId E ''rcp'') (\<lambda>receiptId.
     tbind (if ge_refusal v \<noteq> None then treturn None
            else tbind (buildMutationAttempt E v) (\<lambda>m. treturn (Some m))) (\<lambda>mut.
     tbind (buildMutationProofGap E v mut receiptId) (\<lambda>gap.
     (let decision = (if gap \<noteq> None then GD_proof_gap else if ge_refusal v \<noteq> None then GD_refused else GD_passed);
          code = (if gap \<noteq> None then ''downstream_status_unknown''
                  else case ge_refusal v of Some r \<Rightarrow> r | None \<Rightarrow> ''gate_passed'') in
      tbind (tparse (gateway_check_attempt_valid E)
         (gate_attempt_of v decision code (map_option ma_mutationAttemptId mut))) (\<lambda>gate.
      tbind (tparse (receipt_valid E) (receipt_of c g (ge_now v) receiptId gate mut
         (consumption_of (ge_refusal v)) (opt_list (map_option pg_proofGapId gap)))) (\<lambda>receipt.
      tbind (if decision = GD_refused
         then tbind (buildRefusal E (gateway_refusal_draft c g gate (ge_now v))) (\<lambda>r. treturn (Some r))
         else treturn None) (\<lambda>refusal.
      treturn (\<lparr>gwr_gateAttempt = gate, gwr_mutationAttempt = mut, gwr_receipt = receipt,
                gwr_proofGap = gap\<rparr>, refusal)))))))))"

text \<open>The receipt with the streams it was recorded on, and its digests.\<close>

definition withReceiptStreamReferences ::
  "kernel_env \<Rightarrow> gateway_check_result \<Rightarrow> stream_event list \<Rightarrow> gateway_check_result wtr" where
  "withReceiptStreamReferences E result es =
    (let r = (gwr_receipt result)\<lparr>rc_streamEventIds := map ev_streamEventId es,
           rc_streamOffsets := receiptStreamReferencesForEvents es\<rparr>;
         digest = digestCanonical E (receipt_json (r\<lparr>rc_receiptDigest := None, rc_auditChainDigest := None\<rparr>));
         audit = digestCanonical E (JObj
           [(''receiptDigest'', JStr digest),
            (''streamOffsets'', JArr (map receipt_stream_reference_json (rc_streamOffsets r))),
            (''proofGapIds'', JArr (map JStr (rc_proofGapIds r))),
            (''finalityStatus'', JStr (finality_status_str (rc_finalityStatus r)))]) in
     tbind (tparse (receipt_valid E) (r\<lparr>
        rc_gatewayAdmissionStatus := deriveGatewayAdmissionStatus (rc_gatewayCheckStatus r) (rc_greenlightConsumptionStatus r),
        rc_downstreamOutcomeStatus := deriveDownstreamOutcomeStatus (rc_downstreamExecutionStatus r),
        rc_receiptDigest := Some digest, rc_auditChainDigest := Some audit\<rparr>)) (\<lambda>receipt.
     treturn (result\<lparr>gwr_receipt := receipt\<rparr>)))"

definition gate_event :: "'a protocol_base_scheme \<Rightarrow> stream_refs \<Rightarrow> event_type \<Rightarrow> string list \<Rightarrow> (string \<times> jval) list \<Rightarrow> event_descriptor" where
  "gate_event src refs ty ids payload = \<lparr>ed_source = protocol_base.truncate src, ed_eventType = ty,
     ed_objectRefs = ids @ [lr_actionContractId refs], ed_payload = payload, ed_streamRefs = Some refs\<rparr>"

definition gateEventDescriptors ::
  "gateway_check_result \<Rightarrow> refusal option \<Rightarrow> stream_refs \<Rightarrow> surface_operation_claim option \<Rightarrow> event_descriptor list" where
  "gateEventDescriptors result refusal refs claim =
    (let gate = gwr_gateAttempt result; receipt = gwr_receipt result in
     [gate_event gate refs ET_gateway_checked [gca_gateAttemptId gate]
        [(''gateDecision'', JStr (gate_decision_str (gca_gateDecision gate))),
         (''reasonCode'', JStr (gca_gateDecisionReasonCode gate))]] @
     opt_list (map_option (\<lambda>m. gate_event m refs ET_mutation_attempted [ma_mutationAttemptId m]
        [(''outcome'', JStr (mutation_outcome_str (ma_outcome m)))]) (gwr_mutationAttempt result)) @
     opt_list (map_option (\<lambda>k. gate_event k refs ET_protected_surface_operation_claimed
        [oc_protectedSurfaceOperationClaimId k,
         (case oc_mutationAttemptId k of Some m \<Rightarrow> m | None \<Rightarrow> oc_gateAttemptId k)]
        [(''claimState'', JStr (operation_claim_state_str (oc_claimState k))),
         (''claimKeyDigest'', JStr (oc_claimKeyDigest k))]) claim) @
     opt_list (map_option (\<lambda>p. gate_event p refs ET_proof_gap_recorded [pg_proofGapId p]
        [(''reasonCode'', JStr (pg_reasonCode p)),
         (''finalityImpact'', JStr (finality_impact_str (pg_finalityImpact p)))]) (gwr_proofGap result)) @
     opt_list (map_option (\<lambda>r. gate_event r refs ET_gateway_refused [rf_refusalId r, gca_gateAttemptId gate]
        [(''reasonCode'', JStr (rf_reasonCode r)),
         (''refusedObjectRef'', j_opt JStr (rf_refusedObjectRef r))]) refusal) @
     [gate_event receipt refs ET_receipt_emitted [rc_receiptId receipt]
        [(''finalityStatus'', JStr (finality_status_str (rc_finalityStatus receipt))),
         (''proofGapIds'', JArr (map JStr (rc_proofGapIds receipt)))]])"

definition gateProtocolRecords ::
  "kernel_env \<Rightarrow> gateway_evaluation \<Rightarrow> gateway_check_result \<Rightarrow> refusal option \<Rightarrow> protocol_record list wtr" where
  "gateProtocolRecords E v result refusal =
     tbind (if ge_refusal v \<noteq> None then treturn None
       else tbind (tparse (greenlight_valid E) ((ge_greenlight v)\<lparr>gl_consumedAt := Some (ge_now v),
              gl_consumedByGateAttemptId := Some (ge_gateAttemptId v)\<rparr>)) (\<lambda>g. treturn (Some g))) (\<lambda>updated.
     treturn ([PR_gateway_check_attempt (gwr_gateAttempt result), PR_receipt (gwr_receipt result)] @
       opt_list (map_option PR_greenlight updated) @
       opt_list (map_option PR_mutation_attempt (gwr_mutationAttempt result)) @
       opt_list (map_option PR_proof_gap (gwr_proofGap result)) @
       opt_list (map_option PR_refusal refusal)))"

section \<open>Replay refusals\<close>

record replay_context =
  rp_observedParamsDigest :: string
  rp_isolationStates :: "isolation_state list"
  rp_drift :: gateway_drift
  rp_posture :: "protected_path_posture option"
  rp_refusalReasonCode :: "string option"
  rp_consumptionStatus :: "consumption_status option"

definition buildReplayGateAttempt ::
  "kernel_env \<Rightarrow> action_contract \<Rightarrow> greenlight \<Rightarrow> replay_context \<Rightarrow> string \<Rightarrow> string \<Rightarrow> gateway_check_attempt wtr" where
  "buildReplayGateAttempt E c g k digestSeen now =
     tbind (createId E ''gat'') (\<lambda>gid.
     tparse (gateway_check_attempt_valid E)
      \<lparr>schemaVersion = PROTOCOL_VERSION, tenantId = tenantId c, organizationId = organizationId c,
       createdAt = now, gca_gateAttemptId = gid, gca_gatewayId = ac_gatewayId c,
       gca_gatewayPolicyContractId = ac_gatewayPolicyContractId c,
       gca_gatewayPolicyVersion = ac_gatewayPolicyVersion c,
       gca_pinnedGatewayPolicyVersion = ac_gatewayPolicyVersion c,
       gca_currentGatewayPolicyVersion = gdr_currentGatewayPolicyVersion (rp_drift k),
       gca_gatewayPolicyDriftStatus = gdr_status (rp_drift k),
       gca_actionContractId = ac_actionContractId c, gca_greenlightId = gl_greenlightId g,
       gca_contractDigestSeen = ac_actionContractDigest c, gca_greenlightDigestSeen = digestSeen,
       gca_paramsDigestSeen = rp_observedParamsDigest k, gca_idempotencyKeySeen = ac_idempotencyKey c,
       gca_isolationSnapshotRef = isolationSnapshotRef (rp_isolationStates k),
       gca_protectedPathPostureIdSeen = map_option pp_protectedPathPostureId (rp_posture k),
       gca_protectedPathPostureDigestSeen = map_option pp_postureDigest (rp_posture k),
       gca_protectedPathPostureStateSeen = map_option pp_postureState (rp_posture k),
       gca_gateDecision = GD_refused,
       gca_gateDecisionReasonCode = (case rp_refusalReasonCode k of Some r \<Rightarrow> r | None \<Rightarrow> ''already_consumed''),
       gca_consumedGreenlight = False, gca_mutationAttemptId = None\<rparr>)"

definition buildReplayReceipt ::
  "kernel_env \<Rightarrow> action_contract \<Rightarrow> greenlight \<Rightarrow> gateway_check_attempt \<Rightarrow> string \<Rightarrow> consumption_status \<Rightarrow> receipt wtr" where
  "buildReplayReceipt E c g gate now consumption =
     tbind (createId E ''rcp'') (\<lambda>rid.
     tparse (receipt_valid E) (receipt_of c g now rid gate None consumption []))"

definition replay_records ::
  "protocol_record option \<Rightarrow> gateway_check_result \<Rightarrow> refusal \<Rightarrow> protocol_record list" where
  "replay_records ctx result refusal = opt_list ctx @
     [PR_gateway_check_attempt (gwr_gateAttempt result), PR_refusal refusal, PR_receipt (gwr_receipt result)]"

definition no_gateway_commit :: "stored_record list \<Rightarrow> stream_event list \<Rightarrow> gateway_check_commit" where
  "no_gateway_commit rs es = \<lparr>gk_consumption = None, gk_operationClaims = [], gk_ledgerEntries = [],
     gk_receiptEntries = [], gk_records = rs, gk_events = es\<rparr>"

fun replay_attempts ::
  "kernel_env \<Rightarrow> protocol_record option \<Rightarrow> gateway_check_result \<Rightarrow> refusal \<Rightarrow> event_descriptor list \<Rightarrow> nat
    \<Rightarrow> gateway_check_result wtr" where
  "replay_attempts E ctx result refusal ds 0 = tfail (protocol_error ''stream_append_conflict'' 409)"
| "replay_attempts E ctx result refusal ds (Suc n) =
     tbind (store_get (\<lambda>s. s)) (\<lambda>s.
     tbind (buildEventChain E s ds) (\<lambda>es.
     tbind (withReceiptStreamReferences E result es) (\<lambda>final.
     tbind (interfere E) (\<lambda>_.
     tbind (store_op (commitGatewayCheck
        (no_gateway_commit (map (buildRecord E) (replay_records ctx final refusal)) es))) (\<lambda>res.
     if res = GR_committed \<or> res = GR_already_consumed then treturn final
     else replay_attempts E ctx result refusal ds n)))))"

definition commitReplayRefusal ::
  "kernel_env \<Rightarrow> action_contract \<Rightarrow> greenlight \<Rightarrow> replay_context \<Rightarrow> gateway_check_result wtr" where
  "commitReplayRefusal E c g k =
     tbind (nowIso E) (\<lambda>now.
     tbind (buildReplayGateAttempt E c g k (digestCanonical E (greenlight_json g)) now) (\<lambda>gate.
     tbind (buildRefusal E (gateway_refusal_draft c g gate now)) (\<lambda>refusal.
     tbind (buildReplayReceipt E c g gate now
        (case rp_consumptionStatus k of Some s \<Rightarrow> s | None \<Rightarrow> CONS_replayed)) (\<lambda>receipt.
     tbind (transitionRequestContextRecordFor E (tenantId c) (organizationId c)) (\<lambda>ctx.
     (let result = \<lparr>gwr_gateAttempt = gate, gwr_mutationAttempt = None, gwr_receipt = receipt, gwr_proofGap = None\<rparr> in
      replay_attempts E ctx result refusal
        (withTransitionRequestContextEventDescriptors
           (gateEventDescriptors result (Some refusal) (actionLifecycleStreamRefs c) None) ctx)
        (Suc MAX_STREAM_COMMIT_RETRIES)))))))"

section \<open>The gateway check\<close>

definition ledger_key_at_gate :: "kernel_env \<Rightarrow> action_contract \<Rightarrow> greenlight \<Rightarrow> string" where
  "ledger_key_at_gate E c g = (case gl_idempotencyLedgerKeyDigest g of Some k \<Rightarrow> k
     | None \<Rightarrow> idempotencyLedgerKeyDigest E (idempotencyLedgerKey c))"

definition observed_digest :: "kernel_env \<Rightarrow> action_contract \<Rightarrow> gateway_check_input \<Rightarrow> string" where
  "observed_digest E c i = protectedActionParamsDigest E (gwi_observedParameters i) (ac_secretRefs c)
     (map gateway_credential_binding_json (ac_gatewayCredentialRefs c))
     (map delegated_authority_binding_json (ac_delegatedAuthorityRefs c))"

definition gate_isolation :: "action_contract \<Rightarrow> greenlight \<Rightarrow> pstore \<Rightarrow> isolation_state list" where
  "gate_isolation c g s =
     listIsolationStates (isolationScopeRefsForContract c @ isolationScopeRefsForGreenlight g) s"

definition deriveGatewayConstraintEvaluation ::
  "kernel_env \<Rightarrow> gateway_check_input \<Rightarrow> action_contract \<Rightarrow> greenlight \<Rightarrow> string \<Rightarrow> string \<Rightarrow> pstore \<Rightarrow> gateway_evaluation" where
  "deriveGatewayConstraintEvaluation E i c g now gateAttemptId s =
    (let drift = checkGatewayPolicyDrift c g
           (find_payload as_gateway_registry_entry OT_gateway_registry_entry (ac_gatewayRegistryEntryId c) s);
         isolation = gate_isolation c g s;
         posture = loadCurrentPostureForContract c s;
         keyDigest = ledger_key_at_gate E c g in
     \<lparr>ge_input = i, ge_contract = c, ge_greenlight = g, ge_now = now, ge_gateAttemptId = gateAttemptId,
      ge_observedParamsDigest = observed_digest E c i,
      ge_greenlightDigestSeen = digestCanonical E (greenlight_json g), ge_isolationStates = isolation,
      ge_drift = drift, ge_posture = posture,
      ge_ledgerEntry = payload_of as_idempotency_ledger_entry (getCurrentIdempotencyLedgerEntry keyDigest s),
      ge_refusal = gateRefusalReason c g (observed_digest E c i) keyDigest isolation now (gdr_reasonCode drift)
        (map_option fst (be_failure (evaluateDelegatedAuthorityBindings c now s)))
        (map_option fst (be_failure (evaluateGatewayCredentialBindings c now s)))
        (map_option fst (evaluateRequiredProtectedPathPosture c (ac_credentialCustodyStatus c)
           (ac_enforcementMode c) posture now))
        (gatewayCheckSequenceDependencyRefusalReason (loadGatewayCheckSequenceDependencyStates c s))\<rparr>)"

record gateway_plan =
  gwp_evaluation :: gateway_evaluation
  gwp_result :: gateway_check_result
  gwp_refusal :: "refusal option"
  gwp_claim :: "surface_operation_claim option"
  gwp_ledgerUpdate :: "idempotency_ledger_entry option"
  gwp_context :: "protocol_record option"
  gwp_events :: "event_descriptor list"

definition buildGreenlightConsumption :: "gateway_evaluation \<Rightarrow> greenlight_consumption option" where
  "buildGreenlightConsumption v =
    (if ge_refusal v \<noteq> None then None
     else Some \<lparr>gc_greenlightId = gl_greenlightId (ge_greenlight v), gc_gateAttemptId = ge_gateAttemptId v,
       gc_actionContractId = ac_actionContractId (ge_contract v),
       gc_idempotencyKey = ac_idempotencyKey (ge_contract v), gc_consumedAt = ge_now v\<rparr>)"

definition deriveProtectedSurfaceOperationClaim ::
  "kernel_env \<Rightarrow> gateway_evaluation \<Rightarrow> gateway_check_result \<Rightarrow> surface_operation_claim option wtr" where
  "deriveProtectedSurfaceOperationClaim E v result = (case gwr_mutationAttempt result of
       Some m \<Rightarrow> if ge_refusal v \<noteq> None then treturn None
         else tbind (buildActiveProtectedSurfaceOperationClaim E (ge_contract v) (ge_greenlight v)
            (ge_gateAttemptId v) m (ge_now v)) (\<lambda>k. treturn (Some k))
     | None \<Rightarrow> treturn None)"

definition deriveIdempotencyLedgerUpdate ::
  "kernel_env \<Rightarrow> gateway_evaluation \<Rightarrow> gateway_check_result \<Rightarrow> idempotency_ledger_entry option wtr" where
  "deriveIdempotencyLedgerUpdate E v result = (case (gwr_mutationAttempt result, ge_ledgerEntry v) of
       (Some m, Some e) \<Rightarrow> if ge_refusal v \<noteq> None then treturn None
         else tbind (buildIdempotencyLedgerMutationStarted E e (gwr_gateAttempt result) m
            (rc_receiptId (gwr_receipt result)) (ge_now v)) (\<lambda>x. treturn (Some x))
     | _ \<Rightarrow> treturn None)"

definition buildGatewayCommitPlan :: "kernel_env \<Rightarrow> gateway_evaluation \<Rightarrow> gateway_plan wtr" where
  "buildGatewayCommitPlan E v =
     tbind (buildGateArtifacts E v) (\<lambda>(result, refusal).
     tbind (deriveProtectedSurfaceOperationClaim E v result) (\<lambda>claim.
     tbind (deriveIdempotencyLedgerUpdate E v result) (\<lambda>ledger.
     tbind (transitionRequestContextRecordFor E (tenantId (ge_contract v)) (organizationId (ge_contract v))) (\<lambda>ctx.
     treturn \<lparr>gwp_evaluation = v, gwp_result = result, gwp_refusal = refusal, gwp_claim = claim,
       gwp_ledgerUpdate = ledger, gwp_context = ctx,
       gwp_events = withTransitionRequestContextEventDescriptors
         (gateEventDescriptors result refusal (actionLifecycleStreamRefs (ge_contract v)) claim) ctx\<rparr>))))"

definition operationClaimIndexEntry :: "surface_operation_claim \<Rightarrow> string \<Rightarrow> operation_claim_index_entry" where
  "operationClaimIndexEntry k updatedAt = \<lparr>oi_claimKeyDigest = oc_claimKeyDigest k,
     oi_protectedSurfaceOperationClaimId = oc_protectedSurfaceOperationClaimId k, oi_tenantId = tenantId k,
     oi_organizationId = organizationId k, oi_claimState = oc_claimState k, oi_updatedAt = updatedAt\<rparr>"

definition receiptMutationAttemptIndexEntriesFor :: "gateway_check_result \<Rightarrow> receipt_index_entry list" where
  "receiptMutationAttemptIndexEntriesFor result =
    (let r = gwr_receipt result in
     if truthy_ref (rc_mutationAttemptId r)
     then [\<lparr>ri_mutationAttemptId = the (rc_mutationAttemptId r), ri_receiptId = rc_receiptId r,
            ri_tenantId = tenantId r, ri_organizationId = organizationId r, ri_createdAt = createdAt r\<rparr>]
     else [])"

text \<open>The commit of one attempt: its records, built with the receipt of these events.\<close>

definition plan_records :: "gateway_plan \<Rightarrow> protocol_record list \<Rightarrow> protocol_record list" where
  "plan_records p rs = opt_list (gwp_context p) @ rs @
     opt_list (map_option PR_protected_surface_operation_claim (gwp_claim p)) @
     opt_list (map_option PR_idempotency_ledger_entry (gwp_ledgerUpdate p))"

definition gateway_commit_of ::
  "kernel_env \<Rightarrow> gateway_plan \<Rightarrow> gateway_check_result \<Rightarrow> protocol_record list \<Rightarrow> stream_event list \<Rightarrow> gateway_check_commit" where
  "gateway_commit_of E p final rs es =
     \<lparr>gk_consumption = buildGreenlightConsumption (gwp_evaluation p),
      gk_operationClaims = opt_list (map_option (\<lambda>k. operationClaimIndexEntry k (ge_now (gwp_evaluation p))) (gwp_claim p)),
      gk_ledgerEntries = opt_list (map_option idempotencyLedgerIndexEntry (gwp_ledgerUpdate p)),
      gk_receiptEntries = receiptMutationAttemptIndexEntriesFor final,
      gk_records = map (buildRecord E) (plan_records p rs), gk_events = es\<rparr>"

definition buildGatewayCheckCommit ::
  "kernel_env \<Rightarrow> gateway_plan \<Rightarrow> pstore \<Rightarrow> (gateway_check_commit \<times> gateway_check_result) wtr" where
  "buildGatewayCheckCommit E p s =
     tbind (buildEventChain E s (gwp_events p)) (\<lambda>es.
     tbind (withReceiptStreamReferences E (gwp_result p) es) (\<lambda>final.
     tbind (gateProtocolRecords E (gwp_evaluation p) final (gwp_refusal p)) (\<lambda>rs.
     treturn (gateway_commit_of E p final rs es, final))))"

definition replay_context_of :: "gateway_plan \<Rightarrow> (string \<times> consumption_status) option \<Rightarrow> replay_context" where
  "replay_context_of p override = (let v = gwp_evaluation p in
     \<lparr>rp_observedParamsDigest = ge_observedParamsDigest v, rp_isolationStates = ge_isolationStates v,
      rp_drift = ge_drift v, rp_posture = ge_posture v, rp_refusalReasonCode = map_option fst override,
      rp_consumptionStatus = map_option snd override\<rparr>)"

definition replay_refusal :: "kernel_env \<Rightarrow> gateway_plan \<Rightarrow> (string \<times> consumption_status) option \<Rightarrow> gateway_check_result wtr" where
  "replay_refusal E p override = commitReplayRefusal E (ge_contract (gwp_evaluation p))
     (ge_greenlight (gwp_evaluation p)) (replay_context_of p override)"

fun gateway_attempts :: "kernel_env \<Rightarrow> gateway_plan \<Rightarrow> nat \<Rightarrow> gateway_check_result wtr" where
  "gateway_attempts E p 0 = tfail (protocol_error ''stream_append_conflict'' 409)"
| "gateway_attempts E p (Suc n) =
     tbind (store_get (\<lambda>s. s)) (\<lambda>s.
     tbind (buildGatewayCheckCommit E p s) (\<lambda>cf.
     tbind (interfere E) (\<lambda>_.
     tbind (store_op (commitGatewayCheck (fst cf))) (\<lambda>res.
     case res of
       GR_committed \<Rightarrow> treturn (snd cf)
     | GR_already_consumed \<Rightarrow> replay_refusal E p None
     | GR_operation_claim_conflict \<Rightarrow>
         replay_refusal E p (Some (''protected_surface_operation_in_progress'', CONS_not_consumed))
     | GR_receipt_index_conflict \<Rightarrow> replay_refusal E p (Some (''receipt_index_conflict'', CONS_not_consumed))
     | GR_stream_conflict \<Rightarrow> gateway_attempts E p n))))"

definition commitGatewayCheckPlan :: "kernel_env \<Rightarrow> gateway_plan \<Rightarrow> gateway_check_result wtr" where
  "commitGatewayCheckPlan E p = gateway_attempts E p (Suc MAX_STREAM_COMMIT_RETRIES)"

definition gatewayCheck :: "kernel_env \<Rightarrow> gateway_check_input \<Rightarrow> gateway_check_result wtr" where
  "gatewayCheck E input =
     tbind (tparse gateway_check_input_valid input) (\<lambda>i.
     tbind (requiredPayload as_action_contract OT_action_contract (gwi_actionContractId i) ''contract_missing'') (\<lambda>c.
     tbind (requiredPayload as_greenlight OT_greenlight (gwi_greenlightId i) ''greenlight_missing'') (\<lambda>g.
     tbind (requiredPayload as_policy_decision OT_policy_decision (gl_policyDecisionId g) ''policy_decision_missing'') (\<lambda>d.
     tbind (require_guard (guardGatewayCheckAuthority g d)) (\<lambda>_.
     tbind (nowIso E) (\<lambda>now.
     tbind (store_get (\<lambda>s. s)) (\<lambda>s.
     tbind (createId E ''gat'') (\<lambda>gateAttemptId.
     tbind (buildGatewayCommitPlan E (deriveGatewayConstraintEvaluation E i c g now gateAttemptId s)) (\<lambda>p.
     commitGatewayCheckPlan E p)))))))))"

text \<open>What the check hands to the adapter that mutates.\<close>

record verified_gateway_check =
  vg_gatewayCheckStatus :: gate_decision
  vg_gateAttemptId :: string
  vg_mutationAttemptId :: string
  vg_actionContractId :: string
  vg_greenlightId :: string
  vg_gatewayId :: string
  vg_actionClass :: string
  vg_resourceRef :: string
  vg_idempotencyKey :: string
  vg_surfaceOperationRef :: string

definition verifiedGatewayCheckFromResult :: "gateway_check_result \<Rightarrow> verified_gateway_check option" where
  "verifiedGatewayCheckFromResult r = (case gwr_mutationAttempt r of None \<Rightarrow> None
     | Some m \<Rightarrow>
        if gca_gateDecision (gwr_gateAttempt r) \<noteq> GD_passed \<or> \<not> truthy_ref (ma_surfaceOperationRef m) then None
        else Some \<lparr>vg_gatewayCheckStatus = gca_gateDecision (gwr_gateAttempt r),
          vg_gateAttemptId = gca_gateAttemptId (gwr_gateAttempt r),
          vg_mutationAttemptId = ma_mutationAttemptId m, vg_actionContractId = ma_actionContractId m,
          vg_greenlightId = ma_greenlightId m, vg_gatewayId = ma_gatewayId m,
          vg_actionClass = ma_actionClass m, vg_resourceRef = ma_resourceRef m,
          vg_idempotencyKey = ma_idempotencyKey m,
          vg_surfaceOperationRef = the (ma_surfaceOperationRef m)\<rparr>)"

end
