(* ===== verification/Gateway_Laws.thy ===== *)
theory Gateway_Laws
  imports Gateway
begin

text \<open>
  What a gateway check guarantees: a mutation attempt exists exactly when the
  check passed, a check passes only when every constraint held in the store that
  was read, and its commit consumed a greenlight that nobody had consumed and
  claimed a surface that nobody held.
\<close>

section \<open>The constraints on the store\<close>

definition gate_constraints ::
  "kernel_env \<Rightarrow> gateway_check_input \<Rightarrow> action_contract \<Rightarrow> greenlight \<Rightarrow> string \<Rightarrow> pstore \<Rightarrow> bool" where
  "gate_constraints E i c g now s \<longleftrightarrow>
     greenlight_matches c g (observed_digest E c i) (ledger_key_at_gate E c g) \<and> greenlight_live g now \<and>
     gateway_current c g (find_payload as_gateway_registry_entry OT_gateway_registry_entry (ac_gatewayRegistryEntryId c) s) \<and>
     (\<forall>b \<in> set (ac_delegatedAuthorityRefs c). authority_bound c now s b) \<and>
     (\<forall>b \<in> set (ac_gatewayCredentialRefs c). credential_bound c now s b) \<and>
     path_satisfied c (ac_credentialCustodyStatus c) (ac_enforcementMode c) (loadCurrentPostureForContract c s) now \<and>
     (\<forall>x \<in> set (gate_isolation c g s). \<not> blocks_gateway x) \<and>
     (\<forall>oid \<in> set (ac_requiredPriorActionContractIds c). prior_final c s oid)"

lemma derive_gateway_fields [simp]:
  "ge_contract (deriveGatewayConstraintEvaluation E i c g now gid s) = c"
  "ge_greenlight (deriveGatewayConstraintEvaluation E i c g now gid s) = g"
  "ge_now (deriveGatewayConstraintEvaluation E i c g now gid s) = now"
  "ge_gateAttemptId (deriveGatewayConstraintEvaluation E i c g now gid s) = gid"
  by (simp_all add: deriveGatewayConstraintEvaluation_def Let_def)

lemma derive_refusal_None:
  "ge_refusal (deriveGatewayConstraintEvaluation E i c g now gid s) = None \<longleftrightarrow> gate_constraints E i c g now s"
  by (simp add: deriveGatewayConstraintEvaluation_def Let_def gateRefusalReason_None checkGatewayPolicyDrift_None
      evaluateDelegatedAuthorityBindings_ok evaluateGatewayCredentialBindings_ok evaluateRequired_None
      gatewaySequence_None gate_constraints_def)

section \<open>Artifacts\<close>

text \<open>A result agrees with itself: mutation, decision, consumption and receipt.\<close>

definition result_agrees :: "gateway_check_result \<Rightarrow> bool" where
  "result_agrees r \<longleftrightarrow>
     (let gate = gwr_gateAttempt r; rc = gwr_receipt r; passed = (gca_gateDecision gate = GD_passed) in
      gca_gateDecision gate \<noteq> GD_proof_gap \<and> gwr_proofGap r = None \<and>
      (gwr_mutationAttempt r \<noteq> None) = passed \<and> gca_consumedGreenlight gate = passed \<and>
      gca_mutationAttemptId gate = map_option ma_mutationAttemptId (gwr_mutationAttempt r) \<and>
      rc_gatewayCheckStatus rc = Some (gca_gateDecision gate) \<and>
      (rc_greenlightConsumptionStatus rc = CONS_consumed) = passed \<and>
      (rc_gatewayAdmissionStatus rc = GAS_admitted) = passed \<and>
      (rc_downstreamExecutionStatus rc = DOS_not_started) = (\<not> passed) \<and>
      rc_finalityStatus rc = (if passed then FS_pending else FS_suspect) \<and>
      rc_mutationAttemptId rc = map_option ma_mutationAttemptId (gwr_mutationAttempt r) \<and>
      rc_gateAttemptId rc = Some (gca_gateAttemptId gate))"

lemma buildMutationAttempt_Inr:
  "buildMutationAttempt E v w = (Inr m, w') \<Longrightarrow>
     ma_outcome m = MO_submitted \<and> ma_greenlightId m = gl_greenlightId (ge_greenlight v) \<and>
     ma_gateAttemptId m = ge_gateAttemptId v \<and> ma_actionContractId m = ac_actionContractId (ge_contract v) \<and>
     ma_idempotencyKey m = ac_idempotencyKey (ge_contract v) \<and> mutation_attempt_valid E m \<and>
     in_organization m (ge_contract v)"
  by (auto simp: buildMutationAttempt_def Let_def mutationOutcomeFor_def in_organization_def elim!: tbind_InrE)

lemma buildMutationProofGap_None:
  "\<forall>m. mut = Some m \<longrightarrow> ma_outcome m = MO_submitted \<Longrightarrow> buildMutationProofGap E v mut rid = treturn None"
  by (cases mut) (simp_all add: buildMutationProofGap_def)

lemma gate_attempt_fields [simp]:
  "gca_gateDecision (gate_attempt_of v d code mid) = d" "gca_consumedGreenlight (gate_attempt_of v d code mid) \<longleftrightarrow> ge_refusal v = None"
  "gca_mutationAttemptId (gate_attempt_of v d code mid) = mid" "gca_gateAttemptId (gate_attempt_of v d code mid) = ge_gateAttemptId v"
  "gca_greenlightId (gate_attempt_of v d code mid) = gl_greenlightId (ge_greenlight v)"
  "gca_gateDecisionReasonCode (gate_attempt_of v d code mid) = code"
  by (simp_all add: gate_attempt_of_def Let_def)

lemma receipt_fields [simp]:
  "rc_gatewayCheckStatus (receipt_of c g now rid gate mut cons gaps) = Some (gca_gateDecision gate)"
  "rc_greenlightConsumptionStatus (receipt_of c g now rid gate mut cons gaps) = cons"
  "rc_gatewayAdmissionStatus (receipt_of c g now rid gate mut cons gaps) =
     deriveGatewayAdmissionStatus (Some (gca_gateDecision gate)) cons"
  "rc_downstreamExecutionStatus (receipt_of c g now rid gate mut cons gaps) = downstreamStatusFor (gca_gateDecision gate)"
  "rc_finalityStatus (receipt_of c g now rid gate mut cons gaps) = receiptFinalityFor (gca_gateDecision gate) (gaps \<noteq> [])"
  "rc_mutationAttemptId (receipt_of c g now rid gate mut cons gaps) = map_option ma_mutationAttemptId mut"
  "rc_gateAttemptId (receipt_of c g now rid gate mut cons gaps) = Some (gca_gateAttemptId gate)"
  "rc_receiptId (receipt_of c g now rid gate mut cons gaps) = rid"
  by (simp_all add: receipt_of_def Let_def)

text \<open>What a built set of artifacts says of the evaluation.\<close>

definition artifacts_of :: "gateway_evaluation \<Rightarrow> gateway_check_result \<Rightarrow> refusal option \<Rightarrow> bool" where
  "artifacts_of v r refusal \<longleftrightarrow> result_agrees r \<and>
     (gca_gateDecision (gwr_gateAttempt r) = GD_passed) = (ge_refusal v = None) \<and>
     gca_gateAttemptId (gwr_gateAttempt r) = ge_gateAttemptId v \<and>
     gca_greenlightId (gwr_gateAttempt r) = gl_greenlightId (ge_greenlight v) \<and>
     (\<forall>code. ge_refusal v = Some code \<longrightarrow> gca_gateDecisionReasonCode (gwr_gateAttempt r) = code) \<and>
     (\<forall>m. gwr_mutationAttempt r = Some m \<longrightarrow> ma_greenlightId m = gl_greenlightId (ge_greenlight v) \<and>
        ma_gateAttemptId m = ge_gateAttemptId v \<and> ma_mutationAttemptId m \<noteq> [] \<and>
        ma_actionContractId m = ac_actionContractId (ge_contract v)) \<and>
     (refusal = None) = (ge_refusal v = None)"

lemma mutation_id_nonempty: "mutation_attempt_valid E m \<Longrightarrow> ma_mutationAttemptId m \<noteq> []"
  by (auto simp: mutation_attempt_valid_def id_ok_def)

lemma buildGateArtifacts_Inr:
  assumes "buildGateArtifacts E v w = (Inr (r, refusal), w')"
  shows "artifacts_of v r refusal"
proof (cases "ge_refusal v")
  case None
  then show ?thesis
    using assms
    by (auto simp: buildGateArtifacts_def Let_def buildMutationProofGap_None artifacts_of_def result_agrees_def
        consumption_of_def downstreamStatusFor_def receiptFinalityFor_def admitted_iff
        elim!: tbind_InrE dest!: buildMutationAttempt_Inr mutation_id_nonempty)
next
  case (Some code)
  then show ?thesis
    using assms
    by (auto simp: buildGateArtifacts_def Let_def buildMutationProofGap_None artifacts_of_def result_agrees_def
        consumption_of_def downstreamStatusFor_def receiptFinalityFor_def admitted_iff elim!: tbind_InrE
        split: if_splits)
qed

text \<open>Adding the stream references changes only the receipt's streams and digests.\<close>

lemma withReceiptStreams_Inr:
  assumes "withReceiptStreamReferences E r es w = (Inr r', w')"
  shows "gwr_gateAttempt r' = gwr_gateAttempt r \<and> gwr_mutationAttempt r' = gwr_mutationAttempt r \<and>
     gwr_proofGap r' = gwr_proofGap r \<and> rc_receiptId (gwr_receipt r') = rc_receiptId (gwr_receipt r) \<and>
     rc_mutationAttemptId (gwr_receipt r') = rc_mutationAttemptId (gwr_receipt r) \<and>
     rc_streamEventIds (gwr_receipt r') = map ev_streamEventId es \<and>
     rc_streamOffsets (gwr_receipt r') = receiptStreamReferencesForEvents es \<and>
     rc_receiptDigest (gwr_receipt r') \<noteq> None \<and> rc_auditChainDigest (gwr_receipt r') \<noteq> None \<and>
     (result_agrees r \<longrightarrow> result_agrees r') \<and> w' = w"
  using assms
  by (auto simp: withReceiptStreamReferences_def Let_def result_agrees_def admitted_iff elim!: tbind_InrE)

section \<open>Replay refusals\<close>

lemma gateway_builders_read [reads_only_intros]:
  "reads_only (buildMutationAttempt E v)" "reads_only (buildMutationProofGap E v mut rid)"
  "reads_only (buildGateArtifacts E v)" "reads_only (withReceiptStreamReferences E r es)"
  "reads_only (gateProtocolRecords E v r refusal)" "reads_only (buildReplayGateAttempt E c g k ds now)"
  "reads_only (buildReplayReceipt E c g gate now cons)"
  "reads_only (deriveProtectedSurfaceOperationClaim E v r)" "reads_only (deriveIdempotencyLedgerUpdate E v r)"
  unfolding buildMutationAttempt_def surfaceOperationRefFor_def buildMutationProofGap_def buildGateArtifacts_def
    withReceiptStreamReferences_def gateProtocolRecords_def buildReplayGateAttempt_def buildReplayReceipt_def
    deriveProtectedSurfaceOperationClaim_def deriveIdempotencyLedgerUpdate_def Let_def
  by (intro reads_only_intros)+

lemma reads_context [reads_only_intros]: "reads_only (transitionRequestContextRecordFor E t o')"
  unfolding transitionRequestContextRecordFor_def buildTransitionRequestContext_def by (intro reads_only_intros)

lemma reads_chain [reads_only_intros]: "reads_only (buildEventChain E s ds)"
  by (rule reads_onlyI) (rule buildEventChain_store)

lemma reads_plan [reads_only_intros]: "reads_only (buildGatewayCommitPlan E v)" "reads_only (buildGatewayCheckCommit E p s)"
  unfolding buildGatewayCommitPlan_def buildGatewayCheckCommit_def by (intro reads_only_intros)+

text \<open>A replay refusal never passes and never mutates, whatever it is answering.\<close>

definition refused_result :: "gateway_check_result \<Rightarrow> bool" where
  "refused_result r \<longleftrightarrow> gca_gateDecision (gwr_gateAttempt r) = GD_refused \<and> gwr_mutationAttempt r = None \<and>
     gwr_proofGap r = None \<and> \<not> gca_consumedGreenlight (gwr_gateAttempt r) \<and> result_agrees r"

lemma refused_with_streams:
  "withReceiptStreamReferences E r es w = (Inr r', w') \<Longrightarrow> refused_result r \<Longrightarrow> refused_result r'"
  by (drule withReceiptStreams_Inr) (auto simp: refused_result_def)

lemma replay_attempts_refused:
  "replay_attempts E ctx r refusal ds n w = (Inr r', w') \<Longrightarrow> refused_result r \<Longrightarrow> refused_result r'"
proof (induction n arbitrary: w)
  case (Suc n)
  from Suc.prems(1) obtain s es w1 w2 w3 w4 final res where
    fin: "withReceiptStreamReferences E r es w1 = (Inr final, w2)"
    and last: "(if res = GR_committed \<or> res = GR_already_consumed then treturn final
       else replay_attempts E ctx r refusal ds n) w4 = (Inr r', w')"
    unfolding replay_attempts.simps by (auto elim!: tbind_InrE)
  show ?case
  proof (cases "res = GR_committed \<or> res = GR_already_consumed")
    case True
    then show ?thesis using last fin refused_with_streams Suc.prems(2) by auto
  next
    case False
    then show ?thesis using last Suc.IH Suc.prems(2) by auto
  qed
qed simp

lemma replay_refused:
  assumes "commitReplayRefusal E c g k w = (Inr r, w')" "rp_consumptionStatus k \<noteq> Some CONS_consumed"
  shows "refused_result r"
proof -
  obtain now w1 gate w2 refusal receipt w3 w4 ctx w5 where
    gate: "buildReplayGateAttempt E c g k (digestCanonical E (greenlight_json g)) now w1 = (Inr gate, w2)"
    and receipt: "buildReplayReceipt E c g gate now
        (case rp_consumptionStatus k of Some s \<Rightarrow> s | None \<Rightarrow> CONS_replayed) w3 = (Inr receipt, w4)"
    and att: "replay_attempts E ctx \<lparr>gwr_gateAttempt = gate, gwr_mutationAttempt = None, gwr_receipt = receipt, gwr_proofGap = None\<rparr>
        refusal (withTransitionRequestContextEventDescriptors
           (gateEventDescriptors \<lparr>gwr_gateAttempt = gate, gwr_mutationAttempt = None, gwr_receipt = receipt, gwr_proofGap = None\<rparr>
             (Some refusal) (actionLifecycleStreamRefs c) None) ctx)
        (Suc MAX_STREAM_COMMIT_RETRIES) w5 = (Inr r, w')"
    using assms(1) unfolding commitReplayRefusal_def Let_def by (auto elim!: tbind_InrE simp del: replay_attempts.simps)
  have g: "gca_gateDecision gate = GD_refused" "gca_mutationAttemptId gate = None" "\<not> gca_consumedGreenlight gate"
    using gate by (auto simp: buildReplayGateAttempt_def elim!: tbind_InrE)
  have "refused_result \<lparr>gwr_gateAttempt = gate, gwr_mutationAttempt = None, gwr_receipt = receipt, gwr_proofGap = None\<rparr>"
    using receipt g assms(2)
    by (auto simp: buildReplayReceipt_def refused_result_def result_agrees_def admitted_iff downstreamStatusFor_def
        receiptFinalityFor_def elim!: tbind_InrE split: option.splits)
  then show ?thesis using att replay_attempts_refused by blast
qed

lemma replay_moves:
  assumes "disciplined E"
  shows "store_moves (commitReplayRefusal E c g k)"
proof -
  have "store_moves (replay_attempts E ctx r refusal ds n)" for ctx r refusal ds n
  proof (induction n)
    case (Suc n)
    show ?case unfolding replay_attempts.simps
      by (intro store_moves_intros reads_only_moves[OF gateway_builders_read(4)] moves_interfere[OF assms] Suc.IH)
  qed (unfold replay_attempts.simps, rule moves.keeps_basic)
  then show ?thesis
    unfolding commitReplayRefusal_def Let_def
    by (intro store_moves_intros reads_only_moves[OF gateway_builders_read(6)]
        reads_only_moves[OF gateway_builders_read(7)])
qed

section \<open>The commit\<close>

text \<open>
  An admission: the store moves from \<open>s\<close> to \<open>t\<close>, the greenlight was not consumed
  and the surface not claimed before; afterwards the greenlight is consumed by
  this gate attempt and the surface claimed for its mutation attempt.
\<close>

definition admits :: "kernel_env \<Rightarrow> action_contract \<Rightarrow> greenlight \<Rightarrow> gateway_check_result \<Rightarrow> pstore \<Rightarrow> pstore \<Rightarrow> bool" where
  "admits E c g r s t \<longleftrightarrow>
     (let key = protectedSurfaceOperationClaimKeyDigest E (protectedSurfaceOperationClaimKey c) in
      map_of (s_consumptions s) (gl_greenlightId g) = None \<and>
      (\<exists>x. map_of (s_consumptions t) (gl_greenlightId g) = Some x \<and>
         gc_gateAttemptId x = gca_gateAttemptId (gwr_gateAttempt r)) \<and>
      map_of (s_claims s) key = None \<and>
      (\<exists>m k cl. gwr_mutationAttempt r = Some m \<and>
         find_payload as_mutation_attempt OT_mutation_attempt (ma_mutationAttemptId m) t = Some m \<and>
         ma_greenlightId m = gl_greenlightId g \<and>
         map_of (s_claims t) key = Some k \<and> oi_claimState k = OCS_active \<and>
         find_payload as_protected_surface_operation_claim OT_protected_surface_operation_claim
           (oi_protectedSurfaceOperationClaimId k) t = Some cl \<and>
         oc_mutationAttemptId cl = Some (ma_mutationAttemptId m) \<and>
         map_of (s_receipts s) (ma_mutationAttemptId m) = None \<and>
         (\<exists>ri. map_of (s_receipts t) (ma_mutationAttemptId m) = Some ri \<and> ri_receiptId ri = rc_receiptId (gwr_receipt r))) \<and>
      find_payload as_gateway_check_attempt OT_gateway_check_attempt (gca_gateAttemptId (gwr_gateAttempt r)) t =
        Some (gwr_gateAttempt r) \<and>
      find_payload as_receipt OT_receipt (rc_receiptId (gwr_receipt r)) t = Some (gwr_receipt r) \<and>
      (\<exists>g'. find_payload as_greenlight OT_greenlight (gl_greenlightId g) t = Some g' \<and> gl_consumedAt g' \<noteq> None))"

text \<open>A plan whose parts belong to one evaluation.\<close>

definition plan_of :: "kernel_env \<Rightarrow> gateway_evaluation \<Rightarrow> gateway_plan \<Rightarrow> bool" where
  "plan_of E v p \<longleftrightarrow> gwp_evaluation p = v \<and> artifacts_of v (gwp_result p) (gwp_refusal p) \<and>
     (case gwp_claim p of None \<Rightarrow> ge_refusal v \<noteq> None
      | Some k \<Rightarrow> ge_refusal v = None \<and> oc_claimState k = OCS_active \<and>
          oc_claimKeyDigest k = protectedSurfaceOperationClaimKeyDigest E (protectedSurfaceOperationClaimKey (ge_contract v)) \<and>
          (\<exists>m. gwr_mutationAttempt (gwp_result p) = Some m \<and> oc_mutationAttemptId k = Some (ma_mutationAttemptId m))) \<and>
     (\<forall>x. gwp_context p = Some x \<longrightarrow> (\<exists>c. x = PR_transition_request_context c))"

lemma buildGatewayCommitPlan_Inr:
  assumes "buildGatewayCommitPlan E v w = (Inr p, w')"
  shows "plan_of E v p"
proof -
  obtain r refusal w1 claim w2 ledger w3 ctx where
    art: "buildGateArtifacts E v w = (Inr (r, refusal), w1)"
    and claim: "deriveProtectedSurfaceOperationClaim E v r w1 = (Inr claim, w2)"
    and ctx: "transitionRequestContextRecordFor E (tenantId (ge_contract v)) (organizationId (ge_contract v)) w3 = (Inr ctx, w')"
    and p: "p = \<lparr>gwp_evaluation = v, gwp_result = r, gwp_refusal = refusal, gwp_claim = claim,
       gwp_ledgerUpdate = ledger, gwp_context = ctx,
       gwp_events = withTransitionRequestContextEventDescriptors
         (gateEventDescriptors r refusal (actionLifecycleStreamRefs (ge_contract v)) claim) ctx\<rparr>"
    using assms unfolding buildGatewayCommitPlan_def by (auto elim!: tbind_InrE)
  have a: "artifacts_of v r refusal" using art by (rule buildGateArtifacts_Inr)
  have m: "(gwr_mutationAttempt r \<noteq> None) = (ge_refusal v = None)"
    using a by (auto simp: artifacts_of_def result_agrees_def Let_def)
  have "\<forall>x. ctx = Some x \<longrightarrow> (\<exists>c. x = PR_transition_request_context c)"
    using ctx by (auto simp: transitionRequestContextRecordFor_def split: option.splits elim!: tbind_InrE)
  then show ?thesis
    using a m claim p
    by (auto simp: plan_of_def deriveProtectedSurfaceOperationClaim_def split: option.splits if_splits
        elim!: tbind_InrE dest!: active_claim_Inr)
qed

lemma gateProtocolRecords_Inr:
  assumes "gateProtocolRecords E v r refusal w = (Inr rs, w')"
  shows "rs = [PR_gateway_check_attempt (gwr_gateAttempt r), PR_receipt (gwr_receipt r)] @
      opt_list (map_option PR_greenlight (if ge_refusal v \<noteq> None then None
        else Some ((ge_greenlight v)\<lparr>gl_consumedAt := Some (ge_now v), gl_consumedByGateAttemptId := Some (ge_gateAttemptId v)\<rparr>))) @
      opt_list (map_option PR_mutation_attempt (gwr_mutationAttempt r)) @
      opt_list (map_option PR_proof_gap (gwr_proofGap r)) @ opt_list (map_option PR_refusal refusal)"
  using assms by (auto simp: gateProtocolRecords_def split: if_splits elim!: tbind_InrE)

lemma gateway_commit_admits:
  assumes plan: "plan_of E v p" "ge_refusal v = None"
    and final: "withReceiptStreamReferences E (gwp_result p) es w1 = (Inr final, w2)"
    and rs: "gateProtocolRecords E v final (gwp_refusal p) w2 = (Inr rs, w3)"
    and com: "commitGatewayCheck (gateway_commit_of E p final rs es) s = (GR_committed, t)"
  shows "admits E (ge_contract v) (ge_greenlight v) final s t"
proof -
  note D = commitGatewayCheck_committedD[OF com]
  note fin = withReceiptStreams_Inr[OF final]
  have v: "gwp_evaluation p = v" and art: "artifacts_of v (gwp_result p) (gwp_refusal p)"
    using plan(1) by (auto simp: plan_of_def)
  obtain k m where claim: "gwp_claim p = Some k" "oc_claimState k = OCS_active"
    "oc_claimKeyDigest k = protectedSurfaceOperationClaimKeyDigest E (protectedSurfaceOperationClaimKey (ge_contract v))"
    "oc_mutationAttemptId k = Some (ma_mutationAttemptId m)"
    and mut: "gwr_mutationAttempt (gwp_result p) = Some m"
    using plan by (auto simp: plan_of_def split: option.splits)
  have mfin: "gwr_mutationAttempt final = Some m" using fin mut by simp
  have none: "gwp_refusal p = None" "gwr_proofGap final = None"
    using art plan(2) fin by (auto simp: artifacts_of_def result_agrees_def Let_def)
  have mfacts: "ma_greenlightId m = gl_greenlightId (ge_greenlight v)" "ma_mutationAttemptId m \<noteq> []"
    using art mut by (auto simp: artifacts_of_def)
  have rc: "rc_mutationAttemptId (gwr_receipt final) = Some (ma_mutationAttemptId m)"
    using fin art mut by (auto simp: artifacts_of_def result_agrees_def Let_def)
  let ?g' = "(ge_greenlight v)\<lparr>gl_consumedAt := Some (ge_now v), gl_consumedByGateAttemptId := Some (ge_gateAttemptId v)\<rparr>"
  let ?rs = "plan_records p rs"
  have rs': "rs = [PR_gateway_check_attempt (gwr_gateAttempt final), PR_receipt (gwr_receipt final), PR_greenlight ?g',
      PR_mutation_attempt m]"
    using gateProtocolRecords_Inr[OF rs] plan(2) mfin none by simp
  have dist: "distinct (map record_type ?rs)"
    using rs' claim(1) plan(1)
    by (cases "gwp_context p"; cases "gwp_ledgerUpdate p") (auto simp: plan_records_def plan_of_def)
  have mem: "PR_gateway_check_attempt (gwr_gateAttempt final) \<in> set ?rs" "PR_receipt (gwr_receipt final) \<in> set ?rs"
    "PR_greenlight ?g' \<in> set ?rs" "PR_mutation_attempt m \<in> set ?rs" "PR_protected_surface_operation_claim k \<in> set ?rs"
    using rs' claim(1) by (auto simp: plan_records_def)
  have gk: "gk_records (gateway_commit_of E p final rs es) = map (buildRecord E) ?rs"
    by (simp add: gateway_commit_of_def)
  note stored = gateway_stores[OF com gk dist]
  have payload: "find_payload as_gateway_check_attempt OT_gateway_check_attempt (gca_gateAttemptId (gwr_gateAttempt final)) t =
        Some (gwr_gateAttempt final)"
    "find_payload as_receipt OT_receipt (rc_receiptId (gwr_receipt final)) t = Some (gwr_receipt final)"
    "find_payload as_greenlight OT_greenlight (gl_greenlightId (ge_greenlight v)) t = Some ?g'"
    "find_payload as_mutation_attempt OT_mutation_attempt (ma_mutationAttemptId m) t = Some m"
    "find_payload as_protected_surface_operation_claim OT_protected_surface_operation_claim
       (oc_protectedSurfaceOperationClaimId k) t = Some k"
    using stored[OF mem(1)] stored[OF mem(2)] stored[OF mem(3)] stored[OF mem(4)] stored[OF mem(5)]
    by (simp_all add: find_payload_def)
  have cons: "gk_consumption (gateway_commit_of E p final rs es) =
      Some \<lparr>gc_greenlightId = gl_greenlightId (ge_greenlight v), gc_gateAttemptId = ge_gateAttemptId v,
       gc_actionContractId = ac_actionContractId (ge_contract v),
       gc_idempotencyKey = ac_idempotencyKey (ge_contract v), gc_consumedAt = ge_now v\<rparr>"
    using v plan(2) by (simp add: gateway_commit_of_def buildGreenlightConsumption_def)
  have c1: "map_of (s_consumptions s) (gl_greenlightId (ge_greenlight v)) = None"
    using D(1)[OF cons] by (simp add: has_key_def)
  have c2: "map_of (s_consumptions t) (gl_greenlightId (ge_greenlight v)) = gk_consumption (gateway_commit_of E p final rs es)"
    using D(6) by (simp add: cons map_of_update)
  have claims: "gk_operationClaims (gateway_commit_of E p final rs es) = [operationClaimIndexEntry k (ge_now v)]"
    using claim(1) v by (simp add: gateway_commit_of_def)
  have k1: "map_of (s_claims s) (oc_claimKeyDigest k) = None"
    using D(2) claims by (simp add: has_key_def operationClaimIndexEntry_def)
  have k2: "map_of (s_claims t) (oc_claimKeyDigest k) = Some (operationClaimIndexEntry k (ge_now v))"
    using D(7) claims by (simp add: map_of_update operationClaimIndexEntry_def)
  have recs: "gk_receiptEntries (gateway_commit_of E p final rs es) =
      [\<lparr>ri_mutationAttemptId = ma_mutationAttemptId m, ri_receiptId = rc_receiptId (gwr_receipt final),
        ri_tenantId = tenantId (gwr_receipt final), ri_organizationId = organizationId (gwr_receipt final),
        ri_createdAt = createdAt (gwr_receipt final)\<rparr>]"
    using rc mfacts(2) by (simp add: gateway_commit_of_def receiptMutationAttemptIndexEntriesFor_def Let_def truthy_ref_def)
  have r1: "map_of (s_receipts s) (ma_mutationAttemptId m) = None"
    using com recs by (auto simp: commitGatewayCheck_def has_key_def split: if_splits option.splits)
  have r2: "\<exists>ri. map_of (s_receipts t) (ma_mutationAttemptId m) = Some ri \<and> ri_receiptId ri = rc_receiptId (gwr_receipt final)"
    using D(12) recs by (simp add: map_of_update)
  have gid: "gca_gateAttemptId (gwr_gateAttempt final) = ge_gateAttemptId v"
    using fin art by (simp add: artifacts_of_def)
  show ?thesis
    unfolding admits_def Let_def
    using c1 c2 cons k1 k2 claim mfin payload mfacts(1) r1 r2 gid
    by (auto simp: operationClaimIndexEntry_def)
qed

lemma gateway_attempts_Inr:
  assumes "disciplined E" "plan_of E v p" "gateway_attempts E p n w = (Inr r, w')"
  shows "(refused_result r \<and> store_run (w_store w) (w_store w')) \<or>
     (\<exists>s. ge_refusal v = None \<and> result_agrees r \<and> gca_gateDecision (gwr_gateAttempt r) = GD_passed \<and>
        store_run (w_store w) s \<and> store_step s (w_store w') \<and> admits E (ge_contract v) (ge_greenlight v) r s (w_store w'))"
  using assms(3)
proof (induction n arbitrary: w)
  case (Suc n)
  have v: "gwp_evaluation p = v" and art: "artifacts_of v (gwp_result p) (gwp_refusal p)"
    using assms(2) by (auto simp: plan_of_def)
  obtain es w1 final w2 rs w3 where
    chain: "buildEventChain E (w_store w) (gwp_events p) w = (Inr es, w1)"
    and final: "withReceiptStreamReferences E (gwp_result p) es w1 = (Inr final, w2)"
    and rs: "gateProtocolRecords E v final (gwp_refusal p) w2 = (Inr rs, w3)"
    and rest0: "(case fst (commitGatewayCheck (gateway_commit_of E p final rs es) (ke_interfere E (tick w3) (w_store w3))) of
       GR_committed \<Rightarrow> treturn (snd (gateway_commit_of E p final rs es, final))
     | GR_already_consumed \<Rightarrow> replay_refusal E p None
     | GR_operation_claim_conflict \<Rightarrow>
         replay_refusal E p (Some (''protected_surface_operation_in_progress'', CONS_not_consumed))
     | GR_receipt_index_conflict \<Rightarrow> replay_refusal E p (Some (''receipt_index_conflict'', CONS_not_consumed))
     | GR_stream_conflict \<Rightarrow> gateway_attempts E p n) (w3\<lparr>tick := Suc (tick w3), w_store := snd (commitGatewayCheck (gateway_commit_of E p final rs es) (ke_interfere E (tick w3) (w_store w3)))\<rparr>) = (Inr r, w')"
    using Suc.prems v unfolding gateway_attempts.simps buildGatewayCheckCommit_def interfere_def
    by (auto elim!: tbind_InrE)
  obtain res u where com: "commitGatewayCheck (gateway_commit_of E p final rs es) (ke_interfere E (tick w3) (w_store w3)) = (res, u)"
    by (cases "commitGatewayCheck (gateway_commit_of E p final rs es) (ke_interfere E (tick w3) (w_store w3))") auto
  have rest: "(case res of
       GR_committed \<Rightarrow> treturn final
     | GR_already_consumed \<Rightarrow> replay_refusal E p None
     | GR_operation_claim_conflict \<Rightarrow>
         replay_refusal E p (Some (''protected_surface_operation_in_progress'', CONS_not_consumed))
     | GR_receipt_index_conflict \<Rightarrow> replay_refusal E p (Some (''receipt_index_conflict'', CONS_not_consumed))
     | GR_stream_conflict \<Rightarrow> gateway_attempts E p n) (w3\<lparr>tick := Suc (tick w3), w_store := u\<rparr>) = (Inr r, w')"
    using rest0 com by (cases res) simp_all
  let ?t = "ke_interfere E (tick w3) (w_store w3)"
  have st: "w_store w3 = w_store w"
    using reads_onlyD[OF reads_chain chain] reads_onlyD[OF gateway_builders_read(4) final]
      reads_onlyD[OF gateway_builders_read(5) rs] by simp
  have run: "store_run (w_store w) ?t" using assms(1) st by (simp add: disciplined_def)
  have step: "store_step ?t u" using com step_gateway[of ?t "gateway_commit_of E p final rs es"] by simp
  have replay: "refused_result r \<and> store_run (w_store w) (w_store w')"
    if "replay_refusal E p ov (w3\<lparr>tick := Suc (tick w3), w_store := u\<rparr>) = (Inr r, w')"
      "\<forall>x. ov = Some x \<longrightarrow> snd x = CONS_not_consumed" for ov
  proof
    show "refused_result r"
      using that by (auto simp: replay_refusal_def replay_context_of_def Let_def intro!: replay_refused)
    have "store_run u (w_store w')"
      using store_movesD[OF replay_moves[OF assms(1)]] that(1) unfolding replay_refusal_def by fastforce
    then show "store_run (w_store w) (w_store w')" using run step by (meson rtranclp.rtrancl_into_rtrancl rtranclp_trans)
  qed
  show ?case
  proof (cases res)
    case GR_committed
    then have r: "r = final" "w_store w' = u" using rest by auto
    note fin = withReceiptStreams_Inr[OF final]
    have agrees: "result_agrees final" using fin art by (simp add: artifacts_of_def)
    show ?thesis
    proof (cases "ge_refusal v")
      case None
      have "admits E (ge_contract v) (ge_greenlight v) final ?t u"
        using gateway_commit_admits[OF assms(2) None final rs] com GR_committed by simp
      moreover have "gca_gateDecision (gwr_gateAttempt final) = GD_passed"
        using fin art None by (simp add: artifacts_of_def)
      ultimately show ?thesis using None r agrees run step by blast
    next
      case (Some code)
      then have "gca_gateDecision (gwr_gateAttempt final) \<noteq> GD_passed"
        using fin art by (simp add: artifacts_of_def)
      then have "refused_result final"
        using agrees by (cases "gca_gateDecision (gwr_gateAttempt final)")
          (auto simp: refused_result_def result_agrees_def Let_def)
      then show ?thesis using r run step by (meson rtranclp.rtrancl_into_rtrancl)
    qed
  next
    case GR_stream_conflict
    then have u: "u = ?t" using commitGatewayCheck_rejected[OF com] by simp
    then have "store_run (w_store w) u" using run by simp
    then show ?thesis
      using Suc.IH[of "w3\<lparr>tick := Suc (tick w3), w_store := u\<rparr>"] rest GR_stream_conflict
      by (auto dest: rtranclp_trans)
  qed (use rest replay in auto)
qed simp

section \<open>The transition\<close>

lemma gatewayCheck_context:
  assumes "gatewayCheck E input w = (Inr r, w')"
  obtains c g d now gid p w1 where
    "find_payload as_action_contract OT_action_contract (gwi_actionContractId input) (w_store w) = Some c"
    "find_payload as_greenlight OT_greenlight (gwi_greenlightId input) (w_store w) = Some g"
    "find_payload as_policy_decision OT_policy_decision (gl_policyDecisionId g) (w_store w) = Some d"
    "guardGatewayCheckAuthority g d = guard_ok" "w_store w1 = w_store w"
    "plan_of E (deriveGatewayConstraintEvaluation E input c g now gid (w_store w)) p"
    "gateway_attempts E p (Suc MAX_STREAM_COMMIT_RETRIES) w1 = (Inr r, w')"
proof -
  obtain c g d now w1 gid w2 p w3 where
    ctx: "find_payload as_action_contract OT_action_contract (gwi_actionContractId input) (w_store w) = Some c"
    "find_payload as_greenlight OT_greenlight (gwi_greenlightId input) (w_store w) = Some g"
    "find_payload as_policy_decision OT_policy_decision (gl_policyDecisionId g) (w_store w) = Some d"
    and guard: "require_guard (guardGatewayCheckAuthority g d) w = (Inr (), w)"
    and now: "nowIso E w = (Inr now, w1)" and gid: "createId E ''gat'' w1 = (Inr gid, w2)"
    and p: "buildGatewayCommitPlan E (deriveGatewayConstraintEvaluation E input c g now gid (w_store w1)) w2 = (Inr p, w3)"
    and att: "gateway_attempts E p (Suc MAX_STREAM_COMMIT_RETRIES) w3 = (Inr r, w')"
    using assms unfolding gatewayCheck_def commitGatewayCheckPlan_def
    by (auto simp: requiredPayload_Inr require_guard_def split: sum.splits elim!: tbind_InrE simp del: gateway_attempts.simps)
  have st: "w_store w1 = w_store w" "w_store w3 = w_store w"
    using nowIso_store[OF now] createId_store[OF gid] reads_onlyD[OF reads_plan(1) p] by auto
  have "guardGatewayCheckAuthority g d = guard_ok"
    using guard by (auto simp: require_guard_def guard_ok_def split: sum.splits)
  then show thesis
    using that ctx st buildGatewayCommitPlan_Inr[OF p] att by metis
qed

lemma guardGatewayCheckAuthority_ok:
  "guardGatewayCheckAuthority g d = guard_ok \<longleftrightarrow>
     pd_policyDecisionId d = gl_policyDecisionId g \<and> pd_actionContractId d = gl_actionContractId g \<and>
     pd_decision d = PD_greenlight"
  by (auto simp: guardGatewayCheckAuthority_def guard_ok_def guard_fail_def)

lemma gatewayCheck_result:
  assumes "disciplined E" "gatewayCheck E input w = (Inr r, w')"
  shows "result_agrees r \<and> store_run (w_store w) (w_store w')"
proof -
  obtain c g d now gid p w1 where st: "w_store w1 = w_store w"
    and p: "plan_of E (deriveGatewayConstraintEvaluation E input c g now gid (w_store w)) p"
    and att: "gateway_attempts E p (Suc MAX_STREAM_COMMIT_RETRIES) w1 = (Inr r, w')"
    by (rule gatewayCheck_context[OF assms(2)])
  show ?thesis
    using gateway_attempts_Inr[OF assms(1) p att] st
    by (auto simp: refused_result_def intro: rtranclp.rtrancl_into_rtrancl)
qed

lemma gatewayCheck_passed:
  assumes "disciplined E" "gatewayCheck E input w = (Inr r, w')" "gca_gateDecision (gwr_gateAttempt r) = GD_passed"
  shows "\<exists>c g d now s.
     find_payload as_action_contract OT_action_contract (gwi_actionContractId input) (w_store w) = Some c \<and>
     find_payload as_greenlight OT_greenlight (gwi_greenlightId input) (w_store w) = Some g \<and>
     find_payload as_policy_decision OT_policy_decision (gl_policyDecisionId g) (w_store w) = Some d \<and>
     pd_decision d = PD_greenlight \<and> pd_actionContractId d = ac_actionContractId c \<and>
     gate_constraints E input c g now (w_store w) \<and>
     store_run (w_store w) s \<and> store_step s (w_store w') \<and> admits E c g r s (w_store w')"
proof -
  obtain c g d now gid p w1 where
    ctx: "find_payload as_action_contract OT_action_contract (gwi_actionContractId input) (w_store w) = Some c"
    "find_payload as_greenlight OT_greenlight (gwi_greenlightId input) (w_store w) = Some g"
    "find_payload as_policy_decision OT_policy_decision (gl_policyDecisionId g) (w_store w) = Some d"
    "guardGatewayCheckAuthority g d = guard_ok" and st: "w_store w1 = w_store w"
    and p: "plan_of E (deriveGatewayConstraintEvaluation E input c g now gid (w_store w)) p"
    and att: "gateway_attempts E p (Suc MAX_STREAM_COMMIT_RETRIES) w1 = (Inr r, w')"
    by (rule gatewayCheck_context[OF assms(2)])
  have "\<not> refused_result r" using assms(3) by (simp add: refused_result_def)
  then obtain s where "ge_refusal (deriveGatewayConstraintEvaluation E input c g now gid (w_store w)) = None"
    "store_run (w_store w1) s" "store_step s (w_store w')" "admits E c g r s (w_store w')"
    using gateway_attempts_Inr[OF assms(1) p att] by auto
  moreover from this(1) have "gate_constraints E input c g now (w_store w)"
    by (simp add: derive_refusal_None)
  moreover from this have "gl_actionContractId g = ac_actionContractId c"
    by (simp add: gate_constraints_def greenlight_matches_def)
  ultimately show ?thesis using ctx st guardGatewayCheckAuthority_ok[of g d] by auto
qed

end
