(* ===== verification/Delivery.thy ===== *)
theory Delivery
  imports Records
begin

text \<open>
  When a transition does what it is asked: total correctness, on a platform whose
  clock, identifiers and hash give well-formed values and while no other request
  runs.  A chain of events built there is committed at its first attempt.
\<close>

section \<open>Deliveries\<close>

definition delivers :: "('w, 'e, 'a) tr \<Rightarrow> 'w \<Rightarrow> ('a \<Rightarrow> 'w \<Rightarrow> bool) \<Rightarrow> bool" where
  "delivers m w Q \<longleftrightarrow> (\<exists>x w'. m w = (Inr x, w') \<and> Q x w')"

named_theorems delivers_intros "rules for a transition that delivers"

lemma delivers_return [delivers_intros]: "Q x w \<Longrightarrow> delivers (treturn x) w Q"
  by (simp add: delivers_def)

lemma delivers_returned [delivers_intros]: "Q x w \<Longrightarrow> delivers (Pair (Inr x)) w Q"
  by (simp add: delivers_def)

lemma delivers_bind [delivers_intros]: "delivers m w (\<lambda>x w'. delivers (f x) w' Q) \<Longrightarrow> delivers (tbind m f) w Q"
  by (auto simp: delivers_def)

lemma delivers_parse [delivers_intros]: "ok r \<Longrightarrow> Q r w \<Longrightarrow> delivers (tparse ok r) w Q"
  by (simp add: delivers_def)

lemma delivers_get [delivers_intros]: "Q (f (w_store w)) w \<Longrightarrow> delivers (store_get f) w Q"
  by (simp add: delivers_def store_get_def)

lemma delivers_mono: "delivers m w P \<Longrightarrow> (\<And>x w'. P x w' \<Longrightarrow> Q x w') \<Longrightarrow> delivers m w Q"
  by (auto simp: delivers_def)

lemma delivers_run: "m w = (Inr x, w') \<Longrightarrow> Q x w' \<Longrightarrow> delivers m w Q"
  by (auto simp: delivers_def)

lemma delivers_via:
  "delivers m w P \<Longrightarrow> (\<And>x w'. P x w' \<Longrightarrow> delivers (f x) w' Q) \<Longrightarrow> delivers (tbind m f) w Q"
  by (fastforce simp: delivers_def)

lemma delivers_reads:
  assumes "delivers m w P" "reads_only m" "\<And>x w'. P x w' \<Longrightarrow> w_store w' = w_store w \<Longrightarrow> Q x w'"
  shows "delivers m w Q"
  using assms(1) reads_onlyD[OF assms(2)] assms(3) by (fastforce simp: delivers_def)

section \<open>The platform\<close>

definition platform_ok :: "kernel_env \<Rightarrow> bool" where
  "platform_ok E \<longleftrightarrow> (\<forall>bs. length (env_sha256 E bs) = 32) \<and> (\<forall>key bs. length (env_hmac E key bs) = 32) \<and>
     (\<forall>p w :: world. length p = 3 \<longrightarrow> (\<exists>x. fst (createId E p w) = Inr x \<and> id_ok x)) \<and>
     (\<forall>w :: world. \<exists>x. fst (nowIso E w) = Inr x \<and> iso_ok E x)"

definition quiet :: "kernel_env \<Rightarrow> bool" where
  "quiet E \<longleftrightarrow> (\<forall>n s. ke_interfere E n s = s) \<and> ke_context E = None"

lemma quiet_disciplined: "quiet E \<Longrightarrow> disciplined E"
  by (simp add: quiet_def disciplined_def)

lemma delivers_createId [delivers_intros]:
  assumes "platform_ok E" "length p = 3" "\<And>x w'. id_ok x \<Longrightarrow> fst (createId E p w) = Inr x \<Longrightarrow> w_store w' = w_store w \<Longrightarrow> Q x w'"
  shows "delivers (createId E p) (w :: world) Q"
proof -
  obtain x w' where "createId E p w = (Inr x, w')" "id_ok x"
    using assms(1,2) unfolding platform_ok_def by (metis prod.collapse)
  then show ?thesis using assms(3) by (auto simp: delivers_def createId_store)
qed

lemma delivers_now [delivers_intros]:
  assumes "platform_ok E" "\<And>x w'. iso_ok E x \<Longrightarrow> w_store w' = w_store w \<Longrightarrow> Q x w'"
  shows "delivers (nowIso E) (w :: world) Q"
proof -
  obtain x w' where "nowIso E w = (Inr x, w')" "iso_ok E x"
    using assms(1) unfolding platform_ok_def by (metis prod.collapse)
  then show ?thesis using assms(2) by (auto simp: delivers_def nowIso_store)
qed

lemma delivers_interfere [delivers_intros]:
  assumes "quiet E" "\<And>w'. w_store w' = w_store w \<Longrightarrow> Q () w'"
  shows "delivers (interfere E) w Q"
  using assms by (simp add: delivers_def interfere_def quiet_def)

lemma hex_digit_lower: "n < 16 \<Longrightarrow> is_hex_lower (hex_digit n)"
proof -
  assume "n < 16"
  moreover have "list_all (\<lambda>n. is_hex_lower (hex_digit n)) [0..<16]" by code_simp
  ultimately show ?thesis by (simp add: list_all_iff)
qed

lemma toHex_ok: "length (toHex bs) = 2 * length bs" "list_all is_hex_lower (toHex bs)"
proof -
  show "length (toHex bs) = 2 * length bs" by (induction bs) (simp_all add: toHex_def)
  have "is_hex_lower (hex_digit (unat (b :: 8 word) div 16))" "is_hex_lower (hex_digit (unat b mod 16))" for b
    using unsigned_less[of b, where ?'a = nat] by (auto intro!: hex_digit_lower)
  then show "list_all is_hex_lower (toHex bs)" by (induction bs) (simp_all add: toHex_def)
qed

lemma digest_shape: "platform_ok E \<Longrightarrow> digest_ok (digestCanonical E v)"
  by (simp add: digest_ok_def digestCanonical_def platform_ok_def toHex_ok str_prefix_def)

lemma hmac_shape: "platform_ok E \<Longrightarrow> signature_ok (signCanonicalHmac E v secret)"
  by (simp add: signature_ok_def signCanonicalHmac_def platform_ok_def toHex_ok str_prefix_def)

section \<open>Chains\<close>

text \<open>A descriptor whose events are well formed: its stream's name fits in an identifier.\<close>

definition descriptor_ok :: "event_descriptor \<Rightarrow> bool" where
  "descriptor_ok d \<longleftrightarrow> id_ok (tenantId (ed_source d)) \<and> id_ok (organizationId (ed_source d)) \<and>
     length (tenantId (ed_source d)) + length (organizationId (ed_source d)) \<le> 152 \<and>
     list_all (\<lambda>x. x \<noteq> []) (ed_objectRefs d)"

definition digests_ok :: "stream_event list \<Rightarrow> bool" where
  "digests_ok es \<longleftrightarrow> (\<forall>e \<in> set es. digest_ok (ev_eventDigest e) \<and> 0 \<le> ev_offset e)"

lemma streams_digests_ok:
  assumes "platform_ok E" "streams_ok E es"
  shows "digests_ok es"
  unfolding digests_ok_def
proof
  fix e assume "e \<in> set es"
  let ?on = "filter (on_stream (ev_streamId e) (ev_partitionKey e)) es"
  have "e \<in> set ?on" using \<open>e \<in> set es\<close> by (simp add: on_stream_def)
  then obtain i where "i < length ?on" "?on ! i = e" unfolding in_set_conv_nth by blast
  then show "digest_ok (ev_eventDigest e) \<and> 0 \<le> ev_offset e"
    using assms digest_shape[OF assms(1)] unfolding streams_ok_def chain_ok_def by (metis of_nat_0_le_iff)
qed

lemma partition_nonempty: "b \<in> set (streamBindings d) \<Longrightarrow> sb_partitionKey b \<noteq> []"
  unfolding streamBindings_def Let_def
  by (drule dedupe_bindings_subset[THEN subsetD])
    (auto simp: streamPartitionKey_def split: option.splits if_splits)

lemma stream_id_ok: "descriptor_ok d \<Longrightarrow> id_ok (organizationStreamId (ed_source d))"
  by (simp add: descriptor_ok_def id_ok_def organizationStreamId_def)

lemma stream_id_bound:
  "id_ok (organizationStreamId b) \<longleftrightarrow> length (tenantId b) + length (organizationId b) \<le> 152"
  by (auto simp: id_ok_def organizationStreamId_def)

text \<open>Tails that a valid event may name.\<close>

definition tails_ok :: "pstore \<Rightarrow> chain_tails \<Rightarrow> bool" where
  "tails_ok s tails \<longleftrightarrow> (\<forall>b :: stream_binding. opt_ok digest_ok (snd (tail_for s tails b)) \<and> -1 \<le> fst (tail_for s tails b))"

lemma tails_ok_initial:
  assumes "platform_ok E" "streams_ok E (s_events s)"
  shows "tails_ok s []"
  unfolding tails_ok_def
proof
  fix b :: stream_binding
  let ?on = "filter (on_stream (sb_streamId b) (sb_partitionKey b)) (s_events s)"
  have "digest_ok (ev_eventDigest (last ?on)) \<and> 0 \<le> ev_offset (last ?on)" if "?on \<noteq> []"
    using streams_digests_ok[OF assms] last_in_set[OF that] by (auto simp: digests_ok_def)
  then show "opt_ok digest_ok (snd (tail_for s [] b)) \<and> -1 \<le> fst (tail_for s [] b)"
    by (cases "?on = []") (auto simp: tail_for_initial[OF assms(2)] last_tail_def)
qed

lemma delivers_event:
  assumes "platform_ok E" "descriptor_ok d" "b \<in> set (streamBindings d)" "0 \<le> off" "opt_ok digest_ok prev"
    and Q: "\<And>e w'. stream_event_valid E e \<Longrightarrow> ev_offset e = off \<Longrightarrow> ev_streamId e = sb_streamId b \<Longrightarrow>
      ev_partitionKey e = sb_partitionKey b \<Longrightarrow> Q e w'"
  shows "delivers (buildEventAt E d b off prev) (w :: world) Q"
proof -
  have sid: "id_ok (sb_streamId b)" using streamBindings_id[OF assms(3)] stream_id_ok[OF assms(2)] by simp
  have part: "1 \<le> length (sb_partitionKey b)" using partition_nonempty[OF assms(3)] by (cases "sb_partitionKey b") auto
  have refs: "list_all (\<lambda>x. 1 \<le> length x) (ed_objectRefs d)"
    using assms(2) by (auto simp: descriptor_ok_def list_all_iff Suc_le_eq)
  have ok: "stream_event_valid E (event_at E d b off prev time eid)" if "iso_ok E time" "id_ok eid" for time eid
    using that sid part refs assms(2,4,5) digest_shape[OF assms(1)]
    by (simp add: stream_event_valid_def event_at_def Let_def base_valid_def descriptor_ok_def)
  show ?thesis
    unfolding buildEventAt_def
  proof (intro delivers_intros assms(1))
    fix time eid w1 w2
    assume "iso_ok E time" "id_ok eid"
    then show "stream_event_valid E (event_at E d b off prev time eid)" by (rule ok)
    then show "Q (event_at E d b off prev time eid) w2"
      by (rule Q) (simp_all add: event_at_def Let_def)
  qed simp
qed

lemma delivers_chain_items:
  assumes "platform_ok E" "\<And>d b. (d, b) \<in> set items \<Longrightarrow> descriptor_ok d \<and> b \<in> set (streamBindings d)" "tails_ok s tails"
  shows "delivers (build_chain E s tails items) (w :: world) (\<lambda>es _. \<forall>e \<in> set es. stream_event_valid E e)"
  using assms
proof (induction E s tails items arbitrary: w rule: build_chain.induct)
  case (1 E s tails)
  then show ?case by (simp add: delivers_def)
next
  case (2 E s tails d b items)
  let ?t = "tail_for s tails b"
  have b: "descriptor_ok d" "b \<in> set (streamBindings d)" using "2.prems"(2)[of d b] by auto
  have t: "0 \<le> fst ?t + 1" "opt_ok digest_ok (snd ?t)"
    using "2.prems"(3) by (auto simp: tails_ok_def add_increasing2 algebra_simps dest!: spec[of _ b])
  show ?case
    unfolding build_chain.simps Let_def
  proof (intro delivers_bind delivers_event[OF _ b t])
    fix e :: stream_event and w' :: world
    assume e: "stream_event_valid E e" "ev_offset e = fst ?t + 1"
    have tails: "tails_ok s (AList.update (tailKey b) (ev_offset e, Some (ev_eventDigest e)) tails)"
      using "2.prems"(3) e t(1)
      by (auto simp: tails_ok_def tail_for_def map_of_update stream_event_valid_def split: if_splits)
    have "delivers (build_chain E s (AList.update (tailKey b) (ev_offset e, Some (ev_eventDigest e)) tails) items) w'
        (\<lambda>es _. \<forall>e \<in> set es. stream_event_valid E e)"
      by (rule "2.IH"[OF refl "2.prems"(1) _ tails]) (use "2.prems"(2) in auto)
    then show "delivers (build_chain E s (AList.update (tailKey b) (ev_offset e, Some (ev_eventDigest e)) tails) items) w'
       (\<lambda>es w'. delivers (treturn (e # es)) w' (\<lambda>es _. \<forall>e \<in> set es. stream_event_valid E e))"
      by (rule delivers_mono) (simp add: delivers_def e(1))
  qed (rule "2.prems"(1))
qed

text \<open>
  A chain built where it is committed: well-formed events, at offsets that are
  free, and the stream references of a receipt are well formed too.
\<close>

definition fresh_chain :: "kernel_env \<Rightarrow> pstore \<Rightarrow> stream_event list \<Rightarrow> bool" where
  "fresh_chain E s es \<longleftrightarrow> (\<forall>e \<in> set es. stream_event_valid E e) \<and> \<not> list_ex (\<lambda>e. hasStreamOffset e s) es \<and>
     streams_ok E (s_events s @ es)"

lemma extended_offsets_free:
  assumes "streams_ok E (old @ es)" "e \<in> set es" "x \<in> set old" "ev_streamId x = ev_streamId e"
    "ev_partitionKey x = ev_partitionKey e"
  shows "ev_offset x \<noteq> ev_offset e"
proof -
  let ?on = "filter (on_stream (ev_streamId e) (ev_partitionKey e))"
  have "map ev_offset (?on old @ ?on es) = map int [0..<length (?on old @ ?on es)]"
    using assms(1) chain_ok_offsets unfolding streams_ok_def filter_append[symmetric] by blast
  then have "distinct (map ev_offset (?on old) @ map ev_offset (?on es))"
    by (metis distinct_map distinct_upt inj_on_of_nat map_append)
  moreover have "x \<in> set (?on old)" "e \<in> set (?on es)" using assms by (simp_all add: on_stream_def)
  ultimately show ?thesis by (metis disjoint_iff distinct_append imageI list.set_map)
qed

lemma delivers_chain:
  assumes "platform_ok E" "same_stream sid ds" "list_all descriptor_ok ds" "streams_ok E (s_events s)"
    and Q: "\<And>es w'. fresh_chain E s es \<Longrightarrow> w_store w' = w_store w \<Longrightarrow> Q es w'"
  shows "delivers (buildEventChain E s ds) (w :: world) Q"
proof -
  have items: "descriptor_ok d \<and> b \<in> set (streamBindings d)" if "(d, b) \<in> set (chain_items ds)" for d b
    using that assms(3) by (auto simp: chain_items_def list_all_iff)
  obtain es w' where es: "buildEventChain E s ds w = (Inr es, w')" "\<forall>e \<in> set es. stream_event_valid E e"
    using delivers_chain_items[OF assms(1), of "chain_items ds" s "[]" w, OF items tails_ok_initial[OF assms(1,4)]]
    unfolding buildEventChain_def delivers_def by blast
  have "streams_ok E (s_events s @ es)" using buildEventChain_extends(1)[OF es(1) assms(2,4)] .
  then have "fresh_chain E s es"
    using es(2) extended_offsets_free unfolding fresh_chain_def list_ex_iff hasStreamOffset_iff by blast
  then show ?thesis using es(1) buildEventChain_store[OF es(1)] Q by (auto simp: delivers_def)
qed

lemma receipt_refs_ok:
  assumes "\<forall>e \<in> set es. stream_event_valid E e" "\<forall>r \<in> snd ` set refs. receipt_stream_reference_valid E r"
  shows "\<forall>r \<in> snd ` set (receipt_refs es refs). receipt_stream_reference_valid E r"
  using assms
proof (induction es refs rule: receipt_refs.induct)
  case (2 e es refs)
  let ?key = "ev_streamId e @ '':'' @ ev_partitionKey e"
  let ?r = "\<lparr>rsr_streamId = ev_streamId e, rsr_streamScope = ev_streamScope e, rsr_partitionKey = ev_partitionKey e,
      rsr_offsetStart = (case map_of refs ?key of Some x \<Rightarrow> rsr_offsetStart x | None \<Rightarrow> 0),
      rsr_offsetEnd = ev_offset e, rsr_terminalEventDigest = ev_eventDigest e\<rparr>"
  have old: "receipt_stream_reference_valid E x" if "map_of refs ?key = Some x" for x
    using "2.prems"(2) map_of_SomeD[OF that] by force
  have new: "receipt_stream_reference_valid E ?r"
    if "map_of refs ?key = None \<or> rsr_offsetEnd (the (map_of refs ?key)) < ev_offset e"
    using "2.prems"(1) that old
    by (cases "map_of refs ?key") (auto simp: receipt_stream_reference_valid_def stream_event_valid_def)
  have upd: "\<forall>r \<in> snd ` set (if map_of refs ?key = None \<or> rsr_offsetEnd (the (map_of refs ?key)) < ev_offset e
      then AList.update ?key ?r refs else refs). receipt_stream_reference_valid E r"
  proof (cases "map_of refs ?key = None \<or> rsr_offsetEnd (the (map_of refs ?key)) < ev_offset e")
    case True
    have "\<forall>r \<in> snd ` set (AList.update ?key ?r refs). receipt_stream_reference_valid E r"
    proof
      fix x assume "x \<in> snd ` set (AList.update ?key ?r refs)"
      then have "x \<in> insert ?r (snd ` set refs)" by (rule subsetD[OF set_snd_update_subset[unfolded set_map]])
      then show "receipt_stream_reference_valid E x"
      proof (rule insertE)
        assume "x = ?r"
        then show ?thesis using new[OF True] by (simp only:)
      qed (rule bspec[OF "2.prems"(2)])
    qed
    then show ?thesis by (simp only: True if_True)
  next
    case False
    show ?thesis using "2.prems"(2) by (simp only: False if_False)
  qed
  show ?case
    unfolding receipt_refs.simps Let_def
    by (rule "2.IH"[OF refl refl _ upd]) (use "2.prems"(1) in simp)
qed simp

lemma receipt_references_ok:
  "\<forall>e \<in> set es. stream_event_valid E e \<Longrightarrow>
     list_all (receipt_stream_reference_valid E) (receiptStreamReferencesForEvents es)"
  using receipt_refs_ok[of es E "[]"] by (simp add: receiptStreamReferencesForEvents_def list_all_iff)

section \<open>Commits\<close>

text \<open>A commit that no claim, reservation or record of the store stands against.\<close>

definition unopposed :: "commit_options \<Rightarrow> pstore \<Rightarrow> bool" where
  "unopposed opts s \<longleftrightarrow> \<not> co_absentOrSame opts \<and>
     \<not> list_ex (\<lambda>x. has_key (s_issuance s) (gi_actionContractId x)) (co_issuanceClaims opts) \<and>
     \<not> list_ex (\<lambda>x. has_key (s_ledger s) (li_ledgerKeyDigest x)) (co_ledgerReservations opts) \<and>
     \<not> list_ex (\<lambda>x. has_key (s_recovery s) (rt_recoveryRecommendationId x)) (co_recoveryClaims opts)"

text \<open>The same, where a commit also asks that its records are not yet stored differently.\<close>

lemma delivers_tryCommit_fresh:
  assumes "platform_ok E" "quiet E" "streams_ok E (s_events (w_store w))" "same_stream sid ds" "list_all descriptor_ok ds"
    "unopposed (opts\<lparr>co_absentOrSame := False\<rparr>) (w_store w)"
    "co_absentOrSame opts \<Longrightarrow> \<not> digest_conflict (map (buildRecord E) rs) (w_store w)"
  shows "delivers (tryCommitRecordsWithEvents E rs ds opts) w (\<lambda>res _. \<exists>es. res = TC_committed es)"
proof -
  have ctx: "withTransitionRequestContext E rs ds = treturn (rs, ds)"
    using assms(2) unfolding withTransitionRequestContext_def transitionRequestContextRecordFor_def quiet_def
    by (cases rs) (simp_all only: list.case option.case tbind_return)
  have chain: "delivers (buildEventChain E (w_store w) ds) w (\<lambda>es u. fresh_chain E (w_store w) es \<and> w_store u = w_store w)"
    by (rule delivers_chain[OF assms(1,4,5,3)]) simp
  have committed: "fst (commitProtocolRecords (commit_of (map (buildRecord E) rs) es opts) (w_store w)) = CR_committed"
    if "fresh_chain E (w_store w) es" for es
    using assms(6,7) that by (simp add: commitProtocolRecords_def unopposed_def fresh_chain_def)
  show ?thesis
    unfolding tryCommitRecordsWithEvents_def ctx tbind_return prod.case commit_attempts.simps
  proof (rule delivers_bind, rule delivers_get, rule delivers_via[OF chain], elim conjE, intro delivers_bind delivers_interfere[OF assms(2)])
    fix es and u u' :: world
    assume es: "fresh_chain E (w_store w) es" and st: "w_store u = w_store w" "w_store u' = w_store u"
    have "w_store u' = w_store w" using st by simp
    then show "delivers (store_op (commitProtocolRecords (commit_of (map (buildRecord E) rs) es opts))) u' (\<lambda>res w'. delivers (case res of
         CR_committed \<Rightarrow> treturn (TC_committed es)
       | CR_stream_conflict \<Rightarrow> commit_attempts E (map (buildRecord E) rs) ds opts MAX_STREAM_COMMIT_RETRIES
       | CR_record_digest_conflict \<Rightarrow> treturn TC_record_digest_conflict
       | CR_recovery_terminal_conflict \<Rightarrow> tfail (protocol_error ''recovery_terminal_conflict'' 409)
       | CR_greenlight_issuance_conflict \<Rightarrow> tfail (protocol_error ''invalid_transition_greenlight_already_issued'' 409)
       | CR_idempotency_ledger_conflict \<Rightarrow> treturn TC_idempotency_ledger_conflict) w' (\<lambda>res _. \<exists>es. res = TC_committed es))"
      using committed[OF es] by (simp add: delivers_def)
  qed
qed

lemma delivers_tryCommit:
  assumes "platform_ok E" "quiet E" "streams_ok E (s_events (w_store w))" "same_stream sid ds" "list_all descriptor_ok ds"
    "unopposed opts (w_store w)"
  shows "delivers (tryCommitRecordsWithEvents E rs ds opts) w (\<lambda>res _. \<exists>es. res = TC_committed es)"
  by (rule delivers_tryCommit_fresh[OF assms(1-5)]) (use assms(6) in \<open>simp_all add: unopposed_def\<close>)

lemma delivers_commitRecords_fresh:
  assumes "platform_ok E" "quiet E" "streams_ok E (s_events (w_store w))" "same_stream sid ds" "list_all descriptor_ok ds"
    "unopposed (opts\<lparr>co_absentOrSame := False\<rparr>) (w_store w)"
    "co_absentOrSame opts \<Longrightarrow> \<not> digest_conflict (map (buildRecord E) rs) (w_store w)"
  shows "delivers (commitRecordsWithEvents E rs ds opts) w (\<lambda>_ _. True)"
  unfolding commitRecordsWithEvents_def
  by (rule delivers_via[OF delivers_tryCommit_fresh[OF assms]]) (auto simp: delivers_def)

lemma delivers_commitRecords:
  assumes "platform_ok E" "quiet E" "streams_ok E (s_events (w_store w))" "same_stream sid ds" "list_all descriptor_ok ds"
    "unopposed opts (w_store w)"
  shows "delivers (commitRecordsWithEvents E rs ds opts) w (\<lambda>_ _. True)"
  unfolding commitRecordsWithEvents_def
  by (rule delivers_via[OF delivers_tryCommit[OF assms]]) (auto simp: delivers_def)

end
