(* ===== verification/Gateway_Progress.thy ===== *)
theory Gateway_Progress
  imports Gateway_Laws Delivery
begin

text \<open>
  The gate opens: a check whose constraints hold, for a greenlight that nobody
  consumed and a surface that nobody claims, passes when no other request runs.
\<close>

text \<open>
  The fields of a contract that the check copies into its records, as the
  contract's schema requires them; and the other records it reads.
\<close>

definition contract_fields_ok :: "kernel_env \<Rightarrow> action_contract \<Rightarrow> bool" where
  "contract_fields_ok E c \<longleftrightarrow> base_valid E c \<and> length (tenantId c) + length (organizationId c) \<le> 152 \<and>
     list_all id_ok [ac_actionContractId c, ac_gatewayId c, ac_gatewayPolicyContractId c, ac_idempotencyKey c] \<and>
     1 \<le> length (ac_gatewayPolicyVersion c) \<and> 1 \<le> length (ac_actionClass c) \<and>
     1 \<le> length (ac_protectedSurfaceKind c) \<and> resource_ref_ok (ac_resourceRef c) \<and>
     digest_ok (ac_actionContractDigest c)"

definition gate_reads_ok :: "kernel_env \<Rightarrow> action_contract \<Rightarrow> greenlight \<Rightarrow> pstore \<Rightarrow> bool" where
  "gate_reads_ok E c g s \<longleftrightarrow> contract_fields_ok E c \<and> greenlight_valid E g \<and>
     (\<forall>e. find_payload as_gateway_registry_entry OT_gateway_registry_entry (ac_gatewayRegistryEntryId c) s = Some e \<longrightarrow>
        gateway_registry_entry_valid E e) \<and>
     (\<forall>p. loadCurrentPostureForContract c s = Some p \<longrightarrow> protected_path_posture_valid E p) \<and>
     (\<forall>l. payload_of as_idempotency_ledger_entry (getCurrentIdempotencyLedgerEntry (ledger_key_at_gate E c g) s) = Some l \<longrightarrow>
        idempotency_ledger_entry_valid E l)"

text \<open>Nobody consumed the greenlight, holds the surface or used a new identifier.\<close>

definition gate_free :: "kernel_env \<Rightarrow> action_contract \<Rightarrow> greenlight \<Rightarrow> pstore \<Rightarrow> bool" where
  "gate_free E c g s \<longleftrightarrow> map_of (s_consumptions s) (gl_greenlightId g) = None \<and>
     map_of (s_claims s) (protectedSurfaceOperationClaimKeyDigest E (protectedSurfaceOperationClaimKey c)) = None \<and>
     (\<forall>(w :: world) m. fst (createId E ''mut'' w) = Inr m \<longrightarrow> map_of (s_receipts s) m = None)"

lemma isolationSnapshotRef_nonempty: "isolationSnapshotRef is \<noteq> []"
  by (simp add: isolationSnapshotRef_def)

lemma join_nonempty: "protocolObjectRef t x \<noteq> []"
  by (simp add: protocolObjectRef_def)

lemma currentPolicyVersion_ok:
  assumes "\<forall>e. x = Some e \<longrightarrow> gateway_registry_entry_valid E e"
  shows "opt_ok (\<lambda>x. 1 \<le> length x) (gdr_currentGatewayPolicyVersion (checkGatewayPolicyDrift c g x))"
  using assms by (auto simp: checkGatewayPolicyDrift_def Let_def gateway_registry_entry_valid_def split: option.split)

lemma posture_seen_ok:
  assumes "\<forall>p. x = Some p \<longrightarrow> protected_path_posture_valid E p"
  shows "opt_ok id_ok (map_option pp_protectedPathPostureId x)" "opt_ok digest_ok (map_option pp_postureDigest x)"
  using assms by (cases x; simp add: protected_path_posture_valid_def)+

lemma gate_reads_okD:
  assumes "gate_reads_ok E c g s"
  shows "contract_fields_ok E c" "greenlight_valid E g"
    "opt_ok (\<lambda>x. 1 \<le> length x) (gdr_currentGatewayPolicyVersion (checkGatewayPolicyDrift c g
       (find_payload as_gateway_registry_entry OT_gateway_registry_entry (ac_gatewayRegistryEntryId c) s)))"
    "opt_ok id_ok (map_option pp_protectedPathPostureId (loadCurrentPostureForContract c s))"
    "opt_ok digest_ok (map_option pp_postureDigest (loadCurrentPostureForContract c s))"
    "\<And>l. payload_of as_idempotency_ledger_entry (getCurrentIdempotencyLedgerEntry (ledger_key_at_gate E c g) s) = Some l \<Longrightarrow>
       idempotency_ledger_entry_valid E l"
  using assms currentPolicyVersion_ok posture_seen_ok unfolding gate_reads_ok_def by blast+

lemma gate_attempt_ok:
  assumes "platform_ok E" "gate_reads_ok E c g s" "iso_ok E now" "id_ok gid" "reason_code_ok code" "opt_ok id_ok mid"
  shows "gateway_check_attempt_valid E
    (gate_attempt_of (deriveGatewayConstraintEvaluation E i c g now gid s) d code mid)"
proof -
  have "id_ok (gl_greenlightId g)" using gate_reads_okD(2)[OF assms(2)] by (simp add: greenlight_valid_def)
  then show ?thesis
    using assms(3-) gate_reads_okD(1,3,4,5)[OF assms(2)] isolationSnapshotRef_nonempty
    by (simp add: gateway_check_attempt_valid_def gate_attempt_of_def deriveGatewayConstraintEvaluation_def Let_def
        contract_fields_ok_def base_valid_def observed_digest_def protectedActionParamsDigest_def digest_shape[OF assms(1)] Suc_le_eq)
qed

lemma receipt_ok:
  assumes "contract_fields_ok E c" "greenlight_valid E g" "iso_ok E now" "id_ok rid" "id_ok (gca_gateAttemptId gate)"
    "opt_ok id_ok (map_option ma_mutationAttemptId mut)"
  shows "receipt_valid E (receipt_of c g now rid gate mut cons [])"
  using assms
  by (simp add: receipt_valid_def receipt_of_def Let_def contract_fields_ok_def greenlight_valid_def base_valid_def)

lemma delivers_surface_ref:
  "platform_ok E \<Longrightarrow> delivers (surfaceOperationRefFor E r) (w :: world) (\<lambda>x w'. x \<noteq> [] \<and> w_store w' = w_store w)"
  unfolding surfaceOperationRefFor_def
  by (cases "truthy_ref r") (auto intro!: delivers_intros simp: truthy_ref_def id_ok_def split: option.splits)

text \<open>A new mutation attempt of an evaluation.\<close>

definition new_mutation :: "kernel_env \<Rightarrow> gateway_evaluation \<Rightarrow> mutation_attempt \<Rightarrow> bool" where
  "new_mutation E v m \<longleftrightarrow> id_ok (ma_mutationAttemptId m) \<and>
     (\<exists>u :: world. fst (createId E ''mut'' u) = Inr (ma_mutationAttemptId m)) \<and> ma_outcome m = MO_submitted \<and>
     in_organization m (ge_contract v)"

lemma delivers_mutation:
  assumes "platform_ok E" "contract_fields_ok E (ge_contract v)" "id_ok (gl_greenlightId (ge_greenlight v))"
    "iso_ok E (ge_now v)" "id_ok (ge_gateAttemptId v)"
  shows "delivers (buildMutationAttempt E v) (w :: world) (\<lambda>m w'. new_mutation E v m \<and> w_store w' = w_store w)"
  unfolding buildMutationAttempt_def Let_def
proof (intro delivers_bind delivers_createId[OF assms(1)])
  fix mid and u :: world
  assume mid: "id_ok mid" "fst (createId E ''mut'' w) = Inr mid" "w_store u = w_store w"
  let ?c = "ge_contract v"
  let ?m = "\<lambda>sop. \<lparr>schemaVersion = PROTOCOL_VERSION, tenantId = tenantId ?c, organizationId = organizationId ?c,
       createdAt = ge_now v, ma_mutationAttemptId = mid, ma_gateAttemptId = ge_gateAttemptId v,
       ma_actionContractId = ac_actionContractId ?c, ma_greenlightId = gl_greenlightId (ge_greenlight v),
       ma_gatewayId = ac_gatewayId ?c, ma_actionClass = ac_actionClass ?c, ma_resourceRef = ac_resourceRef ?c,
       ma_idempotencyKey = ac_idempotencyKey ?c, ma_outcome = mutationOutcomeFor,
       ma_outcomeReasonCode = ''pending'', ma_surfaceOperationRef = Some sop, ma_startedAt = ge_now v,
       ma_finishedAt = None\<rparr>"
  have "mutation_attempt_valid E (?m x)" if "x \<noteq> []" for x
    using that mid assms(2-5)
    by (simp add: mutation_attempt_valid_def base_valid_def contract_fields_ok_def reason_code_ok_def Suc_le_eq)
  moreover have "new_mutation E v (?m x)" for x
    using mid by (auto simp: new_mutation_def mutationOutcomeFor_def in_organization_def)
  ultimately show "delivers (surfaceOperationRefFor E (gwi_surfaceOperationRef (ge_input v))) u (\<lambda>x w'.
      delivers (tparse (mutation_attempt_valid E) (?m x)) w' (\<lambda>m w'. new_mutation E v m \<and> w_store w' = w_store w))"
    using mid(3) by (intro delivers_mono[OF delivers_surface_ref[OF assms(1)]] delivers_parse) auto
qed simp

lemma delivers_artifacts:
  assumes "platform_ok E" "gate_reads_ok E c g s" "iso_ok E now" "id_ok gid"
    and v: "v = deriveGatewayConstraintEvaluation E i c g now gid s" "ge_refusal v = None"
  shows "delivers (buildGateArtifacts E v) (w :: world) (\<lambda>(r, refusal) w'. refusal = None \<and> w_store w' = w_store w \<and>
     gwr_proofGap r = None \<and> receipt_valid E (gwr_receipt r) \<and>
     rc_mutationAttemptId (gwr_receipt r) = map_option ma_mutationAttemptId (gwr_mutationAttempt r) \<and> id_ok (gca_gateAttemptId (gwr_gateAttempt r)) \<and>
     in_organization (gwr_gateAttempt r) c \<and> in_organization (gwr_receipt r) c \<and>
     (\<exists>m. gwr_mutationAttempt r = Some m \<and> new_mutation E v m))"
proof -
  have c: "ge_contract v = c" "ge_greenlight v = g" "ge_now v = now" "ge_gateAttemptId v = gid" using v(1) by simp_all
  have ready: "contract_fields_ok E (ge_contract v)" "id_ok (gl_greenlightId (ge_greenlight v))" "iso_ok E (ge_now v)"
    "id_ok (ge_gateAttemptId v)"
    using gate_reads_okD(1,2)[OF assms(2)] assms(3,4) c by (simp_all add: greenlight_valid_def)
  have mut: "delivers (if ge_refusal v \<noteq> None then treturn None
      else tbind (buildMutationAttempt E v) (\<lambda>m. treturn (Some m))) u
      (\<lambda>x u'. \<exists>m. x = Some m \<and> new_mutation E v m \<and> w_store u' = w_store u)" for u :: world
    using v(2) by (auto intro!: delivers_via[OF delivers_mutation[OF assms(1) ready]] delivers_return)
  have gate: "gateway_check_attempt_valid E (gate_attempt_of v GD_passed ''gate_passed'' (Some (ma_mutationAttemptId m)))"
    if "new_mutation E v m" for m
    unfolding v(1) by (rule gate_attempt_ok[OF assms(1-4)])
      (use that in \<open>simp_all add: new_mutation_def reason_code_ok_def\<close>)
  have org: "in_organization (gate_attempt_of v d code mid) (ge_contract v)"
    "in_organization (receipt_of b g' now' rid gate mut cons gaps) b"
    for b g' now' d code mid rid gate mut cons gaps
    by (simp_all add: in_organization_def gate_attempt_of_def receipt_of_def Let_def)
  show ?thesis
    unfolding buildGateArtifacts_def Let_def
    apply (rule delivers_bind, rule delivers_createId[OF assms(1)], simp)
    apply (rule delivers_via[OF mut], elim exE conjE)
    apply (simp add: buildMutationProofGap_def v(2) new_mutation_def c consumption_of_def)
    apply (use gate_reads_okD(1,2)[OF assms(2)] assms(3,4) c in
        \<open>auto intro!: delivers_intros gate receipt_ok org simp: new_mutation_def\<close>)
    done
qed

lemma delivers_claim:
  assumes "platform_ok E" "contract_fields_ok E c" "id_ok (gl_greenlightId g)" "iso_ok E now" "id_ok gid" "id_ok (ma_mutationAttemptId m)"
  shows "delivers (buildActiveProtectedSurfaceOperationClaim E c g gid m now) (w :: world)
    (\<lambda>k w'. in_organization k c \<and> id_ok (oc_protectedSurfaceOperationClaimId k) \<and> oc_mutationAttemptId k = Some (ma_mutationAttemptId m) \<and>
       oc_claimKeyDigest k = protectedSurfaceOperationClaimKeyDigest E (protectedSurfaceOperationClaimKey c) \<and>
       w_store w' = w_store w)"
  unfolding buildActiveProtectedSurfaceOperationClaim_def
  using assms(2-) digest_shape[OF assms(1)]
  by (auto intro!: delivers_intros assms(1) simp: surface_operation_claim_valid_def with_claim_digest_def base_valid_def
      contract_fields_ok_def protectedSurfaceOperationClaimKeyDigest_def in_organization_def Suc_le_eq)

lemma delivers_ledger_update:
  assumes "platform_ok E" "idempotency_ledger_entry_valid E l" "iso_ok E now" "id_ok (gca_gateAttemptId gate)"
    "id_ok (ma_mutationAttemptId m)" "id_ok rid"
  shows "delivers (buildIdempotencyLedgerMutationStarted E l gate m rid now) (w :: world) (\<lambda>_ w'. w_store w' = w_store w)"
proof -
  have refs: "list_all (\<lambda>x. Suc 0 \<le> length x) (unique_list (il_evidenceRefs l @ [protocolObjectRef a x, protocolObjectRef b y, protocolObjectRef d z]))"
    for a b d x y z
    using assms(2) join_nonempty by (auto simp: idempotency_ledger_entry_valid_def list_all_iff Suc_le_eq)
  show ?thesis
    unfolding buildIdempotencyLedgerMutationStarted_def updateIdempotencyLedgerEntry_def buildIdempotencyLedgerEntry_def Let_def
    using assms(2-) refs digest_shape[OF assms(1)]
    by (auto intro!: delivers_intros assms(1) simp: idempotency_ledger_entry_valid_def base_valid_def or_else_def reason_code_ok_def)
qed

text \<open>A plan that a quiet store commits.\<close>

definition passing_plan :: "kernel_env \<Rightarrow> gateway_evaluation \<Rightarrow> gateway_plan \<Rightarrow> bool" where
  "passing_plan E v p \<longleftrightarrow> gwp_evaluation p = v \<and> gwp_refusal p = None \<and> gwp_context p = None \<and>
     receipt_valid E (gwr_receipt (gwp_result p)) \<and> gwr_proofGap (gwp_result p) = None \<and>
     rc_mutationAttemptId (gwr_receipt (gwp_result p)) = map_option ma_mutationAttemptId (gwr_mutationAttempt (gwp_result p)) \<and>
     (\<exists>m k. gwr_mutationAttempt (gwp_result p) = Some m \<and> new_mutation E v m \<and> gwp_claim p = Some k \<and>
        oc_claimKeyDigest k = protectedSurfaceOperationClaimKeyDigest E (protectedSurfaceOperationClaimKey (ge_contract v))) \<and>
     same_stream (organizationStreamId (protocol_base.truncate (ge_contract v))) (gwp_events p) \<and>
     list_all descriptor_ok (gwp_events p)"

lemma gate_event_ok:
  assumes "contract_fields_ok E c" "in_organization x c" "list_all (\<lambda>x. x \<noteq> []) ids"
  shows "descriptor_ok (gate_event x (actionLifecycleStreamRefs c) ty ids payload)"
  using assms
  by (auto simp: descriptor_ok_def gate_event_def in_organization_def contract_fields_ok_def base_valid_def
      protocol_base.truncate_def actionLifecycleStreamRefs_def id_ok_def)

lemma gate_events_ok:
  assumes "contract_fields_ok E c" "in_organization (gwr_gateAttempt r) c" "in_organization (gwr_receipt r) c"
    "id_ok (gca_gateAttemptId (gwr_gateAttempt r))" "id_ok (rc_receiptId (gwr_receipt r))" "gwr_proofGap r = None"
    "gwr_mutationAttempt r = Some m" "in_organization m c" "id_ok (ma_mutationAttemptId m)"
    "in_organization k c" "id_ok (oc_protectedSurfaceOperationClaimId k)" "oc_mutationAttemptId k = Some (ma_mutationAttemptId m)"
  shows "same_stream (organizationStreamId (protocol_base.truncate c)) (gateEventDescriptors r None (actionLifecycleStreamRefs c) (Some k))"
    "list_all descriptor_ok (gateEventDescriptors r None (actionLifecycleStreamRefs c) (Some k))"
proof -
  have ne: "gca_gateAttemptId (gwr_gateAttempt r) \<noteq> []" "rc_receiptId (gwr_receipt r) \<noteq> []" "ma_mutationAttemptId m \<noteq> []"
    "oc_protectedSurfaceOperationClaimId k \<noteq> []"
    using assms by (auto simp: id_ok_def)
  show "same_stream (organizationStreamId (protocol_base.truncate c)) (gateEventDescriptors r None (actionLifecycleStreamRefs c) (Some k))"
    using assms by (auto simp: same_stream_def gateEventDescriptors_def Let_def gate_event_def intro: same_organization_stream)
  show "list_all descriptor_ok (gateEventDescriptors r None (actionLifecycleStreamRefs c) (Some k))"
    using assms ne by (auto simp: gateEventDescriptors_def Let_def intro!: gate_event_ok)
qed

lemma delivers_plan:
  assumes "platform_ok E" "quiet E" "gate_reads_ok E c g s" "iso_ok E now" "id_ok gid"
    and v: "v = deriveGatewayConstraintEvaluation E i c g now gid s" "ge_refusal v = None"
  shows "delivers (buildGatewayCommitPlan E v) (w :: world) (\<lambda>p w'. passing_plan E v p \<and> w_store w' = w_store w)"
proof -
  have c: "ge_contract v = c" "ge_greenlight v = g" "ge_now v = now" "ge_gateAttemptId v = gid" using v(1) by simp_all
  have ctx: "transitionRequestContextRecordFor E t u = treturn None" for t u
    using assms(2) by (simp add: transitionRequestContextRecordFor_def quiet_def)
  have g: "id_ok (gl_greenlightId g)" using gate_reads_okD(2)[OF assms(3)] by (simp add: greenlight_valid_def)
  have ledger: "\<And>l. ge_ledgerEntry v = Some l \<Longrightarrow> idempotency_ledger_entry_valid E l"
    using gate_reads_okD(6)[OF assms(3)] v(1) by (simp add: deriveGatewayConstraintEvaluation_def Let_def)
  have claim: "delivers (deriveProtectedSurfaceOperationClaim E v r) u (\<lambda>x u'. \<exists>k. x = Some k \<and> in_organization k c \<and>
       id_ok (oc_protectedSurfaceOperationClaimId k) \<and> oc_mutationAttemptId k = Some (ma_mutationAttemptId m) \<and>
       oc_claimKeyDigest k = protectedSurfaceOperationClaimKeyDigest E (protectedSurfaceOperationClaimKey c) \<and>
       w_store u' = w_store u)"
    if "gwr_mutationAttempt r = Some m" "new_mutation E v m" for r m and u :: world
  proof -
    have "id_ok (ma_mutationAttemptId m)" using that(2) by (simp add: new_mutation_def)
    note built = delivers_claim[OF assms(1) gate_reads_okD(1)[OF assms(3)] g assms(4,5) this, of u]
    show ?thesis
      unfolding deriveProtectedSurfaceOperationClaim_def that(1) v(2) c option.case
      by (auto intro!: delivers_via[OF built] delivers_return)
  qed
  have update: "delivers (deriveIdempotencyLedgerUpdate E v r) u (\<lambda>_ u'. w_store u' = w_store u)"
    if "gwr_mutationAttempt r = Some m" "new_mutation E v m" "id_ok (gca_gateAttemptId (gwr_gateAttempt r))"
      "id_ok (rc_receiptId (gwr_receipt r))" for r m and u :: world
  proof (cases "ge_ledgerEntry v")
    case None
    then show ?thesis using that(1) by (simp add: deriveIdempotencyLedgerUpdate_def delivers_return)
  next
    case (Some l)
    have "id_ok (ma_mutationAttemptId m)" using that(2) by (simp add: new_mutation_def)
    note built = delivers_ledger_update[OF assms(1) ledger[OF Some] assms(4) that(3) this that(4), of u]
    show ?thesis
      unfolding deriveIdempotencyLedgerUpdate_def that(1) v(2) c Some option.case prod.case
      by (auto intro!: delivers_via[OF built] delivers_return)
  qed
  show ?thesis
    unfolding buildGatewayCommitPlan_def ctx
  proof (rule delivers_via[OF delivers_artifacts[OF assms(1,3,4,5) v]], clarify)
    fix r :: gateway_check_result and u :: world and m
    assume r: "w_store u = w_store w" "gwr_proofGap r = None" "receipt_valid E (gwr_receipt r)"
      and rm: "rc_mutationAttemptId (gwr_receipt r) = map_option ma_mutationAttemptId (gwr_mutationAttempt r)"
      and r': "id_ok (gca_gateAttemptId (gwr_gateAttempt r))" "in_organization (gwr_gateAttempt r) c" "in_organization (gwr_receipt r) c"
      and m: "gwr_mutationAttempt r = Some m" "new_mutation E v m"
    have rid: "id_ok (rc_receiptId (gwr_receipt r))" using r(3) by (simp add: receipt_valid_def)
    have mid: "in_organization m c" "id_ok (ma_mutationAttemptId m)" using m(2) c by (simp_all add: new_mutation_def)
    show "delivers (tbind (deriveProtectedSurfaceOperationClaim E v r) (\<lambda>claim.
        tbind (deriveIdempotencyLedgerUpdate E v r) (\<lambda>ledger. tbind (treturn None) (\<lambda>ctx.
        treturn \<lparr>gwp_evaluation = v, gwp_result = r, gwp_refusal = None, gwp_claim = claim, gwp_ledgerUpdate = ledger,
          gwp_context = ctx, gwp_events = withTransitionRequestContextEventDescriptors
            (gateEventDescriptors r None (actionLifecycleStreamRefs (ge_contract v)) claim) ctx\<rparr>)))) u
        (\<lambda>p w'. passing_plan E v p \<and> w_store w' = w_store w)"
      using r(1-3) m(1,2) c rm gate_events_ok[OF gate_reads_okD(1)[OF assms(3)] r'(2,3,1) rid r(2) m(1) mid]
      by - (rule delivers_via[OF claim[OF m]], elim exE conjE, rule delivers_via[OF update[OF m r'(1) rid]],
        auto intro!: delivers_intros simp: passing_plan_def withTransitionRequestContextEventDescriptors_def)
  qed
qed

text \<open>The commit.\<close>

lemma delivers_commit:
  assumes "platform_ok E" "quiet E" "streams_ok E (s_events (w_store w))" "passing_plan E v p" "ge_refusal v = None"
    "greenlight_valid E (ge_greenlight v)" "iso_ok E (ge_now v)" "id_ok (ge_gateAttemptId v)"
    "gate_free E (ge_contract v) (ge_greenlight v) (w_store w)"
  shows "delivers (gateway_attempts E p (Suc n)) w (\<lambda>r w'. gwr_mutationAttempt r \<noteq> None)"
proof -
  obtain m k where p: "gwp_evaluation p = v" "gwp_refusal p = None" "gwp_context p = None" "receipt_valid E (gwr_receipt (gwp_result p))"
    "gwr_proofGap (gwp_result p) = None" and rm: "rc_mutationAttemptId (gwr_receipt (gwp_result p)) = Some (ma_mutationAttemptId m)"
    and p': "gwr_mutationAttempt (gwp_result p) = Some m" "new_mutation E v m" "gwp_claim p = Some k"
    "oc_claimKeyDigest k = protectedSurfaceOperationClaimKeyDigest E (protectedSurfaceOperationClaimKey (ge_contract v))"
    "same_stream (organizationStreamId (protocol_base.truncate (ge_contract v))) (gwp_events p)" "list_all descriptor_ok (gwp_events p)"
    using assms(4) unfolding passing_plan_def by force
  have final: "delivers (withReceiptStreamReferences E (gwp_result p) es) u (\<lambda>r u'. gwr_mutationAttempt r = Some m \<and>
      gwr_proofGap r = None \<and> rc_mutationAttemptId (gwr_receipt r) = Some (ma_mutationAttemptId m) \<and> u' = u)"
    if "\<forall>e \<in> set es. stream_event_valid E e" for es and u :: world
    using p(4,5) p'(1) rm receipt_references_ok[OF that] that digest_shape[OF assms(1)]
    unfolding withReceiptStreamReferences_def Let_def
    by (auto intro!: delivers_intros simp: receipt_valid_def base_valid_def list_all_iff stream_event_valid_def)
  have records: "delivers (gateProtocolRecords E v r None) u (\<lambda>_ u'. u' = u)" for r and u :: world
    using assms(5-8) unfolding gateProtocolRecords_def
    by (auto intro!: delivers_intros simp: greenlight_valid_def base_valid_def)
  have chain: "delivers (buildEventChain E (w_store w) (gwp_events p)) w (\<lambda>es u. fresh_chain E (w_store w) es \<and> w_store u = w_store w)"
    by (rule delivers_chain[OF assms(1) p'(5,6) assms(3)]) simp
  have committed: "fst (commitGatewayCheck (gateway_commit_of E p r rs es) (w_store w)) = GR_committed"
    if "fresh_chain E (w_store w) es" "rc_mutationAttemptId (gwr_receipt r) = Some (ma_mutationAttemptId m)" for r rs es
  proof -
    have parts: "gk_operationClaims (gateway_commit_of E p r rs es) = [operationClaimIndexEntry k (ge_now v)]"
      "gk_consumption (gateway_commit_of E p r rs es) = buildGreenlightConsumption v"
      "gk_events (gateway_commit_of E p r rs es) = es"
      "gk_receiptEntries (gateway_commit_of E p r rs es) = receiptMutationAttemptIndexEntriesFor r"
      using p(1) p'(3) by (simp_all add: gateway_commit_of_def)
    have "map_of (s_receipts (w_store w)) (ma_mutationAttemptId m) = None"
      using assms(9) p'(2) by (auto simp: gate_free_def new_mutation_def)
    then show ?thesis
      using assms(5,9) p'(4) that
      by (simp add: commitGatewayCheck_def parts buildGreenlightConsumption_def has_key_def gate_free_def
          receiptMutationAttemptIndexEntriesFor_def Let_def operationClaimIndexEntry_def fresh_chain_def)
  qed
  show ?thesis
    unfolding gateway_attempts.simps
  proof (intro delivers_bind delivers_get)
    show "delivers (buildGatewayCheckCommit E p (w_store w)) w (\<lambda>cf w'. delivers (tbind (interfere E)
       (\<lambda>_. tbind (store_op (commitGatewayCheck (fst cf))) (\<lambda>res. case res of
          GR_committed \<Rightarrow> treturn (snd cf) | GR_already_consumed \<Rightarrow> replay_refusal E p None
        | GR_operation_claim_conflict \<Rightarrow> replay_refusal E p (Some (''protected_surface_operation_in_progress'', CONS_not_consumed))
        | GR_receipt_index_conflict \<Rightarrow> replay_refusal E p (Some (''receipt_index_conflict'', CONS_not_consumed))
        | GR_stream_conflict \<Rightarrow> gateway_attempts E p n))) w' (\<lambda>r w'. gwr_mutationAttempt r \<noteq> None))"
      unfolding buildGatewayCheckCommit_def p(1,2)
    proof (rule delivers_via[OF chain], elim conjE, rule delivers_via[OF final], simp add: fresh_chain_def,
        elim conjE, rule delivers_via[OF records], intro delivers_return delivers_bind delivers_interfere[OF assms(2)])
      fix es rs and r :: gateway_check_result and u u1 u2 u3 :: world
      assume es: "fresh_chain E (w_store w) es" "w_store u = w_store w"
        and r: "gwr_mutationAttempt r = Some m" "rc_mutationAttemptId (gwr_receipt r) = Some (ma_mutationAttemptId m)" "u1 = u" "u2 = u1"
        and st: "w_store u3 = w_store u2"
      have "w_store u3 = w_store w" using es r st by simp
      then show "delivers (store_op (commitGatewayCheck (fst (gateway_commit_of E p r rs es, r)))) u3 (\<lambda>res w'. delivers (case res of
          GR_committed \<Rightarrow> treturn (snd (gateway_commit_of E p r rs es, r)) | GR_already_consumed \<Rightarrow> replay_refusal E p None
        | GR_operation_claim_conflict \<Rightarrow> replay_refusal E p (Some (''protected_surface_operation_in_progress'', CONS_not_consumed))
        | GR_receipt_index_conflict \<Rightarrow> replay_refusal E p (Some (''receipt_index_conflict'', CONS_not_consumed))
        | GR_stream_conflict \<Rightarrow> gateway_attempts E p n) w' (\<lambda>r w'. gwr_mutationAttempt r \<noteq> None))"
        using committed[OF es(1) r(2)] r(1) by (simp add: delivers_def)
    qed
  qed
qed

text \<open>The whole check.\<close>

lemma gatewayCheck_delivers:
  assumes "platform_ok E" "quiet E" "gateway_check_input_valid i" "streams_ok E (s_events (w_store w))"
    and rec: "find_payload as_action_contract OT_action_contract (gwi_actionContractId i) (w_store w) = Some c"
      "find_payload as_greenlight OT_greenlight (gwi_greenlightId i) (w_store w) = Some g"
      "find_payload as_policy_decision OT_policy_decision (gl_policyDecisionId g) (w_store w) = Some d"
      "guardGatewayCheckAuthority g d = guard_ok"
    and ok: "gate_reads_ok E c g (w_store w)" "gate_free E c g (w_store w)"
      "fst (nowIso E w) = Inr now" "gate_constraints E i c g now (w_store w)"
  shows "\<exists>r w'. gatewayCheck E i w = (Inr r, w') \<and> gca_gateDecision (gwr_gateAttempt r) = GD_passed"
proof -
  let ?v = "\<lambda>gid. deriveGatewayConstraintEvaluation E i c g now gid (w_store w)"
  have passing: "ge_refusal (?v gid) = None" for gid using ok(4) by (simp add: derive_refusal_None)
  have now: "iso_ok E now" using assms(1) ok(3) by (auto simp: platform_ok_def dest!: spec[of _ w])
  have reads: "delivers (requiredPayload f t x code) w Q" if "find_payload f t x (w_store w) = Some y" "Q y w" for f t x y code Q
    using that by (auto simp: delivers_def requiredPayload_Inr)
  have guard: "require_guard (guardGatewayCheckAuthority g d) = treturn ()"
    using rec(4) by (simp add: require_guard_def guard_ok_def)
  obtain w1 where w1: "nowIso E w = (Inr now, w1)" "w_store w1 = w_store w"
    using ok(3) nowIso_store by (cases "nowIso E w") auto
  have clock: "Q now w1 \<Longrightarrow> delivers (nowIso E) w Q" for Q
    using w1(1) by (rule delivers_run)
  have commit: "delivers (buildGatewayCommitPlan E (?v gid)) u (\<lambda>p w.
      delivers (gateway_attempts E p (Suc MAX_STREAM_COMMIT_RETRIES)) w (\<lambda>r _. gwr_mutationAttempt r \<noteq> None))"
    if "id_ok gid" "w_store u = w_store w1" for gid and u :: world
  proof (rule delivers_mono[OF delivers_plan[OF assms(1,2) ok(1) now that(1) refl passing]], elim conjE)
    fix p and w2 :: world
    assume p: "passing_plan E (?v gid) p" and st: "w_store w2 = w_store u"
    show "delivers (gateway_attempts E p (Suc MAX_STREAM_COMMIT_RETRIES)) w2 (\<lambda>r _. gwr_mutationAttempt r \<noteq> None)"
      by (rule delivers_commit[OF assms(1,2) _ p passing])
        (use st that w1(2) assms(4) ok(2) now gate_reads_okD(2)[OF ok(1)] in simp_all)
  qed
  have "delivers (gatewayCheck E i) w (\<lambda>r _. gwr_mutationAttempt r \<noteq> None)"
    unfolding gatewayCheck_def commitGatewayCheckPlan_def
    apply (intro delivers_bind delivers_parse assms(3) reads[OF rec(1)] reads[OF rec(2)] reads[OF rec(3)])
    apply (unfold guard, intro delivers_return delivers_bind clock delivers_get delivers_createId[OF assms(1)])
     apply simp
    apply (simp only: w1(2) commit)
    done
  then obtain r w' where r: "gatewayCheck E i w = (Inr r, w')" "gwr_mutationAttempt r \<noteq> None"
    by (auto simp: delivers_def)
  then have "gca_gateDecision (gwr_gateAttempt r) = GD_passed"
    using gatewayCheck_result[OF quiet_disciplined[OF assms(2)] r(1)] by (simp add: result_agrees_def Let_def)
  then show ?thesis using r(1) by blast
qed

end
