(* ===== verification/Policy_Progress.thy ===== *)
theory Policy_Progress
  imports Policy_Laws Delivery
begin

text \<open>
  Policy can say yes: a request whose constraints hold and whose contract has no
  greenlight yet is answered with one when no other request runs.
\<close>

text \<open>The fields that the decision, the greenlight and the reservation copy.\<close>

definition policy_reads_ok :: "kernel_env \<Rightarrow> action_contract \<Rightarrow> operating_envelope \<Rightarrow> pstore \<Rightarrow> bool" where
  "policy_reads_ok E c v s \<longleftrightarrow> base_valid E c \<and> length (tenantId c) + length (organizationId c) \<le> 152 \<and>
     list_all id_ok [ac_actionContractId c, ac_gatewayRegistryEntryId c, ac_gatewayId c, ac_idempotencyKey c] \<and>
     list_all digest_ok [ac_gatewayRegistryDigest c, ac_paramsDigest c, ac_actionContractDigest c] \<and>
     list_all (\<lambda>x. 1 \<le> length x) [ac_gatewayRegistryVersion c, ac_gatewayPolicyVersion c, ac_actionClass c, ac_protectedSurfaceKind c] \<and>
     resource_ref_ok (ac_resourceRef c) \<and> iso_ok E (ac_expiresAt c) \<and>
     list_all (\<lambda>b. id_ok (gcb_gatewayCredentialRefId b) \<and> digest_ok (gcb_gatewayCredentialRefDigest b)) (ac_gatewayCredentialRefs c) \<and>
     list_all (\<lambda>b. id_ok (dab_delegatedAuthorityRefId b) \<and> digest_ok (dab_delegatedAuthorityRefDigest b)) (ac_delegatedAuthorityRefs c) \<and>
     operating_envelope_valid E v \<and>
     (\<forall>p. loadCurrentPostureForContract c s = Some p \<longrightarrow> protected_path_posture_valid E p)"

lemma protocolObjectRef_nonempty: "protocolObjectRef t x \<noteq> []"
  by (simp add: protocolObjectRef_def)

lemma snapshot_nonempty: "isolationSnapshotRef is \<noteq> []"
  by (simp add: isolationSnapshotRef_def)

lemma parameters_ok:
  "opt_ok (\<lambda>x. 1 \<le> length x) (stringParameter ps f)" "opt_ok digest_ok (digestParameter ps f)"
  by (auto simp: stringParameter_def digestParameter_def Suc_le_eq split: option.splits jval.splits)

text \<open>The ledger key that authority is reserved under is well formed.\<close>

lemma authority_ledger_ok:
  assumes "platform_ok E" "id_ok (ac_idempotencyKey c)" "effectiveAuthorityLedger E c a = (key, kd, refs)"
  shows "id_ok (lk_idempotencyKey key)" "digest_ok kd" "list_all (\<lambda>x. x \<noteq> []) refs"
  using assms protocolObjectRef_nonempty digest_shape[OF assms(1)]
  by (auto simp: effectiveAuthorityLedger_def Let_def idempotencyLedgerKeyDigest_def idempotencyLedgerKey_def id_ok_def
      digest_ok_def split: if_splits)

lemma derive_ledger:
  assumes "platform_ok E" "id_ok (ac_idempotencyKey c)"
  shows "id_ok (lk_idempotencyKey (px_ledgerKey (derivePolicyConstraintEvaluation E i c v now s)))"
    "digest_ok (px_ledgerKeyDigest (derivePolicyConstraintEvaluation E i c v now s))"
    "list_all (\<lambda>x. x \<noteq> []) (px_ledgerEvidenceRefs (derivePolicyConstraintEvaluation E i c v now s))"
  using authority_ledger_ok[OF assms, of "evaluateAgreementObligationPolicy c now s"]
  by (auto simp: derivePolicyConstraintEvaluation_def Let_def split: prod.splits)

lemma derive_rest [simp]:
  "px_posture (derivePolicyConstraintEvaluation E i c v now s) = loadCurrentPostureForContract c s"
  "px_isolationSnapshot (derivePolicyConstraintEvaluation E i c v now s) =
     isolationSnapshotRef (px_isolationStates (derivePolicyConstraintEvaluation E i c v now s))"
  by (simp_all add: derivePolicyConstraintEvaluation_def Let_def split: prod.split)

lemma derive_digest:
  "platform_ok E \<Longrightarrow> digest_ok (px_policyInputDigest (derivePolicyConstraintEvaluation E i c v now s))"
  using digest_shape by (simp add: derivePolicyConstraintEvaluation_def Let_def split: prod.split)

lemma deterministic_greenlight_value:
  assumes "pr_decision (evaluateDeterministicPolicy c v isolation now) = PD_greenlight"
  shows "evaluateDeterministicPolicy c v isolation now = policy_result_of PD_greenlight ''policy_passed''
     ''Exact contract is inside envelope and no isolation blocks it.'' [''envelope_bounds'', ''isolation_clear'']"
proof (cases "find blocks_policy isolation")
  case None
  then show ?thesis
    using assms unfolding evaluateDeterministicPolicy_def None option.case by (simp only: policy_result_of_decision split: if_splits) simp_all
next
  case (Some i)
  then show ?thesis using assms by (simp add: evaluateDeterministicPolicy_def split: if_splits)
qed

lemma base_greenlight_value:
  assumes "pr_decision (base_decision k) = PD_greenlight"
  shows "base_decision k = policy_result_of PD_greenlight ''policy_passed''
     ''Exact contract is inside envelope and no isolation blocks it.'' [''envelope_bounds'', ''isolation_clear'']"
proof -
  have "pr_decision (evaluateDeterministicPolicy (px_contract k) (px_envelope k) (px_isolationStates k) (px_now k)) = PD_greenlight"
    "evaluateSequenceDependencies (px_sequence k) = None"
    using assms evaluateDeterministicPolicy_greenlight by (simp_all add: base_decision_greenlight)
  then show ?thesis using deterministic_greenlight_value by (simp add: base_decision_def Let_def)
qed

lemma delivers_decision:
  assumes "platform_ok E" "policy_reads_ok E c v s" "iso_ok E now" "evaluate_policy_input_valid i"
    and k: "k = derivePolicyConstraintEvaluation E i c v now s" "pr_decision (base_decision k) = PD_greenlight"
  shows "delivers (buildPolicyDecision E k (base_decision k)) (w :: world) (\<lambda>d w'. policy_decision_valid E d \<and>
     pd_decision d = PD_greenlight \<and> in_organization d c \<and> w_store w' = w_store w)"
proof -
  have fields: "px_contract k = c" "px_envelope k = v" "px_now k = now" "px_input k = i" using k(1) by simp_all
  have "digest_ok (px_policyInputDigest k)" using derive_digest[OF assms(1)] k(1) by simp
  moreover have "px_isolationSnapshot k \<noteq> []" using k(1) snapshot_nonempty by simp
  moreover have "reason_code_ok (pr_reasonCode (base_decision k))" "1 \<le> length (pr_reason (base_decision k))"
    "length (pr_reason (base_decision k)) \<le> 1000"
    by (simp_all add: base_greenlight_value[OF k(2)] policy_result_of_def reason_code_ok_def)
  ultimately have "policy_decision_valid E (policy_decision_of E k (base_decision k) did)" if "id_ok did" for did
    using that assms(2-4) hmac_shape[OF assms(1)]
    by (cases "ep_signingSecret i")
      (auto simp: policy_decision_valid_def policy_decision_of_def Let_def fields policy_reads_ok_def base_valid_def
        operating_envelope_valid_def evaluate_policy_input_valid_def Suc_le_eq)
  moreover have "in_organization (policy_decision_of E k (base_decision k) did) c"
    "pd_decision (policy_decision_of E k (base_decision k) did) = PD_greenlight" for did
    using k(2) by (simp_all add: in_organization_def policy_decision_of_def Let_def fields)
  ultimately show ?thesis
    unfolding buildPolicyDecision_def by (auto intro!: delivers_intros assms(1))
qed

lemma delivers_greenlight:
  assumes "platform_ok E" "policy_reads_ok E c v s" "iso_ok E now"
    and k: "k = derivePolicyConstraintEvaluation E i c v now s"
    and d: "policy_decision_valid E d"
  shows "delivers (buildGreenlight E k d) (w :: world) (\<lambda>g w'. greenlight_valid E g \<and> in_organization g c \<and>
     gl_actionContractId g = ac_actionContractId c \<and> w_store w' = w_store w)"
proof -
  have fields: "px_contract k = c" "px_now k = now" "px_posture k = loadCurrentPostureForContract c s" using k by simp_all
  have c: "base_valid E c" "id_ok (ac_idempotencyKey c)" using assms(2) by (simp_all add: policy_reads_ok_def)
  have key: "digest_ok (px_ledgerKeyDigest k)" using derive_ledger(2)[OF assms(1) c(2)] k by simp
  have posture: "opt_ok id_ok (map_option pp_protectedPathPostureId (loadCurrentPostureForContract c s))"
    "opt_ok digest_ok (map_option pp_postureDigest (loadCurrentPostureForContract c s))"
    using assms(2) by (cases "loadCurrentPostureForContract c s"; simp add: policy_reads_ok_def protected_path_posture_valid_def)+
  show ?thesis
    unfolding buildGreenlight_def Let_def fields
    using assms(2,3) key posture parameters_ok d
    by (auto intro!: delivers_intros assms(1) simp: greenlight_valid_def policy_decision_valid_def policy_reads_ok_def base_valid_def
        in_organization_def list.pred_map comp_def list_all_iff)
qed


lemma delivers_reservation:
  assumes "platform_ok E" "policy_reads_ok E c v s" "iso_ok E now" "policy_decision_valid E d" "greenlight_valid E g"
    and k: "k = derivePolicyConstraintEvaluation E i c v now s"
  shows "delivers (buildIdempotencyLedgerReservation E c d g now (px_ledgerKeyDigest k) (lk_idempotencyKey (px_ledgerKey k))
     (px_ledgerEvidenceRefs k)) (w :: world) (\<lambda>l w'. idempotency_ledger_entry_valid E l \<and> in_organization l c \<and>
     il_ledgerKeyDigest l = px_ledgerKeyDigest k \<and> w_store w' = w_store w)"
proof -
  have c: "base_valid E c" "id_ok (ac_idempotencyKey c)" using assms(2) by (simp_all add: policy_reads_ok_def)
  note key = derive_ledger[OF assms(1) c(2), of i v now s, folded k]
  have refs: "list_all (\<lambda>x. 1 \<le> length x) (px_ledgerEvidenceRefs k)"
    using key(3) by (auto simp: list_all_iff Suc_le_eq)
  have ids: "1 \<le> length (protocolObjectRef t x)" for t x
    using protocolObjectRef_nonempty[of t x] by (simp add: Suc_le_eq)
  have d: "id_ok (pd_policyDecisionId d)" "id_ok (gl_greenlightId g)"
    using assms(4,5) by (simp_all add: policy_decision_valid_def greenlight_valid_def)
  show ?thesis
    unfolding buildIdempotencyLedgerReservation_def buildIdempotencyLedgerEntry_def Let_def
    using assms(2,3) key(1,2) refs ids d digest_shape[OF assms(1)]
    by (auto intro!: delivers_intros assms(1) simp: idempotency_ledger_entry_valid_def policy_reads_ok_def base_valid_def
        in_organization_def reason_code_ok_def)
qed

text \<open>The commit of a greenlight that nobody opposes.\<close>

definition issuance_free :: "kernel_env \<Rightarrow> action_contract \<Rightarrow> string \<Rightarrow> pstore \<Rightarrow> bool" where
  "issuance_free E c now s \<longleftrightarrow> map_of (s_issuance s) (ac_actionContractId c) = None \<and>
     map_of (s_ledger s) (fst (snd (effectiveAuthorityLedger E c (evaluateAgreementObligationPolicy c now s)))) = None"

lemma greenlight_event_ok:
  assumes "base_valid E c" "length (tenantId c) + length (organizationId c) \<le> 152"
    "in_organization x c" "list_all (\<lambda>x. x \<noteq> []) ids"
  shows "descriptor_ok \<lparr>ed_source = protocol_base.truncate x, ed_eventType = ty, ed_objectRefs = ids, ed_payload = p, ed_streamRefs = r\<rparr>"
  using assms by (simp add: descriptor_ok_def in_organization_def base_valid_def protocol_base.truncate_def)

lemma greenlight_descriptors_ok:
  assumes "policy_reads_ok E c v s" "in_organization d c" "in_organization g c" "in_organization l c"
    "policy_decision_valid E d" "greenlight_valid E g" "idempotency_ledger_entry_valid E l"
  shows "list_all descriptor_ok (greenlight_events c d g (Some l))"
proof -
  have "base_valid E c" "length (tenantId c) + length (organizationId c) \<le> 152" "ac_actionContractId c \<noteq> []"
    using assms(1) by (auto simp: policy_reads_ok_def id_ok_def)
  moreover have "pd_policyDecisionId d \<noteq> []" "gl_greenlightId g \<noteq> []" "gl_actionContractId g \<noteq> []"
    "il_idempotencyLedgerEntryId l \<noteq> []" "il_ledgerKeyDigest l \<noteq> []"
    using assms(5-7)
    by (auto simp: policy_decision_valid_def greenlight_valid_def idempotency_ledger_entry_valid_def id_ok_def digest_ok_def)
  ultimately show ?thesis
    using assms(2-4) by (auto simp: greenlight_events_def decision_event_def intro!: greenlight_event_ok)
qed

lemma delivers_commit_greenlight:
  assumes "platform_ok E" "quiet E" "streams_ok E (s_events (w_store w))" "policy_reads_ok E c v s"
    and d: "in_organization d c" "in_organization g c" "in_organization l c"
      "policy_decision_valid E d" "greenlight_valid E g" "idempotency_ledger_entry_valid E l"
    and free: "map_of (s_issuance (w_store w)) (ac_actionContractId c) = None"
      "map_of (s_ledger (w_store w)) (il_ledgerKeyDigest l) = None"
  shows "delivers (commitPolicyEvaluation E c d (Some g) (Some l) now) w (\<lambda>res _. res = PC_committed None None)"
proof -
  have stream: "same_stream (organizationStreamId (protocol_base.truncate c)) (greenlight_events c d g (Some l))"
    using greenlight_stream[OF d(1,2), of "Some l"] d(3) by simp
  have unopposed: "unopposed (greenlight_options c d g (Some l) now) (w_store w)"
    using free by (simp add: unopposed_def greenlight_options_def no_options_def has_key_def idempotencyLedgerIndexEntry_def)
  show ?thesis
    unfolding commitPolicyEvaluation_def option.case commitGreenlightPolicyDecision_def
    by (rule delivers_via[OF delivers_tryCommit[OF assms(1-3) stream greenlight_descriptors_ok[OF assms(4) d] unopposed]])
      (auto simp: delivers_def)
qed

text \<open>Deciding and committing: the answer carries the greenlight.\<close>

lemma resolve_fine:
  assumes "sound_constraints k" "constraints_fine k" "pr_decision (base_decision k) = PD_greenlight"
  shows "resolvePolicyDecisionValue k = treturn (base_decision k)"
  using overlays.keeps_fine[OF assms(2)] assms(3) by (simp add: resolvePolicyDecisionValue_def Let_def)

lemma decide_delivers:
  assumes "platform_ok E" "quiet E" "streams_ok E (s_events (w_store w))" "policy_reads_ok E c v s" "iso_ok E now"
    "evaluate_policy_input_valid i"
    and k: "k = derivePolicyConstraintEvaluation E i c v now s" "pr_decision (base_decision k) = PD_greenlight" "constraints_fine k"
    and free: "w_store w = s" "issuance_free E c now s"
  shows "delivers (decide_and_commit E k) w (\<lambda>resp _. pe_greenlight resp \<noteq> None)"
proof -
  have sound: "sound_constraints k" using k(1) derive_sound by simp
  have c: "px_contract k = c" "px_now k = now" using k(1) by simp_all
  have key: "px_ledgerKeyDigest k = fst (snd (effectiveAuthorityLedger E c (evaluateAgreementObligationPolicy c now s)))"
    using k(1) by simp
  show ?thesis
    unfolding decide_and_commit_def resolve_fine[OF sound k(3,2)] tbind_return
  proof (rule delivers_via[OF delivers_decision[OF assms(1,4,5,6) k(1,2)]], elim conjE)
    fix d :: policy_decision and u :: world
    assume d: "policy_decision_valid E d" "pd_decision d = PD_greenlight" "in_organization d c" "w_store u = w_store w"
    have built: "delivers (build_authority E k d) u (\<lambda>gl u'. \<exists>g l. gl = (Some g, Some l) \<and> greenlight_valid E g \<and>
       in_organization g c \<and> idempotency_ledger_entry_valid E l \<and> in_organization l c \<and>
       il_ledgerKeyDigest l = px_ledgerKeyDigest k \<and> w_store u' = w_store u)"
      using d(2) unfolding build_authority_def c
      by simp (rule delivers_via[OF delivers_greenlight[OF assms(1,4,5) k(1) d(1)]], elim conjE,
          rule delivers_via[OF delivers_reservation[OF assms(1,4,5) d(1) _ k(1)]], auto intro!: delivers_return)
    show "delivers (tbind (build_authority E k d) (\<lambda>gl. commit_or_refuse E k d (fst gl) (snd gl))) u
        (\<lambda>resp _. pe_greenlight resp \<noteq> None)"
    proof (rule delivers_via[OF built], elim exE conjE)
      fix gl and g :: greenlight and l :: idempotency_ledger_entry and u' :: world
      assume gl: "gl = (Some g, Some l)" and ok: "greenlight_valid E g" "in_organization g c"
        "idempotency_ledger_entry_valid E l" "in_organization l c" "il_ledgerKeyDigest l = px_ledgerKeyDigest k" "w_store u' = w_store u"
      have st: "w_store u' = s" using ok(6) d(4) free(1) by simp
      have commit: "delivers (commitPolicyEvaluation E c d (Some g) (Some l) now) u' (\<lambda>res _. res = PC_committed None None)"
        by (rule delivers_commit_greenlight[OF assms(1,2) _ assms(4) d(3) ok(2,4) d(1) ok(1,3)])
          (use assms(3) free ok(5) st key in \<open>simp_all add: issuance_free_def\<close>)
      show "delivers (commit_or_refuse E k d (fst gl) (snd gl)) u' (\<lambda>resp _. pe_greenlight resp \<noteq> None)"
        unfolding commit_or_refuse_def gl fst_conv snd_conv c
        by (rule delivers_via[OF commit]) (auto simp: delivers_def)
    qed
  qed
qed

lemma evaluatePolicy_delivers:
  assumes "platform_ok E" "quiet E" "evaluate_policy_input_valid i" "streams_ok E (s_events (w_store w))"
    and rec: "find_payload as_action_contract OT_action_contract (ep_actionContractId i) (w_store w) = Some c"
      "find_payload as_operating_envelope OT_operating_envelope (ep_envelopeId i) (w_store w) = Some v"
      "guardPolicyEvaluation c v = guard_ok"
    and ok: "policy_reads_ok E c v (w_store w)" "fst (nowIso E w) = Inr now" "issuance_free E c now (w_store w)"
      "authority_constraints E c now (w_store w)" "policy_constraints_met c v now (w_store w)"
  shows "\<exists>resp w'. evaluatePolicy E i w = (Inr resp, w') \<and> pe_greenlight resp \<noteq> None"
proof -
  let ?k = "derivePolicyConstraintEvaluation E i c v now (w_store w)"
  have now: "iso_ok E now" using assms(1) ok(2) by (auto simp: platform_ok_def dest!: spec[of _ w])
  have reads: "delivers (requiredPayload f t x code) w Q" if "find_payload f t x (w_store w) = Some y" "Q y w" for f t x y code Q
    using that by (auto simp: delivers_def requiredPayload_Inr)
  have guard: "require_guard (guardPolicyEvaluation c v) = treturn ()"
    using rec(3) by (simp add: require_guard_def guard_ok_def)
  obtain w1 where w1: "nowIso E w = (Inr now, w1)" "w_store w1 = w_store w"
    using ok(2) nowIso_store by (cases "nowIso E w") auto
  have clock: "Q now w1 \<Longrightarrow> delivers (nowIso E) w Q" for Q
    using w1(1) by (rule delivers_run)
  have decide: "delivers (decide_and_commit E ?k) w1 (\<lambda>resp _. pe_greenlight resp \<noteq> None)"
    by (rule decide_delivers[OF assms(1,2) _ ok(1) now assms(3) refl])
      (use w1(2) assms(4) ok in \<open>simp_all add: derive_base_greenlight derive_fine\<close>)
  have "delivers (evaluatePolicy E i) w (\<lambda>resp _. pe_greenlight resp \<noteq> None)"
    unfolding evaluatePolicy_def
    apply (intro delivers_bind delivers_parse assms(3) reads[OF rec(1)] reads[OF rec(2)] clock)
    apply (unfold guard, intro delivers_bind delivers_return delivers_get)
    apply (simp only: w1(2) decide)
    done
  then show ?thesis by (auto simp: delivers_def)
qed

end
