(* ===== verification/Scenario.thy ===== *)
theory Scenario
  imports Gateway_Progress Policy_Progress
begin

text \<open>
  One concrete run: a platform, a contract with its envelope and gateway, and the
  greenlight that was issued for it.  The properties are instantiated here.
\<close>

definition demo_now :: string where "demo_now = ''2026-01-01T00:00:00Z''"
definition demo_end :: string where "demo_end = ''2026-12-31T00:00:00Z''"
definition demo_digest :: string where "demo_digest = ''sha256:'' @ replicate 64 (CHR ''0'')"

definition demo_env :: kernel_env where
  "demo_env = \<lparr>env_sha256 = (\<lambda>_. replicate 32 0), env_hmac = (\<lambda>_ _. replicate 32 0), env_iso_ok = (\<lambda>s. date_parse s \<noteq> None),
     env_id_source = None, env_uuid = (\<lambda>n. replicate (Suc (n mod 100)) (CHR ''1'')), env_now_source = None,
     env_clock = (\<lambda>_. demo_now), ke_interfere = (\<lambda>_ s. s), ke_context = None\<rparr>"

definition demo_contract :: action_contract where
  "demo_contract =
  \<lparr>schemaVersion = PROTOCOL_VERSION, tenantId = ''tenant'', organizationId = ''acme'', createdAt =
    demo_now, ac_actionContractId = ''act_1'', ac_intentCompilationId = ''abc'', ac_candidateActionId = ''abc'',
    ac_candidateDigest = ''abc'', ac_envelopeId = ''env_1'', ac_operatingEnvelopeDigest = ''abc'', ac_agentId =
    ''agt_1'', ac_principalId = ''prn_1'', ac_participantIdentityBindings = [], ac_runId = ''run_1'',
    ac_runtimeAdapterId = ''abc'', ac_sequenceNumber = 1, ac_requiredPriorActionContractIds = [],
    ac_recoveryRecommendationId = None, ac_recoverySourceReceiptId = None, ac_recoveryRecommendationDigest =
    None, ac_issuedAt = demo_now, ac_expiresAt = demo_end, ac_gatewayRegistryEntryId = ''gre_1'',
    ac_gatewayRegistryDigest = demo_digest, ac_gatewayRegistryVersion = ''v1'', ac_gatewayId = ''gtw_1'',
    ac_gatewayPolicyContractId = ''gpc_1'', ac_gatewayPolicyVersion = ''p1'', ac_credentialCustodyStatus =
    CCS_gateway_held, ac_enforcementMode = GEM_reference_fixture, ac_mutationCredentialHolderRef = ''gw'',
    ac_gatewayAuthorityHolderRef = ''gw'', ac_toolCapabilityId = ''abc'', ac_toolCapabilityDigest = ''abc'',
    ac_actionTypeId = ''abc'', ac_actionTypeDigest = ''abc'', ac_actionClass = ''pay'', ac_protectedSurfaceKind
    = ''bank'', ac_resourceRef = ''acct'', ac_requiredProtectedPathState = RPP_not_required,
    ac_runtimeExecutionId = None, ac_runtimeExecutionDigest = None, ac_generatedExecutionGraphId = None,
    ac_generatedExecutionGraphDigest = None, ac_generatedExecutionCoverageStatus = None,
    ac_generatedExecutionNodeId = None, ac_generatedExecutionNodeDigest = None,
    ac_generatedExecutionCatalogSnapshotDigest = None, ac_generatedExecutionGatewayRegistrySnapshotDigest =
    None, ac_generatedExecutionRegistryBindingSetDigest = None, ac_generatedExecutionNodeGatewayBindingDigest =
    None, ac_parameters = [], ac_paramsDigest = demo_digest, ac_nonSecretParamsSummary = [], ac_secretRefs = [],
    ac_gatewayCredentialRefs = [], ac_delegatedAuthorityRefs = [], ac_purposeCode = ''abc'',
    ac_expectedSideEffectCodes = [], ac_evidenceRefs = [], ac_clearingEvidenceRefs = \<lparr>ce_correlationRef =
    None, ce_obligationRef = None, ce_counterpartyRef = None\<rparr>, ac_bounds = [], ac_idempotencyKey =
    ''idem'', ac_rollbackHint = None, ac_canonicalizerVersion = ''c1'', ac_actionContractDigest = demo_digest,
    ac_contractSignature = None, ac_signaturePosture = SP_unsigned, ac_keyIdentityRef = None,
    ac_verificationPolicyRef = None\<rparr>"

definition demo_envelope :: operating_envelope where
  "demo_envelope =
  \<lparr>schemaVersion = PROTOCOL_VERSION, tenantId = ''tenant'', organizationId = ''acme'', createdAt =
    demo_now, oe_envelopeId = ''env_1'', oe_principalId = ''prn_1'', oe_agentId = ''agt_1'',
    oe_participantIdentityBindings = [], oe_objectiveRef = ''abc'', oe_allowedActionClasses = [''pay''],
    oe_allowedGateways = [''gtw_1''], oe_allowedResources = [''*''], oe_requiredProtectedPathState =
    RPP_not_required, oe_evidenceRequirements = [], oe_policyPackRef = ''pack'', oe_policyPackVersion = ''1'',
    oe_issuedAt = demo_now, oe_expiresAt = demo_end, oe_revokedAt = None\<rparr>"

definition demo_gateway :: gateway_registry_entry where
  "demo_gateway =
  \<lparr>schemaVersion = PROTOCOL_VERSION, tenantId = ''tenant'', organizationId = ''acme'', createdAt =
    demo_now, gr_gatewayRegistryEntryId = ''gre_1'', gr_gatewayRegistryVersion = ''v1'', gr_gatewayId =
    ''gtw_1'', gr_protectedSurfaceKind = ''bank'', gr_gatewayAdapterId = ''abc'', gr_gatewayAdapterVersion =
    ''abc'', gr_gateEndpointRef = ''abc'', gr_gatewayPolicyContractId = ''gpc_1'', gr_gatewayPolicyVersion =
    ''p1'', gr_gatewayPolicyDriftMode = DM_refuse_on_drift, gr_compatiblePreviousGatewayPolicyVersions = [],
    gr_acceptedActionCatalogVersions = [], gr_resourceNamespaceRef = ''abc'', gr_canonicalizerVersion = ''c1'',
    gr_receiptCapabilityStatus = CAPS_available, gr_isolationCheckCapabilityStatus = CAPS_available,
    gr_credentialCustodyStatus = CCS_gateway_held, gr_enforcementMode = GEM_reference_fixture,
    gr_mutationCredentialHolderRef = ''gw'', gr_gatewayAuthorityHolderRef = ''gw'', gr_supersededAt =
    None\<rparr>"

definition demo_decision :: policy_decision where
  "demo_decision =
  \<lparr>schemaVersion = PROTOCOL_VERSION, tenantId = ''tenant'', organizationId = ''acme'', createdAt =
    demo_now, pd_policyDecisionId = ''pol_1'', pd_actionContractId = ''act_1'', pd_envelopeId = ''env_1'',
    pd_policyPackRef = ''abc'', pd_policyPackVersion = ''abc'', pd_policyEvaluatorVersion = ''abc'',
    pd_policyInputDigest = demo_digest, pd_decision = PD_greenlight, pd_decisionReasonCode = ''policy_passed'',
    pd_decisionReason = ''abc'', pd_matchedRuleIds = [], pd_requiredReceipt = RQ_mutation,
    pd_isolationSnapshotRef = ''abc'', pd_expiresAt = demo_end, pd_decisionSignature = None, pd_signaturePosture
    = SP_unsigned, pd_keyIdentityRef = None, pd_verificationPolicyRef = None\<rparr>"

definition demo_greenlight :: greenlight where
  "demo_greenlight =
  \<lparr>schemaVersion = PROTOCOL_VERSION, tenantId = ''tenant'', organizationId = ''acme'', createdAt =
    demo_now, gl_greenlightId = ''grn_1'', gl_actionContractId = ''act_1'', gl_policyDecisionId = ''pol_1'',
    gl_gatewayRegistryEntryId = ''gre_1'', gl_gatewayRegistryDigest = Some demo_digest,
    gl_gatewayRegistryVersion = ''v1'', gl_gatewayId = ''gtw_1'', gl_gatewayPolicyVersion = ''p1'',
    gl_policyVersionRef = None, gl_policyVersionDigest = None, gl_gatewayReadinessRef = None,
    gl_gatewayReadinessDigest = None, gl_actionClass = ''pay'', gl_resourceRef = ''acct'',
    gl_requiredProtectedPathState = RPP_not_required, gl_protectedPathPostureId = None,
    gl_protectedPathPostureDigest = None, gl_gatewayCredentialRefIds = [], gl_gatewayCredentialRefDigests = [],
    gl_delegatedAuthorityRefIds = [], gl_delegatedAuthorityRefDigests = [], gl_paramsDigest = demo_digest,
    gl_contractDigest = demo_digest, gl_idempotencyKey = Some ''idem'', gl_idempotencyLedgerKeyDigest = Some
    demo_digest, gl_maxUses = 1, gl_issuedAt = demo_now, gl_notBefore = demo_now, gl_expiresAt = demo_end,
    gl_isolationSnapshotRef = ''abc'', gl_requiredReceipt = RQ_mutation, gl_decisionSignature = None,
    gl_signaturePosture = SP_unsigned, gl_keyIdentityRef = None, gl_verificationPolicyRef = None, gl_consumedAt
    = None, gl_consumedByGateAttemptId = None\<rparr>"

definition demo_stored :: "protocol_record \<Rightarrow> stored_record" where
  "demo_stored r = \<lparr>st_objectId = getObjectId r, st_objectType = record_type r, st_tenantId = ''tenant'',
     st_organizationId = ''acme'', st_schemaVersion = PROTOCOL_VERSION, st_canonicalDigest = demo_digest, st_payload = r,
     st_createdAt = demo_now, st_sourceEventId = None\<rparr>"

definition demo_store :: "protocol_record list \<Rightarrow> pstore" where
  "demo_store rs = foldl (\<lambda>s r. putRecord (demo_stored r) s) empty_store rs"

definition demo_world :: world where
  "demo_world = \<lparr>tick = 0, w_store = demo_store [PR_action_contract demo_contract, PR_operating_envelope demo_envelope,
     PR_gateway_registry_entry demo_gateway]\<rparr>"

definition gate_world :: world where
  "gate_world = \<lparr>tick = 0, w_store = demo_store [PR_action_contract demo_contract,
     PR_gateway_registry_entry demo_gateway, PR_policy_decision demo_decision, PR_greenlight demo_greenlight]\<rparr>"

definition demo_request :: evaluate_policy_input where
  "demo_request = \<lparr>ep_actionContractId = ''act_1'', ep_envelopeId = ''env_1'', ep_policyEvaluatorVersion = ''e1'',
     ep_signingSecret = None, ep_reviewDecisionId = None\<rparr>"

definition demo_check :: gateway_check_input where
  "demo_check = \<lparr>gwi_actionContractId = ''act_1'', gwi_greenlightId = ''grn_1'', gwi_observedParameters = [],
     gwi_surfaceOperationRef = None\<rparr>"

lemma demo_platform: "platform_ok demo_env"
proof -
  have "date_parse demo_now \<noteq> None" by code_simp
  then have "\<exists>x. fst (nowIso demo_env w) = Inr x \<and> iso_ok demo_env x" for w :: world
    by (simp add: nowIso_def demo_env_def Let_def iso_ok_def)
  moreover have "\<exists>x. fst (createId demo_env p w) = Inr x \<and> id_ok x" if "length p = 3" for p and w :: world
  proof -
    have "tick w mod 100 < 100" by simp
    then show ?thesis using that by (simp add: createId_def demo_env_def Let_def id_ok_def)
  qed
  ultimately show ?thesis by (simp add: platform_ok_def) (simp add: demo_env_def)
qed

lemma demo_quiet: "quiet demo_env"
  by (simp add: quiet_def demo_env_def)

lemma demo_events: "s_events (demo_store rs) = []"
proof -
  have "s_events (foldl (\<lambda>s r. putRecord (demo_stored r) s) s rs) = s_events s" for s
    by (induction rs arbitrary: s) simp_all
  then show ?thesis by (simp add: demo_store_def empty_store_def)
qed

lemma no_events_streams: "streams_ok E []"
  by (simp add: streams_ok_def)

lemma gate_records:
  "find_payload as_action_contract OT_action_contract ''act_1'' (w_store gate_world) = Some demo_contract"
  "find_payload as_greenlight OT_greenlight ''grn_1'' (w_store gate_world) = Some demo_greenlight"
  "find_payload as_policy_decision OT_policy_decision ''pol_1'' (w_store gate_world) = Some demo_decision"
  "find_payload as_gateway_registry_entry OT_gateway_registry_entry ''gre_1'' (w_store gate_world) = Some demo_gateway"
  by code_simp+

lemma gate_holds: "gate_constraints demo_env demo_check demo_contract demo_greenlight demo_now (w_store gate_world)"
proof -
  have digest: "digestCanonical demo_env x = demo_digest" for x
    by (simp add: digestCanonical_def demo_env_def demo_digest_def toHex_def) code_simp
  have "greenlight_matches demo_contract demo_greenlight demo_digest demo_digest" by code_simp
  moreover have "greenlight_live demo_greenlight demo_now" by code_simp
  moreover have "gdr_reasonCode (checkGatewayPolicyDrift demo_contract demo_greenlight (Some demo_gateway)) = None" by code_simp
  moreover have "ac_delegatedAuthorityRefs demo_contract = []" "ac_gatewayCredentialRefs demo_contract = []"
    "ac_requiredPriorActionContractIds demo_contract = []" "ac_gatewayRegistryEntryId demo_contract = ''gre_1''" by code_simp+
  moreover have "evaluateRequiredProtectedPathPosture demo_contract (ac_credentialCustodyStatus demo_contract)
     (ac_enforcementMode demo_contract) (loadCurrentPostureForContract demo_contract (w_store gate_world)) demo_now = None" by code_simp
  moreover have "gate_isolation demo_contract demo_greenlight (w_store gate_world) = []" by code_simp
  moreover have "gl_idempotencyLedgerKeyDigest demo_greenlight = Some demo_digest" by code_simp
  ultimately show ?thesis
    by (simp add: gate_constraints_def observed_digest_def protectedActionParamsDigest_def digest ledger_key_at_gate_def
        gate_records checkGatewayPolicyDrift_None evaluateRequired_None)
qed

lemma gate_ready:
  "platform_ok demo_env" "quiet demo_env" "gateway_check_input_valid demo_check"
  "streams_ok demo_env (s_events (w_store gate_world))"
  "find_payload as_action_contract OT_action_contract (gwi_actionContractId demo_check) (w_store gate_world) = Some demo_contract"
  "find_payload as_greenlight OT_greenlight (gwi_greenlightId demo_check) (w_store gate_world) = Some demo_greenlight"
  "find_payload as_policy_decision OT_policy_decision (gl_policyDecisionId demo_greenlight) (w_store gate_world) = Some demo_decision"
  "guardGatewayCheckAuthority demo_greenlight demo_decision = guard_ok"
  "gate_reads_ok demo_env demo_contract demo_greenlight (w_store gate_world)"
  "gate_free demo_env demo_contract demo_greenlight (w_store gate_world)"
  "fst (nowIso demo_env gate_world) = Inr demo_now"
  "gate_constraints demo_env demo_check demo_contract demo_greenlight demo_now (w_store gate_world)"
proof -
  show "platform_ok demo_env" "quiet demo_env" by (rule demo_platform demo_quiet)+
  show "gate_constraints demo_env demo_check demo_contract demo_greenlight demo_now (w_store gate_world)" by (rule gate_holds)
  show "gateway_check_input_valid demo_check" by code_simp
  show "streams_ok demo_env (s_events (w_store gate_world))"
    by (simp add: gate_world_def demo_events no_events_streams)
  show "find_payload as_action_contract OT_action_contract (gwi_actionContractId demo_check) (w_store gate_world) = Some demo_contract"
    "find_payload as_greenlight OT_greenlight (gwi_greenlightId demo_check) (w_store gate_world) = Some demo_greenlight"
    by (simp_all add: demo_check_def gate_records)
  have "gl_policyDecisionId demo_greenlight = ''pol_1''" by code_simp
  then show "find_payload as_policy_decision OT_policy_decision (gl_policyDecisionId demo_greenlight) (w_store gate_world) =
      Some demo_decision" by (simp add: gate_records)
  show "guardGatewayCheckAuthority demo_greenlight demo_decision = guard_ok" by code_simp
  show "fst (nowIso demo_env gate_world) = Inr demo_now"
    by (simp add: nowIso_def demo_env_def Let_def)
  have "contract_fields_ok demo_env demo_contract" by code_simp
  moreover have "greenlight_valid demo_env demo_greenlight" by code_simp
  moreover have "gateway_registry_entry_valid demo_env demo_gateway" by code_simp
  moreover have "loadCurrentPostureForContract demo_contract (w_store gate_world) = None" by code_simp
  moreover have "ac_gatewayRegistryEntryId demo_contract = ''gre_1''" by code_simp
  moreover have "s_ledger (w_store gate_world) = []" by code_simp
  ultimately show "gate_reads_ok demo_env demo_contract demo_greenlight (w_store gate_world)"
    by (simp add: gate_reads_ok_def gate_records getCurrentIdempotencyLedgerEntry_def payload_of_def)
  have "s_consumptions (w_store gate_world) = []" "s_claims (w_store gate_world) = []" "s_receipts (w_store gate_world) = []"
    by code_simp+
  then show "gate_free demo_env demo_contract demo_greenlight (w_store gate_world)"
    by (simp add: gate_free_def)
qed

lemma gate_runs:
  "\<exists>r w'. gatewayCheck demo_env demo_check gate_world = (Inr r, w') \<and> gca_gateDecision (gwr_gateAttempt r) = GD_passed"
  by (rule gatewayCheck_delivers) (rule gate_ready)+

lemma policy_records:
  "find_payload as_action_contract OT_action_contract ''act_1'' (w_store demo_world) = Some demo_contract"
  "find_payload as_operating_envelope OT_operating_envelope ''env_1'' (w_store demo_world) = Some demo_envelope"
  by code_simp+

lemma demo_empty:
  "s_ledger (w_store demo_world) = []" "s_issuance (w_store demo_world) = []"
  "loadCurrentPostureForContract demo_contract (w_store demo_world) = None"
  by code_simp+

lemma policy_constraints_hold:
  "authority_constraints demo_env demo_contract demo_now (w_store demo_world)"
  "policy_constraints_met demo_contract demo_envelope demo_now (w_store demo_world)"
proof -
  have refs: "ac_delegatedAuthorityRefs demo_contract = []" "ac_gatewayCredentialRefs demo_contract = []"
    "ac_requiredPriorActionContractIds demo_contract = []" by code_simp+
  have "evaluateRequiredProtectedPathPosture demo_contract (ac_credentialCustodyStatus demo_contract)
     (ac_enforcementMode demo_contract) (loadCurrentPostureForContract demo_contract (w_store demo_world)) demo_now = None" by code_simp
  moreover have "no_obligation demo_contract" by code_simp
  moreover have "\<not> exactProtectedActionPolicyApplies demo_contract" by code_simp
  ultimately show "authority_constraints demo_env demo_contract demo_now (w_store demo_world)"
    by (simp add: authority_constraints_def refs evaluateRequired_None ledger_free_def demo_empty
        getCurrentIdempotencyLedgerEntry_def payload_of_def)
  have "listIsolationStates (isolationScopeRefsForContract demo_contract) (w_store demo_world) = []" by code_simp
  moreover have "inside_envelope demo_contract demo_envelope demo_now" by code_simp
  ultimately show "policy_constraints_met demo_contract demo_envelope demo_now (w_store demo_world)"
    by (simp add: policy_constraints_met_def not_isolated_def refs)
qed

lemma policy_ready:
  "platform_ok demo_env" "quiet demo_env" "evaluate_policy_input_valid demo_request"
  "streams_ok demo_env (s_events (w_store demo_world))"
  "find_payload as_action_contract OT_action_contract (ep_actionContractId demo_request) (w_store demo_world) = Some demo_contract"
  "find_payload as_operating_envelope OT_operating_envelope (ep_envelopeId demo_request) (w_store demo_world) = Some demo_envelope"
  "guardPolicyEvaluation demo_contract demo_envelope = guard_ok"
  "policy_reads_ok demo_env demo_contract demo_envelope (w_store demo_world)"
  "fst (nowIso demo_env demo_world) = Inr demo_now"
  "issuance_free demo_env demo_contract demo_now (w_store demo_world)"
  "authority_constraints demo_env demo_contract demo_now (w_store demo_world)"
  "policy_constraints_met demo_contract demo_envelope demo_now (w_store demo_world)"
proof -
  show "platform_ok demo_env" "quiet demo_env" by (rule demo_platform demo_quiet)+
  show "authority_constraints demo_env demo_contract demo_now (w_store demo_world)"
    "policy_constraints_met demo_contract demo_envelope demo_now (w_store demo_world)" by (rule policy_constraints_hold)+
  show "evaluate_policy_input_valid demo_request" by code_simp
  show "streams_ok demo_env (s_events (w_store demo_world))"
    by (simp add: demo_world_def demo_events no_events_streams)
  show "find_payload as_action_contract OT_action_contract (ep_actionContractId demo_request) (w_store demo_world) = Some demo_contract"
    "find_payload as_operating_envelope OT_operating_envelope (ep_envelopeId demo_request) (w_store demo_world) = Some demo_envelope"
    by (simp_all add: demo_request_def policy_records)
  show "guardPolicyEvaluation demo_contract demo_envelope = guard_ok" by code_simp
  show "fst (nowIso demo_env demo_world) = Inr demo_now" by (simp add: nowIso_def demo_env_def Let_def)
  have "base_valid demo_env demo_contract \<and> length (tenantId demo_contract) + length (organizationId demo_contract) \<le> 152" by code_simp
  moreover have "list_all id_ok [ac_actionContractId demo_contract, ac_gatewayRegistryEntryId demo_contract,
     ac_gatewayId demo_contract, ac_idempotencyKey demo_contract]" by code_simp
  moreover have "list_all digest_ok [ac_gatewayRegistryDigest demo_contract, ac_paramsDigest demo_contract,
     ac_actionContractDigest demo_contract]" by code_simp
  moreover have "list_all (\<lambda>x. 1 \<le> length x) [ac_gatewayRegistryVersion demo_contract, ac_gatewayPolicyVersion demo_contract,
     ac_actionClass demo_contract, ac_protectedSurfaceKind demo_contract]" by code_simp
  moreover have "resource_ref_ok (ac_resourceRef demo_contract)" "iso_ok demo_env (ac_expiresAt demo_contract)" by code_simp+
  moreover have "operating_envelope_valid demo_env demo_envelope" by code_simp
  moreover have "ac_delegatedAuthorityRefs demo_contract = []" "ac_gatewayCredentialRefs demo_contract = []" by code_simp+
  ultimately show "policy_reads_ok demo_env demo_contract demo_envelope (w_store demo_world)"
    by (simp add: policy_reads_ok_def demo_empty)
  show "issuance_free demo_env demo_contract demo_now (w_store demo_world)"
    by (simp add: issuance_free_def demo_empty)
qed

lemma policy_runs:
  "\<exists>resp w'. evaluatePolicy demo_env demo_request demo_world = (Inr resp, w') \<and> pe_greenlight resp \<noteq> None"
  by (rule evaluatePolicy_delivers) (rule policy_ready)+

end
