(* ===== verification/Requests.thy ===== *)
theory Requests
  imports Policy_Laws Gateway_Laws
begin

text \<open>
  What holds across requests: a greenlight admits one mutation and a contract gets
  one greenlight however many evaluations and checks follow one another, and the
  streams of events stay chained through all of them.
\<close>

section \<open>Once\<close>

lemma gatewayCheck_mutation:
  assumes "disciplined E" "gatewayCheck E i w = (Inr r, w')" "gwr_mutationAttempt r = Some m"
  shows "\<exists>s x. store_run (w_store w) s \<and> map_of (s_consumptions s) (ma_greenlightId m) = None \<and>
     map_of (s_consumptions (w_store w')) (ma_greenlightId m) = Some x"
proof -
  have "gca_gateDecision (gwr_gateAttempt r) = GD_passed"
    using gatewayCheck_result[OF assms(1,2)] assms(3) by (simp add: result_agrees_def Let_def)
  from gatewayCheck_passed[OF assms(1,2) this] obtain c g s where
    "store_run (w_store w) s" "admits E c g r s (w_store w')" by blast
  then show ?thesis using assms(3) by (auto simp: admits_def Let_def)
qed

lemma gatewayCheck_admits_once:
  assumes "disciplined E" "gatewayCheck E i w = (Inr r, w')" "gwr_mutationAttempt r = Some m"
    "store_run (w_store w') (w_store v)" "gatewayCheck E j v = (Inr r', v')" "gwr_mutationAttempt r' = Some m'"
  shows "ma_greenlightId m' \<noteq> ma_greenlightId m"
proof
  assume same: "ma_greenlightId m' = ma_greenlightId m"
  obtain x where "map_of (s_consumptions (w_store w')) (ma_greenlightId m) = Some x"
    using gatewayCheck_mutation[OF assms(1-3)] by blast
  moreover obtain s where "store_run (w_store v) s" "map_of (s_consumptions s) (ma_greenlightId m) = None"
    using gatewayCheck_mutation[OF assms(1,5,6)] same by auto
  ultimately show False
    using consumption.runs_keep_claim[OF rtranclp_trans[OF assms(4)]] by fastforce
qed

lemma evaluatePolicy_greenlight:
  assumes "disciplined E" "evaluatePolicy E i w = (Inr resp, w')" "pe_greenlight resp = Some g"
  shows "\<exists>c v now s.
     find_payload as_action_contract OT_action_contract (ep_actionContractId i) (w_store w) = Some c \<and>
     find_payload as_operating_envelope OT_operating_envelope (ep_envelopeId i) (w_store w) = Some v \<and>
     guardPolicyEvaluation c v = guard_ok \<and> authority_constraints E c now (w_store w) \<and>
     (policy_constraints_met c v now (w_store w) \<or> (review_only_isolation c (w_store w) \<and>
        approved_by_review (derivePolicyConstraintEvaluation E i c v now (w_store w)) (w_store w))) \<and>
     greenlight_binds g c \<and> store_run (w_store w) s \<and> issues E c (pe_decision resp) g s (w_store w')"
proof -
  obtain c v now w1 where ctx:
    "find_payload as_action_contract OT_action_contract (ep_actionContractId i) (w_store w) = Some c"
    "find_payload as_operating_envelope OT_operating_envelope (ep_envelopeId i) (w_store w) = Some v"
    "guardPolicyEvaluation c v = guard_ok" "w_store w1 = w_store w"
    "decide_and_commit E (derivePolicyConstraintEvaluation E i c v now (w_store w)) w1 = (Inr resp, w')"
    using evaluatePolicy_context[OF assms(2)] by metis
  from decide_and_commit_greenlight[OF assms(1) derive_sound ctx(5) assms(3)] show ?thesis
    using ctx(1-4)
    by (simp add: derive_fine derive_base_greenlight base_decision_review review_only_isolation_def) blast
qed

lemma evaluatePolicy_issues_once:
  assumes "disciplined E" "evaluatePolicy E i w = (Inr resp, w')" "pe_greenlight resp = Some g"
    "store_run (w_store w') (w_store v)" "evaluatePolicy E j v = (Inr resp', v')" "pe_greenlight resp' = Some g'"
  shows "gl_actionContractId g' \<noteq> gl_actionContractId g"
proof
  assume same: "gl_actionContractId g' = gl_actionContractId g"
  obtain x where "map_of (s_issuance (w_store w')) (gl_actionContractId g) = Some x"
    using evaluatePolicy_greenlight[OF assms(1-3)] by (auto simp: issues_def greenlight_binds_def)
  moreover obtain s where "store_run (w_store v) s" "map_of (s_issuance s) (gl_actionContractId g) = None"
    using evaluatePolicy_greenlight[OF assms(1,5,6)] same by (auto simp: issues_def greenlight_binds_def)
  ultimately show False
    using issuance.runs_keep_claim[OF rtranclp_trans[OF assms(4)]] by fastforce
qed

section \<open>Streams through the gate\<close>

text \<open>The parts of a gate result and its events belong to the contract's organization.\<close>

definition result_of_contract :: "gateway_check_result \<Rightarrow> action_contract \<Rightarrow> bool" where
  "result_of_contract r c \<longleftrightarrow> in_organization (gwr_gateAttempt r) c \<and> in_organization (gwr_receipt r) c \<and>
     (\<forall>m. gwr_mutationAttempt r = Some m \<longrightarrow> in_organization m c) \<and> gwr_proofGap r = None"

lemma gate_stream:
  assumes "result_of_contract r c" "\<forall>x. rf = Some x \<longrightarrow> in_organization x c" "\<forall>x. k = Some x \<longrightarrow> in_organization x c"
  shows "same_stream (organizationStreamId (protocol_base.truncate c)) (gateEventDescriptors r rf refs k)"
  using assms
  by (cases "gwr_mutationAttempt r"; cases rf; cases k)
    (auto simp: result_of_contract_def same_stream_def gateEventDescriptors_def Let_def gate_event_def same_organization_stream)

lemma refusal_of_contract:
  "buildRefusal E (gateway_refusal_draft c g gate now) w = (Inr r, w') \<Longrightarrow> in_organization r c"
  by (auto simp: buildRefusal_def gateway_refusal_draft_def Let_def in_organization_def)

lemma artifacts_of_contract:
  "returns (buildGateArtifacts E v) (\<lambda>x. result_of_contract (fst x) (ge_contract v) \<and>
     (\<forall>y. snd x = Some y \<longrightarrow> in_organization y (ge_contract v)))"
proof (rule returnsI, cases "ge_refusal v")
  fix w :: world and x w'
  assume "buildGateArtifacts E v w = (Inr x, w')" "ge_refusal v = None"
  then show "result_of_contract (fst x) (ge_contract v) \<and> (\<forall>y. snd x = Some y \<longrightarrow> in_organization y (ge_contract v))"
    by (auto simp: buildGateArtifacts_def Let_def buildMutationProofGap_None result_of_contract_def in_organization_def
        gate_attempt_of_def receipt_of_def elim!: tbind_InrE dest!: buildMutationAttempt_Inr)
next
  fix w :: world and x w' code
  assume "buildGateArtifacts E v w = (Inr x, w')" "ge_refusal v = Some code"
  then show "result_of_contract (fst x) (ge_contract v) \<and> (\<forall>y. snd x = Some y \<longrightarrow> in_organization y (ge_contract v))"
    by (auto simp: buildGateArtifacts_def Let_def buildMutationProofGap_None result_of_contract_def in_organization_def
        gate_attempt_of_def receipt_of_def refusal_of_contract[unfolded in_organization_def] elim!: tbind_InrE split: if_splits)
qed

lemma claim_of_contract:
  "deriveProtectedSurfaceOperationClaim E v r w = (Inr (Some k), w') \<Longrightarrow> in_organization k (ge_contract v)"
  by (auto simp: deriveProtectedSurfaceOperationClaim_def buildActiveProtectedSurfaceOperationClaim_def
      with_claim_digest_def in_organization_def elim!: tbind_InrE split: option.splits if_splits)

definition plan_stream :: "gateway_plan \<Rightarrow> action_contract \<Rightarrow> bool" where
  "plan_stream p c \<longleftrightarrow> ge_contract (gwp_evaluation p) = c \<and>
     same_stream (organizationStreamId (protocol_base.truncate c)) (gwp_events p)"

lemma plan_of_contract: "returns (buildGatewayCommitPlan E v) (\<lambda>p. plan_stream p (ge_contract v))"
proof (rule returnsI)
  fix w :: world and p w'
  assume "buildGatewayCommitPlan E v w = (Inr p, w')"
  then obtain r rf k ctx w1 w2 where a: "buildGateArtifacts E v w = (Inr (r, rf), w1)"
    and k: "deriveProtectedSurfaceOperationClaim E v r w1 = (Inr k, w2)"
    and p: "gwp_evaluation p = v" "gwp_events p = withTransitionRequestContextEventDescriptors
         (gateEventDescriptors r rf (actionLifecycleStreamRefs (ge_contract v)) k) ctx"
    unfolding buildGatewayCommitPlan_def by (auto elim!: tbind_InrE)
  have "result_of_contract r (ge_contract v) \<and> (\<forall>y. rf = Some y \<longrightarrow> in_organization y (ge_contract v))"
    using artifacts_of_contract[of E v] a by (fastforce simp: returns_def)
  moreover have "\<forall>x. k = Some x \<longrightarrow> in_organization x (ge_contract v)" using k claim_of_contract by blast
  ultimately show "plan_stream p (ge_contract v)"
    by (simp add: plan_stream_def p same_stream_context gate_stream)
qed

text \<open>One attempt: a chain built on the store that was read, committed after others ran.\<close>

lemma streams_attempt:
  assumes "disciplined E" "same_stream sid ds" "\<And>s. reads_only (B s)"
    and B: "\<And>s w cf w'. B s w = (Inr cf, w') \<Longrightarrow> fst (buildEventChain E s ds w) = Inr (gk_events (fst cf))"
    and g: "\<And>cf res. keeps_streams E (g cf res)"
  shows "keeps_streams E (tbind (store_get (\<lambda>s. s)) (\<lambda>s. tbind (B s) (\<lambda>cf. tbind (interfere E) (\<lambda>_.
     tbind (store_op (commitGatewayCheck (fst cf))) (g cf)))))"
proof (rule streams.keepsI, unfold streams_order_def, rule impI)
  fix w r w'
  assume run: "tbind (store_get (\<lambda>s. s)) (\<lambda>s. tbind (B s) (\<lambda>cf. tbind (interfere E) (\<lambda>_.
     tbind (store_op (commitGatewayCheck (fst cf))) (g cf)))) w = (r, w')"
    and ok: "streams_ok E (s_events (w_store w))"
  obtain x w1 where built: "B (w_store w) w = (x, w1)" by (cases "B (w_store w) w")
  have st: "w_store w1 = w_store w" using reads_onlyD[OF assms(3) built] .
  show "streams_ok E (s_events (w_store w'))"
  proof (cases x)
    case (Inl e)
    then show ?thesis using run built st ok by simp
  next
    case (Inr cf)
    let ?t = "ke_interfere E (tick w1) (w_store w)"
    obtain res u where com: "commitGatewayCheck (fst cf) ?t = (res, u)" by (cases "commitGatewayCheck (fst cf) ?t")
    have okt: "streams_ok E (s_events ?t)" using assms(1) ok by (simp add: disciplined_def)
    have oku: "streams_ok E (s_events u)"
    proof (cases "res = GR_committed")
      case True
      then have "s_events u = s_events ?t @ gk_events (fst cf)" "\<not> list_ex (\<lambda>e. hasStreamOffset e ?t) (gk_events (fst cf))"
        using com commitGatewayCheck_committedD(3,4)[of "fst cf" ?t u] by auto
      moreover obtain v where "buildEventChain E (w_store w) ds w = (Inr (gk_events (fst cf)), v)"
        using B[of "w_store w" w cf w1] built Inr by (cases "buildEventChain E (w_store w) ds w") auto
      ultimately show ?thesis
        using stale_commit_streams_ok[OF assms(1) ok _ assms(2) refl] by simp
    next
      case False
      then show ?thesis using commitGatewayCheck_rejected[OF com] okt by simp
    qed
    have "g cf res (w1\<lparr>tick := Suc (tick w1), w_store := u\<rparr>) = (r, w')"
      using run built Inr st com by (simp add: interfere_def)
    then show ?thesis using streams.keepsD[OF g] oku by (fastforce simp: streams_order_def)
  qed
qed

lemma streams_replay_attempts:
  assumes "disciplined E" "same_stream sid ds"
  shows "keeps_streams E (replay_attempts E ctx r rf ds n)"
proof (induction n)
  case (Suc n)
  let ?B = "\<lambda>s. tbind (buildEventChain E s ds) (\<lambda>es. tbind (withReceiptStreamReferences E r es) (\<lambda>final.
     treturn (no_gateway_commit (map (buildRecord E) (replay_records ctx final rf)) es, final)))"
  let ?g = "\<lambda>cf res. if res = GR_committed \<or> res = GR_already_consumed then treturn (snd cf)
     else replay_attempts E ctx r rf ds n"
  have "keeps_streams E (tbind (store_get (\<lambda>s. s)) (\<lambda>s. tbind (?B s) (\<lambda>cf. tbind (interfere E) (\<lambda>_.
     tbind (store_op (commitGatewayCheck (fst cf))) (?g cf)))))"
  proof (rule streams_attempt[OF assms])
    show "reads_only (?B s)" for s by (intro reads_only_intros)
    show "fst (buildEventChain E s ds w) = Inr (gk_events (fst cf))" if "?B s w = (Inr cf, w')" for s cf and w w' :: world
      using that by (auto simp: no_gateway_commit_def elim!: tbind_InrE)
    show "keeps_streams E (?g cf res)" for cf res by (auto intro!: streams_intros Suc.IH)
  qed
  then show ?case by (simp only: replay_attempts.simps tbind_assoc tbind_return fst_conv snd_conv)
qed (simp only: replay_attempts.simps streams.keeps_basic)

lemma replay_parts_of_contract:
  "returns (buildReplayGateAttempt E c g k ds now) (\<lambda>gate. in_organization gate c)"
  "returns (buildRefusal E (gateway_refusal_draft c g gate now)) (\<lambda>r. in_organization r c)"
  "returns (buildReplayReceipt E c g gate now cons) (\<lambda>r. in_organization r c)"
  unfolding buildReplayGateAttempt_def buildReplayReceipt_def receipt_of_def in_organization_def Let_def
  by (auto simp: returns_def tbind_Inr_iff dest: refusal_of_contract[unfolded in_organization_def])

lemma streams_replay_refusal:
  assumes "disciplined E"
  shows "keeps_streams E (commitReplayRefusal E c g k)"
  unfolding commitReplayRefusal_def Let_def
proof (intro streams.keeps_bind[OF reads_only_streams[OF reads_basic(4)]])
  fix now
  show "keeps_streams E (tbind (buildReplayGateAttempt E c g k (digestCanonical E (greenlight_json g)) now) (\<lambda>gate.
     tbind (buildRefusal E (gateway_refusal_draft c g gate now)) (\<lambda>refusal.
     tbind (buildReplayReceipt E c g gate now (case rp_consumptionStatus k of Some s \<Rightarrow> s | None \<Rightarrow> CONS_replayed)) (\<lambda>receipt.
     tbind (transitionRequestContextRecordFor E (tenantId c) (organizationId c)) (\<lambda>ctx.
     replay_attempts E ctx \<lparr>gwr_gateAttempt = gate, gwr_mutationAttempt = None, gwr_receipt = receipt, gwr_proofGap = None\<rparr> refusal
       (withTransitionRequestContextEventDescriptors (gateEventDescriptors
          \<lparr>gwr_gateAttempt = gate, gwr_mutationAttempt = None, gwr_receipt = receipt, gwr_proofGap = None\<rparr> (Some refusal)
          (actionLifecycleStreamRefs c) None) ctx) (Suc MAX_STREAM_COMMIT_RETRIES))))))"
  proof (rule streams.keeps_bind_post[OF replay_parts_of_contract(1)], intro reads_only_streams reads_only_intros,
      rule streams.keeps_bind_post[OF replay_parts_of_contract(2)], intro reads_only_streams reads_only_intros,
      rule streams.keeps_bind_post[OF replay_parts_of_contract(3)], intro reads_only_streams reads_only_intros,
      intro streams.keeps_bind reads_only_streams[OF reads_context])
    fix gate :: gateway_check_attempt and refusal :: refusal and receipt :: receipt and ctx
    assume "in_organization gate c" "in_organization refusal c" "in_organization receipt c"
    then show "keeps_streams E (replay_attempts E ctx \<lparr>gwr_gateAttempt = gate, gwr_mutationAttempt = None, gwr_receipt = receipt, gwr_proofGap = None\<rparr> refusal
       (withTransitionRequestContextEventDescriptors (gateEventDescriptors
          \<lparr>gwr_gateAttempt = gate, gwr_mutationAttempt = None, gwr_receipt = receipt, gwr_proofGap = None\<rparr> (Some refusal)
          (actionLifecycleStreamRefs c) None) ctx) (Suc MAX_STREAM_COMMIT_RETRIES))"
      by (intro streams_replay_attempts[OF assms, where sid = "organizationStreamId (protocol_base.truncate c)"])
        (simp add: same_stream_context gate_stream result_of_contract_def)
  qed
qed

lemma streams_gateway_attempts:
  assumes "disciplined E" "plan_stream p c"
  shows "keeps_streams E (gateway_attempts E p n)"
proof (induction n)
  case (Suc n)
  have same: "same_stream (organizationStreamId (protocol_base.truncate c)) (gwp_events p)"
    using assms(2) by (simp add: plan_stream_def)
  show ?case
    unfolding gateway_attempts.simps
  proof (rule streams_attempt[OF assms(1) same reads_plan(2)])
    show "fst (buildEventChain E s (gwp_events p) w) = Inr (gk_events (fst cf))"
      if "buildGatewayCheckCommit E p s w = (Inr cf, w')" for s w cf w'
      using that by (auto simp: buildGatewayCheckCommit_def gateway_commit_of_def elim!: tbind_InrE)
    show "keeps_streams E (case res of
       GR_committed \<Rightarrow> treturn (snd cf)
     | GR_already_consumed \<Rightarrow> replay_refusal E p None
     | GR_operation_claim_conflict \<Rightarrow> replay_refusal E p (Some (''protected_surface_operation_in_progress'', CONS_not_consumed))
     | GR_receipt_index_conflict \<Rightarrow> replay_refusal E p (Some (''receipt_index_conflict'', CONS_not_consumed))
     | GR_stream_conflict \<Rightarrow> gateway_attempts E p n)" for cf res
      unfolding replay_refusal_def
      by (cases res) (simp_all add: streams.keeps_basic streams_replay_refusal[OF assms(1)] Suc.IH)
  qed
qed (simp only: gateway_attempts.simps streams.keeps_basic)

lemma streams_gatewayCheck:
  assumes "disciplined E"
  shows "keeps_streams E (gatewayCheck E input)"
proof -
  define commit where "commit v = tbind (buildGatewayCommitPlan E v) (commitGatewayCheckPlan E)" for v
  have "keeps_streams E (commit v)" for v
    unfolding commitGatewayCheckPlan_def commit_def
    by (rule streams.keeps_bind_post[OF plan_of_contract reads_only_streams[OF reads_plan(1)]])
      (rule streams_gateway_attempts[OF assms])
  then show ?thesis
    unfolding gatewayCheck_def commit_def[symmetric]
    by (intro streams_intros reads_only_streams[OF reads_guard] reads_only_streams[OF reads_required(2)]
        reads_only_streams[OF reads_basic(1)] reads_only_streams[OF reads_basic(2)]
        reads_only_streams[OF reads_basic(3)] reads_only_streams[OF reads_basic(4)])
qed

section \<open>Names of streams\<close>

text \<open>A commit with events needs names of tenant and organization that fit in a stream's name.\<close>

definition short_names :: "protocol_base \<Rightarrow> bool" where
  "short_names b \<longleftrightarrow> length (tenantId b) + length (organizationId b) \<le> 152"

lemma short_names_iff: "id_ok (organizationStreamId b) \<longleftrightarrow> short_names b"
  by (auto simp: id_ok_def organizationStreamId_def short_names_def)

lemma build_chain_names:
  "build_chain E s tails items w = (Inr es, w') \<Longrightarrow> (d, b) \<in> set items \<Longrightarrow> id_ok (sb_streamId b)"
proof (induction E s tails items arbitrary: w w' es rule: build_chain.induct)
  case (2 E s tails d' b' items)
  let ?t = "tail_for s tails b'"
  obtain e w1 es' where e: "buildEventAt E d' b' (fst ?t + 1) (snd ?t) w = (Inr e, w1)"
    and rest: "build_chain E s (AList.update (tailKey b') (ev_offset e, Some (ev_eventDigest e)) tails) items w1 = (Inr es', w')"
    using "2.prems"(1) by (auto simp: Let_def elim!: tbind_InrE)
  have "id_ok (sb_streamId b')"
    using buildEventAt_Inr(1,6)[OF e] by (simp add: stream_event_valid_def)
  then show ?case using "2.IH"[OF refl rest] "2.prems"(2) by auto
qed simp

lemma streamBindings_nonempty: "streamBindings d \<noteq> []"
  by (simp add: streamBindings_def Let_def)

lemma chain_names:
  assumes "buildEventChain E s ds w = (Inr es, w')" "d \<in> set ds"
  shows "short_names (ed_source d)"
proof -
  obtain b where "b \<in> set (streamBindings d)" using streamBindings_nonempty[of d] by (cases "streamBindings d") auto
  moreover from this have "(d, b) \<in> set (chain_items ds)" using assms(2) by (auto simp: chain_items_def)
  then have "id_ok (sb_streamId b)"
    using build_chain_names assms(1) unfolding buildEventChain_def by blast
  ultimately show ?thesis using streamBindings_id short_names_iff by metis
qed

lemma commit_attempts_names:
  "commit_attempts E rs ds opts n w = (Inr (TC_committed es), w') \<Longrightarrow> d \<in> set ds \<Longrightarrow> short_names (ed_source d)"
proof (induction n arbitrary: w)
  case (Suc n)
  from Suc.prems(1) obtain s es' w1 where "buildEventChain E s ds w = (Inr es', w1)"
    unfolding commit_attempts.simps by (auto elim!: tbind_InrE)
  then show ?case using Suc.prems(2) by (rule chain_names)
qed simp

lemma commitRecords_names:
  assumes "commitRecordsWithEvents E rs ds opts w = (Inr es, w')" "d \<in> set ds"
  shows "short_names (ed_source d)"
proof -
  obtain res w1 where "tryCommitRecordsWithEvents E rs ds opts w = (Inr res, w1)"
    and "(case res of TC_committed es \<Rightarrow> treturn es
     | TC_idempotency_ledger_conflict \<Rightarrow> tfail (protocol_error ''idempotency_ledger_conflict'' 409)
     | TC_record_digest_conflict \<Rightarrow> tfail (protocol_error ''bootstrap_record_digest_conflict'' 409)) w1 = (Inr es, w')"
    using assms(1) unfolding commitRecordsWithEvents_def by (rule tbind_InrE)
  then have "tryCommitRecordsWithEvents E rs ds opts w = (Inr (TC_committed es), w')" by (cases res) auto
  then obtain rs' ds' w2 where ctx: "withTransitionRequestContext E rs ds w = (Inr (rs', ds'), w2)"
    and com: "commit_attempts E (map (buildRecord E) rs') ds' opts (Suc MAX_STREAM_COMMIT_RETRIES) w2 = (Inr (TC_committed es), w')"
    unfolding tryCommitRecordsWithEvents_def by (auto elim!: tbind_InrE)
  obtain c where "ds' = withTransitionRequestContextEventDescriptors ds c"
    using withContext_descriptors[OF ctx] by blast
  then have "\<exists>d' \<in> set ds'. ed_source d' = ed_source d"
    using assms(2) by (force simp: withTransitionRequestContextEventDescriptors_def split: option.split protocol_record.split)
  then show ?thesis using commit_attempts_names[OF com] by metis
qed

section \<open>What a commit stores\<close>

lemma commit_stores_unique:
  assumes "commitProtocolRecords (commit_of (map (buildRecord E) rs) es opts) s = (CR_committed, t)"
    "r \<in> set rs" "record_type r \<noteq> OT_contract_stream_event" "\<And>x. x \<in> set rs \<Longrightarrow> record_type x = record_type r \<Longrightarrow> x = r"
  shows "getRecord (record_type r) (getObjectId r) t = Some (buildRecord E r)"
proof -
  let ?k = "recordKey (record_type r) (getObjectId r)"
  have "?k \<in> stored_key ` set (map (buildRecord E) rs)"
    using assms(2) by (auto intro!: image_eqI[of _ _ "buildRecord E r"])
  from set_all_mem[OF this] obtain x where "x \<in> set rs" "stored_key (buildRecord E x) = ?k"
    "map_of (set_all stored_key (map (buildRecord E) rs) (s_records s)) ?k = Some (buildRecord E x)" by auto
  moreover from this have "x = r" using assms(4) by (simp add: recordKey_inj)
  moreover have "?k \<notin> stored_key ` set (map event_record es)"
    using assms(3) by (auto simp: stored_key_def event_record_def recordKey_inj)
  ultimately show ?thesis
    using commitProtocolRecords_committedD(6)[OF assms(1)] by (simp add: getRecord_def set_all_other)
qed

lemma commitRecords_stores:
  assumes "disciplined E" "commitRecordsWithEvents E rs ds opts w = (Inr es, w')"
    "r \<in> set rs" "record_type r \<notin> {OT_contract_stream_event, OT_transition_request_context}"
    "\<And>x. x \<in> set rs \<Longrightarrow> record_type x = record_type r \<Longrightarrow> x = r"
  shows "getRecord (record_type r) (getObjectId r) (w_store w') = Some (buildRecord E r)"
proof -
  obtain rs' s where rs: "rs' = rs \<or> (\<exists>c. rs' = PR_transition_request_context c # rs)"
    and com: "commitProtocolRecords (commit_of (map (buildRecord E) rs') es opts) s = (CR_committed, w_store w')"
    using commitRecords_committed[OF assms(1,2)] by blast
  show ?thesis
    by (rule commit_stores_unique[OF com]) (use rs assms(3-5) in auto)
qed

end
