(* ===== verification/Instances.thy ===== *)
theory Instances
  imports Scenario Requests
begin

text \<open>
  Further concrete inputs: the mutation attempt of the scenario's check, a refused
  decision, a consumption that is tried twice, and a hash without collisions with
  a stream that is chained under it.
\<close>

lemma demo_mutation:
  "\<exists>r w' m. gatewayCheck demo_env demo_check gate_world = (Inr r, w') \<and> gwr_mutationAttempt r = Some m"
  using gate_runs gatewayCheck_result[OF quiet_disciplined[OF demo_quiet]]
  by (fastforce simp: result_agrees_def Let_def)

section \<open>A refused decision\<close>

definition demo_refusing :: policy_decision where
  "demo_refusing = demo_decision\<lparr>pd_decision := PD_refuse, pd_decisionReasonCode := ''envelope_expired''\<rparr>"

lemma demo_digests: "digestCanonical demo_env x = demo_digest"
  by (simp add: digestCanonical_def demo_env_def demo_digest_def toHex_def) code_simp

lemma delivers_demo_refusal:
  "delivers (buildRefusal demo_env (policy_refusal_draft demo_contract demo_refusing demo_now)) (w :: world)
     (\<lambda>r w'. in_organization r demo_contract \<and> rf_refusalId r \<noteq> [] \<and> w_store w' = w_store w)"
proof -
  have valid: "refusal_valid demo_env ((policy_refusal_draft demo_contract demo_refusing demo_now)
     \<lparr>rf_refusalId := ''ref_'' @ take 48 (drop 7 demo_digest), rf_mutationAttempted := False, rf_authorityCreated := False\<rparr>)"
    by code_simp
  show ?thesis
    unfolding buildRefusal_def demo_digests
  proof (rule delivers_parse)
    show "refusal_valid demo_env ((policy_refusal_draft demo_contract demo_refusing demo_now)
     \<lparr>rf_refusalId := ''ref_'' @ take 48 (drop 7 demo_digest), rf_mutationAttempted := False, rf_authorityCreated := False\<rparr>)"
      by (rule valid)
  qed (simp add: in_organization_def policy_refusal_draft_def)
qed

lemma demo_names:
  "base_valid demo_env demo_contract" "length (tenantId demo_contract) + length (organizationId demo_contract) \<le> 152"
  "in_organization demo_refusing demo_contract" "pd_policyDecisionId demo_refusing = ''pol_1''"
  "ac_actionContractId demo_contract = ''act_1''" "pd_decision demo_refusing = PD_refuse"
  "tenantId demo_contract = ''tenant''" "organizationId demo_contract = ''acme''"
  by code_simp+

lemma demo_descriptors:
  assumes "in_organization r demo_contract" "rf_refusalId r \<noteq> []"
  shows "list_all descriptor_ok [decision_event demo_contract demo_refusing,
     decision_outcome_event demo_contract demo_refusing (Some r) None]"
  using assms demo_names
  by (simp add: decision_event_def decision_outcome_event_def greenlight_event_ok)

lemma refusal_runs:
  "\<exists>rf w'. commitPolicyDecisionOnly demo_env demo_contract demo_refusing demo_now demo_world = (Inr (Some rf, None), w')"
proof -
  have streams: "streams_ok demo_env (s_events (w_store demo_world))"
    by (simp add: demo_world_def demo_events no_events_streams)
  have commit: "delivers (commitRecordsWithEvents demo_env rs [decision_event demo_contract demo_refusing,
       decision_outcome_event demo_contract demo_refusing (Some r) None] no_options) w (\<lambda>_ _. True)"
    if "in_organization r demo_contract" "rf_refusalId r \<noteq> []" "w_store w = w_store demo_world" for r rs w
    by (rule delivers_commitRecords[OF demo_platform demo_quiet _ decision_only_stream[of _ demo_contract]])
      (use that streams demo_names demo_descriptors in \<open>simp_all add: unopposed_def no_options_def\<close>)
  have "commitPolicyDecisionOnly demo_env demo_contract demo_refusing demo_now =
     tbind (buildRefusal demo_env (policy_refusal_draft demo_contract demo_refusing demo_now)) (\<lambda>r.
     tbind (commitRecordsWithEvents demo_env [PR_policy_decision demo_refusing, PR_refusal r]
       [decision_event demo_contract demo_refusing, decision_outcome_event demo_contract demo_refusing (Some r) None] no_options)
     (\<lambda>_. treturn (Some r, None)))"
    by (simp add: commitPolicyDecisionOnly_def demo_names tbind_assoc)
  then have "delivers (commitPolicyDecisionOnly demo_env demo_contract demo_refusing demo_now) demo_world
     (\<lambda>x _. \<exists>rf. x = (Some rf, None))"
    by (simp only:) (rule delivers_via[OF delivers_demo_refusal], elim conjE, rule delivers_via[OF commit],
      auto intro!: delivers_return)
  then show ?thesis by (auto simp: delivers_def)
qed

section \<open>Store entries\<close>

definition demo_consumption :: greenlight_consumption where
  "demo_consumption = \<lparr>gc_greenlightId = ''grn_1'', gc_gateAttemptId = ''gat_1'', gc_actionContractId = ''act_1'',
     gc_idempotencyKey = ''idem'', gc_consumedAt = demo_now\<rparr>"

definition demo_consumption_again :: greenlight_consumption where
  "demo_consumption_again = demo_consumption\<lparr>gc_gateAttemptId := ''gat_2''\<rparr>"

section \<open>A stream under a hash without collisions\<close>

definition hash_env :: kernel_env where
  "hash_env = demo_env\<lparr>env_sha256 := (\<lambda>bs. bs)\<rparr>"

lemma hash_env_collision_free: "collision_free hash_env"
  by (simp add: collision_free_def hash_env_def)

definition demo_event :: "int \<Rightarrow> string option \<Rightarrow> stream_event" where
  "demo_event off prev = (let e = \<lparr>schemaVersion = PROTOCOL_VERSION, tenantId = ''tenant'', organizationId = ''acme'',
     createdAt = demo_now, ev_streamEventId = ''evt_1'', ev_streamId = ''stream_tenant_acme'',
     ev_streamScope = SS_organization, ev_offset = off, ev_partitionKey = ''action:act_1'',
     ev_eventType = ET_policy_decision_recorded, ev_eventTime = demo_now, ev_producerRef = ''handshake'',
     ev_objectRefs = [''act_1''], ev_previousEventDigest = prev, ev_eventDigest = [],
     ev_payload = [(''decision'', JStr ''refuse'')]\<rparr> in
     e\<lparr>ev_eventDigest := digestCanonical hash_env (event_seed e)\<rparr>)"

definition demo_stream :: "stream_event list" where
  "demo_stream = [demo_event 0 None, demo_event 1 (Some (ev_eventDigest (demo_event 0 None)))]"

lemma demo_stream_ok:
  "chain_ok hash_env demo_stream" "list_all payload_ok demo_stream" "demo_stream \<noteq> []"
proof -
  have fields: "ev_offset (demo_event off prev) = off" "ev_previousEventDigest (demo_event off prev) = prev"
    "ev_eventDigest (demo_event off prev) = digestCanonical hash_env (event_seed (demo_event off prev))"
    "ev_payload (demo_event off prev) = [(''decision'', JStr ''refuse'')]" for off prev
    by (simp_all add: demo_event_def Let_def event_seed_def)
  have one: "chain_ok hash_env ([] @ [demo_event 0 None])"
    by (subst chain_ok_snoc) (simp add: fields)
  have "chain_ok hash_env ([demo_event 0 None] @ [demo_event 1 (Some (ev_eventDigest (demo_event 0 None)))])"
    using one by (subst chain_ok_snoc) (simp add: fields)
  then show "chain_ok hash_env demo_stream" by (simp add: demo_stream_def)
  show "list_all payload_ok demo_stream" by (simp add: demo_stream_def payload_ok_def fields)
  show "demo_stream \<noteq> []" by (simp add: demo_stream_def)
qed

section \<open>A commit of events\<close>

lemma commit_runs:
  "\<exists>es w'. commitRecordsWithEvents demo_env [PR_policy_decision demo_refusing] [decision_event demo_contract demo_refusing]
     no_options demo_world = (Inr es, w')"
proof -
  have "delivers (commitRecordsWithEvents demo_env [PR_policy_decision demo_refusing] [decision_event demo_contract demo_refusing]
     no_options) demo_world (\<lambda>_ _. True)"
  proof (rule delivers_commitRecords[OF demo_platform demo_quiet])
    show "streams_ok demo_env (s_events (w_store demo_world))"
      by (simp add: demo_world_def demo_events no_events_streams)
    show "same_stream (organizationStreamId (protocol_base.truncate demo_contract)) [decision_event demo_contract demo_refusing]"
      using demo_names by (simp add: same_stream_def decision_event_def same_organization_stream)
    show "list_all descriptor_ok [decision_event demo_contract demo_refusing]"
      using demo_names by (simp add: decision_event_def greenlight_event_ok)
  qed (simp add: unopposed_def no_options_def)
  then show ?thesis by (auto simp: delivers_def)
qed

end
