(* ===== verification/Isolation.thy ===== *)
theory Isolation
  imports Requests
begin

text \<open>
  Isolation: the states that operators record and the decisions of breakers that
  watch the event streams (\<open>isolation-breaker/isolation-states.ts\<close>,
  \<open>isolation-breaker/breaker-decisions.ts\<close>).  A recorded state becomes the current
  state of its scope, and a blocking one closes policy and the gate for every
  contract in that scope.
\<close>

section \<open>Recording a state\<close>

record isolation_input =
  ini_tenantId :: string
  ini_organizationId :: string
  ini_scopeType :: isolation_scope_type
  ini_scopeId :: string
  ini_state :: isolation_value
  ini_reasonCode :: string
  ini_reasonSummary :: string
  ini_sourceDecisionRef :: string
  ini_observedStreamOffsets :: "stream_watermark list"
  ini_expiresAt :: "string option"

definition isolation_input_valid :: "'e env_scheme \<Rightarrow> isolation_input \<Rightarrow> bool" where
  "isolation_input_valid E i \<longleftrightarrow>
     1 \<le> length (ini_tenantId i) \<and> 1 \<le> length (ini_organizationId i) \<and> 1 \<le> length (ini_scopeId i) \<and>
     2 \<le> length (ini_reasonCode i) \<and> 1 \<le> length (ini_reasonSummary i) \<and> 1 \<le> length (ini_sourceDecisionRef i) \<and>
     list_all (stream_watermark_valid E) (ini_observedStreamOffsets i) \<and> opt_ok (iso_ok E) (ini_expiresAt i)"

definition isolation_state_of :: "isolation_input \<Rightarrow> string \<Rightarrow> string \<Rightarrow> isolation_state" where
  "isolation_state_of i now iid =
     \<lparr>schemaVersion = PROTOCOL_VERSION, tenantId = ini_tenantId i, organizationId = ini_organizationId i,
      createdAt = now, is_isolationStateId = iid, is_scopeType = ini_scopeType i, is_scopeId = ini_scopeId i,
      is_state = ini_state i, is_reasonCode = ini_reasonCode i, is_reasonSummary = ini_reasonSummary i,
      is_sourceDecisionRef = ini_sourceDecisionRef i, is_effectiveAt = now, is_expiresAt = ini_expiresAt i,
      is_clearedAt = None, is_observedStreamOffsets = ini_observedStreamOffsets i, is_version = 1\<rparr>"

definition state_scope :: "isolation_state \<Rightarrow> isolation_scope_ref" where
  "state_scope s = \<lparr>isr_tenantId = tenantId s, isr_organizationId = organizationId s,
     isr_scopeType = is_scopeType s, isr_scopeId = is_scopeId s\<rparr>"

definition isolationStateIndexEntry :: "isolation_state \<Rightarrow> isolation_index_entry" where
  "isolationStateIndexEntry s =
     \<lparr>ii_isolationScopeKey = isolationScopeKey (state_scope s), ii_isolationStateId = is_isolationStateId s,
      ii_tenantId = tenantId s, ii_organizationId = organizationId s, ii_scopeType = is_scopeType s,
      ii_scopeId = is_scopeId s, ii_state = is_state s, ii_updatedAt = createdAt s\<rparr>"

definition isolationStateEvents :: "isolation_state \<Rightarrow> event_descriptor list" where
  "isolationStateEvents s =
     [\<lparr>ed_source = protocol_base.truncate s, ed_eventType = ET_isolation_changed,
       ed_objectRefs = [is_isolationStateId s, isolation_scope_type_str (is_scopeType s), is_scopeId s],
       ed_payload = [(''state'', JStr (isolation_value_str (is_state s))), (''reasonCode'', JStr (is_reasonCode s)),
         (''observedStreamOffsets'', JArr (map stream_watermark_json (is_observedStreamOffsets s)))],
       ed_streamRefs = None\<rparr>]"

definition commitIsolationState :: "kernel_env \<Rightarrow> isolation_state \<Rightarrow> unit wtr" where
  "commitIsolationState E s =
     tbind (commitRecordsWithEvents E [PR_isolation_state s] (isolationStateEvents s)
       (no_options\<lparr>co_isolationEntries := [isolationStateIndexEntry s]\<rparr>)) (\<lambda>_. treturn ())"

definition createIsolationState :: "kernel_env \<Rightarrow> isolation_input \<Rightarrow> isolation_state wtr" where
  "createIsolationState E input =
     tbind (tparse (isolation_input_valid E) input) (\<lambda>i.
     tbind (nowIso E) (\<lambda>now.
     tbind (createId E ''iso'') (\<lambda>iid.
     tbind (tparse (isolation_state_valid E) (isolation_state_of i now iid)) (\<lambda>s.
     tbind (commitIsolationState E s) (\<lambda>_. treturn s)))))"

section \<open>Breaker decisions\<close>

record breaker_input =
  bri_tenantId :: string
  bri_organizationId :: string
  bri_listenerId :: string
  bri_listenerVersion :: string
  bri_rulePackRef :: string
  bri_rulePackVersion :: string
  bri_observedStreamOffsets :: "stream_watermark list"
  bri_decision :: breaker_isolation_decision
  bri_decisionReasonCode :: string
  bri_decisionReason :: string
  bri_targetScopeType :: isolation_scope_type
  bri_targetScopeId :: string
  bri_agentId :: "string option"
  bri_runId :: "string option"
  bri_gatewayId :: "string option"
  bri_resourceRef :: "string option"
  bri_actionClass :: "string option"
  bri_matchedBreakerRuleIds :: "string list"
  bri_supportingEventRefs :: "string list"
  bri_missingEventRefs :: "string list"
  bri_proofGapRefs :: "string list"
  bri_decisionExpiresAt :: "string option"

definition breaker_input_valid :: "'e env_scheme \<Rightarrow> breaker_input \<Rightarrow> bool" where
  "breaker_input_valid E i \<longleftrightarrow>
     list_all (\<lambda>x. 1 \<le> length x) [bri_tenantId i, bri_organizationId i, bri_listenerId i, bri_listenerVersion i,
       bri_rulePackRef i, bri_rulePackVersion i, bri_decisionReason i, bri_targetScopeId i] \<and>
     list_all (stream_watermark_valid E) (bri_observedStreamOffsets i) \<and> 1 \<le> length (bri_observedStreamOffsets i) \<and>
     2 \<le> length (bri_decisionReasonCode i) \<and>
     list_all (opt_ok (\<lambda>x. 1 \<le> length x)) [bri_agentId i, bri_runId i, bri_gatewayId i, bri_resourceRef i, bri_actionClass i] \<and>
     list_all (list_all (\<lambda>x. 1 \<le> length x)) [bri_matchedBreakerRuleIds i, bri_supportingEventRefs i,
       bri_missingEventRefs i, bri_proofGapRefs i] \<and>
     opt_ok (iso_ok E) (bri_decisionExpiresAt i)"

fun assertObservedWatermarks :: "stream_watermark list \<Rightarrow> unit wtr" where
  "assertObservedWatermarks [] = treturn ()"
| "assertObservedWatermarks (m # ms) =
    (if \<not> truthy_ref (sw_observedEventDigest m) then tfail (protocol_error ''breaker_watermark_digest_missing'' 409)
     else tbind (store_get (getStreamEvent (sw_streamId m) (sw_partitionKey m) (sw_observedOffsetEnd m))) (\<lambda>e. case e of
         None \<Rightarrow> tfail (protocol_error ''breaker_watermark_event_missing'' 404)
       | Some x \<Rightarrow> if Some (ev_eventDigest x) \<noteq> sw_observedEventDigest m
           then tfail (protocol_error ''breaker_watermark_digest_mismatch'' 409)
           else assertObservedWatermarks ms))"

definition observed_window_json :: "breaker_input \<Rightarrow> jval" where
  "observed_window_json i = JObj
     [(''observedStreamOffsets'', JArr (map stream_watermark_json (bri_observedStreamOffsets i))),
      (''supportingEventRefs'', JArr (map JStr (bri_supportingEventRefs i))),
      (''missingEventRefs'', JArr (map JStr (bri_missingEventRefs i))),
      (''proofGapRefs'', JArr (map JStr (bri_proofGapRefs i)))]"

fun sequenceRiskScoreFor :: "breaker_isolation_decision \<Rightarrow> jnum" where
  "sequenceRiskScoreFor BID_halted = NumInt 1"
| "sequenceRiskScoreFor BID_revoked = NumInt 1"
| "sequenceRiskScoreFor BID_quarantined = NumFrac ''0.8''"
| "sequenceRiskScoreFor BID_state_suspect = NumFrac ''0.6''"
| "sequenceRiskScoreFor BID_review_only = NumFrac ''0.4''"
| "sequenceRiskScoreFor BID_rate_limited = NumFrac ''0.35''"

text \<open>The isolation state of a decision: the same word in the two enumerations.\<close>

fun isolation_of_decision :: "breaker_isolation_decision \<Rightarrow> isolation_value" where
  "isolation_of_decision BID_review_only = IV_review_only"
| "isolation_of_decision BID_rate_limited = IV_rate_limited"
| "isolation_of_decision BID_quarantined = IV_quarantined"
| "isolation_of_decision BID_halted = IV_halted"
| "isolation_of_decision BID_revoked = IV_revoked"
| "isolation_of_decision BID_state_suspect = IV_state_suspect"

definition breaker_decision_of ::
  "breaker_input \<Rightarrow> string \<Rightarrow> string \<Rightarrow> string \<Rightarrow> string \<Rightarrow> breaker_decision" where
  "breaker_decision_of i did iid windowDigest now =
     \<lparr>schemaVersion = PROTOCOL_VERSION, tenantId = bri_tenantId i, organizationId = bri_organizationId i,
      createdAt = now, bd_breakerDecisionId = did, bd_listenerId = bri_listenerId i,
      bd_listenerVersion = bri_listenerVersion i, bd_rulePackRef = bri_rulePackRef i,
      bd_rulePackVersion = bri_rulePackVersion i, bd_observedStreamOffsets = bri_observedStreamOffsets i,
      bd_observedWindowDigest = windowDigest, bd_decision = bri_decision i,
      bd_decisionReasonCode = bri_decisionReasonCode i, bd_decisionReason = bri_decisionReason i,
      bd_targetScopeType = bri_targetScopeType i, bd_targetScopeId = bri_targetScopeId i,
      bd_createdIsolationStateId = iid, bd_agentId = bri_agentId i, bd_runId = bri_runId i,
      bd_gatewayId = bri_gatewayId i, bd_resourceRef = bri_resourceRef i, bd_actionClass = bri_actionClass i,
      bd_sequenceRiskScore = sequenceRiskScoreFor (bri_decision i),
      bd_matchedBreakerRuleIds = bri_matchedBreakerRuleIds i, bd_supportingEventRefs = bri_supportingEventRefs i,
      bd_missingEventRefs = bri_missingEventRefs i, bd_proofGapRefs = bri_proofGapRefs i,
      bd_decisionEffectiveAt = now, bd_decisionExpiresAt = bri_decisionExpiresAt i, bd_watermarkAtDecision = now\<rparr>"

definition breaker_state_of :: "breaker_input \<Rightarrow> string \<Rightarrow> string \<Rightarrow> string \<Rightarrow> isolation_state" where
  "breaker_state_of i did iid now =
     \<lparr>schemaVersion = PROTOCOL_VERSION, tenantId = bri_tenantId i, organizationId = bri_organizationId i,
      createdAt = now, is_isolationStateId = iid, is_scopeType = bri_targetScopeType i,
      is_scopeId = bri_targetScopeId i, is_state = isolation_of_decision (bri_decision i),
      is_reasonCode = bri_decisionReasonCode i, is_reasonSummary = bri_decisionReason i,
      is_sourceDecisionRef = did, is_effectiveAt = now, is_expiresAt = bri_decisionExpiresAt i,
      is_clearedAt = None, is_observedStreamOffsets = bri_observedStreamOffsets i, is_version = 1\<rparr>"

definition breakerDecisionEvents :: "breaker_decision \<Rightarrow> isolation_state \<Rightarrow> event_descriptor list" where
  "breakerDecisionEvents d s =
     [\<lparr>ed_source = protocol_base.truncate d, ed_eventType = ET_breaker_decision_recorded,
       ed_objectRefs = [bd_breakerDecisionId d, is_isolationStateId s],
       ed_payload = [(''decision'', JStr (breaker_isolation_decision_str (bd_decision d))),
         (''decisionReasonCode'', JStr (bd_decisionReasonCode d)),
         (''targetScopeType'', JStr (isolation_scope_type_str (bd_targetScopeType d))),
         (''targetScopeId'', JStr (bd_targetScopeId d)), (''observedWindowDigest'', JStr (bd_observedWindowDigest d))],
       ed_streamRefs = None\<rparr>,
      \<lparr>ed_source = protocol_base.truncate s, ed_eventType = ET_isolation_changed,
       ed_objectRefs = [is_isolationStateId s, isolation_scope_type_str (is_scopeType s), is_scopeId s],
       ed_payload = [(''state'', JStr (isolation_value_str (is_state s))), (''reasonCode'', JStr (is_reasonCode s)),
         (''sourceDecisionRef'', JStr (is_sourceDecisionRef s)),
         (''observedStreamOffsets'', JArr (map stream_watermark_json (is_observedStreamOffsets s)))],
       ed_streamRefs = None\<rparr>]"

definition createBreakerDecision :: "kernel_env \<Rightarrow> breaker_input \<Rightarrow> (breaker_decision \<times> isolation_state) wtr" where
  "createBreakerDecision E input =
     tbind (tparse (breaker_input_valid E) input) (\<lambda>i.
     tbind (assertObservedWatermarks (bri_observedStreamOffsets i)) (\<lambda>_.
     tbind (createId E ''brk'') (\<lambda>did.
     tbind (createId E ''iso'') (\<lambda>iid.
     tbind (nowIso E) (\<lambda>now.
     tbind (tparse (breaker_decision_valid E)
        (breaker_decision_of i did iid (digestCanonical E (observed_window_json i)) now)) (\<lambda>d.
     tbind (tparse (isolation_state_valid E) (breaker_state_of i did iid now)) (\<lambda>s.
     tbind (commitRecordsWithEvents E [PR_breaker_decision d, PR_isolation_state s] (breakerDecisionEvents d s)
        (no_options\<lparr>co_isolationEntries := [isolationStateIndexEntry s]\<rparr>)) (\<lambda>_. treturn (d, s)))))))))"

lemma isolation_of_decision_str:
  "isolation_value_str (isolation_of_decision d) = breaker_isolation_decision_str d"
  by (cases d) simp_all

lemma watermarks_Inr:
  "assertObservedWatermarks ms w = (Inr x, w') \<longleftrightarrow> w' = w \<and>
     (\<forall>m \<in> set ms. truthy_ref (sw_observedEventDigest m) \<and>
        (\<exists>e. getStreamEvent (sw_streamId m) (sw_partitionKey m) (sw_observedOffsetEnd m) (w_store w) = Some e \<and>
           sw_observedEventDigest m = Some (ev_eventDigest e)))"
  by (induction ms) (auto split: option.splits if_splits simp: tbind_Inr_iff)

section \<open>The current state of a scope\<close>

text \<open>A state is current in a store when the index of its scope leads to it.\<close>

definition current_isolation :: "isolation_state \<Rightarrow> pstore \<Rightarrow> bool" where
  "current_isolation i s \<longleftrightarrow> is_clearedAt i = None \<and>
     (\<exists>entry. map_of (s_isolation s) (isolationScopeKey (state_scope i)) = Some entry \<and>
        ii_isolationScopeKey entry = isolationScopeKey (state_scope i) \<and> ii_isolationStateId entry = is_isolationStateId i) \<and>
     find_payload as_isolation_state OT_isolation_state (is_isolationStateId i) s = Some i"

lemma current_isolation_listed:
  assumes "current_isolation i s" "isolationScopeKey (state_scope i) \<in> isolationScopeKey ` set refs"
  shows "i \<in> set (listIsolationStates refs s)"
proof -
  obtain entry where entry: "(isolationScopeKey (state_scope i), entry) \<in> set (s_isolation s)"
    "ii_isolationScopeKey entry = isolationScopeKey (state_scope i)" "ii_isolationStateId entry = is_isolationStateId i"
    using assms(1) by (auto simp: current_isolation_def dest: map_of_SomeD)
  have "isolation_payload (getRecord OT_isolation_state (ii_isolationStateId entry) s) = Some i"
    using assms(1) entry(3)
    by (auto simp: current_isolation_def find_payload_def isolation_payload_def as_isolation_state_def
        split: option.splits protocol_record.splits)
  moreover have "ii_isolationScopeKey entry \<in> isolationScopeKey ` set refs" "is_clearedAt i = None"
    using assms entry(2) by (simp_all add: current_isolation_def)
  ultimately show ?thesis
    unfolding listIsolationStates_def set_concat set_map using entry(1)
    by (intro UnionI[of "set [i]"] image_eqI[of _ set "[i]"] image_eqI[of _ _ "(isolationScopeKey (state_scope i), entry)"]) simp_all
qed

lemma commit_isolation_current:
  assumes "disciplined E" "commitRecordsWithEvents E rs ds opts w = (Inr es, w')" "co_isolationEntries opts = [isolationStateIndexEntry i]"
    "PR_isolation_state i \<in> set rs" "\<And>x. x \<in> set rs \<Longrightarrow> record_type x = OT_isolation_state \<Longrightarrow> x = PR_isolation_state i"
    "is_clearedAt i = None"
  shows "current_isolation i (w_store w')"
proof -
  have "find_payload as_isolation_state OT_isolation_state (is_isolationStateId i) (w_store w') = Some i"
    using commitRecords_stores[OF assms(1,2,4)] assms(5) by (simp add: find_payload_def)
  moreover obtain rs' s where "commitProtocolRecords (commit_of (map (buildRecord E) rs') es opts) s = (CR_committed, w_store w')"
    using commitRecords_committed[OF assms(1,2)] by blast
  then have "map_of (s_isolation (w_store w')) (isolationScopeKey (state_scope i)) = Some (isolationStateIndexEntry i)"
    using assms(3) by (simp add: commitProtocolRecords_committedD(12) map_of_update isolationStateIndexEntry_def)
  ultimately show ?thesis using assms(6) by (auto simp: current_isolation_def isolationStateIndexEntry_def)
qed

lemma createIsolation_current:
  assumes "disciplined E" "createIsolationState E i w = (Inr s, w')"
  shows "current_isolation s (w_store w') \<and> is_state s = ini_state i \<and> is_scopeType s = ini_scopeType i \<and>
     is_scopeId s = ini_scopeId i \<and> tenantId s = ini_tenantId i \<and> organizationId s = ini_organizationId i"
proof -
  obtain now iid w1 es where s: "s = isolation_state_of i now iid"
    and com: "commitRecordsWithEvents E [PR_isolation_state s] (isolationStateEvents s)
       (no_options\<lparr>co_isolationEntries := [isolationStateIndexEntry s]\<rparr>) w1 = (Inr es, w')"
    using assms(2) by (auto simp: createIsolationState_def commitIsolationState_def elim!: tbind_InrE)
  have "current_isolation s (w_store w')"
    by (rule commit_isolation_current[OF assms(1) com]) (simp_all add: s isolation_state_of_def)
  then show ?thesis by (simp add: s isolation_state_of_def)
qed

lemma createBreaker_current:
  assumes "disciplined E" "createBreakerDecision E i w = (Inr (d, s), w')"
  shows "current_isolation s (w_store w') \<and> is_state s = isolation_of_decision (bri_decision i) \<and>
     is_sourceDecisionRef s = bd_breakerDecisionId d \<and> bd_createdIsolationStateId d = is_isolationStateId s \<and>
     (\<forall>m \<in> set (bri_observedStreamOffsets i). \<exists>e.
        getStreamEvent (sw_streamId m) (sw_partitionKey m) (sw_observedOffsetEnd m) (w_store w) = Some e \<and>
        sw_observedEventDigest m = Some (ev_eventDigest e))"
proof -
  obtain did iid digest now w1 es where s: "s = breaker_state_of i did iid now" and d: "d = breaker_decision_of i did iid digest now"
    and marks: "assertObservedWatermarks (bri_observedStreamOffsets i) w = (Inr (), w)"
    and com: "commitRecordsWithEvents E [PR_breaker_decision d, PR_isolation_state s] (breakerDecisionEvents d s)
       (no_options\<lparr>co_isolationEntries := [isolationStateIndexEntry s]\<rparr>) w1 = (Inr es, w')"
    using assms(2) by (auto simp: createBreakerDecision_def watermarks_Inr elim!: tbind_InrE)
  have "current_isolation s (w_store w')"
    by (rule commit_isolation_current[OF assms(1) com]) (auto simp: s breaker_state_of_def)
  then show ?thesis using marks by (auto simp: s d breaker_state_of_def breaker_decision_of_def watermarks_Inr)
qed

section \<open>What a current state closes\<close>

lemma contract_scope_keys:
  "isolationScopeKey r \<in> isolationScopeKey ` set (isolationScopeRefsForContract c) \<Longrightarrow>
     isolationScopeKey r \<in> isolationScopeKey ` set (isolationScopeRefsForContract c @ isolationScopeRefsForGreenlight g)"
  by auto

lemma gate_closed:
  assumes "disciplined E" "current_isolation i (w_store w)" "blocks_gateway i"
    and c: "find_payload as_action_contract OT_action_contract (gwi_actionContractId j) (w_store w) = Some c"
      "isolationScopeKey (state_scope i) \<in> isolationScopeKey ` set (isolationScopeRefsForContract c)"
    and run: "gatewayCheck E j w = (Inr r, w')"
  shows "gca_gateDecision (gwr_gateAttempt r) = GD_refused \<and> gwr_mutationAttempt r = None"
proof -
  have "gca_gateDecision (gwr_gateAttempt r) \<noteq> GD_passed"
  proof
    assume "gca_gateDecision (gwr_gateAttempt r) = GD_passed"
    from gatewayCheck_passed[OF assms(1) run this] c(1) obtain g now where "gate_constraints E j c g now (w_store w)" by auto
    then have "\<forall>x \<in> set (gate_isolation c g (w_store w)). \<not> blocks_gateway x" by (simp add: gate_constraints_def)
    moreover have "i \<in> set (gate_isolation c g (w_store w))"
      unfolding gate_isolation_def by (rule current_isolation_listed[OF assms(2) contract_scope_keys[OF c(2)]])
    ultimately show False using assms(3) by blast
  qed
  then show ?thesis
    using gatewayCheck_result[OF assms(1) run]
    by (cases "gca_gateDecision (gwr_gateAttempt r)") (auto simp: result_agrees_def Let_def)
qed

lemma policy_closed:
  assumes "disciplined E" "current_isolation i (w_store w)" "blocks_policy i"
    and c: "find_payload as_action_contract OT_action_contract (ep_actionContractId j) (w_store w) = Some c"
      "isolationScopeKey (state_scope i) \<in> isolationScopeKey ` set (isolationScopeRefsForContract c)"
    and run: "evaluatePolicy E j w = (Inr resp, w')"
  shows "pe_greenlight resp = None"
proof (rule ccontr)
  assume "pe_greenlight resp \<noteq> None"
  then obtain g where "pe_greenlight resp = Some g" by blast
  from evaluatePolicy_greenlight[OF assms(1) run this] c(1) obtain v now where
    "policy_constraints_met c v now (w_store w) \<or> review_only_isolation c (w_store w)" by auto
  moreover have "i \<in> set (listIsolationStates (isolationScopeRefsForContract c) (w_store w))"
    by (rule current_isolation_listed[OF assms(2) c(2)])
  ultimately show False
    using assms(3) by (auto simp: policy_constraints_met_def not_isolated_def review_only_isolation_def blocks_policy_def)
qed

end
