(* ===== verification/Reconcile.thy ===== *)
theory Reconcile
  imports Isolation
begin

text \<open>
  Reconciliation: what the protected surface reports about a mutation attempt is
  recorded, the surface's claim and the ledger entry become terminal, and an
  unknown outcome leaves a proof gap and, on request, an isolated resource
  (\<open>operation-lifecycle/transitions.ts\<close>).
\<close>

section \<open>Input and context\<close>

record reconcile_input =
  rin_mutationAttemptId :: string
  rin_idempotencyKey :: string
  rin_observedDownstreamStatus :: downstream_status
  rin_downstreamRetryability :: downstream_retryability
  rin_observedSurfaceOperationRef :: "string option"
  rin_providerRequestRef :: "string option"
  rin_providerOperationRef :: "string option"
  rin_redactedDiagnosticsDigest :: "string option"
  rin_traceRef :: "string option"
  rin_spanRef :: "string option"
  rin_diagnosticsRedactionPosture :: downstream_diagnostics_redaction_posture
  rin_evidenceRefs :: "string list"
  rin_resolvedProofGapIds :: "string list"
  rin_orphanIsolationRequested :: bool

definition reconcile_input_valid :: "reconcile_input \<Rightarrow> bool" where
  "reconcile_input_valid i \<longleftrightarrow>
     1 \<le> length (rin_mutationAttemptId i) \<and> 1 \<le> length (rin_idempotencyKey i) \<and>
     list_all (opt_ok (\<lambda>x. 1 \<le> length x)) [rin_observedSurfaceOperationRef i, rin_providerRequestRef i,
       rin_providerOperationRef i, rin_traceRef i, rin_spanRef i] \<and>
     opt_ok digest_ok (rin_redactedDiagnosticsDigest i) \<and>
     list_all (\<lambda>x. 1 \<le> length x) (rin_resolvedProofGapIds i)"

definition assertReconciliationInputBoundary :: "reconcile_input \<Rightarrow> unit wtr" where
  "assertReconciliationInputBoundary i =
    (if rin_observedDownstreamStatus i = DS_unknown \<and> rin_resolvedProofGapIds i \<noteq> []
     then tfail (protocol_error ''invalid_transition_unknown_reconciliation_cannot_resolve_proof_gap'' 409)
     else treturn ())"

record reconcile_context =
  rcx_input :: reconcile_input
  rcx_mutation :: mutation_attempt
  rcx_contract :: action_contract
  rcx_now :: string
  rcx_lifecycle :: lifecycle_mapping

definition getSurfaceOperationReconciliationContext :: "kernel_env \<Rightarrow> reconcile_input \<Rightarrow> reconcile_context wtr" where
  "getSurfaceOperationReconciliationContext E i =
     tbind (requiredPayload as_mutation_attempt OT_mutation_attempt (rin_mutationAttemptId i) ''mutation_attempt_missing'') (\<lambda>m.
     tbind (requiredPayload as_action_contract OT_action_contract (ma_actionContractId m) ''contract_missing'') (\<lambda>c.
     tbind (require_guard (guardSurfaceOperationReconciliation m (rin_mutationAttemptId i) (rin_idempotencyKey i)
        (rin_observedSurfaceOperationRef i))) (\<lambda>_.
     tbind (nowIso E) (\<lambda>now.
     treturn \<lparr>rcx_input = i, rcx_mutation = m, rcx_contract = c, rcx_now = now,
       rcx_lifecycle = operationLifecycleFor (rin_observedDownstreamStatus i)\<rparr>))))"

section \<open>The reconciliation\<close>

definition reconciliation_of :: "reconcile_context \<Rightarrow> string \<Rightarrow> surface_operation_reconciliation" where
  "reconciliation_of x rid = (let i = rcx_input x; m = rcx_mutation x in
     \<lparr>schemaVersion = PROTOCOL_VERSION, tenantId = tenantId m, organizationId = organizationId m,
      createdAt = rcx_now x, sr_reconciliationId = rid, sr_mutationAttemptId = ma_mutationAttemptId m,
      sr_gateAttemptId = ma_gateAttemptId m, sr_actionContractId = ma_actionContractId m,
      sr_greenlightId = ma_greenlightId m, sr_gatewayId = ma_gatewayId m, sr_idempotencyKey = ma_idempotencyKey m,
      sr_surfaceOperationRef = or_else (rin_observedSurfaceOperationRef i) (ma_surfaceOperationRef m),
      sr_previousMutationOutcome = ma_outcome m, sr_observedDownstreamStatus = rin_observedDownstreamStatus i,
      sr_downstreamRetryability = rin_downstreamRetryability i, sr_providerRequestRef = rin_providerRequestRef i,
      sr_providerOperationRef = rin_providerOperationRef i,
      sr_redactedDiagnosticsDigest = rin_redactedDiagnosticsDigest i, sr_traceRef = rin_traceRef i,
      sr_spanRef = rin_spanRef i, sr_diagnosticsRedactionPosture = rin_diagnosticsRedactionPosture i,
      sr_observedAt = rcx_now x, sr_evidenceRefs = rin_evidenceRefs i,
      sr_resolvedProofGapIds = rin_resolvedProofGapIds i,
      sr_reconciliationStatus = om_reconciliationStatus (rcx_lifecycle x),
      sr_finalityStatus = om_finalityStatus (rcx_lifecycle x)\<rparr>)"

definition buildSurfaceOperationReconciliation ::
  "kernel_env \<Rightarrow> reconcile_context \<Rightarrow> surface_operation_reconciliation wtr" where
  "buildSurfaceOperationReconciliation E x =
     tbind (createId E ''rec'') (\<lambda>rid.
     tparse (surface_operation_reconciliation_valid E) (reconciliation_of x rid))"

section \<open>What it changes\<close>

definition currentClaimForContract :: "kernel_env \<Rightarrow> action_contract \<Rightarrow> pstore \<Rightarrow> surface_operation_claim option" where
  "currentClaimForContract E c s = payload_of as_protected_surface_operation_claim
     (getCurrentProtectedSurfaceOperationClaim (protectedSurfaceOperationClaimKeyDigest E (protectedSurfaceOperationClaimKey c)) s)"

definition currentIdempotencyLedgerForContract ::
  "kernel_env \<Rightarrow> action_contract \<Rightarrow> pstore \<Rightarrow> idempotency_ledger_entry option" where
  "currentIdempotencyLedgerForContract E c s =
    (case payload_of as_idempotency_ledger_entry
       (getCurrentIdempotencyLedgerEntry (idempotencyLedgerKeyDigest E (idempotencyLedgerKey c)) s) of
       Some e \<Rightarrow> Some e
     | None \<Rightarrow> last_opt (payloads as_idempotency_ledger_entry
         (listRecordsByActionContract OT_idempotency_ledger_entry (ac_actionContractId c) (scope_of c) s)))"

definition receiptIdForMutation :: "mutation_attempt \<Rightarrow> pstore \<Rightarrow> string option" where
  "receiptIdForMutation m s = map_option rc_receiptId
     (payload_of as_receipt (getReceiptByMutationAttemptId (ma_mutationAttemptId m) s))"

definition buildOrphanIsolationState ::
  "kernel_env \<Rightarrow> action_contract \<Rightarrow> surface_operation_reconciliation \<Rightarrow> string \<Rightarrow> isolation_state wtr" where
  "buildOrphanIsolationState E c r now =
     tbind (createId E ''iso'') (\<lambda>iid.
     tparse (isolation_state_valid E)
       \<lparr>schemaVersion = PROTOCOL_VERSION, tenantId = tenantId c, organizationId = organizationId c, createdAt = now,
        is_isolationStateId = iid, is_scopeType = IST_resource, is_scopeId = ac_resourceRef c,
        is_state = IV_state_suspect, is_reasonCode = ''orphan_mitigation_required'',
        is_reasonSummary = ''Protected surface finality is unknown after a gateway-passed mutation attempt.'',
        is_sourceDecisionRef = sr_reconciliationId r, is_effectiveAt = now, is_expiresAt = None,
        is_clearedAt = None, is_observedStreamOffsets = [], is_version = 0\<rparr>)"

text \<open>An optional step: the builder runs only when the condition holds.\<close>

definition when_some :: "'a option \<Rightarrow> bool \<Rightarrow> ('a \<Rightarrow> 'b wtr) \<Rightarrow> 'b option wtr" where
  "when_some a c f = (case a of
       Some x \<Rightarrow> if c then tbind (f x) (\<lambda>y. treturn (Some y)) else treturn None
     | None \<Rightarrow> treturn None)"

record evidence_plan =
  evp_activeClaim :: "surface_operation_claim option"
  evp_terminalClaim :: "surface_operation_claim option"
  evp_ledgerUpdate :: "idempotency_ledger_entry option"
  evp_isolation :: "isolation_state option"
  evp_resolvedGaps :: "proof_gap list"
  evp_createdGap :: "proof_gap option"

definition claim_reason :: "reconcile_context \<Rightarrow> string" where
  "claim_reason x = ref_or (om_proofGapReasonCode (rcx_lifecycle x))
     (downstream_status_str (rin_observedDownstreamStatus (rcx_input x)))"

definition buildSurfaceOperationEvidencePlan ::
  "kernel_env \<Rightarrow> reconcile_context \<Rightarrow> surface_operation_reconciliation \<Rightarrow> evidence_plan wtr" where
  "buildSurfaceOperationEvidencePlan E x r =
    (let i = rcx_input x; m = rcx_mutation x; c = rcx_contract x; now = rcx_now x; l = rcx_lifecycle x in
     tbind (resolveProofGaps E (rin_resolvedProofGapIds i) r now) (\<lambda>resolved.
     tbind (store_get (currentClaimForContract E c)) (\<lambda>activeClaim.
     tbind (store_get (currentIdempotencyLedgerForContract E c)) (\<lambda>ledger.
     tbind (when_some activeClaim (om_claimState l \<noteq> OCS_active) (\<lambda>k.
        buildTerminalProtectedSurfaceOperationClaim E k (om_claimState l) now (claim_reason x) (sr_reconciliationId r))) (\<lambda>terminal.
     tbind (when_some ledger (om_claimState l \<noteq> OCS_active) (\<lambda>e. buildIdempotencyLedgerTerminal E e r now)) (\<lambda>ledgerUpdate.
     tbind (when_some (Some ()) (om_createIsolation l \<and> rin_orphanIsolationRequested i)
        (\<lambda>_. buildOrphanIsolationState E c r now)) (\<lambda>isolation.
     tbind (store_get (receiptIdForMutation m)) (\<lambda>receiptId.
     tbind (when_some (om_proofGapReasonCode l) True (\<lambda>code. buildProofGap E c GP_mutation ''downstream_finality'' code
        \<lparr>gpr_gateAttemptId = Some (ma_gateAttemptId m), gpr_mutationAttemptId = Some (ma_mutationAttemptId m),
         gpr_receiptId = receiptId\<rparr>)) (\<lambda>gap.
     treturn \<lparr>evp_activeClaim = activeClaim, evp_terminalClaim = terminal, evp_ledgerUpdate = ledgerUpdate,
       evp_isolation = isolation, evp_resolvedGaps = resolved, evp_createdGap = gap\<rparr>)))))))))"

definition reconciliation_records :: "surface_operation_reconciliation \<Rightarrow> evidence_plan \<Rightarrow> protocol_record list" where
  "reconciliation_records r p = PR_surface_operation_reconciliation r # map PR_proof_gap (evp_resolvedGaps p) @
     opt_list (map_option PR_proof_gap (evp_createdGap p)) @
     opt_list (map_option PR_protected_surface_operation_claim (evp_terminalClaim p)) @
     opt_list (map_option PR_idempotency_ledger_entry (evp_ledgerUpdate p)) @
     opt_list (map_option PR_isolation_state (evp_isolation p))"

definition reconciliation_events :: "action_contract \<Rightarrow> surface_operation_reconciliation \<Rightarrow> evidence_plan \<Rightarrow> event_descriptor list" where
  "reconciliation_events c r p =
    (let refs = Some (actionLifecycleStreamRefs c) in
     [\<lparr>ed_source = protocol_base.truncate r, ed_eventType = ET_surface_operation_reconciled,
       ed_objectRefs = [sr_reconciliationId r, sr_mutationAttemptId r, sr_actionContractId r],
       ed_payload = [(''observedDownstreamStatus'', JStr (downstream_status_str (sr_observedDownstreamStatus r))),
         (''downstreamRetryability'', JStr (downstream_retryability_str (sr_downstreamRetryability r))),
         (''reconciliationStatus'', JStr (reconciliation_status_str (sr_reconciliationStatus r))),
         (''finalityStatus'', JStr (finality_status_str (sr_finalityStatus r))),
         (''resolvedProofGapIds'', JArr (map JStr (sr_resolvedProofGapIds r)))],
       ed_streamRefs = refs\<rparr>] @
     opt_list (map_option (\<lambda>g.
      \<lparr>ed_source = protocol_base.truncate g, ed_eventType = ET_proof_gap_recorded,
       ed_objectRefs = [pg_proofGapId g, sr_mutationAttemptId r, sr_actionContractId r],
       ed_payload = [(''reasonCode'', JStr (pg_reasonCode g)),
         (''finalityImpact'', JStr (finality_impact_str (pg_finalityImpact g))),
         (''reconciliationId'', JStr (sr_reconciliationId r))],
       ed_streamRefs = refs\<rparr>) (evp_createdGap p)) @
     opt_list (map_option (\<lambda>k.
      \<lparr>ed_source = protocol_base.truncate k, ed_eventType = ET_protected_surface_operation_released,
       ed_objectRefs = [oc_protectedSurfaceOperationClaimId k, ref_or (oc_mutationAttemptId k) (oc_gateAttemptId k),
         sr_actionContractId r],
       ed_payload = [(''claimState'', JStr (operation_claim_state_str (oc_claimState k))),
         (''claimKeyDigest'', JStr (oc_claimKeyDigest k)), (''releasedByRef'', j_opt JStr (oc_releasedByRef k))],
       ed_streamRefs = refs\<rparr>) (evp_terminalClaim p)) @
     opt_list (map_option (\<lambda>s.
      \<lparr>ed_source = protocol_base.truncate s, ed_eventType = ET_isolation_changed,
       ed_objectRefs = [is_isolationStateId s, isolation_scope_type_str (is_scopeType s), is_scopeId s, sr_actionContractId r],
       ed_payload = [(''state'', JStr (isolation_value_str (is_state s))), (''reasonCode'', JStr (is_reasonCode s)),
         (''sourceDecisionRef'', JStr (is_sourceDecisionRef s))],
       ed_streamRefs = refs\<rparr>) (evp_isolation p)))"

definition reconciliation_options :: "reconcile_context \<Rightarrow> evidence_plan \<Rightarrow> commit_options" where
  "reconciliation_options x p = no_options\<lparr>
     co_operationClaims := (if om_keepClaimBlocking (rcx_lifecycle x)
       then opt_list (map_option (\<lambda>k. operationClaimIndexEntry k (rcx_now x)) (evp_terminalClaim p)) else []),
     co_operationClaimReleases := (if evp_activeClaim p \<noteq> None \<and> evp_terminalClaim p \<noteq> None \<and>
         \<not> om_keepClaimBlocking (rcx_lifecycle x)
       then [oc_claimKeyDigest (the (evp_activeClaim p))] else []),
     co_ledgerEntries := opt_list (map_option idempotencyLedgerIndexEntry (evp_ledgerUpdate p)),
     co_isolationEntries := opt_list (map_option isolationStateIndexEntry (evp_isolation p))\<rparr>"

definition commitSurfaceOperationReconciliation ::
  "kernel_env \<Rightarrow> reconcile_context \<Rightarrow> surface_operation_reconciliation \<Rightarrow> evidence_plan \<Rightarrow> unit wtr" where
  "commitSurfaceOperationReconciliation E x r p =
     tbind (commitRecordsWithEvents E (reconciliation_records r p) (reconciliation_events (rcx_contract x) r p)
       (reconciliation_options x p)) (\<lambda>_. treturn ())"

record reconcile_result =
  rr_reconciliation :: surface_operation_reconciliation
  rr_resolvedProofGaps :: "proof_gap list"
  rr_createdProofGap :: "proof_gap option"

definition reconcileSurfaceOperation :: "kernel_env \<Rightarrow> reconcile_input \<Rightarrow> reconcile_result wtr" where
  "reconcileSurfaceOperation E input =
     tbind (tparse reconcile_input_valid input) (\<lambda>i.
     tbind (assertReconciliationInputBoundary i) (\<lambda>_.
     tbind (getSurfaceOperationReconciliationContext E i) (\<lambda>x.
     tbind (buildSurfaceOperationReconciliation E x) (\<lambda>r.
     tbind (buildSurfaceOperationEvidencePlan E x r) (\<lambda>p.
     tbind (commitSurfaceOperationReconciliation E x r p) (\<lambda>_.
     treturn \<lparr>rr_reconciliation = r, rr_resolvedProofGaps = evp_resolvedGaps p, rr_createdProofGap = evp_createdGap p\<rparr>))))))"

end
