(* ===== verification/Reconcile_Laws.thy ===== *)
theory Reconcile_Laws
  imports Reconcile
begin

text \<open>
  What a reconciliation does to the surface's claim, to the proof gaps and to the
  resource, and what follows for later checks of the gate.
\<close>

lemma when_some_Inr:
  "when_some a c f w = (Inr y, w') \<longleftrightarrow> (case a of None \<Rightarrow> y = None \<and> w' = w
     | Some x \<Rightarrow> if c then (\<exists>z. f x w = (Inr z, w') \<and> y = Some z) else y = None \<and> w' = w)"
  by (cases a) (auto simp: when_some_def tbind_Inr_iff)

lemma reads_when_some [reads_only_intros]: "(\<And>x. reads_only (f x)) \<Longrightarrow> reads_only (when_some a c f)"
  unfolding when_some_def by (intro reads_only_intros)

lemma reads_reconcile [reads_only_intros]:
  "reads_only (assertReconciliationInputBoundary i)" "reads_only (getSurfaceOperationReconciliationContext E i)"
  "reads_only (buildSurfaceOperationReconciliation E x)" "reads_only (buildOrphanIsolationState E c r now)"
  unfolding assertReconciliationInputBoundary_def getSurfaceOperationReconciliationContext_def
    buildSurfaceOperationReconciliation_def buildOrphanIsolationState_def
  by (intro reads_only_intros)+

lemma reads_evidence_plan [reads_only_intros]: "reads_only (buildSurfaceOperationEvidencePlan E x r)"
  unfolding buildSurfaceOperationEvidencePlan_def Let_def by (intro reads_only_intros)

lemma moves_reconcile: "disciplined E \<Longrightarrow> store_moves (reconcileSurfaceOperation E i)"
  unfolding reconcileSurfaceOperation_def commitSurfaceOperationReconciliation_def
  by (intro store_moves_intros moves_commitRecords reads_only_moves reads_reconcile reads_evidence_plan)

section \<open>The evidence plan\<close>

text \<open>A plan that follows the lifecycle of the observed status.\<close>

definition plan_follows :: "kernel_env \<Rightarrow> reconcile_context \<Rightarrow> surface_operation_reconciliation \<Rightarrow> evidence_plan \<Rightarrow> pstore \<Rightarrow> bool" where
  "plan_follows E x r p s \<longleftrightarrow>
     (let l = rcx_lifecycle x; c = rcx_contract x; m = rcx_mutation x in
      evp_activeClaim p = currentClaimForContract E c s \<and>
      (case evp_activeClaim p of None \<Rightarrow> evp_terminalClaim p = None
       | Some a \<Rightarrow> (if om_claimState l = OCS_active then evp_terminalClaim p = None
           else \<exists>k. evp_terminalClaim p = Some k \<and> oc_claimState k = om_claimState l \<and>
             oc_claimKeyDigest k = oc_claimKeyDigest a \<and> oc_mutationAttemptId k = oc_mutationAttemptId a \<and>
             oc_protectedSurfaceOperationClaimId k = oc_protectedSurfaceOperationClaimId a)) \<and>
      (case evp_createdGap p of None \<Rightarrow> om_proofGapReasonCode l = None
       | Some g \<Rightarrow> om_proofGapReasonCode l = Some (pg_reasonCode g) \<and> pg_mutationAttemptId g = Some (ma_mutationAttemptId m)) \<and>
      (case evp_isolation p of None \<Rightarrow> \<not> (om_createIsolation l \<and> rin_orphanIsolationRequested (rcx_input x))
       | Some i \<Rightarrow> om_createIsolation l \<and> is_state i = IV_state_suspect \<and> is_clearedAt i = None \<and>
           state_scope i = isolationScopeRef c IST_resource (ac_resourceRef c)) \<and>
      (\<forall>g \<in> set (evp_resolvedGaps p). pg_mutationAttemptId g = Some (sr_mutationAttemptId r) \<and>
         pg_resolvedByRef g = Some (sr_reconciliationId r)) \<and>
      length (evp_resolvedGaps p) = length (rin_resolvedProofGapIds (rcx_input x)))"

lemma orphan_isolation_Inr:
  "buildOrphanIsolationState E c r now w = (Inr i, w') \<Longrightarrow>
     is_state i = IV_state_suspect \<and> is_clearedAt i = None \<and> state_scope i = isolationScopeRef c IST_resource (ac_resourceRef c)"
  by (auto simp: buildOrphanIsolationState_def state_scope_def isolationScopeRef_def elim!: tbind_InrE)

lemma proof_gap_Inr:
  "buildProofGap E c ph ex code refs w = (Inr g, w') \<Longrightarrow>
     pg_reasonCode g = code \<and> pg_mutationAttemptId g = gpr_mutationAttemptId refs"
  by (auto simp: buildProofGap_def elim!: tbind_InrE)

lemma evidence_plan_follows:
  assumes "buildSurfaceOperationEvidencePlan E x r w = (Inr p, w')"
  shows "plan_follows E x r p (w_store w)"
proof -
  let ?l = "rcx_lifecycle x" and ?c = "rcx_contract x"
  obtain gs k e i g w1 w2 w3 w4 rid where
    gs: "resolveProofGaps E (rin_resolvedProofGapIds (rcx_input x)) r (rcx_now x) w = (Inr gs, w1)"
    and k: "when_some (currentClaimForContract E ?c (w_store w1)) (om_claimState ?l \<noteq> OCS_active) (\<lambda>k.
        buildTerminalProtectedSurfaceOperationClaim E k (om_claimState ?l) (rcx_now x) (claim_reason x) (sr_reconciliationId r)) w1 = (Inr k, w2)"
    and i: "when_some (Some ()) (om_createIsolation ?l \<and> rin_orphanIsolationRequested (rcx_input x))
        (\<lambda>_. buildOrphanIsolationState E ?c r (rcx_now x)) w3 = (Inr i, w4)"
    and g: "when_some (om_proofGapReasonCode ?l) True (\<lambda>code. buildProofGap E ?c GP_mutation ''downstream_finality'' code
        \<lparr>gpr_gateAttemptId = Some (ma_gateAttemptId (rcx_mutation x)), gpr_mutationAttemptId = Some (ma_mutationAttemptId (rcx_mutation x)),
         gpr_receiptId = rid\<rparr>) w4 = (Inr g, w')"
    and p: "p = \<lparr>evp_activeClaim = currentClaimForContract E ?c (w_store w1), evp_terminalClaim = k, evp_ledgerUpdate = e,
       evp_isolation = i, evp_resolvedGaps = gs, evp_createdGap = g\<rparr>"
    using assms unfolding buildSurfaceOperationEvidencePlan_def Let_def by (auto elim!: tbind_InrE)
  have w1: "w1 = w" using resolveProofGaps_Inr[OF gs] by simp
  have "case currentClaimForContract E ?c (w_store w1) of None \<Rightarrow> k = None
       | Some a \<Rightarrow> (if om_claimState ?l = OCS_active then k = None
           else \<exists>k'. k = Some k' \<and> oc_claimState k' = om_claimState ?l \<and>
             oc_claimKeyDigest k' = oc_claimKeyDigest a \<and> oc_mutationAttemptId k' = oc_mutationAttemptId a \<and>
             oc_protectedSurfaceOperationClaimId k' = oc_protectedSurfaceOperationClaimId a)"
    using k by (auto simp: when_some_Inr split: option.splits if_splits dest!: terminal_claim_Inr)
  moreover have "case g of None \<Rightarrow> om_proofGapReasonCode ?l = None
       | Some y \<Rightarrow> om_proofGapReasonCode ?l = Some (pg_reasonCode y) \<and> pg_mutationAttemptId y = Some (ma_mutationAttemptId (rcx_mutation x))"
    using g by (auto simp: when_some_Inr split: option.splits if_splits dest!: proof_gap_Inr)
  moreover have "case i of None \<Rightarrow> \<not> (om_createIsolation ?l \<and> rin_orphanIsolationRequested (rcx_input x))
       | Some y \<Rightarrow> om_createIsolation ?l \<and> is_state y = IV_state_suspect \<and> is_clearedAt y = None \<and>
           state_scope y = isolationScopeRef ?c IST_resource (ac_resourceRef ?c)"
    using i by (auto simp: when_some_Inr split: option.splits if_splits dest!: orphan_isolation_Inr)
  ultimately show ?thesis
    using resolveProofGaps_Inr[OF gs] unfolding plan_follows_def Let_def p w1 evidence_plan.simps by blast
qed

section \<open>A reconciliation as a whole\<close>

lemma reconcile_context:
  assumes "reconcileSurfaceOperation E i w = (Inr res, w')"
  obtains m c now rid p es w2 where
    "find_payload as_mutation_attempt OT_mutation_attempt (rin_mutationAttemptId i) (w_store w) = Some m"
    "find_payload as_action_contract OT_action_contract (ma_actionContractId m) (w_store w) = Some c"
    "guardSurfaceOperationReconciliation m (rin_mutationAttemptId i) (rin_idempotencyKey i) (rin_observedSurfaceOperationRef i) = guard_ok"
    "rin_observedDownstreamStatus i = DS_unknown \<Longrightarrow> rin_resolvedProofGapIds i = []"
    "rr_reconciliation res = reconciliation_of \<lparr>rcx_input = i, rcx_mutation = m, rcx_contract = c, rcx_now = now,
       rcx_lifecycle = operationLifecycleFor (rin_observedDownstreamStatus i)\<rparr> rid"
    "plan_follows E \<lparr>rcx_input = i, rcx_mutation = m, rcx_contract = c, rcx_now = now,
       rcx_lifecycle = operationLifecycleFor (rin_observedDownstreamStatus i)\<rparr> (rr_reconciliation res) p (w_store w)"
    "rr_resolvedProofGaps res = evp_resolvedGaps p" "rr_createdProofGap res = evp_createdGap p"
    "commitRecordsWithEvents E (reconciliation_records (rr_reconciliation res) p)
       (reconciliation_events c (rr_reconciliation res) p)
       (reconciliation_options \<lparr>rcx_input = i, rcx_mutation = m, rcx_contract = c, rcx_now = now,
         rcx_lifecycle = operationLifecycleFor (rin_observedDownstreamStatus i)\<rparr> p) w2 = (Inr es, w')"
    "w_store w2 = w_store w"
proof -
  obtain x r p w1 w2 w3 es where boundary: "assertReconciliationInputBoundary i w = (Inr (), w)"
    and x: "getSurfaceOperationReconciliationContext E i w = (Inr x, w1)"
    and r: "buildSurfaceOperationReconciliation E x w1 = (Inr r, w2)"
    and p: "buildSurfaceOperationEvidencePlan E x r w2 = (Inr p, w3)"
    and com: "commitRecordsWithEvents E (reconciliation_records r p) (reconciliation_events (rcx_contract x) r p)
       (reconciliation_options x p) w3 = (Inr es, w')"
    and res: "res = \<lparr>rr_reconciliation = r, rr_resolvedProofGaps = evp_resolvedGaps p, rr_createdProofGap = evp_createdGap p\<rparr>"
    using assms
    by (auto simp: reconcileSurfaceOperation_def commitSurfaceOperationReconciliation_def assertReconciliationInputBoundary_def
        elim!: tbind_InrE split: if_splits)
  obtain m c now w0 where m: "find_payload as_mutation_attempt OT_mutation_attempt (rin_mutationAttemptId i) (w_store w) = Some m"
    and c: "find_payload as_action_contract OT_action_contract (ma_actionContractId m) (w_store w) = Some c"
    and guard: "guardSurfaceOperationReconciliation m (rin_mutationAttemptId i) (rin_idempotencyKey i)
       (rin_observedSurfaceOperationRef i) = guard_ok"
    and x': "x = \<lparr>rcx_input = i, rcx_mutation = m, rcx_contract = c, rcx_now = now,
       rcx_lifecycle = operationLifecycleFor (rin_observedDownstreamStatus i)\<rparr>"
    using x by (auto simp: getSurfaceOperationReconciliationContext_def requiredPayload_Inr require_guard_def guard_ok_def
        elim!: tbind_InrE split: sum.splits)
  obtain rid where rid: "r = reconciliation_of x rid"
    using r by (auto simp: buildSurfaceOperationReconciliation_def elim!: tbind_InrE)
  have st: "w_store w1 = w_store w" "w_store w2 = w_store w" "w_store w3 = w_store w"
    using reads_onlyD[OF reads_reconcile(2) x] reads_onlyD[OF reads_reconcile(3) r] reads_onlyD[OF reads_evidence_plan p] by simp_all
  have follows: "plan_follows E x r p (w_store w)" using evidence_plan_follows[OF p] st by simp
  have unknown: "rin_observedDownstreamStatus i = DS_unknown \<Longrightarrow> rin_resolvedProofGapIds i = []"
    using boundary by (simp add: assertReconciliationInputBoundary_def split: if_splits)
  show ?thesis
    by (rule that[of m c now rid p w3 es]) (use m c guard unknown x' rid follows res com st in simp_all)
qed

text \<open>The claim of the surface after a reconciliation, in the store it was committed to.\<close>

lemma reconcile_claims:
  assumes "disciplined E" "reconcileSurfaceOperation E i w = (Inr res, w')"
    and m: "find_payload as_mutation_attempt OT_mutation_attempt (rin_mutationAttemptId i) (w_store w) = Some m"
      "find_payload as_action_contract OT_action_contract (ma_actionContractId m) (w_store w) = Some c"
      "currentClaimForContract E c (w_store w) = Some k"
  shows "\<exists>s. store_run (w_store w) s \<and> (case rin_observedDownstreamStatus i of
      DS_pending \<Rightarrow> s_claims (w_store w') = s_claims s
    | DS_unknown \<Rightarrow> (\<exists>e. map_of (s_claims (w_store w')) (oc_claimKeyDigest k) = Some e \<and> oi_claimState e = OCS_terminal_unknown)
    | _ \<Rightarrow> map_of (s_claims (w_store w')) (oc_claimKeyDigest k) = None)"
  using assms(2)
proof (rule reconcile_context)
  fix m' c' now rid p es w2
  let ?x = "\<lparr>rcx_input = i, rcx_mutation = m', rcx_contract = c', rcx_now = now,
       rcx_lifecycle = operationLifecycleFor (rin_observedDownstreamStatus i)\<rparr>"
  assume m': "find_payload as_mutation_attempt OT_mutation_attempt (rin_mutationAttemptId i) (w_store w) = Some m'"
      "find_payload as_action_contract OT_action_contract (ma_actionContractId m') (w_store w) = Some c'"
    and p: "plan_follows E ?x (rr_reconciliation res) p (w_store w)"
    and com: "commitRecordsWithEvents E (reconciliation_records (rr_reconciliation res) p)
       (reconciliation_events c' (rr_reconciliation res) p) (reconciliation_options ?x p) w2 = (Inr es, w')"
    and st: "w_store w2 = w_store w"
  have same: "m' = m" "c' = c" using m m' by simp_all
  obtain rs s where run: "store_run (w_store w) s"
    and stored: "commitProtocolRecords (commit_of (map (buildRecord E) rs) es (reconciliation_options ?x p)) s = (CR_committed, w_store w')"
    using commitRecords_committed[OF assms(1) com] st by auto
  note claims = commitProtocolRecords_committedD(10)[OF stored]
  have active: "evp_activeClaim p = Some k" using p m(3) same by (simp add: plan_follows_def Let_def)
  have terminal: "if om_claimState (rcx_lifecycle ?x) = OCS_active then evp_terminalClaim p = None
     else \<exists>k'. evp_terminalClaim p = Some k' \<and> oc_claimState k' = om_claimState (rcx_lifecycle ?x) \<and>
       oc_claimKeyDigest k' = oc_claimKeyDigest k"
    using p unfolding plan_follows_def Let_def active option.case by (auto split: if_splits)
  have "case rin_observedDownstreamStatus i of
      DS_pending \<Rightarrow> s_claims (w_store w') = s_claims s
    | DS_unknown \<Rightarrow> (\<exists>e. map_of (s_claims (w_store w')) (oc_claimKeyDigest k) = Some e \<and> oi_claimState e = OCS_terminal_unknown)
    | _ \<Rightarrow> map_of (s_claims (w_store w')) (oc_claimKeyDigest k) = None"
    using terminal claims active
    by (cases "rin_observedDownstreamStatus i")
      (auto simp: reconciliation_options_def no_options_def operationClaimIndexEntry_def map_of_update delete_all_lookup)
  then show ?thesis using run by blast
qed

text \<open>An unknown outcome with isolation: the resource is closed.\<close>

lemma reconcile_isolates:
  assumes "disciplined E" "reconcileSurfaceOperation E i w = (Inr res, w')" "rin_observedDownstreamStatus i = DS_unknown"
    "rin_orphanIsolationRequested i"
    and m: "find_payload as_mutation_attempt OT_mutation_attempt (rin_mutationAttemptId i) (w_store w) = Some m"
      "find_payload as_action_contract OT_action_contract (ma_actionContractId m) (w_store w) = Some c"
  shows "\<exists>x. current_isolation x (w_store w') \<and> blocks_gateway x \<and> blocks_policy x \<and>
     state_scope x = isolationScopeRef c IST_resource (ac_resourceRef c)"
  using assms(2)
proof (rule reconcile_context)
  fix m' c' now rid p es w2
  let ?x = "\<lparr>rcx_input = i, rcx_mutation = m', rcx_contract = c', rcx_now = now,
       rcx_lifecycle = operationLifecycleFor (rin_observedDownstreamStatus i)\<rparr>"
  assume m': "find_payload as_mutation_attempt OT_mutation_attempt (rin_mutationAttemptId i) (w_store w) = Some m'"
      "find_payload as_action_contract OT_action_contract (ma_actionContractId m') (w_store w) = Some c'"
    and p: "plan_follows E ?x (rr_reconciliation res) p (w_store w)"
    and com: "commitRecordsWithEvents E (reconciliation_records (rr_reconciliation res) p)
       (reconciliation_events c' (rr_reconciliation res) p) (reconciliation_options ?x p) w2 = (Inr es, w')"
  have same: "m' = m" "c' = c" using m m' by simp_all
  obtain x where x: "evp_isolation p = Some x" "is_state x = IV_state_suspect" "is_clearedAt x = None"
    "state_scope x = isolationScopeRef c IST_resource (ac_resourceRef c)"
    using p assms(3,4) same by (cases "evp_isolation p") (auto simp: plan_follows_def Let_def)
  have "current_isolation x (w_store w')"
    by (rule commit_isolation_current[OF assms(1) com])
      (auto simp: reconciliation_options_def no_options_def reconciliation_records_def x opt_list_def split: option.splits)
  then show ?thesis using x by (auto simp: blocks_gateway_def blocks_policy_def)
qed

lemma resource_scope_of_contract:
  assumes "tenantId c' = tenantId c" "organizationId c' = organizationId c" "ac_resourceRef c' = ac_resourceRef c"
  shows "isolationScopeKey (isolationScopeRef c IST_resource (ac_resourceRef c)) \<in>
     isolationScopeKey ` set (isolationScopeRefsForContract c')"
proof -
  have "isolationScopeRef c IST_resource (ac_resourceRef c) = isolationScopeRef c' IST_resource (ac_resourceRef c')"
    using assms by (simp add: isolationScopeRef_def)
  then show ?thesis unfolding isolationScopeRefsForContract_def uniqueIsolationScopeRefs_keys by auto
qed

end
