(* ===== verification/Gateway_Refusals.thy ===== *)
theory Gateway_Refusals
  imports Gateway_Progress
begin

text \<open>
  The gate answers: a check whose constraints do not all hold returns, on a working
  platform and while no other request runs, with a recorded refusal.
\<close>

section \<open>Every reason code is well formed\<close>

definition code_ok :: "string option \<Rightarrow> bool" where
  "code_ok = opt_ok reason_code_ok"

lemma code_ok_simps [simp]: "code_ok None" "code_ok (Some x) \<longleftrightarrow> reason_code_ok x"
  by (simp_all add: code_ok_def)

lemma code_cases:
  "code_ok x \<Longrightarrow> code_ok y \<Longrightarrow> code_ok (if b then x else y)"
  "(z = None \<Longrightarrow> code_ok x) \<Longrightarrow> (\<And>r. z = Some r \<Longrightarrow> code_ok (f r)) \<Longrightarrow> code_ok (case z of None \<Rightarrow> x | Some r \<Rightarrow> f r)"
  by (simp_all split: option.split)

lemma binding_refusal_code: "code_ok (binding_refusal c g p k)"
  unfolding binding_refusal_def Let_def by (simp add: reason_code_ok_def)

lemma drift_code: "code_ok (gdr_reasonCode (checkGatewayPolicyDrift c g x))"
  by (simp add: checkGatewayPolicyDrift_def Let_def reason_code_ok_def split: option.split)

lemma bindings_code:
  "(\<And>b r. code_ok (map_option fst (check b r))) \<Longrightarrow> code_ok (map_option fst (be_failure (evaluate_bindings load inp check bs)))"
proof (induction bs)
  case (Cons b bs)
  then show ?case using Cons.prems[of b "load b"] by (cases "check b (load b)") (simp_all add: Let_def)
qed simp

lemma credential_code: "code_ok (map_option fst (be_failure (evaluateGatewayCredentialBindings c now s)))"
  unfolding evaluateGatewayCredentialBindings_def
  by (intro bindings_code) (simp add: evaluateGatewayCredentialBinding_def reason_code_ok_def split: option.split)

lemma amount_code: "code_ok (map_option fst (evaluateDelegatedAmountBound c ref))"
  by (simp add: evaluateDelegatedAmountBound_def reason_code_ok_def split: option.split jval.split)

lemma authority_code: "code_ok (map_option fst (be_failure (evaluateDelegatedAuthorityBindings c now s)))"
  unfolding evaluateDelegatedAuthorityBindings_def
  by (intro bindings_code) (simp add: evaluateDelegatedAuthorityBinding_def amount_code reason_code_ok_def split: option.split)

lemma coverage_code: "code_ok (map_option fst (probe_coverage_failure p ks))"
  by (induction ks) (simp_all add: reason_code_ok_def split: option.split)

lemma path_code: "code_ok (map_option fst (evaluateRequiredProtectedPathPosture c custody mode posture now))"
  by (simp add: evaluateRequiredProtectedPathPosture_def evaluateGatewayCheckedProbeCoverage_def coverage_code
      reason_code_ok_def split: option.split)

lemma sequence_code: "code_ok (gatewayCheckSequenceDependencyRefusalReason qs)"
proof -
  have "reason_code_ok (''prior_action_'' @ gateway_sequence_status_str q)" for q
    by (cases q) (simp_all add: reason_code_ok_def)
  then show ?thesis
    by (simp add: gatewayCheckSequenceDependencyRefusalReason_def split: option.split)
qed

lemma isolation_code: "length (isolation_value_str v) \<le> 102"
  by (cases v) simp_all

lemma refusal_code: "code_ok (ge_refusal (deriveGatewayConstraintEvaluation E i c g now gid s))"
proof -
  have cascade: "code_ok (gateRefusalReason c g p k is now d a cr pa q)"
    if "code_ok d" "code_ok a" "code_ok cr" "code_ok pa" "code_ok q" for p k "is" d a cr pa q
    unfolding gateRefusalReason_def
  proof (intro code_cases that)
    fix r assume "binding_refusal c g p k = Some r"
    then show "code_ok (Some r)" using binding_refusal_code[of c g p k] by simp
  qed (simp_all add: reason_code_ok_def isolation_code)
  show ?thesis
    unfolding deriveGatewayConstraintEvaluation_def Let_def gateway_evaluation.simps
    by (intro cascade drift_code authority_code credential_code path_code sequence_code)
qed

section \<open>The refusal and its plan\<close>

lemma refusal_id_ok: "platform_ok E \<Longrightarrow> id_ok (''ref_'' @ take 48 (drop 7 (digestCanonical E v)))"
  using toHex_ok(1)[of "env_sha256 E (text_encode (canonicalize v))"]
  by (simp add: id_ok_def digestCanonical_def platform_ok_def)

lemma delivers_gate_refusal:
  assumes "platform_ok E" "contract_fields_ok E c" "greenlight_valid E g" "iso_ok E now"
    "id_ok (gca_gateAttemptId gate)" "reason_code_ok (gca_gateDecisionReasonCode gate)"
  shows "delivers (buildRefusal E (gateway_refusal_draft c g gate now)) (w :: world)
    (\<lambda>r w'. in_organization r c \<and> rf_refusalId r \<noteq> [] \<and> w_store w' = w_store w)"
proof -
  have refs: "1 \<le> length (protocolObjectRef t x)" for t x
    using join_nonempty[of t x] by (simp add: Suc_le_eq)
  show ?thesis
    unfolding buildRefusal_def
  proof (rule delivers_parse)
    show "refusal_valid E ((gateway_refusal_draft c g gate now)\<lparr>
       rf_refusalId := ''ref_'' @ take 48 (drop 7 (digestCanonical E (refusal_seed (gateway_refusal_draft c g gate now)))),
       rf_mutationAttempted := False, rf_authorityCreated := False\<rparr>)"
      using assms(2-) refs refusal_id_ok[OF assms(1)]
      by (simp add: refusal_valid_def gateway_refusal_draft_def Let_def base_valid_def contract_fields_ok_def
          greenlight_valid_def reason_code_ok_def)
  qed (simp add: in_organization_def gateway_refusal_draft_def Let_def)
qed

lemma delivers_refusing_artifacts:
  assumes "platform_ok E" "gate_reads_ok E c g s" "iso_ok E now" "id_ok gid"
    and v: "v = deriveGatewayConstraintEvaluation E i c g now gid s" "ge_refusal v = Some code"
  shows "delivers (buildGateArtifacts E v) (w :: world) (\<lambda>(r, refusal) w'. (\<exists>rf. refusal = Some rf \<and>
       in_organization rf c \<and> rf_refusalId rf \<noteq> []) \<and> w_store w' = w_store w \<and>
     gwr_proofGap r = None \<and> gwr_mutationAttempt r = None \<and> receipt_valid E (gwr_receipt r) \<and>
     rc_mutationAttemptId (gwr_receipt r) = None \<and>
     id_ok (gca_gateAttemptId (gwr_gateAttempt r)) \<and> gca_gateDecision (gwr_gateAttempt r) = GD_refused \<and>
     gca_gateDecisionReasonCode (gwr_gateAttempt r) = code \<and>
     in_organization (gwr_gateAttempt r) c \<and> in_organization (gwr_receipt r) c)"
proof -
  have c: "ge_contract v = c" "ge_greenlight v = g" "ge_now v = now" "ge_gateAttemptId v = gid" using v(1) by simp_all
  have code: "reason_code_ok code" using refusal_code[of E i c g now gid s] v by simp
  let ?gate = "gate_attempt_of v GD_refused code None"
  have gate: "gateway_check_attempt_valid E ?gate"
    unfolding v(1) by (rule gate_attempt_ok[OF assms(1-4) code]) simp
  have gid: "gca_gateAttemptId ?gate = gid" "gca_gateDecisionReasonCode ?gate = code" "gca_gateDecision ?gate = GD_refused"
    by (simp_all add: gate_attempt_of_def Let_def c)
  have org: "in_organization ?gate c" "in_organization (receipt_of c g now rid ?gate None cons []) c" for rid cons
    by (simp_all add: in_organization_def gate_attempt_of_def receipt_of_def Let_def c)
  have receipt: "receipt_valid E (receipt_of c g now rid ?gate None cons [])" if "id_ok rid" for rid cons
    by (rule receipt_ok) (use that assms(3,4) gate_reads_okD(1,2)[OF assms(2)] gid in simp_all)
  have refusal: "delivers (buildRefusal E (gateway_refusal_draft c g ?gate now)) u
      (\<lambda>r w'. in_organization r c \<and> rf_refusalId r \<noteq> [] \<and> w_store w' = w_store u)" for u :: world
    by (rule delivers_gate_refusal[OF assms(1)]) (use assms(3,4) code gate_reads_okD(1,2)[OF assms(2)] gid in simp_all)
  have no_receipt_mutation: "rc_mutationAttemptId (receipt_of c g now rid gate' None cons []) = None" for rid gate' cons
    by (simp add: receipt_of_def Let_def)
  show ?thesis
    unfolding buildGateArtifacts_def Let_def v(2) c
    apply (rule delivers_bind, rule delivers_createId[OF assms(1)], simp)
    apply (simp add: buildMutationProofGap_def)
    apply (intro delivers_bind delivers_parse gate receipt, assumption)
    apply (rule delivers_mono[OF refusal], elim conjE)
    apply (intro delivers_return)
    apply (simp add: org no_receipt_mutation gid c(4) receipt assms(4))
    done
qed

definition refusing_plan :: "kernel_env \<Rightarrow> gateway_evaluation \<Rightarrow> string \<Rightarrow> gateway_plan \<Rightarrow> bool" where
  "refusing_plan E v code p \<longleftrightarrow> gwp_evaluation p = v \<and> gwp_claim p = None \<and> gwp_ledgerUpdate p = None \<and> gwp_context p = None \<and>
     receipt_valid E (gwr_receipt (gwp_result p)) \<and> rc_mutationAttemptId (gwr_receipt (gwp_result p)) = None \<and>
     gwr_mutationAttempt (gwp_result p) = None \<and> gwr_proofGap (gwp_result p) = None \<and>
     gca_gateDecision (gwr_gateAttempt (gwp_result p)) = GD_refused \<and>
     gca_gateDecisionReasonCode (gwr_gateAttempt (gwp_result p)) = code \<and>
     same_stream (organizationStreamId (protocol_base.truncate (ge_contract v))) (gwp_events p) \<and>
     list_all descriptor_ok (gwp_events p)"

lemma delivers_refusing_plan:
  assumes "platform_ok E" "quiet E" "gate_reads_ok E c g s" "iso_ok E now" "id_ok gid"
    and v: "v = deriveGatewayConstraintEvaluation E i c g now gid s" "ge_refusal v = Some code"
  shows "delivers (buildGatewayCommitPlan E v) (w :: world) (\<lambda>p w'. refusing_plan E v code p \<and> w_store w' = w_store w)"
proof -
  have c: "ge_contract v = c" using v(1) by simp
  have ctx: "transitionRequestContextRecordFor E t u = treturn None" for t u
    using assms(2) by (simp add: transitionRequestContextRecordFor_def quiet_def)
  show ?thesis
    unfolding buildGatewayCommitPlan_def ctx
  proof (rule delivers_via[OF delivers_refusing_artifacts[OF assms(1,3,4,5) v]], clarify)
    fix r :: gateway_check_result and rf :: refusal and u :: world
    assume r: "w_store u = w_store w" "gwr_proofGap r = None" "gwr_mutationAttempt r = None" "receipt_valid E (gwr_receipt r)"
      "rc_mutationAttemptId (gwr_receipt r) = None" "gca_gateDecision (gwr_gateAttempt r) = GD_refused"
      and code: "code = gca_gateDecisionReasonCode (gwr_gateAttempt r)"
      and org: "id_ok (gca_gateAttemptId (gwr_gateAttempt r))" "in_organization (gwr_gateAttempt r) c"
        "in_organization (gwr_receipt r) c" "in_organization rf c" "rf_refusalId rf \<noteq> []"
    let ?ds = "gateEventDescriptors r (Some rf) (actionLifecycleStreamRefs c) None"
    have ne: "gca_gateAttemptId (gwr_gateAttempt r) \<noteq> []" "rc_receiptId (gwr_receipt r) \<noteq> []"
      using org(1) r(4) by (auto simp: id_ok_def receipt_valid_def)
    have events: "same_stream (organizationStreamId (protocol_base.truncate c)) ?ds"
      using org r(2,3)
      by (auto simp: same_stream_def gateEventDescriptors_def Let_def gate_event_def intro: same_organization_stream)
    have "list_all descriptor_ok ?ds"
      using org ne r(2,3) gate_reads_okD(1)[OF assms(3)]
      by (auto simp: gateEventDescriptors_def Let_def intro!: gate_event_ok)
    note events = events this
    show "delivers (tbind (deriveProtectedSurfaceOperationClaim E v r) (\<lambda>claim.
        tbind (deriveIdempotencyLedgerUpdate E v r) (\<lambda>ledger. tbind (treturn None) (\<lambda>ctx.
        treturn \<lparr>gwp_evaluation = v, gwp_result = r, gwp_refusal = Some rf, gwp_claim = claim, gwp_ledgerUpdate = ledger,
          gwp_context = ctx, gwp_events = withTransitionRequestContextEventDescriptors
            (gateEventDescriptors r (Some rf) (actionLifecycleStreamRefs (ge_contract v)) claim) ctx\<rparr>)))) u
        (\<lambda>p w'. refusing_plan E v (gca_gateDecisionReasonCode (gwr_gateAttempt r)) p \<and> w_store w' = w_store w)"
      using r events
      by (auto intro!: delivers_intros simp: deriveProtectedSurfaceOperationClaim_def deriveIdempotencyLedgerUpdate_def c
          refusing_plan_def withTransitionRequestContextEventDescriptors_def)
  qed
qed

section \<open>The commit and the check\<close>

lemma delivers_refusing_commit:
  assumes "platform_ok E" "quiet E" "streams_ok E (s_events (w_store w))" "refusing_plan E v code p" "ge_refusal v = Some code"
  shows "delivers (gateway_attempts E p (Suc n)) w (\<lambda>r w'. gca_gateDecision (gwr_gateAttempt r) = GD_refused \<and>
     gca_gateDecisionReasonCode (gwr_gateAttempt r) = code)"
proof -
  have p: "gwp_evaluation p = v" "gwp_context p = None" "receipt_valid E (gwr_receipt (gwp_result p))"
    "same_stream (organizationStreamId (protocol_base.truncate (ge_contract v))) (gwp_events p)" "list_all descriptor_ok (gwp_events p)"
    using assms(4) by (simp_all add: refusing_plan_def)
  have chain: "delivers (buildEventChain E (w_store w) (gwp_events p)) w (\<lambda>es u. fresh_chain E (w_store w) es \<and> w_store u = w_store w)"
    by (rule delivers_chain[OF assms(1) p(4,5) assms(3)]) simp
  have final: "delivers (withReceiptStreamReferences E (gwp_result p) es) u (\<lambda>r u'. gwr_gateAttempt r = gwr_gateAttempt (gwp_result p) \<and>
      rc_mutationAttemptId (gwr_receipt r) = None \<and> u' = u)"
    if "\<forall>e \<in> set es. stream_event_valid E e" for es and u :: world
    using assms(4) receipt_references_ok[OF that] that digest_shape[OF assms(1)]
    unfolding withReceiptStreamReferences_def Let_def
    by (auto intro!: delivers_intros simp: refusing_plan_def receipt_valid_def base_valid_def list_all_iff stream_event_valid_def)
  have committed: "fst (commitGatewayCheck (gateway_commit_of E p r rs es) (w_store w)) = GR_committed"
    if "fresh_chain E (w_store w) es" "rc_mutationAttemptId (gwr_receipt r) = None" for r rs es
    using that assms(4,5)
    by (simp add: commitGatewayCheck_def gateway_commit_of_def buildGreenlightConsumption_def refusing_plan_def
        receiptMutationAttemptIndexEntriesFor_def truthy_ref_def Let_def fresh_chain_def)
  show ?thesis
    unfolding gateway_attempts.simps
    apply (intro delivers_bind delivers_get)
    apply (unfold buildGatewayCheckCommit_def gateProtocolRecords_def p(1) assms(5))
    apply (rule delivers_via[OF chain], elim conjE)
    apply (rule delivers_via[OF final], simp add: fresh_chain_def, elim conjE)
    apply (simp only: option.distinct simp_thms if_True, intro delivers_return delivers_bind delivers_interfere[OF assms(2)])
    apply (use committed assms(4) in \<open>simp add: delivers_def refusing_plan_def\<close>)
    done
qed

lemma gatewayCheck_refuses:
  assumes "platform_ok E" "quiet E" "gateway_check_input_valid i" "streams_ok E (s_events (w_store w))"
    and rec: "find_payload as_action_contract OT_action_contract (gwi_actionContractId i) (w_store w) = Some c"
      "find_payload as_greenlight OT_greenlight (gwi_greenlightId i) (w_store w) = Some g"
      "find_payload as_policy_decision OT_policy_decision (gl_policyDecisionId g) (w_store w) = Some d"
      "guardGatewayCheckAuthority g d = guard_ok"
    and ok: "gate_reads_ok E c g (w_store w)" "fst (nowIso E w) = Inr now" "\<not> gate_constraints E i c g now (w_store w)"
  shows "\<exists>r w'. gatewayCheck E i w = (Inr r, w') \<and> gca_gateDecision (gwr_gateAttempt r) = GD_refused"
proof -
  let ?v = "\<lambda>gid. deriveGatewayConstraintEvaluation E i c g now gid (w_store w)"
  have refusing: "\<exists>code. ge_refusal (?v gid) = Some code" for gid
    using ok(3) derive_refusal_None[of E i c g now gid "w_store w"] by auto
  have now: "iso_ok E now" using assms(1) ok(2) by (auto simp: platform_ok_def dest!: spec[of _ w])
  have reads: "delivers (requiredPayload f t x code) w Q" if "find_payload f t x (w_store w) = Some y" "Q y w" for f t x y code Q
    using that by (auto simp: delivers_def requiredPayload_Inr)
  have guard: "require_guard (guardGatewayCheckAuthority g d) = treturn ()"
    using rec(4) by (simp add: require_guard_def guard_ok_def)
  obtain w1 where w1: "nowIso E w = (Inr now, w1)" "w_store w1 = w_store w"
    using ok(2) nowIso_store by (cases "nowIso E w") auto
  have clock: "Q now w1 \<Longrightarrow> delivers (nowIso E) w Q" for Q
    using w1(1) by (rule delivers_run)
  have commit: "delivers (buildGatewayCommitPlan E (?v gid)) u (\<lambda>p w.
      delivers (gateway_attempts E p (Suc MAX_STREAM_COMMIT_RETRIES)) w (\<lambda>r _. gca_gateDecision (gwr_gateAttempt r) = GD_refused))"
    if "id_ok gid" "w_store u = w_store w1" for gid and u :: world
  proof -
    obtain code where code: "ge_refusal (?v gid) = Some code" using refusing by blast
    show ?thesis
    proof (rule delivers_mono[OF delivers_refusing_plan[OF assms(1,2) ok(1) now that(1) refl code]], elim conjE)
      fix p and w2 :: world
      assume p: "refusing_plan E (?v gid) code p" and st: "w_store w2 = w_store u"
      have "streams_ok E (s_events (w_store w2))" using st that w1(2) assms(4) by simp
      from delivers_refusing_commit[OF assms(1,2) this p code]
      show "delivers (gateway_attempts E p (Suc MAX_STREAM_COMMIT_RETRIES)) w2 (\<lambda>r _. gca_gateDecision (gwr_gateAttempt r) = GD_refused)"
        by (rule delivers_mono) simp
    qed
  qed
  have "delivers (gatewayCheck E i) w (\<lambda>r _. gca_gateDecision (gwr_gateAttempt r) = GD_refused)"
    unfolding gatewayCheck_def commitGatewayCheckPlan_def
    apply (intro delivers_bind delivers_parse assms(3) reads[OF rec(1)] reads[OF rec(2)] reads[OF rec(3)])
    apply (unfold guard, intro delivers_return delivers_bind clock delivers_get delivers_createId[OF assms(1)])
     apply simp
    apply (simp only: w1(2) commit)
    done
  then show ?thesis by (auto simp: delivers_def)
qed

end
