(* ===== verification/Reconcile_Progress.thy ===== *)
theory Reconcile_Progress
  imports Reconcile_Laws Gateway_Refusals
begin

text \<open>
  A reconciliation goes through: on a working platform and while no other request
  runs, the report about a stored mutation attempt is recorded.
\<close>

definition gap_resolvable :: "kernel_env \<Rightarrow> mutation_attempt \<Rightarrow> pstore \<Rightarrow> string \<Rightarrow> bool" where
  "gap_resolvable E m s x \<longleftrightarrow> id_ok x \<and> (\<exists>g. find_payload as_proof_gap OT_proof_gap x s = Some g \<and>
     proof_gap_valid E g \<and> pg_mutationAttemptId g = Some (ma_mutationAttemptId m))"

text \<open>
  What the transition reads: a well-formed attempt of the contract's organization, a
  claim, a ledger entry and a receipt as their schemas require, and open gaps of
  the attempt.  An isolation is only asked for a resource whose name is an
  identifier.
\<close>

definition reconcile_reads_ok :: "kernel_env \<Rightarrow> reconcile_input \<Rightarrow> mutation_attempt \<Rightarrow> action_contract \<Rightarrow> pstore \<Rightarrow> bool" where
  "reconcile_reads_ok E i m c s \<longleftrightarrow> mutation_attempt_valid E m \<and> contract_fields_ok E c \<and> in_organization m c \<and>
     (\<forall>k. currentClaimForContract E c s = Some k \<longrightarrow> surface_operation_claim_valid E k \<and> in_organization k c) \<and>
     (\<forall>l. currentIdempotencyLedgerForContract E c s = Some l \<longrightarrow> idempotency_ledger_entry_valid E l) \<and>
     opt_ok id_ok (receiptIdForMutation m s) \<and>
     (\<forall>x \<in> set (rin_resolvedProofGapIds i). gap_resolvable E m s x) \<and>
     (rin_orphanIsolationRequested i \<longrightarrow> id_ok (ac_resourceRef c))"

lemma delivers_when_some:
  assumes "\<And>x. a = Some x \<Longrightarrow> c \<Longrightarrow> delivers (f x) w (\<lambda>y. Q (Some y))" "(a = None \<or> \<not> c) \<Longrightarrow> Q None w"
  shows "delivers (when_some a c f) w Q"
  using assms by (cases a) (auto simp: when_some_def delivers_def tbind_Inr_iff)

lemma delivers_resolve:
  assumes "iso_ok E now" "id_ok (sr_reconciliationId r)" "sr_mutationAttemptId r = ma_mutationAttemptId m"
  shows "\<forall>x \<in> set ids. gap_resolvable E m (w_store w) x \<Longrightarrow> delivers (resolveProofGaps E ids r now) w (\<lambda>_ w'. w' = w)"
proof (induction ids)
  case (Cons x ids)
  then obtain g where g: "find_payload as_proof_gap OT_proof_gap x (w_store w) = Some g" "proof_gap_valid E g"
      "pg_mutationAttemptId g = Some (ma_mutationAttemptId m)" and ih: "delivers (resolveProofGaps E ids r now) w (\<lambda>_ w'. w' = w)"
    by (auto simp: gap_resolvable_def)
  have "requiredPayload as_proof_gap OT_proof_gap x ''proof_gap_missing'' w = (Inr g, w)"
    using g(1) by (simp add: requiredPayload_Inr)
  moreover have "proof_gap_valid E (g\<lparr>pg_resolvedAt := Some now, pg_resolvedByRef := Some (sr_reconciliationId r)\<rparr>)"
    using g(2) assms by (auto simp: proof_gap_valid_def base_valid_def id_ok_def)
  ultimately show ?case
    using ih g(3) assms(3) by (auto simp: delivers_def tbind_Inr_iff)
qed (simp add: delivers_def)

lemma reconciliation_ok:
  assumes "reconcile_input_valid i" "mutation_attempt_valid E m" "iso_ok E now" "id_ok rid"
    "\<forall>x \<in> set (rin_resolvedProofGapIds i). id_ok x"
  shows "surface_operation_reconciliation_valid E (reconciliation_of
     \<lparr>rcx_input = i, rcx_mutation = m, rcx_contract = c, rcx_now = now, rcx_lifecycle = l\<rparr> rid)"
  using assms
  by (auto simp: surface_operation_reconciliation_valid_def reconciliation_of_def Let_def reconcile_input_valid_def
      mutation_attempt_valid_def base_valid_def or_else_def list_all_iff split: option.split)

lemma delivers_terminal_claim:
  assumes "platform_ok E" "surface_operation_claim_valid E k" "iso_ok E now" "reason_code_ok code" "id_ok rid"
  shows "delivers (buildTerminalProtectedSurfaceOperationClaim E k st now code rid) w (\<lambda>x w'. w' = w \<and>
     tenantId x = tenantId k \<and> organizationId x = organizationId k \<and>
     oc_protectedSurfaceOperationClaimId x = oc_protectedSurfaceOperationClaimId k \<and>
     oc_mutationAttemptId x = oc_mutationAttemptId k \<and> oc_gateAttemptId x = oc_gateAttemptId k)"
  unfolding buildTerminalProtectedSurfaceOperationClaim_def
  using assms(2-) digest_shape[OF assms(1)]
  by (auto intro!: delivers_parse simp: surface_operation_claim_valid_def with_claim_digest_def base_valid_def id_ok_def)

lemma delivers_terminal_ledger:
  assumes "platform_ok E" "idempotency_ledger_entry_valid E l" "iso_ok E now" "id_ok (sr_reconciliationId r)"
  shows "delivers (buildIdempotencyLedgerTerminal E l r now) (w :: world) (\<lambda>_ w'. w_store w' = w_store w)"
proof -
  have refs: "list_all (\<lambda>x. Suc 0 \<le> length x) (unique_list (il_evidenceRefs l @ [protocolObjectRef a x]))" for a x
    using assms(2) join_nonempty by (auto simp: idempotency_ledger_entry_valid_def list_all_iff Suc_le_eq)
  have code: "reason_code_ok (downstream_status_str st)" for st by (cases st) (simp_all add: reason_code_ok_def)
  show ?thesis
    unfolding buildIdempotencyLedgerTerminal_def updateIdempotencyLedgerEntry_def buildIdempotencyLedgerEntry_def Let_def
    using assms(2-) refs code digest_shape[OF assms(1)]
    by (auto intro!: delivers_intros assms(1) simp: idempotency_ledger_entry_valid_def base_valid_def or_else_def)
qed

lemma delivers_orphan_isolation:
  assumes "platform_ok E" "contract_fields_ok E c" "iso_ok E now" "id_ok (sr_reconciliationId r)" "id_ok (ac_resourceRef c)"
  shows "delivers (buildOrphanIsolationState E c r now) (w :: world)
    (\<lambda>x w'. w_store w' = w_store w \<and> in_organization x c \<and> is_isolationStateId x \<noteq> [] \<and> is_scopeId x \<noteq> [])"
  unfolding buildOrphanIsolationState_def
  using assms(2-)
  by (auto intro!: delivers_intros assms(1) simp: isolation_state_valid_def base_valid_def contract_fields_ok_def
      reason_code_ok_def in_organization_def id_ok_def)

lemma delivers_gap:
  assumes "platform_ok E" "contract_fields_ok E c" "reason_code_ok code" "opt_ok id_ok (gpr_gateAttemptId refs)"
    "opt_ok id_ok (gpr_mutationAttemptId refs)" "opt_ok id_ok (gpr_receiptId refs)" "ex \<noteq> []"
  shows "delivers (buildProofGap E c ph ex code refs) (w :: world)
    (\<lambda>x w'. w_store w' = w_store w \<and> in_organization x c \<and> pg_proofGapId x \<noteq> [])"
proof -
  have "list_all (\<lambda>x. Suc 0 \<le> length x) (opt_list y)" if "opt_ok id_ok y" for y
    using that by (cases y) (auto simp: id_ok_def)
  then show ?thesis
    unfolding buildProofGap_def
    using assms(2-)
    by (auto intro!: delivers_intros assms(1) simp: proof_gap_valid_def base_valid_def contract_fields_ok_def in_organization_def
        id_ok_def Suc_le_eq)
qed

text \<open>A plan that a quiet store commits.\<close>

definition plan_recordable :: "action_contract \<Rightarrow> evidence_plan \<Rightarrow> bool" where
  "plan_recordable c p \<longleftrightarrow>
     (\<forall>k. evp_terminalClaim p = Some k \<longrightarrow> in_organization k c \<and> oc_protectedSurfaceOperationClaimId k \<noteq> [] \<and>
        ref_or (oc_mutationAttemptId k) (oc_gateAttemptId k) \<noteq> []) \<and>
     (\<forall>g. evp_createdGap p = Some g \<longrightarrow> in_organization g c \<and> pg_proofGapId g \<noteq> []) \<and>
     (\<forall>x. evp_isolation p = Some x \<longrightarrow> in_organization x c \<and> is_isolationStateId x \<noteq> [] \<and> is_scopeId x \<noteq> [])"

lemma lifecycle_codes: "opt_ok reason_code_ok (om_proofGapReasonCode (operationLifecycleFor st))"
  "reason_code_ok (ref_or (om_proofGapReasonCode (operationLifecycleFor st)) (downstream_status_str st))"
  by (cases st; simp add: reason_code_ok_def ref_or_def)+

lemma delivers_evidence_plan:
  assumes "platform_ok E" "reconcile_reads_ok E i m c (w_store w)" "iso_ok E now" "id_ok (sr_reconciliationId r)"
    "sr_mutationAttemptId r = ma_mutationAttemptId m"
  shows "delivers (buildSurfaceOperationEvidencePlan E \<lparr>rcx_input = i, rcx_mutation = m, rcx_contract = c, rcx_now = now,
       rcx_lifecycle = operationLifecycleFor (rin_observedDownstreamStatus i)\<rparr> r) w
     (\<lambda>p w'. plan_recordable c p \<and> w_store w' = w_store w)"
proof -
  have reads: "contract_fields_ok E c" "mutation_attempt_valid E m"
    "\<And>k. currentClaimForContract E c (w_store w) = Some k \<Longrightarrow> surface_operation_claim_valid E k \<and> in_organization k c"
    "\<And>l. currentIdempotencyLedgerForContract E c (w_store w) = Some l \<Longrightarrow> idempotency_ledger_entry_valid E l"
    "opt_ok id_ok (receiptIdForMutation m (w_store w))"
    "\<forall>x \<in> set (rin_resolvedProofGapIds i). gap_resolvable E m (w_store w) x"
    "rin_orphanIsolationRequested i \<Longrightarrow> id_ok (ac_resourceRef c)"
    using assms(2) by (simp_all add: reconcile_reads_ok_def)
  have attempt: "id_ok (ma_mutationAttemptId m)" "id_ok (ma_gateAttemptId m)"
    using reads(2) by (simp_all add: mutation_attempt_valid_def)
  let ?l = "operationLifecycleFor (rin_observedDownstreamStatus i)"
  let ?reason = "ref_or (om_proofGapReasonCode ?l) (downstream_status_str (rin_observedDownstreamStatus i))"
  have claim: "delivers (when_some (currentClaimForContract E c (w_store w)) (om_claimState ?l \<noteq> OCS_active) (\<lambda>k.
      buildTerminalProtectedSurfaceOperationClaim E k (om_claimState ?l) now ?reason (sr_reconciliationId r))) w
      (\<lambda>x w'. w' = w \<and> (\<forall>k. x = Some k \<longrightarrow> in_organization k c \<and> oc_protectedSurfaceOperationClaimId k \<noteq> [] \<and>
        ref_or (oc_mutationAttemptId k) (oc_gateAttemptId k) \<noteq> []))"
  proof (rule delivers_when_some)
    fix k assume "currentClaimForContract E c (w_store w) = Some k"
    note k = reads(3)[OF this]
    have "oc_protectedSurfaceOperationClaimId k \<noteq> []" "ref_or (oc_mutationAttemptId k) (oc_gateAttemptId k) \<noteq> []"
      using k by (auto simp: surface_operation_claim_valid_def id_ok_def ref_or_def split: option.split)
    then show "delivers (buildTerminalProtectedSurfaceOperationClaim E k (om_claimState ?l) now ?reason (sr_reconciliationId r)) w
      (\<lambda>y w'. w' = w \<and> (\<forall>k. Some y = Some k \<longrightarrow> in_organization k c \<and> oc_protectedSurfaceOperationClaimId k \<noteq> [] \<and>
        ref_or (oc_mutationAttemptId k) (oc_gateAttemptId k) \<noteq> []))"
      using k by (intro delivers_mono[OF delivers_terminal_claim[OF assms(1) _ assms(3) lifecycle_codes(2) assms(4)]])
        (auto simp: in_organization_def)
  qed simp
  have ledger: "delivers (when_some (currentIdempotencyLedgerForContract E c (w_store w)) (om_claimState ?l \<noteq> OCS_active)
      (\<lambda>e. buildIdempotencyLedgerTerminal E e r now)) u (\<lambda>_ u'. w_store u' = w_store u)" for u
    by (rule delivers_when_some) (use delivers_terminal_ledger[OF assms(1) reads(4) assms(3,4)] in auto)
  have isolation: "delivers (when_some (Some ()) (om_createIsolation ?l \<and> rin_orphanIsolationRequested i)
      (\<lambda>_. buildOrphanIsolationState E c r now)) u (\<lambda>x u'. w_store u' = w_store u \<and>
        (\<forall>y. x = Some y \<longrightarrow> in_organization y c \<and> is_isolationStateId y \<noteq> [] \<and> is_scopeId y \<noteq> []))" for u
  proof (rule delivers_when_some)
    assume "om_createIsolation ?l \<and> rin_orphanIsolationRequested i"
    then show "delivers (buildOrphanIsolationState E c r now) u (\<lambda>y u'. w_store u' = w_store u \<and>
        (\<forall>z. Some y = Some z \<longrightarrow> in_organization z c \<and> is_isolationStateId z \<noteq> [] \<and> is_scopeId z \<noteq> []))"
      by (intro delivers_mono[OF delivers_orphan_isolation[OF assms(1) reads(1) assms(3,4) reads(7)]]) auto
  qed simp
  have gap: "delivers (when_some (om_proofGapReasonCode ?l) True (\<lambda>code. buildProofGap E c GP_mutation ''downstream_finality'' code
        \<lparr>gpr_gateAttemptId = Some (ma_gateAttemptId m), gpr_mutationAttemptId = Some (ma_mutationAttemptId m),
         gpr_receiptId = receiptIdForMutation m (w_store w)\<rparr>)) u (\<lambda>x u'. w_store u' = w_store u \<and>
        (\<forall>g. x = Some g \<longrightarrow> in_organization g c \<and> pg_proofGapId g \<noteq> []))" for u
    by (rule delivers_when_some, rule delivers_mono[OF delivers_gap[OF assms(1) reads(1)]])
      (use lifecycle_codes(1)[of "rin_observedDownstreamStatus i"] attempt reads(5) in auto)
  show ?thesis
    unfolding buildSurfaceOperationEvidencePlan_def Let_def reconcile_context.simps claim_reason_def
    apply (rule delivers_via[OF delivers_resolve[OF assms(3,4,5) reads(6)]], simp only:)
    apply (intro delivers_bind delivers_get, rule delivers_mono[OF claim], elim conjE, simp only:)
    apply (rule delivers_via[OF ledger], rule delivers_via[OF isolation], elim conjE)
    apply (rule delivers_bind, rule delivers_get, simp only:)
    apply (rule delivers_via[OF gap], elim conjE)
    apply (rule delivers_return, simp add: plan_recordable_def)
    done
qed

lemma organization_event_ok:
  assumes "contract_fields_ok E c" "in_organization x c" "list_all (\<lambda>x. x \<noteq> []) ids"
  shows "descriptor_ok \<lparr>ed_source = protocol_base.truncate x, ed_eventType = ty, ed_objectRefs = ids,
      ed_payload = payload, ed_streamRefs = refs\<rparr>"
  using assms
  by (auto simp: descriptor_ok_def in_organization_def contract_fields_ok_def base_valid_def protocol_base.truncate_def)

text \<open>The events of a recordable plan go to the organization's stream.\<close>

lemma reconciliation_events_ok:
  assumes "contract_fields_ok E c" "plan_recordable c p" "in_organization r c" "id_ok (sr_reconciliationId r)"
    "id_ok (sr_mutationAttemptId r)" "id_ok (sr_actionContractId r)"
  shows "same_stream (organizationStreamId (protocol_base.truncate c)) (reconciliation_events c r p)"
    "list_all descriptor_ok (reconciliation_events c r p)"
proof -
  have scope: "isolation_scope_type_str x \<noteq> []" for x by (cases x) simp_all
  have ids: "sr_reconciliationId r \<noteq> []" "sr_mutationAttemptId r \<noteq> []" "sr_actionContractId r \<noteq> []"
    using assms(4-) by (auto simp: id_ok_def)
  show "same_stream (organizationStreamId (protocol_base.truncate c)) (reconciliation_events c r p)"
    using assms(2,3)
    by (cases "evp_createdGap p"; cases "evp_terminalClaim p"; cases "evp_isolation p")
      (auto simp: same_stream_def reconciliation_events_def Let_def plan_recordable_def intro: same_organization_stream)
  show "list_all descriptor_ok (reconciliation_events c r p)"
    using assms(2,3) ids scope
    by (cases "evp_createdGap p"; cases "evp_terminalClaim p"; cases "evp_isolation p")
      (auto simp: reconciliation_events_def Let_def plan_recordable_def intro!: organization_event_ok[OF assms(1)])
qed

lemma reconcile_delivers:
  assumes "platform_ok E" "quiet E" "reconcile_input_valid i" "streams_ok E (s_events (w_store w))"
    and m: "find_payload as_mutation_attempt OT_mutation_attempt (rin_mutationAttemptId i) (w_store w) = Some m"
      "find_payload as_action_contract OT_action_contract (ma_actionContractId m) (w_store w) = Some c"
      "guardSurfaceOperationReconciliation m (rin_mutationAttemptId i) (rin_idempotencyKey i) (rin_observedSurfaceOperationRef i) = guard_ok"
    and ok: "reconcile_reads_ok E i m c (w_store w)" "rin_observedDownstreamStatus i = DS_unknown \<Longrightarrow> rin_resolvedProofGapIds i = []"
  shows "\<exists>res w'. reconcileSurfaceOperation E i w = (Inr res, w')"
proof -
  have reads: "delivers (requiredPayload f t x code) w Q" if "find_payload f t x (w_store w) = Some y" "Q y w" for f t x y code Q
    using that by (auto simp: delivers_def requiredPayload_Inr)
  have boundary: "assertReconciliationInputBoundary i = treturn ()"
    using ok(2) by (auto simp: assertReconciliationInputBoundary_def)
  have guard: "require_guard (guardSurfaceOperationReconciliation m (rin_mutationAttemptId i) (rin_idempotencyKey i)
      (rin_observedSurfaceOperationRef i)) = treturn ()"
    using m(3) by (simp add: require_guard_def guard_ok_def)
  have fields: "contract_fields_ok E c" "mutation_attempt_valid E m" "in_organization m c"
    "\<forall>x \<in> set (rin_resolvedProofGapIds i). id_ok x"
    using ok(1) by (auto simp: reconcile_reads_ok_def gap_resolvable_def)
  let ?x = "\<lambda>now. \<lparr>rcx_input = i, rcx_mutation = m, rcx_contract = c, rcx_now = now,
       rcx_lifecycle = operationLifecycleFor (rin_observedDownstreamStatus i)\<rparr>"
  have read: "delivers (getSurfaceOperationReconciliationContext E i) w (\<lambda>x w'. \<exists>now. iso_ok E now \<and> x = ?x now \<and> w_store w' = w_store w)"
    unfolding getSurfaceOperationReconciliationContext_def
    by (intro delivers_bind reads[OF m(1)] reads[OF m(2)], unfold guard, intro delivers_intros assms(1)) simp
  have parts: "sr_reconciliationId (reconciliation_of (?x now) rid) = rid"
    "sr_mutationAttemptId (reconciliation_of (?x now) rid) = ma_mutationAttemptId m"
    "sr_actionContractId (reconciliation_of (?x now) rid) = ma_actionContractId m"
    "in_organization (reconciliation_of (?x now) rid) c" for now rid
    using fields(3) by (simp_all add: reconciliation_of_def Let_def in_organization_def)
  have ids: "id_ok (ma_mutationAttemptId m)" "id_ok (ma_actionContractId m)"
    using fields(2) by (simp_all add: mutation_attempt_valid_def)
  have commit: "delivers (commitSurfaceOperationReconciliation E (?x now) (reconciliation_of (?x now) rid) p) u (\<lambda>_ _. True)"
    if "plan_recordable c p" "w_store u = w_store w" "id_ok rid" for p rid now u
    unfolding commitSurfaceOperationReconciliation_def reconcile_context.simps
    by (rule delivers_via[OF delivers_commitRecords[OF assms(1,2) _ reconciliation_events_ok[OF fields(1) that(1) parts(4)]]])
      (use assms(4) that parts ids in
        \<open>simp_all add: unopposed_def no_options_def reconciliation_options_def delivers_return\<close>)
  have parse: "delivers (tparse reconcile_input_valid i) w (\<lambda>x w'. x = i \<and> w' = w)"
    using assms(3) by (simp add: delivers_parse)
  have "delivers (reconcileSurfaceOperation E i) w (\<lambda>_ _. True)"
    unfolding reconcileSurfaceOperation_def buildSurfaceOperationReconciliation_def
    apply (rule delivers_via[OF parse], elim conjE, simp only: boundary tbind_return)
    apply (rule delivers_via[OF read], elim exE conjE, simp only: tbind_assoc)
    apply (rule delivers_bind, rule delivers_createId[OF assms(1)], simp)
    apply (rule delivers_bind, rule delivers_parse, rule reconciliation_ok[OF assms(3) fields(2) _ _ fields(4)], assumption, assumption)
    apply (rule delivers_via[OF delivers_evidence_plan[OF assms(1)]], use ok(1) parts in \<open>simp_all\<close>)
    apply (elim conjE, rule delivers_via[OF commit], simp_all add: delivers_return)
    done
  then show ?thesis by (auto simp: delivers_def)
qed

end
