(* ===== verification/Operation_Instances.thy ===== *)
theory Operation_Instances
  imports Instances Reconcile_Progress
begin

text \<open>
  Concrete inputs for isolation and reconciliation: an isolated resource, a breaker
  that watched one event, and a mutation attempt whose outcome is unknown.
\<close>

section \<open>An isolated resource\<close>

definition demo_isolation_input :: isolation_input where
  "demo_isolation_input = \<lparr>ini_tenantId = ''tenant'', ini_organizationId = ''acme'', ini_scopeType = IST_resource,
     ini_scopeId = ''acct'', ini_state = IV_halted, ini_reasonCode = ''operator_halt'', ini_reasonSummary = ''halt'',
     ini_sourceDecisionRef = ''ops'', ini_observedStreamOffsets = [], ini_expiresAt = None\<rparr>"

definition demo_isolation :: isolation_state where
  "demo_isolation = isolation_state_of demo_isolation_input demo_now ''iso_1''"

definition isolated_world :: world where
  "isolated_world = \<lparr>tick = 0, w_store = (demo_store [PR_action_contract demo_contract, PR_gateway_registry_entry demo_gateway,
     PR_policy_decision demo_decision, PR_greenlight demo_greenlight, PR_isolation_state demo_isolation])
     \<lparr>s_isolation := [(isolationScopeKey (state_scope demo_isolation), isolationStateIndexEntry demo_isolation)]\<rparr>\<rparr>"

lemma isolated_records:
  "find_payload as_action_contract OT_action_contract ''act_1'' (w_store isolated_world) = Some demo_contract"
  "find_payload as_greenlight OT_greenlight ''grn_1'' (w_store isolated_world) = Some demo_greenlight"
  "find_payload as_policy_decision OT_policy_decision ''pol_1'' (w_store isolated_world) = Some demo_decision"
  "find_payload as_gateway_registry_entry OT_gateway_registry_entry ''gre_1'' (w_store isolated_world) = Some demo_gateway"
  by code_simp+

lemma isolated_resource:
  "current_isolation demo_isolation (w_store isolated_world)" "blocks_gateway demo_isolation" "blocks_policy demo_isolation"
  "isolationScopeKey (state_scope demo_isolation) \<in> isolationScopeKey ` set (isolationScopeRefsForContract demo_contract)"
proof -
  have "find_payload as_isolation_state OT_isolation_state (is_isolationStateId demo_isolation) (w_store isolated_world) = Some demo_isolation"
    by code_simp
  moreover have "is_clearedAt demo_isolation = None" by code_simp
  moreover have "s_isolation (w_store isolated_world) =
      [(isolationScopeKey (state_scope demo_isolation), isolationStateIndexEntry demo_isolation)]"
    by (simp add: isolated_world_def)
  ultimately show "current_isolation demo_isolation (w_store isolated_world)"
    by (auto simp: current_isolation_def isolationStateIndexEntry_def)
  show "blocks_gateway demo_isolation" "blocks_policy demo_isolation" by code_simp+
  show "isolationScopeKey (state_scope demo_isolation) \<in> isolationScopeKey ` set (isolationScopeRefsForContract demo_contract)"
    by code_simp
qed

lemma isolated_constraints: "\<not> gate_constraints demo_env demo_check demo_contract demo_greenlight demo_now (w_store isolated_world)"
proof
  assume "gate_constraints demo_env demo_check demo_contract demo_greenlight demo_now (w_store isolated_world)"
  then have "\<forall>x \<in> set (gate_isolation demo_contract demo_greenlight (w_store isolated_world)). \<not> blocks_gateway x"
    by (simp add: gate_constraints_def)
  moreover have "demo_isolation \<in> set (gate_isolation demo_contract demo_greenlight (w_store isolated_world))"
    unfolding gate_isolation_def
    by (rule current_isolation_listed[OF isolated_resource(1) contract_scope_keys[OF isolated_resource(4)]])
  ultimately show False using isolated_resource(2) by blast
qed

lemma isolated_ready:
  "streams_ok demo_env (s_events (w_store isolated_world))"
  "find_payload as_action_contract OT_action_contract (gwi_actionContractId demo_check) (w_store isolated_world) = Some demo_contract"
  "find_payload as_greenlight OT_greenlight (gwi_greenlightId demo_check) (w_store isolated_world) = Some demo_greenlight"
  "find_payload as_policy_decision OT_policy_decision (gl_policyDecisionId demo_greenlight) (w_store isolated_world) = Some demo_decision"
  "gate_reads_ok demo_env demo_contract demo_greenlight (w_store isolated_world)"
  "fst (nowIso demo_env isolated_world) = Inr demo_now"
proof -
  show "streams_ok demo_env (s_events (w_store isolated_world))"
    by (simp add: isolated_world_def demo_events no_events_streams)
  show "find_payload as_action_contract OT_action_contract (gwi_actionContractId demo_check) (w_store isolated_world) = Some demo_contract"
    "find_payload as_greenlight OT_greenlight (gwi_greenlightId demo_check) (w_store isolated_world) = Some demo_greenlight"
    by (simp_all add: demo_check_def isolated_records)
  have "gl_policyDecisionId demo_greenlight = ''pol_1''" by code_simp
  then show "find_payload as_policy_decision OT_policy_decision (gl_policyDecisionId demo_greenlight) (w_store isolated_world) =
      Some demo_decision" by (simp add: isolated_records)
  show "fst (nowIso demo_env isolated_world) = Inr demo_now" by (simp add: nowIso_def demo_env_def Let_def)
  have "loadCurrentPostureForContract demo_contract (w_store isolated_world) = None" by code_simp
  moreover have "s_ledger (w_store isolated_world) = []" by code_simp
  moreover have "contract_fields_ok demo_env demo_contract" "greenlight_valid demo_env demo_greenlight"
    using gate_ready(9) by (simp_all add: gate_reads_ok_def)
  moreover have "gateway_registry_entry_valid demo_env demo_gateway" by code_simp
  moreover have "ac_gatewayRegistryEntryId demo_contract = ''gre_1''" by code_simp
  ultimately show "gate_reads_ok demo_env demo_contract demo_greenlight (w_store isolated_world)"
    by (simp add: gate_reads_ok_def isolated_records getCurrentIdempotencyLedgerEntry_def payload_of_def)
qed

lemma refusal_of_isolated:
  "\<exists>r w'. gatewayCheck demo_env demo_check isolated_world = (Inr r, w') \<and> gca_gateDecision (gwr_gateAttempt r) = GD_refused"
  by (rule gatewayCheck_refuses[OF demo_platform demo_quiet gate_ready(3) isolated_ready(1-4) gate_ready(8)
        isolated_ready(5,6) isolated_constraints])

section \<open>A breaker that watched one event\<close>

definition watched_event :: stream_event where
  "watched_event = (demo_event 0 None)\<lparr>ev_eventDigest := demo_digest\<rparr>"

definition watched_world :: world where
  "watched_world = \<lparr>tick = 0, w_store = empty_store\<lparr>s_events := [watched_event]\<rparr>\<rparr>"

definition demo_watermark :: stream_watermark where
  "demo_watermark = \<lparr>sw_streamId = ''stream_tenant_acme'', sw_partitionKey = ''action:act_1'', sw_observedOffsetStart = 0,
     sw_observedOffsetEnd = 0, sw_observedEventDigest = Some demo_digest\<rparr>"

definition demo_breaker :: breaker_input where
  "demo_breaker = \<lparr>bri_tenantId = ''tenant'', bri_organizationId = ''acme'', bri_listenerId = ''listener'',
     bri_listenerVersion = ''1'', bri_rulePackRef = ''rules'', bri_rulePackVersion = ''1'',
     bri_observedStreamOffsets = [demo_watermark], bri_decision = BID_quarantined, bri_decisionReasonCode = ''velocity'',
     bri_decisionReason = ''too fast'', bri_targetScopeType = IST_resource, bri_targetScopeId = ''acct'',
     bri_agentId = None, bri_runId = None, bri_gatewayId = None, bri_resourceRef = None, bri_actionClass = None,
     bri_matchedBreakerRuleIds = [], bri_supportingEventRefs = [], bri_missingEventRefs = [], bri_proofGapRefs = [],
     bri_decisionExpiresAt = None\<rparr>"

lemma watched_streams: "streams_ok demo_env (s_events (w_store watched_world))"
proof -
  have fields: "ev_offset watched_event = 0" "ev_previousEventDigest watched_event = None"
    "ev_eventDigest watched_event = demo_digest"
    by (simp_all add: watched_event_def demo_event_def Let_def)
  have "chain_ok demo_env [watched_event]" by (simp add: chain_ok_def fields demo_digests)
  then show ?thesis by (simp add: streams_ok_def watched_world_def)
qed

lemma breaker_runs: "\<exists>d s w'. createBreakerDecision demo_env demo_breaker watched_world = (Inr (d, s), w')"
proof -
  let ?b = demo_breaker
  have "ev_eventDigest watched_event = demo_digest" by (simp add: watched_event_def)
  moreover have "getStreamEvent ''stream_tenant_acme'' ''action:act_1'' 0 (w_store watched_world) = Some watched_event"
    by (simp add: getStreamEvent_def watched_world_def on_stream_def watched_event_def demo_event_def Let_def)
  moreover have "truthy_ref (Some demo_digest)" by (simp add: truthy_ref_def demo_digest_def)
  ultimately have marks: "assertObservedWatermarks (bri_observedStreamOffsets ?b) watched_world = (Inr (), watched_world)"
    by (simp add: watermarks_Inr demo_breaker_def demo_watermark_def)
  have input: "breaker_input_valid demo_env ?b" by code_simp
  have decision: "breaker_decision_valid demo_env (breaker_decision_of ?b did iid demo_digest now)"
    if "id_ok did" "id_ok iid" "iso_ok demo_env now" for did iid now
  proof -
    have "stream_watermark_valid demo_env demo_watermark" "digest_ok demo_digest"
      "jnum_unit (sequenceRiskScoreFor BID_quarantined)" by code_simp+
    then show ?thesis using that
      by (simp add: breaker_decision_valid_def breaker_decision_of_def demo_breaker_def base_valid_def id_ok_def
          reason_code_ok_def del: sequenceRiskScoreFor.simps)
  qed
  have state: "isolation_state_valid demo_env (breaker_state_of ?b did iid now)"
    if "id_ok did" "id_ok iid" "iso_ok demo_env now" for did iid now
  proof -
    have "stream_watermark_valid demo_env demo_watermark" by code_simp
    then show ?thesis using that
      by (auto simp: isolation_state_valid_def breaker_state_of_def demo_breaker_def base_valid_def id_ok_def
          reason_code_ok_def Suc_le_eq)
  qed
  have events: "same_stream ''stream_tenant_acme'' (breakerDecisionEvents (breaker_decision_of ?b did iid dg now) (breaker_state_of ?b did iid now))"
    "list_all descriptor_ok (breakerDecisionEvents (breaker_decision_of ?b did iid dg now) (breaker_state_of ?b did iid now))"
    if "id_ok did" "id_ok iid" for did iid dg now
    using that
    by (auto simp: same_stream_def breakerDecisionEvents_def breaker_decision_of_def breaker_state_of_def demo_breaker_def
        organizationStreamId_def descriptor_ok_def protocol_base.truncate_def id_ok_def)
  have "delivers (createBreakerDecision demo_env ?b) watched_world (\<lambda>_ _. True)"
    unfolding createBreakerDecision_def demo_digests
    apply (rule delivers_bind, rule delivers_parse, rule input)
    apply (rule delivers_bind, rule delivers_run, rule marks)
    apply (rule delivers_bind, rule delivers_createId[OF demo_platform], simp)
    apply (rule delivers_bind, rule delivers_createId[OF demo_platform], simp)
    apply (rule delivers_bind, rule delivers_now[OF demo_platform])
    apply (rule delivers_bind, rule delivers_parse, rule decision, assumption+)
    apply (rule delivers_bind, rule delivers_parse, rule state, assumption+)
    apply (rule delivers_via, rule delivers_commitRecords[OF demo_platform demo_quiet _ events])
    apply (use watched_streams in \<open>simp_all add: unopposed_def no_options_def delivers_return\<close>)
    done
  then show ?thesis by (auto simp: delivers_def)
qed

section \<open>An attempt whose outcome is unknown\<close>

definition demo_attempt :: mutation_attempt where
  "demo_attempt = \<lparr>schemaVersion = PROTOCOL_VERSION, tenantId = ''tenant'', organizationId = ''acme'', createdAt = demo_now,
     ma_mutationAttemptId = ''mut_1'', ma_gateAttemptId = ''gat_1'', ma_actionContractId = ''act_1'',
     ma_greenlightId = ''grn_1'', ma_gatewayId = ''gtw_1'', ma_actionClass = ''pay'', ma_resourceRef = ''acct'',
     ma_idempotencyKey = ''idem'', ma_outcome = MO_submitted, ma_outcomeReasonCode = ''pending'',
     ma_surfaceOperationRef = Some ''sop_1'', ma_startedAt = demo_now, ma_finishedAt = None\<rparr>"

definition demo_claim :: surface_operation_claim where
  "demo_claim = \<lparr>schemaVersion = PROTOCOL_VERSION, tenantId = ''tenant'', organizationId = ''acme'', createdAt = demo_now,
     oc_protectedSurfaceOperationClaimId = ''psc_2'', oc_claimKeyDigest = demo_digest, oc_gatewayId = ''gtw_1'',
     oc_protectedSurfaceKind = ''bank'', oc_actionClass = ''pay'', oc_resourceRef = ''acct'',
     oc_actionContractId = ''act_2'', oc_greenlightId = ''grn_2'', oc_gateAttemptId = ''gat_2'',
     oc_mutationAttemptId = Some ''mut_2'', oc_claimState = OCS_active, oc_claimedAt = demo_now, oc_terminalAt = None,
     oc_terminalReasonCode = None, oc_releasedByRef = None, oc_claimDigest = demo_digest\<rparr>"

definition reconcile_world :: world where
  "reconcile_world = \<lparr>tick = 0, w_store = (demo_store [PR_action_contract demo_contract, PR_mutation_attempt demo_attempt,
     PR_protected_surface_operation_claim demo_claim])\<lparr>s_claims := [(demo_digest, operationClaimIndexEntry demo_claim demo_now)]\<rparr>\<rparr>"

definition demo_report :: "downstream_status \<Rightarrow> reconcile_input" where
  "demo_report st = \<lparr>rin_mutationAttemptId = ''mut_1'', rin_idempotencyKey = ''idem'', rin_observedDownstreamStatus = st,
     rin_downstreamRetryability = DR_unknown, rin_observedSurfaceOperationRef = None, rin_providerRequestRef = None,
     rin_providerOperationRef = None, rin_redactedDiagnosticsDigest = None, rin_traceRef = None, rin_spanRef = None,
     rin_diagnosticsRedactionPosture = DDRP_unknown, rin_evidenceRefs = [], rin_resolvedProofGapIds = [],
     rin_orphanIsolationRequested = True\<rparr>"

lemma reconcile_records:
  "find_payload as_mutation_attempt OT_mutation_attempt (rin_mutationAttemptId (demo_report st)) (w_store reconcile_world) = Some demo_attempt"
  "find_payload as_action_contract OT_action_contract (ma_actionContractId demo_attempt) (w_store reconcile_world) = Some demo_contract"
  "currentClaimForContract demo_env demo_contract (w_store reconcile_world) = Some demo_claim"
proof -
  have "find_payload as_mutation_attempt OT_mutation_attempt ''mut_1'' (w_store reconcile_world) = Some demo_attempt"
    "find_payload as_action_contract OT_action_contract ''act_1'' (w_store reconcile_world) = Some demo_contract"
    "payload_of as_protected_surface_operation_claim (getCurrentProtectedSurfaceOperationClaim demo_digest (w_store reconcile_world)) = Some demo_claim"
    by code_simp+
  then show "find_payload as_mutation_attempt OT_mutation_attempt (rin_mutationAttemptId (demo_report st)) (w_store reconcile_world) = Some demo_attempt"
    "find_payload as_action_contract OT_action_contract (ma_actionContractId demo_attempt) (w_store reconcile_world) = Some demo_contract"
    "currentClaimForContract demo_env demo_contract (w_store reconcile_world) = Some demo_claim"
    by (simp_all add: demo_report_def demo_attempt_def currentClaimForContract_def protectedSurfaceOperationClaimKeyDigest_def demo_digests)
qed

lemma reconcile_runs: "\<exists>res w'. reconcileSurfaceOperation demo_env (demo_report st) reconcile_world = (Inr res, w')"
proof (rule reconcile_delivers[OF demo_platform demo_quiet _ _ reconcile_records(1,2)])
  show "reconcile_input_valid (demo_report st)" by (simp add: reconcile_input_valid_def demo_report_def)
  show "streams_ok demo_env (s_events (w_store reconcile_world))"
    by (simp add: reconcile_world_def demo_events no_events_streams)
  show "guardSurfaceOperationReconciliation demo_attempt (rin_mutationAttemptId (demo_report st))
      (rin_idempotencyKey (demo_report st)) (rin_observedSurfaceOperationRef (demo_report st)) = guard_ok"
    by (simp add: guardSurfaceOperationReconciliation_def demo_attempt_def demo_report_def)
  have "mutation_attempt_valid demo_env demo_attempt" by code_simp
  moreover have "in_organization demo_attempt demo_contract" "in_organization demo_claim demo_contract"
    by (simp_all add: in_organization_def demo_attempt_def demo_claim_def demo_contract_def)
  moreover have "surface_operation_claim_valid demo_env demo_claim" by code_simp
  moreover have "contract_fields_ok demo_env demo_contract"
    using gate_ready(9) by (simp add: gate_reads_ok_def)
  moreover have "s_ledger (w_store reconcile_world) = []" "s_receipts (w_store reconcile_world) = []" by code_simp+
  moreover have "payloads as_idempotency_ledger_entry (listRecordsByActionContract OT_idempotency_ledger_entry
      (ac_actionContractId demo_contract) (scope_of demo_contract) (w_store reconcile_world)) = []" by code_simp
  moreover have "id_ok (ac_resourceRef demo_contract)" by code_simp
  ultimately show "reconcile_reads_ok demo_env (demo_report st) demo_attempt demo_contract (w_store reconcile_world)"
    by (simp add: reconcile_reads_ok_def reconcile_records currentIdempotencyLedgerForContract_def
        getCurrentIdempotencyLedgerEntry_def receiptIdForMutation_def getReceiptByMutationAttemptId_def payload_of_def
        last_opt_def demo_report_def)
qed (simp add: demo_report_def)

end
