(* ===== verification/Payloads.thy ===== *)
theory Payloads
  imports Records
begin

text \<open>
  Reading the remaining types of records at their type, as \<open>Records\<close> does for those
  of policy and gate.
\<close>

definition as_tool_capability :: "protocol_record \<Rightarrow> tool_capability option" where
  "as_tool_capability r = (case r of PR_tool_capability x \<Rightarrow> Some x | _ \<Rightarrow> None)"

lemma as_tool_capability_iff [payload_simps]: "as_tool_capability r = Some x \<longleftrightarrow> r = PR_tool_capability x"
  by (cases r) (auto simp: as_tool_capability_def)

lemma as_tool_capability_same [simp]: "as_tool_capability (PR_tool_capability x) = Some x"
  by (simp add: payload_simps)

definition as_action_type :: "protocol_record \<Rightarrow> action_type option" where
  "as_action_type r = (case r of PR_action_type x \<Rightarrow> Some x | _ \<Rightarrow> None)"

lemma as_action_type_iff [payload_simps]: "as_action_type r = Some x \<longleftrightarrow> r = PR_action_type x"
  by (cases r) (auto simp: as_action_type_def)

lemma as_action_type_same [simp]: "as_action_type (PR_action_type x) = Some x"
  by (simp add: payload_simps)

definition as_delegated_authority_status_transition :: "protocol_record \<Rightarrow> delegated_authority_status_transition option" where
  "as_delegated_authority_status_transition r = (case r of PR_delegated_authority_status_transition x \<Rightarrow> Some x | _ \<Rightarrow> None)"

lemma as_delegated_authority_status_transition_iff [payload_simps]: "as_delegated_authority_status_transition r = Some x \<longleftrightarrow> r = PR_delegated_authority_status_transition x"
  by (cases r) (auto simp: as_delegated_authority_status_transition_def)

lemma as_delegated_authority_status_transition_same [simp]: "as_delegated_authority_status_transition (PR_delegated_authority_status_transition x) = Some x"
  by (simp add: payload_simps)

definition as_gateway_custody_proof_packet :: "protocol_record \<Rightarrow> gateway_custody_proof_packet option" where
  "as_gateway_custody_proof_packet r = (case r of PR_gateway_custody_proof_packet x \<Rightarrow> Some x | _ \<Rightarrow> None)"

lemma as_gateway_custody_proof_packet_iff [payload_simps]: "as_gateway_custody_proof_packet r = Some x \<longleftrightarrow> r = PR_gateway_custody_proof_packet x"
  by (cases r) (auto simp: as_gateway_custody_proof_packet_def)

lemma as_gateway_custody_proof_packet_same [simp]: "as_gateway_custody_proof_packet (PR_gateway_custody_proof_packet x) = Some x"
  by (simp add: payload_simps)

definition as_credential_resolution_evidence :: "protocol_record \<Rightarrow> credential_resolution_evidence option" where
  "as_credential_resolution_evidence r = (case r of PR_credential_resolution_evidence x \<Rightarrow> Some x | _ \<Rightarrow> None)"

lemma as_credential_resolution_evidence_iff [payload_simps]: "as_credential_resolution_evidence r = Some x \<longleftrightarrow> r = PR_credential_resolution_evidence x"
  by (cases r) (auto simp: as_credential_resolution_evidence_def)

lemma as_credential_resolution_evidence_same [simp]: "as_credential_resolution_evidence (PR_credential_resolution_evidence x) = Some x"
  by (simp add: payload_simps)

definition as_transition_request_context :: "protocol_record \<Rightarrow> transition_request_context option" where
  "as_transition_request_context r = (case r of PR_transition_request_context x \<Rightarrow> Some x | _ \<Rightarrow> None)"

lemma as_transition_request_context_iff [payload_simps]: "as_transition_request_context r = Some x \<longleftrightarrow> r = PR_transition_request_context x"
  by (cases r) (auto simp: as_transition_request_context_def)

lemma as_transition_request_context_same [simp]: "as_transition_request_context (PR_transition_request_context x) = Some x"
  by (simp add: payload_simps)

definition as_runtime_execution :: "protocol_record \<Rightarrow> runtime_execution option" where
  "as_runtime_execution r = (case r of PR_runtime_execution x \<Rightarrow> Some x | _ \<Rightarrow> None)"

lemma as_runtime_execution_iff [payload_simps]: "as_runtime_execution r = Some x \<longleftrightarrow> r = PR_runtime_execution x"
  by (cases r) (auto simp: as_runtime_execution_def)

lemma as_runtime_execution_same [simp]: "as_runtime_execution (PR_runtime_execution x) = Some x"
  by (simp add: payload_simps)

definition as_generated_execution_graph :: "protocol_record \<Rightarrow> generated_execution_graph option" where
  "as_generated_execution_graph r = (case r of PR_generated_execution_graph x \<Rightarrow> Some x | _ \<Rightarrow> None)"

lemma as_generated_execution_graph_iff [payload_simps]: "as_generated_execution_graph r = Some x \<longleftrightarrow> r = PR_generated_execution_graph x"
  by (cases r) (auto simp: as_generated_execution_graph_def)

lemma as_generated_execution_graph_same [simp]: "as_generated_execution_graph (PR_generated_execution_graph x) = Some x"
  by (simp add: payload_simps)

definition as_tool_call_draft :: "protocol_record \<Rightarrow> tool_call_draft option" where
  "as_tool_call_draft r = (case r of PR_tool_call_draft x \<Rightarrow> Some x | _ \<Rightarrow> None)"

lemma as_tool_call_draft_iff [payload_simps]: "as_tool_call_draft r = Some x \<longleftrightarrow> r = PR_tool_call_draft x"
  by (cases r) (auto simp: as_tool_call_draft_def)

lemma as_tool_call_draft_same [simp]: "as_tool_call_draft (PR_tool_call_draft x) = Some x"
  by (simp add: payload_simps)

definition as_intent_compilation :: "protocol_record \<Rightarrow> intent_compilation option" where
  "as_intent_compilation r = (case r of PR_intent_compilation x \<Rightarrow> Some x | _ \<Rightarrow> None)"

lemma as_intent_compilation_iff [payload_simps]: "as_intent_compilation r = Some x \<longleftrightarrow> r = PR_intent_compilation x"
  by (cases r) (auto simp: as_intent_compilation_def)

lemma as_intent_compilation_same [simp]: "as_intent_compilation (PR_intent_compilation x) = Some x"
  by (simp add: payload_simps)

definition as_negotiation_decision :: "protocol_record \<Rightarrow> negotiation_decision option" where
  "as_negotiation_decision r = (case r of PR_negotiation_decision x \<Rightarrow> Some x | _ \<Rightarrow> None)"

lemma as_negotiation_decision_iff [payload_simps]: "as_negotiation_decision r = Some x \<longleftrightarrow> r = PR_negotiation_decision x"
  by (cases r) (auto simp: as_negotiation_decision_def)

lemma as_negotiation_decision_same [simp]: "as_negotiation_decision (PR_negotiation_decision x) = Some x"
  by (simp add: payload_simps)

definition as_authority_certificate :: "protocol_record \<Rightarrow> authority_certificate option" where
  "as_authority_certificate r = (case r of PR_authority_certificate x \<Rightarrow> Some x | _ \<Rightarrow> None)"

lemma as_authority_certificate_iff [payload_simps]: "as_authority_certificate r = Some x \<longleftrightarrow> r = PR_authority_certificate x"
  by (cases r) (auto simp: as_authority_certificate_def)

lemma as_authority_certificate_same [simp]: "as_authority_certificate (PR_authority_certificate x) = Some x"
  by (simp add: payload_simps)

definition as_review_artifact :: "protocol_record \<Rightarrow> review_artifact option" where
  "as_review_artifact r = (case r of PR_review_artifact x \<Rightarrow> Some x | _ \<Rightarrow> None)"

lemma as_review_artifact_iff [payload_simps]: "as_review_artifact r = Some x \<longleftrightarrow> r = PR_review_artifact x"
  by (cases r) (auto simp: as_review_artifact_def)

lemma as_review_artifact_same [simp]: "as_review_artifact (PR_review_artifact x) = Some x"
  by (simp add: payload_simps)

definition as_breaker_decision :: "protocol_record \<Rightarrow> breaker_decision option" where
  "as_breaker_decision r = (case r of PR_breaker_decision x \<Rightarrow> Some x | _ \<Rightarrow> None)"

lemma as_breaker_decision_iff [payload_simps]: "as_breaker_decision r = Some x \<longleftrightarrow> r = PR_breaker_decision x"
  by (cases r) (auto simp: as_breaker_decision_def)

lemma as_breaker_decision_same [simp]: "as_breaker_decision (PR_breaker_decision x) = Some x"
  by (simp add: payload_simps)

definition as_refusal :: "protocol_record \<Rightarrow> refusal option" where
  "as_refusal r = (case r of PR_refusal x \<Rightarrow> Some x | _ \<Rightarrow> None)"

lemma as_refusal_iff [payload_simps]: "as_refusal r = Some x \<longleftrightarrow> r = PR_refusal x"
  by (cases r) (auto simp: as_refusal_def)

lemma as_refusal_same [simp]: "as_refusal (PR_refusal x) = Some x"
  by (simp add: payload_simps)

definition as_receipt_export :: "protocol_record \<Rightarrow> receipt_export option" where
  "as_receipt_export r = (case r of PR_receipt_export x \<Rightarrow> Some x | _ \<Rightarrow> None)"

lemma as_receipt_export_iff [payload_simps]: "as_receipt_export r = Some x \<longleftrightarrow> r = PR_receipt_export x"
  by (cases r) (auto simp: as_receipt_export_def)

lemma as_receipt_export_same [simp]: "as_receipt_export (PR_receipt_export x) = Some x"
  by (simp add: payload_simps)

definition as_recovery_recommendation :: "protocol_record \<Rightarrow> recovery_recommendation option" where
  "as_recovery_recommendation r = (case r of PR_recovery_recommendation x \<Rightarrow> Some x | _ \<Rightarrow> None)"

lemma as_recovery_recommendation_iff [payload_simps]: "as_recovery_recommendation r = Some x \<longleftrightarrow> r = PR_recovery_recommendation x"
  by (cases r) (auto simp: as_recovery_recommendation_def)

lemma as_recovery_recommendation_same [simp]: "as_recovery_recommendation (PR_recovery_recommendation x) = Some x"
  by (simp add: payload_simps)

definition as_recovery_recommendation_status_transition :: "protocol_record \<Rightarrow> recovery_status_transition option" where
  "as_recovery_recommendation_status_transition r = (case r of PR_recovery_recommendation_status_transition x \<Rightarrow> Some x | _ \<Rightarrow> None)"

lemma as_recovery_recommendation_status_transition_iff [payload_simps]: "as_recovery_recommendation_status_transition r = Some x \<longleftrightarrow> r = PR_recovery_recommendation_status_transition x"
  by (cases r) (auto simp: as_recovery_recommendation_status_transition_def)

lemma as_recovery_recommendation_status_transition_same [simp]: "as_recovery_recommendation_status_transition (PR_recovery_recommendation_status_transition x) = Some x"
  by (simp add: payload_simps)

text \<open>An identifier that the input gives, or a new one.\<close>

definition given_or_new :: "kernel_env \<Rightarrow> string option \<Rightarrow> string \<Rightarrow> string wtr" where
  "given_or_new E x prefix = (case x of Some a \<Rightarrow> treturn a | None \<Rightarrow> createId E prefix)"

lemma reads_given_or_new [reads_only_intros]: "reads_only (given_or_new E x p)"
  by (cases x) (simp_all add: given_or_new_def reads_only_intros)

end
