(* ===== verification/Recovery.thy ===== *)
theory Recovery
  imports Payloads Reconcile
begin

text \<open>
  Recovery: a recommendation how to go on after a refusal, a proof gap or a failed
  attempt (\<open>recovery/recommendations.ts\<close>), its one terminal transition
  (\<open>recovery/status.ts\<close>), the proof gap of a lost race for that transition and its
  resolution (\<open>recovery/terminal/\<close>), and the link from a follow-up contract
  (\<open>recovery/follow-up/action-linkage.ts\<close>).  A recommendation grants nothing.
\<close>

section \<open>Exceptions that are caught\<close>

definition tcatch :: "('w, 'e, 'a) tr \<Rightarrow> ('e \<Rightarrow> ('w, 'e, 'a) tr) \<Rightarrow> ('w, 'e, 'a) tr" where
  "tcatch m h = (\<lambda>w. case m w of (Inl e, w') \<Rightarrow> h e w' | (Inr x, w') \<Rightarrow> (Inr x, w'))"

definition isRecoveryTerminalConflict :: "hs_error \<Rightarrow> bool" where
  "isRecoveryTerminalConflict e = (case e of
       ProtocolError code _ _ \<Rightarrow> code = ''recovery_terminal_conflict'' | _ \<Rightarrow> False)"

text \<open>The error a caller sees when the lost race was recorded as a proof gap.\<close>

definition recorded_conflict :: "hs_error \<Rightarrow> string \<Rightarrow> hs_error" where
  "recorded_conflict e gapId = (case e of
       ProtocolError code status m \<Rightarrow> ProtocolError code status
         (m\<lparr>em_retryability := Some ER_recoverable, em_commitState := Some CS_committed, em_proofRef := Some gapId\<rparr>)
     | _ \<Rightarrow> e)"

section \<open>Recommendations\<close>

record recommendation_input =
  ric_sourceReceiptId :: string
  ric_sourceRefusalOrGapRef :: "string option"
  ric_recommendedPath :: recovery_recommended_path
  ric_allowedNextActionClasses :: "string list"
  ric_requiredNewEvidence :: "string list"
  ric_requiresHumanReview :: bool
  ric_reasonCode :: string
  ric_reasonSummary :: string
  ric_reviewDecisionRef :: "string option"
  ric_policyChangeRef :: "string option"
  ric_recoveryExpiresAt :: "string option"
  ric_reviewDueAt :: "string option"
  ric_retryNotBefore :: "string option"

definition recommendation_input_valid :: "'e env_scheme \<Rightarrow> recommendation_input \<Rightarrow> bool" where
  "recommendation_input_valid E i \<longleftrightarrow>
     1 \<le> length (ric_sourceReceiptId i) \<and> 2 \<le> length (ric_reasonCode i) \<and> 1 \<le> length (ric_reasonSummary i) \<and>
     list_all (opt_ok (\<lambda>x. 1 \<le> length x)) [ric_sourceRefusalOrGapRef i, ric_reviewDecisionRef i, ric_policyChangeRef i] \<and>
     list_all (list_all (\<lambda>x. 1 \<le> length x)) [ric_allowedNextActionClasses i, ric_requiredNewEvidence i] \<and>
     list_all (opt_ok (iso_ok E)) [ric_recoveryExpiresAt i, ric_reviewDueAt i, ric_retryNotBefore i]"

definition assertReceiptDigestMaterial :: "receipt \<Rightarrow> unit wtr" where
  "assertReceiptDigestMaterial r =
    (if \<not> truthy_ref (rc_receiptDigest r) \<or> \<not> truthy_ref (rc_auditChainDigest r)
       then tfail (protocol_error ''recovery_receipt_digest_missing'' 409)
     else if rc_streamOffsets r = [] \<or> rc_streamEventIds r = []
       then tfail (protocol_error ''recovery_receipt_stream_offsets_missing'' 409)
     else treturn ())"

definition expected_receipt_digest :: "'e env_scheme \<Rightarrow> receipt \<Rightarrow> string" where
  "expected_receipt_digest E r = digestCanonical E (receipt_json (r\<lparr>rc_receiptDigest := None, rc_auditChainDigest := None\<rparr>))"

definition expected_audit_digest :: "'e env_scheme \<Rightarrow> receipt \<Rightarrow> string" where
  "expected_audit_digest E r = digestCanonical E (JObj
     [(''receiptDigest'', j_opt JStr (rc_receiptDigest r)),
      (''streamOffsets'', JArr (map receipt_stream_reference_json (rc_streamOffsets r))),
      (''proofGapIds'', JArr (map JStr (rc_proofGapIds r))),
      (''finalityStatus'', JStr (finality_status_str (rc_finalityStatus r)))])"

definition assertReceiptDigests :: "kernel_env \<Rightarrow> receipt \<Rightarrow> unit wtr" where
  "assertReceiptDigests E r =
    (if rc_receiptDigest r \<noteq> Some (expected_receipt_digest E r)
       then tfail (protocol_error ''recovery_receipt_digest_mismatch'' 409)
     else if rc_auditChainDigest r \<noteq> Some (expected_audit_digest E r)
       then tfail (protocol_error ''recovery_audit_chain_digest_mismatch'' 409)
     else treturn ())"

definition gap_concerns :: "receipt \<Rightarrow> proof_gap \<Rightarrow> bool" where
  "gap_concerns r g \<longleftrightarrow>
     (let refs = opt_list (pg_receiptId g) @ opt_list (pg_gateAttemptId g) @ opt_list (pg_mutationAttemptId g) @ pg_affectedObjectRefs g in
      rc_receiptId r \<in> set refs \<or> (\<exists>x \<in> set (opt_list (rc_gateAttemptId r)). x \<in> set refs) \<or>
      (\<exists>x \<in> set (opt_list (rc_mutationAttemptId r)). x \<in> set refs))"

definition assertProofGapBelongsToReceipt :: "receipt \<Rightarrow> proof_gap \<Rightarrow> unit wtr" where
  "assertProofGapBelongsToReceipt r g =
    (if gap_concerns r g then treturn () else tfail (protocol_error ''recovery_source_ref_mismatch'' 409))"

definition loadProofGaps :: "receipt \<Rightarrow> string option \<Rightarrow> proof_gap list wtr" where
  "loadProofGaps r ref = tmap (\<lambda>x.
     tbind (requiredPayload as_proof_gap OT_proof_gap x ''proof_gap_missing'') (\<lambda>g.
     tbind (assertProofGapBelongsToReceipt r g) (\<lambda>_. treturn g)))
     (unique_list (rc_proofGapIds r @ filter (str_prefix ''gap_'') (opt_list ref)))"

definition recoverable :: "receipt \<Rightarrow> proof_gap list \<Rightarrow> bool" where
  "recoverable r gs \<longleftrightarrow> gs \<noteq> [] \<or> rc_gatewayCheckStatus r \<in> {Some GD_refused, Some GD_proof_gap} \<or>
     rc_mutationAttemptStatus r \<in> {MO_downstream_refused, MO_failed, MO_unknown} \<or>
     rc_downstreamExecutionStatus r \<in> {DOS_refused, DOS_failed, DOS_unknown} \<or>
     rc_finalityStatus r \<in> {FS_suspect, FS_unknown}"

definition assertRecoverableReceipt :: "receipt \<Rightarrow> proof_gap list \<Rightarrow> unit wtr" where
  "assertRecoverableReceipt r gs =
    (if recoverable r gs then treturn () else tfail (protocol_error ''recovery_source_not_recoverable'' 409))"

definition defaultSourceRefusalOrGapRef :: "receipt \<Rightarrow> proof_gap list \<Rightarrow> string" where
  "defaultSourceRefusalOrGapRef r gs = (case gs of
       g # _ \<Rightarrow> pg_proofGapId g
     | [] \<Rightarrow> if rc_gatewayCheckStatus r = Some GD_refused then ref_or (rc_gateAttemptId r) (rc_receiptId r)
         else if rc_mutationAttemptStatus r \<noteq> MO_not_attempted
           then ref_or (rc_mutationAttemptId r) (ref_or (rc_gateAttemptId r) (rc_receiptId r))
         else ref_or (rc_gateAttemptId r) (rc_receiptId r))"

definition assertSourceRefBelongsToReceipt :: "receipt \<Rightarrow> proof_gap list \<Rightarrow> string \<Rightarrow> unit wtr" where
  "assertSourceRefBelongsToReceipt r gs ref =
    (if ref \<in> set (rc_receiptId r # opt_list (rc_gateAttemptId r) @ opt_list (rc_mutationAttemptId r) @ map pg_proofGapId gs)
     then treturn () else tfail (protocol_error ''recovery_source_ref_mismatch'' 409))"

definition assertRecommendationScope :: "recovery_recommended_path \<Rightarrow> string list \<Rightarrow> unit wtr" where
  "assertRecommendationScope path classes =
    (if path \<in> {RRP_narrower_action_contract_required, RRP_compensating_action_contract_required} \<and> classes = []
       then tfail (protocol_error ''recovery_next_action_class_missing'' 400)
     else if path = RRP_halt_without_retry \<and> classes \<noteq> []
       then tfail (protocol_error ''recovery_halt_has_next_action_classes'' 400)
     else treturn ())"

record recommendation_context =
  rmx_input :: recommendation_input
  rmx_receipt :: receipt
  rmx_proofGaps :: "proof_gap list"
  rmx_contract :: action_contract
  rmx_sourceRef :: string
  rmx_recommendationId :: string
  rmx_now :: string

definition getRecoveryRecommendationContext :: "kernel_env \<Rightarrow> recommendation_input \<Rightarrow> recommendation_context wtr" where
  "getRecoveryRecommendationContext E i =
     tbind (requiredPayload as_receipt OT_receipt (ric_sourceReceiptId i) ''receipt_missing'') (\<lambda>r.
     tbind (assertReceiptDigestMaterial r) (\<lambda>_.
     tbind (assertReceiptDigests E r) (\<lambda>_.
     tbind (loadProofGaps r (ric_sourceRefusalOrGapRef i)) (\<lambda>gs.
     tbind (assertRecoverableReceipt r gs) (\<lambda>_.
     tbind (requiredPayload as_action_contract OT_action_contract (rc_actionContractId r) ''contract_missing'') (\<lambda>c.
     (let ref = ref_or (ric_sourceRefusalOrGapRef i) (defaultSourceRefusalOrGapRef r gs) in
      tbind (assertSourceRefBelongsToReceipt r gs ref) (\<lambda>_.
      tbind (assertRecommendationScope (ric_recommendedPath i) (ric_allowedNextActionClasses i)) (\<lambda>_.
      tbind (createId E ''rec'') (\<lambda>rid.
      tbind (nowIso E) (\<lambda>now.
      treturn \<lparr>rmx_input = i, rmx_receipt = r, rmx_proofGaps = gs, rmx_contract = c, rmx_sourceRef = ref,
        rmx_recommendationId = rid, rmx_now = now\<rparr>)))))))))))"

definition safeRetryAvailable :: "recovery_recommended_path \<Rightarrow> bool \<Rightarrow> string list \<Rightarrow> bool" where
  "safeRetryAvailable path review classes \<longleftrightarrow>
     path = RRP_narrower_action_contract_required \<and> \<not> review \<and> classes \<noteq> []"

definition scopeNarrowingRequired :: "recovery_recommended_path \<Rightarrow> bool" where
  "scopeNarrowingRequired path \<longleftrightarrow>
     path \<in> {RRP_narrower_action_contract_required, RRP_compensating_action_contract_required}"

definition policyUpdateCandidate :: "recovery_recommended_path \<Rightarrow> string \<Rightarrow> bool" where
  "policyUpdateCandidate path code \<longleftrightarrow> path = RRP_human_review_required \<or> str_contains code ''policy''"

definition agentInstructionUpdateCandidate :: "string \<Rightarrow> bool" where
  "agentInstructionUpdateCandidate code \<longleftrightarrow>
     str_contains code ''agent'' \<or> str_contains code ''compiler'' \<or> str_contains code ''overreach''"

definition buildRecoveryRecommendationBinding :: "recommendation_context \<Rightarrow> jval" where
  "buildRecoveryRecommendationBinding x = (let i = rmx_input x; r = rmx_receipt x in JObj
     [(''recoveryRecommendationId'', JStr (rmx_recommendationId x)), (''sourceReceiptId'', JStr (rc_receiptId r)),
      (''sourceRefusalOrGapRef'', JStr (rmx_sourceRef x)), (''sourceActionContractId'', JStr (rc_actionContractId r)),
      (''sourceReceiptDigest'', j_opt JStr (rc_receiptDigest r)),
      (''sourceAuditChainDigest'', j_opt JStr (rc_auditChainDigest r)),
      (''recommendedPath'', JStr (recovery_recommended_path_str (ric_recommendedPath i))),
      (''allowedNextActionClasses'', JArr (map JStr (ric_allowedNextActionClasses i))),
      (''requiredNewEvidence'', JArr (map JStr (ric_requiredNewEvidence i))),
      (''requiresHumanReview'', JBool (ric_requiresHumanReview i)),
      (''mustCreateNewActionContract'', JBool True), (''mayReuseGreenlight'', JBool False),
      (''mayMutateProtectedSurface'', JBool False), (''recommendedAt'', JStr (rmx_now x))])"

definition recommendation_of :: "kernel_env \<Rightarrow> recommendation_context \<Rightarrow> recovery_recommendation" where
  "recommendation_of E x = (let i = rmx_input x; r = rmx_receipt x; c = rmx_contract x in
     \<lparr>schemaVersion = PROTOCOL_VERSION, tenantId = tenantId r, organizationId = organizationId r, createdAt = rmx_now x,
      rr_recoveryRecommendationId = rmx_recommendationId x, rr_sourceReceiptId = rc_receiptId r,
      rr_sourceActionContractId = rc_actionContractId r, rr_sourcePolicyDecisionId = rc_policyDecisionId r,
      rr_sourceGreenlightId = rc_greenlightId r, rr_sourceGateAttemptId = rc_gateAttemptId r,
      rr_sourceMutationAttemptId = rc_mutationAttemptId r, rr_sourceRefusalOrGapRef = rmx_sourceRef x,
      rr_sourceFinalityStatus = rc_finalityStatus r, rr_sourceGatewayCheckStatus = rc_gatewayCheckStatus r,
      rr_sourceMutationAttemptStatus = rc_mutationAttemptStatus r,
      rr_sourceDownstreamExecutionStatus = rc_downstreamExecutionStatus r, rr_recommendedPath = ric_recommendedPath i,
      rr_allowedNextActionClasses = ric_allowedNextActionClasses i, rr_requiredNewEvidence = ric_requiredNewEvidence i,
      rr_requiresHumanReview = ric_requiresHumanReview i,
      rr_safeRetryAvailable = safeRetryAvailable (ric_recommendedPath i) (ric_requiresHumanReview i) (ric_allowedNextActionClasses i),
      rr_scopeNarrowingRequired = scopeNarrowingRequired (ric_recommendedPath i),
      rr_policyUpdateCandidate = policyUpdateCandidate (ric_recommendedPath i) (ric_reasonCode i),
      rr_agentInstructionUpdateCandidate = agentInstructionUpdateCandidate (ric_reasonCode i),
      rr_principalId = ac_principalId c, rr_agentId = ac_agentId c, rr_runId = ac_runId c, rr_gatewayId = rc_gatewayId r,
      rr_resourceRef = ac_resourceRef c, rr_actionClass = ac_actionClass c, rr_failureReceiptRef = rc_receiptId r,
      rr_proofGapIds = map pg_proofGapId (rmx_proofGaps x),
      rr_missingEvidenceRefs = map pg_missingOrInvalidEvidenceRef (rmx_proofGaps x),
      rr_reviewDecisionRef = ric_reviewDecisionRef i, rr_policyChangeRef = ric_policyChangeRef i,
      rr_sourceReceiptDigest = the (rc_receiptDigest r), rr_sourceAuditChainDigest = the (rc_auditChainDigest r),
      rr_sourceStreamOffsets = rc_streamOffsets r, rr_reasonCode = ric_reasonCode i, rr_reasonSummary = ric_reasonSummary i,
      rr_recommendedAt = rmx_now x, rr_recoveryExpiresAt = ric_recoveryExpiresAt i, rr_reviewDueAt = ric_reviewDueAt i,
      rr_retryNotBefore = ric_retryNotBefore i, rr_mustCreateNewActionContract = True, rr_mayReuseGreenlight = False,
      rr_mayMutateProtectedSurface = False, rr_recommendationStatus = RRS_open, rr_statusChangedAt = None,
      rr_statusChangedByRef = None, rr_statusReasonCode = None, rr_statusReasonSummary = None,
      rr_supersededByActionContractId = None,
      rr_recommendationDigest = digestCanonical E (buildRecoveryRecommendationBinding x)\<rparr>)"

definition recoveryRecommendationEvents :: "action_contract \<Rightarrow> recovery_recommendation \<Rightarrow> event_descriptor list" where
  "recoveryRecommendationEvents c r =
     [\<lparr>ed_source = protocol_base.truncate r, ed_eventType = ET_recovery_recommended,
       ed_objectRefs = [rr_recoveryRecommendationId r, rr_sourceReceiptId r, rr_sourceActionContractId r, rr_sourceRefusalOrGapRef r],
       ed_payload = [(''sourceReceiptId'', JStr (rr_sourceReceiptId r)),
         (''sourceRefusalOrGapRef'', JStr (rr_sourceRefusalOrGapRef r)),
         (''recommendedPath'', JStr (recovery_recommended_path_str (rr_recommendedPath r))),
         (''mustCreateNewActionContract'', JBool True), (''mayReuseGreenlight'', JBool False),
         (''mayMutateProtectedSurface'', JBool False), (''recommendationDigest'', JStr (rr_recommendationDigest r))],
       ed_streamRefs = Some (actionLifecycleStreamRefs c)\<rparr>]"

definition createRecoveryRecommendation :: "kernel_env \<Rightarrow> recommendation_input \<Rightarrow> recovery_recommendation wtr" where
  "createRecoveryRecommendation E input =
     tbind (tparse (recommendation_input_valid E) input) (\<lambda>i.
     tbind (getRecoveryRecommendationContext E i) (\<lambda>x.
     tbind (tparse (recovery_recommendation_valid E) (recommendation_of E x)) (\<lambda>r.
     tbind (commitRecordsWithEvents E [PR_recovery_recommendation r] (recoveryRecommendationEvents (rmx_contract x) r) no_options) (\<lambda>_.
     treturn r))))"

section \<open>The proof gap of a lost race\<close>

record conflict_input =
  cfi_recommendation :: recovery_recommendation
  cfi_sourceContract :: action_contract
  cfi_attemptedObjectRef :: string
  cfi_changedByRef :: string

definition conflict_gap_of :: "conflict_input \<Rightarrow> string \<Rightarrow> string \<Rightarrow> proof_gap" where
  "conflict_gap_of i now gid = (let r = cfi_recommendation i in
     \<lparr>schemaVersion = PROTOCOL_VERSION, tenantId = tenantId r, organizationId = organizationId r, createdAt = now,
      pg_proofGapId = gid, pg_gapPhase = GP_recovery, pg_expectedEvidenceType = ''single_recovery_terminal_claim'',
      pg_missingOrInvalidEvidenceRef = ''recovery_terminal_claim:'' @ rr_recoveryRecommendationId r,
      pg_affectedObjectRefs = [rr_recoveryRecommendationId r, rr_sourceReceiptId r, rr_sourceActionContractId r,
        cfi_attemptedObjectRef i],
      pg_gateAttemptId = None, pg_mutationAttemptId = None, pg_receiptId = Some (rr_sourceReceiptId r),
      pg_reasonCode = ''recovery_terminal_conflict'', pg_finalityImpact = FI_none,
      pg_recoveryRequirement = ''Load the terminal recovery transition before proposing another follow-up action contract.'',
      pg_resolvedAt = None, pg_resolvedByRef = None\<rparr>)"

definition recoveryTerminalConflictProofGapEvents :: "conflict_input \<Rightarrow> proof_gap \<Rightarrow> event_descriptor list" where
  "recoveryTerminalConflictProofGapEvents i g = (let r = cfi_recommendation i in
     [\<lparr>ed_source = protocol_base.truncate g, ed_eventType = ET_proof_gap_recorded,
       ed_objectRefs = [pg_proofGapId g, rr_recoveryRecommendationId r, rr_sourceReceiptId r, cfi_attemptedObjectRef i],
       ed_payload = [(''reasonCode'', JStr (pg_reasonCode g)),
         (''finalityImpact'', JStr (finality_impact_str (pg_finalityImpact g))),
         (''recoveryRecommendationId'', JStr (rr_recoveryRecommendationId r)),
         (''attemptedObjectRef'', JStr (cfi_attemptedObjectRef i)), (''changedByRef'', JStr (cfi_changedByRef i))],
       ed_streamRefs = Some (actionLifecycleStreamRefs (cfi_sourceContract i))\<rparr>])"

definition recordRecoveryTerminalConflictProofGap :: "kernel_env \<Rightarrow> conflict_input \<Rightarrow> proof_gap wtr" where
  "recordRecoveryTerminalConflictProofGap E i =
     tbind (nowIso E) (\<lambda>now.
     tbind (createId E ''gap'') (\<lambda>gid.
     tbind (tparse (proof_gap_valid E) (conflict_gap_of i now gid)) (\<lambda>g.
     tbind (commitRecordsWithEvents E [PR_proof_gap g] (recoveryTerminalConflictProofGapEvents i g) no_options) (\<lambda>_.
     treturn g))))"

text \<open>What a transition does with the error of its commit: both places that race for a claim do the same.\<close>

definition record_conflict :: "kernel_env \<Rightarrow> conflict_input \<Rightarrow> hs_error \<Rightarrow> 'a wtr" where
  "record_conflict E i e =
    (if isRecoveryTerminalConflict e
     then tbind (recordRecoveryTerminalConflictProofGap E i) (\<lambda>g. tfail (recorded_conflict e (pg_proofGapId g)))
     else tfail e)"

section \<open>The terminal transition\<close>

record status_change_input =
  sci_recommendation :: recovery_recommendation
  sci_sourceContract :: action_contract
  sci_nextStatus :: recovery_recommendation_terminal_status
  sci_reasonCode :: string
  sci_reasonSummary :: string
  sci_changedByRef :: string
  sci_supersededByActionContractId :: "string option"
  sci_now :: string

record status_change =
  sch_recommendation :: recovery_recommendation
  sch_statusTransition :: recovery_status_transition
  sch_terminalClaim :: recovery_terminal_claim

definition status_transition_failure :: "status_change_input \<Rightarrow> string option" where
  "status_transition_failure i = (let r = sci_recommendation i in
     if rr_recommendationStatus r \<noteq> RRS_open then Some ''recovery_recommendation_not_open''
     else if sci_nextStatus i = RRTS_superseded \<and> \<not> truthy_ref (sci_supersededByActionContractId i)
       then Some ''recovery_superseding_contract_missing''
     else if sci_nextStatus i = RRTS_expired \<and> truthy_ref (sci_supersededByActionContractId i)
       then Some ''recovery_expired_has_superseding_contract''
     else if sci_nextStatus i = RRTS_expired \<and> (\<not> truthy_ref (rr_recoveryExpiresAt r) \<or>
         date_less (sci_now i) (ref_or (rr_recoveryExpiresAt r) []))
       then Some ''recovery_not_expired''
     else None)"

definition assertStatusTransitionInput :: "status_change_input \<Rightarrow> unit wtr" where
  "assertStatusTransitionInput i = (case status_transition_failure i of
       Some code \<Rightarrow> tfail (protocol_error code 409) | None \<Rightarrow> treturn ())"

fun terminal_status :: "recovery_recommendation_terminal_status \<Rightarrow> recovery_recommendation_status" where
  "terminal_status RRTS_expired = RRS_expired"
| "terminal_status RRTS_superseded = RRS_superseded"

definition transition_binding :: "status_change_input \<Rightarrow> string \<Rightarrow> jval" where
  "transition_binding i tid = (let r = sci_recommendation i in JObj
     [(''recoveryRecommendationStatusTransitionId'', JStr tid),
      (''recoveryRecommendationId'', JStr (rr_recoveryRecommendationId r)),
      (''previousStatus'', JStr (recovery_recommendation_status_str (rr_recommendationStatus r))),
      (''nextStatus'', JStr (recovery_recommendation_terminal_status_str (sci_nextStatus i))),
      (''recommendationDigest'', JStr (rr_recommendationDigest r)), (''reasonCode'', JStr (sci_reasonCode i)),
      (''changedByRef'', JStr (sci_changedByRef i)), (''changedAt'', JStr (sci_now i)),
      (''supersededByActionContractId'', j_opt JStr (sci_supersededByActionContractId i))])"

definition status_transition_of :: "kernel_env \<Rightarrow> status_change_input \<Rightarrow> string \<Rightarrow> recovery_status_transition" where
  "status_transition_of E i tid = (let r = sci_recommendation i in
     \<lparr>schemaVersion = PROTOCOL_VERSION, tenantId = tenantId r, organizationId = organizationId r, createdAt = sci_now i,
      rst_recoveryRecommendationStatusTransitionId = tid, rst_recoveryRecommendationId = rr_recoveryRecommendationId r,
      rst_sourceReceiptId = rr_sourceReceiptId r, rst_sourceActionContractId = rr_sourceActionContractId r,
      rst_previousStatus = rr_recommendationStatus r, rst_nextStatus = sci_nextStatus i,
      rst_recommendationDigest = rr_recommendationDigest r, rst_reasonCode = sci_reasonCode i,
      rst_reasonSummary = sci_reasonSummary i, rst_changedByRef = sci_changedByRef i, rst_changedAt = sci_now i,
      rst_supersededByActionContractId = sci_supersededByActionContractId i,
      rst_transitionDigest = digestCanonical E (transition_binding i tid)\<rparr>)"

definition changed_recommendation :: "status_change_input \<Rightarrow> recovery_recommendation" where
  "changed_recommendation i = (sci_recommendation i)\<lparr>
     rr_recommendationStatus := terminal_status (sci_nextStatus i), rr_statusChangedAt := Some (sci_now i),
     rr_statusChangedByRef := Some (sci_changedByRef i), rr_statusReasonCode := Some (sci_reasonCode i),
     rr_statusReasonSummary := Some (sci_reasonSummary i),
     rr_supersededByActionContractId := sci_supersededByActionContractId i\<rparr>"

definition buildRecoveryRecommendationStatusChange :: "kernel_env \<Rightarrow> status_change_input \<Rightarrow> status_change wtr" where
  "buildRecoveryRecommendationStatusChange E i =
     tbind (assertStatusTransitionInput i) (\<lambda>_.
     tbind (createId E ''rst'') (\<lambda>tid.
     tbind (tparse (recovery_recommendation_valid E) (changed_recommendation i)) (\<lambda>r.
     tbind (tparse (recovery_status_transition_valid E) (status_transition_of E i tid)) (\<lambda>t.
     treturn \<lparr>sch_recommendation = r, sch_statusTransition = t,
       sch_terminalClaim = \<lparr>rt_recoveryRecommendationId = rr_recoveryRecommendationId (sci_recommendation i),
         rt_statusTransitionId = tid, rt_nextStatus = sci_nextStatus i, rt_claimedAt = sci_now i\<rparr>\<rparr>))))"

definition statusChangeRecords :: "status_change \<Rightarrow> protocol_record list" where
  "statusChangeRecords k = [PR_recovery_recommendation (sch_recommendation k),
     PR_recovery_recommendation_status_transition (sch_statusTransition k)]"

definition statusChangeEvents :: "status_change \<Rightarrow> action_contract \<Rightarrow> event_descriptor list" where
  "statusChangeEvents k c = (let r = sch_recommendation k; t = sch_statusTransition k in
     [\<lparr>ed_source = protocol_base.truncate t, ed_eventType = ET_recovery_status_changed,
       ed_objectRefs = [rr_recoveryRecommendationId r, rst_recoveryRecommendationStatusTransitionId t, rr_sourceReceiptId r] @
         filter (\<lambda>x. x \<noteq> []) (opt_list (rst_supersededByActionContractId t)),
       ed_payload = [(''previousStatus'', JStr (recovery_recommendation_status_str (rst_previousStatus t))),
         (''nextStatus'', JStr (recovery_recommendation_terminal_status_str (rst_nextStatus t))),
         (''reasonCode'', JStr (rst_reasonCode t)), (''changedByRef'', JStr (rst_changedByRef t)),
         (''supersededByActionContractId'', j_opt JStr (rst_supersededByActionContractId t)),
         (''transitionDigest'', JStr (rst_transitionDigest t))],
       ed_streamRefs = Some (actionLifecycleStreamRefs c)\<rparr>])"

record recovery_status_input =
  rsi_recoveryRecommendationId :: string
  rsi_nextStatus :: recovery_recommendation_terminal_status
  rsi_reasonCode :: string
  rsi_reasonSummary :: string
  rsi_changedByRef :: string
  rsi_supersededByActionContractId :: "string option"

definition recovery_status_input_valid :: "recovery_status_input \<Rightarrow> bool" where
  "recovery_status_input_valid i \<longleftrightarrow> 1 \<le> length (rsi_recoveryRecommendationId i) \<and> 2 \<le> length (rsi_reasonCode i) \<and>
     1 \<le> length (rsi_reasonSummary i) \<and> 1 \<le> length (rsi_changedByRef i) \<and>
     opt_ok (\<lambda>x. 1 \<le> length x) (rsi_supersededByActionContractId i)"

definition assertSupersedingContract :: "recovery_recommendation \<Rightarrow> action_contract \<Rightarrow> unit wtr" where
  "assertSupersedingContract r c =
    (if ac_recoveryRecommendationId c \<noteq> Some (rr_recoveryRecommendationId r) \<or>
        ac_recoverySourceReceiptId c \<noteq> Some (rr_sourceReceiptId r) \<or>
        ac_recoveryRecommendationDigest c \<noteq> Some (rr_recommendationDigest r)
     then tfail (protocol_error ''recovery_superseding_contract_mismatch'' 409) else treturn ())"

definition getRecoveryRecommendationStatusContext :: "kernel_env \<Rightarrow> recovery_status_input \<Rightarrow> status_change_input wtr" where
  "getRecoveryRecommendationStatusContext E i =
     tbind (requiredPayload as_recovery_recommendation OT_recovery_recommendation (rsi_recoveryRecommendationId i)
        ''recovery_recommendation_missing'') (\<lambda>r.
     tbind (requiredPayload as_action_contract OT_action_contract (rr_sourceActionContractId r)
        ''recovery_source_contract_missing'') (\<lambda>c.
     tbind (if truthy_ref (rsi_supersededByActionContractId i)
        then tbind (requiredPayload as_action_contract OT_action_contract (ref_or (rsi_supersededByActionContractId i) [])
          ''recovery_superseding_contract_missing'') (\<lambda>b. assertSupersedingContract r b)
        else treturn ()) (\<lambda>_.
     tbind (nowIso E) (\<lambda>now.
     treturn \<lparr>sci_recommendation = r, sci_sourceContract = c, sci_nextStatus = rsi_nextStatus i,
       sci_reasonCode = rsi_reasonCode i, sci_reasonSummary = rsi_reasonSummary i, sci_changedByRef = rsi_changedByRef i,
       sci_supersededByActionContractId = rsi_supersededByActionContractId i, sci_now = now\<rparr>))))"

definition commitRecoveryRecommendationStatusChange :: "kernel_env \<Rightarrow> status_change_input \<Rightarrow> status_change \<Rightarrow> unit wtr" where
  "commitRecoveryRecommendationStatusChange E i k = tcatch
     (tbind (commitRecordsWithEvents E (statusChangeRecords k) (statusChangeEvents k (sci_sourceContract i))
        (no_options\<lparr>co_recoveryClaims := [sch_terminalClaim k]\<rparr>)) (\<lambda>_. treturn ()))
     (record_conflict E \<lparr>cfi_recommendation = sci_recommendation i, cfi_sourceContract = sci_sourceContract i,
        cfi_attemptedObjectRef = rst_recoveryRecommendationStatusTransitionId (sch_statusTransition k),
        cfi_changedByRef = sci_changedByRef i\<rparr>)"

definition transitionRecoveryRecommendationStatus :: "kernel_env \<Rightarrow> recovery_status_input \<Rightarrow> status_change wtr" where
  "transitionRecoveryRecommendationStatus E input =
     tbind (tparse recovery_status_input_valid input) (\<lambda>i.
     tbind (getRecoveryRecommendationStatusContext E i) (\<lambda>x.
     tbind (buildRecoveryRecommendationStatusChange E x) (\<lambda>k.
     tbind (commitRecoveryRecommendationStatusChange E x k) (\<lambda>_. treturn k))))"

section \<open>Resolving the proof gap\<close>

record resolve_input =
  rvi_proofGapId :: string
  rvi_statusTransitionId :: string
  rvi_observedByRef :: string

definition resolve_input_valid :: "resolve_input \<Rightarrow> bool" where
  "resolve_input_valid i \<longleftrightarrow> 1 \<le> length (rvi_proofGapId i) \<and> 1 \<le> length (rvi_statusTransitionId i) \<and>
     1 \<le> length (rvi_observedByRef i)"

definition conflict_resolution_failure ::
  "proof_gap \<Rightarrow> recovery_status_transition \<Rightarrow> recovery_recommendation \<Rightarrow> string option" where
  "conflict_resolution_failure g t r =
    (if truthy_ref (pg_resolvedAt g) \<or> truthy_ref (pg_resolvedByRef g) then Some ''proof_gap_already_resolved''
     else if pg_gapPhase g \<noteq> GP_recovery \<or> pg_reasonCode g \<noteq> ''recovery_terminal_conflict'' \<or>
         pg_expectedEvidenceType g \<noteq> ''single_recovery_terminal_claim''
       then Some ''recovery_terminal_conflict_gap_mismatch''
     else if tenantId g \<noteq> tenantId t \<or> organizationId g \<noteq> organizationId t \<or>
         tenantId r \<noteq> tenantId t \<or> organizationId r \<noteq> organizationId t
       then Some ''recovery_terminal_conflict_scope_mismatch''
     else if pg_missingOrInvalidEvidenceRef g \<noteq> ''recovery_terminal_claim:'' @ rst_recoveryRecommendationId t
       then Some ''recovery_terminal_conflict_claim_mismatch''
     else if pg_receiptId g \<noteq> Some (rst_sourceReceiptId t) \<or>
         rst_recoveryRecommendationId t \<notin> set (pg_affectedObjectRefs g) \<or>
         rst_sourceReceiptId t \<notin> set (pg_affectedObjectRefs g) \<or>
         rst_sourceActionContractId t \<notin> set (pg_affectedObjectRefs g)
       then Some ''recovery_terminal_conflict_evidence_mismatch''
     else if rr_recoveryRecommendationId r \<noteq> rst_recoveryRecommendationId t \<or>
         rr_sourceReceiptId r \<noteq> rst_sourceReceiptId t \<or>
         rr_sourceActionContractId r \<noteq> rst_sourceActionContractId t \<or>
         rr_recommendationDigest r \<noteq> rst_recommendationDigest t \<or>
         rr_recommendationStatus r \<noteq> terminal_status (rst_nextStatus t) \<or>
         rr_statusChangedAt r \<noteq> Some (rst_changedAt t) \<or> rr_statusChangedByRef r \<noteq> Some (rst_changedByRef t) \<or>
         rr_supersededByActionContractId r \<noteq> rst_supersededByActionContractId t
       then Some ''recovery_terminal_transition_not_current''
     else None)"

definition assertRecoveryTerminalConflictResolution ::
  "proof_gap \<Rightarrow> recovery_status_transition \<Rightarrow> recovery_recommendation \<Rightarrow> unit wtr" where
  "assertRecoveryTerminalConflictResolution g t r = (case conflict_resolution_failure g t r of
       Some code \<Rightarrow> tfail (protocol_error code 409) | None \<Rightarrow> treturn ())"

record resolution_context =
  rvx_input :: resolve_input
  rvx_proofGap :: proof_gap
  rvx_statusTransition :: recovery_status_transition
  rvx_recommendation :: recovery_recommendation
  rvx_sourceContract :: action_contract
  rvx_now :: string

definition getRecoveryTerminalConflictResolutionContext :: "kernel_env \<Rightarrow> resolve_input \<Rightarrow> resolution_context wtr" where
  "getRecoveryTerminalConflictResolutionContext E i =
     tbind (requiredPayload as_proof_gap OT_proof_gap (rvi_proofGapId i) ''proof_gap_missing'') (\<lambda>g.
     tbind (requiredPayload as_recovery_recommendation_status_transition OT_recovery_recommendation_status_transition
        (rvi_statusTransitionId i) ''recovery_terminal_transition_missing'') (\<lambda>t.
     tbind (requiredPayload as_recovery_recommendation OT_recovery_recommendation (rst_recoveryRecommendationId t)
        ''recovery_recommendation_missing'') (\<lambda>r.
     tbind (requiredPayload as_action_contract OT_action_contract (rst_sourceActionContractId t)
        ''recovery_source_contract_missing'') (\<lambda>c.
     tbind (assertRecoveryTerminalConflictResolution g t r) (\<lambda>_.
     tbind (nowIso E) (\<lambda>now.
     treturn \<lparr>rvx_input = i, rvx_proofGap = g, rvx_statusTransition = t, rvx_recommendation = r,
       rvx_sourceContract = c, rvx_now = now\<rparr>))))))"

record conflict_resolution =
  rvr_proofGap :: proof_gap
  rvr_statusTransition :: recovery_status_transition
  rvr_recommendation :: recovery_recommendation

definition buildRecoveryTerminalConflictResolution :: "kernel_env \<Rightarrow> resolution_context \<Rightarrow> conflict_resolution wtr" where
  "buildRecoveryTerminalConflictResolution E x =
     tbind (tparse (proof_gap_valid E) ((rvx_proofGap x)\<lparr>pg_resolvedAt := Some (rvx_now x),
        pg_resolvedByRef := Some (rst_recoveryRecommendationStatusTransitionId (rvx_statusTransition x))\<rparr>)) (\<lambda>g.
     treturn \<lparr>rvr_proofGap = g, rvr_statusTransition = rvx_statusTransition x, rvr_recommendation = rvx_recommendation x\<rparr>)"

definition recoveryTerminalConflictResolutionEvents :: "resolution_context \<Rightarrow> conflict_resolution \<Rightarrow> event_descriptor list" where
  "recoveryTerminalConflictResolutionEvents x res = (let t = rvx_statusTransition x; g = rvr_proofGap res in
     [\<lparr>ed_source = protocol_base.truncate g, ed_eventType = ET_proof_gap_resolved,
       ed_objectRefs = [pg_proofGapId g, rst_recoveryRecommendationStatusTransitionId t, rst_recoveryRecommendationId t,
         rst_sourceReceiptId t, rst_sourceActionContractId t],
       ed_payload = [(''gapPhase'', JStr (gap_phase_str (pg_gapPhase g))), (''reasonCode'', JStr (pg_reasonCode g)),
         (''finalityImpact'', JStr (finality_impact_str (pg_finalityImpact g))),
         (''recoveryRecommendationId'', JStr (rst_recoveryRecommendationId t)),
         (''recoveryRecommendationStatusTransitionId'', JStr (rst_recoveryRecommendationStatusTransitionId t)),
         (''nextStatus'', JStr (recovery_recommendation_terminal_status_str (rst_nextStatus t))),
         (''transitionDigest'', JStr (rst_transitionDigest t)), (''resolvedByRef'', j_opt JStr (pg_resolvedByRef g)),
         (''observedByRef'', JStr (rvi_observedByRef (rvx_input x)))],
       ed_streamRefs = Some (actionLifecycleStreamRefs (rvx_sourceContract x))\<rparr>])"

definition resolveRecoveryTerminalConflictProofGap :: "kernel_env \<Rightarrow> resolve_input \<Rightarrow> conflict_resolution wtr" where
  "resolveRecoveryTerminalConflictProofGap E input =
     tbind (tparse resolve_input_valid input) (\<lambda>i.
     tbind (getRecoveryTerminalConflictResolutionContext E i) (\<lambda>x.
     tbind (buildRecoveryTerminalConflictResolution E x) (\<lambda>res.
     tbind (commitRecordsWithEvents E [PR_proof_gap (rvr_proofGap res)]
        (recoveryTerminalConflictResolutionEvents x res) no_options) (\<lambda>_. treturn res))))"

section \<open>Follow-up contracts\<close>

record recovery_linkage =
  rln_recommendation :: recovery_recommendation
  rln_sourceContract :: action_contract

definition loadRecoveryActionLinkage :: "string option \<Rightarrow> recovery_linkage option wtr" where
  "loadRecoveryActionLinkage ref =
    (if \<not> truthy_ref ref then treturn None
     else tbind (requiredPayload as_recovery_recommendation OT_recovery_recommendation (ref_or ref [])
            ''recovery_recommendation_missing'') (\<lambda>r.
          tbind (requiredPayload as_action_contract OT_action_contract (rr_sourceActionContractId r)
            ''recovery_source_contract_missing'') (\<lambda>c.
          treturn (Some \<lparr>rln_recommendation = r, rln_sourceContract = c\<rparr>))))"

record followup_candidate =
  rfc_tenantId :: string
  rfc_organizationId :: string
  rfc_principalId :: string
  rfc_agentId :: string
  rfc_runId :: string
  rfc_sequenceNumber :: int
  rfc_actionClass :: string
  rfc_gatewayId :: string
  rfc_resourceRef :: string
  rfc_evidenceRefs :: "string list"

definition linkage_failure :: "followup_candidate \<Rightarrow> recovery_linkage \<Rightarrow> string \<Rightarrow> string option" where
  "linkage_failure f l now = (let r = rln_recommendation l in
     if rr_recommendedPath r \<notin> {RRP_narrower_action_contract_required, RRP_compensating_action_contract_required}
       then Some ''recovery_path_not_contractable''
     else if rr_recommendationStatus r \<noteq> RRS_open then Some ''recovery_recommendation_not_open''
     else if truthy_ref (rr_recoveryExpiresAt r) \<and> date_le (ref_or (rr_recoveryExpiresAt r) []) now
       then Some ''recovery_recommendation_expired''
     else if truthy_ref (rr_retryNotBefore r) \<and> date_less now (ref_or (rr_retryNotBefore r) [])
       then Some ''recovery_retry_not_before''
     else if rfc_sequenceNumber f \<le> ac_sequenceNumber (rln_sourceContract l) then Some ''recovery_followup_not_later''
     else if rfc_actionClass f \<notin> set (rr_allowedNextActionClasses r) then Some ''recovery_action_class_not_allowed''
     else if filter (\<lambda>e. e \<notin> set (rfc_evidenceRefs f)) (rr_requiredNewEvidence r) \<noteq> []
       then Some ''recovery_required_evidence_missing''
     else if rfc_tenantId f \<noteq> tenantId r \<or> rfc_organizationId f \<noteq> organizationId r \<or>
         rfc_principalId f \<noteq> rr_principalId r \<or> rfc_agentId f \<noteq> rr_agentId r \<or> rfc_runId f \<noteq> rr_runId r \<or>
         rfc_gatewayId f \<noteq> rr_gatewayId r \<or> rfc_resourceRef f \<noteq> rr_resourceRef r
       then Some ''recovery_followup_scope_mismatch''
     else None)"

definition assertRecoveryActionLinkage :: "followup_candidate \<Rightarrow> recovery_linkage option \<Rightarrow> string \<Rightarrow> unit wtr" where
  "assertRecoveryActionLinkage f l now = (case l of None \<Rightarrow> treturn ()
     | Some x \<Rightarrow> (case linkage_failure f x now of
         Some code \<Rightarrow> tfail (protocol_error code 409) | None \<Rightarrow> treturn ()))"

end
