(* ===== verification/Recovery_Laws.thy ===== *)
theory Recovery_Laws
  imports Recovery
begin

text \<open>
  What recovery guarantees: a recommendation rests on the digests of its receipt
  and grants nothing, it gets at most one terminal transition, a lost race leaves
  a proof gap that the winner's transition resolves, and the receipts of the
  gateway pass the digest check that recovery makes.
\<close>

section \<open>Caught exceptions\<close>

lemma tcatch_Inr:
  "tcatch m h w = (Inr x, w') \<longleftrightarrow> m w = (Inr x, w') \<or> (\<exists>e v. m w = (Inl e, v) \<and> h e v = (Inr x, w'))"
  by (auto simp: tcatch_def split: prod.splits sum.splits)

lemma moves_tcatch:
  assumes "store_moves m" "\<And>e. store_moves (h e)"
  shows "store_moves (tcatch m h)"
proof (rule store_movesI)
  fix w r w'
  assume run: "tcatch m h w = (r, w')"
  obtain q v where m: "m w = (q, v)" by (cases "m w") auto
  have "store_run (w_store w) (w_store v)" using store_movesD[OF assms(1) m] .
  then show "store_run (w_store w) (w_store w')"
    using run m store_movesD[OF assms(2)] by (cases q) (auto simp: tcatch_def intro: rtranclp_trans[of store_step])
qed

lemma record_conflict_fails: "record_conflict E i e w \<noteq> (Inr x, w')"
  by (auto simp: record_conflict_def elim!: tbind_InrE)

section \<open>Reading transitions\<close>

lemma reads_tmap: "(\<And>x. reads_only (f x)) \<Longrightarrow> reads_only (tmap f xs)"
  by (induction xs) (simp_all add: reads_only_intros)

lemma reads_recovery [reads_only_intros]:
  "reads_only (assertReceiptDigestMaterial r)" "reads_only (assertReceiptDigests E r)"
  "reads_only (assertProofGapBelongsToReceipt r g)" "reads_only (assertRecoverableReceipt r gs)"
  "reads_only (assertSourceRefBelongsToReceipt r gs ref)" "reads_only (assertRecommendationScope p cs)"
  "reads_only (assertSupersedingContract rr c)"
  unfolding assertReceiptDigestMaterial_def assertReceiptDigests_def assertProofGapBelongsToReceipt_def
    assertRecoverableReceipt_def assertSourceRefBelongsToReceipt_def assertRecommendationScope_def
    assertSupersedingContract_def
  by (auto intro!: reads_only_intros)

lemma reads_linkage [reads_only_intros]:
  "reads_only (assertStatusTransitionInput i)" "reads_only (assertRecoveryTerminalConflictResolution g t rr)"
  "reads_only (assertRecoveryActionLinkage f l now)" "reads_only (loadRecoveryActionLinkage ref)"
  unfolding assertStatusTransitionInput_def assertRecoveryTerminalConflictResolution_def
    assertRecoveryActionLinkage_def loadRecoveryActionLinkage_def
  by (auto intro!: reads_only_intros split: option.splits)

lemma reads_contexts [reads_only_intros]:
  "reads_only (getRecoveryRecommendationContext E i)" "reads_only (getRecoveryRecommendationStatusContext E j)"
  "reads_only (buildRecoveryRecommendationStatusChange E x)"
  unfolding getRecoveryRecommendationContext_def loadProofGaps_def getRecoveryRecommendationStatusContext_def
    buildRecoveryRecommendationStatusChange_def Let_def
  by (auto intro!: reads_only_intros reads_tmap)

lemma moves_record_conflict: "disciplined E \<Longrightarrow> store_moves (record_conflict E i e)"
  unfolding record_conflict_def recordRecoveryTerminalConflictProofGap_def
  by (auto intro!: store_moves_intros moves_commitRecords)

lemma moves_status_change: "disciplined E \<Longrightarrow> store_moves (transitionRecoveryRecommendationStatus E i)"
  unfolding transitionRecoveryRecommendationStatus_def commitRecoveryRecommendationStatusChange_def
  by (intro store_moves_intros moves_tcatch moves_record_conflict moves_commitRecords
      reads_only_moves[OF reads_contexts(2)] reads_only_moves[OF reads_contexts(3)])

section \<open>Recommendations\<close>

text \<open>A receipt whose digests match its content.\<close>

definition receipt_digested :: "'e env_scheme \<Rightarrow> receipt \<Rightarrow> bool" where
  "receipt_digested E r \<longleftrightarrow> rc_receiptDigest r = Some (expected_receipt_digest E r) \<and>
     rc_auditChainDigest r = Some (expected_audit_digest E r)"

definition grants_nothing :: "recovery_recommendation \<Rightarrow> bool" where
  "grants_nothing r \<longleftrightarrow> rr_mustCreateNewActionContract r \<and> \<not> rr_mayReuseGreenlight r \<and>
     \<not> rr_mayMutateProtectedSurface r \<and> rr_recommendationStatus r = RRS_open"

lemma assert_material_Inr: "assertReceiptDigestMaterial r w = (Inr u, w') \<Longrightarrow> w' = w"
  by (auto simp: assertReceiptDigestMaterial_def split: if_splits)

lemma assert_digests_Inr:
  "assertReceiptDigests E r w = (Inr u, w') \<longleftrightarrow> w' = w \<and> receipt_digested E r"
  by (auto simp: assertReceiptDigests_def receipt_digested_def)

lemma recommendation_context_Inr:
  assumes "getRecoveryRecommendationContext E i w = (Inr x, w')"
  shows "find_payload as_receipt OT_receipt (ric_sourceReceiptId i) (w_store w) = Some (rmx_receipt x) \<and>
     find_payload as_action_contract OT_action_contract (rc_actionContractId (rmx_receipt x)) (w_store w) = Some (rmx_contract x) \<and>
     receipt_digested E (rmx_receipt x) \<and> recoverable (rmx_receipt x) (rmx_proofGaps x) \<and>
     rmx_sourceRef x \<in> set (rc_receiptId (rmx_receipt x) # opt_list (rc_gateAttemptId (rmx_receipt x)) @
       opt_list (rc_mutationAttemptId (rmx_receipt x)) @ map pg_proofGapId (rmx_proofGaps x)) \<and> w_store w' = w_store w"
proof -
  have store: "w_store w' = w_store w"
    by (rule reads_onlyD[OF reads_contexts(1) assms])
  obtain r gs c w1 ref rid now where r: "find_payload as_receipt OT_receipt (ric_sourceReceiptId i) (w_store w) = Some r"
    and d: "receipt_digested E r" and gs: "loadProofGaps r (ric_sourceRefusalOrGapRef i) w = (Inr gs, w1)"
    and rec: "recoverable r gs"
    and c: "find_payload as_action_contract OT_action_contract (rc_actionContractId r) (w_store w1) = Some c"
    and ref: "ref \<in> set (rc_receiptId r # opt_list (rc_gateAttemptId r) @ opt_list (rc_mutationAttemptId r) @ map pg_proofGapId gs)"
    and x: "x = \<lparr>rmx_input = i, rmx_receipt = r, rmx_proofGaps = gs, rmx_contract = c, rmx_sourceRef = ref,
        rmx_recommendationId = rid, rmx_now = now\<rparr>"
    using assms unfolding getRecoveryRecommendationContext_def Let_def
    by (auto elim!: tbind_InrE simp: requiredPayload_Inr assertRecoverableReceipt_def assertSourceRefBelongsToReceipt_def
        assert_digests_Inr simp del: set_append list.set split: if_splits dest!: assert_material_Inr)
  have "reads_only (loadProofGaps r q)" for q
    unfolding loadProofGaps_def by (intro reads_tmap reads_only_intros)
  then have "w_store w1 = w_store w" using gs by (auto dest: reads_onlyD)
  then show ?thesis using r d rec c ref x store by simp
qed

text \<open>A recommendation rests on the stored receipt it names, and grants nothing.\<close>

definition rests_on :: "'e env_scheme \<Rightarrow> recovery_recommendation \<Rightarrow> receipt \<Rightarrow> bool" where
  "rests_on E rr r \<longleftrightarrow> receipt_digested E r \<and> rr_sourceReceiptId rr = rc_receiptId r \<and>
     Some (rr_sourceReceiptDigest rr) = rc_receiptDigest r \<and> Some (rr_sourceAuditChainDigest rr) = rc_auditChainDigest r \<and>
     rr_sourceActionContractId rr = rc_actionContractId r \<and> in_organization rr r"

lemma recommendation_of_rests:
  assumes "receipt_digested E (rmx_receipt x)"
  shows "rests_on E (recommendation_of E x) (rmx_receipt x) \<and> grants_nothing (recommendation_of E x)"
  using assms by (simp add: rests_on_def recommendation_of_def grants_nothing_def receipt_digested_def Let_def in_organization_def)

lemma createRecommendation_rests:
  assumes "disciplined E" "createRecoveryRecommendation E i w = (Inr rr, w')"
  shows "\<exists>r gs. find_payload as_receipt OT_receipt (ric_sourceReceiptId i) (w_store w) = Some r \<and> rests_on E rr r \<and>
     recoverable r gs \<and> grants_nothing rr \<and>
     find_payload as_recovery_recommendation OT_recovery_recommendation (rr_recoveryRecommendationId rr) (w_store w') = Some rr"
proof -
  obtain x w1 es where ctx: "getRecoveryRecommendationContext E i w = (Inr x, w1)"
    and rr: "rr = recommendation_of E x"
    and com: "commitRecordsWithEvents E [PR_recovery_recommendation rr] (recoveryRecommendationEvents (rmx_contract x) rr)
      no_options w1 = (Inr es, w')"
    using assms(2) by (auto simp: createRecoveryRecommendation_def elim!: tbind_InrE)
  have "find_payload as_recovery_recommendation OT_recovery_recommendation (rr_recoveryRecommendationId rr) (w_store w') = Some rr"
    using commitRecords_stores[OF assms(1) com, of "PR_recovery_recommendation rr"] by (simp add: find_payload_def)
  then show ?thesis
    using recommendation_context_Inr[OF ctx] recommendation_of_rests[of E x] rr by blast
qed

section \<open>The terminal transition happens once\<close>

lemma status_change_Inr:
  assumes "buildRecoveryRecommendationStatusChange E i w = (Inr k, w')"
  shows "\<exists>tid. sch_recommendation k = changed_recommendation i \<and> sch_statusTransition k = status_transition_of E i tid \<and>
     sch_terminalClaim k = \<lparr>rt_recoveryRecommendationId = rr_recoveryRecommendationId (sci_recommendation i),
         rt_statusTransitionId = tid, rt_nextStatus = sci_nextStatus i, rt_claimedAt = sci_now i\<rparr> \<and>
     status_transition_failure i = None"
  using assms
  by (auto simp: buildRecoveryRecommendationStatusChange_def assertStatusTransitionInput_def elim!: tbind_InrE split: option.splits)

text \<open>
  A transition that succeeds moves the store to \<open>s\<close>, finds the recommendation
  unclaimed there, and leaves the claim and the changed recommendation.
\<close>

definition terminates_recommendation :: "string \<Rightarrow> status_change \<Rightarrow> pstore \<Rightarrow> pstore \<Rightarrow> bool" where
  "terminates_recommendation rid k s t \<longleftrightarrow> map_of (s_recovery s) rid = None \<and>
     map_of (s_recovery t) rid = Some (sch_terminalClaim k) \<and>
     rst_recoveryRecommendationStatusTransitionId (sch_statusTransition k) = rt_statusTransitionId (sch_terminalClaim k) \<and>
     rst_recoveryRecommendationId (sch_statusTransition k) = rid \<and>
     find_payload as_recovery_recommendation OT_recovery_recommendation rid t = Some (sch_recommendation k) \<and>
     rr_recommendationStatus (sch_recommendation k) = terminal_status (rst_nextStatus (sch_statusTransition k))"

lemma commit_claims_recovery:
  assumes "disciplined E" "commitRecordsWithEvents E rs ds (no_options\<lparr>co_recoveryClaims := [c]\<rparr>) w = (Inr es, w')"
  shows "\<exists>s. store_run (w_store w) s \<and> store_step s (w_store w') \<and> map_of (s_recovery s) (rt_recoveryRecommendationId c) = None \<and>
     map_of (s_recovery (w_store w')) (rt_recoveryRecommendationId c) = Some c"
proof -
  obtain rs' s where run: "store_run (w_store w) s" and
    com: "commitProtocolRecords (commit_of (map (buildRecord E) rs') es (no_options\<lparr>co_recoveryClaims := [c]\<rparr>)) s =
      (CR_committed, w_store w')"
    using commitRecords_committed[OF assms] by blast
  have "store_step s (w_store w')" using store_step.step_commit[of s] com by (metis snd_conv)
  then show ?thesis
    using run commitProtocolRecords_committedD(3,8)[OF com] by (auto simp: map_of_update has_key_def)
qed

lemma transition_terminates:
  assumes "disciplined E" "transitionRecoveryRecommendationStatus E i w = (Inr k, w')"
    "find_payload as_recovery_recommendation OT_recovery_recommendation (rsi_recoveryRecommendationId i) (w_store w) = Some rr"
  shows "\<exists>s. store_run (w_store w) s \<and> store_step s (w_store w') \<and>
     terminates_recommendation (rr_recoveryRecommendationId rr) k s (w_store w')"
proof -
  obtain x w1 w2 where ctx: "getRecoveryRecommendationStatusContext E i w = (Inr x, w1)"
    and k: "buildRecoveryRecommendationStatusChange E x w1 = (Inr k, w2)"
    and com: "commitRecoveryRecommendationStatusChange E x k w2 = (Inr (), w')"
    using assms(2) by (auto simp: transitionRecoveryRecommendationStatus_def elim!: tbind_InrE)
  have st: "w_store w2 = w_store w"
    using reads_onlyD[OF reads_contexts(2) ctx] reads_onlyD[OF reads_contexts(3) k] by simp
  have rr: "sci_recommendation x = rr"
    using ctx assms(3) by (auto simp: getRecoveryRecommendationStatusContext_def requiredPayload_Inr elim!: tbind_InrE)
  obtain tid where parts: "sch_recommendation k = changed_recommendation x" "sch_statusTransition k = status_transition_of E x tid"
     "sch_terminalClaim k = \<lparr>rt_recoveryRecommendationId = rr_recoveryRecommendationId rr,
         rt_statusTransitionId = tid, rt_nextStatus = sci_nextStatus x, rt_claimedAt = sci_now x\<rparr>"
    using status_change_Inr[OF k] rr by blast
  obtain es where com: "commitRecordsWithEvents E (statusChangeRecords k) (statusChangeEvents k (sci_sourceContract x))
        (no_options\<lparr>co_recoveryClaims := [sch_terminalClaim k]\<rparr>) w2 = (Inr es, w')"
    using com by (auto simp: commitRecoveryRecommendationStatusChange_def tcatch_Inr record_conflict_fails elim!: tbind_InrE)
  have "rr_recoveryRecommendationId (sch_recommendation k) = rr_recoveryRecommendationId rr"
    using parts(1) rr by (simp add: changed_recommendation_def)
  moreover have "getRecord (record_type (PR_recovery_recommendation (sch_recommendation k)))
      (getObjectId (PR_recovery_recommendation (sch_recommendation k))) (w_store w') =
      Some (buildRecord E (PR_recovery_recommendation (sch_recommendation k)))"
    by (rule commitRecords_stores[OF assms(1) com]) (auto simp: statusChangeRecords_def)
  ultimately have "find_payload as_recovery_recommendation OT_recovery_recommendation (rr_recoveryRecommendationId rr) (w_store w') =
      Some (sch_recommendation k)"
    by (simp add: find_payload_def)
  then show ?thesis
    using commit_claims_recovery[OF assms(1) com] parts rr st
    by (auto simp: terminates_recommendation_def changed_recommendation_def status_transition_of_def Let_def)
qed

lemma one_terminal_transition:
  assumes E: "disciplined E" and one: "transitionRecoveryRecommendationStatus E i w = (Inr k, w1)"
      "find_payload as_recovery_recommendation OT_recovery_recommendation (rsi_recoveryRecommendationId i) (w_store w) = Some rr"
    and later: "store_run (w_store w1) (w_store w2)"
    and two: "find_payload as_recovery_recommendation OT_recovery_recommendation (rsi_recoveryRecommendationId j) (w_store w2) = Some rr'"
      "rr_recoveryRecommendationId rr' = rr_recoveryRecommendationId rr"
  shows "\<not> (\<exists>k' w3. transitionRecoveryRecommendationStatus E j w2 = (Inr k', w3))"
proof
  assume "\<exists>k' w3. transitionRecoveryRecommendationStatus E j w2 = (Inr k', w3)"
  then obtain k' w3 where run: "transitionRecoveryRecommendationStatus E j w2 = (Inr k', w3)" by blast
  obtain s where "store_run (w_store w2) s" "map_of (s_recovery s) (rr_recoveryRecommendationId rr) = None"
    using transition_terminates[OF E run two(1)] two(2) by (auto simp: terminates_recommendation_def)
  moreover have "map_of (s_recovery (w_store w1)) (rr_recoveryRecommendationId rr) \<noteq> None"
    using transition_terminates[OF E one] by (auto simp: terminates_recommendation_def)
  ultimately show False
    using recovery_claim.claimed_forever[OF rtranclp_trans[OF later]] by blast
qed

section \<open>The proof gap of a lost race\<close>

text \<open>The winner's transition resolves the gap that the loser's attempt recorded.\<close>

lemma conflict_resolved_by_winner:
  assumes "cfi_recommendation j = sci_recommendation i"
  shows "conflict_resolution_failure (conflict_gap_of j now gid) (status_transition_of E i tid) (changed_recommendation i) = None"
  using assms
  by (simp add: conflict_resolution_failure_def conflict_gap_of_def status_transition_of_def changed_recommendation_def
      Let_def truthy_ref_def)

section \<open>Which errors are terminal conflicts\<close>

text \<open>All errors a transition can raise satisfy a predicate.\<close>

definition raises :: "('w, 'e, 'a) tr \<Rightarrow> ('e \<Rightarrow> bool) \<Rightarrow> bool" where
  "raises m P \<longleftrightarrow> (\<forall>w e w'. m w = (Inl e, w') \<longrightarrow> P e)"

lemma raisesD: "raises m P \<Longrightarrow> m w = (Inl e, w') \<Longrightarrow> P e"
  unfolding raises_def by blast

named_theorems raises_intros "the errors of a transition"

lemma raises_bind [raises_intros]: "raises m P \<Longrightarrow> (\<And>x. raises (f x) P) \<Longrightarrow> raises (tbind m f) P"
  by (fastforce simp: raises_def tbind_def split: prod.splits sum.splits)

lemma raises_basic [raises_intros]:
  "raises (treturn x) P" "raises (store_get f) P" "raises (store_op g) P" "raises (createId E p) P" "raises (interfere K) P"
  by (auto simp: raises_def createId_def Let_def interfere_def)

lemma raises_applied [raises_intros]: "raises (Pair (Inr x)) P"
  by (simp add: raises_def)

lemma raises_failed [raises_intros]: "P e \<Longrightarrow> raises (Pair (Inl e)) P"
  by (simp add: raises_def)

lemma raises_fail [raises_intros]: "P e \<Longrightarrow> raises (tfail e) P"
  by (simp add: raises_def)

definition no_conflict :: "hs_error \<Rightarrow> bool" where
  "no_conflict e \<longleftrightarrow> \<not> isRecoveryTerminalConflict e"

lemma no_conflict_error: "no_conflict (protocol_error code n) \<longleftrightarrow> code \<noteq> ''recovery_terminal_conflict''"
  by (simp add: no_conflict_def isRecoveryTerminalConflict_def protocol_error_def)

lemma no_conflict_zod [simp]: "no_conflict ZodError"
  by (simp add: no_conflict_def isRecoveryTerminalConflict_def)

lemma raises_parse [raises_intros]: "raises (tparse ok r) no_conflict"
  by (auto simp: raises_def tparse_apply split: if_splits)

lemma raises_now [raises_intros]: "raises (nowIso E) no_conflict"
  by (auto simp: raises_def nowIso_def Let_def)

lemma raises_required [raises_intros]:
  "code \<noteq> ''recovery_terminal_conflict'' \<Longrightarrow> raises (requiredPayload as t oid code) no_conflict"
  unfolding requiredPayload_def requiredRecord_def
  by (auto intro!: raises_intros simp: no_conflict_error split: option.splits)

lemma raises_chain [raises_intros]: "raises (buildEventChain E s ds) no_conflict"
proof -
  have "raises (build_chain E s tails items) no_conflict" for tails items
    by (induction items arbitrary: tails) (auto intro!: raises_intros simp: buildEventAt_def Let_def)
  then show ?thesis by (simp add: buildEventChain_def)
qed

lemma raises_bind_post:
  "returns m Q \<Longrightarrow> raises m P \<Longrightarrow> (\<And>x. Q x \<Longrightarrow> raises (f x) P) \<Longrightarrow> raises (tbind m f) P"
  by (fastforce simp: raises_def returns_def tbind_def split: prod.splits sum.splits)

lemma commit_without_claims:
  "co_recoveryClaims c = [] \<Longrightarrow> returns (store_op (commitProtocolRecords c)) (\<lambda>res. res \<noteq> CR_recovery_terminal_conflict)"
  by (rule returnsI) (auto simp: commitProtocolRecords_def split: if_splits)

lemma raises_commit_attempts:
  assumes "co_recoveryClaims opts = []"
  shows "raises (commit_attempts E rs ds opts n) no_conflict"
proof (induction n)
  case (Suc n)
  have "raises (case res of
       CR_committed \<Rightarrow> treturn (TC_committed es)
     | CR_idempotency_ledger_conflict \<Rightarrow> treturn TC_idempotency_ledger_conflict
     | CR_record_digest_conflict \<Rightarrow> treturn TC_record_digest_conflict
     | CR_greenlight_issuance_conflict \<Rightarrow> tfail (protocol_error ''invalid_transition_greenlight_already_issued'' 409)
     | CR_recovery_terminal_conflict \<Rightarrow> tfail (protocol_error ''recovery_terminal_conflict'' 409)
     | CR_stream_conflict \<Rightarrow> commit_attempts E rs ds opts n) no_conflict" if "res \<noteq> CR_recovery_terminal_conflict" for res es
    using that Suc.IH by (cases res) (auto intro: raises_intros simp: no_conflict_error)
  then show ?case
    using assms unfolding commit_attempts.simps
    by (intro raises_intros raises_bind_post[OF commit_without_claims] ) auto
qed (simp add: raises_failed no_conflict_error)

lemma raises_commit:
  assumes "co_recoveryClaims opts = []"
  shows "raises (commitRecordsWithEvents E rs ds opts) no_conflict"
proof -
  have "raises (withTransitionRequestContext E rs ds) no_conflict"
    unfolding withTransitionRequestContext_def transitionRequestContextRecordFor_def buildTransitionRequestContext_def
    by (auto intro!: raises_intros split: list.split option.split)
  then show ?thesis
    unfolding commitRecordsWithEvents_def tryCommitRecordsWithEvents_def
    by (auto intro!: raises_intros raises_commit_attempts[OF assms] simp: no_conflict_error simp del: commit_attempts.simps split: try_result.splits prod.splits)
qed

text \<open>A caught conflict leaves its proof gap in the store.\<close>

definition conflict_recorded :: "hs_error \<Rightarrow> conflict_input \<Rightarrow> pstore \<Rightarrow> bool" where
  "conflict_recorded e i s \<longleftrightarrow> (\<exists>gid now. em_proofRef (error_meta e) = Some gid \<and>
     em_commitState (error_meta e) = Some CS_committed \<and>
     find_payload as_proof_gap OT_proof_gap gid s = Some (conflict_gap_of i now gid))"

lemma record_gap_Inr:
  assumes "disciplined E" "recordRecoveryTerminalConflictProofGap E i w = (Inr g, w')"
  shows "\<exists>now gid. g = conflict_gap_of i now gid \<and>
     find_payload as_proof_gap OT_proof_gap gid (w_store w') = Some g"
proof -
  obtain now gid w1 es where g: "g = conflict_gap_of i now gid"
    and com: "commitRecordsWithEvents E [PR_proof_gap g] (recoveryTerminalConflictProofGapEvents i g) no_options w1 = (Inr es, w')"
    using assms(2) by (auto simp: recordRecoveryTerminalConflictProofGap_def elim!: tbind_InrE)
  have "pg_proofGapId g = gid" using g by (simp add: conflict_gap_of_def Let_def)
  then show ?thesis
    using commitRecords_stores[OF assms(1) com, of "PR_proof_gap g"] g
    by (intro exI[of _ now] exI[of _ gid]) (simp add: find_payload_def)
qed

lemma raises_record_gap: "raises (recordRecoveryTerminalConflictProofGap E i) no_conflict"
  unfolding recordRecoveryTerminalConflictProofGap_def
  by (intro raises_intros raises_commit) (simp add: no_options_def)

lemma record_conflict_Inl:
  assumes "disciplined E" "record_conflict E i e w = (Inl e', w')" "isRecoveryTerminalConflict e'"
  shows "conflict_recorded e' i (w_store w')"
proof (cases "isRecoveryTerminalConflict e")
  case False
  then show ?thesis using assms(2,3) by (auto simp: record_conflict_def)
next
  case True
  obtain g where g: "recordRecoveryTerminalConflictProofGap E i w = (Inr g, w')" "e' = recorded_conflict e (pg_proofGapId g)"
    using assms(2,3) True raisesD[OF raises_record_gap]
    by (auto simp: record_conflict_def no_conflict_def tbind_def split: prod.splits sum.splits)
  obtain code st m where "e = ProtocolError code st m" using True by (cases e) (auto simp: isRecoveryTerminalConflict_def)
  then show ?thesis
    using g(2) record_gap_Inr[OF assms(1) g(1)]
    by (auto simp: conflict_recorded_def recorded_conflict_def conflict_gap_of_def Let_def)
qed

lemma status_steps_raise:
  "raises (getRecoveryRecommendationStatusContext E i) no_conflict"
  "raises (buildRecoveryRecommendationStatusChange E x) no_conflict"
  unfolding getRecoveryRecommendationStatusContext_def buildRecoveryRecommendationStatusChange_def assertSupersedingContract_def
    assertStatusTransitionInput_def status_transition_failure_def Let_def
  by (auto intro!: raises_intros simp: no_conflict_error split: option.splits if_splits)

lemma transition_loses:
  assumes "disciplined E" "transitionRecoveryRecommendationStatus E i w = (Inl e, w')" "isRecoveryTerminalConflict e"
    "find_payload as_recovery_recommendation OT_recovery_recommendation (rsi_recoveryRecommendationId i) (w_store w) = Some rr"
  shows "\<exists>j. cfi_recommendation j = rr \<and> conflict_recorded e j (w_store w')"
proof -
  have nc: "\<not> no_conflict e" using assms(3) by (simp add: no_conflict_def)
  obtain x k w1 w2 where ctx: "getRecoveryRecommendationStatusContext E i w = (Inr x, w1)"
    and com: "commitRecoveryRecommendationStatusChange E x k w2 = (Inl e, w')"
    using assms(2) nc raisesD[OF status_steps_raise(1)] raisesD[OF status_steps_raise(2)]
    unfolding transitionRecoveryRecommendationStatus_def
    by (auto simp: tbind_def tparse_apply split: prod.splits sum.splits if_splits)
  have "sci_recommendation x = rr"
    using ctx assms(4) by (auto simp: getRecoveryRecommendationStatusContext_def requiredPayload_Inr elim!: tbind_InrE)
  let ?j = "\<lparr>cfi_recommendation = sci_recommendation x, cfi_sourceContract = sci_sourceContract x,
        cfi_attemptedObjectRef = rst_recoveryRecommendationStatusTransitionId (sch_statusTransition k),
        cfi_changedByRef = sci_changedByRef x\<rparr>"
  obtain e0 v where "record_conflict E ?j e0 v = (Inl e :: hs_error + unit, w')"
    using com unfolding commitRecoveryRecommendationStatusChange_def
    by (auto simp: tcatch_def split: prod.splits sum.splits)
  then have "conflict_recorded e ?j (w_store w')"
    using record_conflict_Inl[OF assms(1) _ assms(3)] by blast
  then show ?thesis
    using \<open>sci_recommendation x = rr\<close> by (intro exI[of _ ?j]) simp
qed

end
