(* ===== verification/Patterns.thy ===== *)
theory Patterns
  imports Object_Registry
begin

text \<open>
  The patterns by which the schemas keep raw credentials and references to control
  artifacts out of records: \<open>looksLikeCredentialMaterial\<close> of
  \<open>credential-custody/schemas.ts\<close>, \<open>looksLikeAuthoritySecret\<close> of
  \<open>delegated-authority/schemas.ts\<close> and the reference patterns of
  \<open>negotiation/schemas.ts\<close>.  A pattern is a tree that is searched for in a list of
  character codes; the strings it is tested on are the value, its percent-decoded
  form and the printable texts that base64-like tokens in it stand for.
\<close>

section \<open>Patterns\<close>

text \<open>
  The constructs the sources use: literal text without regard to the case of ASCII
  letters, a class of characters once or any number of times, options, sequences
  and alternatives.
\<close>

datatype pattern =
    Txt string
  | One "nat \<Rightarrow> bool"
  | Many "nat \<Rightarrow> bool"
  | Optional pattern
  | Seq pattern pattern
  | Either pattern pattern

definition lower_code :: "nat \<Rightarrow> nat" where
  "lower_code n = (if 65 \<le> n \<and> n \<le> 90 then n + 32 else n)"

fun drop_text :: "nat list \<Rightarrow> nat list \<Rightarrow> nat list option" where
  "drop_text [] s = Some s"
| "drop_text (t # ts) [] = None"
| "drop_text (t # ts) (c # cs) = (if lower_code t = lower_code c then drop_text ts cs else None)"

fun runs_of :: "(nat \<Rightarrow> bool) \<Rightarrow> nat list \<Rightarrow> nat list list" where
  "runs_of p [] = [[]]"
| "runs_of p (c # cs) = (c # cs) # (if p c then runs_of p cs else [])"

text \<open>What may be left of a text after the pattern has matched a prefix of it.\<close>

fun rests :: "pattern \<Rightarrow> nat list \<Rightarrow> nat list list" where
  "rests (Txt t) s = (case drop_text (map of_char t) s of None \<Rightarrow> [] | Some r \<Rightarrow> [r])"
| "rests (One p) s = (case s of [] \<Rightarrow> [] | c # cs \<Rightarrow> if p c then [cs] else [])"
| "rests (Many p) s = runs_of p s"
| "rests (Optional q) s = rests q s @ [s]"
| "rests (Seq q r) s = concat (map (rests r) (rests q s))"
| "rests (Either q r) s = rests q s @ rests r s"

fun found :: "pattern \<Rightarrow> nat list \<Rightarrow> bool" where
  "found q [] \<longleftrightarrow> rests q [] \<noteq> []"
| "found q (c # cs) \<longleftrightarrow> rests q (c # cs) \<noteq> [] \<or> found q cs"

definition codes :: "string \<Rightarrow> nat list" where
  "codes s = map of_char s"

text \<open>\<open>\s\<close>, \<open>.\<close> and the separators \<open>[_-]\<close> and \<open>[_:-]\<close>.\<close>

definition space_code :: "nat \<Rightarrow> bool" where
  "space_code n \<longleftrightarrow> n \<in> {9, 10, 11, 12, 13, 32, 160, 5760, 8232, 8233, 8239, 8287, 12288, 65279} \<or>
     (8192 \<le> n \<and> n \<le> 8202)"

definition any_code :: "nat \<Rightarrow> bool" where
  "any_code n \<longleftrightarrow> n \<notin> {10, 13, 8232, 8233}"

definition dash_code :: "nat \<Rightarrow> bool" where
  "dash_code n \<longleftrightarrow> n = 95 \<or> n = 45"

definition ref_dash_code :: "nat \<Rightarrow> bool" where
  "ref_dash_code n \<longleftrightarrow> n = 95 \<or> n = 58 \<or> n = 45"

fun in_order :: "pattern list \<Rightarrow> pattern" where
  "in_order [] = Txt []"
| "in_order [q] = q"
| "in_order (q # r # qs) = Seq q (in_order (r # qs))"

definition spaces1 :: pattern where
  "spaces1 = Seq (One space_code) (Many space_code)"

definition spaces :: pattern where
  "spaces = Many space_code"

definition dash :: pattern where
  "dash = Optional (One dash_code)"

definition ref_dash :: pattern where
  "ref_dash = Optional (One ref_dash_code)"

definition private_key_block :: pattern where
  "private_key_block = in_order [Txt ''BEGIN'', spaces1,
     Optional (Either (Seq (Txt ''RSA'') spaces1) (Either (Seq (Txt ''EC'') spaces1) (Seq (Txt ''OPENSSH'') spaces1))),
     Txt ''PRIVATE KEY'']"

definition raw_signature :: pattern where
  "raw_signature = in_order [Txt ''raw'', dash, Txt ''payment'', dash, Txt ''signature'']"

text \<open>The patterns that both schemas share, after the ones that only credentials have.\<close>

definition secret_patterns :: "pattern list" where
  "secret_patterns = [in_order [Txt ''private'', dash, Txt ''key''],
     in_order [Txt ''api'', dash, Txt ''key'', spaces, Txt ''=''],
     in_order [Txt ''access'', dash, Txt ''token'', spaces, Txt ''=''],
     in_order [Txt ''secret'', spaces, Txt ''=''], in_order [Txt ''password'', spaces, Txt ''=''],
     in_order [Txt ''vault://'', Many any_code, Txt ''/secret''],
     in_order [Txt ''infisical://'', Many any_code, Txt ''/secret'']]"

definition authority_patterns :: "pattern list" where
  "authority_patterns = [private_key_block, in_order [Txt ''PAYMENT-SIGNATURE'', spaces, Txt '':''], raw_signature] @
     secret_patterns"

definition credential_patterns :: "pattern list" where
  "credential_patterns = [private_key_block, in_order [Txt ''PAYMENT-SIGNATURE'', spaces, Txt '':''],
     Txt ''PaymentPayload'', raw_signature, in_order [Txt ''token'', dash, Txt ''passthrough''],
     in_order [Txt ''facilitator'', dash, Txt ''secret'']] @ secret_patterns"

section \<open>Percent decoding\<close>

definition hex_code :: "nat \<Rightarrow> nat option" where
  "hex_code n = (if 48 \<le> n \<and> n \<le> 57 then Some (n - 48) else if 65 \<le> n \<and> n \<le> 70 then Some (n - 55)
     else if 97 \<le> n \<and> n \<le> 102 then Some (n - 87) else None)"

definition percent_byte :: "nat list \<Rightarrow> (nat \<times> nat list) option" where
  "percent_byte s = (case s of
       p # a # b # r \<Rightarrow> if p = 37 then (case (hex_code a, hex_code b) of
           (Some x, Some y) \<Rightarrow> Some (16 * x + y, r) | _ \<Rightarrow> None) else None
     | _ \<Rightarrow> None)"

text \<open>The continuation bytes of a UTF-8 sequence, each written as an escape.\<close>

fun continuation :: "nat \<Rightarrow> nat \<Rightarrow> nat list \<Rightarrow> (nat \<times> nat list) option" where
  "continuation 0 acc s = Some (acc, s)"
| "continuation (Suc k) acc s = (case percent_byte s of
       None \<Rightarrow> None
     | Some (b, r) \<Rightarrow> if 128 \<le> b \<and> b < 192 then continuation k (64 * acc + (b - 128)) r else None)"

definition escaped_code :: "nat list \<Rightarrow> (nat \<times> nat list) option" where
  "escaped_code s = (case percent_byte s of
       None \<Rightarrow> None
     | Some (b, r) \<Rightarrow>
        if b < 128 then Some (b, r)
        else if 192 \<le> b \<and> b < 224 then (case continuation 1 (b - 192) r of
            Some (n, q) \<Rightarrow> if 128 \<le> n then Some (n, q) else None | None \<Rightarrow> None)
        else if 224 \<le> b \<and> b < 240 then (case continuation 2 (b - 224) r of
            Some (n, q) \<Rightarrow> if 2048 \<le> n \<and> \<not> (55296 \<le> n \<and> n < 57344) then Some (n, q) else None | None \<Rightarrow> None)
        else if 240 \<le> b \<and> b < 248 then (case continuation 3 (b - 240) r of
            Some (n, q) \<Rightarrow> if 65536 \<le> n \<and> n < 1114112 then Some (n, q) else None | None \<Rightarrow> None)
        else None)"

text \<open>
  \<open>decodeURIComponent\<close>: \<open>None\<close> when it throws.  The fuel is the length of the text,
  of which every step consumes at least one character.
\<close>

fun percent_decode_within :: "nat \<Rightarrow> nat list \<Rightarrow> nat list option" where
  "percent_decode_within n [] = Some []"
| "percent_decode_within 0 (c # cs) = None"
| "percent_decode_within (Suc n) (c # cs) =
     (if c \<noteq> 37 then map_option ((#) c) (percent_decode_within n cs)
      else (case escaped_code (c # cs) of
          None \<Rightarrow> None
        | Some (x, r) \<Rightarrow> map_option ((#) x) (percent_decode_within n r)))"

definition percent_decode :: "nat list \<Rightarrow> nat list option" where
  "percent_decode s = percent_decode_within (length s) s"

section \<open>Base64-like tokens\<close>

definition letter_or_digit :: "nat \<Rightarrow> bool" where
  "letter_or_digit n \<longleftrightarrow> (48 \<le> n \<and> n \<le> 57) \<or> (65 \<le> n \<and> n \<le> 90) \<or> (97 \<le> n \<and> n \<le> 122)"

definition token_code :: "nat \<Rightarrow> bool" where
  "token_code n \<longleftrightarrow> letter_or_digit n \<or> n \<in> {43, 47, 95, 61, 45}"

text \<open>The maximal runs of token characters, of which those of at least sixteen are the tokens.\<close>

fun token_runs :: "nat list \<Rightarrow> nat list \<Rightarrow> nat list list" where
  "token_runs acc [] = [rev acc]"
| "token_runs acc (c # cs) = (if token_code c then token_runs (c # acc) cs else rev acc # token_runs [] cs)"

definition tokens :: "nat list \<Rightarrow> nat list list" where
  "tokens s = filter (\<lambda>t. 16 \<le> length t) (token_runs [] s)"

definition base64_val :: "nat \<Rightarrow> nat" where
  "base64_val n = (if 65 \<le> n \<and> n \<le> 90 then n - 65 else if 97 \<le> n \<and> n \<le> 122 then n - 71
     else if 48 \<le> n \<and> n \<le> 57 then n + 4 else if n = 43 then 62 else 63)"

text \<open>The bytes of a base64 text without padding; left-over bits are dropped.\<close>

fun base64_bytes :: "nat list \<Rightarrow> nat list" where
  "base64_bytes (a # b # c # d # r) =
     (let n = ((base64_val a * 64 + base64_val b) * 64 + base64_val c) * 64 + base64_val d in
      n div 65536 # n div 256 mod 256 # n mod 256 # base64_bytes r)"
| "base64_bytes [a, b, c] =
     (let n = (base64_val a * 64 + base64_val b) * 64 + base64_val c in [n div 1024, n div 4 mod 256])"
| "base64_bytes [a, b] = [(base64_val a * 64 + base64_val b) div 16]"
| "base64_bytes _ = []"

definition printable_code :: "nat \<Rightarrow> bool" where
  "printable_code n \<longleftrightarrow> n \<in> {9, 10, 13} \<or> (32 \<le> n \<and> n \<le> 126)"

text \<open>
  \<open>decodeBase64Like\<close>: the body must be letters, digits, \<open>+\<close> and \<open>/\<close>, at most two
  padding signs may follow, and after the code has padded the text \<open>atob\<close> takes it
  only when at most two padding signs are there and no single character is left over.
\<close>

definition decodeBase64Like :: "nat list \<Rightarrow> nat list option" where
  "decodeBase64Like t =
    (let normalized = map (\<lambda>n. if n = 45 then 43 else if n = 95 then 47 else n) t;
         body = takeWhile (\<lambda>n. n \<noteq> 61) normalized;
         signs = length normalized - length body;
         padding = (4 - length normalized mod 4) mod 4;
         bytes = base64_bytes body in
     if body = [] \<or> \<not> list_all (\<lambda>n. n = 61) (drop (length body) normalized) \<or> 2 < signs then None
     else if 2 < signs + padding \<or> length body mod 4 = 1 then None
     else if bytes \<noteq> [] \<and> list_all printable_code bytes then Some bytes else None)"

definition variants :: "string \<Rightarrow> nat list list" where
  "variants s = codes s # (case percent_decode (codes s) of None \<Rightarrow> [] | Some d \<Rightarrow> [d]) @
     concat (map (\<lambda>t. case decodeBase64Like t of None \<Rightarrow> [] | Some d \<Rightarrow> [d]) (tokens (codes s)))"

section \<open>The predicates of the schemas\<close>

definition looksLikeCredentialMaterial :: "string \<Rightarrow> bool" where
  "looksLikeCredentialMaterial s \<longleftrightarrow> list_ex (\<lambda>v. list_ex (\<lambda>q. found q v) credential_patterns) (variants s)"

definition looksLikeAuthoritySecret :: "string \<Rightarrow> bool" where
  "looksLikeAuthoritySecret s \<longleftrightarrow> list_ex (\<lambda>v. list_ex (\<lambda>q. found q v) authority_patterns) (variants s)"

definition credential_safe_ok :: "string \<Rightarrow> bool" where
  "credential_safe_ok s \<longleftrightarrow> 1 \<le> length s \<and> \<not> looksLikeCredentialMaterial s"

definition authority_safe_ok :: "string \<Rightarrow> bool" where
  "authority_safe_ok s \<longleftrightarrow> 1 \<le> length s \<and> \<not> looksLikeAuthoritySecret s"

definition control_ref_patterns :: "pattern list" where
  "control_ref_patterns = [Txt ''greenlight'', in_order [Txt ''gateway'', ref_dash, Txt ''check''],
     in_order [Txt ''gate'', ref_dash, Txt ''attempt''], in_order [Txt ''mutation'', ref_dash, Txt ''attempt''],
     in_order [Txt ''policy'', ref_dash, Txt ''decision''], Txt ''receipt'',
     in_order [Txt ''authority'', ref_dash, Txt ''certificate''], Txt ''settlement'', Txt ''payment'', Txt ''signer'',
     in_order [Txt ''reusable'', ref_dash, Txt ''authority'']]"

definition disallowed_obligation_ref :: "string \<Rightarrow> bool" where
  "disallowed_obligation_ref s \<longleftrightarrow> list_ex (\<lambda>q. found q (codes s)) control_ref_patterns"

definition non_authority_ref_ok :: "string \<Rightarrow> bool" where
  "non_authority_ref_ok s \<longleftrightarrow> resource_ref_ok s \<and> \<not> disallowed_obligation_ref s"

definition forbiddenOfferVersionAliases :: "string list" where
  "forbiddenOfferVersionAliases = [''latest'', ''current'', ''unspecified'']"

definition offer_version_ok :: "string \<Rightarrow> bool" where
  "offer_version_ok s \<longleftrightarrow> id_ok s \<and> \<not> list_ex (\<lambda>a. found (Txt a) (codes s)) forbiddenOfferVersionAliases"

section \<open>What the patterns find\<close>

lemma percent_byte_length: "percent_byte s = Some (b, r) \<Longrightarrow> length r < length s"
  by (auto simp: percent_byte_def split: list.splits option.splits if_splits)

lemma continuation_length: "continuation k acc s = Some (n, r) \<Longrightarrow> length r \<le> length s"
proof (induction k acc s rule: continuation.induct)
  case (2 k acc s)
  then obtain b q where "percent_byte s = Some (b, q)" "continuation k (64 * acc + (b - 128)) q = Some (n, r)"
      "128 \<le> b" "b < 192"
    by (auto split: option.splits if_splits)
  then show ?case using "2.IH"[of "(b, q)" b q] percent_byte_length[of s b q] by simp
qed simp

text \<open>The fuel of the percent decoding is enough: more changes nothing.\<close>

lemma escaped_code_length: "escaped_code s = Some (n, r) \<Longrightarrow> length r < length s"
  by (auto simp: escaped_code_def split: option.splits if_splits dest!: percent_byte_length continuation_length)

lemma percent_decode_fuel: "length s \<le> n \<Longrightarrow> percent_decode_within n s = percent_decode s"
proof -
  have more: "length s \<le> m \<Longrightarrow> percent_decode_within (m + k) s = percent_decode_within m s" for m k
  proof (induction m s rule: percent_decode_within.induct)
    case (3 n c cs)
    have escaped: "percent_decode_within (n + k) r = percent_decode_within n r"
      if "c = 37" "escaped_code (c # cs) = Some (x, r)" for x r
      using "3.IH"(2)[of "(x, r)" x r] escaped_code_length[OF that(2)] "3.prems" that by simp
    show ?case using "3.IH"(1) "3.prems" escaped by (auto split: option.splits)
  qed (cases k; simp)+
  assume "length s \<le> n"
  then show ?thesis
    using more[of "length s" "n - length s"] by (simp add: percent_decode_def)
qed

lemma drop_text_self: "drop_text t (map f t @ r) = Some r" if "\<And>n. lower_code (f n) = lower_code n"
  using that by (induction t) auto

lemma found_suffix: "found q s \<longleftrightarrow> (\<exists>pre post. s = pre @ post \<and> rests q post \<noteq> [])"
proof (induction s)
  case (Cons c cs)
  then show ?case by (auto simp: Cons_eq_append_conv)
qed auto

end
