(* ===== verification/Receipt_Digests.thy ===== *)
theory Receipt_Digests
  imports Recovery_Laws
begin

text \<open>
  From the gate to recovery: every receipt that a gateway check returns is stored
  with the digests that recovery expects of it, and the receipt of a check that did
  not pass is one that a recommendation may start from.
\<close>

section \<open>The receipts of the gate\<close>

definition statuses_derived :: "receipt \<Rightarrow> bool" where
  "statuses_derived r \<longleftrightarrow>
     rc_gatewayAdmissionStatus r = deriveGatewayAdmissionStatus (rc_gatewayCheckStatus r) (rc_greenlightConsumptionStatus r) \<and>
     rc_downstreamOutcomeStatus r = deriveDownstreamOutcomeStatus (rc_downstreamExecutionStatus r)"

lemma receipt_of_derived: "statuses_derived (receipt_of c g now rid gate mut cons gaps)"
  by (simp add: statuses_derived_def receipt_of_def Let_def)

lemma withReceiptStreams_digested:
  assumes "withReceiptStreamReferences E r es w = (Inr r', w')" "statuses_derived (gwr_receipt r)"
  shows "receipt_digested E (gwr_receipt r')"
  using assms
  by (cases "gwr_receipt r")
    (auto simp: statuses_derived_def withReceiptStreamReferences_def Let_def receipt_digested_def expected_receipt_digest_def
      expected_audit_digest_def j_opt_def elim!: tbind_InrE)

lemma gate_artifacts_derived:
  assumes "buildGateArtifacts E v w = (Inr (r, refusal), w')"
  shows "statuses_derived (gwr_receipt r)"
  using assms by (auto simp: buildGateArtifacts_def Let_def receipt_of_derived elim!: tbind_InrE)

lemma gate_plan_derived:
  assumes "buildGatewayCommitPlan E v w = (Inr p, w')"
  shows "statuses_derived (gwr_receipt (gwp_result p))"
  using assms by (auto simp: buildGatewayCommitPlan_def elim!: tbind_InrE dest!: gate_artifacts_derived split: prod.splits)

section \<open>What the attempts of a commit return\<close>

text \<open>An attempt ends with a commit of this evaluation or with a replay refusal.\<close>

lemma gateway_attempts_ends:
  assumes "gateway_attempts E p n w = (Inr r, w')"
    and commit: "\<And>final es w1 w2 rs w3 t. withReceiptStreamReferences E (gwp_result p) es w1 = (Inr final, w2) \<Longrightarrow>
      gateProtocolRecords E (gwp_evaluation p) final (gwp_refusal p) w2 = (Inr rs, w3) \<Longrightarrow>
      commitGatewayCheck (gateway_commit_of E p final rs es) t = (GR_committed, w_store w') \<Longrightarrow> r = final \<Longrightarrow> P"
    and replay: "\<And>ov u. replay_refusal E p ov u = (Inr r, w') \<Longrightarrow> P"
  shows P
  using assms(1)
proof (induction n arbitrary: w)
  case (Suc n)
  obtain es w1 final w2 rs w3 t where
    final: "withReceiptStreamReferences E (gwp_result p) es w1 = (Inr final, w2)"
    and rs: "gateProtocolRecords E (gwp_evaluation p) final (gwp_refusal p) w2 = (Inr rs, w3)"
    and rest0: "(case fst (commitGatewayCheck (gateway_commit_of E p final rs es) t) of
       GR_committed \<Rightarrow> treturn (snd (gateway_commit_of E p final rs es, final))
     | GR_already_consumed \<Rightarrow> replay_refusal E p None
     | GR_operation_claim_conflict \<Rightarrow>
         replay_refusal E p (Some (''protected_surface_operation_in_progress'', CONS_not_consumed))
     | GR_receipt_index_conflict \<Rightarrow> replay_refusal E p (Some (''receipt_index_conflict'', CONS_not_consumed))
     | GR_stream_conflict \<Rightarrow> gateway_attempts E p n)
       (w3\<lparr>tick := Suc (tick w3), w_store := snd (commitGatewayCheck (gateway_commit_of E p final rs es) t)\<rparr>) = (Inr r, w')"
    using Suc.prems unfolding gateway_attempts.simps buildGatewayCheckCommit_def interfere_def
    by (auto elim!: tbind_InrE)
  obtain res u where com: "commitGatewayCheck (gateway_commit_of E p final rs es) t = (res, u)"
    by (cases "commitGatewayCheck (gateway_commit_of E p final rs es) t") auto
  show ?case
  proof (cases res)
    case GR_committed
    then have r: "r = final" "w_store w' = u" using rest0 com by auto
    have "commitGatewayCheck (gateway_commit_of E p final rs es) t = (GR_committed, w_store w')"
      using com GR_committed r by simp
    then show ?thesis using commit[OF final rs] r(1) by blast
  next
    case GR_stream_conflict
    then show ?thesis using Suc.IH rest0 com by auto
  qed (use rest0 com replay in auto)
qed simp

lemma replay_attempts_ends:
  assumes "replay_attempts E ctx result refusal ds n w = (Inr r, w')"
  shows "\<exists>es w1 w2 t. withReceiptStreamReferences E result es w1 = (Inr r, w2) \<and>
     commitGatewayCheck (no_gateway_commit (map (buildRecord E) (replay_records ctx r refusal)) es) t = (GR_committed, w_store w')"
  using assms
proof (induction n arbitrary: w)
  case (Suc n)
  let ?c = "\<lambda>final es. no_gateway_commit (map (buildRecord E) (replay_records ctx final refusal)) es"
  obtain es w1 final w2 t where
    final: "withReceiptStreamReferences E result es w1 = (Inr final, w2)"
    and rest: "(if fst (commitGatewayCheck (?c final es) t) = GR_committed \<or>
          fst (commitGatewayCheck (?c final es) t) = GR_already_consumed
        then treturn final else replay_attempts E ctx result refusal ds n)
        (w2\<lparr>tick := Suc (tick w2), w_store := snd (commitGatewayCheck (?c final es) t)\<rparr>) = (Inr r, w')"
    using Suc.prems unfolding replay_attempts.simps interfere_def
    by (auto elim!: tbind_InrE)
  obtain res u where com: "commitGatewayCheck (?c final es) t = (res, u)"
    by (cases "commitGatewayCheck (?c final es) t") auto
  then have "res \<noteq> GR_already_consumed"
    by (auto simp: commitGatewayCheck_def no_gateway_commit_def split: if_splits)
  show ?case
  proof (cases "res = GR_committed")
    case True
    then have "commitGatewayCheck (?c r es) t = (GR_committed, w_store w')" "withReceiptStreamReferences E result es w1 = (Inr r, w2)"
      using rest com final by auto
    then show ?thesis by blast
  next
    case False
    then show ?thesis using rest com \<open>res \<noteq> GR_already_consumed\<close> Suc.IH by auto
  qed
qed simp

lemma commitReplayRefusal_ends:
  assumes "commitReplayRefusal E c g k w = (Inr r, w')"
  shows "\<exists>ctx refusal es t. receipt_digested E (gwr_receipt r) \<and> (\<forall>x. ctx = Some x \<longrightarrow> (\<exists>c. x = PR_transition_request_context c)) \<and>
     commitGatewayCheck (no_gateway_commit (map (buildRecord E) (replay_records ctx r refusal)) es) t = (GR_committed, w_store w')"
proof -
  obtain now w1 gate w2 refusal receipt w3 w4 ctx w5 where
    receipt: "buildReplayReceipt E c g gate now
        (case rp_consumptionStatus k of Some s \<Rightarrow> s | None \<Rightarrow> CONS_replayed) w3 = (Inr receipt, w4)"
    and ctx: "transitionRequestContextRecordFor E (tenantId c) (organizationId c) w4 = (Inr ctx, w5)"
    and att: "replay_attempts E ctx \<lparr>gwr_gateAttempt = gate, gwr_mutationAttempt = None, gwr_receipt = receipt, gwr_proofGap = None\<rparr>
        refusal (withTransitionRequestContextEventDescriptors
           (gateEventDescriptors \<lparr>gwr_gateAttempt = gate, gwr_mutationAttempt = None, gwr_receipt = receipt, gwr_proofGap = None\<rparr>
             (Some refusal) (actionLifecycleStreamRefs c) None) ctx)
        (Suc MAX_STREAM_COMMIT_RETRIES) w5 = (Inr r, w')"
    using assms(1) unfolding commitReplayRefusal_def Let_def by (auto elim!: tbind_InrE simp del: replay_attempts.simps)
  have "statuses_derived receipt"
    using receipt by (auto simp: buildReplayReceipt_def receipt_of_derived elim!: tbind_InrE)
  moreover have "\<forall>x. ctx = Some x \<longrightarrow> (\<exists>c. x = PR_transition_request_context c)"
    using ctx by (auto simp: transitionRequestContextRecordFor_def split: option.splits elim!: tbind_InrE)
  moreover obtain es w1 w2 t where "withReceiptStreamReferences E \<lparr>gwr_gateAttempt = gate, gwr_mutationAttempt = None,
      gwr_receipt = receipt, gwr_proofGap = None\<rparr> es w1 = (Inr r, w2)"
    "commitGatewayCheck (no_gateway_commit (map (buildRecord E) (replay_records ctx r refusal)) es) t = (GR_committed, w_store w')"
    using replay_attempts_ends[OF att] by blast
  ultimately show ?thesis
    using withReceiptStreams_digested[of E _ es w1 r w2] by auto
qed

section \<open>The check\<close>

lemma replay_receipt_stored:
  assumes "commitGatewayCheck (no_gateway_commit (map (buildRecord E) (replay_records ctx r refusal)) es) t = (GR_committed, u)"
    "\<forall>x. ctx = Some x \<longrightarrow> (\<exists>c. x = PR_transition_request_context c)"
  shows "find_payload as_receipt OT_receipt (rc_receiptId (gwr_receipt r)) u = Some (gwr_receipt r)"
proof -
  have "distinct (map record_type (replay_records ctx r refusal))"
    using assms(2) by (cases ctx) (auto simp: replay_records_def)
  then show ?thesis
    using gateway_stores[OF assms(1), of E "replay_records ctx r refusal" "PR_receipt (gwr_receipt r)"]
    by (simp add: no_gateway_commit_def replay_records_def find_payload_def)
qed

lemma plan_receipt_stored:
  assumes plan: "plan_of E v p" and rs: "gateProtocolRecords E v final (gwp_refusal p) w = (Inr rs, w2)"
    and com: "commitGatewayCheck (gateway_commit_of E p final rs es) t = (GR_committed, u)"
  shows "find_payload as_receipt OT_receipt (rc_receiptId (gwr_receipt final)) u = Some (gwr_receipt final)"
proof -
  let ?rs = "plan_records p rs"
  have "distinct (map record_type ?rs)"
    using gateProtocolRecords_Inr[OF rs] plan
    by (cases "gwp_context p"; cases "gwp_ledgerUpdate p"; cases "gwp_claim p"; cases "gwr_mutationAttempt final";
        cases "gwr_proofGap final"; cases "gwp_refusal p") (auto simp: plan_records_def plan_of_def)
  moreover have "PR_receipt (gwr_receipt final) \<in> set ?rs"
    using gateProtocolRecords_Inr[OF rs] by (simp add: plan_records_def)
  ultimately show ?thesis
    using gateway_stores[OF com, of E ?rs "PR_receipt (gwr_receipt final)"]
    by (simp add: gateway_commit_of_def find_payload_def)
qed

lemma gatewayCheck_plan:
  assumes "gatewayCheck E i w = (Inr r, w')"
  obtains v p w1 where "plan_of E v p" "statuses_derived (gwr_receipt (gwp_result p))"
    "gateway_attempts E p (Suc MAX_STREAM_COMMIT_RETRIES) w1 = (Inr r, w')"
proof -
  obtain v p w2 w3 where p: "buildGatewayCommitPlan E v w2 = (Inr p, w3)"
    and att: "gateway_attempts E p (Suc MAX_STREAM_COMMIT_RETRIES) w3 = (Inr r, w')"
    using assms unfolding gatewayCheck_def commitGatewayCheckPlan_def
    by (auto elim!: tbind_InrE simp del: gateway_attempts.simps)
  then show thesis using that buildGatewayCommitPlan_Inr[OF p] gate_plan_derived[OF p] by blast
qed

lemma gatewayCheck_receipt_digested:
  assumes "gatewayCheck E i w = (Inr r, w')"
  shows "receipt_digested E (gwr_receipt r) \<and>
     find_payload as_receipt OT_receipt (rc_receiptId (gwr_receipt r)) (w_store w') = Some (gwr_receipt r)"
proof -
  obtain v p w1 where plan: "plan_of E v p" "statuses_derived (gwr_receipt (gwp_result p))"
    and att: "gateway_attempts E p (Suc MAX_STREAM_COMMIT_RETRIES) w1 = (Inr r, w')"
    by (rule gatewayCheck_plan[OF assms])
  have v: "gwp_evaluation p = v" using plan(1) by (simp add: plan_of_def)
  show ?thesis
  proof (rule gateway_attempts_ends[OF att], goal_cases)
    case (1 final es w1 w2 rs w3 t)
    then show ?thesis
      using withReceiptStreams_digested[OF 1(1) plan(2)] plan_receipt_stored[OF plan(1)] v by simp
  next
    case (2 ov u)
    then show ?thesis
      using commitReplayRefusal_ends replay_receipt_stored unfolding replay_refusal_def by metis
  qed
qed

lemma refused_recoverable:
  assumes "disciplined E" "gatewayCheck E i w = (Inr r, w')" "gca_gateDecision (gwr_gateAttempt r) = GD_refused"
  shows "recoverable (gwr_receipt r) gs"
  using gatewayCheck_result[OF assms(1,2)] assms(3) by (simp add: result_agrees_def recoverable_def Let_def)

end
