(* ===== verification/Schemas_Safe.thy ===== *)
theory Schemas_Safe
  imports Patterns
begin

text \<open>
  The predicates that \<open>parse\<close> checks for the schemas with refinements: those that
  scan text for raw credentials and control references (\<open>credential-custody\<close>,
  \<open>delegated-authority\<close>, \<open>negotiation\<close>) and those that contain them (action
  contracts, candidates, tool call drafts, intent compilations).
\<close>

definition delegated_authority_binding_valid :: "'e env_scheme \<Rightarrow> 'a delegated_authority_binding_scheme \<Rightarrow> bool" where
  "delegated_authority_binding_valid E r \<longleftrightarrow>
     authority_safe_ok (dab_authorityUseName r) \<and>
     id_ok (dab_delegatedAuthorityRefId r) \<and>
     digest_ok (dab_delegatedAuthorityRefDigest r) \<and>
     (dab_requiredGrantStatus r) = ''active'' \<and>
     authority_safe_ok (dab_policyPackRef r) \<and>
     1 \<le> length (dab_policyPackVersion r) \<and>
     list_all authority_safe_ok (dab_evidenceExpectationRefs r)"

definition delegated_authority_ref_valid :: "'e env_scheme \<Rightarrow> 'a delegated_authority_ref_scheme \<Rightarrow> bool" where
  "delegated_authority_ref_valid E r \<longleftrightarrow>
     base_valid E r \<and>
     id_ok (da_delegatedAuthorityRefId r) \<and>
     digest_ok (da_delegatedAuthorityRefDigest r) \<and>
     id_ok (da_principalId r) \<and>
     id_ok (da_agentId r) \<and>
     id_ok (da_runtimeAdapterId r) \<and>
     id_ok (da_operatingEnvelopeId r) \<and>
     id_ok (da_gatewayId r) \<and>
     id_ok (da_gatewayRegistryEntryId r) \<and>
     1 \<le> length (da_protectedSurfaceKind r) \<and>
     list_all (\<lambda>x. 1 \<le> length x) (da_actionClasses r) \<and> 1 \<le> length (da_actionClasses r) \<and>
     list_all resource_ref_ok (da_resourceRefs r) \<and> 1 \<le> length (da_resourceRefs r) \<and>
     authority_safe_ok (da_policyPackRef r) \<and>
     1 \<le> length (da_policyPackVersion r) \<and>
     opt_ok authority_safe_ok (da_amountParameterName r) \<and>
     opt_ok atomic_amount_ok (da_maxAtomicAmountPerAction r) \<and>
     list_all authority_safe_ok (da_evidenceExpectationRefs r) \<and>
     (da_redactionProfileRef r) = ''delegated-authority-ref:v0.2-redacted'' \<and>
     \<not> (da_secretMaterialIncluded r) \<and>
     \<not> (da_mutationAuthorityCreated r) \<and>
     \<not> (da_greenlightCreated r) \<and>
     iso_ok E (da_issuedAt r) \<and>
     iso_ok E (da_expiresAt r)"

definition delegated_authority_status_transition_valid :: "'e env_scheme \<Rightarrow> 'a delegated_authority_status_transition_scheme \<Rightarrow> bool" where
  "delegated_authority_status_transition_valid E r \<longleftrightarrow>
     base_valid E r \<and>
     id_ok (dst_delegatedAuthorityStatusTransitionId r) \<and>
     id_ok (dst_delegatedAuthorityRefId r) \<and>
     digest_ok (dst_delegatedAuthorityRefDigest r) \<and>
     reason_code_ok (dst_reasonCode r) \<and>
     1 \<le> length (dst_reasonSummary r) \<and> length (dst_reasonSummary r) \<le> 1000 \<and>
     authority_safe_ok (dst_changedByRef r) \<and>
     iso_ok E (dst_changedAt r) \<and>
     id_ok (dst_isolationStateId r) \<and>
     digest_ok (dst_transitionDigest r)"

definition gateway_credential_binding_valid :: "'e env_scheme \<Rightarrow> 'a gateway_credential_binding_scheme \<Rightarrow> bool" where
  "gateway_credential_binding_valid E r \<longleftrightarrow>
     1 \<le> length (gcb_credentialUseName r) \<and>
     id_ok (gcb_gatewayCredentialRefId r) \<and>
     digest_ok (gcb_gatewayCredentialRefDigest r) \<and>
     credential_safe_ok (gcb_providerRegistryRef r) \<and>
     opt_ok digest_ok (gcb_providerRegistryDigest r) \<and>
     list_all credential_safe_ok (gcb_evidenceExpectationRefs r)"

definition gateway_credential_ref_valid :: "'e env_scheme \<Rightarrow> 'a gateway_credential_ref_scheme \<Rightarrow> bool" where
  "gateway_credential_ref_valid E r \<longleftrightarrow>
     base_valid E r \<and>
     id_ok (gcr_gatewayCredentialRefId r) \<and>
     digest_ok (gcr_gatewayCredentialRefDigest r) \<and>
     opt_ok id_ok (gcr_principalId r) \<and>
     id_ok (gcr_gatewayId r) \<and>
     id_ok (gcr_gatewayRegistryEntryId r) \<and>
     1 \<le> length (gcr_protectedSurfaceKind r) \<and>
     list_all (\<lambda>x. 1 \<le> length x) (gcr_actionClasses r) \<and> 1 \<le> length (gcr_actionClasses r) \<and>
     list_all resource_ref_ok (gcr_resourceRefs r) \<and> 1 \<le> length (gcr_resourceRefs r) \<and>
     1 \<le> length (gcr_resourceNamespaceRef r) \<and>
     credential_safe_ok (gcr_credentialKind r) \<and>
     credential_safe_ok (gcr_providerClass r) \<and>
     credential_safe_ok (gcr_providerRegistryRef r) \<and>
     opt_ok digest_ok (gcr_providerRegistryDigest r) \<and>
     credential_safe_ok (gcr_resolverRef r) \<and>
     1 \<le> length (gcr_resolverVersion r) \<and>
     list_all credential_safe_ok (gcr_evidenceExpectationRefs r) \<and>
     (gcr_redactionProfileRef r) = ''gateway-credential-ref:v0.2-redacted'' \<and>
     \<not> (gcr_secretMaterialIncluded r) \<and>
     iso_ok E (gcr_issuedAt r) \<and>
     opt_ok (iso_ok E) (gcr_expiresAt r)"

definition credential_resolution_evidence_valid :: "'e env_scheme \<Rightarrow> 'a credential_resolution_evidence_scheme \<Rightarrow> bool" where
  "credential_resolution_evidence_valid E r \<longleftrightarrow>
     base_valid E r \<and>
     id_ok (cre_credentialResolutionEvidenceId r) \<and>
     id_ok (cre_gatewayCredentialRefId r) \<and>
     digest_ok (cre_gatewayCredentialRefDigest r) \<and>
     id_ok (cre_actionContractId r) \<and>
     id_ok (cre_greenlightId r) \<and>
     id_ok (cre_gateAttemptId r) \<and>
     opt_ok id_ok (cre_mutationAttemptId r) \<and>
     id_ok (cre_gatewayId r) \<and>
     credential_safe_ok (cre_providerClass r) \<and>
     credential_safe_ok (cre_providerRegistryRef r) \<and>
     opt_ok digest_ok (cre_providerRegistryDigest r) \<and>
     credential_safe_ok (cre_resolverRef r) \<and>
     1 \<le> length (cre_resolverVersion r) \<and>
     digest_ok (cre_requestDigest r) \<and>
     reason_code_ok (cre_resultReasonCode r) \<and>
     opt_ok credential_safe_ok (cre_providerRequestRef r) \<and>
     opt_ok credential_safe_ok (cre_providerOperationRef r) \<and>
     opt_ok id_ok (cre_proofGapId r) \<and>
     opt_ok id_ok (cre_refusalId r) \<and>
     list_all credential_safe_ok (cre_evidenceRefs r) \<and>
     (cre_redactionProfileRef r) = ''credential-resolution-evidence:v0.2-redacted'' \<and>
     \<not> (cre_credentialMaterialIncluded r) \<and>
     iso_ok E (cre_recordedAt r) \<and>
     digest_ok (cre_evidenceDigest r)"

definition gateway_custody_proof_packet_valid :: "'e env_scheme \<Rightarrow> 'a gateway_custody_proof_packet_scheme \<Rightarrow> bool" where
  "gateway_custody_proof_packet_valid E r \<longleftrightarrow>
     base_valid E r \<and>
     id_ok (gcp_gatewayCustodyProofPacketId r) \<and>
     digest_ok (gcp_gatewayCustodyProofPacketDigest r) \<and>
     id_ok (gcp_gatewayCredentialRefId r) \<and>
     digest_ok (gcp_gatewayCredentialRefDigest r) \<and>
     id_ok (gcp_protectedPathPostureId r) \<and>
     digest_ok (gcp_protectedPathPostureDigest r) \<and>
     list_all credential_safe_ok (gcp_gatewayInstallEvidenceRefs r) \<and>
     list_all digest_ok (gcp_gatewayInstallEvidenceDigests r) \<and>
     list_all id_ok (gcp_bypassProbeIds r) \<and>
     list_all digest_ok (gcp_bypassProbeDigests r) \<and>
     id_ok (gcp_gatewayId r) \<and>
     id_ok (gcp_gatewayRegistryEntryId r) \<and>
     1 \<le> length (gcp_protectedSurfaceKind r) \<and>
     list_all (\<lambda>x. 1 \<le> length x) (gcp_actionClasses r) \<and> 1 \<le> length (gcp_actionClasses r) \<and>
     list_all resource_ref_ok (gcp_resourceRefs r) \<and> 1 \<le> length (gcp_resourceRefs r) \<and>
     credential_safe_ok (gcp_custodyProviderClass r) \<and>
     credential_safe_ok (gcp_custodyProviderRegistryRef r) \<and>
     opt_ok digest_ok (gcp_custodyProviderRegistryDigest r) \<and>
     credential_safe_ok (gcp_opaqueKeyHandleRef r) \<and>
     digest_ok (gcp_opaqueKeyHandleDigest r) \<and>
     credential_safe_ok (gcp_credentialKind r) \<and>
     credential_safe_ok (gcp_resolverRef r) \<and>
     1 \<le> length (gcp_resolverVersion r) \<and>
     opt_ok credential_safe_ok (gcp_leaseRef r) \<and>
     opt_ok (\<lambda>x. 1 \<le> length x) (gcp_leaseVersion r) \<and>
     opt_ok (iso_ok E) (gcp_leaseIssuedAt r) \<and>
     opt_ok (iso_ok E) (gcp_leaseExpiresAt r) \<and>
     list_all credential_safe_ok (gcp_attestationRefs r) \<and>
     list_all digest_ok (gcp_attestationDigests r) \<and>
     list_all credential_safe_ok (gcp_redactedAuditRefs r) \<and>
     opt_ok digest_ok (gcp_redactedAuditDigest r) \<and>
     (gcp_redactionProfileRef r) = ''gateway-custody-proof-packet:v0.2-redacted'' \<and>
     \<not> (gcp_secretMaterialIncluded r) \<and>
     \<not> (gcp_authorityCreated r) \<and>
     iso_ok E (gcp_recordedAt r) \<and>
     iso_ok E (gcp_expiresAt r)"

definition action_contract_valid :: "'e env_scheme \<Rightarrow> 'a action_contract_scheme \<Rightarrow> bool" where
  "action_contract_valid E r \<longleftrightarrow>
     base_valid E r \<and>
     id_ok (ac_actionContractId r) \<and>
     id_ok (ac_intentCompilationId r) \<and>
     id_ok (ac_candidateActionId r) \<and>
     digest_ok (ac_candidateDigest r) \<and>
     id_ok (ac_envelopeId r) \<and>
     digest_ok (ac_operatingEnvelopeDigest r) \<and>
     id_ok (ac_agentId r) \<and>
     id_ok (ac_principalId r) \<and>
     list_all (participant_identity_binding_valid E) (ac_participantIdentityBindings r) \<and>
     id_ok (ac_runId r) \<and>
     id_ok (ac_runtimeAdapterId r) \<and>
     0 \<le> (ac_sequenceNumber r) \<and>
     list_all id_ok (ac_requiredPriorActionContractIds r) \<and>
     opt_ok id_ok (ac_recoveryRecommendationId r) \<and>
     opt_ok id_ok (ac_recoverySourceReceiptId r) \<and>
     opt_ok digest_ok (ac_recoveryRecommendationDigest r) \<and>
     iso_ok E (ac_issuedAt r) \<and>
     iso_ok E (ac_expiresAt r) \<and>
     id_ok (ac_gatewayRegistryEntryId r) \<and>
     digest_ok (ac_gatewayRegistryDigest r) \<and>
     1 \<le> length (ac_gatewayRegistryVersion r) \<and>
     id_ok (ac_gatewayId r) \<and>
     id_ok (ac_gatewayPolicyContractId r) \<and>
     1 \<le> length (ac_gatewayPolicyVersion r) \<and>
     1 \<le> length (ac_mutationCredentialHolderRef r) \<and>
     1 \<le> length (ac_gatewayAuthorityHolderRef r) \<and>
     id_ok (ac_toolCapabilityId r) \<and>
     digest_ok (ac_toolCapabilityDigest r) \<and>
     id_ok (ac_actionTypeId r) \<and>
     digest_ok (ac_actionTypeDigest r) \<and>
     1 \<le> length (ac_actionClass r) \<and>
     1 \<le> length (ac_protectedSurfaceKind r) \<and>
     resource_ref_ok (ac_resourceRef r) \<and>
     opt_ok id_ok (ac_runtimeExecutionId r) \<and>
     opt_ok digest_ok (ac_runtimeExecutionDigest r) \<and>
     opt_ok id_ok (ac_generatedExecutionGraphId r) \<and>
     opt_ok digest_ok (ac_generatedExecutionGraphDigest r) \<and>
     opt_ok id_ok (ac_generatedExecutionNodeId r) \<and>
     opt_ok digest_ok (ac_generatedExecutionNodeDigest r) \<and>
     opt_ok digest_ok (ac_generatedExecutionCatalogSnapshotDigest r) \<and>
     opt_ok digest_ok (ac_generatedExecutionGatewayRegistrySnapshotDigest r) \<and>
     opt_ok digest_ok (ac_generatedExecutionRegistryBindingSetDigest r) \<and>
     opt_ok digest_ok (ac_generatedExecutionNodeGatewayBindingDigest r) \<and>
     digest_ok (ac_paramsDigest r) \<and>
     list_all (\<lambda>f. 1 \<le> length (snd f)) (ac_secretRefs r) \<and>
     list_all (gateway_credential_binding_valid E) (ac_gatewayCredentialRefs r) \<and>
     list_all (delegated_authority_binding_valid E) (ac_delegatedAuthorityRefs r) \<and>
     1 \<le> length (ac_purposeCode r) \<and>
     list_all (\<lambda>x. 1 \<le> length x) (ac_expectedSideEffectCodes r) \<and>
     clearing_evidence_refs_valid E (ac_clearingEvidenceRefs r) \<and>
     id_ok (ac_idempotencyKey r) \<and>
     opt_ok (\<lambda>x. length x \<le> 500) (ac_rollbackHint r) \<and>
     1 \<le> length (ac_canonicalizerVersion r) \<and>
     digest_ok (ac_actionContractDigest r) \<and>
     opt_ok signature_ok (ac_contractSignature r) \<and>
     opt_ok (\<lambda>x. 1 \<le> length x) (ac_keyIdentityRef r) \<and>
     opt_ok (\<lambda>x. 1 \<le> length x) (ac_verificationPolicyRef r)"

definition tool_call_draft_valid :: "'e env_scheme \<Rightarrow> 'a tool_call_draft_scheme \<Rightarrow> bool" where
  "tool_call_draft_valid E r \<longleftrightarrow>
     base_valid E r \<and>
     id_ok (td_toolCallDraftId r) \<and>
     opt_ok id_ok (td_runtimeExecutionId r) \<and>
     opt_ok id_ok (td_generatedExecutionGraphId r) \<and>
     opt_ok id_ok (td_generatedExecutionNodeId r) \<and>
     id_ok (td_toolCapabilityId r) \<and>
     id_ok (td_actionTypeId r) \<and>
     id_ok (td_gatewayRegistryEntryId r) \<and>
     1 \<le> length (td_actionClass r) \<and>
     id_ok (td_gatewayId r) \<and>
     resource_ref_ok (td_resourceRef r) \<and>
     list_all (\<lambda>f. 1 \<le> length (snd f)) (td_secretRefs r) \<and>
     list_all (gateway_credential_binding_valid E) (td_gatewayCredentialRefs r) \<and>
     list_all (delegated_authority_binding_valid E) (td_delegatedAuthorityRefs r) \<and>
     digest_ok (td_paramsDigest r) \<and>
     opt_ok (iso_ok E) (td_finalizedAt r) \<and>
     iso_ok E (td_expiresAt r) \<and>
     list_all reason_code_ok (td_invalidReasonCodes r) \<and>
     list_all (\<lambda>x. 1 \<le> length x) (td_evidenceRefs r) \<and>
     digest_ok (td_draftDigest r)"

definition candidate_action_valid :: "'e env_scheme \<Rightarrow> 'a candidate_action_scheme \<Rightarrow> bool" where
  "candidate_action_valid E r \<longleftrightarrow>
     id_ok (ca_candidateActionId r) \<and>
     opt_ok digest_ok (ca_candidateDigest r) \<and>
     list_all reason_code_ok (ca_refusalReasonCodes r) \<and>
     id_ok (ca_toolCapabilityId r) \<and>
     opt_ok digest_ok (ca_toolCapabilityDigest r) \<and>
     opt_ok (\<lambda>x. 1 \<le> length x) (ca_toolCatalogVersion r) \<and>
     id_ok (ca_actionTypeId r) \<and>
     opt_ok digest_ok (ca_actionTypeDigest r) \<and>
     opt_ok (\<lambda>x. 1 \<le> length x) (ca_actionCatalogVersion r) \<and>
     id_ok (ca_gatewayRegistryEntryId r) \<and>
     opt_ok digest_ok (ca_gatewayRegistryDigest r) \<and>
     opt_ok (\<lambda>x. 1 \<le> length x) (ca_gatewayRegistryVersion r) \<and>
     id_ok (ca_operatingEnvelopeId r) \<and>
     opt_ok digest_ok (ca_operatingEnvelopeDigest r) \<and>
     1 \<le> length (ca_actionClass r) \<and>
     id_ok (ca_gatewayId r) \<and>
     resource_ref_ok (ca_resourceRef r) \<and>
     0 \<le> (ca_sequenceNumber r) \<and>
     list_all id_ok (ca_requiredPriorActionContractIds r) \<and>
     opt_ok id_ok (ca_recoveryRecommendationId r) \<and>
     digest_ok (ca_paramsDigest r) \<and>
     list_all (\<lambda>f. 1 \<le> length (snd f)) (ca_secretRefs r) \<and>
     list_all (gateway_credential_binding_valid E) (ca_gatewayCredentialRefs r) \<and>
     list_all (delegated_authority_binding_valid E) (ca_delegatedAuthorityRefs r) \<and>
     1 \<le> length (ca_purposeCode r) \<and>
     list_all (\<lambda>x. 1 \<le> length x) (ca_expectedSideEffectCodes r) \<and>
     clearing_evidence_refs_valid E (ca_clearingEvidenceRefs r) \<and>
     id_ok (ca_idempotencyKey r) \<and>
     opt_ok (\<lambda>x. length x \<le> 500) (ca_rollbackHint r) \<and>
     iso_ok E (ca_expiresAt r) \<and>
     opt_ok id_ok (ca_runtimeExecutionId r) \<and>
     opt_ok digest_ok (ca_runtimeExecutionDigest r) \<and>
     opt_ok id_ok (ca_generatedExecutionGraphId r) \<and>
     opt_ok digest_ok (ca_generatedExecutionGraphDigest r) \<and>
     opt_ok id_ok (ca_generatedExecutionNodeId r) \<and>
     opt_ok digest_ok (ca_generatedExecutionNodeDigest r) \<and>
     opt_ok digest_ok (ca_generatedExecutionCatalogSnapshotDigest r) \<and>
     opt_ok digest_ok (ca_generatedExecutionGatewayRegistrySnapshotDigest r) \<and>
     opt_ok digest_ok (ca_generatedExecutionRegistryBindingSetDigest r) \<and>
     opt_ok digest_ok (ca_generatedExecutionNodeGatewayBindingDigest r) \<and>
     opt_ok id_ok (ca_toolCallDraftId r) \<and>
     opt_ok digest_ok (ca_toolCallDraftDigest r)"

definition intent_compilation_valid :: "'e env_scheme \<Rightarrow> 'a intent_compilation_scheme \<Rightarrow> bool" where
  "intent_compilation_valid E r \<longleftrightarrow>
     base_valid E r \<and>
     id_ok (ic_intentCompilationId r) \<and>
     1 \<le> length (ic_principalIntentRef r) \<and>
     id_ok (ic_principalId r) \<and>
     id_ok (ic_agentId r) \<and>
     id_ok (ic_runId r) \<and>
     id_ok (ic_runtimeAdapterId r) \<and>
     id_ok (ic_operatingEnvelopeId r) \<and>
     1 \<le> length (ic_toolCatalogRef r) \<and>
     1 \<le> length (ic_actionCatalogRef r) \<and>
     1 \<le> length (ic_gatewayRegistryRef r) \<and>
     opt_ok id_ok (ic_runtimeExecutionId r) \<and>
     opt_ok digest_ok (ic_runtimeExecutionDigest r) \<and>
     candidate_action_valid E (ic_candidateAction r) \<and>
     list_all id_ok (ic_candidateActionContractRefs r) \<and>
     list_all id_ok (ic_rejectedCandidateRefs r) \<and>
     list_all reason_code_ok (ic_overreachReasonCodes r) \<and>
     1 \<le> length (ic_compilerVersion r)"

definition negotiation_party_binding_valid :: "'e env_scheme \<Rightarrow> 'a negotiation_party_binding_scheme \<Rightarrow> bool" where
  "negotiation_party_binding_valid E r \<longleftrightarrow>
     id_ok (npb_partyId r) \<and>
     resource_ref_ok (npb_agentRef r) \<and>
     opt_ok resource_ref_ok (npb_organizationRef r) \<and>
     opt_ok resource_ref_ok (npb_runtimeRef r) \<and>
     opt_ok resource_ref_ok (npb_endpointRef r) \<and>
     list_all resource_ref_ok (npb_identityEvidenceRefs r) \<and>
     opt_ok digest_ok (npb_identityProofDigest r) \<and>
     list_all resource_ref_ok (npb_proofGapRefs r) \<and>
     \<not> (npb_identityProofPosture r = NPIPP_host_verified_ref \<and> npb_identityEvidenceRefs r = []) \<and>
     \<not> (npb_identityProofPosture r = NPIPP_proof_gap_recorded \<and> npb_proofGapRefs r = [])"

definition evidence_ref_valid :: "'e env_scheme \<Rightarrow> 'a evidence_ref_scheme \<Rightarrow> bool" where
  "evidence_ref_valid E r \<longleftrightarrow>
     resource_ref_ok (er_ref r) \<and> \<not> disallowed_obligation_ref (er_ref r) \<and>
     opt_ok digest_ok (er_digest r)"

definition negotiation_session_valid :: "'e env_scheme \<Rightarrow> 'a negotiation_session_scheme \<Rightarrow> bool" where
  "negotiation_session_valid E r \<longleftrightarrow>
     base_valid E r \<and>
     id_ok (ns_negotiationSessionId r) \<and>
     digest_ok (ns_negotiationSessionDigest r) \<and>
     resource_ref_ok (ns_subjectResourceRef r) \<and>
     list_all non_authority_ref_ok (ns_subjectProtectedActionContextRefs r) \<and>
     list_all (negotiation_party_binding_valid E) (ns_parties r) \<and> 2 \<le> length (ns_parties r) \<and>
     list_all resource_ref_ok (ns_generatedCodeOrSpecRefs r) \<and>
     list_all (\<lambda>x. 1 \<le> length x \<and> length x \<le> 500) (ns_declaredAssumptions r) \<and>
     list_all (\<lambda>x. 1 \<le> length x \<and> length x \<le> 500) (ns_uncertaintyMarkers r) \<and>
     list_all (external_protocol_evidence_ref_valid E) (ns_externalProtocolEvidenceRefs r) \<and>
     clearing_evidence_refs_valid E (ns_clearingEvidenceRefs r) \<and>
     opt_ok (iso_ok E) (ns_expiresAt r) \<and>
     list_ex (\<lambda>p. npb_partyRole p = PR_initiator) (ns_parties r) \<and>
     list_ex (\<lambda>p. npb_partyRole p = PR_counterparty) (ns_parties r)"

definition negotiation_offer_valid :: "'e env_scheme \<Rightarrow> 'a negotiation_offer_scheme \<Rightarrow> bool" where
  "negotiation_offer_valid E r \<longleftrightarrow>
     base_valid E r \<and>
     id_ok (no_negotiationOfferId r) \<and>
     id_ok (no_negotiationSessionId r) \<and>
     offer_version_ok (no_offerVersionId r) \<and>
     0 < (no_offerSequence r) \<and>
     id_ok (no_offeredByPartyId r) \<and>
     opt_ok offer_version_ok (no_previousOfferVersionId r) \<and>
     opt_ok offer_version_ok (no_supersedesOfferVersionId r) \<and>
     digest_ok (no_offerContentDigest r) \<and>
     list_all resource_ref_ok (no_offerObjectRefs r) \<and>
     list_all resource_ref_ok (no_offerContentRefs r) \<and>
     list_all resource_ref_ok (no_proofGapRefs r) \<and>
     list_all (external_protocol_evidence_ref_valid E) (no_externalProtocolEvidenceRefs r) \<and>
     list_all resource_ref_ok (no_generatedCodeOrSpecRefs r) \<and>
     list_all (\<lambda>x. 1 \<le> length x \<and> length x \<le> 500) (no_declaredAssumptions r) \<and>
     list_all (\<lambda>x. 1 \<le> length x \<and> length x \<le> 500) (no_uncertaintyMarkers r) \<and>
     clearing_evidence_refs_valid E (no_clearingEvidenceRefs r) \<and>
     opt_ok (iso_ok E) (no_expiresAt r) \<and>
     \<not> (no_offerObjectRefs r = [] \<and> no_offerContentRefs r = [] \<and> no_proofGapRefs r = [])"

definition negotiation_decision_valid :: "'e env_scheme \<Rightarrow> 'a negotiation_decision_scheme \<Rightarrow> bool" where
  "negotiation_decision_valid E r \<longleftrightarrow>
     base_valid E r \<and>
     id_ok (nd_negotiationDecisionId r) \<and>
     id_ok (nd_negotiationSessionId r) \<and>
     offer_version_ok (nd_decidedOfferVersionId r) \<and>
     0 < (nd_decidedOfferSequence r) \<and>
     id_ok (nd_decidedByPartyId r) \<and>
     list_all reason_code_ok (nd_reasonCodes r) \<and>
     list_all resource_ref_ok (nd_evidenceRefs r) \<and>
     list_all resource_ref_ok (nd_proofGapRefs r) \<and>
     opt_ok offer_version_ok (nd_counterOfferVersionId r) \<and>
     digest_ok (nd_decisionDigest r) \<and>
     (nd_decision r = NV_counter) = (nd_counterOfferVersionId r \<noteq> None)"

definition linked_agreement_valid :: "'e env_scheme \<Rightarrow> 'a linked_agreement_scheme \<Rightarrow> bool" where
  "linked_agreement_valid E r \<longleftrightarrow>
     base_valid E r \<and>
     id_ok (la_linkedAgreementId r) \<and>
     id_ok (la_negotiationSessionId r) \<and>
     id_ok (la_acceptedNegotiationDecisionId r) \<and>
     offer_version_ok (la_acceptedOfferVersionId r) \<and>
     0 < (la_acceptedOfferSequence r) \<and>
     digest_ok (la_acceptedOfferContentDigest r) \<and>
     id_ok (la_acceptedByPartyId r) \<and>
     resource_ref_ok (la_counterpartyRef r) \<and>
     digest_ok (la_agreementDigest r) \<and>
     list_all resource_ref_ok (la_agreementObjectRefs r) \<and>
     list_all resource_ref_ok (la_agreementContentRefs r) \<and>
     list_all resource_ref_ok (la_proofGapRefs r) \<and>
     (la_agreementEvidencePosture r) = ''local_evidence_only'' \<and>
     clearing_evidence_refs_valid E (la_clearingEvidenceRefs r) \<and>
     list_all (external_protocol_evidence_ref_valid E) (la_externalProtocolEvidenceRefs r) \<and>
     opt_ok (iso_ok E) (la_expiresAt r) \<and>
     \<not> (la_agreementObjectRefs r = [] \<and> la_agreementContentRefs r = [] \<and> la_proofGapRefs r = [])"

definition agreement_obligation_binding_valid :: "'e env_scheme \<Rightarrow> 'a agreement_obligation_binding_scheme \<Rightarrow> bool" where
  "agreement_obligation_binding_valid E r \<longleftrightarrow>
     base_valid E r \<and>
     id_ok (ab_agreementObligationBindingId r) \<and>
     id_ok (ab_linkedAgreementId r) \<and>
     id_ok (ab_negotiationSessionId r) \<and>
     resource_ref_ok (ab_obligationRef r) \<and> \<not> disallowed_obligation_ref (ab_obligationRef r) \<and>
     opt_ok digest_ok (ab_obligationDigest r) \<and>
     id_ok (ab_actionContractId r) \<and>
     digest_ok (ab_actionContractDigest r) \<and>
     digest_ok (ab_paramsDigest r) \<and>
     id_ok (ab_actionTypeId r) \<and>
     1 \<le> length (ab_actionClass r) \<and>
     resource_ref_ok (ab_resourceRef r) \<and>
     resource_ref_ok (ab_counterpartyRef r) \<and>
     (ab_maxUses r) = 1 \<and>
     (ab_bindingPosture r) = ''local_evidence_only'' \<and>
     list_all (evidence_ref_valid E) (ab_localProtectedActionEvidenceRefs r) \<and> 1 \<le> length (ab_localProtectedActionEvidenceRefs r) \<and>
     list_all resource_ref_ok (ab_evidenceRefs r) \<and>
     list_all resource_ref_ok (ab_proofGapRefs r)"

definition agreement_status_transition_valid :: "'e env_scheme \<Rightarrow> 'a agreement_status_transition_scheme \<Rightarrow> bool" where
  "agreement_status_transition_valid E r \<longleftrightarrow>
     base_valid E r \<and>
     id_ok (ast_agreementStatusTransitionId r) \<and>
     id_ok (ast_linkedAgreementId r) \<and>
     id_ok (ast_negotiationSessionId r) \<and>
     list_all reason_code_ok (ast_reasonCodes r) \<and>
     list_all resource_ref_ok (ast_evidenceRefs r) \<and>
     list_all resource_ref_ok (ast_proofGapRefs r) \<and>
     digest_ok (ast_transitionDigest r) \<and>
     agreement_status_str (ast_fromStatus r) \<noteq> agreement_next_status_str (ast_toStatus r)"

end
