(* ===== verification/Delegation.thy ===== *)
theory Delegation
  imports Schemas_Safe Payloads Isolation
begin

text \<open>
  Delegated authority: registering a reference to a grant and ending it
  (\<open>delegated-authority/transitions.ts\<close>).  Ending a grant records a status transition
  and isolates the scope of the reference; the reference itself is not rewritten.
\<close>

section \<open>Registering a reference\<close>

record register_authority_input =
  rai_tenantId :: "string"
  rai_organizationId :: "string"
  rai_delegatedAuthorityRefId :: "string option"
  rai_principalId :: "string"
  rai_agentId :: "string"
  rai_runtimeAdapterId :: "string"
  rai_operatingEnvelopeId :: "string"
  rai_gatewayId :: "string"
  rai_gatewayRegistryEntryId :: "string"
  rai_protectedSurfaceKind :: "string"
  rai_actionClasses :: "string list"
  rai_resourceRefs :: "string list"
  rai_authorityKind :: "delegated_authority_kind"
  rai_grantStatus :: "delegated_authority_grant_status"
  rai_policyPackRef :: "string"
  rai_policyPackVersion :: "string"
  rai_amountParameterName :: "string option"
  rai_maxAtomicAmountPerAction :: "string option"
  rai_evidenceExpectationRefs :: "string list"
  rai_issuedAt :: "string option"
  rai_expiresAt :: "string"

definition register_authority_input_valid :: "'e env_scheme \<Rightarrow> register_authority_input \<Rightarrow> bool" where
  "register_authority_input_valid E i \<longleftrightarrow>
     1 \<le> length (rai_tenantId i) \<and>
     1 \<le> length (rai_organizationId i) \<and>
     opt_ok (\<lambda>x. 1 \<le> length x) (rai_delegatedAuthorityRefId i) \<and>
     1 \<le> length (rai_principalId i) \<and>
     1 \<le> length (rai_agentId i) \<and>
     1 \<le> length (rai_runtimeAdapterId i) \<and>
     1 \<le> length (rai_operatingEnvelopeId i) \<and>
     1 \<le> length (rai_gatewayId i) \<and>
     1 \<le> length (rai_gatewayRegistryEntryId i) \<and>
     1 \<le> length (rai_protectedSurfaceKind i) \<and>
     list_all (\<lambda>x. 1 \<le> length x) (rai_actionClasses i) \<and> 1 \<le> length (rai_actionClasses i) \<and>
     list_all resource_ref_ok (rai_resourceRefs i) \<and> 1 \<le> length (rai_resourceRefs i) \<and>
     authority_safe_ok (rai_policyPackRef i) \<and>
     1 \<le> length (rai_policyPackVersion i) \<and>
     opt_ok authority_safe_ok (rai_amountParameterName i) \<and>
     opt_ok atomic_amount_ok (rai_maxAtomicAmountPerAction i) \<and>
     list_all authority_safe_ok (rai_evidenceExpectationRefs i) \<and>
     opt_ok (iso_ok E) (rai_issuedAt i) \<and>
     iso_ok E (rai_expiresAt i)"


definition delegatedAuthorityRefDigestMaterial :: "register_authority_input \<Rightarrow> string \<Rightarrow> string \<Rightarrow> jval" where
  "delegatedAuthorityRefDigestMaterial i rid issued = JObj
     [(''delegatedAuthorityRefId'', JStr rid), (''tenantId'', JStr (rai_tenantId i)),
      (''organizationId'', JStr (rai_organizationId i)), (''principalId'', JStr (rai_principalId i)),
      (''agentId'', JStr (rai_agentId i)), (''runtimeAdapterId'', JStr (rai_runtimeAdapterId i)),
      (''operatingEnvelopeId'', JStr (rai_operatingEnvelopeId i)), (''gatewayId'', JStr (rai_gatewayId i)),
      (''gatewayRegistryEntryId'', JStr (rai_gatewayRegistryEntryId i)),
      (''protectedSurfaceKind'', JStr (rai_protectedSurfaceKind i)),
      (''actionClasses'', JArr (map JStr (rai_actionClasses i))),
      (''resourceRefs'', JArr (map JStr (rai_resourceRefs i))),
      (''authorityKind'', JStr (delegated_authority_kind_str (rai_authorityKind i))),
      (''grantStatus'', JStr (delegated_authority_grant_status_str (rai_grantStatus i))),
      (''policyPackRef'', JStr (rai_policyPackRef i)), (''policyPackVersion'', JStr (rai_policyPackVersion i)),
      (''amountParameterName'', j_opt JStr (rai_amountParameterName i)),
      (''maxAtomicAmountPerAction'', j_opt JStr (rai_maxAtomicAmountPerAction i)),
      (''evidenceExpectationRefs'', JArr (map JStr (rai_evidenceExpectationRefs i))),
      (''issuedAt'', JStr issued), (''expiresAt'', JStr (rai_expiresAt i))]"

definition authority_ref_of :: "register_authority_input \<Rightarrow> string \<Rightarrow> string \<Rightarrow> string \<Rightarrow> string \<Rightarrow> delegated_authority_ref" where
  "authority_ref_of i now issued rid digest =
     \<lparr>schemaVersion = PROTOCOL_VERSION, tenantId = rai_tenantId i, organizationId = rai_organizationId i,
      createdAt = now, da_delegatedAuthorityRefId = rid, da_delegatedAuthorityRefDigest = digest,
      da_principalId = rai_principalId i, da_agentId = rai_agentId i,
      da_runtimeAdapterId = rai_runtimeAdapterId i, da_operatingEnvelopeId = rai_operatingEnvelopeId i,
      da_gatewayId = rai_gatewayId i, da_gatewayRegistryEntryId = rai_gatewayRegistryEntryId i,
      da_protectedSurfaceKind = rai_protectedSurfaceKind i, da_actionClasses = rai_actionClasses i,
      da_resourceRefs = rai_resourceRefs i, da_authorityKind = rai_authorityKind i,
      da_grantStatus = rai_grantStatus i, da_policyPackRef = rai_policyPackRef i,
      da_policyPackVersion = rai_policyPackVersion i, da_amountParameterName = rai_amountParameterName i,
      da_maxAtomicAmountPerAction = rai_maxAtomicAmountPerAction i,
      da_evidenceExpectationRefs = rai_evidenceExpectationRefs i,
      da_redactionProfileRef = ''delegated-authority-ref:v0.2-redacted'', da_secretMaterialIncluded = False,
      da_mutationAuthorityCreated = False, da_greenlightCreated = False, da_issuedAt = issued,
      da_expiresAt = rai_expiresAt i\<rparr>"

definition buildDelegatedAuthorityRef :: "kernel_env \<Rightarrow> register_authority_input \<Rightarrow> delegated_authority_ref wtr" where
  "buildDelegatedAuthorityRef E i =
     tbind (nowIso E) (\<lambda>now.
     (let issued = ref_or (rai_issuedAt i) now in
      tbind (given_or_new E (rai_delegatedAuthorityRefId i) ''dar'') (\<lambda>rid.
      tparse (delegated_authority_ref_valid E)
        (authority_ref_of i now issued rid (digestCanonical E (delegatedAuthorityRefDigestMaterial i rid issued))))))"

definition delegatedAuthorityRefEvents :: "delegated_authority_ref \<Rightarrow> event_descriptor list" where
  "delegatedAuthorityRefEvents r =
     [\<lparr>ed_source = protocol_base.truncate r, ed_eventType = ET_delegated_authority_ref_registered,
       ed_objectRefs = [da_delegatedAuthorityRefId r, da_delegatedAuthorityRefDigest r, da_gatewayId r],
       ed_payload = [(''gatewayId'', JStr (da_gatewayId r)),
      (''authorityKind'', JStr (delegated_authority_kind_str (da_authorityKind r))),
      (''grantStatus'', JStr (delegated_authority_grant_status_str (da_grantStatus r))),
      (''policyPackRef'', JStr (da_policyPackRef r))],
       ed_streamRefs = None\<rparr>]"

definition registerDelegatedAuthorityRef :: "kernel_env \<Rightarrow> register_authority_input \<Rightarrow> delegated_authority_ref wtr" where
  "registerDelegatedAuthorityRef E input =
     tbind (tparse (register_authority_input_valid E) input) (\<lambda>i.
     tbind (buildDelegatedAuthorityRef E i) (\<lambda>r.
     tbind (commitRecordsWithEvents E [PR_delegated_authority_ref r] (delegatedAuthorityRefEvents r) no_options) (\<lambda>_.
     treturn r)))"

section \<open>Ending a grant\<close>

record authority_status_input =
  dai_delegatedAuthorityRefId :: "string"
  dai_nextGrantStatus :: "delegated_authority_terminal_grant_status"
  dai_reasonCode :: "string"
  dai_reasonSummary :: "string"
  dai_changedByRef :: "string"
  dai_isolationExpiresAt :: "string option"

definition authority_status_input_valid :: "'e env_scheme \<Rightarrow> authority_status_input \<Rightarrow> bool" where
  "authority_status_input_valid E i \<longleftrightarrow>
     1 \<le> length (dai_delegatedAuthorityRefId i) \<and>
     2 \<le> length (dai_reasonCode i) \<and>
     1 \<le> length (dai_reasonSummary i) \<and>
     1 \<le> length (dai_changedByRef i) \<and>
     opt_ok (iso_ok E) (dai_isolationExpiresAt i)"


record authority_status_change =
  dac_statusTransition :: delegated_authority_status_transition
  dac_isolationState :: isolation_state

definition authority_transition_failure ::
  "delegated_authority_ref \<Rightarrow> authority_status_input \<Rightarrow> string \<Rightarrow> string option" where
  "authority_transition_failure ref i now =
    (if da_grantStatus ref \<noteq> DAGS_active then Some ''delegated_authority_already_terminal''
     else if dai_nextGrantStatus i = DATS_expired \<and> date_less now (da_expiresAt ref)
       then Some ''delegated_authority_not_expired''
     else None)"

definition assertDelegatedAuthorityStatusTransition ::
  "delegated_authority_ref \<Rightarrow> authority_status_input \<Rightarrow> string \<Rightarrow> unit wtr" where
  "assertDelegatedAuthorityStatusTransition ref i now = (case authority_transition_failure ref i now of
       Some code \<Rightarrow> tfail (protocol_error code 409) | None \<Rightarrow> treturn ())"

definition authority_transition_seed ::
  "delegated_authority_ref \<Rightarrow> authority_status_input \<Rightarrow> string \<Rightarrow> string \<Rightarrow> string \<Rightarrow> jval" where
  "authority_transition_seed ref i now tid iid = JObj
     [(''delegatedAuthorityStatusTransitionId'', JStr tid),
      (''delegatedAuthorityRefId'', JStr (da_delegatedAuthorityRefId ref)),
      (''delegatedAuthorityRefDigest'', JStr (da_delegatedAuthorityRefDigest ref)),
      (''previousGrantStatus'', JStr (delegated_authority_grant_status_str (da_grantStatus ref))),
      (''nextGrantStatus'', JStr (delegated_authority_terminal_grant_status_str (dai_nextGrantStatus i))),
      (''reasonCode'', JStr (dai_reasonCode i)), (''changedByRef'', JStr (dai_changedByRef i)),
      (''changedAt'', JStr now), (''isolationStateId'', JStr iid)]"

definition authority_transition_of ::
  "delegated_authority_ref \<Rightarrow> authority_status_input \<Rightarrow> string \<Rightarrow> string \<Rightarrow> string \<Rightarrow> string \<Rightarrow> delegated_authority_status_transition" where
  "authority_transition_of ref i now tid iid digest =
     \<lparr>schemaVersion = PROTOCOL_VERSION, tenantId = tenantId ref, organizationId = organizationId ref,
      createdAt = now, dst_delegatedAuthorityStatusTransitionId = tid,
      dst_delegatedAuthorityRefId = da_delegatedAuthorityRefId ref,
      dst_delegatedAuthorityRefDigest = da_delegatedAuthorityRefDigest ref,
      dst_previousGrantStatus = da_grantStatus ref, dst_nextGrantStatus = dai_nextGrantStatus i,
      dst_reasonCode = dai_reasonCode i, dst_reasonSummary = dai_reasonSummary i,
      dst_changedByRef = dai_changedByRef i, dst_changedAt = now, dst_isolationStateId = iid,
      dst_transitionDigest = digest\<rparr>"

definition authority_isolation_of ::
  "delegated_authority_ref \<Rightarrow> authority_status_input \<Rightarrow> string \<Rightarrow> string \<Rightarrow> string \<Rightarrow> isolation_state" where
  "authority_isolation_of ref i now tid iid =
     \<lparr>schemaVersion = PROTOCOL_VERSION, tenantId = tenantId ref, organizationId = organizationId ref,
      createdAt = now, is_isolationStateId = iid, is_scopeType = IST_authority_ref,
      is_scopeId = da_delegatedAuthorityRefId ref, is_state = IV_revoked, is_reasonCode = dai_reasonCode i,
      is_reasonSummary = dai_reasonSummary i, is_sourceDecisionRef = tid, is_effectiveAt = now,
      is_expiresAt = dai_isolationExpiresAt i, is_clearedAt = None, is_observedStreamOffsets = [],
      is_version = 1\<rparr>"

definition buildDelegatedAuthorityStatusChange ::
  "kernel_env \<Rightarrow> authority_status_input \<Rightarrow> delegated_authority_ref \<Rightarrow> string \<Rightarrow> authority_status_change wtr" where
  "buildDelegatedAuthorityStatusChange E i ref now =
     tbind (assertDelegatedAuthorityStatusTransition ref i now) (\<lambda>_.
     tbind (createId E ''dat'') (\<lambda>tid.
     tbind (createId E ''iso'') (\<lambda>iid.
     tbind (tparse (delegated_authority_status_transition_valid E)
        (authority_transition_of ref i now tid iid (digestCanonical E (authority_transition_seed ref i now tid iid)))) (\<lambda>tr.
     tbind (tparse (isolation_state_valid E) (authority_isolation_of ref i now tid iid)) (\<lambda>s.
     treturn \<lparr>dac_statusTransition = tr, dac_isolationState = s\<rparr>)))))"

definition delegatedAuthorityStatusChangeRecords :: "authority_status_change \<Rightarrow> protocol_record list" where
  "delegatedAuthorityStatusChangeRecords k =
     [PR_delegated_authority_status_transition (dac_statusTransition k), PR_isolation_state (dac_isolationState k)]"

definition delegatedAuthorityStatusChangeEvents :: "authority_status_change \<Rightarrow> event_descriptor list" where
  "delegatedAuthorityStatusChangeEvents k = (let tr = dac_statusTransition k; s = dac_isolationState k in
     [\<lparr>ed_source = protocol_base.truncate tr, ed_eventType = ET_delegated_authority_status_changed,
       ed_objectRefs = [dst_delegatedAuthorityRefId tr, dst_delegatedAuthorityStatusTransitionId tr, dst_isolationStateId tr],
       ed_payload = [(''previousGrantStatus'', JStr (delegated_authority_grant_status_str (dst_previousGrantStatus tr))),
         (''nextGrantStatus'', JStr (delegated_authority_terminal_grant_status_str (dst_nextGrantStatus tr))),
         (''reasonCode'', JStr (dst_reasonCode tr)), (''changedByRef'', JStr (dst_changedByRef tr)),
         (''transitionDigest'', JStr (dst_transitionDigest tr))],
       ed_streamRefs = None\<rparr>,
      \<lparr>ed_source = protocol_base.truncate s, ed_eventType = ET_isolation_changed,
       ed_objectRefs = [is_isolationStateId s, isolation_scope_type_str (is_scopeType s), is_scopeId s],
       ed_payload = [(''state'', JStr (isolation_value_str (is_state s))), (''reasonCode'', JStr (is_reasonCode s)),
         (''observedStreamOffsets'', JArr (map stream_watermark_json (is_observedStreamOffsets s)))],
       ed_streamRefs = None\<rparr>])"

definition transitionDelegatedAuthorityStatus ::
  "kernel_env \<Rightarrow> authority_status_input \<Rightarrow> delegated_authority_status_transition wtr" where
  "transitionDelegatedAuthorityStatus E input =
     tbind (tparse (authority_status_input_valid E) input) (\<lambda>i.
     tbind (requiredPayload as_delegated_authority_ref OT_delegated_authority_ref (dai_delegatedAuthorityRefId i)
        ''delegated_authority_ref_missing'') (\<lambda>ref.
     tbind (nowIso E) (\<lambda>now.
     tbind (buildDelegatedAuthorityStatusChange E i ref now) (\<lambda>k.
     tbind (commitRecordsWithEvents E (delegatedAuthorityStatusChangeRecords k) (delegatedAuthorityStatusChangeEvents k)
        (no_options\<lparr>co_isolationEntries := [isolationStateIndexEntry (dac_isolationState k)]\<rparr>)) (\<lambda>_.
     treturn (dac_statusTransition k))))))"

section \<open>What ending a grant closes\<close>

lemma authority_change_Inr:
  assumes "buildDelegatedAuthorityStatusChange E i ref now w = (Inr k, w')"
  shows "\<exists>tid iid. dac_isolationState k = authority_isolation_of ref i now tid iid \<and>
     dst_delegatedAuthorityStatusTransitionId (dac_statusTransition k) = tid \<and> authority_transition_failure ref i now = None"
  using assms
  by (auto simp: buildDelegatedAuthorityStatusChange_def assertDelegatedAuthorityStatusTransition_def
      authority_transition_of_def split: option.splits elim!: tbind_InrE) blast

lemma transition_authority_isolates:
  assumes "disciplined E" "transitionDelegatedAuthorityStatus E i w = (Inr tr, w')"
    "find_payload as_delegated_authority_ref OT_delegated_authority_ref (dai_delegatedAuthorityRefId i) (w_store w) = Some ref"
  shows "\<exists>s. current_isolation s (w_store w') \<and> is_state s = IV_revoked \<and> is_scopeType s = IST_authority_ref \<and>
     is_scopeId s = da_delegatedAuthorityRefId ref \<and> tenantId s = tenantId ref \<and> organizationId s = organizationId ref \<and>
     is_sourceDecisionRef s = dst_delegatedAuthorityStatusTransitionId tr"
proof -
  obtain now k w1 w2 es where k: "buildDelegatedAuthorityStatusChange E i ref now w1 = (Inr k, w2)" "tr = dac_statusTransition k"
    and com: "commitRecordsWithEvents E (delegatedAuthorityStatusChangeRecords k) (delegatedAuthorityStatusChangeEvents k)
        (no_options\<lparr>co_isolationEntries := [isolationStateIndexEntry (dac_isolationState k)]\<rparr>) w2 = (Inr es, w')"
    using assms(2,3) by (auto simp: transitionDelegatedAuthorityStatus_def requiredPayload_Inr elim!: tbind_InrE)
  obtain tid iid where s: "dac_isolationState k = authority_isolation_of ref i now tid iid"
      "dst_delegatedAuthorityStatusTransitionId tr = tid"
    using authority_change_Inr[OF k(1)] k(2) by blast
  have "current_isolation (dac_isolationState k) (w_store w')"
    by (rule commit_isolation_current[OF assms(1) com])
      (auto simp: delegatedAuthorityStatusChangeRecords_def s authority_isolation_of_def)
  then show ?thesis using s by (intro exI[of _ "dac_isolationState k"]) (simp add: authority_isolation_of_def)
qed

text \<open>The scope of a bound authority is one of the contract's.\<close>

lemma authority_scope_of_contract:
  assumes "b \<in> set (ac_delegatedAuthorityRefs c)" "tenantId s = tenantId c" "organizationId s = organizationId c"
    "is_scopeType s = IST_authority_ref" "is_scopeId s = dab_delegatedAuthorityRefId b"
  shows "isolationScopeKey (state_scope s) \<in> isolationScopeKey ` set (isolationScopeRefsForContract c)"
proof -
  have "state_scope s = isolationScopeRef c IST_authority_ref (dab_delegatedAuthorityRefId b)"
    using assms by (simp add: state_scope_def isolationScopeRef_def)
  then show ?thesis using assms(1) unfolding isolationScopeRefsForContract_def uniqueIsolationScopeRefs_keys by auto
qed

text \<open>So the gate and the policy are closed to every contract that binds the grant.\<close>

lemma ended_authority_closes:
  assumes "disciplined E" "transitionDelegatedAuthorityStatus E i w = (Inr tr, w')"
    "find_payload as_delegated_authority_ref OT_delegated_authority_ref (dai_delegatedAuthorityRefId i) (w_store w) = Some ref"
    and c: "da_delegatedAuthorityRefId ref \<in> dab_delegatedAuthorityRefId ` set (ac_delegatedAuthorityRefs c)"
      "tenantId ref = tenantId c" "organizationId ref = organizationId c"
      "find_payload as_action_contract OT_action_contract cid (w_store w') = Some c"
  shows "\<not> (\<exists>j r w''. gwi_actionContractId j = cid \<and> gatewayCheck E j w' = (Inr r, w'') \<and> gwr_mutationAttempt r \<noteq> None) \<and>
     \<not> (\<exists>j r w''. ep_actionContractId j = cid \<and> evaluatePolicy E j w' = (Inr r, w'') \<and> pe_greenlight r \<noteq> None)"
proof -
  obtain s where s: "current_isolation s (w_store w')" "is_state s = IV_revoked" "is_scopeType s = IST_authority_ref"
    "is_scopeId s = da_delegatedAuthorityRefId ref" "tenantId s = tenantId ref" "organizationId s = organizationId ref"
    using transition_authority_isolates[OF assms(1-3)] by blast
  have "blocks_gateway s" "blocks_policy s" using s(2) by (simp_all add: blocks_gateway_def blocks_policy_def)
  moreover have "isolationScopeKey (state_scope s) \<in> isolationScopeKey ` set (isolationScopeRefsForContract c)"
    using c(1-3) s by (auto intro: authority_scope_of_contract)
  ultimately show ?thesis
    using gate_closed[OF assms(1) s(1)] policy_closed[OF assms(1) s(1)] c(4) by metis
qed

end
