(* ===== verification/Custody.thy ===== *)
theory Custody
  imports Schemas_Safe Payloads Bindings
begin

text \<open>
  Credential custody (\<open>credential-custody/transitions.ts\<close>): registering a reference
  to a credential that a gateway holds, recording that a credential was resolved
  after a passed gateway check, and recording the proof that the gateway has custody.
  No record holds raw credential material, and none creates authority.
\<close>

section \<open>Registering a reference\<close>

record register_credential_input =
  rgi_tenantId :: "string"
  rgi_organizationId :: "string"
  rgi_gatewayCredentialRefId :: "string option"
  rgi_principalId :: "string option"
  rgi_gatewayId :: "string"
  rgi_gatewayRegistryEntryId :: "string"
  rgi_protectedSurfaceKind :: "string"
  rgi_actionClasses :: "string list"
  rgi_resourceRefs :: "string list"
  rgi_resourceNamespaceRef :: "string"
  rgi_credentialKind :: "string"
  rgi_custodyStatus :: "credential_custody_status"
  rgi_providerClass :: "string"
  rgi_providerRegistryRef :: "string"
  rgi_providerRegistryDigest :: "string option"
  rgi_resolverRef :: "string"
  rgi_resolverVersion :: "string"
  rgi_evidenceExpectationRefs :: "string list"
  rgi_issuedAt :: "string option"
  rgi_expiresAt :: "string option"

definition register_credential_input_valid :: "'e env_scheme \<Rightarrow> register_credential_input \<Rightarrow> bool" where
  "register_credential_input_valid E i \<longleftrightarrow>
     1 \<le> length (rgi_tenantId i) \<and>
     1 \<le> length (rgi_organizationId i) \<and>
     opt_ok (\<lambda>x. 1 \<le> length x) (rgi_gatewayCredentialRefId i) \<and>
     opt_ok (\<lambda>x. 1 \<le> length x) (rgi_principalId i) \<and>
     1 \<le> length (rgi_gatewayId i) \<and>
     1 \<le> length (rgi_gatewayRegistryEntryId i) \<and>
     1 \<le> length (rgi_protectedSurfaceKind i) \<and>
     list_all (\<lambda>x. 1 \<le> length x) (rgi_actionClasses i) \<and> 1 \<le> length (rgi_actionClasses i) \<and>
     list_all resource_ref_ok (rgi_resourceRefs i) \<and> 1 \<le> length (rgi_resourceRefs i) \<and>
     1 \<le> length (rgi_resourceNamespaceRef i) \<and>
     credential_safe_ok (rgi_credentialKind i) \<and>
     credential_safe_ok (rgi_providerClass i) \<and>
     credential_safe_ok (rgi_providerRegistryRef i) \<and>
     opt_ok digest_ok (rgi_providerRegistryDigest i) \<and>
     credential_safe_ok (rgi_resolverRef i) \<and>
     1 \<le> length (rgi_resolverVersion i) \<and>
     list_all credential_safe_ok (rgi_evidenceExpectationRefs i) \<and>
     opt_ok (iso_ok E) (rgi_issuedAt i) \<and>
     opt_ok (iso_ok E) (rgi_expiresAt i)"


definition gatewayCredentialRefDigestMaterial :: "register_credential_input \<Rightarrow> string \<Rightarrow> string \<Rightarrow> jval" where
  "gatewayCredentialRefDigestMaterial i rid issued = JObj
     [(''gatewayCredentialRefId'', JStr rid), (''tenantId'', JStr (rgi_tenantId i)),
      (''organizationId'', JStr (rgi_organizationId i)), (''principalId'', j_opt JStr (rgi_principalId i)),
      (''gatewayId'', JStr (rgi_gatewayId i)),
      (''gatewayRegistryEntryId'', JStr (rgi_gatewayRegistryEntryId i)),
      (''protectedSurfaceKind'', JStr (rgi_protectedSurfaceKind i)),
      (''actionClasses'', JArr (map JStr (rgi_actionClasses i))),
      (''resourceRefs'', JArr (map JStr (rgi_resourceRefs i))),
      (''resourceNamespaceRef'', JStr (rgi_resourceNamespaceRef i)),
      (''credentialKind'', JStr (rgi_credentialKind i)),
      (''custodyStatus'', JStr (credential_custody_status_str (rgi_custodyStatus i))),
      (''providerClass'', JStr (rgi_providerClass i)),
      (''providerRegistryRef'', JStr (rgi_providerRegistryRef i)),
      (''providerRegistryDigest'', j_opt JStr (rgi_providerRegistryDigest i)),
      (''resolverRef'', JStr (rgi_resolverRef i)), (''resolverVersion'', JStr (rgi_resolverVersion i)),
      (''evidenceExpectationRefs'', JArr (map JStr (rgi_evidenceExpectationRefs i))),
      (''issuedAt'', JStr issued), (''expiresAt'', j_opt JStr (rgi_expiresAt i))]"

definition credential_ref_of :: "register_credential_input \<Rightarrow> string \<Rightarrow> string \<Rightarrow> string \<Rightarrow> string \<Rightarrow> gateway_credential_ref" where
  "credential_ref_of i now issued rid digest =
     \<lparr>schemaVersion = PROTOCOL_VERSION, tenantId = rgi_tenantId i, organizationId = rgi_organizationId i,
      createdAt = now, gcr_gatewayCredentialRefId = rid, gcr_gatewayCredentialRefDigest = digest,
      gcr_principalId = rgi_principalId i, gcr_gatewayId = rgi_gatewayId i,
      gcr_gatewayRegistryEntryId = rgi_gatewayRegistryEntryId i,
      gcr_protectedSurfaceKind = rgi_protectedSurfaceKind i, gcr_actionClasses = rgi_actionClasses i,
      gcr_resourceRefs = rgi_resourceRefs i, gcr_resourceNamespaceRef = rgi_resourceNamespaceRef i,
      gcr_credentialKind = rgi_credentialKind i, gcr_custodyStatus = rgi_custodyStatus i,
      gcr_providerClass = rgi_providerClass i, gcr_providerRegistryRef = rgi_providerRegistryRef i,
      gcr_providerRegistryDigest = rgi_providerRegistryDigest i, gcr_resolverRef = rgi_resolverRef i,
      gcr_resolverVersion = rgi_resolverVersion i, gcr_evidenceExpectationRefs = rgi_evidenceExpectationRefs i,
      gcr_redactionProfileRef = ''gateway-credential-ref:v0.2-redacted'', gcr_secretMaterialIncluded = False,
      gcr_issuedAt = issued, gcr_expiresAt = rgi_expiresAt i\<rparr>"

definition buildGatewayCredentialRef :: "kernel_env \<Rightarrow> register_credential_input \<Rightarrow> gateway_credential_ref wtr" where
  "buildGatewayCredentialRef E i =
     tbind (nowIso E) (\<lambda>now.
     (let issued = ref_or (rgi_issuedAt i) now in
      tbind (given_or_new E (rgi_gatewayCredentialRefId i) ''gcr'') (\<lambda>rid.
      tparse (gateway_credential_ref_valid E)
        (credential_ref_of i now issued rid (digestCanonical E (gatewayCredentialRefDigestMaterial i rid issued))))))"

definition gatewayCredentialRefEvents :: "gateway_credential_ref \<Rightarrow> event_descriptor list" where
  "gatewayCredentialRefEvents r =
     [\<lparr>ed_source = protocol_base.truncate r, ed_eventType = ET_gateway_credential_ref_registered,
       ed_objectRefs = [gcr_gatewayCredentialRefId r, gcr_gatewayCredentialRefDigest r, gcr_gatewayId r],
       ed_payload = [(''gatewayId'', JStr (gcr_gatewayId r)), (''providerRegistryRef'', JStr (gcr_providerRegistryRef r)),
      (''custodyStatus'', JStr (credential_custody_status_str (gcr_custodyStatus r)))],
       ed_streamRefs = None\<rparr>]"

definition registerGatewayCredentialRef :: "kernel_env \<Rightarrow> register_credential_input \<Rightarrow> gateway_credential_ref wtr" where
  "registerGatewayCredentialRef E input =
     tbind (tparse (register_credential_input_valid E) input) (\<lambda>i.
     tbind (buildGatewayCredentialRef E i) (\<lambda>r.
     tbind (commitRecordsWithEvents E [PR_gateway_credential_ref r] (gatewayCredentialRefEvents r) no_options) (\<lambda>_.
     treturn r)))"

section \<open>Resolution evidence\<close>

record resolution_input =
  cei_actionContractId :: "string"
  cei_greenlightId :: "string"
  cei_gateAttemptId :: "string"
  cei_gatewayCredentialRefId :: "string"
  cei_gatewayCredentialRefDigest :: "string"
  cei_requestDigest :: "string"
  cei_resultClass :: "credential_resolution_result_class"
  cei_resultReasonCode :: "string"
  cei_redactionStatus :: "credential_resolution_redaction_status"
  cei_providerRequestRef :: "string option"
  cei_providerOperationRef :: "string option"
  cei_proofGapId :: "string option"
  cei_refusalId :: "string option"
  cei_evidenceRefs :: "string list"
  cei_recordedAt :: "string option"

definition resolution_input_valid :: "'e env_scheme \<Rightarrow> resolution_input \<Rightarrow> bool" where
  "resolution_input_valid E i \<longleftrightarrow>
     1 \<le> length (cei_actionContractId i) \<and>
     1 \<le> length (cei_greenlightId i) \<and>
     1 \<le> length (cei_gateAttemptId i) \<and>
     1 \<le> length (cei_gatewayCredentialRefId i) \<and>
     digest_ok (cei_gatewayCredentialRefDigest i) \<and>
     digest_ok (cei_requestDigest i) \<and>
     2 \<le> length (cei_resultReasonCode i) \<and>
     opt_ok credential_safe_ok (cei_providerRequestRef i) \<and>
     opt_ok credential_safe_ok (cei_providerOperationRef i) \<and>
     opt_ok (\<lambda>x. 1 \<le> length x) (cei_proofGapId i) \<and>
     opt_ok (\<lambda>x. 1 \<le> length x) (cei_refusalId i) \<and>
     list_all credential_safe_ok (cei_evidenceRefs i) \<and>
     opt_ok (iso_ok E) (cei_recordedAt i)"


record resolution_evidence_context =
  cex_input :: resolution_input
  cex_contract :: action_contract
  cex_greenlight :: greenlight
  cex_gateAttempt :: gateway_check_attempt
  cex_credentialRef :: gateway_credential_ref
  cex_now :: string

text \<open>The four records are asked for together; the first one missing, in this order, is the one reported.\<close>

definition loadResolutionEvidenceContext :: "kernel_env \<Rightarrow> resolution_input \<Rightarrow> resolution_evidence_context wtr" where
  "loadResolutionEvidenceContext E i =
     tbind (requiredPayload as_action_contract OT_action_contract (cei_actionContractId i) ''contract_missing'') (\<lambda>c.
     tbind (requiredPayload as_greenlight OT_greenlight (cei_greenlightId i) ''greenlight_missing'') (\<lambda>g.
     tbind (requiredPayload as_gateway_check_attempt OT_gateway_check_attempt (cei_gateAttemptId i)
        ''credential_resolution_before_gateway_check'') (\<lambda>gate.
     tbind (requiredPayload as_gateway_credential_ref OT_gateway_credential_ref (cei_gatewayCredentialRefId i)
        ''gateway_credential_ref_missing'') (\<lambda>ref.
     tbind (nowIso E) (\<lambda>now.
     treturn \<lparr>cex_input = i, cex_contract = c, cex_greenlight = g, cex_gateAttempt = gate, cex_credentialRef = ref,
       cex_now = now\<rparr>)))))"

definition resolution_failure :: "resolution_evidence_context \<Rightarrow> string option" where
  "resolution_failure x =
    (let i = cex_input x; c = cex_contract x; g = cex_greenlight x; gate = cex_gateAttempt x; ref = cex_credentialRef x in
     if gl_actionContractId g \<noteq> ac_actionContractId c \<or> gca_actionContractId gate \<noteq> ac_actionContractId c \<or>
         gca_greenlightId gate \<noteq> gl_greenlightId g
       then Some ''credential_resolution_ref_mismatch''
     else if gca_gateDecision gate \<noteq> GD_passed then Some ''credential_resolution_gate_not_passed''
     else if gcr_gatewayCredentialRefDigest ref \<noteq> cei_gatewayCredentialRefDigest i
       then Some ''gateway_credential_ref_digest_mismatch''
     else (case find (\<lambda>b. gcb_gatewayCredentialRefId b = gcr_gatewayCredentialRefId ref) (ac_gatewayCredentialRefs c) of
         None \<Rightarrow> Some ''credential_resolution_ref_mismatch''
       | Some b \<Rightarrow>
           if gcb_gatewayCredentialRefDigest b \<noteq> gcr_gatewayCredentialRefDigest ref
             then Some ''credential_resolution_ref_mismatch''
           else map_option fst (evaluateGatewayCredentialBinding c (cex_now x) b (Some ref))))"

definition assertResolutionEvidenceContext :: "resolution_evidence_context \<Rightarrow> unit wtr" where
  "assertResolutionEvidenceContext x = (case resolution_failure x of
       Some code \<Rightarrow> tfail (protocol_error code 409) | None \<Rightarrow> treturn ())"

definition resolution_evidence_of ::
  "resolution_evidence_context \<Rightarrow> string \<Rightarrow> string \<Rightarrow> credential_resolution_evidence" where
  "resolution_evidence_of x eid digest =
    (let i = cex_input x; c = cex_contract x; gate = cex_gateAttempt x; ref = cex_credentialRef x; now = cex_now x;
         recorded = ref_or (cei_recordedAt i) now in
     \<lparr>schemaVersion = PROTOCOL_VERSION, tenantId = tenantId c, organizationId = organizationId c,
      createdAt = now, cre_credentialResolutionEvidenceId = eid,
      cre_gatewayCredentialRefId = gcr_gatewayCredentialRefId ref,
      cre_gatewayCredentialRefDigest = gcr_gatewayCredentialRefDigest ref,
      cre_actionContractId = ac_actionContractId c, cre_greenlightId = cei_greenlightId i,
      cre_gateAttemptId = gca_gateAttemptId gate, cre_mutationAttemptId = gca_mutationAttemptId gate,
      cre_gatewayId = ac_gatewayId c, cre_providerClass = gcr_providerClass ref,
      cre_providerRegistryRef = gcr_providerRegistryRef ref,
      cre_providerRegistryDigest = gcr_providerRegistryDigest ref, cre_resolverRef = gcr_resolverRef ref,
      cre_resolverVersion = gcr_resolverVersion ref, cre_requestDigest = cei_requestDigest i,
      cre_resultClass = cei_resultClass i, cre_resultReasonCode = cei_resultReasonCode i,
      cre_redactionStatus = cei_redactionStatus i, cre_providerRequestRef = cei_providerRequestRef i,
      cre_providerOperationRef = cei_providerOperationRef i, cre_proofGapId = cei_proofGapId i,
      cre_refusalId = cei_refusalId i, cre_evidenceRefs = cei_evidenceRefs i,
      cre_redactionProfileRef = ''credential-resolution-evidence:v0.2-redacted'',
      cre_credentialMaterialIncluded = False, cre_recordedAt = recorded, cre_evidenceDigest = digest\<rparr>)"

definition buildCredentialResolutionEvidence ::
  "kernel_env \<Rightarrow> resolution_evidence_context \<Rightarrow> credential_resolution_evidence wtr" where
  "buildCredentialResolutionEvidence E x =
     tbind (createId E ''cre'') (\<lambda>eid.
     tparse (credential_resolution_evidence_valid E) (resolution_evidence_of x eid
       (digestCanonical E (null_field ''evidenceDigest'' (credential_resolution_evidence_json (resolution_evidence_of x eid []))))))"

definition credentialResolutionEvidenceEvent :: "credential_resolution_evidence \<Rightarrow> event_descriptor" where
  "credentialResolutionEvidenceEvent r =
     \<lparr>ed_source = protocol_base.truncate r, ed_eventType = ET_credential_resolution_recorded,
      ed_objectRefs = [cre_credentialResolutionEvidenceId r, cre_gatewayCredentialRefId r, cre_actionContractId r,
        cre_gateAttemptId r],
      ed_payload = [(''gatewayCredentialRefDigest'', JStr (cre_gatewayCredentialRefDigest r)),
      (''resultClass'', JStr (credential_resolution_result_class_str (cre_resultClass r))),
      (''resultReasonCode'', JStr (cre_resultReasonCode r)),
      (''redactionStatus'', JStr (credential_resolution_redaction_status_str (cre_redactionStatus r)))],
      ed_streamRefs = None\<rparr>"

definition recordCredentialResolutionEvidence ::
  "kernel_env \<Rightarrow> resolution_input \<Rightarrow> credential_resolution_evidence wtr" where
  "recordCredentialResolutionEvidence E input =
     tbind (tparse (resolution_input_valid E) input) (\<lambda>i.
     tbind (loadResolutionEvidenceContext E i) (\<lambda>x.
     tbind (assertResolutionEvidenceContext x) (\<lambda>_.
     tbind (buildCredentialResolutionEvidence E x) (\<lambda>r.
     tbind (commitRecordsWithEvents E [PR_credential_resolution_evidence r] [credentialResolutionEvidenceEvent r] no_options) (\<lambda>_.
     treturn r)))))"

section \<open>Custody proof packets\<close>

record custody_packet_input =
  cpi_tenantId :: "string"
  cpi_organizationId :: "string"
  cpi_gatewayCustodyProofPacketId :: "string option"
  cpi_gatewayCredentialRefId :: "string"
  cpi_gatewayCredentialRefDigest :: "string"
  cpi_protectedPathPostureId :: "string"
  cpi_protectedPathPostureDigest :: "string"
  cpi_gatewayInstallEvidenceRefs :: "string list"
  cpi_gatewayInstallEvidenceDigests :: "string list"
  cpi_bypassProbeIds :: "string list"
  cpi_bypassProbeDigests :: "string list"
  cpi_custodyClaimLevel :: "gateway_custody_claim_level"
  cpi_custodyProviderClass :: "string"
  cpi_custodyProviderRegistryRef :: "string"
  cpi_custodyProviderRegistryDigest :: "string option"
  cpi_opaqueKeyHandleRef :: "string"
  cpi_opaqueKeyHandleDigest :: "string"
  cpi_leaseRef :: "string option"
  cpi_leaseVersion :: "string option"
  cpi_leaseIssuedAt :: "string option"
  cpi_leaseExpiresAt :: "string option"
  cpi_attestationRefs :: "string list"
  cpi_attestationDigests :: "string list"
  cpi_redactedAuditRefs :: "string list"
  cpi_redactedAuditDigest :: "string option"
  cpi_custodyDriftStatus :: "gateway_custody_drift_status"
  cpi_resolverDriftStatus :: "gateway_custody_drift_status"
  cpi_redactionStatus :: "credential_resolution_redaction_status"
  cpi_externalVerificationStatus :: "gateway_custody_external_verification_status"
  cpi_recordedAt :: "string option"
  cpi_expiresAt :: "string"

definition custody_packet_input_valid :: "'e env_scheme \<Rightarrow> custody_packet_input \<Rightarrow> bool" where
  "custody_packet_input_valid E i \<longleftrightarrow>
     1 \<le> length (cpi_tenantId i) \<and>
     1 \<le> length (cpi_organizationId i) \<and>
     opt_ok (\<lambda>x. 1 \<le> length x) (cpi_gatewayCustodyProofPacketId i) \<and>
     1 \<le> length (cpi_gatewayCredentialRefId i) \<and>
     digest_ok (cpi_gatewayCredentialRefDigest i) \<and>
     1 \<le> length (cpi_protectedPathPostureId i) \<and>
     digest_ok (cpi_protectedPathPostureDigest i) \<and>
     list_all credential_safe_ok (cpi_gatewayInstallEvidenceRefs i) \<and>
     list_all digest_ok (cpi_gatewayInstallEvidenceDigests i) \<and>
     list_all id_ok (cpi_bypassProbeIds i) \<and>
     list_all digest_ok (cpi_bypassProbeDigests i) \<and>
     credential_safe_ok (cpi_custodyProviderClass i) \<and>
     credential_safe_ok (cpi_custodyProviderRegistryRef i) \<and>
     opt_ok digest_ok (cpi_custodyProviderRegistryDigest i) \<and>
     credential_safe_ok (cpi_opaqueKeyHandleRef i) \<and>
     digest_ok (cpi_opaqueKeyHandleDigest i) \<and>
     opt_ok credential_safe_ok (cpi_leaseRef i) \<and>
     opt_ok (\<lambda>x. 1 \<le> length x) (cpi_leaseVersion i) \<and>
     opt_ok (iso_ok E) (cpi_leaseIssuedAt i) \<and>
     opt_ok (iso_ok E) (cpi_leaseExpiresAt i) \<and>
     list_all credential_safe_ok (cpi_attestationRefs i) \<and>
     list_all digest_ok (cpi_attestationDigests i) \<and>
     list_all credential_safe_ok (cpi_redactedAuditRefs i) \<and>
     opt_ok digest_ok (cpi_redactedAuditDigest i) \<and>
     opt_ok (iso_ok E) (cpi_recordedAt i) \<and>
     iso_ok E (cpi_expiresAt i)"


record custody_packet_context =
  cpx_input :: custody_packet_input
  cpx_credentialRef :: gateway_credential_ref
  cpx_posture :: protected_path_posture
  cpx_now :: string

definition loadCustodyProofPacketContext :: "kernel_env \<Rightarrow> custody_packet_input \<Rightarrow> custody_packet_context wtr" where
  "loadCustodyProofPacketContext E i =
     tbind (requiredPayload as_gateway_credential_ref OT_gateway_credential_ref (cpi_gatewayCredentialRefId i)
        ''gateway_credential_ref_missing'') (\<lambda>ref.
     tbind (requiredPayload as_protected_path_posture OT_protected_path_posture (cpi_protectedPathPostureId i)
        ''protected_path_posture_missing'') (\<lambda>p.
     tbind (nowIso E) (\<lambda>now.
     treturn \<lparr>cpx_input = i, cpx_credentialRef = ref, cpx_posture = p, cpx_now = now\<rparr>)))"

text \<open>Equal length and inclusion: what the code takes for equality of sets.\<close>

definition sameStringSet :: "string list \<Rightarrow> string list \<Rightarrow> bool" where
  "sameStringSet left right \<longleftrightarrow> length left = length right \<and> list_all (\<lambda>x. x \<in> set right) left"

definition custody_packet_failure :: "custody_packet_context \<Rightarrow> string option" where
  "custody_packet_failure x =
    (let i = cpx_input x; ref = cpx_credentialRef x; p = cpx_posture x; local = (cpi_custodyClaimLevel i = GCCL_local_fixture) in
     if tenantId ref \<noteq> cpi_tenantId i \<or> organizationId ref \<noteq> cpi_organizationId i \<or>
         tenantId p \<noteq> cpi_tenantId i \<or> organizationId p \<noteq> cpi_organizationId i
       then Some ''gateway_custody_proof_scope_mismatch''
     else if gcr_gatewayCredentialRefDigest ref \<noteq> cpi_gatewayCredentialRefDigest i
       then Some ''gateway_credential_ref_digest_mismatch''
     else if pp_postureDigest p \<noteq> cpi_protectedPathPostureDigest i then Some ''protected_path_posture_digest_mismatch''
     else if pp_gatewayId p \<noteq> gcr_gatewayId ref \<or> pp_protectedSurfaceKind p \<noteq> gcr_protectedSurfaceKind ref \<or>
         pp_actionClass p \<notin> set (gcr_actionClasses ref) \<or>
         (''*'' \<notin> set (gcr_resourceRefs ref) \<and> pp_resourceRef p \<notin> set (gcr_resourceRefs ref))
       then Some ''gateway_custody_proof_binding_mismatch''
     else if pp_postureState p \<noteq> PPS_gateway_checked then Some ''gateway_custody_proof_posture_not_gateway_checked''
     else if pp_sourceAuthority p \<noteq> PSA_gateway_probe then Some ''gateway_custody_proof_source_authority_weak''
     else if date_le (pp_expiresAt p) (cpx_now x) then Some ''gateway_custody_proof_posture_stale''
     else if \<not> credentialCustodyCanSatisfyGatewayChecked (gcr_custodyStatus ref)
       then Some ''gateway_custody_proof_unsafe_custody''
     else if pp_credentialCustodyStatus p \<noteq> gcr_custodyStatus ref then Some ''gateway_custody_proof_custody_mismatch''
     else if \<not> sameStringSet (cpi_bypassProbeIds i) (pp_bypassProbeIds p) \<or>
         \<not> sameStringSet (cpi_bypassProbeDigests i) (pp_bypassProbeDigests p)
       then Some ''gateway_custody_proof_bypass_probe_mismatch''
     else if \<not> local \<and> cpi_externalVerificationStatus i \<noteq> GCEVS_verified_by_official_source
       then Some ''gateway_custody_proof_external_verification_required''
     else if \<not> local \<and> gcr_custodyStatus ref = CCS_fixture_gateway_held
       then Some ''gateway_custody_proof_fixture_cannot_claim_customer_custody''
     else if \<not> local \<and> (\<not> truthy_ref (cpi_leaseRef i) \<or> \<not> truthy_ref (cpi_leaseVersion i) \<or>
         \<not> truthy_ref (cpi_leaseIssuedAt i) \<or> \<not> truthy_ref (cpi_leaseExpiresAt i) \<or>
         cpi_attestationRefs i = [] \<or> cpi_attestationDigests i = [])
       then Some ''gateway_custody_proof_customer_evidence_missing''
     else if cpi_custodyDriftStatus i \<noteq> GCDS_current \<or> cpi_resolverDriftStatus i \<noteq> GCDS_current
       then Some ''gateway_custody_proof_drifted''
     else if cpi_redactionStatus i = CRRS_redaction_failed then Some ''gateway_custody_proof_redaction_failed''
     else None)"

definition assertCustodyProofPacketContext :: "custody_packet_context \<Rightarrow> unit wtr" where
  "assertCustodyProofPacketContext x = (case custody_packet_failure x of
       Some code \<Rightarrow> tfail (protocol_error code 409) | None \<Rightarrow> treturn ())"

definition custody_packet_of :: "custody_packet_context \<Rightarrow> string \<Rightarrow> string \<Rightarrow> gateway_custody_proof_packet" where
  "custody_packet_of x pid digest =
    (let i = cpx_input x; ref = cpx_credentialRef x; p = cpx_posture x; now = cpx_now x;
         recorded = ref_or (cpi_recordedAt i) now in
     \<lparr>schemaVersion = PROTOCOL_VERSION, tenantId = cpi_tenantId i, organizationId = cpi_organizationId i,
      createdAt = now, gcp_gatewayCustodyProofPacketId = pid, gcp_gatewayCustodyProofPacketDigest = digest,
      gcp_gatewayCredentialRefId = gcr_gatewayCredentialRefId ref,
      gcp_gatewayCredentialRefDigest = gcr_gatewayCredentialRefDigest ref,
      gcp_protectedPathPostureId = pp_protectedPathPostureId p,
      gcp_protectedPathPostureDigest = pp_postureDigest p,
      gcp_gatewayInstallEvidenceRefs = cpi_gatewayInstallEvidenceRefs i,
      gcp_gatewayInstallEvidenceDigests = cpi_gatewayInstallEvidenceDigests i,
      gcp_bypassProbeIds = cpi_bypassProbeIds i, gcp_bypassProbeDigests = cpi_bypassProbeDigests i,
      gcp_gatewayId = gcr_gatewayId ref, gcp_gatewayRegistryEntryId = gcr_gatewayRegistryEntryId ref,
      gcp_protectedSurfaceKind = gcr_protectedSurfaceKind ref, gcp_actionClasses = gcr_actionClasses ref,
      gcp_resourceRefs = gcr_resourceRefs ref, gcp_custodyProviderClass = cpi_custodyProviderClass i,
      gcp_custodyProviderRegistryRef = cpi_custodyProviderRegistryRef i,
      gcp_custodyProviderRegistryDigest = cpi_custodyProviderRegistryDigest i,
      gcp_opaqueKeyHandleRef = cpi_opaqueKeyHandleRef i,
      gcp_opaqueKeyHandleDigest = cpi_opaqueKeyHandleDigest i, gcp_credentialKind = gcr_credentialKind ref,
      gcp_credentialCustodyStatus = gcr_custodyStatus ref, gcp_custodyClaimLevel = cpi_custodyClaimLevel i,
      gcp_resolverRef = gcr_resolverRef ref, gcp_resolverVersion = gcr_resolverVersion ref,
      gcp_leaseRef = cpi_leaseRef i, gcp_leaseVersion = cpi_leaseVersion i,
      gcp_leaseIssuedAt = cpi_leaseIssuedAt i, gcp_leaseExpiresAt = cpi_leaseExpiresAt i,
      gcp_attestationRefs = cpi_attestationRefs i, gcp_attestationDigests = cpi_attestationDigests i,
      gcp_redactedAuditRefs = cpi_redactedAuditRefs i, gcp_redactedAuditDigest = cpi_redactedAuditDigest i,
      gcp_custodyDriftStatus = cpi_custodyDriftStatus i, gcp_resolverDriftStatus = cpi_resolverDriftStatus i,
      gcp_redactionStatus = cpi_redactionStatus i,
      gcp_externalVerificationStatus = cpi_externalVerificationStatus i,
      gcp_redactionProfileRef = ''gateway-custody-proof-packet:v0.2-redacted'',
      gcp_secretMaterialIncluded = False, gcp_authorityCreated = False, gcp_recordedAt = recorded,
      gcp_expiresAt = cpi_expiresAt i\<rparr>)"

definition buildGatewayCustodyProofPacket :: "kernel_env \<Rightarrow> custody_packet_context \<Rightarrow> gateway_custody_proof_packet wtr" where
  "buildGatewayCustodyProofPacket E x =
     tbind (given_or_new E (cpi_gatewayCustodyProofPacketId (cpx_input x)) ''gcpp'') (\<lambda>pid.
     tparse (gateway_custody_proof_packet_valid E) (custody_packet_of x pid
       (digestCanonical E (null_field ''gatewayCustodyProofPacketDigest''
         (gateway_custody_proof_packet_json (custody_packet_of x pid []))))))"

definition gatewayCustodyProofPacketEvent :: "gateway_custody_proof_packet \<Rightarrow> event_descriptor" where
  "gatewayCustodyProofPacketEvent r =
     \<lparr>ed_source = protocol_base.truncate r, ed_eventType = ET_gateway_custody_proof_packet_recorded,
      ed_objectRefs = [gcp_gatewayCustodyProofPacketId r, gcp_gatewayCredentialRefId r, gcp_protectedPathPostureId r,
        gcp_gatewayCustodyProofPacketDigest r],
      ed_payload = [(''gatewayId'', JStr (gcp_gatewayId r)),
      (''custodyClaimLevel'', JStr (gateway_custody_claim_level_str (gcp_custodyClaimLevel r))),
      (''custodyDriftStatus'', JStr (gateway_custody_drift_status_str (gcp_custodyDriftStatus r))),
      (''redactionStatus'', JStr (credential_resolution_redaction_status_str (gcp_redactionStatus r))),
      (''authorityCreated'', JBool (gcp_authorityCreated r))],
      ed_streamRefs = None\<rparr>"

definition recordGatewayCustodyProofPacket ::
  "kernel_env \<Rightarrow> custody_packet_input \<Rightarrow> gateway_custody_proof_packet wtr" where
  "recordGatewayCustodyProofPacket E input =
     tbind (tparse (custody_packet_input_valid E) input) (\<lambda>i.
     tbind (loadCustodyProofPacketContext E i) (\<lambda>x.
     tbind (assertCustodyProofPacketContext x) (\<lambda>_.
     tbind (buildGatewayCustodyProofPacket E x) (\<lambda>r.
     tbind (commitRecordsWithEvents E [PR_gateway_custody_proof_packet r] [gatewayCustodyProofPacketEvent r] no_options) (\<lambda>_.
     treturn r)))))"

section \<open>What the records of custody rest on\<close>

text \<open>The comparison of probes is inclusion; it is equality when the left list has no repetition.\<close>

lemma sameStringSet_distinct:
  assumes "distinct left"
  shows "sameStringSet left right \<longleftrightarrow> length left = length right \<and> set left = set right"
proof
  assume same: "sameStringSet left right"
  then have "set left \<subseteq> set right" "length left = length right" by (auto simp: sameStringSet_def list_all_iff)
  moreover have "card (set right) \<le> card (set left)"
    using calculation(2) card_length[of right] distinct_card[OF assms] by simp
  ultimately show "length left = length right \<and> set left = set right"
    by (metis card_seteq finite_set)
qed (auto simp: sameStringSet_def list_all_iff)

lemma sameStringSet_repeated: "sameStringSet [''a'', ''a''] [''a'', ''b'']"
  by (simp add: sameStringSet_def)

end
