(* ===== verification/Compilation.thy ===== *)
theory Compilation
  imports Schemas_Safe Payloads Ledger
begin

text \<open>
  Intent compilation (\<open>intent-compilation/transitions.ts\<close>, \<open>candidate-decision.ts\<close>):
  a candidate action is checked against the catalog, the envelope and the evidence of
  the run that proposes it, and is recorded as contractable or as rejected with a
  refusal. Nothing here creates authority.
\<close>

section \<open>The input\<close>

record compile_candidate =
  cci_toolCapabilityId :: "string"
  cci_actionTypeId :: "string"
  cci_gatewayRegistryEntryId :: "string"
  cci_actionClass :: "string"
  cci_gatewayId :: "string"
  cci_resourceRef :: "string"
  cci_sequenceNumber :: "int"
  cci_requiredPriorActionContractIds :: "string list"
  cci_recoveryRecommendationId :: "string option"
  cci_parameters :: "(string \<times> jval) list"
  cci_nonSecretParamsSummary :: "(string \<times> jval) list"
  cci_secretRefs :: "(string \<times> string) list"
  cci_gatewayCredentialRefs :: "gateway_credential_binding list"
  cci_delegatedAuthorityRefs :: "delegated_authority_binding list"
  cci_purposeCode :: "string"
  cci_expectedSideEffectCodes :: "string list"
  cci_evidenceRefs :: "string list"
  cci_clearingEvidenceRefs :: "clearing_evidence_refs"
  cci_bounds :: "(string \<times> jval) list"
  cci_idempotencyKey :: "string"
  cci_rollbackHint :: "string option"
  cci_expiresAt :: "string"

definition compile_candidate_valid :: "'e env_scheme \<Rightarrow> compile_candidate \<Rightarrow> bool" where
  "compile_candidate_valid E i \<longleftrightarrow>
     1 \<le> length (cci_toolCapabilityId i) \<and>
     1 \<le> length (cci_actionTypeId i) \<and>
     1 \<le> length (cci_gatewayRegistryEntryId i) \<and>
     1 \<le> length (cci_actionClass i) \<and>
     1 \<le> length (cci_gatewayId i) \<and>
     1 \<le> length (cci_resourceRef i) \<and>
     0 \<le> (cci_sequenceNumber i) \<and>
     list_all (\<lambda>x. 1 \<le> length x) (cci_requiredPriorActionContractIds i) \<and>
     opt_ok (\<lambda>x. 1 \<le> length x) (cci_recoveryRecommendationId i) \<and>
     list_all (\<lambda>f. 1 \<le> length (snd f)) (cci_secretRefs i) \<and>
     list_all (gateway_credential_binding_valid E) (cci_gatewayCredentialRefs i) \<and>
     list_all (delegated_authority_binding_valid E) (cci_delegatedAuthorityRefs i) \<and>
     1 \<le> length (cci_purposeCode i) \<and>
     list_all (\<lambda>x. 1 \<le> length x) (cci_expectedSideEffectCodes i) \<and>
     clearing_evidence_refs_valid E (cci_clearingEvidenceRefs i) \<and>
     1 \<le> length (cci_idempotencyKey i) \<and>
     opt_ok (\<lambda>x. length x \<le> 500) (cci_rollbackHint i) \<and>
     iso_ok E (cci_expiresAt i)"

record compile_input =
  cii_tenantId :: "string"
  cii_organizationId :: "string"
  cii_principalIntentRef :: "string"
  cii_principalId :: "string"
  cii_agentId :: "string"
  cii_runId :: "string"
  cii_runtimeAdapterId :: "string"
  cii_operatingEnvelopeId :: "string"
  cii_toolCatalogRef :: "string"
  cii_actionCatalogRef :: "string"
  cii_gatewayRegistryRef :: "string"
  cii_runtimeExecutionId :: "string option"
  cii_generatedExecutionGraphId :: "string option"
  cii_generatedExecutionNodeId :: "string option"
  cii_toolCallDraftId :: "string option"
  cii_generatedCodeOrSpecRefs :: "string list"
  cii_declaredAssumptions :: "string list"
  cii_requiredEvidenceRefs :: "string list"
  cii_candidate :: "compile_candidate"
  cii_compilerVersion :: "string"

definition compile_input_valid :: "'e env_scheme \<Rightarrow> compile_input \<Rightarrow> bool" where
  "compile_input_valid E i \<longleftrightarrow>
     1 \<le> length (cii_tenantId i) \<and>
     1 \<le> length (cii_organizationId i) \<and>
     1 \<le> length (cii_principalIntentRef i) \<and>
     1 \<le> length (cii_principalId i) \<and>
     1 \<le> length (cii_agentId i) \<and>
     1 \<le> length (cii_runId i) \<and>
     1 \<le> length (cii_runtimeAdapterId i) \<and>
     1 \<le> length (cii_operatingEnvelopeId i) \<and>
     1 \<le> length (cii_toolCatalogRef i) \<and>
     1 \<le> length (cii_actionCatalogRef i) \<and>
     1 \<le> length (cii_gatewayRegistryRef i) \<and>
     opt_ok (\<lambda>x. 1 \<le> length x) (cii_runtimeExecutionId i) \<and>
     opt_ok (\<lambda>x. 1 \<le> length x) (cii_generatedExecutionGraphId i) \<and>
     opt_ok (\<lambda>x. 1 \<le> length x) (cii_generatedExecutionNodeId i) \<and>
     opt_ok (\<lambda>x. 1 \<le> length x) (cii_toolCallDraftId i) \<and>
     compile_candidate_valid E (cii_candidate i) \<and>
     1 \<le> length (cii_compilerVersion i)"


section \<open>What is read\<close>

definition optionalRecord :: "protocol_object_type \<Rightarrow> string option \<Rightarrow> stored_record option wtr" where
  "optionalRecord t oid = (case oid of None \<Rightarrow> treturn None | Some a \<Rightarrow> store_get (getRecord t a))"

record compilation_context =
  icx_input :: compile_input
  icx_createdAt :: string
  icx_paramsDigest :: string
  icx_toolRecord :: "stored_record option"
  icx_actionTypeRecord :: "stored_record option"
  icx_gatewayRecord :: "stored_record option"
  icx_envelopeRecord :: "stored_record option"
  icx_tool :: "tool_capability option"
  icx_actionType :: "action_type option"
  icx_gateway :: "gateway_registry_entry option"
  icx_envelope :: "operating_envelope option"
  icx_runtimeExecution :: "runtime_execution option"
  icx_generatedExecutionGraph :: "generated_execution_graph option"
  icx_toolCallDraft :: "tool_call_draft option"

definition candidate_params_digest :: "'e env_scheme \<Rightarrow> compile_candidate \<Rightarrow> string" where
  "candidate_params_digest E a = protectedActionParamsDigest E (cci_parameters a) (cci_secretRefs a)
     (map gateway_credential_binding_json (cci_gatewayCredentialRefs a))
     (map delegated_authority_binding_json (cci_delegatedAuthorityRefs a))"

definition getIntentCompilationContext :: "kernel_env \<Rightarrow> compile_input \<Rightarrow> compilation_context wtr" where
  "getIntentCompilationContext E i =
    (let a = cii_candidate i in
     tbind (nowIso E) (\<lambda>now.
     tbind (store_get (getRecord OT_tool_capability (cci_toolCapabilityId a))) (\<lambda>tool.
     tbind (store_get (getRecord OT_action_type (cci_actionTypeId a))) (\<lambda>type.
     tbind (store_get (getRecord OT_gateway_registry_entry (cci_gatewayRegistryEntryId a))) (\<lambda>gateway.
     tbind (store_get (getRecord OT_operating_envelope (cii_operatingEnvelopeId i))) (\<lambda>envelope.
     tbind (optionalRecord OT_runtime_execution (cii_runtimeExecutionId i)) (\<lambda>run.
     tbind (optionalRecord OT_generated_execution_graph (cii_generatedExecutionGraphId i)) (\<lambda>graph.
     tbind (optionalRecord OT_tool_call_draft (cii_toolCallDraftId i)) (\<lambda>draft.
     treturn \<lparr>icx_input = i, icx_createdAt = now, icx_paramsDigest = candidate_params_digest E a,
       icx_toolRecord = tool, icx_actionTypeRecord = type, icx_gatewayRecord = gateway, icx_envelopeRecord = envelope,
       icx_tool = payload_of as_tool_capability tool, icx_actionType = payload_of as_action_type type,
       icx_gateway = payload_of as_gateway_registry_entry gateway,
       icx_envelope = payload_of as_operating_envelope envelope,
       icx_runtimeExecution = payload_of as_runtime_execution run,
       icx_generatedExecutionGraph = payload_of as_generated_execution_graph graph,
       icx_toolCallDraft = payload_of as_tool_call_draft draft\<rparr>)))))))))"

section \<open>The decision\<close>

record candidate_decision =
  cad_uncertaintyMarkers :: "string list"
  cad_overreachReasonCodes :: "string list"
  cad_refusalReasonCodes :: "string list"
  cad_candidateStatus :: candidate_action_status
  cad_generatedExecutionNode :: "generated_execution_node option"

text \<open>The reason codes whose condition holds, in the order of the checks.\<close>

definition deriveUncertaintyMarkers :: "compilation_context \<Rightarrow> string list" where
  "deriveUncertaintyMarkers x = (let i = icx_input x in coded
     [(icx_tool x = None, ''unknown_tool_capability''),
      (icx_actionType x = None, ''unknown_action_type''),
      (icx_gateway x = None, ''unknown_gateway_registry_entry''),
      (icx_envelope x = None, ''unknown_operating_envelope''),
      (truthy_ref (cii_runtimeExecutionId i) \<and> icx_runtimeExecution x = None, ''unknown_runtime_execution''),
      (truthy_ref (cii_generatedExecutionGraphId i) \<and> icx_generatedExecutionGraph x = None,
         ''unknown_generated_execution_graph''),
      (truthy_ref (cii_toolCallDraftId i) \<and> icx_toolCallDraft x = None, ''unknown_tool_call_draft'')])"

definition deriveRuntimeExecutionReasonCodes :: "compilation_context \<Rightarrow> string list" where
  "deriveRuntimeExecutionReasonCodes x = (let i = icx_input x in case icx_runtimeExecution x of
       None \<Rightarrow> []
     | Some r \<Rightarrow> coded
        [(tenantId r \<noteq> cii_tenantId i \<or> organizationId r \<noteq> cii_organizationId i \<or>
            rx_principalIntentRef r \<noteq> cii_principalIntentRef i \<or> rx_principalId r \<noteq> cii_principalId i \<or>
            rx_agentId r \<noteq> cii_agentId i \<or> rx_runId r \<noteq> cii_runId i \<or>
            rx_runtimeAdapterId r \<noteq> cii_runtimeAdapterId i, ''runtime_execution_scope_mismatch''),
         (rx_dynamicToolConstructionDetected r, ''runtime_dynamic_tool_construction_detected''),
         (rx_unobservedRegionRefs r \<noteq> [], ''runtime_unobserved_regions_present'')]
        @ map (\<lambda>code. ''runtime_'' @ code) (rx_refusalReasonCodes r))"

definition deriveToolCallDraftReasonCodes :: "compilation_context \<Rightarrow> string list" where
  "deriveToolCallDraftReasonCodes x = (let i = icx_input x; a = cii_candidate i in
     coded [((truthy_ref (cii_generatedExecutionGraphId i) \<or> truthy_ref (cii_generatedExecutionNodeId i)) \<and>
        \<not> truthy_ref (cii_toolCallDraftId i), ''tool_call_draft_missing'')] @
     (case icx_toolCallDraft x of
       None \<Rightarrow> []
     | Some d \<Rightarrow> coded
        [(td_draftState d \<noteq> TCDS_finalized, ''tool_call_draft_not_finalized''),
         (date_le (td_expiresAt d) (icx_createdAt x), ''tool_call_draft_stale''),
         (tenantId d \<noteq> cii_tenantId i \<or> organizationId d \<noteq> cii_organizationId i \<or>
            td_runtimeExecutionId d \<noteq> cii_runtimeExecutionId i \<or>
            td_generatedExecutionGraphId d \<noteq> cii_generatedExecutionGraphId i \<or>
            td_generatedExecutionNodeId d \<noteq> cii_generatedExecutionNodeId i \<or>
            td_toolCapabilityId d \<noteq> cci_toolCapabilityId a \<or> td_actionTypeId d \<noteq> cci_actionTypeId a \<or>
            td_gatewayRegistryEntryId d \<noteq> cci_gatewayRegistryEntryId a \<or> td_actionClass d \<noteq> cci_actionClass a \<or>
            td_gatewayId d \<noteq> cci_gatewayId a \<or> td_resourceRef d \<noteq> cci_resourceRef a,
            ''tool_call_draft_binding_mismatch''),
         (td_paramsDigest d \<noteq> icx_paramsDigest x, ''tool_call_draft_params_digest_mismatch'')]))"

definition deriveEnvelopeReasonCodes :: "compile_input \<Rightarrow> operating_envelope \<Rightarrow> string \<Rightarrow> string list" where
  "deriveEnvelopeReasonCodes i v now = (let a = cii_candidate i in coded
     [(oe_principalId v \<noteq> cii_principalId i \<or> oe_agentId v \<noteq> cii_agentId i, ''envelope_actor_mismatch''),
      (cci_actionClass a \<notin> set (oe_allowedActionClasses v), ''envelope_action_class_not_allowed''),
      (cci_gatewayId a \<notin> set (oe_allowedGateways v), ''envelope_gateway_not_allowed''),
      (cci_resourceRef a \<notin> set (oe_allowedResources v), ''envelope_resource_not_allowed''),
      (oe_revokedAt v \<noteq> None, ''envelope_revoked''),
      (date_le (oe_expiresAt v) now, ''envelope_expired'')])"

definition foreign_to :: "compile_input \<Rightarrow> 'a protocol_base_scheme option \<Rightarrow> bool" where
  "foreign_to i r = (case r of None \<Rightarrow> False
     | Some x \<Rightarrow> tenantId x \<noteq> cii_tenantId i \<or> organizationId x \<noteq> cii_organizationId i)"

definition durableRecordScopeMismatch :: "compilation_context \<Rightarrow> bool" where
  "durableRecordScopeMismatch x = (let i = icx_input x in
     foreign_to i (icx_tool x) \<or> foreign_to i (icx_actionType x) \<or> foreign_to i (icx_gateway x) \<or> foreign_to i (icx_envelope x))"

definition secret_input_failure ::
  "tool_capability \<Rightarrow> (string \<times> jval) list \<Rightarrow> (string \<times> jval) list \<Rightarrow> (string \<times> string) list \<Rightarrow> string option" where
  "secret_input_failure tool parameters summary secretRefs =
     (if \<exists>f \<in> set (tc_secretBearingFields tool). f \<in> fst ` set parameters \<or> f \<in> fst ` set summary
        then Some ''secret_bearing_param_in_non_secret_params''
      else if \<exists>f \<in> set (map fst secretRefs). f \<notin> set (tc_secretBearingFields tool)
        then Some ''undeclared_secret_ref''
      else None)"

definition assertSecretSafeCandidateInput ::
  "tool_capability \<Rightarrow> (string \<times> jval) list \<Rightarrow> (string \<times> jval) list \<Rightarrow> (string \<times> string) list \<Rightarrow> unit wtr" where
  "assertSecretSafeCandidateInput tool parameters summary secretRefs =
     (case secret_input_failure tool parameters summary secretRefs of
        Some code \<Rightarrow> tfail (protocol_error code 422) | None \<Rightarrow> treturn ())"

text \<open>The codes of this group, without the check of secrets that runs between the first two of them.\<close>

definition catalog_codes :: "compilation_context \<Rightarrow> string list" where
  "catalog_codes x = (let i = icx_input x; a = cii_candidate i in
     (case icx_tool x of None \<Rightarrow> [] | Some t \<Rightarrow> coded
        [(tc_readWriteClassification t = RWC_consequential \<and> tc_wrapperStatus t \<noteq> WS_wrapped,
            ''unwrapped_consequential_tool''),
         (tc_runtimeAdapterId t \<noteq> cii_runtimeAdapterId i, ''tool_runtime_adapter_mismatch'')]) @
     (case icx_actionType x of None \<Rightarrow> [] | Some y \<Rightarrow> coded
        [(at_actionClass y \<noteq> cci_actionClass a, ''action_class_mismatch'')]) @
     (case icx_gateway x of None \<Rightarrow> [] | Some g \<Rightarrow> coded
        [(gr_gatewayId g \<noteq> cci_gatewayId a, ''gateway_mismatch'')]) @
     (case (icx_gateway x, icx_actionType x) of (Some g, Some y) \<Rightarrow> coded
        [(gr_protectedSurfaceKind g \<noteq> at_protectedSurfaceKind y, ''protected_surface_kind_mismatch''),
         (at_actionCatalogVersion y \<notin> set (gr_acceptedActionCatalogVersions g), ''action_catalog_version_not_accepted'')]
       | _ \<Rightarrow> []) @
     (case icx_envelope x of None \<Rightarrow> [] | Some v \<Rightarrow> deriveEnvelopeReasonCodes i v (icx_createdAt x)) @
     coded [(durableRecordScopeMismatch x, ''durable_record_scope_mismatch'')])"

definition deriveCatalogAndEnvelopeReasonCodes :: "compilation_context \<Rightarrow> string list wtr" where
  "deriveCatalogAndEnvelopeReasonCodes x = (let a = cii_candidate (icx_input x) in
     tbind (case icx_tool x of None \<Rightarrow> treturn ()
       | Some t \<Rightarrow> assertSecretSafeCandidateInput t (cci_parameters a) (cci_nonSecretParamsSummary a) (cci_secretRefs a)) (\<lambda>_.
     treturn (catalog_codes x)))"

definition requiresGeneratedExecutionGraph :: "runtime_execution_shape \<Rightarrow> bool" where
  "requiresGeneratedExecutionGraph s \<longleftrightarrow>
     s \<in> {RES_shell_exec_block, RES_codemode_block, RES_tool_dispatch_chain, RES_generated_mcp_tool_chain}"

definition isAgentOriginCompilation :: "compilation_context \<Rightarrow> bool" where
  "isAgentOriginCompilation x \<longleftrightarrow> icx_runtimeExecution x = None \<and>
     (cii_generatedExecutionGraphId (icx_input x) \<noteq> None \<or> cii_generatedExecutionNodeId (icx_input x) \<noteq> None)"

definition requiresMissingGeneratedExecutionGraphRefusal :: "compilation_context \<Rightarrow> bool" where
  "requiresMissingGeneratedExecutionGraphRefusal x =
     (if icx_generatedExecutionGraph x \<noteq> None then False
      else case icx_runtimeExecution x of
          Some r \<Rightarrow> requiresGeneratedExecutionGraph (rx_executionShape r) \<or> isAgentOriginCompilation x
        | None \<Rightarrow> isAgentOriginCompilation x)"

definition node_codes :: "compile_candidate \<Rightarrow> string \<Rightarrow> generated_execution_node \<Rightarrow> string list" where
  "node_codes a digest n = coded
     [(gxn_classification n \<noteq> GENC_candidate_action_eligible, ''generated_execution_node_not_contractable''),
      (\<not> truthy_ref (gxn_nodeGatewayBindingDigest n), ''generated_execution_node_gateway_binding_missing''),
      (gxn_actionClass n \<noteq> Some (cci_actionClass a) \<or> gxn_toolCapabilityId n \<noteq> Some (cci_toolCapabilityId a) \<or>
         gxn_actionTypeId n \<noteq> Some (cci_actionTypeId a) \<or>
         gxn_gatewayRegistryEntryId n \<noteq> Some (cci_gatewayRegistryEntryId a) \<or>
         gxn_resourceRef n \<noteq> Some (cci_resourceRef a) \<or> gxn_paramsDigest n \<noteq> Some digest,
         ''generated_execution_node_binding_mismatch'')]"

definition deriveGeneratedExecutionCoverage ::
  "compile_input \<Rightarrow> runtime_execution option \<Rightarrow> generated_execution_graph \<Rightarrow> string \<Rightarrow>
   generated_execution_node option \<times> string list" where
  "deriveGeneratedExecutionCoverage i run graph digest = (case run of
       None \<Rightarrow> (None, [''generated_execution_graph_without_runtime_execution''])
     | Some r \<Rightarrow>
        (let codes = coded
          [(tenantId graph \<noteq> cii_tenantId i \<or> organizationId graph \<noteq> cii_organizationId i,
              ''generated_execution_graph_scope_mismatch''),
           (gx_runtimeExecutionId graph \<noteq> rx_runtimeExecutionId r \<or>
              gx_runtimeExecutionDigest graph \<noteq> rx_runtimeExecutionDigest r \<or>
              gx_executionBlockDigest graph \<noteq> rx_executionBlockDigest r, ''generated_execution_graph_runtime_mismatch''),
           (gx_coverageStatus graph \<noteq> GECS_fully_covered_no_unsupported_nodes, ''generated_execution_graph_not_contractable'')]
         in case cii_generatedExecutionNodeId i of
              None \<Rightarrow> (None, codes @ [''generated_execution_node_missing''])
            | Some nid \<Rightarrow> (case find (\<lambda>n. gxn_nodeId n = nid) (gx_nodes graph) of
                None \<Rightarrow> (None, codes @ [''generated_execution_node_missing''])
              | Some n \<Rightarrow> (Some n, codes @ node_codes (cii_candidate i) digest n))))"

definition candidate_coverage :: "compilation_context \<Rightarrow> generated_execution_node option \<times> string list" where
  "candidate_coverage x = (case icx_generatedExecutionGraph x of
       None \<Rightarrow> (None, [])
     | Some graph \<Rightarrow> deriveGeneratedExecutionCoverage (icx_input x) (icx_runtimeExecution x) graph (icx_paramsDigest x))"

definition overreach_codes :: "compilation_context \<Rightarrow> string list \<Rightarrow> string list" where
  "overreach_codes x catalog =
     deriveRuntimeExecutionReasonCodes x @ deriveToolCallDraftReasonCodes x @ catalog @
     coded [(requiresMissingGeneratedExecutionGraphRefusal x, ''generated_execution_graph_missing'')] @
     snd (candidate_coverage x)"

definition deriveCandidateDecision :: "compilation_context \<Rightarrow> candidate_decision wtr" where
  "deriveCandidateDecision x =
     tbind (deriveCatalogAndEnvelopeReasonCodes x) (\<lambda>catalog.
    (let markers = deriveUncertaintyMarkers x; over = overreach_codes x catalog; codes = markers @ over in
     treturn \<lparr>cad_uncertaintyMarkers = markers, cad_overreachReasonCodes = over, cad_refusalReasonCodes = codes,
       cad_candidateStatus = (if codes = [] then CAS_contractable else CAS_rejected),
       cad_generatedExecutionNode = fst (candidate_coverage x)\<rparr>))"

section \<open>The record\<close>

definition candidate_action_of :: "compilation_context \<Rightarrow> candidate_decision \<Rightarrow> string \<Rightarrow> candidate_action" where
  "candidate_action_of x k cid = (let i = icx_input x; a = cii_candidate i in
     \<lparr>ca_candidateActionId = cid, ca_candidateStatus = cad_candidateStatus k, ca_candidateDigest = None,
      ca_refusalReasonCodes = cad_refusalReasonCodes k, ca_toolCapabilityId = cci_toolCapabilityId a,
      ca_toolCapabilityDigest = map_option st_canonicalDigest (icx_toolRecord x),
      ca_toolCatalogVersion = map_option tc_toolCatalogVersion (icx_tool x),
      ca_actionTypeId = cci_actionTypeId a,
      ca_actionTypeDigest = map_option st_canonicalDigest (icx_actionTypeRecord x),
      ca_actionCatalogVersion = map_option at_actionCatalogVersion (icx_actionType x),
      ca_gatewayRegistryEntryId = cci_gatewayRegistryEntryId a,
      ca_gatewayRegistryDigest = map_option st_canonicalDigest (icx_gatewayRecord x),
      ca_gatewayRegistryVersion = map_option gr_gatewayRegistryVersion (icx_gateway x),
      ca_operatingEnvelopeId = cii_operatingEnvelopeId i,
      ca_operatingEnvelopeDigest = map_option st_canonicalDigest (icx_envelopeRecord x),
      ca_actionClass = cci_actionClass a, ca_gatewayId = cci_gatewayId a, ca_resourceRef = cci_resourceRef a,
      ca_sequenceNumber = cci_sequenceNumber a,
      ca_requiredPriorActionContractIds = cci_requiredPriorActionContractIds a,
      ca_recoveryRecommendationId = cci_recoveryRecommendationId a, ca_parameters = cci_parameters a,
      ca_paramsDigest = icx_paramsDigest x, ca_nonSecretParamsSummary = cci_nonSecretParamsSummary a,
      ca_secretRefs = cci_secretRefs a, ca_gatewayCredentialRefs = cci_gatewayCredentialRefs a,
      ca_delegatedAuthorityRefs = cci_delegatedAuthorityRefs a, ca_purposeCode = cci_purposeCode a,
      ca_expectedSideEffectCodes = cci_expectedSideEffectCodes a, ca_evidenceRefs = cci_evidenceRefs a,
      ca_clearingEvidenceRefs = cci_clearingEvidenceRefs a, ca_bounds = cci_bounds a,
      ca_idempotencyKey = cci_idempotencyKey a, ca_rollbackHint = cci_rollbackHint a,
      ca_expiresAt = cci_expiresAt a, ca_generatedCodeOrSpecRefs = cii_generatedCodeOrSpecRefs i,
      ca_runtimeExecutionId = map_option rx_runtimeExecutionId (icx_runtimeExecution x),
      ca_runtimeExecutionDigest = map_option rx_runtimeExecutionDigest (icx_runtimeExecution x),
      ca_generatedExecutionGraphId = map_option gx_generatedExecutionGraphId (icx_generatedExecutionGraph x),
      ca_generatedExecutionGraphDigest = map_option gx_graphDigest (icx_generatedExecutionGraph x),
      ca_generatedExecutionCoverageStatus = map_option gx_coverageStatus (icx_generatedExecutionGraph x),
      ca_generatedExecutionNodeId = map_option gxn_nodeId (cad_generatedExecutionNode k),
      ca_generatedExecutionNodeDigest = map_option gxn_nodeDigest (cad_generatedExecutionNode k),
      ca_generatedExecutionCatalogSnapshotDigest = map_option gx_catalogSnapshotDigest (icx_generatedExecutionGraph x),
      ca_generatedExecutionGatewayRegistrySnapshotDigest = map_option gx_gatewayRegistrySnapshotDigest (icx_generatedExecutionGraph x),
      ca_generatedExecutionRegistryBindingSetDigest = map_option gx_registryBindingSetDigest (icx_generatedExecutionGraph x),
      ca_generatedExecutionNodeGatewayBindingDigest = Option.bind (cad_generatedExecutionNode k) gxn_nodeGatewayBindingDigest,
      ca_toolCallDraftId = map_option td_toolCallDraftId (icx_toolCallDraft x),
      ca_toolCallDraftDigest = map_option td_draftDigest (icx_toolCallDraft x),
      ca_toolCallDraftState = map_option td_draftState (icx_toolCallDraft x)\<rparr>)"

definition candidateDigestMaterial :: "compile_input \<Rightarrow> candidate_action \<Rightarrow> jval" where
  "candidateDigestMaterial i c = JObj
     [(''tenantId'', JStr (cii_tenantId i)), (''organizationId'', JStr (cii_organizationId i)),
      (''principalIntentRef'', JStr (cii_principalIntentRef i)), (''principalId'', JStr (cii_principalId i)),
      (''agentId'', JStr (cii_agentId i)), (''runId'', JStr (cii_runId i)),
      (''runtimeAdapterId'', JStr (cii_runtimeAdapterId i)), (''compilerVersion'', JStr (cii_compilerVersion i)),
      (''runtimeExecutionId'', j_opt JStr (cii_runtimeExecutionId i)),
      (''runtimeExecutionDigest'', j_opt JStr (ca_runtimeExecutionDigest c)),
      (''toolCallDraftId'', j_opt JStr (cii_toolCallDraftId i)),
      (''toolCallDraftDigest'', j_opt JStr (ca_toolCallDraftDigest c)),
      (''candidateAction'', candidate_action_json (c\<lparr>ca_candidateDigest := None\<rparr>))]"

definition buildCandidateAction ::
  "kernel_env \<Rightarrow> compilation_context \<Rightarrow> candidate_decision \<Rightarrow> candidate_action wtr" where
  "buildCandidateAction E x k =
     tbind (createId E ''cand'') (\<lambda>cid.
    (let c = candidate_action_of x k cid in
     tparse (candidate_action_valid E) (c\<lparr>ca_candidateDigest :=
       (if cad_candidateStatus k = CAS_contractable
        then Some (digestCanonical E (candidateDigestMaterial (icx_input x) c)) else None)\<rparr>)))"

definition compilation_of ::
  "compilation_context \<Rightarrow> candidate_decision \<Rightarrow> candidate_action \<Rightarrow> string \<Rightarrow> intent_compilation" where
  "compilation_of x k c iid = (let i = icx_input x in
     \<lparr>schemaVersion = PROTOCOL_VERSION, tenantId = cii_tenantId i, organizationId = cii_organizationId i,
      createdAt = icx_createdAt x, ic_intentCompilationId = iid,
      ic_principalIntentRef = cii_principalIntentRef i, ic_principalId = cii_principalId i,
      ic_agentId = cii_agentId i, ic_runId = cii_runId i, ic_runtimeAdapterId = cii_runtimeAdapterId i,
      ic_operatingEnvelopeId = cii_operatingEnvelopeId i, ic_toolCatalogRef = cii_toolCatalogRef i,
      ic_actionCatalogRef = cii_actionCatalogRef i, ic_gatewayRegistryRef = cii_gatewayRegistryRef i,
      ic_runtimeExecutionId = map_option rx_runtimeExecutionId (icx_runtimeExecution x),
      ic_runtimeExecutionDigest = map_option rx_runtimeExecutionDigest (icx_runtimeExecution x),
      ic_generatedCodeOrSpecRefs = cii_generatedCodeOrSpecRefs i,
      ic_declaredAssumptions = cii_declaredAssumptions i, ic_uncertaintyMarkers = cad_uncertaintyMarkers k,
      ic_candidateAction = c, ic_candidateActionContractRefs = [],
      ic_rejectedCandidateRefs = (if cad_candidateStatus k = CAS_rejected then [ca_candidateActionId c] else []),
      ic_overreachReasonCodes = cad_overreachReasonCodes k,
      ic_requiredEvidenceRefs = cii_requiredEvidenceRefs i, ic_compilerVersion = cii_compilerVersion i\<rparr>)"

definition buildIntentCompilationRecord ::
  "kernel_env \<Rightarrow> compilation_context \<Rightarrow> candidate_decision \<Rightarrow> candidate_action \<Rightarrow> intent_compilation wtr" where
  "buildIntentCompilationRecord E x k c =
     tbind (createId E ''icr'') (\<lambda>iid. tparse (intent_compilation_valid E) (compilation_of x k c iid))"

definition compilation_refusal_draft :: "intent_compilation \<Rightarrow> refusal" where
  "compilation_refusal_draft r =
    (let codes = ca_refusalReasonCodes (ic_candidateAction r);
         ref = protocolObjectRef ''intent_compilation'' (ic_intentCompilationId r) in
     \<lparr>schemaVersion = PROTOCOL_VERSION, tenantId = tenantId r, organizationId = organizationId r,
      createdAt = createdAt r, rf_refusalId = [], rf_phase = RFP_compilation,
      rf_actionContractId = None, rf_policyDecisionId = None, rf_greenlightId = None, rf_gateAttemptId = None,
      rf_refusedObjectRef = Some ref,
      rf_reasonCode = (case codes of [] \<Rightarrow> ''unwrapped_consequential_tool'' | code # _ \<Rightarrow> code),
      rf_reason = ''Intent compilation refused to produce an action contract for this candidate action.'',
      rf_mutationAttempted = False, rf_authorityCreated = False,
      rf_evidenceRefs = ref # codes @ ic_requiredEvidenceRefs r,
      rf_refusedAt = createdAt r\<rparr>)"

definition compiled_event :: "compilation_context \<Rightarrow> intent_compilation \<Rightarrow> event_descriptor" where
  "compiled_event x r =
     \<lparr>ed_source = protocol_base.truncate r, ed_eventType = ET_intent_compiled,
      ed_objectRefs = (case icx_runtimeExecution x of
          Some run \<Rightarrow> [ic_intentCompilationId r, rx_runtimeExecutionId run, rx_runtimeExecutionDigest run]
        | None \<Rightarrow> [ic_intentCompilationId r]),
      ed_payload = [(''uncertaintyMarkers'', JArr (map JStr (ic_uncertaintyMarkers r))),
        (''overreachReasonCodes'', JArr (map JStr (ic_overreachReasonCodes r)))],
      ed_streamRefs = None\<rparr>"

definition compilation_refused_event :: "intent_compilation \<Rightarrow> refusal \<Rightarrow> event_descriptor" where
  "compilation_refused_event r f =
     \<lparr>ed_source = protocol_base.truncate f, ed_eventType = ET_action_refused,
      ed_objectRefs = [rf_refusalId f, ic_intentCompilationId r, ca_candidateActionId (ic_candidateAction r)],
      ed_payload = [(''reasonCode'', JStr (rf_reasonCode f)),
        (''refusalReasonCodes'', JArr (map JStr (ca_refusalReasonCodes (ic_candidateAction r))))],
      ed_streamRefs = None\<rparr>"

definition commitIntentCompilation :: "kernel_env \<Rightarrow> compilation_context \<Rightarrow> intent_compilation \<Rightarrow> stream_event list wtr" where
  "commitIntentCompilation E x r =
     tbind (if ca_candidateStatus (ic_candidateAction r) = CAS_rejected
        then tbind (buildRefusal E (compilation_refusal_draft r)) (\<lambda>f. treturn (Some f)) else treturn None) (\<lambda>refusal.
     commitRecordsWithEvents E
       (PR_intent_compilation r # map PR_refusal (opt_list refusal))
       (compiled_event x r # map (compilation_refused_event r) (opt_list refusal)) no_options)"

definition compileIntent :: "kernel_env \<Rightarrow> compile_input \<Rightarrow> intent_compilation wtr" where
  "compileIntent E input =
     tbind (tparse (compile_input_valid E) input) (\<lambda>i.
     tbind (getIntentCompilationContext E i) (\<lambda>x.
     tbind (deriveCandidateDecision x) (\<lambda>k.
     tbind (buildCandidateAction E x k) (\<lambda>c.
     tbind (buildIntentCompilationRecord E x k c) (\<lambda>r.
     tbind (commitIntentCompilation E x r) (\<lambda>_.
     treturn r))))))"

end
