(* ===== verification/Proposal.thy ===== *)
theory Proposal
  imports Compilation Bindings Recovery
begin

text \<open>
  Proposing an action contract (\<open>action-contract/transitions.ts\<close>,
  \<open>contract-record.ts\<close>, \<open>guards.ts\<close>): the candidate of a compilation becomes a
  contract when the records it was compiled against are still the ones it pinned, its
  parameters still have the digest it names, and the recovery it follows up, if any,
  allows it. A follow-up closes the recommendation in the same commit.
\<close>

record propose_input =
  pci_intentCompilationId :: "string"
  pci_candidateActionId :: "string"
  pci_candidateDigest :: "string"
  pci_signingSecret :: "string option"

definition propose_input_valid :: "propose_input \<Rightarrow> bool" where
  "propose_input_valid i \<longleftrightarrow>
     1 \<le> length (pci_intentCompilationId i) \<and>
     1 \<le> length (pci_candidateActionId i) \<and>
     digest_ok (pci_candidateDigest i) \<and>
     opt_ok (\<lambda>x. 1 \<le> length x) (pci_signingSecret i)"


section \<open>What is read\<close>

definition requiredTyped ::
  "(protocol_record \<Rightarrow> 'a option) \<Rightarrow> protocol_object_type \<Rightarrow> string \<Rightarrow> string \<Rightarrow> (stored_record \<times> 'a) wtr" where
  "requiredTyped as t oid code =
     tbind (requiredRecord t oid code) (\<lambda>r. case as (st_payload r) of
       None \<Rightarrow> tfail (protocol_error code 404)
     | Some x \<Rightarrow> treturn (r, x))"

definition optionalTyped ::
  "(protocol_record \<Rightarrow> 'a option) \<Rightarrow> protocol_object_type \<Rightarrow> string option \<Rightarrow> string \<Rightarrow> 'a option wtr" where
  "optionalTyped as t ref code = (if truthy_ref ref
     then tbind (requiredPayload as t (ref_or ref []) code) (\<lambda>x. treturn (Some x)) else treturn None)"

record proposal_context =
  pcx_input :: propose_input
  pcx_compilation :: intent_compilation
  pcx_candidate :: candidate_action
  pcx_envelope :: "stored_record \<times> operating_envelope"
  pcx_gateway :: "stored_record \<times> gateway_registry_entry"
  pcx_tool :: "stored_record \<times> tool_capability"
  pcx_actionType :: "stored_record \<times> action_type"
  pcx_runtimeExecution :: "runtime_execution option"
  pcx_generatedExecutionGraph :: "generated_execution_graph option"
  pcx_recoveryLinkage :: "recovery_linkage option"

definition proposal_failure :: "candidate_action \<Rightarrow> string \<Rightarrow> string \<Rightarrow> string option" where
  "proposal_failure c cid digest =
    (if ca_candidateActionId c \<noteq> cid then Some ''candidate_action_mismatch''
     else if ca_candidateStatus c \<noteq> CAS_contractable then Some ''intent_compilation_not_contractable''
     else if \<not> truthy_ref (ca_candidateDigest c) \<or> ca_candidateDigest c \<noteq> Some digest then Some ''candidate_digest_mismatch''
     else None)"

definition failing :: "string option \<Rightarrow> unit wtr" where
  "failing f = (case f of Some code \<Rightarrow> tfail (protocol_error code 409) | None \<Rightarrow> treturn ())"

definition assertCandidateMatchesProposal :: "candidate_action \<Rightarrow> string \<Rightarrow> string \<Rightarrow> unit wtr" where
  "assertCandidateMatchesProposal c cid digest = failing (proposal_failure c cid digest)"

definition getActionContractProposalContext :: "kernel_env \<Rightarrow> propose_input \<Rightarrow> proposal_context wtr" where
  "getActionContractProposalContext E i =
     tbind (requiredPayload as_intent_compilation OT_intent_compilation (pci_intentCompilationId i)
        ''intent_compilation_missing'') (\<lambda>ic.
    (let c = ic_candidateAction ic in
     tbind (assertCandidateMatchesProposal c (pci_candidateActionId i) (pci_candidateDigest i)) (\<lambda>_.
     tbind (requiredTyped as_operating_envelope OT_operating_envelope (ca_operatingEnvelopeId c) ''envelope_missing'') (\<lambda>v.
     tbind (requiredTyped as_gateway_registry_entry OT_gateway_registry_entry (ca_gatewayRegistryEntryId c)
        ''gateway_registry_entry_missing'') (\<lambda>g.
     tbind (requiredTyped as_tool_capability OT_tool_capability (ca_toolCapabilityId c) ''tool_capability_missing'') (\<lambda>t.
     tbind (requiredTyped as_action_type OT_action_type (ca_actionTypeId c) ''action_type_missing'') (\<lambda>y.
     tbind (optionalTyped as_runtime_execution OT_runtime_execution (ca_runtimeExecutionId c)
        ''runtime_execution_missing'') (\<lambda>run.
     tbind (optionalTyped as_generated_execution_graph OT_generated_execution_graph (ca_generatedExecutionGraphId c)
        ''generated_execution_graph_missing'') (\<lambda>graph.
     tbind (loadRecoveryActionLinkage (ca_recoveryRecommendationId c)) (\<lambda>l.
     treturn \<lparr>pcx_input = i, pcx_compilation = ic, pcx_candidate = c, pcx_envelope = v, pcx_gateway = g, pcx_tool = t,
       pcx_actionType = y, pcx_runtimeExecution = run, pcx_generatedExecutionGraph = graph,
       pcx_recoveryLinkage = l\<rparr>))))))))))"

section \<open>What is checked\<close>

definition pin_failure :: "string \<Rightarrow> string option \<Rightarrow> string option" where
  "pin_failure current pinned =
    (if \<not> truthy_ref pinned then Some ''candidate_digest_missing''
     else if Some current \<noteq> pinned then Some ''candidate_catalog_digest_drift'' else None)"

definition runtime_pin_failure :: "candidate_action \<Rightarrow> runtime_execution option \<Rightarrow> string option" where
  "runtime_pin_failure c run = (case run of None \<Rightarrow> None
     | Some r \<Rightarrow> pin_failure (rx_runtimeExecutionDigest r) (ca_runtimeExecutionDigest c))"

text \<open>The first failure of a list of checks.\<close>

fun first_failure :: "string option list \<Rightarrow> string option" where
  "first_failure [] = None"
| "first_failure (f # fs) = (case f of Some code \<Rightarrow> Some code | None \<Rightarrow> first_failure fs)"

lemma first_failure_None [simp]: "first_failure fs = None \<longleftrightarrow> (\<forall>f \<in> set fs. f = None)"
  by (induction fs rule: first_failure.induct) (auto split: option.splits)

definition graph_failure :: "candidate_action \<Rightarrow> generated_execution_graph \<Rightarrow> string option" where
  "graph_failure c graph = (case pin_failure (gx_graphDigest graph) (ca_generatedExecutionGraphDigest c) of
       Some code \<Rightarrow> Some code
     | None \<Rightarrow>
        if Some (gx_runtimeExecutionId graph) \<noteq> ca_runtimeExecutionId c \<or>
            Some (gx_runtimeExecutionDigest graph) \<noteq> ca_runtimeExecutionDigest c
          then Some ''candidate_generated_execution_graph_runtime_mismatch''
        else if gx_coverageStatus graph \<noteq> GECS_fully_covered_no_unsupported_nodes
          then Some ''candidate_generated_execution_graph_not_contractable''
        else if ca_generatedExecutionCoverageStatus c \<noteq> Some (gx_coverageStatus graph)
          then Some ''candidate_generated_execution_graph_status_mismatch''
        else (case find (\<lambda>n. Some (gxn_nodeId n) = ca_generatedExecutionNodeId c) (gx_nodes graph) of
            None \<Rightarrow> Some ''candidate_generated_execution_node_missing''
          | Some n \<Rightarrow>
              if Some (gxn_nodeDigest n) \<noteq> ca_generatedExecutionNodeDigest c
                then Some ''candidate_generated_execution_node_digest_mismatch''
              else if gxn_nodeGatewayBindingDigest n \<noteq> ca_generatedExecutionNodeGatewayBindingDigest c
                then Some ''candidate_generated_execution_node_gateway_binding_mismatch''
              else None))"

definition graph_pin_failure :: "candidate_action \<Rightarrow> generated_execution_graph option \<Rightarrow> string option" where
  "graph_pin_failure c graph = (case graph of None \<Rightarrow> None | Some x \<Rightarrow> graph_failure c x)"

definition params_failure :: "'e env_scheme \<Rightarrow> candidate_action \<Rightarrow> string option" where
  "params_failure E c =
    (if protectedActionParamsDigest E (ca_parameters c) (ca_secretRefs c)
         (map gateway_credential_binding_json (ca_gatewayCredentialRefs c))
         (map delegated_authority_binding_json (ca_delegatedAuthorityRefs c)) \<noteq> ca_paramsDigest c
     then Some ''candidate_params_digest_mismatch'' else None)"

record proposal_guard =
  pgd_tenantId :: string
  pgd_organizationId :: string
  pgd_principalId :: string
  pgd_agentId :: string
  pgd_runId :: string
  pgd_envelopeId :: string
  pgd_gatewayId :: string
  pgd_compilation :: intent_compilation
  pgd_envelope :: operating_envelope
  pgd_gateway :: gateway_registry_entry

definition guardActionProposal :: "proposal_guard \<Rightarrow> guard_result" where
  "guardActionProposal p = (let ic = pgd_compilation p; v = pgd_envelope p; g = pgd_gateway p in
     if ic_uncertaintyMarkers ic \<noteq> [] \<or> ic_overreachReasonCodes ic \<noteq> []
       then guard_fail ''intent_compilation_not_contractable''
     else if ic_operatingEnvelopeId ic \<noteq> oe_envelopeId v \<or> pgd_envelopeId p \<noteq> oe_envelopeId v
       then guard_fail ''invalid_transition_envelope_mismatch''
     else if gr_gatewayId g \<noteq> pgd_gatewayId p then guard_fail ''gateway_registry_mismatch''
     else if gr_receiptCapabilityStatus g \<noteq> CAPS_available \<or> gr_isolationCheckCapabilityStatus g \<noteq> CAPS_available
       then guard_fail ''gateway_not_enforcing''
     else if pgd_tenantId p \<noteq> tenantId ic \<or> pgd_tenantId p \<noteq> tenantId v \<or> pgd_tenantId p \<noteq> tenantId g \<or>
         pgd_organizationId p \<noteq> organizationId ic \<or> pgd_organizationId p \<noteq> organizationId v \<or>
         pgd_organizationId p \<noteq> organizationId g
       then guard_fail ''invalid_transition_scope_mismatch''
     else if pgd_principalId p \<noteq> ic_principalId ic \<or> pgd_principalId p \<noteq> oe_principalId v \<or>
         pgd_agentId p \<noteq> ic_agentId ic \<or> pgd_agentId p \<noteq> oe_agentId v \<or> pgd_runId p \<noteq> ic_runId ic
       then guard_fail ''invalid_transition_actor_mismatch''
     else guard_ok)"

definition proposal_guard_of :: "proposal_context \<Rightarrow> proposal_guard" where
  "proposal_guard_of x = (let ic = pcx_compilation x; c = pcx_candidate x in
     \<lparr>pgd_tenantId = tenantId ic, pgd_organizationId = organizationId ic, pgd_principalId = ic_principalId ic,
      pgd_agentId = ic_agentId ic, pgd_runId = ic_runId ic, pgd_envelopeId = ca_operatingEnvelopeId c,
      pgd_gatewayId = ca_gatewayId c, pgd_compilation = ic, pgd_envelope = snd (pcx_envelope x),
      pgd_gateway = snd (pcx_gateway x)\<rparr>)"

definition proposal_context_failure :: "'e env_scheme \<Rightarrow> proposal_context \<Rightarrow> string option" where
  "proposal_context_failure E x = (let c = pcx_candidate x in first_failure
     [pin_failure (st_canonicalDigest (fst (pcx_envelope x))) (ca_operatingEnvelopeDigest c),
      pin_failure (st_canonicalDigest (fst (pcx_gateway x))) (ca_gatewayRegistryDigest c),
      pin_failure (st_canonicalDigest (fst (pcx_tool x))) (ca_toolCapabilityDigest c),
      pin_failure (st_canonicalDigest (fst (pcx_actionType x))) (ca_actionTypeDigest c),
      runtime_pin_failure c (pcx_runtimeExecution x),
      graph_pin_failure c (pcx_generatedExecutionGraph x),
      params_failure E c,
      (case guardActionProposal (proposal_guard_of x) of Inl code \<Rightarrow> Some code | Inr _ \<Rightarrow> None)])"

definition assertActionContractProposalContext :: "'e env_scheme \<Rightarrow> proposal_context \<Rightarrow> unit wtr" where
  "assertActionContractProposalContext E x = failing (proposal_context_failure E x)"

section \<open>The contract\<close>

definition followup_of :: "candidate_action \<Rightarrow> intent_compilation \<Rightarrow> followup_candidate" where
  "followup_of c ic =
     \<lparr>rfc_tenantId = tenantId ic, rfc_organizationId = organizationId ic, rfc_principalId = ic_principalId ic,
      rfc_agentId = ic_agentId ic, rfc_runId = ic_runId ic, rfc_sequenceNumber = ca_sequenceNumber c,
      rfc_actionClass = ca_actionClass c, rfc_gatewayId = ca_gatewayId c, rfc_resourceRef = ca_resourceRef c,
      rfc_evidenceRefs = ca_evidenceRefs c\<rparr>"

definition buildContractBinding ::
  "propose_input \<Rightarrow> candidate_action \<Rightarrow> intent_compilation \<Rightarrow> operating_envelope \<Rightarrow> gateway_registry_entry \<Rightarrow>
   action_type \<Rightarrow> recovery_linkage option \<Rightarrow> string \<Rightarrow> jval" where
  "buildContractBinding i c ic v g y l now = JObj
     [(''tenantId'', JStr (tenantId ic)), (''organizationId'', JStr (organizationId ic)),
      (''intentCompilationId'', JStr (pci_intentCompilationId i)),
      (''candidateActionId'', JStr (ca_candidateActionId c)),
      (''candidateDigest'', JStr (pci_candidateDigest i)), (''envelopeId'', JStr (oe_envelopeId v)),
      (''operatingEnvelopeDigest'', j_opt JStr (ca_operatingEnvelopeDigest c)),
      (''agentId'', JStr (ic_agentId ic)), (''principalId'', JStr (ic_principalId ic)),
      (''participantIdentityBindings'', JArr (map participant_identity_binding_json (oe_participantIdentityBindings v))),
      (''runId'', JStr (ic_runId ic)), (''runtimeAdapterId'', JStr (ic_runtimeAdapterId ic)),
      (''sequenceNumber'', JInt (ca_sequenceNumber c)),
      (''requiredPriorActionContractIds'', JArr (map JStr (ca_requiredPriorActionContractIds c))),
      (''recoveryRecommendationId'', j_opt JStr (map_option (rr_recoveryRecommendationId \<circ> rln_recommendation) l)),
      (''recoverySourceReceiptId'', j_opt JStr (map_option (rr_sourceReceiptId \<circ> rln_recommendation) l)),
      (''recoveryRecommendationDigest'', j_opt JStr (map_option (rr_recommendationDigest \<circ> rln_recommendation) l)),
      (''issuedAt'', JStr now), (''expiresAt'', JStr (ca_expiresAt c)),
      (''gatewayRegistryEntryId'', JStr (gr_gatewayRegistryEntryId g)),
      (''gatewayRegistryDigest'', j_opt JStr (ca_gatewayRegistryDigest c)),
      (''gatewayRegistryVersion'', JStr (gr_gatewayRegistryVersion g)), (''gatewayId'', JStr (gr_gatewayId g)),
      (''gatewayPolicyContractId'', JStr (gr_gatewayPolicyContractId g)),
      (''gatewayPolicyVersion'', JStr (gr_gatewayPolicyVersion g)),
      (''credentialCustodyStatus'', JStr (credential_custody_status_str (gr_credentialCustodyStatus g))),
      (''enforcementMode'', JStr (gateway_enforcement_mode_str (gr_enforcementMode g))),
      (''mutationCredentialHolderRef'', JStr (gr_mutationCredentialHolderRef g)),
      (''gatewayAuthorityHolderRef'', JStr (gr_gatewayAuthorityHolderRef g)),
      (''toolCapabilityId'', JStr (ca_toolCapabilityId c)),
      (''toolCapabilityDigest'', j_opt JStr (ca_toolCapabilityDigest c)),
      (''actionTypeId'', JStr (ca_actionTypeId c)), (''actionTypeDigest'', j_opt JStr (ca_actionTypeDigest c)),
      (''actionClass'', JStr (ca_actionClass c)), (''protectedSurfaceKind'', JStr (at_protectedSurfaceKind y)),
      (''resourceRef'', JStr (ca_resourceRef c)),
      (''requiredProtectedPathState'', JStr (required_protected_path_state_str (oe_requiredProtectedPathState v))),
      (''runtimeExecutionId'', j_opt JStr (ca_runtimeExecutionId c)),
      (''runtimeExecutionDigest'', j_opt JStr (ca_runtimeExecutionDigest c)),
      (''generatedExecutionGraphId'', j_opt JStr (ca_generatedExecutionGraphId c)),
      (''generatedExecutionGraphDigest'', j_opt JStr (ca_generatedExecutionGraphDigest c)),
      (''generatedExecutionCoverageStatus'', j_opt (\<lambda>x. JStr (generated_execution_coverage_status_str x)) (ca_generatedExecutionCoverageStatus c)),
      (''generatedExecutionNodeId'', j_opt JStr (ca_generatedExecutionNodeId c)),
      (''generatedExecutionNodeDigest'', j_opt JStr (ca_generatedExecutionNodeDigest c)),
      (''generatedExecutionCatalogSnapshotDigest'', j_opt JStr (ca_generatedExecutionCatalogSnapshotDigest c)),
      (''generatedExecutionGatewayRegistrySnapshotDigest'', j_opt JStr (ca_generatedExecutionGatewayRegistrySnapshotDigest c)),
      (''generatedExecutionRegistryBindingSetDigest'', j_opt JStr (ca_generatedExecutionRegistryBindingSetDigest c)),
      (''generatedExecutionNodeGatewayBindingDigest'', j_opt JStr (ca_generatedExecutionNodeGatewayBindingDigest c)),
      (''gatewayCredentialRefs'', JArr (map gateway_credential_binding_json (ca_gatewayCredentialRefs c))),
      (''delegatedAuthorityRefs'', JArr (map delegated_authority_binding_json (ca_delegatedAuthorityRefs c))),
      (''paramsDigest'', JStr (ca_paramsDigest c)), (''purposeCode'', JStr (ca_purposeCode c)),
      (''expectedSideEffectCodes'', JArr (map JStr (ca_expectedSideEffectCodes c))),
      (''evidenceRefs'', JArr (map JStr (ca_evidenceRefs c))),
      (''clearingEvidenceRefs'', clearing_evidence_refs_json (ca_clearingEvidenceRefs c)),
      (''bounds'', JObj (ca_bounds c)), (''idempotencyKey'', JStr (ca_idempotencyKey c)),
      (''canonicalizerVersion'', JStr CANONICALIZER_VERSION)]"

definition contract_of ::
  "propose_input \<Rightarrow> candidate_action \<Rightarrow> intent_compilation \<Rightarrow> operating_envelope \<Rightarrow> gateway_registry_entry \<Rightarrow>
   action_type \<Rightarrow> recovery_linkage option \<Rightarrow> string \<Rightarrow> string \<Rightarrow> string \<Rightarrow> string option \<Rightarrow> action_contract" where
  "contract_of i c ic v g y l now cid digest signature =
     \<lparr>schemaVersion = PROTOCOL_VERSION, tenantId = tenantId ic, organizationId = organizationId ic,
      createdAt = now, ac_actionContractId = cid, ac_intentCompilationId = pci_intentCompilationId i,
      ac_candidateActionId = ca_candidateActionId c, ac_candidateDigest = pci_candidateDigest i,
      ac_envelopeId = oe_envelopeId v, ac_operatingEnvelopeDigest = ref_or (ca_operatingEnvelopeDigest c) [],
      ac_agentId = ic_agentId ic, ac_principalId = ic_principalId ic,
      ac_participantIdentityBindings = oe_participantIdentityBindings v, ac_runId = ic_runId ic,
      ac_runtimeAdapterId = ic_runtimeAdapterId ic, ac_sequenceNumber = ca_sequenceNumber c,
      ac_requiredPriorActionContractIds = ca_requiredPriorActionContractIds c,
      ac_recoveryRecommendationId = map_option (rr_recoveryRecommendationId \<circ> rln_recommendation) l,
      ac_recoverySourceReceiptId = map_option (rr_sourceReceiptId \<circ> rln_recommendation) l,
      ac_recoveryRecommendationDigest = map_option (rr_recommendationDigest \<circ> rln_recommendation) l,
      ac_issuedAt = now, ac_expiresAt = ca_expiresAt c, ac_gatewayRegistryEntryId = gr_gatewayRegistryEntryId g,
      ac_gatewayRegistryDigest = ref_or (ca_gatewayRegistryDigest c) [],
      ac_gatewayRegistryVersion = gr_gatewayRegistryVersion g, ac_gatewayId = gr_gatewayId g,
      ac_gatewayPolicyContractId = gr_gatewayPolicyContractId g,
      ac_gatewayPolicyVersion = gr_gatewayPolicyVersion g,
      ac_credentialCustodyStatus = gr_credentialCustodyStatus g, ac_enforcementMode = gr_enforcementMode g,
      ac_mutationCredentialHolderRef = gr_mutationCredentialHolderRef g,
      ac_gatewayAuthorityHolderRef = gr_gatewayAuthorityHolderRef g,
      ac_toolCapabilityId = ca_toolCapabilityId c,
      ac_toolCapabilityDigest = ref_or (ca_toolCapabilityDigest c) [], ac_actionTypeId = ca_actionTypeId c,
      ac_actionTypeDigest = ref_or (ca_actionTypeDigest c) [], ac_actionClass = ca_actionClass c,
      ac_protectedSurfaceKind = at_protectedSurfaceKind y, ac_resourceRef = ca_resourceRef c,
      ac_requiredProtectedPathState = oe_requiredProtectedPathState v,
      ac_runtimeExecutionId = ca_runtimeExecutionId c, ac_runtimeExecutionDigest = ca_runtimeExecutionDigest c,
      ac_generatedExecutionGraphId = ca_generatedExecutionGraphId c,
      ac_generatedExecutionGraphDigest = ca_generatedExecutionGraphDigest c,
      ac_generatedExecutionCoverageStatus = ca_generatedExecutionCoverageStatus c,
      ac_generatedExecutionNodeId = ca_generatedExecutionNodeId c,
      ac_generatedExecutionNodeDigest = ca_generatedExecutionNodeDigest c,
      ac_generatedExecutionCatalogSnapshotDigest = ca_generatedExecutionCatalogSnapshotDigest c,
      ac_generatedExecutionGatewayRegistrySnapshotDigest = ca_generatedExecutionGatewayRegistrySnapshotDigest c,
      ac_generatedExecutionRegistryBindingSetDigest = ca_generatedExecutionRegistryBindingSetDigest c,
      ac_generatedExecutionNodeGatewayBindingDigest = ca_generatedExecutionNodeGatewayBindingDigest c,
      ac_parameters = ca_parameters c, ac_paramsDigest = ca_paramsDigest c,
      ac_nonSecretParamsSummary = ca_nonSecretParamsSummary c, ac_secretRefs = ca_secretRefs c,
      ac_gatewayCredentialRefs = ca_gatewayCredentialRefs c,
      ac_delegatedAuthorityRefs = ca_delegatedAuthorityRefs c, ac_purposeCode = ca_purposeCode c,
      ac_expectedSideEffectCodes = ca_expectedSideEffectCodes c, ac_evidenceRefs = ca_evidenceRefs c,
      ac_clearingEvidenceRefs = ca_clearingEvidenceRefs c, ac_bounds = ca_bounds c,
      ac_idempotencyKey = ca_idempotencyKey c, ac_rollbackHint = ca_rollbackHint c,
      ac_canonicalizerVersion = CANONICALIZER_VERSION, ac_actionContractDigest = digest,
      ac_contractSignature = signature,
      ac_signaturePosture = (if truthy_ref (pci_signingSecret i) then SP_local_hmac else SP_unsigned),
      ac_keyIdentityRef = (if truthy_ref (pci_signingSecret i) then Some ''local:hmac'' else None),
      ac_verificationPolicyRef = (if truthy_ref (pci_signingSecret i) then Some ''local-hmac-only'' else None)\<rparr>"

definition buildActionContractRecord :: "kernel_env \<Rightarrow> proposal_context \<Rightarrow> (string \<times> action_contract) wtr" where
  "buildActionContractRecord E x =
    (let i = pcx_input x; c = pcx_candidate x; ic = pcx_compilation x; v = snd (pcx_envelope x); g = snd (pcx_gateway x);
         y = snd (pcx_actionType x); l = pcx_recoveryLinkage x in
     tbind (nowIso E) (\<lambda>now.
     tbind (assertRecoveryActionLinkage (followup_of c ic) l now) (\<lambda>_.
    (let binding = buildContractBinding i c ic v g y l now in
     tbind (createId E ''act'') (\<lambda>cid.
     tbind (tparse (action_contract_valid E) (contract_of i c ic v g y l now cid (digestCanonical E binding)
       (if truthy_ref (pci_signingSecret i) then Some (signCanonicalHmac E binding (ref_or (pci_signingSecret i) []))
        else None))) (\<lambda>k.
     treturn (now, k)))))))"

definition assertGatewayCredentialBindings :: "action_contract \<Rightarrow> unit wtr" where
  "assertGatewayCredentialBindings k =
     tbind (store_get (evaluateGatewayCredentialBindings k (ac_issuedAt k))) (\<lambda>e. failing (map_option fst (be_failure e)))"

definition assertDelegatedAuthorityBindings :: "action_contract \<Rightarrow> unit wtr" where
  "assertDelegatedAuthorityBindings k =
     tbind (store_get (evaluateDelegatedAuthorityBindings k (ac_issuedAt k))) (\<lambda>e. failing (map_option fst (be_failure e)))"

section \<open>The commit\<close>

definition followup_change :: "recovery_linkage \<Rightarrow> action_contract \<Rightarrow> string \<Rightarrow> status_change_input" where
  "followup_change l k now =
     \<lparr>sci_recommendation = rln_recommendation l, sci_sourceContract = rln_sourceContract l,
      sci_nextStatus = RRTS_superseded, sci_reasonCode = ''followup_action_contract_proposed'',
      sci_reasonSummary = ''Recovery recommendation was superseded by a linked follow-up action contract.'',
      sci_changedByRef = ac_actionContractId k, sci_supersededByActionContractId = Some (ac_actionContractId k),
      sci_now = now\<rparr>"

definition proposed_event :: "action_contract \<Rightarrow> event_descriptor" where
  "proposed_event k =
     \<lparr>ed_source = protocol_base.truncate k, ed_eventType = ET_action_proposed,
      ed_objectRefs = ac_actionContractId k #
        (if truthy_ref (ac_recoveryRecommendationId k) \<and> truthy_ref (ac_recoverySourceReceiptId k)
         then [ref_or (ac_recoveryRecommendationId k) [], ref_or (ac_recoverySourceReceiptId k) []] else []),
      ed_payload = [(''actionClass'', JStr (ac_actionClass k)), (''gatewayId'', JStr (ac_gatewayId k)),
        (''resourceRef'', JStr (ac_resourceRef k)),
        (''recoveryRecommendationId'', j_opt JStr (ac_recoveryRecommendationId k))],
      ed_streamRefs = Some (actionLifecycleStreamRefs k)\<rparr>"

definition buildActionContractCommitPlan ::
  "kernel_env \<Rightarrow> recovery_linkage option \<Rightarrow> action_contract \<Rightarrow> string \<Rightarrow> status_change option wtr" where
  "buildActionContractCommitPlan E l k now = (case l of
       None \<Rightarrow> treturn None
     | Some x \<Rightarrow> tbind (buildRecoveryRecommendationStatusChange E (followup_change x k now)) (\<lambda>s. treturn (Some s)))"

definition proposal_records :: "action_contract \<Rightarrow> status_change option \<Rightarrow> protocol_record list" where
  "proposal_records k s = PR_action_contract k # (case s of None \<Rightarrow> [] | Some x \<Rightarrow> statusChangeRecords x)"

definition proposal_events ::
  "action_contract \<Rightarrow> recovery_linkage option \<Rightarrow> status_change option \<Rightarrow> event_descriptor list" where
  "proposal_events k l s = proposed_event k #
     (case (s, l) of (Some x, Some y) \<Rightarrow> statusChangeEvents x (rln_sourceContract y) | _ \<Rightarrow> [])"

definition commitActionContractPlan ::
  "kernel_env \<Rightarrow> recovery_linkage option \<Rightarrow> action_contract \<Rightarrow> status_change option \<Rightarrow> unit wtr" where
  "commitActionContractPlan E l k s = tcatch
     (tbind (commitRecordsWithEvents E (proposal_records k s) (proposal_events k l s)
        (no_options\<lparr>co_recoveryClaims := map sch_terminalClaim (opt_list s)\<rparr>)) (\<lambda>_. treturn ()))
     (\<lambda>e. case l of
        None \<Rightarrow> tfail e
      | Some x \<Rightarrow> record_conflict E \<lparr>cfi_recommendation = rln_recommendation x, cfi_sourceContract = rln_sourceContract x,
          cfi_attemptedObjectRef = ac_actionContractId k, cfi_changedByRef = ac_actionContractId k\<rparr> e)"

definition proposeActionContract :: "kernel_env \<Rightarrow> propose_input \<Rightarrow> action_contract wtr" where
  "proposeActionContract E input =
     tbind (tparse propose_input_valid input) (\<lambda>i.
     tbind (getActionContractProposalContext E i) (\<lambda>x.
     tbind (assertActionContractProposalContext E x) (\<lambda>_.
     tbind (buildActionContractRecord E x) (\<lambda>(now, k).
     tbind (assertGatewayCredentialBindings k) (\<lambda>_.
     tbind (assertDelegatedAuthorityBindings k) (\<lambda>_.
     tbind (buildActionContractCommitPlan E (pcx_recoveryLinkage x) k now) (\<lambda>s.
     tbind (commitActionContractPlan E (pcx_recoveryLinkage x) k s) (\<lambda>_.
     treturn k))))))))"

end
