(* ===== verification/Compilation_Laws.thy ===== *)
theory Compilation_Laws
  imports Compilation Recovery_Laws
begin

text \<open>
  What a compilation rests on: the constraints a contractable candidate meets, stated
  without reason codes, and what the transition stores for a candidate that meets them
  and for one that does not.
\<close>

section \<open>Reads\<close>

lemma reads_optionalRecord [reads_only_intros]: "reads_only (optionalRecord t oid)"
  by (cases oid) (simp_all add: optionalRecord_def reads_only_intros)

lemma reads_secret [reads_only_intros]: "reads_only (assertSecretSafeCandidateInput t p q s)"
  by (cases "secret_input_failure t p q s") (simp_all add: assertSecretSafeCandidateInput_def reads_only_intros)

lemma reads_compilation [reads_only_intros]:
  "reads_only (getIntentCompilationContext E i)" "reads_only (deriveCandidateDecision x)"
  "reads_only (buildCandidateAction E x k)" "reads_only (buildIntentCompilationRecord E x k c)"
  unfolding getIntentCompilationContext_def deriveCandidateDecision_def deriveCatalogAndEnvelopeReasonCodes_def
    buildCandidateAction_def buildIntentCompilationRecord_def Let_def
  by (intro reads_only_intros allI impI conjI; cases "icx_tool x"; simp add: reads_only_intros)+

text \<open>The records a compilation reads, as a function of the store.\<close>

definition optional_payload ::
  "(protocol_record \<Rightarrow> 'a option) \<Rightarrow> protocol_object_type \<Rightarrow> string option \<Rightarrow> pstore \<Rightarrow> 'a option" where
  "optional_payload as t oid s = (case oid of None \<Rightarrow> None | Some a \<Rightarrow> find_payload as t a s)"

lemma payload_of_getRecord: "payload_of as (getRecord t oid s) = find_payload as t oid s"
  by (simp add: payload_of_def find_payload_def)

lemma optionalRecord_apply [simp]:
  "optionalRecord t oid w = (Inr (case oid of None \<Rightarrow> None | Some a \<Rightarrow> getRecord t a (w_store w)), w)"
  by (cases oid) (simp_all add: optionalRecord_def)

lemma payload_of_optional:
  "payload_of as (case oid of None \<Rightarrow> None | Some a \<Rightarrow> getRecord t a s) = optional_payload as t oid s"
  by (cases oid) (simp_all add: optional_payload_def find_payload_def payload_of_def)

definition compilation_view :: "kernel_env \<Rightarrow> compile_input \<Rightarrow> string \<Rightarrow> pstore \<Rightarrow> compilation_context \<Rightarrow> bool" where
  "compilation_view E i now s x \<longleftrightarrow> (let a = cii_candidate i in
     icx_input x = i \<and> icx_createdAt x = now \<and> icx_paramsDigest x = candidate_params_digest E a \<and>
     icx_toolRecord x = getRecord OT_tool_capability (cci_toolCapabilityId a) s \<and>
     icx_actionTypeRecord x = getRecord OT_action_type (cci_actionTypeId a) s \<and>
     icx_gatewayRecord x = getRecord OT_gateway_registry_entry (cci_gatewayRegistryEntryId a) s \<and>
     icx_envelopeRecord x = getRecord OT_operating_envelope (cii_operatingEnvelopeId i) s \<and>
     icx_tool x = find_payload as_tool_capability OT_tool_capability (cci_toolCapabilityId a) s \<and>
     icx_actionType x = find_payload as_action_type OT_action_type (cci_actionTypeId a) s \<and>
     icx_gateway x = find_payload as_gateway_registry_entry OT_gateway_registry_entry (cci_gatewayRegistryEntryId a) s \<and>
     icx_envelope x = find_payload as_operating_envelope OT_operating_envelope (cii_operatingEnvelopeId i) s \<and>
     icx_runtimeExecution x = optional_payload as_runtime_execution OT_runtime_execution (cii_runtimeExecutionId i) s \<and>
     icx_generatedExecutionGraph x =
       optional_payload as_generated_execution_graph OT_generated_execution_graph (cii_generatedExecutionGraphId i) s \<and>
     icx_toolCallDraft x = optional_payload as_tool_call_draft OT_tool_call_draft (cii_toolCallDraftId i) s)"

lemma compilation_context_Inr:
  assumes "getIntentCompilationContext E i w = (Inr x, w')"
  shows "compilation_view E i (icx_createdAt x) (w_store w) x"
proof -
  obtain now w1 where now: "nowIso E w = (Inr now, w1)" using assms
    by (auto simp: getIntentCompilationContext_def Let_def elim!: tbind_InrE)
  then have "w_store w1 = w_store w" by (rule reads_onlyD[OF reads_basic(4)])
  then show ?thesis
    using assms
    by (auto simp: getIntentCompilationContext_def compilation_view_def Let_def payload_of_getRecord payload_of_optional
        now tbind_def)
qed

section \<open>The constraints\<close>

definition tool_admits :: "compile_input \<Rightarrow> tool_capability \<Rightarrow> bool" where
  "tool_admits i t \<longleftrightarrow> (tc_readWriteClassification t = RWC_consequential \<longrightarrow> tc_wrapperStatus t = WS_wrapped) \<and>
     tc_runtimeAdapterId t = cii_runtimeAdapterId i \<and> \<not> foreign_to i (Some t)"

definition catalog_admits :: "compile_input \<Rightarrow> action_type \<Rightarrow> gateway_registry_entry \<Rightarrow> bool" where
  "catalog_admits i y g \<longleftrightarrow> (let a = cii_candidate i in
     at_actionClass y = cci_actionClass a \<and> gr_gatewayId g = cci_gatewayId a \<and>
     gr_protectedSurfaceKind g = at_protectedSurfaceKind y \<and>
     at_actionCatalogVersion y \<in> set (gr_acceptedActionCatalogVersions g) \<and>
     \<not> foreign_to i (Some y) \<and> \<not> foreign_to i (Some g))"

definition envelope_admits :: "compile_input \<Rightarrow> string \<Rightarrow> operating_envelope \<Rightarrow> bool" where
  "envelope_admits i now v \<longleftrightarrow> (let a = cii_candidate i in
     oe_principalId v = cii_principalId i \<and> oe_agentId v = cii_agentId i \<and>
     cci_actionClass a \<in> set (oe_allowedActionClasses v) \<and> cci_gatewayId a \<in> set (oe_allowedGateways v) \<and>
     cci_resourceRef a \<in> set (oe_allowedResources v) \<and>
     oe_revokedAt v = None \<and> \<not> date_le (oe_expiresAt v) now \<and> \<not> foreign_to i (Some v))"

definition run_admits :: "compile_input \<Rightarrow> runtime_execution \<Rightarrow> bool" where
  "run_admits i r \<longleftrightarrow> \<not> foreign_to i (Some r) \<and>
     rx_principalIntentRef r = cii_principalIntentRef i \<and> rx_principalId r = cii_principalId i \<and>
     rx_agentId r = cii_agentId i \<and> rx_runId r = cii_runId i \<and> rx_runtimeAdapterId r = cii_runtimeAdapterId i \<and>
     \<not> rx_dynamicToolConstructionDetected r \<and> rx_unobservedRegionRefs r = [] \<and> rx_refusalReasonCodes r = []"

definition draft_admits :: "compile_input \<Rightarrow> string \<Rightarrow> string \<Rightarrow> tool_call_draft \<Rightarrow> bool" where
  "draft_admits i now digest d \<longleftrightarrow> (let a = cii_candidate i in
     td_draftState d = TCDS_finalized \<and> \<not> date_le (td_expiresAt d) now \<and> \<not> foreign_to i (Some d) \<and>
     td_runtimeExecutionId d = cii_runtimeExecutionId i \<and>
     td_generatedExecutionGraphId d = cii_generatedExecutionGraphId i \<and>
     td_generatedExecutionNodeId d = cii_generatedExecutionNodeId i \<and>
     td_toolCapabilityId d = cci_toolCapabilityId a \<and> td_actionTypeId d = cci_actionTypeId a \<and>
     td_gatewayRegistryEntryId d = cci_gatewayRegistryEntryId a \<and> td_actionClass d = cci_actionClass a \<and>
     td_gatewayId d = cci_gatewayId a \<and> td_resourceRef d = cci_resourceRef a \<and> td_paramsDigest d = digest)"

definition node_admits :: "compile_candidate \<Rightarrow> string \<Rightarrow> generated_execution_node \<Rightarrow> bool" where
  "node_admits a digest n \<longleftrightarrow>
     gxn_classification n = GENC_candidate_action_eligible \<and> truthy_ref (gxn_nodeGatewayBindingDigest n) \<and>
     gxn_actionClass n = Some (cci_actionClass a) \<and> gxn_toolCapabilityId n = Some (cci_toolCapabilityId a) \<and>
     gxn_actionTypeId n = Some (cci_actionTypeId a) \<and>
     gxn_gatewayRegistryEntryId n = Some (cci_gatewayRegistryEntryId a) \<and>
     gxn_resourceRef n = Some (cci_resourceRef a) \<and> gxn_paramsDigest n = Some digest"

definition graph_admits ::
  "compile_input \<Rightarrow> string \<Rightarrow> runtime_execution \<Rightarrow> generated_execution_graph \<Rightarrow> generated_execution_node \<Rightarrow> bool" where
  "graph_admits i digest r graph n \<longleftrightarrow> \<not> foreign_to i (Some graph) \<and>
     gx_runtimeExecutionId graph = rx_runtimeExecutionId r \<and>
     gx_runtimeExecutionDigest graph = rx_runtimeExecutionDigest r \<and>
     gx_executionBlockDigest graph = rx_executionBlockDigest r \<and>
     gx_coverageStatus graph = GECS_fully_covered_no_unsupported_nodes \<and>
     cii_generatedExecutionNodeId i = Some (gxn_nodeId n) \<and>
     find (\<lambda>m. gxn_nodeId m = gxn_nodeId n) (gx_nodes graph) = Some n \<and>
     node_admits (cii_candidate i) digest n"

text \<open>
  Which evidence the input must bring, and that what it names is there: a run of
  generated code comes with its graph, and a candidate that names a graph or a node
  comes with a draft of the tool call.
\<close>

definition evidence_complete :: "compilation_context \<Rightarrow> bool" where
  "evidence_complete x \<longleftrightarrow> (let i = icx_input x in
     (truthy_ref (cii_runtimeExecutionId i) \<longrightarrow> icx_runtimeExecution x \<noteq> None) \<and>
     (truthy_ref (cii_generatedExecutionGraphId i) \<longrightarrow> icx_generatedExecutionGraph x \<noteq> None) \<and>
     (truthy_ref (cii_toolCallDraftId i) \<longrightarrow> icx_toolCallDraft x \<noteq> None) \<and>
     (truthy_ref (cii_generatedExecutionGraphId i) \<or> truthy_ref (cii_generatedExecutionNodeId i) \<longrightarrow>
        truthy_ref (cii_toolCallDraftId i)) \<and>
     (icx_generatedExecutionGraph x = None \<longrightarrow>
        (case icx_runtimeExecution x of
           Some r \<Rightarrow> \<not> requiresGeneratedExecutionGraph (rx_executionShape r)
         | None \<Rightarrow> cii_generatedExecutionGraphId i = None \<and> cii_generatedExecutionNodeId i = None)))"

definition contractable :: "compilation_context \<Rightarrow> bool" where
  "contractable x \<longleftrightarrow> (let i = icx_input x; now = icx_createdAt x; digest = icx_paramsDigest x in
     (\<exists>t y g v. icx_tool x = Some t \<and> icx_actionType x = Some y \<and> icx_gateway x = Some g \<and> icx_envelope x = Some v \<and>
        tool_admits i t \<and> catalog_admits i y g \<and> envelope_admits i now v) \<and>
     evidence_complete x \<and>
     (\<forall>r. icx_runtimeExecution x = Some r \<longrightarrow> run_admits i r) \<and>
     (\<forall>d. icx_toolCallDraft x = Some d \<longrightarrow> draft_admits i now digest d) \<and>
     (\<forall>graph. icx_generatedExecutionGraph x = Some graph \<longrightarrow>
        (\<exists>r n. icx_runtimeExecution x = Some r \<and> graph_admits i digest r graph n)))"

section \<open>The reason codes say the same\<close>

lemma coded_empty: "coded cs = [] \<longleftrightarrow> (\<forall>c \<in> set cs. \<not> fst c)"
  by (auto simp: coded_def filter_empty_conv)

lemma runtime_codes_empty:
  "deriveRuntimeExecutionReasonCodes x = [] \<longleftrightarrow> (\<forall>r. icx_runtimeExecution x = Some r \<longrightarrow> run_admits (icx_input x) r)"
  by (cases "icx_runtimeExecution x")
     (auto simp: deriveRuntimeExecutionReasonCodes_def run_admits_def foreign_to_def Let_def coded_empty)

lemma draft_codes_empty:
  "deriveToolCallDraftReasonCodes x = [] \<longleftrightarrow>
     (truthy_ref (cii_generatedExecutionGraphId (icx_input x)) \<or> truthy_ref (cii_generatedExecutionNodeId (icx_input x)) \<longrightarrow>
        truthy_ref (cii_toolCallDraftId (icx_input x))) \<and>
     (\<forall>d. icx_toolCallDraft x = Some d \<longrightarrow> draft_admits (icx_input x) (icx_createdAt x) (icx_paramsDigest x) d)"
  by (cases "icx_toolCallDraft x")
     (auto simp: deriveToolCallDraftReasonCodes_def draft_admits_def foreign_to_def Let_def coded_empty)

lemma node_codes_empty: "node_codes a digest n = [] \<longleftrightarrow> node_admits a digest n"
  by (auto simp: node_codes_def node_admits_def coded_empty)

lemma find_name: "find (\<lambda>n. f n = c) xs = Some y \<Longrightarrow> f y = c"
  by (auto simp: find_Some_iff)

lemma coverage_codes_empty:
  "snd (deriveGeneratedExecutionCoverage i run graph digest) = [] \<longleftrightarrow>
     (\<exists>r n. run = Some r \<and> graph_admits i digest r graph n)"
  by (auto simp: deriveGeneratedExecutionCoverage_def graph_admits_def foreign_to_def Let_def coded_empty node_codes_empty
      split: option.splits dest: find_name)

lemma catalog_codes_empty:
  assumes "icx_tool x = Some t" "icx_actionType x = Some y" "icx_gateway x = Some g" "icx_envelope x = Some v"
  shows "catalog_codes x = [] \<longleftrightarrow> tool_admits (icx_input x) t \<and> catalog_admits (icx_input x) y g \<and>
     envelope_admits (icx_input x) (icx_createdAt x) v"
  using assms
  by (auto simp: catalog_codes_def tool_admits_def catalog_admits_def envelope_admits_def deriveEnvelopeReasonCodes_def
      durableRecordScopeMismatch_def Let_def coded_empty)

lemma markers_empty:
  "deriveUncertaintyMarkers x = [] \<longleftrightarrow>
     (\<exists>t y g v. icx_tool x = Some t \<and> icx_actionType x = Some y \<and> icx_gateway x = Some g \<and> icx_envelope x = Some v) \<and>
     (truthy_ref (cii_runtimeExecutionId (icx_input x)) \<longrightarrow> icx_runtimeExecution x \<noteq> None) \<and>
     (truthy_ref (cii_generatedExecutionGraphId (icx_input x)) \<longrightarrow> icx_generatedExecutionGraph x \<noteq> None) \<and>
     (truthy_ref (cii_toolCallDraftId (icx_input x)) \<longrightarrow> icx_toolCallDraft x \<noteq> None)"
  by (auto simp: deriveUncertaintyMarkers_def Let_def coded_empty)

lemma graph_missing_iff:
  "\<not> requiresMissingGeneratedExecutionGraphRefusal x \<longleftrightarrow>
     (icx_generatedExecutionGraph x = None \<longrightarrow>
        (case icx_runtimeExecution x of
           Some r \<Rightarrow> \<not> requiresGeneratedExecutionGraph (rx_executionShape r)
         | None \<Rightarrow> cii_generatedExecutionGraphId (icx_input x) = None \<and> cii_generatedExecutionNodeId (icx_input x) = None))"
  by (auto simp: requiresMissingGeneratedExecutionGraphRefusal_def isAgentOriginCompilation_def split: option.splits)

lemma candidate_coverage_empty:
  "snd (candidate_coverage x) = [] \<longleftrightarrow> (\<forall>graph. icx_generatedExecutionGraph x = Some graph \<longrightarrow>
     (\<exists>r n. icx_runtimeExecution x = Some r \<and> graph_admits (icx_input x) (icx_paramsDigest x) r graph n))"
  by (cases "icx_generatedExecutionGraph x") (simp_all add: candidate_coverage_def coverage_codes_empty)

lemma codes_empty_iff:
  "deriveUncertaintyMarkers x @ overreach_codes x (catalog_codes x) = [] \<longleftrightarrow> contractable x"
proof (cases "\<exists>t y g v. icx_tool x = Some t \<and> icx_actionType x = Some y \<and> icx_gateway x = Some g \<and> icx_envelope x = Some v")
  case True
  then obtain t y g v where r: "icx_tool x = Some t" "icx_actionType x = Some y" "icx_gateway x = Some g"
      "icx_envelope x = Some v"
    by blast
  show ?thesis
    using r graph_missing_iff[of x]
    unfolding overreach_codes_def append_is_Nil_conv markers_empty runtime_codes_empty draft_codes_empty
      catalog_codes_empty[OF r] candidate_coverage_empty contractable_def evidence_complete_def Let_def coded_empty
    by (simp only: set_simps ball_simps fst_conv option.inject simp_thms ex_simps) blast
next
  case False
  then show ?thesis by (auto simp: markers_empty contractable_def Let_def)
qed

lemma decision_Inr:
  assumes "deriveCandidateDecision x w = (Inr k, w')"
  shows "cad_uncertaintyMarkers k = deriveUncertaintyMarkers x \<and>
     cad_overreachReasonCodes k = overreach_codes x (catalog_codes x) \<and>
     cad_refusalReasonCodes k = cad_uncertaintyMarkers k @ cad_overreachReasonCodes k \<and>
     cad_candidateStatus k = (if contractable x then CAS_contractable else CAS_rejected) \<and>
     cad_generatedExecutionNode k = fst (candidate_coverage x) \<and>
     (\<forall>t. icx_tool x = Some t \<longrightarrow> (let a = cii_candidate (icx_input x) in
        secret_input_failure t (cci_parameters a) (cci_nonSecretParamsSummary a) (cci_secretRefs a) = None))"
  using assms codes_empty_iff[of x]
  by (auto simp: deriveCandidateDecision_def deriveCatalogAndEnvelopeReasonCodes_def assertSecretSafeCandidateInput_def
      Let_def elim!: tbind_InrE split: option.splits if_splits)

section \<open>What a compilation stores\<close>

text \<open>The candidate that a decision gives, with its digest when it is contractable.\<close>

definition decided_candidate ::
  "kernel_env \<Rightarrow> compilation_context \<Rightarrow> candidate_decision \<Rightarrow> string \<Rightarrow> candidate_action" where
  "decided_candidate E x k cid = (let c = candidate_action_of x k cid in c\<lparr>ca_candidateDigest :=
     (if cad_candidateStatus k = CAS_contractable
      then Some (digestCanonical E (candidateDigestMaterial (icx_input x) c)) else None)\<rparr>)"

lemma buildCandidate_Inr:
  "buildCandidateAction E x k w = (Inr c, w') \<Longrightarrow> candidate_action_valid E c \<and> (\<exists>cid. c = decided_candidate E x k cid)"
  by (auto simp: buildCandidateAction_def decided_candidate_def Let_def elim!: tbind_InrE)

lemma buildCompilation_Inr:
  "buildIntentCompilationRecord E x k c w = (Inr r, w') \<Longrightarrow> intent_compilation_valid E r \<and> (\<exists>iid. r = compilation_of x k c iid)"
  by (auto simp: buildIntentCompilationRecord_def elim!: tbind_InrE)

definition compiled :: "kernel_env \<Rightarrow> compilation_context \<Rightarrow> candidate_decision \<Rightarrow> intent_compilation \<Rightarrow> bool" where
  "compiled E x k r \<longleftrightarrow> (\<exists>cid iid. r = compilation_of x k (decided_candidate E x k cid) iid) \<and>
     intent_compilation_valid E r \<and> candidate_action_valid E (ic_candidateAction r) \<and>
     cad_uncertaintyMarkers k = deriveUncertaintyMarkers x \<and>
     cad_overreachReasonCodes k = overreach_codes x (catalog_codes x) \<and>
     cad_refusalReasonCodes k = cad_uncertaintyMarkers k @ cad_overreachReasonCodes k \<and>
     cad_candidateStatus k = (if contractable x then CAS_contractable else CAS_rejected) \<and>
     cad_generatedExecutionNode k = fst (candidate_coverage x)"

lemma compiled_candidate:
  assumes "compiled E x k r"
  shows "ca_candidateStatus (ic_candidateAction r) = (if contractable x then CAS_contractable else CAS_rejected)"
    "ca_refusalReasonCodes (ic_candidateAction r) = ic_uncertaintyMarkers r @ ic_overreachReasonCodes r"
    "ic_uncertaintyMarkers r @ ic_overreachReasonCodes r = [] \<longleftrightarrow> contractable x"
  using assms codes_empty_iff[of x]
  by (auto simp: compiled_def compilation_of_def decided_candidate_def candidate_action_of_def Let_def)

definition refusal_stored :: "intent_compilation \<Rightarrow> pstore \<Rightarrow> bool" where
  "refusal_stored r s \<longleftrightarrow> (\<exists>f. find_payload as_refusal OT_refusal (rf_refusalId f) s = Some f \<and>
     rf_refusedObjectRef f = Some (protocolObjectRef ''intent_compilation'' (ic_intentCompilationId r)) \<and>
     rf_reasonCode f = hd (ca_refusalReasonCodes (ic_candidateAction r)) \<and>
     \<not> rf_authorityCreated f \<and> \<not> rf_mutationAttempted f)"

lemma commitCompilation_stores:
  assumes "disciplined E" "commitIntentCompilation E x r w = (Inr es, w')"
    "ca_candidateStatus (ic_candidateAction r) = CAS_rejected \<Longrightarrow> ca_refusalReasonCodes (ic_candidateAction r) \<noteq> []"
  shows "find_payload as_intent_compilation OT_intent_compilation (ic_intentCompilationId r) (w_store w') = Some r \<and>
     (ca_candidateStatus (ic_candidateAction r) = CAS_rejected \<longrightarrow> refusal_stored r (w_store w'))"
proof -
  obtain f w1 where f: "(if ca_candidateStatus (ic_candidateAction r) = CAS_rejected
        then tbind (buildRefusal E (compilation_refusal_draft r)) (\<lambda>f. treturn (Some f)) else treturn None) w = (Inr f, w1)"
    and com: "commitRecordsWithEvents E (PR_intent_compilation r # map PR_refusal (opt_list f))
       (compiled_event x r # map (compilation_refused_event r) (opt_list f)) no_options w1 = (Inr es, w')"
    using assms(2) by (auto simp: commitIntentCompilation_def elim!: tbind_InrE)
  have recs: "set (PR_intent_compilation r # map PR_refusal (opt_list f)) = {PR_intent_compilation r} \<union> PR_refusal ` set (opt_list f)"
    by simp
  have ic: "getRecord (record_type (PR_intent_compilation r)) (getObjectId (PR_intent_compilation r)) (w_store w') =
      Some (buildRecord E (PR_intent_compilation r))"
    by (rule commitRecords_stores[OF assms(1) com]) (auto simp: recs)
  have rf: "getRecord (record_type (PR_refusal g)) (getObjectId (PR_refusal g)) (w_store w') = Some (buildRecord E (PR_refusal g))"
    if "f = Some g" for g
    by (rule commitRecords_stores[OF assms(1) com]) (auto simp: that)
  have "refusal_stored r (w_store w')" if rejected: "ca_candidateStatus (ic_candidateAction r) = CAS_rejected"
  proof -
    obtain g where g: "f = Some g" and build: "buildRefusal E (compilation_refusal_draft r) w = (Inr g, w1)"
      using f rejected by (auto elim!: tbind_InrE)
    have "rf_refusedObjectRef g = Some (protocolObjectRef ''intent_compilation'' (ic_intentCompilationId r)) \<and>
        rf_reasonCode g = hd (ca_refusalReasonCodes (ic_candidateAction r)) \<and> \<not> rf_authorityCreated g \<and> \<not> rf_mutationAttempted g"
      using build assms(3)[OF rejected]
      by (auto simp: buildRefusal_def compilation_refusal_draft_def Let_def split: list.splits)
    then show ?thesis
      unfolding refusal_stored_def using rf[OF g] by (intro exI[of _ g]) (simp add: find_payload_def)
  qed
  then show ?thesis using ic by (simp add: find_payload_def)
qed

lemma compileIntent_Inr:
  assumes "disciplined E" "compileIntent E i w = (Inr r, w')"
  shows "\<exists>x k. compile_input_valid E i \<and> compilation_view E i (icx_createdAt x) (w_store w) x \<and> compiled E x k r \<and>
     find_payload as_intent_compilation OT_intent_compilation (ic_intentCompilationId r) (w_store w') = Some r \<and>
     (\<not> contractable x \<longrightarrow> refusal_stored r (w_store w'))"
proof -
  obtain x k c w1 w2 w3 w4 es where valid: "compile_input_valid E i"
    and x: "getIntentCompilationContext E i w = (Inr x, w1)"
    and k: "deriveCandidateDecision x w1 = (Inr k, w2)" and c: "buildCandidateAction E x k w2 = (Inr c, w3)"
    and r: "buildIntentCompilationRecord E x k c w3 = (Inr r, w4)" and com: "commitIntentCompilation E x r w4 = (Inr es, w')"
    using assms(2) by (auto simp: compileIntent_def elim!: tbind_InrE)
  have comp: "compiled E x k r"
    using decision_Inr[OF k] buildCandidate_Inr[OF c] buildCompilation_Inr[OF r]
    by (auto simp: compiled_def compilation_of_def Let_def)
  have codes: "ca_refusalReasonCodes (ic_candidateAction r) \<noteq> []" if "ca_candidateStatus (ic_candidateAction r) = CAS_rejected"
    using compiled_candidate[OF comp] that by (auto split: if_splits)
  show ?thesis
    using compilation_context_Inr[OF x] commitCompilation_stores[OF assms(1) com codes] compiled_candidate(1)[OF comp] comp valid
    by (intro exI[of _ x] exI[of _ k]) auto
qed

end
