(* ===== verification/Proposal_Laws.thy ===== *)
theory Proposal_Laws
  imports Proposal Compilation_Laws
begin

text \<open>
  What a proposed contract rests on, that a recommendation is followed up at most once,
  and that a candidate which a compilation found contractable is accepted as long as
  the records it pinned have not changed.
\<close>

section \<open>Reads\<close>

lemma reads_failing [reads_only_intros]: "reads_only (failing f)"
  by (cases f) (simp_all add: failing_def reads_only_intros)

lemma failing_Inr [simp]: "failing f w = (Inr u, w') \<longleftrightarrow> f = None \<and> w' = w"
  by (cases f) (auto simp: failing_def)

lemma requiredTyped_Inr:
  "requiredTyped as t oid code w = (Inr p, w') \<longleftrightarrow>
     w' = w \<and> getRecord t oid (w_store w) = Some (fst p) \<and> as (st_payload (fst p)) = Some (snd p)"
  by (cases p) (auto simp: requiredTyped_def requiredRecord_def tbind_Inr_iff split: option.splits)

lemma optionalTyped_Inr:
  "optionalTyped as t ref code w = (Inr p, w') \<longleftrightarrow>
     w' = w \<and> p = (if truthy_ref ref then find_payload as t (ref_or ref []) (w_store w) else None) \<and>
     (truthy_ref ref \<longrightarrow> p \<noteq> None)"
  by (auto simp: optionalTyped_def tbind_Inr_iff requiredPayload_Inr)

lemma reads_proposal [reads_only_intros]:
  "reads_only (requiredTyped as t oid code)" "reads_only (optionalTyped as' t' ref code')"
  "reads_only (assertActionContractProposalContext E x)" "reads_only (buildActionContractRecord E x)"
  "reads_only (assertGatewayCredentialBindings k)" "reads_only (assertDelegatedAuthorityBindings k)"
  by (rule reads_onlyI; auto simp: requiredTyped_def requiredRecord_def tbind_def split: option.splits)
     (simp_all add: optionalTyped_def assertActionContractProposalContext_def buildActionContractRecord_def Let_def
        assertGatewayCredentialBindings_def assertDelegatedAuthorityBindings_def reads_only_intros)

lemma reads_proposal_context [reads_only_intros]: "reads_only (getActionContractProposalContext E i)"
  unfolding getActionContractProposalContext_def Let_def assertCandidateMatchesProposal_def
  by (intro reads_only_intros)

lemma reads_commit_plan [reads_only_intros]: "reads_only (buildActionContractCommitPlan E l k now)"
  by (cases l) (simp_all add: buildActionContractCommitPlan_def reads_only_intros)

section \<open>What a proposal reads\<close>

definition proposal_view :: "propose_input \<Rightarrow> pstore \<Rightarrow> proposal_context \<Rightarrow> bool" where
  "proposal_view i s x \<longleftrightarrow> (let c = pcx_candidate x in
     pcx_input x = i \<and> find_payload as_intent_compilation OT_intent_compilation (pci_intentCompilationId i) s = Some (pcx_compilation x) \<and>
     c = ic_candidateAction (pcx_compilation x) \<and> proposal_failure c (pci_candidateActionId i) (pci_candidateDigest i) = None \<and>
     getRecord OT_operating_envelope (ca_operatingEnvelopeId c) s = Some (fst (pcx_envelope x)) \<and>
     as_operating_envelope (st_payload (fst (pcx_envelope x))) = Some (snd (pcx_envelope x)) \<and>
     getRecord OT_gateway_registry_entry (ca_gatewayRegistryEntryId c) s = Some (fst (pcx_gateway x)) \<and>
     as_gateway_registry_entry (st_payload (fst (pcx_gateway x))) = Some (snd (pcx_gateway x)) \<and>
     getRecord OT_tool_capability (ca_toolCapabilityId c) s = Some (fst (pcx_tool x)) \<and>
     as_tool_capability (st_payload (fst (pcx_tool x))) = Some (snd (pcx_tool x)) \<and>
     getRecord OT_action_type (ca_actionTypeId c) s = Some (fst (pcx_actionType x)) \<and>
     as_action_type (st_payload (fst (pcx_actionType x))) = Some (snd (pcx_actionType x)) \<and>
     pcx_runtimeExecution x = (if truthy_ref (ca_runtimeExecutionId c)
       then find_payload as_runtime_execution OT_runtime_execution (ref_or (ca_runtimeExecutionId c) []) s else None) \<and>
     pcx_generatedExecutionGraph x = (if truthy_ref (ca_generatedExecutionGraphId c)
       then find_payload as_generated_execution_graph OT_generated_execution_graph (ref_or (ca_generatedExecutionGraphId c) []) s
       else None) \<and>
     (case pcx_recoveryLinkage x of
        None \<Rightarrow> \<not> truthy_ref (ca_recoveryRecommendationId c)
      | Some l \<Rightarrow> truthy_ref (ca_recoveryRecommendationId c) \<and>
          find_payload as_recovery_recommendation OT_recovery_recommendation (ref_or (ca_recoveryRecommendationId c) []) s =
            Some (rln_recommendation l)))"

lemma linkage_Inr:
  "loadRecoveryActionLinkage ref w = (Inr l, w') \<Longrightarrow> w' = w \<and> (case l of
      None \<Rightarrow> \<not> truthy_ref ref
    | Some x \<Rightarrow> truthy_ref ref \<and> find_payload as_recovery_recommendation OT_recovery_recommendation (ref_or ref []) (w_store w) =
        Some (rln_recommendation x))"
  by (auto simp: loadRecoveryActionLinkage_def requiredPayload_Inr split: if_splits elim!: tbind_InrE)

lemma proposal_context_Inr:
  assumes "getActionContractProposalContext E i w = (Inr x, w')"
  shows "w' = w \<and> proposal_view i (w_store w) x"
  using assms
  unfolding getActionContractProposalContext_def assertCandidateMatchesProposal_def Let_def
  by (elim tbind_InrE)
     (clarsimp simp only: requiredPayload_Inr requiredTyped_Inr optionalTyped_Inr failing_Inr treturn_apply prod.inject
         sum.inject, drule linkage_Inr, simp add: proposal_view_def Let_def)

section \<open>What a proposed contract rests on\<close>

definition built_contract :: "kernel_env \<Rightarrow> proposal_context \<Rightarrow> string \<Rightarrow> string \<Rightarrow> action_contract" where
  "built_contract E x now cid =
    (let i = pcx_input x; c = pcx_candidate x; ic = pcx_compilation x; v = snd (pcx_envelope x); g = snd (pcx_gateway x);
         y = snd (pcx_actionType x); l = pcx_recoveryLinkage x; binding = buildContractBinding i c ic v g y l now in
     contract_of i c ic v g y l now cid (digestCanonical E binding)
       (if truthy_ref (pci_signingSecret i) then Some (signCanonicalHmac E binding (ref_or (pci_signingSecret i) [])) else None))"

lemma build_contract_Inr:
  assumes "buildActionContractRecord E x w = (Inr (now, k), w')"
  shows "\<exists>cid. k = built_contract E x now cid \<and> action_contract_valid E k \<and>
     (\<forall>l. pcx_recoveryLinkage x = Some l \<longrightarrow> linkage_failure (followup_of (pcx_candidate x) (pcx_compilation x)) l now = None)"
  using assms
  by (auto simp: buildActionContractRecord_def built_contract_def assertRecoveryActionLinkage_def Let_def
      split: option.splits elim!: tbind_InrE)

lemma built_contract_fields:
  "ac_issuedAt (built_contract E x now cid) = now"
  "ac_gatewayCredentialRefs (built_contract E x now cid) = ca_gatewayCredentialRefs (pcx_candidate x)"
  "ac_delegatedAuthorityRefs (built_contract E x now cid) = ca_delegatedAuthorityRefs (pcx_candidate x)"
  "ac_recoveryRecommendationId (built_contract E x now cid) =
     map_option (rr_recoveryRecommendationId \<circ> rln_recommendation) (pcx_recoveryLinkage x)"
  "ac_paramsDigest (built_contract E x now cid) = ca_paramsDigest (pcx_candidate x)"
  "ac_parameters (built_contract E x now cid) = ca_parameters (pcx_candidate x)"
  "ac_secretRefs (built_contract E x now cid) = ca_secretRefs (pcx_candidate x)"
  by (simp_all add: built_contract_def contract_of_def Let_def)

lemma propose_Inr:
  assumes "disciplined E" "proposeActionContract E i w = (Inr k, w')"
  shows "\<exists>x cid. proposal_view i (w_store w) x \<and> proposal_context_failure E x = None \<and>
     k = built_contract E x (ac_issuedAt k) cid \<and> action_contract_valid E k \<and>
     (\<forall>b \<in> set (ac_gatewayCredentialRefs k). credential_bound k (ac_issuedAt k) (w_store w) b) \<and>
     (\<forall>b \<in> set (ac_delegatedAuthorityRefs k). authority_bound k (ac_issuedAt k) (w_store w) b) \<and>
     find_payload as_action_contract OT_action_contract (ac_actionContractId k) (w_store w') = Some k \<and>
     (\<forall>l. pcx_recoveryLinkage x = Some l \<longrightarrow>
        linkage_failure (followup_of (pcx_candidate x) (pcx_compilation x)) l (ac_issuedAt k) = None \<and>
        (\<exists>s. store_run (w_store w) s \<and> map_of (s_recovery s) (rr_recoveryRecommendationId (rln_recommendation l)) = None \<and>
           map_of (s_recovery (w_store w')) (rr_recoveryRecommendationId (rln_recommendation l)) \<noteq> None))"
proof -
  obtain x now s w1 w2 w3 w4 w5 where ctx: "getActionContractProposalContext E i w = (Inr x, w1)"
    and ok: "assertActionContractProposalContext E x w1 = (Inr (), w2)"
    and k: "buildActionContractRecord E x w2 = (Inr (now, k), w3)"
    and cred: "assertGatewayCredentialBindings k w3 = (Inr (), w4)"
    and auth: "assertDelegatedAuthorityBindings k w4 = (Inr (), w5)"
    and rest: "tbind (buildActionContractCommitPlan E (pcx_recoveryLinkage x) k now) (\<lambda>s.
       tbind (commitActionContractPlan E (pcx_recoveryLinkage x) k s) (\<lambda>_. treturn k)) w5 = (Inr k, w')"
    using assms(2) by (auto simp: proposeActionContract_def split: prod.splits elim!: tbind_InrE)
  obtain s w6 where plan: "buildActionContractCommitPlan E (pcx_recoveryLinkage x) k now w5 = (Inr s, w6)"
    and com: "commitActionContractPlan E (pcx_recoveryLinkage x) k s w6 = (Inr (), w')"
    using rest by (auto elim!: tbind_InrE)
  have same: "w_store w3 = w_store w" "w_store w4 = w_store w" "w_store w6 = w_store w"
    using reads_onlyD[OF reads_proposal(3) ok] reads_onlyD[OF reads_proposal(4) k] reads_onlyD[OF reads_proposal(5) cred]
      reads_onlyD[OF reads_proposal(6) auth] reads_onlyD[OF reads_commit_plan plan] proposal_context_Inr[OF ctx] by simp_all
  obtain cid where built: "k = built_contract E x now cid" and valid: "action_contract_valid E k"
    and link: "\<And>l. pcx_recoveryLinkage x = Some l \<Longrightarrow>
        linkage_failure (followup_of (pcx_candidate x) (pcx_compilation x)) l now = None"
    using build_contract_Inr[OF k] by blast
  have now: "now = ac_issuedAt k" using built by (simp add: built_contract_fields)
  obtain es where com: "commitRecordsWithEvents E (proposal_records k s) (proposal_events k (pcx_recoveryLinkage x) s)
        (no_options\<lparr>co_recoveryClaims := map sch_terminalClaim (opt_list s)\<rparr>) w6 = (Inr es, w')"
    using com by (auto simp: commitActionContractPlan_def tcatch_Inr record_conflict_fails split: option.splits elim!: tbind_InrE)
  have "getRecord (record_type (PR_action_contract k)) (getObjectId (PR_action_contract k)) (w_store w') =
      Some (buildRecord E (PR_action_contract k))"
    by (rule commitRecords_stores[OF assms(1) com]) (auto simp: proposal_records_def statusChangeRecords_def split: option.splits)
  then have stored: "find_payload as_action_contract OT_action_contract (ac_actionContractId k) (w_store w') = Some k"
    by (simp add: find_payload_def)
  have claim: "\<exists>s. store_run (w_store w) s \<and> map_of (s_recovery s) (rr_recoveryRecommendationId (rln_recommendation l)) = None \<and>
      map_of (s_recovery (w_store w')) (rr_recoveryRecommendationId (rln_recommendation l)) \<noteq> None"
    if link: "pcx_recoveryLinkage x = Some l" for l
  proof -
    obtain sc where s: "s = Some sc" and "buildRecoveryRecommendationStatusChange E (followup_change l k now) w5 = (Inr sc, w6)"
      using plan link by (auto simp: buildActionContractCommitPlan_def elim!: tbind_InrE)
    then have "rt_recoveryRecommendationId (sch_terminalClaim sc) = rr_recoveryRecommendationId (rln_recommendation l)"
      using status_change_Inr by (fastforce simp: followup_change_def)
    then show ?thesis using commit_claims_recovery[OF assms(1), of _ _ "sch_terminalClaim sc"] com s same(3) by fastforce
  qed
  show ?thesis
    using proposal_context_Inr[OF ctx] ok built valid link claim stored now cred auth same
    by (intro exI[of _ x] exI[of _ cid])
       (auto simp: assertActionContractProposalContext_def assertGatewayCredentialBindings_def assertDelegatedAuthorityBindings_def
          evaluateGatewayCredentialBindings_ok evaluateDelegatedAuthorityBindings_ok elim!: tbind_InrE)
qed

section \<open>One follow-up\<close>

lemma propose_claims:
  assumes "disciplined E" "proposeActionContract E i w = (Inr k, w')" "ac_recoveryRecommendationId k = Some rid"
  shows "\<exists>s. store_run (w_store w) s \<and> map_of (s_recovery s) rid = None \<and> map_of (s_recovery (w_store w')) rid \<noteq> None"
proof -
  obtain x cid where k: "k = built_contract E x (ac_issuedAt k) cid"
    and claim: "\<forall>l. pcx_recoveryLinkage x = Some l \<longrightarrow>
        linkage_failure (followup_of (pcx_candidate x) (pcx_compilation x)) l (ac_issuedAt k) = None \<and>
        (\<exists>s. store_run (w_store w) s \<and> map_of (s_recovery s) (rr_recoveryRecommendationId (rln_recommendation l)) = None \<and>
           map_of (s_recovery (w_store w')) (rr_recoveryRecommendationId (rln_recommendation l)) \<noteq> None)"
    using propose_Inr[OF assms(1,2)] by blast
  have "map_option (rr_recoveryRecommendationId \<circ> rln_recommendation) (pcx_recoveryLinkage x) = Some rid"
    using assms(3) built_contract_fields(4)[of E x "ac_issuedAt k" cid] k by simp
  then show ?thesis using claim by auto
qed

lemma one_followup:
  assumes E: "disciplined E" and one: "proposeActionContract E i w = (Inr k, w1)" "ac_recoveryRecommendationId k = Some rid"
    and later: "store_run (w_store w1) (w_store w2)" and two: "proposeActionContract E j w2 = (Inr k', w3)"
  shows "ac_recoveryRecommendationId k' \<noteq> Some rid"
proof
  assume "ac_recoveryRecommendationId k' = Some rid"
  then obtain s where "store_run (w_store w2) s" "map_of (s_recovery s) rid = None"
    using propose_claims[OF E two] by blast
  then show False
    using propose_claims[OF E one] recovery_claim.claimed_forever[OF rtranclp_trans[OF later]] by blast
qed

section \<open>A contract is pinned to what is stored\<close>

definition pinned_to :: "kernel_env \<Rightarrow> pstore \<Rightarrow> action_contract \<Rightarrow> bool" where
  "pinned_to E s k \<longleftrightarrow> (\<exists>ic c v g t y.
     find_payload as_intent_compilation OT_intent_compilation (ac_intentCompilationId k) s = Some ic \<and>
     c = ic_candidateAction ic \<and> ca_candidateStatus c = CAS_contractable \<and> ca_candidateDigest c = Some (ac_candidateDigest k) \<and>
     ic_uncertaintyMarkers ic = [] \<and> ic_overreachReasonCodes ic = [] \<and>
     getRecord OT_operating_envelope (ca_operatingEnvelopeId c) s = Some v \<and> st_canonicalDigest v = ac_operatingEnvelopeDigest k \<and>
     getRecord OT_gateway_registry_entry (ca_gatewayRegistryEntryId c) s = Some g \<and>
     st_canonicalDigest g = ac_gatewayRegistryDigest k \<and>
     getRecord OT_tool_capability (ac_toolCapabilityId k) s = Some t \<and> st_canonicalDigest t = ac_toolCapabilityDigest k \<and>
     getRecord OT_action_type (ac_actionTypeId k) s = Some y \<and> st_canonicalDigest y = ac_actionTypeDigest k \<and>
     tenantId k = tenantId ic \<and> organizationId k = organizationId ic \<and> ac_principalId k = ic_principalId ic \<and>
     ac_gatewayId k = ca_gatewayId c) \<and>
   ac_paramsDigest k = protectedActionParamsDigest E (ac_parameters k) (ac_secretRefs k)
     (map gateway_credential_binding_json (ac_gatewayCredentialRefs k))
     (map delegated_authority_binding_json (ac_delegatedAuthorityRefs k))"

lemma pin_ok: "pin_failure current pinned = None \<longleftrightarrow> pinned = Some current \<and> current \<noteq> []"
  by (auto simp: pin_failure_def truthy_ref_def)

lemma guardActionProposal_ok:
  "guardActionProposal p = Inr () \<longleftrightarrow> (let ic = pgd_compilation p; v = pgd_envelope p; g = pgd_gateway p in
     ic_uncertaintyMarkers ic = [] \<and> ic_overreachReasonCodes ic = [] \<and>
     ic_operatingEnvelopeId ic = oe_envelopeId v \<and> pgd_envelopeId p = oe_envelopeId v \<and> gr_gatewayId g = pgd_gatewayId p \<and>
     gr_receiptCapabilityStatus g = CAPS_available \<and> gr_isolationCheckCapabilityStatus g = CAPS_available \<and>
     pgd_tenantId p = tenantId ic \<and> pgd_tenantId p = tenantId v \<and> pgd_tenantId p = tenantId g \<and>
     pgd_organizationId p = organizationId ic \<and> pgd_organizationId p = organizationId v \<and> pgd_organizationId p = organizationId g \<and>
     pgd_principalId p = ic_principalId ic \<and> pgd_principalId p = oe_principalId v \<and>
     pgd_agentId p = ic_agentId ic \<and> pgd_agentId p = oe_agentId v \<and> pgd_runId p = ic_runId ic)"
  by (auto simp: guardActionProposal_def Let_def guard_ok_def guard_fail_def)

lemma context_ok:
  "proposal_context_failure E x = None \<longleftrightarrow> (let c = pcx_candidate x in
     pin_failure (st_canonicalDigest (fst (pcx_envelope x))) (ca_operatingEnvelopeDigest c) = None \<and>
     pin_failure (st_canonicalDigest (fst (pcx_gateway x))) (ca_gatewayRegistryDigest c) = None \<and>
     pin_failure (st_canonicalDigest (fst (pcx_tool x))) (ca_toolCapabilityDigest c) = None \<and>
     pin_failure (st_canonicalDigest (fst (pcx_actionType x))) (ca_actionTypeDigest c) = None \<and>
     runtime_pin_failure c (pcx_runtimeExecution x) = None \<and> graph_pin_failure c (pcx_generatedExecutionGraph x) = None \<and>
     params_failure E c = None \<and> guardActionProposal (proposal_guard_of x) = Inr ())"
  unfolding proposal_context_failure_def Let_def first_failure_None
  by (auto split: sum.splits)

lemmas context_guard = context_ok[THEN iffD1, unfolded Let_def, THEN conjunct2, THEN conjunct2, THEN conjunct2,
  THEN conjunct2, THEN conjunct2, THEN conjunct2, THEN conjunct2, unfolded guardActionProposal_ok]

lemma built_contract_scope:
  "ac_intentCompilationId (built_contract E x now cid) = pci_intentCompilationId (pcx_input x)"
  "ac_candidateDigest (built_contract E x now cid) = pci_candidateDigest (pcx_input x)"
  "ac_operatingEnvelopeDigest (built_contract E x now cid) = ref_or (ca_operatingEnvelopeDigest (pcx_candidate x)) []"
  "ac_gatewayRegistryDigest (built_contract E x now cid) = ref_or (ca_gatewayRegistryDigest (pcx_candidate x)) []"
  "ac_toolCapabilityDigest (built_contract E x now cid) = ref_or (ca_toolCapabilityDigest (pcx_candidate x)) []"
  "ac_actionTypeDigest (built_contract E x now cid) = ref_or (ca_actionTypeDigest (pcx_candidate x)) []"
  "ac_toolCapabilityId (built_contract E x now cid) = ca_toolCapabilityId (pcx_candidate x)"
  "ac_actionTypeId (built_contract E x now cid) = ca_actionTypeId (pcx_candidate x)"
  "tenantId (built_contract E x now cid) = tenantId (pcx_compilation x)"
  "organizationId (built_contract E x now cid) = organizationId (pcx_compilation x)"
  "ac_principalId (built_contract E x now cid) = ic_principalId (pcx_compilation x)"
  "ac_gatewayId (built_contract E x now cid) = gr_gatewayId (snd (pcx_gateway x))"
  by (simp_all add: built_contract_def contract_of_def Let_def)

lemma built_contract_pinned:
  assumes "proposal_view i s x" "proposal_context_failure E x = None"
  shows "pinned_to E s (built_contract E x now cid)"
proof -
  have status: "ca_candidateStatus (pcx_candidate x) = CAS_contractable"
      "ca_candidateDigest (pcx_candidate x) = Some (pci_candidateDigest i)"
    using assms(1) by (auto simp: proposal_view_def proposal_failure_def Let_def split: if_splits)
  have pins: "ca_operatingEnvelopeDigest (pcx_candidate x) = Some (st_canonicalDigest (fst (pcx_envelope x)))"
      "ca_gatewayRegistryDigest (pcx_candidate x) = Some (st_canonicalDigest (fst (pcx_gateway x)))"
      "ca_toolCapabilityDigest (pcx_candidate x) = Some (st_canonicalDigest (fst (pcx_tool x)))"
      "ca_actionTypeDigest (pcx_candidate x) = Some (st_canonicalDigest (fst (pcx_actionType x)))"
    using assms(2) by (simp_all add: context_ok pin_ok Let_def)
  have guard: "ic_uncertaintyMarkers (pcx_compilation x) = []" "ic_overreachReasonCodes (pcx_compilation x) = []"
      "gr_gatewayId (snd (pcx_gateway x)) = ca_gatewayId (pcx_candidate x)"
    using context_guard[OF assms(2)] by (simp_all add: proposal_guard_of_def Let_def)
  have params: "ca_paramsDigest (pcx_candidate x) = protectedActionParamsDigest E (ca_parameters (pcx_candidate x))
      (ca_secretRefs (pcx_candidate x)) (map gateway_credential_binding_json (ca_gatewayCredentialRefs (pcx_candidate x)))
      (map delegated_authority_binding_json (ca_delegatedAuthorityRefs (pcx_candidate x)))"
    using assms(2) by (simp add: context_ok params_failure_def Let_def split: if_splits)
  have view: "find_payload as_intent_compilation OT_intent_compilation (pci_intentCompilationId i) s = Some (pcx_compilation x)"
      "pcx_input x = i" "pcx_candidate x = ic_candidateAction (pcx_compilation x)"
      "getRecord OT_operating_envelope (ca_operatingEnvelopeId (pcx_candidate x)) s = Some (fst (pcx_envelope x))"
      "getRecord OT_gateway_registry_entry (ca_gatewayRegistryEntryId (pcx_candidate x)) s = Some (fst (pcx_gateway x))"
      "getRecord OT_tool_capability (ca_toolCapabilityId (pcx_candidate x)) s = Some (fst (pcx_tool x))"
      "getRecord OT_action_type (ca_actionTypeId (pcx_candidate x)) s = Some (fst (pcx_actionType x))"
    by (insert assms(1), unfold proposal_view_def Let_def, (elim conjE, assumption)+)
  show ?thesis
    unfolding pinned_to_def built_contract_scope built_contract_fields
    by (rule conjI, rule exI[of _ "pcx_compilation x"], rule exI[of _ "pcx_candidate x"], rule exI[of _ "fst (pcx_envelope x)"],
        rule exI[of _ "fst (pcx_gateway x)"], rule exI[of _ "fst (pcx_tool x)"], rule exI[of _ "fst (pcx_actionType x)"])
       (simp_all only: view(1,2,4-) view(3)[symmetric] status guard pins params ref_or_def option.simps simp_thms)
qed

lemma proposed_contract_rests:
  assumes "disciplined E" "proposeActionContract E i w = (Inr k, w')"
  shows "pinned_to E (w_store w) k \<and>
     (\<forall>b \<in> set (ac_gatewayCredentialRefs k). credential_bound k (ac_issuedAt k) (w_store w) b) \<and>
     (\<forall>b \<in> set (ac_delegatedAuthorityRefs k). authority_bound k (ac_issuedAt k) (w_store w) b) \<and>
     find_payload as_action_contract OT_action_contract (ac_actionContractId k) (w_store w') = Some k"
  using propose_Inr[OF assms] built_contract_pinned by metis

section \<open>Compiled candidates are accepted\<close>

definition same_records :: "compilation_context \<Rightarrow> proposal_context \<Rightarrow> bool" where
  "same_records x p \<longleftrightarrow>
     icx_envelopeRecord x = Some (fst (pcx_envelope p)) \<and> icx_envelope x = Some (snd (pcx_envelope p)) \<and>
     icx_gatewayRecord x = Some (fst (pcx_gateway p)) \<and> icx_gateway x = Some (snd (pcx_gateway p)) \<and>
     icx_toolRecord x = Some (fst (pcx_tool p)) \<and> icx_actionTypeRecord x = Some (fst (pcx_actionType p)) \<and>
     pcx_runtimeExecution p = icx_runtimeExecution x \<and> pcx_generatedExecutionGraph p = icx_generatedExecutionGraph x"

lemma pinned_truthy: "opt_ok digest_ok d \<Longrightarrow> d = Some a \<Longrightarrow> a \<noteq> []"
  by (auto simp: opt_ok_def digest_ok_def)

text \<open>What the candidate of a contractable compilation pins.\<close>

lemma compiled_pins:
  assumes "compiled E x k r" "contractable x" "c = ic_candidateAction r"
  shows "ca_operatingEnvelopeDigest c = map_option st_canonicalDigest (icx_envelopeRecord x)"
    "ca_gatewayRegistryDigest c = map_option st_canonicalDigest (icx_gatewayRecord x)"
    "ca_toolCapabilityDigest c = map_option st_canonicalDigest (icx_toolRecord x)"
    "ca_actionTypeDigest c = map_option st_canonicalDigest (icx_actionTypeRecord x)"
    "ca_runtimeExecutionId c = map_option rx_runtimeExecutionId (icx_runtimeExecution x)"
    "ca_runtimeExecutionDigest c = map_option rx_runtimeExecutionDigest (icx_runtimeExecution x)"
    "ca_generatedExecutionGraphDigest c = map_option gx_graphDigest (icx_generatedExecutionGraph x)"
    "ca_generatedExecutionCoverageStatus c = map_option gx_coverageStatus (icx_generatedExecutionGraph x)"
    "ca_generatedExecutionNodeId c = map_option gxn_nodeId (fst (candidate_coverage x))"
    "ca_generatedExecutionNodeDigest c = map_option gxn_nodeDigest (fst (candidate_coverage x))"
    "ca_generatedExecutionNodeGatewayBindingDigest c = Option.bind (fst (candidate_coverage x)) gxn_nodeGatewayBindingDigest"
    "ca_paramsDigest c = icx_paramsDigest x" "candidate_action_valid E c"
  using assms by (auto simp: compiled_def compilation_of_def decided_candidate_def candidate_action_of_def Let_def)

lemma compiled_scope:
  assumes "compiled E x k r" "c = ic_candidateAction r"
  shows "tenantId r = cii_tenantId (icx_input x)" "organizationId r = cii_organizationId (icx_input x)"
    "ic_principalId r = cii_principalId (icx_input x)" "ic_agentId r = cii_agentId (icx_input x)"
    "ic_operatingEnvelopeId r = cii_operatingEnvelopeId (icx_input x)"
    "ca_operatingEnvelopeId c = cii_operatingEnvelopeId (icx_input x)"
    "ca_gatewayId c = cci_gatewayId (cii_candidate (icx_input x))"
    "ca_parameters c = cci_parameters (cii_candidate (icx_input x))"
    "ca_secretRefs c = cci_secretRefs (cii_candidate (icx_input x))"
    "ca_gatewayCredentialRefs c = cci_gatewayCredentialRefs (cii_candidate (icx_input x))"
    "ca_delegatedAuthorityRefs c = cci_delegatedAuthorityRefs (cii_candidate (icx_input x))"
  using assms by (auto simp: compiled_def compilation_of_def decided_candidate_def candidate_action_of_def Let_def)

lemma coverage_node:
  assumes "contractable x" "icx_generatedExecutionGraph x = Some graph"
  shows "\<exists>run n. icx_runtimeExecution x = Some run \<and> candidate_coverage x = (Some n, []) \<and>
     find (\<lambda>m. gxn_nodeId m = gxn_nodeId n) (gx_nodes graph) = Some n \<and>
     gx_runtimeExecutionId graph = rx_runtimeExecutionId run \<and> gx_runtimeExecutionDigest graph = rx_runtimeExecutionDigest run \<and>
     gx_coverageStatus graph = GECS_fully_covered_no_unsupported_nodes"
proof -
  obtain run n where run: "icx_runtimeExecution x = Some run" and adm: "graph_admits (icx_input x) (icx_paramsDigest x) run graph n"
    using assms by (auto simp: contractable_def Let_def)
  have "snd (candidate_coverage x) = []" using adm run assms(2) by (auto simp: candidate_coverage_empty)
  moreover have "fst (candidate_coverage x) = Some n"
    using adm run assms(2)
    by (auto simp: candidate_coverage_def deriveGeneratedExecutionCoverage_def graph_admits_def Let_def)
  ultimately have "candidate_coverage x = (Some n, [])" by (simp add: prod_eq_iff)
  then show ?thesis using run adm by (auto simp: graph_admits_def)
qed

lemma accepted_pins:
  assumes "compiled E x k r" "contractable x" "same_records x p" "pcx_candidate p = ic_candidateAction r"
  shows "pin_failure (st_canonicalDigest (fst (pcx_envelope p))) (ca_operatingEnvelopeDigest (pcx_candidate p)) = None"
    "pin_failure (st_canonicalDigest (fst (pcx_gateway p))) (ca_gatewayRegistryDigest (pcx_candidate p)) = None"
    "pin_failure (st_canonicalDigest (fst (pcx_tool p))) (ca_toolCapabilityDigest (pcx_candidate p)) = None"
    "pin_failure (st_canonicalDigest (fst (pcx_actionType p))) (ca_actionTypeDigest (pcx_candidate p)) = None"
    "runtime_pin_failure (pcx_candidate p) (pcx_runtimeExecution p) = None"
  using compiled_pins[OF assms(1,2,4)] assms(3)
  by (auto simp: same_records_def pin_ok candidate_action_valid_def runtime_pin_failure_def digest_ok_def split: option.splits)

lemma accepted_graph:
  assumes "compiled E x k r" "contractable x" "same_records x p" "pcx_candidate p = ic_candidateAction r"
  shows "graph_pin_failure (pcx_candidate p) (pcx_generatedExecutionGraph p) = None"
proof (cases "icx_generatedExecutionGraph x")
  case None
  then show ?thesis using assms(3) by (simp add: same_records_def graph_pin_failure_def)
next
  case (Some graph)
  note pins = compiled_pins[OF assms(1,2,4)]
  have "gx_graphDigest graph \<noteq> []"
    using pins(7,13) Some by (auto simp: candidate_action_valid_def digest_ok_def)
  then show ?thesis
    using coverage_node[OF assms(2) Some] pins Some assms(3)
    by (auto simp: same_records_def graph_pin_failure_def graph_failure_def pin_failure_def truthy_ref_def)
qed

lemma accepted_params:
  assumes "compiled E x k r" "pcx_candidate p = ic_candidateAction r" "contractable x"
    "icx_paramsDigest x = candidate_params_digest E (cii_candidate (icx_input x))"
  shows "params_failure E (pcx_candidate p) = None"
  using compiled_pins(12)[OF assms(1,3,2)] compiled_scope[OF assms(1,2)] assms(4)
  by (simp add: params_failure_def candidate_params_digest_def)

lemma compiled_candidate_accepted:
  assumes comp: "compiled E x k r" "contractable x" "compilation_view E i (icx_createdAt x) s x"
    and loads: "pcx_compilation p = r" "pcx_candidate p = ic_candidateAction r" "same_records x p"
  shows "proposal_context_failure E p = None \<longleftrightarrow>
     oe_envelopeId (snd (pcx_envelope p)) = cii_operatingEnvelopeId i \<and>
     gr_receiptCapabilityStatus (snd (pcx_gateway p)) = CAPS_available \<and>
     gr_isolationCheckCapabilityStatus (snd (pcx_gateway p)) = CAPS_available"
proof -
  have i: "icx_input x = i" and params: "icx_paramsDigest x = candidate_params_digest E (cii_candidate (icx_input x))"
    using comp(3) by (auto simp: compilation_view_def Let_def)
  have adm: "catalog_admits i y (snd (pcx_gateway p))" "envelope_admits i (icx_createdAt x) (snd (pcx_envelope p))"
    if "icx_actionType x = Some y" for y
    using comp(2) loads(3) that i by (auto simp: contractable_def same_records_def Let_def)
  have "\<exists>y. icx_actionType x = Some y" using comp(2) by (auto simp: contractable_def Let_def)
  then have adm: "gr_gatewayId (snd (pcx_gateway p)) = cci_gatewayId (cii_candidate i)"
      "\<not> foreign_to i (Some (snd (pcx_gateway p)))" "\<not> foreign_to i (Some (snd (pcx_envelope p)))"
      "oe_principalId (snd (pcx_envelope p)) = cii_principalId i" "oe_agentId (snd (pcx_envelope p)) = cii_agentId i"
    using adm by (auto simp: catalog_admits_def envelope_admits_def Let_def)
  have clean: "ic_uncertaintyMarkers r = []" "ic_overreachReasonCodes r = []"
    using compiled_candidate(3)[OF comp(1)] comp(2) by auto
  have guard: "guardActionProposal (proposal_guard_of p) = Inr () \<longleftrightarrow>
      oe_envelopeId (snd (pcx_envelope p)) = cii_operatingEnvelopeId i \<and>
      gr_receiptCapabilityStatus (snd (pcx_gateway p)) = CAPS_available \<and>
      gr_isolationCheckCapabilityStatus (snd (pcx_gateway p)) = CAPS_available"
    using compiled_scope[OF comp(1) loads(2)] loads(1) clean adm i
    by (auto simp: guardActionProposal_ok proposal_guard_of_def foreign_to_def Let_def)
  show ?thesis
    using accepted_pins[OF comp(1,2) loads(3,2)] accepted_graph[OF comp(1,2) loads(3,2)]
      accepted_params[OF comp(1) loads(2) comp(2) params] guard
    by (simp add: context_ok Let_def)
qed

end
