(* ===== verification/Drafts.thy ===== *)
theory Drafts
  imports Schemas_Safe Payloads Ledger Recovery_Laws
begin

text \<open>
  Evidence of a run before any contract: the record of a runtime execution
  (\<open>runtime-evidence/transitions.ts\<close>) and the draft of a tool call with its state
  machine (\<open>tool-call-draft/transitions.ts\<close>).
\<close>

section \<open>Runtime executions\<close>

record create_run_input =
  rxi_tenantId :: "string"
  rxi_organizationId :: "string"
  rxi_principalIntentRef :: "string"
  rxi_principalId :: "string"
  rxi_agentId :: "string"
  rxi_runId :: "string"
  rxi_runtimeAdapterId :: "string"
  rxi_executionShape :: "runtime_execution_shape"
  rxi_runtimePosture :: "runtime_posture"
  rxi_executionBlockRef :: "string"
  rxi_executionBlockDigest :: "string"
  rxi_generatedCodeOrSpecRefs :: "string list"
  rxi_allowedToolCapabilityIds :: "string list"
  rxi_observedToolCallRefs :: "string list"
  rxi_observedConsequentialCallCount :: "int"
  rxi_loopDetected :: "bool"
  rxi_retryDetected :: "bool"
  rxi_branchDetected :: "bool"
  rxi_dynamicToolConstructionDetected :: "bool"
  rxi_unobservedRegionRefs :: "string list"
  rxi_accessPosture :: "runtime_access_posture"
  rxi_uncertaintyMarkers :: "string list"
  rxi_refusalReasonCodes :: "string list"
  rxi_evidenceRefs :: "string list"

definition create_run_input_valid :: "create_run_input \<Rightarrow> bool" where
  "create_run_input_valid i \<longleftrightarrow>
     1 \<le> length (rxi_tenantId i) \<and>
     1 \<le> length (rxi_organizationId i) \<and>
     1 \<le> length (rxi_principalIntentRef i) \<and>
     1 \<le> length (rxi_principalId i) \<and>
     1 \<le> length (rxi_agentId i) \<and>
     1 \<le> length (rxi_runId i) \<and>
     1 \<le> length (rxi_runtimeAdapterId i) \<and>
     1 \<le> length (rxi_executionBlockRef i) \<and>
     digest_ok (rxi_executionBlockDigest i) \<and>
     list_all (\<lambda>x. 1 \<le> length x) (rxi_generatedCodeOrSpecRefs i) \<and>
     list_all (\<lambda>x. 1 \<le> length x) (rxi_allowedToolCapabilityIds i) \<and>
     list_all (\<lambda>x. 1 \<le> length x) (rxi_observedToolCallRefs i) \<and>
     0 \<le> (rxi_observedConsequentialCallCount i) \<and>
     list_all (\<lambda>x. 1 \<le> length x) (rxi_unobservedRegionRefs i) \<and>
     list_all (\<lambda>x. 1 \<le> length x) (rxi_uncertaintyMarkers i) \<and>
     list_all (\<lambda>x. 2 \<le> length x) (rxi_refusalReasonCodes i) \<and>
     list_all (\<lambda>x. 1 \<le> length x) (rxi_evidenceRefs i)"


definition runtimeExecutionDigestMaterial :: "create_run_input \<Rightarrow> jval" where
  "runtimeExecutionDigestMaterial i = JObj
     [(''tenantId'', JStr (rxi_tenantId i)), (''organizationId'', JStr (rxi_organizationId i)),
      (''principalIntentRef'', JStr (rxi_principalIntentRef i)), (''principalId'', JStr (rxi_principalId i)),
      (''agentId'', JStr (rxi_agentId i)), (''runId'', JStr (rxi_runId i)),
      (''runtimeAdapterId'', JStr (rxi_runtimeAdapterId i)),
      (''executionShape'', JStr (runtime_execution_shape_str (rxi_executionShape i))),
      (''runtimePosture'', JStr (runtime_posture_str (rxi_runtimePosture i))),
      (''executionBlockRef'', JStr (rxi_executionBlockRef i)),
      (''executionBlockDigest'', JStr (rxi_executionBlockDigest i)),
      (''generatedCodeOrSpecRefs'', JArr (map JStr (rxi_generatedCodeOrSpecRefs i))),
      (''allowedToolCapabilityIds'', JArr (map JStr (rxi_allowedToolCapabilityIds i))),
      (''observedToolCallRefs'', JArr (map JStr (rxi_observedToolCallRefs i))),
      (''observedConsequentialCallCount'', JInt (rxi_observedConsequentialCallCount i)),
      (''loopDetected'', JBool (rxi_loopDetected i)), (''retryDetected'', JBool (rxi_retryDetected i)),
      (''branchDetected'', JBool (rxi_branchDetected i)),
      (''dynamicToolConstructionDetected'', JBool (rxi_dynamicToolConstructionDetected i)),
      (''unobservedRegionRefs'', JArr (map JStr (rxi_unobservedRegionRefs i))),
      (''accessPosture'', JStr (runtime_access_posture_str (rxi_accessPosture i))),
      (''uncertaintyMarkers'', JArr (map JStr (rxi_uncertaintyMarkers i))),
      (''refusalReasonCodes'', JArr (map JStr (rxi_refusalReasonCodes i))),
      (''evidenceRefs'', JArr (map JStr (rxi_evidenceRefs i)))]"

definition run_of :: "create_run_input \<Rightarrow> string \<Rightarrow> string \<Rightarrow> string \<Rightarrow> runtime_execution" where
  "run_of i now rid digest =
     \<lparr>schemaVersion = PROTOCOL_VERSION, tenantId = rxi_tenantId i, organizationId = rxi_organizationId i,
      createdAt = now, rx_runtimeExecutionId = rid, rx_principalIntentRef = rxi_principalIntentRef i,
      rx_principalId = rxi_principalId i, rx_agentId = rxi_agentId i, rx_runId = rxi_runId i,
      rx_runtimeAdapterId = rxi_runtimeAdapterId i, rx_executionShape = rxi_executionShape i,
      rx_runtimePosture = rxi_runtimePosture i, rx_executionBlockRef = rxi_executionBlockRef i,
      rx_executionBlockDigest = rxi_executionBlockDigest i,
      rx_generatedCodeOrSpecRefs = rxi_generatedCodeOrSpecRefs i,
      rx_allowedToolCapabilityIds = rxi_allowedToolCapabilityIds i,
      rx_observedToolCallRefs = rxi_observedToolCallRefs i,
      rx_observedConsequentialCallCount = rxi_observedConsequentialCallCount i,
      rx_loopDetected = rxi_loopDetected i, rx_retryDetected = rxi_retryDetected i,
      rx_branchDetected = rxi_branchDetected i,
      rx_dynamicToolConstructionDetected = rxi_dynamicToolConstructionDetected i,
      rx_unobservedRegionRefs = rxi_unobservedRegionRefs i, rx_accessPosture = rxi_accessPosture i,
      rx_uncertaintyMarkers = rxi_uncertaintyMarkers i, rx_refusalReasonCodes = rxi_refusalReasonCodes i,
      rx_evidenceRefs = rxi_evidenceRefs i, rx_runtimeExecutionDigest = digest\<rparr>"

definition buildRuntimeExecutionRecord :: "kernel_env \<Rightarrow> create_run_input \<Rightarrow> runtime_execution wtr" where
  "buildRuntimeExecutionRecord E i =
     tbind (nowIso E) (\<lambda>now.
     tbind (createId E ''rex'') (\<lambda>rid.
     tparse (runtime_execution_valid E) (run_of i now rid (digestCanonical E (runtimeExecutionDigestMaterial i)))))"

definition runtimeExecutionEvents :: "runtime_execution \<Rightarrow> event_descriptor list" where
  "runtimeExecutionEvents r =
     [\<lparr>ed_source = protocol_base.truncate r, ed_eventType = ET_runtime_execution_recorded,
       ed_objectRefs = [rx_runtimeExecutionId r, rx_runtimeExecutionDigest r],
       ed_payload = [(''executionShape'', JStr (runtime_execution_shape_str (rx_executionShape r))),
      (''runtimePosture'', JStr (runtime_posture_str (rx_runtimePosture r))),
      (''observedConsequentialCallCount'', JInt (rx_observedConsequentialCallCount r)),
      (''dynamicToolConstructionDetected'', JBool (rx_dynamicToolConstructionDetected r))],
       ed_streamRefs = None\<rparr>]"

definition createRuntimeExecution :: "kernel_env \<Rightarrow> create_run_input \<Rightarrow> runtime_execution wtr" where
  "createRuntimeExecution E input =
     tbind (tparse create_run_input_valid input) (\<lambda>i.
     tbind (buildRuntimeExecutionRecord E i) (\<lambda>r.
     tbind (commitRecordsWithEvents E [PR_runtime_execution r] (runtimeExecutionEvents r) no_options) (\<lambda>_.
     treturn r)))"

section \<open>Drafts of tool calls\<close>

record create_draft_input =
  tdi_tenantId :: "string"
  tdi_organizationId :: "string"
  tdi_runtimeExecutionId :: "string option"
  tdi_generatedExecutionGraphId :: "string option"
  tdi_generatedExecutionNodeId :: "string option"
  tdi_toolCapabilityId :: "string"
  tdi_actionTypeId :: "string"
  tdi_gatewayRegistryEntryId :: "string"
  tdi_actionClass :: "string"
  tdi_gatewayId :: "string"
  tdi_resourceRef :: "string"
  tdi_draftState :: "string"
  tdi_parameters :: "(string \<times> jval) list"
  tdi_nonSecretParamsSummary :: "(string \<times> jval) list"
  tdi_secretRefs :: "(string \<times> string) list"
  tdi_gatewayCredentialRefs :: "gateway_credential_binding list"
  tdi_delegatedAuthorityRefs :: "delegated_authority_binding list"
  tdi_expiresAt :: "string"
  tdi_invalidReasonCodes :: "string list"
  tdi_evidenceRefs :: "string list"

definition create_draft_input_valid :: "'e env_scheme \<Rightarrow> create_draft_input \<Rightarrow> bool" where
  "create_draft_input_valid E i \<longleftrightarrow>
     1 \<le> length (tdi_tenantId i) \<and>
     1 \<le> length (tdi_organizationId i) \<and>
     opt_ok (\<lambda>x. 1 \<le> length x) (tdi_runtimeExecutionId i) \<and>
     opt_ok (\<lambda>x. 1 \<le> length x) (tdi_generatedExecutionGraphId i) \<and>
     opt_ok (\<lambda>x. 1 \<le> length x) (tdi_generatedExecutionNodeId i) \<and>
     1 \<le> length (tdi_toolCapabilityId i) \<and>
     1 \<le> length (tdi_actionTypeId i) \<and>
     1 \<le> length (tdi_gatewayRegistryEntryId i) \<and>
     1 \<le> length (tdi_actionClass i) \<and>
     1 \<le> length (tdi_gatewayId i) \<and>
     1 \<le> length (tdi_resourceRef i) \<and>
     (tdi_draftState i) = ''opened'' \<and>
     list_all (\<lambda>f. 1 \<le> length (snd f)) (tdi_secretRefs i) \<and>
     list_all (gateway_credential_binding_valid E) (tdi_gatewayCredentialRefs i) \<and>
     list_all (delegated_authority_binding_valid E) (tdi_delegatedAuthorityRefs i) \<and>
     iso_ok E (tdi_expiresAt i) \<and>
     list_all (\<lambda>x. 2 \<le> length x) (tdi_invalidReasonCodes i) \<and>
     list_all (\<lambda>x. 1 \<le> length x) (tdi_evidenceRefs i)"


definition draft_params_digest ::
  "'e env_scheme \<Rightarrow> (string \<times> jval) list \<Rightarrow> (string \<times> string) list \<Rightarrow> gateway_credential_binding list \<Rightarrow>
   delegated_authority_binding list \<Rightarrow> string" where
  "draft_params_digest E p s cs as = protectedActionParamsDigest E p s (map gateway_credential_binding_json cs)
     (map delegated_authority_binding_json as)"

definition toolCallDraftDigestMaterial :: "create_draft_input \<Rightarrow> string \<Rightarrow> string \<Rightarrow> jval" where
  "toolCallDraftDigestMaterial i pd did = JObj
     [(''toolCallDraftId'', JStr did), (''runtimeExecutionId'', j_opt JStr (tdi_runtimeExecutionId i)),
      (''generatedExecutionGraphId'', j_opt JStr (tdi_generatedExecutionGraphId i)),
      (''generatedExecutionNodeId'', j_opt JStr (tdi_generatedExecutionNodeId i)),
      (''toolCapabilityId'', JStr (tdi_toolCapabilityId i)), (''actionTypeId'', JStr (tdi_actionTypeId i)),
      (''gatewayRegistryEntryId'', JStr (tdi_gatewayRegistryEntryId i)),
      (''actionClass'', JStr (tdi_actionClass i)), (''gatewayId'', JStr (tdi_gatewayId i)),
      (''resourceRef'', JStr (tdi_resourceRef i)), (''draftState'', JStr ''opened''),
      (''paramsDigest'', JStr pd), (''nonSecretParamsSummary'', JObj (tdi_nonSecretParamsSummary i)),
      (''gatewayCredentialRefs'', JArr (map gateway_credential_binding_json (tdi_gatewayCredentialRefs i))),
      (''delegatedAuthorityRefs'', JArr (map delegated_authority_binding_json (tdi_delegatedAuthorityRefs i))),
      (''invalidReasonCodes'', JArr (map JStr (tdi_invalidReasonCodes i))),
      (''evidenceRefs'', JArr (map JStr (tdi_evidenceRefs i))), (''finalizedAt'', JNull),
      (''expiresAt'', JStr (tdi_expiresAt i))]"

definition draft_of :: "create_draft_input \<Rightarrow> string \<Rightarrow> string \<Rightarrow> string \<Rightarrow> string \<Rightarrow> tool_call_draft" where
  "draft_of i now pd did digest =
     \<lparr>schemaVersion = PROTOCOL_VERSION, tenantId = tdi_tenantId i, organizationId = tdi_organizationId i,
      createdAt = now, td_toolCallDraftId = did, td_runtimeExecutionId = tdi_runtimeExecutionId i,
      td_generatedExecutionGraphId = tdi_generatedExecutionGraphId i,
      td_generatedExecutionNodeId = tdi_generatedExecutionNodeId i,
      td_toolCapabilityId = tdi_toolCapabilityId i, td_actionTypeId = tdi_actionTypeId i,
      td_gatewayRegistryEntryId = tdi_gatewayRegistryEntryId i, td_actionClass = tdi_actionClass i,
      td_gatewayId = tdi_gatewayId i, td_resourceRef = tdi_resourceRef i, td_draftState = TCDS_opened,
      td_parameters = tdi_parameters i, td_nonSecretParamsSummary = tdi_nonSecretParamsSummary i,
      td_secretRefs = tdi_secretRefs i, td_gatewayCredentialRefs = tdi_gatewayCredentialRefs i,
      td_delegatedAuthorityRefs = tdi_delegatedAuthorityRefs i, td_paramsDigest = pd, td_finalizedAt = None,
      td_expiresAt = tdi_expiresAt i, td_invalidReasonCodes = tdi_invalidReasonCodes i,
      td_evidenceRefs = tdi_evidenceRefs i, td_draftDigest = digest\<rparr>"

definition buildToolCallDraft :: "kernel_env \<Rightarrow> create_draft_input \<Rightarrow> string \<Rightarrow> string \<Rightarrow> tool_call_draft wtr" where
  "buildToolCallDraft E i now pd =
     tbind (createId E ''tcd'') (\<lambda>did.
     tparse (tool_call_draft_valid E) (draft_of i now pd did (digestCanonical E (toolCallDraftDigestMaterial i pd did))))"

definition toolCallDraftEvents :: "tool_call_draft \<Rightarrow> tool_call_draft option \<Rightarrow> event_descriptor list" where
  "toolCallDraftEvents d previous =
     [\<lparr>ed_source = protocol_base.truncate d, ed_eventType = ET_tool_call_draft_recorded,
       ed_objectRefs = [td_toolCallDraftId d, td_draftDigest d, td_paramsDigest d],
       ed_payload = [(''previousDraftState'', j_opt (JStr \<circ> tool_call_draft_state_str) (map_option td_draftState previous)),
         (''draftState'', JStr (tool_call_draft_state_str (td_draftState d))), (''actionClass'', JStr (td_actionClass d)),
         (''resourceRef'', JStr (td_resourceRef d)),
         (''generatedExecutionGraphId'', j_opt JStr (td_generatedExecutionGraphId d)),
         (''generatedExecutionNodeId'', j_opt JStr (td_generatedExecutionNodeId d))],
       ed_streamRefs = None\<rparr>]"

definition createToolCallDraft :: "kernel_env \<Rightarrow> create_draft_input \<Rightarrow> tool_call_draft wtr" where
  "createToolCallDraft E input =
     tbind (tparse (create_draft_input_valid E) input) (\<lambda>i.
     tbind (nowIso E) (\<lambda>now.
     tbind (buildToolCallDraft E i now
        (draft_params_digest E (tdi_parameters i) (tdi_secretRefs i) (tdi_gatewayCredentialRefs i) (tdi_delegatedAuthorityRefs i))) (\<lambda>d.
     tbind (commitRecordsWithEvents E [PR_tool_call_draft d] (toolCallDraftEvents d None) no_options) (\<lambda>_.
     treturn d))))"

subsection \<open>The state machine\<close>

datatype draft_step = DS_streaming | DS_finalized | DS_invalid | DS_abandoned

definition step_state :: "draft_step \<Rightarrow> tool_call_draft_state" where
  "step_state n = (case n of DS_streaming \<Rightarrow> TCDS_streaming | DS_finalized \<Rightarrow> TCDS_finalized
     | DS_invalid \<Rightarrow> TCDS_invalid | DS_abandoned \<Rightarrow> TCDS_abandoned)"

record draft_transition_input =
  tdt_toolCallDraftId :: string
  tdt_nextDraftState :: draft_step
  tdt_parameters :: "(string \<times> jval) list option"
  tdt_nonSecretParamsSummary :: "(string \<times> jval) list option"
  tdt_secretRefs :: "(string \<times> string) list option"
  tdt_gatewayCredentialRefs :: "gateway_credential_binding list option"
  tdt_delegatedAuthorityRefs :: "delegated_authority_binding list option"
  tdt_finalizedAt :: "string option"
  tdt_expiresAt :: "string option"
  tdt_invalidReasonCodes :: "string list option"
  tdt_evidenceRefs :: "string list option"

definition draft_transition_input_valid :: "'e env_scheme \<Rightarrow> draft_transition_input \<Rightarrow> bool" where
  "draft_transition_input_valid E i \<longleftrightarrow> 1 \<le> length (tdt_toolCallDraftId i) \<and>
     opt_ok (list_all (\<lambda>f. 1 \<le> length (snd f))) (tdt_secretRefs i) \<and>
     opt_ok (list_all (gateway_credential_binding_valid E)) (tdt_gatewayCredentialRefs i) \<and>
     opt_ok (list_all (delegated_authority_binding_valid E)) (tdt_delegatedAuthorityRefs i) \<and>
     opt_ok (iso_ok E) (tdt_finalizedAt i) \<and> opt_ok (iso_ok E) (tdt_expiresAt i) \<and>
     opt_ok (list_all (\<lambda>c. 2 \<le> length c)) (tdt_invalidReasonCodes i) \<and>
     opt_ok (list_all (\<lambda>r. 1 \<le> length r)) (tdt_evidenceRefs i)"

definition terminal_draft :: "tool_call_draft_state \<Rightarrow> bool" where
  "terminal_draft s \<longleftrightarrow> s \<in> {TCDS_finalized, TCDS_invalid, TCDS_abandoned}"

text \<open>
  The two checks that an opened and a streaming draft may only stream, finalize,
  invalidate or abandon are met by every next state of the input's type.
\<close>

definition draft_step_failure :: "tool_call_draft \<Rightarrow> draft_transition_input \<Rightarrow> (string \<times> nat) option" where
  "draft_step_failure d i =
    (if terminal_draft (td_draftState d) then Some (''tool_call_draft_terminal_state'', 409)
     else if td_draftState d = TCDS_opened \<and>
         step_state (tdt_nextDraftState i) \<notin> {TCDS_streaming, TCDS_finalized, TCDS_invalid, TCDS_abandoned}
       then Some (''tool_call_draft_transition_invalid'', 409)
     else if td_draftState d = TCDS_streaming \<and>
         step_state (tdt_nextDraftState i) \<notin> {TCDS_streaming, TCDS_finalized, TCDS_invalid, TCDS_abandoned}
       then Some (''tool_call_draft_transition_invalid'', 409)
     else if tdt_nextDraftState i = DS_finalized \<and> (tdt_parameters i = None \<or> tdt_nonSecretParamsSummary i = None)
       then Some (''tool_call_draft_finalize_params_missing'', 422)
     else if tdt_nextDraftState i = DS_invalid \<and> (tdt_invalidReasonCodes i = None \<or> tdt_invalidReasonCodes i = Some [])
       then Some (''tool_call_draft_invalid_reason_missing'', 422)
     else None)"

definition assertAllowedTransition :: "tool_call_draft \<Rightarrow> draft_transition_input \<Rightarrow> unit wtr" where
  "assertAllowedTransition d i = (case draft_step_failure d i of
       Some (code, status) \<Rightarrow> tfail (protocol_error code status) | None \<Rightarrow> treturn ())"

definition given_or :: "'a option \<Rightarrow> 'a \<Rightarrow> 'a" where
  "given_or x d = (case x of Some a \<Rightarrow> a | None \<Rightarrow> d)"

definition zero_digest :: string where
  "zero_digest = ''sha256:'' @ replicate 64 (CHR ''0'')"

definition next_draft :: "'e env_scheme \<Rightarrow> tool_call_draft \<Rightarrow> draft_transition_input \<Rightarrow> string option \<Rightarrow> tool_call_draft" where
  "next_draft E d i finalized =
    (let p = given_or (tdt_parameters i) (td_parameters d); s = given_or (tdt_secretRefs i) (td_secretRefs d);
         cs = given_or (tdt_gatewayCredentialRefs i) (td_gatewayCredentialRefs d);
         as = given_or (tdt_delegatedAuthorityRefs i) (td_delegatedAuthorityRefs d) in
     d\<lparr>td_draftState := step_state (tdt_nextDraftState i), td_parameters := p,
       td_nonSecretParamsSummary := given_or (tdt_nonSecretParamsSummary i) (td_nonSecretParamsSummary d),
       td_secretRefs := s, td_gatewayCredentialRefs := cs, td_delegatedAuthorityRefs := as,
       td_paramsDigest := draft_params_digest E p s cs as, td_finalizedAt := finalized,
       td_expiresAt := given_or (tdt_expiresAt i) (td_expiresAt d),
       td_invalidReasonCodes := given_or (tdt_invalidReasonCodes i) (td_invalidReasonCodes d),
       td_evidenceRefs := unique_list (td_evidenceRefs d @ given_or (tdt_evidenceRefs i) []),
       td_draftDigest := zero_digest\<rparr>)"

definition next_draft_material :: "tool_call_draft \<Rightarrow> jval" where
  "next_draft_material d = JObj
     [(''toolCallDraftId'', JStr (td_toolCallDraftId d)),
      (''runtimeExecutionId'', j_opt JStr (td_runtimeExecutionId d)),
      (''generatedExecutionGraphId'', j_opt JStr (td_generatedExecutionGraphId d)),
      (''generatedExecutionNodeId'', j_opt JStr (td_generatedExecutionNodeId d)),
      (''toolCapabilityId'', JStr (td_toolCapabilityId d)), (''actionTypeId'', JStr (td_actionTypeId d)),
      (''gatewayRegistryEntryId'', JStr (td_gatewayRegistryEntryId d)),
      (''actionClass'', JStr (td_actionClass d)), (''gatewayId'', JStr (td_gatewayId d)),
      (''resourceRef'', JStr (td_resourceRef d)),
      (''draftState'', JStr (tool_call_draft_state_str (td_draftState d))),
      (''paramsDigest'', JStr (td_paramsDigest d)),
      (''nonSecretParamsSummary'', JObj (td_nonSecretParamsSummary d)),
      (''gatewayCredentialRefs'', JArr (map gateway_credential_binding_json (td_gatewayCredentialRefs d))),
      (''delegatedAuthorityRefs'', JArr (map delegated_authority_binding_json (td_delegatedAuthorityRefs d))),
      (''invalidReasonCodes'', JArr (map JStr (td_invalidReasonCodes d))),
      (''evidenceRefs'', JArr (map JStr (td_evidenceRefs d))), (''finalizedAt'', j_opt JStr (td_finalizedAt d)),
      (''expiresAt'', JStr (td_expiresAt d))]"

definition finalized_time :: "kernel_env \<Rightarrow> tool_call_draft \<Rightarrow> draft_transition_input \<Rightarrow> string option wtr" where
  "finalized_time E d i = (case tdt_finalizedAt i of
       Some a \<Rightarrow> treturn (Some a)
     | None \<Rightarrow> if tdt_nextDraftState i = DS_finalized then tbind (nowIso E) (\<lambda>now. treturn (Some now))
              else treturn (td_finalizedAt d))"

definition buildTransitionedToolCallDraft ::
  "kernel_env \<Rightarrow> tool_call_draft \<Rightarrow> draft_transition_input \<Rightarrow> tool_call_draft wtr" where
  "buildTransitionedToolCallDraft E d i =
     tbind (finalized_time E d i) (\<lambda>finalized.
     tbind (tparse (tool_call_draft_valid E) (next_draft E d i finalized)) (\<lambda>n.
     tparse (tool_call_draft_valid E) (n\<lparr>td_draftDigest := digestCanonical E (next_draft_material n)\<rparr>)))"

definition transitionToolCallDraft :: "kernel_env \<Rightarrow> draft_transition_input \<Rightarrow> tool_call_draft wtr" where
  "transitionToolCallDraft E input =
     tbind (tparse (draft_transition_input_valid E) input) (\<lambda>i.
     tbind (requiredPayload as_tool_call_draft OT_tool_call_draft (tdt_toolCallDraftId i) ''tool_call_draft_missing'') (\<lambda>d.
     tbind (assertAllowedTransition d i) (\<lambda>_.
     tbind (buildTransitionedToolCallDraft E d i) (\<lambda>n.
     tbind (commitRecordsWithEvents E [PR_tool_call_draft n] (toolCallDraftEvents n (Some d)) no_options) (\<lambda>_.
     treturn n)))))"

section \<open>What a draft records\<close>

lemma draft_step_ok:
  "draft_step_failure d i = None \<longleftrightarrow> \<not> terminal_draft (td_draftState d) \<and>
     (tdt_nextDraftState i = DS_finalized \<longrightarrow> tdt_parameters i \<noteq> None \<and> tdt_nonSecretParamsSummary i \<noteq> None) \<and>
     (tdt_nextDraftState i = DS_invalid \<longrightarrow> (\<exists>c cs. tdt_invalidReasonCodes i = Some (c # cs)))"
  by (cases "tdt_nextDraftState i"; cases "tdt_invalidReasonCodes i")
     (auto simp: draft_step_failure_def step_state_def neq_Nil_conv)

text \<open>Whether the parameters of a draft are the ones its digest names.\<close>

definition draft_digested :: "'e env_scheme \<Rightarrow> tool_call_draft \<Rightarrow> bool" where
  "draft_digested E d \<longleftrightarrow> td_paramsDigest d =
     draft_params_digest E (td_parameters d) (td_secretRefs d) (td_gatewayCredentialRefs d) (td_delegatedAuthorityRefs d) \<and>
   td_draftDigest d = digestCanonical E (next_draft_material d)"

lemma material_digest [simp]: "next_draft_material (d\<lparr>td_draftDigest := x\<rparr>) = next_draft_material d"
  by (simp add: next_draft_material_def)

lemma created_material: "next_draft_material (draft_of i now pd did x) = toolCallDraftDigestMaterial i pd did"
  by (simp add: next_draft_material_def draft_of_def toolCallDraftDigestMaterial_def j_opt_def tool_call_draft_state_str_def)

lemma createToolCallDraft_Inr:
  assumes "disciplined E" "createToolCallDraft E i w = (Inr d, w')"
  shows "td_draftState d = TCDS_opened \<and> draft_digested E d \<and> td_parameters d = tdi_parameters i \<and>
     find_payload as_tool_call_draft OT_tool_call_draft (td_toolCallDraftId d) (w_store w') = Some d"
proof -
  obtain now pd did w1 es where d: "d = draft_of i now pd did (digestCanonical E (toolCallDraftDigestMaterial i pd did))"
    and pd: "pd = draft_params_digest E (tdi_parameters i) (tdi_secretRefs i) (tdi_gatewayCredentialRefs i) (tdi_delegatedAuthorityRefs i)"
    and com: "commitRecordsWithEvents E [PR_tool_call_draft d] (toolCallDraftEvents d None) no_options w1 = (Inr es, w')"
    using assms(2) by (auto simp: createToolCallDraft_def buildToolCallDraft_def elim!: tbind_InrE)
  have "find_payload as_tool_call_draft OT_tool_call_draft (td_toolCallDraftId d) (w_store w') = Some d"
    using commitRecords_stores[OF assms(1) com, of "PR_tool_call_draft d"] by (simp add: find_payload_def)
  moreover have "draft_digested E d"
    using created_material[of i now pd did] d pd by (simp add: draft_digested_def) (simp add: draft_of_def)
  ultimately show ?thesis using d by (simp add: draft_of_def)
qed

lemma transitionToolCallDraft_Inr:
  assumes "disciplined E" "transitionToolCallDraft E i w = (Inr n, w')"
  shows "\<exists>d. find_payload as_tool_call_draft OT_tool_call_draft (tdt_toolCallDraftId i) (w_store w) = Some d \<and>
     \<not> terminal_draft (td_draftState d) \<and> td_draftState n = step_state (tdt_nextDraftState i) \<and> draft_digested E n \<and>
     td_toolCallDraftId n = td_toolCallDraftId d \<and> td_toolCapabilityId n = td_toolCapabilityId d \<and>
     td_resourceRef n = td_resourceRef d \<and> set (td_evidenceRefs d) \<subseteq> set (td_evidenceRefs n) \<and>
     (td_draftState n = TCDS_finalized \<longrightarrow> tdt_parameters i = Some (td_parameters n) \<and> td_finalizedAt n \<noteq> None) \<and>
     (td_draftState n = TCDS_invalid \<longrightarrow> td_invalidReasonCodes n \<noteq> []) \<and>
     find_payload as_tool_call_draft OT_tool_call_draft (td_toolCallDraftId n) (w_store w') = Some n"
proof -
  obtain d f w1 w2 w3 es where d: "find_payload as_tool_call_draft OT_tool_call_draft (tdt_toolCallDraftId i) (w_store w) = Some d"
    and ok: "draft_step_failure d i = None" and f: "finalized_time E d i w1 = (Inr f, w2)"
    and n: "n = (next_draft E d i f)\<lparr>td_draftDigest := digestCanonical E (next_draft_material (next_draft E d i f))\<rparr>"
    and com: "commitRecordsWithEvents E [PR_tool_call_draft n] (toolCallDraftEvents n (Some d)) no_options w3 = (Inr es, w')"
    using assms(2)
    by (auto simp: transitionToolCallDraft_def buildTransitionedToolCallDraft_def assertAllowedTransition_def requiredPayload_Inr
        split: option.splits elim!: tbind_InrE)
  have "find_payload as_tool_call_draft OT_tool_call_draft (td_toolCallDraftId n) (w_store w') = Some n"
    using commitRecords_stores[OF assms(1) com, of "PR_tool_call_draft n"] by (simp add: find_payload_def)
  moreover have "draft_digested E n"
    using n by (simp add: draft_digested_def) (simp add: next_draft_def Let_def)
  moreover have "tdt_nextDraftState i = DS_finalized \<longrightarrow> f \<noteq> None"
    using f by (cases "tdt_finalizedAt i") (auto simp: finalized_time_def tbind_Inr_iff dest: sym)
  moreover have "td_draftState n = TCDS_finalized \<longrightarrow> tdt_parameters i = Some (td_parameters n) \<and> td_finalizedAt n = f"
    "td_draftState n = TCDS_invalid \<longrightarrow> td_invalidReasonCodes n \<noteq> []"
    using n ok[unfolded draft_step_ok]
    by (auto simp: next_draft_def Let_def given_or_def step_state_def split: draft_step.splits)
  moreover have "td_draftState n = TCDS_finalized \<longrightarrow> tdt_nextDraftState i = DS_finalized" "td_draftState n = step_state (tdt_nextDraftState i)" "td_toolCallDraftId n = td_toolCallDraftId d"
    "td_toolCapabilityId n = td_toolCapabilityId d" "td_resourceRef n = td_resourceRef d"
    "set (td_evidenceRefs d) \<subseteq> set (td_evidenceRefs n)"
    using n by (auto simp: next_draft_def Let_def step_state_def split: draft_step.splits)
  moreover have "\<not> terminal_draft (td_draftState d)" using ok by (simp add: draft_step_ok)
  ultimately show ?thesis using d by blast
qed

text \<open>A draft in a terminal state is never changed again, whatever the environment does meanwhile.\<close>

lemma terminal_draft_fixed:
  assumes "find_payload as_tool_call_draft OT_tool_call_draft (tdt_toolCallDraftId i) (w_store w) = Some d"
    "terminal_draft (td_draftState d)" "draft_transition_input_valid E i"
  shows "transitionToolCallDraft E i w = (Inl (protocol_error ''tool_call_draft_terminal_state'' 409), w)"
proof -
  have "requiredPayload as_tool_call_draft OT_tool_call_draft (tdt_toolCallDraftId i) ''tool_call_draft_missing'' w = (Inr d, w)"
    using assms(1) by (simp add: requiredPayload_Inr)
  moreover have "assertAllowedTransition d i w = (Inl (protocol_error ''tool_call_draft_terminal_state'' 409), w)"
    using assms(2) by (simp add: assertAllowedTransition_def draft_step_failure_def)
  ultimately show ?thesis by (simp add: transitionToolCallDraft_def tbind_def tparse_apply assms(3))
qed

end
