(* ===== verification/Graph.thy ===== *)
theory Graph
  imports Schemas_Safe Payloads Drafts
begin

text \<open>
  The graph of generated code (\<open>generated-execution-graph/coverage.ts\<close>,
  \<open>transitions.ts\<close>): what the nodes of a run's code are classified as, whether the
  graph covers the code, and the record of the graph, once per nonce of a run.
\<close>

section \<open>The input\<close>

text \<open>A node of the input is a node without its digest, which is left empty here.\<close>

type_synonym node_input = generated_execution_node

definition node_input_valid :: "'e env_scheme \<Rightarrow> node_input \<Rightarrow> bool" where
  "node_input_valid E n \<longleftrightarrow> generated_execution_node_valid E (n\<lparr>gxn_nodeDigest := zero_digest\<rparr>)"

definition drop_field :: "string \<Rightarrow> jval \<Rightarrow> jval" where
  "drop_field k v = (case v of JObj fs \<Rightarrow> JObj (filter (\<lambda>f. fst f \<noteq> k) fs) | _ \<Rightarrow> v)"

definition node_input_json :: "node_input \<Rightarrow> jval" where
  "node_input_json n = drop_field ''nodeDigest'' (generated_execution_node_json n)"

record issuer_context =
  gic_tenantId :: "string"
  gic_organizationId :: "string"
  gic_principalIntentRef :: "string"
  gic_principalId :: "string"
  gic_agentId :: "string"
  gic_runId :: "string"
  gic_runtimeAdapterId :: "string"
  gic_graphIssuerRef :: "string"
  gic_graphIssuerAuthority :: "graph_issuer_authority"
  gic_graphIssuedAt :: "string"

definition issuer_context_valid :: "'e env_scheme \<Rightarrow> issuer_context \<Rightarrow> bool" where
  "issuer_context_valid E i \<longleftrightarrow>
     1 \<le> length (gic_tenantId i) \<and>
     1 \<le> length (gic_organizationId i) \<and>
     1 \<le> length (gic_principalIntentRef i) \<and>
     1 \<le> length (gic_principalId i) \<and>
     1 \<le> length (gic_agentId i) \<and>
     1 \<le> length (gic_runId i) \<and>
     1 \<le> length (gic_runtimeAdapterId i) \<and>
     1 \<le> length (gic_graphIssuerRef i) \<and>
     iso_ok E (gic_graphIssuedAt i)"


record create_graph_input =
  gci_runtimeExecutionId :: "string"
  gci_graphNonce :: "string"
  gci_graphSchemaVersion :: "string"
  gci_parserVersion :: "string"
  gci_supportedGrammarVersion :: "string"
  gci_coverageValidatorVersion :: "string"
  gci_entryNodeIds :: "string list"
  gci_edges :: "generated_execution_graph_edge list"
  gci_maxNodeCount :: "int"
  gci_maxEdgeCount :: "int"
  gci_maxDepth :: "int"
  gci_maxGraphByteSize :: "int"
  gci_truncationStatus :: "graph_truncation_status"
  gci_catalogSnapshotDigest :: "string"
  gci_gatewayRegistrySnapshotDigest :: "string"
  gci_registryBindingSetDigest :: "string"
  gci_nodes :: "node_input list"

definition create_graph_input_valid :: "'e env_scheme \<Rightarrow> create_graph_input \<Rightarrow> bool" where
  "create_graph_input_valid E i \<longleftrightarrow>
     1 \<le> length (gci_runtimeExecutionId i) \<and>
     8 \<le> length (gci_graphNonce i) \<and>
     1 \<le> length (gci_graphSchemaVersion i) \<and>
     1 \<le> length (gci_parserVersion i) \<and>
     1 \<le> length (gci_supportedGrammarVersion i) \<and>
     1 \<le> length (gci_coverageValidatorVersion i) \<and>
     list_all (\<lambda>x. 1 \<le> length x) (gci_entryNodeIds i) \<and>
     list_all (generated_execution_graph_edge_valid E) (gci_edges i) \<and>
     0 < (gci_maxNodeCount i) \<and>
     0 \<le> (gci_maxEdgeCount i) \<and>
     0 < (gci_maxDepth i) \<and>
     0 < (gci_maxGraphByteSize i) \<and>
     digest_ok (gci_catalogSnapshotDigest i) \<and>
     digest_ok (gci_gatewayRegistrySnapshotDigest i) \<and>
     digest_ok (gci_registryBindingSetDigest i) \<and>
     list_all (node_input_valid E) (gci_nodes i)"


definition issuer_context_json :: "issuer_context \<Rightarrow> jval" where
  "issuer_context_json u = JObj
     [(''tenantId'', JStr (gic_tenantId u)), (''organizationId'', JStr (gic_organizationId u)),
      (''principalIntentRef'', JStr (gic_principalIntentRef u)), (''principalId'', JStr (gic_principalId u)),
      (''agentId'', JStr (gic_agentId u)), (''runId'', JStr (gic_runId u)),
      (''runtimeAdapterId'', JStr (gic_runtimeAdapterId u)), (''graphIssuerRef'', JStr (gic_graphIssuerRef u)),
      (''graphIssuerAuthority'', JStr (graph_issuer_authority_str (gic_graphIssuerAuthority u))),
      (''graphIssuedAt'', JStr (gic_graphIssuedAt u))]"

definition graph_input_json :: "create_graph_input \<Rightarrow> jval list \<Rightarrow> jval" where
  "graph_input_json i nodes = JObj
     [(''runtimeExecutionId'', JStr (gci_runtimeExecutionId i)), (''graphNonce'', JStr (gci_graphNonce i)),
      (''graphSchemaVersion'', JStr (gci_graphSchemaVersion i)),
      (''parserVersion'', JStr (gci_parserVersion i)),
      (''supportedGrammarVersion'', JStr (gci_supportedGrammarVersion i)),
      (''coverageValidatorVersion'', JStr (gci_coverageValidatorVersion i)),
      (''entryNodeIds'', JArr (map JStr (gci_entryNodeIds i))),
      (''edges'', JArr (map generated_execution_graph_edge_json (gci_edges i))),
      (''maxNodeCount'', JInt (gci_maxNodeCount i)), (''maxEdgeCount'', JInt (gci_maxEdgeCount i)),
      (''maxDepth'', JInt (gci_maxDepth i)), (''maxGraphByteSize'', JInt (gci_maxGraphByteSize i)),
      (''truncationStatus'', JStr (graph_truncation_status_str (gci_truncationStatus i))),
      (''catalogSnapshotDigest'', JStr (gci_catalogSnapshotDigest i)),
      (''gatewayRegistrySnapshotDigest'', JStr (gci_gatewayRegistrySnapshotDigest i)),
      (''registryBindingSetDigest'', JStr (gci_registryBindingSetDigest i)), (''nodes'', JArr nodes)]"

section \<open>Depth and cycles\<close>

definition successors :: "(string \<times> string) list \<Rightarrow> string \<Rightarrow> string list" where
  "successors es n = map snd (filter (\<lambda>e. fst e = n) es)"

lemma successors_set: "set (successors es n) = {m. (n, m) \<in> set es}"
  by (force simp: successors_def)

text \<open>
  The walk of \<open>graphDepth\<close>: it carries the nodes of its path and stops at a node
  that is already on it. The state is the greatest depth so far and whether a cycle
  was seen.
\<close>

function visit :: "(string \<times> string) list \<Rightarrow> string list \<Rightarrow> nat \<Rightarrow> string \<Rightarrow> nat \<times> bool \<Rightarrow> nat \<times> bool" where
  "visit es path d n s =
    (let s' = (max (fst s) d, snd s) in
     if n \<in> set path then (fst s', True)
     else fold (visit es (n # path) (Suc d)) (successors es n) s')"
  by auto
termination
proof (relation "measure (\<lambda>(es, path, d, n, s). card (fst ` set es - set path))")
  fix es path d n and s :: "nat \<times> bool" and m
  assume fresh: "n \<notin> set path" and succ: "m \<in> set (successors es n)"
  then have "n \<in> fst ` set es" by (force simp: successors_def)
  then have "fst ` set es - set (n # path) \<subset> fst ` set es - set path" using fresh by auto
  then have "card (fst ` set es - set (n # path)) < card (fst ` set es - set path)"
    by (rule psubset_card_mono[rotated]) simp
  then show "((es, n # path, Suc d, m, s'), es, path, d, n, s)
      \<in> measure (\<lambda>(es, path, d, n, s). card (fst ` set es - set path))" for s'
    by simp
qed simp

declare visit.simps [simp del]

definition graphDepth :: "string list \<Rightarrow> (string \<times> string) list \<Rightarrow> nat \<times> bool" where
  "graphDepth entries es = fold (visit es [] 1) entries (if entries = [] then 0 else 1, False)"

section \<open>Reason codes\<close>

definition classificationReasonCodes :: "generated_execution_node_classification \<Rightarrow> string list" where
  "classificationReasonCodes c = (case c of
       GENC_bypass_risk \<Rightarrow> [''generated_execution_node_bypass_risk'']
     | GENC_hidden_trigger \<Rightarrow> [''generated_execution_node_hidden_trigger'']
     | GENC_observer_only \<Rightarrow> [''generated_execution_node_observer_only'']
     | GENC_unsupported \<Rightarrow> [''generated_execution_node_unsupported'']
     | GENC_ambiguous \<Rightarrow> [''generated_execution_node_ambiguous'']
     | _ \<Rightarrow> [])"

definition commandRiskReasonCodes :: "command_risk_classifier_posture \<Rightarrow> string list" where
  "commandRiskReasonCodes p = (case p of
       CRCP_deny \<Rightarrow> [''generated_execution_command_risk_denied'']
     | CRCP_warn \<Rightarrow> [''generated_execution_command_risk_warned'']
     | CRCP_allowlist \<Rightarrow> [''generated_execution_command_risk_allowlist'']
     | CRCP_allow_once \<Rightarrow> [''generated_execution_command_risk_allow_once'']
     | CRCP_bypass_detected \<Rightarrow> [''generated_execution_command_risk_bypass_detected'']
     | CRCP_fail_open \<Rightarrow> [''generated_execution_command_risk_fail_open'']
     | CRCP_skipped \<Rightarrow> [''generated_execution_command_risk_skipped'']
     | CRCP_unknown \<Rightarrow> [''generated_execution_command_risk_unknown'']
     | _ \<Rightarrow> [])"

definition reasonCodesForNode :: "generated_execution_node \<Rightarrow> string list" where
  "reasonCodesForNode n = gxn_unsupportedReasonCodes n @
     (if gxn_nodeKind n = GENK_unknown then [''generated_execution_node_kind_unknown''] else []) @
     (if gxn_rawSecretMaterialDetected n then [''generated_execution_node_raw_secret_material''] else []) @
     (if gxn_argvRedactionStatus n = GRS_raw_material_present
      then [''generated_execution_node_raw_argv_material''] else []) @
     (if gxn_stdinRedactionStatus n = GRS_raw_material_present
      then [''generated_execution_node_raw_stdin_material''] else []) @
     classificationReasonCodes (gxn_classification n) @ commandRiskReasonCodes (gxn_commandRiskClassifierPosture n)"

definition truncationReason :: "graph_truncation_status \<Rightarrow> string" where
  "truncationReason s = (case s of
       GTS_complete \<Rightarrow> ''generated_execution_graph_complete''
     | GTS_truncated \<Rightarrow> ''generated_execution_graph_truncated''
     | GTS_over_limit \<Rightarrow> ''generated_execution_graph_over_limit''
     | GTS_unknown \<Rightarrow> ''generated_execution_graph_truncation_unknown'')"

definition coverageStatusForGraph ::
  "generated_execution_node list \<Rightarrow> string list \<Rightarrow> generated_execution_coverage_status" where
  "coverageStatusForGraph nodes rs =
    (let reasons = join '' '' rs; has = (\<lambda>t. str_contains reasons t) in
     if has ''bypass'' then GECS_contains_bypass_risk
     else if has ''raw_secret'' \<or> has ''raw_argv'' \<or> has ''raw_stdin'' \<or> has ''denied'' \<or> has ''warned'' \<or>
         has ''allowlist'' \<or> has ''allow_once''
       then GECS_contains_refusal
     else if has ''unsupported'' \<or> has ''ambiguous'' then GECS_unsupported_or_ambiguous
     else if rs \<noteq> [] \<or> list_ex (\<lambda>n. gxn_classification n = GENC_hidden_trigger \<or>
         gxn_classification n = GENC_observer_only) nodes
       then GECS_contains_coverage_gap
     else if nodes \<noteq> [] \<and> list_all (\<lambda>n. gxn_classification n = GENC_read_only \<or>
         gxn_classification n = GENC_nonconsequential) nodes
       then GECS_nonconsequential_only
     else if nodes \<noteq> [] \<and> list_ex (\<lambda>n. gxn_classification n = GENC_candidate_action_eligible) nodes \<and>
         list_all (\<lambda>n. gxn_classification n \<in> {GENC_candidate_action_eligible, GENC_read_only, GENC_nonconsequential}) nodes
       then GECS_fully_covered_no_unsupported_nodes
     else GECS_unknown)"

section \<open>Coverage\<close>

record graph_coverage =
  gcv_nodes :: "generated_execution_node list"
  gcv_terminalReasonCodes :: "string list"
  gcv_coverageStatus :: generated_execution_coverage_status
  gcv_graphByteSize :: nat

definition edge_ends :: "generated_execution_graph_edge list \<Rightarrow> (string \<times> string) list" where
  "edge_ends es = map (\<lambda>e. (gxe_fromNodeId e, gxe_toNodeId e)) es"

definition graph_input_failure :: "create_graph_input \<Rightarrow> string option" where
  "graph_input_failure i = (let ids = map gxn_nodeId (gci_nodes i) in
     if \<not> distinct ids then Some ''generated_execution_graph_duplicate_node_id''
     else if \<not> list_all (\<lambda>n. n \<in> set ids) (gci_entryNodeIds i @ concat (map (\<lambda>e. [fst e, snd e]) (edge_ends (gci_edges i))))
       then Some ''generated_execution_graph_unknown_node_ref''
     else None)"

definition digested_node :: "'e env_scheme \<Rightarrow> node_input \<Rightarrow> generated_execution_node" where
  "digested_node E n = n\<lparr>gxn_nodeDigest := digestCanonical E (node_input_json n)\<rparr>"

text \<open>
  \<open>JSON.stringify\<close> writes the fields in another order than the canonical text does,
  and the same number of bytes.
\<close>

definition graph_byte_size :: "create_graph_input \<Rightarrow> generated_execution_node list \<Rightarrow> nat" where
  "graph_byte_size i nodes =
     length (text_encode (canonicalize (graph_input_json i (map generated_execution_node_json nodes))))"

definition graph_codes :: "create_graph_input \<Rightarrow> nat \<Rightarrow> string list" where
  "graph_codes i bytes =
    (let (depth, cycle) = graphDepth (gci_entryNodeIds i) (edge_ends (gci_edges i)) in
     (if gci_nodes i = [] then [''generated_execution_graph_empty''] else []) @
     (if gci_entryNodeIds i = [] then [''generated_execution_graph_missing_entry_node''] else []) @
     (if cycle then [''generated_execution_graph_cycle_detected''] else []) @
     (if gci_maxNodeCount i < int (length (gci_nodes i)) then [''generated_execution_graph_node_limit_exceeded''] else []) @
     (if gci_maxEdgeCount i < int (length (gci_edges i)) then [''generated_execution_graph_edge_limit_exceeded''] else []) @
     (if gci_maxDepth i < int depth then [''generated_execution_graph_depth_limit_exceeded''] else []) @
     (if gci_maxGraphByteSize i < int bytes then [''generated_execution_graph_byte_limit_exceeded''] else []) @
     (if gci_truncationStatus i \<noteq> GTS_complete then [truncationReason (gci_truncationStatus i)] else []))"

definition deriveGraphCoverage :: "kernel_env \<Rightarrow> create_graph_input \<Rightarrow> graph_coverage wtr" where
  "deriveGraphCoverage E i =
     tbind (case graph_input_failure i of Some code \<Rightarrow> tfail (protocol_error code 422) | None \<Rightarrow> treturn ()) (\<lambda>_.
     tbind (tmap (\<lambda>n. tparse (generated_execution_node_valid E) (digested_node E n)) (gci_nodes i)) (\<lambda>nodes.
    (let bytes = graph_byte_size i nodes; rs = graph_codes i bytes @ concat (map reasonCodesForNode nodes) in
     treturn \<lparr>gcv_nodes = nodes, gcv_terminalReasonCodes = unique_list rs,
       gcv_coverageStatus = coverageStatusForGraph nodes rs, gcv_graphByteSize = bytes\<rparr>)))"

section \<open>The transition\<close>

definition assertIssuerMatchesRuntime :: "runtime_execution \<Rightarrow> issuer_context \<Rightarrow> unit wtr" where
  "assertIssuerMatchesRuntime r u =
    (if tenantId r = gic_tenantId u \<and> organizationId r = gic_organizationId u \<and>
        rx_principalIntentRef r = gic_principalIntentRef u \<and> rx_principalId r = gic_principalId u \<and>
        rx_agentId r = gic_agentId u \<and> rx_runId r = gic_runId u \<and> rx_runtimeAdapterId r = gic_runtimeAdapterId u
     then treturn () else tfail (protocol_error ''generated_execution_graph_issuer_scope_mismatch'' 409))"

definition nonce_used :: "runtime_execution \<Rightarrow> string \<Rightarrow> pstore \<Rightarrow> bool" where
  "nonce_used r nonce s \<longleftrightarrow> list_ex (\<lambda>g. gx_runtimeExecutionId g = rx_runtimeExecutionId r \<and> gx_graphNonce g = nonce)
     (payloads as_generated_execution_graph (listRecordsByType OT_generated_execution_graph (scope_of r) s))"

definition assertNonceUnused :: "runtime_execution \<Rightarrow> string \<Rightarrow> unit wtr" where
  "assertNonceUnused r nonce = tbind (store_get (nonce_used r nonce)) (\<lambda>used.
     if used then tfail (protocol_error ''generated_execution_graph_nonce_replay'' 409) else treturn ())"

definition buildGraphInputDigest :: "'e env_scheme \<Rightarrow> create_graph_input \<Rightarrow> issuer_context \<Rightarrow> runtime_execution \<Rightarrow> string" where
  "buildGraphInputDigest E i u r = digestCanonical E (JObj
     [(''input'', graph_input_json i (map node_input_json (gci_nodes i))), (''issuerContext'', issuer_context_json u),
      (''runtimeExecutionId'', JStr (rx_runtimeExecutionId r)), (''runtimeExecutionDigest'', JStr (rx_runtimeExecutionDigest r))])"

definition buildGraphDigestMaterial ::
  "create_graph_input \<Rightarrow> issuer_context \<Rightarrow> runtime_execution \<Rightarrow> graph_coverage \<Rightarrow> string \<Rightarrow> jval" where
  "buildGraphDigestMaterial i u r k inputDigest = JObj
     [(''tenantId'', JStr (tenantId r)), (''organizationId'', JStr (organizationId r)),
      (''runtimeExecutionId'', JStr (rx_runtimeExecutionId r)),
      (''runtimeExecutionDigest'', JStr (rx_runtimeExecutionDigest r)),
      (''executionBlockDigest'', JStr (rx_executionBlockDigest r)),
      (''graphIssuerRef'', JStr (gic_graphIssuerRef u)),
      (''graphIssuerAuthority'', JStr (graph_issuer_authority_str (gic_graphIssuerAuthority u))),
      (''graphIssuedAt'', JStr (gic_graphIssuedAt u)), (''graphNonce'', JStr (gci_graphNonce i)),
      (''graphInputDigest'', JStr inputDigest), (''graphSchemaVersion'', JStr (gci_graphSchemaVersion i)),
      (''parserVersion'', JStr (gci_parserVersion i)),
      (''supportedGrammarVersion'', JStr (gci_supportedGrammarVersion i)),
      (''coverageValidatorVersion'', JStr (gci_coverageValidatorVersion i)),
      (''coverageStatus'', JStr (generated_execution_coverage_status_str (gcv_coverageStatus k))),
      (''terminalReasonCodes'', JArr (map JStr (gcv_terminalReasonCodes k))),
      (''entryNodeIds'', JArr (map JStr (gci_entryNodeIds i))),
      (''edges'', JArr (map generated_execution_graph_edge_json (gci_edges i))),
      (''nodeCount'', JInt (int (length (gcv_nodes k)))), (''edgeCount'', JInt (int (length (gci_edges i)))),
      (''maxNodeCount'', JInt (gci_maxNodeCount i)), (''maxEdgeCount'', JInt (gci_maxEdgeCount i)),
      (''maxDepth'', JInt (gci_maxDepth i)), (''graphByteSize'', JInt (int (gcv_graphByteSize k))),
      (''maxGraphByteSize'', JInt (gci_maxGraphByteSize i)),
      (''truncationStatus'', JStr (graph_truncation_status_str (gci_truncationStatus i))),
      (''catalogSnapshotDigest'', JStr (gci_catalogSnapshotDigest i)),
      (''gatewayRegistrySnapshotDigest'', JStr (gci_gatewayRegistrySnapshotDigest i)),
      (''registryBindingSetDigest'', JStr (gci_registryBindingSetDigest i)),
      (''nodes'', JArr (map generated_execution_node_json (gcv_nodes k)))]"

definition graph_of ::
  "create_graph_input \<Rightarrow> issuer_context \<Rightarrow> runtime_execution \<Rightarrow> graph_coverage \<Rightarrow> string \<Rightarrow> string \<Rightarrow> string \<Rightarrow> string \<Rightarrow>
   generated_execution_graph" where
  "graph_of i u r k now gid inputDigest digest =
     \<lparr>schemaVersion = PROTOCOL_VERSION, tenantId = tenantId r, organizationId = organizationId r,
      createdAt = now, gx_generatedExecutionGraphId = gid, gx_runtimeExecutionId = rx_runtimeExecutionId r,
      gx_runtimeExecutionDigest = rx_runtimeExecutionDigest r,
      gx_executionBlockDigest = rx_executionBlockDigest r, gx_graphIssuerRef = gic_graphIssuerRef u,
      gx_graphIssuerAuthority = gic_graphIssuerAuthority u, gx_graphIssuedAt = gic_graphIssuedAt u,
      gx_graphNonce = gci_graphNonce i, gx_graphInputDigest = inputDigest,
      gx_graphSchemaVersion = gci_graphSchemaVersion i, gx_parserVersion = gci_parserVersion i,
      gx_supportedGrammarVersion = gci_supportedGrammarVersion i,
      gx_coverageValidatorVersion = gci_coverageValidatorVersion i, gx_graphDigest = digest,
      gx_coverageStatus = gcv_coverageStatus k, gx_terminalReasonCodes = gcv_terminalReasonCodes k,
      gx_entryNodeIds = gci_entryNodeIds i, gx_edges = gci_edges i, gx_nodeCount = int (length (gcv_nodes k)),
      gx_edgeCount = int (length (gci_edges i)), gx_maxNodeCount = gci_maxNodeCount i,
      gx_maxEdgeCount = gci_maxEdgeCount i, gx_maxDepth = gci_maxDepth i,
      gx_graphByteSize = int (gcv_graphByteSize k), gx_maxGraphByteSize = gci_maxGraphByteSize i,
      gx_truncationStatus = gci_truncationStatus i, gx_catalogSnapshotDigest = gci_catalogSnapshotDigest i,
      gx_gatewayRegistrySnapshotDigest = gci_gatewayRegistrySnapshotDigest i,
      gx_registryBindingSetDigest = gci_registryBindingSetDigest i, gx_nodes = gcv_nodes k\<rparr>"

definition buildGeneratedExecutionGraph ::
  "kernel_env \<Rightarrow> create_graph_input \<Rightarrow> issuer_context \<Rightarrow> runtime_execution \<Rightarrow> graph_coverage \<Rightarrow> generated_execution_graph wtr" where
  "buildGeneratedExecutionGraph E i u r k =
     tbind (nowIso E) (\<lambda>now.
     tbind (createId E ''geg'') (\<lambda>gid.
    (let inputDigest = buildGraphInputDigest E i u r in
     tparse (generated_execution_graph_valid E)
       (graph_of i u r k now gid inputDigest (digestCanonical E (buildGraphDigestMaterial i u r k inputDigest))))))"

definition graph_event :: "generated_execution_graph \<Rightarrow> event_descriptor" where
  "graph_event g =
     \<lparr>ed_source = protocol_base.truncate g, ed_eventType = ET_generated_execution_graph_recorded,
      ed_objectRefs = [gx_generatedExecutionGraphId g, gx_graphDigest g, gx_runtimeExecutionId g, gx_runtimeExecutionDigest g],
      ed_payload = [(''runtimeExecutionId'', JStr (gx_runtimeExecutionId g)),
      (''coverageStatus'', JStr (generated_execution_coverage_status_str (gx_coverageStatus g))),
      (''terminalReasonCodes'', JArr (map JStr (gx_terminalReasonCodes g))),
      (''nodeCount'', JInt (gx_nodeCount g)), (''edgeCount'', JInt (gx_edgeCount g))],
      ed_streamRefs = None\<rparr>"

definition createGeneratedExecutionGraph ::
  "kernel_env \<Rightarrow> create_graph_input \<Rightarrow> issuer_context \<Rightarrow> generated_execution_graph wtr" where
  "createGeneratedExecutionGraph E input issuer =
     tbind (tparse (create_graph_input_valid E) input) (\<lambda>i.
     tbind (tparse (issuer_context_valid E) issuer) (\<lambda>u.
     tbind (requiredPayload as_runtime_execution OT_runtime_execution (gci_runtimeExecutionId i) ''runtime_execution_missing'') (\<lambda>r.
     tbind (assertIssuerMatchesRuntime r u) (\<lambda>_.
     tbind (assertNonceUnused r (gci_graphNonce i)) (\<lambda>_.
     tbind (deriveGraphCoverage E i) (\<lambda>k.
     tbind (buildGeneratedExecutionGraph E i u r k) (\<lambda>g.
     tbind (commitRecordsWithEvents E [PR_generated_execution_graph g] [graph_event g] no_options) (\<lambda>_.
     treturn g))))))))"

end
