(* ===== verification/Graph_Laws.thy ===== *)
theory Graph_Laws
  imports Graph
begin

text \<open>
  What the walk of \<open>graphDepth\<close> computes, stated over the edges as a relation, and
  when a graph is found fully covered, stated without reason codes.
\<close>

section \<open>Cycles\<close>

definition cyclic_from :: "(string \<times> string) list \<Rightarrow> string \<Rightarrow> bool" where
  "cyclic_from es n \<longleftrightarrow> (\<exists>y. (n, y) \<in> (set es)\<^sup>* \<and> (y, y) \<in> (set es)\<^sup>+)"

lemma cyclic_step: "cyclic_from es n \<longleftrightarrow> (\<exists>m. (n, m) \<in> set es \<and> cyclic_from es m)"
proof
  assume "cyclic_from es n"
  then obtain y where y: "(n, y) \<in> (set es)\<^sup>*" "(y, y) \<in> (set es)\<^sup>+" by (auto simp: cyclic_from_def)
  then have "(n, y) \<in> (set es)\<^sup>+" by (meson rtrancl_trancl_trancl)
  then obtain m where "(n, m) \<in> set es" "(m, y) \<in> (set es)\<^sup>*" by (meson tranclD)
  then show "\<exists>m. (n, m) \<in> set es \<and> cyclic_from es m" using y by (auto simp: cyclic_from_def)
qed (auto simp: cyclic_from_def intro: converse_rtrancl_into_rtrancl)

lemma fold_flag:
  assumes "\<And>x s. x \<in> set xs \<Longrightarrow> snd s \<Longrightarrow> snd (f x s)"
  shows "snd s \<Longrightarrow> snd (fold f xs s)"
  using assms by (induction xs arbitrary: s) auto

lemma fold_flag_some:
  assumes "\<And>x s. x \<in> set xs \<Longrightarrow> snd s \<Longrightarrow> snd (f x s)" "y \<in> set xs" "\<And>s. snd (f y s)"
  shows "snd (fold f xs s)"
  using assms
proof (induction xs arbitrary: s)
  case (Cons x xs)
  show ?case
  proof (cases "y = x")
    case True
    then show ?thesis using fold_flag[of xs f "f x s"] Cons.prems by simp
  next
    case False
    then show ?thesis using Cons by simp
  qed
qed simp

lemma fold_flag_only:
  assumes "\<And>x s. x \<in> set xs \<Longrightarrow> snd (f x s) \<Longrightarrow> snd s \<or> P"
  shows "snd (fold f xs s) \<Longrightarrow> snd s \<or> P"
  using assms by (induction xs arbitrary: s) (simp, fastforce)

lemma visit_flag: "snd s \<Longrightarrow> snd (visit es path d n s)"
proof (induction es path d n s rule: visit.induct)
  case (1 es path d n s)
  show ?case
    by (subst visit.simps) (auto simp: Let_def 1 intro!: fold_flag)
qed

text \<open>A node from which a cycle can be reached sets the flag, whatever the path that led to it.\<close>

lemma visit_finds: "cyclic_from es n \<Longrightarrow> snd (visit es path d n s)"
proof (induction es path d n s rule: visit.induct)
  case (1 es path d n s)
  show ?case
  proof (cases "n \<in> set path")
    case True
    then show ?thesis by (subst visit.simps) (simp add: Let_def)
  next
    case False
    obtain m where m: "(n, m) \<in> set es" "cyclic_from es m" using "1.prems" cyclic_step by blast
    have "snd (fold (visit es (n # path) (Suc d)) (successors es n) (max (fst s) d, snd s))"
      by (rule fold_flag_some[of _ _ m]) (use m False 1 in \<open>auto simp: successors_set visit_flag\<close>)
    then show ?thesis using False by (subst visit.simps) (simp add: Let_def)
  qed
qed

text \<open>The flag is set only where a cycle is, when every node of the path leads to the one visited.\<close>

lemma visit_found:
  "snd (visit es path d n s) \<Longrightarrow> \<forall>p \<in> set path. (p, n) \<in> (set es)\<^sup>+ \<Longrightarrow> snd s \<or> cyclic_from es n"
proof (induction es path d n s rule: visit.induct)
  case (1 es path d n s)
  show ?case
  proof (cases "n \<in> set path")
    case True
    then show ?thesis using "1.prems"(2) by (auto simp: cyclic_from_def)
  next
    case False
    have flag: "snd (fold (visit es (n # path) (Suc d)) (successors es n) (max (fst s) d, snd s))"
      using "1.prems"(1) False by (subst (asm) visit.simps) (simp add: Let_def)
    have "snd (max (fst s) d, snd s) \<or> cyclic_from es n"
    proof (rule fold_flag_only[OF _ flag])
      fix m t assume m: "m \<in> set (successors es n)" and t: "snd (visit es (n # path) (Suc d) m t)"
      have edge: "(n, m) \<in> set es" using m by (simp add: successors_set)
      have "snd t \<or> cyclic_from es m"
      proof (rule "1.IH"[OF refl False m t])
        show "\<forall>p\<in>set (n # path). (p, m) \<in> (set es)\<^sup>+"
          using "1.prems"(2) edge by (auto intro: trancl_into_trancl)
      qed
      then show "snd t \<or> cyclic_from es n" using cyclic_step edge by blast
    qed
    then show ?thesis by simp
  qed
qed

lemma graphDepth_cycle: "snd (graphDepth entries es) \<longleftrightarrow> (\<exists>e \<in> set entries. cyclic_from es e)"
proof
  assume flag: "snd (graphDepth entries es)"
  have "snd (if entries = [] then 0 else 1 :: nat, False) \<or> (\<exists>e \<in> set entries. cyclic_from es e)"
  proof (rule fold_flag_only[OF _ flag[unfolded graphDepth_def]])
    fix e s assume "e \<in> set entries" "snd (visit es [] 1 e s)"
    then show "snd s \<or> (\<exists>e \<in> set entries. cyclic_from es e)" using visit_found[of es "[]" 1 e s] by auto
  qed
  then show "\<exists>e \<in> set entries. cyclic_from es e" by simp
next
  assume "\<exists>e \<in> set entries. cyclic_from es e"
  then obtain e where "e \<in> set entries" "cyclic_from es e" by blast
  then show "snd (graphDepth entries es)"
    unfolding graphDepth_def by (intro fold_flag_some[of _ _ e]) (auto simp: visit_flag visit_finds)
qed

section \<open>Depth\<close>

fun walk :: "(string \<times> string) list \<Rightarrow> string list \<Rightarrow> bool" where
  "walk es (a # b # ns) \<longleftrightarrow> (a, b) \<in> set es \<and> walk es (b # ns)"
| "walk es _ \<longleftrightarrow> True"

lemma fold_depth:
  assumes "\<And>x s. x \<in> set xs \<Longrightarrow> fst (f x s) \<le> k \<longleftrightarrow> fst s \<le> k \<and> Q x"
  shows "fst (fold f xs s) \<le> k \<longleftrightarrow> fst s \<le> k \<and> (\<forall>x \<in> set xs. Q x)"
  using assms by (induction xs arbitrary: s) auto

lemma walk_cons: "(\<forall>ns. walk es (n # ns) \<longrightarrow> d + length ns \<le> k) \<longleftrightarrow>
    d \<le> k \<and> (\<forall>m. (n, m) \<in> set es \<longrightarrow> (\<forall>ns. walk es (m # ns) \<longrightarrow> Suc d + length ns \<le> k))"
proof (intro iffI conjI allI impI)
  fix ns assume "d \<le> k \<and> (\<forall>m. (n, m) \<in> set es \<longrightarrow> (\<forall>ns. walk es (m # ns) \<longrightarrow> Suc d + length ns \<le> k))" "walk es (n # ns)"
  then show "d + length ns \<le> k" by (cases ns) auto
qed (metis add_0_right list.size(3) walk.simps(3), metis add_Suc_shift length_Cons walk.simps(1))

lemma visit_depth:
  "\<not> cyclic_from es n \<Longrightarrow> \<forall>p \<in> set path. (p, n) \<in> (set es)\<^sup>+ \<Longrightarrow>
   fst (visit es path d n s) \<le> k \<longleftrightarrow> fst s \<le> k \<and> (\<forall>ns. walk es (n # ns) \<longrightarrow> d + length ns \<le> k)"
proof (induction es path d n s rule: visit.induct)
  case (1 es path d n s)
  have fresh: "n \<notin> set path" using "1.prems" by (auto simp: cyclic_from_def)
  have step: "fst (visit es (n # path) (Suc d) m t) \<le> k \<longleftrightarrow>
      fst t \<le> k \<and> (\<forall>ns. walk es (m # ns) \<longrightarrow> Suc d + length ns \<le> k)"
    if m: "m \<in> set (successors es n)" for m t
  proof (rule "1.IH"[OF refl fresh m])
    have edge: "(n, m) \<in> set es" using m by (simp add: successors_set)
    show "\<not> cyclic_from es m" using "1.prems"(1) edge cyclic_step by blast
    show "\<forall>p\<in>set (n # path). (p, m) \<in> (set es)\<^sup>+"
      using "1.prems"(2) edge by (auto intro: trancl_into_trancl)
  qed
  have "fst (visit es path d n s) \<le> k \<longleftrightarrow>
      fst (max (fst s) d, snd s) \<le> k \<and> (\<forall>m \<in> set (successors es n). \<forall>ns. walk es (m # ns) \<longrightarrow> Suc d + length ns \<le> k)"
    using fold_depth[of "successors es n" "visit es (n # path) (Suc d)" k, OF step] fresh
    by (subst visit.simps) (simp add: Let_def)
  then show ?case using walk_cons[of es n d k] by (auto simp: successors_set)
qed

lemma graphDepth_depth:
  assumes "\<not> snd (graphDepth entries es)"
  shows "fst (graphDepth entries es) \<le> k \<longleftrightarrow> (\<forall>e \<in> set entries. \<forall>ns. walk es (e # ns) \<longrightarrow> length (e # ns) \<le> k)"
proof -
  have "fst (graphDepth entries es) \<le> k \<longleftrightarrow> fst (if entries = [] then 0 else 1 :: nat, False) \<le> k \<and>
      (\<forall>e \<in> set entries. \<forall>ns. walk es (e # ns) \<longrightarrow> 1 + length ns \<le> k)"
    unfolding graphDepth_def
    by (rule fold_depth, rule visit_depth) (use assms in \<open>auto simp: graphDepth_cycle\<close>)
  then show ?thesis by (cases entries) (auto, metis list.size(3) plus_nat.add_0 walk.simps(3))
qed

section \<open>Full coverage\<close>

definition node_clean :: "generated_execution_node \<Rightarrow> bool" where
  "node_clean n \<longleftrightarrow> gxn_unsupportedReasonCodes n = [] \<and> gxn_nodeKind n \<noteq> GENK_unknown \<and> \<not> gxn_rawSecretMaterialDetected n \<and>
     gxn_argvRedactionStatus n \<noteq> GRS_raw_material_present \<and> gxn_stdinRedactionStatus n \<noteq> GRS_raw_material_present \<and>
     gxn_classification n \<in> {GENC_candidate_action_eligible, GENC_read_only, GENC_nonconsequential} \<and>
     gxn_commandRiskClassifierPosture n \<in> {CRCP_absent, CRCP_advisory_allow, CRCP_advisory_no_match}"

definition graph_bounded :: "create_graph_input \<Rightarrow> nat \<Rightarrow> bool" where
  "graph_bounded i bytes \<longleftrightarrow> (let es = edge_ends (gci_edges i) in
     gci_nodes i \<noteq> [] \<and> gci_entryNodeIds i \<noteq> [] \<and> (\<forall>e \<in> set (gci_entryNodeIds i). \<not> cyclic_from es e) \<and>
     int (length (gci_nodes i)) \<le> gci_maxNodeCount i \<and> int (length (gci_edges i)) \<le> gci_maxEdgeCount i \<and>
     (\<forall>e \<in> set (gci_entryNodeIds i). \<forall>ns. walk es (e # ns) \<longrightarrow> int (length (e # ns)) \<le> gci_maxDepth i) \<and>
     int bytes \<le> gci_maxGraphByteSize i \<and> gci_truncationStatus i = GTS_complete)"

lemma node_codes_none: "reasonCodesForNode n = [] \<longleftrightarrow> node_clean n"
  by (auto simp: reasonCodesForNode_def node_clean_def classificationReasonCodes_def commandRiskReasonCodes_def
      split: generated_execution_node_classification.splits command_risk_classifier_posture.splits if_splits)

lemma depth_within:
  assumes "\<not> snd (graphDepth entries es)"
  shows "int (fst (graphDepth entries es)) \<le> m \<longleftrightarrow>
     (\<forall>e \<in> set entries. \<forall>ns. walk es (e # ns) \<longrightarrow> int (length (e # ns)) \<le> m) \<and> 0 \<le> m"
proof (cases "0 \<le> m")
  case True
  then show ?thesis using graphDepth_depth[OF assms, of "nat m"] by (auto simp: le_nat_iff)
next
  case False
  then show ?thesis by auto
qed

lemma graph_codes_none: "graph_codes i bytes = [] \<longleftrightarrow> graph_bounded i bytes"
proof -
  let ?es = "edge_ends (gci_edges i)" let ?d = "graphDepth (gci_entryNodeIds i) ?es"
  have "graph_codes i bytes = [] \<longleftrightarrow> gci_nodes i \<noteq> [] \<and> gci_entryNodeIds i \<noteq> [] \<and> \<not> snd ?d \<and>
     int (length (gci_nodes i)) \<le> gci_maxNodeCount i \<and> int (length (gci_edges i)) \<le> gci_maxEdgeCount i \<and>
     int (fst ?d) \<le> gci_maxDepth i \<and> int bytes \<le> gci_maxGraphByteSize i \<and> gci_truncationStatus i = GTS_complete"
    by (auto simp: graph_codes_def Let_def not_less split: prod.splits)
  moreover have "0 \<le> gci_maxDepth i" if "int (length (e # ns)) \<le> gci_maxDepth i" for e :: string and ns :: "string list"
    using that by simp
  moreover have "walk ?es [e]" for e by simp
  ultimately show ?thesis
    unfolding graph_bounded_def Let_def
    by (metis (no_types, opaque_lifting) depth_within graphDepth_cycle list.set_intros(1) neq_Nil_conv)
qed

lemma contains_empty [simp]: "str_contains [] (a # t) \<longleftrightarrow> False"
  by (simp add: str_contains_def str_prefix_def)

lemma fully_covered_status:
  "coverageStatusForGraph nodes rs = GECS_fully_covered_no_unsupported_nodes \<longleftrightarrow>
     rs = [] \<and> (\<exists>n \<in> set nodes. gxn_classification n = GENC_candidate_action_eligible) \<and>
     (\<forall>n \<in> set nodes. gxn_classification n \<in> {GENC_candidate_action_eligible, GENC_read_only, GENC_nonconsequential})"
proof (cases "rs = []")
  case True
  then show ?thesis
    by (auto simp: coverageStatusForGraph_def Let_def list_ex_iff list_all_iff)
next
  case False
  then show ?thesis by (simp add: coverageStatusForGraph_def Let_def)
qed

lemma tmap_parse_Inr: "tmap (\<lambda>n. tparse ok (f n)) xs w = (Inr ys, w') \<Longrightarrow> w' = w \<and> ys = map f xs"
  by (induction xs arbitrary: ys w w') (auto elim!: tbind_InrE)

lemma node_clean_digested [simp]: "node_clean (digested_node E n) \<longleftrightarrow> node_clean n"
  by (simp add: node_clean_def digested_node_def)

definition covers :: "create_graph_input \<Rightarrow> nat \<Rightarrow> bool" where
  "covers i bytes \<longleftrightarrow> graph_bounded i bytes \<and> (\<forall>n \<in> set (gci_nodes i). node_clean n) \<and>
     (\<exists>n \<in> set (gci_nodes i). gxn_classification n = GENC_candidate_action_eligible)"

lemma deriveGraphCoverage_Inr:
  assumes "deriveGraphCoverage E i w = (Inr k, w')"
  shows "w' = w \<and> graph_input_failure i = None \<and> gcv_nodes k = map (digested_node E) (gci_nodes i) \<and>
     gcv_graphByteSize k = graph_byte_size i (gcv_nodes k) \<and>
     (gcv_terminalReasonCodes k = [] \<longleftrightarrow> graph_bounded i (gcv_graphByteSize k) \<and> (\<forall>n \<in> set (gci_nodes i). node_clean n)) \<and>
     (gcv_coverageStatus k = GECS_fully_covered_no_unsupported_nodes \<longleftrightarrow> covers i (gcv_graphByteSize k))"
proof -
  obtain nodes where none: "graph_input_failure i = None" and w: "w' = w" and nodes: "nodes = map (digested_node E) (gci_nodes i)"
    and k: "k = (let bytes = graph_byte_size i nodes; rs = graph_codes i bytes @ concat (map reasonCodesForNode nodes) in
       \<lparr>gcv_nodes = nodes, gcv_terminalReasonCodes = unique_list rs,
        gcv_coverageStatus = coverageStatusForGraph nodes rs, gcv_graphByteSize = bytes\<rparr>)"
    using assms
    by (auto simp: deriveGraphCoverage_def Let_def split: option.splits elim!: tbind_InrE dest!: tmap_parse_Inr)
  let ?rs = "graph_codes i (graph_byte_size i nodes) @ concat (map reasonCodesForNode nodes)"
  have rs: "?rs = [] \<longleftrightarrow> graph_bounded i (graph_byte_size i nodes) \<and> (\<forall>n \<in> set (gci_nodes i). node_clean n)"
    using nodes by (simp add: graph_codes_none node_codes_none)
  have status: "coverageStatusForGraph nodes ?rs = GECS_fully_covered_no_unsupported_nodes \<longleftrightarrow>
      covers i (graph_byte_size i nodes)"
    unfolding fully_covered_status rs covers_def using nodes by (auto simp: node_clean_def digested_node_def)
  show ?thesis using none w nodes k rs status by (simp add: Let_def)
qed

lemma assertNonce_Inr: "assertNonceUnused r nonce w = (Inr u, w') \<longleftrightarrow> w' = w \<and> \<not> nonce_used r nonce (w_store w)"
  by (auto simp: assertNonceUnused_def tbind_def)

lemma createGeneratedExecutionGraph_Inr:
  assumes "disciplined E" "createGeneratedExecutionGraph E i u w = (Inr g, w')"
  shows "\<exists>r. find_payload as_runtime_execution OT_runtime_execution (gci_runtimeExecutionId i) (w_store w) = Some r \<and>
     tenantId r = gic_tenantId u \<and> rx_runId r = gic_runId u \<and> \<not> nonce_used r (gci_graphNonce i) (w_store w) \<and>
     gx_runtimeExecutionDigest g = rx_runtimeExecutionDigest r \<and> gx_executionBlockDigest g = rx_executionBlockDigest r \<and>
     graph_input_failure i = None \<and> gx_nodes g = map (digested_node E) (gci_nodes i) \<and>
     (gx_coverageStatus g = GECS_fully_covered_no_unsupported_nodes \<longleftrightarrow> covers i (nat (gx_graphByteSize g))) \<and>
     find_payload as_generated_execution_graph OT_generated_execution_graph (gx_generatedExecutionGraphId g) (w_store w') = Some g"
proof -
  obtain r k w1 w2 es where r: "find_payload as_runtime_execution OT_runtime_execution (gci_runtimeExecutionId i) (w_store w) = Some r"
    and issuer: "tenantId r = gic_tenantId u" "rx_runId r = gic_runId u" and nonce: "\<not> nonce_used r (gci_graphNonce i) (w_store w)"
    and k: "deriveGraphCoverage E i w = (Inr k, w1)" and g: "buildGeneratedExecutionGraph E i u r k w1 = (Inr g, w2)"
    and com: "commitRecordsWithEvents E [PR_generated_execution_graph g] [graph_event g] no_options w2 = (Inr es, w')"
    using assms(2)
    by (auto simp: createGeneratedExecutionGraph_def requiredPayload_Inr assertNonce_Inr assertIssuerMatchesRuntime_def
        split: if_splits elim!: tbind_InrE)
  have "find_payload as_generated_execution_graph OT_generated_execution_graph (gx_generatedExecutionGraphId g) (w_store w') = Some g"
    using commitRecords_stores[OF assms(1) com, of "PR_generated_execution_graph g"] by (simp add: find_payload_def)
  moreover have "gx_runtimeExecutionDigest g = rx_runtimeExecutionDigest r \<and> gx_executionBlockDigest g = rx_executionBlockDigest r \<and>
      gx_nodes g = gcv_nodes k \<and> gx_coverageStatus g = gcv_coverageStatus k \<and> gx_graphByteSize g = int (gcv_graphByteSize k)"
    using g by (auto simp: buildGeneratedExecutionGraph_def graph_of_def Let_def elim!: tbind_InrE)
  ultimately show ?thesis
    using r issuer nonce deriveGraphCoverage_Inr[OF k]
    by (intro exI[of _ r]) (auto simp: assertIssuerMatchesRuntime_def split: if_splits)
qed

end
