(* ===== verification/Review.thy ===== *)
theory Review
  imports Schemas_Safe Payloads Recovery_Laws
begin

text \<open>
  Review (\<open>review-binding/artifacts.ts\<close>, \<open>decisions.ts\<close>, \<open>guards.ts\<close>): the artifact a
  reviewer was shown, bound to one contract and one policy input, and the decision
  about it. A decision that does not approve leaves a refusal.
\<close>

section \<open>Artifacts\<close>

record review_artifact_input =
  rai_actionContractId :: "string"
  rai_policyDecisionId :: "string"
  rai_reviewArtifactRef :: "string"
  rai_reviewRenderSchemaVersion :: "string"
  rai_rendererRef :: "string"
  rai_renderedContractDigest :: "string"
  rai_renderedPolicyInputDigest :: "string"
  rai_renderedUncertaintyDigest :: "string"
  rai_renderedArtifactDigest :: "string"
  rai_catalogDigest :: "string option"
  rai_rendererDigest :: "string option"
  rai_actionBindingDigest :: "string option"
  rai_hiddenActionPosture :: "review_hidden_action_posture"
  rai_secondaryActionPosture :: "review_secondary_action_posture"
  rai_uncertaintyMarkers :: "string list"
  rai_evidenceRefs :: "string list"

definition review_artifact_input_valid :: "review_artifact_input \<Rightarrow> bool" where
  "review_artifact_input_valid i \<longleftrightarrow>
     1 \<le> length (rai_actionContractId i) \<and>
     1 \<le> length (rai_policyDecisionId i) \<and>
     1 \<le> length (rai_reviewArtifactRef i) \<and>
     1 \<le> length (rai_reviewRenderSchemaVersion i) \<and>
     1 \<le> length (rai_rendererRef i) \<and>
     digest_ok (rai_renderedContractDigest i) \<and>
     digest_ok (rai_renderedPolicyInputDigest i) \<and>
     digest_ok (rai_renderedUncertaintyDigest i) \<and>
     digest_ok (rai_renderedArtifactDigest i) \<and>
     opt_ok digest_ok (rai_catalogDigest i) \<and>
     opt_ok digest_ok (rai_rendererDigest i) \<and>
     opt_ok digest_ok (rai_actionBindingDigest i) \<and>
     list_all (\<lambda>x. 1 \<le> length x) (rai_uncertaintyMarkers i) \<and>
     list_all (\<lambda>x. 1 \<le> length x) (rai_evidenceRefs i)"


definition review_artifact_failure :: "review_artifact_input \<Rightarrow> action_contract \<Rightarrow> policy_decision \<Rightarrow> string option" where
  "review_artifact_failure i c p =
    (if pd_actionContractId p \<noteq> ac_actionContractId c then Some ''review_artifact_policy_contract_mismatch''
     else if pd_decision p \<noteq> PD_review_required then Some ''review_artifact_not_required''
     else if rai_renderedContractDigest i \<noteq> ac_actionContractDigest c then Some ''review_artifact_contract_digest_mismatch''
     else if rai_renderedPolicyInputDigest i \<noteq> pd_policyInputDigest p then Some ''review_artifact_policy_input_digest_mismatch''
     else None)"

record review_artifact_context =
  rax_input :: review_artifact_input
  rax_contract :: action_contract
  rax_policyDecision :: policy_decision
  rax_reviewArtifactId :: string
  rax_now :: string

definition getReviewArtifactContext :: "kernel_env \<Rightarrow> review_artifact_input \<Rightarrow> review_artifact_context wtr" where
  "getReviewArtifactContext E i =
     tbind (requiredPayload as_action_contract OT_action_contract (rai_actionContractId i) ''contract_missing'') (\<lambda>c.
     tbind (requiredPayload as_policy_decision OT_policy_decision (rai_policyDecisionId i) ''policy_decision_missing'') (\<lambda>p.
     tbind (case review_artifact_failure i c p of Some code \<Rightarrow> tfail (protocol_error code 409) | None \<Rightarrow> treturn ()) (\<lambda>_.
     tbind (createId E ''rart'') (\<lambda>aid.
     tbind (nowIso E) (\<lambda>now.
     treturn \<lparr>rax_input = i, rax_contract = c, rax_policyDecision = p, rax_reviewArtifactId = aid, rax_now = now\<rparr>)))))"

definition buildReviewArtifactBinding :: "review_artifact_input \<Rightarrow> action_contract \<Rightarrow> policy_decision \<Rightarrow> jval" where
  "buildReviewArtifactBinding i c p = JObj
     [(''reviewArtifactRef'', JStr (rai_reviewArtifactRef i)),
      (''reviewRenderSchemaVersion'', JStr (rai_reviewRenderSchemaVersion i)),
      (''rendererRef'', JStr (rai_rendererRef i)), (''actionContractId'', JStr (ac_actionContractId c)),
      (''actionContractDigest'', JStr (ac_actionContractDigest c)),
      (''policyDecisionId'', JStr (pd_policyDecisionId p)),
      (''policyInputDigest'', JStr (pd_policyInputDigest p)),
      (''gatewayPolicyVersion'', JStr (ac_gatewayPolicyVersion c)),
      (''renderedContractDigest'', JStr (rai_renderedContractDigest i)),
      (''renderedPolicyInputDigest'', JStr (rai_renderedPolicyInputDigest i)),
      (''renderedUncertaintyDigest'', JStr (rai_renderedUncertaintyDigest i)),
      (''renderedArtifactDigest'', JStr (rai_renderedArtifactDigest i)),
      (''catalogDigest'', j_opt JStr (rai_catalogDigest i)),
      (''rendererDigest'', j_opt JStr (rai_rendererDigest i)),
      (''actionBindingDigest'', j_opt JStr (rai_actionBindingDigest i)),
      (''hiddenActionPosture'', JStr (review_hidden_action_posture_str (rai_hiddenActionPosture i))),
      (''secondaryActionPosture'', JStr (review_secondary_action_posture_str (rai_secondaryActionPosture i))),
      (''uncertaintyMarkers'', JArr (map JStr (rai_uncertaintyMarkers i))),
      (''evidenceRefs'', JArr (map JStr (rai_evidenceRefs i)))]"

definition review_artifact_of ::
  "review_artifact_input \<Rightarrow> action_contract \<Rightarrow> policy_decision \<Rightarrow> string \<Rightarrow> string \<Rightarrow> string \<Rightarrow> review_artifact" where
  "review_artifact_of i c p now aid digest =
     \<lparr>schemaVersion = PROTOCOL_VERSION, tenantId = tenantId c, organizationId = organizationId c,
      createdAt = now, ra_reviewArtifactId = aid, ra_reviewArtifactRef = rai_reviewArtifactRef i,
      ra_reviewRenderSchemaVersion = rai_reviewRenderSchemaVersion i, ra_rendererRef = rai_rendererRef i,
      ra_actionContractId = ac_actionContractId c, ra_actionContractDigest = ac_actionContractDigest c,
      ra_policyDecisionId = pd_policyDecisionId p, ra_policyInputDigest = pd_policyInputDigest p,
      ra_gatewayPolicyVersion = ac_gatewayPolicyVersion c,
      ra_renderedContractDigest = rai_renderedContractDigest i,
      ra_renderedPolicyInputDigest = rai_renderedPolicyInputDigest i,
      ra_renderedUncertaintyDigest = rai_renderedUncertaintyDigest i,
      ra_renderedArtifactDigest = rai_renderedArtifactDigest i, ra_catalogDigest = rai_catalogDigest i,
      ra_rendererDigest = rai_rendererDigest i, ra_actionBindingDigest = rai_actionBindingDigest i,
      ra_hiddenActionPosture = rai_hiddenActionPosture i,
      ra_secondaryActionPosture = rai_secondaryActionPosture i,
      ra_uncertaintyMarkers = rai_uncertaintyMarkers i, ra_evidenceRefs = rai_evidenceRefs i,
      ra_reviewArtifactDigest = digest\<rparr>"

definition buildReviewArtifact :: "kernel_env \<Rightarrow> review_artifact_context \<Rightarrow> review_artifact wtr" where
  "buildReviewArtifact E x =
    (let i = rax_input x; c = rax_contract x; p = rax_policyDecision x in
     tparse (review_artifact_valid E) (review_artifact_of i c p (rax_now x) (rax_reviewArtifactId x)
       (digestCanonical E (buildReviewArtifactBinding i c p))))"

definition reviewArtifactEvents :: "action_contract \<Rightarrow> review_artifact \<Rightarrow> event_descriptor list" where
  "reviewArtifactEvents c a =
     [\<lparr>ed_source = protocol_base.truncate a, ed_eventType = ET_review_artifact_recorded,
       ed_objectRefs = [ra_reviewArtifactId a, ra_actionContractId a, ra_policyDecisionId a, ra_reviewArtifactDigest a],
       ed_payload = [(''reviewRenderSchemaVersion'', JStr (ra_reviewRenderSchemaVersion a)),
      (''rendererRef'', JStr (ra_rendererRef a))],
       ed_streamRefs = Some (actionLifecycleStreamRefs c)\<rparr>]"

definition createReviewArtifact :: "kernel_env \<Rightarrow> review_artifact_input \<Rightarrow> review_artifact wtr" where
  "createReviewArtifact E input =
     tbind (tparse review_artifact_input_valid input) (\<lambda>i.
     tbind (getReviewArtifactContext E i) (\<lambda>x.
     tbind (buildReviewArtifact E x) (\<lambda>a.
     tbind (commitRecordsWithEvents E [PR_review_artifact a] (reviewArtifactEvents (rax_contract x) a) no_options) (\<lambda>_.
     treturn a))))"

section \<open>Decisions\<close>

record review_decision_input =
  rdi_actionContractId :: "string"
  rdi_policyDecisionId :: "string"
  rdi_reviewArtifactId :: "string"
  rdi_reviewArtifactDigest :: "string"
  rdi_reviewerPrincipalId :: "string"
  rdi_decision :: "review_verdict"
  rdi_decisionReasonCode :: "string"
  rdi_decisionExpiresAt :: "string"
  rdi_signatureOrAttestationRef :: "string"

definition review_decision_input_valid :: "'e env_scheme \<Rightarrow> review_decision_input \<Rightarrow> bool" where
  "review_decision_input_valid E i \<longleftrightarrow>
     1 \<le> length (rdi_actionContractId i) \<and>
     1 \<le> length (rdi_policyDecisionId i) \<and>
     1 \<le> length (rdi_reviewArtifactId i) \<and>
     digest_ok (rdi_reviewArtifactDigest i) \<and>
     1 \<le> length (rdi_reviewerPrincipalId i) \<and>
     2 \<le> length (rdi_decisionReasonCode i) \<and>
     iso_ok E (rdi_decisionExpiresAt i) \<and>
     1 \<le> length (rdi_signatureOrAttestationRef i)"


definition guardReviewDecision :: "action_contract \<Rightarrow> policy_decision \<Rightarrow> guard_result" where
  "guardReviewDecision c p =
    (if pd_actionContractId p \<noteq> ac_actionContractId c then guard_fail ''review_policy_contract_mismatch''
     else if pd_decision p \<noteq> PD_review_required then guard_fail ''review_not_required''
     else guard_ok)"

definition review_binding_failure :: "review_artifact \<Rightarrow> action_contract \<Rightarrow> policy_decision \<Rightarrow> string \<Rightarrow> string option" where
  "review_binding_failure a c p supplied =
    (if ra_reviewArtifactDigest a \<noteq> supplied then Some ''review_artifact_digest_mismatch''
     else if ra_actionContractId a \<noteq> ac_actionContractId c \<or> ra_actionContractDigest a \<noteq> ac_actionContractDigest c \<or>
         ra_renderedContractDigest a \<noteq> ac_actionContractDigest c
       then Some ''review_artifact_contract_mismatch''
     else if ra_policyDecisionId a \<noteq> pd_policyDecisionId p \<or> ra_policyInputDigest a \<noteq> pd_policyInputDigest p \<or>
         ra_renderedPolicyInputDigest a \<noteq> pd_policyInputDigest p
       then Some ''review_artifact_policy_input_mismatch''
     else if ra_gatewayPolicyVersion a \<noteq> ac_gatewayPolicyVersion c then Some ''review_artifact_gateway_policy_mismatch''
     else if ra_hiddenActionPosture a \<noteq> RHAP_no_hidden_actions_detected \<or>
         ra_secondaryActionPosture a \<noteq> RSAP_no_secondary_actions_detected \<or>
         \<not> truthy_ref (ra_catalogDigest a) \<or> \<not> truthy_ref (ra_rendererDigest a) \<or> \<not> truthy_ref (ra_actionBindingDigest a)
       then Some ''review_artifact_action_posture_unsafe''
     else None)"

definition assertReviewArtifactBinding :: "review_artifact \<Rightarrow> action_contract \<Rightarrow> policy_decision \<Rightarrow> string \<Rightarrow> unit wtr" where
  "assertReviewArtifactBinding a c p supplied = (case review_binding_failure a c p supplied of
       Some code \<Rightarrow> tfail (protocol_error code 409) | None \<Rightarrow> treturn ())"

record review_decision_context =
  rdx_input :: review_decision_input
  rdx_contract :: action_contract
  rdx_policyDecision :: policy_decision
  rdx_reviewArtifact :: review_artifact
  rdx_now :: string

definition getReviewDecisionContext :: "kernel_env \<Rightarrow> review_decision_input \<Rightarrow> review_decision_context wtr" where
  "getReviewDecisionContext E i =
     tbind (requiredPayload as_action_contract OT_action_contract (rdi_actionContractId i) ''contract_missing'') (\<lambda>c.
     tbind (requiredPayload as_policy_decision OT_policy_decision (rdi_policyDecisionId i) ''policy_decision_missing'') (\<lambda>p.
     tbind (requiredPayload as_review_artifact OT_review_artifact (rdi_reviewArtifactId i) ''review_artifact_missing'') (\<lambda>a.
     tbind (require_guard (guardReviewDecision c p)) (\<lambda>_.
     tbind (assertReviewArtifactBinding a c p (rdi_reviewArtifactDigest i)) (\<lambda>_.
     tbind (nowIso E) (\<lambda>now.
     treturn \<lparr>rdx_input = i, rdx_contract = c, rdx_policyDecision = p, rdx_reviewArtifact = a, rdx_now = now\<rparr>))))))"

definition review_decision_of ::
  "review_decision_input \<Rightarrow> action_contract \<Rightarrow> policy_decision \<Rightarrow> review_artifact \<Rightarrow> string \<Rightarrow> string \<Rightarrow> review_decision" where
  "review_decision_of i c p a now rid =
     \<lparr>schemaVersion = PROTOCOL_VERSION, tenantId = tenantId c, organizationId = organizationId c,
      createdAt = now, rd_reviewDecisionId = rid, rd_reviewArtifactId = ra_reviewArtifactId a,
      rd_reviewArtifactRef = ra_reviewArtifactRef a, rd_reviewArtifactDigest = ra_reviewArtifactDigest a,
      rd_reviewRenderSchemaVersion = ra_reviewRenderSchemaVersion a,
      rd_reviewerPrincipalId = rdi_reviewerPrincipalId i, rd_actionContractId = ac_actionContractId c,
      rd_actionContractDigest = ac_actionContractDigest c, rd_policyInputDigest = pd_policyInputDigest p,
      rd_gatewayPolicyVersion = ac_gatewayPolicyVersion c, rd_decision = rdi_decision i,
      rd_decisionReasonCode = rdi_decisionReasonCode i, rd_decisionExpiresAt = rdi_decisionExpiresAt i,
      rd_signatureOrAttestationRef = rdi_signatureOrAttestationRef i\<rparr>"

definition buildReviewDecision :: "kernel_env \<Rightarrow> review_decision_context \<Rightarrow> review_decision wtr" where
  "buildReviewDecision E x =
     tbind (createId E ''rev'') (\<lambda>rid. tparse (review_decision_valid E)
       (review_decision_of (rdx_input x) (rdx_contract x) (rdx_policyDecision x) (rdx_reviewArtifact x) (rdx_now x) rid))"

definition review_refusal_draft :: "policy_decision \<Rightarrow> review_decision \<Rightarrow> refusal" where
  "review_refusal_draft p d =
    (let ref = protocolObjectRef ''review_decision'' (rd_reviewDecisionId d) in
     \<lparr>schemaVersion = PROTOCOL_VERSION, tenantId = tenantId d, organizationId = organizationId d,
      createdAt = createdAt d, rf_refusalId = [], rf_phase = RFP_review,
      rf_actionContractId = Some (rd_actionContractId d), rf_policyDecisionId = Some (pd_policyDecisionId p),
      rf_greenlightId = None, rf_gateAttemptId = None, rf_refusedObjectRef = Some ref,
      rf_reasonCode = rd_decisionReasonCode d,
      rf_reason = ''Review decision '' @ review_verdict_str (rd_decision d) @ '' refused authority for the exact action contract.'',
      rf_mutationAttempted = False, rf_authorityCreated = False,
      rf_evidenceRefs = [ref, protocolObjectRef ''review_artifact'' (rd_reviewArtifactId d),
        protocolObjectRef ''action_contract'' (rd_actionContractId d), rd_reviewArtifactDigest d],
      rf_refusedAt = createdAt d\<rparr>)"

definition reviewDecisionRecords :: "review_decision \<Rightarrow> refusal option \<Rightarrow> protocol_record list" where
  "reviewDecisionRecords d f = PR_review_decision d # map PR_refusal (opt_list f)"

definition reviewDecisionEvents :: "action_contract \<Rightarrow> review_decision \<Rightarrow> refusal option \<Rightarrow> event_descriptor list" where
  "reviewDecisionEvents c d refusal =
     \<lparr>ed_source = protocol_base.truncate d, ed_eventType = ET_review_decision_recorded,
      ed_objectRefs = [rd_reviewDecisionId d, rd_reviewArtifactId d, rd_actionContractId d, rd_policyInputDigest d],
      ed_payload = [(''decision'', JStr (review_verdict_str (rd_decision d))),
        (''decisionReasonCode'', JStr (rd_decisionReasonCode d))],
      ed_streamRefs = Some (actionLifecycleStreamRefs c)\<rparr> #
     map (\<lambda>f. \<lparr>ed_source = protocol_base.truncate f, ed_eventType = ET_action_refused,
      ed_objectRefs = [rf_refusalId f, rd_reviewDecisionId d, rd_actionContractId d],
      ed_payload = [(''reasonCode'', JStr (rf_reasonCode f)), (''reviewDecision'', JStr (review_verdict_str (rd_decision d)))],
      ed_streamRefs = Some (actionLifecycleStreamRefs c)\<rparr>) (opt_list refusal)"

definition review_refusal :: "kernel_env \<Rightarrow> policy_decision \<Rightarrow> review_decision \<Rightarrow> refusal option wtr" where
  "review_refusal E p d = (if rd_decision d = RV_approve then treturn None
     else tbind (buildRefusal E (review_refusal_draft p d)) (\<lambda>f. treturn (Some f)))"

definition commitReviewDecision :: "kernel_env \<Rightarrow> review_decision_context \<Rightarrow> review_decision \<Rightarrow> stream_event list wtr" where
  "commitReviewDecision E x d =
     tbind (review_refusal E (rdx_policyDecision x) d) (\<lambda>f.
     commitRecordsWithEvents E (reviewDecisionRecords d f) (reviewDecisionEvents (rdx_contract x) d f) no_options)"

definition createReviewDecision :: "kernel_env \<Rightarrow> review_decision_input \<Rightarrow> review_decision wtr" where
  "createReviewDecision E input =
     tbind (tparse (review_decision_input_valid E) input) (\<lambda>i.
     tbind (getReviewDecisionContext E i) (\<lambda>x.
     tbind (buildReviewDecision E x) (\<lambda>d.
     tbind (commitReviewDecision E x d) (\<lambda>_. treturn d))))"

section \<open>What a decision is bound to\<close>

definition safely_rendered :: "review_artifact \<Rightarrow> bool" where
  "safely_rendered a \<longleftrightarrow> ra_hiddenActionPosture a = RHAP_no_hidden_actions_detected \<and>
     ra_secondaryActionPosture a = RSAP_no_secondary_actions_detected \<and>
     truthy_ref (ra_catalogDigest a) \<and> truthy_ref (ra_rendererDigest a) \<and> truthy_ref (ra_actionBindingDigest a)"

text \<open>The decision is about this contract and this policy input, as the reviewer was shown them.\<close>

definition reviewed :: "review_artifact \<Rightarrow> action_contract \<Rightarrow> policy_decision \<Rightarrow> review_decision \<Rightarrow> bool" where
  "reviewed a c p d \<longleftrightarrow> pd_decision p = PD_review_required \<and>
     pd_actionContractId p = ac_actionContractId c \<and>
     rd_actionContractId d = ac_actionContractId c \<and> rd_actionContractDigest d = ac_actionContractDigest c \<and>
     ra_renderedContractDigest a = ac_actionContractDigest c \<and>
     rd_policyInputDigest d = pd_policyInputDigest p \<and> ra_renderedPolicyInputDigest a = pd_policyInputDigest p \<and>
     rd_reviewArtifactId d = ra_reviewArtifactId a \<and> rd_reviewArtifactDigest d = ra_reviewArtifactDigest a \<and> safely_rendered a"

lemma reads_review [reads_only_intros]:
  "reads_only (getReviewArtifactContext E i)" "reads_only (buildReviewArtifact E x)"
  "reads_only (getReviewDecisionContext E j)" "reads_only (buildReviewDecision E y)"
  unfolding getReviewArtifactContext_def buildReviewArtifact_def getReviewDecisionContext_def buildReviewDecision_def
    assertReviewArtifactBinding_def Let_def
  by (intro reads_only_intros; simp split: option.split; intro reads_only_intros allI impI conjI)+

lemma decision_context_Inr:
  assumes "getReviewDecisionContext E i w = (Inr x, w')"
  shows "find_payload as_action_contract OT_action_contract (rdi_actionContractId i) (w_store w) = Some (rdx_contract x) \<and>
     find_payload as_policy_decision OT_policy_decision (rdi_policyDecisionId i) (w_store w) = Some (rdx_policyDecision x) \<and>
     find_payload as_review_artifact OT_review_artifact (rdi_reviewArtifactId i) (w_store w) = Some (rdx_reviewArtifact x) \<and>
     rdx_input x = i \<and> guardReviewDecision (rdx_contract x) (rdx_policyDecision x) = Inr () \<and>
     review_binding_failure (rdx_reviewArtifact x) (rdx_contract x) (rdx_policyDecision x) (rdi_reviewArtifactDigest i) = None"
  using assms
  by (auto simp: getReviewDecisionContext_def requiredPayload_Inr assertReviewArtifactBinding_def require_guard_def
      split: option.splits sum.splits elim!: tbind_InrE)

lemma decision_reviewed:
  assumes "guardReviewDecision c p = Inr ()" "review_binding_failure a c p supplied = None"
  shows "reviewed a c p (review_decision_of i c p a now rid)"
  using assms
  by (auto simp: reviewed_def safely_rendered_def guardReviewDecision_def guard_fail_def guard_ok_def
      review_binding_failure_def review_decision_of_def split: if_splits)

definition refusal_of_review :: "review_decision \<Rightarrow> pstore \<Rightarrow> bool" where
  "refusal_of_review d s \<longleftrightarrow> (\<exists>f. find_payload as_refusal OT_refusal (rf_refusalId f) s = Some f \<and>
     rf_actionContractId f = Some (rd_actionContractId d) \<and> rf_reasonCode f = rd_decisionReasonCode d \<and>
     \<not> rf_authorityCreated f \<and> \<not> rf_mutationAttempted f)"

lemma createReviewDecision_Inr:
  assumes "disciplined E" "createReviewDecision E i w = (Inr d, w')"
  shows "\<exists>a c p. find_payload as_review_artifact OT_review_artifact (rdi_reviewArtifactId i) (w_store w) = Some a \<and>
     find_payload as_action_contract OT_action_contract (rdi_actionContractId i) (w_store w) = Some c \<and>
     find_payload as_policy_decision OT_policy_decision (rdi_policyDecisionId i) (w_store w) = Some p \<and>
     reviewed a c p d \<and> rd_decision d = rdi_decision i \<and>
     find_payload as_review_decision OT_review_decision (rd_reviewDecisionId d) (w_store w') = Some d \<and>
     (rd_decision d \<noteq> RV_approve \<longrightarrow> refusal_of_review d (w_store w'))"
proof -
  obtain x f w1 w2 w3 es where ctx: "getReviewDecisionContext E i w = (Inr x, w1)" and d: "buildReviewDecision E x w1 = (Inr d, w2)"
    and f: "review_refusal E (rdx_policyDecision x) d w2 = (Inr f, w3)"
    and com: "commitRecordsWithEvents E (reviewDecisionRecords d f) (reviewDecisionEvents (rdx_contract x) d f) no_options w3 = (Inr es, w')"
    using assms(2) by (auto simp: createReviewDecision_def commitReviewDecision_def elim!: tbind_InrE)
  note x = decision_context_Inr[OF ctx]
  obtain rid where rd: "d = review_decision_of i (rdx_contract x) (rdx_policyDecision x) (rdx_reviewArtifact x) (rdx_now x) rid"
    using d x by (auto simp: buildReviewDecision_def elim!: tbind_InrE)
  then have bound: "reviewed (rdx_reviewArtifact x) (rdx_contract x) (rdx_policyDecision x) d" "rd_decision d = rdi_decision i"
    using x decision_reviewed by (auto simp: review_decision_of_def)
  have stored: "getRecord (record_type (PR_review_decision d)) (getObjectId (PR_review_decision d)) (w_store w') =
      Some (buildRecord E (PR_review_decision d))"
    by (rule commitRecords_stores[OF assms(1) com]) (auto simp: reviewDecisionRecords_def)
  have refused: "refusal_of_review d (w_store w')" if no: "rd_decision d \<noteq> RV_approve"
  proof -
    obtain g where g: "f = Some g" and build: "buildRefusal E (review_refusal_draft (rdx_policyDecision x) d) w2 = (Inr g, w3)"
      using f no by (auto simp: review_refusal_def elim!: tbind_InrE)
    have "getRecord (record_type (PR_refusal g)) (getObjectId (PR_refusal g)) (w_store w') = Some (buildRecord E (PR_refusal g))"
      by (rule commitRecords_stores[OF assms(1) com]) (auto simp: reviewDecisionRecords_def g)
    then show ?thesis
      using buildRefusal_Inr[OF build] unfolding refusal_of_review_def
      by (intro exI[of _ g]) (simp add: find_payload_def review_refusal_draft_def Let_def)
  qed
  show ?thesis
    using x bound stored refused
    by (intro exI[of _ "rdx_reviewArtifact x"] exI[of _ "rdx_contract x"] exI[of _ "rdx_policyDecision x"])
       (simp add: find_payload_def)
qed

end
