(* ===== verification/Export.thy ===== *)
theory Export
  imports Schemas_Safe Payloads Posture Receipt_Digests
begin

text \<open>
  Exporting a receipt (\<open>receipt-export/transitions.ts\<close>), which recomputes the digests
  the receipt carries, and recording a bypass probe (\<open>bypass-probe/transitions.ts\<close>).
\<close>

section \<open>Receipt exports\<close>

record export_input =
  rei_receiptId :: "string"
  rei_exportFormat :: "export_format"
  rei_redactionProfileRef :: "string"
  rei_exportPurposeCode :: "string"
  rei_requestedByRef :: "string"
  rei_evidenceRetentionUntil :: "string option"

definition export_input_valid :: "'e env_scheme \<Rightarrow> export_input \<Rightarrow> bool" where
  "export_input_valid E i \<longleftrightarrow>
     1 \<le> length (rei_receiptId i) \<and>
     1 \<le> length (rei_redactionProfileRef i) \<and>
     1 \<le> length (rei_exportPurposeCode i) \<and>
     1 \<le> length (rei_requestedByRef i) \<and>
     opt_ok (iso_ok E) (rei_evidenceRetentionUntil i)"


record export_context =
  rex_input :: export_input
  rex_receipt :: receipt
  rex_contract :: action_contract
  rex_gateAttempt :: "gateway_check_attempt option"
  rex_proofGaps :: "proof_gap list"
  rex_receiptExportId :: string
  rex_now :: string

definition export_failure :: "'e env_scheme \<Rightarrow> receipt \<Rightarrow> string option" where
  "export_failure E r =
    (if \<not> truthy_ref (rc_receiptDigest r) \<or> \<not> truthy_ref (rc_auditChainDigest r) then Some ''receipt_digest_missing''
     else if rc_streamOffsets r = [] \<or> rc_streamEventIds r = [] then Some ''receipt_stream_offsets_missing''
     else if rc_receiptDigest r \<noteq> Some (expected_receipt_digest E r) then Some ''receipt_digest_mismatch''
     else if rc_auditChainDigest r \<noteq> Some (expected_audit_digest E r) then Some ''audit_chain_digest_mismatch''
     else None)"

definition loadExportProofGaps :: "string list \<Rightarrow> proof_gap list wtr" where
  "loadExportProofGaps ids = tmap (\<lambda>x. requiredPayload as_proof_gap OT_proof_gap x ''proof_gap_missing'') ids"

definition getReceiptExportContext :: "kernel_env \<Rightarrow> export_input \<Rightarrow> export_context wtr" where
  "getReceiptExportContext E i =
     tbind (requiredPayload as_receipt OT_receipt (rei_receiptId i) ''receipt_missing'') (\<lambda>r.
     tbind (case export_failure E r of Some code \<Rightarrow> tfail (protocol_error code 409) | None \<Rightarrow> treturn ()) (\<lambda>_.
     tbind (requiredPayload as_action_contract OT_action_contract (rc_actionContractId r) ''contract_missing'') (\<lambda>c.
     tbind (if truthy_ref (rc_gateAttemptId r)
        then tbind (requiredPayload as_gateway_check_attempt OT_gateway_check_attempt (ref_or (rc_gateAttemptId r) [])
          ''gateway_check_attempt_missing'') (\<lambda>g. treturn (Some g)) else treturn None) (\<lambda>gate.
     tbind (loadExportProofGaps (rc_proofGapIds r)) (\<lambda>gs.
     tbind (createId E ''rex'') (\<lambda>xid.
     tbind (nowIso E) (\<lambda>now.
     treturn \<lparr>rex_input = i, rex_receipt = r, rex_contract = c, rex_gateAttempt = gate, rex_proofGaps = gs,
       rex_receiptExportId = xid, rex_now = now\<rparr>)))))))"

definition buildReceiptExportBinding :: "export_input \<Rightarrow> receipt \<Rightarrow> string \<Rightarrow> string \<Rightarrow> jval" where
  "buildReceiptExportBinding i r xid now = JObj
     [(''receiptExportId'', JStr xid), (''receiptId'', JStr (rc_receiptId r)),
      (''actionContractId'', JStr (rc_actionContractId r)),
      (''receiptDigest'', JStr (ref_or (rc_receiptDigest r) [])),
      (''auditChainDigest'', JStr (ref_or (rc_auditChainDigest r) [])),
      (''streamOffsets'', JArr (map receipt_stream_reference_json (rc_streamOffsets r))),
      (''proofGapIds'', JArr (map JStr (rc_proofGapIds r))),
      (''finalityStatus'', JStr (finality_status_str (rc_finalityStatus r))),
      (''exportFormat'', JStr (export_format_str (rei_exportFormat i))),
      (''redactionProfileRef'', JStr (rei_redactionProfileRef i)),
      (''exportPurposeCode'', JStr (rei_exportPurposeCode i)),
      (''requestedByRef'', JStr (rei_requestedByRef i)), (''exportedAt'', JStr now)]"

definition receipt_export_of ::
  "export_input \<Rightarrow> receipt \<Rightarrow> action_contract \<Rightarrow> gateway_check_attempt option \<Rightarrow> proof_gap list \<Rightarrow> string \<Rightarrow> string \<Rightarrow> string \<Rightarrow>
   receipt_export" where
  "receipt_export_of i r c gate gs xid now digest =
     \<lparr>schemaVersion = PROTOCOL_VERSION, tenantId = tenantId r, organizationId = organizationId r,
      createdAt = now, re_receiptExportId = xid, re_receiptId = rc_receiptId r,
      re_actionContractId = rc_actionContractId r, re_policyDecisionId = rc_policyDecisionId r,
      re_greenlightId = rc_greenlightId r, re_gateAttemptId = rc_gateAttemptId r,
      re_mutationAttemptId = rc_mutationAttemptId r, re_gatewayId = rc_gatewayId r,
      re_principalId = ac_principalId c, re_agentId = ac_agentId c, re_runId = ac_runId c,
      re_gatewayPolicyVersion = ac_gatewayPolicyVersion c, re_policyDecisionStatus = rc_policyDecisionStatus r,
      re_gatewayCheckStatus = rc_gatewayCheckStatus r,
      re_gatewayAdmissionStatus = deriveGatewayAdmissionStatus (rc_gatewayCheckStatus r) (rc_greenlightConsumptionStatus r),
      re_gatewayCheckedAt = map_option createdAt gate,
      re_greenlightConsumptionStatus = rc_greenlightConsumptionStatus r,
      re_mutationAttemptStatus = rc_mutationAttemptStatus r,
      re_downstreamExecutionStatus = rc_downstreamExecutionStatus r,
      re_downstreamOutcomeStatus = deriveDownstreamOutcomeStatus (rc_downstreamExecutionStatus r),
      re_proofGapStatus = (if rc_proofGapIds r \<noteq> [] then PGS_present else PGS_none),
      re_proofGapIds = rc_proofGapIds r, re_proofGapReasonCodes = map pg_reasonCode gs,
      re_finalityStatus = rc_finalityStatus r, re_evidenceRefs = rc_evidenceRefs r,
      re_streamOffsets = rc_streamOffsets r, re_receiptDigest = ref_or (rc_receiptDigest r) [],
      re_auditChainDigest = ref_or (rc_auditChainDigest r) [], re_signaturePosture = ac_signaturePosture c,
      re_keyIdentityRef = ac_keyIdentityRef c, re_verificationPolicyRef = ac_verificationPolicyRef c,
      re_exportFormat = rei_exportFormat i, re_redactionProfileRef = rei_redactionProfileRef i,
      re_exportPurposeCode = rei_exportPurposeCode i, re_requestedByRef = rei_requestedByRef i,
      re_evidenceRetentionUntil = rei_evidenceRetentionUntil i, re_exportedAt = now, re_exportDigest = digest\<rparr>"

definition buildReceiptExport :: "kernel_env \<Rightarrow> export_context \<Rightarrow> receipt_export wtr" where
  "buildReceiptExport E x = (let i = rex_input x; r = rex_receipt x in
     tparse (receipt_export_valid E) (receipt_export_of i r (rex_contract x) (rex_gateAttempt x) (rex_proofGaps x)
       (rex_receiptExportId x) (rex_now x)
       (digestCanonical E (buildReceiptExportBinding i r (rex_receiptExportId x) (rex_now x)))))"

definition receiptExportEvents :: "action_contract \<Rightarrow> receipt_export \<Rightarrow> event_descriptor list" where
  "receiptExportEvents c x =
     [\<lparr>ed_source = protocol_base.truncate x, ed_eventType = ET_receipt_exported,
       ed_objectRefs = [re_receiptExportId x, re_receiptId x, re_actionContractId x],
       ed_payload = [(''receiptId'', JStr (re_receiptId x)), (''exportDigest'', JStr (re_exportDigest x)),
      (''finalityStatus'', JStr (finality_status_str (re_finalityStatus x)))],
       ed_streamRefs = Some (actionLifecycleStreamRefs c)\<rparr>]"

definition createReceiptExport :: "kernel_env \<Rightarrow> export_input \<Rightarrow> receipt_export wtr" where
  "createReceiptExport E input =
     tbind (tparse (export_input_valid E) input) (\<lambda>i.
     tbind (getReceiptExportContext E i) (\<lambda>x.
     tbind (buildReceiptExport E x) (\<lambda>e.
     tbind (commitRecordsWithEvents E [PR_receipt_export e] (receiptExportEvents (rex_contract x) e) no_options) (\<lambda>_.
     treturn e))))"

section \<open>Bypass probes\<close>

record probe_input =
  bpi_tenantId :: "string"
  bpi_organizationId :: "string"
  bpi_runtimeAdapterId :: "string"
  bpi_gatewayId :: "string"
  bpi_actionClass :: "string"
  bpi_resourceRef :: "string"
  bpi_protectedSurfaceKind :: "string"
  bpi_probeKind :: "bypass_probe_kind"
  bpi_probeOutcome :: "bypass_probe_outcome"
  bpi_sourceAuthority :: "posture_source_authority"
  bpi_reasonCodes :: "string list"
  bpi_evidenceRefs :: "string list"
  bpi_observedAt :: "string option"
  bpi_expiresAt :: "string"

definition probe_input_valid :: "'e env_scheme \<Rightarrow> probe_input \<Rightarrow> bool" where
  "probe_input_valid E i \<longleftrightarrow>
     1 \<le> length (bpi_tenantId i) \<and>
     1 \<le> length (bpi_organizationId i) \<and>
     1 \<le> length (bpi_runtimeAdapterId i) \<and>
     1 \<le> length (bpi_gatewayId i) \<and>
     1 \<le> length (bpi_actionClass i) \<and>
     1 \<le> length (bpi_resourceRef i) \<and>
     1 \<le> length (bpi_protectedSurfaceKind i) \<and>
     list_all (\<lambda>x. 2 \<le> length x) (bpi_reasonCodes i) \<and>
     list_all (\<lambda>x. 1 \<le> length x) (bpi_evidenceRefs i) \<and>
     opt_ok (iso_ok E) (bpi_observedAt i) \<and>
     iso_ok E (bpi_expiresAt i)"


definition probe_scope_key :: "probe_input \<Rightarrow> string" where
  "probe_scope_key i = postureScopeKey (bpi_tenantId i) (bpi_organizationId i) (bpi_runtimeAdapterId i)
     (bpi_gatewayId i) (bpi_actionClass i) (bpi_resourceRef i)"

definition bypassProbeDigestMaterial :: "probe_input \<Rightarrow> string \<Rightarrow> string \<Rightarrow> jval" where
  "bypassProbeDigestMaterial i observed key = JObj
     [(''postureScopeKey'', JStr key), (''runtimeAdapterId'', JStr (bpi_runtimeAdapterId i)),
      (''gatewayId'', JStr (bpi_gatewayId i)), (''actionClass'', JStr (bpi_actionClass i)),
      (''resourceRef'', JStr (bpi_resourceRef i)),
      (''protectedSurfaceKind'', JStr (bpi_protectedSurfaceKind i)),
      (''probeKind'', JStr (bypass_probe_kind_str (bpi_probeKind i))),
      (''probeOutcome'', JStr (bypass_probe_outcome_str (bpi_probeOutcome i))),
      (''sourceAuthority'', JStr (posture_source_authority_str (bpi_sourceAuthority i))),
      (''reasonCodes'', JArr (map JStr (bpi_reasonCodes i))),
      (''evidenceRefs'', JArr (map JStr (bpi_evidenceRefs i))), (''observedAt'', JStr observed),
      (''expiresAt'', JStr (bpi_expiresAt i))]"

definition probe_of :: "probe_input \<Rightarrow> string \<Rightarrow> string \<Rightarrow> string \<Rightarrow> string \<Rightarrow> string \<Rightarrow> bypass_probe" where
  "probe_of i now observed key pid digest =
     \<lparr>schemaVersion = PROTOCOL_VERSION, tenantId = bpi_tenantId i, organizationId = bpi_organizationId i,
      createdAt = now, bp_bypassProbeId = pid, bp_postureScopeKey = key,
      bp_runtimeAdapterId = bpi_runtimeAdapterId i, bp_gatewayId = bpi_gatewayId i,
      bp_actionClass = bpi_actionClass i, bp_resourceRef = bpi_resourceRef i,
      bp_protectedSurfaceKind = bpi_protectedSurfaceKind i, bp_probeKind = bpi_probeKind i,
      bp_probeOutcome = bpi_probeOutcome i, bp_sourceAuthority = bpi_sourceAuthority i,
      bp_reasonCodes = bpi_reasonCodes i, bp_evidenceRefs = bpi_evidenceRefs i, bp_observedAt = observed,
      bp_expiresAt = bpi_expiresAt i, bp_probeDigest = digest\<rparr>"

definition buildBypassProbe :: "kernel_env \<Rightarrow> probe_input \<Rightarrow> bypass_probe wtr" where
  "buildBypassProbe E i =
     tbind (nowIso E) (\<lambda>now.
     tbind (createId E ''probe'') (\<lambda>pid.
    (let observed = ref_or (bpi_observedAt i) now; key = probe_scope_key i in
     tparse (bypass_probe_valid E)
       (probe_of i now observed key pid (digestCanonical E (bypassProbeDigestMaterial i observed key))))))"

definition bypassProbeEvents :: "bypass_probe \<Rightarrow> event_descriptor list" where
  "bypassProbeEvents p =
     [\<lparr>ed_source = protocol_base.truncate p, ed_eventType = ET_bypass_probe_recorded,
       ed_objectRefs = [bp_bypassProbeId p, bp_postureScopeKey p, bp_probeDigest p],
       ed_payload = [(''postureScopeKey'', JStr (bp_postureScopeKey p)),
      (''probeKind'', JStr (bypass_probe_kind_str (bp_probeKind p))),
      (''probeOutcome'', JStr (bypass_probe_outcome_str (bp_probeOutcome p))),
      (''sourceAuthority'', JStr (posture_source_authority_str (bp_sourceAuthority p)))],
       ed_streamRefs = None\<rparr>]"

definition createBypassProbe :: "kernel_env \<Rightarrow> probe_input \<Rightarrow> bypass_probe wtr" where
  "createBypassProbe E input =
     tbind (tparse (probe_input_valid E) input) (\<lambda>i.
     tbind (buildBypassProbe E i) (\<lambda>p.
     tbind (commitRecordsWithEvents E [PR_bypass_probe p] (bypassProbeEvents p) no_options) (\<lambda>_.
     treturn p)))"

section \<open>What an export says\<close>

lemma export_ok:
  "export_failure E r = None \<longleftrightarrow> receipt_digested E r \<and> rc_receiptDigest r \<noteq> Some [] \<and> rc_auditChainDigest r \<noteq> Some [] \<and>
     rc_streamOffsets r \<noteq> [] \<and> rc_streamEventIds r \<noteq> []"
  by (auto simp: export_failure_def receipt_digested_def truthy_ref_def)

text \<open>The export repeats the outcome of the receipt and names the digests that were recomputed from it.\<close>

definition exports :: "'e env_scheme \<Rightarrow> receipt \<Rightarrow> receipt_export \<Rightarrow> bool" where
  "exports E r x \<longleftrightarrow> receipt_digested E r \<and> re_receiptId x = rc_receiptId r \<and>
     Some (re_receiptDigest x) = rc_receiptDigest r \<and> Some (re_auditChainDigest x) = rc_auditChainDigest r \<and>
     re_proofGapIds x = rc_proofGapIds r \<and> re_finalityStatus x = rc_finalityStatus r \<and>
     re_mutationAttemptStatus x = rc_mutationAttemptStatus r \<and> re_streamOffsets x = rc_streamOffsets r \<and>
     (re_gatewayAdmissionStatus x = GAS_admitted \<longleftrightarrow>
        rc_gatewayCheckStatus r = Some GD_passed \<and> rc_greenlightConsumptionStatus r \<noteq> CONS_replayed)"

lemma export_context_Inr:
  assumes "getReceiptExportContext E i w = (Inr x, w')"
  shows "find_payload as_receipt OT_receipt (rei_receiptId i) (w_store w) = Some (rex_receipt x) \<and>
     export_failure E (rex_receipt x) = None \<and> rex_input x = i"
  using assms
  by (auto simp: getReceiptExportContext_def requiredPayload_Inr split: option.splits elim!: tbind_InrE)

lemma createReceiptExport_Inr:
  assumes "disciplined E" "createReceiptExport E i w = (Inr e, w')"
  shows "\<exists>r. find_payload as_receipt OT_receipt (rei_receiptId i) (w_store w) = Some r \<and> exports E r e \<and>
     find_payload as_receipt_export OT_receipt_export (re_receiptExportId e) (w_store w') = Some e"
proof -
  obtain x w1 w2 es where ctx: "getReceiptExportContext E i w = (Inr x, w1)" and e: "buildReceiptExport E x w1 = (Inr e, w2)"
    and com: "commitRecordsWithEvents E [PR_receipt_export e] (receiptExportEvents (rex_contract x) e) no_options w2 = (Inr es, w')"
    using assms(2) by (auto simp: createReceiptExport_def elim!: tbind_InrE)
  note x = export_context_Inr[OF ctx]
  have "exports E (rex_receipt x) e"
    using e x by (auto simp: exports_def buildReceiptExport_def Let_def receipt_export_of_def export_ok receipt_digested_def
        ref_or_def admitted_iff)
  moreover have "find_payload as_receipt_export OT_receipt_export (re_receiptExportId e) (w_store w') = Some e"
    using commitRecords_stores[OF assms(1) com, of "PR_receipt_export e"] by (simp add: find_payload_def)
  ultimately show ?thesis using x by blast
qed

end
