(* ===== verification/Negotiation.thy ===== *)
theory Negotiation
  imports Schemas_Safe Payloads Agreement Recovery_Laws
begin

text \<open>
  Recording a negotiation (\<open>negotiation/transitions.ts\<close>): sessions, offers, decisions,
  the agreement that an accepted offer becomes, its binding to an action contract, and
  its status. Everything here is evidence; nothing creates authority.
\<close>

section \<open>Reading and checking\<close>

definition conflict :: "string \<Rightarrow> 'a wtr" where
  "conflict code = tfail (protocol_error code 409)"

definition require :: "bool \<Rightarrow> string \<Rightarrow> unit wtr" where
  "require b code = (if b then treturn () else conflict code)"

lemma require_Inr [simp]: "require b code w = (Inr u, w') \<longleftrightarrow> b \<and> w' = w"
  by (auto simp: require_def conflict_def)

lemma reads_require [reads_only_intros]: "reads_only (require b code)"
  by (simp add: require_def conflict_def reads_only_intros)

definition requiredScoped ::
  "(protocol_record \<Rightarrow> ('a protocol_base_scheme) option) \<Rightarrow> protocol_object_type \<Rightarrow> string \<Rightarrow> 'b protocol_base_scheme \<Rightarrow> string
     \<Rightarrow> ('a protocol_base_scheme) wtr" where
  "requiredScoped as t oid expected code =
     tbind (requiredPayload as t oid code) (\<lambda>r.
     tbind (require (sameScope r expected) ''negotiation_scope_mismatch'') (\<lambda>_. treturn r))"

abbreviation requiredSession :: "string \<Rightarrow> 'b protocol_base_scheme \<Rightarrow> negotiation_session wtr" where
  "requiredSession oid expected \<equiv>
     requiredScoped as_negotiation_session OT_negotiation_session oid expected ''negotiation_session_missing''"

abbreviation requiredDecision :: "string \<Rightarrow> 'b protocol_base_scheme \<Rightarrow> negotiation_decision wtr" where
  "requiredDecision oid expected \<equiv>
     requiredScoped as_negotiation_decision OT_negotiation_decision oid expected ''negotiation_decision_missing''"

abbreviation requiredLinkedAgreement :: "string \<Rightarrow> 'b protocol_base_scheme \<Rightarrow> linked_agreement wtr" where
  "requiredLinkedAgreement oid expected \<equiv>
     requiredScoped as_linked_agreement OT_linked_agreement oid expected ''linked_agreement_missing''"

definition offers_in :: "'b protocol_base_scheme \<Rightarrow> pstore \<Rightarrow> negotiation_offer list" where
  "offers_in expected s = payloads as_negotiation_offer (listRecordsByType OT_negotiation_offer (scope_of expected) s)"

definition offer_by_version :: "string \<Rightarrow> string \<Rightarrow> 'b protocol_base_scheme \<Rightarrow> pstore \<Rightarrow> negotiation_offer option" where
  "offer_by_version session version expected s =
     find (\<lambda>x. no_negotiationSessionId x = session \<and> no_offerVersionId x = version) (offers_in expected s)"

definition requiredOfferByVersion :: "string \<Rightarrow> string \<Rightarrow> 'b protocol_base_scheme \<Rightarrow> negotiation_offer wtr" where
  "requiredOfferByVersion session version expected =
     tbind (store_get (offer_by_version session version expected)) (\<lambda>x. case x of
       None \<Rightarrow> tfail (protocol_error ''negotiation_offer_missing'' 404) | Some y \<Rightarrow> treturn y)"

definition partyById :: "negotiation_session \<Rightarrow> string \<Rightarrow> negotiation_party_binding wtr" where
  "partyById s party = (case find (\<lambda>p. npb_partyId p = party) (ns_parties s) of
       None \<Rightarrow> tfail (protocol_error ''negotiation_party_missing'' 404) | Some p \<Rightarrow> treturn p)"

definition assertFresh :: "string option \<Rightarrow> string \<Rightarrow> string \<Rightarrow> unit wtr" where
  "assertFresh expires now code = require (\<not> expired_by expires now) code"

definition negotiation_options :: commit_options where
  "negotiation_options = no_options\<lparr>co_absentOrSame := True\<rparr>"

definition no_effect_fields :: "string \<Rightarrow> (string \<times> jval) list" where
  "no_effect_fields posture = [(''authorityCreated'', JBool False), (''gatewayCheckPerformed'', JBool False),
     (''mutationAttempted'', JBool False), (''evidencePosture'', JStr posture)]"

definition negotiation_event ::
  "protocol_base \<Rightarrow> event_type \<Rightarrow> string list \<Rightarrow> (string \<times> jval) list \<Rightarrow> event_descriptor" where
  "negotiation_event source ty refs payload = \<lparr>ed_source = source, ed_eventType = ty, ed_objectRefs = refs,
     ed_payload = payload, ed_streamRefs = None\<rparr>"

definition commitNegotiationRecord :: "kernel_env \<Rightarrow> protocol_record \<Rightarrow> event_descriptor \<Rightarrow> unit wtr" where
  "commitNegotiationRecord E r d = tbind (commitRecordsWithEvents E [r] [d] negotiation_options) (\<lambda>_. treturn ())"

section \<open>Sessions\<close>

definition session_event :: "negotiation_session \<Rightarrow> event_descriptor" where
  "session_event s = negotiation_event (protocol_base.truncate s) ET_negotiation_session_recorded [ns_negotiationSessionId s]
     ([(''negotiationSessionId'', JStr (ns_negotiationSessionId s)),
       (''subjectResourceRef'', JStr (ns_subjectResourceRef s))] @ no_effect_fields ''recorded_only'')"

definition recordNegotiationSession :: "kernel_env \<Rightarrow> negotiation_session \<Rightarrow> negotiation_session wtr" where
  "recordNegotiationSession E input =
     tbind (tparse (negotiation_session_valid E) input) (\<lambda>s.
     tbind (commitNegotiationRecord E (PR_negotiation_session s) (session_event s)) (\<lambda>_. treturn s))"

section \<open>Offers\<close>

definition offer_version_taken :: "negotiation_offer \<Rightarrow> pstore \<Rightarrow> bool" where
  "offer_version_taken x s \<longleftrightarrow> find (\<lambda>y. no_negotiationSessionId y = no_negotiationSessionId x \<and>
     no_offerVersionId y = no_offerVersionId x \<and> no_negotiationOfferId y \<noteq> no_negotiationOfferId x) (offers_in x s) \<noteq> None"

definition assertOfferVersionUnique :: "negotiation_offer \<Rightarrow> unit wtr" where
  "assertOfferVersionUnique x = tbind (store_get (offer_version_taken x)) (\<lambda>taken.
     require (\<not> taken) ''negotiation_offer_version_conflict'')"

definition assertReferencedOfferVersion :: "negotiation_offer \<Rightarrow> string option \<Rightarrow> string \<Rightarrow> unit wtr" where
  "assertReferencedOfferVersion x ref code = (case ref of None \<Rightarrow> treturn ()
     | Some v \<Rightarrow> tbind (requiredOfferByVersion (no_negotiationSessionId x) v x) (\<lambda>y.
         require (no_offerSequence y < no_offerSequence x) code))"

definition offer_event :: "negotiation_offer \<Rightarrow> event_descriptor" where
  "offer_event x = negotiation_event (protocol_base.truncate x) ET_negotiation_offer_recorded
     [no_negotiationOfferId x, no_negotiationSessionId x]
     ([(''negotiationSessionId'', JStr (no_negotiationSessionId x)), (''negotiationOfferId'', JStr (no_negotiationOfferId x)),
       (''offerVersionId'', JStr (no_offerVersionId x)), (''offerSequence'', JInt (no_offerSequence x))] @
      no_effect_fields ''recorded_only'')"

definition recordNegotiationOffer :: "kernel_env \<Rightarrow> negotiation_offer \<Rightarrow> negotiation_offer wtr" where
  "recordNegotiationOffer E input =
     tbind (tparse (negotiation_offer_valid E) input) (\<lambda>x.
     tbind (requiredSession (no_negotiationSessionId x) x) (\<lambda>s.
     tbind (assertFresh (ns_expiresAt s) (createdAt x) ''negotiation_session_expired'') (\<lambda>_.
     tbind (partyById s (no_offeredByPartyId x)) (\<lambda>_.
     tbind (assertOfferVersionUnique x) (\<lambda>_.
     tbind (assertReferencedOfferVersion x (no_previousOfferVersionId x) ''negotiation_offer_missing'') (\<lambda>_.
     tbind (assertReferencedOfferVersion x (no_supersedesOfferVersionId x) ''negotiation_offer_missing'') (\<lambda>_.
     tbind (commitNegotiationRecord E (PR_negotiation_offer x) (offer_event x)) (\<lambda>_. treturn x))))))))"

section \<open>Decisions\<close>

definition later_offer :: "negotiation_offer \<Rightarrow> pstore \<Rightarrow> bool" where
  "later_offer x s \<longleftrightarrow> find (\<lambda>y. no_negotiationSessionId y = no_negotiationSessionId x \<and>
     no_offerSequence x < no_offerSequence y) (offers_in x s) \<noteq> None"

definition assertOfferIsCurrent :: "negotiation_offer \<Rightarrow> unit wtr" where
  "assertOfferIsCurrent x = tbind (store_get (later_offer x)) (\<lambda>later. require (\<not> later) ''negotiation_offer_stale'')"

definition assertCounterOffer :: "negotiation_decision \<Rightarrow> negotiation_offer \<Rightarrow> unit wtr" where
  "assertCounterOffer d x =
     tbind (requiredOfferByVersion (nd_negotiationSessionId d) (ref_or (nd_counterOfferVersionId d) []) d) (\<lambda>y.
     tbind (assertFresh (no_expiresAt y) (createdAt d) ''negotiation_offer_expired'') (\<lambda>_.
     require (no_offerSequence x < no_offerSequence y) ''negotiation_counter_offer_stale''))"

definition negotiation_decision_event :: "negotiation_decision \<Rightarrow> negotiation_offer \<Rightarrow> event_descriptor" where
  "negotiation_decision_event d x = negotiation_event (protocol_base.truncate d) ET_negotiation_decision_recorded
     [nd_negotiationDecisionId d, nd_negotiationSessionId d, no_negotiationOfferId x]
     ([(''negotiationSessionId'', JStr (nd_negotiationSessionId d)),
       (''negotiationDecisionId'', JStr (nd_negotiationDecisionId d)),
       (''decidedOfferVersionId'', JStr (nd_decidedOfferVersionId d)),
       (''decision'', JStr (negotiation_verdict_str (nd_decision d)))] @ no_effect_fields ''recorded_only'')"

definition recordNegotiationDecision :: "kernel_env \<Rightarrow> negotiation_decision \<Rightarrow> negotiation_decision wtr" where
  "recordNegotiationDecision E input =
     tbind (tparse (negotiation_decision_valid E) input) (\<lambda>d.
     tbind (requiredSession (nd_negotiationSessionId d) d) (\<lambda>s.
     tbind (assertFresh (ns_expiresAt s) (createdAt d) ''negotiation_session_expired'') (\<lambda>_.
     tbind (partyById s (nd_decidedByPartyId d)) (\<lambda>_.
     tbind (requiredOfferByVersion (nd_negotiationSessionId d) (nd_decidedOfferVersionId d) d) (\<lambda>x.
     tbind (assertFresh (no_expiresAt x) (createdAt d) ''negotiation_offer_expired'') (\<lambda>_.
     tbind (require (no_offerSequence x = nd_decidedOfferSequence d) ''negotiation_offer_sequence_mismatch'') (\<lambda>_.
     tbind (if nd_decision d = NV_accept then assertOfferIsCurrent x else treturn ()) (\<lambda>_.
     tbind (if nd_decision d = NV_counter then assertCounterOffer d x else treturn ()) (\<lambda>_.
     tbind (commitNegotiationRecord E (PR_negotiation_decision d) (negotiation_decision_event d x)) (\<lambda>_. treturn d))))))))))"

section \<open>Agreements\<close>

definition agreement_failure ::
  "linked_agreement \<Rightarrow> negotiation_decision \<Rightarrow> negotiation_offer \<Rightarrow> string option" where
  "agreement_failure a d x =
    (if nd_decidedOfferVersionId d \<noteq> la_acceptedOfferVersionId a then Some ''linked_agreement_offer_mismatch''
     else if no_offerSequence x \<noteq> la_acceptedOfferSequence a \<or> nd_decidedOfferSequence d \<noteq> la_acceptedOfferSequence a
       then Some ''linked_agreement_offer_mismatch''
     else if no_offerContentDigest x \<noteq> la_acceptedOfferContentDigest a then Some ''linked_agreement_digest_mismatch''
     else if nd_decidedByPartyId d \<noteq> la_acceptedByPartyId a then Some ''linked_agreement_party_mismatch''
     else None)"

definition unless_failing :: "string option \<Rightarrow> unit wtr" where
  "unless_failing f = (case f of None \<Rightarrow> treturn () | Some code \<Rightarrow> conflict code)"

lemma unless_failing_Inr [simp]: "unless_failing f w = (Inr u, w') \<longleftrightarrow> f = None \<and> w' = w"
  by (cases f) (auto simp: unless_failing_def conflict_def)

lemma reads_unless_failing [reads_only_intros]: "reads_only (unless_failing f)"
  by (cases f) (simp_all add: unless_failing_def conflict_def reads_only_intros)

definition agreement_duplicated :: "linked_agreement \<Rightarrow> pstore \<Rightarrow> bool" where
  "agreement_duplicated a s \<longleftrightarrow>
     find (\<lambda>b. la_acceptedNegotiationDecisionId b = la_acceptedNegotiationDecisionId a \<and>
        la_linkedAgreementId b \<noteq> la_linkedAgreementId a)
       (payloads as_linked_agreement (listRecordsByType OT_linked_agreement (scope_of a) s)) \<noteq> None"

definition assertLinkedAgreementUnique :: "linked_agreement \<Rightarrow> unit wtr" where
  "assertLinkedAgreementUnique a = tbind (store_get (agreement_duplicated a)) (\<lambda>dup.
     require (\<not> dup) ''linked_agreement_duplicate'')"

definition agreement_event :: "linked_agreement \<Rightarrow> negotiation_offer \<Rightarrow> event_descriptor" where
  "agreement_event a x = negotiation_event (protocol_base.truncate a) ET_linked_agreement_recorded
     [la_linkedAgreementId a, la_negotiationSessionId a, la_acceptedNegotiationDecisionId a, no_negotiationOfferId x]
     ([(''linkedAgreementId'', JStr (la_linkedAgreementId a)), (''negotiationSessionId'', JStr (la_negotiationSessionId a)),
       (''acceptedOfferVersionId'', JStr (la_acceptedOfferVersionId a))] @ no_effect_fields ''local_evidence_only'')"

definition recordLinkedAgreement :: "kernel_env \<Rightarrow> linked_agreement \<Rightarrow> linked_agreement wtr" where
  "recordLinkedAgreement E input =
     tbind (tparse (linked_agreement_valid E) input) (\<lambda>a.
     tbind (requiredSession (la_negotiationSessionId a) a) (\<lambda>s.
     tbind (assertFresh (ns_expiresAt s) (createdAt a) ''negotiation_session_expired'') (\<lambda>_.
     tbind (requiredDecision (la_acceptedNegotiationDecisionId a) a) (\<lambda>d.
     tbind (require (nd_negotiationSessionId d = la_negotiationSessionId a) ''negotiation_decision_session_mismatch'') (\<lambda>_.
     tbind (require (nd_decision d = NV_accept) ''negotiation_decision_not_accept'') (\<lambda>_.
     tbind (requiredOfferByVersion (la_negotiationSessionId a) (la_acceptedOfferVersionId a) a) (\<lambda>x.
     tbind (assertFresh (no_expiresAt x) (createdAt a) ''negotiation_offer_expired'') (\<lambda>_.
     tbind (unless_failing (agreement_failure a d x)) (\<lambda>_.
     tbind (partyById s (la_acceptedByPartyId a)) (\<lambda>p.
     tbind (require (npb_agentRef p = la_counterpartyRef a) ''linked_agreement_counterparty_mismatch'') (\<lambda>_.
     tbind (assertLinkedAgreementUnique a) (\<lambda>_.
     tbind (commitNegotiationRecord E (PR_linked_agreement a) (agreement_event a x)) (\<lambda>_. treturn a)))))))))))))"

section \<open>Obligations bound to a contract\<close>

definition refMatchesObjectId :: "string \<Rightarrow> string \<Rightarrow> string \<Rightarrow> bool" where
  "refMatchesObjectId ref t oid \<longleftrightarrow> ref = oid \<or> ref = t @ '':'' @ oid"

definition contract_evidence :: "action_contract \<Rightarrow> evidence_ref \<Rightarrow> bool" where
  "contract_evidence c e \<longleftrightarrow> er_refKind e = ORK_action_contract \<and>
     refMatchesObjectId (er_ref e) ''action_contract'' (ac_actionContractId c) \<and>
     (er_digest e = None \<or> er_digest e = Some (ac_actionContractDigest c))"

definition binding_contract_failure :: "agreement_obligation_binding \<Rightarrow> action_contract \<Rightarrow> string option" where
  "binding_contract_failure b c =
    (if Some (ab_obligationRef b) \<noteq> ce_obligationRef (ac_clearingEvidenceRefs c)
       then Some ''agreement_obligation_binding_mismatch''
     else if Some (ab_counterpartyRef b) \<noteq> ce_counterpartyRef (ac_clearingEvidenceRefs c)
       then Some ''agreement_obligation_counterparty_mismatch''
     else if ab_actionContractDigest b \<noteq> ac_actionContractDigest c then Some ''agreement_obligation_contract_mismatch''
     else if ab_paramsDigest b \<noteq> ac_paramsDigest c then Some ''agreement_obligation_params_mismatch''
     else if ab_actionTypeId b \<noteq> ac_actionTypeId c \<or> ab_actionClass b \<noteq> ac_actionClass c \<or>
         ab_resourceRef b \<noteq> ac_resourceRef c
       then Some ''agreement_obligation_contract_mismatch''
     else if \<not> list_ex (contract_evidence c) (ab_localProtectedActionEvidenceRefs b)
       then Some ''agreement_obligation_contract_mismatch''
     else None)"

definition binding_agreement_failure :: "agreement_obligation_binding \<Rightarrow> linked_agreement \<Rightarrow> string option" where
  "binding_agreement_failure b a =
    (if ab_counterpartyRef b \<noteq> la_counterpartyRef a then Some ''agreement_obligation_counterparty_mismatch''
     else if Some (ab_obligationRef b) \<noteq> ce_obligationRef (la_clearingEvidenceRefs a)
       then Some ''agreement_obligation_binding_mismatch''
     else None)"

definition obligation_reused :: "agreement_obligation_binding \<Rightarrow> pstore \<Rightarrow> bool" where
  "obligation_reused b s \<longleftrightarrow>
     find (\<lambda>x. ((ab_actionContractId x = ab_actionContractId b \<and> ab_obligationRef x = ab_obligationRef b) \<or>
          (ab_linkedAgreementId x = ab_linkedAgreementId b \<and> ab_obligationRef x = ab_obligationRef b \<and>
           ab_counterpartyRef x = ab_counterpartyRef b)) \<and>
        ab_obligationRef x = ab_obligationRef b \<and>
        ab_agreementObligationBindingId x \<noteq> ab_agreementObligationBindingId b)
       (payloads as_agreement_obligation_binding (listRecordsByType OT_agreement_obligation_binding (scope_of b) s)) \<noteq> None"

definition assertAgreementBindingUnique :: "agreement_obligation_binding \<Rightarrow> unit wtr" where
  "assertAgreementBindingUnique b = tbind (store_get (obligation_reused b)) (\<lambda>reused.
     require (\<not> reused) ''agreement_obligation_reused'')"

definition contractOfBinding :: "agreement_obligation_binding \<Rightarrow> action_contract wtr" where
  "contractOfBinding b = tbind (store_get (find_payload as_action_contract OT_action_contract (ab_actionContractId b))) (\<lambda>c.
     case c of None \<Rightarrow> conflict ''agreement_obligation_contract_missing'' | Some k \<Rightarrow> treturn k)"

definition binding_event :: "agreement_obligation_binding \<Rightarrow> event_descriptor" where
  "binding_event b = negotiation_event (protocol_base.truncate b) ET_agreement_obligation_binding_recorded
     [ab_agreementObligationBindingId b, ab_linkedAgreementId b, ab_actionContractId b]
     ([(''agreementObligationBindingId'', JStr (ab_agreementObligationBindingId b)),
       (''linkedAgreementId'', JStr (ab_linkedAgreementId b)), (''actionContractId'', JStr (ab_actionContractId b))] @
      no_effect_fields ''local_evidence_only'')"

definition recordAgreementObligationBinding ::
  "kernel_env \<Rightarrow> agreement_obligation_binding \<Rightarrow> agreement_obligation_binding wtr" where
  "recordAgreementObligationBinding E input =
     tbind (tparse (agreement_obligation_binding_valid E) input) (\<lambda>b.
     tbind (requiredLinkedAgreement (ab_linkedAgreementId b) b) (\<lambda>a.
     tbind (require (la_negotiationSessionId a = ab_negotiationSessionId b) ''linked_agreement_session_mismatch'') (\<lambda>_.
     tbind (store_get (currentAgreementStatus a)) (\<lambda>status.
     tbind (require (status = AS_active) ''agreement_not_active'') (\<lambda>_.
     tbind (contractOfBinding b) (\<lambda>c.
     tbind (require (sameScope c b) ''agreement_obligation_contract_scope_mismatch'') (\<lambda>_.
     tbind (unless_failing (binding_contract_failure b c)) (\<lambda>_.
     tbind (unless_failing (binding_agreement_failure b a)) (\<lambda>_.
     tbind (assertAgreementBindingUnique b) (\<lambda>_.
     tbind (commitNegotiationRecord E (PR_agreement_obligation_binding b) (binding_event b)) (\<lambda>_. treturn b)))))))))))"

section \<open>The status of an agreement\<close>

definition isAllowedStatusTransition :: "agreement_status \<Rightarrow> agreement_status \<Rightarrow> bool" where
  "isAllowedStatusTransition from to = (case from of
       AS_proposed \<Rightarrow> to \<in> {AS_active, AS_expired, AS_superseded, AS_withdrawn}
     | AS_active \<Rightarrow> to \<in> {AS_disputed, AS_expired, AS_resolved, AS_superseded, AS_withdrawn}
     | AS_disputed \<Rightarrow> to \<in> {AS_resolved, AS_withdrawn}
     | _ \<Rightarrow> False)"

definition status_event :: "agreement_status_transition \<Rightarrow> event_descriptor" where
  "status_event t = negotiation_event (protocol_base.truncate t) ET_agreement_status_transition_recorded
     [ast_agreementStatusTransitionId t, ast_linkedAgreementId t]
     ([(''agreementStatusTransitionId'', JStr (ast_agreementStatusTransitionId t)),
       (''linkedAgreementId'', JStr (ast_linkedAgreementId t)), (''fromStatus'', JStr (agreement_status_str (ast_fromStatus t))),
       (''toStatus'', JStr (agreement_next_status_str (ast_toStatus t)))] @ no_effect_fields ''recorded_only'')"

definition transitionAgreementStatus :: "kernel_env \<Rightarrow> agreement_status_transition \<Rightarrow> agreement_status_transition wtr" where
  "transitionAgreementStatus E input =
     tbind (tparse (agreement_status_transition_valid E) input) (\<lambda>t.
     tbind (requiredLinkedAgreement (ast_linkedAgreementId t) t) (\<lambda>a.
     tbind (require (la_negotiationSessionId a = ast_negotiationSessionId t) ''linked_agreement_session_mismatch'') (\<lambda>_.
     tbind (store_get (currentAgreementStatus a)) (\<lambda>current.
     tbind (require (current = ast_fromStatus t) ''agreement_status_stale'') (\<lambda>_.
     tbind (require (isAllowedStatusTransition (ast_fromStatus t) (next_agreement_status (ast_toStatus t)))
        ''agreement_status_transition_invalid'') (\<lambda>_.
     tbind (commitNegotiationRecord E (PR_agreement_status_transition t) (status_event t)) (\<lambda>_. treturn t)))))))"

end
