(* ===== verification/Serial.thy ===== *)
theory Serial
  imports Requests
begin

text \<open>
  Requests that run one after the other. Nothing happens to the store between the
  reads of a request and its commit, so what the request tested still holds of the store
  that the commit extends, and a listing of the records of a type grows by exactly the
  records of that type that were committed.
\<close>

section \<open>A commit without interference\<close>

definition undisturbed :: "kernel_env \<Rightarrow> bool" where
  "undisturbed E \<longleftrightarrow> (\<forall>n s. ke_interfere E n s = s)"

lemma undisturbed_disciplined: "undisturbed E \<Longrightarrow> disciplined E"
  by (simp add: undisturbed_def disciplined_def)

lemma commit_attempts_serial:
  assumes "undisturbed E" "commit_attempts E rs ds opts n w = (Inr (TC_committed es), w')"
  shows "commitProtocolRecords (commit_of rs es opts) (w_store w) = (CR_committed, w_store w')"
  using assms(2)
proof (induction n arbitrary: w)
  case (Suc n)
  obtain es0 w1 where chain: "buildEventChain E (w_store w) ds w = (Inr es0, w1)"
    using Suc.prems by (auto simp: tbind_Inr_iff)
  have st1: "w_store w1 = w_store w" using chain by (rule buildEventChain_store)
  have still: "ke_interfere E (tick w1) (w_store w) = w_store w" using assms(1) by (simp add: undisturbed_def)
  obtain res u where cm: "commitProtocolRecords (commit_of rs es0 opts) (w_store w) = (res, u)"
    by (cases "commitProtocolRecords (commit_of rs es0 opts) (w_store w)") auto
  show ?case
  proof (cases res)
    case CR_committed
    then have "es = es0" "w_store w' = u"
      using Suc.prems chain st1 cm still by (auto simp: interfere_def)
    then show ?thesis using cm CR_committed by simp
  next
    case CR_stream_conflict
    have u: "u = w_store w" using commitProtocolRecords_rejected[OF cm] CR_stream_conflict by simp
    have "commit_attempts E rs ds opts n (w1\<lparr>tick := Suc (tick w1), w_store := u\<rparr>) = (Inr (TC_committed es), w')"
      using Suc.prems chain st1 cm still CR_stream_conflict by (simp add: interfere_def)
    from Suc.IH[OF this] show ?thesis using u by simp
  qed (use Suc.prems chain st1 cm still in \<open>simp_all add: interfere_def\<close>)
qed simp

lemma commitRecords_serial:
  assumes "undisturbed E" "commitRecordsWithEvents E rs ds opts w = (Inr es, w')"
  shows "\<exists>rs'. (rs' = rs \<or> (\<exists>c. rs' = PR_transition_request_context c # rs)) \<and>
    commitProtocolRecords (commit_of (map (buildRecord E) rs') es opts) (w_store w) = (CR_committed, w_store w')"
proof -
  obtain r w1 where "tryCommitRecordsWithEvents E rs ds opts w = (Inr r, w1)"
    "(case r of TC_committed es \<Rightarrow> treturn es
       | TC_idempotency_ledger_conflict \<Rightarrow> tfail (protocol_error ''idempotency_ledger_conflict'' 409)
       | TC_record_digest_conflict \<Rightarrow> tfail (protocol_error ''bootstrap_record_digest_conflict'' 409)) w1 = (Inr es, w')"
    using assms(2) unfolding commitRecordsWithEvents_def by (auto simp: tbind_Inr_iff)
  then have "tryCommitRecordsWithEvents E rs ds opts w = (Inr (TC_committed es), w')"
    by (cases r) auto
  then obtain rs' ds' w2 where ctx: "withTransitionRequestContext E rs ds w = (Inr (rs', ds'), w2)"
    and com: "commit_attempts E (map (buildRecord E) rs') ds' opts (Suc MAX_STREAM_COMMIT_RETRIES) w2
      = (Inr (TC_committed es), w')"
    unfolding tryCommitRecordsWithEvents_def
    by (auto simp: tbind_Inr_iff simp del: commit_attempts.simps)
  have "w_store w2 = w_store w" using ctx by (rule withContext_store)
  then show ?thesis
    using commit_attempts_serial[OF assms(1) com] withContext_descriptors[OF ctx] by auto
qed

section \<open>What a commit leaves alone\<close>

lemma commit_keeps_others:
  assumes "undisturbed E" "commitRecordsWithEvents E rs ds opts w = (Inr es, w')"
    "t \<notin> record_type ` set rs" "t \<notin> {OT_contract_stream_event, OT_transition_request_context}"
  shows "getRecord t oid (w_store w') = getRecord t oid (w_store w)"
proof -
  obtain rs' where rs: "rs' = rs \<or> (\<exists>c. rs' = PR_transition_request_context c # rs)"
    and com: "commitProtocolRecords (commit_of (map (buildRecord E) rs') es opts) (w_store w) = (CR_committed, w_store w')"
    using commitRecords_serial[OF assms(1,2)] by blast
  have recs: "s_records (w_store w') = set_all stored_key (map event_record es)
      (set_all stored_key (map (buildRecord E) rs') (s_records (w_store w)))"
    using commitProtocolRecords_committedD(6)[OF com] by simp
  have events: "recordKey t oid \<notin> stored_key ` set (map event_record es)"
    using assms(4) by (auto simp: event_record_def stored_key_def recordKey_inj)
  have built: "recordKey t oid \<notin> stored_key ` set (map (buildRecord E) rs')"
    using rs assms(3,4) by (auto simp: buildRecord_def stored_key_def recordKey_inj Let_def)
  show ?thesis unfolding getRecord_def recs set_all_other[OF events] set_all_other[OF built] by (rule refl)
qed

lemma commit_keeps_payloads:
  assumes "undisturbed E" "commitRecordsWithEvents E rs ds opts w = (Inr es, w')"
    "t \<notin> record_type ` set rs" "t \<notin> {OT_contract_stream_event, OT_transition_request_context}"
  shows "find_payload as t oid (w_store w') = find_payload as t oid (w_store w)"
  using commit_keeps_others[OF assms] by (simp add: find_payload_def)

section \<open>Records are kept under their own key\<close>

definition keyed :: "(string \<times> stored_record) list \<Rightarrow> bool" where
  "keyed m \<longleftrightarrow> (\<forall>(k, r) \<in> set m. k = stored_key r)"

definition records_keyed :: "pstore \<Rightarrow> bool" where
  "records_keyed s \<longleftrightarrow> keyed (s_records s)"

lemma keyed_simps [simp]: "keyed []" "keyed (p # m) \<longleftrightarrow> fst p = stored_key (snd p) \<and> keyed m"
  by (auto simp: keyed_def)

lemma keyed_update: "keyed m \<Longrightarrow> keyed (AList.update (stored_key r) r m)"
  by (induction m) (auto split: prod.splits)

lemma keyed_set_all: "keyed m \<Longrightarrow> keyed (set_all stored_key rs m)"
  by (induction rs arbitrary: m) (auto intro: keyed_update)

lemma records_keyed_empty: "records_keyed empty_store"
  by (simp add: records_keyed_def empty_store_def)

lemma records_keyed_put: "records_keyed s \<Longrightarrow> records_keyed (putRecord r s)"
  by (simp add: records_keyed_def putRecord_def keyed_update)

lemma records_keyed_stage: "records_keyed s \<Longrightarrow> records_keyed (stageRecordsAndEvents rs es s)"
  by (simp add: records_keyed_def stageRecordsAndEvents_def keyed_set_all)

lemma records_keyed_step: "store_step s t \<Longrightarrow> records_keyed s \<Longrightarrow> records_keyed t"
proof (induction rule: store_step.induct)
  case (step_put s r)
  then show ?case by (rule records_keyed_put)
next
  case (step_put_absent s r)
  then show ?case
    by (auto simp: putRecordIfAbsentOrSame_def records_keyed_put split: option.splits)
next
  case (step_append s e)
  then show ?case by (auto simp: appendEvent_def records_keyed_def keyed_update putRecord_def)
next
  case (step_consume s c)
  then show ?case by (auto simp: consumeGreenlight_def records_keyed_def Let_def split: option.splits)
next
  case (step_commit s p)
  then show ?case
    by (auto simp: commitProtocolRecords_def records_keyed_def stageRecordsAndEvents_def keyed_set_all)
next
  case (step_gateway s g)
  then show ?case
    by (auto simp: commitGatewayCheck_def records_keyed_def stageRecordsAndEvents_def keyed_set_all)
qed

text \<open>
  A stored record is about the payload it holds. The recorder stores no other records; a
  caller of the store's own operations could.
\<close>

definition built :: "stored_record \<Rightarrow> bool" where
  "built r \<longleftrightarrow> st_objectId r = getObjectId (st_payload r) \<and> st_objectType r = record_type (st_payload r)"

definition records_built :: "pstore \<Rightarrow> bool" where
  "records_built s \<longleftrightarrow> list_all (\<lambda>(k, r). built r) (s_records s)"

lemma built_buildRecord: "built (buildRecord E r)"
  by (simp add: built_def buildRecord_def Let_def)

lemma built_event: "built (event_record e)"
  by (simp add: built_def event_record_def)

lemma built_update: "list_all (\<lambda>(k, r). built r) m \<Longrightarrow> built x \<Longrightarrow> list_all (\<lambda>(k, r). built r) (AList.update j x m)"
  by (induction m) auto

lemma built_set_all:
  "list_all (\<lambda>(k, r). built r) m \<Longrightarrow> list_all built rs \<Longrightarrow> list_all (\<lambda>(k, r). built r) (set_all key rs m)"
  by (induction rs arbitrary: m) (auto intro: built_update)

lemma records_built_commit:
  assumes "undisturbed E" "commitRecordsWithEvents E rs ds opts w = (Inr es, w')" "records_built (w_store w)"
  shows "records_built (w_store w')"
proof -
  obtain rs' where com: "commitProtocolRecords (commit_of (map (buildRecord E) rs') es opts) (w_store w) = (CR_committed, w_store w')"
    using commitRecords_serial[OF assms(1,2)] by blast
  have "s_records (w_store w') = set_all stored_key (map event_record es)
      (set_all stored_key (map (buildRecord E) rs') (s_records (w_store w)))"
    using commitProtocolRecords_committedD(6)[OF com] by simp
  then show ?thesis
    unfolding records_built_def
    by (simp only:) (intro built_set_all assms(3)[unfolded records_built_def];
      simp add: list_all_iff built_buildRecord built_event)
qed

text \<open>What is stored under an identifier has that identifier.\<close>

lemma stored_identity:
  assumes "records_keyed s" "records_built s" "getRecord t oid s = Some r"
  shows "oid = getObjectId (st_payload r)" "t = record_type (st_payload r)"
proof -
  have "(recordKey t oid, r) \<in> set (s_records s)" using assms(3) by (simp add: getRecord_def map_of_SomeD)
  then have "recordKey t oid = stored_key r" "built r"
    using assms(1,2) by (auto simp: records_keyed_def keyed_def records_built_def list_all_iff)
  then show "oid = getObjectId (st_payload r)" "t = record_type (st_payload r)"
    by (auto simp: stored_key_def built_def recordKey_inj)
qed

lemma found_identity:
  assumes "records_keyed s" "records_built s" "find_payload as t oid s = Some x"
  shows "\<exists>p. as p = Some x \<and> getObjectId p = oid \<and> record_type p = t"
proof -
  obtain r where "getRecord t oid s = Some r" "as (st_payload r) = Some x"
    using assms(3) by (auto simp: find_payload_def split: option.splits)
  with stored_identity[OF assms(1,2)] show ?thesis by metis
qed

section \<open>A listing grows by what was committed\<close>

definition listing :: "protocol_object_type \<Rightarrow> record_scope \<Rightarrow> (string \<times> stored_record) list \<Rightarrow> stored_record list" where
  "listing t sc m = filter (\<lambda>r. st_objectType r = t \<and> in_scope sc r) (map snd m)"

lemma listing_list: "listRecordsByType t sc s = listing t sc (s_records s)"
  by (simp add: listRecordsByType_def listing_def)

lemma listing_other:
  "keyed m \<Longrightarrow> st_objectType r \<noteq> t \<Longrightarrow> listing t sc (AList.update (stored_key r) r m) = listing t sc m"
  by (induction m) (auto simp: listing_def stored_key_def recordKey_inj)

lemma listing_others:
  "keyed m \<Longrightarrow> t \<notin> st_objectType ` set rs \<Longrightarrow> listing t sc (set_all stored_key rs m) = listing t sc m"
  by (induction rs arbitrary: m) (auto simp: listing_other keyed_update)

lemma update_fresh: "map_of m k = None \<Longrightarrow> AList.update k v m = m @ [(k, v)]"
  by (induction m) (auto split: if_splits)

lemma listing_fresh:
  "map_of m (stored_key r) = None \<Longrightarrow>
     listing (st_objectType r) sc (AList.update (stored_key r) r m) =
     listing (st_objectType r) sc m @ (if in_scope sc r then [r] else [])"
  by (simp add: update_fresh listing_def)

lemma built_fields [simp]:
  "st_objectType (buildRecord E r) = record_type r" "stored_key (buildRecord E r) = recordKey (record_type r) (getObjectId r)"
  "st_payload (buildRecord E r) = r"
  by (simp_all add: buildRecord_def stored_key_def Let_def)

lemma committed_listing:
  assumes "undisturbed E" "records_keyed (w_store w)" "commitRecordsWithEvents E [r] ds opts w = (Inr es, w')"
    "getRecord (record_type r) (getObjectId r) (w_store w) = None"
    "record_type r \<notin> {OT_contract_stream_event, OT_transition_request_context}"
  shows "listRecordsByType (record_type r) sc (w_store w') = listRecordsByType (record_type r) sc (w_store w) @
     (if in_scope sc (buildRecord E r) then [buildRecord E r] else [])"
    "t \<notin> {record_type r, OT_contract_stream_event, OT_transition_request_context} \<Longrightarrow>
     listRecordsByType t sc (w_store w') = listRecordsByType t sc (w_store w)"
    "records_keyed (w_store w')"
proof -
  let ?m = "s_records (w_store w)" and ?b = "buildRecord E"
  obtain rs' where rs: "rs' = [r] \<or> (\<exists>c. rs' = [PR_transition_request_context c, r])"
    and com: "commitProtocolRecords (commit_of (map ?b rs') es opts) (w_store w) = (CR_committed, w_store w')"
    using commitRecords_serial[OF assms(1,3)] by blast
  have recs: "s_records (w_store w') = set_all stored_key (map event_record es) (set_all stored_key (map ?b rs') ?m)"
    using commitProtocolRecords_committedD(6)[OF com] by simp
  have key: "keyed ?m" using assms(2) by (simp add: records_keyed_def)
  have events: "u \<noteq> OT_contract_stream_event \<Longrightarrow> u \<notin> st_objectType ` set (map event_record es)" for u
    by (auto simp: event_record_def)
  have list: "listRecordsByType u sc (w_store w') = listing u sc (set_all stored_key (map ?b rs') ?m)"
    if "u \<noteq> OT_contract_stream_event" for u
    unfolding listing_list recs by (rule listing_others[OF keyed_set_all[OF key] events[OF that]])
  show "records_keyed (w_store w')"
    unfolding records_keyed_def recs by (intro keyed_set_all key)
  show "listRecordsByType t sc (w_store w') = listRecordsByType t sc (w_store w)"
    if "t \<notin> {record_type r, OT_contract_stream_event, OT_transition_request_context}"
    using rs that list[of t] by (auto simp: listing_others[OF key] listing_list simp del: set_all.simps)
  define m where "m = (case rs' of [x] \<Rightarrow> ?m | x # xs \<Rightarrow> AList.update (stored_key (?b x)) (?b x) ?m | [] \<Rightarrow> ?m)"
  have m: "set_all stored_key (map ?b rs') ?m = AList.update (stored_key (?b r)) (?b r) m"
    using rs by (auto simp: m_def)
  have "map_of m (stored_key (?b r)) = None"
    using rs assms(4,5) by (auto simp: m_def getRecord_def map_of_update recordKey_inj)
  moreover have "listing (record_type r) sc m = listing (record_type r) sc ?m"
    using rs assms(5) key by (auto simp: m_def intro!: listing_other simp del: built_fields(2))
  ultimately show "listRecordsByType (record_type r) sc (w_store w') = listRecordsByType (record_type r) sc (w_store w) @
     (if in_scope sc (buildRecord E r) then [buildRecord E r] else [])"
    using list[of "record_type r"] assms(5) listing_fresh[of m "?b r" sc] by (simp add: m listing_list)
qed

lemma payloads_append [simp]: "payloads as (xs @ ys) = payloads as xs @ payloads as ys"
  by (simp add: payloads_def List.map_filter_def)

lemma payloads_one: "as r = Some y \<Longrightarrow> payloads as [buildRecord E r] = [y]"
  by (simp add: payloads_def List.map_filter_def)

lemma in_own_scope: "sameScope x (record_base r) \<Longrightarrow> in_scope (scope_of x) (buildRecord E r)"
  by (simp add: in_scope_def scope_of_def sameScope_def buildRecord_def Let_def)

lemma committed_payloads:
  assumes "undisturbed E" "records_keyed (w_store w)" "commitRecordsWithEvents E [r] ds opts w = (Inr es, w')"
    "getRecord (record_type r) (getObjectId r) (w_store w) = None"
    "record_type r \<notin> {OT_contract_stream_event, OT_transition_request_context}" "as r = Some y" "sameScope x (record_base r)"
  shows "payloads as (listRecordsByType (record_type r) (scope_of x) (w_store w')) =
     payloads as (listRecordsByType (record_type r) (scope_of x) (w_store w)) @ [y]"
  using committed_listing(1)[OF assms(1-5), of "scope_of x"] in_own_scope[OF assms(7), of E] payloads_one[of as r y, OF assms(6)]
  by simp

end
