(* ===== verification/Negotiation_Laws.thy ===== *)
theory Negotiation_Laws
  imports Negotiation Serial
begin

text \<open>
  What the negotiation records rest on: an acceptance is of the current offer, an
  agreement is the accepted offer and nothing else, a bound obligation passes the test
  that policy makes later, and when a change of status takes effect.
\<close>

section \<open>What the loads and tests return\<close>

lemma requiredScoped_Inr [simp]:
  "requiredScoped as t oid e code w = (Inr r, w') \<longleftrightarrow>
     w' = w \<and> find_payload as t oid (w_store w) = Some r \<and> sameScope r e"
  by (auto simp: requiredScoped_def tbind_Inr_iff requiredPayload_Inr)

lemma requiredOfferByVersion_Inr [simp]:
  "requiredOfferByVersion s v e w = (Inr x, w') \<longleftrightarrow> w' = w \<and> offer_by_version s v e (w_store w) = Some x"
  by (auto simp: requiredOfferByVersion_def tbind_Inr_iff split: option.splits)

lemma partyById_Inr [simp]:
  "partyById s pid w = (Inr p, w') \<longleftrightarrow> w' = w \<and> find (\<lambda>q. npb_partyId q = pid) (ns_parties s) = Some p"
  by (auto simp: partyById_def split: option.splits)

lemma contractOfBinding_Inr [simp]:
  "contractOfBinding b w = (Inr c, w') \<longleftrightarrow>
     w' = w \<and> find_payload as_action_contract OT_action_contract (ab_actionContractId b) (w_store w) = Some c"
  by (auto simp: contractOfBinding_def tbind_Inr_iff conflict_def split: option.splits)

lemma assert_tests_Inr [simp]:
  "assertFresh x now code w = (Inr u, w') \<longleftrightarrow> w' = w \<and> \<not> expired_by x now"
  "assertOfferVersionUnique y w = (Inr u, w') \<longleftrightarrow> w' = w \<and> \<not> offer_version_taken y (w_store w)"
  "assertOfferIsCurrent y w = (Inr u, w') \<longleftrightarrow> w' = w \<and> \<not> later_offer y (w_store w)"
  "assertLinkedAgreementUnique a w = (Inr u, w') \<longleftrightarrow> w' = w \<and> \<not> agreement_duplicated a (w_store w)"
  "assertAgreementBindingUnique b w = (Inr u, w') \<longleftrightarrow> w' = w \<and> \<not> obligation_reused b (w_store w)"
  by (auto simp: assertFresh_def assertOfferVersionUnique_def assertOfferIsCurrent_def assertLinkedAgreementUnique_def
      assertAgreementBindingUnique_def tbind_Inr_iff)

lemma find_in_offers: "offer_by_version s v e st = Some x \<Longrightarrow> x \<in> set (offers_in e st) \<and>
    no_negotiationSessionId x = s \<and> no_offerVersionId x = v"
  by (auto simp: offer_by_version_def find_Some_iff)

lemma find_none: "find P xs = None \<longleftrightarrow> (\<forall>x\<in>set xs. \<not> P x)"
  by (auto simp: find_None_iff)

lemma negotiation_stored:
  assumes "disciplined E" "commitNegotiationRecord E r d w = (Inr u, w')"
    "record_type r \<notin> {OT_contract_stream_event, OT_transition_request_context}"
  shows "getRecord (record_type r) (getObjectId r) (w_store w') = Some (buildRecord E r)"
proof -
  obtain es where "commitRecordsWithEvents E [r] [d] negotiation_options w = (Inr es, w')"
    using assms(2) by (auto simp: commitNegotiationRecord_def elim!: tbind_InrE)
  from commitRecords_stores[OF assms(1) this] assms(3) show ?thesis by simp
qed

section \<open>A decision is about a live offer, an acceptance about the last\<close>

definition decides :: "pstore \<Rightarrow> negotiation_decision \<Rightarrow> bool" where
  "decides s d \<longleftrightarrow> (\<exists>ses x.
     find_payload as_negotiation_session OT_negotiation_session (nd_negotiationSessionId d) s = Some ses \<and> sameScope ses d \<and>
     nd_decidedByPartyId d \<in> npb_partyId ` set (ns_parties ses) \<and>
     offer_by_version (nd_negotiationSessionId d) (nd_decidedOfferVersionId d) d s = Some x \<and>
     no_offerSequence x = nd_decidedOfferSequence d \<and>
     \<not> expired_by (ns_expiresAt ses) (createdAt d) \<and> \<not> expired_by (no_expiresAt x) (createdAt d) \<and>
     (nd_decision d = NV_accept \<longrightarrow> (\<forall>y\<in>set (offers_in x s).
        no_negotiationSessionId y = no_negotiationSessionId x \<longrightarrow> no_offerSequence y \<le> no_offerSequence x)))"

lemma later_offer_iff: "\<not> later_offer x s \<longleftrightarrow> (\<forall>y\<in>set (offers_in x s).
    no_negotiationSessionId y = no_negotiationSessionId x \<longrightarrow> no_offerSequence y \<le> no_offerSequence x)"
  by (auto simp: later_offer_def find_none not_less)

lemma find_party: "find (\<lambda>q. npb_partyId q = pid) ps = Some p \<Longrightarrow> pid \<in> npb_partyId ` set ps"
  by (auto simp: find_Some_iff)

lemma counter_Inr: "assertCounterOffer d x w = (Inr u, w') \<Longrightarrow> w' = w"
  by (auto simp: assertCounterOffer_def tbind_Inr_iff)

lemma recordNegotiationDecision_Inr:
  assumes E: "disciplined E" and run: "recordNegotiationDecision E d w = (Inr d', w')"
  shows "d' = d \<and> decides (w_store w) d \<and>
     find_payload as_negotiation_decision OT_negotiation_decision (nd_negotiationDecisionId d) (w_store w') = Some d"
proof -
  from run obtain ses p x u where l: "find_payload as_negotiation_session OT_negotiation_session (nd_negotiationSessionId d) (w_store w) = Some ses"
      "sameScope ses d" "\<not> expired_by (ns_expiresAt ses) (createdAt d)"
      "find (\<lambda>q. npb_partyId q = nd_decidedByPartyId d) (ns_parties ses) = Some p"
      "offer_by_version (nd_negotiationSessionId d) (nd_decidedOfferVersionId d) d (w_store w) = Some x"
      "\<not> expired_by (no_expiresAt x) (createdAt d)" "no_offerSequence x = nd_decidedOfferSequence d" "d' = d"
    and cur: "nd_decision d = NV_accept \<longrightarrow> \<not> later_offer x (w_store w)"
    and com: "commitNegotiationRecord E (PR_negotiation_decision d) (negotiation_decision_event d x) w = (Inr u, w')"
    by (auto simp: recordNegotiationDecision_def tbind_Inr_iff split: if_splits dest!: counter_Inr)
  have "decides (w_store w) d"
    unfolding decides_def using l cur find_party[OF l(4)] by (intro exI[of _ ses] exI[of _ x]) (simp add: later_offer_iff)
  with l negotiation_stored[OF E com] show ?thesis by (simp add: find_payload_def)
qed

section \<open>An agreement is an accepted offer\<close>

definition agreement_rests :: "pstore \<Rightarrow> linked_agreement \<Rightarrow> bool" where
  "agreement_rests s a \<longleftrightarrow> (\<exists>ses d x p.
     find_payload as_negotiation_session OT_negotiation_session (la_negotiationSessionId a) s = Some ses \<and> sameScope ses a \<and>
     find_payload as_negotiation_decision OT_negotiation_decision (la_acceptedNegotiationDecisionId a) s = Some d \<and>
     nd_decision d = NV_accept \<and> nd_negotiationSessionId d = la_negotiationSessionId a \<and>
     offer_by_version (la_negotiationSessionId a) (la_acceptedOfferVersionId a) a s = Some x \<and>
     nd_decidedOfferVersionId d = no_offerVersionId x \<and> nd_decidedOfferSequence d = no_offerSequence x \<and>
     la_acceptedOfferSequence a = no_offerSequence x \<and> la_acceptedOfferContentDigest a = no_offerContentDigest x \<and>
     p \<in> set (ns_parties ses) \<and> npb_partyId p = nd_decidedByPartyId d \<and> npb_agentRef p = la_counterpartyRef a)"

lemma agreement_failure_None:
  "agreement_failure a d x = None \<longleftrightarrow> nd_decidedOfferVersionId d = la_acceptedOfferVersionId a \<and>
     no_offerSequence x = la_acceptedOfferSequence a \<and> nd_decidedOfferSequence d = la_acceptedOfferSequence a \<and>
     no_offerContentDigest x = la_acceptedOfferContentDigest a \<and> nd_decidedByPartyId d = la_acceptedByPartyId a"
  by (auto simp: agreement_failure_def)

lemma recordLinkedAgreement_Inr:
  assumes E: "disciplined E" and run: "recordLinkedAgreement E a w = (Inr a', w')"
  shows "a' = a \<and> agreement_rests (w_store w) a \<and> \<not> agreement_duplicated a (w_store w) \<and>
     find_payload as_linked_agreement OT_linked_agreement (la_linkedAgreementId a) (w_store w') = Some a"
proof -
  from run obtain ses d x p u where l:
      "find_payload as_negotiation_session OT_negotiation_session (la_negotiationSessionId a) (w_store w) = Some ses" "sameScope ses a"
      "find_payload as_negotiation_decision OT_negotiation_decision (la_acceptedNegotiationDecisionId a) (w_store w) = Some d"
      "nd_decision d = NV_accept" "nd_negotiationSessionId d = la_negotiationSessionId a"
      "offer_by_version (la_negotiationSessionId a) (la_acceptedOfferVersionId a) a (w_store w) = Some x"
      "agreement_failure a d x = None" "find (\<lambda>q. npb_partyId q = la_acceptedByPartyId a) (ns_parties ses) = Some p"
      "npb_agentRef p = la_counterpartyRef a" "\<not> agreement_duplicated a (w_store w)" "a' = a"
    and com: "commitNegotiationRecord E (PR_linked_agreement a) (agreement_event a x) w = (Inr u, w')"
    by (auto simp: recordLinkedAgreement_def tbind_Inr_iff)
  have "agreement_rests (w_store w) a"
    unfolding agreement_rests_def using l find_in_offers[OF l(6)]
    by (intro exI[of _ ses] exI[of _ d] exI[of _ x] exI[of _ p])
       (auto simp: agreement_failure_None find_Some_iff)
  with l negotiation_stored[OF E com] show ?thesis by (simp add: find_payload_def)
qed

section \<open>A bound obligation\<close>

lemma binding_contract_failure_None:
  "binding_contract_failure b c = None \<longleftrightarrow>
     Some (ab_obligationRef b) = ce_obligationRef (ac_clearingEvidenceRefs c) \<and>
     Some (ab_counterpartyRef b) = ce_counterpartyRef (ac_clearingEvidenceRefs c) \<and>
     ab_actionContractDigest b = ac_actionContractDigest c \<and> ab_paramsDigest b = ac_paramsDigest c \<and>
     ab_actionTypeId b = ac_actionTypeId c \<and> ab_actionClass b = ac_actionClass c \<and> ab_resourceRef b = ac_resourceRef c \<and>
     (\<exists>e\<in>set (ab_localProtectedActionEvidenceRefs b). contract_evidence c e)"
  by (auto simp: binding_contract_failure_def list_ex_iff)

lemma binding_agreement_failure_None:
  "binding_agreement_failure b a = None \<longleftrightarrow> ab_counterpartyRef b = la_counterpartyRef a \<and>
     Some (ab_obligationRef b) = ce_obligationRef (la_clearingEvidenceRefs a)"
  by (auto simp: binding_agreement_failure_def)

text \<open>What was tested when an obligation was bound is what policy tests when it decides.\<close>

lemma recorded_binding_passes:
  assumes E: "disciplined E" and run: "recordAgreementObligationBinding E b w = (Inr b', w')"
  shows "\<exists>a c. find_payload as_linked_agreement OT_linked_agreement (ab_linkedAgreementId b) (w_store w) = Some a \<and>
     find_payload as_action_contract OT_action_contract (ab_actionContractId b) (w_store w) = Some c \<and>
     sameScope a b \<and> sameScope c b \<and> currentAgreementStatus a (w_store w) = AS_active \<and>
     bindingFailureForContract b a c = None \<and> \<not> obligation_reused b (w_store w) \<and>
     find_payload as_agreement_obligation_binding OT_agreement_obligation_binding
       (ab_agreementObligationBindingId b) (w_store w') = Some b"
proof -
  from run obtain a c u where l:
      "find_payload as_linked_agreement OT_linked_agreement (ab_linkedAgreementId b) (w_store w) = Some a" "sameScope a b"
      "currentAgreementStatus a (w_store w) = AS_active"
      "find_payload as_action_contract OT_action_contract (ab_actionContractId b) (w_store w) = Some c" "sameScope c b"
      "binding_contract_failure b c = None" "binding_agreement_failure b a = None" "\<not> obligation_reused b (w_store w)"
    and com: "commitNegotiationRecord E (PR_agreement_obligation_binding b) (binding_event b) w = (Inr u, w')"
    by (auto simp: recordAgreementObligationBinding_def tbind_Inr_iff)
  have "bindingFailureForContract b a c = None"
    using l unfolding bindingFailure_None binding_contract_failure_None binding_agreement_failure_None by blast
  with l negotiation_stored[OF E com] show ?thesis
    by (intro exI[of _ a] exI[of _ c]) (simp add: find_payload_def)
qed

section \<open>When a change of status takes effect\<close>

lemma sorted_le_last: "sorted (map f xs) \<Longrightarrow> x \<in> set xs \<Longrightarrow> f x \<le> f (last xs)"
  by (induction xs) auto

lemma last_insort_key:
  "xs \<noteq> [] \<Longrightarrow> sorted (map f xs) \<Longrightarrow> last (insort_key f x xs) = (if f x \<le> f (last xs) then last xs else x)"
proof (induction xs)
  case (Cons a xs)
  have top: "f a \<le> f (last (a # xs))" by (rule sorted_le_last) (use Cons.prems in auto)
  show ?case
  proof (cases "f x \<le> f a")
    case True
    then show ?thesis using order_trans[OF True top] by simp
  next
    case False
    have "insort_key f x xs \<noteq> []" by (cases xs) auto
    with False show ?thesis using Cons by (cases "xs = []") auto
  qed
qed simp

lemma sort_key_nonempty [simp]: "sort_key f xs = [] \<longleftrightarrow> xs = []"
  by (metis length_0_conv length_sort)

lemma last_sort_key_snoc:
  "last (sort_key f (xs @ [t])) = (if \<forall>x\<in>set xs. f x \<le> f t then t else last (sort_key f xs))"
proof (induction xs)
  case (Cons a xs)
  let ?S = "sort_key f (xs @ [t])" and ?T = "sort_key f xs"
  have all: "x \<in> set xs \<Longrightarrow> f x \<le> f (last ?T)" for x
    by (rule sorted_le_last) simp_all
  have in_T: "xs \<noteq> [] \<Longrightarrow> last ?T \<in> set xs" using last_in_set[of ?T] by simp
  have S: "last (sort_key f ((a # xs) @ [t])) = (if f a \<le> f (last ?S) then last ?S else a)"
    using last_insort_key[of ?S f a] by simp
  have T: "last (sort_key f (a # xs)) = (if xs \<noteq> [] \<and> f a \<le> f (last ?T) then last ?T else a)"
    using last_insort_key[of ?T f a] by (cases "xs = []") auto
  show ?case
    using Cons.IH S T all in_T by (cases "xs = []") (auto dest: order_trans)
qed simp

definition no_later :: "agreement_status_transition \<Rightarrow> agreement_status_transition list \<Rightarrow> bool" where
  "no_later t ts \<longleftrightarrow> (\<forall>x\<in>set ts. created_ms x \<le> created_ms t)"

lemma status_snoc:
  assumes "agreement_transitions a s' = agreement_transitions a s @ [t]"
  shows "currentAgreementStatus a s' =
    (if no_later t (agreement_transitions a s) then next_agreement_status (ast_toStatus t) else currentAgreementStatus a s)"
  using last_sort_key_snoc[of created_ms "agreement_transitions a s" t]
  by (auto simp: currentAgreementStatus_def assms Let_def no_later_def)

lemma transitionAgreementStatus_Inr:
  assumes run: "transitionAgreementStatus E t w = (Inr t', w')"
  shows "\<exists>a. t' = t \<and> find_payload as_linked_agreement OT_linked_agreement (ast_linkedAgreementId t) (w_store w) = Some a \<and>
     sameScope a t \<and> la_negotiationSessionId a = ast_negotiationSessionId t \<and>
     currentAgreementStatus a (w_store w) = ast_fromStatus t \<and>
     isAllowedStatusTransition (ast_fromStatus t) (next_agreement_status (ast_toStatus t)) \<and>
     commitNegotiationRecord E (PR_agreement_status_transition t) (status_event t) w = (Inr (), w')"
  using run by (auto simp: transitionAgreementStatus_def tbind_Inr_iff)

lemma negotiation_payloads:
  assumes "undisturbed E" "records_keyed (w_store w)" "commitNegotiationRecord E r d w = (Inr u, w')"
    "getRecord (record_type r) (getObjectId r) (w_store w) = None"
    "record_type r \<notin> {OT_contract_stream_event, OT_transition_request_context}" "as r = Some y" "sameScope x (record_base r)"
  shows "payloads as (listRecordsByType (record_type r) (scope_of x) (w_store w')) =
     payloads as (listRecordsByType (record_type r) (scope_of x) (w_store w)) @ [y]"
proof -
  obtain es where com: "commitRecordsWithEvents E [r] [d] negotiation_options w = (Inr es, w')"
    using assms(3) by (auto simp: commitNegotiationRecord_def elim!: tbind_InrE)
  show ?thesis by (rule committed_payloads[OF assms(1,2) com assms(4,5), of as y x, OF assms(6,7)])
qed

text \<open>
  A new change of status is the current status if no recorded change carries a later time;
  otherwise it is on record and changes nothing.
\<close>

lemma status_takes_effect:
  assumes serial: "undisturbed E" "records_keyed (w_store w)" and built: "records_built (w_store w)"
    and run: "transitionAgreementStatus E t w = (Inr t', w')"
    and fresh: "getRecord OT_agreement_status_transition (ast_agreementStatusTransitionId t) (w_store w) = None"
  shows "\<exists>a. find_payload as_linked_agreement OT_linked_agreement (ast_linkedAgreementId t) (w_store w) = Some a \<and>
     currentAgreementStatus a (w_store w') = (if no_later t (agreement_transitions a (w_store w))
       then next_agreement_status (ast_toStatus t) else currentAgreementStatus a (w_store w))"
proof -
  obtain a where a: "find_payload as_linked_agreement OT_linked_agreement (ast_linkedAgreementId t) (w_store w) = Some a"
      "sameScope a t"
    and com: "commitNegotiationRecord E (PR_agreement_status_transition t) (status_event t) w = (Inr (), w')"
    using transitionAgreementStatus_Inr[OF run] by blast
  have "ast_linkedAgreementId t = la_linkedAgreementId a"
    using found_identity[OF serial(2) built a(1)] by (auto simp: payload_simps)
  then have "agreement_transitions a (w_store w') = agreement_transitions a (w_store w) @ [t]"
    using negotiation_payloads[OF serial com, of as_agreement_status_transition t a] fresh a(2)
    by (simp add: agreement_transitions_def sameScope_def protocol_base.defs)
  with a(1) status_snoc show ?thesis by blast
qed

section \<open>One agreement for a decision\<close>

definition agreements_in :: "linked_agreement \<Rightarrow> pstore \<Rightarrow> linked_agreement list" where
  "agreements_in a s = payloads as_linked_agreement (listRecordsByType OT_linked_agreement (scope_of a) s)"

definition one_agreement_each :: "linked_agreement list \<Rightarrow> bool" where
  "one_agreement_each bs \<longleftrightarrow> (\<forall>b\<in>set bs. \<forall>c\<in>set bs.
     la_acceptedNegotiationDecisionId b = la_acceptedNegotiationDecisionId c \<longrightarrow> la_linkedAgreementId b = la_linkedAgreementId c)"

lemma duplicated_iff: "agreement_duplicated a s \<longleftrightarrow> (\<exists>b\<in>set (agreements_in a s).
    la_acceptedNegotiationDecisionId b = la_acceptedNegotiationDecisionId a \<and> la_linkedAgreementId b \<noteq> la_linkedAgreementId a)"
  by (auto simp: agreement_duplicated_def agreements_in_def find_none simp del: not_None_eq)

lemma one_agreement_kept:
  assumes serial: "undisturbed E" "records_keyed (w_store w)"
    and run: "recordLinkedAgreement E a w = (Inr a', w')"
    and fresh: "getRecord OT_linked_agreement (la_linkedAgreementId a) (w_store w) = None"
    and inv: "one_agreement_each (agreements_in a (w_store w))"
  shows "agreements_in a (w_store w') = agreements_in a (w_store w) @ [a] \<and> one_agreement_each (agreements_in a (w_store w'))"
proof -
  obtain x u where com: "commitNegotiationRecord E (PR_linked_agreement a) (agreement_event a x) w = (Inr u, w')"
    using run by (auto simp: recordLinkedAgreement_def tbind_Inr_iff)
  have grown: "agreements_in a (w_store w') = agreements_in a (w_store w) @ [a]"
    using negotiation_payloads[OF serial com, of as_linked_agreement a a] fresh
    by (simp add: agreements_in_def sameScope_def protocol_base.defs)
  have "\<not> agreement_duplicated a (w_store w)"
    using recordLinkedAgreement_Inr[OF undisturbed_disciplined[OF serial(1)] run] by blast
  with grown inv show ?thesis
    unfolding duplicated_iff one_agreement_each_def by (metis Un_iff set_append set_ConsD list.set(1) empty_iff list.set_intros(1))
qed

end
