(* ===== verification/Schemas_Trust.thy ===== *)
theory Schemas_Trust
  imports Schemas_Certificate
begin

text \<open>
  The trust material that a verifier of certificates pins and the answer of a
  verification (\<open>authority-certificate/schemas.ts\<close>): records, JSON and schema
  predicates.
\<close>

datatype (plugins only: code) trust_status =
    TS_active
  | TS_retired
  | TS_revoked
  | TS_stale
  | TS_status_unavailable

primrec trust_status_str :: "trust_status \<Rightarrow> string" where
    "trust_status_str TS_active = ''active''"
  | "trust_status_str TS_retired = ''retired''"
  | "trust_status_str TS_revoked = ''revoked''"
  | "trust_status_str TS_stale = ''stale''"
  | "trust_status_str TS_status_unavailable = ''status_unavailable''"

record trust_key =
  tk_keyIdentityRef :: "string"
  tk_issuerRef :: "string option"
  tk_keyVersion :: "string option"
  tk_signerRole :: "certificate_signer_role option"
  tk_algorithm :: "certificate_signature_algorithm"
  tk_publicKeyEd25519 :: "string option"
  tk_hmacSecret :: "string option"
  tk_status :: "trust_status"
  tk_validFrom :: "string option"
  tk_validUntil :: "string option"

definition trust_key_json :: "'a trust_key_scheme \<Rightarrow> jval" where
  "trust_key_json r = JObj (
     [(''keyIdentityRef'', JStr (tk_keyIdentityRef r)),
      (''issuerRef'', j_opt JStr (tk_issuerRef r)),
      (''keyVersion'', j_opt JStr (tk_keyVersion r)),
      (''signerRole'', j_opt (\<lambda>x. JStr (certificate_signer_role_str x)) (tk_signerRole r)),
      (''algorithm'', JStr (certificate_signature_algorithm_str (tk_algorithm r))),
      (''publicKeyEd25519'', j_opt JStr (tk_publicKeyEd25519 r)),
      (''hmacSecret'', j_opt JStr (tk_hmacSecret r)),
      (''status'', JStr (trust_status_str (tk_status r))),
      (''validFrom'', j_opt JStr (tk_validFrom r)),
      (''validUntil'', j_opt JStr (tk_validUntil r))])"

definition trust_key_valid :: "'e env_scheme \<Rightarrow> 'a trust_key_scheme \<Rightarrow> bool" where
  "trust_key_valid E r \<longleftrightarrow>
     1 \<le> length (tk_keyIdentityRef r) \<and>
     opt_ok (\<lambda>x. 1 \<le> length x) (tk_issuerRef r) \<and>
     opt_ok (\<lambda>x. 1 \<le> length x) (tk_keyVersion r) \<and>
     opt_ok (\<lambda>x. 1 \<le> length x) (tk_publicKeyEd25519 r) \<and>
     opt_ok (\<lambda>x. 1 \<le> length x) (tk_hmacSecret r) \<and>
     opt_ok (iso_ok E) (tk_validFrom r) \<and>
     opt_ok (iso_ok E) (tk_validUntil r)"

record trust_issuer =
  ti_issuerRef :: "string"
  ti_issuerDigest :: "string option"
  ti_status :: "trust_status"
  ti_validFrom :: "string option"
  ti_validUntil :: "string option"
  ti_metadataRefs :: "string list"

definition trust_issuer_json :: "'a trust_issuer_scheme \<Rightarrow> jval" where
  "trust_issuer_json r = JObj (
     [(''issuerRef'', JStr (ti_issuerRef r)),
      (''issuerDigest'', j_opt JStr (ti_issuerDigest r)),
      (''status'', JStr (trust_status_str (ti_status r))),
      (''validFrom'', j_opt JStr (ti_validFrom r)),
      (''validUntil'', j_opt JStr (ti_validUntil r)),
      (''metadataRefs'', JArr (map JStr (ti_metadataRefs r)))])"

definition trust_issuer_valid :: "'e env_scheme \<Rightarrow> 'a trust_issuer_scheme \<Rightarrow> bool" where
  "trust_issuer_valid E r \<longleftrightarrow>
     1 \<le> length (ti_issuerRef r) \<and>
     opt_ok digest_ok (ti_issuerDigest r) \<and>
     opt_ok (iso_ok E) (ti_validFrom r) \<and>
     opt_ok (iso_ok E) (ti_validUntil r) \<and>
     list_all (\<lambda>x. 1 \<le> length x) (ti_metadataRefs r)"

datatype (plugins only: code) status_subject_kind =
    SSK_issuer
  | SSK_key
  | SSK_certificate

primrec status_subject_kind_str :: "status_subject_kind \<Rightarrow> string" where
    "status_subject_kind_str SSK_issuer = ''issuer''"
  | "status_subject_kind_str SSK_key = ''key''"
  | "status_subject_kind_str SSK_certificate = ''certificate''"

record trust_status_record =
  tsr_statusRecordId :: "string"
  tsr_subjectKind :: "status_subject_kind"
  tsr_subjectRef :: "string"
  tsr_status :: "trust_status"
  tsr_reasonCode :: "string"
  tsr_observedAt :: "string"
  tsr_expiresAt :: "string option"
  tsr_evidenceRefs :: "string list"
  tsr_authorityCreated :: "bool"

definition trust_status_record_json :: "'a trust_status_record_scheme \<Rightarrow> jval" where
  "trust_status_record_json r = JObj (
     [(''statusRecordId'', JStr (tsr_statusRecordId r)),
      (''subjectKind'', JStr (status_subject_kind_str (tsr_subjectKind r))),
      (''subjectRef'', JStr (tsr_subjectRef r)),
      (''status'', JStr (trust_status_str (tsr_status r))),
      (''reasonCode'', JStr (tsr_reasonCode r)),
      (''observedAt'', JStr (tsr_observedAt r)),
      (''expiresAt'', j_opt JStr (tsr_expiresAt r)),
      (''evidenceRefs'', JArr (map JStr (tsr_evidenceRefs r))),
      (''authorityCreated'', JBool (tsr_authorityCreated r))])"

definition trust_status_record_valid :: "'e env_scheme \<Rightarrow> 'a trust_status_record_scheme \<Rightarrow> bool" where
  "trust_status_record_valid E r \<longleftrightarrow>
     id_ok (tsr_statusRecordId r) \<and>
     1 \<le> length (tsr_subjectRef r) \<and>
     1 \<le> length (tsr_reasonCode r) \<and>
     iso_ok E (tsr_observedAt r) \<and>
     opt_ok (iso_ok E) (tsr_expiresAt r) \<and>
     list_all (\<lambda>x. 1 \<le> length x) (tsr_evidenceRefs r) \<and>
     \<not> (tsr_authorityCreated r)"

record trust_material =
  tm_keys :: "trust_key list"
  tm_issuers :: "trust_issuer list"
  tm_statusRecords :: "trust_status_record list"
  tm_verificationTime :: "string option"
  tm_allowDevHmac :: "bool"

definition trust_material_json :: "'a trust_material_scheme \<Rightarrow> jval" where
  "trust_material_json r = JObj (
     [(''keys'', JArr (map trust_key_json (tm_keys r))),
      (''issuers'', JArr (map trust_issuer_json (tm_issuers r))),
      (''statusRecords'', JArr (map trust_status_record_json (tm_statusRecords r))),
      (''verificationTime'', j_opt JStr (tm_verificationTime r)),
      (''allowDevHmac'', JBool (tm_allowDevHmac r))])"

definition trust_material_valid :: "'e env_scheme \<Rightarrow> 'a trust_material_scheme \<Rightarrow> bool" where
  "trust_material_valid E r \<longleftrightarrow>
     list_all (trust_key_valid E) (tm_keys r) \<and>
     list_all (trust_issuer_valid E) (tm_issuers r) \<and>
     list_all (trust_status_record_valid E) (tm_statusRecords r) \<and>
     opt_ok (iso_ok E) (tm_verificationTime r)"

datatype (plugins only: code) verification_outcome =
    VO_verified
  | VO_refused
  | VO_proof_gap

primrec verification_outcome_str :: "verification_outcome \<Rightarrow> string" where
    "verification_outcome_str VO_verified = ''verified''"
  | "verification_outcome_str VO_refused = ''refused''"
  | "verification_outcome_str VO_proof_gap = ''proof_gap''"

datatype (plugins only: code) check_status =
    CK_passed
  | CK_failed
  | CK_proof_gap

primrec check_status_str :: "check_status \<Rightarrow> string" where
    "check_status_str CK_passed = ''passed''"
  | "check_status_str CK_failed = ''failed''"
  | "check_status_str CK_proof_gap = ''proof_gap''"

datatype (plugins only: code) verification_failure_code =
    VF_schema_invalid
  | VF_envelope_digest_mismatch
  | VF_signing_input_digest_mismatch
  | VF_signature_signed_over_mismatch
  | VF_signature_algorithm_mismatch
  | VF_hmac_not_allowed
  | VF_trust_key_missing
  | VF_trust_key_inactive
  | VF_trust_issuer_unknown
  | VF_trust_key_role_mismatch
  | VF_trust_key_retired
  | VF_trust_key_revoked
  | VF_trust_key_stale
  | VF_trust_status_unavailable
  | VF_trust_key_window_invalid
  | VF_trust_certificate_status_revoked
  | VF_trust_certificate_status_stale
  | VF_signature_invalid
  | VF_required_signer_missing
  | VF_required_artifact_missing
  | VF_gateway_admission_binding_missing
  | VF_terminal_binding_mismatch

primrec verification_failure_code_str :: "verification_failure_code \<Rightarrow> string" where
    "verification_failure_code_str VF_schema_invalid = ''schema_invalid''"
  | "verification_failure_code_str VF_envelope_digest_mismatch = ''envelope_digest_mismatch''"
  | "verification_failure_code_str VF_signing_input_digest_mismatch = ''signing_input_digest_mismatch''"
  | "verification_failure_code_str VF_signature_signed_over_mismatch = ''signature_signed_over_mismatch''"
  | "verification_failure_code_str VF_signature_algorithm_mismatch = ''signature_algorithm_mismatch''"
  | "verification_failure_code_str VF_hmac_not_allowed = ''hmac_not_allowed''"
  | "verification_failure_code_str VF_trust_key_missing = ''trust_key_missing''"
  | "verification_failure_code_str VF_trust_key_inactive = ''trust_key_inactive''"
  | "verification_failure_code_str VF_trust_issuer_unknown = ''trust_issuer_unknown''"
  | "verification_failure_code_str VF_trust_key_role_mismatch = ''trust_key_role_mismatch''"
  | "verification_failure_code_str VF_trust_key_retired = ''trust_key_retired''"
  | "verification_failure_code_str VF_trust_key_revoked = ''trust_key_revoked''"
  | "verification_failure_code_str VF_trust_key_stale = ''trust_key_stale''"
  | "verification_failure_code_str VF_trust_status_unavailable = ''trust_status_unavailable''"
  | "verification_failure_code_str VF_trust_key_window_invalid = ''trust_key_window_invalid''"
  | "verification_failure_code_str VF_trust_certificate_status_revoked = ''trust_certificate_status_revoked''"
  | "verification_failure_code_str VF_trust_certificate_status_stale = ''trust_certificate_status_stale''"
  | "verification_failure_code_str VF_signature_invalid = ''signature_invalid''"
  | "verification_failure_code_str VF_required_signer_missing = ''required_signer_missing''"
  | "verification_failure_code_str VF_required_artifact_missing = ''required_artifact_missing''"
  | "verification_failure_code_str VF_gateway_admission_binding_missing = ''gateway_admission_binding_missing''"
  | "verification_failure_code_str VF_terminal_binding_mismatch = ''terminal_binding_mismatch''"

record verification_failure =
  vf_code :: "verification_failure_code"
  vf_message :: "string"
  vf_ref :: "string option"

definition verification_failure_json :: "'a verification_failure_scheme \<Rightarrow> jval" where
  "verification_failure_json r = JObj (
     [(''code'', JStr (verification_failure_code_str (vf_code r))),
      (''message'', JStr (vf_message r)),
      (''ref'', j_opt JStr (vf_ref r))])"

definition verification_failure_valid :: "'e env_scheme \<Rightarrow> 'a verification_failure_scheme \<Rightarrow> bool" where
  "verification_failure_valid E r \<longleftrightarrow>
     1 \<le> length (vf_message r) \<and>
     opt_ok (\<lambda>x. 1 \<le> length x) (vf_ref r)"

record verification_checks =
  vck_schema :: "check_status"
  vck_cryptographicSignature :: "check_status"
  vck_signingInputDigest :: "check_status"
  vck_artifactBinding :: "check_status"
  vck_terminalBinding :: "check_status"
  vck_gatewayAdmissionBinding :: "check_status"
  vck_trustMaterial :: "check_status"
  vck_status :: "check_status"

definition verification_checks_json :: "'a verification_checks_scheme \<Rightarrow> jval" where
  "verification_checks_json r = JObj (
     [(''schema'', JStr (check_status_str (vck_schema r))),
      (''cryptographicSignature'', JStr (check_status_str (vck_cryptographicSignature r))),
      (''signingInputDigest'', JStr (check_status_str (vck_signingInputDigest r))),
      (''artifactBinding'', JStr (check_status_str (vck_artifactBinding r))),
      (''terminalBinding'', JStr (check_status_str (vck_terminalBinding r))),
      (''gatewayAdmissionBinding'', JStr (check_status_str (vck_gatewayAdmissionBinding r))),
      (''trustMaterial'', JStr (check_status_str (vck_trustMaterial r))),
      (''status'', JStr (check_status_str (vck_status r)))])"

definition verification_checks_valid :: "'e env_scheme \<Rightarrow> 'a verification_checks_scheme \<Rightarrow> bool" where
  "verification_checks_valid E r \<longleftrightarrow>
     True"

record verification_response =
  vr_verificationResponseId :: "string"
  vr_outcome :: "verification_outcome"
  vr_verificationPlane :: "string"
  vr_authorityCreated :: "bool"
  vr_redactionProfileRef :: "string"
  vr_checks :: "verification_checks"
  vr_failures :: "verification_failure list"
  vr_envelope :: "transaction_envelope option"
  vr_signingInputDigest :: "string option"

definition verification_response_json :: "'a verification_response_scheme \<Rightarrow> jval" where
  "verification_response_json r = JObj (
     [(''verificationResponseId'', JStr (vr_verificationResponseId r)),
      (''outcome'', JStr (verification_outcome_str (vr_outcome r))),
      (''verificationPlane'', JStr (vr_verificationPlane r)),
      (''authorityCreated'', JBool (vr_authorityCreated r)),
      (''redactionProfileRef'', JStr (vr_redactionProfileRef r)),
      (''checks'', verification_checks_json (vr_checks r)),
      (''failures'', JArr (map verification_failure_json (vr_failures r))),
      (''envelope'', j_opt transaction_envelope_json (vr_envelope r)),
      (''signingInputDigest'', j_opt JStr (vr_signingInputDigest r))])"

definition verification_response_valid :: "'e env_scheme \<Rightarrow> 'a verification_response_scheme \<Rightarrow> bool" where
  "verification_response_valid E r \<longleftrightarrow>
     id_ok (vr_verificationResponseId r) \<and>
     (vr_verificationPlane r) = ''local_pinned_trust_material'' \<and>
     \<not> (vr_authorityCreated r) \<and>
     (vr_redactionProfileRef r) = ''authority-certificate-verification:v1-redacted'' \<and>
     verification_checks_valid E (vr_checks r) \<and>
     list_all (verification_failure_valid E) (vr_failures r) \<and>
     opt_ok (transaction_envelope_valid E) (vr_envelope r) \<and>
     opt_ok digest_ok (vr_signingInputDigest r)"

record verifier_key =
  vk_keyIdentityRef :: "string"
  vk_issuerRef :: "string option"
  vk_keyVersion :: "string option"
  vk_signerRole :: "certificate_signer_role option"
  vk_algorithm :: "certificate_signature_algorithm"
  vk_publicKeyEd25519 :: "string"
  vk_status :: "trust_status"
  vk_validFrom :: "string option"
  vk_validUntil :: "string option"
  vk_privateMaterialIncluded :: "bool"
  vk_authorityCreated :: "bool"

definition verifier_key_json :: "'a verifier_key_scheme \<Rightarrow> jval" where
  "verifier_key_json r = JObj (
     [(''keyIdentityRef'', JStr (vk_keyIdentityRef r)),
      (''issuerRef'', j_opt JStr (vk_issuerRef r)),
      (''keyVersion'', j_opt JStr (vk_keyVersion r)),
      (''signerRole'', j_opt (\<lambda>x. JStr (certificate_signer_role_str x)) (vk_signerRole r)),
      (''algorithm'', JStr (certificate_signature_algorithm_str (vk_algorithm r))),
      (''publicKeyEd25519'', JStr (vk_publicKeyEd25519 r)),
      (''status'', JStr (trust_status_str (vk_status r))),
      (''validFrom'', j_opt JStr (vk_validFrom r)),
      (''validUntil'', j_opt JStr (vk_validUntil r)),
      (''privateMaterialIncluded'', JBool (vk_privateMaterialIncluded r)),
      (''authorityCreated'', JBool (vk_authorityCreated r))])"

definition verifier_key_valid :: "'e env_scheme \<Rightarrow> 'a verifier_key_scheme \<Rightarrow> bool" where
  "verifier_key_valid E r \<longleftrightarrow>
     1 \<le> length (vk_keyIdentityRef r) \<and>
     opt_ok (\<lambda>x. 1 \<le> length x) (vk_issuerRef r) \<and>
     opt_ok (\<lambda>x. 1 \<le> length x) (vk_keyVersion r) \<and>
     1 \<le> length (vk_publicKeyEd25519 r) \<and>
     opt_ok (iso_ok E) (vk_validFrom r) \<and>
     opt_ok (iso_ok E) (vk_validUntil r) \<and>
     \<not> (vk_privateMaterialIncluded r) \<and>
     \<not> (vk_authorityCreated r)"

record verifier_key_set =
  vks_projectionKind :: "string"
  vks_trustDecision :: "string"
  vks_authorityCreated :: "bool"
  vks_redactionProfileRef :: "string"
  vks_issuers :: "trust_issuer list"
  vks_keys :: "verifier_key list"
  vks_omittedPrivateKeyCount :: "int"

definition verifier_key_set_json :: "'a verifier_key_set_scheme \<Rightarrow> jval" where
  "verifier_key_set_json r = JObj (
     [(''projectionKind'', JStr (vks_projectionKind r)),
      (''trustDecision'', JStr (vks_trustDecision r)),
      (''authorityCreated'', JBool (vks_authorityCreated r)),
      (''redactionProfileRef'', JStr (vks_redactionProfileRef r)),
      (''issuers'', JArr (map trust_issuer_json (vks_issuers r))),
      (''keys'', JArr (map verifier_key_json (vks_keys r))),
      (''omittedPrivateKeyCount'', JInt (vks_omittedPrivateKeyCount r))])"

definition verifier_key_set_valid :: "'e env_scheme \<Rightarrow> 'a verifier_key_set_scheme \<Rightarrow> bool" where
  "verifier_key_set_valid E r \<longleftrightarrow>
     (vks_projectionKind r) = ''authority_certificate_verifier_key_set'' \<and>
     (vks_trustDecision r) = ''caller_pinned_trust_material_only'' \<and>
     \<not> (vks_authorityCreated r) \<and>
     (vks_redactionProfileRef r) = ''authority-certificate-verifier-key-set:v1-redacted'' \<and>
     list_all (trust_issuer_valid E) (vks_issuers r) \<and>
     list_all (verifier_key_valid E) (vks_keys r) \<and>
     0 \<le> (vks_omittedPrivateKeyCount r)"

record jwk =
  jwk_kty :: "string"
  jwk_crv :: "string"
  jwk_kid :: "string"
  jwk_alg :: "string"
  jwk_use :: "string"
  jwk_key_ops :: "string list"
  jwk_x :: "string"

definition jwk_json :: "'a jwk_scheme \<Rightarrow> jval" where
  "jwk_json r = JObj (
     [(''kty'', JStr (jwk_kty r)),
      (''crv'', JStr (jwk_crv r)),
      (''kid'', JStr (jwk_kid r)),
      (''alg'', JStr (jwk_alg r)),
      (''use'', JStr (jwk_use r)),
      (''key_ops'', JArr (map JStr (jwk_key_ops r))),
      (''x'', JStr (jwk_x r))])"

definition jwk_valid :: "'e env_scheme \<Rightarrow> 'a jwk_scheme \<Rightarrow> bool" where
  "jwk_valid E r \<longleftrightarrow>
     (jwk_kty r) = ''OKP'' \<and>
     (jwk_crv r) = ''Ed25519'' \<and>
     1 \<le> length (jwk_kid r) \<and>
     (jwk_alg r) = ''EdDSA'' \<and>
     (jwk_use r) = ''sig'' \<and>
     list_all (\<lambda>x. x = ''verify'') (jwk_key_ops r) \<and>
     1 \<le> length (jwk_x r)"

record jwk_set =
  jks_keys :: "jwk list"

definition jwk_set_json :: "'a jwk_set_scheme \<Rightarrow> jval" where
  "jwk_set_json r = JObj (
     [(''keys'', JArr (map jwk_json (jks_keys r)))])"

definition jwk_set_valid :: "'e env_scheme \<Rightarrow> 'a jwk_set_scheme \<Rightarrow> bool" where
  "jwk_set_valid E r \<longleftrightarrow>
     list_all (jwk_valid E) (jks_keys r)"

record jwks =
  jwks_projectionKind :: "string"
  jwks_trustDecision :: "string"
  jwks_authorityCreated :: "bool"
  jwks_redactionProfileRef :: "string"
  jwks_jwks :: "jwk_set"
  jwks_omittedPrivateKeyCount :: "int"

definition jwks_json :: "'a jwks_scheme \<Rightarrow> jval" where
  "jwks_json r = JObj (
     [(''projectionKind'', JStr (jwks_projectionKind r)),
      (''trustDecision'', JStr (jwks_trustDecision r)),
      (''authorityCreated'', JBool (jwks_authorityCreated r)),
      (''redactionProfileRef'', JStr (jwks_redactionProfileRef r)),
      (''jwks'', jwk_set_json (jwks_jwks r)),
      (''omittedPrivateKeyCount'', JInt (jwks_omittedPrivateKeyCount r))])"

definition jwks_valid :: "'e env_scheme \<Rightarrow> 'a jwks_scheme \<Rightarrow> bool" where
  "jwks_valid E r \<longleftrightarrow>
     (jwks_projectionKind r) = ''authority_certificate_jwks_projection'' \<and>
     (jwks_trustDecision r) = ''jwks_projection_only'' \<and>
     \<not> (jwks_authorityCreated r) \<and>
     (jwks_redactionProfileRef r) = ''authority-certificate-jwks:v1-public'' \<and>
     jwk_set_valid E (jwks_jwks r) \<and>
     0 \<le> (jwks_omittedPrivateKeyCount r)"

end
