(* ===== verification/Schemas_Readback.thy ===== *)
theory Schemas_Readback
  imports Agreement Schemas_Safe Schemas_Certificate
begin

text \<open>
  The projections of stored evidence that readers get
  (\<open>evidence-projections/schemas.ts\<close>): contract evidence, idempotency recovery,
  receipt timelines, operation readbacks and correlations, and the health of a
  protected path's installation. The link to the documentation of a support context is
  always null in the code, so the shape of a URL is not modelled.
\<close>

record contract_evidence_projection =
  cep_actionContractRef :: "string"
  cep_contractDigest :: "string"
  cep_intentCompilationRef :: "string"
  cep_candidateActionRef :: "string"
  cep_candidateDigest :: "string"
  cep_envelopeRef :: "string"
  cep_principalRef :: "string"
  cep_agentRef :: "string"
  cep_participantIdentityBindings :: "participant_identity_binding list"
  cep_runId :: "string"
  cep_runtimeAdapterRef :: "string"
  cep_actionClass :: "string"
  cep_protectedSurfaceKind :: "string"
  cep_resourceRef :: "string"
  cep_gatewayId :: "string"
  cep_gatewayPolicyVersion :: "string"
  cep_requiredProtectedPathState :: "required_protected_path_state"
  cep_idempotencyKey :: "string"
  cep_paramsDigest :: "string"
  cep_nonSecretParamsSummary :: "(string \<times> jval) list"
  cep_gatewayCredentialRefs :: "gateway_credential_binding list"
  cep_delegatedAuthorityRefs :: "delegated_authority_binding list"
  cep_evidenceRefs :: "string list"
  cep_clearingEvidenceRefs :: "clearing_evidence_refs"
  cep_signaturePosture :: "signature_posture"
  cep_keyIdentityRef :: "string option"
  cep_verificationPolicyRef :: "string option"
  cep_generatedExecutionGraphRef :: "string option"
  cep_generatedExecutionNodeRef :: "string option"
  cep_redactionProfileRef :: "string"
  cep_omittedFields :: "string list"

definition contract_evidence_projection_json :: "'a contract_evidence_projection_scheme \<Rightarrow> jval" where
  "contract_evidence_projection_json r = JObj (
     [(''actionContractRef'', JStr (cep_actionContractRef r)),
      (''contractDigest'', JStr (cep_contractDigest r)),
      (''intentCompilationRef'', JStr (cep_intentCompilationRef r)),
      (''candidateActionRef'', JStr (cep_candidateActionRef r)),
      (''candidateDigest'', JStr (cep_candidateDigest r)),
      (''envelopeRef'', JStr (cep_envelopeRef r)),
      (''principalRef'', JStr (cep_principalRef r)),
      (''agentRef'', JStr (cep_agentRef r)),
      (''participantIdentityBindings'', JArr (map participant_identity_binding_json (cep_participantIdentityBindings r))),
      (''runId'', JStr (cep_runId r)),
      (''runtimeAdapterRef'', JStr (cep_runtimeAdapterRef r)),
      (''actionClass'', JStr (cep_actionClass r)),
      (''protectedSurfaceKind'', JStr (cep_protectedSurfaceKind r)),
      (''resourceRef'', JStr (cep_resourceRef r)),
      (''gatewayId'', JStr (cep_gatewayId r)),
      (''gatewayPolicyVersion'', JStr (cep_gatewayPolicyVersion r)),
      (''requiredProtectedPathState'', JStr (required_protected_path_state_str (cep_requiredProtectedPathState r))),
      (''idempotencyKey'', JStr (cep_idempotencyKey r)),
      (''paramsDigest'', JStr (cep_paramsDigest r)),
      (''nonSecretParamsSummary'', JObj (cep_nonSecretParamsSummary r)),
      (''gatewayCredentialRefs'', JArr (map gateway_credential_binding_json (cep_gatewayCredentialRefs r))),
      (''delegatedAuthorityRefs'', JArr (map delegated_authority_binding_json (cep_delegatedAuthorityRefs r))),
      (''evidenceRefs'', JArr (map JStr (cep_evidenceRefs r))),
      (''clearingEvidenceRefs'', clearing_evidence_refs_json (cep_clearingEvidenceRefs r)),
      (''signaturePosture'', JStr (signature_posture_str (cep_signaturePosture r))),
      (''keyIdentityRef'', j_opt JStr (cep_keyIdentityRef r)),
      (''verificationPolicyRef'', j_opt JStr (cep_verificationPolicyRef r)),
      (''generatedExecutionGraphRef'', j_opt JStr (cep_generatedExecutionGraphRef r)),
      (''generatedExecutionNodeRef'', j_opt JStr (cep_generatedExecutionNodeRef r)),
      (''redactionProfileRef'', JStr (cep_redactionProfileRef r)),
      (''omittedFields'', JArr (map JStr (cep_omittedFields r)))])"

definition contract_evidence_projection_valid :: "'e env_scheme \<Rightarrow> 'a contract_evidence_projection_scheme \<Rightarrow> bool" where
  "contract_evidence_projection_valid E r \<longleftrightarrow>
     id_ok (cep_actionContractRef r) \<and>
     digest_ok (cep_contractDigest r) \<and>
     id_ok (cep_intentCompilationRef r) \<and>
     id_ok (cep_candidateActionRef r) \<and>
     digest_ok (cep_candidateDigest r) \<and>
     id_ok (cep_envelopeRef r) \<and>
     id_ok (cep_principalRef r) \<and>
     id_ok (cep_agentRef r) \<and>
     list_all (participant_identity_binding_valid E) (cep_participantIdentityBindings r) \<and>
     id_ok (cep_runId r) \<and>
     id_ok (cep_runtimeAdapterRef r) \<and>
     1 \<le> length (cep_actionClass r) \<and>
     1 \<le> length (cep_protectedSurfaceKind r) \<and>
     resource_ref_ok (cep_resourceRef r) \<and>
     id_ok (cep_gatewayId r) \<and>
     1 \<le> length (cep_gatewayPolicyVersion r) \<and>
     id_ok (cep_idempotencyKey r) \<and>
     digest_ok (cep_paramsDigest r) \<and>
     list_all (gateway_credential_binding_valid E) (cep_gatewayCredentialRefs r) \<and>
     list_all (delegated_authority_binding_valid E) (cep_delegatedAuthorityRefs r) \<and>
     clearing_evidence_refs_valid E (cep_clearingEvidenceRefs r) \<and>
     opt_ok (\<lambda>x. 1 \<le> length x) (cep_keyIdentityRef r) \<and>
     opt_ok (\<lambda>x. 1 \<le> length x) (cep_verificationPolicyRef r) \<and>
     opt_ok id_ok (cep_generatedExecutionGraphRef r) \<and>
     opt_ok id_ok (cep_generatedExecutionNodeRef r) \<and>
     (cep_redactionProfileRef r) = ''contract-view:v0.2-redacted'' \<and>
     list_all (\<lambda>x. 1 \<le> length x) (cep_omittedFields r)"

record idempotency_recovery_projection =
  irp_actionContractRef :: "string"
  irp_ledgerKeyDigest :: "string"
  irp_idempotencyKey :: "string"
  irp_paramsDigest :: "string"
  irp_currentLedgerRef :: "string option"
  irp_currentLedgerState :: "idempotency_ledger_state option"
  irp_paramsDigestMatch :: "bool option"
  irp_priorActionContractRef :: "string option"
  irp_policyDecisionRef :: "string option"
  irp_greenlightRef :: "string option"
  irp_gateAttemptRef :: "string option"
  irp_mutationAttemptRef :: "string option"
  irp_receiptRef :: "string option"
  irp_priorResultRefs :: "string list"
  irp_recoveryDisposition :: "idempotency_recovery_disposition"
  irp_reasonCodes :: "string list"
  irp_evidenceRefs :: "string list"
  irp_redactionProfileRef :: "string"
  irp_omittedFields :: "string list"

definition idempotency_recovery_projection_json :: "'a idempotency_recovery_projection_scheme \<Rightarrow> jval" where
  "idempotency_recovery_projection_json r = JObj (
     [(''actionContractRef'', JStr (irp_actionContractRef r)),
      (''ledgerKeyDigest'', JStr (irp_ledgerKeyDigest r)),
      (''idempotencyKey'', JStr (irp_idempotencyKey r)),
      (''paramsDigest'', JStr (irp_paramsDigest r)),
      (''currentLedgerRef'', j_opt JStr (irp_currentLedgerRef r)),
      (''currentLedgerState'', j_opt (\<lambda>x. JStr (idempotency_ledger_state_str x)) (irp_currentLedgerState r)),
      (''paramsDigestMatch'', j_opt JBool (irp_paramsDigestMatch r)),
      (''priorActionContractRef'', j_opt JStr (irp_priorActionContractRef r)),
      (''policyDecisionRef'', j_opt JStr (irp_policyDecisionRef r)),
      (''greenlightRef'', j_opt JStr (irp_greenlightRef r)),
      (''gateAttemptRef'', j_opt JStr (irp_gateAttemptRef r)),
      (''mutationAttemptRef'', j_opt JStr (irp_mutationAttemptRef r)),
      (''receiptRef'', j_opt JStr (irp_receiptRef r)),
      (''priorResultRefs'', JArr (map JStr (irp_priorResultRefs r))),
      (''recoveryDisposition'', JStr (idempotency_recovery_disposition_str (irp_recoveryDisposition r))),
      (''reasonCodes'', JArr (map JStr (irp_reasonCodes r))),
      (''evidenceRefs'', JArr (map JStr (irp_evidenceRefs r))),
      (''redactionProfileRef'', JStr (irp_redactionProfileRef r)),
      (''omittedFields'', JArr (map JStr (irp_omittedFields r)))])"

definition idempotency_recovery_projection_valid :: "'e env_scheme \<Rightarrow> 'a idempotency_recovery_projection_scheme \<Rightarrow> bool" where
  "idempotency_recovery_projection_valid E r \<longleftrightarrow>
     id_ok (irp_actionContractRef r) \<and>
     digest_ok (irp_ledgerKeyDigest r) \<and>
     id_ok (irp_idempotencyKey r) \<and>
     digest_ok (irp_paramsDigest r) \<and>
     opt_ok id_ok (irp_currentLedgerRef r) \<and>
     opt_ok id_ok (irp_priorActionContractRef r) \<and>
     opt_ok id_ok (irp_policyDecisionRef r) \<and>
     opt_ok id_ok (irp_greenlightRef r) \<and>
     opt_ok id_ok (irp_gateAttemptRef r) \<and>
     opt_ok id_ok (irp_mutationAttemptRef r) \<and>
     opt_ok id_ok (irp_receiptRef r) \<and>
     list_all (\<lambda>x. 1 \<le> length x) (irp_priorResultRefs r) \<and>
     list_all reason_code_ok (irp_reasonCodes r) \<and>
     list_all (\<lambda>x. 1 \<le> length x) (irp_evidenceRefs r) \<and>
     (irp_redactionProfileRef r) = ''idempotency-recovery:v0.2-redacted'' \<and>
     list_all (\<lambda>x. 1 \<le> length x) (irp_omittedFields r)"

record timeline_event =
  rte_streamId :: "string"
  rte_streamScope :: "stream_scope"
  rte_partitionKey :: "string"
  rte_offset :: "int"
  rte_eventType :: "event_type"
  rte_eventTime :: "string"
  rte_eventDigest :: "string"
  rte_objectRefs :: "string list"

definition timeline_event_json :: "'a timeline_event_scheme \<Rightarrow> jval" where
  "timeline_event_json r = JObj (
     [(''streamId'', JStr (rte_streamId r)),
      (''streamScope'', JStr (stream_scope_str (rte_streamScope r))),
      (''partitionKey'', JStr (rte_partitionKey r)),
      (''offset'', JInt (rte_offset r)),
      (''eventType'', JStr (event_type_str (rte_eventType r))),
      (''eventTime'', JStr (rte_eventTime r)),
      (''eventDigest'', JStr (rte_eventDigest r)),
      (''objectRefs'', JArr (map JStr (rte_objectRefs r)))])"

definition timeline_event_valid :: "'e env_scheme \<Rightarrow> 'a timeline_event_scheme \<Rightarrow> bool" where
  "timeline_event_valid E r \<longleftrightarrow>
     id_ok (rte_streamId r) \<and>
     1 \<le> length (rte_partitionKey r) \<and>
     0 \<le> (rte_offset r) \<and>
     iso_ok E (rte_eventTime r) \<and>
     digest_ok (rte_eventDigest r) \<and>
     list_all (\<lambda>x. 1 \<le> length x) (rte_objectRefs r)"

record timeline_failure =
  rtf_downstreamRetryability :: "downstream_retryability"
  rtf_providerRequestRef :: "string option"
  rtf_providerOperationRef :: "string option"
  rtf_redactedDiagnosticsDigest :: "string option"
  rtf_traceRef :: "string option"
  rtf_spanRef :: "string option"
  rtf_diagnosticsRedactionPosture :: "downstream_diagnostics_redaction_posture"

definition timeline_failure_json :: "'a timeline_failure_scheme \<Rightarrow> jval" where
  "timeline_failure_json r = JObj (
     [(''downstreamRetryability'', JStr (downstream_retryability_str (rtf_downstreamRetryability r))),
      (''providerRequestRef'', j_opt JStr (rtf_providerRequestRef r)),
      (''providerOperationRef'', j_opt JStr (rtf_providerOperationRef r)),
      (''redactedDiagnosticsDigest'', j_opt JStr (rtf_redactedDiagnosticsDigest r)),
      (''traceRef'', j_opt JStr (rtf_traceRef r)),
      (''spanRef'', j_opt JStr (rtf_spanRef r)),
      (''diagnosticsRedactionPosture'', JStr (downstream_diagnostics_redaction_posture_str (rtf_diagnosticsRedactionPosture r)))])"

definition timeline_failure_valid :: "'e env_scheme \<Rightarrow> 'a timeline_failure_scheme \<Rightarrow> bool" where
  "timeline_failure_valid E r \<longleftrightarrow>
     opt_ok (\<lambda>x. 1 \<le> length x) (rtf_providerRequestRef r) \<and>
     opt_ok (\<lambda>x. 1 \<le> length x) (rtf_providerOperationRef r) \<and>
     opt_ok digest_ok (rtf_redactedDiagnosticsDigest r) \<and>
     opt_ok (\<lambda>x. 1 \<le> length x) (rtf_traceRef r) \<and>
     opt_ok (\<lambda>x. 1 \<le> length x) (rtf_spanRef r)"

record receipt_timeline =
  rtl_receiptRef :: "string"
  rtl_actionContractRef :: "string"
  rtl_policyDecisionRef :: "string"
  rtl_greenlightRef :: "string option"
  rtl_gateAttemptRef :: "string option"
  rtl_mutationAttemptRef :: "string option"
  rtl_gatewayId :: "string"
  rtl_policyDecisionStatus :: "policy_decision_value"
  rtl_gatewayCheckStatus :: "gate_decision option"
  rtl_gatewayAdmissionStatus :: "gateway_admission_status"
  rtl_greenlightConsumptionStatus :: "consumption_status"
  rtl_mutationAttemptStatus :: "mutation_outcome"
  rtl_downstreamExecutionStatus :: "downstream_outcome_status"
  rtl_downstreamOutcomeStatus :: "downstream_outcome_status"
  rtl_proofGapRefs :: "string list"
  rtl_finalityStatus :: "finality_status"
  rtl_receiptDigest :: "string option"
  rtl_auditChainDigest :: "string option"
  rtl_streamOffsets :: "receipt_stream_reference list"
  rtl_events :: "timeline_event list"
  rtl_missingEventCount :: "int"
  rtl_failureEvidence :: "timeline_failure option"
  rtl_redactionProfileRef :: "string"
  rtl_omittedFields :: "string list"

definition receipt_timeline_json :: "'a receipt_timeline_scheme \<Rightarrow> jval" where
  "receipt_timeline_json r = JObj (
     [(''receiptRef'', JStr (rtl_receiptRef r)),
      (''actionContractRef'', JStr (rtl_actionContractRef r)),
      (''policyDecisionRef'', JStr (rtl_policyDecisionRef r)),
      (''greenlightRef'', j_opt JStr (rtl_greenlightRef r)),
      (''gateAttemptRef'', j_opt JStr (rtl_gateAttemptRef r)),
      (''mutationAttemptRef'', j_opt JStr (rtl_mutationAttemptRef r)),
      (''gatewayId'', JStr (rtl_gatewayId r)),
      (''policyDecisionStatus'', JStr (policy_decision_value_str (rtl_policyDecisionStatus r))),
      (''gatewayCheckStatus'', j_opt (\<lambda>x. JStr (gate_decision_str x)) (rtl_gatewayCheckStatus r)),
      (''gatewayAdmissionStatus'', JStr (gateway_admission_status_str (rtl_gatewayAdmissionStatus r))),
      (''greenlightConsumptionStatus'', JStr (consumption_status_str (rtl_greenlightConsumptionStatus r))),
      (''mutationAttemptStatus'', JStr (mutation_outcome_str (rtl_mutationAttemptStatus r))),
      (''downstreamExecutionStatus'', JStr (downstream_outcome_status_str (rtl_downstreamExecutionStatus r))),
      (''downstreamOutcomeStatus'', JStr (downstream_outcome_status_str (rtl_downstreamOutcomeStatus r))),
      (''proofGapRefs'', JArr (map JStr (rtl_proofGapRefs r))),
      (''finalityStatus'', JStr (finality_status_str (rtl_finalityStatus r))),
      (''receiptDigest'', j_opt JStr (rtl_receiptDigest r)),
      (''auditChainDigest'', j_opt JStr (rtl_auditChainDigest r)),
      (''streamOffsets'', JArr (map receipt_stream_reference_json (rtl_streamOffsets r))),
      (''events'', JArr (map timeline_event_json (rtl_events r))),
      (''missingEventCount'', JInt (rtl_missingEventCount r)),
      (''failureEvidence'', j_opt timeline_failure_json (rtl_failureEvidence r)),
      (''redactionProfileRef'', JStr (rtl_redactionProfileRef r)),
      (''omittedFields'', JArr (map JStr (rtl_omittedFields r)))])"

definition receipt_timeline_valid :: "'e env_scheme \<Rightarrow> 'a receipt_timeline_scheme \<Rightarrow> bool" where
  "receipt_timeline_valid E r \<longleftrightarrow>
     id_ok (rtl_receiptRef r) \<and>
     id_ok (rtl_actionContractRef r) \<and>
     id_ok (rtl_policyDecisionRef r) \<and>
     opt_ok id_ok (rtl_greenlightRef r) \<and>
     opt_ok id_ok (rtl_gateAttemptRef r) \<and>
     opt_ok id_ok (rtl_mutationAttemptRef r) \<and>
     id_ok (rtl_gatewayId r) \<and>
     list_all id_ok (rtl_proofGapRefs r) \<and>
     opt_ok digest_ok (rtl_receiptDigest r) \<and>
     opt_ok digest_ok (rtl_auditChainDigest r) \<and>
     list_all (receipt_stream_reference_valid E) (rtl_streamOffsets r) \<and>
     list_all (timeline_event_valid E) (rtl_events r) \<and>
     0 \<le> (rtl_missingEventCount r) \<and>
     opt_ok (timeline_failure_valid E) (rtl_failureEvidence r) \<and>
     (rtl_redactionProfileRef r) = ''receipt-timeline:v0.2-redacted'' \<and>
     list_all (\<lambda>x. 1 \<le> length x) (rtl_omittedFields r)"

datatype (plugins only: code) readback_policy_status =
    RPST_greenlight
  | RPST_refuse
  | RPST_proof_gap

primrec readback_policy_status_str :: "readback_policy_status \<Rightarrow> string" where
    "readback_policy_status_str RPST_greenlight = ''greenlight''"
  | "readback_policy_status_str RPST_refuse = ''refuse''"
  | "readback_policy_status_str RPST_proof_gap = ''proof_gap''"

record readback_policy_input =
  rpi_posture :: "agreement_posture"
  rpi_obligationRef :: "string option"
  rpi_linkedAgreementId :: "string option"
  rpi_acceptedNegotiationResolutionId :: "string option"

definition readback_policy_input_json :: "'a readback_policy_input_scheme \<Rightarrow> jval" where
  "readback_policy_input_json r = JObj (
     [(''posture'', JStr (agreement_posture_str (rpi_posture r))),
      (''obligationRef'', j_opt JStr (rpi_obligationRef r)),
      (''linkedAgreementId'', j_opt JStr (rpi_linkedAgreementId r)),
      (''acceptedNegotiationResolutionId'', j_opt JStr (rpi_acceptedNegotiationResolutionId r))])"

definition readback_policy_input_valid :: "'e env_scheme \<Rightarrow> 'a readback_policy_input_scheme \<Rightarrow> bool" where
  "readback_policy_input_valid E r \<longleftrightarrow>
     opt_ok resource_ref_ok (rpi_obligationRef r) \<and>
     opt_ok id_ok (rpi_linkedAgreementId r) \<and>
     opt_ok id_ok (rpi_acceptedNegotiationResolutionId r)"

record readback_agreement_policy =
  oap_sourceAuthority :: "string"
  oap_evaluationStatus :: "readback_policy_status"
  oap_ok :: "bool"
  oap_reasonCode :: "string option"
  oap_reason :: "string option"
  oap_policyInput :: "readback_policy_input"

definition readback_agreement_policy_json :: "'a readback_agreement_policy_scheme \<Rightarrow> jval" where
  "readback_agreement_policy_json r = JObj (
     [(''sourceAuthority'', JStr (oap_sourceAuthority r)),
      (''evaluationStatus'', JStr (readback_policy_status_str (oap_evaluationStatus r))),
      (''ok'', JBool (oap_ok r)),
      (''reasonCode'', j_opt JStr (oap_reasonCode r)),
      (''reason'', j_opt JStr (oap_reason r)),
      (''policyInput'', readback_policy_input_json (oap_policyInput r))])"

definition readback_agreement_policy_valid :: "'e env_scheme \<Rightarrow> 'a readback_agreement_policy_scheme \<Rightarrow> bool" where
  "readback_agreement_policy_valid E r \<longleftrightarrow>
     (oap_sourceAuthority r) = ''policy_decision_snapshot'' \<and>
     opt_ok reason_code_ok (oap_reasonCode r) \<and>
     opt_ok (\<lambda>x. 1 \<le> length x \<and> length x \<le> 1000) (oap_reason r) \<and>
     readback_policy_input_valid E (oap_policyInput r)"

datatype (plugins only: code) readback_status =
    ORS_policy_refused
  | ORS_review_required
  | ORS_halted
  | ORS_quarantined
  | ORS_policy_proof_gap
  | ORS_greenlight_available
  | ORS_gateway_admitted
  | ORS_gateway_refused
  | ORS_gateway_proof_gap
  | ORS_replay_refused
  | ORS_downstream_pending
  | ORS_downstream_succeeded
  | ORS_downstream_refused
  | ORS_downstream_failed
  | ORS_downstream_unknown
  | ORS_recovery_required
  | ORS_isolated

primrec readback_status_str :: "readback_status \<Rightarrow> string" where
    "readback_status_str ORS_policy_refused = ''policy_refused''"
  | "readback_status_str ORS_review_required = ''review_required''"
  | "readback_status_str ORS_halted = ''halted''"
  | "readback_status_str ORS_quarantined = ''quarantined''"
  | "readback_status_str ORS_policy_proof_gap = ''policy_proof_gap''"
  | "readback_status_str ORS_greenlight_available = ''greenlight_available''"
  | "readback_status_str ORS_gateway_admitted = ''gateway_admitted''"
  | "readback_status_str ORS_gateway_refused = ''gateway_refused''"
  | "readback_status_str ORS_gateway_proof_gap = ''gateway_proof_gap''"
  | "readback_status_str ORS_replay_refused = ''replay_refused''"
  | "readback_status_str ORS_downstream_pending = ''downstream_pending''"
  | "readback_status_str ORS_downstream_succeeded = ''downstream_succeeded''"
  | "readback_status_str ORS_downstream_refused = ''downstream_refused''"
  | "readback_status_str ORS_downstream_failed = ''downstream_failed''"
  | "readback_status_str ORS_downstream_unknown = ''downstream_unknown''"
  | "readback_status_str ORS_recovery_required = ''recovery_required''"
  | "readback_status_str ORS_isolated = ''isolated''"

datatype (plugins only: code) readback_stage =
    OST_intent_compilation
  | OST_candidate_action
  | OST_action_contract
  | OST_policy_decision
  | OST_greenlight
  | OST_gateway_check
  | OST_mutation_attempt
  | OST_receipt
  | OST_recovery
  | OST_isolation

primrec readback_stage_str :: "readback_stage \<Rightarrow> string" where
    "readback_stage_str OST_intent_compilation = ''intent_compilation''"
  | "readback_stage_str OST_candidate_action = ''candidate_action''"
  | "readback_stage_str OST_action_contract = ''action_contract''"
  | "readback_stage_str OST_policy_decision = ''policy_decision''"
  | "readback_stage_str OST_greenlight = ''greenlight''"
  | "readback_stage_str OST_gateway_check = ''gateway_check''"
  | "readback_stage_str OST_mutation_attempt = ''mutation_attempt''"
  | "readback_stage_str OST_receipt = ''receipt''"
  | "readback_stage_str OST_recovery = ''recovery''"
  | "readback_stage_str OST_isolation = ''isolation''"

record correlation_index =
  oci_schemaVersion :: "string"
  oci_actionContractRef :: "string"
  oci_sourceAuthority :: "string"
  oci_authorityCreatedByProjection :: "bool"
  oci_greenlightCreatedByReadback :: "bool"
  oci_gatewayCheckPerformedByReadback :: "bool"
  oci_mutationAttemptedByReadback :: "bool"
  oci_intentCompilationRef :: "string option"
  oci_candidateActionRef :: "string option"
  oci_policyDecisionRef :: "string"
  oci_greenlightRef :: "string option"
  oci_gateAttemptRef :: "string option"
  oci_mutationAttemptRef :: "string option"
  oci_receiptRef :: "string option"
  oci_proofGapRefs :: "string list"
  oci_refusalRefs :: "string list"
  oci_recoveryRefs :: "string list"
  oci_isolationRefs :: "string list"
  oci_authorityCertificateRefs :: "string list"
  oci_redactionProfileRef :: "string"
  oci_omittedFields :: "string list"

definition correlation_index_json :: "'a correlation_index_scheme \<Rightarrow> jval" where
  "correlation_index_json r = JObj (
     [(''schemaVersion'', JStr (oci_schemaVersion r)),
      (''actionContractRef'', JStr (oci_actionContractRef r)),
      (''sourceAuthority'', JStr (oci_sourceAuthority r)),
      (''authorityCreatedByProjection'', JBool (oci_authorityCreatedByProjection r)),
      (''greenlightCreatedByReadback'', JBool (oci_greenlightCreatedByReadback r)),
      (''gatewayCheckPerformedByReadback'', JBool (oci_gatewayCheckPerformedByReadback r)),
      (''mutationAttemptedByReadback'', JBool (oci_mutationAttemptedByReadback r)),
      (''intentCompilationRef'', j_opt JStr (oci_intentCompilationRef r)),
      (''candidateActionRef'', j_opt JStr (oci_candidateActionRef r)),
      (''policyDecisionRef'', JStr (oci_policyDecisionRef r)),
      (''greenlightRef'', j_opt JStr (oci_greenlightRef r)),
      (''gateAttemptRef'', j_opt JStr (oci_gateAttemptRef r)),
      (''mutationAttemptRef'', j_opt JStr (oci_mutationAttemptRef r)),
      (''receiptRef'', j_opt JStr (oci_receiptRef r)),
      (''proofGapRefs'', JArr (map JStr (oci_proofGapRefs r))),
      (''refusalRefs'', JArr (map JStr (oci_refusalRefs r))),
      (''recoveryRefs'', JArr (map JStr (oci_recoveryRefs r))),
      (''isolationRefs'', JArr (map JStr (oci_isolationRefs r))),
      (''authorityCertificateRefs'', JArr (map JStr (oci_authorityCertificateRefs r))),
      (''redactionProfileRef'', JStr (oci_redactionProfileRef r)),
      (''omittedFields'', JArr (map JStr (oci_omittedFields r)))])"

definition correlation_index_valid :: "'e env_scheme \<Rightarrow> 'a correlation_index_scheme \<Rightarrow> bool" where
  "correlation_index_valid E r \<longleftrightarrow>
     (oci_schemaVersion r) = ''handshake.operation-correlation.v0.1'' \<and>
     id_ok (oci_actionContractRef r) \<and>
     (oci_sourceAuthority r) = ''protocol_store_projection'' \<and>
     \<not> (oci_authorityCreatedByProjection r) \<and>
     \<not> (oci_greenlightCreatedByReadback r) \<and>
     \<not> (oci_gatewayCheckPerformedByReadback r) \<and>
     \<not> (oci_mutationAttemptedByReadback r) \<and>
     opt_ok id_ok (oci_intentCompilationRef r) \<and>
     opt_ok id_ok (oci_candidateActionRef r) \<and>
     id_ok (oci_policyDecisionRef r) \<and>
     opt_ok id_ok (oci_greenlightRef r) \<and>
     opt_ok id_ok (oci_gateAttemptRef r) \<and>
     opt_ok id_ok (oci_mutationAttemptRef r) \<and>
     opt_ok id_ok (oci_receiptRef r) \<and>
     list_all id_ok (oci_proofGapRefs r) \<and>
     list_all id_ok (oci_refusalRefs r) \<and>
     list_all (\<lambda>x. 1 \<le> length x) (oci_recoveryRefs r) \<and>
     list_all (\<lambda>x. 1 \<le> length x) (oci_isolationRefs r) \<and>
     list_all id_ok (oci_authorityCertificateRefs r) \<and>
     (oci_redactionProfileRef r) = ''operation-correlation:v0.1-redacted'' \<and>
     list_all (\<lambda>x. 1 \<le> length x) (oci_omittedFields r)"

datatype (plugins only: code) next_mechanism =
    NM_read_evidence
  | NM_use_greenlight_at_gateway
  | NM_request_review
  | NM_recraft_request
  | NM_create_new_contract
  | NM_recover_terminal_unknown
  | NM_stop
  | NM_wait_for_downstream

primrec next_mechanism_str :: "next_mechanism \<Rightarrow> string" where
    "next_mechanism_str NM_read_evidence = ''read_evidence''"
  | "next_mechanism_str NM_use_greenlight_at_gateway = ''use_greenlight_at_gateway''"
  | "next_mechanism_str NM_request_review = ''request_review''"
  | "next_mechanism_str NM_recraft_request = ''recraft_request''"
  | "next_mechanism_str NM_create_new_contract = ''create_new_contract''"
  | "next_mechanism_str NM_recover_terminal_unknown = ''recover_terminal_unknown''"
  | "next_mechanism_str NM_stop = ''stop''"
  | "next_mechanism_str NM_wait_for_downstream = ''wait_for_downstream''"

datatype (plugins only: code) support_severity =
    SSV_none
  | SSV_info
  | SSV_warning
  | SSV_urgent

primrec support_severity_str :: "support_severity \<Rightarrow> string" where
    "support_severity_str SSV_none = ''none''"
  | "support_severity_str SSV_info = ''info''"
  | "support_severity_str SSV_warning = ''warning''"
  | "support_severity_str SSV_urgent = ''urgent''"

datatype (plugins only: code) greenlight_use_posture =
    GUP_none
  | GUP_available_for_one_gateway_check
  | GUP_consumed
  | GUP_replayed_or_unusable
  | GUP_unknown

primrec greenlight_use_posture_str :: "greenlight_use_posture \<Rightarrow> string" where
    "greenlight_use_posture_str GUP_none = ''none''"
  | "greenlight_use_posture_str GUP_available_for_one_gateway_check = ''available_for_one_gateway_check''"
  | "greenlight_use_posture_str GUP_consumed = ''consumed''"
  | "greenlight_use_posture_str GUP_replayed_or_unusable = ''replayed_or_unusable''"
  | "greenlight_use_posture_str GUP_unknown = ''unknown''"

record support_context =
  osc_schemaVersion :: "string"
  osc_supportContextRef :: "string"
  osc_sourceAuthority :: "string"
  osc_surface :: "string"
  osc_actionContractRef :: "string"
  osc_requestIdentity :: "string option"
  osc_operationStatus :: "readback_status"
  osc_reasonCodes :: "string list"
  osc_nextMechanism :: "next_mechanism"
  osc_safeToRetryReadback :: "bool"
  osc_safeToReuseGreenlight :: "bool"
  osc_requiresNewContract :: "bool"
  osc_supportSeverity :: "support_severity"
  osc_docsUrl :: "string option"
  osc_nextCommand :: "string option"
  osc_evidenceRefs :: "string list"
  osc_proofGapRefs :: "string list"
  osc_refusalRefs :: "string list"
  osc_traceRef :: "string option"
  osc_spanRef :: "string option"
  osc_redactionProfileRef :: "string"

definition support_context_json :: "'a support_context_scheme \<Rightarrow> jval" where
  "support_context_json r = JObj (
     [(''schemaVersion'', JStr (osc_schemaVersion r)),
      (''supportContextRef'', JStr (osc_supportContextRef r)),
      (''sourceAuthority'', JStr (osc_sourceAuthority r)),
      (''surface'', JStr (osc_surface r)),
      (''actionContractRef'', JStr (osc_actionContractRef r)),
      (''requestIdentity'', j_opt JStr (osc_requestIdentity r)),
      (''operationStatus'', JStr (readback_status_str (osc_operationStatus r))),
      (''reasonCodes'', JArr (map JStr (osc_reasonCodes r))),
      (''nextMechanism'', JStr (next_mechanism_str (osc_nextMechanism r))),
      (''safeToRetryReadback'', JBool (osc_safeToRetryReadback r)),
      (''safeToReuseGreenlight'', JBool (osc_safeToReuseGreenlight r)),
      (''requiresNewContract'', JBool (osc_requiresNewContract r)),
      (''supportSeverity'', JStr (support_severity_str (osc_supportSeverity r))),
      (''docsUrl'', j_opt JStr (osc_docsUrl r)),
      (''nextCommand'', j_opt JStr (osc_nextCommand r)),
      (''evidenceRefs'', JArr (map JStr (osc_evidenceRefs r))),
      (''proofGapRefs'', JArr (map JStr (osc_proofGapRefs r))),
      (''refusalRefs'', JArr (map JStr (osc_refusalRefs r))),
      (''traceRef'', j_opt JStr (osc_traceRef r)),
      (''spanRef'', j_opt JStr (osc_spanRef r)),
      (''redactionProfileRef'', JStr (osc_redactionProfileRef r))])"

definition support_context_valid :: "'e env_scheme \<Rightarrow> 'a support_context_scheme \<Rightarrow> bool" where
  "support_context_valid E r \<longleftrightarrow>
     (osc_schemaVersion r) = ''handshake.support-context.v0.1'' \<and>
     1 \<le> length (osc_supportContextRef r) \<and>
     (osc_sourceAuthority r) = ''protocol_store_projection'' \<and>
     (osc_surface r) = ''operation_readback'' \<and>
     id_ok (osc_actionContractRef r) \<and>
     opt_ok (\<lambda>x. 1 \<le> length x) (osc_requestIdentity r) \<and>
     list_all reason_code_ok (osc_reasonCodes r) \<and>
     (osc_safeToRetryReadback r) \<and>
     opt_ok (\<lambda>x. 1 \<le> length x) (osc_nextCommand r) \<and>
     list_all (\<lambda>x. 1 \<le> length x) (osc_evidenceRefs r) \<and>
     list_all id_ok (osc_proofGapRefs r) \<and>
     list_all id_ok (osc_refusalRefs r) \<and>
     opt_ok (\<lambda>x. 1 \<le> length x) (osc_traceRef r) \<and>
     opt_ok (\<lambda>x. 1 \<le> length x) (osc_spanRef r) \<and>
     (osc_redactionProfileRef r) = ''operation-readback:v0.1-redacted''"

record operation_readback =
  orb_schemaVersion :: "string"
  orb_actionContractRef :: "string"
  orb_contractDigest :: "string"
  orb_principalRef :: "string"
  orb_agentRef :: "string"
  orb_runId :: "string"
  orb_runtimeAdapterRef :: "string"
  orb_actionClass :: "string"
  orb_protectedSurfaceKind :: "string"
  orb_resourceRef :: "string"
  orb_gatewayId :: "string"
  orb_gatewayPolicyVersion :: "string"
  orb_sourceAuthority :: "string"
  orb_operationStatus :: "readback_status"
  orb_latestAuthoritativeStage :: "readback_stage"
  orb_policyDecisionRef :: "string"
  orb_policyDecisionStatus :: "policy_decision_value"
  orb_agreementObligationPolicy :: "readback_agreement_policy"
  orb_greenlightRef :: "string option"
  orb_gateAttemptRef :: "string option"
  orb_mutationAttemptRef :: "string option"
  orb_receiptRef :: "string option"
  orb_gatewayAdmissionStatus :: "gateway_admission_status"
  orb_downstreamOutcomeStatus :: "downstream_outcome_status"
  orb_finalityStatus :: "finality_status option"
  orb_greenlightUsePosture :: "greenlight_use_posture"
  orb_reasonCodes :: "string list"
  orb_nextMechanism :: "next_mechanism"
  orb_safeToRetryReadback :: "bool"
  orb_safeToReuseGreenlight :: "bool"
  orb_requiresNewContract :: "bool"
  orb_authorityCreatedByReadback :: "bool"
  orb_greenlightCreatedByReadback :: "bool"
  orb_gatewayCheckPerformedByReadback :: "bool"
  orb_mutationAttemptedByReadback :: "bool"
  orb_receiptExportCreatedByReadback :: "bool"
  orb_rawInternalRecordIncluded :: "bool"
  orb_credentialMaterialIncluded :: "bool"
  orb_paymentMaterialIncluded :: "bool"
  orb_evidenceRefs :: "string list"
  orb_proofGapRefs :: "string list"
  orb_refusalRefs :: "string list"
  orb_recoveryRefs :: "string list"
  orb_isolationRefs :: "string list"
  orb_authorityCertificateRefs :: "string list"
  orb_providerRequestRef :: "string option"
  orb_providerOperationRef :: "string option"
  orb_traceRef :: "string option"
  orb_spanRef :: "string option"
  orb_redactionProfileRef :: "string"
  orb_omittedFields :: "string list"
  orb_supportContext :: "support_context"

definition operation_readback_json :: "'a operation_readback_scheme \<Rightarrow> jval" where
  "operation_readback_json r = JObj (
     [(''schemaVersion'', JStr (orb_schemaVersion r)),
      (''actionContractRef'', JStr (orb_actionContractRef r)),
      (''contractDigest'', JStr (orb_contractDigest r)),
      (''principalRef'', JStr (orb_principalRef r)),
      (''agentRef'', JStr (orb_agentRef r)),
      (''runId'', JStr (orb_runId r)),
      (''runtimeAdapterRef'', JStr (orb_runtimeAdapterRef r)),
      (''actionClass'', JStr (orb_actionClass r)),
      (''protectedSurfaceKind'', JStr (orb_protectedSurfaceKind r)),
      (''resourceRef'', JStr (orb_resourceRef r)),
      (''gatewayId'', JStr (orb_gatewayId r)),
      (''gatewayPolicyVersion'', JStr (orb_gatewayPolicyVersion r)),
      (''sourceAuthority'', JStr (orb_sourceAuthority r)),
      (''operationStatus'', JStr (readback_status_str (orb_operationStatus r))),
      (''latestAuthoritativeStage'', JStr (readback_stage_str (orb_latestAuthoritativeStage r))),
      (''policyDecisionRef'', JStr (orb_policyDecisionRef r)),
      (''policyDecisionStatus'', JStr (policy_decision_value_str (orb_policyDecisionStatus r))),
      (''agreementObligationPolicy'', readback_agreement_policy_json (orb_agreementObligationPolicy r)),
      (''greenlightRef'', j_opt JStr (orb_greenlightRef r)),
      (''gateAttemptRef'', j_opt JStr (orb_gateAttemptRef r)),
      (''mutationAttemptRef'', j_opt JStr (orb_mutationAttemptRef r)),
      (''receiptRef'', j_opt JStr (orb_receiptRef r)),
      (''gatewayAdmissionStatus'', JStr (gateway_admission_status_str (orb_gatewayAdmissionStatus r))),
      (''downstreamOutcomeStatus'', JStr (downstream_outcome_status_str (orb_downstreamOutcomeStatus r))),
      (''finalityStatus'', j_opt (\<lambda>x. JStr (finality_status_str x)) (orb_finalityStatus r)),
      (''greenlightUsePosture'', JStr (greenlight_use_posture_str (orb_greenlightUsePosture r))),
      (''reasonCodes'', JArr (map JStr (orb_reasonCodes r))),
      (''nextMechanism'', JStr (next_mechanism_str (orb_nextMechanism r))),
      (''safeToRetryReadback'', JBool (orb_safeToRetryReadback r)),
      (''safeToReuseGreenlight'', JBool (orb_safeToReuseGreenlight r)),
      (''requiresNewContract'', JBool (orb_requiresNewContract r)),
      (''authorityCreatedByReadback'', JBool (orb_authorityCreatedByReadback r)),
      (''greenlightCreatedByReadback'', JBool (orb_greenlightCreatedByReadback r)),
      (''gatewayCheckPerformedByReadback'', JBool (orb_gatewayCheckPerformedByReadback r)),
      (''mutationAttemptedByReadback'', JBool (orb_mutationAttemptedByReadback r)),
      (''receiptExportCreatedByReadback'', JBool (orb_receiptExportCreatedByReadback r)),
      (''rawInternalRecordIncluded'', JBool (orb_rawInternalRecordIncluded r)),
      (''credentialMaterialIncluded'', JBool (orb_credentialMaterialIncluded r)),
      (''paymentMaterialIncluded'', JBool (orb_paymentMaterialIncluded r)),
      (''evidenceRefs'', JArr (map JStr (orb_evidenceRefs r))),
      (''proofGapRefs'', JArr (map JStr (orb_proofGapRefs r))),
      (''refusalRefs'', JArr (map JStr (orb_refusalRefs r))),
      (''recoveryRefs'', JArr (map JStr (orb_recoveryRefs r))),
      (''isolationRefs'', JArr (map JStr (orb_isolationRefs r))),
      (''authorityCertificateRefs'', JArr (map JStr (orb_authorityCertificateRefs r))),
      (''providerRequestRef'', j_opt JStr (orb_providerRequestRef r)),
      (''providerOperationRef'', j_opt JStr (orb_providerOperationRef r)),
      (''traceRef'', j_opt JStr (orb_traceRef r)),
      (''spanRef'', j_opt JStr (orb_spanRef r)),
      (''redactionProfileRef'', JStr (orb_redactionProfileRef r)),
      (''omittedFields'', JArr (map JStr (orb_omittedFields r))),
      (''supportContext'', support_context_json (orb_supportContext r))])"

definition operation_readback_valid :: "'e env_scheme \<Rightarrow> 'a operation_readback_scheme \<Rightarrow> bool" where
  "operation_readback_valid E r \<longleftrightarrow>
     (orb_schemaVersion r) = ''handshake.operation-readback.v0.1'' \<and>
     id_ok (orb_actionContractRef r) \<and>
     digest_ok (orb_contractDigest r) \<and>
     id_ok (orb_principalRef r) \<and>
     id_ok (orb_agentRef r) \<and>
     id_ok (orb_runId r) \<and>
     id_ok (orb_runtimeAdapterRef r) \<and>
     1 \<le> length (orb_actionClass r) \<and>
     1 \<le> length (orb_protectedSurfaceKind r) \<and>
     resource_ref_ok (orb_resourceRef r) \<and>
     id_ok (orb_gatewayId r) \<and>
     1 \<le> length (orb_gatewayPolicyVersion r) \<and>
     (orb_sourceAuthority r) = ''protocol_store_projection'' \<and>
     id_ok (orb_policyDecisionRef r) \<and>
     readback_agreement_policy_valid E (orb_agreementObligationPolicy r) \<and>
     opt_ok id_ok (orb_greenlightRef r) \<and>
     opt_ok id_ok (orb_gateAttemptRef r) \<and>
     opt_ok id_ok (orb_mutationAttemptRef r) \<and>
     opt_ok id_ok (orb_receiptRef r) \<and>
     list_all reason_code_ok (orb_reasonCodes r) \<and>
     (orb_safeToRetryReadback r) \<and>
     \<not> (orb_authorityCreatedByReadback r) \<and>
     \<not> (orb_greenlightCreatedByReadback r) \<and>
     \<not> (orb_gatewayCheckPerformedByReadback r) \<and>
     \<not> (orb_mutationAttemptedByReadback r) \<and>
     \<not> (orb_receiptExportCreatedByReadback r) \<and>
     \<not> (orb_rawInternalRecordIncluded r) \<and>
     \<not> (orb_credentialMaterialIncluded r) \<and>
     \<not> (orb_paymentMaterialIncluded r) \<and>
     list_all (\<lambda>x. 1 \<le> length x) (orb_evidenceRefs r) \<and>
     list_all id_ok (orb_proofGapRefs r) \<and>
     list_all id_ok (orb_refusalRefs r) \<and>
     list_all (\<lambda>x. 1 \<le> length x) (orb_recoveryRefs r) \<and>
     list_all (\<lambda>x. 1 \<le> length x) (orb_isolationRefs r) \<and>
     list_all id_ok (orb_authorityCertificateRefs r) \<and>
     opt_ok (\<lambda>x. 1 \<le> length x) (orb_providerRequestRef r) \<and>
     opt_ok (\<lambda>x. 1 \<le> length x) (orb_providerOperationRef r) \<and>
     opt_ok (\<lambda>x. 1 \<le> length x) (orb_traceRef r) \<and>
     opt_ok (\<lambda>x. 1 \<le> length x) (orb_spanRef r) \<and>
     (orb_redactionProfileRef r) = ''operation-readback:v0.1-redacted'' \<and>
     list_all (\<lambda>x. 1 \<le> length x) (orb_omittedFields r) \<and>
     support_context_valid E (orb_supportContext r)"

datatype (plugins only: code) install_health_status =
    IHS_not_required
  | IHS_satisfies_gateway_checked
  | IHS_missing
  | IHS_stale
  | IHS_unsafe
  | IHS_unknown

primrec install_health_status_str :: "install_health_status \<Rightarrow> string" where
    "install_health_status_str IHS_not_required = ''not_required''"
  | "install_health_status_str IHS_satisfies_gateway_checked = ''satisfies_gateway_checked''"
  | "install_health_status_str IHS_missing = ''missing''"
  | "install_health_status_str IHS_stale = ''stale''"
  | "install_health_status_str IHS_unsafe = ''unsafe''"
  | "install_health_status_str IHS_unknown = ''unknown''"

record install_health =
  ihp_actionContractRef :: "string"
  ihp_postureScopeKey :: "string"
  ihp_runtimeAdapterRef :: "string"
  ihp_gatewayId :: "string"
  ihp_actionClass :: "string"
  ihp_protectedSurfaceKind :: "string"
  ihp_resourceRef :: "string"
  ihp_requiredProtectedPathState :: "required_protected_path_state"
  ihp_installHealthStatus :: "install_health_status"
  ihp_reasonCodes :: "string list"
  ihp_currentPostureRef :: "string option"
  ihp_currentPostureDigest :: "string option"
  ihp_postureState :: "protected_path_state option"
  ihp_credentialCustodyStatus :: "credential_custody_status option"
  ihp_rawSiblingToolStatus :: "raw_sibling_tool_status option"
  ihp_sourceAuthority :: "posture_source_authority option"
  ihp_bypassProbeCoverage :: "protected_path_bypass_probe_coverage list"
  ihp_observedAt :: "string option"
  ihp_expiresAt :: "string option"
  ihp_redactionProfileRef :: "string"
  ihp_omittedFields :: "string list"

definition install_health_json :: "'a install_health_scheme \<Rightarrow> jval" where
  "install_health_json r = JObj (
     [(''actionContractRef'', JStr (ihp_actionContractRef r)),
      (''postureScopeKey'', JStr (ihp_postureScopeKey r)),
      (''runtimeAdapterRef'', JStr (ihp_runtimeAdapterRef r)),
      (''gatewayId'', JStr (ihp_gatewayId r)),
      (''actionClass'', JStr (ihp_actionClass r)),
      (''protectedSurfaceKind'', JStr (ihp_protectedSurfaceKind r)),
      (''resourceRef'', JStr (ihp_resourceRef r)),
      (''requiredProtectedPathState'', JStr (required_protected_path_state_str (ihp_requiredProtectedPathState r))),
      (''installHealthStatus'', JStr (install_health_status_str (ihp_installHealthStatus r))),
      (''reasonCodes'', JArr (map JStr (ihp_reasonCodes r))),
      (''currentPostureRef'', j_opt JStr (ihp_currentPostureRef r)),
      (''currentPostureDigest'', j_opt JStr (ihp_currentPostureDigest r)),
      (''postureState'', j_opt (\<lambda>x. JStr (protected_path_state_str x)) (ihp_postureState r)),
      (''credentialCustodyStatus'', j_opt (\<lambda>x. JStr (credential_custody_status_str x)) (ihp_credentialCustodyStatus r)),
      (''rawSiblingToolStatus'', j_opt (\<lambda>x. JStr (raw_sibling_tool_status_str x)) (ihp_rawSiblingToolStatus r)),
      (''sourceAuthority'', j_opt (\<lambda>x. JStr (posture_source_authority_str x)) (ihp_sourceAuthority r)),
      (''bypassProbeCoverage'', JArr (map protected_path_bypass_probe_coverage_json (ihp_bypassProbeCoverage r))),
      (''observedAt'', j_opt JStr (ihp_observedAt r)),
      (''expiresAt'', j_opt JStr (ihp_expiresAt r)),
      (''redactionProfileRef'', JStr (ihp_redactionProfileRef r)),
      (''omittedFields'', JArr (map JStr (ihp_omittedFields r)))])"

definition install_health_valid :: "'e env_scheme \<Rightarrow> 'a install_health_scheme \<Rightarrow> bool" where
  "install_health_valid E r \<longleftrightarrow>
     id_ok (ihp_actionContractRef r) \<and>
     1 \<le> length (ihp_postureScopeKey r) \<and>
     id_ok (ihp_runtimeAdapterRef r) \<and>
     id_ok (ihp_gatewayId r) \<and>
     1 \<le> length (ihp_actionClass r) \<and>
     1 \<le> length (ihp_protectedSurfaceKind r) \<and>
     resource_ref_ok (ihp_resourceRef r) \<and>
     list_all reason_code_ok (ihp_reasonCodes r) \<and>
     opt_ok id_ok (ihp_currentPostureRef r) \<and>
     opt_ok digest_ok (ihp_currentPostureDigest r) \<and>
     list_all (protected_path_bypass_probe_coverage_valid E) (ihp_bypassProbeCoverage r) \<and>
     opt_ok (iso_ok E) (ihp_observedAt r) \<and>
     opt_ok (iso_ok E) (ihp_expiresAt r) \<and>
     (ihp_redactionProfileRef r) = ''protected-path-install-health:v0.2-redacted'' \<and>
     list_all (\<lambda>x. 1 \<le> length x) (ihp_omittedFields r)"

end
