(* ===== verification/Projections.thy ===== *)
theory Projections
  imports Schemas_Readback Patterns Posture Gateway_Policy
begin

text \<open>
  What readers of the evidence get, computed from records and nothing else
  (\<open>evidence-projections/projections.ts\<close>): the evidence of a contract, the envelope of
  an agent transaction with its digest, the idempotency recovery, the timeline of a
  receipt, the readback and correlation of an operation, and the health of an
  installation. A projection fails only where its schema refuses the result.
\<close>

section \<open>References\<close>

text \<open>
  The patterns of \<open>looksLikeRawPaymentCredential\<close>. Besides the constructs of theory
  \<open>Patterns\<close> they use \<open>\S\<close>, text with case, the start of the text and word boundaries.
\<close>

definition word_code :: "nat \<Rightarrow> bool" where
  "word_code n \<longleftrightarrow> 48 \<le> n \<and> n \<le> 57 \<or> 65 \<le> n \<and> n \<le> 90 \<or> 97 \<le> n \<and> n \<le> 122 \<or> n = 95"

definition visible :: pattern where
  "visible = Seq (One (\<lambda>n. \<not> space_code n)) (Many (\<lambda>n. \<not> space_code n))"

definition cased :: "string \<Rightarrow> pattern" where
  "cased t = in_order (map (\<lambda>a. One (\<lambda>n. n = of_char a)) t)"

definition some_codes :: "(nat \<Rightarrow> bool) \<Rightarrow> pattern" where
  "some_codes p = Seq (One p) (Many p)"

definition at_start :: "pattern \<Rightarrow> nat list \<Rightarrow> bool" where
  "at_start q s \<longleftrightarrow> list_ex (\<lambda>r. r = [] \<or> \<not> word_code (hd r)) (rests q s)"

text \<open>A pattern that starts with a word character, at the start of a word.\<close>

fun word_found :: "pattern \<Rightarrow> bool \<Rightarrow> nat list \<Rightarrow> bool" where
  "word_found q inside [] \<longleftrightarrow> \<not> inside \<and> rests q [] \<noteq> []"
| "word_found q inside (c # cs) \<longleftrightarrow> \<not> inside \<and> rests q (c # cs) \<noteq> [] \<or> word_found q (word_code c) cs"

definition bearer_code :: "nat \<Rightarrow> bool" where
  "bearer_code n \<longleftrightarrow> word_code n \<or> n \<in> {46, 126, 43, 47, 45}"

definition live_code :: "nat \<Rightarrow> bool" where
  "live_code n \<longleftrightarrow> word_code n \<or> n \<in> {47, 45}"

definition assigned :: pattern where
  "assigned = in_order [spaces, One (\<lambda>n. n = 58 \<or> n = 61), spaces, visible]"

definition payment_patterns :: "pattern list" where
  "payment_patterns = [private_key_block,
     in_order [Txt ''secret'', dash, Txt ''ref:''], in_order [Txt ''private'', dash, Txt ''key''],
     in_order [Txt ''signer'', dash, Txt ''ref''], in_order [Txt ''raw'', dash, Txt ''signer''],
     in_order [Txt ''signing'', dash, Txt ''key''], in_order [Txt ''api'', dash, Txt ''key'', spaces, Txt ''=''],
     in_order [Txt ''access'', dash, Txt ''token'', spaces, Txt ''=''],
     in_order [Txt ''aws'', dash, Txt ''secret'', dash, Txt ''access'', dash, Txt ''key'', assigned],
     in_order [Txt ''secret'', spaces, Txt ''=''], in_order [Txt ''password'', spaces, Txt ''=''],
     Seq (Txt ''vault://'') visible, Seq (Txt ''infisical://'') visible, Seq (Txt ''op://'') visible,
     cased ''PaymentPayload'', Txt ''raw_payment_signature'', in_order [Txt ''token'', dash, Txt ''passthrough''],
     in_order [Txt ''facilitator'', dash, Txt ''secret''],
     in_order [Txt ''auth'', dash, Txt ''md'', Many any_code, Txt ''secret'']]"

definition payment_words :: "pattern list" where
  "payment_words = [in_order [Txt ''Bearer'', spaces1, some_codes bearer_code],
     Seq (in_order [Txt ''claim'', dash, Txt ''token'']) assigned, Seq (in_order [Txt ''access'', dash, Txt ''token'']) assigned,
     Seq (in_order [Txt ''api'', dash, Txt ''key'']) assigned, Seq (in_order [Txt ''client'', dash, Txt ''secret'']) assigned,
     Seq (in_order [Txt ''refresh'', dash, Txt ''token'']) assigned,
     in_order [Txt ''sk_'', Either (Txt ''live'') (Txt ''test''), Txt ''_'', some_codes live_code]]"

definition looksLikeRawPaymentCredential :: "string \<Rightarrow> bool" where
  "looksLikeRawPaymentCredential v = (let s = codes v in
     list_ex (\<lambda>q. found q s) payment_patterns \<or> list_ex (\<lambda>q. word_found q False s) payment_words \<or>
     at_start (in_order [Txt ''PAYMENT'', Optional (One (\<lambda>n. n \<in> {45, 95, 32})), Txt ''SIGNATURE'']) s)"

definition redactedProjectionRefs :: "string list \<Rightarrow> string list" where
  "redactedProjectionRefs refs = unique_list (filter (\<lambda>x. \<not> looksLikeRawPaymentCredential x) refs)"

definition gatewayCredentialEvidenceRefs :: "string list \<Rightarrow> string list" where
  "gatewayCredentialEvidenceRefs refs = unique_list (filter (\<lambda>x.
     (str_prefix ''credential:'' x \<and> str_contains x ''payment'') \<or>
     (str_prefix ''credential:'' x \<and> str_contains x ''signature'') \<or>
     str_prefix ''gateway_credential_ref:'' x \<or> str_prefix ''credential_resolution_evidence:'' x \<or>
     str_prefix ''digest:sha256:'' x) refs)"

definition signerInvocationEvidenceRefsFor :: "string list \<Rightarrow> string list" where
  "signerInvocationEvidenceRefsFor refs = unique_list (filter (\<lambda>x.
     str_prefix ''evidence:x402-payment-signature:'' x \<or> str_prefix ''evidence:x402-official-payment-signature:'' x \<or>
     str_prefix ''credential:x402-payment-signature:'' x \<or> str_prefix ''credential:x402-local-fixture-signature:'' x) refs)"

definition downstreamEvidenceRefs :: "string list \<Rightarrow> string list" where
  "downstreamEvidenceRefs refs = unique_list (filter (\<lambda>x. str_prefix ''evidence:'' x \<and>
     (str_contains x ''payment-response'' \<or> str_contains x ''signed-retry'')) refs)"

definition hasPaymentCredentialEvidence :: "string list \<Rightarrow> bool" where
  "hasPaymentCredentialEvidence refs = list_ex (\<lambda>x. found (Txt ''payment'') (codes x)) refs"

definition facilitatorEvidenceLabels :: "string list \<Rightarrow> string list" where
  "facilitatorEvidenceLabels refs = (let seen = (\<lambda>t. list_ex (\<lambda>x. str_prefix ''evidence:'' x \<and> str_contains x t) refs) in coded
     [(seen ''facilitator-verify:attempt'', ''facilitator_verify_attempted''),
      (seen ''facilitator-verify:succeeded'', ''facilitator_verify_succeeded''),
      (seen ''facilitator-verify:failed'', ''facilitator_verify_failed''),
      (seen ''facilitator-settle:attempt'', ''facilitator_settle_attempted''),
      (seen ''settlement:succeeded'', ''settlement_succeeded''),
      (seen ''settlement:failed'', ''settlement_failed''),
      (seen ''settlement:unknown'', ''settlement_unknown'')])"

definition projectAuthMdEvidenceRefs :: "string list \<Rightarrow> string list \<Rightarrow> string list \<Rightarrow> string list \<Rightarrow> auth_md_evidence_refs" where
  "projectAuthMdEvidenceRefs refs credentials resolutions operations =
    (let starting = (\<lambda>p. unique_list (filter (str_prefix p) refs));
         calls = starting ''evidence:auth-md-protected-api-call'' in
     \<lparr>ame_discoveryRefs = starting ''evidence:auth-md-discovery:'',
      ame_authorizationServerRefs = starting ''evidence:auth-md-authorization-server:'',
      ame_identityAssertionRefs = starting ''evidence:auth-md-identity-assertion:'',
      ame_registrationRefs = starting ''evidence:auth-md-registration:'',
      ame_claimRefs = starting ''evidence:auth-md-claim:'',
      ame_revocationRefs = starting ''evidence:auth-md-revocation:'',
      ame_credentialCustodyRefs = unique_list (filter (str_prefix ''gateway_credential_ref:'') credentials),
      ame_credentialResolutionRefs = unique_list resolutions,
      ame_protectedApiCallRefs = calls,
      ame_downstreamEvidenceRefs = unique_list (calls @ filter (str_prefix ''evidence:auth-md-downstream'') operations)\<rparr>)"


section \<open>What is known of a contract\<close>

record envelope_input =
  ei_contract :: action_contract
  ei_policyDecision :: policy_decision
  ei_greenlight :: "greenlight option"
  ei_gateAttempt :: "gateway_check_attempt option"
  ei_mutationAttempt :: "mutation_attempt option"
  ei_receipt :: "receipt option"
  ei_proofGaps :: "proof_gap list"
  ei_refusals :: "refusal list"
  ei_reconciliations :: "surface_operation_reconciliation list"
  ei_credentialResolutionEvidence :: "credential_resolution_evidence list"
  ei_ledger :: "idempotency_ledger_entry option"
  ei_recoveryRefs :: "string list"
  ei_isolationRefs :: "string list"
  ei_authorityCertificates :: "authority_certificate list"
  ei_receiptExportRef :: "string option"

definition scopedRefusals :: "refusal list \<Rightarrow> action_contract \<Rightarrow> refusal list" where
  "scopedRefusals rs c = filter (\<lambda>r. rf_actionContractId r = Some (ac_actionContractId c)) rs"

definition scopedReconciliations ::
  "surface_operation_reconciliation list \<Rightarrow> action_contract \<Rightarrow> surface_operation_reconciliation list" where
  "scopedReconciliations rs c = filter (\<lambda>r. sr_actionContractId r = ac_actionContractId c) rs"

definition scopedCredentialResolutionEvidence ::
  "credential_resolution_evidence list \<Rightarrow> action_contract \<Rightarrow> credential_resolution_evidence list" where
  "scopedCredentialResolutionEvidence rs c = filter (\<lambda>r. cre_actionContractId r = ac_actionContractId c) rs"

text \<open>A stored time is a valid one; its reading is the time in milliseconds.\<close>

definition time_ms :: "string \<Rightarrow> int" where
  "time_ms s = (case date_parse s of Some n \<Rightarrow> n | None \<Rightarrow> 0)"

definition first_opt :: "'a list \<Rightarrow> 'a option" where
  "first_opt xs = (case xs of [] \<Rightarrow> None | x # _ \<Rightarrow> Some x)"

definition latestReconciliationFor :: "surface_operation_reconciliation list \<Rightarrow> surface_operation_reconciliation option" where
  "latestReconciliationFor rs = first_opt (sort_key (\<lambda>r. - time_ms (sr_observedAt r)) rs)"

definition idempotencyRecoveryDisposition :: "idempotency_ledger_entry option \<Rightarrow> string \<Rightarrow> idempotency_recovery_disposition" where
  "idempotencyRecoveryDisposition ledger digest = (case ledger of
       None \<Rightarrow> IRD_missing
     | Some e \<Rightarrow>
         if il_paramsDigest e \<noteq> digest then IRD_different_params_refused
         else if il_ledgerState e = ILS_terminal_unknown then IRD_terminal_unknown_requires_recovery
         else if il_ledgerState e \<in> {ILS_terminal_succeeded, ILS_terminal_failed, ILS_terminal_refused}
           then IRD_same_params_result_available
         else IRD_same_params_duplicate_refused)"

fun idempotencyRecoveryReasonCodes :: "idempotency_recovery_disposition \<Rightarrow> string list" where
  "idempotencyRecoveryReasonCodes IRD_missing = [''idempotency_recovery_missing'']"
| "idempotencyRecoveryReasonCodes IRD_different_params_refused = [''idempotency_key_params_mismatch'']"
| "idempotencyRecoveryReasonCodes IRD_terminal_unknown_requires_recovery = [''idempotency_terminal_unknown_recovery_required'']"
| "idempotencyRecoveryReasonCodes IRD_same_params_result_available = [''idempotency_result_reusable'']"
| "idempotencyRecoveryReasonCodes IRD_same_params_duplicate_refused = [''idempotency_duplicate_authority'']"

definition idempotencyPriorResultRefs :: "idempotency_ledger_entry option \<Rightarrow> string list" where
  "idempotencyPriorResultRefs ledger = (case ledger of None \<Rightarrow> [] | Some e \<Rightarrow>
     (let ref = (\<lambda>t x. if truthy_ref x then [protocolObjectRef t (ref_or x [])] else []) in
     [protocolObjectRef ''action_contract'' (il_actionContractId e), protocolObjectRef ''policy_decision'' (il_policyDecisionId e)] @
     ref ''greenlight'' (il_greenlightId e) @ ref ''gateway_check_attempt'' (il_gateAttemptId e) @
     ref ''mutation_attempt'' (il_mutationAttemptId e) @ ref ''receipt'' (il_receiptId e) @ il_evidenceRefs e))"

definition agentTransactionGatewayAdmissionStatus ::
  "gateway_check_attempt option \<Rightarrow> receipt option \<Rightarrow> gateway_admission_status" where
  "agentTransactionGatewayAdmissionStatus gate receipt = (case receipt of
       Some r \<Rightarrow> deriveGatewayAdmissionStatus (rc_gatewayCheckStatus r) (rc_greenlightConsumptionStatus r)
     | None \<Rightarrow> (case gate of
           None \<Rightarrow> GAS_not_requested
         | Some g \<Rightarrow> (case gca_gateDecision g of
               GD_passed \<Rightarrow> GAS_admitted | GD_refused \<Rightarrow> GAS_refused | GD_proof_gap \<Rightarrow> GAS_proof_gap)))"

definition agentTransactionDownstreamOutcomeStatus ::
  "mutation_attempt option \<Rightarrow> receipt option \<Rightarrow> downstream_outcome_status" where
  "agentTransactionDownstreamOutcomeStatus mutation receipt = (case receipt of
       Some r \<Rightarrow> deriveDownstreamOutcomeStatus (rc_downstreamExecutionStatus r)
     | None \<Rightarrow> (case mutation of
           None \<Rightarrow> DOS_not_started
         | Some m \<Rightarrow> (case ma_outcome m of
               MO_submitted \<Rightarrow> DOS_pending | MO_succeeded \<Rightarrow> DOS_succeeded | MO_downstream_refused \<Rightarrow> DOS_refused
             | MO_failed \<Rightarrow> DOS_failed | _ \<Rightarrow> DOS_unknown)))"

section \<open>Labels\<close>

definition authMdEvidenceLabels ::
  "auth_md_evidence_refs \<Rightarrow> string \<Rightarrow> string option \<Rightarrow> string option \<Rightarrow> string option \<Rightarrow> string list \<Rightarrow> string list \<Rightarrow>
   gateway_admission_status \<Rightarrow> downstream_outcome_status \<Rightarrow> finality_status option \<Rightarrow> string list" where
  "authMdEvidenceLabels refs policy greenlight gate mutation refusals gaps admission outcome finality = unique_list (coded
     [(ame_discoveryRefs refs \<noteq> [], ''auth_md_discovery''),
      (ame_authorizationServerRefs refs \<noteq> [], ''auth_md_authorization_server_metadata''),
      (ame_identityAssertionRefs refs \<noteq> [], ''auth_md_identity_assertion''),
      (ame_registrationRefs refs \<noteq> [], ''auth_md_registration''), (ame_claimRefs refs \<noteq> [], ''auth_md_claim''),
      (ame_revocationRefs refs \<noteq> [], ''auth_md_revocation''),
      (ame_credentialCustodyRefs refs \<noteq> [], ''gateway_credential_custody''),
      (policy \<noteq> [], ''handshake_policy_decision''), (truthy_ref greenlight, ''handshake_one_use_greenlight''),
      (truthy_ref gate, ''handshake_gateway_check''),
      (ame_credentialResolutionRefs refs \<noteq> [], ''gateway_credential_resolution''),
      (truthy_ref mutation, ''handshake_mutation_attempt''),
      (ame_protectedApiCallRefs refs \<noteq> [], ''auth_md_protected_api_call_evidence''),
      (refusals \<noteq> [] \<or> admission = GAS_refused, ''handshake_refusal''),
      (gaps \<noteq> [] \<or> admission = GAS_proof_gap, ''handshake_proof_gap''),
      (finality = Some FS_unknown \<or> outcome = DOS_unknown, ''downstream_uncertainty''),
      (\<not> (finality = Some FS_unknown \<or> outcome = DOS_unknown) \<and> outcome \<noteq> DOS_not_started,
        ''downstream_'' @ downstream_outcome_status_str outcome)])"

definition surfaceOperationEvidenceLabels ::
  "gateway_check_attempt option \<Rightarrow> surface_operation_reconciliation option \<Rightarrow> mutation_attempt option \<Rightarrow> string list \<Rightarrow>
   string list \<Rightarrow> string list \<Rightarrow> string list \<Rightarrow> string list \<Rightarrow> string list" where
  "surfaceOperationEvidenceLabels gate latest mutation operations credentials resolutions signers downstream = unique_list (coded
     [(gate \<noteq> None, ''local_gateway_check''), (resolutions \<noteq> [], ''gateway_credential_resolution''),
      (signers \<noteq> [], ''gateway_signer_invocation''),
      (credentials \<noteq> [], if hasPaymentCredentialEvidence operations then ''payment_payload_created'' else ''gateway_credential_evidence''),
      (mutation \<noteq> None \<and> latest \<noteq> None, ''downstream_reconciliation_recorded''),
      (downstream \<noteq> [], ''payment_response_received''),
      (downstream = [] \<and> map_option sr_observedDownstreamStatus latest = Some DS_unknown, ''payment_response_missing''),
      (list_ex (\<lambda>x. str_contains x ''signed-retry'') operations, ''signed_retry_recorded''),
      (list_ex (\<lambda>x. str_contains x ''x402-local-sandbox-signed-retry'') operations, ''local_reference_downstream_fixture'')] @
     facilitatorEvidenceLabels operations)"

section \<open>The envelope of an agent transaction\<close>

text \<open>The lists that the envelope is built of, in the order the code computes them.\<close>

record envelope_lists =
  el_refusals :: "refusal list"
  el_latest :: "surface_operation_reconciliation option"
  el_operations :: "string list"
  el_resolutions :: "string list"
  el_signers :: "string list"
  el_credentials :: "string list"
  el_downstream :: "string list"
  el_evidence :: "string list"

definition envelope_lists_of :: "envelope_input \<Rightarrow> envelope_lists" where
  "envelope_lists_of i =
    (let c = ei_contract i; refusals = scopedRefusals (ei_refusals i) c;
         reconciliations = scopedReconciliations (ei_reconciliations i) c;
         operations = redactedProjectionRefs (concat (map sr_evidenceRefs reconciliations));
         resolution = scopedCredentialResolutionEvidence (ei_credentialResolutionEvidence i) c;
         resolutions = unique_list (map (protocolObjectRef ''credential_resolution_evidence'' \<circ> cre_credentialResolutionEvidenceId) resolution);
         authorities = redactedProjectionRefs
           (map (protocolObjectRef ''delegated_authority_ref'' \<circ> dab_delegatedAuthorityRefId) (ac_delegatedAuthorityRefs c)) in
     \<lparr>el_refusals = refusals, el_latest = latestReconciliationFor reconciliations, el_operations = operations,
      el_resolutions = resolutions, el_signers = signerInvocationEvidenceRefsFor operations,
      el_credentials = gatewayCredentialEvidenceRefs (operations @
        map (protocolObjectRef ''gateway_credential_ref'' \<circ> gcb_gatewayCredentialRefId) (ac_gatewayCredentialRefs c) @ resolutions),
      el_downstream = downstreamEvidenceRefs operations,
      el_evidence = unique_list (redactedProjectionRefs (ac_evidenceRefs c) @ authorities @
        redactedProjectionRefs (case ei_receipt i of None \<Rightarrow> [] | Some r \<Rightarrow> rc_evidenceRefs r) @
        redactedProjectionRefs (concat (map pg_affectedObjectRefs (ei_proofGaps i))) @
        redactedProjectionRefs (concat (map rf_evidenceRefs refusals)) @
        redactedProjectionRefs (case ei_ledger i of None \<Rightarrow> [] | Some e \<Rightarrow> il_evidenceRefs e) @
        operations @ resolutions @ redactedProjectionRefs (concat (map cre_evidenceRefs resolution)))\<rparr>)"

definition ei_greenlightRef :: "envelope_input \<Rightarrow> string option" where
  "ei_greenlightRef i = or_else (map_option gl_greenlightId (ei_greenlight i)) (Option.bind (ei_receipt i) rc_greenlightId)"

definition ei_gateAttemptRef :: "envelope_input \<Rightarrow> string option" where
  "ei_gateAttemptRef i = or_else (map_option gca_gateAttemptId (ei_gateAttempt i)) (Option.bind (ei_receipt i) rc_gateAttemptId)"

definition ei_mutationAttemptRef :: "envelope_input \<Rightarrow> string option" where
  "ei_mutationAttemptRef i =
     or_else (map_option ma_mutationAttemptId (ei_mutationAttempt i)) (Option.bind (ei_receipt i) rc_mutationAttemptId)"

definition ei_proofGapRefs :: "envelope_input \<Rightarrow> string list" where
  "ei_proofGapRefs i = (case ei_receipt i of None \<Rightarrow> [] | Some r \<Rightarrow> rc_proofGapIds r) @ map pg_proofGapId (ei_proofGaps i)"

definition ei_certificateRefs :: "envelope_input \<Rightarrow> string list" where
  "ei_certificateRefs i = unique_list (map cert_authorityCertificateId
     (filter (\<lambda>k. ctm_actionContractId (cert_terminal k) = ac_actionContractId (ei_contract i)) (ei_authorityCertificates i)))"

definition ei_disposition :: "envelope_input \<Rightarrow> idempotency_recovery_disposition option" where
  "ei_disposition i = map_option (\<lambda>e. idempotencyRecoveryDisposition (Some e) (ac_paramsDigest (ei_contract i))) (ei_ledger i)"

definition envelope_of :: "envelope_input \<Rightarrow> string \<Rightarrow> transaction_envelope" where
  "envelope_of i digest =
    (let c = ei_contract i; k = envelope_lists_of i; latest = el_latest k;
         from = (\<lambda>f. Option.bind latest f); receipt = (\<lambda>f. Option.bind (ei_receipt i) f);
         auth = projectAuthMdEvidenceRefs (el_evidence k) (el_credentials k) (el_resolutions k) (el_operations k);
         admission = agentTransactionGatewayAdmissionStatus (ei_gateAttempt i) (ei_receipt i);
         outcome = agentTransactionDownstreamOutcomeStatus (ei_mutationAttempt i) (ei_receipt i);
         finality = map_option sr_finalityStatus latest in
     \<lparr>ate_actionContractRef = ac_actionContractId c, ate_contractDigest = ac_actionContractDigest c,
      ate_policyDecisionRef = pd_policyDecisionId (ei_policyDecision i), ate_policyDecisionStatus = pd_decision (ei_policyDecision i),
      ate_greenlightRef = ei_greenlightRef i, ate_gateAttemptRef = ei_gateAttemptRef i,
      ate_mutationAttemptRef = ei_mutationAttemptRef i, ate_receiptRef = map_option rc_receiptId (ei_receipt i),
      ate_principalRef = ac_principalId c, ate_agentRef = ac_agentId c,
      ate_participantIdentityBindings = ac_participantIdentityBindings c, ate_runId = ac_runId c,
      ate_runtimeAdapterRef = ac_runtimeAdapterId c, ate_actionClass = ac_actionClass c,
      ate_protectedSurfaceKind = ac_protectedSurfaceKind c, ate_resourceRef = ac_resourceRef c, ate_gatewayId = ac_gatewayId c,
      ate_gatewayPolicyVersion = ac_gatewayPolicyVersion c, ate_idempotencyKey = ac_idempotencyKey c,
      ate_paramsDigest = ac_paramsDigest c, ate_nonSecretParamsSummary = ac_nonSecretParamsSummary c,
      ate_clearingEvidenceRefs = ac_clearingEvidenceRefs c,
      ate_surfaceOperationRef = or_else (from sr_surfaceOperationRef) (Option.bind (ei_mutationAttempt i) ma_surfaceOperationRef),
      ate_surfaceOperationReconciliationRef = map_option sr_reconciliationId latest,
      ate_surfaceOperationEvidenceLabels = surfaceOperationEvidenceLabels (ei_gateAttempt i) latest (ei_mutationAttempt i)
        (el_operations k) (el_credentials k) (el_resolutions k) (el_signers k) (el_downstream k),
      ate_surfaceOperationEvidenceRefs = el_operations k, ate_gatewayCredentialEvidenceRefs = el_credentials k,
      ate_delegatedAuthorityEvidenceRefs = [], ate_credentialResolutionEvidenceRefs = el_resolutions k,
      ate_signerInvocationEvidenceRefs = el_signers k, ate_downstreamEvidenceRefs = el_downstream k,
      ate_authMdEvidenceRefs = auth,
      ate_authMdEvidenceLabels = authMdEvidenceLabels auth (pd_policyDecisionId (ei_policyDecision i)) (ei_greenlightRef i)
        (ei_gateAttemptRef i) (ei_mutationAttemptRef i) (map rf_refusalId (el_refusals k)) (ei_proofGapRefs i)
        admission outcome finality,
      ate_providerRequestRef = from sr_providerRequestRef, ate_providerOperationRef = from sr_providerOperationRef,
      ate_downstreamRetryability = map_option sr_downstreamRetryability latest, ate_reconciliationFinalityStatus = finality,
      ate_gatewayAdmissionStatus = admission,
      ate_greenlightConsumptionStatus = map_option rc_greenlightConsumptionStatus (ei_receipt i),
      ate_downstreamOutcomeStatus = outcome, ate_proofGapRefs = unique_list (ei_proofGapRefs i),
      ate_proofGapReasonCodes = unique_list (map pg_reasonCode (ei_proofGaps i)),
      ate_refusalRefs = unique_list (map rf_refusalId (el_refusals k)),
      ate_refusalReasonCodes = unique_list (map rf_reasonCode (el_refusals k)),
      ate_idempotencyLedgerRef = map_option il_idempotencyLedgerEntryId (ei_ledger i),
      ate_idempotencyLedgerState = map_option il_ledgerState (ei_ledger i),
      ate_idempotencyRecoveryDisposition = ei_disposition i,
      ate_idempotencyReasonCodes = (case ei_disposition i of None \<Rightarrow> [] | Some d \<Rightarrow> idempotencyRecoveryReasonCodes d),
      ate_recoveryRefs = ei_recoveryRefs i, ate_isolationRefs = ei_isolationRefs i,
      ate_authorityCertificateRefs = ei_certificateRefs i, ate_evidenceRefs = el_evidence k,
      ate_streamOffsets = (case ei_receipt i of None \<Rightarrow> [] | Some r \<Rightarrow> rc_streamOffsets r),
      ate_receiptDigest = receipt rc_receiptDigest, ate_auditChainDigest = receipt rc_auditChainDigest,
      ate_receiptExportRef = ei_receiptExportRef i, ate_redactionProfileRef = ''agent-transaction-envelope:v0.2-redacted'',
      ate_omittedFields = [''actionContract.parameters'', ''actionContract.secretRefs'', ''receipt.evidenceRefs.raw''],
      ate_envelopeDigest = digest\<rparr>)"

text \<open>\<open>{...envelope, envelopeDigest: null}\<close>.\<close>

definition undigested :: "jval \<Rightarrow> jval" where
  "undigested v = (case v of
       JObj fs \<Rightarrow> JObj (map (\<lambda>(k, x). (k, if k = ''envelopeDigest'' then JNull else x)) fs) | _ \<Rightarrow> v)"

definition envelope_digest :: "'e env_scheme \<Rightarrow> transaction_envelope \<Rightarrow> string" where
  "envelope_digest E v = digestCanonical E (undigested (transaction_envelope_json v))"

definition placeholder_digest :: string where
  "placeholder_digest = ''sha256:'' @ replicate 64 (CHR ''0'')"

definition projectAgentTransactionEnvelope :: "'e env_scheme \<Rightarrow> envelope_input \<Rightarrow> hs_error + transaction_envelope" where
  "projectAgentTransactionEnvelope E i = (case parse_as (transaction_envelope_valid E) (envelope_of i placeholder_digest) of
       Inl e \<Rightarrow> Inl e
     | Inr v \<Rightarrow> parse_as (transaction_envelope_valid E) (v\<lparr>ate_envelopeDigest := envelope_digest E v\<rparr>))"

section \<open>Contract evidence\<close>

definition contract_evidence_of :: "action_contract \<Rightarrow> contract_evidence_projection" where
  "contract_evidence_of c =
     \<lparr>cep_actionContractRef = ac_actionContractId c, cep_contractDigest = ac_actionContractDigest c,
      cep_intentCompilationRef = ac_intentCompilationId c, cep_candidateActionRef = ac_candidateActionId c,
      cep_candidateDigest = ac_candidateDigest c, cep_envelopeRef = ac_envelopeId c, cep_principalRef = ac_principalId c,
      cep_agentRef = ac_agentId c, cep_participantIdentityBindings = ac_participantIdentityBindings c, cep_runId = ac_runId c,
      cep_runtimeAdapterRef = ac_runtimeAdapterId c, cep_actionClass = ac_actionClass c,
      cep_protectedSurfaceKind = ac_protectedSurfaceKind c, cep_resourceRef = ac_resourceRef c, cep_gatewayId = ac_gatewayId c,
      cep_gatewayPolicyVersion = ac_gatewayPolicyVersion c, cep_requiredProtectedPathState = ac_requiredProtectedPathState c,
      cep_idempotencyKey = ac_idempotencyKey c, cep_paramsDigest = ac_paramsDigest c,
      cep_nonSecretParamsSummary = ac_nonSecretParamsSummary c, cep_gatewayCredentialRefs = ac_gatewayCredentialRefs c,
      cep_delegatedAuthorityRefs = ac_delegatedAuthorityRefs c, cep_evidenceRefs = ac_evidenceRefs c,
      cep_clearingEvidenceRefs = ac_clearingEvidenceRefs c, cep_signaturePosture = ac_signaturePosture c,
      cep_keyIdentityRef = ac_keyIdentityRef c, cep_verificationPolicyRef = ac_verificationPolicyRef c,
      cep_generatedExecutionGraphRef = ac_generatedExecutionGraphId c,
      cep_generatedExecutionNodeRef = ac_generatedExecutionNodeId c,
      cep_redactionProfileRef = ''contract-view:v0.2-redacted'',
      cep_omittedFields = [''parameters'', ''secretRefs'', ''contractSignature'']\<rparr>"

definition projectContractEvidence :: "'e env_scheme \<Rightarrow> action_contract \<Rightarrow> hs_error + contract_evidence_projection" where
  "projectContractEvidence E c = parse_as (contract_evidence_projection_valid E) (contract_evidence_of c)"

section \<open>Idempotency recovery\<close>

definition idempotency_recovery_of ::
  "'e env_scheme \<Rightarrow> action_contract \<Rightarrow> idempotency_ledger_entry option \<Rightarrow> idempotency_recovery_projection" where
  "idempotency_recovery_of E c ledger =
    (let d = idempotencyRecoveryDisposition ledger (ac_paramsDigest c) in
     \<lparr>irp_actionContractRef = ac_actionContractId c, irp_ledgerKeyDigest = idempotencyLedgerKeyDigest E (idempotencyLedgerKey c),
      irp_idempotencyKey = ac_idempotencyKey c, irp_paramsDigest = ac_paramsDigest c,
      irp_currentLedgerRef = map_option il_idempotencyLedgerEntryId ledger, irp_currentLedgerState = map_option il_ledgerState ledger,
      irp_paramsDigestMatch = map_option (\<lambda>e. il_paramsDigest e = ac_paramsDigest c) ledger,
      irp_priorActionContractRef = map_option il_actionContractId ledger, irp_policyDecisionRef = map_option il_policyDecisionId ledger,
      irp_greenlightRef = Option.bind ledger il_greenlightId, irp_gateAttemptRef = Option.bind ledger il_gateAttemptId,
      irp_mutationAttemptRef = Option.bind ledger il_mutationAttemptId, irp_receiptRef = Option.bind ledger il_receiptId,
      irp_priorResultRefs = idempotencyPriorResultRefs ledger, irp_recoveryDisposition = d,
      irp_reasonCodes = idempotencyRecoveryReasonCodes d,
      irp_evidenceRefs = (case ledger of None \<Rightarrow> [] | Some e \<Rightarrow> il_evidenceRefs e),
      irp_redactionProfileRef = ''idempotency-recovery:v0.2-redacted'',
      irp_omittedFields = [''ledger.evidenceRefs.raw'', ''actionContract.parameters'', ''actionContract.secretRefs'']\<rparr>)"

definition projectIdempotencyRecovery ::
  "'e env_scheme \<Rightarrow> action_contract \<Rightarrow> idempotency_ledger_entry option \<Rightarrow> hs_error + idempotency_recovery_projection" where
  "projectIdempotencyRecovery E c ledger =
     parse_as (idempotency_recovery_projection_valid E) (idempotency_recovery_of E c ledger)"

section \<open>The timeline of a receipt\<close>

definition timeline_event_of :: "stream_event \<Rightarrow> timeline_event" where
  "timeline_event_of e = \<lparr>rte_streamId = ev_streamId e, rte_streamScope = ev_streamScope e, rte_partitionKey = ev_partitionKey e,
     rte_offset = ev_offset e, rte_eventType = ev_eventType e, rte_eventTime = ev_eventTime e,
     rte_eventDigest = ev_eventDigest e, rte_objectRefs = ev_objectRefs e\<rparr>"

definition timeline_failure_of :: "surface_operation_reconciliation \<Rightarrow> timeline_failure" where
  "timeline_failure_of r = \<lparr>rtf_downstreamRetryability = sr_downstreamRetryability r, rtf_providerRequestRef = sr_providerRequestRef r,
     rtf_providerOperationRef = sr_providerOperationRef r, rtf_redactedDiagnosticsDigest = sr_redactedDiagnosticsDigest r,
     rtf_traceRef = sr_traceRef r, rtf_spanRef = sr_spanRef r,
     rtf_diagnosticsRedactionPosture = sr_diagnosticsRedactionPosture r\<rparr>"

definition receipt_timeline_of ::
  "receipt \<Rightarrow> stream_event list \<Rightarrow> int \<Rightarrow> surface_operation_reconciliation list \<Rightarrow> receipt_timeline" where
  "receipt_timeline_of r es missing reconciliations =
     \<lparr>rtl_receiptRef = rc_receiptId r, rtl_actionContractRef = rc_actionContractId r, rtl_policyDecisionRef = rc_policyDecisionId r,
      rtl_greenlightRef = rc_greenlightId r, rtl_gateAttemptRef = rc_gateAttemptId r, rtl_mutationAttemptRef = rc_mutationAttemptId r,
      rtl_gatewayId = rc_gatewayId r, rtl_policyDecisionStatus = rc_policyDecisionStatus r,
      rtl_gatewayCheckStatus = rc_gatewayCheckStatus r,
      rtl_gatewayAdmissionStatus = deriveGatewayAdmissionStatus (rc_gatewayCheckStatus r) (rc_greenlightConsumptionStatus r),
      rtl_greenlightConsumptionStatus = rc_greenlightConsumptionStatus r, rtl_mutationAttemptStatus = rc_mutationAttemptStatus r,
      rtl_downstreamExecutionStatus = rc_downstreamExecutionStatus r,
      rtl_downstreamOutcomeStatus = deriveDownstreamOutcomeStatus (rc_downstreamExecutionStatus r),
      rtl_proofGapRefs = rc_proofGapIds r, rtl_finalityStatus = rc_finalityStatus r, rtl_receiptDigest = rc_receiptDigest r,
      rtl_auditChainDigest = rc_auditChainDigest r, rtl_streamOffsets = rc_streamOffsets r, rtl_events = map timeline_event_of es,
      rtl_missingEventCount = missing,
      rtl_failureEvidence = map_option timeline_failure_of (latestReconciliationFor
        (filter (\<lambda>x. Some (sr_mutationAttemptId x) = rc_mutationAttemptId r) reconciliations)),
      rtl_redactionProfileRef = ''receipt-timeline:v0.2-redacted'',
      rtl_omittedFields = [''event.payload'', ''event.createdAt'', ''receipt.evidenceRefs'']\<rparr>"

definition projectReceiptTimeline ::
  "'e env_scheme \<Rightarrow> receipt \<Rightarrow> stream_event list \<Rightarrow> int \<Rightarrow> surface_operation_reconciliation list \<Rightarrow> hs_error + receipt_timeline" where
  "projectReceiptTimeline E r es missing reconciliations =
     parse_as (receipt_timeline_valid E) (receipt_timeline_of r es missing reconciliations)"

section \<open>The health of a protected path's installation\<close>

text \<open>The evaluation of the posture is absent when no gateway is known.\<close>

definition install_evaluation ::
  "action_contract \<Rightarrow> gateway_registry_entry option \<Rightarrow> protected_path_posture option \<Rightarrow> string \<Rightarrow> failure option option" where
  "install_evaluation c gateway posture now = map_option (\<lambda>g. evaluateRequiredProtectedPathPosture c
     (gr_credentialCustodyStatus g) (gr_enforcementMode g) posture now) gateway"

definition installHealthStatus ::
  "action_contract \<Rightarrow> failure option option \<Rightarrow> protected_path_posture option \<Rightarrow> string \<Rightarrow> install_health_status" where
  "installHealthStatus c evaluation posture now =
    (if ac_requiredProtectedPathState c = RPP_not_required then IHS_not_required
     else case evaluation of
       None \<Rightarrow> IHS_unknown
     | Some None \<Rightarrow> IHS_satisfies_gateway_checked
     | Some (Some f) \<Rightarrow> (case posture of
           None \<Rightarrow> IHS_missing
         | Some p \<Rightarrow> if date_le (pp_expiresAt p) now then IHS_stale else IHS_unsafe))"

definition install_health_of ::
  "action_contract \<Rightarrow> gateway_registry_entry option \<Rightarrow> protected_path_posture option \<Rightarrow> string \<Rightarrow> install_health" where
  "install_health_of c gateway posture now = (let e = install_evaluation c gateway posture now in
     \<lparr>ihp_actionContractRef = ac_actionContractId c, ihp_postureScopeKey = postureScopeKeyForContract c,
      ihp_runtimeAdapterRef = ac_runtimeAdapterId c, ihp_gatewayId = ac_gatewayId c, ihp_actionClass = ac_actionClass c,
      ihp_protectedSurfaceKind = ac_protectedSurfaceKind c, ihp_resourceRef = ac_resourceRef c,
      ihp_requiredProtectedPathState = ac_requiredProtectedPathState c,
      ihp_installHealthStatus = installHealthStatus c e posture now,
      ihp_reasonCodes = (case e of None \<Rightarrow> [''gateway_record_missing''] | Some None \<Rightarrow> [] | Some (Some f) \<Rightarrow> [fst f]),
      ihp_currentPostureRef = map_option pp_protectedPathPostureId posture,
      ihp_currentPostureDigest = map_option pp_postureDigest posture, ihp_postureState = map_option pp_postureState posture,
      ihp_credentialCustodyStatus = map_option pp_credentialCustodyStatus posture,
      ihp_rawSiblingToolStatus = map_option pp_rawSiblingToolStatus posture,
      ihp_sourceAuthority = map_option pp_sourceAuthority posture,
      ihp_bypassProbeCoverage = (case posture of None \<Rightarrow> [] | Some p \<Rightarrow> pp_bypassProbeCoverage p),
      ihp_observedAt = map_option pp_observedAt posture, ihp_expiresAt = map_option pp_expiresAt posture,
      ihp_redactionProfileRef = ''protected-path-install-health:v0.2-redacted'',
      ihp_omittedFields = [''bypassProbe.evidenceRefs'', ''bypassProbe.probeDiagnosticsDigest'']\<rparr>)"

definition projectProtectedPathInstallHealth ::
  "'e env_scheme \<Rightarrow> action_contract \<Rightarrow> gateway_registry_entry option \<Rightarrow> protected_path_posture option \<Rightarrow> string \<Rightarrow>
   hs_error + install_health" where
  "projectProtectedPathInstallHealth E c gateway posture now =
     parse_as (install_health_valid E) (install_health_of c gateway posture now)"

section \<open>Readback of an operation\<close>

definition agreementObligationPolicyFromDecision :: "policy_decision \<Rightarrow> readback_agreement_policy" where
  "agreementObligationPolicyFromDecision d = (let refused = (if pd_decision d = PD_greenlight then None else Some (pd_decisionReasonCode d)) in
     \<lparr>oap_sourceAuthority = ''policy_decision_snapshot'',
      oap_evaluationStatus = (case pd_decision d of
          PD_greenlight \<Rightarrow> RPST_greenlight | PD_proof_gap \<Rightarrow> RPST_proof_gap | _ \<Rightarrow> RPST_refuse),
      oap_ok = (pd_decision d = PD_greenlight), oap_reasonCode = refused, oap_reason = refused,
      oap_policyInput = \<lparr>rpi_posture = AP_not_applicable, rpi_obligationRef = None, rpi_linkedAgreementId = None,
        rpi_acceptedNegotiationResolutionId = None\<rparr>\<rparr>)"

definition operationReadbackStatus :: "transaction_envelope \<Rightarrow> readback_status" where
  "operationReadbackStatus v =
    (if ate_isolationRefs v \<noteq> [] then ORS_isolated
     else if ate_idempotencyRecoveryDisposition v = Some IRD_terminal_unknown_requires_recovery then ORS_recovery_required
     else if ate_gatewayAdmissionStatus v = GAS_replayed then ORS_replay_refused
     else if ate_policyDecisionStatus v = PD_refuse then ORS_policy_refused
     else if ate_policyDecisionStatus v = PD_review_required then ORS_review_required
     else if ate_policyDecisionStatus v = PD_halt then ORS_halted
     else if ate_policyDecisionStatus v = PD_quarantine then ORS_quarantined
     else if ate_policyDecisionStatus v = PD_proof_gap then ORS_policy_proof_gap
     else if ate_gatewayAdmissionStatus v = GAS_refused then ORS_gateway_refused
     else if ate_gatewayAdmissionStatus v = GAS_proof_gap then ORS_gateway_proof_gap
     else if ate_gatewayAdmissionStatus v = GAS_admitted
       then (case ate_downstreamOutcomeStatus v of
           DOS_pending \<Rightarrow> ORS_downstream_pending | DOS_succeeded \<Rightarrow> ORS_downstream_succeeded
         | DOS_refused \<Rightarrow> ORS_downstream_refused | DOS_failed \<Rightarrow> ORS_downstream_failed
         | DOS_unknown \<Rightarrow> ORS_downstream_unknown | DOS_not_started \<Rightarrow> ORS_gateway_admitted)
     else if truthy_ref (ate_greenlightRef v) \<and> \<not> truthy_ref (ate_gateAttemptRef v) then ORS_greenlight_available
     else ORS_policy_refused)"

definition operationReadbackStage :: "transaction_envelope \<Rightarrow> action_contract \<Rightarrow> readback_status \<Rightarrow> readback_stage" where
  "operationReadbackStage v c status =
    (if status = ORS_isolated then OST_isolation
     else if status = ORS_recovery_required then OST_recovery
     else if truthy_ref (ate_receiptRef v) then OST_receipt
     else if truthy_ref (ate_mutationAttemptRef v) then OST_mutation_attempt
     else if truthy_ref (ate_gateAttemptRef v) then OST_gateway_check
     else if truthy_ref (ate_greenlightRef v) then OST_greenlight
     else if ate_policyDecisionRef v \<noteq> [] then OST_policy_decision
     else if ac_candidateActionId c \<noteq> [] then OST_candidate_action
     else if ac_intentCompilationId c \<noteq> [] then OST_intent_compilation
     else OST_action_contract)"

definition operationReadbackNextMechanism :: "readback_status \<Rightarrow> next_mechanism" where
  "operationReadbackNextMechanism s =
    (if s = ORS_greenlight_available then NM_use_greenlight_at_gateway
     else if s = ORS_review_required then NM_request_review
     else if s \<in> {ORS_policy_refused, ORS_gateway_refused} then NM_recraft_request
     else if s = ORS_replay_refused then NM_create_new_contract
     else if s \<in> {ORS_recovery_required, ORS_downstream_unknown} then NM_recover_terminal_unknown
     else if s \<in> {ORS_isolated, ORS_halted, ORS_quarantined} then NM_stop
     else if s = ORS_downstream_pending then NM_wait_for_downstream
     else NM_read_evidence)"

definition operationReadbackGreenlightUsePosture :: "transaction_envelope \<Rightarrow> greenlight_use_posture" where
  "operationReadbackGreenlightUsePosture v =
    (if \<not> truthy_ref (ate_greenlightRef v) then GUP_none
     else if \<not> truthy_ref (ate_gateAttemptRef v) \<and> \<not> truthy_ref (ate_receiptRef v) then GUP_available_for_one_gateway_check
     else if ate_greenlightConsumptionStatus v = Some CONS_consumed then GUP_consumed
     else if ate_greenlightConsumptionStatus v = Some CONS_replayed \<or> ate_gatewayAdmissionStatus v = GAS_replayed
       then GUP_replayed_or_unusable
     else if ate_greenlightConsumptionStatus v = Some CONS_not_consumed then GUP_available_for_one_gateway_check
     else GUP_unknown)"

definition operationReadbackRequiresNewContract :: "readback_status \<Rightarrow> bool" where
  "operationReadbackRequiresNewContract s \<longleftrightarrow> s \<in> {ORS_policy_refused, ORS_gateway_refused, ORS_replay_refused,
     ORS_recovery_required, ORS_halted, ORS_quarantined, ORS_isolated}"

definition operationReadbackSupportSeverity :: "readback_status \<Rightarrow> support_severity" where
  "operationReadbackSupportSeverity s =
    (if s \<in> {ORS_halted, ORS_quarantined, ORS_isolated, ORS_recovery_required, ORS_downstream_unknown} then SSV_urgent
     else if s \<in> {ORS_policy_refused, ORS_gateway_refused, ORS_gateway_proof_gap, ORS_policy_proof_gap, ORS_replay_refused,
         ORS_downstream_failed, ORS_downstream_refused} then SSV_warning
     else if s = ORS_downstream_succeeded then SSV_none
     else SSV_info)"

definition operationReadbackReasonCodes :: "transaction_envelope \<Rightarrow> string \<Rightarrow> string list" where
  "operationReadbackReasonCodes v code = unique_list
    ((if ate_policyDecisionStatus v = PD_greenlight then [] else [code]) @ ate_proofGapReasonCodes v @
     ate_refusalReasonCodes v @ ate_idempotencyReasonCodes v)"

definition support_context_of :: "transaction_envelope \<Rightarrow> action_contract \<Rightarrow> string list \<Rightarrow> support_context" where
  "support_context_of v c reasons = (let status = operationReadbackStatus v in
     \<lparr>osc_schemaVersion = ''handshake.support-context.v0.1'',
      osc_supportContextRef = ''support_context:'' @ ac_actionContractId c, osc_sourceAuthority = ''protocol_store_projection'',
      osc_surface = ''operation_readback'', osc_actionContractRef = ac_actionContractId c, osc_requestIdentity = None,
      osc_operationStatus = status, osc_reasonCodes = reasons, osc_nextMechanism = operationReadbackNextMechanism status,
      osc_safeToRetryReadback = True,
      osc_safeToReuseGreenlight = (operationReadbackGreenlightUsePosture v = GUP_available_for_one_gateway_check),
      osc_requiresNewContract = operationReadbackRequiresNewContract status,
      osc_supportSeverity = operationReadbackSupportSeverity status, osc_docsUrl = None,
      osc_nextCommand = Some (''handshake evidence fetch --contract-id '' @ ac_actionContractId c),
      osc_evidenceRefs = ate_evidenceRefs v, osc_proofGapRefs = ate_proofGapRefs v, osc_refusalRefs = ate_refusalRefs v,
      osc_traceRef = ate_providerRequestRef v, osc_spanRef = ate_providerOperationRef v,
      osc_redactionProfileRef = ''operation-readback:v0.1-redacted''\<rparr>)"

definition operation_readback_of :: "envelope_input \<Rightarrow> transaction_envelope \<Rightarrow> operation_readback" where
  "operation_readback_of i v =
    (let c = ei_contract i; status = operationReadbackStatus v;
         reasons = operationReadbackReasonCodes v (pd_decisionReasonCode (ei_policyDecision i));
         posture = operationReadbackGreenlightUsePosture v in
     \<lparr>orb_schemaVersion = ''handshake.operation-readback.v0.1'', orb_actionContractRef = ate_actionContractRef v,
      orb_contractDigest = ate_contractDigest v, orb_principalRef = ate_principalRef v, orb_agentRef = ate_agentRef v,
      orb_runId = ate_runId v, orb_runtimeAdapterRef = ate_runtimeAdapterRef v, orb_actionClass = ate_actionClass v,
      orb_protectedSurfaceKind = ate_protectedSurfaceKind v, orb_resourceRef = ate_resourceRef v, orb_gatewayId = ate_gatewayId v,
      orb_gatewayPolicyVersion = ate_gatewayPolicyVersion v, orb_sourceAuthority = ''protocol_store_projection'',
      orb_operationStatus = status, orb_latestAuthoritativeStage = operationReadbackStage v c status,
      orb_policyDecisionRef = ate_policyDecisionRef v, orb_policyDecisionStatus = ate_policyDecisionStatus v,
      orb_agreementObligationPolicy = agreementObligationPolicyFromDecision (ei_policyDecision i),
      orb_greenlightRef = ate_greenlightRef v, orb_gateAttemptRef = ate_gateAttemptRef v,
      orb_mutationAttemptRef = ate_mutationAttemptRef v, orb_receiptRef = ate_receiptRef v,
      orb_gatewayAdmissionStatus = ate_gatewayAdmissionStatus v, orb_downstreamOutcomeStatus = ate_downstreamOutcomeStatus v,
      orb_finalityStatus = or_else (ate_reconciliationFinalityStatus v) (map_option rc_finalityStatus (ei_receipt i)),
      orb_greenlightUsePosture = posture, orb_reasonCodes = reasons, orb_nextMechanism = operationReadbackNextMechanism status,
      orb_safeToRetryReadback = True, orb_safeToReuseGreenlight = (posture = GUP_available_for_one_gateway_check),
      orb_requiresNewContract = operationReadbackRequiresNewContract status, orb_authorityCreatedByReadback = False,
      orb_greenlightCreatedByReadback = False, orb_gatewayCheckPerformedByReadback = False,
      orb_mutationAttemptedByReadback = False, orb_receiptExportCreatedByReadback = False,
      orb_rawInternalRecordIncluded = False, orb_credentialMaterialIncluded = False, orb_paymentMaterialIncluded = False,
      orb_evidenceRefs = ate_evidenceRefs v, orb_proofGapRefs = ate_proofGapRefs v, orb_refusalRefs = ate_refusalRefs v,
      orb_recoveryRefs = ate_recoveryRefs v, orb_isolationRefs = ate_isolationRefs v,
      orb_authorityCertificateRefs = ate_authorityCertificateRefs v, orb_providerRequestRef = ate_providerRequestRef v,
      orb_providerOperationRef = ate_providerOperationRef v, orb_traceRef = ate_providerRequestRef v,
      orb_spanRef = ate_providerOperationRef v, orb_redactionProfileRef = ''operation-readback:v0.1-redacted'',
      orb_omittedFields = [''actionContract.parameters'', ''actionContract.secretRefs'', ''receipt.evidenceRefs.raw'',
        ''rawInternalRecord'', ''credentialMaterial'', ''paymentMaterial''],
      orb_supportContext = support_context_of v c reasons\<rparr>)"

definition projectOperationReadback :: "'e env_scheme \<Rightarrow> envelope_input \<Rightarrow> hs_error + operation_readback" where
  "projectOperationReadback E i = (case projectAgentTransactionEnvelope E i of
       Inl e \<Rightarrow> Inl e | Inr v \<Rightarrow> parse_as (operation_readback_valid E) (operation_readback_of i v))"

definition correlation_index_of :: "envelope_input \<Rightarrow> correlation_index" where
  "correlation_index_of i = (let c = ei_contract i in
     \<lparr>oci_schemaVersion = ''handshake.operation-correlation.v0.1'', oci_actionContractRef = ac_actionContractId c,
      oci_sourceAuthority = ''protocol_store_projection'', oci_authorityCreatedByProjection = False,
      oci_greenlightCreatedByReadback = False, oci_gatewayCheckPerformedByReadback = False,
      oci_mutationAttemptedByReadback = False, oci_intentCompilationRef = Some (ac_intentCompilationId c),
      oci_candidateActionRef = Some (ac_candidateActionId c), oci_policyDecisionRef = pd_policyDecisionId (ei_policyDecision i),
      oci_greenlightRef = ei_greenlightRef i, oci_gateAttemptRef = ei_gateAttemptRef i,
      oci_mutationAttemptRef = ei_mutationAttemptRef i, oci_receiptRef = map_option rc_receiptId (ei_receipt i),
      oci_proofGapRefs = unique_list (ei_proofGapRefs i),
      oci_refusalRefs = unique_list (map rf_refusalId (scopedRefusals (ei_refusals i) c)),
      oci_recoveryRefs = ei_recoveryRefs i, oci_isolationRefs = ei_isolationRefs i,
      oci_authorityCertificateRefs = ei_certificateRefs i, oci_redactionProfileRef = ''operation-correlation:v0.1-redacted'',
      oci_omittedFields = [''rawInternalRecord'', ''credentialMaterial'', ''paymentMaterial'']\<rparr>)"

definition projectOperationCorrelationIndex :: "'e env_scheme \<Rightarrow> envelope_input \<Rightarrow> hs_error + correlation_index" where
  "projectOperationCorrelationIndex E i = parse_as (correlation_index_valid E) (correlation_index_of i)"

end
