(* ===== verification/Assembly.thy ===== *)
theory Assembly
  imports Projections Payloads Isolation Reconcile
begin

text \<open>
  What the store knows of a contract, put together for the envelope of its transaction
  (\<open>evidence-projections/assembly.ts\<close>), and the reader of operation readbacks
  (\<open>store-reader.ts\<close>). The lists that the code loads together are read one after
  another from one store.
\<close>

section \<open>The newest first\<close>

text \<open>By time of creation; of two records of one time, the later one in the list.\<close>

definition latestFirst :: "('a protocol_base_scheme) list \<Rightarrow> ('a protocol_base_scheme) list" where
  "latestFirst xs = sort_key (\<lambda>x. - time_ms (createdAt x)) (rev xs)"

definition about_contract ::
  "(protocol_record \<Rightarrow> 'a option) \<Rightarrow> protocol_object_type \<Rightarrow> action_contract \<Rightarrow> pstore \<Rightarrow> stored_record list" where
  "about_contract as t c s = listRecordsByActionContract t (ac_actionContractId c) (scope_of c) s"

definition newest_about ::
  "(protocol_record \<Rightarrow> ('a protocol_base_scheme) option) \<Rightarrow> protocol_object_type \<Rightarrow> ('a protocol_base_scheme \<Rightarrow> string)
   \<Rightarrow> action_contract \<Rightarrow> pstore \<Rightarrow> ('a protocol_base_scheme) option" where
  "newest_about as t contract_of c s = find (\<lambda>x. contract_of x = ac_actionContractId c)
     (latestFirst (payloads as (about_contract as t c s)))"

text \<open>A record named by the receipt, or else the newest of the contract.\<close>

definition named_or_newest ::
  "(protocol_record \<Rightarrow> ('a protocol_base_scheme) option) \<Rightarrow> protocol_object_type \<Rightarrow> ('a protocol_base_scheme \<Rightarrow> string)
   \<Rightarrow> string option \<Rightarrow> action_contract \<Rightarrow> pstore \<Rightarrow> ('a protocol_base_scheme) option" where
  "named_or_newest as t contract_of ref c s =
    (if truthy_ref ref then find_payload as t (ref_or ref []) s else newest_about as t contract_of c s)"

definition scopedRecords ::
  "(protocol_record \<Rightarrow> 'a option) \<Rightarrow> ('a \<Rightarrow> bool) \<Rightarrow> stored_record list \<Rightarrow> stored_record list" where
  "scopedRecords as P rs = filter (\<lambda>r. case as (st_payload r) of None \<Rightarrow> False | Some x \<Rightarrow> P x) rs"

section \<open>The assembly\<close>

record envelope_assembly =
  ea_input :: envelope_input
  ea_supplementalRecords :: "stored_record list"

definition recovery_refs :: "stored_record list \<Rightarrow> stored_record list \<Rightarrow> string list" where
  "recovery_refs rs ts = unique_list
    (map (protocolObjectRef ''recovery_recommendation'' \<circ> rr_recoveryRecommendationId) (payloads as_recovery_recommendation rs) @
     map (protocolObjectRef ''recovery_recommendation_status_transition'' \<circ> rst_recoveryRecommendationStatusTransitionId)
       (payloads as_recovery_recommendation_status_transition ts))"

definition active_isolation_records :: "action_contract \<Rightarrow> pstore \<Rightarrow> stored_record list" where
  "active_isolation_records c s = List.map_filter (\<lambda>x. getRecord OT_isolation_state x s)
     (unique_list (map is_isolationStateId
       (filter (\<lambda>x. is_clearedAt x = None) (listIsolationStates (isolationScopeRefsForContract c) s))))"

definition current_receipt :: "action_contract \<Rightarrow> pstore \<Rightarrow> receipt option" where
  "current_receipt c s = newest_about as_receipt OT_receipt rc_actionContractId c s"

definition assembled_input ::
  "'e env_scheme \<Rightarrow> action_contract \<Rightarrow> policy_decision \<Rightarrow> pstore \<Rightarrow> envelope_input" where
  "assembled_input E c d s =
    (let receipt = current_receipt c s;
         about = (\<lambda>t. listRecordsByActionContract t (ac_actionContractId c) (scope_of c) s);
         recommendations = scopedRecords as_recovery_recommendation
           (\<lambda>x. rr_sourceActionContractId x = ac_actionContractId c) (about OT_recovery_recommendation);
         transitions = scopedRecords as_recovery_recommendation_status_transition
           (\<lambda>x. rst_sourceActionContractId x = ac_actionContractId c) (about OT_recovery_recommendation_status_transition) in
     \<lparr>ei_contract = c, ei_policyDecision = d,
      ei_greenlight = named_or_newest as_greenlight OT_greenlight gl_actionContractId
        (Option.bind receipt rc_greenlightId) c s,
      ei_gateAttempt = named_or_newest as_gateway_check_attempt OT_gateway_check_attempt gca_actionContractId
        (Option.bind receipt rc_gateAttemptId) c s,
      ei_mutationAttempt = named_or_newest as_mutation_attempt OT_mutation_attempt ma_actionContractId
        (Option.bind receipt rc_mutationAttemptId) c s,
      ei_receipt = receipt,
      ei_proofGaps = filter (\<lambda>g. ac_actionContractId c \<in> set (pg_affectedObjectRefs g)) (payloads as_proof_gap (about OT_proof_gap)),
      ei_refusals = filter (\<lambda>r. rf_actionContractId r = Some (ac_actionContractId c)) (payloads as_refusal (about OT_refusal)),
      ei_reconciliations = filter (\<lambda>r. sr_actionContractId r = ac_actionContractId c)
        (payloads as_surface_operation_reconciliation (about OT_surface_operation_reconciliation)),
      ei_credentialResolutionEvidence = filter (\<lambda>r. cre_actionContractId r = ac_actionContractId c)
        (payloads as_credential_resolution_evidence (about OT_credential_resolution_evidence)),
      ei_ledger = payload_of as_idempotency_ledger_entry
        (getCurrentIdempotencyLedgerEntry (idempotencyLedgerKeyDigest E (idempotencyLedgerKey c)) s),
      ei_recoveryRefs = recovery_refs recommendations transitions,
      ei_isolationRefs = unique_list (map (protocolObjectRef ''isolation_state'' \<circ> is_isolationStateId)
        (payloads as_isolation_state (active_isolation_records c s))),
      ei_authorityCertificates = payloads as_authority_certificate (about OT_authority_certificate),
      ei_receiptExportRef = None\<rparr>)"

definition supplemental_records :: "'e env_scheme \<Rightarrow> action_contract \<Rightarrow> pstore \<Rightarrow> stored_record list" where
  "supplemental_records E c s =
    (let about = (\<lambda>t. listRecordsByActionContract t (ac_actionContractId c) (scope_of c) s); cid = ac_actionContractId c in
     scopedRecords as_credential_resolution_evidence (\<lambda>x. cre_actionContractId x = cid) (about OT_credential_resolution_evidence) @
     opt_list (getCurrentIdempotencyLedgerEntry (idempotencyLedgerKeyDigest E (idempotencyLedgerKey c)) s) @
     scopedRecords as_recovery_recommendation (\<lambda>x. rr_sourceActionContractId x = cid) (about OT_recovery_recommendation) @
     scopedRecords as_recovery_recommendation_status_transition (\<lambda>x. rst_sourceActionContractId x = cid)
       (about OT_recovery_recommendation_status_transition) @
     active_isolation_records c s @
     scopedRecords as_surface_operation_reconciliation (\<lambda>x. sr_actionContractId x = cid)
       (about OT_surface_operation_reconciliation))"

definition deciding_policy :: "action_contract \<Rightarrow> pstore \<Rightarrow> policy_decision option" where
  "deciding_policy c s = (case current_receipt c s of
       Some r \<Rightarrow> find_payload as_policy_decision OT_policy_decision (rc_policyDecisionId r) s
     | None \<Rightarrow> newest_about as_policy_decision OT_policy_decision pd_actionContractId c s)"

definition assembleAgentTransactionEnvelope :: "kernel_env \<Rightarrow> action_contract \<Rightarrow> envelope_assembly wtr" where
  "assembleAgentTransactionEnvelope E c =
     tbind (store_get (deciding_policy c)) (\<lambda>d. case d of
       None \<Rightarrow> tfail (ProtocolError ''policy_decision_missing'' 404
         (no_metadata\<lparr>em_retryability := Some ER_terminal, em_commitState := Some CS_not_applicable\<rparr>))
     | Some p \<Rightarrow>
         tbind (store_get (assembled_input E c p)) (\<lambda>i.
         tbind (store_get (supplemental_records E c)) (\<lambda>rs.
         treturn \<lparr>ea_input = i, ea_supplementalRecords = rs\<rparr>)))"

section \<open>The reader\<close>

definition actionContractFor :: "string \<Rightarrow> action_contract wtr" where
  "actionContractFor oid = tbind (store_get (find_payload as_action_contract OT_action_contract oid)) (\<lambda>c. case c of
       None \<Rightarrow> tfail (ProtocolError ''action_contract_missing'' 404
         (no_metadata\<lparr>em_retryability := Some ER_terminal, em_commitState := Some CS_not_applicable\<rparr>))
     | Some x \<Rightarrow> treturn x)"

definition getOperationReadbackProjection :: "kernel_env \<Rightarrow> string \<Rightarrow> operation_readback wtr" where
  "getOperationReadbackProjection E oid =
     tbind (actionContractFor oid) (\<lambda>c.
     tbind (assembleAgentTransactionEnvelope E c) (\<lambda>a. tlift (projectOperationReadback E (ea_input a))))"

definition getOperationCorrelationIndex :: "kernel_env \<Rightarrow> string \<Rightarrow> correlation_index wtr" where
  "getOperationCorrelationIndex E oid =
     tbind (actionContractFor oid) (\<lambda>c.
     tbind (assembleAgentTransactionEnvelope E c) (\<lambda>a. tlift (projectOperationCorrelationIndex E (ea_input a))))"

end
