(* ===== verification/Certificates.thy ===== *)
theory Certificates
  imports Schemas_Trust Assembly Proposal_Laws
begin

text \<open>
  Authority certificates (\<open>areas/authority-certificate\<close>): the signed statement of how an
  action ended. Issuing one (\<open>transitions.ts\<close>, \<open>signing.ts\<close>) and verifying one against
  pinned keys, away from the store (\<open>verify.ts\<close>). Ed25519 is the platform's: its import
  of keys, its signatures and its test of them are parameters.
\<close>

section \<open>Base64\<close>

definition base64_char :: "nat \<Rightarrow> char" where
  "base64_char n = (if n < 26 then char_of (65 + n) else if n < 52 then char_of (71 + n)
     else if n < 62 then char_of (n - 4) else if n = 62 then CHR ''+'' else CHR ''/'')"

fun btoa :: "nat list \<Rightarrow> string" where
  "btoa (a # b # c # r) = map base64_char [a div 4, a mod 4 * 16 + b div 16, b mod 16 * 4 + c div 64, c mod 64] @ btoa r"
| "btoa [a, b] = map base64_char [a div 4, a mod 4 * 16 + b div 16, b mod 16 * 4] @ ''=''"
| "btoa [a] = map base64_char [a div 4, a mod 4 * 16] @ ''==''"
| "btoa [] = []"

definition bytesToBase64Url :: "8 word list \<Rightarrow> string" where
  "bytesToBase64Url bs = rev (dropWhile (\<lambda>c. c = CHR ''='') (rev (map (\<lambda>c. if c = CHR ''+'' then CHR ''-''
     else if c = CHR ''/'' then CHR ''_'' else c) (btoa (map unat bs)))))"

text \<open>
  \<open>atob\<close>: white space is skipped, a text of whole groups may end with two padding signs,
  what is left must be in the alphabet and leave no single character over.
\<close>

definition base64_code :: "nat \<Rightarrow> bool" where
  "base64_code n \<longleftrightarrow> 65 \<le> n \<and> n \<le> 90 \<or> 97 \<le> n \<and> n \<le> 122 \<or> 48 \<le> n \<and> n \<le> 57 \<or> n = 43 \<or> n = 47"

definition drop_sign :: "nat list \<Rightarrow> nat list" where
  "drop_sign s = (if s \<noteq> [] \<and> last s = 61 then butlast s else s)"

definition atob :: "nat list \<Rightarrow> nat list option" where
  "atob s = (let t = filter (\<lambda>n. n \<notin> {9, 10, 12, 13, 32}) s;
                 body = (if length t mod 4 = 0 then drop_sign (drop_sign t) else t) in
     if length body mod 4 = 1 \<or> \<not> list_all base64_code body then None else Some (base64_bytes body))"

definition base64UrlToArrayBuffer :: "string \<Rightarrow> 8 word list option" where
  "base64UrlToArrayBuffer v = (let n = map (\<lambda>c. if c = 45 then 43 else if c = 95 then 47 else c) (codes v) in
     map_option (map of_nat) (atob (n @ replicate ((4 - length n mod 4) mod 4) 61)))"

section \<open>Signing\<close>

text \<open>
  Ed25519 of the Web Crypto API, on bytes: whether \<open>importKey\<close> takes a private or a public
  key, \<open>sign\<close> with a private key, and \<open>verify\<close> with a public key, a signature and a message.
\<close>

record signature_platform =
  sp_private_ok :: "8 word list \<Rightarrow> bool"
  sp_public_ok :: "8 word list \<Rightarrow> bool"
  sp_sign :: "8 word list \<Rightarrow> 8 word list \<Rightarrow> 8 word list"
  sp_verify :: "8 word list \<Rightarrow> 8 word list \<Rightarrow> 8 word list \<Rightarrow> bool"

text \<open>A signer's secret is its PKCS 8 key for Ed25519 and its HMAC secret otherwise.\<close>

record signer_input =
  sgi_signerRole :: certificate_signer_role
  sgi_keyIdentityRef :: string
  sgi_algorithm :: certificate_signature_algorithm
  sgi_secret :: string

definition signer_input_valid :: "signer_input \<Rightarrow> bool" where
  "signer_input_valid i \<longleftrightarrow> 1 \<le> length (sgi_keyIdentityRef i) \<and> 1 \<le> length (sgi_secret i)"

definition buildAuthorityCertificateSigningInput :: "'a authority_certificate_scheme \<Rightarrow> jval" where
  "buildAuthorityCertificateSigningInput c = JObj
     [(''schemaVersion'', JStr (schemaVersion c)), (''tenantId'', JStr (tenantId c)),
      (''organizationId'', JStr (organizationId c)), (''createdAt'', JStr (createdAt c)),
      (''authorityCertificateVersion'', JStr (cert_authorityCertificateVersion c)),
      (''canonicalizerVersion'', JStr (cert_canonicalizerVersion c)),
      (''certificateId'', JStr (cert_authorityCertificateId c)),
      (''terminalizedAt'', JStr (cert_terminalizedAt c)), (''terminal'', certificate_terminal_json (cert_terminal c)),
      (''envelope'', transaction_envelope_json (cert_envelope c)), (''envelopeDigest'', JStr (cert_envelopeDigest c)),
      (''artifacts'', JArr (map certificate_artifact_json (cert_artifacts c))),
      (''verificationPolicy'', certificate_policy_json (cert_verificationPolicy c)),
      (''consumerBindings'', JArr (map certificate_consumer_binding_json (cert_consumerBindings c))),
      (''extensions'', JObj (cert_extensions c)), (''emittedAt'', JStr (cert_emittedAt c))]"

definition authorityCertificateSigningInputDigest :: "'e env_scheme \<Rightarrow> 'a authority_certificate_scheme \<Rightarrow> string" where
  "authorityCertificateSigningInputDigest E c = digestCanonical E (buildAuthorityCertificateSigningInput c)"

definition signature_entry_of :: "signer_input \<Rightarrow> string \<Rightarrow> string \<Rightarrow> certificate_signature" where
  "signature_entry_of s over signature = \<lparr>cse_signerRole = sgi_signerRole s, cse_keyIdentityRef = sgi_keyIdentityRef s,
     cse_algorithm = sgi_algorithm s, cse_signedOver = over, cse_signature = signature\<rparr>"

definition signAuthorityCertificateSigningInput ::
  "'e env_scheme \<Rightarrow> signature_platform \<Rightarrow> jval \<Rightarrow> string \<Rightarrow> signer_input \<Rightarrow> hs_error + certificate_signature" where
  "signAuthorityCertificateSigningInput E P input over s = (case sgi_algorithm s of
       CSA_hmac_sha256 \<Rightarrow> parse_as (certificate_signature_valid E) (signature_entry_of s over (signCanonicalHmac E input (sgi_secret s)))
     | CSA_ed25519 \<Rightarrow> (case base64UrlToArrayBuffer (sgi_secret s) of
           None \<Rightarrow> Inl PlatformError
         | Some key \<Rightarrow> if \<not> sp_private_ok P key then Inl PlatformError
             else parse_as (certificate_signature_valid E) (signature_entry_of s over
               (''ed25519:'' @ bytesToBase64Url (sp_sign P key (text_encode (canonicalize input)))))))"

definition verifyAuthorityCertificateSignature ::
  "'e env_scheme \<Rightarrow> signature_platform \<Rightarrow> jval \<Rightarrow> certificate_signature \<Rightarrow> string option \<Rightarrow> string option \<Rightarrow> hs_error + bool" where
  "verifyAuthorityCertificateSignature E P input s public secret = (case cse_algorithm s of
       CSA_hmac_sha256 \<Rightarrow> Inr (truthy_ref secret \<and> signCanonicalHmac E input (ref_or secret []) = cse_signature s)
     | CSA_ed25519 \<Rightarrow>
         if \<not> truthy_ref public then Inr False
         else (case base64UrlToArrayBuffer (ref_or public []) of
             None \<Rightarrow> Inl PlatformError
           | Some key \<Rightarrow> if \<not> sp_public_ok P key then Inl PlatformError
               else (case base64UrlToArrayBuffer (drop (length ''ed25519:'') (cse_signature s)) of
                   None \<Rightarrow> Inl PlatformError
                 | Some bytes \<Rightarrow> Inr (sp_verify P key bytes (text_encode (canonicalize input))))))"

section \<open>Verifying\<close>

text \<open>A failure always meets its schema: its message and its reference are not empty.\<close>

definition failing_with :: "verification_failure_code \<Rightarrow> string \<Rightarrow> string option \<Rightarrow> verification_failure" where
  "failing_with code message ref = \<lparr>vf_code = code, vf_message = message, vf_ref = ref\<rparr>"

definition withinWindow :: "string \<Rightarrow> string option \<Rightarrow> string option \<Rightarrow> bool" where
  "withinWindow now from until \<longleftrightarrow> \<not> (truthy_ref from \<and> date_less now (ref_or from [])) \<and>
     \<not> (truthy_ref until \<and> date_le (ref_or until []) now)"

definition statusFailureFor :: "string \<Rightarrow> trust_status \<Rightarrow> string \<Rightarrow> verification_failure" where
  "statusFailureFor subject status ref = (case status of
       TS_retired \<Rightarrow> failing_with VF_trust_key_retired (''Pinned trust '' @ subject @ '' is retired.'') (Some ref)
     | TS_revoked \<Rightarrow> failing_with VF_trust_key_revoked (''Pinned trust '' @ subject @ '' is revoked.'') (Some ref)
     | _ \<Rightarrow> failing_with VF_trust_key_stale (''Pinned trust '' @ subject @ '' is stale.'') (Some ref))"

definition status_failures :: "string \<Rightarrow> string \<Rightarrow> trust_status \<Rightarrow> string \<Rightarrow> verification_failure list" where
  "status_failures subject unavailable status ref = (case status of
       TS_active \<Rightarrow> []
     | TS_status_unavailable \<Rightarrow> [failing_with VF_trust_status_unavailable unavailable (Some ref)]
     | _ \<Rightarrow> [statusFailureFor subject status ref])"

definition trustKeyForSignature :: "trust_material \<Rightarrow> certificate_signature \<Rightarrow> trust_key option" where
  "trustKeyForSignature t s = find (\<lambda>k. tk_keyIdentityRef k = cse_keyIdentityRef s) (tm_keys t)"

definition issuer_of_key :: "trust_material \<Rightarrow> trust_key \<Rightarrow> trust_issuer option" where
  "issuer_of_key t k = (if truthy_ref (tk_issuerRef k)
     then find (\<lambda>x. Some (ti_issuerRef x) = tk_issuerRef k) (tm_issuers t) else None)"

definition unless :: "bool \<Rightarrow> verification_failure \<Rightarrow> verification_failure list" where
  "unless ok f = (if ok then [] else [f])"

definition trustFailuresForKey ::
  "trust_material \<Rightarrow> trust_key \<Rightarrow> certificate_signature \<Rightarrow> string \<Rightarrow> verification_failure list" where
  "trustFailuresForKey t k s at = (let ref = Some (cse_keyIdentityRef s); issuer = issuer_of_key t k in
     unless (tk_algorithm k = cse_algorithm s)
       (failing_with VF_signature_algorithm_mismatch ''Pinned trust key algorithm does not match signature.'' ref) @
     unless (tk_signerRole k = None \<or> tk_signerRole k = Some (cse_signerRole s))
       (failing_with VF_trust_key_role_mismatch ''Pinned trust key signer role does not match signature role.'' ref) @
     unless (\<not> truthy_ref (tk_issuerRef k) \<or> list_ex (\<lambda>x. Some (ti_issuerRef x) = tk_issuerRef k) (tm_issuers t))
       (failing_with VF_trust_issuer_unknown ''Pinned trust key references an unknown issuer.'' (tk_issuerRef k)) @
     (case issuer of None \<Rightarrow> []
      | Some x \<Rightarrow> status_failures ''issuer'' ''Issuer status is unavailable.'' (ti_status x) (ti_issuerRef x)) @
     status_failures ''key'' ''Pinned trust key status is unavailable.'' (tk_status k) (cse_keyIdentityRef s) @
     unless (withinWindow at (tk_validFrom k) (tk_validUntil k))
       (failing_with VF_trust_key_window_invalid ''Pinned trust key is outside its validity window.'' ref) @
     (case issuer of None \<Rightarrow> []
      | Some x \<Rightarrow> unless (withinWindow at (ti_validFrom x) (ti_validUntil x))
          (failing_with VF_trust_key_window_invalid ''Pinned trust issuer is outside its validity window.'' (Some (ti_issuerRef x)))))"

text \<open>What one signature gives: its failures, or the role it counts for.\<close>

definition check_signature ::
  "'e env_scheme \<Rightarrow> signature_platform \<Rightarrow> trust_material \<Rightarrow> 'a authority_certificate_scheme \<Rightarrow> certificate_signature
     \<Rightarrow> hs_error + (verification_failure list + certificate_signer_role)" where
  "check_signature E P t c s = (let ref = Some (cse_keyIdentityRef s) in
     if cse_signedOver s \<noteq> authorityCertificateSigningInputDigest E c
       then Inr (Inl [failing_with VF_signature_signed_over_mismatch
         ''Signature signedOver must equal the recomputed signingInputDigest.'' ref])
     else if \<not> str_prefix (certificate_signature_algorithm_str (cse_algorithm s) @ '':'') (cse_signature s)
       then Inr (Inl [failing_with VF_signature_algorithm_mismatch ''Signature prefix does not match signature algorithm.'' ref])
     else if cse_algorithm s = CSA_hmac_sha256 \<and> \<not> tm_allowDevHmac t
       then Inr (Inl [failing_with VF_hmac_not_allowed
         ''HMAC signatures are dev-only and are not accepted by production verification.'' ref])
     else (case trustKeyForSignature t s of
         None \<Rightarrow> Inr (Inl [failing_with VF_trust_key_missing ''No pinned trust key matched the signature.'' ref])
       | Some k \<Rightarrow> (let fs = trustFailuresForKey t k s (cert_emittedAt c) in
           if fs \<noteq> [] then Inr (Inl fs)
           else (case verifyAuthorityCertificateSignature E P (buildAuthorityCertificateSigningInput c) s
                   (tk_publicKeyEd25519 k) (tk_hmacSecret k) of
               Inl e \<Rightarrow> Inl e
             | Inr ok \<Rightarrow> if ok then Inr (Inr (cse_signerRole s))
                 else Inr (Inl [failing_with VF_signature_invalid ''Signature did not verify against pinned trust material.'' ref])))))"

fun check_signatures ::
  "'e env_scheme \<Rightarrow> signature_platform \<Rightarrow> trust_material \<Rightarrow> 'a authority_certificate_scheme \<Rightarrow> certificate_signature list
     \<Rightarrow> hs_error + (verification_failure list \<times> certificate_signer_role list)" where
  "check_signatures E P t c [] = Inr ([], [])"
| "check_signatures E P t c (s # ss) = (case check_signature E P t c s of
       Inl e \<Rightarrow> Inl e
     | Inr r \<Rightarrow> (case check_signatures E P t c ss of
           Inl e \<Rightarrow> Inl e
         | Inr (fs, roles) \<Rightarrow> Inr (case r of Inl gs \<Rightarrow> (gs @ fs, roles) | Inr role \<Rightarrow> (fs, role # roles))))"

text \<open>A reference in a text: null is written out.\<close>

definition in_text :: "string option \<Rightarrow> string" where
  "in_text r = (case r of None \<Rightarrow> ''null'' | Some x \<Rightarrow> x)"

definition terminalBindingFailures :: "'a authority_certificate_scheme \<Rightarrow> verification_failure list" where
  "terminalBindingFailures c =
    (let t = cert_terminal c; v = cert_envelope c; mismatch = failing_with VF_terminal_binding_mismatch;
         ref = Some (ctm_terminalObjectRef t) in
     unless (ctm_actionContractId t = ate_actionContractRef v)
       (mismatch ''Terminal action contract does not match envelope action contract.'' (Some (ctm_actionContractId t))) @
     unless (ctm_policyDecisionId t = Some (ate_policyDecisionRef v))
       (mismatch ''Terminal policy decision does not match envelope policy decision.'' (ctm_policyDecisionId t)) @
     unless (ctm_greenlightId t = ate_greenlightRef v)
       (mismatch ''Terminal greenlight does not match envelope greenlight.'' (ctm_greenlightId t)) @
     unless (ctm_gatewayId t = Some (ate_gatewayId v))
       (mismatch ''Terminal gateway does not match envelope gateway.'' (ctm_gatewayId t)) @
     unless (ctm_terminalKind t = CTK_receipt \<longrightarrow> ctm_terminalObjectRef t = ''receipt:'' @ in_text (ate_receiptRef v))
       (mismatch ''Receipt terminal ref does not match envelope receipt.'' ref) @
     unless (ctm_terminalKind t = CTK_replay_refusal \<longrightarrow> ctm_terminalObjectRef t = ''receipt:'' @ in_text (ate_receiptRef v) \<and>
         ate_greenlightConsumptionStatus v = Some CONS_replayed)
       (mismatch ''Replay refusal terminal must bind a replayed receipt.'' ref) @
     unless (ctm_terminalKind t = CTK_durable_refusal \<longrightarrow>
         list_ex (\<lambda>r. ctm_terminalObjectRef t = ''refusal:'' @ r) (ate_refusalRefs v))
       (mismatch ''Durable refusal terminal ref does not match envelope refusal.'' ref) @
     unless (ctm_terminalKind t = CTK_proof_gap \<longrightarrow>
         list_ex (\<lambda>r. ctm_terminalObjectRef t = ''proof_gap:'' @ r) (ate_proofGapRefs v))
       (mismatch ''Proof-gap terminal ref does not match envelope proof gap.'' ref) @
     unless (cvp_gatewayAdmissionRequired (cert_verificationPolicy c) \<longrightarrow> truthy_ref (ate_gateAttemptRef v))
       (failing_with VF_gateway_admission_binding_missing
         ''Gateway admission policy requires a gate attempt in the envelope.'' ref) @
     unless (list_ex (\<lambda>a. cta_objectRef a = ctm_terminalObjectRef t) (cert_artifacts c))
       (failing_with VF_required_artifact_missing ''Terminal object is not present in certificate artifacts.'' ref))"

definition certificateStatusFailures :: "trust_material \<Rightarrow> 'a authority_certificate_scheme \<Rightarrow> verification_failure list" where
  "certificateStatusFailures t c = (let ref = Some (cert_authorityCertificateId c) in
     case find (\<lambda>r. tsr_subjectKind r = SSK_certificate \<and> tsr_subjectRef r = cert_authorityCertificateId c) (tm_statusRecords t) of
       None \<Rightarrow> []
     | Some r \<Rightarrow> (case tsr_status r of
           TS_status_unavailable \<Rightarrow> [failing_with VF_trust_status_unavailable ''Certificate status is unavailable.'' ref]
         | TS_revoked \<Rightarrow> [failing_with VF_trust_certificate_status_revoked
             ''Certificate status record marks the certificate revoked.'' ref]
         | TS_stale \<Rightarrow> [failing_with VF_trust_certificate_status_stale ''Certificate status record is stale or retired.'' ref]
         | TS_retired \<Rightarrow> [failing_with VF_trust_certificate_status_stale ''Certificate status record is stale or retired.'' ref]
         | TS_active \<Rightarrow> []))"

definition missing_roles :: "'a authority_certificate_scheme \<Rightarrow> certificate_signer_role list \<Rightarrow> verification_failure list" where
  "missing_roles c roles = map (\<lambda>r. failing_with VF_required_signer_missing
      (''Missing valid required signer role '' @ certificate_signer_role_str r @ ''.'') (Some (certificate_signer_role_str r)))
     (filter (\<lambda>r. r \<notin> set roles) (cvp_requiredSignerRoles (cert_verificationPolicy c)))"

definition missing_artifacts :: "'a authority_certificate_scheme \<Rightarrow> verification_failure list" where
  "missing_artifacts c = map (\<lambda>k. failing_with VF_required_artifact_missing
      (''Missing required artifact kind '' @ certificate_artifact_kind_str k @ ''.'') (Some (certificate_artifact_kind_str k)))
     (filter (\<lambda>k. k \<notin> cta_kind ` set (cert_artifacts c)) (cvp_requiredArtifactKinds (cert_verificationPolicy c)))"

definition digest_failures :: "'e env_scheme \<Rightarrow> 'a authority_certificate_scheme \<Rightarrow> verification_failure list" where
  "digest_failures E c =
     unless (envelope_digest E (cert_envelope c) = cert_envelopeDigest c)
       (failing_with VF_envelope_digest_mismatch ''Certificate envelopeDigest does not match the canonical envelope.''
         (Some (cert_authorityCertificateId c))) @
     unless (authorityCertificateSigningInputDigest E c = cert_signingInputDigest c)
       (failing_with VF_signing_input_digest_mismatch
         ''Certificate signingInputDigest does not match the canonical signing input.'' (Some (cert_authorityCertificateId c)))"

definition verificationOutcome :: "verification_failure list \<Rightarrow> verification_outcome" where
  "verificationOutcome fs = (if fs = [] then VO_verified
     else if list_ex (\<lambda>f. vf_code f = VF_trust_status_unavailable) fs then VO_proof_gap else VO_refused)"

definition checkStatus :: "verification_failure list \<Rightarrow> verification_failure_code list \<Rightarrow> check_status" where
  "checkStatus fs cs = (let matching = filter (\<lambda>f. vf_code f \<in> set cs) fs in
     if matching = [] then CK_passed
     else if list_ex (\<lambda>f. vf_code f = VF_trust_status_unavailable) matching then CK_proof_gap else CK_failed)"

definition verificationChecks :: "verification_failure list \<Rightarrow> verification_checks" where
  "verificationChecks fs =
     \<lparr>vck_schema = checkStatus fs [VF_schema_invalid],
      vck_cryptographicSignature = checkStatus fs [VF_signature_algorithm_mismatch, VF_hmac_not_allowed, VF_signature_invalid,
        VF_signature_signed_over_mismatch],
      vck_signingInputDigest = checkStatus fs [VF_signing_input_digest_mismatch, VF_envelope_digest_mismatch],
      vck_artifactBinding = checkStatus fs [VF_required_artifact_missing],
      vck_terminalBinding = checkStatus fs [VF_terminal_binding_mismatch],
      vck_gatewayAdmissionBinding = checkStatus fs [VF_gateway_admission_binding_missing],
      vck_trustMaterial = checkStatus fs [VF_trust_key_missing, VF_trust_key_inactive, VF_trust_issuer_unknown,
        VF_trust_key_role_mismatch, VF_trust_key_retired, VF_trust_key_revoked, VF_trust_key_stale, VF_trust_key_window_invalid],
      vck_status = checkStatus fs [VF_trust_status_unavailable, VF_trust_certificate_status_revoked,
        VF_trust_certificate_status_stale]\<rparr>"

definition verificationResponse ::
  "'e env_scheme \<Rightarrow> string \<Rightarrow> verification_failure list \<Rightarrow> transaction_envelope option \<Rightarrow> string option \<Rightarrow>
   hs_error + verification_response" where
  "verificationResponse E cid fs envelope digest = parse_as (verification_response_valid E)
     \<lparr>vr_verificationResponseId = ''acvr_'' @ cid, vr_outcome = verificationOutcome fs,
      vr_verificationPlane = ''local_pinned_trust_material'', vr_authorityCreated = False,
      vr_redactionProfileRef = ''authority-certificate-verification:v1-redacted'', vr_checks = verificationChecks fs,
      vr_failures = fs, vr_envelope = envelope, vr_signingInputDigest = digest\<rparr>"

definition verifyAuthorityCertificate ::
  "'e env_scheme \<Rightarrow> signature_platform \<Rightarrow> authority_certificate \<Rightarrow> trust_material \<Rightarrow> hs_error + verification_response" where
  "verifyAuthorityCertificate E P c material =
    (if \<not> authority_certificate_valid E c
     then verificationResponse E ''schema_invalid''
       [failing_with VF_schema_invalid ''AuthorityCertificate schema invalid: '' None] None None
     else (case parse_as (trust_material_valid E) material of
         Inl e \<Rightarrow> Inl e
       | Inr t \<Rightarrow> (case check_signatures E P t c (cert_signatures c) of
             Inl e \<Rightarrow> Inl e
           | Inr (fs, roles) \<Rightarrow> verificationResponse E (cert_authorityCertificateId c)
               (digest_failures E c @ fs @ missing_roles c roles @ missing_artifacts c @ terminalBindingFailures c @
                certificateStatusFailures t c)
               (Some (cert_envelope c)) (Some (authorityCertificateSigningInputDigest E c)))))"

end
