(* ===== verification/Issuing.thy ===== *)
theory Issuing
  imports Certificates
begin

text \<open>
  Issuing an authority certificate (\<open>authority-certificate/transitions.ts\<close>): the record that
  ended an action is read with everything it rests on, the envelope of the transaction is
  projected, and the statement about both is signed.
\<close>

section \<open>The terminal record\<close>

record certificate_input =
  cin_terminalObjectRef :: string
  cin_signers :: "signer_input list"
  cin_consumerBindings :: "certificate_consumer_binding list"
  cin_extensions :: "(string \<times> jval) list"

definition certificate_input_valid :: "'e env_scheme \<Rightarrow> certificate_input \<Rightarrow> bool" where
  "certificate_input_valid E i \<longleftrightarrow> 1 \<le> length (cin_terminalObjectRef i) \<and>
     list_all signer_input_valid (cin_signers i) \<and> 1 \<le> length (cin_signers i) \<and>
     list_all (certificate_consumer_binding_valid E) (cin_consumerBindings i)"

record terminal_context =
  tcx_terminalKind :: certificate_terminal_kind
  tcx_terminalObjectRef :: string
  tcx_terminalizedAt :: string
  tcx_contract :: "stored_record \<times> action_contract"
  tcx_policyDecision :: "stored_record \<times> policy_decision"
  tcx_greenlight :: "(stored_record \<times> greenlight) option"
  tcx_gateAttempt :: "(stored_record \<times> gateway_check_attempt) option"
  tcx_mutationAttempt :: "(stored_record \<times> mutation_attempt) option"
  tcx_receipt :: "(stored_record \<times> receipt) option"
  tcx_proofGaps :: "(stored_record \<times> proof_gap) list"
  tcx_refusals :: "(stored_record \<times> refusal) list"
  tcx_terminalRecord :: stored_record

text \<open>A record that is required only when it is named.\<close>

definition namedTyped ::
  "(protocol_record \<Rightarrow> 'a option) \<Rightarrow> protocol_object_type \<Rightarrow> string option \<Rightarrow> string \<Rightarrow> (stored_record \<times> 'a) option wtr" where
  "namedTyped as t ref code = (if truthy_ref ref
     then tbind (requiredTyped as t (ref_or ref []) code) (\<lambda>x. treturn (Some x)) else treturn None)"

definition parseTerminalObjectRef :: "string \<Rightarrow> (string \<times> string) wtr" where
  "parseTerminalObjectRef ref = (let kind = takeWhile (\<lambda>c. c \<noteq> CHR '':'') ref; rest = drop (Suc (length kind)) ref in
     if kind = [] \<or> rest = []
     then tfail (protocol_error ''invalid_authority_certificate_terminal_ref'' 409) else treturn (kind, rest))"

definition typed_records :: "(protocol_record \<Rightarrow> 'a option) \<Rightarrow> stored_record list \<Rightarrow> (stored_record \<times> 'a) list" where
  "typed_records as rs = List.map_filter (\<lambda>r. map_option (Pair r) (as (st_payload r))) rs"

definition refusals_of_contract :: "action_contract \<Rightarrow> pstore \<Rightarrow> (stored_record \<times> refusal) list" where
  "refusals_of_contract c s = filter (\<lambda>p. rf_actionContractId (snd p) = Some (ac_actionContractId c))
     (typed_records as_refusal (listRecordsByType OT_refusal (scope_of c) s))"

definition loadReceiptTerminalContext :: "stored_record \<times> receipt \<Rightarrow> terminal_context wtr" where
  "loadReceiptTerminalContext p = (let r = snd p in
     tbind (requiredTyped as_action_contract OT_action_contract (rc_actionContractId r) ''contract_missing'') (\<lambda>c.
     tbind (requiredTyped as_policy_decision OT_policy_decision (rc_policyDecisionId r) ''policy_decision_missing'') (\<lambda>d.
     tbind (namedTyped as_greenlight OT_greenlight (rc_greenlightId r) ''greenlight_missing'') (\<lambda>g.
     tbind (namedTyped as_gateway_check_attempt OT_gateway_check_attempt (rc_gateAttemptId r) ''gateway_check_attempt_missing'') (\<lambda>a.
     tbind (namedTyped as_mutation_attempt OT_mutation_attempt (rc_mutationAttemptId r) ''mutation_attempt_missing'') (\<lambda>m.
     tbind (tmap (\<lambda>x. requiredTyped as_proof_gap OT_proof_gap x ''proof_gap_missing'') (rc_proofGapIds r)) (\<lambda>gs.
     tbind (store_get (refusals_of_contract (snd c))) (\<lambda>fs.
     treturn \<lparr>tcx_terminalKind = (if rc_greenlightConsumptionStatus r = CONS_replayed then CTK_replay_refusal else CTK_receipt),
       tcx_terminalObjectRef = protocolObjectRef ''receipt'' (rc_receiptId r), tcx_terminalizedAt = rc_emittedAt r,
       tcx_contract = c, tcx_policyDecision = d, tcx_greenlight = g, tcx_gateAttempt = a, tcx_mutationAttempt = m,
       tcx_receipt = Some p, tcx_proofGaps = gs, tcx_refusals = fs, tcx_terminalRecord = fst p\<rparr>))))))))"

definition loadRefusalTerminalContext :: "stored_record \<times> refusal \<Rightarrow> terminal_context wtr" where
  "loadRefusalTerminalContext p = (let f = snd p in
     if \<not> truthy_ref (rf_actionContractId f) \<or> \<not> truthy_ref (rf_policyDecisionId f)
     then tfail (protocol_error ''invalid_authority_certificate_terminal'' 409)
     else
     tbind (requiredTyped as_action_contract OT_action_contract (ref_or (rf_actionContractId f) []) ''contract_missing'') (\<lambda>c.
     tbind (requiredTyped as_policy_decision OT_policy_decision (ref_or (rf_policyDecisionId f) []) ''policy_decision_missing'') (\<lambda>d.
     tbind (namedTyped as_greenlight OT_greenlight (rf_greenlightId f) ''greenlight_missing'') (\<lambda>g.
     tbind (namedTyped as_gateway_check_attempt OT_gateway_check_attempt (rf_gateAttemptId f) ''gateway_check_attempt_missing'') (\<lambda>a.
     treturn \<lparr>tcx_terminalKind = CTK_durable_refusal, tcx_terminalObjectRef = protocolObjectRef ''refusal'' (rf_refusalId f),
       tcx_terminalizedAt = rf_refusedAt f, tcx_contract = c, tcx_policyDecision = d, tcx_greenlight = g,
       tcx_gateAttempt = a, tcx_mutationAttempt = None, tcx_receipt = None, tcx_proofGaps = [], tcx_refusals = [p],
       tcx_terminalRecord = fst p\<rparr>)))))"

text \<open>The first of those with one key, as \<open>filter\<close> with \<open>findIndex\<close> keeps it.\<close>

fun unique_by :: "('a \<Rightarrow> 'b) \<Rightarrow> 'a list \<Rightarrow> 'a list" where
  "unique_by key [] = []"
| "unique_by key (x # xs) = x # filter (\<lambda>y. key y \<noteq> key x) (unique_by key xs)"

definition loadProofGapTerminalContext :: "stored_record \<times> proof_gap \<Rightarrow> terminal_context wtr" where
  "loadProofGapTerminalContext p = (let g = snd p in
     if \<not> truthy_ref (pg_receiptId g) then tfail (protocol_error ''invalid_authority_certificate_terminal'' 409)
     else
     tbind (requiredTyped as_receipt OT_receipt (ref_or (pg_receiptId g) []) ''receipt_missing'') (\<lambda>r.
     tbind (loadReceiptTerminalContext r) (\<lambda>x.
     treturn (x\<lparr>tcx_terminalKind := CTK_proof_gap, tcx_terminalObjectRef := protocolObjectRef ''proof_gap'' (pg_proofGapId g),
       tcx_terminalizedAt := createdAt g, tcx_proofGaps := unique_by (st_objectId \<circ> fst) (p # tcx_proofGaps x),
       tcx_terminalRecord := fst p\<rparr>))))"

definition loadTerminalContext :: "certificate_input \<Rightarrow> terminal_context wtr" where
  "loadTerminalContext i =
     tbind (parseTerminalObjectRef (cin_terminalObjectRef i)) (\<lambda>(kind, oid).
     if kind = ''receipt''
     then tbind (requiredTyped as_receipt OT_receipt oid ''receipt_missing'') loadReceiptTerminalContext
     else if kind = ''refusal''
     then tbind (requiredTyped as_refusal OT_refusal oid ''refusal_missing'') loadRefusalTerminalContext
     else if kind = ''proof_gap''
     then tbind (requiredTyped as_proof_gap OT_proof_gap oid ''proof_gap_missing'') loadProofGapTerminalContext
     else tfail (protocol_error ''invalid_authority_certificate_terminal'' 409))"

section \<open>Artifacts\<close>

text \<open>The kinds of artifact are some of the object types, under the same names.\<close>

fun artifact_kind :: "protocol_object_type \<Rightarrow> certificate_artifact_kind option" where
  "artifact_kind OT_action_contract = Some CAK_action_contract"
| "artifact_kind OT_policy_decision = Some CAK_policy_decision"
| "artifact_kind OT_greenlight = Some CAK_greenlight"
| "artifact_kind OT_gateway_check_attempt = Some CAK_gateway_check_attempt"
| "artifact_kind OT_mutation_attempt = Some CAK_mutation_attempt"
| "artifact_kind OT_refusal = Some CAK_refusal"
| "artifact_kind OT_proof_gap = Some CAK_proof_gap"
| "artifact_kind OT_receipt = Some CAK_receipt"
| "artifact_kind OT_receipt_export = Some CAK_receipt_export"
| "artifact_kind OT_surface_operation_reconciliation = Some CAK_surface_operation_reconciliation"
| "artifact_kind OT_credential_resolution_evidence = Some CAK_credential_resolution_evidence"
| "artifact_kind OT_idempotency_ledger_entry = Some CAK_idempotency_ledger_entry"
| "artifact_kind OT_recovery_recommendation = Some CAK_recovery_recommendation"
| "artifact_kind OT_recovery_recommendation_status_transition = Some CAK_recovery_recommendation_status_transition"
| "artifact_kind OT_isolation_state = Some CAK_isolation_state"
| "artifact_kind _ = None"

definition artifactForRecord :: "stored_record \<Rightarrow> certificate_artifact_kind \<Rightarrow> certificate_artifact" where
  "artifactForRecord r kind = \<lparr>cta_kind = kind,
     cta_objectRef = protocolObjectRef (protocol_object_type_str (st_objectType r)) (st_objectId r),
     cta_digest = st_canonicalDigest r\<rparr>"

text \<open>An artifact of the record's own kind; the records that are supplied here all have one.\<close>

definition own_artifact :: "stored_record \<Rightarrow> certificate_artifact list" where
  "own_artifact r = map (artifactForRecord r) (opt_list (artifact_kind (st_objectType r)))"

definition artifactsForContext :: "terminal_context \<Rightarrow> stored_record list \<Rightarrow> certificate_artifact list" where
  "artifactsForContext x supplemental =
    (let optional = (\<lambda>p kind. map (\<lambda>r. artifactForRecord r kind) (opt_list p)) in unique_by cta_objectRef
     ([artifactForRecord (fst (tcx_contract x)) CAK_action_contract,
       artifactForRecord (fst (tcx_policyDecision x)) CAK_policy_decision] @
      optional (map_option fst (tcx_greenlight x)) CAK_greenlight @
      optional (map_option fst (tcx_gateAttempt x)) CAK_gateway_check_attempt @
      optional (map_option fst (tcx_mutationAttempt x)) CAK_mutation_attempt @
      optional (map_option fst (tcx_receipt x)) CAK_receipt @
      map (\<lambda>p. artifactForRecord (fst p) CAK_proof_gap) (tcx_proofGaps x) @
      map (\<lambda>p. artifactForRecord (fst p) CAK_refusal) (tcx_refusals x) @
      concat (map own_artifact supplemental) @ own_artifact (tcx_terminalRecord x)))"

definition requiredSignerRoles :: "bool \<Rightarrow> certificate_signer_role list" where
  "requiredSignerRoles gatewayAdmissionRequired =
     (if gatewayAdmissionRequired then [CSR_operator_policy, CSR_gateway] else [CSR_operator_policy])"

definition requiredArtifactKinds :: "certificate_artifact list \<Rightarrow> certificate_artifact_kind list" where
  "requiredArtifactKinds as = unique_list (map cta_kind as)"

section \<open>The certificate\<close>

definition certificate_envelope_input :: "terminal_context \<Rightarrow> envelope_input \<Rightarrow> envelope_input" where
  "certificate_envelope_input x i = i\<lparr>ei_contract := snd (tcx_contract x), ei_policyDecision := snd (tcx_policyDecision x),
     ei_greenlight := map_option snd (tcx_greenlight x), ei_gateAttempt := map_option snd (tcx_gateAttempt x),
     ei_mutationAttempt := map_option snd (tcx_mutationAttempt x), ei_receipt := map_option snd (tcx_receipt x),
     ei_proofGaps := unique_by pg_proofGapId (ei_proofGaps i @ map snd (tcx_proofGaps x)),
     ei_refusals := unique_by rf_refusalId (ei_refusals i @ map snd (tcx_refusals x))\<rparr>"

definition certificate_seed ::
  "terminal_context \<Rightarrow> certificate_input \<Rightarrow> transaction_envelope \<Rightarrow> certificate_artifact list \<Rightarrow> string \<Rightarrow> string \<Rightarrow> string
     \<Rightarrow> authority_certificate" where
  "certificate_seed x i v artifacts created cid emitted =
    (let c = snd (tcx_contract x); admission = (tcx_gateAttempt x \<noteq> None) in
     \<lparr>schemaVersion = PROTOCOL_VERSION, tenantId = tenantId c, organizationId = organizationId c, createdAt = created,
      cert_authorityCertificateId = cid, cert_authorityCertificateVersion = ''1.0.0'',
      cert_canonicalizerVersion = CANONICALIZER_VERSION, cert_terminalizedAt = tcx_terminalizedAt x,
      cert_terminal = \<lparr>ctm_terminalKind = tcx_terminalKind x, ctm_terminalObjectRef = tcx_terminalObjectRef x,
        ctm_actionContractId = ac_actionContractId c,
        ctm_policyDecisionId = Some (pd_policyDecisionId (snd (tcx_policyDecision x))),
        ctm_greenlightId = map_option (gl_greenlightId \<circ> snd) (tcx_greenlight x), ctm_gatewayId = Some (ac_gatewayId c)\<rparr>,
      cert_envelope = v, cert_envelopeDigest = ate_envelopeDigest v, cert_artifacts = artifacts,
      cert_verificationPolicy = \<lparr>cvp_verificationPolicyId =
          ''authority-cert:'' @ certificate_terminal_kind_str (tcx_terminalKind x) @ '':v1'',
        cvp_terminalKind = tcx_terminalKind x, cvp_actionClass = ac_actionClass c, cvp_gatewayAdmissionRequired = admission,
        cvp_requiredSignerRoles = requiredSignerRoles admission, cvp_requiredArtifactKinds = requiredArtifactKinds artifacts\<rparr>,
      cert_signatures = [], cert_consumerBindings = cin_consumerBindings i, cert_extensions = cin_extensions i,
      cert_emittedAt = emitted, cert_signingInputDigest = placeholder_digest\<rparr>)"

definition buildAuthorityCertificate ::
  "kernel_env \<Rightarrow> signature_platform \<Rightarrow> terminal_context \<Rightarrow> certificate_input \<Rightarrow> authority_certificate wtr" where
  "buildAuthorityCertificate E P x i =
     tbind (assembleAgentTransactionEnvelope E (snd (tcx_contract x))) (\<lambda>a.
     tbind (tlift (projectAgentTransactionEnvelope E (certificate_envelope_input x (ea_input a)))) (\<lambda>v.
     tbind (nowIso E) (\<lambda>created.
     tbind (createId E ''cert'') (\<lambda>cid.
     tbind (nowIso E) (\<lambda>emitted.
       let seed = certificate_seed x i v (artifactsForContext x (ea_supplementalRecords a)) created cid emitted;
           digest = authorityCertificateSigningInputDigest E seed in
       tbind (tmap (\<lambda>s. tlift (signAuthorityCertificateSigningInput E P (buildAuthorityCertificateSigningInput seed) digest s))
          (cin_signers i)) (\<lambda>signatures.
       tparse (authority_certificate_valid E)
          (seed\<lparr>cert_signatures := signatures, cert_signingInputDigest := digest\<rparr>)))))))"

definition certificate_event :: "action_contract \<Rightarrow> authority_certificate \<Rightarrow> event_descriptor" where
  "certificate_event c k = \<lparr>ed_source = protocol_base.truncate k, ed_eventType = ET_authority_certificate_emitted,
     ed_objectRefs = [cert_authorityCertificateId k, ctm_terminalObjectRef (cert_terminal k), ctm_actionContractId (cert_terminal k)],
     ed_payload = [(''terminalKind'', JStr (certificate_terminal_kind_str (ctm_terminalKind (cert_terminal k)))),
       (''signingInputDigest'', JStr (cert_signingInputDigest k))],
     ed_streamRefs = Some (actionLifecycleStreamRefs c)\<rparr>"

definition createAuthorityCertificate ::
  "kernel_env \<Rightarrow> signature_platform \<Rightarrow> certificate_input \<Rightarrow> authority_certificate wtr" where
  "createAuthorityCertificate E P input =
     tbind (tparse (certificate_input_valid E) input) (\<lambda>i.
     tbind (loadTerminalContext i) (\<lambda>x.
     tbind (buildAuthorityCertificate E P x i) (\<lambda>k.
     tbind (commitRecordsWithEvents E [PR_authority_certificate k] [certificate_event (snd (tcx_contract x)) k] no_options) (\<lambda>_.
     treturn k))))"

section \<open>Public keys\<close>

definition public_keys :: "trust_material \<Rightarrow> trust_key list" where
  "public_keys t = filter (\<lambda>k. tk_algorithm k = CSA_ed25519 \<and> tk_publicKeyEd25519 k \<noteq> None) (tm_keys t)"

definition verifier_key_of :: "trust_key \<Rightarrow> verifier_key" where
  "verifier_key_of k = \<lparr>vk_keyIdentityRef = tk_keyIdentityRef k, vk_issuerRef = tk_issuerRef k, vk_keyVersion = tk_keyVersion k,
     vk_signerRole = tk_signerRole k, vk_algorithm = tk_algorithm k, vk_publicKeyEd25519 = the (tk_publicKeyEd25519 k),
     vk_status = tk_status k, vk_validFrom = tk_validFrom k, vk_validUntil = tk_validUntil k,
     vk_privateMaterialIncluded = False, vk_authorityCreated = False\<rparr>"

definition projectAuthorityCertificateVerifierKeySet :: "'e env_scheme \<Rightarrow> trust_material \<Rightarrow> hs_error + verifier_key_set" where
  "projectAuthorityCertificateVerifierKeySet E material = (case parse_as (trust_material_valid E) material of
       Inl e \<Rightarrow> Inl e
     | Inr t \<Rightarrow> parse_as (verifier_key_set_valid E)
         \<lparr>vks_projectionKind = ''authority_certificate_verifier_key_set'',
          vks_trustDecision = ''caller_pinned_trust_material_only'', vks_authorityCreated = False,
          vks_redactionProfileRef = ''authority-certificate-verifier-key-set:v1-redacted'', vks_issuers = tm_issuers t,
          vks_keys = map verifier_key_of (public_keys t),
          vks_omittedPrivateKeyCount = int (length (tm_keys t)) - int (length (public_keys t))\<rparr>)"

definition jwk_of :: "verifier_key \<Rightarrow> jwk" where
  "jwk_of k = \<lparr>jwk_kty = ''OKP'', jwk_crv = ''Ed25519'', jwk_kid = vk_keyIdentityRef k, jwk_alg = ''EdDSA'', jwk_use = ''sig'',
     jwk_key_ops = [''verify''], jwk_x = vk_publicKeyEd25519 k\<rparr>"

definition projectAuthorityCertificateJwks :: "'e env_scheme \<Rightarrow> trust_material \<Rightarrow> hs_error + jwks" where
  "projectAuthorityCertificateJwks E material = (case projectAuthorityCertificateVerifierKeySet E material of
       Inl e \<Rightarrow> Inl e
     | Inr ks \<Rightarrow> parse_as (jwks_valid E)
         \<lparr>jwks_projectionKind = ''authority_certificate_jwks_projection'', jwks_trustDecision = ''jwks_projection_only'',
          jwks_authorityCreated = False, jwks_redactionProfileRef = ''authority-certificate-jwks:v1-public'',
          jwks_jwks = \<lparr>jks_keys = map jwk_of (vks_keys ks)\<rparr>,
          jwks_omittedPrivateKeyCount = vks_omittedPrivateKeyCount ks\<rparr>)"

end
