(* ===== verification/Evidence_Instances.thy ===== *)
theory Evidence_Instances
  imports Operation_Instances Delegation Recovery_Laws Drafts Review Export Serial
begin

text \<open>
  Concrete inputs for the evidence around an action: a grant that ends, a
  recommendation that expires, a draft, a review and an export.
\<close>

section \<open>A transition with a commit, while no other request runs\<close>

lemma demo_undisturbed: "undisturbed demo_env"
  by (simp add: undisturbed_def demo_env_def)

definition demo_at :: "protocol_record list \<Rightarrow> world" where
  "demo_at rs = \<lparr>tick = 0, w_store = demo_store rs\<rparr>"

lemma demo_at_streams: "streams_ok demo_env (s_events (w_store (demo_at rs)))"
  by (simp add: demo_at_def demo_events no_events_streams)

lemma demo_commit:
  assumes "w_store w = w_store (demo_at rs)" "same_stream sid ds" "list_all descriptor_ok ds" "unopposed opts (w_store w)"
    "\<And>es w'. delivers (f es) w' (\<lambda>_ _. True)"
  shows "delivers (tbind (commitRecordsWithEvents demo_env xs ds opts) f) w (\<lambda>_ _. True)"
  by (rule delivers_via[OF delivers_commitRecords[OF demo_platform demo_quiet _ assms(2-4)]])
    (simp_all add: assms(1,5) demo_at_streams)

lemma delivers_required:
  "find_payload as t oid (w_store w) = Some x \<Longrightarrow> Q x w \<Longrightarrow> delivers (requiredPayload as t oid code) w Q"
  by (simp add: delivers_def requiredPayload_Inr)

lemma delivers_demo_now:
  "(\<And>w'. w_store w' = w_store w \<Longrightarrow> Q demo_now w') \<Longrightarrow> delivers (nowIso demo_env) w Q"
  by (simp add: delivers_def nowIso_def demo_env_def Let_def)

lemma delivers_tcatch: "delivers m w Q \<Longrightarrow> delivers (tcatch m h) w Q"
  by (auto simp: delivers_def tcatch_def)

lemma demo_now_ok: "iso_ok demo_env demo_now" "digest_ok demo_digest"
  by code_simp+

section \<open>A grant that ends\<close>

definition ending_ref :: delegated_authority_ref where
  "ending_ref = \<lparr>schemaVersion = PROTOCOL_VERSION, tenantId = ''tenant'', organizationId = ''acme'',
    createdAt = demo_now, da_delegatedAuthorityRefId = ''dar_1'', da_delegatedAuthorityRefDigest = demo_digest,
    da_principalId = ''abc'', da_agentId = ''abc'', da_runtimeAdapterId = ''abc'', da_operatingEnvelopeId =
    ''abc'', da_gatewayId = ''abc'', da_gatewayRegistryEntryId = ''abc'', da_protectedSurfaceKind = ''abc'',
    da_actionClasses = [''abc''], da_resourceRefs = [''abc''], da_authorityKind = DAK_spend, da_grantStatus =
    DAGS_active, da_policyPackRef = ''abc'', da_policyPackVersion = ''abc'', da_amountParameterName = None,
    da_maxAtomicAmountPerAction = None, da_evidenceExpectationRefs = [], da_redactionProfileRef =
    ''delegated-authority-ref:v0.2-redacted'', da_secretMaterialIncluded = False, da_mutationAuthorityCreated =
    False, da_greenlightCreated = False, da_issuedAt = demo_now, da_expiresAt = demo_end\<rparr>"

definition ending_binding :: delegated_authority_binding where
  "ending_binding = \<lparr>dab_authorityUseName = ''abc'', dab_delegatedAuthorityRefId = ''dar_1'',
    dab_delegatedAuthorityRefDigest = demo_digest, dab_requiredGrantStatus = ''active'', dab_authorityKind =
    DAK_spend, dab_policyPackRef = ''abc'', dab_policyPackVersion = ''abc'', dab_evidenceExpectationRefs =
    []\<rparr>"

definition ending_input :: authority_status_input where
  "ending_input = \<lparr>dai_delegatedAuthorityRefId = ''dar_1'', dai_nextGrantStatus = DATS_revoked,
    dai_reasonCode = ''abc'', dai_reasonSummary = ''abc'', dai_changedByRef = ''abc'', dai_isolationExpiresAt =
    None\<rparr>"

definition ending_contract :: action_contract where
  "ending_contract = demo_contract\<lparr>ac_delegatedAuthorityRefs := [ending_binding]\<rparr>"

definition ending_world :: world where
  "ending_world = demo_at [PR_delegated_authority_ref ending_ref, PR_action_contract ending_contract]"

lemma ending_records:
  "find_payload as_delegated_authority_ref OT_delegated_authority_ref ''dar_1'' (w_store ending_world) = Some ending_ref"
  "find_payload as_action_contract OT_action_contract ''act_1'' (w_store ending_world) = Some ending_contract"
  by code_simp+

lemma ending_runs: "\<exists>tr w'. transitionDelegatedAuthorityStatus demo_env ending_input ending_world = (Inr tr, w')"
proof -
  let ?i = ending_input
  have input: "authority_status_input_valid demo_env ?i" by code_simp
  have names: "dai_delegatedAuthorityRefId ?i = ''dar_1''" by (simp add: ending_input_def)
  have free: "authority_transition_failure ending_ref ?i now = None" for now
    by (simp add: authority_transition_failure_def ending_ref_def ending_input_def)
  have shapes: "digest_ok demo_digest" "authority_safe_ok ''abc''" by code_simp+
  have tr: "delegated_authority_status_transition_valid demo_env (authority_transition_of ending_ref ?i now tid iid demo_digest)"
    and st: "isolation_state_valid demo_env (authority_isolation_of ending_ref ?i now tid iid)"
    if "id_ok tid" "id_ok iid" "iso_ok demo_env now" for tid iid now
    using that shapes
    by (auto simp: delegated_authority_status_transition_valid_def authority_transition_of_def isolation_state_valid_def
        authority_isolation_of_def base_valid_def ending_ref_def ending_input_def id_ok_def reason_code_ok_def Suc_le_eq)
  define change where "change now tid iid = \<lparr>dac_statusTransition = authority_transition_of ending_ref ?i now tid iid demo_digest,
     dac_isolationState = authority_isolation_of ending_ref ?i now tid iid\<rparr>" for now tid iid
  have events: "same_stream ''stream_tenant_acme'' (delegatedAuthorityStatusChangeEvents (change now tid iid))"
    "list_all descriptor_ok (delegatedAuthorityStatusChangeEvents (change now tid iid))"
    if "id_ok tid" "id_ok iid" for now tid iid
    using that
    by (auto simp: same_stream_def delegatedAuthorityStatusChangeEvents_def change_def authority_transition_of_def
        authority_isolation_of_def ending_ref_def organizationStreamId_def descriptor_ok_def protocol_base.defs id_ok_def Let_def)
  have "delivers (transitionDelegatedAuthorityStatus demo_env ?i) ending_world (\<lambda>_ _. True)"
    unfolding transitionDelegatedAuthorityStatus_def buildDelegatedAuthorityStatusChange_def
      assertDelegatedAuthorityStatusTransition_def demo_digests
    apply (rule delivers_bind, rule delivers_parse, rule input)
    apply (rule delivers_bind, rule delivers_required, simp add: names ending_records)
    apply (rule delivers_bind, rule delivers_now[OF demo_platform])
    apply (simp only: free option.case tbind_return tbind_assoc)
    apply (rule delivers_bind, rule delivers_createId[OF demo_platform], simp)
    apply (rule delivers_bind, rule delivers_createId[OF demo_platform], simp)
    apply (rule delivers_bind, rule delivers_parse, rule tr, assumption+)
    apply (rule delivers_bind, rule delivers_parse, rule st, assumption+)
    apply (unfold change_def[symmetric])
    apply (rule demo_commit[OF _ events])
    apply (simp_all add: ending_world_def unopposed_def no_options_def delivers_return)
    done
  then show ?thesis by (auto simp: delivers_def)
qed

section \<open>A recommendation that expires\<close>

definition expiring :: recovery_recommendation where
  "expiring = \<lparr>schemaVersion = PROTOCOL_VERSION, tenantId = ''tenant'', organizationId = ''acme'',
    createdAt = demo_now, rr_recoveryRecommendationId = ''rec_1'', rr_sourceReceiptId = ''abc'',
    rr_sourceActionContractId = ''act_1'', rr_sourcePolicyDecisionId = ''abc'', rr_sourceGreenlightId = None,
    rr_sourceGateAttemptId = None, rr_sourceMutationAttemptId = None, rr_sourceRefusalOrGapRef = ''abc'',
    rr_sourceFinalityStatus = FS_final, rr_sourceGatewayCheckStatus = None, rr_sourceMutationAttemptStatus =
    MO_not_attempted, rr_sourceDownstreamExecutionStatus = DOS_not_started, rr_recommendedPath =
    RRP_narrower_action_contract_required, rr_allowedNextActionClasses = [], rr_requiredNewEvidence = [],
    rr_requiresHumanReview = True, rr_safeRetryAvailable = True, rr_scopeNarrowingRequired = True,
    rr_policyUpdateCandidate = True, rr_agentInstructionUpdateCandidate = True, rr_principalId = ''abc'',
    rr_agentId = ''abc'', rr_runId = ''abc'', rr_gatewayId = ''abc'', rr_resourceRef = ''abc'', rr_actionClass =
    ''abc'', rr_failureReceiptRef = ''abc'', rr_proofGapIds = [], rr_missingEvidenceRefs = [],
    rr_reviewDecisionRef = None, rr_policyChangeRef = None, rr_sourceReceiptDigest = demo_digest,
    rr_sourceAuditChainDigest = demo_digest, rr_sourceStreamOffsets = [], rr_reasonCode = ''abc'',
    rr_reasonSummary = ''abc'', rr_recommendedAt = demo_now, rr_recoveryExpiresAt = Some demo_now,
    rr_reviewDueAt = None, rr_retryNotBefore = None, rr_mustCreateNewActionContract = True,
    rr_mayReuseGreenlight = False, rr_mayMutateProtectedSurface = False, rr_recommendationStatus = RRS_open,
    rr_statusChangedAt = None, rr_statusChangedByRef = None, rr_statusReasonCode = None, rr_statusReasonSummary
    = None, rr_supersededByActionContractId = None, rr_recommendationDigest = demo_digest\<rparr>"

definition expiring_input :: recovery_status_input where
  "expiring_input = \<lparr>rsi_recoveryRecommendationId = ''rec_1'', rsi_nextStatus = RRTS_expired, rsi_reasonCode = ''late'',
     rsi_reasonSummary = ''late'', rsi_changedByRef = ''ops'', rsi_supersededByActionContractId = None\<rparr>"

definition expiring_world :: world where
  "expiring_world = demo_at [PR_recovery_recommendation expiring, PR_action_contract demo_contract]"

lemma expiring_records:
  "find_payload as_recovery_recommendation OT_recovery_recommendation ''rec_1'' (w_store expiring_world) = Some expiring"
  "find_payload as_action_contract OT_action_contract ''act_1'' (w_store expiring_world) = Some demo_contract"
  by code_simp+

lemma expiring_runs: "\<exists>k w'. transitionRecoveryRecommendationStatus demo_env expiring_input expiring_world = (Inr k, w')"
proof -
  define i where "i = \<lparr>sci_recommendation = expiring, sci_sourceContract = demo_contract, sci_nextStatus = RRTS_expired,
     sci_reasonCode = ''late'', sci_reasonSummary = ''late'', sci_changedByRef = ''ops'',
     sci_supersededByActionContractId = None, sci_now = demo_now\<rparr>"
  have i: "sci_recommendation i = expiring" "sci_sourceContract i = demo_contract" "sci_nextStatus i = RRTS_expired"
    "sci_changedByRef i = ''ops''" "sci_now i = demo_now" by (simp_all add: i_def)
  have refs: "rr_sourceActionContractId expiring = ''act_1''" "rr_recoveryRecommendationId expiring = ''rec_1''"
    by (simp_all add: expiring_def)
  have input: "recovery_status_input_valid expiring_input" "\<not> truthy_ref (rsi_supersededByActionContractId expiring_input)"
    "rsi_recoveryRecommendationId expiring_input = ''rec_1''" by code_simp+
  have free: "status_transition_failure i = None" unfolding i_def by code_simp
  have changed: "recovery_recommendation_valid demo_env (changed_recommendation i)" unfolding i_def by code_simp
  have tr: "recovery_status_transition_valid demo_env (status_transition_of demo_env i tid)" if "id_ok tid" for tid
    using that demo_now_ok demo_digests
    by (simp add: recovery_status_transition_valid_def status_transition_of_def i_def expiring_def base_valid_def id_ok_def
        reason_code_ok_def Let_def)
  define change where "change tid = \<lparr>sch_recommendation = changed_recommendation i, sch_statusTransition = status_transition_of demo_env i tid,
     sch_terminalClaim = \<lparr>rt_recoveryRecommendationId = ''rec_1'', rt_statusTransitionId = tid, rt_nextStatus = RRTS_expired,
       rt_claimedAt = demo_now\<rparr>\<rparr>" for tid
  have events: "same_stream ''stream_tenant_acme'' (statusChangeEvents (change tid) demo_contract)"
    "list_all descriptor_ok (statusChangeEvents (change tid) demo_contract)" if "id_ok tid" for tid
    using that
    by (auto simp: same_stream_def statusChangeEvents_def change_def status_transition_of_def changed_recommendation_def i_def
        expiring_def organizationStreamId_def descriptor_ok_def protocol_base.defs id_ok_def Let_def)
  have free_claims: "s_recovery (w_store expiring_world) = []" by code_simp
  have read: "delivers (getRecoveryRecommendationStatusContext demo_env expiring_input) expiring_world
      (\<lambda>x w'. x = i \<and> w_store w' = w_store expiring_world)"
    unfolding getRecoveryRecommendationStatusContext_def
    apply (rule delivers_bind, rule delivers_required, simp add: input expiring_records)
    apply (rule delivers_bind, rule delivers_required, simp add: refs expiring_records)
    apply (simp add: input)
    apply (rule delivers_bind, rule delivers_demo_now)
    apply (rule delivers_return)
    apply (simp add: i_def expiring_input_def)
    done
  have build: "delivers (buildRecoveryRecommendationStatusChange demo_env i) w
      (\<lambda>k w'. \<exists>tid. k = change tid \<and> id_ok tid \<and> w_store w' = w_store w)" for w :: world
    unfolding buildRecoveryRecommendationStatusChange_def assertStatusTransitionInput_def
    apply (simp only: free option.case tbind_return)
    apply (rule delivers_bind, rule delivers_createId[OF demo_platform], simp)
    apply (rule delivers_bind, rule delivers_parse, rule changed)
    apply (rule delivers_bind, rule delivers_parse, rule tr, assumption)
    apply (rule delivers_return)
    apply (auto simp: change_def i refs)
    done
  have "delivers (transitionRecoveryRecommendationStatus demo_env expiring_input) expiring_world (\<lambda>_ _. True)"
    unfolding transitionRecoveryRecommendationStatus_def commitRecoveryRecommendationStatusChange_def
    apply (rule delivers_bind, rule delivers_parse, rule input)
    apply (rule delivers_via[OF read], elim conjE, hypsubst)
    apply (rule delivers_via[OF build], elim exE conjE, hypsubst)
    apply (simp only: i)
    apply (rule delivers_via, rule delivers_tcatch, rule demo_commit[OF _ events])
    apply (simp_all add: unopposed_def no_options_def delivers_return free_claims[unfolded expiring_world_def] change_def has_key_def expiring_world_def)
    done
  then show ?thesis by (auto simp: delivers_def)
qed

section \<open>A draft that is finished\<close>

definition finished_draft :: tool_call_draft where
  "finished_draft = \<lparr>schemaVersion = PROTOCOL_VERSION, tenantId = ''tenant'', organizationId = ''acme'',
    createdAt = demo_now, td_toolCallDraftId = ''tcd_1'', td_runtimeExecutionId = None,
    td_generatedExecutionGraphId = None, td_generatedExecutionNodeId = None, td_toolCapabilityId = ''abc'',
    td_actionTypeId = ''abc'', td_gatewayRegistryEntryId = ''abc'', td_actionClass = ''abc'', td_gatewayId =
    ''abc'', td_resourceRef = ''abc'', td_draftState = TCDS_abandoned, td_parameters = [],
    td_nonSecretParamsSummary = [], td_secretRefs = [], td_gatewayCredentialRefs = [], td_delegatedAuthorityRefs
    = [], td_paramsDigest = demo_digest, td_finalizedAt = None, td_expiresAt = demo_end, td_invalidReasonCodes =
    [], td_evidenceRefs = [], td_draftDigest = demo_digest\<rparr>"

definition finished_world :: world where
  "finished_world = demo_at [PR_tool_call_draft finished_draft]"

definition finished_input :: draft_transition_input where
  "finished_input = \<lparr>tdt_toolCallDraftId = ''tcd_1'', tdt_nextDraftState = DS_streaming, tdt_parameters = None,
     tdt_nonSecretParamsSummary = None, tdt_secretRefs = None, tdt_gatewayCredentialRefs = None,
     tdt_delegatedAuthorityRefs = None, tdt_finalizedAt = None, tdt_expiresAt = None, tdt_invalidReasonCodes = None,
     tdt_evidenceRefs = None\<rparr>"

lemma finished_ready:
  "find_payload as_tool_call_draft OT_tool_call_draft (tdt_toolCallDraftId finished_input) (w_store finished_world) = Some finished_draft"
  "terminal_draft (td_draftState finished_draft)" "draft_transition_input_valid demo_env finished_input"
  by code_simp+

section \<open>A review\<close>

definition reviewed_artifact :: review_artifact where
  "reviewed_artifact = \<lparr>schemaVersion = PROTOCOL_VERSION, tenantId = ''tenant'', organizationId =
    ''acme'', createdAt = demo_now, ra_reviewArtifactId = ''art_1'', ra_reviewArtifactRef = ''abc'',
    ra_reviewRenderSchemaVersion = ''abc'', ra_rendererRef = ''abc'', ra_actionContractId = ''act_1'',
    ra_actionContractDigest = demo_digest, ra_policyDecisionId = ''pol_1'', ra_policyInputDigest = demo_digest,
    ra_gatewayPolicyVersion = ''p1'', ra_renderedContractDigest = demo_digest, ra_renderedPolicyInputDigest =
    demo_digest, ra_renderedUncertaintyDigest = demo_digest, ra_renderedArtifactDigest = demo_digest,
    ra_catalogDigest = Some demo_digest, ra_rendererDigest = Some demo_digest, ra_actionBindingDigest = Some
    demo_digest, ra_hiddenActionPosture = RHAP_no_hidden_actions_detected, ra_secondaryActionPosture =
    RSAP_no_secondary_actions_detected, ra_uncertaintyMarkers = [], ra_evidenceRefs = [],
    ra_reviewArtifactDigest = demo_digest\<rparr>"

definition approval :: review_decision_input where
  "approval = \<lparr>rdi_actionContractId = ''act_1'', rdi_policyDecisionId = ''pol_1'', rdi_reviewArtifactId =
    ''art_1'', rdi_reviewArtifactDigest = demo_digest, rdi_reviewerPrincipalId = ''abc'', rdi_decision =
    RV_approve, rdi_decisionReasonCode = ''abc'', rdi_decisionExpiresAt = demo_end,
    rdi_signatureOrAttestationRef = ''abc''\<rparr>"

definition review_asked :: policy_decision where
  "review_asked = demo_decision\<lparr>pd_decision := PD_review_required\<rparr>"

definition review_world :: world where
  "review_world = demo_at [PR_action_contract demo_contract, PR_policy_decision review_asked, PR_review_artifact reviewed_artifact]"

lemma review_records:
  "find_payload as_action_contract OT_action_contract ''act_1'' (w_store review_world) = Some demo_contract"
  "find_payload as_policy_decision OT_policy_decision ''pol_1'' (w_store review_world) = Some review_asked"
  "find_payload as_review_artifact OT_review_artifact ''art_1'' (w_store review_world) = Some reviewed_artifact"
  by code_simp+

lemma review_runs: "\<exists>d w'. createReviewDecision demo_env approval review_world = (Inr d, w')"
proof -
  have input: "review_decision_input_valid demo_env approval" by code_simp
  have names: "rdi_actionContractId approval = ''act_1''" "rdi_policyDecisionId approval = ''pol_1''"
    "rdi_reviewArtifactId approval = ''art_1''" "rdi_decision approval = RV_approve" by (simp_all add: approval_def)
  have guard: "guardReviewDecision demo_contract review_asked = Inr ()" by code_simp
  have bound: "review_binding_failure reviewed_artifact demo_contract review_asked (rdi_reviewArtifactDigest approval) = None"
    by code_simp
  define d where "d rid = review_decision_of approval demo_contract review_asked reviewed_artifact demo_now rid" for rid
  have valid: "review_decision_valid demo_env (d rid)" if "id_ok rid" for rid
  proof -
    have "review_decision_valid demo_env (d ''rev_1'')" unfolding d_def by code_simp
    then show ?thesis using that by (simp add: review_decision_valid_def d_def review_decision_of_def base_valid_def)
  qed
  have events: "same_stream ''stream_tenant_acme'' (reviewDecisionEvents demo_contract (d rid) None)"
    "list_all descriptor_ok (reviewDecisionEvents demo_contract (d rid) None)" if "id_ok rid" for rid
    using that demo_names(7,8)
    by (auto simp: same_stream_def reviewDecisionEvents_def d_def review_decision_of_def organizationStreamId_def
        descriptor_ok_def protocol_base.defs id_ok_def reviewed_artifact_def review_asked_def demo_contract_def demo_decision_def
        demo_digest_def)
  have approve: "rd_decision (d rid) = RV_approve" for rid by (simp add: d_def review_decision_of_def names)
  have "delivers (createReviewDecision demo_env approval) review_world (\<lambda>_ _. True)"
    unfolding createReviewDecision_def getReviewDecisionContext_def buildReviewDecision_def commitReviewDecision_def
      assertReviewArtifactBinding_def review_refusal_def tbind_assoc
    apply (rule delivers_bind, rule delivers_parse, rule input)
    apply (rule delivers_bind, rule delivers_required, simp add: names review_records)
    apply (rule delivers_bind, rule delivers_required, simp add: names review_records)
    apply (rule delivers_bind, rule delivers_required, simp add: names review_records)
    apply (simp only: guard bound option.case require_guard_def sum.case tbind_return)
    apply (rule delivers_bind, rule delivers_demo_now)
    apply (simp only: tbind_return review_decision_context.simps d_def[symmetric])
    apply (rule delivers_bind, rule delivers_createId[OF demo_platform], simp)
    apply (rule delivers_bind, rule delivers_parse, rule valid, assumption)
    apply (simp only: approve simp_thms if_True tbind_return)
    apply (rule demo_commit[OF _ events])
    apply (simp_all add: unopposed_def no_options_def delivers_return review_world_def)
    done
  then show ?thesis by (auto simp: delivers_def)
qed

end
