(* ===== verification/Spec2Isabelle.thy ===== *)
theory Spec2Isabelle
  imports Operation_Instances Policy_Progress Gateway_Progress Agreement Bindings Ledger Posture Sequence
    Recovery_Laws Patterns Receipt_Digests Delegation Custody Proposal_Laws Graph_Laws Review Export
    Negotiation_Laws Issuing Evidence_Instances
begin

text \<open>
  Verification of the Handshake protocol kernel (\<open>src/protocol\<close>): under
  construction.
\<close>

section \<open>The gate\<close>

text \<open>
  C1. A greenlight admits at most one mutation: after a check that started a mutation
  attempt, no later check, whatever operations the store has gone through in
  between and whatever other requests run, starts one under the same greenlight.
\<close>

theorem greenlight_single_use:
  assumes "disciplined E" "gatewayCheck E i w = (Inr r, w')" "gwr_mutationAttempt r = Some m"
    "store_run (w_store w') (w_store v)" "gatewayCheck E j v = (Inr r', v')" "gwr_mutationAttempt r' = Some m'"
  shows "ma_greenlightId m' \<noteq> ma_greenlightId m"
  using assms(4,5,6) gatewayCheck_admits_once[OF assms(1-3)] by blast

theorem greenlight_single_use_witness:
  "\<exists>r w' m. gatewayCheck demo_env demo_check gate_world = (Inr r, w') \<and> gwr_mutationAttempt r = Some m \<and>
     (\<forall>v j r' v' m'. store_run (w_store w') (w_store v) \<longrightarrow> gatewayCheck demo_env j v = (Inr r', v') \<longrightarrow>
        gwr_mutationAttempt r' = Some m' \<longrightarrow> ma_greenlightId m' \<noteq> ma_greenlightId m)"
  using demo_mutation greenlight_single_use[OF quiet_disciplined[OF demo_quiet]] by blast







text \<open>
  C5. Whatever a check answers, its gate attempt, its receipt and its mutation attempt
  tell one story: a mutation attempt, a consumed greenlight, an admitted receipt
  and a passed decision occur together or not at all, the receipt names that
  attempt, and its finality is pending after a pass and suspect after a refusal;
  the store has only moved by its own operations.
\<close>

theorem gate_result_consistent:
  assumes "disciplined E" "gatewayCheck E i w = (Inr r, w')"
  shows "result_agrees r \<and> store_run (w_store w) (w_store w')"
  using assms by (rule gatewayCheck_result)

theorem gate_result_consistent_witness:
  "\<exists>r w'. gatewayCheck demo_env demo_check gate_world = (Inr r, w') \<and> result_agrees r \<and> store_run (w_store gate_world) (w_store w')"
  using gate_runs gate_result_consistent[OF quiet_disciplined[OF demo_quiet]] by blast

text \<open>
  C6. A check that passes ends in one atomic commit of the store: before it the
  greenlight was unconsumed, the surface unclaimed and the attempt without a
  receipt; after it the greenlight is consumed by this gate attempt, the surface
  is claimed by an active claim of the new mutation attempt, and the gate
  attempt, the mutation attempt, the claim, the receipt and the consumed
  greenlight are stored under their identifiers.
\<close>

theorem gate_admission_effects:
  assumes "disciplined E" "gatewayCheck E i w = (Inr r, w')" "gca_gateDecision (gwr_gateAttempt r) = GD_passed"
  shows "\<exists>c g s.
     find_payload as_action_contract OT_action_contract (gwi_actionContractId i) (w_store w) = Some c \<and>
     find_payload as_greenlight OT_greenlight (gwi_greenlightId i) (w_store w) = Some g \<and>
     store_run (w_store w) s \<and> store_step s (w_store w') \<and> admits E c g r s (w_store w')"
  using gatewayCheck_passed[OF assms] by blast

theorem gate_admission_effects_witness:
  "\<exists>c g r s t. find_payload as_action_contract OT_action_contract (gwi_actionContractId demo_check) (w_store gate_world) = Some c \<and>
     find_payload as_greenlight OT_greenlight (gwi_greenlightId demo_check) (w_store gate_world) = Some g \<and>
     store_run (w_store gate_world) s \<and> store_step s t \<and> admits demo_env c g r s t"
  using gate_runs gate_admission_effects[OF quiet_disciplined[OF demo_quiet]] by blast

text \<open>
  C7. The gate's cascade of refusal reasons finds none exactly when the declarative
  constraints of the gate hold.
\<close>

theorem gate_refusal_iff:
  "ge_refusal (deriveGatewayConstraintEvaluation E i c g now gid s) = None \<longleftrightarrow> gate_constraints E i c g now s"
  by (rule derive_refusal_None)


section \<open>Policy\<close>



text \<open>
  C10. Once an evaluation has answered with a greenlight, no later evaluation answers
  with a greenlight for the same contract, whatever the store went through in
  between and whatever other requests run.
\<close>

theorem one_greenlight_per_contract:
  assumes "disciplined E" "evaluatePolicy E i w = (Inr resp, w')" "pe_greenlight resp = Some g"
    "store_run (w_store w') (w_store v)" "evaluatePolicy E j v = (Inr resp', v')" "pe_greenlight resp' = Some g'"
  shows "gl_actionContractId g' \<noteq> gl_actionContractId g"
  using assms(4,5,6) evaluatePolicy_issues_once[OF assms(1-3)] by blast

theorem one_greenlight_per_contract_witness:
  "\<exists>resp w' g. evaluatePolicy demo_env demo_request demo_world = (Inr resp, w') \<and> pe_greenlight resp = Some g \<and>
     (\<forall>v j resp' v' g'. store_run (w_store w') (w_store v) \<longrightarrow> evaluatePolicy demo_env j v = (Inr resp', v') \<longrightarrow>
        pe_greenlight resp' = Some g' \<longrightarrow> gl_actionContractId g' \<noteq> gl_actionContractId g)"
  using policy_runs one_greenlight_per_contract[OF quiet_disciplined[OF demo_quiet]] by blast



text \<open>
  C12. The deterministic policy says greenlight exactly when no isolation state
  blocks, pauses or asks for review and the contract is inside its envelope and
  unexpired.
\<close>

theorem deterministic_policy_iff:
  "pr_decision (evaluateDeterministicPolicy c v isolation now) = PD_greenlight \<longleftrightarrow>
     not_isolated isolation \<and> inside_envelope c v now"
  by (rule evaluateDeterministicPolicy_greenlight)

text \<open>
  C13. The six overlays that run after a decision never create authority: applied to
  the constraints read from a store, they leave a greenlight exactly when they
  got one and every authority constraint holds there.
\<close>

theorem overlays_only_restrict:
  "pr_decision (apply_overlays (derivePolicyConstraintEvaluation E i c v now s) r) = PD_greenlight \<longleftrightarrow>
     pr_decision r = PD_greenlight \<and> authority_constraints E c now s"
  using overlays.greenlight_iff[OF derive_sound] by (simp add: derive_fine)

text \<open>
  C14. A decision that is no greenlight is never silent: the commit stores the
  decision, and with it a refusal with the decision's reason unless it asks for
  review or found a proof gap, and a proof gap exactly when it found one; the
  stored refusal claims neither a mutation nor authority.
\<close>

theorem policy_refusal_leaves_evidence:
  assumes "disciplined E" "commitPolicyDecisionOnly E c d now w = (Inr (rf, pg), w')"
  shows "find_payload as_policy_decision OT_policy_decision (pd_policyDecisionId d) (w_store w') = Some d \<and>
    (case rf of None \<Rightarrow> pd_decision d \<in> {PD_review_required, PD_proof_gap}
     | Some r \<Rightarrow> pd_decision d \<notin> {PD_review_required, PD_proof_gap} \<and>
         getRecord OT_refusal (rf_refusalId r) (w_store w') = Some (buildRecord E (PR_refusal r)) \<and>
         rf_reasonCode r = pd_decisionReasonCode d \<and> \<not> rf_mutationAttempted r \<and> \<not> rf_authorityCreated r) \<and>
    (case pg of None \<Rightarrow> pd_decision d \<noteq> PD_proof_gap
     | Some g \<Rightarrow> pd_decision d = PD_proof_gap \<and>
         find_payload as_proof_gap OT_proof_gap (pg_proofGapId g) (w_store w') = Some g)"
  using decision_only_evidence[OF assms] by (auto split: option.split)

theorem policy_refusal_leaves_evidence_witness:
  "\<exists>rf w'. commitPolicyDecisionOnly demo_env demo_contract demo_refusing demo_now demo_world = (Inr (Some rf, None), w') \<and>
     getRecord OT_refusal (rf_refusalId rf) (w_store w') = Some (buildRecord demo_env (PR_refusal rf)) \<and>
     rf_reasonCode rf = pd_decisionReasonCode demo_refusing"
proof -
  obtain rf w' where run: "commitPolicyDecisionOnly demo_env demo_contract demo_refusing demo_now demo_world = (Inr (Some rf, None), w')"
    using refusal_runs by blast
  from policy_refusal_leaves_evidence[OF quiet_disciplined[OF demo_quiet] run] run show ?thesis by auto
qed

section \<open>Isolation and reconciliation\<close>

text \<open>
  C15. While a blocking isolation state is the current one of a scope the contract
  belongs to, no gateway check under the contract admits a mutation and no policy
  evaluation of the contract grants a greenlight.
\<close>

theorem isolation_closes:
  assumes "disciplined E" "current_isolation x (w_store w)" "blocks_gateway x" "blocks_policy x"
    "isolationScopeKey (state_scope x) \<in> isolationScopeKey ` set (isolationScopeRefsForContract c)"
    "find_payload as_action_contract OT_action_contract (ac_actionContractId c) (w_store w) = Some c"
  shows "\<not> (\<exists>j r w'. gwi_actionContractId j = ac_actionContractId c \<and> gatewayCheck E j w = (Inr r, w') \<and>
       gwr_mutationAttempt r \<noteq> None) \<and>
     \<not> (\<exists>j r w'. ep_actionContractId j = ac_actionContractId c \<and> evaluatePolicy E j w = (Inr r, w') \<and>
       pe_greenlight r \<noteq> None)"
  using gate_closed[OF assms(1-3) _ assms(5)] policy_closed[OF assms(1,2,4) _ assms(5)] assms(6) by metis

theorem isolation_closes_witness:
  "\<not> (\<exists>j r w'. gwi_actionContractId j = ac_actionContractId demo_contract \<and>
       gatewayCheck demo_env j isolated_world = (Inr r, w') \<and> gwr_mutationAttempt r \<noteq> None) \<and>
     \<not> (\<exists>j r w'. ep_actionContractId j = ac_actionContractId demo_contract \<and>
       evaluatePolicy demo_env j isolated_world = (Inr r, w') \<and> pe_greenlight r \<noteq> None)"
  by (rule isolation_closes[OF quiet_disciplined[OF demo_quiet] isolated_resource(1-3) isolated_resource(4)])
    (use isolated_ready(2) demo_names in \<open>simp add: demo_check_def\<close>)

text \<open>
  C16. A breaker decision rests on durable evidence and takes effect: each watermark it
  was made on names a stored event with the digest that was observed, and the
  isolation state it creates, with the decided value, is the current one of its
  scope.
\<close>

theorem breaker_decision_isolates:
  assumes "disciplined E" "createBreakerDecision E i w = (Inr (d, s), w')"
  shows "current_isolation s (w_store w') \<and> is_state s = isolation_of_decision (bri_decision i) \<and>
     is_sourceDecisionRef s = bd_breakerDecisionId d \<and> bd_createdIsolationStateId d = is_isolationStateId s \<and>
     (\<forall>m \<in> set (bri_observedStreamOffsets i). \<exists>e.
        getStreamEvent (sw_streamId m) (sw_partitionKey m) (sw_observedOffsetEnd m) (w_store w) = Some e \<and>
        sw_observedEventDigest m = Some (ev_eventDigest e))"
  using assms by (rule createBreaker_current)

theorem breaker_decision_isolates_witness:
  "\<exists>d s w'. createBreakerDecision demo_env demo_breaker watched_world = (Inr (d, s), w') \<and>
     current_isolation s (w_store w') \<and> is_state s = isolation_of_decision (bri_decision demo_breaker)"
  using breaker_runs breaker_decision_isolates[OF quiet_disciplined[OF demo_quiet]] by blast



text \<open>
  C18. A reconciliation that reports an unknown outcome and asks for isolation closes the
  resource: in the store it leaves, no check under any stored contract of the same
  organization and resource admits a mutation.
\<close>

theorem unknown_outcome_closes:
  assumes "disciplined E" "reconcileSurfaceOperation E i w = (Inr res, w')"
    "rin_observedDownstreamStatus i = DS_unknown" "rin_orphanIsolationRequested i"
    "find_payload as_mutation_attempt OT_mutation_attempt (rin_mutationAttemptId i) (w_store w) = Some m"
    "find_payload as_action_contract OT_action_contract (ma_actionContractId m) (w_store w) = Some c"
  shows "\<not> (\<exists>j b r v. find_payload as_action_contract OT_action_contract (gwi_actionContractId j) (w_store w') = Some b \<and>
     tenantId b = tenantId c \<and> organizationId b = organizationId c \<and> ac_resourceRef b = ac_resourceRef c \<and>
     gatewayCheck E j w' = (Inr r, v) \<and> gwr_mutationAttempt r \<noteq> None)"
proof -
  obtain x where "current_isolation x (w_store w')" "blocks_gateway x"
    "state_scope x = isolationScopeRef c IST_resource (ac_resourceRef c)"
    using reconcile_isolates[OF assms] by blast
  then show ?thesis
    using gate_closed[OF assms(1)] resource_scope_of_contract[of _ c] by metis
qed

theorem unknown_outcome_closes_witness:
  "\<exists>res w'. reconcileSurfaceOperation demo_env (demo_report DS_unknown) reconcile_world = (Inr res, w') \<and>
     \<not> (\<exists>j b r v. find_payload as_action_contract OT_action_contract (gwi_actionContractId j) (w_store w') = Some b \<and>
       tenantId b = tenantId demo_contract \<and> organizationId b = organizationId demo_contract \<and>
       ac_resourceRef b = ac_resourceRef demo_contract \<and>
       gatewayCheck demo_env j w' = (Inr r, v) \<and> gwr_mutationAttempt r \<noteq> None)"
proof -
  obtain res w' where run: "reconcileSurfaceOperation demo_env (demo_report DS_unknown) reconcile_world = (Inr res, w')"
    using reconcile_runs by blast
  have "rin_observedDownstreamStatus (demo_report DS_unknown) = DS_unknown" "rin_orphanIsolationRequested (demo_report DS_unknown)"
    by (simp_all add: demo_report_def)
  from unknown_outcome_closes[OF quiet_disciplined[OF demo_quiet] run this reconcile_records(1,2)]
  show ?thesis using run by blast
qed

section \<open>The constraints\<close>






text \<open>
  C24. Policy's sequence check passes exactly when every required prior action of the
  same organization has a greenlight.
\<close>

theorem policy_sequence_iff:
  "evaluateSequenceDependencies (loadSequenceDependencyStates c s) = None \<longleftrightarrow>
     list_all (prior_greenlit c s) (ac_requiredPriorActionContractIds c)"
  by (simp add: evaluateSequenceDependencies_None list_all_iff)

text \<open>
  C25. The gate's sequence check passes exactly when every required prior action has a
  greenlight and a passed receipt that is final, by itself or by a final
  reconciliation of its mutation attempt.
\<close>

theorem gate_sequence_iff:
  "gatewayCheckSequenceDependencyRefusalReason (loadGatewayCheckSequenceDependencyStates c s) = None \<longleftrightarrow>
     list_all (prior_final c s) (ac_requiredPriorActionContractIds c)"
  by (simp add: gatewaySequence_None list_all_iff)


section \<open>The store and its streams\<close>

text \<open>
  C27. A commit is all or nothing: unless it reports that it committed, either kind of
  commit leaves the store as it was.
\<close>

theorem rejected_commit_changes_nothing:
  "(fst (commitProtocolRecords c s) = CR_committed \<or> snd (commitProtocolRecords c s) = s) \<and>
   (fst (commitGatewayCheck k s) = GR_committed \<or> snd (commitGatewayCheck k s) = s)"
  using commitProtocolRecords_rejected[of c s] commitGatewayCheck_rejected[of k s] by (metis prod.collapse)

text \<open>
  C28. No operation of the store takes back or replaces the consumption of a
  greenlight, the issuance claim of a contract or the terminal claim of a
  recovery recommendation.
\<close>

theorem claims_are_permanent:
  assumes "store_run s t"
  shows "map_of (s_consumptions s) \<subseteq>\<^sub>m map_of (s_consumptions t) \<and> map_of (s_issuance s) \<subseteq>\<^sub>m map_of (s_issuance t) \<and>
     map_of (s_recovery s) \<subseteq>\<^sub>m map_of (s_recovery t)"
  unfolding map_le_def
  using consumption.runs_keep_claim[OF assms] issuance.runs_keep_claim[OF assms] recovery_claim.runs_keep_claim[OF assms]
  by (auto simp: dom_def)

theorem claims_are_permanent_witness:
  "map_of (s_consumptions (snd (consumeGreenlight demo_consumption_again (snd (consumeGreenlight demo_consumption empty_store))))) ''grn_1''
     = Some demo_consumption"
proof -
  let ?s = "snd (consumeGreenlight demo_consumption empty_store)"
  have "store_run ?s (snd (consumeGreenlight demo_consumption_again ?s))"
    by (rule r_into_rtranclp) (rule step_consume)
  from claims_are_permanent[OF this]
  have "map_of (s_consumptions ?s) \<subseteq>\<^sub>m map_of (s_consumptions (snd (consumeGreenlight demo_consumption_again ?s)))" by blast
  moreover have "map_of (s_consumptions ?s) ''grn_1'' = Some demo_consumption" by code_simp
  ultimately show ?thesis by (auto simp: map_le_def dom_def)
qed

text \<open>
  C29. Events are never removed, reordered or rewritten: along any run of store
  operations the events of a partition are extended at their end.
\<close>

theorem events_are_append_only:
  assumes "store_run s t"
  shows "\<exists>es. filter (on_stream sid part) (s_events t) = filter (on_stream sid part) (s_events s) @ es"
  using assms by (rule event_log.filter_append)

theorem events_are_append_only_witness:
  "\<exists>es. filter (on_stream ''stream_tenant_acme'' ''action:act_1'') (s_events (appendEvent (demo_event 0 None) empty_store)) =
     filter (on_stream ''stream_tenant_acme'' ''action:act_1'') (s_events empty_store) @ es"
  by (rule events_are_append_only) (rule r_into_rtranclp, rule step_append)

text \<open>
  C30. The hash chains of the event streams survive policy evaluations and gateway
  checks, successful or failed, also when other requests append between building
  a chain and committing it: offsets stay consecutive from zero, each event names
  the digest of its predecessor, and each digest is that of the event's content.
\<close>

theorem streams_stay_chained:
  assumes "disciplined E" "streams_ok E (s_events (w_store w))"
  shows "streams_ok E (s_events (w_store (snd (evaluatePolicy E i w)))) \<and>
     streams_ok E (s_events (w_store (snd (gatewayCheck E j w))))"
proof -
  have "streams_order E w (snd (evaluatePolicy E i w))" "streams_order E w (snd (gatewayCheck E j w))"
    using streams.keepsD[OF streams_evaluatePolicy[OF assms(1)]] streams.keepsD[OF streams_gatewayCheck[OF assms(1)]]
    by (metis prod.collapse)+
  then show ?thesis using assms(2) by (simp add: streams_order_def)
qed

theorem streams_stay_chained_witness:
  "streams_ok demo_env (s_events (w_store (snd (gatewayCheck demo_env demo_check gate_world))))"
proof -
  have "streams_ok demo_env (s_events (w_store gate_world))"
    by (simp add: gate_world_def demo_events no_events_streams)
  then show ?thesis using streams_stay_chained[OF quiet_disciplined[OF demo_quiet]] by blast
qed







text \<open>
  C34. Two records share a key of the store exactly when they share type and
  identifier: the key's text is unambiguous although identifiers may hold a colon.
\<close>

theorem record_keys_injective: "recordKey t i = recordKey u j \<longleftrightarrow> t = u \<and> i = j"
  by (rule recordKey_inj)

text \<open>
  C35. A commit that records an event succeeds only when the names of its tenant and
  organization have at most 152 characters together, since the stream is named
  after both and its name must be an identifier: two names that are valid by
  themselves may be too long for any transition.
\<close>

theorem stream_name_bound:
  assumes "commitRecordsWithEvents E rs ds opts w = (Inr es, w')" "d \<in> set ds"
  shows "length (tenantId (ed_source d)) + length (organizationId (ed_source d)) \<le> 152"
  using commitRecords_names[OF assms] by (simp add: short_names_def)

theorem stream_name_bound_witness:
  "length (tenantId (ed_source (decision_event demo_contract demo_refusing))) +
     length (organizationId (ed_source (decision_event demo_contract demo_refusing))) \<le> 152"
proof -
  obtain es w' where "commitRecordsWithEvents demo_env [PR_policy_decision demo_refusing]
     [decision_event demo_contract demo_refusing] no_options demo_world = (Inr es, w')"
    using commit_runs by blast
  then show ?thesis by (rule stream_name_bound) simp
qed

section \<open>Canonical text and digests\<close>

text \<open>
  C36. The canonical text of two JSON values is the same exactly when the values are
  equal up to the order of object fields.
\<close>

theorem canonicalize_determines_value:
  assumes "jval_ok a" "jval_ok b"
  shows "canonicalize a = canonicalize b \<longleftrightarrow> jnorm a = jnorm b"
  using assms by (rule canonicalize_eq_iff)

theorem canonicalize_determines_value_witness:
  "canonicalize (JObj [(''b'', JInt 1), (''a'', JArr [JNull, JStr ''x''])])
     = canonicalize (JObj [(''a'', JArr [JNull, JStr ''x'']), (''b'', JInt 1)])"
  by (subst canonicalize_determines_value) code_simp+





end
